(* ===== verification/Prelude.thy ===== *)
theory Prelude
  imports Main "HOL-Library.Sublist" "HOL-Library.Word"
begin

text \<open>
  Shared material of the development: the byte and result types, the outcome of a poll, the
  search functions of the \<^verbatim>\<open>memchr\<close> crate as an explicit interface, and the generic lemmas on
  lists that the component theories use.

  A byte is a \<^typ>\<open>char\<close> (exactly eight bits), a byte string or a Rust \<^verbatim>\<open>&str\<close> is the list of its
  (UTF-8) bytes, and a fallible operation returns a sum with \<open>Inl\<close> for the error.
\<close>

named_theorems find_simps \<open>equations and bounds of the first-occurrence search\<close>
named_theorems view_simps \<open>how the polling primitives act on the abstract view of a stream\<close>

type_synonym byte = char
type_synonym bytes = "char list"

abbreviation CR :: byte where "CR \<equiv> CHR 0x0D"
abbreviation LF :: byte where "LF \<equiv> CHR 0x0A"
abbreviation HTAB :: byte where "HTAB \<equiv> CHR 0x09"
abbreviation SP :: byte where "SP \<equiv> CHR 0x20"
abbreviation CRLF :: bytes where "CRLF \<equiv> [CHR 0x0D, CHR 0x0A]"
abbreviation DQUOTE :: byte where "DQUOTE \<equiv> CHR 0x22"
abbreviation BACKSLASH :: byte where "BACKSLASH \<equiv> CHR 0x5C"

text \<open>The value of \<^verbatim>\<open>std::task::Poll\<close>.\<close>

datatype 'a poll = Pending | Ready 'a

text \<open>ASCII classes and case mapping of the standard library.\<close>

definition is_ascii_digit :: "byte \<Rightarrow> bool" where
  "is_ascii_digit b \<longleftrightarrow> 48 \<le> (of_char b :: nat) \<and> (of_char b :: nat) \<le> 57"

definition is_ascii_lowercase :: "byte \<Rightarrow> bool" where
  "is_ascii_lowercase b \<longleftrightarrow> 97 \<le> (of_char b :: nat) \<and> (of_char b :: nat) \<le> 122"

definition is_ascii_uppercase :: "byte \<Rightarrow> bool" where
  "is_ascii_uppercase b \<longleftrightarrow> 65 \<le> (of_char b :: nat) \<and> (of_char b :: nat) \<le> 90"

definition is_ascii_alphabetic :: "byte \<Rightarrow> bool" where
  "is_ascii_alphabetic b \<longleftrightarrow> is_ascii_lowercase b \<or> is_ascii_uppercase b"

definition is_ascii_alphanumeric :: "byte \<Rightarrow> bool" where
  "is_ascii_alphanumeric b \<longleftrightarrow> is_ascii_alphabetic b \<or> is_ascii_digit b"

definition to_ascii_lowercase :: "byte \<Rightarrow> byte" where
  "to_ascii_lowercase b = (if is_ascii_uppercase b then char_of ((of_char b :: nat) + 32) else b)"

lemma lowercase_idem [simp]: "to_ascii_lowercase (to_ascii_lowercase b) = to_ascii_lowercase b"
proof -
  have "\<not> is_ascii_uppercase (char_of (of_char b + 32 :: nat))" if "is_ascii_uppercase b"
    using that by (simp add: is_ascii_uppercase_def)
  then show ?thesis by (simp add: to_ascii_lowercase_def)
qed

definition eq_ignore_ascii_case :: "bytes \<Rightarrow> bytes \<Rightarrow> bool" where
  "eq_ignore_ascii_case a b \<longleftrightarrow> map to_ascii_lowercase a = map to_ascii_lowercase b"

lemmas ascii_defs = is_ascii_digit_def is_ascii_lowercase_def is_ascii_uppercase_def
  is_ascii_alphabetic_def is_ascii_alphanumeric_def

text \<open>Well-formed UTF-8, the check of \<^verbatim>\<open>std::str::from_utf8\<close>.\<close>

definition byte_in :: "nat \<Rightarrow> nat \<Rightarrow> byte \<Rightarrow> bool" where
  "byte_in lo hi b \<longleftrightarrow> lo \<le> (of_char b :: nat) \<and> (of_char b :: nat) \<le> hi"

fun is_utf8 :: "bytes \<Rightarrow> bool" where
  "is_utf8 [] = True"
| "is_utf8 (a # r) =
     (if byte_in 0x00 0x7F a then is_utf8 r
      else (case r of
          [] \<Rightarrow> False
        | b # r2 \<Rightarrow>
            (if byte_in 0xC2 0xDF a then byte_in 0x80 0xBF b \<and> is_utf8 r2
             else (case r2 of
                 [] \<Rightarrow> False
               | c # r3 \<Rightarrow>
                   (if byte_in 0xE0 0xEF a
                    then byte_in (if a = CHR 0xE0 then 0xA0 else 0x80) (if a = CHR 0xED then 0x9F else 0xBF) b \<and>
                         byte_in 0x80 0xBF c \<and> is_utf8 r3
                    else (case r3 of
                        [] \<Rightarrow> False
                      | d # r4 \<Rightarrow>
                          byte_in 0xF0 0xF4 a \<and>
                          byte_in (if a = CHR 0xF0 then 0x90 else 0x80) (if a = CHR 0xF4 then 0x8F else 0xBF) b \<and>
                          byte_in 0x80 0xBF c \<and> byte_in 0x80 0xBF d \<and> is_utf8 r4))))))"

lemma is_utf8_ascii: "list_all (byte_in 0 127) s \<Longrightarrow> is_utf8 s"
  by (induction s) auto

text \<open>\<^verbatim>\<open>str::split(c)\<close>, \<^verbatim>\<open>str::split_once(c)\<close> and \<^verbatim>\<open>str::strip_prefix\<close>.\<close>

fun split_on :: "byte \<Rightarrow> bytes \<Rightarrow> bytes list" where
  "split_on c [] = [[]]"
| "split_on c (x # xs) =
     (if x = c then [] # split_on c xs
      else (case split_on c xs of [] \<Rightarrow> [[x]] | y # ys \<Rightarrow> (x # y) # ys))"

definition split_once :: "byte \<Rightarrow> bytes \<Rightarrow> (bytes \<times> bytes) option" where
  "split_once c s =
     (if c \<in> set s then Some (takeWhile (\<lambda>x. x \<noteq> c) s, tl (dropWhile (\<lambda>x. x \<noteq> c) s)) else None)"

definition strip_prefix :: "bytes \<Rightarrow> bytes \<Rightarrow> bytes option" where
  "strip_prefix p s = (if prefix p s then Some (drop (length p) s) else None)"

fun intersperse_join :: "bytes \<Rightarrow> bytes list \<Rightarrow> bytes" where
  "intersperse_join sep [] = []"
| "intersperse_join sep [x] = x"
| "intersperse_join sep (x # y # zs) = x @ sep @ intersperse_join sep (y # zs)"

lemma split_on_nonempty [simp]: "split_on c s \<noteq> []"
  by (induction s) (auto split: list.splits)

lemma split_once_Some:
  "split_once c s = Some (a, b) \<longleftrightarrow> s = a @ c # b \<and> c \<notin> set a"
proof
  assume "split_once c s = Some (a, b)"
  then have c: "c \<in> set s" and a: "a = takeWhile (\<lambda>x. x \<noteq> c) s"
    and b: "b = tl (dropWhile (\<lambda>x. x \<noteq> c) s)"
    by (auto simp: split_once_def split: if_splits)
  from c have "dropWhile (\<lambda>x. x \<noteq> c) s \<noteq> []" and "hd (dropWhile (\<lambda>x. x \<noteq> c) s) = c"
    using hd_dropWhile [of "\<lambda>x. x \<noteq> c" s] by (auto simp: dropWhile_eq_Nil_conv)
  then have "dropWhile (\<lambda>x. x \<noteq> c) s = c # b"
    using b by (metis list.collapse)
  then show "s = a @ c # b \<and> c \<notin> set a"
    using a by (metis takeWhile_dropWhile_id set_takeWhileD)
next
  assume "s = a @ c # b \<and> c \<notin> set a"
  then have s: "s = a @ c # b" and ca: "\<forall>x\<in>set a. x \<noteq> c"
    by auto
  have "takeWhile (\<lambda>x. x \<noteq> c) s = a" and "dropWhile (\<lambda>x. x \<noteq> c) s = c # b"
    using s ca by (simp_all add: takeWhile_append2 dropWhile_append2)
  then show "split_once c s = Some (a, b)"
    by (simp add: split_once_def s)
qed

lemma split_once_None: "split_once c s = None \<longleftrightarrow> c \<notin> set s"
  by (simp add: split_once_def)

lemma strip_prefix_Some: "strip_prefix p s = Some r \<longleftrightarrow> s = p @ r"
  by (auto simp: strip_prefix_def prefix_def)

lemma strip_prefix_None: "strip_prefix p s = None \<longleftrightarrow> \<not> prefix p s"
  by (simp add: strip_prefix_def)

lemma strip_prefix_append [simp]: "strip_prefix p (p @ r) = Some r"
  by (simp add: strip_prefix_Some)

lemma split_on_append: "c \<notin> set x \<Longrightarrow> split_on c (x @ c # y) = x # split_on c y"
  by (induction x) auto

lemma split_on_notin: "c \<notin> set x \<Longrightarrow> split_on c x = [x]"
  by (induction x) auto

lemma split_on_join:
  "xs \<noteq> [] \<Longrightarrow> (\<And>x. x \<in> set xs \<Longrightarrow> c \<notin> set x) \<Longrightarrow> split_on c (intersperse_join [c] xs) = xs"
proof (induction xs rule: induct_list012)
  case (3 x y zs)
  then show ?case by (simp add: split_on_append)
qed (simp_all add: split_on_notin)

text \<open>Two texts around the first separator.\<close>

lemma append_sep_inject:
  fixes c :: byte
  assumes "c \<notin> set a" "c \<notin> set b" "a @ c # x = b @ c # y"
  shows "a = b \<and> x = y"
proof -
  have "split_once c (u @ c # v) = Some (u, v)" if "c \<notin> set u" for u v
    using that by (induction u) (auto simp: split_once_def)
  with assms show ?thesis by (metis option.inject prod.inject)
qed

lemma join_split_on: "intersperse_join [c] (split_on c s) = s"
proof (induction s)
  case (Cons x s)
  then show ?case by (cases "split_on c s" rule: remdups_adj.cases) auto
qed simp

subsection \<open>Decimal numbers\<close>

text \<open>The standard formatter of an unsigned integer, and the value of a text of digits.\<close>

fun decimal :: "nat \<Rightarrow> bytes" where
  "decimal n = (if n < 10 then [char_of (48 + n)] else decimal (n div 10) @ [char_of (48 + n mod 10)])"

declare decimal.simps [simp del]

definition digits_value :: "bytes \<Rightarrow> nat" where
  "digits_value ds = foldl (\<lambda>n c. 10 * n + (of_char c - 48)) 0 ds"

lemma decimal_small:
  "n < 10 \<Longrightarrow> decimal n = [char_of (48 + n)]"
  "10 \<le> n \<Longrightarrow> n < 100 \<Longrightarrow> decimal n = [char_of (48 + n div 10), char_of (48 + n mod 10)]"
  by (simp_all add: decimal.simps [of n] decimal.simps [of "n div 10"])

lemma digits_value_snoc [simp]: "digits_value (ds @ [c]) = 10 * digits_value ds + (of_char c - 48)"
  by (simp add: digits_value_def)

lemma digit_char:
  fixes n :: nat
  shows "n < 10 \<Longrightarrow> is_ascii_digit (char_of (48 + n))"
    and "n < 10 \<Longrightarrow> of_char (char_of (48 + n) :: byte) - 48 = n"
  by (simp_all add: is_ascii_digit_def)

lemma digits_value_decimal [simp]: "digits_value (decimal n) = n"
proof (induction n rule: decimal.induct)
  case (1 n)
  then show ?case
    by (cases "n < 10") (simp_all add: decimal.simps [of n] digit_char, simp add: digits_value_def)
qed

lemma decimal_digits: "list_all is_ascii_digit (decimal n)"
proof (induction n rule: decimal.induct)
  case (1 n)
  then show ?case by (cases "n < 10") (simp_all add: decimal.simps [of n] digit_char)
qed

lemma decimal_nonempty [simp]: "decimal n \<noteq> []"
  by (subst decimal.simps) simp

subsection \<open>Occurrences and the leftmost one\<close>

text \<open>\<open>occurs_at n h i\<close>: the needle \<open>n\<close> stands in the haystack \<open>h\<close> at offset \<open>i\<close>.\<close>

definition occurs_at :: "'a list \<Rightarrow> 'a list \<Rightarrow> nat \<Rightarrow> bool" where
  "occurs_at n h i \<longleftrightarrow> i \<le> length h \<and> prefix n (drop i h)"

text \<open>The leftmost occurrence, computed.\<close>

fun find_sub :: "'a list \<Rightarrow> 'a list \<Rightarrow> nat option" where
  "find_sub [] n = (if n = [] then Some 0 else None)"
| "find_sub (x # xs) n = (if prefix n (x # xs) then Some 0 else map_option Suc (find_sub xs n))"

fun find_index :: "('a \<Rightarrow> bool) \<Rightarrow> 'a list \<Rightarrow> nat option" where
  "find_index P [] = None"
| "find_index P (x # xs) = (if P x then Some 0 else map_option Suc (find_index P xs))"

definition indices_of :: "'a \<Rightarrow> 'a list \<Rightarrow> nat list" where
  "indices_of c h = filter (\<lambda>i. h ! i = c) [0..<length h]"

lemma occurs_at_0 [simp]: "occurs_at n h 0 \<longleftrightarrow> prefix n h"
  by (simp add: occurs_at_def)

lemma occurs_at_Suc [simp]: "occurs_at n (x # h) (Suc i) \<longleftrightarrow> occurs_at n h i"
  by (simp add: occurs_at_def)

lemma occurs_at_Nil [simp]: "occurs_at n [] i \<longleftrightarrow> i = 0 \<and> n = []"
  by (auto simp: occurs_at_def)

lemma occurs_at_bound: "occurs_at n h i \<Longrightarrow> i + length n \<le> length h"
  by (auto simp: occurs_at_def dest: prefix_length_le)

lemma occurs_at_iff: "occurs_at n h i \<longleftrightarrow> (\<exists>a b. h = a @ n @ b \<and> length a = i)"
proof
  assume occ: "occurs_at n h i"
  then obtain b where "drop i h = n @ b"
    by (auto simp: occurs_at_def prefix_def)
  then have "h = take i h @ n @ b"
    by (metis append_take_drop_id)
  moreover have "length (take i h) = i"
    using occ by (simp add: occurs_at_def)
  ultimately show "\<exists>a b. h = a @ n @ b \<and> length a = i" by blast
qed (auto simp: occurs_at_def)

lemma find_sub_Some:
  "find_sub h n = Some i \<longleftrightarrow> occurs_at n h i \<and> (\<forall>j<i. \<not> occurs_at n h j)"
proof (induction h n arbitrary: i rule: find_sub.induct)
  case (1 n)
  then show ?case by auto
next
  case (2 x xs n)
  show ?case
  proof (cases "prefix n (x # xs)")
    case True
    then show ?thesis by (cases i) (auto simp: occurs_at_def)
  next
    case False
    then show ?thesis
      using "2.IH" by (cases i) (auto simp: All_less_Suc2)
  qed
qed

lemma find_sub_None: "find_sub h n = None \<longleftrightarrow> (\<forall>j. \<not> occurs_at n h j)"
proof (induction h n rule: find_sub.induct)
  case (2 x xs n)
  show ?case
  proof (cases "prefix n (x # xs)")
    case True
    then show ?thesis by (auto intro!: exI [of _ 0])
  next
    case False
    have "(\<forall>j. \<not> occurs_at n (x # xs) j) \<longleftrightarrow> (\<forall>j. \<not> occurs_at n xs j)"
      using False by (metis occurs_at_0 occurs_at_Suc not0_implies_Suc)
    then show ?thesis using 2 False by auto
  qed
qed auto

lemma occurs_at_append: "occurs_at n h j \<Longrightarrow> occurs_at n (h @ t) j"
  by (auto simp: occurs_at_def prefix_def)

lemma occurs_at_append_short:
  "occurs_at n (h @ t) j \<Longrightarrow> j + length n \<le> length h \<Longrightarrow> occurs_at n h j"
proof -
  assume occ: "occurs_at n (h @ t) j" and len: "j + length n \<le> length h"
  then obtain r where r: "drop j h @ t = n @ r"
    by (auto simp: occurs_at_def prefix_def)
  have "take (length n) (drop j h @ t) = n"
    using r by simp
  then have "take (length n) (drop j h) = n"
    using len by simp
  then show "occurs_at n h j"
    using len by (metis add_leD1 occurs_at_def take_is_prefix)
qed

lemma occurs_at_drop: "c \<le> length h \<Longrightarrow> occurs_at n (drop c h) j \<longleftrightarrow> occurs_at n h (c + j)"
  by (auto simp: occurs_at_def add.commute)

lemma find_sub_bound [find_simps]: "find_sub h n = Some i \<Longrightarrow> i + length n \<le> length h"
  by (simp add: find_sub_Some occurs_at_bound)

lemma find_sub_append_Some [find_simps]:
  assumes "find_sub h n = Some i"
  shows "find_sub (h @ t) n = Some i"
proof -
  have occ: "occurs_at n h i" and first: "\<forall>j<i. \<not> occurs_at n h j"
    using assms by (simp_all add: find_sub_Some)
  have "\<not> occurs_at n (h @ t) j" if "j < i" for j
    using that first occurs_at_bound [OF occ] occurs_at_append_short [of n h t j] by auto
  with occurs_at_append [OF occ] show ?thesis
    by (simp add: find_sub_Some)
qed

lemma find_sub_skip:
  assumes "c \<le> length h" and "\<forall>j<c. \<not> occurs_at n h j"
  shows "find_sub h n = map_option ((+) c) (find_sub (drop c h) n)"
proof (cases "find_sub (drop c h) n")
  case None
  then have "\<not> occurs_at n h (c + j)" for j
    using occurs_at_drop [OF assms(1)] by (auto simp: find_sub_None)
  then have "\<not> occurs_at n h j" for j
    using assms(2) by (metis le_add_diff_inverse not_less)
  then have "find_sub h n = None" by (simp add: find_sub_None)
  with None show ?thesis by simp
next
  case (Some i)
  then have "occurs_at n h (c + i)" and "\<forall>j<i. \<not> occurs_at n h (c + j)"
    using occurs_at_drop [OF assms(1)] by (auto simp: find_sub_Some)
  then have "find_sub h n = Some (c + i)"
    using assms(2) by (auto simp: find_sub_Some) (metis le_add_diff_inverse nat_add_left_cancel_less not_less)
  with Some show ?thesis by simp
qed

text \<open>
  A prefix of the haystack that can be released: whatever arrives after \<open>h\<close>, no occurrence of the
  needle starts before offset \<open>c\<close>.
\<close>

definition released :: "'a list \<Rightarrow> 'a list \<Rightarrow> nat \<Rightarrow> bool" where
  "released n h c \<longleftrightarrow> c \<le> length h \<and> (\<forall>t. \<forall>j<c. \<not> occurs_at n (h @ t) j)"

lemma releasedD: "released n h c \<Longrightarrow> c \<le> length h"
  by (simp add: released_def)

lemma find_sub_released:
  assumes "released n h c"
  shows "find_sub (h @ t) n = map_option ((+) c) (find_sub (drop c h @ t) n)"
  using find_sub_skip [of c "h @ t" n] assms by (simp add: released_def)

lemma released_fixed_tail:
  assumes "find_sub h n = None" and "c + (length n - 1) \<le> length h"
  shows "released n h c"
proof -
  have "\<not> occurs_at n (h @ t) j" if "j < c" for j t
  proof
    assume "occurs_at n (h @ t) j"
    moreover have "j + length n \<le> length h"
      using that assms(2) by linarith
    ultimately have "occurs_at n h j" by (rule occurs_at_append_short)
    with assms(1) show False by (simp add: find_sub_None)
  qed
  with assms(2) show ?thesis by (simp add: released_def)
qed

lemma released_by_suffix:
  assumes none: "find_sub h n = None" and c: "c \<le> length h"
    and suf: "\<And>j. j < c \<Longrightarrow> length h - j < length n \<Longrightarrow> drop j h \<noteq> take (length h - j) n"
  shows "released n h c"
proof -
  have "\<not> occurs_at n (h @ t) j" if j: "j < c" for j t
  proof
    assume occ: "occurs_at n (h @ t) j"
    show False
    proof (cases "j + length n \<le> length h")
      case True
      with occ have "occurs_at n h j" by (rule occurs_at_append_short)
      with none show False by (simp add: find_sub_None)
    next
      case False
      then have short: "length h - j < length n"
        using j c by linarith
      from occ j c obtain r where "drop j h @ t = n @ r"
        by (auto simp: occurs_at_def prefix_def)
      then have "take (length h - j) (drop j h @ t) = take (length h - j) (n @ r)"
        by (rule arg_cong)
      then have "drop j h = take (length h - j) n"
        using short by simp
      with suf [OF j short] show False by simp
    qed
  qed
  with c show ?thesis by (simp add: released_def)
qed

subsection \<open>The interface of the memchr crate\<close>

text \<open>
  The searches of the external \<^verbatim>\<open>memchr\<close> crate are not part of the repository. They are a record of
  functions that every definition calling them takes as an argument; \<open>byte_search\<close> states their
  documented contract, the leftmost match.
\<close>

record memchr_api =
  memmem_find :: "bytes \<Rightarrow> bytes \<Rightarrow> nat option"
  memchr :: "byte \<Rightarrow> bytes \<Rightarrow> nat option"
  memchr2 :: "byte \<Rightarrow> byte \<Rightarrow> bytes \<Rightarrow> nat option"
  memchr_iter :: "byte \<Rightarrow> bytes \<Rightarrow> nat list"

definition memchr_ref :: memchr_api where
  "memchr_ref = \<lparr>memmem_find = find_sub,
     memchr = (\<lambda>c. find_index (\<lambda>x. x = c)),
     memchr2 = (\<lambda>c d. find_index (\<lambda>x. x = c \<or> x = d)),
     memchr_iter = indices_of\<rparr>"

lemma memchr_ref_sel [simp]:
  "memmem_find memchr_ref = find_sub"
  "memchr memchr_ref c = find_index (\<lambda>x. x = c)"
  "memchr2 memchr_ref c d = find_index (\<lambda>x. x = c \<or> x = d)"
  "memchr_iter memchr_ref = indices_of"
  by (simp_all add: memchr_ref_def)

lemma find_index_Some:
  "find_index P xs = Some i \<longleftrightarrow> i < length xs \<and> P (xs ! i) \<and> (\<forall>j<i. \<not> P (xs ! j))"
proof (induction xs arbitrary: i)
  case (Cons x xs)
  then show ?case by (cases i) (auto simp: All_less_Suc2)
qed simp

lemma find_index_None: "find_index P xs = None \<longleftrightarrow> (\<forall>x\<in>set xs. \<not> P x)"
  by (induction xs) auto

lemma find_index_takeWhile:
  "find_index P xs = (if \<exists>x\<in>set xs. P x then Some (length (takeWhile (\<lambda>x. \<not> P x) xs)) else None)"
  by (induction xs) auto

locale byte_search =
  fixes M :: memchr_api
  assumes memmem_hit: "memmem_find M h n = Some i \<Longrightarrow> occurs_at n h i \<and> (\<forall>j<i. \<not> occurs_at n h j)"
    and memmem_miss: "memmem_find M h n = None \<Longrightarrow> \<not> occurs_at n h j"
    and memchr_hit: "memchr M c h = Some i \<Longrightarrow> i < length h \<and> h ! i = c \<and> (\<forall>j<i. h ! j \<noteq> c)"
    and memchr_miss: "memchr M c h = None \<Longrightarrow> c \<notin> set h"
    and memchr2_hit: "memchr2 M c d h = Some i \<Longrightarrow>
          i < length h \<and> (h ! i = c \<or> h ! i = d) \<and> (\<forall>j<i. h ! j \<noteq> c \<and> h ! j \<noteq> d)"
    and memchr2_miss: "memchr2 M c d h = None \<Longrightarrow> c \<notin> set h \<and> d \<notin> set h"
    and memchr_iter_all: "memchr_iter M c h = indices_of c h"
begin

lemma memmem_find_eq: "memmem_find M h n = find_sub h n"
proof (cases "memmem_find M h n")
  case None
  then show ?thesis using memmem_miss by (simp add: find_sub_None [THEN iffD2])
next
  case (Some i)
  then show ?thesis using memmem_hit by (metis find_sub_Some)
qed

lemma memchr_eq: "memchr M c h = find_index (\<lambda>x. x = c) h"
proof (cases "memchr M c h")
  case None
  then have "find_index (\<lambda>x. x = c) h = None"
    using memchr_miss [OF None] by (auto simp: find_index_None)
  with None show ?thesis by simp
next
  case (Some i)
  then show ?thesis
    using memchr_hit [OF Some] find_index_Some [of "\<lambda>x. x = c" h i] by simp
qed

lemma memchr2_eq: "memchr2 M c d h = find_index (\<lambda>x. x = c \<or> x = d) h"
proof (cases "memchr2 M c d h")
  case None
  then have "find_index (\<lambda>x. x = c \<or> x = d) h = None"
    using memchr2_miss [OF None] by (auto simp: find_index_None)
  with None show ?thesis by simp
next
  case (Some i)
  then show ?thesis
    using memchr2_hit [OF Some] find_index_Some [of "\<lambda>x. x = c \<or> x = d" h i] by auto
qed

text \<open>The contract determines the crate: every correct implementation agrees with the reference.\<close>

lemma crate_unique: "M = memchr_ref"
  by (rule memchr_api.equality)
    (simp_all add: fun_eq_iff memmem_find_eq memchr_eq memchr2_eq memchr_iter_all)

end

interpretation ref_search: byte_search memchr_ref
proof
  fix h n i
  assume "memmem_find memchr_ref h n = Some i"
  then show "occurs_at n h i \<and> (\<forall>j<i. \<not> occurs_at n h j)" by (simp add: find_sub_Some)
next
  fix c h i
  assume "memchr memchr_ref c h = Some i"
  then show "i < length h \<and> h ! i = c \<and> (\<forall>j<i. h ! j \<noteq> c)" by (simp add: find_index_Some)
next
  fix c d h i
  assume "memchr2 memchr_ref c d h = Some i"
  then show "i < length h \<and> (h ! i = c \<or> h ! i = d) \<and> (\<forall>j<i. h ! j \<noteq> c \<and> h ! j \<noteq> d)"
    by (auto simp: find_index_Some)
qed (auto simp: find_sub_None find_index_None)

end
