(* ===== verification/Multipart_Delimiter.thy ===== *)
theory Multipart_Delimiter
  imports Prelude
begin

text \<open>
  The leaves of the \<^verbatim>\<open>s3s-multipart\<close> crate: the error type (\<^verbatim>\<open>error.rs\<close>), optional white space
  (\<^verbatim>\<open>utils.rs\<close>), boundary validation (\<^verbatim>\<open>boundary.rs\<close>) and the search for the boundary delimiter in
  part data with its adaptive tail (\<^verbatim>\<open>delimiter.rs\<close>). The locale \<open>delimiter_search\<close> is the contract
  that the three streaming readers of part data rely on.
\<close>

datatype mp_error =
    StreamReadFailed string
  | InvalidBoundary
  | InvalidFormat
  | IncompleteStream
  | HeaderSizeExceeded nat
  | StreamPartNotLast
  | StreamAlreadyTaken
  | IncompleteStreamPart

definition stream_read_failed :: "string \<Rightarrow> mp_error" where
  "stream_read_failed source = StreamReadFailed source"

subsection \<open>utils.rs\<close>

definition is_ows :: "byte \<Rightarrow> bool" where
  "is_ows b \<longleftrightarrow> b = SP \<or> b = HTAB"

fun trim_ows_first :: "bytes \<Rightarrow> bytes" where
  "trim_ows_first [] = []"
| "trim_ows_first (first # rest) = (if \<not> is_ows first then first # rest else trim_ows_first rest)"

function trim_ows_last :: "bytes \<Rightarrow> bytes" where
  "trim_ows_last v =
     (if v = [] then v
      else if \<not> is_ows (last v) then v
      else trim_ows_last (butlast v))"
  by pat_completeness auto
termination
  by (relation "measure length") auto

definition trim_ows :: "bytes \<Rightarrow> bytes" where
  "trim_ows v = trim_ows_last (trim_ows_first v)"

declare trim_ows_last.simps [simp del]

subsection \<open>boundary.rs\<close>

record boundary =
  boundary_bytes :: bytes

definition is_bchar :: "byte \<Rightarrow> bool" where
  "is_bchar b \<longleftrightarrow> is_ascii_alphanumeric b \<or>
     b \<in> {CHR 0x27, CHR ''('', CHR '')'', CHR ''+'', CHR ''_'', CHR '','', CHR ''-'', CHR ''.'',
          CHR ''/'', CHR '':'', CHR ''='', CHR ''?'', CHR '' ''}"

definition is_ascii_whitespace :: "byte \<Rightarrow> bool" where
  "is_ascii_whitespace b \<longleftrightarrow> b \<in> {SP, HTAB, LF, CHR 0x0C, CR}"

definition Boundary_new :: "bytes \<Rightarrow> mp_error + boundary" where
  "Boundary_new b =
     (if b = [] \<or> length b > 70 then Inl InvalidBoundary
      else if \<not> list_all is_bchar b then Inl InvalidBoundary
      else if is_ascii_whitespace (last b) then Inl InvalidBoundary
      else Inr \<lparr>boundary_bytes = b\<rparr>)"

subsection \<open>delimiter.rs\<close>

definition ADAPTIVE_TAIL_THRESHOLD :: nat where
  "ADAPTIVE_TAIL_THRESHOLD = 2048"

datatype data_search = Found nat | Emit nat | KeepAll

fun suffix_loop :: "bytes \<Rightarrow> bytes \<Rightarrow> nat \<Rightarrow> nat \<Rightarrow> nat list \<Rightarrow> nat" where
  "suffix_loop haystack delimiter mx start [] = 0"
| "suffix_loop haystack delimiter mx start (rel # rels) =
     (let idx = start + rel; len = length haystack - idx
      in if len \<le> mx \<and> drop idx haystack = take len delimiter then len
         else suffix_loop haystack delimiter mx start rels)"

definition delimiter_prefix_suffix_len :: "memchr_api \<Rightarrow> bytes \<Rightarrow> bytes \<Rightarrow> nat" where
  "delimiter_prefix_suffix_len M haystack delimiter =
     (case delimiter of
        [] \<Rightarrow> 0
      | first # _ \<Rightarrow>
          (let mx = length delimiter - 1;
               start = length haystack - mx;
               window = drop start haystack
           in if memchr M first window = None then 0
              else suffix_loop haystack delimiter mx start (memchr_iter M first window)))"

definition search_data :: "memchr_api \<Rightarrow> bytes \<Rightarrow> bytes \<Rightarrow> data_search" where
  "search_data M haystack delimiter =
     (case memmem_find M haystack delimiter of
        Some index \<Rightarrow> Found index
      | None \<Rightarrow>
          (let keep = length delimiter - 1;
               retain = (if length haystack > ADAPTIVE_TAIL_THRESHOLD
                         then delimiter_prefix_suffix_len M haystack delimiter
                         else keep)
           in if length haystack > retain then Emit (length haystack - retain) else KeepAll))"

definition make_first_boundary :: "bytes \<Rightarrow> bytes" where
  "make_first_boundary b = ''--'' @ b"

definition make_delimiter :: "bytes \<Rightarrow> bytes" where
  "make_delimiter b = CRLF @ ''--'' @ b"

subsection \<open>Trimming and boundaries\<close>

lemma trim_ows_first_eq: "trim_ows_first v = dropWhile is_ows v"
  by (induction v) auto

lemma trim_ows_last_eq: "trim_ows_last v = rev (dropWhile is_ows (rev v))"
proof (induction v rule: rev_induct)
  case (snoc x xs)
  then show ?case by (subst trim_ows_last.simps) simp
qed (simp add: trim_ows_last.simps)

lemma trim_ows_eq: "trim_ows v = rev (dropWhile is_ows (rev (dropWhile is_ows v)))"
  by (simp add: trim_ows_def trim_ows_first_eq trim_ows_last_eq)

lemma length_trim_ows: "length (trim_ows v) \<le> length v"
  by (simp add: trim_ows_eq) (metis length_dropWhile_le length_rev order_trans)

lemma trim_ows_decomp:
  "\<exists>a b. v = a @ trim_ows v @ b \<and> list_all is_ows a \<and> list_all is_ows b"
proof (intro exI conjI)
  let ?w = "dropWhile is_ows v"
  have w: "?w = trim_ows v @ rev (takeWhile is_ows (rev ?w))"
    by (metis rev_append rev_rev_ident takeWhile_dropWhile_id trim_ows_eq)
  have "v = takeWhile is_ows v @ ?w"
    by simp
  then show "v = takeWhile is_ows v @ trim_ows v @ rev (takeWhile is_ows (rev ?w))"
    by (subst (asm) w)
  show "list_all is_ows (takeWhile is_ows v)"
    by (auto simp: list_all_iff dest: set_takeWhileD)
  show "list_all is_ows (rev (takeWhile is_ows (rev ?w)))"
    by (auto simp: list_all_iff dest: set_takeWhileD)
qed

lemma trim_ows_ends:
  "trim_ows v \<noteq> [] \<Longrightarrow> \<not> is_ows (hd (trim_ows v)) \<and> \<not> is_ows (last (trim_ows v))"
proof -
  assume ne: "trim_ows v \<noteq> []"
  let ?w = "dropWhile is_ows v"
  have w: "?w = trim_ows v @ rev (takeWhile is_ows (rev ?w))"
    by (metis rev_append rev_rev_ident takeWhile_dropWhile_id trim_ows_eq)
  have "?w \<noteq> []"
    using ne by (metis dropWhile.simps(1) rev.simps(1) trim_ows_eq)
  then have "\<not> is_ows (hd ?w)" by (rule hd_dropWhile)
  moreover have "hd ?w = hd (trim_ows v)"
    using ne by (subst w) simp
  ultimately have first: "\<not> is_ows (hd (trim_ows v))" by simp
  have "dropWhile is_ows (rev ?w) \<noteq> []"
    using ne by (simp add: trim_ows_eq)
  then have "\<not> is_ows (hd (dropWhile is_ows (rev ?w)))" by (rule hd_dropWhile)
  then have "\<not> is_ows (last (trim_ows v))"
    by (simp add: trim_ows_eq last_rev)
  with first show ?thesis by simp
qed

lemma Boundary_new_ok:
  "Boundary_new b = Inr bd \<Longrightarrow>
     boundary_bytes bd = b \<and> b \<noteq> [] \<and> length b \<le> 70 \<and> list_all is_bchar b \<and> \<not> is_ascii_whitespace (last b)"
  by (auto simp: Boundary_new_def split: if_splits)

lemma make_delimiter_first: "make_delimiter b = LF # x \<Longrightarrow> False"
  by (simp add: make_delimiter_def)

lemma make_delimiter_nonempty [simp]: "make_delimiter b \<noteq> []"
  by (simp add: make_delimiter_def)

lemma length_make_delimiter [simp]: "length (make_delimiter b) = length b + 4"
  by (simp add: make_delimiter_def)

lemma make_delimiter_decomp: "make_delimiter b = CRLF @ make_first_boundary b"
  by (simp add: make_delimiter_def make_first_boundary_def)

subsection \<open>The adaptive tail is the longest border\<close>

definition borders :: "bytes \<Rightarrow> bytes \<Rightarrow> nat set" where
  "borders haystack delimiter =
     {l. l < length delimiter \<and> l \<le> length haystack \<and> drop (length haystack - l) haystack = take l delimiter}"

lemma finite_borders [simp]: "finite (borders h d)"
  by (rule finite_subset [of _ "{..length h}"]) (auto simp: borders_def)

lemma suffix_loop_find:
  "suffix_loop h d mx st rels =
     (case find (\<lambda>rel. length h - (st + rel) \<le> mx \<and> drop (st + rel) h = take (length h - (st + rel)) d) rels of
        None \<Rightarrow> 0 | Some rel \<Rightarrow> length h - (st + rel))"
  by (induction rels) (auto simp: Let_def)

lemma find_sorted_least:
  "find P xs = Some x \<Longrightarrow> sorted xs \<Longrightarrow> y \<in> set xs \<Longrightarrow> P y \<Longrightarrow> x \<le> (y :: nat)"
  by (induction xs) (auto split: if_splits)

lemma find_Some_sat: "find P xs = Some x \<Longrightarrow> x \<in> set xs \<and> P x"
  by (auto simp: find_Some_iff)

lemma sorted_indices_of: "sorted (indices_of c h)"
  by (simp add: indices_of_def sorted_filter [where f = id, simplified])

lemma set_indices_of: "set (indices_of c h) = {i. i < length h \<and> h ! i = c}"
  by (auto simp: indices_of_def)

lemma indices_of_notin: "c \<notin> set w \<Longrightarrow> indices_of c w = []"
  by (auto simp: indices_of_def filter_empty_conv in_set_conv_nth)

lemma border_index:
  assumes "l \<in> borders h d" and "0 < l"
  shows "length h - l - (length h - (length d - 1))
           \<in> set (indices_of (hd d) (drop (length h - (length d - 1)) h))"
proof -
  let ?st = "length h - (length d - 1)" and ?j = "length h - l"
  from assms have l: "l < length d" "l \<le> length h" and eq: "drop ?j h = take l d"
    by (auto simp: borders_def)
  then have st: "?st \<le> ?j" and j: "?j < length h" and ne: "d \<noteq> []"
    using assms(2) by (auto dest: gr_implies_not0)
  have "h ! ?j = hd (drop ?j h)"
    using j by (simp add: hd_drop_conv_nth)
  also have "\<dots> = hd d"
    using eq assms(2) by (simp add: hd_take)
  finally have "drop ?st h ! (?j - ?st) = hd d"
    using st j nth_drop [of ?st h "?j - ?st"] le_add_diff_inverse [OF st] by simp
  then show ?thesis
    using st j by (simp add: set_indices_of)
qed

lemma dpsl_ref:
  assumes "d \<noteq> []"
  shows "delimiter_prefix_suffix_len memchr_ref h d =
    suffix_loop h d (length d - 1) (length h - (length d - 1))
      (indices_of (hd d) (drop (length h - (length d - 1)) h))"
proof -
  let ?w = "drop (length h - (length d - 1)) h"
  obtain first r where d: "d = first # r"
    using assms by (cases d) auto
  show ?thesis
  proof (cases "first \<in> set ?w")
    case True
    then have "find_index (\<lambda>x. x = first) ?w \<noteq> None" by (simp add: find_index_None)
    then show ?thesis by (auto simp: delimiter_prefix_suffix_len_def d Let_def)
  next
    case False
    then have "find_index (\<lambda>x. x = first) ?w = None" by (auto simp: find_index_None)
    with indices_of_notin [OF False] show ?thesis
      by (simp add: delimiter_prefix_suffix_len_def d Let_def)
  qed
qed

lemma dpsl_in_borders:
  assumes "d \<noteq> []"
  shows "delimiter_prefix_suffix_len memchr_ref h d \<in> borders h d"
proof -
  let ?st = "length h - (length d - 1)"
  let ?is = "indices_of (hd d) (drop ?st h)"
  have zero: "0 \<in> borders h d"
    using assms by (simp add: borders_def)
  show ?thesis
  proof (cases "find (\<lambda>rel. length h - (?st + rel) \<le> length d - 1 \<and>
      drop (?st + rel) h = take (length h - (?st + rel)) d) ?is")
    case None
    then show ?thesis using zero by (simp add: dpsl_ref [OF assms] suffix_loop_find)
  next
    case (Some rel)
    from find_Some_sat [OF Some] have "rel \<in> set ?is"
      and len: "length h - (?st + rel) \<le> length d - 1"
      and eq: "drop (?st + rel) h = take (length h - (?st + rel)) d"
      by auto
    then have "?st + rel < length h"
      by (auto simp: set_indices_of)
    then have "length h - (?st + rel) \<in> borders h d"
      using len eq assms by (cases d) (auto simp: borders_def)
    then show ?thesis using Some by (simp add: dpsl_ref [OF assms] suffix_loop_find)
  qed
qed

lemma dpsl_upper:
  assumes "d \<noteq> []" and l: "l \<in> borders h d"
  shows "l \<le> delimiter_prefix_suffix_len memchr_ref h d"
proof (cases "l = 0")
  case False
  let ?st = "length h - (length d - 1)"
  let ?is = "indices_of (hd d) (drop ?st h)"
  let ?P = "\<lambda>rel. length h - (?st + rel) \<le> length d - 1 \<and>
      drop (?st + rel) h = take (length h - (?st + rel)) d"
  let ?r = "length h - l - ?st"
  from l have bounds: "l < length d" "l \<le> length h" and eq: "drop (length h - l) h = take l d"
    by (auto simp: borders_def)
  have r: "?st + ?r = length h - l" using bounds by linarith
  have mem: "?r \<in> set ?is"
    using border_index [OF l] False by simp
  have sat: "?P ?r" using bounds eq by (simp add: r)
  then have "find ?P ?is \<noteq> None"
    using mem by (auto simp: find_None_iff)
  then obtain rel where rel: "find ?P ?is = Some rel" by blast
  then have "rel \<le> ?r"
    using find_sorted_least [OF rel sorted_indices_of mem sat] by simp
  then have "l \<le> length h - (?st + rel)"
    using r bounds by linarith
  then show ?thesis using rel by (simp add: dpsl_ref [OF assms(1)] suffix_loop_find)
qed simp

lemma dpsl_Max:
  "d \<noteq> [] \<Longrightarrow> delimiter_prefix_suffix_len memchr_ref h d = Max (borders h d)"
  by (rule Max_eqI [symmetric]) (auto intro: dpsl_upper dpsl_in_borders)

subsection \<open>What the searches promise\<close>

locale delimiter_search =
  fixes search :: "bytes \<Rightarrow> data_search"
    and delim :: bytes
  assumes delim_nonempty: "delim \<noteq> []"
    and search_found: "search h = Found i \<Longrightarrow> find_sub h delim = Some i"
    and search_emit: "search h = Emit e \<Longrightarrow> 0 < e \<and> released delim h e"
    and search_keep: "search h = KeepAll \<Longrightarrow> find_sub h delim = None"
begin

lemma found_split:
  "search h = Found i \<Longrightarrow> h = take i h @ delim @ drop (i + length delim) h"
proof -
  assume "search h = Found i"
  then have "occurs_at delim h i"
    using search_found by (simp add: find_sub_Some)
  then obtain a b where "h = a @ delim @ b" and "length a = i"
    by (auto simp: occurs_at_iff)
  then show ?thesis by simp
qed

text \<open>A hit stays the leftmost delimiter whatever arrives later.\<close>

lemma found_stable: "search h = Found i \<Longrightarrow> find_sub (h @ t) delim = Some i"
  by (simp add: search_found find_sub_append_Some)

lemma emit_shift:
  "search h = Emit e \<Longrightarrow> find_sub (h @ t) delim = map_option ((+) e) (find_sub (drop e h @ t) delim)"
  using search_emit by (simp add: find_sub_released)

lemma emit_bounds: "search h = Emit e \<Longrightarrow> 0 < e \<and> e \<le> length h"
  using search_emit releasedD by blast

end

lemma search_data_emit:
  assumes "d \<noteq> []" and "search_data memchr_ref h d = Emit e"
  shows "0 < e \<and> released d h e"
proof (cases "length h > ADAPTIVE_TAIL_THRESHOLD")
  case False
  with assms have none: "find_sub h d = None" and e: "e = length h - (length d - 1)" "length h > length d - 1"
    by (auto simp: search_data_def Let_def split: option.splits if_splits)
  then show ?thesis by (simp add: released_fixed_tail)
next
  case True
  let ?p = "delimiter_prefix_suffix_len memchr_ref h d"
  from True assms have none: "find_sub h d = None" and e: "e = length h - ?p" "length h > ?p"
    by (auto simp: search_data_def Let_def split: option.splits if_splits)
  have "released d h e"
  proof (rule released_by_suffix [OF none])
    fix j
    assume j: "j < e" and short: "length h - j < length d"
    show "drop j h \<noteq> take (length h - j) d"
    proof
      assume "drop j h = take (length h - j) d"
      then have "length h - j \<in> borders h d"
        using short j e by (simp add: borders_def)
      then have "length h - j \<le> ?p"
        by (rule dpsl_upper [OF assms(1)])
      with j e show False by linarith
    qed
  qed (use e in simp)
  with e show ?thesis by simp
qed

interpretation data_scan: delimiter_search "\<lambda>h. search_data memchr_ref h (make_delimiter b)" "make_delimiter b"
  for b
proof
  fix h i
  assume "search_data memchr_ref h (make_delimiter b) = Found i"
  then show "find_sub h (make_delimiter b) = Some i"
    by (auto simp: search_data_def Let_def split: option.splits if_splits)
next
  fix h e
  assume "search_data memchr_ref h (make_delimiter b) = Emit e"
  then show "0 < e \<and> released (make_delimiter b) h e"
    by (rule search_data_emit [rotated]) simp
next
  fix h
  assume "search_data memchr_ref h (make_delimiter b) = KeepAll"
  then show "find_sub h (make_delimiter b) = None"
    by (auto simp: search_data_def Let_def split: option.splits if_splits)
qed simp

end
