(* ===== verification/Multipart_Buffer.thy ===== *)
theory Multipart_Buffer
  imports Multipart_Delimiter
begin

text \<open>
  The byte buffer of the multipart parser (\<^verbatim>\<open>buffer.rs\<close>). The underlying stream is the list of the
  answers it gives to successive polls: not ready, a chunk, or an error; the end of the list is the
  end of the stream. Every reader is written against \<open>poll_stream\<close> exactly as the code is, so a
  \<open>Pending\<close> in the middle of a read leaves the half-finished state that the next poll resumes from.

  The abstract view \<open>sview\<close> forgets when bytes arrive and which empty chunks were skipped; the
  lemmas of this theory say what each reader does to the view.
\<close>

subsection \<open>The stream and the buffer\<close>

datatype stream_event = EvPending | EvItem "mp_error + bytes"

fun poll_next :: "stream_event list \<Rightarrow> (mp_error + bytes) option poll \<times> stream_event list" where
  "poll_next [] = (Ready None, [])"
| "poll_next (EvPending # s) = (Pending, s)"
| "poll_next (EvItem x # s) = (Ready (Some x), s)"

definition EMPTY_CHUNKS_PER_POLL :: nat where
  "EMPTY_CHUNKS_PER_POLL = 32"

definition MAX_CONSECUTIVE_EMPTY_CHUNKS :: nat where
  "MAX_CONSECUTIVE_EMPTY_CHUNKS = 1024"

record stream_buffer =
  buf :: bytes
  stream :: "stream_event list option"
  eof :: bool
  polled_total :: nat
  read_until_cursor :: nat
  read_until_active :: bool
  empty_chunks :: nat

definition StreamBuffer_new :: "stream_event list \<Rightarrow> stream_buffer" where
  "StreamBuffer_new s = \<lparr>buf = [], stream = Some s, eof = False, polled_total = 0,
     read_until_cursor = 0, read_until_active = False, empty_chunks = 0\<rparr>"

definition u64_saturating_add :: "nat \<Rightarrow> nat \<Rightarrow> nat" where
  "u64_saturating_add a b = min (a + b) (2 ^ 64 - 1)"

definition stalled_error :: mp_error where
  "stalled_error = stream_read_failed ''stream kept yielding empty chunks without progress''"

text \<open>The body of the \<^verbatim>\<open>for _ in 0..EMPTY_CHUNKS_PER_POLL\<close> loop; running out of rounds yields.\<close>

fun poll_stream_loop ::
  "nat \<Rightarrow> stream_event list \<Rightarrow> stream_buffer \<Rightarrow> (mp_error + bytes) option poll \<times> stream_buffer" where
  "poll_stream_loop 0 s b = (Pending, b\<lparr>stream := Some s\<rparr>)"
| "poll_stream_loop (Suc k) s b =
     (case poll_next s of
        (Pending, s') \<Rightarrow> (Pending, b\<lparr>stream := Some s'\<rparr>)
      | (Ready (Some (Inr bytes)), s') \<Rightarrow>
          (if bytes = [] then
             (let b' = b\<lparr>empty_chunks := empty_chunks b + 1\<rparr>
              in if empty_chunks b' > MAX_CONSECUTIVE_EMPTY_CHUNKS
                 then (Ready (Some (Inl stalled_error)), b'\<lparr>stream := Some s'\<rparr>)
                 else poll_stream_loop k s' b')
           else (Ready (Some (Inr bytes)),
                 b\<lparr>empty_chunks := 0, polled_total := u64_saturating_add (polled_total b) (length bytes),
                   stream := Some s'\<rparr>))
      | (Ready (Some (Inl err)), s') \<Rightarrow> (Ready (Some (Inl err)), b\<lparr>stream := Some s'\<rparr>)
      | (Ready None, s') \<Rightarrow> (Ready None, b\<lparr>eof := True, stream := Some s'\<rparr>))"

definition poll_stream :: "stream_buffer \<Rightarrow> (mp_error + bytes) option poll \<times> stream_buffer" where
  "poll_stream b =
     (case stream b of
        None \<Rightarrow> (Ready None, b\<lparr>eof := True\<rparr>)
      | Some s \<Rightarrow> poll_stream_loop EMPTY_CHUNKS_PER_POLL s b)"

text \<open>The number of answers the stream still has to give, the measure of every reading loop.\<close>

definition events_left :: "stream_buffer \<Rightarrow> nat" where
  "events_left b = (case stream b of None \<Rightarrow> 0 | Some s \<Rightarrow> length s)"

lemma poll_stream_loop_events:
  "poll_stream_loop k s b = (r, b') \<Longrightarrow>
     events_left b' \<le> length s \<and>
     (\<forall>c. r = Ready (Some (Inr c)) \<longrightarrow> events_left b' < length s)"
proof (induction k s b rule: poll_stream_loop.induct)
  case (2 k s b)
  show ?case
  proof (cases s)
    case Nil
    with 2 show ?thesis by (auto simp: events_left_def)
  next
    case (Cons e s')
    with 2 show ?thesis
      by (cases e)
        (fastforce simp: events_left_def Let_def split: sum.splits if_splits)+
  qed
qed (auto simp: events_left_def)

lemma poll_stream_events:
  "poll_stream b = (Ready (Some (Inr c)), b') \<Longrightarrow> events_left b' < events_left b"
  using poll_stream_loop_events
  by (fastforce simp: poll_stream_def events_left_def split: option.splits)

lemma poll_stream_events_le: "poll_stream b = (r, b') \<Longrightarrow> events_left b' \<le> events_left b"
  using poll_stream_loop_events
  by (fastforce simp: poll_stream_def events_left_def split: option.splits)

lemma events_left_update [simp]:
  "events_left (b\<lparr>buf := x\<rparr>) = events_left b"
  "events_left (b\<lparr>read_until_cursor := n\<rparr>) = events_left b"
  "events_left (b\<lparr>read_until_active := a\<rparr>) = events_left b"
  "events_left (b\<lparr>eof := a\<rparr>) = events_left b"
  by (simp_all add: events_left_def)

subsection \<open>Readers\<close>

function poll_read_until_loop ::
  "memchr_api \<Rightarrow> bytes \<Rightarrow> nat \<Rightarrow> stream_buffer \<Rightarrow> (mp_error + nat) poll \<times> stream_buffer" where
  "poll_read_until_loop M needle mx b =
     (case memmem_find M (drop (read_until_cursor b) (buf b)) needle of
        Some rel \<Rightarrow>
          (let idx = read_until_cursor b + rel;
               end = idx + length needle;
               b1 = b\<lparr>read_until_active := False\<rparr>
           in if end > mx then (Ready (Inl (HeaderSizeExceeded mx)), b1)
              else (Ready (Inr end), b1))
      | None \<Rightarrow>
          (if length (buf b) > mx
           then (Ready (Inl (HeaderSizeExceeded mx)), b\<lparr>read_until_active := False\<rparr>)
           else if eof b
           then (Ready (Inl IncompleteStream), b\<lparr>read_until_active := False\<rparr>)
           else (case poll_stream b of
               (Pending, b1) \<Rightarrow> (Pending, b1)
             | (Ready (Some (Inr chunk)), b1) \<Rightarrow>
                 (let old_len = length (buf b1)
                  in poll_read_until_loop M needle mx
                       (b1\<lparr>buf := buf b1 @ chunk, read_until_cursor := old_len - (length needle - 1)\<rparr>))
             | (Ready (Some (Inl err)), b1) \<Rightarrow> (Ready (Inl err), b1\<lparr>read_until_active := False\<rparr>)
             | (Ready None, b1) \<Rightarrow>
                 (Ready (Inl IncompleteStream), b1\<lparr>eof := True, read_until_active := False\<rparr>))))"
  by pat_completeness auto
termination
  by (relation "measure (\<lambda>(M, needle, mx, b). events_left b)") (auto dest!: sym [THEN poll_stream_events])

definition poll_read_until ::
  "memchr_api \<Rightarrow> bytes \<Rightarrow> nat \<Rightarrow> stream_buffer \<Rightarrow> (mp_error + nat) poll \<times> stream_buffer" where
  "poll_read_until M needle mx b =
     poll_read_until_loop M needle mx
       (if \<not> read_until_active b then b\<lparr>read_until_cursor := 0, read_until_active := True\<rparr> else b)"

function poll_read_to ::
  "memchr_api \<Rightarrow> bytes \<Rightarrow> stream_buffer \<Rightarrow> (mp_error + unit) poll \<times> stream_buffer" where
  "poll_read_to M needle b =
     (case memmem_find M (buf b) needle of
        Some idx \<Rightarrow> (Ready (Inr ()), b\<lparr>buf := drop (idx + length needle) (buf b)\<rparr>)
      | None \<Rightarrow>
          (if eof b then (Ready (Inl InvalidFormat), b)
           else (case poll_stream b of
               (Pending, b1) \<Rightarrow> (Pending, b1)
             | (Ready (Some (Inr chunk)), b1) \<Rightarrow>
                 (if buf b1 = [] then
                    (case memmem_find M chunk needle of
                       Some idx \<Rightarrow>
                         (Ready (Inr ()), b1\<lparr>buf := buf b1 @ drop (idx + length needle) chunk\<rparr>)
                     | None \<Rightarrow>
                         (let keep = min (length needle - 1) (length chunk);
                              cut = length chunk - keep
                          in poll_read_to M needle (b1\<lparr>buf := buf b1 @ drop cut chunk\<rparr>)))
                  else
                    (let b2 = b1\<lparr>buf := buf b1 @ chunk\<rparr>
                     in case memmem_find M (buf b2) needle of
                          Some idx \<Rightarrow> (Ready (Inr ()), b2\<lparr>buf := drop (idx + length needle) (buf b2)\<rparr>)
                        | None \<Rightarrow>
                            (let keep = min (length needle - 1) (length (buf b2));
                                 cut = length (buf b2) - keep
                             in poll_read_to M needle (b2\<lparr>buf := drop cut (buf b2)\<rparr>))))
             | (Ready (Some (Inl err)), b1) \<Rightarrow> (Ready (Inl err), b1)
             | (Ready None, b1) \<Rightarrow> (Ready (Inl InvalidFormat), b1\<lparr>eof := True\<rparr>))))"
  by pat_completeness auto
termination
  by (relation "measure (\<lambda>(M, needle, b). events_left b)") (auto dest!: sym [THEN poll_stream_events])

text \<open>
  The wait for the two bytes that decide whether the header block is empty. It returns the buffer
  with two bytes or at end of stream, or the pending or failed poll.
\<close>

function wait_two_bytes :: "stream_buffer \<Rightarrow> (mp_error + unit) poll \<times> stream_buffer" where
  "wait_two_bytes b =
     (if length (buf b) < 2 \<and> \<not> eof b then
        (case poll_stream (b\<lparr>read_until_active := False\<rparr>) of
           (Pending, b1) \<Rightarrow> (Pending, b1)
         | (Ready (Some (Inr chunk)), b1) \<Rightarrow> wait_two_bytes (b1\<lparr>buf := buf b1 @ chunk\<rparr>)
         | (Ready (Some (Inl err)), b1) \<Rightarrow> (Ready (Inl err), b1)
         | (Ready None, b1) \<Rightarrow> (Ready (Inr ()), b1\<lparr>eof := True\<rparr>))
      else (Ready (Inr ()), b))"
  by pat_completeness auto
termination
  by (relation "measure events_left") (auto dest!: sym [THEN poll_stream_events])

definition poll_read_header_block ::
  "memchr_api \<Rightarrow> nat \<Rightarrow> stream_buffer \<Rightarrow> (mp_error + nat) poll \<times> stream_buffer" where
  "poll_read_header_block M mx b =
     (case wait_two_bytes b of
        (Pending, b1) \<Rightarrow> (Pending, b1)
      | (Ready (Inl err), b1) \<Rightarrow> (Ready (Inl err), b1)
      | (Ready (Inr _), b1) \<Rightarrow>
          (if prefix CRLF (buf b1) then (Ready (Inr 2), b1\<lparr>read_until_active := False\<rparr>)
           else poll_read_until M (CRLF @ CRLF) mx b1))"

definition consumed :: "stream_buffer \<Rightarrow> nat" where
  "consumed b = polled_total b - length (buf b)"

declare poll_read_until_loop.simps [simp del] poll_read_to.simps [simp del] wait_two_bytes.simps [simp del]

subsection \<open>The abstract view of a stream\<close>

datatype stream_end = EndOk | EndErr mp_error

text \<open>
  \<open>deliver k s\<close>: the non-empty chunks the stream \<open>s\<close> will hand out when \<open>k\<close> empty ones were just
  skipped, and how it ends. Polls that are not ready leave no trace.
\<close>

fun deliver :: "nat \<Rightarrow> stream_event list \<Rightarrow> bytes list \<times> stream_end" where
  "deliver k [] = ([], EndOk)"
| "deliver k (EvPending # s) = deliver k s"
| "deliver k (EvItem (Inl e) # s) = ([], EndErr e)"
| "deliver k (EvItem (Inr c) # s) =
     (if c = [] then
        (if Suc k > MAX_CONSECUTIVE_EMPTY_CHUNKS then ([], EndErr stalled_error) else deliver (Suc k) s)
      else (c # fst (deliver 0 s), snd (deliver 0 s)))"

definition sview :: "stream_buffer \<Rightarrow> bytes list \<times> stream_end" where
  "sview b = (case stream b of None \<Rightarrow> ([], EndOk) | Some s \<Rightarrow> deliver (empty_chunks b) s)"

text \<open>All bytes still to be read, buffered ones first, and how the input ends after them.\<close>

definition upcoming :: "stream_buffer \<Rightarrow> bytes" where
  "upcoming b = buf b @ concat (fst (sview b))"

definition fin :: "stream_buffer \<Rightarrow> stream_end" where
  "fin b = snd (sview b)"

definition buf_ok :: "stream_buffer \<Rightarrow> bool" where
  "buf_ok b \<longleftrightarrow> (eof b \<longrightarrow> sview b = ([], EndOk))"

lemma sview_update [view_simps, simp]:
  "sview (b\<lparr>buf := x\<rparr>) = sview b"
  "sview (b\<lparr>read_until_cursor := n\<rparr>) = sview b"
  "sview (b\<lparr>read_until_active := a\<rparr>) = sview b"
  "sview (b\<lparr>eof := a\<rparr>) = sview b"
  by (simp_all add: sview_def split: option.splits)

lemma fin_update [view_simps, simp]:
  "fin (b\<lparr>buf := x\<rparr>) = fin b"
  "fin (b\<lparr>read_until_cursor := n\<rparr>) = fin b"
  "fin (b\<lparr>read_until_active := a\<rparr>) = fin b"
  "fin (b\<lparr>eof := a\<rparr>) = fin b"
  by (simp_all add: fin_def)

lemma upcoming_update [view_simps, simp]:
  "upcoming (b\<lparr>buf := x\<rparr>) = x @ concat (fst (sview b))"
  "upcoming (b\<lparr>read_until_cursor := n\<rparr>) = upcoming b"
  "upcoming (b\<lparr>read_until_active := a\<rparr>) = upcoming b"
  "upcoming (b\<lparr>eof := a\<rparr>) = upcoming b"
  by (simp_all add: upcoming_def)

lemma buf_ok_update [view_simps, simp]:
  "buf_ok (b\<lparr>buf := x\<rparr>) = buf_ok b"
  "buf_ok (b\<lparr>read_until_cursor := n\<rparr>) = buf_ok b"
  "buf_ok (b\<lparr>read_until_active := a\<rparr>) = buf_ok b"
  by (simp_all add: buf_ok_def)

lemma buf_ok_new: "buf_ok (StreamBuffer_new s)"
  by (simp add: buf_ok_def StreamBuffer_new_def)

text \<open>What one call of the polling loop does.\<close>

fun polled :: "(mp_error + bytes) option poll \<Rightarrow> bytes list \<times> stream_end \<Rightarrow> bytes list \<times> stream_end \<Rightarrow> bool" where
  "polled Pending v v' \<longleftrightarrow> v' = v"
| "polled (Ready None) v v' \<longleftrightarrow> v = ([], EndOk) \<and> v' = ([], EndOk)"
| "polled (Ready (Some (Inl e))) v v' \<longleftrightarrow> v = ([], EndErr e)"
| "polled (Ready (Some (Inr c))) v v' \<longleftrightarrow> c \<noteq> [] \<and> v = (c # fst v', snd v')"

lemma poll_stream_loop_view:
  "poll_stream_loop k s b = (r, b') \<Longrightarrow>
     polled r (deliver (empty_chunks b) s) (sview b') \<and>
     buf b' = buf b \<and> read_until_cursor b' = read_until_cursor b \<and>
     read_until_active b' = read_until_active b \<and> (eof b' \<longleftrightarrow> eof b \<or> r = Ready None)"
proof (induction k s b rule: poll_stream_loop.induct)
  case (2 k s b)
  show ?case
  proof (cases s)
    case Nil
    with 2 show ?thesis by (auto simp: sview_def)
  next
    case (Cons e s')
    then show ?thesis
    proof (cases e)
      case EvPending
      with Cons 2 show ?thesis by (auto simp: sview_def)
    next
      case (EvItem x)
      show ?thesis
      proof (cases x)
        case (Inl err)
        with EvItem Cons 2 show ?thesis by (auto simp: sview_def)
      next
        case (Inr c)
        show ?thesis
        proof (cases "c = [] \<and> \<not> empty_chunks b + 1 > MAX_CONSECUTIVE_EMPTY_CHUNKS")
          case True
          with EvItem Cons Inr 2 show ?thesis by (auto simp: Let_def)
        next
          case False
          with EvItem Cons Inr 2 show ?thesis
            by (cases "c = []") (auto simp: sview_def Let_def)
        qed
      qed
    qed
  qed
qed (auto simp: sview_def)

lemma poll_stream_view:
  assumes "poll_stream b = (r, b')"
  shows "polled r (sview b) (sview b')"
    and "buf b' = buf b" and "read_until_cursor b' = read_until_cursor b"
    and "read_until_active b' = read_until_active b" and "eof b' \<longleftrightarrow> eof b \<or> r = Ready None"
proof -
  have "polled r (sview b) (sview b') \<and> buf b' = buf b \<and> read_until_cursor b' = read_until_cursor b \<and>
     read_until_active b' = read_until_active b \<and> (eof b' \<longleftrightarrow> eof b \<or> r = Ready None)"
  proof (cases "stream b")
    case None
    with assms show ?thesis by (auto simp: poll_stream_def sview_def)
  next
    case (Some s)
    with assms have "poll_stream_loop EMPTY_CHUNKS_PER_POLL s b = (r, b')"
      by (simp add: poll_stream_def)
    from poll_stream_loop_view [OF this] Some show ?thesis by (simp add: sview_def [of b])
  qed
  then show "polled r (sview b) (sview b')"
    and "buf b' = buf b" and "read_until_cursor b' = read_until_cursor b"
    and "read_until_active b' = read_until_active b" and "eof b' \<longleftrightarrow> eof b \<or> r = Ready None"
    by simp_all
qed

lemma poll_stream_pending_events:
  "poll_stream b = (Pending, b') \<Longrightarrow> events_left b' < events_left b"
proof -
  assume p: "poll_stream b = (Pending, b')"
  have loop: "poll_stream_loop k s c = (Pending, c') \<Longrightarrow> 0 < k \<Longrightarrow> events_left c' < length s" for k s c c'
  proof (induction k s c rule: poll_stream_loop.induct)
    case (2 k s c)
    then have "s \<noteq> []" by auto
    then obtain e s' where s: "s = e # s'" by (cases s) auto
    show ?case
    proof (cases e)
      case EvPending
      with 2 s show ?thesis by (auto simp: events_left_def)
    next
      case (EvItem x)
      then have "x = Inr []"
        using 2 s by (cases x) (auto simp: Let_def split: if_splits)
      with EvItem 2 s have "poll_stream_loop k s' (c\<lparr>empty_chunks := empty_chunks c + 1\<rparr>) = (Pending, c')"
        by (auto simp: Let_def split: if_splits)
      from poll_stream_loop_events [OF this] s show ?thesis by simp
    qed
  qed simp
  from p obtain s where "stream b = Some s" "poll_stream_loop EMPTY_CHUNKS_PER_POLL s b = (Pending, b')"
    by (auto simp: poll_stream_def split: option.splits)
  with loop [of EMPTY_CHUNKS_PER_POLL s b b'] show ?thesis
    by (simp add: events_left_def EMPTY_CHUNKS_PER_POLL_def)
qed

text \<open>The four outcomes of a poll, as facts on the bytes still to come.\<close>

lemma poll_stream_cases:
  assumes "poll_stream b = (r, b')" and "buf_ok b"
  obtains (pending) "r = Pending" "upcoming b' = upcoming b" "fin b' = fin b" "buf b' = buf b" "buf_ok b'"
      "events_left b' < events_left b"
    | (chunk) c where "r = Ready (Some (Inr c))" "c \<noteq> []" "buf b' = buf b" "fin b' = fin b" "buf_ok b'"
      "upcoming b = buf b @ c @ concat (fst (sview b'))" "events_left b' < events_left b" "\<not> eof b" "\<not> eof b'"
    | (failed) e where "r = Ready (Some (Inl e))" "upcoming b = buf b" "fin b = EndErr e" "buf b' = buf b"
    | (ended) "r = Ready None" "upcoming b = buf b" "fin b = EndOk" "buf b' = buf b" "upcoming b' = buf b"
      "fin b' = EndOk" "buf_ok b'" "eof b'"
proof -
  note view = poll_stream_view [OF assms(1)]
  show ?thesis
  proof (cases r)
    case Pending
    with view assms poll_stream_pending_events [of b b'] show ?thesis
      by (intro pending) (auto simp: upcoming_def fin_def buf_ok_def)
  next
    case (Ready o')
    show ?thesis
    proof (cases o')
      case None
      with Ready view assms show ?thesis
        by (intro ended) (auto simp: upcoming_def fin_def buf_ok_def)
    next
      case (Some x)
      show ?thesis
      proof (cases x)
        case (Inl e)
        with Ready Some view show ?thesis
          by (intro failed) (auto simp: upcoming_def fin_def)
      next
        case (Inr c)
        with Ready Some have r: "r = Ready (Some (Inr c))" by simp
        with view have v: "c \<noteq> []" "sview b = (c # fst (sview b'), snd (sview b'))" by auto
        from v assms(2) have "\<not> eof b" by (auto simp: buf_ok_def)
        with r v view poll_stream_events [of b c b'] assms(1) show ?thesis
          by (intro chunk [of c]) (auto simp: upcoming_def fin_def buf_ok_def)
      qed
    qed
  qed
qed

subsection \<open>The readers against the whole input\<close>

text \<open>
  Each reader's result as a function of all bytes of the input and the way it ends, with no mention
  of chunks: the specification the readers meet whatever the transport does.
\<close>

fun end_error :: "mp_error \<Rightarrow> stream_end \<Rightarrow> mp_error" where
  "end_error d EndOk = d"
| "end_error d (EndErr e) = e"

definition read_to_spec :: "bytes \<Rightarrow> bytes \<Rightarrow> stream_end \<Rightarrow> mp_error + bytes" where
  "read_to_spec needle w e =
     (case find_sub w needle of
        Some i \<Rightarrow> Inr (drop (i + length needle) w)
      | None \<Rightarrow> Inl (end_error InvalidFormat e))"

definition read_until_spec :: "bytes \<Rightarrow> nat \<Rightarrow> bytes \<Rightarrow> stream_end \<Rightarrow> mp_error + nat" where
  "read_until_spec needle mx w e =
     (case find_sub w needle of
        Some i \<Rightarrow> (if i + length needle > mx then Inl (HeaderSizeExceeded mx) else Inr (i + length needle))
      | None \<Rightarrow> Inl (if length w > mx then HeaderSizeExceeded mx else end_error IncompleteStream e))"

definition header_block_spec :: "nat \<Rightarrow> bytes \<Rightarrow> stream_end \<Rightarrow> mp_error + nat" where
  "header_block_spec mx w e =
     (if length w < 2 \<and> e \<noteq> EndOk then Inl (end_error IncompleteStream e)
      else if prefix CRLF w then Inr 2
      else read_until_spec (CRLF @ CRLF) mx w e)"

lemma released_append: "released n h c \<Longrightarrow> released n (h @ t) c"
  by (simp add: released_def)

lemma released_0 [simp]: "released n h 0"
  by (simp add: released_def)

lemma released_keep:
  assumes "find_sub h n = None" and "k \<le> length h - (length n - 1)"
  shows "released n h k"
proof (cases "length n - 1 \<le> length h")
  case True
  with assms show ?thesis by (intro released_fixed_tail) auto
qed (use assms in simp)

lemma read_to_spec_released:
  assumes "released needle h c"
  shows "read_to_spec needle (drop c h @ t) e = read_to_spec needle (h @ t) e"
proof -
  have "drop (c + i + length needle) (h @ t) = drop (i + length needle) (drop c h @ t)" for i
    using releasedD [OF assms] by (simp add: ac_simps)
  then show ?thesis
    by (auto simp: read_to_spec_def find_sub_released [OF assms] split: option.splits)
qed

text \<open>The state of a reader after a poll, in terms of the input that is left.\<close>

fun read_to_post :: "bytes \<Rightarrow> (mp_error + unit) poll \<Rightarrow> stream_buffer \<Rightarrow> stream_buffer \<Rightarrow> bool" where
  "read_to_post needle Pending b b' \<longleftrightarrow>
     read_to_spec needle (upcoming b') (fin b') = read_to_spec needle (upcoming b) (fin b) \<and>
     fin b' = fin b \<and> buf_ok b' \<and> events_left b' < events_left b"
| "read_to_post needle (Ready (Inl x)) b b' \<longleftrightarrow> read_to_spec needle (upcoming b) (fin b) = Inl x"
| "read_to_post needle (Ready (Inr u)) b b' \<longleftrightarrow>
     read_to_spec needle (upcoming b) (fin b) = Inr (upcoming b') \<and> fin b' = fin b \<and> buf_ok b' \<and>
     events_left b' \<le> events_left b"

lemma read_to_post_trans:
  assumes "read_to_post needle r b1 b'" and "read_to_spec needle (upcoming b1) (fin b1) = read_to_spec needle (upcoming b) (fin b)"
    and "fin b1 = fin b" and "events_left b1 < events_left b"
  shows "read_to_post needle r b b'"
  using assms by (cases "(needle, r, b, b')" rule: read_to_post.cases) auto

lemma read_to_hit:
  "find_sub h needle = Some i \<Longrightarrow>
     read_to_spec needle (h @ t) e = Inr (drop (i + length needle) h @ t)"
  by (simp add: read_to_spec_def find_sub_append_Some find_sub_bound)

lemma poll_read_to_post:
  "buf_ok b \<Longrightarrow> poll_read_to memchr_ref needle b = (r, b') \<Longrightarrow> read_to_post needle r b b'"
proof (induction "events_left b" arbitrary: b r b' rule: less_induct)
  case less
  note step = less.prems(2) [unfolded poll_read_to.simps [of memchr_ref needle b], simplified]
  show ?case
  proof (cases "find_sub (buf b) needle")
    case (Some i)
    with step less.prems(1) show ?thesis
      by (auto simp: upcoming_def [of b] read_to_hit)
  next
    case none: None
    show ?thesis
    proof (cases "eof b")
      case True
      with none step less.prems(1) show ?thesis
        by (auto simp: read_to_spec_def upcoming_def fin_def buf_ok_def)
    next
      case False
      obtain r1 b1 where p: "poll_stream b = (r1, b1)" by fastforce
      from p less.prems(1) show ?thesis
      proof (cases rule: poll_stream_cases)
        case pending
        with none False p step show ?thesis by auto
      next
        case (failed e)
        with none False p step show ?thesis by (auto simp: read_to_spec_def)
      next
        case ended
        with none False p step show ?thesis by (auto simp: read_to_spec_def)
      next
        case (chunk c)
        let ?h = "buf b @ c"
        let ?b2 = "b1\<lparr>buf := drop (length ?h - min (length needle - 1) (length ?h)) ?h\<rparr>"
        have tot: "upcoming b = ?h @ concat (fst (sview b1))"
          using chunk by simp
        show ?thesis
        proof (cases "find_sub ?h needle")
          case (Some i)
          then have "r = Ready (Inr ()) \<and> b' = b1\<lparr>buf := drop (i + length needle) ?h\<rparr>"
            using none False p step chunk by (cases "buf b = []") (auto simp: Let_def)
          with tot chunk read_to_hit [OF Some, of "concat (fst (sview b1))" "fin b"] show ?thesis by simp
        next
          case None
          have rec: "poll_read_to memchr_ref needle ?b2 = (r, b')"
            using none False p step chunk None by (cases "buf b = []") (auto simp: Let_def)
          have rel: "released needle ?h (length ?h - min (length needle - 1) (length ?h))"
            by (rule released_keep [OF None]) (auto simp: min_def)
          have "read_to_post needle r ?b2 b'"
            by (rule less.hyps [OF _ _ rec]) (use chunk in simp_all)
          then show ?thesis
            by (rule read_to_post_trans)
              (use chunk tot read_to_spec_released [OF rel] in \<open>simp_all del: append_assoc\<close>)
        qed
      qed
    qed
  qed
qed

text \<open>The reader of header blocks keeps the buffer, and its cursor never skips an occurrence.\<close>

definition cursor_ok :: "bytes \<Rightarrow> stream_buffer \<Rightarrow> bool" where
  "cursor_ok needle b \<longleftrightarrow> released needle (buf b) (read_until_cursor b)"

fun read_until_post ::
  "bytes \<Rightarrow> (mp_error + nat) poll \<Rightarrow> (mp_error + nat) \<Rightarrow> stream_buffer \<Rightarrow> stream_buffer \<Rightarrow> bool" where
  "read_until_post needle Pending spec b b' \<longleftrightarrow>
     upcoming b' = upcoming b \<and> fin b' = fin b \<and> buf_ok b' \<and> events_left b' < events_left b \<and>
     (read_until_active b' \<longrightarrow> cursor_ok needle b')"
| "read_until_post needle (Ready (Inl x)) spec b b' \<longleftrightarrow> spec = Inl x"
| "read_until_post needle (Ready (Inr n)) spec b b' \<longleftrightarrow>
     spec = Inr n \<and> n \<le> length (buf b') \<and> upcoming b' = upcoming b \<and> fin b' = fin b \<and> buf_ok b' \<and>
     \<not> read_until_active b'"

lemma read_until_post_trans:
  assumes "read_until_post needle r spec b1 b'" and "upcoming b1 = upcoming b" and "fin b1 = fin b"
    and "events_left b1 \<le> events_left b"
  shows "read_until_post needle r spec b b'"
  using assms by (cases "(needle, r, spec, b, b')" rule: read_until_post.cases) auto

lemma poll_read_until_loop_post:
  "buf_ok b \<Longrightarrow> cursor_ok needle b \<Longrightarrow> poll_read_until_loop memchr_ref needle mx b = (r, b') \<Longrightarrow>
     read_until_post needle r (read_until_spec needle mx (upcoming b) (fin b)) b b'"
proof (induction "events_left b" arbitrary: b r b' rule: less_induct)
  case less
  note step = less.prems(3) [unfolded poll_read_until_loop.simps [of memchr_ref needle mx b], simplified]
  let ?cur = "read_until_cursor b" and ?w = "upcoming b"
  have rel: "released needle (buf b) ?cur"
    using less.prems(2) by (simp add: cursor_ok_def)
  have shift: "find_sub (buf b @ t) needle = map_option ((+) ?cur) (find_sub (drop ?cur (buf b) @ t) needle)" for t
    by (rule find_sub_released [OF rel])
  show ?case
  proof (cases "find_sub (drop ?cur (buf b)) needle")
    case (Some i)
    with shift [of "[]"] have hit: "find_sub (buf b) needle = Some (?cur + i)" by simp
    then have "find_sub ?w needle = Some (?cur + i)"
      by (simp add: upcoming_def find_sub_append_Some)
    with Some step less.prems(1) find_sub_bound [OF hit] show ?thesis
      by (auto simp: read_until_spec_def Let_def split: if_splits)
  next
    case None
    with shift [of "[]"] have miss: "find_sub (buf b) needle = None" by simp
    show ?thesis
    proof (cases "length (buf b) > mx \<or> eof b")
      case True
      show ?thesis
      proof (cases "length (buf b) > mx")
        case True
        have "find_sub ?w needle = Some i \<Longrightarrow> mx < i + length needle" for i
        proof (rule ccontr)
          assume hit: "find_sub ?w needle = Some i" and "\<not> mx < i + length needle"
          then have "occurs_at needle (buf b) i"
            using True occurs_at_append_short [of needle "buf b" "concat (fst (sview b))" i]
            by (simp add: upcoming_def find_sub_Some)
          with miss show False by (simp add: find_sub_None)
        qed
        with True None step show ?thesis
          by (auto simp: read_until_spec_def upcoming_def split: option.splits)
      next
        case False
        with \<open>length (buf b) > mx \<or> eof b\<close> less.prems(1) None step miss show ?thesis
          by (auto simp: read_until_spec_def upcoming_def fin_def buf_ok_def)
      qed
    next
      case False
      obtain r1 b1 where p: "poll_stream b = (r1, b1)" by fastforce
      from p less.prems(1) show ?thesis
      proof (cases rule: poll_stream_cases)
        case pending
        with None False p step rel poll_stream_view [OF p] show ?thesis by (auto simp: cursor_ok_def)
      next
        case (failed e)
        with None False p step miss show ?thesis by (auto simp: read_until_spec_def)
      next
        case ended
        with None False p step miss show ?thesis by (auto simp: read_until_spec_def)
      next
        case (chunk c)
        let ?b2 = "b1\<lparr>buf := buf b1 @ c, read_until_cursor := length (buf b1) - (length needle - 1)\<rparr>"
        have ok: "cursor_ok needle ?b2"
          using chunk released_append [OF released_keep [OF miss order_refl]]
          by (simp add: cursor_ok_def)
        have "read_until_post needle r (read_until_spec needle mx (upcoming ?b2) (fin ?b2)) ?b2 b'"
          by (rule less.hyps) (use None False p chunk ok step in \<open>simp_all add: Let_def\<close>)
        then have "read_until_post needle r (read_until_spec needle mx (upcoming b) (fin b)) ?b2 b'"
          using chunk by simp
        then show ?thesis
          by (rule read_until_post_trans) (use chunk in simp_all)
      qed
    qed
  qed
qed

lemma poll_read_until_post:
  assumes "buf_ok b" and "read_until_active b \<Longrightarrow> cursor_ok needle b"
    and "poll_read_until memchr_ref needle mx b = (r, b')"
  shows "read_until_post needle r (read_until_spec needle mx (upcoming b) (fin b)) b b'"
proof (cases "read_until_active b")
  case True
  with assms poll_read_until_loop_post [of b needle mx r b'] show ?thesis
    by (simp add: poll_read_until_def)
next
  case False
  let ?b1 = "b\<lparr>read_until_cursor := 0, read_until_active := True\<rparr>"
  have "read_until_post needle r (read_until_spec needle mx (upcoming ?b1) (fin ?b1)) ?b1 b'"
    by (rule poll_read_until_loop_post)
      (use False assms in \<open>simp_all add: poll_read_until_def cursor_ok_def\<close>)
  then have "read_until_post needle r (read_until_spec needle mx (upcoming b) (fin b)) ?b1 b'" by simp
  then show ?thesis by (rule read_until_post_trans) simp_all
qed

lemma wait_two_bytes_post:
  "buf_ok b \<Longrightarrow> wait_two_bytes b = (r, b') \<Longrightarrow>
     (case r of
        Pending \<Rightarrow> upcoming b' = upcoming b \<and> fin b' = fin b \<and> buf_ok b' \<and> events_left b' < events_left b \<and>
          \<not> read_until_active b'
      | Ready (Inl x) \<Rightarrow> length (upcoming b) < 2 \<and> fin b = EndErr x
      | Ready (Inr u) \<Rightarrow> upcoming b' = upcoming b \<and> fin b' = fin b \<and> buf_ok b' \<and>
          (length (buf b') < 2 \<longrightarrow> upcoming b' = buf b' \<and> fin b' = EndOk) \<and>
          (read_until_active b' \<longrightarrow> b' = b) \<and> events_left b' \<le> events_left b)"
proof (induction "events_left b" arbitrary: b r b' rule: less_induct)
  case less
  note step = less.prems(2) [unfolded wait_two_bytes.simps [of b]]
  show ?case
  proof (cases "length (buf b) < 2 \<and> \<not> eof b")
    case False
    with step less.prems(1) show ?thesis by (auto simp: buf_ok_def upcoming_def fin_def)
  next
    case True
    obtain r1 b1 where p: "poll_stream (b\<lparr>read_until_active := False\<rparr>) = (r1, b1)" by fastforce
    note act = poll_stream_view(4) [OF p]
    have "buf_ok (b\<lparr>read_until_active := False\<rparr>)" using less.prems(1) by simp
    with p show ?thesis
    proof (cases rule: poll_stream_cases)
      case pending
      with True p step act show ?thesis by simp
    next
      case (failed e)
      with True p step show ?thesis by auto
    next
      case ended
      with True p step act poll_stream_events_le [OF p] show ?thesis
        by (auto simp: buf_ok_def upcoming_def fin_def)
    next
      case (chunk c)
      let ?b2 = "b1\<lparr>buf := buf b1 @ c\<rparr>"
      have rec: "wait_two_bytes ?b2 = (r, b')" using True p step chunk by simp
      show ?thesis
        using less.hyps [OF _ _ rec] chunk act by (auto split: poll.splits sum.splits)
    qed
  qed
qed

lemma header_block_long: "2 \<le> length (buf b) \<Longrightarrow> prefix CRLF (upcoming b) = prefix CRLF (buf b)"
  by (cases "buf b"; cases "tl (buf b)") (auto simp: upcoming_def)

lemma poll_read_header_block_post:
  assumes ok: "buf_ok b" and cur: "read_until_active b \<Longrightarrow> cursor_ok (CRLF @ CRLF) b"
    and run: "poll_read_header_block memchr_ref mx b = (r, b')"
  shows "read_until_post (CRLF @ CRLF) r (header_block_spec mx (upcoming b) (fin b)) b b'"
proof -
  obtain r1 b1 where w: "wait_two_bytes b = (r1, b1)" by fastforce
  note post = wait_two_bytes_post [OF ok w]
  show ?thesis
  proof (cases "r1 = Pending \<or> (\<exists>x. r1 = Ready (Inl x))")
    case True
    with run w post show ?thesis
      by (auto simp: poll_read_header_block_def header_block_spec_def)
  next
    case False
    then have r1: "r1 = Ready (Inr ())"
      by (metis poll.exhaust sumE unit.exhaust)
    have two: "length (buf b1) < 2 \<Longrightarrow> upcoming b1 = buf b1 \<and> fin b1 = EndOk"
      and same: "upcoming b1 = upcoming b" "fin b1 = fin b" "buf_ok b1"
      and act: "read_until_active b1 \<Longrightarrow> b1 = b" and ev: "events_left b1 \<le> events_left b"
      using post r1 by auto
    have decide: "\<not> (length (upcoming b) < 2 \<and> fin b \<noteq> EndOk)"
    proof
      assume short: "length (upcoming b) < 2 \<and> fin b \<noteq> EndOk"
      then have "length (upcoming b1) < 2" using same by simp
      then have "length (buf b1) < 2" by (simp add: upcoming_def)
      with two same short show False by simp
    qed
    have pre: "prefix CRLF (upcoming b) = prefix CRLF (buf b1)"
      using two same header_block_long [of b1] by (metis not_less)
    show ?thesis
    proof (cases "prefix CRLF (buf b1)")
      case True
      then have "2 \<le> length (buf b1)" by (auto dest: prefix_length_le)
      with True run w r1 same decide pre show ?thesis
        by (auto simp: poll_read_header_block_def header_block_spec_def)
    next
      case False
      with run w r1 have rd: "poll_read_until memchr_ref (CRLF @ CRLF) mx b1 = (r, b')"
        by (simp add: poll_read_header_block_def)
      have "read_until_post (CRLF @ CRLF) r (read_until_spec (CRLF @ CRLF) mx (upcoming b1) (fin b1)) b1 b'"
        by (rule poll_read_until_post [OF same(3) _ rd]) (use act cur in blast)
      moreover have "header_block_spec mx (upcoming b) (fin b) =
          read_until_spec (CRLF @ CRLF) mx (upcoming b1) (fin b1)"
        using False decide pre same by (auto simp: header_block_spec_def)
      ultimately show ?thesis
        using same ev read_until_post_trans by simp
    qed
  qed
qed

end
