(* ===== verification/Multipart_Header.thy ===== *)
theory Multipart_Header
  imports Multipart_Delimiter
begin

text \<open>
  Part headers: the header block reader of \<^verbatim>\<open>header.rs\<close> with its fallback for surplus fields, and
  the \<^verbatim>\<open>Content-Disposition\<close> parser of \<^verbatim>\<open>content_disposition.rs\<close>. The external \<^verbatim>\<open>httparse\<close> crate is
  the parameter \<open>H\<close>: its outcome on a block is the offset of the first byte after the headers with
  the positions of the names and values it recognised, or the reason it stopped.
\<close>

subsection \<open>Header blocks\<close>

definition MAX_HEADERS :: nat where
  "MAX_HEADERS = 3"

record header_span =
  span_name :: "nat \<times> nat"
  span_value :: "nat \<times> nat"

record header_block =
  spans :: "header_span list"
  next_span :: nat
  data_start :: nat

text \<open>
  What \<^verbatim>\<open>httparse::parse_headers\<close> reports with room for \<^verbatim>\<open>MAX_HEADERS\<close> fields. A recognised field is
  the offset and the length of its name and of its value inside the block.
\<close>

datatype httparse_outcome =
    Complete nat "((nat \<times> nat) \<times> (nat \<times> nat)) list"
  | Partial
  | TooManyHeaders
  | HttparseError

type_synonym httparse_api = "bytes \<Rightarrow> httparse_outcome"

definition try_push :: "header_span list \<Rightarrow> header_span \<Rightarrow> header_span list" where
  "try_push v x = (if length v < MAX_HEADERS then v @ [x] else v)"

fun push_parsed :: "((nat \<times> nat) \<times> (nat \<times> nat)) list \<Rightarrow> header_span list \<Rightarrow> header_span list" where
  "push_parsed [] v = v"
| "push_parsed (((name_start, name_len), (value_start, value_len)) # parsed) v =
     push_parsed parsed
       (try_push v \<lparr>span_name = (name_start, name_start + name_len),
                    span_value = (value_start, value_start + value_len)\<rparr>)"

text \<open>
  The line loop of the fallback. \<open>off\<close> is the offset of \<open>rest\<close> in the block, which the code
  recovers from the slice pointers; \<open>trim_ows\<close> moves the start of the value past its leading
  white space.
\<close>

function fallback_loop ::
  "memchr_api \<Rightarrow> nat \<Rightarrow> bytes \<Rightarrow> header_span list \<Rightarrow> mp_error + header_span list" where
  "fallback_loop M off rest v =
     (if rest = [] \<or> \<not> length v < MAX_HEADERS then Inr v
      else
        (let (line, next_off, next_rest) =
               (case memmem_find M rest CRLF of
                  Some line_end \<Rightarrow> (take line_end rest, off + line_end + 2, drop (line_end + 2) rest)
                | None \<Rightarrow> (rest, 0, []))
         in case memchr M (CHR '':'') line of
              None \<Rightarrow> Inl InvalidFormat
            | Some colon \<Rightarrow>
                (if take colon line = [] then Inl InvalidFormat
                 else
                   (let raw = drop (colon + 1) line;
                        value = trim_ows raw;
                        value_start = off + colon + 1 + length (takeWhile is_ows raw)
                    in fallback_loop M next_off next_rest
                         (try_push v \<lparr>span_name = (off, off + colon),
                                      span_value = (value_start, value_start + length value)\<rparr>)))))"
  by pat_completeness auto
termination
  by (relation "measure (\<lambda>(M, off, rest, v). length rest)") (auto split: option.splits)

definition parse_header_block_fallback :: "memchr_api \<Rightarrow> bytes \<Rightarrow> mp_error + header_block" where
  "parse_header_block_fallback M block =
     (if \<not> suffix (CRLF @ CRLF) block then Inl InvalidFormat
      else
        (let blank = length block - 4
         in case fallback_loop M 0 (take blank block) [] of
              Inl e \<Rightarrow> Inl e
            | Inr v \<Rightarrow> Inr \<lparr>spans = v, next_span = 0, data_start = blank + 4\<rparr>))"

definition parse_header_block :: "memchr_api \<Rightarrow> httparse_api \<Rightarrow> bytes \<Rightarrow> mp_error + header_block" where
  "parse_header_block M H block =
     (case H block of
        Complete ds parsed \<Rightarrow> Inr \<lparr>spans = push_parsed parsed [], next_span = 0, data_start = ds\<rparr>
      | Partial \<Rightarrow> Inl IncompleteStream
      | TooManyHeaders \<Rightarrow> parse_header_block_fallback M block
      | HttparseError \<Rightarrow> Inl InvalidFormat)"

declare fallback_loop.simps [simp del]

subsection \<open>Content-Disposition\<close>

record content_disposition =
  cd_name :: "bytes option"
  cd_file_name :: "bytes option"

record parsed_quoted =
  pq_text :: bytes
  pq_next :: bytes

fun scan_escaped :: "bool \<Rightarrow> nat \<Rightarrow> bytes \<Rightarrow> nat option" where
  "scan_escaped escaped offset [] = None"
| "scan_escaped escaped offset (byte # bs) =
     (if escaped then scan_escaped False (offset + 1) bs
      else if byte = BACKSLASH then scan_escaped True (offset + 1) bs
      else if byte = DQUOTE then Some offset
      else scan_escaped False (offset + 1) bs)"

definition parse_quoted :: "memchr_api \<Rightarrow> bytes \<Rightarrow> parsed_quoted option" where
  "parse_quoted M input =
     (case input of
        [] \<Rightarrow> None
      | first # tail \<Rightarrow>
          (if first \<noteq> DQUOTE then None
           else case memchr2 M DQUOTE BACKSLASH tail of
                  None \<Rightarrow> None
                | Some idx \<Rightarrow>
                    (let pos = idx + 1
                     in if input ! pos = DQUOTE
                        then Some \<lparr>pq_text = take (pos - 1) tail, pq_next = drop (pos + 1) input\<rparr>
                        else case scan_escaped False 0 (drop pos input) of
                               None \<Rightarrow> None
                             | Some offset \<Rightarrow>
                                 (let end = pos + offset
                                  in Some \<lparr>pq_text = take (end - 1) tail, pq_next = drop (end + 1) input\<rparr>))))"

definition skip_until_semicolon :: "memchr_api \<Rightarrow> bytes \<Rightarrow> bytes" where
  "skip_until_semicolon M input =
     (case memchr M (CHR '';'') input of Some idx \<Rightarrow> drop (idx + 1) input | None \<Rightarrow> [])"

definition parse_parameter :: "memchr_api \<Rightarrow> bytes \<Rightarrow> (bytes \<times> bytes \<times> bytes) option" where
  "parse_parameter M input0 =
     (let input = trim_ows input0
      in case memchr M (CHR ''='') input of
           None \<Rightarrow> None
         | Some equals \<Rightarrow>
             (let key = trim_ows (take equals input)
              in if key = [] then None
                 else
                   (let value_input = trim_ows (drop (equals + 1) input)
                    in if value_input \<noteq> [] \<and> hd value_input = DQUOTE
                       then (case parse_quoted M value_input of
                               None \<Rightarrow> None
                             | Some q \<Rightarrow> Some (key, pq_text q, skip_until_semicolon M (pq_next q)))
                       else (case memchr M (CHR '';'') value_input of
                               Some idx \<Rightarrow> Some (key, trim_ows (take idx value_input), drop (idx + 1) value_input)
                             | None \<Rightarrow> Some (key, trim_ows value_input, [])))))"

text \<open>
  The parameter loop. Every round that continues leaves a strictly shorter rest, so the length of
  the input bounds the number of rounds; \<open>parameter_loop_total\<close> below shows that the bound is
  never the reason to stop.
\<close>

fun parameter_loop ::
  "nat \<Rightarrow> memchr_api \<Rightarrow> bytes \<Rightarrow> bytes option \<Rightarrow> bytes option \<Rightarrow> content_disposition option" where
  "parameter_loop 0 M rest name file_name = None"
| "parameter_loop (Suc fuel) M rest name file_name =
     (if trim_ows rest = [] then Some \<lparr>cd_name = name, cd_file_name = file_name\<rparr>
      else case parse_parameter M rest of
             None \<Rightarrow> Some \<lparr>cd_name = name, cd_file_name = file_name\<rparr>
           | Some (key, parsed_value, nxt) \<Rightarrow>
               (if name = None \<and> eq_ignore_ascii_case key ''name''
                then parameter_loop fuel M nxt (Some parsed_value) file_name
                else if file_name = None \<and> eq_ignore_ascii_case key ''filename''
                then parameter_loop fuel M nxt name (Some parsed_value)
                else parameter_loop fuel M nxt name file_name))"

definition parse_content_disposition :: "memchr_api \<Rightarrow> bytes \<Rightarrow> content_disposition option" where
  "parse_content_disposition M value =
     (let input = trim_ows value;
          semicolon = memchr M (CHR '';'') input;
          disposition = (case semicolon of Some idx \<Rightarrow> trim_ows (take idx input) | None \<Rightarrow> input)
      in if \<not> eq_ignore_ascii_case disposition ''form-data'' then None
         else case semicolon of
                None \<Rightarrow> Some \<lparr>cd_name = None, cd_file_name = None\<rparr>
              | Some idx \<Rightarrow>
                  (let rest = drop (idx + 1) input
                   in parameter_loop (length rest + 1) M rest None None))"

subsection \<open>Positions stay inside the block\<close>

definition span_within :: "nat \<Rightarrow> header_span \<Rightarrow> bool" where
  "span_within L sp \<longleftrightarrow> snd (span_name sp) \<le> L \<and> snd (span_value sp) \<le> L \<and>
     fst (span_name sp) \<le> snd (span_name sp) \<and> fst (span_value sp) \<le> snd (span_value sp)"

definition block_within :: "nat \<Rightarrow> header_block \<Rightarrow> bool" where
  "block_within L hb \<longleftrightarrow> length (spans hb) \<le> MAX_HEADERS \<and> list_all (span_within L) (spans hb) \<and> data_start hb \<le> L"

lemma trimmed_within: "length (takeWhile is_ows v) + length (trim_ows v) \<le> length v"
proof -
  have "length (trim_ows v) \<le> length (dropWhile is_ows v)"
    by (simp add: trim_ows_eq) (metis length_dropWhile_le length_rev)
  then show ?thesis
    by (metis add_left_mono length_append takeWhile_dropWhile_id)
qed

lemma try_push_within:
  "list_all (span_within L) v \<Longrightarrow> span_within L x \<Longrightarrow> list_all (span_within L) (try_push v x)"
  by (simp add: try_push_def)

lemma length_try_push: "length v \<le> MAX_HEADERS \<Longrightarrow> length (try_push v x) \<le> MAX_HEADERS"
  by (simp add: try_push_def)

lemma fallback_loop_within:
  "fallback_loop memchr_ref off rest v = Inr v' \<Longrightarrow> off + length rest \<le> L \<Longrightarrow>
     list_all (span_within L) v \<Longrightarrow> length v \<le> MAX_HEADERS \<Longrightarrow>
     list_all (span_within L) v' \<and> length v' \<le> MAX_HEADERS"
proof (induction "length rest" arbitrary: off rest v rule: less_induct)
  case less
  note step = less.prems(1) [unfolded fallback_loop.simps [of memchr_ref off rest v]]
  show ?case
  proof (cases "rest = [] \<or> \<not> length v < MAX_HEADERS")
    case True
    with step less.prems show ?thesis by simp
  next
    case False
    obtain line next_off next_rest where cut:
      "(case find_sub rest CRLF of
          Some line_end \<Rightarrow> (take line_end rest, off + line_end + 2, drop (line_end + 2) rest)
        | None \<Rightarrow> (rest, 0, [])) = (line, next_off, next_rest)"
      by (rule prod_cases3)
    have line: "length line \<le> length rest" and shorter: "length next_rest < length rest"
      and within: "next_off + length next_rest \<le> L"
      using cut False less.prems(2) by (auto split: option.splits dest: find_sub_bound)
    have "find_index (\<lambda>x. x = CHR '':'') line \<noteq> None"
      using step False cut by (cases "find_index (\<lambda>x. x = CHR '':'') line") auto
    then obtain colon where colon: "find_index (\<lambda>x. x = CHR '':'') line = Some colon" by blast
    then have colon_lt: "colon < length line" by (simp add: find_index_Some)
    let ?raw = "drop (colon + 1) line"
    let ?vs = "off + colon + 1 + length (takeWhile is_ows ?raw)"
    let ?sp = "\<lparr>span_name = (off, off + colon), span_value = (?vs, ?vs + length (trim_ows ?raw))\<rparr>"
    have rec: "fallback_loop memchr_ref next_off next_rest (try_push v ?sp) = Inr v'"
      using step False cut colon by (auto simp: Let_def split: if_splits)
    have "span_within L ?sp"
      using trimmed_within [of ?raw] colon_lt line less.prems(2) by (simp add: span_within_def)
    then show ?thesis
      using less.hyps [OF shorter rec within] less.prems(3,4) try_push_within length_try_push by blast
  qed
qed

lemma fallback_within:
  assumes "parse_header_block_fallback memchr_ref block = Inr hb"
  shows "block_within (length block) hb \<and> data_start hb = length block"
proof -
  have suf: "suffix (CRLF @ CRLF) block"
    using assms by (auto simp: parse_header_block_fallback_def split: if_splits)
  then have len: "4 \<le> length block" by (auto simp: suffix_def)
  from assms suf obtain v where v: "fallback_loop memchr_ref 0 (take (length block - 4) block) [] = Inr v"
    and hb: "hb = \<lparr>spans = v, next_span = 0, data_start = length block - 4 + 4\<rparr>"
    by (auto simp: parse_header_block_fallback_def Let_def split: sum.splits)
  from fallback_loop_within [OF v, of "length block"] hb len show ?thesis
    by (simp add: block_within_def)
qed

subsection \<open>What the parser relies on httparse for\<close>

text \<open>
  The documented contract of \<^verbatim>\<open>httparse::parse_headers\<close>: the reported fields are slices of the block,
  at most as many as there was room for, and on completion the offset is the first byte after the
  blank line that ends the headers. The crate also takes a line feed without a carriage return for a
  line end, so the last law is only about blocks that have none.
\<close>

definition no_bare_lf :: "bytes \<Rightarrow> bool" where
  "no_bare_lf w \<longleftrightarrow> (\<forall>i < length w. w ! i = LF \<longrightarrow> 0 < i \<and> w ! (i - 1) = CR)"

locale httparse_contract =
  fixes H :: httparse_api
  assumes complete_slices: "H block = Complete ds parsed \<Longrightarrow>
      length parsed \<le> MAX_HEADERS \<and> ds \<le> length block \<and>
      list_all (\<lambda>((ns, nl), (vs, vl)). ns + nl \<le> length block \<and> vs + vl \<le> length block) parsed"
    and complete_blank: "H block = Complete ds parsed \<Longrightarrow> no_bare_lf block \<Longrightarrow> \<not> prefix CRLF block \<Longrightarrow>
      find_sub block (CRLF @ CRLF) = Some (length block - 4) \<Longrightarrow> ds = length block"
    and complete_empty: "H CRLF = Complete 2 []"
begin

lemma push_parsed_within:
  "list_all (\<lambda>((ns, nl), (vs, vl)). ns + nl \<le> L \<and> vs + vl \<le> L) parsed \<Longrightarrow>
     list_all (span_within L) v \<Longrightarrow> length v \<le> MAX_HEADERS \<Longrightarrow>
     list_all (span_within L) (push_parsed parsed v) \<and> length (push_parsed parsed v) \<le> MAX_HEADERS"
  by (induction parsed v rule: push_parsed.induct)
    (simp_all add: span_within_def try_push_within length_try_push)

text \<open>Every header the parser hands out and the split at the data stay inside the block it read.\<close>

lemma header_block_within:
  assumes "parse_header_block memchr_ref H block = Inr hb"
  shows "block_within (length block) hb"
proof (cases "H block")
  case (Complete ds parsed)
  with assms complete_slices [OF Complete] push_parsed_within [of "length block" parsed "[]"]
  show ?thesis by (auto simp: parse_header_block_def block_within_def)
next
  case TooManyHeaders
  with assms fallback_within show ?thesis by (simp add: parse_header_block_def)
qed (use assms in \<open>simp_all add: parse_header_block_def\<close>)

lemma header_block_data_start:
  assumes "parse_header_block memchr_ref H block = Inr hb"
    and "no_bare_lf block"
    and "block = CRLF \<or> (\<not> prefix CRLF block \<and> find_sub block (CRLF @ CRLF) = Some (length block - 4))"
  shows "data_start hb = length block"
proof (cases "block = CRLF")
  case True
  with assms complete_empty show ?thesis by (auto simp: parse_header_block_def)
next
  case False
  with assms complete_blank [of block] fallback_within [of block hb] show ?thesis
    by (auto simp: parse_header_block_def split: httparse_outcome.splits)
qed

end

text \<open>A strict reader of header fields that meets the contract.\<close>

definition is_tchar :: "byte \<Rightarrow> bool" where
  "is_tchar b \<longleftrightarrow> is_ascii_alphanumeric b \<or> b \<in> set ''!#$%&*+-.^_`|~'' \<or> b = CHR 0x27"

function strict_fields :: "nat \<Rightarrow> bytes \<Rightarrow> ((nat \<times> nat) \<times> (nat \<times> nat)) list \<Rightarrow> httparse_outcome" where
  "strict_fields off rest acc =
     (if prefix CRLF rest then Complete (off + 2) acc
      else case find_sub rest CRLF of
             None \<Rightarrow> Partial
           | Some n \<Rightarrow>
               (let line = take n rest; name = takeWhile is_tchar line; raw = drop (length name + 1) line
                in if name = [] \<or> \<not> prefix (name @ '':'') line then HttparseError
                   else if length acc = MAX_HEADERS then TooManyHeaders
                   else strict_fields (off + n + 2) (drop (n + 2) rest)
                          (acc @ [((off, length name),
                                   (off + length name + 1 + length (takeWhile is_ows raw), length (trim_ows raw)))])))"
  by pat_completeness auto
termination
  by (relation "measure (\<lambda>(off, rest, acc). length rest)") (auto dest: find_sub_bound)

declare strict_fields.simps [simp del]

definition strict_httparse :: httparse_api where
  "strict_httparse block = strict_fields 0 block []"

abbreviation field_within :: "nat \<Rightarrow> (nat \<times> nat) \<times> (nat \<times> nat) \<Rightarrow> bool" where
  "field_within L \<equiv> \<lambda>((ns, nl), (vs, vl)). ns + nl \<le> L \<and> vs + vl \<le> L"

lemma strict_fields_complete:
  "strict_fields off rest acc = Complete ds parsed \<Longrightarrow> block = pre @ rest \<Longrightarrow> length pre = off \<Longrightarrow>
     pre = [] \<or> suffix CRLF pre \<Longrightarrow> list_all (field_within (length block)) acc \<Longrightarrow> length acc \<le> MAX_HEADERS \<Longrightarrow>
     list_all (field_within (length block)) parsed \<and> length parsed \<le> MAX_HEADERS \<and>
     (\<exists>a b. block = a @ CRLF @ b \<and> ds = length a + 2 \<and> (a = [] \<or> suffix CRLF a))"
proof (induction "length rest" arbitrary: off rest acc pre rule: less_induct)
  case less
  note step = less.prems(1) [unfolded strict_fields.simps [of off rest acc]]
  show ?case
  proof (cases "prefix CRLF rest")
    case True
    then obtain zs where "rest = CRLF @ zs" by (auto elim: prefixE)
    with less.prems step True show ?thesis by (intro conjI exI [of _ pre] exI [of _ zs]) auto
  next
    case False
    then obtain n where n: "find_sub rest CRLF = Some n"
      using step by (cases "find_sub rest CRLF") auto
    let ?line = "take n rest" and ?name = "takeWhile is_tchar (take n rest)"
    let ?raw = "drop (length ?name + 1) ?line"
    let ?f = "((off, length ?name), (off + length ?name + 1 + length (takeWhile is_ows ?raw), length (trim_ows ?raw)))"
    have bound: "n + 2 \<le> length rest" using find_sub_bound [OF n] by simp
    have checks: "?name \<noteq> []" "prefix (?name @ '':'') ?line" "length acc \<noteq> MAX_HEADERS"
      and rec: "strict_fields (off + n + 2) (drop (n + 2) rest) (acc @ [?f]) = Complete ds parsed"
      using step False n by (auto simp: Let_def split: if_splits)
    have "length ?name + 1 \<le> length ?line"
      using prefix_length_le [OF checks(2)] by simp
    then have field: "field_within (length block) ?f"
      using trimmed_within [of ?raw] bound less.prems(2,3) by (simp add: min_def)
    have cut: "rest = (take n rest @ CRLF) @ drop (n + 2) rest"
    proof -
      from n have "occurs_at CRLF rest n" by (simp add: find_sub_Some)
      then obtain a b where "rest = a @ CRLF @ b" "length a = n" by (auto simp: occurs_at_iff)
      then show ?thesis by simp
    qed
    show ?thesis
    proof (rule less.hyps [OF _ rec, where pre = "pre @ take n rest @ CRLF"])
      show "block = (pre @ take n rest @ CRLF) @ drop (n + 2) rest"
        using less.prems(2) cut by simp
      show "pre @ take n rest @ CRLF = [] \<or> suffix CRLF (pre @ take n rest @ CRLF)"
        by (simp add: suffix_def)
    qed (use bound less.prems field checks(3) in auto)
  qed
qed

interpretation strict_fields: httparse_contract strict_httparse
proof
  fix block ds parsed
  assume c: "strict_httparse block = Complete ds parsed"
  from strict_fields_complete [OF c [unfolded strict_httparse_def], of block "[]"]
  obtain a b where list: "list_all (field_within (length block)) parsed" "length parsed \<le> MAX_HEADERS"
    and block: "block = a @ CRLF @ b" and ds: "ds = length a + 2" and a: "a = [] \<or> suffix CRLF a"
    by auto
  show "length parsed \<le> MAX_HEADERS \<and> ds \<le> length block \<and> list_all (field_within (length block)) parsed"
    using list block ds by simp
  assume np: "\<not> prefix CRLF block" and first: "find_sub block (CRLF @ CRLF) = Some (length block - 4)"
  from np block a obtain a' where "a = a' @ CRLF" by (cases "a = []") (auto simp: suffix_def)
  with block have "occurs_at (CRLF @ CRLF) block (length a')" by (auto simp: occurs_at_iff)
  with first have "length block - 4 \<le> length a'" by (auto simp: find_sub_Some not_less [symmetric])
  with block ds \<open>a = a' @ CRLF\<close> show "ds = length block" by simp
next
  show "strict_httparse CRLF = Complete 2 []"
    by (simp add: strict_httparse_def strict_fields.simps)
qed

subsection \<open>The Content-Disposition parser stops and slices\<close>

lemma sublist_trim_ows: "sublist (trim_ows v) v"
  using trim_ows_decomp [of v] by (metis sublist_appendI)

lemma sublist_take_drop: "sublist (take n (drop m v)) v"
  by (meson sublist_drop sublist_order.order_trans sublist_take)

lemma parse_quoted_slices:
  assumes "parse_quoted memchr_ref input = Some q"
  shows "sublist (pq_text q) input \<and> sublist (pq_next q) input \<and> length (pq_next q) < length input"
proof -
  from assms obtain first tail where input: "input = first # tail"
    by (auto simp: parse_quoted_def split: list.splits)
  from assms obtain n m where "q = \<lparr>pq_text = take n tail, pq_next = drop (m + 1) input\<rparr>"
    by (auto simp: parse_quoted_def input Let_def split: if_splits option.splits)
  moreover have "sublist (take n tail) input"
    using sublist_take_drop [of n 1 input] by (simp add: input)
  ultimately show ?thesis using sublist_drop [of "m + 1" input] by (auto simp: input)
qed

lemma skip_until_semicolon_slice:
  "sublist (skip_until_semicolon memchr_ref input) input \<and>
   length (skip_until_semicolon memchr_ref input) \<le> length input"
  by (auto simp: skip_until_semicolon_def split: option.splits)

lemma parse_parameter_slices:
  assumes "parse_parameter memchr_ref input = Some (key, val, nxt)"
  shows "sublist val input \<and> sublist nxt input \<and> length nxt < length input"
proof -
  let ?in = "trim_ows input"
  from assms obtain equals where eq: "find_index (\<lambda>x. x = CHR ''='') ?in = Some equals"
    by (auto simp: parse_parameter_def Let_def split: option.splits)
  let ?vi = "trim_ows (drop (equals + 1) ?in)"
  have eq_lt: "equals < length ?in" using eq by (simp add: find_index_Some)
  have vi: "sublist ?vi input"
    by (meson sublist_drop sublist_order.order_trans sublist_trim_ows)
  have shorter: "length ?vi < length input"
    using length_trim_ows [of "drop (equals + 1) ?in"] length_trim_ows [of input] eq_lt by simp
  have "sublist val ?vi \<and> sublist nxt ?vi \<and> length nxt \<le> length ?vi"
  proof (cases "?vi \<noteq> [] \<and> hd ?vi = DQUOTE")
    case True
    with assms eq obtain q where q: "parse_quoted memchr_ref ?vi = Some q"
      and out: "val = pq_text q" "nxt = skip_until_semicolon memchr_ref (pq_next q)"
      by (auto simp: parse_parameter_def Let_def split: option.splits if_splits)
    from parse_quoted_slices [OF q] skip_until_semicolon_slice [of "pq_next q"] show ?thesis
      by (auto simp: out intro: sublist_order.order_trans)
  next
    case False
    with assms eq show ?thesis
      by (auto simp: parse_parameter_def Let_def sublist_trim_ows
          intro: sublist_order.order_trans [OF sublist_trim_ows] split: option.splits if_splits)
  qed
  with vi shorter show ?thesis by (meson le_less_trans sublist_order.order_trans)
qed

lemma parameter_loop_total:
  "length rest < fuel \<Longrightarrow> \<exists>cd. parameter_loop fuel memchr_ref rest name file_name = Some cd"
proof (induction fuel arbitrary: rest name file_name)
  case (Suc fuel)
  show ?case
  proof (cases "parse_parameter memchr_ref rest")
    case (Some p)
    obtain key val nxt where p: "p = (key, val, nxt)" by (rule prod_cases3)
    with Some parse_parameter_slices [of rest key val nxt] Suc.prems have "length nxt < fuel" by simp
    with Suc.IH Some p show ?thesis by auto
  qed (use Suc in simp)
qed simp

lemma parameter_loop_slices:
  "parameter_loop fuel memchr_ref rest name file_name = Some cd \<Longrightarrow> sublist rest v \<Longrightarrow>
     (\<forall>n. name = Some n \<longrightarrow> sublist n v) \<Longrightarrow> (\<forall>n. file_name = Some n \<longrightarrow> sublist n v) \<Longrightarrow>
     (\<forall>n. cd_name cd = Some n \<longrightarrow> sublist n v) \<and> (\<forall>n. cd_file_name cd = Some n \<longrightarrow> sublist n v)"
proof (induction fuel arbitrary: rest name file_name)
  case (Suc fuel)
  show ?case
  proof (cases "trim_ows rest = [] \<or> parse_parameter memchr_ref rest = None")
    case True
    then have "cd = \<lparr>cd_name = name, cd_file_name = file_name\<rparr>"
      using Suc.prems(1) by (auto split: option.splits if_splits)
    with Suc.prems show ?thesis by simp
  next
    case False
    then obtain key val nxt where p: "parse_parameter memchr_ref rest = Some (key, val, nxt)"
      by (auto simp: not_None_eq)
    with parse_parameter_slices [OF p] Suc.prems(2) have "sublist val v" and nxt: "sublist nxt v"
      by (auto intro: sublist_order.order_trans)
    with False p Suc.prems obtain nm fn where rec: "parameter_loop fuel memchr_ref nxt nm fn = Some cd"
      and "\<forall>n. nm = Some n \<longrightarrow> sublist n v" and "\<forall>n. fn = Some n \<longrightarrow> sublist n v"
      by (simp split: if_splits)
    then show ?thesis by (intro Suc.IH [OF rec nxt])
  qed
qed simp

end
