(* ===== verification/Multipart_Machine.thy ===== *)
theory Multipart_Machine
  imports Multipart_Buffer Multipart_Header
begin

text \<open>
  The multipart parser: the state machine of \<^verbatim>\<open>multipart.rs\<close>, the header stage of \<^verbatim>\<open>header.rs\<close>, the
  part view of \<^verbatim>\<open>part.rs\<close>, and the self-contained streams of \<^verbatim>\<open>part_data_stream.rs\<close> and
  \<^verbatim>\<open>final_part_data_stream.rs\<close>. Every operation is a function from the state to the poll outcome and
  the new state; \<open>try_ready\<close> is the \<^verbatim>\<open>ready!(...?)\<close> of the code.
\<close>

subsection \<open>Sequencing of polls\<close>

definition try_ready ::
  "(mp_error + 'a) poll \<times> 's \<Rightarrow> ('a \<Rightarrow> 's \<Rightarrow> (mp_error + 'b) poll \<times> 's) \<Rightarrow> (mp_error + 'b) poll \<times> 's" where
  "try_ready x k =
     (case x of
        (Pending, s) \<Rightarrow> (Pending, s)
      | (Ready (Inl e), s) \<Rightarrow> (Ready (Inl e), s)
      | (Ready (Inr a), s) \<Rightarrow> k a s)"

lemma try_ready_simps [simp]:
  "try_ready (Pending, s) k = (Pending, s)"
  "try_ready (Ready (Inl e), s) k = (Ready (Inl e), s)"
  "try_ready (Ready (Inr a), s) k = k a s"
  by (simp_all add: try_ready_def)

lemma try_ready_cong [fundef_cong]:
  "x = y \<Longrightarrow> (\<And>a s. y = (Ready (Inr a), s) \<Longrightarrow> k a s = k' a s) \<Longrightarrow> try_ready x k = try_ready y k'"
  by (auto simp: try_ready_def split: prod.splits poll.splits sum.splits)

subsection \<open>Steps on the buffer\<close>

function ensure_buf_len :: "nat \<Rightarrow> stream_buffer \<Rightarrow> (mp_error + unit) poll \<times> stream_buffer" where
  "ensure_buf_len len b =
     (if length (buf b) < len then
        (case poll_stream b of
           (Pending, b1) \<Rightarrow> (Pending, b1)
         | (Ready (Some (Inr chunk)), b1) \<Rightarrow> ensure_buf_len len (b1\<lparr>buf := buf b1 @ chunk\<rparr>)
         | (Ready (Some (Inl err)), b1) \<Rightarrow> (Ready (Inl err), b1)
         | (Ready None, b1) \<Rightarrow> (Ready (Inl IncompleteStream), b1))
      else (Ready (Inr ()), b))"
  by pat_completeness auto
termination
  by (relation "measure (\<lambda>(len, b). events_left b)") (auto dest!: sym [THEN poll_stream_events])

declare ensure_buf_len.simps [simp del]

definition consume_crlf :: "stream_buffer \<Rightarrow> (mp_error + unit) poll \<times> stream_buffer" where
  "consume_crlf b =
     try_ready (ensure_buf_len 2 b) (\<lambda>_ b1.
       if take 2 (buf b1) \<noteq> CRLF then (Ready (Inl InvalidFormat), b1)
       else (Ready (Inr ()), b1\<lparr>buf := drop 2 (buf b1)\<rparr>))"

lemma ensure_buf_len_upcoming:
  "ensure_buf_len len b = (Ready (Inr u), b') \<Longrightarrow> upcoming b' = upcoming b \<and> len \<le> length (buf b')"
proof (induction "events_left b" arbitrary: b rule: less_induct)
  case less
  note step = less.prems [unfolded ensure_buf_len.simps [of len b]]
  show ?case
  proof (cases "length (buf b) < len")
    case True
    with step obtain c b1 where p: "poll_stream b = (Ready (Some (Inr c)), b1)"
      and rec: "ensure_buf_len len (b1\<lparr>buf := buf b1 @ c\<rparr>) = (Ready (Inr u), b')"
      by (auto split: prod.splits poll.splits option.splits sum.splits)
    have ev: "events_left (b1\<lparr>buf := buf b1 @ c\<rparr>) < events_left b"
      using poll_stream_events [OF p] by simp
    from less.hyps [OF ev rec] poll_stream_view(1,2) [OF p] show ?thesis
      by (simp add: upcoming_def)
  qed (use step in simp)
qed

function consume_padding_and_crlf :: "stream_buffer \<Rightarrow> (mp_error + unit) poll \<times> stream_buffer" where
  "consume_padding_and_crlf b =
     try_ready (ensure_buf_len 1 b) (\<lambda>_ b1.
       if hd (buf b1) = CR then consume_crlf b1
       else if \<not> is_ows (hd (buf b1)) then (Ready (Inl InvalidFormat), b1)
       else consume_padding_and_crlf (b1\<lparr>buf := drop (length (takeWhile is_ows (buf b1))) (buf b1)\<rparr>))"
  by pat_completeness auto
termination
proof (relation "measure (\<lambda>b. length (upcoming b))")
  fix b u b1
  assume "ensure_buf_len 1 b = (Ready (Inr u), b1)" and ows: "\<not> \<not> is_ows (hd (buf b1))"
  then have up: "upcoming b1 = upcoming b" and ne: "buf b1 \<noteq> []"
    using ensure_buf_len_upcoming [of 1 b u b1] by auto
  let ?n = "length (takeWhile is_ows (buf b1))"
  from ows ne have "0 < ?n" by (cases "buf b1") auto
  moreover have "?n \<le> length (buf b1)" by (rule length_takeWhile_le)
  moreover have "length (upcoming b) = length (buf b1) + length (concat (fst (sview b1)))"
    using up by (metis length_append upcoming_def)
  ultimately show "(b1\<lparr>buf := drop ?n (buf b1)\<rparr>, b) \<in> measure (\<lambda>b. length (upcoming b))"
    unfolding in_measure upcoming_update length_append length_drop by linarith
qed simp

declare consume_padding_and_crlf.simps [simp del]

datatype mp_state =
    FindingFirstBoundary
  | ReadingPartHeaders
  | ReadingPartData
  | ReadingBoundary
  | ReadingClosingDelimiter
  | ReadingEpilogue
  | Done
  | StreamTaken

definition after_boundary :: "stream_buffer \<Rightarrow> (mp_error + mp_state) poll \<times> stream_buffer" where
  "after_boundary b =
     try_ready (ensure_buf_len 1 b) (\<lambda>_ b1.
       if hd (buf b1) = CHR ''-'' then
         try_ready (ensure_buf_len 2 b1) (\<lambda>_ b2.
           if take 2 (buf b2) \<noteq> ''--'' then (Ready (Inl InvalidFormat), b2)
           else (Ready (Inr ReadingClosingDelimiter), b2\<lparr>buf := drop 2 (buf b2)\<rparr>))
       else if is_ows (hd (buf b1)) then
         try_ready (consume_padding_and_crlf b1) (\<lambda>_ b2. (Ready (Inr ReadingPartHeaders), b2))
       else if hd (buf b1) = CR then
         try_ready (consume_crlf b1) (\<lambda>_ b2. (Ready (Inr ReadingPartHeaders), b2))
       else (Ready (Inl InvalidFormat), b1))"

text \<open>
  The search for the delimiter in part data, which \<^verbatim>\<open>Multipart\<close>, \<^verbatim>\<open>PartDataStream\<close> and
  \<^verbatim>\<open>FinalPartDataStream\<close> each carry in the same words and differ in only what they record when it
  ends: the delimiter was found after some last data, data was emitted, or the input failed or ended.
\<close>

datatype scan_outcome = ScanFound bytes | ScanData bytes | ScanErr mp_error | ScanEof

function scan_data :: "memchr_api \<Rightarrow> bytes \<Rightarrow> stream_buffer \<Rightarrow> scan_outcome poll \<times> stream_buffer" where
  "scan_data M delim b =
     (case (if buf b \<noteq> [] then search_data M (buf b) delim else KeepAll) of
        Found index \<Rightarrow> (Ready (ScanFound (take index (buf b))), b\<lparr>buf := drop (length delim) (drop index (buf b))\<rparr>)
      | Emit end \<Rightarrow> (Ready (ScanData (take end (buf b))), b\<lparr>buf := drop end (buf b)\<rparr>)
      | KeepAll \<Rightarrow>
          (case poll_stream b of
             (Pending, b1) \<Rightarrow> (Pending, b1)
           | (Ready (Some (Inr chunk)), b1) \<Rightarrow>
               (if buf b1 \<noteq> [] then scan_data M delim (b1\<lparr>buf := buf b1 @ chunk\<rparr>)
                else (case search_data M chunk delim of
                    Found index \<Rightarrow> (Ready (ScanFound (take index chunk)), b1\<lparr>buf := drop (index + length delim) chunk\<rparr>)
                  | Emit end \<Rightarrow> (Ready (ScanData (take end chunk)), b1\<lparr>buf := buf b1 @ drop end chunk\<rparr>)
                  | KeepAll \<Rightarrow> scan_data M delim (b1\<lparr>buf := buf b1 @ chunk\<rparr>)))
           | (Ready (Some (Inl err)), b1) \<Rightarrow> (Ready (ScanErr err), b1)
           | (Ready None, b1) \<Rightarrow> (Ready ScanEof, b1)))"
  by pat_completeness auto
termination
  by (relation "measure (\<lambda>(M, delim, b). events_left b)") (auto dest!: sym [THEN poll_stream_events])

declare scan_data.simps [simp del]

subsection \<open>The parser\<close>

record multipart =
  mp_buffer :: "stream_buffer option"
  first_boundary :: bytes
  delimiter_finder :: "bytes option"
  max_buffer_size :: nat
  mp_state :: mp_state
  headers :: "header_block option"
  part_handed_out :: bool

definition Multipart_new :: "stream_event list \<Rightarrow> boundary \<Rightarrow> nat \<Rightarrow> multipart" where
  "Multipart_new s bd mx =
     \<lparr>mp_buffer = Some (StreamBuffer_new s),
      first_boundary = make_first_boundary (boundary_bytes bd),
      delimiter_finder = Some (make_delimiter (boundary_bytes bd)),
      max_buffer_size = mx, mp_state = FindingFirstBoundary, headers = None, part_handed_out = False\<rparr>"

text \<open>A step that runs on the buffer, or the guard for a parser whose buffer was taken.\<close>

definition on_buffer ::
  "(stream_buffer \<Rightarrow> (mp_error + 'a) poll \<times> stream_buffer) \<Rightarrow> multipart \<Rightarrow> (mp_error + 'a) poll \<times> multipart" where
  "on_buffer f m =
     (case mp_buffer m of
        None \<Rightarrow> (Ready (Inl StreamAlreadyTaken), m)
      | Some b \<Rightarrow> (case f b of (r, b') \<Rightarrow> (r, m\<lparr>mp_buffer := Some b'\<rparr>)))"

definition poll_advance_first_boundary :: "memchr_api \<Rightarrow> multipart \<Rightarrow> (mp_error + unit) poll \<times> multipart" where
  "poll_advance_first_boundary M m =
     try_ready (on_buffer (poll_read_to M (first_boundary m)) m)
       (\<lambda>_ m1. (Ready (Inr ()), m1\<lparr>mp_state := ReadingBoundary\<rparr>))"

definition poll_advance_after_boundary :: "multipart \<Rightarrow> (mp_error + unit) poll \<times> multipart" where
  "poll_advance_after_boundary m =
     try_ready (on_buffer after_boundary m) (\<lambda>st m1. (Ready (Inr ()), m1\<lparr>mp_state := st\<rparr>))"

definition poll_advance_closing :: "multipart \<Rightarrow> (mp_error + unit) poll \<times> multipart" where
  "poll_advance_closing m =
     try_ready (on_buffer consume_padding_and_crlf m)
       (\<lambda>_ m1. (Ready (Inr ()), m1\<lparr>mp_state := ReadingEpilogue\<rparr>))"

definition poll_epilogue :: "multipart \<Rightarrow> (mp_error + unit) poll \<times> multipart" where
  "poll_epilogue m =
     try_ready
       (on_buffer (\<lambda>b.
          if buf b \<noteq> [] then (Ready (Inl StreamPartNotLast), b)
          else (case poll_stream b of
              (Pending, b1) \<Rightarrow> (Pending, b1)
            | (Ready None, b1) \<Rightarrow> (Ready (Inr ()), b1)
            | (Ready (Some (Inr _)), b1) \<Rightarrow> (Ready (Inl StreamPartNotLast), b1)
            | (Ready (Some (Inl err)), b1) \<Rightarrow> (Ready (Inl err), b1))) m)
       (\<lambda>_ m1. (Ready (Inr ()), m1\<lparr>mp_state := Done\<rparr>))"

definition poll_next_part_data_chunk ::
  "memchr_api \<Rightarrow> multipart \<Rightarrow> (mp_error + bytes option) poll \<times> multipart" where
  "poll_next_part_data_chunk M m =
     (if mp_state m \<noteq> ReadingPartData then (Ready (Inr None), m)
      else (case delimiter_finder m of
          None \<Rightarrow> (Ready (Inr None), m)
        | Some delim \<Rightarrow>
            (case mp_buffer m of
               None \<Rightarrow> (Ready (Inl StreamAlreadyTaken), m)
             | Some b \<Rightarrow>
                 (case scan_data M delim b of
                    (Pending, b1) \<Rightarrow> (Pending, m\<lparr>mp_buffer := Some b1\<rparr>)
                  | (Ready (ScanFound data), b1) \<Rightarrow>
                      (Ready (Inr (if data = [] then None else Some data)),
                       m\<lparr>mp_buffer := Some b1, mp_state := ReadingBoundary\<rparr>)
                  | (Ready (ScanData data), b1) \<Rightarrow> (Ready (Inr (Some data)), m\<lparr>mp_buffer := Some b1\<rparr>)
                  | (Ready (ScanErr err), b1) \<Rightarrow> (Ready (Inl err), m\<lparr>mp_buffer := Some b1\<rparr>)
                  | (Ready ScanEof, b1) \<Rightarrow> (Ready (Inl IncompleteStream), m\<lparr>mp_buffer := Some b1\<rparr>)))))"

definition finish_headers :: "multipart \<Rightarrow> multipart" where
  "finish_headers m =
     (case headers m of
        None \<Rightarrow> m
      | Some block \<Rightarrow>
          (let m1 = m\<lparr>headers := None\<rparr>;
               m2 = (if mp_state m1 = ReadingPartHeaders
                     then m1\<lparr>mp_buffer := map_option (\<lambda>b. b\<lparr>buf := drop (data_start block) (buf b)\<rparr>) (mp_buffer m1),
                             mp_state := ReadingPartData\<rparr>
                     else m1)
           in m2\<lparr>part_handed_out := False\<rparr>))"

definition poll_ensure_headers ::
  "memchr_api \<Rightarrow> httparse_api \<Rightarrow> multipart \<Rightarrow> (mp_error + unit) poll \<times> multipart" where
  "poll_ensure_headers M H m =
     (if headers m \<noteq> None \<or> mp_state m = ReadingPartData then (Ready (Inr ()), m)
      else if mp_state m \<noteq> ReadingPartHeaders then (Ready (Inr ()), m)
      else
        try_ready (on_buffer (poll_read_header_block M (max_buffer_size m)) m) (\<lambda>end m1.
          case mp_buffer m1 of
            None \<Rightarrow> (Ready (Inl StreamAlreadyTaken), m1)
          | Some b \<Rightarrow>
              (case parse_header_block M H (take end (buf b)) of
                 Inr block \<Rightarrow> (Ready (Inr ()), m1\<lparr>headers := Some block\<rparr>)
               | Inl err \<Rightarrow> (Ready (Inl err), m1))))"

definition next_header_inner :: "multipart \<Rightarrow> (mp_error + (bytes \<times> bytes) option) \<times> multipart" where
  "next_header_inner m =
     (case headers m of
        None \<Rightarrow> (Inr None, m)
      | Some block \<Rightarrow>
          (if next_span block < length (spans block) then
             (let span = spans block ! next_span block;
                  m1 = m\<lparr>headers := Some (block\<lparr>next_span := next_span block + 1\<rparr>)\<rparr>
              in case mp_buffer m1 of
                   None \<Rightarrow> (Inl StreamAlreadyTaken, m1)
                 | Some b \<Rightarrow>
                     (let get = (\<lambda>(i, j). if i \<le> j \<and> j \<le> length (buf b) then Some (drop i (take j (buf b))) else None)
                      in case (get (span_name span), get (span_value span)) of
                           (Some name, Some val) \<Rightarrow>
                             (if is_utf8 name then (Inr (Some (name, val)), m1) else (Inl InvalidFormat, m1))
                         | _ \<Rightarrow> (Inl InvalidFormat, m1)))
           else (Inr None, finish_headers m)))"

subsection \<open>Loops of the parser\<close>

text \<open>The bytes the parser has still to read: the measure of the loop that skips part data.\<close>

definition mp_left :: "multipart \<Rightarrow> nat" where
  "mp_left m = (case mp_buffer m of None \<Rightarrow> 0 | Some b \<Rightarrow> length (upcoming b))"

lemma search_data_Emit_bounds:
  "search_data M h d = Emit e \<Longrightarrow> 0 < e \<and> e \<le> length h"
  by (auto simp: search_data_def Let_def split: option.splits if_splits)

lemma scan_data_progress:
  "scan_data M d b = (Ready (ScanData x), b') \<Longrightarrow> length (upcoming b') < length (upcoming b)"
proof (induction "events_left b" arbitrary: b rule: less_induct)
  case less
  note step = less.prems [unfolded scan_data.simps [of M d b]]
  show ?case
  proof (cases "if buf b \<noteq> [] then search_data M (buf b) d else KeepAll")
    case (Emit e)
    then have "0 < e \<and> e \<le> length (buf b)"
      using search_data_Emit_bounds by (auto split: if_splits)
    with Emit step show ?thesis by (auto simp: upcoming_def)
  next
    case KeepAll
    with step obtain c b1 where p: "poll_stream b = (Ready (Some (Inr c)), b1)"
      by (auto split: prod.splits poll.splits option.splits sum.splits)
    note view = poll_stream_view(1,2) [OF p]
    have up: "length (upcoming b) = length (buf b) + length c + length (concat (fst (sview b1)))"
      using view by (simp add: upcoming_def)
    have ev: "events_left (b1\<lparr>buf := buf b1 @ c\<rparr>) < events_left b"
      using poll_stream_events [OF p] by simp
    show ?thesis
    proof (cases "scan_data M d (b1\<lparr>buf := buf b1 @ c\<rparr>) = (Ready (ScanData x), b')")
      case True
      from less.hyps [OF ev True] up view show ?thesis by simp
    next
      case False
      with step KeepAll p obtain e where e: "search_data M c d = Emit e" "buf b1 = []"
        and b': "b' = b1\<lparr>buf := buf b1 @ drop e c\<rparr>"
        by (auto split: if_splits data_search.splits)
      with up view search_data_Emit_bounds [OF e(1)] show ?thesis by simp
    qed
  qed (use step in auto)
qed

lemma poll_next_part_data_chunk_progress:
  assumes "poll_next_part_data_chunk M m = (Ready (Inr (Some data)), m')"
  shows "mp_state m = ReadingPartData \<and>
         (mp_state m' \<noteq> ReadingPartData \<or> (mp_state m' = ReadingPartData \<and> mp_left m' < mp_left m))"
  using assms
  by (auto simp: poll_next_part_data_chunk_def mp_left_def dest!: scan_data_progress
      split: if_splits option.splits prod.splits poll.splits scan_outcome.splits)

function poll_skip_part_data :: "memchr_api \<Rightarrow> multipart \<Rightarrow> (mp_error + unit) poll \<times> multipart" where
  "poll_skip_part_data M m =
     (case poll_next_part_data_chunk M m of
        (Pending, m1) \<Rightarrow> (Pending, m1)
      | (Ready (Inr (Some _)), m1) \<Rightarrow> poll_skip_part_data M m1
      | (Ready (Inr None), m1) \<Rightarrow> (Ready (Inr ()), m1)
      | (Ready (Inl err), m1) \<Rightarrow> (Ready (Inl err), m1))"
  by pat_completeness auto
termination
  by (relation "measures [\<lambda>(M, m). if mp_state m = ReadingPartData then 1 else 0, \<lambda>(M, m). mp_left m]")
    (auto dest!: sym [THEN poll_next_part_data_chunk_progress])

declare poll_skip_part_data.simps [simp del]

text \<open>What the steps do to the state and to the flag of the part handed out.\<close>

lemma on_buffer_frame:
  "on_buffer f m = (r, m') \<Longrightarrow> mp_state m' = mp_state m \<and> part_handed_out m' = part_handed_out m \<and>
     headers m' = headers m \<and> first_boundary m' = first_boundary m \<and>
     delimiter_finder m' = delimiter_finder m \<and> max_buffer_size m' = max_buffer_size m"
  by (auto simp: on_buffer_def split: option.splits prod.splits)

lemma try_ready_Ready:
  "try_ready x k = (Ready (Inr a), s') \<longleftrightarrow> (\<exists>c s. x = (Ready (Inr c), s) \<and> k c s = (Ready (Inr a), s'))"
  by (auto simp: try_ready_def split: prod.splits poll.splits sum.splits)

lemma poll_skip_part_data_flag:
  "poll_skip_part_data M m = (r, m') \<Longrightarrow> part_handed_out m' = part_handed_out m"
proof (induction M m rule: poll_skip_part_data.induct)
  case (1 M m)
  have flag: "poll_next_part_data_chunk M m = (q, m1) \<Longrightarrow> part_handed_out m1 = part_handed_out m" for q m1
    by (auto simp: poll_next_part_data_chunk_def
        split: if_splits option.splits prod.splits poll.splits scan_outcome.splits)
  show ?case
    using 1 flag by (subst (asm) (2) poll_skip_part_data.simps)
      (auto split: prod.splits poll.splits sum.splits option.splits)
qed

lemma after_boundary_state:
  "after_boundary b = (Ready (Inr st), b') \<Longrightarrow> st = ReadingClosingDelimiter \<or> st = ReadingPartHeaders"
  by (auto simp: after_boundary_def try_ready_Ready split: if_splits)

lemma step_outcomes:
  "poll_advance_first_boundary M m = (Ready (Inr u), m') \<Longrightarrow>
     mp_state m' = ReadingBoundary \<and> part_handed_out m' = part_handed_out m"
  "poll_advance_after_boundary m = (Ready (Inr u), m') \<Longrightarrow>
     (mp_state m' = ReadingClosingDelimiter \<or> mp_state m' = ReadingPartHeaders) \<and>
     part_handed_out m' = part_handed_out m"
  "poll_advance_closing m = (Ready (Inr u), m') \<Longrightarrow>
     mp_state m' = ReadingEpilogue \<and> part_handed_out m' = part_handed_out m"
  "poll_epilogue m = (Ready (Inr u), m') \<Longrightarrow>
     mp_state m' = Done \<and> part_handed_out m' = part_handed_out m"
proof -
  show "poll_advance_first_boundary M m = (Ready (Inr u), m') \<Longrightarrow>
     mp_state m' = ReadingBoundary \<and> part_handed_out m' = part_handed_out m"
    by (auto simp: poll_advance_first_boundary_def try_ready_Ready dest: on_buffer_frame)
  show "poll_advance_closing m = (Ready (Inr u), m') \<Longrightarrow>
     mp_state m' = ReadingEpilogue \<and> part_handed_out m' = part_handed_out m"
    by (auto simp: poll_advance_closing_def try_ready_Ready dest: on_buffer_frame)
  show "poll_epilogue m = (Ready (Inr u), m') \<Longrightarrow>
     mp_state m' = Done \<and> part_handed_out m' = part_handed_out m"
    by (auto simp: poll_epilogue_def try_ready_Ready dest: on_buffer_frame)
  assume "poll_advance_after_boundary m = (Ready (Inr u), m')"
  then obtain st m1 where ob: "on_buffer after_boundary m = (Ready (Inr st), m1)"
    and m': "m' = m1\<lparr>mp_state := st\<rparr>"
    by (auto simp: poll_advance_after_boundary_def try_ready_Ready)
  from ob have "st = ReadingClosingDelimiter \<or> st = ReadingPartHeaders"
    by (auto simp: on_buffer_def dest: after_boundary_state split: option.splits prod.splits)
  with m' on_buffer_frame [OF ob]
  show "(mp_state m' = ReadingClosingDelimiter \<or> mp_state m' = ReadingPartHeaders) \<and>
     part_handed_out m' = part_handed_out m" by auto
qed

lemma poll_ensure_headers_Ready:
  assumes "poll_ensure_headers M H m = (Ready (Inr u), m')" and "mp_state m = ReadingPartHeaders"
    and "headers m = None"
  obtains n m1 b block where "on_buffer (poll_read_header_block M (max_buffer_size m)) m = (Ready (Inr n), m1)"
    and "mp_buffer m1 = Some b" and "parse_header_block M H (take n (buf b)) = Inr block"
    and "m' = m1\<lparr>headers := Some block\<rparr>"
proof -
  from assms obtain n m1 where ob: "on_buffer (poll_read_header_block M (max_buffer_size m)) m = (Ready (Inr n), m1)"
    and k: "(case mp_buffer m1 of None \<Rightarrow> (Ready (Inl StreamAlreadyTaken), m1)
      | Some b \<Rightarrow> (case parse_header_block M H (take n (buf b)) of
           Inr block \<Rightarrow> (Ready (Inr ()), m1\<lparr>headers := Some block\<rparr>)
         | Inl err \<Rightarrow> (Ready (Inl err), m1))) = (Ready (Inr u), m')"
    by (auto simp: poll_ensure_headers_def try_ready_Ready)
  from k obtain b where b: "mp_buffer m1 = Some b" by (cases "mp_buffer m1") auto
  with k obtain block where "parse_header_block M H (take n (buf b)) = Inr block"
    by (cases "parse_header_block M H (take n (buf b))") auto
  with ob b k that show ?thesis by simp
qed

lemma poll_ensure_headers_Some:
  assumes "poll_ensure_headers M H m = (Ready (Inr u), m')" and "mp_state m = ReadingPartHeaders"
  shows "headers m' \<noteq> None \<and> mp_state m' = ReadingPartHeaders"
proof (cases "headers m")
  case None
  from poll_ensure_headers_Ready [OF assms None] obtain n m1 b block
    where ob: "on_buffer (poll_read_header_block M (max_buffer_size m)) m = (Ready (Inr n), m1)"
      and "m' = m1\<lparr>headers := Some block\<rparr>" by metis
  with on_buffer_frame [OF ob] assms(2) show ?thesis by simp
next
  case (Some block)
  with assms show ?thesis by (auto simp: poll_ensure_headers_def)
qed

lemma finish_headers_outcome:
  "headers m \<noteq> None \<Longrightarrow> \<not> part_handed_out (finish_headers m) \<and> headers (finish_headers m) = None"
  by (auto simp: finish_headers_def Let_def)

fun state_rank :: "mp_state \<Rightarrow> nat" where
  "state_rank ReadingPartData = 5"
| "state_rank FindingFirstBoundary = 4"
| "state_rank ReadingBoundary = 3"
| "state_rank ReadingClosingDelimiter = 2"
| "state_rank ReadingEpilogue = 1"
| "state_rank _ = 0"

text \<open>
  The state machine. A part handed out to the caller is \<open>Inr (Some ())\<close>: the part borrows the
  parser, so its state is the parser's.
\<close>

function poll_next_part ::
  "memchr_api \<Rightarrow> httparse_api \<Rightarrow> multipart \<Rightarrow> (mp_error + unit option) poll \<times> multipart" where
  "poll_next_part M H m =
     (case mp_state m of
        StreamTaken \<Rightarrow> (Ready (Inl StreamAlreadyTaken), m)
      | Done \<Rightarrow> (Ready (Inr None), m)
      | FindingFirstBoundary \<Rightarrow>
          try_ready (poll_advance_first_boundary M m) (\<lambda>_ m1. poll_next_part M H m1)
      | ReadingPartHeaders \<Rightarrow>
          (if part_handed_out m
           then try_ready (poll_ensure_headers M H m) (\<lambda>_ m1. poll_next_part M H (finish_headers m1))
           else (Ready (Inr (Some ())), m\<lparr>part_handed_out := True\<rparr>))
      | ReadingPartData \<Rightarrow>
          try_ready (poll_skip_part_data M m) (\<lambda>_ m1.
            try_ready (poll_advance_after_boundary m1) (\<lambda>_ m2. poll_next_part M H m2))
      | ReadingBoundary \<Rightarrow>
          try_ready (poll_advance_after_boundary m) (\<lambda>_ m1. poll_next_part M H m1)
      | ReadingClosingDelimiter \<Rightarrow>
          try_ready (poll_advance_closing m) (\<lambda>_ m1. poll_next_part M H m1)
      | ReadingEpilogue \<Rightarrow>
          try_ready (poll_epilogue m) (\<lambda>_ m1. poll_next_part M H m1))"
  by pat_completeness auto
termination
  by (relation "measures [\<lambda>(M, H, m). if part_handed_out m then 1 else 0, \<lambda>(M, H, m). state_rank (mp_state m)]")
    (auto dest!: step_outcomes poll_skip_part_data_flag
      dest: poll_ensure_headers_Some [THEN conjunct1, THEN finish_headers_outcome])

declare poll_next_part.simps [simp del]

end
