(* ===== verification/Multipart_Streams.thy ===== *)
theory Multipart_Streams
  imports Multipart_Machine
begin

text \<open>
  The part view (\<^verbatim>\<open>part.rs\<close>) and the streams that outlive the parser: \<^verbatim>\<open>PartDataStream\<close>
  (\<^verbatim>\<open>part_data_stream.rs\<close>), which ends at the delimiter, and \<^verbatim>\<open>FinalPartDataStream\<close>
  (\<^verbatim>\<open>final_part_data_stream.rs\<close>), which also checks the closing trailer.
\<close>

subsection \<open>Part\<close>

definition Part_poll_next_header ::
  "memchr_api \<Rightarrow> httparse_api \<Rightarrow> multipart \<Rightarrow> (mp_error + (bytes \<times> bytes) option) poll \<times> multipart" where
  "Part_poll_next_header M H m =
     try_ready (poll_ensure_headers M H m)
       (\<lambda>_ m1. case next_header_inner m1 of (r, m2) \<Rightarrow> (Ready r, m2))"

definition Part_poll_next_data ::
  "memchr_api \<Rightarrow> httparse_api \<Rightarrow> multipart \<Rightarrow> (mp_error + bytes option) poll \<times> multipart" where
  "Part_poll_next_data M H m =
     try_ready (poll_ensure_headers M H m)
       (\<lambda>_ m1. poll_next_part_data_chunk M (finish_headers m1))"

subsection \<open>PartDataStream\<close>

record part_data_stream =
  pds_buffer :: stream_buffer
  pds_delimiter :: bytes
  pds_multipart_consumed :: nat
  pds_done :: bool
  pds_terminated :: bool

definition PartDataStream_new :: "stream_buffer \<Rightarrow> bytes \<Rightarrow> nat \<Rightarrow> part_data_stream" where
  "PartDataStream_new b delim n =
     \<lparr>pds_buffer = b, pds_delimiter = delim, pds_multipart_consumed = n, pds_done = False, pds_terminated = False\<rparr>"

definition take_data_stream :: "multipart \<Rightarrow> (mp_error + part_data_stream) \<times> multipart" where
  "take_data_stream m0 =
     (let m = (if mp_state m0 = ReadingPartHeaders then finish_headers m0 else m0)
      in if mp_state m \<noteq> ReadingPartData then (Inl InvalidFormat, m)
         else (case mp_buffer m of
             None \<Rightarrow> (Inl StreamAlreadyTaken, m)
           | Some b \<Rightarrow>
               (case delimiter_finder m of
                  None \<Rightarrow> (Inl StreamAlreadyTaken, m\<lparr>mp_buffer := None\<rparr>)
                | Some delim \<Rightarrow>
                    (Inr (PartDataStream_new b delim (consumed b)),
                     m\<lparr>mp_buffer := None, delimiter_finder := None, mp_state := StreamTaken\<rparr>))))"

definition PartDataStream_poll_data ::
  "memchr_api \<Rightarrow> part_data_stream \<Rightarrow> (mp_error + bytes) option poll \<times> part_data_stream" where
  "PartDataStream_poll_data M p =
     (if pds_done p \<or> pds_terminated p then (Ready None, p)
      else (case scan_data M (pds_delimiter p) (pds_buffer p) of
          (Pending, b1) \<Rightarrow> (Pending, p\<lparr>pds_buffer := b1\<rparr>)
        | (Ready (ScanFound data), b1) \<Rightarrow>
            (Ready (if data = [] then None else Some (Inr data)), p\<lparr>pds_buffer := b1, pds_done := True\<rparr>)
        | (Ready (ScanData data), b1) \<Rightarrow> (Ready (Some (Inr data)), p\<lparr>pds_buffer := b1\<rparr>)
        | (Ready (ScanErr err), b1) \<Rightarrow> (Ready (Some (Inl err)), p\<lparr>pds_buffer := b1, pds_terminated := True\<rparr>)
        | (Ready ScanEof, b1) \<Rightarrow>
            (Ready (Some (Inl IncompleteStreamPart)), p\<lparr>pds_buffer := b1, pds_terminated := True\<rparr>)))"

subsection \<open>FinalPartDataStream\<close>

datatype data_state = Data | AfterBoundary | FinalCRLF | Eof | FinalDone

record final_part_data_stream =
  fds_buffer :: stream_buffer
  fds_delimiter :: bytes
  fds_state :: data_state
  fds_multipart_consumed :: nat
  fds_aborted :: bool
  fds_terminated :: bool

definition FinalPartDataStream_new ::
  "stream_buffer \<Rightarrow> bytes \<Rightarrow> nat \<Rightarrow> bool \<Rightarrow> bool \<Rightarrow> final_part_data_stream" where
  "FinalPartDataStream_new b delim n data_done aborted =
     \<lparr>fds_buffer = b, fds_delimiter = delim, fds_state = (if data_done then AfterBoundary else Data),
      fds_multipart_consumed = n, fds_aborted = aborted, fds_terminated = False\<rparr>"

definition into_final :: "part_data_stream \<Rightarrow> final_part_data_stream" where
  "into_final p = FinalPartDataStream_new (pds_buffer p) (pds_delimiter p) (pds_multipart_consumed p)
     (pds_done p) (pds_terminated p)"

definition FinalPartDataStream_poll_data ::
  "memchr_api \<Rightarrow> final_part_data_stream \<Rightarrow> (mp_error + bytes option) poll \<times> final_part_data_stream" where
  "FinalPartDataStream_poll_data M p =
     (if fds_aborted p then (Ready (Inl IncompleteStreamPart), p\<lparr>fds_terminated := True\<rparr>)
      else (case scan_data M (fds_delimiter p) (fds_buffer p) of
          (Pending, b1) \<Rightarrow> (Pending, p\<lparr>fds_buffer := b1\<rparr>)
        | (Ready (ScanFound data), b1) \<Rightarrow>
            (Ready (Inr (if data \<noteq> [] then Some data else None)), p\<lparr>fds_buffer := b1, fds_state := AfterBoundary\<rparr>)
        | (Ready (ScanData data), b1) \<Rightarrow> (Ready (Inr (Some data)), p\<lparr>fds_buffer := b1\<rparr>)
        | (Ready (ScanErr err), b1) \<Rightarrow> (Ready (Inl err), p\<lparr>fds_buffer := b1\<rparr>)
        | (Ready ScanEof, b1) \<Rightarrow> (Ready (Inl IncompleteStreamPart), p\<lparr>fds_buffer := b1\<rparr>)))"

function fill_buf :: "nat \<Rightarrow> stream_buffer \<Rightarrow> (mp_error + unit) poll \<times> stream_buffer" where
  "fill_buf len b =
     (if length (buf b) < len then
        (case poll_stream b of
           (Pending, b1) \<Rightarrow> (Pending, b1)
         | (Ready (Some (Inr chunk)), b1) \<Rightarrow> fill_buf len (b1\<lparr>buf := buf b1 @ chunk\<rparr>)
         | (Ready (Some (Inl err)), b1) \<Rightarrow> (Ready (Inl err), b1)
         | (Ready None, b1) \<Rightarrow> (Ready (Inl IncompleteStreamPart), b1))
      else (Ready (Inr ()), b))"
  by pat_completeness auto
termination
  by (relation "measure (\<lambda>(len, b). events_left b)") (auto dest!: sym [THEN poll_stream_events])

declare fill_buf.simps [simp del]

lemma fill_buf_upcoming:
  "fill_buf len b = (Ready (Inr u), b') \<Longrightarrow> upcoming b' = upcoming b \<and> len \<le> length (buf b')"
proof (induction "events_left b" arbitrary: b rule: less_induct)
  case less
  note step = less.prems [unfolded fill_buf.simps [of len b]]
  show ?case
  proof (cases "length (buf b) < len")
    case True
    with step obtain c b1 where p: "poll_stream b = (Ready (Some (Inr c)), b1)"
      and rec: "fill_buf len (b1\<lparr>buf := buf b1 @ c\<rparr>) = (Ready (Inr u), b')"
      by (auto split: prod.splits poll.splits option.splits sum.splits)
    have ev: "events_left (b1\<lparr>buf := buf b1 @ c\<rparr>) < events_left b"
      using poll_stream_events [OF p] by simp
    from less.hyps [OF ev rec] poll_stream_view(1,2) [OF p] show ?thesis
      by (simp add: upcoming_def)
  qed (use step in simp)
qed

text \<open>The inner loop of the \<^verbatim>\<open>FinalCRLF\<close> state: padding one byte at a time, up to the carriage return.\<close>

function skip_final_padding :: "stream_buffer \<Rightarrow> (mp_error + unit) poll \<times> stream_buffer" where
  "skip_final_padding b =
     try_ready (fill_buf 1 b) (\<lambda>_ b1.
       if is_ows (hd (buf b1)) then skip_final_padding (b1\<lparr>buf := drop 1 (buf b1)\<rparr>)
       else if hd (buf b1) = CR then (Ready (Inr ()), b1)
       else (Ready (Inl InvalidFormat), b1))"
  by pat_completeness auto
termination
proof (relation "measure (\<lambda>b. length (upcoming b))")
  fix b u b1
  assume "fill_buf 1 b = (Ready (Inr u), b1)"
  then have up: "upcoming b1 = upcoming b" and ne: "buf b1 \<noteq> []"
    using fill_buf_upcoming [of 1 b u b1] by auto
  then have "length (upcoming b) = length (buf b1) + length (concat (fst (sview b1)))"
    by (metis length_append upcoming_def)
  with ne show "(b1\<lparr>buf := drop 1 (buf b1)\<rparr>, b) \<in> measure (\<lambda>b. length (upcoming b))"
    by simp
qed simp

declare skip_final_padding.simps [simp del]

definition on_final ::
  "(stream_buffer \<Rightarrow> (mp_error + 'a) poll \<times> stream_buffer) \<Rightarrow> final_part_data_stream \<Rightarrow>
     (mp_error + 'a) poll \<times> final_part_data_stream" where
  "on_final f p = (case f (fds_buffer p) of (r, b') \<Rightarrow> (r, p\<lparr>fds_buffer := b'\<rparr>))"

definition trailer_after_boundary :: "stream_buffer \<Rightarrow> (mp_error + unit) poll \<times> stream_buffer" where
  "trailer_after_boundary b =
     try_ready (fill_buf 2 b) (\<lambda>_ b1.
       if \<not> prefix ''--'' (buf b1)
       then (Ready (Inl (if prefix [CR] (buf b1) \<or> (buf b1 \<noteq> [] \<and> is_ows (hd (buf b1)))
                         then StreamPartNotLast else InvalidFormat)), b1)
       else (Ready (Inr ()), b1\<lparr>buf := drop 2 (buf b1)\<rparr>))"

definition trailer_final_crlf :: "stream_buffer \<Rightarrow> (mp_error + unit) poll \<times> stream_buffer" where
  "trailer_final_crlf b =
     try_ready (skip_final_padding b) (\<lambda>_ b1.
       try_ready (fill_buf 2 b1) (\<lambda>_ b2.
         if \<not> prefix CRLF (buf b2) then (Ready (Inl InvalidFormat), b2)
         else (Ready (Inr ()), b2\<lparr>buf := drop 2 (buf b2)\<rparr>)))"

definition trailer_eof :: "stream_buffer \<Rightarrow> (mp_error + unit) poll \<times> stream_buffer" where
  "trailer_eof b =
     (if buf b \<noteq> [] then (Ready (Inl StreamPartNotLast), b)
      else (case poll_stream b of
          (Pending, b1) \<Rightarrow> (Pending, b1)
        | (Ready None, b1) \<Rightarrow> (Ready (Inr ()), b1)
        | (Ready (Some (Inr _)), b1) \<Rightarrow> (Ready (Inl StreamPartNotLast), b1)
        | (Ready (Some (Inl err)), b1) \<Rightarrow> (Ready (Inl err), b1)))"

fun trailer_rank :: "data_state \<Rightarrow> nat" where
  "trailer_rank AfterBoundary = 2"
| "trailer_rank FinalCRLF = 1"
| "trailer_rank _ = 0"

function poll_trailer :: "final_part_data_stream \<Rightarrow> (mp_error + unit) poll \<times> final_part_data_stream" where
  "poll_trailer p =
     (case fds_state p of
        AfterBoundary \<Rightarrow>
          try_ready (on_final trailer_after_boundary p) (\<lambda>_ p1. poll_trailer (p1\<lparr>fds_state := FinalCRLF\<rparr>))
      | FinalCRLF \<Rightarrow>
          try_ready (on_final trailer_final_crlf p) (\<lambda>_ p1. poll_trailer (p1\<lparr>fds_state := Eof\<rparr>))
      | Eof \<Rightarrow>
          try_ready (on_final trailer_eof p) (\<lambda>_ p1. (Ready (Inr ()), p1\<lparr>fds_state := FinalDone\<rparr>))
      | Data \<Rightarrow> (Ready (Inr ()), p)
      | FinalDone \<Rightarrow> (Ready (Inr ()), p))"
  by pat_completeness auto
termination
  by (relation "measure (\<lambda>p. trailer_rank (fds_state p))") auto

declare poll_trailer.simps [simp del]

text \<open>
  \<^verbatim>\<open>Stream::poll_next\<close>. The loop runs at most three rounds: a data step that ends without data, the
  trailer, and the answer of the finished stream.
\<close>

fun final_poll_loop ::
  "nat \<Rightarrow> memchr_api \<Rightarrow> final_part_data_stream \<Rightarrow> (mp_error + bytes) option poll \<times> final_part_data_stream" where
  "final_poll_loop 0 M p = (Ready None, p)"
| "final_poll_loop (Suc k) M p =
     (if fds_terminated p then (Ready None, p)
      else (case fds_state p of
          Data \<Rightarrow>
            (case FinalPartDataStream_poll_data M p of
               (Pending, p1) \<Rightarrow> (Pending, p1)
             | (Ready (Inr (Some item)), p1) \<Rightarrow> (Ready (Some (Inr item)), p1)
             | (Ready (Inr None), p1) \<Rightarrow> final_poll_loop k M p1
             | (Ready (Inl err), p1) \<Rightarrow> (Ready (Some (Inl err)), p1\<lparr>fds_terminated := True\<rparr>))
        | FinalDone \<Rightarrow> (Ready None, p)
        | _ \<Rightarrow>
            (case poll_trailer p of
               (Pending, p1) \<Rightarrow> (Pending, p1)
             | (Ready (Inl err), p1) \<Rightarrow> (Ready (Some (Inl err)), p1\<lparr>fds_terminated := True\<rparr>)
             | (Ready (Inr _), p1) \<Rightarrow> final_poll_loop k M p1)))"

definition FinalPartDataStream_poll_next ::
  "memchr_api \<Rightarrow> final_part_data_stream \<Rightarrow> (mp_error + bytes) option poll \<times> final_part_data_stream" where
  "FinalPartDataStream_poll_next M p = final_poll_loop 3 M p"

end
