(* ===== verification/Multipart_Correct.thy ===== *)
theory Multipart_Correct
  imports Multipart_Streams
begin

text \<open>
  The multipart parser against the whole input. A reader meets a specification on the bytes still to
  come when every outcome is the specified one and a poll that is not ready leaves the specified
  result unchanged (locale \<open>stream_reader\<close>). Driving such a reader to completion then gives the
  specified result however the input was cut into chunks and whenever the stream was not ready.
\<close>

subsection \<open>Readers and their specifications\<close>

text \<open>Polling until the answer is ready; the fuel is the number of answers the stream can give.\<close>

fun drive :: "('s \<Rightarrow> 'r poll \<times> 's) \<Rightarrow> nat \<Rightarrow> 's \<Rightarrow> 'r option \<times> 's" where
  "drive f 0 b = (None, b)"
| "drive f (Suc k) b =
     (case f b of
        (Pending, b') \<Rightarrow> drive f k b'
      | (Ready r, b') \<Rightarrow> (Some r, b'))"

locale stream_reader =
  fixes read :: "stream_buffer \<Rightarrow> (mp_error + 'a) poll \<times> stream_buffer"
    and spec :: "bytes \<Rightarrow> stream_end \<Rightarrow> mp_error + ('a \<times> bytes)"
    and safe :: "bytes \<Rightarrow> bool"
  assumes read_pending: "buf_ok b \<Longrightarrow> safe (upcoming b) \<Longrightarrow> read b = (Pending, b') \<Longrightarrow>
      buf_ok b' \<and> safe (upcoming b') \<and> fin b' = fin b \<and> events_left b' < events_left b \<and>
      spec (upcoming b') (fin b) = spec (upcoming b) (fin b)"
    and read_failed: "buf_ok b \<Longrightarrow> safe (upcoming b) \<Longrightarrow> read b = (Ready (Inl x), b') \<Longrightarrow>
      spec (upcoming b) (fin b) = Inl x"
    and read_done: "buf_ok b \<Longrightarrow> safe (upcoming b) \<Longrightarrow> read b = (Ready (Inr a), b') \<Longrightarrow>
      spec (upcoming b) (fin b) = Inr (a, upcoming b') \<and> fin b' = fin b \<and> buf_ok b' \<and>
      events_left b' \<le> events_left b"
begin

lemma drive_spec:
  assumes "buf_ok b" and "safe (upcoming b)" and "events_left b < fuel"
  shows "case spec (upcoming b) (fin b) of
           Inl x \<Rightarrow> fst (drive read fuel b) = Some (Inl x)
         | Inr (a, rest) \<Rightarrow> \<exists>b'. drive read fuel b = (Some (Inr a), b') \<and> upcoming b' = rest \<and> fin b' = fin b"
  using assms
proof (induction fuel arbitrary: b)
  case (Suc fuel)
  obtain r b1 where run: "read b = (r, b1)" by fastforce
  show ?case
  proof (cases r)
    case Pending
    with read_pending [OF Suc.prems(1,2)] run
    have b1: "buf_ok b1" "safe (upcoming b1)" "fin b1 = fin b" "events_left b1 < events_left b"
      "spec (upcoming b1) (fin b) = spec (upcoming b) (fin b)"
      by auto
    have "drive read (Suc fuel) b = drive read fuel b1" using run Pending by simp
    then show ?thesis using Suc.IH [of b1] b1 Suc.prems(3) by (auto split: sum.splits)
  next
    case (Ready x)
    show ?thesis
    proof (cases x)
      case (Inl e)
      with read_failed [OF Suc.prems(1,2)] run Ready show ?thesis by simp
    next
      case (Inr a)
      with read_done [OF Suc.prems(1,2)] run Ready show ?thesis by simp
    qed
  qed
qed simp

end

text \<open>The boundary search is a reader.\<close>

interpretation first_boundary_reader: stream_reader "poll_read_to memchr_ref needle"
  "\<lambda>w e. map_sum id (Pair ()) (read_to_spec needle w e)" "\<lambda>_. True" for needle
proof
  fix b b'
  assume "buf_ok b" "poll_read_to memchr_ref needle b = (Pending, b')"
  from poll_read_to_post [OF this]
  show "buf_ok b' \<and> True \<and> fin b' = fin b \<and> events_left b' < events_left b \<and>
      map_sum id (Pair ()) (read_to_spec needle (upcoming b') (fin b)) =
      map_sum id (Pair ()) (read_to_spec needle (upcoming b) (fin b))"
    by auto
next
  fix b b' x
  assume "buf_ok b" "poll_read_to memchr_ref needle b = (Ready (Inl x), b')"
  from poll_read_to_post [OF this]
  show "map_sum id (Pair ()) (read_to_spec needle (upcoming b) (fin b)) = Inl x" by simp
next
  fix b b' a
  assume "buf_ok b" "poll_read_to memchr_ref needle b = (Ready (Inr a), b')"
  from poll_read_to_post [OF this]
  show "map_sum id (Pair ()) (read_to_spec needle (upcoming b) (fin b)) = Inr (a, upcoming b') \<and>
      fin b' = fin b \<and> buf_ok b' \<and> events_left b' \<le> events_left b" by simp
qed

subsection \<open>Filling the buffer\<close>

text \<open>
  Both readers of a fixed number of bytes (\<^verbatim>\<open>poll_ensure_buf_len\<close> of the parser and \<^verbatim>\<open>poll_fill_buf\<close> of
  the final stream) are the same loop and differ in the error for an input that ends early.
\<close>

locale buffer_fill =
  fixes fill :: "nat \<Rightarrow> stream_buffer \<Rightarrow> (mp_error + unit) poll \<times> stream_buffer"
    and short_error :: mp_error
  assumes fill_step: "fill len b =
     (if length (buf b) < len then
        (case poll_stream b of
           (Pending, b1) \<Rightarrow> (Pending, b1)
         | (Ready (Some (Inr chunk)), b1) \<Rightarrow> fill len (b1\<lparr>buf := buf b1 @ chunk\<rparr>)
         | (Ready (Some (Inl err)), b1) \<Rightarrow> (Ready (Inl err), b1)
         | (Ready None, b1) \<Rightarrow> (Ready (Inl short_error), b1))
      else (Ready (Inr ()), b))"
begin

lemma fill_post:
  assumes "buf_ok b"
  shows "case fill len b of
           (Pending, b') \<Rightarrow> upcoming b' = upcoming b \<and> fin b' = fin b \<and> buf_ok b' \<and> events_left b' < events_left b
         | (Ready (Inl x), b') \<Rightarrow> length (upcoming b) < len \<and> x = end_error short_error (fin b)
         | (Ready (Inr u), b') \<Rightarrow> upcoming b' = upcoming b \<and> fin b' = fin b \<and> buf_ok b' \<and>
             events_left b' \<le> events_left b \<and> len \<le> length (buf b')"
  using assms
proof (induction "events_left b" arbitrary: b rule: less_induct)
  case less
  show ?case
  proof (cases "length (buf b) < len")
    case True
    obtain r1 b1 where p: "poll_stream b = (r1, b1)" by fastforce
    from p less.prems show ?thesis
    proof (cases rule: poll_stream_cases)
      case pending
      with True p show ?thesis by (simp add: fill_step [of len b])
    next
      case (failed e)
      with True p show ?thesis by (simp add: fill_step [of len b])
    next
      case ended
      with True p show ?thesis by (simp add: fill_step [of len b])
    next
      case (chunk c)
      let ?b2 = "b1\<lparr>buf := buf b1 @ c\<rparr>"
      have "fill len b = fill len ?b2"
        using True p chunk by (simp add: fill_step [of len b])
      with less.hyps [of ?b2] chunk show ?thesis
        by (auto split: prod.splits poll.splits sum.splits)
    qed
  next
    case False
    with less.prems show ?thesis by (simp add: fill_step [of len b])
  qed
qed

lemma fill_cases:
  assumes "buf_ok b" and "fill len b = (r, b')"
  obtains (pending) "r = Pending" "upcoming b' = upcoming b" "fin b' = fin b" "buf_ok b'" "events_left b' < events_left b"
    | (short) "r = Ready (Inl (end_error short_error (fin b)))" "length (upcoming b) < len"
    | (filled) "r = Ready (Inr ())" "upcoming b' = upcoming b" "fin b' = fin b" "buf_ok b'"
        "events_left b' \<le> events_left b" "len \<le> length (buf b')" "take len (upcoming b) = take len (buf b')"
        "prefix (buf b') (upcoming b)"
proof (cases r)
  case Pending
  with fill_post [OF assms(1), of len] assms(2) pending show ?thesis by simp
next
  case (Ready x)
  show ?thesis
  proof (cases x)
    case (Inl e)
    with Ready fill_post [OF assms(1), of len] assms(2) short show ?thesis by simp
  next
    case (Inr u)
    with Ready fill_post [OF assms(1), of len] assms(2)
    have post: "upcoming b' = upcoming b" "fin b' = fin b" "buf_ok b'" "events_left b' \<le> events_left b" "len \<le> length (buf b')"
      by simp_all
    moreover have "upcoming b = buf b' @ concat (fst (sview b'))"
      using post(1) by (simp add: upcoming_def)
    ultimately show ?thesis using Ready Inr filled by simp
  qed
qed

end

interpretation ensured: buffer_fill ensure_buf_len IncompleteStream
  by unfold_locales (rule ensure_buf_len.simps)

interpretation refill: buffer_fill fill_buf IncompleteStreamPart
  by unfold_locales (rule fill_buf.simps)

subsection \<open>Line ends after a boundary\<close>

definition crlf_spec :: "bytes \<Rightarrow> stream_end \<Rightarrow> mp_error + (unit \<times> bytes)" where
  "crlf_spec w e =
     (if length w < 2 then Inl (end_error IncompleteStream e)
      else if prefix CRLF w then Inr ((), drop 2 w) else Inl InvalidFormat)"

definition padding_spec :: "bytes \<Rightarrow> stream_end \<Rightarrow> mp_error + (unit \<times> bytes)" where
  "padding_spec w e =
     (let w' = dropWhile is_ows w
      in if w' = [] then Inl (end_error IncompleteStream e)
         else if hd w' = CR then crlf_spec w' e else Inl InvalidFormat)"

lemma upcoming_drop: "n \<le> length (buf b) \<Longrightarrow> upcoming (b\<lparr>buf := drop n (buf b)\<rparr>) = drop n (upcoming b)"
  by (simp add: upcoming_def)

lemma prefix_two: "prefix [a, c] w \<longleftrightarrow> take 2 w = [a, c]"
  by (cases w; cases "tl w") auto

interpretation crlf_reader: stream_reader consume_crlf crlf_spec "\<lambda>_. True"
proof
  fix b b' x a
  assume ok: "buf_ok b"
  obtain r1 b1 where e: "ensure_buf_len 2 b = (r1, b1)" by fastforce
  note run = consume_crlf_def [of b, unfolded e]
  { assume "consume_crlf b = (Pending, b')"
    with ok e show "buf_ok b' \<and> True \<and> fin b' = fin b \<and> events_left b' < events_left b \<and>
      crlf_spec (upcoming b') (fin b) = crlf_spec (upcoming b) (fin b)"
      by (cases rule: ensured.fill_cases) (auto simp: run split: if_splits) }
  { assume "consume_crlf b = (Ready (Inl x), b')"
    with ok e show "crlf_spec (upcoming b) (fin b) = Inl x"
      by (cases rule: ensured.fill_cases)
        (auto simp: run crlf_spec_def prefix_two split: if_splits) }
  { assume "consume_crlf b = (Ready (Inr a), b')"
    with ok e show "crlf_spec (upcoming b) (fin b) = Inr (a, upcoming b') \<and> fin b' = fin b \<and> buf_ok b' \<and>
      events_left b' \<le> events_left b"
      by (cases rule: ensured.fill_cases)
        (auto simp: run crlf_spec_def prefix_two upcoming_drop simp del: upcoming_update(1) split: if_splits) }
qed

lemma padding_spec_drop:
  assumes "list_all is_ows (take k w)"
  shows "padding_spec (drop k w) e = padding_spec w e"
proof -
  have "dropWhile is_ows w = dropWhile is_ows (take k w @ drop k w)" by simp
  also have "\<dots> = dropWhile is_ows (drop k w)"
    by (rule dropWhile_append2) (use assms in \<open>simp add: list_all_iff\<close>)
  finally show ?thesis by (simp add: padding_spec_def)
qed

lemma padding_spec_crlf: "w \<noteq> [] \<Longrightarrow> hd w = CR \<Longrightarrow> padding_spec w e = crlf_spec w e"
  by (cases w) (simp_all add: padding_spec_def is_ows_def)

lemma padding_spec_other:
  "w \<noteq> [] \<Longrightarrow> hd w \<noteq> CR \<Longrightarrow> \<not> is_ows (hd w) \<Longrightarrow> padding_spec w e = Inl InvalidFormat"
  by (cases w) (simp_all add: padding_spec_def)

text \<open>The outcome of the padding loop; a pending poll may have consumed some of the padding.\<close>

lemma consume_padding_post:
  assumes "buf_ok b"
  shows "case consume_padding_and_crlf b of
           (Pending, b') \<Rightarrow> fin b' = fin b \<and> buf_ok b' \<and> events_left b' < events_left b \<and>
             (\<exists>k. list_all is_ows (take k (upcoming b)) \<and> upcoming b' = drop k (upcoming b))
         | (Ready (Inl x), b') \<Rightarrow> padding_spec (upcoming b) (fin b) = Inl x
         | (Ready (Inr u), b') \<Rightarrow> padding_spec (upcoming b) (fin b) = Inr ((), upcoming b') \<and> fin b' = fin b \<and> buf_ok b' \<and>
             events_left b' \<le> events_left b"
  using assms
proof (induction "length (upcoming b)" arbitrary: b rule: less_induct)
  case less
  obtain r1 b1 where e: "ensure_buf_len 1 b = (r1, b1)" by fastforce
  note unfold = consume_padding_and_crlf.simps [of b, unfolded e]
  from less.prems e show ?case
  proof (cases rule: ensured.fill_cases)
    case pending
    then show ?thesis by (auto simp: unfold intro!: exI [of _ 0])
  next
    case short
    then have "upcoming b = []" by simp
    with short show ?thesis by (simp add: unfold padding_spec_def)
  next
    case filled
    then have ne: "buf b1 \<noteq> []" "upcoming b \<noteq> []" by auto
    with filled have hd: "hd (upcoming b) = hd (buf b1)" by (metis hd_append2 prefix_def)
    consider (cr) "hd (buf b1) = CR" | (other) "hd (buf b1) \<noteq> CR" "\<not> is_ows (hd (buf b1))"
      | (ows) "hd (buf b1) \<noteq> CR" "is_ows (hd (buf b1))" by blast
    then show ?thesis
    proof cases
      case cr
      then have run: "consume_padding_and_crlf b = consume_crlf b1"
        using filled by (simp add: unfold)
      obtain r2 b2 where c: "consume_crlf b1 = (r2, b2)" by fastforce
      have sp: "padding_spec (upcoming b) (fin b) = crlf_spec (upcoming b1) (fin b1)"
        using padding_spec_crlf ne(2) hd cr filled by simp
      show ?thesis
      proof (cases r2)
        case Pending
        have "ensure_buf_len 2 b1 = (Pending, b2)"
          using c Pending by (auto simp: consume_crlf_def try_ready_def split: prod.splits poll.splits sum.splits if_splits)
        with ensured.fill_post [of b1 2] filled show ?thesis
          by (auto simp: run c Pending intro!: exI [of _ 0])
      next
        case (Ready x)
        with crlf_reader.read_failed [of b1 _ b2] crlf_reader.read_done [of b1 _ b2] filled c sp
        show ?thesis by (cases x) (auto simp: run)
      qed
    next
      case other
      with filled padding_spec_other ne(2) hd show ?thesis by (simp add: unfold)
    next
      case ows
      let ?n = "length (takeWhile is_ows (buf b1))"
      let ?b2 = "b1\<lparr>buf := drop ?n (buf b1)\<rparr>"
      have run: "consume_padding_and_crlf b = consume_padding_and_crlf ?b2"
        using filled ows by (simp add: unfold)
      have up: "upcoming b = buf b1 @ concat (fst (sview b1))"
        using filled by (simp add: upcoming_def)
      have n: "0 < ?n" "?n \<le> length (buf b1)"
        using ows ne by (cases "buf b1"; simp add: length_takeWhile_le)+
      have up2: "upcoming ?b2 = drop ?n (upcoming b)"
        using n by (simp add: up)
      have pad: "list_all is_ows (take ?n (upcoming b))"
        using n by (auto simp: up list_all_iff takeWhile_eq_take [symmetric] dest: set_takeWhileD)
      have "length (upcoming ?b2) < length (upcoming b)"
        unfolding up2 length_drop using n ne by (simp add: up)
      from less.hyps [OF this] filled
      have IH: "case consume_padding_and_crlf ?b2 of
           (Pending, b') \<Rightarrow> fin b' = fin ?b2 \<and> buf_ok b' \<and> events_left b' < events_left ?b2 \<and>
             (\<exists>k. list_all is_ows (take k (upcoming ?b2)) \<and> upcoming b' = drop k (upcoming ?b2))
         | (Ready (Inl x), b') \<Rightarrow> padding_spec (upcoming ?b2) (fin ?b2) = Inl x
         | (Ready (Inr u), b') \<Rightarrow> padding_spec (upcoming ?b2) (fin ?b2) = Inr ((), upcoming b') \<and> fin b' = fin ?b2 \<and> buf_ok b' \<and>
             events_left b' \<le> events_left ?b2"
        by simp
      have sp: "padding_spec (upcoming ?b2) (fin ?b2) = padding_spec (upcoming b) (fin b)"
        using padding_spec_drop [OF pad] up2 filled by simp
      have more: "list_all is_ows (take (?n + k) (upcoming b)) \<and> drop k (upcoming ?b2) = drop (?n + k) (upcoming b)"
        if "list_all is_ows (take k (upcoming ?b2))" for k
        using that pad unfolding up2 take_add by (simp add: add.commute)
      show ?thesis
        unfolding run using IH sp more filled(3,5)
        by (fastforce split: prod.splits poll.splits sum.splits)
    qed
  qed
qed

interpretation padding_reader: stream_reader consume_padding_and_crlf padding_spec "\<lambda>_. True"
proof
  fix b b' x a
  assume ok: "buf_ok b"
  note post = consume_padding_post [OF ok]
  { assume "consume_padding_and_crlf b = (Pending, b')"
    with post show "buf_ok b' \<and> True \<and> fin b' = fin b \<and> events_left b' < events_left b \<and>
      padding_spec (upcoming b') (fin b) = padding_spec (upcoming b) (fin b)"
      by (auto simp: padding_spec_drop) }
  { assume "consume_padding_and_crlf b = (Ready (Inl x), b')"
    with post show "padding_spec (upcoming b) (fin b) = Inl x" by simp }
  { assume "consume_padding_and_crlf b = (Ready (Inr a), b')"
    with post show "padding_spec (upcoming b) (fin b) = Inr (a, upcoming b') \<and> fin b' = fin b \<and> buf_ok b' \<and>
      events_left b' \<le> events_left b"
      by simp }
qed

subsection \<open>What follows a boundary\<close>

definition after_spec :: "bytes \<Rightarrow> stream_end \<Rightarrow> mp_error + (mp_state \<times> bytes)" where
  "after_spec w e =
     (if w = [] then Inl (end_error IncompleteStream e)
      else if hd w = CHR ''-'' then
        (if length w < 2 then Inl (end_error IncompleteStream e)
         else if prefix ''--'' w then Inr (ReadingClosingDelimiter, drop 2 w) else Inl InvalidFormat)
      else map_sum id (map_prod (\<lambda>_. ReadingPartHeaders) id) (padding_spec w e))"

text \<open>
  Padding followed by a dash: the one input whose reading depends on when the stream is not ready,
  because the padding is consumed before the poll is given up and the dash is then met first.
\<close>

definition padded_dash :: "bytes \<Rightarrow> bool" where
  "padded_dash w \<longleftrightarrow> w \<noteq> [] \<and> is_ows (hd w) \<and> prefix ''-'' (dropWhile is_ows w)"

lemma dropWhile_drop:
  assumes "list_all P (take k w)"
  shows "dropWhile P (drop k w) = dropWhile P w"
proof -
  have "dropWhile P w = dropWhile P (take k w @ drop k w)" by simp
  also have "\<dots> = dropWhile P (drop k w)"
    by (rule dropWhile_append2) (use assms in \<open>simp add: list_all_iff\<close>)
  finally show ?thesis by simp
qed

lemma after_spec_padding: "w \<noteq> [] \<Longrightarrow> hd w \<noteq> CHR ''-'' \<Longrightarrow>
    after_spec w e = map_sum id (map_prod (\<lambda>_. ReadingPartHeaders) id) (padding_spec w e)"
  by (simp add: after_spec_def)

lemma after_spec_drop:
  assumes "is_ows (hd w)" "w \<noteq> []" "list_all is_ows (take k w)" and dash: "\<not> padded_dash w"
  shows "after_spec (drop k w) e = after_spec w e \<and> \<not> padded_dash (drop k w)"
proof -
  let ?v = "drop k w"
  have dw: "dropWhile is_ows ?v = dropWhile is_ows w" by (rule dropWhile_drop [OF assms(3)])
  have nd: "hd w \<noteq> CHR ''-''" using assms(1) by (auto simp: is_ows_def)
  have safe: "\<not> prefix ''-'' (dropWhile is_ows w)" using dash assms(1,2) by (simp add: padded_dash_def)
  have "after_spec ?v e = after_spec w e"
  proof (cases "?v = []")
    case True
    with dw show ?thesis using nd assms(2)
      by (simp add: after_spec_padding padding_spec_def after_spec_def [of "[]"] del: dropWhile_eq_Nil_conv)
  next
    case False
    have "hd ?v \<noteq> CHR ''-''"
    proof
      assume "hd ?v = CHR ''-''"
      with False have "prefix ''-'' (dropWhile is_ows ?v)" by (cases ?v) (auto simp: is_ows_def)
      with safe dw show False by simp
    qed
    with False nd assms(2) show ?thesis
      by (simp add: after_spec_padding padding_spec_drop [OF assms(3)] del: drop_eq_Nil)
  qed
  with safe dw show ?thesis by (simp add: padded_dash_def)
qed

lemma after_boundary_post:
  assumes ok: "buf_ok b" and safe: "\<not> padded_dash (upcoming b)"
  shows "case after_boundary b of
           (Pending, b') \<Rightarrow> fin b' = fin b \<and> buf_ok b' \<and> events_left b' < events_left b \<and>
             after_spec (upcoming b') (fin b) = after_spec (upcoming b) (fin b) \<and> \<not> padded_dash (upcoming b')
         | (Ready (Inl x), b') \<Rightarrow> after_spec (upcoming b) (fin b) = Inl x
         | (Ready (Inr st), b') \<Rightarrow> after_spec (upcoming b) (fin b) = Inr (st, upcoming b') \<and> fin b' = fin b \<and> buf_ok b' \<and>
             events_left b' \<le> events_left b"
proof -
  obtain r1 b1 where e: "ensure_buf_len 1 b = (r1, b1)" by fastforce
  note unfold = after_boundary_def [of b, unfolded e]
  from ok e show ?thesis
  proof (cases rule: ensured.fill_cases)
    case pending
    then show ?thesis using safe by (simp add: unfold)
  next
    case short
    then show ?thesis by (simp add: unfold after_spec_def)
  next
    case filled
    then have ne: "buf b1 \<noteq> []" "upcoming b \<noteq> []" by auto
    with filled have hd: "hd (upcoming b) = hd (buf b1)" by (metis hd_append2 prefix_def)
    consider (dash) "hd (buf b1) = CHR ''-''" | (ows) "hd (buf b1) \<noteq> CHR ''-''" "is_ows (hd (buf b1))"
      | (cr) "hd (buf b1) = CR" | (other) "hd (buf b1) \<noteq> CHR ''-''" "hd (buf b1) \<noteq> CR" "\<not> is_ows (hd (buf b1))"
      by blast
    then show ?thesis
    proof cases
      case dash
      obtain r2 b2 where e2: "ensure_buf_len 2 b1 = (r2, b2)" by fastforce
      from filled(4) e2 show ?thesis
        by (cases rule: ensured.fill_cases)
          (use filled dash ne hd safe in
            \<open>auto simp: unfold e2 after_spec_def prefix_two upcoming_drop simp del: upcoming_update(1)
              dest: prefix_length_le\<close>)
    next
      case ows
      obtain r2 b2 where c: "consume_padding_and_crlf b1 = (r2, b2)" by fastforce
      have run: "after_boundary b = try_ready (r2, b2) (\<lambda>_ b2. (Ready (Inr ReadingPartHeaders), b2))"
        using filled ows c by (simp add: unfold)
      show ?thesis
        using consume_padding_post [OF filled(4)] ne hd ows safe filled(2,3,5)
        by (cases r2) (auto simp: run c after_spec_padding after_spec_drop split: sum.splits)
    next
      case cr
      obtain r2 b2 where c: "consume_crlf b1 = (r2, b2)" by fastforce
      have run: "after_boundary b = try_ready (r2, b2) (\<lambda>_ b2. (Ready (Inr ReadingPartHeaders), b2))"
        using filled cr c by (simp add: unfold is_ows_def)
      have sp: "after_spec (upcoming b) (fin b) =
          map_sum id (map_prod (\<lambda>_. ReadingPartHeaders) id) (crlf_spec (upcoming b1) (fin b1))"
        using cr ne hd filled by (simp add: after_spec_padding padding_spec_crlf)
      show ?thesis
      proof (cases r2)
        case Pending
        have "ensure_buf_len 2 b1 = (Pending, b2)"
          using c Pending by (auto simp: consume_crlf_def try_ready_def split: prod.splits poll.splits sum.splits if_splits)
        with ensured.fill_post [of b1 2] filled safe show ?thesis by (auto simp: run Pending)
      next
        case (Ready x)
        with crlf_reader.read_failed [of b1 _ b2] crlf_reader.read_done [of b1 _ b2] filled c sp
        show ?thesis by (cases x) (auto simp: run)
      qed
    next
      case other
      with filled ne hd show ?thesis by (simp add: unfold after_spec_padding padding_spec_other)
    qed
  qed
qed

interpretation after_reader: stream_reader after_boundary after_spec "\<lambda>w. \<not> padded_dash w"
proof
  fix b b' x a
  assume ok: "buf_ok b" "\<not> padded_dash (upcoming b)"
  note post = after_boundary_post [OF ok]
  { assume "after_boundary b = (Pending, b')"
    with post show "buf_ok b' \<and> \<not> padded_dash (upcoming b') \<and> fin b' = fin b \<and> events_left b' < events_left b \<and>
      after_spec (upcoming b') (fin b) = after_spec (upcoming b) (fin b)" by auto }
  { assume "after_boundary b = (Ready (Inl x), b')"
    with post show "after_spec (upcoming b) (fin b) = Inl x" by simp }
  { assume "after_boundary b = (Ready (Inr a), b')"
    with post show "after_spec (upcoming b) (fin b) = Inr (a, upcoming b') \<and> fin b' = fin b \<and> buf_ok b' \<and>
      events_left b' \<le> events_left b"
      by simp }
qed

subsection \<open>Part data\<close>

lemma scan_data_post:
  fixes bd defines "d \<equiv> make_delimiter bd"
  assumes "buf_ok b" and "scan_data memchr_ref d b = (r, b')"
  shows "case r of
      Pending \<Rightarrow> upcoming b' = upcoming b \<and> fin b' = fin b \<and> buf_ok b' \<and> events_left b' < events_left b
    | Ready (ScanFound x) \<Rightarrow> find_sub (upcoming b) d = Some (length x) \<and> prefix x (upcoming b) \<and>
        upcoming b' = drop (length x + length d) (upcoming b) \<and> fin b' = fin b \<and> buf_ok b' \<and>
        events_left b' \<le> events_left b
    | Ready (ScanData x) \<Rightarrow> x \<noteq> [] \<and> upcoming b = x @ upcoming b' \<and> fin b' = fin b \<and> buf_ok b' \<and>
        find_sub (upcoming b) d = map_option ((+) (length x)) (find_sub (upcoming b') d) \<and>
        events_left b' \<le> events_left b
    | Ready (ScanErr x) \<Rightarrow> find_sub (upcoming b) d = None \<and> fin b = EndErr x
    | Ready ScanEof \<Rightarrow> find_sub (upcoming b) d = None \<and> fin b = EndOk"
  using assms(2,3)
proof (induction "events_left b" arbitrary: b rule: less_induct)
  case less
  note step = less.prems(2) [unfolded scan_data.simps [of memchr_ref d b]]
  have hit: "prefix (take i h) (h @ t) \<and> length (take i h) = i \<and> find_sub (h @ t) d = Some i \<and>
      drop (i + length d) (h @ t) = drop (i + length d) h @ t"
    if "search_data memchr_ref h d = Found i" for h i t
  proof -
    have f: "find_sub h d = Some i" using that data_scan.search_found by (simp add: d_def)
    from find_sub_bound [OF this] show ?thesis
      using find_sub_append_Some [OF f] by (auto simp: take_is_prefix)
  qed
  have emit: "take n h \<noteq> [] \<and> h @ t = take n h @ drop n h @ t \<and> length (take n h) = n \<and>
      find_sub (h @ t) d = map_option ((+) n) (find_sub (drop n h @ t) d)"
    if "search_data memchr_ref h d = Emit n" for h n t
    using that data_scan.emit_bounds [of h bd n] data_scan.emit_shift [of h bd n t] by (auto simp: d_def)
  let ?s = "if buf b \<noteq> [] then search_data memchr_ref (buf b) d else KeepAll"
  show ?case
  proof (cases ?s)
    case (Found i)
    then have "search_data memchr_ref (buf b) d = Found i" by (simp split: if_splits)
    from hit [OF this, of "concat (fst (sview b))"] Found step less.prems(1) show ?thesis
      by (auto simp: upcoming_def add.commute)
  next
    case (Emit n)
    then have "search_data memchr_ref (buf b) d = Emit n" by (simp split: if_splits)
    from emit [OF this, of "concat (fst (sview b))"] Emit step less.prems(1) show ?thesis
      by (auto simp: upcoming_def)
  next
    case KeepAll
    then have none: "find_sub (buf b) d = None"
      using data_scan.search_keep [of "buf b" bd] by (auto simp: d_def find_sub_None occurs_at_def split: if_splits)
    obtain r1 b1 where p: "poll_stream b = (r1, b1)" by fastforce
    from p less.prems(1) show ?thesis
    proof (cases rule: poll_stream_cases)
      case pending
      with step KeepAll p show ?thesis by auto
    next
      case (failed e)
      with step KeepAll p none show ?thesis by auto
    next
      case ended
      with step KeepAll p none show ?thesis by auto
    next
      case (chunk c)
      let ?b2 = "b1\<lparr>buf := buf b1 @ c\<rparr>"
      show ?thesis
      proof (cases "scan_data memchr_ref d ?b2 = (r, b')")
        case True
        from less.hyps [OF _ _ True] chunk show ?thesis
          by (fastforce split: poll.splits scan_outcome.splits)
      next
        case False
        with step KeepAll p chunk have nil: "buf b1 = []" by (auto split: if_splits)
        let ?t = "concat (fst (sview b1))"
        have up: "upcoming b = c @ ?t" using chunk nil by simp
        show ?thesis
        proof (cases "search_data memchr_ref c d")
          case (Found i)
          from hit [OF this, of ?t] step KeepAll p chunk nil Found up show ?thesis by auto
        next
          case (Emit n)
          from emit [OF this, of ?t] step KeepAll p chunk nil Emit up show ?thesis by auto
        next
          case KeepAll
          with step \<open>?s = KeepAll\<close> p chunk nil False show ?thesis by simp
        qed
      qed
    qed
  qed
qed

subsection \<open>Streams of part data\<close>

text \<open>
  Collecting a stream of chunks until it ends (\<open>Some None\<close>) or fails (\<open>Some (Some err)\<close>); polls that
  are not ready are repeated.
\<close>

fun collect :: "('s \<Rightarrow> ('e + bytes) option poll \<times> 's) \<Rightarrow> nat \<Rightarrow> 's \<Rightarrow> bytes \<times> 'e option option \<times> 's" where
  "collect f 0 s = ([], None, s)"
| "collect f (Suc k) s =
     (case f s of
        (Pending, s') \<Rightarrow> collect f k s'
      | (Ready None, s') \<Rightarrow> ([], Some None, s')
      | (Ready (Some (Inl err)), s') \<Rightarrow> ([], Some (Some err), s')
      | (Ready (Some (Inr c)), s') \<Rightarrow> (case collect f k s' of (cs, r) \<Rightarrow> (c @ cs, r)))"

text \<open>
  A source of part data reads with \<open>scan_data\<close> while it is live; once the delimiter has been passed it
  is closed, and what it then does is described by \<open>tail\<close> on the bytes after the delimiter.
\<close>

locale part_data_source =
  fixes step :: "'s \<Rightarrow> (mp_error + bytes) option poll \<times> 's"
    and live :: "'s \<Rightarrow> stream_buffer \<Rightarrow> bool"
    and closed :: "'s \<Rightarrow> mp_error + bytes \<Rightarrow> nat \<Rightarrow> bool"
    and ended :: "'s \<Rightarrow> bytes \<Rightarrow> bool"
    and tail :: "bytes \<Rightarrow> stream_end \<Rightarrow> mp_error + bytes"
    and missing :: mp_error
    and bd :: bytes
  assumes live_step: "live s b \<Longrightarrow> buf_ok b \<Longrightarrow> scan_data memchr_ref (make_delimiter bd) b = (r, b1) \<Longrightarrow>
      (case r of
         Pending \<Rightarrow> \<exists>s'. step s = (Pending, s') \<and> live s' b1
       | Ready (ScanData x) \<Rightarrow> \<exists>s'. step s = (Ready (Some (Inr x)), s') \<and> live s' b1
       | Ready (ScanFound x) \<Rightarrow> \<exists>s'. closed s' (tail (upcoming b1) (fin b1)) (events_left b1) \<and>
           step s = (if x = [] then step s' else (Ready (Some (Inr x)), s'))
       | Ready (ScanErr x) \<Rightarrow> \<exists>s'. step s = (Ready (Some (Inl x)), s')
       | Ready ScanEof \<Rightarrow> \<exists>s'. step s = (Ready (Some (Inl missing)), s'))"
    and closed_step: "closed s t n \<Longrightarrow> step s = (r', s') \<Longrightarrow>
      (case r' of
         Pending \<Rightarrow> \<exists>n' < n. closed s' t n'
       | Ready None \<Rightarrow> \<exists>rest. ended s' rest \<and> t = Inr rest
       | Ready (Some (Inl x)) \<Rightarrow> t = Inl x
       | Ready (Some (Inr x)) \<Rightarrow> False)"
begin

definition collected :: "bytes \<times> mp_error option option \<times> 's \<Rightarrow> mp_error + bytes \<Rightarrow> bytes \<Rightarrow> bool" where
  "collected c t x \<longleftrightarrow>
     (case c of (cs, r, s') \<Rightarrow> cs = x \<and>
        (case t of Inl err \<Rightarrow> r = Some (Some err)
         | Inr rest \<Rightarrow> r = Some None \<and> ended s' rest))"

lemma closed_collect:
  assumes "closed s t n" and "n < fuel"
  shows "collected (collect step fuel s) t []"
  using assms
proof (induction fuel arbitrary: s n)
  case (Suc fuel)
  obtain r s' where st: "step s = (r, s')" by fastforce
  note post = closed_step [OF Suc.prems(1) st]
  show ?case
  proof (cases r)
    case Pending
    with post obtain n' where "n' < n" "closed s' t n'" by auto
    with Suc.IH [of s' n'] Suc.prems(2) st Pending show ?thesis by simp
  next
    case (Ready x)
    with post st show ?thesis by (auto simp: collected_def split: option.splits sum.splits)
  qed
qed simp

text \<open>The data is what precedes the delimiter, in order and in full, whatever the chunks were.\<close>

lemma live_collect:
  assumes "live s b" and "buf_ok b" and "events_left b + length (upcoming b) + 1 < fuel"
  shows "case find_sub (upcoming b) (make_delimiter bd) of
      Some i \<Rightarrow> collected (collect step fuel s)
        (tail (drop (i + length (make_delimiter bd)) (upcoming b)) (fin b)) (take i (upcoming b))
    | None \<Rightarrow> (case collect step fuel s of (cs, r, s') \<Rightarrow>
        prefix cs (upcoming b) \<and> r = Some (Some (end_error missing (fin b))))"
  using assms
proof (induction fuel arbitrary: s b)
  case (Suc fuel)
  let ?d = "make_delimiter bd"
  obtain r b1 where sc: "scan_data memchr_ref ?d b = (r, b1)" by fastforce
  note post = scan_data_post [OF Suc.prems(2) sc]
  note st = live_step [OF Suc.prems(1,2) sc]
  show ?case
  proof (cases r)
    case Pending
    with st obtain s' where s': "step s = (Pending, s')" "live s' b1" by auto
    have "collect step (Suc fuel) s = collect step fuel s'" using s'(1) by simp
    with Suc.IH [OF s'(2)] post Pending Suc.prems(3) show ?thesis
      by (simp del: collect.simps split: option.splits)
  next
    case (Ready q)
    show ?thesis
    proof (cases q)
      case (ScanFound x)
      with Ready post have f: "find_sub (upcoming b) ?d = Some (length x)" "prefix x (upcoming b)"
        "upcoming b1 = drop (length x + length ?d) (upcoming b)" "fin b1 = fin b" "buf_ok b1" "events_left b1 \<le> events_left b"
        by simp_all
      from st Ready ScanFound obtain s'
        where s': "closed s' (tail (upcoming b1) (fin b1)) (events_left b1)" "step s = (if x = [] then step s' else (Ready (Some (Inr x)), s'))" by auto
      have x: "take (length x) (upcoming b) = x" using f(2) by (auto simp: prefix_def)
      show ?thesis
      proof (cases "x = []")
        case True
        with s' have "collect step (Suc fuel) s = collect step (Suc fuel) s'" by simp
        with closed_collect [OF s'(1), of "Suc fuel"] True f x Suc.prems(3) show ?thesis by simp
      next
        case False
        have "collected (collect step fuel s') (tail (upcoming b1) (fin b1)) []"
          by (rule closed_collect [OF s'(1)]) (use f Suc.prems(3) in simp)
        with False s' f x show ?thesis by (auto simp: collected_def split: prod.splits)
      qed
    next
      case (ScanData x)
      with Ready post have f: "x \<noteq> []" "upcoming b = x @ upcoming b1" "fin b1 = fin b" "buf_ok b1"
        "find_sub (upcoming b) ?d = map_option ((+) (length x)) (find_sub (upcoming b1) ?d)" "events_left b1 \<le> events_left b"
        by auto
      from st Ready ScanData obtain s' where s': "step s = (Ready (Some (Inr x)), s')" "live s' b1" by auto
      from f(1) have "0 < length x" by simp
      with f(2,6) Suc.prems(3) have fuel: "events_left b1 + length (upcoming b1) + 1 < fuel"
        by (simp del: length_greater_0_conv)
      obtain cs q' s'' where rec: "collect step fuel s' = (cs, q', s'')" by (metis prod_cases3)
      have run: "collect step (Suc fuel) s = (x @ cs, q', s'')" using s'(1) rec by simp
      note IH = Suc.IH [OF s'(2) f(4) fuel, unfolded rec f(3)]
      show ?thesis
      proof (cases "find_sub (upcoming b1) ?d")
        case None
        then have "find_sub (upcoming b) ?d = None" using f(5) by simp
        moreover have "prefix (x @ cs) (upcoming b)" using IH None by (simp add: f(2))
        ultimately show ?thesis using IH None by (simp add: run del: collect.simps)
      next
        case (Some i)
        have "find_sub (upcoming b) ?d = Some (length x + i)" using f(5) Some by simp
        moreover have "drop (length x + i + length ?d) (upcoming b) = drop (i + length ?d) (upcoming b1)"
          "take (length x + i) (upcoming b) = x @ take i (upcoming b1)"
          by (simp_all add: f(2) ac_simps)
        ultimately show ?thesis
          using IH Some by (simp add: run collected_def del: collect.simps)
      qed
    next
      case (ScanErr x)
      with Ready post st show ?thesis by auto
    next
      case ScanEof
      with Ready post st show ?thesis by auto
    qed
  qed
qed simp

end

text \<open>Rust's \<^verbatim>\<open>Result::transpose\<close>: the parser's own data chunks as a stream.\<close>

fun transpose_item :: "mp_error + bytes option \<Rightarrow> (mp_error + bytes) option" where
  "transpose_item (Inl e) = Some (Inl e)"
| "transpose_item (Inr None) = None"
| "transpose_item (Inr (Some c)) = Some (Inr c)"

definition multipart_chunks :: "multipart \<Rightarrow> (mp_error + bytes) option poll \<times> multipart" where
  "multipart_chunks m = map_prod (map_poll transpose_item) id (poll_next_part_data_chunk memchr_ref m)"

interpretation multipart_data: part_data_source multipart_chunks
  "\<lambda>m b. mp_state m = ReadingPartData \<and> mp_buffer m = Some b \<and> delimiter_finder m = Some (make_delimiter bd)"
  "\<lambda>m t n. mp_state m = ReadingBoundary \<and> (\<exists>b. mp_buffer m = Some b \<and> t = Inr (upcoming b))"
  "\<lambda>m rest. mp_state m = ReadingBoundary \<and> (\<exists>b. mp_buffer m = Some b \<and> rest = upcoming b)"
  "\<lambda>w e. Inr w" IncompleteStream bd for bd
proof
  fix m :: multipart and b b1 :: stream_buffer and r
  assume live: "mp_state m = ReadingPartData \<and> mp_buffer m = Some b \<and> delimiter_finder m = Some (make_delimiter bd)"
    and sc: "scan_data memchr_ref (make_delimiter bd) b = (r, b1)"
  note run = multipart_chunks_def poll_next_part_data_chunk_def
  show "case r of
         Pending \<Rightarrow> \<exists>m'. multipart_chunks m = (Pending, m') \<and> mp_state m' = ReadingPartData \<and> mp_buffer m' = Some b1 \<and>
           delimiter_finder m' = Some (make_delimiter bd)
       | Ready (ScanData x) \<Rightarrow> \<exists>m'. multipart_chunks m = (Ready (Some (Inr x)), m') \<and> mp_state m' = ReadingPartData \<and>
           mp_buffer m' = Some b1 \<and> delimiter_finder m' = Some (make_delimiter bd)
       | Ready (ScanFound x) \<Rightarrow> \<exists>m'. (mp_state m' = ReadingBoundary \<and>
             (\<exists>b. mp_buffer m' = Some b \<and> Inr (upcoming b1) = Inr (upcoming b))) \<and>
           multipart_chunks m = (if x = [] then multipart_chunks m' else (Ready (Some (Inr x)), m'))
       | Ready (ScanErr x) \<Rightarrow> \<exists>m'. multipart_chunks m = (Ready (Some (Inl x)), m')
       | Ready ScanEof \<Rightarrow> \<exists>m'. multipart_chunks m = (Ready (Some (Inl IncompleteStream)), m')"
    using live sc
    by (auto simp: run split: poll.split scan_outcome.split
        intro!: exI [of _ "m\<lparr>mp_buffer := Some b1, mp_state := ReadingBoundary\<rparr>"])
qed (simp add: multipart_chunks_def poll_next_part_data_chunk_def, auto)

interpretation part_data: part_data_source "PartDataStream_poll_data memchr_ref"
  "\<lambda>p b. \<not> pds_done p \<and> \<not> pds_terminated p \<and> pds_buffer p = b \<and> pds_delimiter p = make_delimiter bd"
  "\<lambda>p t n. pds_done p \<and> t = Inr (upcoming (pds_buffer p))" "\<lambda>p rest. pds_done p \<and> rest = upcoming (pds_buffer p)"
  "\<lambda>w e. Inr w" IncompleteStreamPart bd for bd
proof
  fix p :: part_data_stream and b b1 :: stream_buffer and r
  assume live: "\<not> pds_done p \<and> \<not> pds_terminated p \<and> pds_buffer p = b \<and> pds_delimiter p = make_delimiter bd"
    and sc: "scan_data memchr_ref (make_delimiter bd) b = (r, b1)"
  let ?step = "PartDataStream_poll_data memchr_ref"
  show "case r of
         Pending \<Rightarrow> \<exists>p'. ?step p = (Pending, p') \<and> \<not> pds_done p' \<and> \<not> pds_terminated p' \<and> pds_buffer p' = b1 \<and>
           pds_delimiter p' = make_delimiter bd
       | Ready (ScanData x) \<Rightarrow> \<exists>p'. ?step p = (Ready (Some (Inr x)), p') \<and> \<not> pds_done p' \<and> \<not> pds_terminated p' \<and>
           pds_buffer p' = b1 \<and> pds_delimiter p' = make_delimiter bd
       | Ready (ScanFound x) \<Rightarrow> \<exists>p'. (pds_done p' \<and> Inr (upcoming b1) = Inr (upcoming (pds_buffer p'))) \<and>
           ?step p = (if x = [] then ?step p' else (Ready (Some (Inr x)), p'))
       | Ready (ScanErr x) \<Rightarrow> \<exists>p'. ?step p = (Ready (Some (Inl x)), p')
       | Ready ScanEof \<Rightarrow> \<exists>p'. ?step p = (Ready (Some (Inl IncompleteStreamPart)), p')"
    using live sc
    by (auto simp: PartDataStream_poll_data_def split: poll.split scan_outcome.split
        intro!: exI [of _ "p\<lparr>pds_buffer := b1, pds_done := True\<rparr>"])
qed (simp add: PartDataStream_poll_data_def, auto)

subsection \<open>The closing trailer\<close>

definition trailer_dashes_spec :: "bytes \<Rightarrow> stream_end \<Rightarrow> mp_error + (unit \<times> bytes)" where
  "trailer_dashes_spec w e =
     (if length w < 2 then Inl (end_error IncompleteStreamPart e)
      else if prefix ''--'' w then Inr ((), drop 2 w)
      else Inl (if hd w = CR \<or> is_ows (hd w) then StreamPartNotLast else InvalidFormat))"

definition trailer_crlf_spec :: "bytes \<Rightarrow> stream_end \<Rightarrow> mp_error + (unit \<times> bytes)" where
  "trailer_crlf_spec w e =
     (let w' = dropWhile is_ows w
      in if w' = [] then Inl (end_error IncompleteStreamPart e)
         else if hd w' \<noteq> CR then Inl InvalidFormat
         else if length w' < 2 then Inl (end_error IncompleteStreamPart e)
         else if prefix CRLF w' then Inr ((), drop 2 w') else Inl InvalidFormat)"

definition trailer_eof_spec :: "bytes \<Rightarrow> stream_end \<Rightarrow> mp_error + (unit \<times> bytes)" where
  "trailer_eof_spec w e =
     (if w \<noteq> [] then Inl StreamPartNotLast
      else (case e of EndOk \<Rightarrow> Inr ((), []) | EndErr x \<Rightarrow> Inl x))"

lemma trailer_crlf_spec_drop:
  "list_all is_ows (take k w) \<Longrightarrow> trailer_crlf_spec (drop k w) e = trailer_crlf_spec w e"
  by (simp add: trailer_crlf_spec_def dropWhile_drop)

interpretation trailer_dashes: stream_reader trailer_after_boundary trailer_dashes_spec "\<lambda>_. True"
proof
  fix b b' x a
  assume ok: "buf_ok b"
  obtain r1 b1 where e: "fill_buf 2 b = (r1, b1)" by fastforce
  note run = trailer_after_boundary_def [of b, unfolded e]
  have hd: "hd (upcoming b) = hd (buf b1)" if "prefix (buf b1) (upcoming b)" "2 \<le> length (buf b1)"
    using that by (cases "buf b1") (auto simp: prefix_def)
  have len: "\<not> length (upcoming b) < 2" if "prefix (buf b1) (upcoming b)" "2 \<le> length (buf b1)"
    using prefix_length_le [OF that(1)] that(2) by simp
  have cr: "prefix [CR] v \<longleftrightarrow> hd v = CR" if "2 \<le> length v" for v
    using that by (cases v) auto
  { assume "trailer_after_boundary b = (Pending, b')"
    with ok e show "buf_ok b' \<and> True \<and> fin b' = fin b \<and> events_left b' < events_left b \<and>
      trailer_dashes_spec (upcoming b') (fin b) = trailer_dashes_spec (upcoming b) (fin b)"
      by (cases rule: refill.fill_cases) (auto simp: run split: if_splits) }
  { assume "trailer_after_boundary b = (Ready (Inl x), b')"
    with ok e show "trailer_dashes_spec (upcoming b) (fin b) = Inl x"
      by (cases rule: refill.fill_cases)
        (auto simp: run trailer_dashes_spec_def prefix_two hd len cr split: if_splits) }
  { assume "trailer_after_boundary b = (Ready (Inr a), b')"
    with ok e show "trailer_dashes_spec (upcoming b) (fin b) = Inr (a, upcoming b') \<and> fin b' = fin b \<and> buf_ok b' \<and>
      events_left b' \<le> events_left b"
      by (cases rule: refill.fill_cases)
        (auto simp: run trailer_dashes_spec_def prefix_two upcoming_drop len simp del: upcoming_update(1) split: if_splits) }
qed

lemma skip_final_padding_post:
  assumes "buf_ok b"
  shows "case skip_final_padding b of
           (Pending, b') \<Rightarrow> fin b' = fin b \<and> buf_ok b' \<and> events_left b' < events_left b \<and>
             (\<exists>k. list_all is_ows (take k (upcoming b)) \<and> upcoming b' = drop k (upcoming b))
         | (Ready (Inl x), b') \<Rightarrow> trailer_crlf_spec (upcoming b) (fin b) = Inl x
         | (Ready (Inr u), b') \<Rightarrow> upcoming b' = dropWhile is_ows (upcoming b) \<and> upcoming b' \<noteq> [] \<and>
             hd (upcoming b') = CR \<and> fin b' = fin b \<and> buf_ok b' \<and> events_left b' \<le> events_left b"
  using assms
proof (induction "length (upcoming b)" arbitrary: b rule: less_induct)
  case less
  obtain r1 b1 where e: "fill_buf 1 b = (r1, b1)" by fastforce
  note unfold = skip_final_padding.simps [of b, unfolded e]
  from less.prems e show ?case
  proof (cases rule: refill.fill_cases)
    case pending
    then show ?thesis by (auto simp: unfold intro!: exI [of _ 0])
  next
    case short
    then have "upcoming b = []" by simp
    with short show ?thesis by (simp add: unfold trailer_crlf_spec_def)
  next
    case filled
    then obtain c h where c: "buf b1 = c # h" by (cases "buf b1") auto
    with filled obtain t where up: "upcoming b = c # t" by (auto simp: prefix_def)
    show ?thesis
    proof (cases "is_ows c")
      case False
      with filled c up show ?thesis
        by (cases "c = CR") (auto simp: unfold trailer_crlf_spec_def)
    next
      case True
      let ?b2 = "b1\<lparr>buf := drop 1 (buf b1)\<rparr>"
      have run: "skip_final_padding b = skip_final_padding ?b2"
        using filled c True by (simp add: unfold)
      have up2: "upcoming ?b2 = t"
        using c up filled(2) by (simp add: upcoming_def)
      note IH = less.hyps [of ?b2, unfolded up2, simplified up, simplified]
      have sp: "trailer_crlf_spec (upcoming b) e = trailer_crlf_spec t e"
        "dropWhile is_ows (upcoming b) = dropWhile is_ows t" for e
        using True up by (simp_all add: trailer_crlf_spec_def)
      have more: "list_all is_ows (take (Suc k) (upcoming b)) \<and> drop k t = drop (Suc k) (upcoming b)"
        if "list_all is_ows (take k t)" for k
        using that True up by simp
      show ?thesis
        unfolding run sp using IH filled(3,4,5) more
        by (fastforce split: prod.splits poll.splits sum.splits)
    qed
  qed
qed

interpretation trailer_line_end: stream_reader trailer_final_crlf trailer_crlf_spec "\<lambda>_. True"
proof
  fix b b' x a
  assume ok: "buf_ok b"
  obtain r1 b1 where e: "skip_final_padding b = (r1, b1)" by fastforce
  note post = skip_final_padding_post [OF ok, unfolded e, simplified]
  obtain r2 b2 where f: "fill_buf 2 b1 = (r2, b2)" by fastforce
  note run = trailer_final_crlf_def [of b, unfolded e]
  have mid: "upcoming b1 = dropWhile is_ows (upcoming b) \<and> upcoming b1 \<noteq> [] \<and> hd (upcoming b1) = CR \<and>
      fin b1 = fin b \<and> buf_ok b1 \<and> events_left b1 \<le> events_left b" if "r1 = Ready (Inr u)" for u
    using post that by auto
  have spec: "trailer_crlf_spec (upcoming b1) (fin b) = trailer_crlf_spec (upcoming b) (fin b)" if "r1 = Ready (Inr u)" for u
    using mid [OF that] by (simp add: trailer_crlf_spec_def)
  have crlf: "trailer_crlf_spec (upcoming b) (fin b) =
      (if length (upcoming b1) < 2 then Inl (end_error IncompleteStreamPart (fin b))
       else if prefix CRLF (upcoming b1) then Inr ((), drop 2 (upcoming b1)) else Inl InvalidFormat)" if "r1 = Ready (Inr u)" for u
  proof -
    from mid [OF that] have "dropWhile is_ows (upcoming b) = upcoming b1" "upcoming b1 \<noteq> []" "hd (upcoming b1) = CR"
      by auto
    then show ?thesis unfolding trailer_crlf_spec_def Let_def by (simp only: if_True if_False refl not_False_eq_True simp_thms)
  qed
  { assume res: "trailer_final_crlf b = (Pending, b')"
    show "buf_ok b' \<and> True \<and> fin b' = fin b \<and> events_left b' < events_left b \<and>
      trailer_crlf_spec (upcoming b') (fin b) = trailer_crlf_spec (upcoming b) (fin b)"
    proof (cases r1)
      case Pending
      with res run post show ?thesis by (auto simp: trailer_crlf_spec_drop)
    next
      case (Ready q)
      with res run f obtain u where q: "q = Inr u" by (cases q) auto
      with Ready mid have "buf_ok b1" by simp
      from this f show ?thesis
        by (cases rule: refill.fill_cases)
          (use Ready q res run f mid [of u] spec [of u] in \<open>auto split: if_splits\<close>)
    qed }
  { assume res: "trailer_final_crlf b = (Ready (Inl x), b')"
    show "trailer_crlf_spec (upcoming b) (fin b) = Inl x"
    proof (cases "\<exists>u. r1 = Ready (Inr u)")
      case False
      with res run post show ?thesis by (cases r1) (auto split: sum.splits)
    next
      case True
      then obtain u where u: "r1 = Ready (Inr u)" by blast
      with mid have "buf_ok b1" by simp
      from this f show ?thesis
        by (cases rule: refill.fill_cases)
          (use u res run f mid [OF u] crlf [OF u] in \<open>auto simp: prefix_two split: if_splits\<close>)
    qed }
  { assume res: "trailer_final_crlf b = (Ready (Inr a), b')"
    then obtain u where u: "r1 = Ready (Inr u)" using run by (auto simp: try_ready_Ready)
    with mid have "buf_ok b1" by simp
    from this f show "trailer_crlf_spec (upcoming b) (fin b) = Inr (a, upcoming b') \<and> fin b' = fin b \<and> buf_ok b' \<and>
      events_left b' \<le> events_left b"
      by (cases rule: refill.fill_cases)
        (use u res run f mid [OF u] crlf [OF u] in
          \<open>auto simp: prefix_two upcoming_drop simp del: upcoming_update(1) split: if_splits dest: prefix_length_le\<close>) }
qed

interpretation trailer_end: stream_reader trailer_eof trailer_eof_spec "\<lambda>_. True"
proof
  fix b b' x a
  assume ok: "buf_ok b"
  obtain r1 b1 where p: "poll_stream b = (r1, b1)" by fastforce
  have ne: "buf b \<noteq> [] \<Longrightarrow> upcoming b \<noteq> []" by (simp add: upcoming_def)
  note run = trailer_eof_def [of b, unfolded p]
  { assume "trailer_eof b = (Pending, b')"
    with p ok show "buf_ok b' \<and> True \<and> fin b' = fin b \<and> events_left b' < events_left b \<and>
      trailer_eof_spec (upcoming b') (fin b) = trailer_eof_spec (upcoming b) (fin b)"
      by (cases rule: poll_stream_cases) (auto simp: run split: if_splits) }
  { assume "trailer_eof b = (Ready (Inl x), b')"
    with p ok show "trailer_eof_spec (upcoming b) (fin b) = Inl x"
      by (cases rule: poll_stream_cases) (use ne in \<open>auto simp: run trailer_eof_spec_def split: if_splits\<close>) }
  { assume "trailer_eof b = (Ready (Inr a), b')"
    with p ok show "trailer_eof_spec (upcoming b) (fin b) = Inr (a, upcoming b') \<and> fin b' = fin b \<and> buf_ok b' \<and>
      events_left b' \<le> events_left b"
      by (cases rule: poll_stream_cases)
        (use poll_stream_events_le [OF p] in \<open>auto simp: run trailer_eof_spec_def split: if_splits\<close>) }
qed

text \<open>What the rest of the trailer will answer, from each of its states.\<close>

definition then_spec :: "mp_error + (unit \<times> bytes) \<Rightarrow> (bytes \<Rightarrow> mp_error + bytes) \<Rightarrow> mp_error + bytes" where
  "then_spec x k = (case x of Inl err \<Rightarrow> Inl err | Inr (_, w) \<Rightarrow> k w)"

lemma then_spec_simps [simp]:
  "then_spec (Inl err) k = Inl err"
  "then_spec (Inr (u, w)) k = k w"
  by (simp_all add: then_spec_def)

definition trailer_spec :: "bytes \<Rightarrow> stream_end \<Rightarrow> mp_error + bytes" where
  "trailer_spec w e =
     then_spec (trailer_dashes_spec w e) (\<lambda>w1.
       then_spec (trailer_crlf_spec w1 e) (\<lambda>w2.
         then_spec (trailer_eof_spec w2 e) Inr))"

fun trailer_rest :: "data_state \<Rightarrow> bytes \<Rightarrow> stream_end \<Rightarrow> mp_error + bytes" where
  "trailer_rest AfterBoundary w e = trailer_spec w e"
| "trailer_rest FinalCRLF w e =
     then_spec (trailer_crlf_spec w e) (\<lambda>w2. then_spec (trailer_eof_spec w2 e) Inr)"
| "trailer_rest Eof w e = then_spec (trailer_eof_spec w e) Inr"
| "trailer_rest _ w e = Inr w"

definition trailer_answer :: "final_part_data_stream \<Rightarrow> mp_error + bytes" where
  "trailer_answer p = trailer_rest (fds_state p) (upcoming (fds_buffer p)) (fin (fds_buffer p))"

text \<open>A final stream that has passed the delimiter and not finished its trailer.\<close>

definition in_trailer :: "final_part_data_stream \<Rightarrow> bool" where
  "in_trailer p \<longleftrightarrow> fds_state p \<noteq> Data \<and> fds_state p \<noteq> FinalDone \<and> \<not> fds_aborted p \<and> \<not> fds_terminated p \<and>
     buf_ok (fds_buffer p)"

definition trailer_post :: "(mp_error + unit) poll \<times> final_part_data_stream \<Rightarrow> final_part_data_stream \<Rightarrow> bool" where
  "trailer_post x p \<longleftrightarrow>
     (case x of
        (Pending, p') \<Rightarrow> in_trailer p' \<and> trailer_answer p' = trailer_answer p \<and>
          events_left (fds_buffer p') < events_left (fds_buffer p)
      | (Ready (Inl err), p') \<Rightarrow> trailer_answer p = Inl err
      | (Ready (Inr _), p') \<Rightarrow> trailer_answer p = Inr (upcoming (fds_buffer p')) \<and> fds_state p' = FinalDone \<and>
          \<not> fds_terminated p')"
lemma on_final_cases:
  assumes "on_final f p = (r, p')"
  obtains b' where "f (fds_buffer p) = (r, b')" and "p' = p\<lparr>fds_buffer := b'\<rparr>"
  using assms by (auto simp: on_final_def split: prod.splits)

text \<open>One stage of the trailer, from the reader it runs and the stages after it.\<close>

lemma trailer_stage:
  assumes reader: "stream_reader f spec (\<lambda>_. True)" and p: "in_trailer p"
    and answer: "\<And>w e. trailer_rest (fds_state p) w e = then_spec (spec w e) (\<lambda>w'. trailer_rest nxt w' e)"
    and run: "poll_trailer p = try_ready (on_final f p) (\<lambda>_ p1. k p1)"
    and rest: "\<And>p1. in_trailer p1 \<Longrightarrow> fds_state p1 = fds_state p \<Longrightarrow>
        trailer_post (k p1) (p1\<lparr>fds_state := nxt\<rparr>)"
  shows "trailer_post (poll_trailer p) p"
proof -
  obtain r b' where f: "f (fds_buffer p) = (r, b')" by fastforce
  then have on: "on_final f p = (r, p\<lparr>fds_buffer := b'\<rparr>)" by (simp add: on_final_def)
  have ok: "buf_ok (fds_buffer p)" using p by (simp add: in_trailer_def)
  show ?thesis
  proof (cases r)
    case Pending
    with stream_reader.read_pending [OF reader ok, of b'] f p on show ?thesis
      by (auto simp: run trailer_post_def in_trailer_def trailer_answer_def answer)
  next
    case (Ready q)
    show ?thesis
    proof (cases q)
      case (Inl x)
      with stream_reader.read_failed [OF reader ok, of x b'] f Ready on show ?thesis
        by (simp add: run trailer_post_def trailer_answer_def answer)
    next
      case (Inr u)
      let ?p1 = "p\<lparr>fds_buffer := b'\<rparr>"
      from stream_reader.read_done [OF reader ok, of u b'] f Ready Inr
      have d: "spec (upcoming (fds_buffer p)) (fin (fds_buffer p)) = Inr (u, upcoming b')"
        "fin b' = fin (fds_buffer p)" "buf_ok b'" "events_left b' \<le> events_left (fds_buffer p)" by simp_all
      have ans: "trailer_answer (?p1\<lparr>fds_state := nxt\<rparr>) = trailer_answer p"
        by (simp add: trailer_answer_def answer d)
      have "trailer_post (k ?p1) (?p1\<lparr>fds_state := nxt\<rparr>)"
        by (rule rest) (use p d in \<open>simp_all add: in_trailer_def\<close>)
      moreover have "poll_trailer p = k ?p1" using on Ready Inr by (simp add: run)
      ultimately show ?thesis
        using ans d(4) by (auto simp: trailer_post_def split: prod.splits poll.splits sum.splits)
    qed
  qed
qed

lemma poll_trailer_eof: "in_trailer p \<Longrightarrow> fds_state p = Eof \<Longrightarrow> trailer_post (poll_trailer p) p"
  by (rule trailer_stage [OF trailer_end.stream_reader_axioms, of p FinalDone "\<lambda>p1. (Ready (Inr ()), p1\<lparr>fds_state := FinalDone\<rparr>)"])
    (simp_all add: poll_trailer.simps [of p] trailer_post_def trailer_answer_def in_trailer_def)

lemma poll_trailer_final_crlf:
  "in_trailer p \<Longrightarrow> fds_state p = FinalCRLF \<Longrightarrow> trailer_post (poll_trailer p) p"
  by (rule trailer_stage [OF trailer_line_end.stream_reader_axioms, of p Eof "\<lambda>p1. poll_trailer (p1\<lparr>fds_state := Eof\<rparr>)"])
    (simp_all add: poll_trailer.simps [of p] poll_trailer_eof in_trailer_def)

lemma poll_trailer_post:
  assumes "in_trailer p"
  shows "trailer_post (poll_trailer p) p"
proof (cases "fds_state p")
  case AfterBoundary
  show ?thesis
    by (rule trailer_stage [OF trailer_dashes.stream_reader_axioms assms, of FinalCRLF
          "\<lambda>p1. poll_trailer (p1\<lparr>fds_state := FinalCRLF\<rparr>)"])
      (simp_all add: AfterBoundary poll_trailer.simps [of p] trailer_spec_def poll_trailer_final_crlf in_trailer_def)
qed (use assms poll_trailer_eof poll_trailer_final_crlf in \<open>auto simp: in_trailer_def\<close>)

text \<open>Three rounds are all the final stream's loop can make; from the trailer on, two.\<close>

lemma final_poll_trailer:
  assumes "in_trailer p"
  shows "final_poll_loop (Suc (Suc k)) M p =
    (case poll_trailer p of
       (Pending, p1) \<Rightarrow> (Pending, p1)
     | (Ready (Inl err), p1) \<Rightarrow> (Ready (Some (Inl err)), p1\<lparr>fds_terminated := True\<rparr>)
     | (Ready (Inr _), p1) \<Rightarrow> (Ready None, p1))"
  using assms poll_trailer_post [OF assms]
  by (auto simp: in_trailer_def trailer_post_def split: prod.splits poll.splits sum.splits data_state.splits)

interpretation final_data: part_data_source "FinalPartDataStream_poll_next memchr_ref"
  "\<lambda>p b. fds_state p = Data \<and> \<not> fds_aborted p \<and> \<not> fds_terminated p \<and> fds_buffer p = b \<and> fds_delimiter p = make_delimiter bd"
  "\<lambda>p t n. in_trailer p \<and> t = trailer_answer p \<and> n = events_left (fds_buffer p)"
  "\<lambda>p rest. fds_state p = FinalDone \<and> rest = upcoming (fds_buffer p)"
  trailer_spec IncompleteStreamPart bd for bd
proof
  fix p :: final_part_data_stream and b b1 :: stream_buffer and r
  assume live: "fds_state p = Data \<and> \<not> fds_aborted p \<and> \<not> fds_terminated p \<and> fds_buffer p = b \<and> fds_delimiter p = make_delimiter bd"
    and ok: "buf_ok b" and sc: "scan_data memchr_ref (make_delimiter bd) b = (r, b1)"
  let ?step = "FinalPartDataStream_poll_next memchr_ref"
  note run = FinalPartDataStream_poll_next_def FinalPartDataStream_poll_data_def eval_nat_numeral
  note post = scan_data_post [OF ok sc]
  let ?p1 = "p\<lparr>fds_buffer := b1, fds_state := AfterBoundary\<rparr>"
  have tr: "in_trailer ?p1" if "r = Ready (ScanFound x)" for x
    using post live that by (simp add: in_trailer_def)
  show "case r of
         Pending \<Rightarrow> \<exists>p'. ?step p = (Pending, p') \<and> fds_state p' = Data \<and> \<not> fds_aborted p' \<and> \<not> fds_terminated p' \<and>
           fds_buffer p' = b1 \<and> fds_delimiter p' = make_delimiter bd
       | Ready (ScanData x) \<Rightarrow> \<exists>p'. ?step p = (Ready (Some (Inr x)), p') \<and> fds_state p' = Data \<and> \<not> fds_aborted p' \<and>
           \<not> fds_terminated p' \<and> fds_buffer p' = b1 \<and> fds_delimiter p' = make_delimiter bd
       | Ready (ScanFound x) \<Rightarrow> \<exists>p'. (in_trailer p' \<and> trailer_spec (upcoming b1) (fin b1) = trailer_answer p' \<and>
             events_left b1 = events_left (fds_buffer p')) \<and>
           ?step p = (if x = [] then ?step p' else (Ready (Some (Inr x)), p'))
       | Ready (ScanErr x) \<Rightarrow> \<exists>p'. ?step p = (Ready (Some (Inl x)), p')
       | Ready ScanEof \<Rightarrow> \<exists>p'. ?step p = (Ready (Some (Inl IncompleteStreamPart)), p')"
    using live sc tr final_poll_trailer [of ?p1 0] final_poll_trailer [of ?p1 "Suc 0"]
    by (auto simp: run trailer_answer_def split: poll.split scan_outcome.split intro!: exI [of _ ?p1])
next
  fix p p' :: final_part_data_stream and t n r'
  assume cl: "in_trailer p \<and> t = trailer_answer p \<and> n = events_left (fds_buffer p)"
    and st: "FinalPartDataStream_poll_next memchr_ref p = (r', p')"
  from cl final_poll_trailer [of p 1 memchr_ref] st
  have "(case poll_trailer p of
       (Pending, p1) \<Rightarrow> (Pending, p1)
     | (Ready (Inl err), p1) \<Rightarrow> (Ready (Some (Inl err)), p1\<lparr>fds_terminated := True\<rparr>)
     | (Ready (Inr _), p1) \<Rightarrow> (Ready None, p1)) = (r', p')"
    by (simp add: FinalPartDataStream_poll_next_def eval_nat_numeral)
  then show "case r' of
         Pending \<Rightarrow> \<exists>n' < n. in_trailer p' \<and> t = trailer_answer p' \<and> n' = events_left (fds_buffer p')
       | Ready None \<Rightarrow> \<exists>rest. (fds_state p' = FinalDone \<and> rest = upcoming (fds_buffer p')) \<and> t = Inr rest
       | Ready (Some (Inl x)) \<Rightarrow> t = Inl x
       | Ready (Some (Inr x)) \<Rightarrow> False"
    using cl poll_trailer_post [of p]
    by (auto simp: trailer_post_def split: prod.splits poll.splits sum.splits)
qed

end
