(* ===== verification/Multipart_Properties.thy ===== *)
theory Multipart_Properties
  imports Multipart_Correct
begin

text \<open>
  What the multipart crate promises its callers, stated on the operations of the code and on the bytes
  of the input alone: \<open>upcoming b\<close> are all bytes still to be read and \<open>fin b\<close> is how the input ends, so
  none of these statements mentions how the transport cut the input or when it was not ready.
\<close>

text \<open>The trailer ends cleanly on exactly one shape of input.\<close>

lemma crlf_after_padding:
  "dropWhile is_ows w = CRLF @ v \<longleftrightarrow> (\<exists>pad. list_all is_ows pad \<and> w = pad @ CRLF @ v)"
proof
  assume "dropWhile is_ows w = CRLF @ v"
  then have "w = takeWhile is_ows w @ CRLF @ v" by (metis takeWhile_dropWhile_id)
  moreover have "list_all is_ows (takeWhile is_ows w)" by (auto simp: list_all_iff dest: set_takeWhileD)
  ultimately show "\<exists>pad. list_all is_ows pad \<and> w = pad @ CRLF @ v" by metis
next
  assume "\<exists>pad. list_all is_ows pad \<and> w = pad @ CRLF @ v"
  then obtain pad where pad: "list_all is_ows pad" "w = pad @ CRLF @ v" by blast
  then have "dropWhile is_ows w = dropWhile is_ows (CRLF @ v)"
    by (simp add: dropWhile_append2 list_all_iff)
  then show "dropWhile is_ows w = CRLF @ v" by (simp add: is_ows_def)
qed

lemma trailer_spec_clean:
  "trailer_spec w e = Inr rest \<longleftrightarrow> e = EndOk \<and> rest = [] \<and> (\<exists>pad. list_all is_ows pad \<and> w = ''--'' @ pad @ CRLF)"
proof -
  have dashes: "trailer_dashes_spec w e = Inr (u, v) \<longleftrightarrow> w = ''--'' @ v" for u v
    by (auto simp: trailer_dashes_spec_def prefix_def)
  have line: "trailer_crlf_spec w1 e = Inr (u, v) \<longleftrightarrow> (\<exists>pad. list_all is_ows pad \<and> w1 = pad @ CRLF @ v)" for w1 u v
  proof -
    have "trailer_crlf_spec w1 e = Inr (u, v) \<longleftrightarrow> dropWhile is_ows w1 = CRLF @ v"
      unfolding trailer_crlf_spec_def Let_def by (cases "dropWhile is_ows w1") (auto simp: prefix_def simp del: dropWhile_eq_Nil_conv)
    then show ?thesis by (simp only: crlf_after_padding)
  qed
  have eof: "trailer_eof_spec w2 e = Inr (u, v) \<longleftrightarrow> w2 = [] \<and> v = [] \<and> e = EndOk" for w2 u v
    by (auto simp: trailer_eof_spec_def split: stream_end.splits)
  have seq: "then_spec x k = Inr r \<longleftrightarrow> (\<exists>u v. x = Inr (u, v) \<and> k v = Inr r)" for x k and r :: bytes
    by (cases x) (auto simp: then_spec_def)
  show ?thesis
    by (auto simp: trailer_spec_def seq dashes line eof)
qed

subsection \<open>Part data\<close>

lemmas crate = byte_search.crate_unique

text \<open>
  A part data stream yields exactly the bytes before the first delimiter of the remaining input,
  in order, whatever the chunks are and whenever the transport is not ready, ends without an error and
  leaves the input right behind the delimiter; when there is no delimiter it fails with
  \<^verbatim>\<open>IncompleteStreamPart\<close>, or with the transport's own error, after yielding only a prefix of the input.
\<close>

theorem part_data_stream_exact:
  assumes "byte_search M" and "buf_ok b" and "events_left b + length (upcoming b) + 1 < fuel"
  shows "case find_sub (upcoming b) (make_delimiter bd) of
      Some i \<Rightarrow> \<exists>p'. collect (PartDataStream_poll_data M) fuel (PartDataStream_new b (make_delimiter bd) n) =
          (take i (upcoming b), Some None, p') \<and> pds_done p' \<and>
          upcoming (pds_buffer p') = drop (i + length (make_delimiter bd)) (upcoming b)
    | None \<Rightarrow> \<exists>cs p'. collect (PartDataStream_poll_data M) fuel (PartDataStream_new b (make_delimiter bd) n) =
          (cs, Some (Some (end_error IncompleteStreamPart (fin b))), p') \<and> prefix cs (upcoming b)"
  unfolding crate [OF assms(1)]
  using part_data.live_collect [of "PartDataStream_new b (make_delimiter bd) n" b bd fuel] assms(2,3)
  by (auto simp: PartDataStream_new_def part_data.collected_def split: option.splits prod.splits)

theorem part_data_stream_exact_witness:
  "byte_search memchr_ref \<and>
   (\<exists>p'. collect (PartDataStream_poll_data memchr_ref) 60
      (PartDataStream_new (StreamBuffer_new [EvItem (Inr (''data'' @ [CR])), EvPending, EvItem (Inr ([LF] @ ''--b--''))])
         (make_delimiter ''b'') 0) = (''data'', Some None, p') \<and> upcoming (pds_buffer p') = ''--'')"
proof -
  define b where "b = StreamBuffer_new [EvItem (Inr (''data'' @ [CR])), EvPending, EvItem (Inr ([LF] @ ''--b--''))]"
  have up: "upcoming b = ''data'' @ [CR, LF] @ ''--b--''" and ev: "events_left b = 3" and ok: "buf_ok b"
    by (simp_all add: b_def upcoming_def sview_def StreamBuffer_new_def events_left_def buf_ok_def)
  have f: "find_sub (upcoming b) (make_delimiter ''b'') = Some 4"
    unfolding up by code_simp
  have "\<exists>p'. collect (PartDataStream_poll_data memchr_ref) 60 (PartDataStream_new b (make_delimiter ''b'') 0) =
      (''data'', Some None, p') \<and> upcoming (pds_buffer p') = ''--''"
    using part_data_stream_exact [OF ref_search.byte_search_axioms ok, of 60 "''b''" 0, unfolded f]
    by (auto simp: up ev)
  then show ?thesis unfolding b_def using ref_search.byte_search_axioms by blast
qed

text \<open>
  C5: the final stream of a form upload yields exactly the bytes before the first delimiter and then
  decides the upload on the closing trailer: it ends cleanly only when \<^verbatim>\<open>--\<close>, optional padding and
  CR LF follow and then the input ends without an error.
\<close>

theorem final_stream_exact:
  assumes "byte_search M" and "buf_ok b" and "events_left b + length (upcoming b) + 1 < fuel"
  shows "case find_sub (upcoming b) (make_delimiter bd) of
      Some i \<Rightarrow>
        (\<exists>p'. collect (FinalPartDataStream_poll_next M) fuel (FinalPartDataStream_new b (make_delimiter bd) n False False) =
          (take i (upcoming b),
           Some (case trailer_spec (drop (i + length (make_delimiter bd)) (upcoming b)) (fin b) of
                   Inl err \<Rightarrow> Some err | Inr _ \<Rightarrow> None), p'))
    | None \<Rightarrow>
        (\<exists>cs p'. collect (FinalPartDataStream_poll_next M) fuel (FinalPartDataStream_new b (make_delimiter bd) n False False) =
          (cs, Some (Some (end_error IncompleteStreamPart (fin b))), p') \<and> prefix cs (upcoming b))"
  unfolding crate [OF assms(1)]
  using final_data.live_collect [of "FinalPartDataStream_new b (make_delimiter bd) n False False" b bd fuel] assms(2,3)
  by (auto simp: FinalPartDataStream_new_def final_data.collected_def split: option.splits prod.splits sum.splits)

theorem final_stream_exact_witness:
  "byte_search memchr_ref \<and>
   (\<exists>p'. collect (FinalPartDataStream_poll_next memchr_ref) 60
      (FinalPartDataStream_new (StreamBuffer_new [EvItem (Inr (''data'' @ [CR])), EvPending, EvItem (Inr ([LF] @ ''--b--'' @ CRLF))])
         (make_delimiter ''b'') 0 False False) = (''data'', Some None, p'))"
proof -
  define b where
    "b = StreamBuffer_new [EvItem (Inr (''data'' @ [CR])), EvPending, EvItem (Inr ([LF] @ ''--b--'' @ CRLF))]"
  have up: "upcoming b = ''data'' @ [CR, LF] @ ''--b--'' @ CRLF" and ev: "events_left b = 3" and ok: "buf_ok b" and fn: "fin b = EndOk"
    by (simp_all add: b_def upcoming_def sview_def StreamBuffer_new_def events_left_def buf_ok_def fin_def)
  have f: "find_sub (upcoming b) (make_delimiter ''b'') = Some 4"
    unfolding up by code_simp
  have t: "trailer_spec (''--'' @ CRLF) (fin b) = Inr []"
    unfolding fn by code_simp
  have "\<exists>p'. collect (FinalPartDataStream_poll_next memchr_ref) 60
      (FinalPartDataStream_new b (make_delimiter ''b'') 0 False False) = (''data'', Some None, p')"
    using final_stream_exact [OF ref_search.byte_search_axioms ok, of 60 "''b''" 0, unfolded f]
    using t by (auto simp: ev up)
  then show ?thesis unfolding b_def using ref_search.byte_search_axioms by blast
qed

text \<open>Collecting the final stream always ends.\<close>

lemma final_collect_ends:
  assumes "byte_search M" and "buf_ok b" and "events_left b + length (upcoming b) + 1 < fuel"
  shows "\<exists>data r p'. collect (FinalPartDataStream_poll_next M) fuel (FinalPartDataStream_new b (make_delimiter bd) n False False) =
    (data, Some r, p')"
  unfolding crate [OF assms(1)]
  using final_data.live_collect [of "FinalPartDataStream_new b (make_delimiter bd) n False False" b bd fuel] assms(2,3)
  by (auto simp: FinalPartDataStream_new_def final_data.collected_def split: option.splits prod.splits sum.splits)

lemma final_accepts:
  assumes "byte_search M" and "buf_ok b" and "events_left b + length (upcoming b) + 1 < fuel"
  shows "(\<exists>p'. collect (FinalPartDataStream_poll_next M) fuel (FinalPartDataStream_new b (make_delimiter bd) n False False) =
            (data, Some None, p')) \<longleftrightarrow>
         fin b = EndOk \<and> find_sub (upcoming b) (make_delimiter bd) = Some (length data) \<and>
         (\<exists>pad. list_all is_ows pad \<and> upcoming b = data @ make_delimiter bd @ ''--'' @ pad @ CRLF)"
    (is "?run \<longleftrightarrow> ?shape")
proof -
  let ?w = "upcoming b" and ?d = "make_delimiter bd"
  have run: "?run \<longleftrightarrow> (\<exists>i. find_sub ?w ?d = Some i \<and> data = take i ?w \<and>
      trailer_spec (drop (i + length ?d) ?w) (fin b) = Inr [])"
    using final_data.live_collect [of "FinalPartDataStream_new b ?d n False False" b bd fuel] assms(2,3)
    unfolding crate [OF assms(1)]
    by (auto simp: FinalPartDataStream_new_def final_data.collected_def
        dest: trailer_spec_clean [THEN iffD1] split: option.splits prod.splits sum.splits)
  have cut: "?w = take i ?w @ ?d @ drop (i + length ?d) ?w \<and> i \<le> length ?w" if "find_sub ?w ?d = Some i" for i
    using that by (auto simp: find_sub_Some occurs_at_iff)
  show ?thesis
  proof
    assume ?run
    then obtain i where i: "find_sub ?w ?d = Some i" "data = take i ?w"
      and t: "trailer_spec (drop (i + length ?d) ?w) (fin b) = Inr []" using run by blast
    from t obtain pad where "fin b = EndOk" "list_all is_ows pad" "drop (i + length ?d) ?w = ''--'' @ pad @ CRLF"
      by (auto simp: trailer_spec_clean)
    with cut [OF i(1)] i show ?shape by auto
  next
    assume shape: ?shape
    then obtain pad where pad: "list_all is_ows pad" "?w = data @ ?d @ ''--'' @ pad @ CRLF" by blast
    then have "drop (length data + length ?d) ?w = ''--'' @ pad @ CRLF" by simp
    with pad shape have "trailer_spec (drop (length data + length ?d) ?w) (fin b) = Inr []"
      by (auto simp: trailer_spec_clean)
    with shape pad run show ?run by (metis append_eq_conv_conj)
  qed
qed

text \<open>
  The final stream accepts exactly the well-formed uploads: it ends without an error after
  yielding \<open>data\<close> if and only if the input was \<open>data\<close>, the delimiter in its first occurrence, \<^verbatim>\<open>--\<close>,
  padding and CR LF, and nothing after.
\<close>

theorem final_stream_accepts:
  assumes "byte_search M" and "buf_ok b" and "events_left b + length (upcoming b) + 1 < fuel"
  shows "(\<exists>p'. collect (FinalPartDataStream_poll_next M) fuel (FinalPartDataStream_new b (make_delimiter bd) n False False) =
            (data, Some None, p')) \<longleftrightarrow>
         fin b = EndOk \<and> find_sub (upcoming b) (make_delimiter bd) = Some (length data) \<and>
         (\<exists>pad. list_all is_ows pad \<and> upcoming b = data @ make_delimiter bd @ ''--'' @ pad @ CRLF)"
  by (rule final_accepts [OF assms])

theorem final_stream_accepts_witness:
  "byte_search memchr_ref \<and>
   (\<exists>p'. collect (FinalPartDataStream_poll_next memchr_ref) 60
      (FinalPartDataStream_new (StreamBuffer_new [EvItem (Inr (''data'' @ CRLF)), EvPending, EvItem (Inr (''--b-- '' @ CRLF))])
         (make_delimiter ''b'') 0 False False) = (''data'', Some None, p'))"
proof -
  define b where "b = StreamBuffer_new [EvItem (Inr (''data'' @ CRLF)), EvPending, EvItem (Inr (''--b-- '' @ CRLF))]"
  have up: "upcoming b = ''data'' @ make_delimiter ''b'' @ ''--'' @ '' '' @ CRLF" and ev: "events_left b = 3" and ok: "buf_ok b" and fn: "fin b = EndOk"
    by (simp_all add: b_def upcoming_def sview_def StreamBuffer_new_def events_left_def buf_ok_def fin_def make_delimiter_def)
  have f: "find_sub (upcoming b) (make_delimiter ''b'') = Some (length ''data'')"
    unfolding up by code_simp
  have "\<exists>p'. collect (FinalPartDataStream_poll_next memchr_ref) 60
      (FinalPartDataStream_new b (make_delimiter ''b'') 0 False False) = (''data'', Some None, p')"
  proof (rule final_stream_accepts [OF ref_search.byte_search_axioms ok, THEN iffD2])
    show "events_left b + length (upcoming b) + 1 < 60" by (simp add: ev up)
    have "list_all is_ows '' ''" by (simp add: is_ows_def)
    with up f fn show "fin b = EndOk \<and> find_sub (upcoming b) (make_delimiter ''b'') = Some (length ''data'') \<and>
        (\<exists>pad. list_all is_ows pad \<and> upcoming b = ''data'' @ make_delimiter ''b'' @ ''--'' @ pad @ CRLF)" by blast
  qed
  then show ?thesis unfolding b_def using ref_search.byte_search_axioms by blast
qed

subsection \<open>Boundaries\<close>

text \<open>
  What follows a boundary (a closing \<^verbatim>\<open>--\<close>, or padding and CR LF) is decided by the remaining
  bytes alone, with the errors included, for every delivery of an input in which padding is not
  followed by a dash.
\<close>

theorem after_boundary_delivery:
  assumes "buf_ok b" and "\<not> padded_dash (upcoming b)" and "events_left b < fuel"
  shows "case after_spec (upcoming b) (fin b) of
      Inl err \<Rightarrow> fst (drive after_boundary fuel b) = Some (Inl err)
    | Inr (st, rest) \<Rightarrow> \<exists>b'. drive after_boundary fuel b = (Some (Inr st), b') \<and> upcoming b' = rest \<and> fin b' = fin b"
  using assms by (rule after_reader.drive_spec)

theorem after_boundary_delivery_witness:
  "\<exists>b'. drive after_boundary 9 (StreamBuffer_new [EvItem (Inr '' ''), EvPending, EvItem (Inr (CRLF @ ''x''))]) =
      (Some (Inr ReadingPartHeaders), b') \<and> upcoming b' = ''x''"
proof -
  define b where "b = StreamBuffer_new [EvItem (Inr '' ''), EvPending, EvItem (Inr (CRLF @ ''x''))]"
  have up: "upcoming b = '' '' @ CRLF @ ''x''" and ev: "events_left b = 3" and ok: "buf_ok b" and fn: "fin b = EndOk"
    by (simp_all add: b_def upcoming_def sview_def StreamBuffer_new_def events_left_def buf_ok_def fin_def)
  have sp: "after_spec (upcoming b) (fin b) = Inr (ReadingPartHeaders, ''x'')"
    unfolding up fn by code_simp
  have "\<not> padded_dash (upcoming b)" unfolding up by code_simp
  from after_boundary_delivery [OF ok this, of 9, unfolded sp] show ?thesis
    unfolding b_def [symmetric] by (auto simp: ev)
qed

text \<open>
  The exception is real. The same bytes after a boundary, a space and \<^verbatim>\<open>--\<close>, are refused as
  malformed when they arrive together, and taken for the closing delimiter when the transport is not
  ready after the space.
\<close>

theorem padded_dash_depends_on_delivery:
  "fst (drive after_boundary 9 (StreamBuffer_new [EvItem (Inr '' --'')])) = Some (Inl InvalidFormat) \<and>
   fst (drive after_boundary 9 (StreamBuffer_new [EvItem (Inr '' ''), EvPending, EvItem (Inr ''--'')])) =
     Some (Inr ReadingClosingDelimiter)"
  by (simp add: eval_nat_numeral after_boundary_def ensure_buf_len.simps consume_padding_and_crlf.simps
      poll_stream_def StreamBuffer_new_def EMPTY_CHUNKS_PER_POLL_def is_ows_def)

text \<open>
  The bytes held back by the search for the delimiter in a long buffer are the fewest that are
  safe: the longest proper prefix of the delimiter that the buffer ends with, and what is released
  never cuts a delimiter that later bytes complete.
\<close>

theorem delimiter_tail_exact:
  assumes "byte_search M"
  shows "delimiter_prefix_suffix_len M h (make_delimiter bd) = Max (borders h (make_delimiter bd)) \<and>
    (\<forall>e t. search_data M h (make_delimiter bd) = Emit e \<longrightarrow>
       find_sub (h @ t) (make_delimiter bd) = map_option ((+) e) (find_sub (drop e h @ t) (make_delimiter bd)))"
  unfolding crate [OF assms] using dpsl_Max [OF make_delimiter_nonempty] data_scan.emit_shift by blast

theorem delimiter_tail_exact_witness:
  "delimiter_prefix_suffix_len memchr_ref (''ab'' @ CRLF @ ''--'') (make_delimiter ''b'') = 4 \<and>
   delimiter_prefix_suffix_len memchr_ref (''ab'' @ CRLF @ ''--'') (make_delimiter ''b'') =
     Max (borders (''ab'' @ CRLF @ ''--'') (make_delimiter ''b''))"
proof
  show "delimiter_prefix_suffix_len memchr_ref (''ab'' @ CRLF @ ''--'') (make_delimiter ''b'') = 4" by code_simp
  show "delimiter_prefix_suffix_len memchr_ref (''ab'' @ CRLF @ ''--'') (make_delimiter ''b'') =
      Max (borders (''ab'' @ CRLF @ ''--'') (make_delimiter ''b''))"
    using delimiter_tail_exact [OF ref_search.byte_search_axioms] by blast
qed

subsection \<open>Part headers\<close>

lemma drive_header_block:
  assumes "buf_ok b" and "read_until_active b \<Longrightarrow> cursor_ok (CRLF @ CRLF) b" and "events_left b < fuel"
  shows "case header_block_spec mx (upcoming b) (fin b) of
      Inl err \<Rightarrow> fst (drive (poll_read_header_block memchr_ref mx) fuel b) = Some (Inl err)
    | Inr n \<Rightarrow> \<exists>b'. drive (poll_read_header_block memchr_ref mx) fuel b = (Some (Inr n), b') \<and>
        n \<le> length (buf b') \<and> upcoming b' = upcoming b \<and> fin b' = fin b \<and> buf_ok b'"
  using assms
proof (induction fuel arbitrary: b)
  case (Suc fuel)
  obtain r b1 where run: "poll_read_header_block memchr_ref mx b = (r, b1)" by fastforce
  note post = poll_read_header_block_post [OF Suc.prems(1,2) run]
  show ?case
  proof (cases r)
    case Pending
    with Suc.IH [of b1] post Suc.prems(3) run show ?thesis by (simp split: sum.splits)
  next
    case (Ready x)
    with post run show ?thesis by (cases x) auto
  qed
qed simp

text \<open>
  A header block is read up to its blank line whatever the delivery, the limit on its size is
  enforced on the block and not on the chunks that brought it, and no byte is lost.
\<close>

theorem header_block_delivery:
  assumes "byte_search M" and "buf_ok b" and "\<not> read_until_active b" and "events_left b < fuel"
  shows "case header_block_spec mx (upcoming b) (fin b) of
      Inl err \<Rightarrow> fst (drive (poll_read_header_block M mx) fuel b) = Some (Inl err)
    | Inr n \<Rightarrow> n \<le> max 2 mx \<and> (\<exists>b'. drive (poll_read_header_block M mx) fuel b = (Some (Inr n), b') \<and>
        n \<le> length (buf b') \<and> upcoming b' = upcoming b \<and> fin b' = fin b)"
proof -
  have "n \<le> max 2 mx" if "header_block_spec mx (upcoming b) (fin b) = Inr n" for n
    using that by (auto simp: header_block_spec_def read_until_spec_def split: if_splits option.splits)
  with drive_header_block [OF assms(2) _ assms(4), of mx] assms(3) show ?thesis
    unfolding crate [OF assms(1)] by (auto split: sum.splits)
qed

theorem header_block_delivery_witness:
  "\<exists>b'. drive (poll_read_header_block memchr_ref 64) 9
      (StreamBuffer_new [EvItem (Inr (''a:b'' @ [CR])), EvPending, EvItem (Inr ([LF] @ CRLF @ ''x''))]) = (Some (Inr 7), b') \<and>
    upcoming b' = ''a:b'' @ CRLF @ CRLF @ ''x''"
proof -
  define b where "b = StreamBuffer_new [EvItem (Inr (''a:b'' @ [CR])), EvPending, EvItem (Inr ([LF] @ CRLF @ ''x''))]"
  have up: "upcoming b = ''a:b'' @ CRLF @ CRLF @ ''x''" and ev: "events_left b = 3" and ok: "buf_ok b" and fn: "fin b = EndOk"
    and na: "\<not> read_until_active b"
    by (simp_all add: b_def upcoming_def sview_def StreamBuffer_new_def events_left_def buf_ok_def fin_def)
  have sp: "header_block_spec 64 (upcoming b) (fin b) = Inr 7"
    unfolding up fn by code_simp
  from header_block_delivery [OF ref_search.byte_search_axioms ok na, of 9 64, unfolded sp] show ?thesis
    unfolding b_def [symmetric] by (auto simp: ev up)
qed

end
