(* ===== verification/Sigv4_Canonical.thy ===== *)
theory Sigv4_Canonical
  imports Prelude "HOL-Library.Char_ord" "HOL-Library.List_Lexorder" "HOL-Library.Multiset"
begin

text \<open>
  The \<^verbatim>\<open>s3s-sigv4\<close> crate: digest helpers (\<^verbatim>\<open>crypto.rs\<close>), dates (\<^verbatim>\<open>amz_date.rs\<close>, \<^verbatim>\<open>parser.rs\<close>) and the
  canonicalisation and signing of requests, chunks and trailers (\<^verbatim>\<open>methods.rs\<close>). The digest, the keyed
  digest and the hexadecimal encoder are external crates and stand as the parameter \<open>C\<close>.
\<close>

subsection \<open>crypto.rs\<close>

text \<open>
  \<^verbatim>\<open>sha2::Sha256\<close> in one call and incrementally, \<^verbatim>\<open>hmac::Hmac<Sha256>\<close>, and the lower-case encoder
  and the decoder of \<^verbatim>\<open>hex_simd\<close>.
\<close>

record crypto_api =
  digest_once :: "bytes \<Rightarrow> bytes"
  digest_updates :: "bytes list \<Rightarrow> bytes"
  mac :: "bytes \<Rightarrow> bytes \<Rightarrow> bytes"
  hex_lower :: "bytes \<Rightarrow> bytes"
  hex_decode :: "bytes \<Rightarrow> bytes option"

definition is_lowercase_hex :: "byte \<Rightarrow> bool" where
  "is_lowercase_hex c \<longleftrightarrow> is_ascii_digit c \<or> byte_in 97 102 c"

definition is_sha256_checksum :: "bytes \<Rightarrow> bool" where
  "is_sha256_checksum s \<longleftrightarrow> length s = 64 \<and> list_all is_lowercase_hex s"

definition hex_bytes32 :: "crypto_api \<Rightarrow> bytes \<Rightarrow> (bytes \<Rightarrow> 'r) \<Rightarrow> 'r" where
  "hex_bytes32 C src f = f (hex_lower C src)"

definition sha256 :: "crypto_api \<Rightarrow> bytes \<Rightarrow> bytes" where
  "sha256 C data = digest_once C data"

definition sha256_chunk :: "crypto_api \<Rightarrow> bytes list \<Rightarrow> bytes" where
  "sha256_chunk C chunk = digest_updates C chunk"

definition hex_sha256 :: "crypto_api \<Rightarrow> bytes \<Rightarrow> (bytes \<Rightarrow> 'r) \<Rightarrow> 'r" where
  "hex_sha256 C data f = hex_bytes32 C (sha256 C data) f"

definition hex_sha256_chunk :: "crypto_api \<Rightarrow> bytes list \<Rightarrow> (bytes \<Rightarrow> 'r) \<Rightarrow> 'r" where
  "hex_sha256_chunk C chunk f = hex_bytes32 C (sha256_chunk C chunk) f"

definition hmac_sha256 :: "crypto_api \<Rightarrow> bytes \<Rightarrow> bytes \<Rightarrow> bytes" where
  "hmac_sha256 C key data = mac C key data"

subsection \<open>parser.rs and amz\_date.rs\<close>

definition digit :: "byte \<Rightarrow> nat option" where
  "digit c = (if byte_in 48 57 c then Some (of_char c - 48) else None)"

definition digit2 :: "byte \<Rightarrow> byte \<Rightarrow> nat option" where
  "digit2 a b =
     (case digit a of None \<Rightarrow> None
      | Some x0 \<Rightarrow> (case digit b of None \<Rightarrow> None | Some x1 \<Rightarrow> Some (x0 * 10 + x1)))"

definition digit4 :: "byte \<Rightarrow> byte \<Rightarrow> byte \<Rightarrow> byte \<Rightarrow> nat option" where
  "digit4 a b c d =
     (case digit2 a b of None \<Rightarrow> None
      | Some x0 \<Rightarrow> (case digit2 c d of None \<Rightarrow> None | Some x1 \<Rightarrow> Some (x0 * 100 + x1)))"

record amz_date =
  year :: nat
  month :: nat
  day :: nat
  hour :: nat
  minute :: nat
  second :: nat

definition parse_date_bytes :: "bytes \<Rightarrow> amz_date option" where
  "parse_date_bytes x =
     (case digit4 (x ! 0) (x ! 1) (x ! 2) (x ! 3) of None \<Rightarrow> None | Some y \<Rightarrow>
     (case digit2 (x ! 4) (x ! 5) of None \<Rightarrow> None | Some m \<Rightarrow>
     (case digit2 (x ! 6) (x ! 7) of None \<Rightarrow> None | Some d \<Rightarrow>
     (if x ! 8 \<noteq> CHR ''T'' then None else
     (case digit2 (x ! 9) (x ! 10) of None \<Rightarrow> None | Some hh \<Rightarrow>
     (case digit2 (x ! 11) (x ! 12) of None \<Rightarrow> None | Some mm \<Rightarrow>
     (case digit2 (x ! 13) (x ! 14) of None \<Rightarrow> None | Some ss \<Rightarrow>
     (if x ! 15 \<noteq> CHR ''Z'' then None else
       Some \<lparr>year = y, month = m, day = d, hour = hh, minute = mm, second = ss\<rparr>))))))))"

definition AmzDate_parse :: "bytes \<Rightarrow> amz_date option" where
  "AmzDate_parse header = (if length header \<noteq> 16 then None else parse_date_bytes header)"

text \<open>The standard formatter with a minimum width filled with zeros, as in \<^verbatim>\<open>{y:04}\<close>.\<close>

definition zero_padded :: "nat \<Rightarrow> nat \<Rightarrow> bytes" where
  "zero_padded w n = replicate (w - length (decimal n)) CHR ''0'' @ decimal n"

definition fmt_iso8601 :: "amz_date \<Rightarrow> bytes" where
  "fmt_iso8601 t =
     zero_padded 4 (year t) @ zero_padded 2 (month t) @ zero_padded 2 (day t) @ ''T'' @
     zero_padded 2 (hour t) @ zero_padded 2 (minute t) @ zero_padded 2 (second t) @ ''Z''"

definition fmt_date :: "amz_date \<Rightarrow> bytes" where
  "fmt_date t = zero_padded 4 (year t) @ zero_padded 2 (month t) @ zero_padded 2 (day t)"

subsection \<open>methods.rs: encoding and normalisation\<close>

definition to_hex :: "nat \<Rightarrow> byte" where
  "to_hex x = ''0123456789ABCDEF'' ! x"

definition uri_encode_byte :: "bool \<Rightarrow> byte \<Rightarrow> bytes" where
  "uri_encode_byte encode_slash b =
     (if is_ascii_uppercase b \<or> is_ascii_lowercase b \<or> is_ascii_digit b \<or>
         b = CHR ''_'' \<or> b = CHR ''-'' \<or> b = CHR ''~'' \<or> b = CHR ''.'' then [b]
      else if b = CHR ''/'' then (if encode_slash then [CHR ''%'', CHR ''2'', CHR ''F''] else [b])
      else [CHR ''%'', to_hex (of_char b div 16), to_hex (of_char b mod 16)])"

definition uri_encode :: "bytes \<Rightarrow> bytes \<Rightarrow> bool \<Rightarrow> bytes" where
  "uri_encode output input encode_slash = output @ concat (map (uri_encode_byte encode_slash) input)"

definition uri_encode_string :: "bytes \<Rightarrow> bool \<Rightarrow> bytes" where
  "uri_encode_string input encode_slash = uri_encode [] input encode_slash"

definition is_skipped_header :: "bytes \<Rightarrow> bool" where
  "is_skipped_header header \<longleftrightarrow> header = ''authorization''"

definition is_skipped_query_string :: "bytes \<Rightarrow> bool" where
  "is_skipped_query_string name \<longleftrightarrow> name = ''X-Amz-Signature''"

text \<open>
  \<^verbatim>\<open>char::is_whitespace\<close> on the bytes of a \<^verbatim>\<open>&str\<close>: the length of the white space character that the
  text starts with, zero when it starts with another character. The characters are U+0009 to U+000D,
  U+0020, U+0085, U+00A0, U+1680, U+2000 to U+200A, U+2028, U+2029, U+202F, U+205F and U+3000.
\<close>

definition wide_spaces :: "bytes list" where
  "wide_spaces =
     [[CHR 0xC2, CHR 0x85], [CHR 0xC2, CHR 0xA0], [CHR 0xE1, CHR 0x9A, CHR 0x80]] @
     map (\<lambda>n. [CHR 0xE2, CHR 0x80, char_of n]) ([0x80..<0x8B] @ [0xA8, 0xA9, 0xAF]) @
     [[CHR 0xE2, CHR 0x81, CHR 0x9F], [CHR 0xE3, CHR 0x80, CHR 0x80]]"

definition space_len :: "bytes \<Rightarrow> nat" where
  "space_len s =
     (case s of
        [] \<Rightarrow> 0
      | c # _ \<Rightarrow> if byte_in 9 13 c \<or> c = SP then 1
                 else (case find (\<lambda>w. prefix w s) wide_spaces of Some w \<Rightarrow> length w | None \<Rightarrow> 0))"

text \<open>\<^verbatim>\<open>str::split_whitespace\<close>: the maximal runs of characters that are not white space.\<close>

function split_whitespace_acc :: "bytes \<Rightarrow> bytes \<Rightarrow> bytes list" where
  "split_whitespace_acc cur [] = (if cur = [] then [] else [cur])"
| "split_whitespace_acc cur (c # s) =
     (let n = space_len (c # s)
      in if n = 0 then split_whitespace_acc (cur @ [c]) s
         else (if cur = [] then [] else [cur]) @ split_whitespace_acc [] (drop n (c # s)))"
  by pat_completeness auto
termination
  by (relation "measure (\<lambda>(cur, s). length s)") (auto simp: Let_def)

definition split_whitespace :: "bytes \<Rightarrow> bytes list" where
  "split_whitespace s = split_whitespace_acc [] s"

text \<open>\<^verbatim>\<open>str::trim\<close> removes white space at the start and at the end.\<close>

function trim_start :: "bytes \<Rightarrow> bytes" where
  "trim_start s = (if space_len s = 0 then s else trim_start (drop (space_len s) s))"
  by pat_completeness auto
termination
  by (relation "measure length") (auto simp: space_len_def split: list.splits)

declare trim_start.simps [simp del]

fun all_space :: "nat \<Rightarrow> bytes \<Rightarrow> bool" where
  "all_space 0 s = (s = [])"
| "all_space (Suc k) s = (s = [] \<or> (space_len s \<noteq> 0 \<and> all_space k (drop (space_len s) s)))"

fun trim_end :: "bytes \<Rightarrow> bytes" where
  "trim_end [] = []"
| "trim_end (c # s) = (if all_space (length (c # s)) (c # s) then [] else c # trim_end s)"

definition trim :: "bytes \<Rightarrow> bytes" where
  "trim s = trim_end (trim_start s)"

fun any_space :: "bytes \<Rightarrow> bool" where
  "any_space [] = False"
| "any_space (c # s) = (space_len (c # s) \<noteq> 0 \<or> any_space s)"

fun push_words :: "bytes \<Rightarrow> bool \<Rightarrow> bytes list \<Rightarrow> bytes" where
  "push_words ans first [] = ans"
| "push_words ans first (word # ws) =
     push_words ((if first then ans else ans @ [SP]) @ word) False ws"

definition normalize_header_value :: "bytes \<Rightarrow> bytes \<Rightarrow> bytes" where
  "normalize_header_value ans val =
     (let trimmed = trim val
      in if \<not> any_space trimmed then ans @ trimmed
         else push_words ans True (split_whitespace trimmed))"

subsection \<open>methods.rs: canonical requests\<close>

definition EMPTY_STRING_SHA256_HASH :: bytes where
  "EMPTY_STRING_SHA256_HASH = ''e3b0c44298fc1c149afbf4c8996fb92427ae41e4649b934ca495991b7852b855''"

datatype payload =
    Unsigned
  | SingleChunk bytes
  | MultipleChunks
  | MultipleChunksWithTrailer
  | UnsignedMultipleChunksWithTrailer

definition stable_sort_by_first :: "(bytes \<times> bytes) list \<Rightarrow> (bytes \<times> bytes) list" where
  "stable_sort_by_first v = sort_key fst v"

text \<open>The inner loop of \<^verbatim>\<open>push_canonical_headers\<close>: the values of the adjacent headers of the same name.\<close>

fun push_same_named :: "bytes \<Rightarrow> bytes \<Rightarrow> (bytes \<times> bytes) list \<Rightarrow> bytes \<times> (bytes \<times> bytes) list" where
  "push_same_named ans name [] = (ans, [])"
| "push_same_named ans name ((n, v) # hs) =
     (if n = name then push_same_named (normalize_header_value (ans @ '','') v) name hs
      else (ans, (n, v) # hs))"

lemma push_same_named_length: "length (snd (push_same_named ans name hs)) \<le> length hs"
  by (induction ans name hs rule: push_same_named.induct) auto

function push_canonical_headers :: "bytes \<Rightarrow> (bytes \<times> bytes) list \<Rightarrow> bytes" where
  "push_canonical_headers ans [] = ans"
| "push_canonical_headers ans ((name, val) # hs) =
     (if is_skipped_header name then push_canonical_headers ans hs
      else (case push_same_named (normalize_header_value (ans @ name @ '':'') val) name hs of
              (ans', rest) \<Rightarrow> push_canonical_headers (ans' @ [LF]) rest))"
  by pat_completeness auto
termination
  by (relation "measure (\<lambda>(ans, hs). length hs)")
    (auto dest!: arg_cong [where f = "\<lambda>x. length (snd x)"] intro: le_imp_less_Suc [OF push_same_named_length])

function push_signed_headers :: "bytes \<Rightarrow> bool \<Rightarrow> (bytes \<times> bytes) list \<Rightarrow> bytes" where
  "push_signed_headers ans first_flag [] = ans"
| "push_signed_headers ans first_flag ((name, val) # hs) =
     (if is_skipped_header name then push_signed_headers ans first_flag hs
      else push_signed_headers ((if first_flag then ans else ans @ '';'') @ name) False
             (dropWhile (\<lambda>h. fst h = name) ((name, val) # hs)))"
  by pat_completeness auto
termination
  by (relation "measure (\<lambda>(ans, f, hs). length hs)") (auto simp: le_imp_less_Suc length_dropWhile_le)

fun push_query :: "bytes \<Rightarrow> (bytes \<times> bytes) list \<Rightarrow> bytes" where
  "push_query ans [] = ans"
| "push_query ans ((name, val) # remain) =
     foldl (\<lambda>a (n, v). a @ ''&'' @ n @ ''='' @ v) (ans @ name @ ''='' @ val) remain"

fun payload_text :: "payload \<Rightarrow> bytes" where
  "payload_text Unsigned = ''UNSIGNED-PAYLOAD''"
| "payload_text (SingleChunk checksum) = checksum"
| "payload_text MultipleChunks = ''STREAMING-AWS4-HMAC-SHA256-PAYLOAD''"
| "payload_text MultipleChunksWithTrailer = ''STREAMING-AWS4-HMAC-SHA256-PAYLOAD-TRAILER''"
| "payload_text UnsignedMultipleChunksWithTrailer = ''STREAMING-UNSIGNED-PAYLOAD-TRAILER''"

definition encode_query :: "(bytes \<times> bytes) list \<Rightarrow> (bytes \<times> bytes) list" where
  "encode_query qs = map (\<lambda>(n, v). (uri_encode_string n True, uri_encode_string v True)) qs"

definition create_canonical_request_with_uri_mode ::
  "bytes \<Rightarrow> bytes \<Rightarrow> (bytes \<times> bytes) list \<Rightarrow> (bytes \<times> bytes) list \<Rightarrow> payload \<Rightarrow> bool \<Rightarrow> bytes" where
  "create_canonical_request_with_uri_mode meth uri_path qs signed_headers pl raw_uri_path =
     (let ans = meth @ [LF];
          ans = (if raw_uri_path then ans @ uri_path else uri_encode ans uri_path False) @ [LF];
          ans = push_query ans (stable_sort_by_first (encode_query qs)) @ [LF];
          ans = push_canonical_headers ans signed_headers @ [LF];
          ans = push_signed_headers ans True signed_headers @ [LF]
      in ans @ payload_text pl)"

definition create_canonical_request ::
  "bytes \<Rightarrow> bytes \<Rightarrow> (bytes \<times> bytes) list \<Rightarrow> (bytes \<times> bytes) list \<Rightarrow> payload \<Rightarrow> bytes" where
  "create_canonical_request meth uri_path qs signed_headers pl =
     create_canonical_request_with_uri_mode meth uri_path qs signed_headers pl False"

definition create_canonical_request_with_raw_uri_path ::
  "bytes \<Rightarrow> bytes \<Rightarrow> (bytes \<times> bytes) list \<Rightarrow> (bytes \<times> bytes) list \<Rightarrow> payload \<Rightarrow> bytes" where
  "create_canonical_request_with_raw_uri_path meth uri_path qs signed_headers pl =
     create_canonical_request_with_uri_mode meth uri_path qs signed_headers pl True"

definition create_presigned_canonical_request_with_uri_mode ::
  "bytes \<Rightarrow> bytes \<Rightarrow> (bytes \<times> bytes) list \<Rightarrow> (bytes \<times> bytes) list \<Rightarrow> bool \<Rightarrow> bytes" where
  "create_presigned_canonical_request_with_uri_mode meth uri_path qs signed_headers raw_uri_path =
     (let ans = meth @ [LF];
          ans = (if raw_uri_path then ans @ uri_path else uri_encode ans uri_path False) @ [LF];
          ans = push_query ans (stable_sort_by_first
                  (encode_query (filter (\<lambda>(n, v). \<not> is_skipped_query_string n) qs))) @ [LF];
          ans = push_canonical_headers ans signed_headers @ [LF];
          ans = push_signed_headers ans True signed_headers @ [LF]
      in ans @ ''UNSIGNED-PAYLOAD'')"

definition create_presigned_canonical_request ::
  "bytes \<Rightarrow> bytes \<Rightarrow> (bytes \<times> bytes) list \<Rightarrow> (bytes \<times> bytes) list \<Rightarrow> bytes" where
  "create_presigned_canonical_request meth uri_path qs signed_headers =
     create_presigned_canonical_request_with_uri_mode meth uri_path qs signed_headers False"

definition create_presigned_canonical_request_with_raw_uri_path ::
  "bytes \<Rightarrow> bytes \<Rightarrow> (bytes \<times> bytes) list \<Rightarrow> (bytes \<times> bytes) list \<Rightarrow> bytes" where
  "create_presigned_canonical_request_with_raw_uri_path meth uri_path qs signed_headers =
     create_presigned_canonical_request_with_uri_mode meth uri_path qs signed_headers True"

subsection \<open>methods.rs: strings to sign and keys\<close>

definition push_scope :: "bytes \<Rightarrow> amz_date \<Rightarrow> bytes \<Rightarrow> bytes \<Rightarrow> bytes" where
  "push_scope ans amz_date region service =
     ans @ fmt_iso8601 amz_date @ [LF] @
     fmt_date amz_date @ ''/'' @ region @ ''/'' @ service @ ''/aws4_request'' @ [LF]"

definition create_string_to_sign :: "crypto_api \<Rightarrow> bytes \<Rightarrow> amz_date \<Rightarrow> bytes \<Rightarrow> bytes \<Rightarrow> bytes" where
  "create_string_to_sign C canonical_request amz_date region service =
     (let ans = push_scope (''AWS4-HMAC-SHA256'' @ [LF]) amz_date region service
      in hex_sha256 C canonical_request (\<lambda>s. ans @ s))"

definition create_chunk_string_to_sign ::
  "crypto_api \<Rightarrow> amz_date \<Rightarrow> bytes \<Rightarrow> bytes \<Rightarrow> bytes \<Rightarrow> bytes list \<Rightarrow> bytes" where
  "create_chunk_string_to_sign C amz_date region service prev_signature chunk_data =
     (let ans = push_scope (''AWS4-HMAC-SHA256-PAYLOAD'' @ [LF]) amz_date region service;
          ans = ans @ prev_signature @ [LF];
          ans = ans @ EMPTY_STRING_SHA256_HASH @ [LF]
      in if chunk_data = [] then ans @ EMPTY_STRING_SHA256_HASH
         else hex_sha256_chunk C chunk_data (\<lambda>s. ans @ s))"

definition create_trailer_string_to_sign ::
  "crypto_api \<Rightarrow> amz_date \<Rightarrow> bytes \<Rightarrow> bytes \<Rightarrow> bytes \<Rightarrow> bytes \<Rightarrow> bytes" where
  "create_trailer_string_to_sign C amz_date region service prev_signature canonical_trailers =
     (let ans = push_scope (''AWS4-HMAC-SHA256-TRAILER'' @ [LF]) amz_date region service;
          ans = ans @ prev_signature @ [LF]
      in hex_sha256 C canonical_trailers (\<lambda>s. ans @ s))"

definition derive_signing_key :: "crypto_api \<Rightarrow> bytes \<Rightarrow> amz_date \<Rightarrow> bytes \<Rightarrow> bytes \<Rightarrow> bytes" where
  "derive_signing_key C secret_key amz_date region service =
     (let secret = ''AWS4'' @ secret_key;
          date_key = hmac_sha256 C secret (fmt_date amz_date);
          date_region_key = hmac_sha256 C date_key region;
          date_region_service_key = hmac_sha256 C date_region_key service
      in hmac_sha256 C date_region_service_key ''aws4_request'')"

definition calculate_signature_with_key :: "crypto_api \<Rightarrow> bytes \<Rightarrow> bytes \<Rightarrow> bytes" where
  "calculate_signature_with_key C string_to_sign signing_key = hmac_sha256 C signing_key string_to_sign"

definition calculate_signature :: "crypto_api \<Rightarrow> bytes \<Rightarrow> bytes \<Rightarrow> amz_date \<Rightarrow> bytes \<Rightarrow> bytes \<Rightarrow> bytes" where
  "calculate_signature C string_to_sign secret_key amz_date region service =
     (let signing_key = derive_signing_key C secret_key amz_date region service
      in hex_bytes32 C (calculate_signature_with_key C string_to_sign signing_key) (\<lambda>s. s))"

end
