(* ===== verification/Sigv4_Correct.thy ===== *)
theory Sigv4_Correct
  imports Sigv4_Canonical
begin

text \<open>
  What the canonicalisation is for: equal canonical requests come from equal requests, so a signature
  binds the method, the path and the query; and the strings to sign of requests, chunks and trailers
  can never be confused.
\<close>

subsection \<open>Percent encoding\<close>

text \<open>The reference decoder: what a percent-encoded text stands for.\<close>

definition unhex :: "byte \<Rightarrow> nat option" where
  "unhex c = find_index (\<lambda>x. x = c) ''0123456789ABCDEF''"

fun uri_decode :: "bytes \<Rightarrow> bytes option" where
  "uri_decode [] = Some []"
| "uri_decode (c # s) =
     (if c \<noteq> CHR ''%'' then map_option ((#) c) (uri_decode s)
      else (case s of
          a # b # t \<Rightarrow>
            (case (unhex a, unhex b) of
               (Some x, Some y) \<Rightarrow> map_option ((#) (char_of (16 * x + y))) (uri_decode t)
             | _ \<Rightarrow> None)
        | _ \<Rightarrow> None))"

lemma unhex_to_hex: "n < 16 \<Longrightarrow> unhex (to_hex n) = Some n"
proof -
  have "\<forall>n \<in> set [0..<16]. unhex (to_hex n) = Some n" by code_simp
  then show "n < 16 \<Longrightarrow> unhex (to_hex n) = Some n" by simp
qed

lemma unreserved_not_percent:
  "is_ascii_uppercase b \<or> is_ascii_lowercase b \<or> is_ascii_digit b \<Longrightarrow> b \<noteq> CHR ''%''"
  by (auto simp: ascii_defs)

lemma nibble_lt: "(of_char b :: nat) div 16 < 16" "(of_char b :: nat) mod 16 < 16"
proof -
  have "(of_char b :: nat) < 256" by simp
  then show "(of_char b :: nat) div 16 < 16" by linarith
qed simp

lemma uri_decode_byte: "uri_decode (uri_encode_byte f b @ t) = map_option ((#) b) (uri_decode t)"
proof (cases "is_ascii_uppercase b \<or> is_ascii_lowercase b \<or> is_ascii_digit b \<or>
         b = CHR ''_'' \<or> b = CHR ''-'' \<or> b = CHR ''~'' \<or> b = CHR ''.'' \<or> b = CHR ''/''")
  case True
  have "unhex CHR ''2'' = Some 2" "unhex CHR ''F'' = Some 15" by code_simp+
  moreover have "char_of (47 :: nat) = CHR ''/''" by code_simp
  ultimately show ?thesis
    using True unreserved_not_percent [of b] by (auto simp: uri_encode_byte_def ascii_defs)
next
  case False
  have hex: "unhex (to_hex (of_char b div 16)) = Some (of_char b div 16)"
    "unhex (to_hex (of_char b mod 16)) = Some (of_char b mod 16)"
    using nibble_lt unhex_to_hex by blast+
  have "char_of (16 * (of_char b div 16) + (of_char b mod 16 :: nat)) = b"
    by (simp only: mult_div_mod_eq char_of_char)
  with False hex show ?thesis by (simp add: uri_encode_byte_def)
qed

lemma uri_decode_encode: "uri_decode (concat (map (uri_encode_byte f) s)) = Some s"
  by (induction s) (simp_all add: uri_decode_byte)

lemma uri_encode_inject:
  "concat (map (uri_encode_byte f) s) = concat (map (uri_encode_byte f) t) \<longleftrightarrow> s = t"
  by (metis option.inject uri_decode_encode)

definition uri_safe :: "bool \<Rightarrow> byte \<Rightarrow> bool" where
  "uri_safe f b \<longleftrightarrow> is_ascii_alphanumeric b \<or> b \<in> set ''_-~.%'' \<or> (\<not> f \<and> b = CHR ''/'')"

lemma to_hex_safe: "n < 16 \<Longrightarrow> is_ascii_alphanumeric (to_hex n)"
proof -
  have "\<forall>n \<in> set [0..<16]. is_ascii_alphanumeric (to_hex n)" by code_simp
  then show "n < 16 \<Longrightarrow> is_ascii_alphanumeric (to_hex n)" by simp
qed

lemma uri_encode_safe: "list_all (uri_safe f) (concat (map (uri_encode_byte f) s))"
proof -
  have "list_all (uri_safe f) (uri_encode_byte f b)" for b
  proof (cases "is_ascii_uppercase b \<or> is_ascii_lowercase b \<or> is_ascii_digit b \<or>
      b = CHR ''_'' \<or> b = CHR ''-'' \<or> b = CHR ''~'' \<or> b = CHR ''.''")
    case True
    then show ?thesis
      by (auto simp: uri_encode_byte_def uri_safe_def is_ascii_alphanumeric_def is_ascii_alphabetic_def)
  next
    case False
    have "is_ascii_alphanumeric (to_hex (of_char b div 16))" "is_ascii_alphanumeric (to_hex (of_char b mod 16))"
      using nibble_lt to_hex_safe by blast+
    moreover have "is_ascii_alphanumeric CHR ''2''" "is_ascii_alphanumeric CHR ''F''" by code_simp+
    ultimately show ?thesis using False by (simp add: uri_encode_byte_def uri_safe_def)
  qed
  then show ?thesis by (induction s) auto
qed

lemma uri_safe_chars: "uri_safe f b \<Longrightarrow> b \<noteq> LF \<and> b \<noteq> CHR ''='' \<and> b \<noteq> CHR ''&'' \<and> byte_in 0 127 b"
  by (auto simp: uri_safe_def ascii_defs byte_in_def)

text \<open>
  Percent encoding loses nothing: decoding the encoded text gives the input back, in both modes of
  the slash, and the encoder only produces ASCII, so the conversion of its buffer cannot panic.
\<close>

theorem uri_encode_roundtrip:
  "uri_decode (uri_encode_string s f) = Some s \<and> list_all (byte_in 0 127) (uri_encode_string s f)"
  using uri_encode_safe [of f s] uri_safe_chars [of f]
  by (auto simp: uri_encode_string_def uri_encode_def uri_decode_encode list_all_iff)

subsection \<open>The canonical request determines the request\<close>

lemma push_query_append: "push_query ans l = ans @ push_query [] l"
proof (cases l)
  case (Cons p remain)
  have fold: "foldl (\<lambda>a (n, v). a @ ''&'' @ n @ ''='' @ v) (x @ y) r = x @ foldl (\<lambda>a (n, v). a @ ''&'' @ n @ ''='' @ v) y r"
    for x y and r :: "(bytes \<times> bytes) list"
    by (induction r arbitrary: y) auto
  show ?thesis
    using fold [of ans "fst p @ ''='' @ snd p" remain] by (cases p) (simp add: Cons)
qed simp

lemma push_query_join: "push_query [] l = intersperse_join ''&'' (map (\<lambda>(n, v). n @ ''='' @ v) l)"
proof (induction l rule: induct_list012)
  case (3 p q l)
  obtain n v m w where pq: "p = (n, v)" "q = (m, w)" by (meson surj_pair)
  have "push_query [] (p # q # l) = push_query (n @ ''='' @ v @ ''&'') ((m, w) # l)"
    by (simp add: pq)
  also have "\<dots> = (n @ ''='' @ v @ ''&'') @ push_query [] ((m, w) # l)"
    by (rule push_query_append)
  finally show ?case using 3 by (simp add: pq)
qed auto

definition query_item_ok :: "bytes \<times> bytes \<Rightarrow> bool" where
  "query_item_ok p \<longleftrightarrow> CHR ''='' \<notin> set (fst p) \<and> CHR ''&'' \<notin> set (fst p) \<and> CHR ''&'' \<notin> set (snd p) \<and>
     LF \<notin> set (fst p) \<and> LF \<notin> set (snd p)"

lemma push_query_inject:
  assumes "\<And>p. p \<in> set l \<Longrightarrow> query_item_ok p" "\<And>p. p \<in> set l' \<Longrightarrow> query_item_ok p"
    and eq: "push_query [] l = push_query [] l'"
  shows "l = l'"
proof -
  let ?f = "\<lambda>(n, v). n @ ''='' @ v :: bytes"
  have items: "split_on CHR ''&'' (push_query [] k) = (if k = [] then [[]] else map ?f k)"
    if "\<And>p. p \<in> set k \<Longrightarrow> query_item_ok p" for k
  proof (cases "k = []")
    case False
    have "split_on CHR ''&'' (intersperse_join ''&'' (map ?f k)) = map ?f k"
      by (rule split_on_join) (use False that in \<open>auto simp: query_item_ok_def\<close>)
    with False show ?thesis by (simp add: push_query_join)
  qed simp
  have ne: "map ?f k \<noteq> [[]]" for k by (cases k) (auto split: prod.splits)
  have "map ?f l = map ?f l'"
    using items [of l] items [of l'] assms ne by (metis (no_types, lifting) list.map_disc_iff)
  then show ?thesis
  proof (rule map_inj_on)
    show "inj_on ?f (set l \<union> set l')"
    proof (rule inj_onI)
      fix p q
      assume pq: "p \<in> set l \<union> set l'" "q \<in> set l \<union> set l'" and "?f p = ?f q"
      then have "fst p @ CHR ''='' # snd p = fst q @ CHR ''='' # snd q" by (auto split: prod.splits)
      moreover have "CHR ''='' \<notin> set (fst p)" "CHR ''='' \<notin> set (fst q)"
        using pq assms(1,2) query_item_ok_def by blast+
      ultimately show "p = q" using append_sep_inject by (metis prod.expand)
    qed
  qed
qed

lemma encode_query_ok: "p \<in> set (stable_sort_by_first (encode_query qs)) \<Longrightarrow> query_item_ok p"
proof -
  have safe: "LF \<notin> set (uri_encode_string s True) \<and> CHR ''='' \<notin> set (uri_encode_string s True) \<and>
      CHR ''&'' \<notin> set (uri_encode_string s True)" for s
    using uri_encode_safe [of True s] uri_safe_chars [of True]
    by (auto simp: uri_encode_string_def uri_encode_def list_all_iff)
  show "p \<in> set (stable_sort_by_first (encode_query qs)) \<Longrightarrow> query_item_ok p"
    using safe by (auto simp: stable_sort_by_first_def encode_query_def query_item_ok_def)
qed

lemma encoded_query_mset:
  assumes "stable_sort_by_first (encode_query q1) = stable_sort_by_first (encode_query q2)"
  shows "mset q1 = mset q2"
proof -
  let ?f = "\<lambda>(n, v). (uri_encode_string n True, uri_encode_string v True)"
  have "inj ?f"
    by (auto simp: inj_def uri_encode_string_def uri_encode_def uri_encode_inject)
  moreover have "image_mset ?f (mset q1) = image_mset ?f (mset q2)"
    using arg_cong [OF assms, of mset] by (simp add: stable_sort_by_first_def encode_query_def)
  ultimately show ?thesis using multiset.inj_map [of ?f] by (simp add: inj_eq)
qed

lemma push_query_no_lf: "\<forall>p\<in>set l. query_item_ok p \<Longrightarrow> LF \<notin> set (push_query [] l)"
  unfolding push_query_join by (induction l rule: induct_list012) (auto simp: query_item_ok_def)

text \<open>Every stage of the canonical request only appends to what is already there.\<close>

lemma push_words_append: "push_words (x @ ans) b ws = x @ push_words ans b ws"
  by (induction ws arbitrary: ans b) auto

lemma normalize_append: "normalize_header_value (x @ ans) v = x @ normalize_header_value ans v"
  by (simp add: normalize_header_value_def Let_def push_words_append)

lemma push_same_named_append:
  "push_same_named (x @ ans) name hs = map_prod ((@) x) id (push_same_named ans name hs)"
proof (induction hs arbitrary: ans)
  case (Cons h hs)
  have "normalize_header_value (x @ ans @ '','') v = x @ normalize_header_value (ans @ '','') v" for v
    by (rule normalize_append)
  with Cons show ?case by (cases h) simp
qed simp

lemma push_canonical_headers_append: "push_canonical_headers (x @ ans) hs = x @ push_canonical_headers ans hs"
proof (induction ans hs arbitrary: x rule: push_canonical_headers.induct)
  case (2 ans name val hs)
  obtain a' rest where s: "push_same_named (normalize_header_value (ans @ name @ '':'') val) name hs = (a', rest)"
    by fastforce
  have "push_same_named (normalize_header_value (x @ ans @ name @ '':'') val) name hs = (x @ a', rest)"
    unfolding normalize_append [of x] push_same_named_append [of x] s by simp
  with 2 s show ?case by simp
qed simp

lemma push_signed_headers_append: "push_signed_headers (x @ ans) f hs = x @ push_signed_headers ans f hs"
proof (induction ans f hs arbitrary: x rule: push_signed_headers.induct)
  case (2 ans f name val hs)
  show ?case using 2(1) [of x] 2(2) [of x] by (auto split: if_splits)
qed simp

text \<open>The lines of a canonical request, one component per line.\<close>

lemma canonical_request_lines:
  "create_canonical_request_with_uri_mode m u q h p raw =
     m @ LF # (if raw then u else concat (map (uri_encode_byte False) u)) @ LF #
     push_query [] (stable_sort_by_first (encode_query q)) @ LF #
     push_canonical_headers [] h @ LF # push_signed_headers [] True h @ LF # payload_text p"
proof -
  have hdr: "push_canonical_headers x h = x @ push_canonical_headers [] h" for x
    using push_canonical_headers_append [of x "[]" h] by simp
  have names: "push_signed_headers x True h = x @ push_signed_headers [] True h" for x
    using push_signed_headers_append [of x "[]" True h] by simp
  show ?thesis
    unfolding create_canonical_request_with_uri_mode_def Let_def
    by (subst names, subst hdr, subst push_query_append) (simp add: uri_encode_def)
qed

text \<open>
  A canonical request determines the request it was made from: two requests with the same canonical
  text have the same method, the same path and the same query parameters (as a multiset; their order
  is the sorted one), so a signature over it cannot be moved to another method, path or query.
\<close>

theorem canonical_request_binds:
  assumes "LF \<notin> set m1" and "LF \<notin> set m2"
    and eq: "create_canonical_request m1 u1 q1 h1 p1 = create_canonical_request m2 u2 q2 h2 p2"
  shows "m1 = m2 \<and> u1 = u2 \<and> mset q1 = mset q2"
proof -
  note lines = eq [unfolded create_canonical_request_def canonical_request_lines, simplified]
  have path: "LF \<notin> set (concat (map (uri_encode_byte False) u))" for u
    using uri_encode_safe [of False u] uri_safe_chars [of False] by (auto simp: list_all_iff)
  have query: "LF \<notin> set (push_query [] (stable_sort_by_first (encode_query q)))" for q
    using push_query_no_lf encode_query_ok by blast
  from append_sep_inject [OF assms(1,2) lines] have m: "m1 = m2" and
    l2: "concat (map (uri_encode_byte False) u1) @ LF # push_query [] (stable_sort_by_first (encode_query q1)) @
      LF # push_canonical_headers [] h1 @ LF # push_signed_headers [] True h1 @ LF # payload_text p1 =
      concat (map (uri_encode_byte False) u2) @ LF # push_query [] (stable_sort_by_first (encode_query q2)) @
      LF # push_canonical_headers [] h2 @ LF # push_signed_headers [] True h2 @ LF # payload_text p2"
    by auto
  note s2 = append_sep_inject [OF path path l2]
  note s3 = append_sep_inject [OF query query s2 [THEN conjunct2]]
  have "stable_sort_by_first (encode_query q1) = stable_sort_by_first (encode_query q2)"
    by (rule push_query_inject [OF encode_query_ok encode_query_ok s3 [THEN conjunct1]])
  with m s2 show ?thesis by (auto simp: uri_encode_inject intro: encoded_query_mset)
qed

theorem canonical_request_binds_witness:
  "create_canonical_request ''GET'' ''/k'' [(''b'', ''2''), (''a'', ''1'')] [] Unsigned =
     create_canonical_request ''GET'' ''/k'' [(''a'', ''1''), (''b'', ''2'')] [] Unsigned \<and>
   mset [(''b'', ''2''), (''a'', ''1'')] = mset [(''a'', ''1''), (''b'', ''2'' :: bytes)]"
proof -
  have eq: "create_canonical_request ''GET'' ''/k'' [(''b'', ''2''), (''a'', ''1'')] [] Unsigned =
     create_canonical_request ''GET'' ''/k'' [(''a'', ''1''), (''b'', ''2'')] [] Unsigned"
    by code_simp
  show ?thesis using canonical_request_binds [OF _ _ eq] eq by simp
qed

subsection \<open>Signed headers\<close>

lemma push_signed_headers_names:
  "push_signed_headers ans first hs =
     ans @ (let names = filter (\<lambda>n. \<not> is_skipped_header n) (remdups_adj (map fst hs))
            in if first then intersperse_join '';'' names else concat (map (\<lambda>n. CHR '';'' # n) names))"
proof (induction ans first hs rule: push_signed_headers.induct)
  case (2 ans first name val hs)
  let ?names = "\<lambda>hs. filter (\<lambda>n. \<not> is_skipped_header n) (remdups_adj (map fst hs))"
  have run: "remdups_adj (name # map fst hs) = name # remdups_adj (map fst (dropWhile (\<lambda>h. fst h = name) hs))"
    by (induction hs) auto
  have join: "intersperse_join '';'' (x # xs) = x @ concat (map (\<lambda>n. CHR '';'' # n) xs)" for x xs
    by (induction xs arbitrary: x rule: induct_list012) auto
  show ?case
  proof (cases "is_skipped_header name")
    case True
    have "?names ((name, val) # hs) = ?names hs"
      using True by (cases hs) (auto simp: is_skipped_header_def split: if_splits)
    with True 2 show ?thesis by simp
  next
    case False
    let ?rest = "dropWhile (\<lambda>h. fst h = name) hs"
    have "?names ((name, val) # hs) = name # ?names ?rest" using False run by simp
    with False 2 join [of name "?names ?rest"] show ?thesis by (simp add: Let_def)
  qed
qed simp

text \<open>
  The list of signed headers names each header of a request once, in the order of the canonical
  header block, with the names separated by semicolons and the authorization header left out.
\<close>

theorem signed_headers_once:
  assumes "sorted (map fst hs)"
  shows "push_signed_headers [] True hs =
      intersperse_join '';'' (filter (\<lambda>n. \<not> is_skipped_header n) (remdups_adj (map fst hs))) \<and>
    distinct (filter (\<lambda>n. \<not> is_skipped_header n) (remdups_adj (map fst hs))) \<and>
    set (filter (\<lambda>n. \<not> is_skipped_header n) (remdups_adj (map fst hs))) = fst ` set hs - {''authorization''}"
proof -
  have "distinct (remdups_adj xs)" if "sorted xs" for xs :: "bytes list"
    using that by (induction xs rule: remdups_adj.induct) (auto simp: less_le)
  with assms show ?thesis
    by (auto simp: push_signed_headers_names is_skipped_header_def Let_def)
qed

theorem signed_headers_once_witness:
  "sorted (map fst [(''authorization'', ''x''), (''host'', ''h''), (''host'', ''i''), (''range'', ''r'')]) \<and>
   push_signed_headers [] True [(''authorization'', ''x''), (''host'', ''h''), (''host'', ''i''), (''range'', ''r'')] =
     ''host;range''"
proof -
  have s: "sorted (map fst [(''authorization'', ''x''), (''host'', ''h''), (''host'', ''i''), (''range'', ''r'')])"
    by code_simp
  show ?thesis using signed_headers_once [OF s] s by (simp add: is_skipped_header_def)
qed

subsection \<open>Dates\<close>

definition date_ok :: "amz_date \<Rightarrow> bool" where
  "date_ok t \<longleftrightarrow> year t < 10000 \<and> month t < 100 \<and> day t < 100 \<and> hour t < 100 \<and> minute t < 100 \<and> second t < 100"

lemma zero_padded2: "n < 100 \<Longrightarrow> zero_padded 2 n = [char_of (48 + n div 10), char_of (48 + n mod 10)]"
proof -
  have "char_of (48 :: nat) = CHR ''0''" by code_simp
  then show "n < 100 \<Longrightarrow> zero_padded 2 n = [char_of (48 + n div 10), char_of (48 + n mod 10)]"
    by (cases "n < 10") (simp_all add: zero_padded_def decimal_small)
qed

lemma tens_digit: "n div 10 mod 10 = n mod 100 div (10 :: nat)" "n div 10 div 10 = n div (100 :: nat)"
proof -
  have "n mod (10 * 10) = 10 * (n div 10 mod 10) + n mod 10" by (rule mod_mult2_eq)
  then show "n div 10 mod 10 = n mod 100 div 10" by simp
qed (simp add: div_mult2_eq [symmetric])

lemma zero_padded4:
  assumes "n < 10000"
  shows "zero_padded 4 n = [char_of (48 + n div 100 div 10), char_of (48 + n div 100 mod 10),
    char_of (48 + n mod 100 div 10), char_of (48 + n mod 10)]"
proof -
  have z: "char_of (48 :: nat) = CHR ''0''" by code_simp
  have r: "replicate 3 CHR ''0'' = ''000''" "replicate 2 CHR ''0'' = ''00''" by code_simp+
  consider "n < 10" | "10 \<le> n" "n < 100" | "100 \<le> n" "n < 1000" | "1000 \<le> n" by linarith
  then show ?thesis
  proof cases
    case 3
    then have "decimal n = decimal (n div 10) @ [char_of (48 + n mod 10)]" "10 \<le> n div 10" "n div 10 < 100"
      by (simp_all add: decimal.simps [of n])
    moreover have "n div 100 div 10 = 0" "n div 100 mod 10 = n div 100"
      using 3 by (simp_all add: div_mult2_eq [symmetric])
    ultimately show ?thesis by (simp add: zero_padded_def decimal_small z tens_digit)
  next
    case 4
    then have d: "decimal n = decimal (n div 10) @ [char_of (48 + n mod 10)]" "100 \<le> n div 10"
      by (simp_all add: decimal.simps [of n])
    then have "decimal (n div 10) = decimal (n div 10 div 10) @ [char_of (48 + n div 10 mod 10)]" "10 \<le> n div 10 div 10" "n div 10 div 10 < 100"
      using assms by (simp_all add: decimal.simps [of "n div 10"])
    with d(1) show ?thesis by (simp add: zero_padded_def decimal_small tens_digit)
  qed (simp_all add: zero_padded_def decimal_small z r)
qed

lemma digit_of_char: "n < 10 \<Longrightarrow> digit (char_of (48 + n)) = Some n"
  by (simp add: digit_def byte_in_def)

lemma digit_Some: "digit c = Some n \<longleftrightarrow> n < 10 \<and> c = char_of (48 + n)"
proof
  assume "digit c = Some n"
  then have "48 \<le> (of_char c :: nat)" "(of_char c :: nat) \<le> 57" "n = of_char c - 48"
    by (auto simp: digit_def byte_in_def split: if_splits)
  then show "n < 10 \<and> c = char_of (48 + n)" by auto
qed (simp add: digit_of_char)

lemma digit2_Some: "digit2 a b = Some n \<longleftrightarrow> n < 100 \<and> a = char_of (48 + n div 10) \<and> b = char_of (48 + n mod 10)"
  by (auto simp: digit2_def digit_Some digit_of_char split: option.splits)

lemma digit4_Some: "digit4 a b c d = Some n \<longleftrightarrow> n < 10000 \<and> a = char_of (48 + n div 100 div 10) \<and>
    b = char_of (48 + n div 100 mod 10) \<and> c = char_of (48 + n mod 100 div 10) \<and> d = char_of (48 + n mod 10)"
    (is "?parse \<longleftrightarrow> ?text")
proof -
  have "?parse \<longleftrightarrow> (\<exists>x y. digit2 a b = Some x \<and> digit2 c d = Some y \<and> n = x * 100 + y)"
    by (auto simp: digit4_def split: option.splits)
  also have "\<dots> \<longleftrightarrow> n < 10000 \<and> digit2 a b = Some (n div 100) \<and> digit2 c d = Some (n mod 100)"
  proof
    assume "\<exists>x y. digit2 a b = Some x \<and> digit2 c d = Some y \<and> n = x * 100 + y"
    then obtain x y where xy: "digit2 a b = Some x" "digit2 c d = Some y" "n = x * 100 + y" by blast
    then have "x < 100" "y < 100" by (simp_all add: digit2_Some)
    then have "n div 100 = x" "n mod 100 = y" "n < 10000" by (simp_all add: xy(3))
    with xy show "n < 10000 \<and> digit2 a b = Some (n div 100) \<and> digit2 c d = Some (n mod 100)" by simp
  next
    assume R: "n < 10000 \<and> digit2 a b = Some (n div 100) \<and> digit2 c d = Some (n mod 100)"
    have "n = n div 100 * 100 + n mod 100" by simp
    with R show "\<exists>x y. digit2 a b = Some x \<and> digit2 c d = Some y \<and> n = x * 100 + y" by blast
  qed
  also have "\<dots> \<longleftrightarrow> ?text"
    by (auto simp: digit2_Some mod_mod_cancel)
  finally show ?thesis .
qed

lemma AmzDate_parse_Some: "AmzDate_parse s = Some t \<longleftrightarrow> date_ok t \<and> fmt_iso8601 t = s"
proof
  assume p: "AmzDate_parse s = Some t"
  then have len: "length s = 16" by (auto simp: AmzDate_parse_def split: if_splits)
  then obtain a0 a1 a2 a3 a4 a5 a6 a7 a8 a9 aa ab ac ad ae af
    where s: "s = [a0, a1, a2, a3, a4, a5, a6, a7, a8, a9, aa, ab, ac, ad, ae, af]"
    by (auto simp: numeral_eq_Suc length_Suc_conv)
  from p show "date_ok t \<and> fmt_iso8601 t = s"
    unfolding AmzDate_parse_def parse_date_bytes_def s
    by (auto simp: date_ok_def fmt_iso8601_def zero_padded2 zero_padded4 digit2_Some digit4_Some
        split: option.splits if_splits)
next
  assume "date_ok t \<and> fmt_iso8601 t = s"
  then have ok: "date_ok t" and s: "s = fmt_iso8601 t" by simp_all
  have eqs: "digit4 (char_of (48 + year t div 100 div 10)) (char_of (48 + year t div 100 mod 10))
       (char_of (48 + year t mod 100 div 10)) (char_of (48 + year t mod 10)) = Some (year t)"
    "\<And>n. n < 100 \<Longrightarrow> digit2 (char_of (48 + n div 10)) (char_of (48 + n mod 10)) = Some n"
    using ok by (auto simp: date_ok_def digit2_Some digit4_Some)
  have "fmt_iso8601 t =
      [char_of (48 + year t div 100 div 10), char_of (48 + year t div 100 mod 10),
       char_of (48 + year t mod 100 div 10), char_of (48 + year t mod 10),
       char_of (48 + month t div 10), char_of (48 + month t mod 10),
       char_of (48 + day t div 10), char_of (48 + day t mod 10), CHR ''T'',
       char_of (48 + hour t div 10), char_of (48 + hour t mod 10),
       char_of (48 + minute t div 10), char_of (48 + minute t mod 10),
       char_of (48 + second t div 10), char_of (48 + second t mod 10), CHR ''Z'']"
    using ok by (simp add: date_ok_def fmt_iso8601_def zero_padded2 zero_padded4)
  then show "AmzDate_parse s = Some t"
    using ok by (simp add: s AmzDate_parse_def parse_date_bytes_def eqs date_ok_def)
qed

text \<open>
  Parsing and printing of \<^verbatim>\<open>x-amz-date\<close> are inverse to each other: the parser accepts exactly the
  printed forms of dates whose fields fit their digits, and the printed form always fits the fixed
  buffers of sixteen and eight bytes.
\<close>

theorem amz_date_roundtrip:
  "(AmzDate_parse s = Some t \<longleftrightarrow> date_ok t \<and> fmt_iso8601 t = s) \<and>
   (date_ok t \<longrightarrow> length (fmt_iso8601 t) = 16 \<and> length (fmt_date t) = 8)"
proof
  show "AmzDate_parse s = Some t \<longleftrightarrow> date_ok t \<and> fmt_iso8601 t = s" by (rule AmzDate_parse_Some)
  show "date_ok t \<longrightarrow> length (fmt_iso8601 t) = 16 \<and> length (fmt_date t) = 8"
    by (simp add: date_ok_def fmt_iso8601_def fmt_date_def zero_padded2 zero_padded4)
qed

theorem amz_date_roundtrip_witness:
  "AmzDate_parse ''20130524T000000Z'' =
     Some \<lparr>year = 2013, month = 5, day = 24, hour = 0, minute = 0, second = 0\<rparr> \<and>
   length (fmt_iso8601 \<lparr>year = 2013, month = 5, day = 24, hour = 0, minute = 0, second = 0\<rparr>) = 16"
proof -
  let ?t = "\<lparr>year = 2013, month = 5, day = 24, hour = 0, minute = 0, second = 0\<rparr>"
  have "date_ok ?t" by (simp add: date_ok_def)
  moreover have "fmt_iso8601 ?t = ''20130524T000000Z''" by code_simp
  ultimately show ?thesis using amz_date_roundtrip [of "''20130524T000000Z''" ?t] by simp
qed

subsection \<open>Strings to sign\<close>

lemma scope_no_confusion:
  assumes "date_ok t" and "date_ok t'" and "length x = length x'"
    and "push_scope x t r v @ rest = push_scope x' t' r' v' @ rest'"
  shows "x = x' \<and> t = t'"
proof -
  have "length (fmt_iso8601 t) = 16" "length (fmt_iso8601 t') = 16"
    using assms(1,2) by (simp_all add: date_ok_def fmt_iso8601_def zero_padded2 zero_padded4)
  with assms(3,4) have "x = x'" "fmt_iso8601 t = fmt_iso8601 t'" by (simp_all add: push_scope_def)
  with assms(1,2) show ?thesis using AmzDate_parse_Some by (metis option.inject)
qed

text \<open>
  The string to sign of a chunk fixes the date, the previous signature and the digest of the data,
  given the scope: two chunks with the same string to sign in the same scope have the same predecessor
  and the same digest. This is what chains the signatures of a streamed upload.
\<close>

theorem chunk_string_binds:
  assumes "date_ok t" and "date_ok t'" and "length prev = 64" and "length prev' = 64"
    and "create_chunk_string_to_sign C t region service prev data =
         create_chunk_string_to_sign C t' region service prev' data'"
  shows "t = t' \<and> prev = prev' \<and>
    (if data = [] then EMPTY_STRING_SHA256_HASH else hex_lower C (digest_updates C data)) =
    (if data' = [] then EMPTY_STRING_SHA256_HASH else hex_lower C (digest_updates C data'))"
proof -
  let ?h = "\<lambda>data. if data = [] then EMPTY_STRING_SHA256_HASH else hex_lower C (digest_updates C data)"
  let ?x = "''AWS4-HMAC-SHA256-PAYLOAD'' @ [LF]"
  have form: "create_chunk_string_to_sign C t region service prev data =
      push_scope ?x t region service @ prev @ [LF] @ EMPTY_STRING_SHA256_HASH @ [LF] @ ?h data" for t prev data
    by (simp add: create_chunk_string_to_sign_def hex_sha256_chunk_def hex_bytes32_def sha256_chunk_def Let_def)
  from scope_no_confusion [OF assms(1,2), of ?x ?x] assms(5) have "t = t'" unfolding form by blast
  with assms(3-5) show ?thesis unfolding form by simp
qed

theorem chunk_string_binds_witness:
  "let C = \<lparr>digest_once = id, digest_updates = concat, mac = (@), hex_lower = id, hex_decode = Some\<rparr>;
       t = \<lparr>year = 2013, month = 5, day = 24, hour = 0, minute = 0, second = 0\<rparr>;
       prev = EMPTY_STRING_SHA256_HASH
   in create_chunk_string_to_sign C t ''r'' ''s3'' prev [''ab''] = create_chunk_string_to_sign C t ''r'' ''s3'' prev [''a'', ''b''] \<and>
      hex_lower C (digest_updates C [''ab'']) = hex_lower C (digest_updates C [''a'', ''b''])"
proof -
  let ?C = "\<lparr>digest_once = id, digest_updates = concat, mac = (@), hex_lower = id, hex_decode = Some\<rparr>"
  let ?t = "\<lparr>year = 2013, month = 5, day = 24, hour = 0, minute = 0, second = 0\<rparr>"
  have ok: "date_ok ?t" and len: "length EMPTY_STRING_SHA256_HASH = 64"
    by (simp_all add: date_ok_def EMPTY_STRING_SHA256_HASH_def)
  have eq: "create_chunk_string_to_sign ?C ?t ''r'' ''s3'' EMPTY_STRING_SHA256_HASH [''ab''] =
      create_chunk_string_to_sign ?C ?t ''r'' ''s3'' EMPTY_STRING_SHA256_HASH [''a'', ''b'']"
    by (simp add: create_chunk_string_to_sign_def hex_sha256_chunk_def hex_bytes32_def sha256_chunk_def)
  show ?thesis
    using chunk_string_binds [OF ok ok len len eq] eq by (simp add: Let_def)
qed

end
