(* ===== verification/Sigv4_Parsers.thy ===== *)
theory Sigv4_Parsers
  imports Sigv4_Correct "HOL-Library.Monad_Syntax"
begin

text \<open>
  The parsers of \<^verbatim>\<open>s3s-sigv4\<close>: the \<^verbatim>\<open>Authorization\<close> header and the credential scope (\<^verbatim>\<open>authorization.rs\<close>),
  presigned query strings (\<^verbatim>\<open>presigned_url.rs\<close>), the signature fields of a form upload
  (\<^verbatim>\<open>post_signature.rs\<close>) and \<^verbatim>\<open>x-amz-content-sha256\<close> (\<^verbatim>\<open>amz_content_sha256.rs\<close>). The parsing library
  \<^verbatim>\<open>nom\<close> is the parameter \<open>N\<close>, the calendar of \<^verbatim>\<open>jiff\<close> the parameter \<open>J\<close>, and the Base64 decoder of
  \<^verbatim>\<open>base64_simd\<close> the parameter \<open>B\<close>. The combinators that only run parsers one after the other
  (\<^verbatim>\<open>delimited\<close>, \<^verbatim>\<open>preceded\<close>, \<^verbatim>\<open>terminated\<close>, \<^verbatim>\<open>verify\<close>) are written out as that sequence.
\<close>

subsection \<open>The parsing library\<close>

text \<open>A parser returns the remaining input and its output. \<open>take1\<close> is \<^verbatim>\<open>take(1)\<close> on text, one character.\<close>

record nom_api =
  take_till :: "(byte \<Rightarrow> bool) \<Rightarrow> bytes \<Rightarrow> (bytes \<times> bytes) option"
  take_till1 :: "(byte \<Rightarrow> bool) \<Rightarrow> bytes \<Rightarrow> (bytes \<times> bytes) option"
  tag :: "bytes \<Rightarrow> bytes \<Rightarrow> (bytes \<times> bytes) option"
  take1 :: "bytes \<Rightarrow> (bytes \<times> bytes) option"
  take_bytes :: "nat \<Rightarrow> bytes \<Rightarrow> (bytes \<times> bytes) option"
  multispace0 :: "bytes \<Rightarrow> (bytes \<times> bytes) option"
  multispace1 :: "bytes \<Rightarrow> (bytes \<times> bytes) option"
  hex_u32 :: "bytes \<Rightarrow> (bytes \<times> nat) option"

definition is_multispace :: "byte \<Rightarrow> bool" where
  "is_multispace c \<longleftrightarrow> c = SP \<or> c = HTAB \<or> c = CR \<or> c = LF"

definition hex_value :: "byte \<Rightarrow> nat option" where
  "hex_value c =
     (if byte_in 48 57 c then Some (of_char c - 48)
      else if byte_in 97 102 c then Some (of_char c - 87)
      else if byte_in 65 70 c then Some (of_char c - 55) else None)"

definition is_hex_digit :: "byte \<Rightarrow> bool" where
  "is_hex_digit c \<longleftrightarrow> hex_value c \<noteq> None"

definition hex_number :: "bytes \<Rightarrow> nat" where
  "hex_number s = foldl (\<lambda>n c. 16 * n + (case hex_value c of Some v \<Rightarrow> v | None \<Rightarrow> 0)) 0 s"

text \<open>The documented behaviour of the parsers; \<^verbatim>\<open>hex_u32\<close> reads at most eight digits.\<close>

locale nom_contract =
  fixes N :: nom_api
  assumes take_till_eq: "take_till N P s = Some (dropWhile (\<lambda>c. \<not> P c) s, takeWhile (\<lambda>c. \<not> P c) s)"
    and take_till1_eq: "take_till1 N P s =
      (if takeWhile (\<lambda>c. \<not> P c) s = [] then None else Some (dropWhile (\<lambda>c. \<not> P c) s, takeWhile (\<lambda>c. \<not> P c) s))"
    and tag_eq: "tag N t s = (if prefix t s then Some (drop (length t) s, t) else None)"
    and take1_nil: "take1 N [] = None"
    and take1_ascii: "byte_in 0 127 c \<Longrightarrow> take1 N (c # s) = Some (s, [c])"
    and take_bytes_eq: "take_bytes N n s = (if n \<le> length s then Some (drop n s, take n s) else None)"
    and multispace0_eq: "multispace0 N s = Some (dropWhile is_multispace s, takeWhile is_multispace s)"
    and multispace1_eq: "multispace1 N s =
      (if takeWhile is_multispace s = [] then None else Some (dropWhile is_multispace s, takeWhile is_multispace s))"
    and hex_u32_eq: "hex_u32 N s =
      (let h = take 8 (takeWhile is_hex_digit s) in if h = [] then None else Some (drop (length h) s, hex_number h))"

definition nom_ref :: nom_api where
  "nom_ref =
     \<lparr>take_till = (\<lambda>P s. Some (dropWhile (\<lambda>c. \<not> P c) s, takeWhile (\<lambda>c. \<not> P c) s)),
      take_till1 = (\<lambda>P s. if takeWhile (\<lambda>c. \<not> P c) s = [] then None
        else Some (dropWhile (\<lambda>c. \<not> P c) s, takeWhile (\<lambda>c. \<not> P c) s)),
      tag = (\<lambda>t s. if prefix t s then Some (drop (length t) s, t) else None),
      take1 = (\<lambda>s. case s of [] \<Rightarrow> None | c # r \<Rightarrow> Some (r, [c])),
      take_bytes = (\<lambda>n s. if n \<le> length s then Some (drop n s, take n s) else None),
      multispace0 = (\<lambda>s. Some (dropWhile is_multispace s, takeWhile is_multispace s)),
      multispace1 = (\<lambda>s. if takeWhile is_multispace s = [] then None
        else Some (dropWhile is_multispace s, takeWhile is_multispace s)),
      hex_u32 = (\<lambda>s. let h = take 8 (takeWhile is_hex_digit s)
        in if h = [] then None else Some (drop (length h) s, hex_number h))\<rparr>"

interpretation nom_reference: nom_contract nom_ref
  by unfold_locales (simp_all add: nom_ref_def)

subsection \<open>authorization.rs\<close>

record credential_v4 =
  access_key_id :: bytes
  cred_date :: bytes
  aws_region :: bytes
  aws_service :: bytes

record authorization_v4 =
  algorithm :: bytes
  credential :: credential_v4
  signed_headers :: "bytes list"
  signature :: bytes

datatype parse_authorization_error = Malformed | InvalidSignature

definition is_ascii_whitespace_char :: "byte \<Rightarrow> bool" where
  "is_ascii_whitespace_char c \<longleftrightarrow> c = SP \<or> c = HTAB \<or> c = LF \<or> c = CHR 0x0C \<or> c = CR"

definition till_space0 :: "nom_api \<Rightarrow> bytes \<Rightarrow> (bytes \<times> bytes) option" where
  "till_space0 N input = take_till N is_ascii_whitespace_char input"

definition till_space1 :: "nom_api \<Rightarrow> bytes \<Rightarrow> (bytes \<times> bytes) option" where
  "till_space1 N input = take_till1 N is_ascii_whitespace_char input"

definition until_slash0 :: "nom_api \<Rightarrow> bytes \<Rightarrow> (bytes \<times> bytes) option" where
  "until_slash0 N input = do {
     (s, out) \<leftarrow> take_till N (\<lambda>c. c = CHR ''/'') input;
     (s, _) \<leftarrow> take1 N s;
     Some (s, out) }"

definition until_slash1 :: "nom_api \<Rightarrow> bytes \<Rightarrow> (bytes \<times> bytes) option" where
  "until_slash1 N input = do {
     (s, out) \<leftarrow> take_till1 N (\<lambda>c. c = CHR ''/'') input;
     (s, _) \<leftarrow> take1 N s;
     Some (s, out) }"

definition verify_date :: "(nat \<Rightarrow> nat \<Rightarrow> nat \<Rightarrow> bool) \<Rightarrow> bytes \<Rightarrow> bool" where
  "verify_date J x =
     (if length x \<noteq> 8 then False
      else (case digit4 (x ! 0) (x ! 1) (x ! 2) (x ! 3) of None \<Rightarrow> False | Some yyyy \<Rightarrow>
           (case digit2 (x ! 4) (x ! 5) of None \<Rightarrow> False | Some mm \<Rightarrow>
           (case digit2 (x ! 6) (x ! 7) of None \<Rightarrow> False | Some dd \<Rightarrow>
             yyyy < 2 ^ 15 \<and> mm < 2 ^ 7 \<and> dd < 2 ^ 7 \<and> J yyyy mm dd))))"

definition parse_credential ::
  "nom_api \<Rightarrow> (nat \<Rightarrow> nat \<Rightarrow> nat \<Rightarrow> bool) \<Rightarrow> bytes \<Rightarrow> (bytes \<times> credential_v4) option" where
  "parse_credential N J input = do {
     (s, akid) \<leftarrow> until_slash0 N input;
     (s, date) \<leftarrow> (case until_slash1 N s of
        Some (s', out) \<Rightarrow> (if verify_date J out then Some (s', out) else None) | None \<Rightarrow> None);
     (s, region) \<leftarrow> until_slash0 N s;
     (s, service) \<leftarrow> until_slash1 N s;
     (s, _) \<leftarrow> tag N ''aws4_request'' s;
     Some (s, \<lparr>access_key_id = akid, cred_date = date, aws_region = region, aws_service = service\<rparr>) }"

definition CredentialV4_parse ::
  "nom_api \<Rightarrow> (nat \<Rightarrow> nat \<Rightarrow> nat \<Rightarrow> bool) \<Rightarrow> bytes \<Rightarrow> credential_v4 option" where
  "CredentialV4_parse N J input =
     (case parse_credential N J input of
        Some (s, ans) \<Rightarrow> (if s = [] then Some ans else None)
      | None \<Rightarrow> None)"

text \<open>
  \<^verbatim>\<open>separated_list1(tag(";"), take_till(..))\<close>: after the first element, a separator and an element at a
  time; a round that does not consume input is an error of the library.
\<close>

function headers_loop :: "nom_api \<Rightarrow> bytes \<Rightarrow> bytes list \<Rightarrow> (bytes \<times> bytes list) option" where
  "headers_loop N s acc =
     (case tag N '';'' s of
        None \<Rightarrow> Some (s, acc)
      | Some (s1, _) \<Rightarrow>
          (case take_till N (\<lambda>c. c = CHR '';'' \<or> c = CHR '','') s1 of
             None \<Rightarrow> Some (s, acc)
           | Some (s2, h) \<Rightarrow> (if length s2 < length s then headers_loop N s2 (acc @ [h]) else None)))"
  by pat_completeness auto
termination
  by (relation "measure (\<lambda>(N, s, acc). length s)") auto

declare headers_loop.simps [simp del]

definition parse_headers :: "nom_api \<Rightarrow> bytes \<Rightarrow> (bytes \<times> bytes list) option" where
  "parse_headers N input = do {
     (s, h) \<leftarrow> take_till N (\<lambda>c. c = CHR '';'' \<or> c = CHR '','') input;
     headers_loop N s [h] }"

definition parse_authorization ::
  "nom_api \<Rightarrow> (nat \<Rightarrow> nat \<Rightarrow> nat \<Rightarrow> bool) \<Rightarrow> bytes \<Rightarrow> (bytes \<times> authorization_v4) option" where
  "parse_authorization N J input = do {
     (s, alg) \<leftarrow> till_space1 N input;
     (s, _) \<leftarrow> multispace1 N s;
     (s, _) \<leftarrow> tag N ''Credential='' s;
     (s, cred) \<leftarrow> parse_credential N J s;
     (s, _) \<leftarrow> tag N '','' s;
     (s, _) \<leftarrow> multispace0 N s;
     (s, _) \<leftarrow> tag N ''SignedHeaders='' s;
     (s, hs) \<leftarrow> parse_headers N s;
     (s, _) \<leftarrow> tag N '','' s;
     (s, _) \<leftarrow> multispace0 N s;
     (s, _) \<leftarrow> tag N ''Signature='' s;
     (s, sig) \<leftarrow> till_space0 N s;
     (s, _) \<leftarrow> multispace0 N s;
     Some (s, \<lparr>algorithm = alg, credential = cred, signed_headers = hs, signature = sig\<rparr>) }"

definition AuthorizationV4_parse ::
  "nom_api \<Rightarrow> (nat \<Rightarrow> nat \<Rightarrow> nat \<Rightarrow> bool) \<Rightarrow> bytes \<Rightarrow> parse_authorization_error + authorization_v4" where
  "AuthorizationV4_parse N J header =
     (case parse_authorization N J header of
        Some (s, ans) \<Rightarrow>
          (if s \<noteq> [] then Inl Malformed
           else if \<not> is_sha256_checksum (signature ans) then Inl InvalidSignature else Inr ans)
      | None \<Rightarrow> Inl Malformed)"

subsection \<open>presigned\_url.rs\<close>

record presigned_url_v4 =
  pre_algorithm :: bytes
  pre_credential :: credential_v4
  pre_amz_date :: amz_date
  pre_expires :: nat
  pre_signed_headers :: "bytes list"
  pre_signature :: bytes

definition get_unique :: "(bytes \<times> bytes) list \<Rightarrow> bytes \<Rightarrow> bytes option" where
  "get_unique pairs name =
     (case map snd (filter (\<lambda>(key, _). key = name) pairs) of
        [] \<Rightarrow> None
      | [v] \<Rightarrow> Some v
      | _ # _ # _ \<Rightarrow> None)"

text \<open>\<^verbatim>\<open>str::parse::<u32>\<close>: an optional plus sign and at least one digit, without overflow.\<close>

definition parse_u32 :: "bytes \<Rightarrow> nat option" where
  "parse_u32 s =
     (let ds = (case s of c # r \<Rightarrow> if c = CHR ''+'' then r else s | [] \<Rightarrow> s);
          n = foldl (\<lambda>n c. 10 * n + (of_char c - 48)) 0 ds
      in if ds = [] \<or> \<not> list_all (byte_in 48 57) ds \<or> n \<ge> 2 ^ 32 then None else Some n)"

definition parse_expires :: "bytes \<Rightarrow> nat \<Rightarrow> nat option" where
  "parse_expires s max_expires_secs =
     (case parse_u32 s of
        None \<Rightarrow> None
      | Some x \<Rightarrow> (if x > max_expires_secs then None else Some x))"

definition PresignedUrlV4_parse ::
  "nom_api \<Rightarrow> (nat \<Rightarrow> nat \<Rightarrow> nat \<Rightarrow> bool) \<Rightarrow> (bytes \<times> bytes) list \<Rightarrow> nat \<Rightarrow> presigned_url_v4 option" where
  "PresignedUrlV4_parse N J qs max_expires_secs = do {
     alg \<leftarrow> get_unique qs ''X-Amz-Algorithm'';
     credential_str \<leftarrow> get_unique qs ''X-Amz-Credential'';
     date \<leftarrow> get_unique qs ''X-Amz-Date'';
     expires \<leftarrow> get_unique qs ''X-Amz-Expires'';
     signed \<leftarrow> get_unique qs ''X-Amz-SignedHeaders'';
     sig \<leftarrow> get_unique qs ''X-Amz-Signature'';
     cred \<leftarrow> CredentialV4_parse N J credential_str;
     amz \<leftarrow> AmzDate_parse date;
     ex \<leftarrow> parse_expires expires max_expires_secs;
     if \<not> list_all (byte_in 0 127) signed then None
     else if \<not> is_sha256_checksum sig then None
     else Some \<lparr>pre_algorithm = alg, pre_credential = cred, pre_amz_date = amz, pre_expires = ex,
                pre_signed_headers = split_on CHR '';'' signed, pre_signature = sig\<rparr> }"

subsection \<open>post\_signature.rs\<close>

record post_signature_v4 =
  post_policy :: bytes
  post_x_amz_algorithm :: bytes
  post_x_amz_credential :: bytes
  post_x_amz_date :: bytes
  post_x_amz_signature :: bytes

datatype post_signature_error = MissingField bytes | DuplicateField bytes

definition post_get :: "(bytes \<times> bytes) list \<Rightarrow> bytes \<Rightarrow> post_signature_error + bytes" where
  "post_get table name =
     (case map snd (filter (\<lambda>(k, _). k = name) table) of
        [] \<Rightarrow> Inl (MissingField name)
      | v # others \<Rightarrow> (if others \<noteq> [] then Inl (DuplicateField name) else Inr v))"

definition PostSignatureV4_extract :: "(bytes \<times> bytes) list \<Rightarrow> post_signature_error + post_signature_v4" where
  "PostSignatureV4_extract table =
     (case post_get table ''policy'' of Inl e \<Rightarrow> Inl e | Inr po \<Rightarrow>
     (case post_get table ''x-amz-algorithm'' of Inl e \<Rightarrow> Inl e | Inr al \<Rightarrow>
     (case post_get table ''x-amz-credential'' of Inl e \<Rightarrow> Inl e | Inr cr \<Rightarrow>
     (case post_get table ''x-amz-date'' of Inl e \<Rightarrow> Inl e | Inr da \<Rightarrow>
     (case post_get table ''x-amz-signature'' of Inl e \<Rightarrow> Inl e | Inr si \<Rightarrow>
        Inr \<lparr>post_policy = po, post_x_amz_algorithm = al, post_x_amz_credential = cr,
             post_x_amz_date = da, post_x_amz_signature = si\<rparr>)))))"

subsection \<open>amz\_content\_sha256.rs\<close>

datatype amz_content_sha256 =
    SingleChunkSum bytes
  | UnsignedPayload
  | StreamingUnsignedPayloadTrailer
  | StreamingAws4HmacSha256Payload
  | StreamingAws4HmacSha256PayloadTrailer
  | StreamingAws4EcdsaP256Sha256Payload
  | StreamingAws4EcdsaP256Sha256PayloadTrailer

record base64_api =
  decoded_length :: "bytes \<Rightarrow> nat option"
  base64_decode :: "bytes \<Rightarrow> bytes option"

definition parse_checksum :: "crypto_api \<Rightarrow> base64_api \<Rightarrow> bytes \<Rightarrow> bytes option" where
  "parse_checksum C B header =
     (if is_sha256_checksum header then
        (case hex_decode C header of
           None \<Rightarrow> None
         | Some decoded \<Rightarrow> (if length decoded = 32 then Some decoded else None))
      else
        (case decoded_length B header of
           None \<Rightarrow> None
         | Some n \<Rightarrow>
             (if n \<noteq> 32 then None
              else (case base64_decode B header of
                      None \<Rightarrow> None
                    | Some decoded \<Rightarrow> (if length decoded = 32 then Some decoded else None)))))"

definition AmzContentSha256_parse :: "crypto_api \<Rightarrow> base64_api \<Rightarrow> bytes \<Rightarrow> amz_content_sha256 option" where
  "AmzContentSha256_parse C B header =
     (case parse_checksum C B header of
        Some checksum \<Rightarrow> Some (SingleChunkSum checksum)
      | None \<Rightarrow>
          (if header = ''UNSIGNED-PAYLOAD'' then Some UnsignedPayload
           else if header = ''STREAMING-UNSIGNED-PAYLOAD-TRAILER'' then Some StreamingUnsignedPayloadTrailer
           else if header = ''STREAMING-AWS4-HMAC-SHA256-PAYLOAD'' then Some StreamingAws4HmacSha256Payload
           else if header = ''STREAMING-AWS4-HMAC-SHA256-PAYLOAD-TRAILER'' then Some StreamingAws4HmacSha256PayloadTrailer
           else if header = ''STREAMING-AWS4-ECDSA-P256-SHA256-PAYLOAD'' then Some StreamingAws4EcdsaP256Sha256Payload
           else if header = ''STREAMING-AWS4-ECDSA-P256-SHA256-PAYLOAD-TRAILER''
           then Some StreamingAws4EcdsaP256Sha256PayloadTrailer
           else None))"

fun is_streaming :: "amz_content_sha256 \<Rightarrow> bool" where
  "is_streaming (SingleChunkSum _) = False"
| "is_streaming UnsignedPayload = False"
| "is_streaming StreamingUnsignedPayloadTrailer = True"
| "is_streaming StreamingAws4HmacSha256Payload = True"
| "is_streaming StreamingAws4HmacSha256PayloadTrailer = True"
| "is_streaming StreamingAws4EcdsaP256Sha256Payload = True"
| "is_streaming StreamingAws4EcdsaP256Sha256PayloadTrailer = True"

fun has_trailer :: "amz_content_sha256 \<Rightarrow> bool" where
  "has_trailer (SingleChunkSum _) = False"
| "has_trailer UnsignedPayload = False"
| "has_trailer StreamingAws4HmacSha256Payload = False"
| "has_trailer StreamingAws4EcdsaP256Sha256Payload = False"
| "has_trailer StreamingUnsignedPayloadTrailer = True"
| "has_trailer StreamingAws4HmacSha256PayloadTrailer = True"
| "has_trailer StreamingAws4EcdsaP256Sha256PayloadTrailer = True"

subsection \<open>What the parsers accept\<close>

text \<open>The text of a credential scope.\<close>

definition print_credential :: "credential_v4 \<Rightarrow> bytes" where
  "print_credential c =
     access_key_id c @ ''/'' @ cred_date c @ ''/'' @ aws_region c @ ''/'' @ aws_service c @ ''/aws4_request''"

definition credential_ok :: "(nat \<Rightarrow> nat \<Rightarrow> nat \<Rightarrow> bool) \<Rightarrow> credential_v4 \<Rightarrow> bool" where
  "credential_ok J c \<longleftrightarrow>
     CHR ''/'' \<notin> set (access_key_id c) \<and> CHR ''/'' \<notin> set (cred_date c) \<and>
     CHR ''/'' \<notin> set (aws_region c) \<and> CHR ''/'' \<notin> set (aws_service c) \<and>
     verify_date J (cred_date c) \<and> aws_service c \<noteq> []"

context nom_contract
begin

lemma takeWhile_sep: "c \<notin> set a \<Longrightarrow> takeWhile (\<lambda>x. x \<noteq> c) (a @ c # r) = a"
  by (induction a) auto

lemma dropWhile_sep: "c \<notin> set a \<Longrightarrow> dropWhile (\<lambda>x. x \<noteq> c) (a @ c # r) = c # r"
  by (induction a) auto

lemma until_slash_app:
  assumes "CHR ''/'' \<notin> set a"
  shows "until_slash0 N (a @ CHR ''/'' # r) = Some (r, a)"
    and "a \<noteq> [] \<Longrightarrow> until_slash1 N (a @ CHR ''/'' # r) = Some (r, a)"
proof -
  have slash: "take1 N (CHR ''/'' # r) = Some (r, ''/'')"
    by (rule take1_ascii) (simp add: byte_in_def)
  show "until_slash0 N (a @ CHR ''/'' # r) = Some (r, a)"
    using assms slash by (simp add: until_slash0_def take_till_eq takeWhile_sep dropWhile_sep)
  show "a \<noteq> [] \<Longrightarrow> until_slash1 N (a @ CHR ''/'' # r) = Some (r, a)"
    using assms slash by (simp add: until_slash1_def take_till1_eq takeWhile_sep dropWhile_sep)
qed

lemma until_slash0_Some: "until_slash0 N s = Some (r, out) \<Longrightarrow> CHR ''/'' \<notin> set out \<and> s = out @ CHR ''/'' # r"
proof (cases "CHR ''/'' \<in> set s")
  case True
  then obtain a b where "s = a @ CHR ''/'' # b" "CHR ''/'' \<notin> set a" by (auto dest: split_list_first)
  then show "until_slash0 N s = Some (r, out) \<Longrightarrow> ?thesis" by (simp add: until_slash_app)
next
  case False
  then have "dropWhile (\<lambda>c. c \<noteq> CHR ''/'') s = []" by (auto simp: dropWhile_eq_Nil_conv)
  then show "until_slash0 N s = Some (r, out) \<Longrightarrow> ?thesis" by (simp add: until_slash0_def take_till_eq take1_nil)
qed

lemma until_slash1_Some:
  assumes "until_slash1 N s = Some (r, out)"
  shows "out \<noteq> [] \<and> CHR ''/'' \<notin> set out \<and> s = out @ CHR ''/'' # r"
proof -
  have "takeWhile (\<lambda>c. c \<noteq> CHR ''/'') s = out \<and> out \<noteq> [] \<and> until_slash0 N s = Some (r, out)"
    using assms by (auto simp: until_slash1_def until_slash0_def take_till_eq take_till1_eq bind_eq_Some_conv split: if_splits)
  with until_slash0_Some show ?thesis by blast
qed

lemma parse_credential_print:
  assumes "credential_ok J c"
  shows "parse_credential N J (print_credential c @ r) = Some (r, c)"
proof -
  have "cred_date c \<noteq> []" using assms by (auto simp: credential_ok_def verify_date_def)
  with assms show ?thesis
    by (simp add: parse_credential_def print_credential_def credential_ok_def until_slash_app tag_eq)
qed

lemma parse_credential_Some:
  assumes "parse_credential N J s = Some (r, c)"
  shows "credential_ok J c \<and> s = print_credential c @ r"
proof -
  from assms obtain s1 a where 1: "until_slash0 N s = Some (s1, a)"
    by (auto simp: parse_credential_def bind_eq_Some_conv)
  with assms obtain s2 d where 2: "until_slash1 N s1 = Some (s2, d)" "verify_date J d"
    by (auto simp: parse_credential_def bind_eq_Some_conv split: option.splits if_splits)
  with 1 assms obtain s3 e where 3: "until_slash0 N s2 = Some (s3, e)"
    by (auto simp: parse_credential_def bind_eq_Some_conv)
  with 1 2 assms obtain s4 v where 4: "until_slash1 N s3 = Some (s4, v)"
    by (auto simp: parse_credential_def bind_eq_Some_conv)
  with 1 2 3 assms have 5: "prefix ''aws4_request'' s4" "r = drop (length ''aws4_request'') s4"
    and c: "c = \<lparr>access_key_id = a, cred_date = d, aws_region = e, aws_service = v\<rparr>"
    by (auto simp: parse_credential_def tag_eq split: if_splits)
  then have "s4 = ''aws4_request'' @ r" by (auto elim: prefixE)
  with until_slash0_Some [OF 1] until_slash1_Some [OF 2(1)] until_slash0_Some [OF 3] until_slash1_Some [OF 4] 2(2) c
  show ?thesis by (simp add: credential_ok_def print_credential_def)
qed

lemma headers_loop_print:
  assumes "\<And>h. h \<in> set hs \<Longrightarrow> CHR '';'' \<notin> set h \<and> CHR '','' \<notin> set h"
  shows "headers_loop N (concat (map (\<lambda>h. CHR '';'' # h) hs) @ CHR '','' # r) acc = Some (CHR '','' # r, acc @ hs)"
  using assms
proof (induction hs arbitrary: acc)
  case Nil
  show ?case by (simp add: headers_loop.simps [of N "CHR '','' # r"] tag_eq)
next
  case (Cons h hs)
  define s where "s = concat (map (\<lambda>h. CHR '';'' # h) hs) @ CHR '','' # r"
  let ?P = "\<lambda>c. \<not> (c = CHR '';'' \<or> c = CHR '','')"
  obtain c t where stop: "s = c # t" "\<not> ?P c" by (cases hs) (auto simp: s_def)
  have all: "\<forall>c\<in>set h. ?P c" using Cons.prems by auto
  have cut: "takeWhile ?P (h @ s) = h" "dropWhile ?P (h @ s) = s"
    using stop all by (auto simp: takeWhile_append2 dropWhile_append2)
  have "headers_loop N (CHR '';'' # h @ s) acc = headers_loop N s (acc @ [h])"
    by (subst headers_loop.simps) (simp only: tag_eq take_till_eq, simp add: cut [simplified])
  with Cons show ?case by (simp add: s_def)
qed

lemma authorization_print:
  assumes "credential_ok J cred"
    and "alg \<noteq> []" and "list_all (\<lambda>c. \<not> is_ascii_whitespace_char c) alg"
    and "\<forall>h \<in> set (h0 # hs). CHR '';'' \<notin> set h \<and> CHR '','' \<notin> set h"
    and "list_all (\<lambda>c. \<not> is_ascii_whitespace_char c) sig"
  shows "AuthorizationV4_parse N J
      (alg @ '' Credential='' @ print_credential cred @ '', SignedHeaders='' @ intersperse_join '';'' (h0 # hs) @
       '', Signature='' @ sig) =
    (if is_sha256_checksum sig
     then Inr \<lparr>algorithm = alg, credential = cred, signed_headers = h0 # hs, signature = sig\<rparr>
     else Inl InvalidSignature)"
proof -
  define r4 where "r4 = sig"
  define r3 where "r3 = '' Signature='' @ r4"
  define r2 where "r2 = '' SignedHeaders='' @ intersperse_join '';'' (h0 # hs) @ CHR '','' # r3"
  define r1 where "r1 = '' Credential='' @ print_credential cred @ CHR '','' # r2"
  have join: "intersperse_join '';'' (h0 # hs) = h0 @ concat (map (\<lambda>h. CHR '';'' # h) hs)"
    by (induction hs arbitrary: h0 rule: induct_list012) auto
  have 1: "till_space1 N (alg @ r1) = Some (r1, alg)"
    using assms(2,3) by (auto simp: till_space1_def take_till1_eq takeWhile_append2 dropWhile_append2 list_all_iff r1_def
        is_ascii_whitespace_char_def)
  have 2: "multispace1 N r1 = Some (tl r1, '' '')"
    by (simp add: multispace1_eq r1_def is_multispace_def)
  have 3: "tag N ''Credential='' (tl r1) = Some (print_credential cred @ CHR '','' # r2, ''Credential='')"
    by (simp add: tag_eq r1_def)
  have 4: "parse_credential N J (print_credential cred @ CHR '','' # r2) = Some (CHR '','' # r2, cred)"
    by (rule parse_credential_print [OF assms(1)])
  have 5: "tag N '','' (CHR '','' # x) = Some (x, '','')" for x by (simp add: tag_eq)
  have 6: "multispace0 N r2 = Some (tl r2, '' '')" "multispace0 N r3 = Some (tl r3, '' '')"
    by (simp_all add: multispace0_eq r2_def r3_def is_multispace_def)
  have 7: "tag N ''SignedHeaders='' (tl r2) = Some (intersperse_join '';'' (h0 # hs) @ CHR '','' # r3, ''SignedHeaders='')"
    by (simp add: tag_eq r2_def)
  have 8: "parse_headers N (intersperse_join '';'' (h0 # hs) @ CHR '','' # r3) = Some (CHR '','' # r3, h0 # hs)"
  proof -
    define t where "t = concat (map (\<lambda>h. CHR '';'' # h) hs) @ CHR '','' # r3"
    let ?P = "\<lambda>c. \<not> (c = CHR '';'' \<or> c = CHR '','')"
    obtain c u where stop: "t = c # u" "\<not> ?P c" by (cases hs) (auto simp: t_def)
    have "\<forall>c\<in>set h0. ?P c" using assms(4) by auto
    then have "takeWhile ?P (h0 @ t) = h0" "dropWhile ?P (h0 @ t) = t"
      using stop by (auto simp: takeWhile_append2 dropWhile_append2)
    moreover have "headers_loop N t [h0] = Some (CHR '','' # r3, [h0] @ hs)"
      unfolding t_def by (rule headers_loop_print) (use assms(4) in auto)
    ultimately show ?thesis unfolding parse_headers_def take_till_eq join by (simp add: t_def)
  qed
  have 9: "tag N ''Signature='' (tl r3) = Some (r4, ''Signature='')" by (simp add: tag_eq r3_def)
  have 10: "till_space0 N r4 = Some ([], sig)" "multispace0 N [] = Some ([], [])"
    using assms(5) by (simp_all add: till_space0_def take_till_eq multispace0_eq r4_def list_all_iff)
  have "alg @ '' Credential='' @ print_credential cred @ '', SignedHeaders='' @ intersperse_join '';'' (h0 # hs) @
       '', Signature='' @ sig = alg @ r1"
    by (simp add: r1_def r2_def r3_def r4_def)
  moreover have "parse_authorization N J (alg @ r1) =
      Some ([], \<lparr>algorithm = alg, credential = cred, signed_headers = h0 # hs, signature = sig\<rparr>)"
    unfolding parse_authorization_def by (simp only: 1 2 3 4 5 6 7 8 9 10 bind.bind_lunit case_prod_conv Option.bind.bind_lunit)
  ultimately show ?thesis by (simp add: AuthorizationV4_parse_def)
qed

end

text \<open>
  The credential scope parser accepts exactly the texts
  \<^verbatim>\<open>key/date/region/service/aws4_request\<close> with a valid date and a service, and returns their parts: parsing
  and printing are inverse to each other.
\<close>

theorem credential_roundtrip:
  assumes "nom_contract N"
  shows "CredentialV4_parse N J s = Some c \<longleftrightarrow> credential_ok J c \<and> s = print_credential c"
  using nom_contract.parse_credential_print [OF assms, of J c "[]"] nom_contract.parse_credential_Some [OF assms, of J s]
  by (auto simp: CredentialV4_parse_def split: option.splits if_splits)

theorem credential_roundtrip_witness:
  "CredentialV4_parse nom_ref (\<lambda>_ _ _. True) ''AK/20130524/us-east-1/s3/aws4_request'' =
     Some \<lparr>access_key_id = ''AK'', cred_date = ''20130524'', aws_region = ''us-east-1'', aws_service = ''s3''\<rparr>"
proof -
  let ?c = "\<lparr>access_key_id = ''AK'', cred_date = ''20130524'', aws_region = ''us-east-1'', aws_service = ''s3''\<rparr>"
  have "verify_date (\<lambda>_ _ _. True) ''20130524''" by code_simp
  then have "credential_ok (\<lambda>_ _ _. True) ?c" by (simp add: credential_ok_def)
  moreover have "''AK/20130524/us-east-1/s3/aws4_request'' = print_credential ?c" by (simp add: print_credential_def)
  ultimately show ?thesis using credential_roundtrip [OF nom_reference.nom_contract_axioms] by blast
qed

text \<open>
  An \<^verbatim>\<open>Authorization\<close> header written in the standard form is read back into its parts, whatever the
  signed headers are; a signature that is not 64 lower-case hexadecimal digits is told apart from a
  malformed header.
\<close>

theorem authorization_roundtrip:
  assumes "nom_contract N" and "credential_ok J cred"
    and "alg \<noteq> []" and "list_all (\<lambda>c. \<not> is_ascii_whitespace_char c) alg"
    and "\<forall>h \<in> set (h0 # hs). CHR '';'' \<notin> set h \<and> CHR '','' \<notin> set h"
    and "list_all (\<lambda>c. \<not> is_ascii_whitespace_char c) sig"
  shows "AuthorizationV4_parse N J
      (alg @ '' Credential='' @ print_credential cred @ '', SignedHeaders='' @ intersperse_join '';'' (h0 # hs) @
       '', Signature='' @ sig) =
    (if is_sha256_checksum sig
     then Inr \<lparr>algorithm = alg, credential = cred, signed_headers = h0 # hs, signature = sig\<rparr>
     else Inl InvalidSignature)"
  using nom_contract.authorization_print [OF assms] .

theorem authorization_roundtrip_witness:
  "AuthorizationV4_parse nom_ref (\<lambda>_ _ _. True)
     ''AWS4-HMAC-SHA256 Credential=AK/20130524/us-east-1/s3/aws4_request, SignedHeaders=host;range, Signature=zz'' =
   Inl InvalidSignature"
proof -
  let ?c = "\<lparr>access_key_id = ''AK'', cred_date = ''20130524'', aws_region = ''us-east-1'', aws_service = ''s3''\<rparr>"
  have "verify_date (\<lambda>_ _ _. True) ''20130524''" by code_simp
  then have ok: "credential_ok (\<lambda>_ _ _. True) ?c" by (simp add: credential_ok_def)
  have ws: "list_all (\<lambda>c. \<not> is_ascii_whitespace_char c) ''AWS4-HMAC-SHA256''" "list_all (\<lambda>c. \<not> is_ascii_whitespace_char c) ''zz''"
    by (simp_all add: is_ascii_whitespace_char_def)
  show ?thesis
    using authorization_roundtrip [OF nom_reference.nom_contract_axioms ok _ ws(1) _ ws(2), of "''host''" "[''range'']"]
    by (simp add: print_credential_def is_sha256_checksum_def)
qed

lemma get_unique_Some: "get_unique qs name = Some v \<longleftrightarrow> filter (\<lambda>(k, _). k = name) qs = [(name, v)]"
proof -
  have key: "p \<in> set (filter (\<lambda>(k, _). k = name) qs) \<Longrightarrow> fst p = name" for p by auto
  show ?thesis
  proof (cases "filter (\<lambda>(k, _). k = name) qs")
    case Nil
    then show ?thesis by (simp add: get_unique_def)
  next
    case (Cons p ps)
    then show ?thesis using key [of p] by (cases ps; cases p) (auto simp: get_unique_def)
  qed
qed

lemma get_unique_once:
  assumes "get_unique qs name = Some v"
  shows "length (filter (\<lambda>(k, _). k = name) qs) = 1 \<and> (name, v) \<in> set qs"
proof -
  have f: "filter (\<lambda>(k, _). k = name) qs = [(name, v)]" using assms by (simp add: get_unique_Some)
  have "(name, v) \<in> set (filter (\<lambda>(k, _). k = name) qs)" unfolding f by simp
  then have "(name, v) \<in> set qs" by (metis filter_is_subset subsetD)
  with f show ?thesis by simp
qed

text \<open>
  A presigned query is accepted only when each of its six signature parameters occurs exactly
  once, its lifetime is within the configured bound and its signature is a SHA-256 value in lower-case
  hexadecimal; the parts returned print back to the parameters of the query.
\<close>

theorem presigned_parse_sound:
  assumes "nom_contract N" and "PresignedUrlV4_parse N J qs max_secs = Some p"
  shows "(\<forall>name \<in> {''X-Amz-Algorithm'', ''X-Amz-Credential'', ''X-Amz-Date'', ''X-Amz-Expires'',
            ''X-Amz-SignedHeaders'', ''X-Amz-Signature''}. length (filter (\<lambda>(k, _). k = name) qs) = 1) \<and>
    pre_expires p \<le> max_secs \<and> is_sha256_checksum (pre_signature p) \<and>
    (''X-Amz-Signature'', pre_signature p) \<in> set qs \<and>
    (''X-Amz-Credential'', print_credential (pre_credential p)) \<in> set qs \<and> credential_ok J (pre_credential p) \<and>
    (''X-Amz-Date'', fmt_iso8601 (pre_amz_date p)) \<in> set qs \<and>
    (''X-Amz-SignedHeaders'', intersperse_join '';'' (pre_signed_headers p)) \<in> set qs"
proof -
  from assms(2) obtain alg cs dt ex sh sig cred amz x where
    u: "get_unique qs ''X-Amz-Algorithm'' = Some alg" "get_unique qs ''X-Amz-Credential'' = Some cs"
      "get_unique qs ''X-Amz-Date'' = Some dt" "get_unique qs ''X-Amz-Expires'' = Some ex"
      "get_unique qs ''X-Amz-SignedHeaders'' = Some sh" "get_unique qs ''X-Amz-Signature'' = Some sig"
    and c: "CredentialV4_parse N J cs = Some cred" and d: "AmzDate_parse dt = Some amz"
    and e: "parse_expires ex max_secs = Some x" and sig: "is_sha256_checksum sig"
    and p: "p = \<lparr>pre_algorithm = alg, pre_credential = cred, pre_amz_date = amz, pre_expires = x,
      pre_signed_headers = split_on CHR '';'' sh, pre_signature = sig\<rparr>"
    by (auto simp: PresignedUrlV4_parse_def bind_eq_Some_conv split: if_splits)
  have cred: "credential_ok J cred \<and> cs = print_credential cred"
    using c nom_contract.parse_credential_Some [OF assms(1), of J cs]
    by (auto simp: CredentialV4_parse_def split: option.splits if_splits)
  have "dt = fmt_iso8601 amz" using d by (simp add: AmzDate_parse_Some)
  moreover have "x \<le> max_secs" using e by (auto simp: parse_expires_def split: option.splits if_splits)
  ultimately show ?thesis using u [THEN get_unique_once] cred sig p by (simp add: join_split_on)
qed

theorem presigned_parse_sound_witness:
  "\<exists>p. PresignedUrlV4_parse nom_ref (\<lambda>_ _ _. True)
     [(''X-Amz-Algorithm'', ''AWS4-HMAC-SHA256''), (''X-Amz-Credential'', ''AK/20130524/us-east-1/s3/aws4_request''),
      (''X-Amz-Date'', ''20130524T000000Z''), (''X-Amz-Expires'', ''86400''), (''X-Amz-SignedHeaders'', ''host''),
      (''X-Amz-Signature'', EMPTY_STRING_SHA256_HASH)] 604800 = Some p \<and> pre_expires p \<le> 604800"
proof -
  let ?qs = "[(''X-Amz-Algorithm'', ''AWS4-HMAC-SHA256''), (''X-Amz-Credential'', ''AK/20130524/us-east-1/s3/aws4_request''),
      (''X-Amz-Date'', ''20130524T000000Z''), (''X-Amz-Expires'', ''86400''), (''X-Amz-SignedHeaders'', ''host''),
      (''X-Amz-Signature'', EMPTY_STRING_SHA256_HASH)]"
  have "is_sha256_checksum EMPTY_STRING_SHA256_HASH" by code_simp
  moreover have "CredentialV4_parse nom_ref (\<lambda>_ _ _. True) ''AK/20130524/us-east-1/s3/aws4_request'' \<noteq> None"
    by (simp add: CredentialV4_parse_def parse_credential_def until_slash0_def until_slash1_def nom_ref_def
        verify_date_def digit4_def digit2_def digit_def byte_in_def)
  moreover have "AmzDate_parse ''20130524T000000Z'' \<noteq> None" by code_simp
  moreover have "parse_expires ''86400'' 604800 = Some 86400" by (simp add: parse_expires_def parse_u32_def byte_in_def)
  moreover have "list_all (byte_in 0 127) ''host''" by (simp add: byte_in_def)
  ultimately have "\<exists>p. PresignedUrlV4_parse nom_ref (\<lambda>_ _ _. True) ?qs 604800 = Some p"
    by (auto simp: PresignedUrlV4_parse_def get_unique_def)
  then show ?thesis using presigned_parse_sound [OF nom_reference.nom_contract_axioms] by blast
qed

lemma post_get_Inr: "post_get table name = Inr v \<longleftrightarrow> filter (\<lambda>(k, _). k = name) table = [(name, v)]"
proof -
  have key: "p \<in> set (filter (\<lambda>(k, _). k = name) table) \<Longrightarrow> fst p = name" for p by auto
  show ?thesis
  proof (cases "filter (\<lambda>(k, _). k = name) table")
    case (Cons p ps)
    then show ?thesis using key [of p] by (cases ps; cases p) (auto simp: post_get_def)
  qed (simp add: post_get_def)
qed

text \<open>
  The signature fields of a form upload are extracted exactly when each of the five occurs once, and
  then they are its values; so the value that is verified is the only one the form has.
\<close>

theorem post_signature_unique:
  "PostSignatureV4_extract table = Inr p \<longleftrightarrow>
     filter (\<lambda>(k, _). k = ''policy'') table = [(''policy'', post_policy p)] \<and>
     filter (\<lambda>(k, _). k = ''x-amz-algorithm'') table = [(''x-amz-algorithm'', post_x_amz_algorithm p)] \<and>
     filter (\<lambda>(k, _). k = ''x-amz-credential'') table = [(''x-amz-credential'', post_x_amz_credential p)] \<and>
     filter (\<lambda>(k, _). k = ''x-amz-date'') table = [(''x-amz-date'', post_x_amz_date p)] \<and>
     filter (\<lambda>(k, _). k = ''x-amz-signature'') table = [(''x-amz-signature'', post_x_amz_signature p)]"
  unfolding post_get_Inr [symmetric]
  by (cases p) (auto simp: PostSignatureV4_extract_def split: sum.splits)

end
