(* ===== verification/S3_Error.thy ===== *)
theory S3_Error
  imports Prelude
begin

text \<open>
  The error codes of the S3 protocol that the modelled components report (\<^verbatim>\<open>S3ErrorCode\<close> in
  s3s/src/error/generated.rs). The message of an error is not part of the model.
\<close>

datatype s3_error_code =
    AccessDenied
  | AuthorizationHeaderMalformed
  | AuthorizationQueryParametersError
  | BadDigest
  | EntityTooLarge
  | EntityTooSmall
  | IncompleteBody
  | InternalError
  | InvalidAccessKeyId
  | InvalidArgument
  | InvalidBucketName
  | InvalidPolicyDocument
  | InvalidRange
  | InvalidRequest
  | InvalidURI
  | KeyTooLongError
  | MalformedPOSTRequest
  | MalformedXML
  | MaxMessageLengthExceeded
  | MethodNotAllowed
  | MissingContentLength
  | MissingRequestBodyError
  | MissingSecurityHeader
  | NotImplemented
  | NotSignedUp
  | RequestTimeTooSkewed
  | SignatureDoesNotMatch

text \<open>Results, the early return of \<^verbatim>\<open>?\<close>, a refused condition and a missing value.\<close>

type_synonym 'a s3_result = "s3_error_code + 'a"

definition and_then :: "'a s3_result \<Rightarrow> ('a \<Rightarrow> 'b s3_result) \<Rightarrow> 'b s3_result" where
  "and_then r k = (case r of Inl e \<Rightarrow> Inl e | Inr a \<Rightarrow> k a)"

definition refuse_if :: "bool \<Rightarrow> s3_error_code \<Rightarrow> unit s3_result" where
  "refuse_if c e = (if c then Inl e else Inr ())"

definition ok_or :: "'a option \<Rightarrow> s3_error_code \<Rightarrow> 'a s3_result" where
  "ok_or x e = (case x of None \<Rightarrow> Inl e | Some a \<Rightarrow> Inr a)"

named_theorems s3_results

lemma and_then_Inr [s3_results]: "and_then r k = Inr b \<longleftrightarrow> (\<exists>a. r = Inr a \<and> k a = Inr b)"
  by (auto simp: and_then_def split: sum.splits)

lemma and_then_simps [simp]: "and_then (Inl e) k = Inl e" "and_then (Inr a) k = k a"
  by (simp_all add: and_then_def)

lemma refuse_if_Inr [s3_results]: "refuse_if c e = Inr u \<longleftrightarrow> \<not> c"
  by (auto simp: refuse_if_def)

lemma refuse_if_simps [simp]: "refuse_if True e = Inl e" "refuse_if False e = Inr ()"
  by (simp_all add: refuse_if_def)

lemma ok_or_Inr [s3_results]: "ok_or x e = Inr a \<longleftrightarrow> x = Some a"
  by (auto simp: ok_or_def split: option.splits)

lemma ok_or_simps [simp]: "ok_or None e = Inl e" "ok_or (Some a) e = Inr a"
  by (simp_all add: ok_or_def)

end
