(* ===== verification/Aws_Chunked.thy ===== *)
theory Aws_Chunked
  imports Sigv4_Parsers S3_Error
begin

text \<open>
  The \<^verbatim>\<open>aws-chunked\<close> request body decoder (\<^verbatim>\<open>stream/aws_chunked_stream.rs\<close>) with the signature chain of
  streamed uploads. The request body is the list of the items its stream gives, awaited one by one; a
  reader returns its result with the rest of the body. The chunks handed to the consumer are a list.
  The external crates are the parameters \<open>M\<close> (\<^verbatim>\<open>memchr\<close>), \<open>N\<close> (\<^verbatim>\<open>nom\<close>), \<open>C\<close> (digests and hexadecimal)
  and \<open>W\<close> (the validity of header names and values in \<^verbatim>\<open>http\<close>).
\<close>

subsection \<open>Errors and limits\<close>

datatype ac_error =
    Underlying std_error
  | SignatureMismatch
  | FormatError
  | Incomplete
  | LengthMismatch
  | ChunkMetaTooLarge nat nat
  | ChunkDataTooLarge nat nat
  | TrailersTooLarge nat nat
  | TooManyTrailerHeaders nat nat
and std_error = TransportError bytes | BoxedError ac_error

fun to_s3_error_code :: "ac_error \<Rightarrow> s3_error_code" where
  "to_s3_error_code (Underlying _) = InternalError"
| "to_s3_error_code SignatureMismatch = SignatureDoesNotMatch"
| "to_s3_error_code FormatError = IncompleteBody"
| "to_s3_error_code Incomplete = IncompleteBody"
| "to_s3_error_code LengthMismatch = IncompleteBody"
| "to_s3_error_code (TrailersTooLarge _ _) = IncompleteBody"
| "to_s3_error_code (TooManyTrailerHeaders _ _) = IncompleteBody"
| "to_s3_error_code (ChunkMetaTooLarge _ _) = EntityTooLarge"
| "to_s3_error_code (ChunkDataTooLarge _ _) = EntityTooLarge"

definition MAX_CHUNK_META_SIZE :: nat where
  "MAX_CHUNK_META_SIZE = 1024"

definition MAX_TRAILERS_SIZE :: nat where
  "MAX_TRAILERS_SIZE = 16 * 1024"

definition MAX_TRAILER_HEADERS :: nat where
  "MAX_TRAILER_HEADERS = 100"

type_synonym body = "(std_error + bytes) list"

record signature_ctx =
  ctx_amz_date :: amz_date
  ctx_region :: bytes
  ctx_service :: bytes
  ctx_signing_key :: bytes
  ctx_prev_signature :: bytes

record chunk_meta =
  chunk_size :: nat
  chunk_signature :: "bytes option"

record http_api =
  header_name_parse :: "bytes \<Rightarrow> bytes option"
  header_value_from_str :: "bytes \<Rightarrow> bytes option"

subsection \<open>Chunk metadata\<close>

text \<open>\<^verbatim>\<open>Sha256Sum::from_hex\<close> of \<^verbatim>\<open>utils/crypto.rs\<close>; a sum is its 32 bytes.\<close>

definition Sha256Sum_from_hex :: "crypto_api \<Rightarrow> bytes \<Rightarrow> bytes option" where
  "Sha256Sum_from_hex C val =
     (if \<not> is_sha256_checksum val then None
      else (case hex_decode C val of
              None \<Rightarrow> None
            | Some decoded \<Rightarrow> (if length decoded = 32 then Some decoded else None)))"

definition parse_signature_extension :: "nom_api \<Rightarrow> bytes \<Rightarrow> (bytes \<times> bytes) option" where
  "parse_signature_extension N i = do {
     (i, _) \<leftarrow> tag N '';chunk-signature='' i;
     (i, sig) \<leftarrow> take_bytes N 64 i;
     (i, _) \<leftarrow> tag N CRLF i;
     if i = [] then Some (i, sig) else None }"

definition parse_chunk_meta :: "nom_api \<Rightarrow> bytes \<Rightarrow> (bytes \<times> chunk_meta) option" where
  "parse_chunk_meta N input = do {
     (s, size_text) \<leftarrow> take_till1 N (\<lambda>c. c = CHR '';'' \<or> c = CR) input;
     (_, size) \<leftarrow> hex_u32 N size_text;
     (case parse_signature_extension N s of
        Some (s, sig) \<Rightarrow> Some (s, \<lparr>chunk_size = size, chunk_signature = Some sig\<rparr>)
      | None \<Rightarrow> do {
          (s, _) \<leftarrow> tag N CRLF s;
          if s = [] then Some (s, \<lparr>chunk_size = size, chunk_signature = None\<rparr>) else None }) }"

definition check_signature :: "crypto_api \<Rightarrow> signature_ctx \<Rightarrow> bytes \<Rightarrow> bytes list \<Rightarrow> bytes option" where
  "check_signature C ctx expected_signature chunk_data =
     (if \<not> is_utf8 expected_signature then None
      else (case Sha256Sum_from_hex C expected_signature of
              None \<Rightarrow> None
            | Some expected \<Rightarrow>
                (let string_to_sign = hex_bytes32 C (ctx_prev_signature ctx) (\<lambda>prev_signature.
                       create_chunk_string_to_sign C (ctx_amz_date ctx) (ctx_region ctx) (ctx_service ctx)
                         prev_signature chunk_data);
                     sig = calculate_signature_with_key C string_to_sign (ctx_signing_key ctx)
                 in if expected = sig then Some sig else None)))"

subsection \<open>Readers\<close>

text \<open>The closure of \<^verbatim>\<open>read_meta_bytes\<close>: the grown buffer, and the bytes after the line feed if there is one.\<close>

definition push_meta_bytes :: "memchr_api \<Rightarrow> bytes \<Rightarrow> bytes \<Rightarrow> std_error + (bytes \<times> bytes option)" where
  "push_meta_bytes M buf bs =
     (case memchr M LF bs of
        Some idx \<Rightarrow>
          (let leading = take (idx + 1) bs
           in if length buf + length leading > MAX_CHUNK_META_SIZE
              then Inl (BoxedError (ChunkMetaTooLarge (length buf + length leading) MAX_CHUNK_META_SIZE))
              else Inr (buf @ leading, Some (drop (idx + 1) bs)))
      | None \<Rightarrow>
          (if length buf + length bs > MAX_CHUNK_META_SIZE
           then Inl (BoxedError (ChunkMetaTooLarge (length buf + length bs) MAX_CHUNK_META_SIZE))
           else Inr (buf @ bs, None)))"

fun read_meta_loop :: "memchr_api \<Rightarrow> bytes \<Rightarrow> body \<Rightarrow> (std_error + bytes) option \<times> bytes \<times> body" where
  "read_meta_loop M buf [] = (None, buf, [])"
| "read_meta_loop M buf (Inl e # body) = (Some (Inl e), buf, body)"
| "read_meta_loop M buf (Inr bs # body) =
     (case push_meta_bytes M buf bs of
        Inl e \<Rightarrow> (Some (Inl e), buf, body)
      | Inr (buf', Some remaining_bytes) \<Rightarrow> (Some (Inr remaining_bytes), buf', body)
      | Inr (buf', None) \<Rightarrow> read_meta_loop M buf' body)"

definition read_meta_bytes :: "memchr_api \<Rightarrow> body \<Rightarrow> bytes \<Rightarrow> (std_error + bytes) option \<times> bytes \<times> body" where
  "read_meta_bytes M body prev_bytes =
     (case push_meta_bytes M [] prev_bytes of
        Inl e \<Rightarrow> (Some (Inl e), [], body)
      | Inr (buf', Some remaining_bytes) \<Rightarrow> (Some (Inr remaining_bytes), buf', body)
      | Inr (buf', None) \<Rightarrow> read_meta_loop M buf' body)"

text \<open>The byte loop of \<^verbatim>\<open>consume_trailing_crlf\<close> for one expected byte.\<close>

fun expect_byte :: "byte \<Rightarrow> bytes \<Rightarrow> body \<Rightarrow> (ac_error + bytes) option \<times> body" where
  "expect_byte expected (x # rest) body =
     (if x = expected then (Some (Inr rest), body) else (Some (Inl FormatError), body))"
| "expect_byte expected [] [] = (None, [])"
| "expect_byte expected [] (Inl e # body) = (Some (Inl (Underlying e)), body)"
| "expect_byte expected [] (Inr bs # body) = expect_byte expected bs body"

definition consume_trailing_crlf :: "body \<Rightarrow> bytes \<Rightarrow> (ac_error + bytes) option \<times> body" where
  "consume_trailing_crlf body remaining_bytes =
     (if prefix CRLF remaining_bytes then (Some (Inr (drop 2 remaining_bytes)), body)
      else (case expect_byte CR remaining_bytes body of
              (Some (Inr rest), body') \<Rightarrow> expect_byte LF rest body'
            | other \<Rightarrow> other))"

text \<open>The closure of \<^verbatim>\<open>read_data\<close>: the size still to read, the fragments, and the remaining bytes when done.\<close>

definition push_data_bytes :: "nat \<Rightarrow> bytes list \<Rightarrow> bytes \<Rightarrow> nat \<times> bytes list \<times> bytes option" where
  "push_data_bytes data_size bytes_buffer bs =
     (if data_size = 0 then (data_size, bytes_buffer, Some bs)
      else if data_size \<le> length bs then (0, bytes_buffer @ [take data_size bs], Some (drop data_size bs))
      else (data_size - length bs, bytes_buffer @ [bs], None))"

fun read_data_loop :: "nat \<Rightarrow> bytes list \<Rightarrow> body \<Rightarrow> (ac_error + (bytes list \<times> bytes)) option \<times> body" where
  "read_data_loop data_size bytes_buffer [] = (None, [])"
| "read_data_loop data_size bytes_buffer (Inl e # body) = (Some (Inl (Underlying e)), body)"
| "read_data_loop data_size bytes_buffer (Inr bs # body) =
     (case push_data_bytes data_size bytes_buffer bs of
        (_, bytes_buffer', Some remaining_bytes) \<Rightarrow> (Some (Inr (bytes_buffer', remaining_bytes)), body)
      | (data_size', bytes_buffer', None) \<Rightarrow> read_data_loop data_size' bytes_buffer' body)"

definition read_data :: "body \<Rightarrow> bytes \<Rightarrow> nat \<Rightarrow> (ac_error + (bytes list \<times> bytes)) option \<times> body" where
  "read_data body prev_bytes data_size =
     (if data_size = 0 then (Some (Inr ([], prev_bytes)), body)
      else
        (case (case push_data_bytes data_size [] prev_bytes of
                 (_, bytes_buffer, Some remaining_bytes) \<Rightarrow> (Some (Inr (bytes_buffer, remaining_bytes)), body)
               | (data_size', bytes_buffer, None) \<Rightarrow> read_data_loop data_size' bytes_buffer body) of
           (Some (Inr (bytes_buffer, remaining_bytes)), body') \<Rightarrow>
             (case consume_trailing_crlf body' remaining_bytes of
                (Some (Inr rest), body'') \<Rightarrow> (Some (Inr (bytes_buffer, rest)), body'')
              | (Some (Inl e), body'') \<Rightarrow> (Some (Inl e), body'')
              | (None, body'') \<Rightarrow> (None, body''))
         | (Some (Inl e), body') \<Rightarrow> (Some (Inl e), body')
         | (None, body') \<Rightarrow> (None, body')))"

text \<open>\<^verbatim>\<open>read_data_streaming\<close>, with the fragments it yields in front of its result.\<close>

function read_streaming_loop ::
  "nat \<Rightarrow> bytes \<Rightarrow> body \<Rightarrow> bytes list \<times> (ac_error + bytes) option \<times> body" where
  "read_streaming_loop data_size remaining_bytes body =
     (if data_size = 0 then ([], Some (Inr remaining_bytes), body)
      else if remaining_bytes = [] then
        (case body of
           [] \<Rightarrow> ([], None, [])
         | Inl e # body' \<Rightarrow> ([], Some (Inl (Underlying e)), body')
         | Inr bs # body' \<Rightarrow> read_streaming_loop data_size bs body')
      else if data_size \<le> length remaining_bytes then
        (case read_streaming_loop 0 (drop data_size remaining_bytes) body of
           (ys, r) \<Rightarrow> (take data_size remaining_bytes # ys, r))
      else
        (case read_streaming_loop (data_size - length remaining_bytes) [] body of
           (ys, r) \<Rightarrow> (remaining_bytes # ys, r)))"
  by pat_completeness auto
termination
  by (relation "measures [\<lambda>(n, r, b). n, \<lambda>(n, r, b). length b]") auto

declare read_streaming_loop.simps [simp del]

definition read_data_streaming :: "body \<Rightarrow> bytes \<Rightarrow> nat \<Rightarrow> bytes list \<times> (ac_error + bytes) option \<times> body" where
  "read_data_streaming body prev_bytes data_size =
     (if data_size = 0 then ([], Some (Inr prev_bytes), body)
      else
        (case read_streaming_loop data_size prev_bytes body of
           (ys, Some (Inr remaining_bytes), body') \<Rightarrow>
             (case consume_trailing_crlf body' remaining_bytes of (r, body'') \<Rightarrow> (ys, r, body''))
         | other \<Rightarrow> other))"

subsection \<open>Trailers\<close>

definition trim_ascii_whitespace :: "bytes \<Rightarrow> bytes" where
  "trim_ascii_whitespace s =
     (let s = dropWhile (\<lambda>c. c = SP \<or> c = HTAB) s
      in rev (dropWhile (\<lambda>c. c = SP \<or> c = HTAB) (rev s)))"

text \<open>
  The line loop of \<^verbatim>\<open>parse_trailing_headers\<close>, over the texts between line feeds: the entries, the trailer
  signature, and the number of headers so far.
\<close>

definition strip_cr :: "bytes \<Rightarrow> bytes" where
  "strip_cr line = (if line \<noteq> [] \<and> last line = CR then butlast line else line)"

fun trailer_lines ::
  "memchr_api \<Rightarrow> bytes list \<Rightarrow> (bytes \<times> bytes) list \<Rightarrow> bytes option \<Rightarrow> nat \<Rightarrow>
     ac_error + ((bytes \<times> bytes) list \<times> bytes option)" where
  "trailer_lines M [] entries provided header_count = Inr (entries, provided)"
| "trailer_lines M (raw # raws) entries provided header_count =
     (let line = strip_cr raw
      in if line = [] then trailer_lines M raws entries provided header_count
         else if header_count + 1 > MAX_TRAILER_HEADERS
         then Inl (TooManyTrailerHeaders (header_count + 1) MAX_TRAILER_HEADERS)
         else (case memchr M (CHR '':'') line of
             None \<Rightarrow> Inl FormatError
           | Some colon_pos \<Rightarrow>
               (let name = map to_ascii_lowercase (take colon_pos line);
                    val = trim_ascii_whitespace (drop 1 (drop colon_pos line))
                in if \<not> is_utf8 name then Inl FormatError
                   else if \<not> is_utf8 val then Inl FormatError
                   else if name = ''x-amz-trailer-signature''
                   then trailer_lines M raws entries (Some val) (header_count + 1)
                   else trailer_lines M raws (entries @ [(name, val)]) provided (header_count + 1))))"

fun push_canonical_trailers :: "(bytes \<times> bytes) list \<Rightarrow> bytes \<Rightarrow> ac_error + bytes" where
  "push_canonical_trailers [] canonical = Inr canonical"
| "push_canonical_trailers ((n, v) # entries) canonical =
     (let entry_size = length n + length v + 2
      in if length canonical + entry_size > MAX_TRAILERS_SIZE
         then Inl (TrailersTooLarge (length canonical + entry_size) MAX_TRAILERS_SIZE)
         else push_canonical_trailers entries (canonical @ n @ '':'' @ v @ [LF]))"

definition parse_trailing_headers ::
  "memchr_api \<Rightarrow> bytes \<Rightarrow> ac_error + (bytes \<times> bytes option \<times> (bytes \<times> bytes) list)" where
  "parse_trailing_headers M buf =
     (case trailer_lines M (split_on LF buf) [] None 0 of
        Inl e \<Rightarrow> Inl e
      | Inr (entries, provided) \<Rightarrow>
          (let entries = sort_key fst entries
           in case push_canonical_trailers entries [] of
                Inl e \<Rightarrow> Inl e
              | Inr canonical \<Rightarrow> Inr (canonical, provided, entries)))"

fun read_to_end :: "bytes \<Rightarrow> body \<Rightarrow> ac_error + bytes" where
  "read_to_end buf [] = Inr buf"
| "read_to_end buf (Inl e # body) = Inl (Underlying e)"
| "read_to_end buf (Inr bs # body) =
     (if length buf + length bs > MAX_TRAILERS_SIZE
      then Inl (TrailersTooLarge (length buf + length bs) MAX_TRAILERS_SIZE)
      else read_to_end (buf @ bs) body)"

definition read_and_verify_trailers ::
  "memchr_api \<Rightarrow> crypto_api \<Rightarrow> body \<Rightarrow> bytes \<Rightarrow> signature_ctx \<Rightarrow> bool \<Rightarrow>
     (ac_error + ((bytes \<times> bytes) list \<times> bytes)) option" where
  "read_and_verify_trailers M C body prev_bytes ctx unsigned_mode =
     (if prev_bytes \<noteq> [] \<and> length prev_bytes > MAX_TRAILERS_SIZE
      then Some (Inl (TrailersTooLarge (length prev_bytes) MAX_TRAILERS_SIZE))
      else (case read_to_end prev_bytes body of
          Inl e \<Rightarrow> Some (Inl e)
        | Inr buf \<Rightarrow>
            (if buf = [] \<or> buf = CRLF then None
             else (case parse_trailing_headers M buf of
                 Inl e \<Rightarrow> Some (Inl e)
               | Inr (canonical_trailers, provided_signature, entries) \<Rightarrow>
                   (case provided_signature of
                      Some provided \<Rightarrow>
                        (case (if is_utf8 provided then Sha256Sum_from_hex C provided else None) of
                           None \<Rightarrow> Some (Inl SignatureMismatch)
                         | Some provided_sum \<Rightarrow>
                             (let string_to_sign = hex_bytes32 C (ctx_prev_signature ctx) (\<lambda>prev_signature.
                                    create_trailer_string_to_sign C (ctx_amz_date ctx) (ctx_region ctx) (ctx_service ctx)
                                      prev_signature canonical_trailers);
                                  sig = calculate_signature_with_key C string_to_sign (ctx_signing_key ctx)
                              in if provided_sum \<noteq> sig then Some (Inl SignatureMismatch) else Some (Inr (entries, []))))
                    | None \<Rightarrow>
                        (if \<not> unsigned_mode then Some (Inl FormatError) else Some (Inr (entries, []))))))))"

fun build_header_map :: "http_api \<Rightarrow> (bytes \<times> bytes) list \<Rightarrow> (bytes \<times> bytes) list \<Rightarrow> (bytes \<times> bytes) list option" where
  "build_header_map W [] acc = Some acc"
| "build_header_map W ((name, val) # entries) acc =
     (case header_name_parse W name of
        None \<Rightarrow> None
      | Some hn \<Rightarrow>
          (case header_value_from_str W val of
             None \<Rightarrow> None
           | Some hv \<Rightarrow> build_header_map W entries (acc @ [(hn, hv)])))"

subsection \<open>The worker\<close>

text \<open>
  The part of a round that reads the data of one chunk: with a signature the data is collected and
  verified before it is yielded, without one it is yielded as it arrives.
\<close>

definition read_chunk ::
  "crypto_api \<Rightarrow> signature_ctx \<Rightarrow> chunk_meta \<Rightarrow> body \<Rightarrow> bytes \<Rightarrow>
     bytes list \<times> (ac_error + (signature_ctx \<times> bytes)) \<times> body" where
  "read_chunk C ctx meta body prev_bytes =
     (case chunk_signature meta of
        Some expected_sig \<Rightarrow>
          (case read_data body prev_bytes (chunk_size meta) of
             (None, body) \<Rightarrow> ([], Inl Incomplete, body)
           | (Some (Inl e), body) \<Rightarrow> ([], Inl e, body)
           | (Some (Inr (data, remaining_bytes)), body) \<Rightarrow>
               (case check_signature C ctx expected_sig data of
                  None \<Rightarrow> ([], Inl SignatureMismatch, body)
                | Some sig \<Rightarrow> (data, Inr (ctx\<lparr>ctx_prev_signature := sig\<rparr>, remaining_bytes), body)))
      | None \<Rightarrow>
          (case read_data_streaming body prev_bytes (chunk_size meta) of
             (ys, None, body) \<Rightarrow> (ys, Inl Incomplete, body)
           | (ys, Some (Inl e), body) \<Rightarrow> (ys, Inl e, body)
           | (ys, Some (Inr remaining_bytes), body) \<Rightarrow> (ys, Inr (ctx, remaining_bytes), body)))"

text \<open>
  The async block of \<^verbatim>\<open>AwsChunkedStream::new\<close>: the chunks it yields, and how it ends: with an error, or
  with the verified trailers if there were any. One round of the loop reads one chunk; the fuel bounds
  the number of rounds, and \<open>None\<close> stands for a loop that has not ended (see \<open>worker_total\<close>).
\<close>

fun worker ::
  "nat \<Rightarrow> memchr_api \<Rightarrow> nom_api \<Rightarrow> crypto_api \<Rightarrow> http_api \<Rightarrow> signature_ctx \<Rightarrow> bool \<Rightarrow> nat \<Rightarrow> body \<Rightarrow> bytes \<Rightarrow>
     (bytes list \<times> (ac_error + (bytes \<times> bytes) list option)) option" where
  "worker 0 M N C W ctx unsigned_mode max_chunk_size body prev_bytes = None"
| "worker (Suc fuel) M N C W ctx unsigned_mode max_chunk_size body prev_bytes =
     (case read_meta_bytes M body prev_bytes of
        (None, _, _) \<Rightarrow> Some ([], Inr None)
      | (Some (Inl e), _, _) \<Rightarrow> Some ([], Inl (Underlying e))
      | (Some (Inr prev_bytes), buf, body) \<Rightarrow>
          (case parse_chunk_meta N buf of
             None \<Rightarrow> Some ([], Inl FormatError)
           | Some (_, meta) \<Rightarrow>
               (if \<not> unsigned_mode \<and> chunk_signature meta = None then Some ([], Inl FormatError)
                else if chunk_signature meta \<noteq> None \<and> chunk_size meta > max_chunk_size
                then Some ([], Inl (ChunkDataTooLarge (chunk_size meta) max_chunk_size))
                else
                  (case read_chunk C ctx meta body prev_bytes of
                     (ys, Inl e, body) \<Rightarrow> Some (ys, Inl e)
                   | (ys, Inr (ctx, remaining_after_data), body) \<Rightarrow>
                       (if chunk_size meta = 0 then
                          (case read_and_verify_trailers M C body remaining_after_data ctx unsigned_mode of
                             None \<Rightarrow> Some (ys, Inr None)
                           | Some (Inl e) \<Rightarrow> Some (ys, Inl e)
                           | Some (Inr (entries, _)) \<Rightarrow>
                               (case build_header_map W entries [] of
                                  None \<Rightarrow> Some (ys, Inl FormatError)
                                | Some hm \<Rightarrow> Some (ys, Inr (Some hm))))
                        else
                          (case worker fuel M N C W ctx unsigned_mode max_chunk_size body remaining_after_data of
                             None \<Rightarrow> None
                           | Some (ys', r) \<Rightarrow> Some (ys @ ys', r)))))))"

text \<open>The bytes of a body before it ends or fails, and the failure.\<close>

fun body_flow :: "body \<Rightarrow> bytes \<times> std_error option" where
  "body_flow [] = ([], None)"
| "body_flow (Inl e # body) = ([], Some e)"
| "body_flow (Inr bs # body) = (bs @ fst (body_flow body), snd (body_flow body))"

subsection \<open>The stream handed to the service\<close>

text \<open>
  \<^verbatim>\<open>AwsChunkedStream\<close>: the items of the worker (its chunks, then its error if it failed) and the part of
  the declared length that is still to come.
\<close>

record aws_chunked_stream =
  inner :: "(ac_error + bytes) list"
  remaining_length :: nat
  trailers :: "(bytes \<times> bytes) list option"

definition AwsChunkedStream_new ::
  "memchr_api \<Rightarrow> nom_api \<Rightarrow> crypto_api \<Rightarrow> http_api \<Rightarrow> body \<Rightarrow> bytes \<Rightarrow> amz_date \<Rightarrow> bytes \<Rightarrow> bytes \<Rightarrow> bytes \<Rightarrow>
     nat \<Rightarrow> bool \<Rightarrow> nat \<Rightarrow> aws_chunked_stream option" where
  "AwsChunkedStream_new M N C W body seed_signature amz_date region service secret_key
     decoded_content_length unsigned_mode max_chunk_size =
     (let ctx = \<lparr>ctx_amz_date = amz_date, ctx_region = region, ctx_service = service,
                 ctx_signing_key = derive_signing_key C secret_key amz_date region service,
                 ctx_prev_signature = seed_signature\<rparr>
      in case worker (length (fst (body_flow body)) + 2) M N C W ctx unsigned_mode max_chunk_size body [] of
           None \<Rightarrow> None
         | Some (ys, r) \<Rightarrow>
             Some \<lparr>inner = map Inr ys @ (case r of Inl e \<Rightarrow> [Inl e] | Inr _ \<Rightarrow> []),
                   remaining_length = decoded_content_length,
                   trailers = (case r of Inl e \<Rightarrow> None | Inr t \<Rightarrow> t)\<rparr>)"

definition AwsChunkedStream_poll :: "aws_chunked_stream \<Rightarrow> (ac_error + bytes) option \<times> aws_chunked_stream" where
  "AwsChunkedStream_poll st =
     (case inner st of
        Inr bs # rest \<Rightarrow>
          (if bs \<noteq> [] \<and> length bs > remaining_length st
           then (Some (Inl LengthMismatch), st\<lparr>inner := rest\<rparr>)
           else (Some (Inr bs), st\<lparr>inner := rest, remaining_length := remaining_length st - length bs\<rparr>))
      | Inl e # rest \<Rightarrow> (Some (Inl e), st\<lparr>inner := rest\<rparr>)
      | [] \<Rightarrow> (if remaining_length st \<noteq> 0 then (Some (Inl Incomplete), st) else (None, st)))"

definition exact_remaining_length :: "aws_chunked_stream \<Rightarrow> nat" where
  "exact_remaining_length st = remaining_length st"

end
