(* ===== verification/Aws_Chunked_Correct.thy ===== *)
theory Aws_Chunked_Correct
  imports Aws_Chunked
begin

text \<open>
  The chunked decoder against the whole body. \<open>flow\<close> is what the decoder has still to read, the bytes
  up to the end or failure of the body; the readers are specified on it, and the worker implements
  \<open>decode\<close>, a decoder of the whole text that knows nothing of fragments.
\<close>

subsection \<open>Readers and the flow of bytes\<close>

definition flow :: "bytes \<Rightarrow> body \<Rightarrow> bytes \<times> std_error option" where
  "flow prev body = (prev @ fst (body_flow body), snd (body_flow body))"

lemma flow_simps [simp]:
  "flow prev [] = (prev, None)"
  "flow prev (Inl e # body) = (prev, Some e)"
  "flow prev (Inr bs # body) = flow (prev @ bs) body"
  by (simp_all add: flow_def)

lemma flow_append: "flow (a @ b) body = (a @ fst (flow b body), snd (flow b body))"
  by (simp add: flow_def)

definition meta_too_large :: "bytes \<Rightarrow> bool" where
  "meta_too_large w \<longleftrightarrow> length w > MAX_CHUNK_META_SIZE \<and> LF \<notin> set (take MAX_CHUNK_META_SIZE w)"

fun meta_post :: "(std_error + bytes) option \<Rightarrow> bytes \<Rightarrow> body \<Rightarrow> bytes \<times> std_error option \<Rightarrow> bool" where
  "meta_post None buf body (w, e) \<longleftrightarrow> LF \<notin> set w \<and> \<not> meta_too_large w \<and> e = None"
| "meta_post (Some (Inl x)) buf body (w, e) \<longleftrightarrow>
     (meta_too_large w \<and> (\<exists>n. x = BoxedError (ChunkMetaTooLarge n MAX_CHUNK_META_SIZE))) \<or>
     (\<not> meta_too_large w \<and> LF \<notin> set w \<and> e = Some x)"
| "meta_post (Some (Inr rest)) buf body (w, e) \<longleftrightarrow>
     \<not> meta_too_large w \<and> LF \<in> set w \<and> buf = takeWhile (\<lambda>c. c \<noteq> LF) w @ [LF] \<and>
     flow rest body = (drop (length buf) w, e)"

lemma push_meta_hit:
  assumes "LF \<notin> set buf" and "find_index (\<lambda>c. c = LF) bs = Some idx"
  shows "takeWhile (\<lambda>c. c \<noteq> LF) (buf @ bs @ t) @ [LF] = buf @ take (idx + 1) bs" and "LF \<in> set bs"
    and "meta_too_large (buf @ bs @ t) \<longleftrightarrow> length buf + length (take (idx + 1) bs) > MAX_CHUNK_META_SIZE"
proof -
  have idx: "idx < length bs" "bs ! idx = LF" "\<forall>j<idx. bs ! j \<noteq> LF"
    using assms(2) by (auto simp: find_index_Some)
  have bs: "bs = take idx bs @ LF # drop (idx + 1) bs"
    using idx id_take_nth_drop [of idx bs] by simp
  have free: "LF \<notin> set (take idx bs)" using idx by (auto simp: in_set_conv_nth)
  have tk: "take (idx + 1) bs = take idx bs @ [LF]" using idx by (simp add: take_Suc_conv_app_nth)
  have "takeWhile (\<lambda>c. c \<noteq> LF) ((buf @ take idx bs) @ LF # (drop (idx + 1) bs @ t)) = buf @ take idx bs"
    using assms(1) free by (subst takeWhile_append2) auto
  then show "takeWhile (\<lambda>c. c \<noteq> LF) (buf @ bs @ t) @ [LF] = buf @ take (idx + 1) bs"
    using bs tk by (metis append.assoc append_Cons)
  show "LF \<in> set bs" using idx nth_mem by metis
  have w: "buf @ bs @ t = (buf @ take idx bs) @ LF # (drop (idx + 1) bs @ t)" using bs by simp
  let ?a = "buf @ take idx bs" and ?M = MAX_CHUNK_META_SIZE
  have "LF \<notin> set (take ?M (a @ LF # x)) \<longleftrightarrow> ?M \<le> length a" if "LF \<notin> set a" for a x
    using that by (auto simp: take_Cons' dest: in_set_takeD)
  from this [of ?a] assms(1) free have "LF \<notin> set (take ?M (?a @ LF # x)) \<longleftrightarrow> ?M \<le> length ?a" for x by simp
  then show "meta_too_large (buf @ bs @ t) \<longleftrightarrow> length buf + length (take (idx + 1) bs) > ?M"
    unfolding meta_too_large_def w using idx by (auto simp: tk)
qed

lemma push_meta_miss:
  assumes "LF \<notin> set buf" and "find_index (\<lambda>c. c = LF) bs = None"
  shows "LF \<notin> set (buf @ bs)"
    and "length buf + length bs > MAX_CHUNK_META_SIZE \<Longrightarrow> meta_too_large (buf @ bs @ t)"
  using assms by (auto simp: find_index_None meta_too_large_def dest: in_set_takeD)

lemma meta_step:
  assumes "LF \<notin> set buf"
  shows "case push_meta_bytes memchr_ref buf bs of
      Inl x \<Rightarrow> meta_post (Some (Inl x)) b body (flow (buf @ bs) body)
    | Inr (buf', Some rest) \<Rightarrow> meta_post (Some (Inr rest)) buf' body (flow (buf @ bs) body)
    | Inr (buf', None) \<Rightarrow> buf' = buf @ bs \<and> LF \<notin> set buf' \<and> length buf' \<le> MAX_CHUNK_META_SIZE"
proof (cases "find_index (\<lambda>c. c = LF) bs")
  case None
  note miss = push_meta_miss [OF assms None]
  with None show ?thesis by (auto simp: push_meta_bytes_def flow_def)
next
  case (Some idx)
  note hit = push_meta_hit(1,3) [OF assms Some, of "fst (body_flow body)"] push_meta_hit(2) [OF assms Some]
  have "idx < length bs" using Some by (simp add: find_index_Some)
  with Some hit show ?thesis by (auto simp: push_meta_bytes_def flow_def Let_def)
qed

lemma read_meta_loop_post:
  "LF \<notin> set buf \<Longrightarrow> length buf \<le> MAX_CHUNK_META_SIZE \<Longrightarrow> read_meta_loop memchr_ref buf body = (r, buf', body') \<Longrightarrow>
     meta_post r buf' body' (flow buf body)"
proof (induction memchr_ref buf body arbitrary: r buf' body' rule: read_meta_loop.induct)
  case (3 buf bs body)
  show ?case
    using meta_step [OF 3(2), where bs = bs and b = buf and body = body] 3
    by (auto split: sum.splits prod.splits option.splits)
qed (auto simp: meta_too_large_def)

lemma read_meta_bytes_post:
  assumes "read_meta_bytes memchr_ref body prev = (r, buf', body')"
  shows "meta_post r buf' body' (flow prev body)"
  using meta_step [where buf = "[]" and bs = prev and b = "[]" and body = body] assms read_meta_loop_post [of prev body r buf' body']
  by (auto simp: read_meta_bytes_def split: sum.splits prod.splits option.splits)

text \<open>The error of a body that ends or fails in the middle of a chunk.\<close>

fun end_result :: "std_error option \<Rightarrow> ac_error" where
  "end_result None = Incomplete"
| "end_result (Some x) = Underlying x"

fun settle :: "(ac_error + 'a) option \<Rightarrow> ac_error + 'a" where
  "settle None = Inl Incomplete"
| "settle (Some r) = r"

definition eat_spec :: "byte \<Rightarrow> bytes \<times> std_error option \<Rightarrow> ac_error + bytes" where
  "eat_spec c f =
     (case f of
        ([], e) \<Rightarrow> Inl (end_result e)
      | (y # ys, e) \<Rightarrow> (if y = c then Inr ys else Inl FormatError))"

definition line_end_spec :: "bytes \<times> std_error option \<Rightarrow> ac_error + bytes" where
  "line_end_spec f = (case eat_spec CR f of Inl x \<Rightarrow> Inl x | Inr v \<Rightarrow> eat_spec LF (v, snd f))"

lemma expect_byte_post:
  "expect_byte c rem body = (r, body') \<Longrightarrow>
     (case eat_spec c (flow rem body) of
        Inl x \<Rightarrow> settle r = Inl x
      | Inr v \<Rightarrow> \<exists>rest. r = Some (Inr rest) \<and> flow rest body' = (v, snd (flow rem body)))"
proof (induction c rem body arbitrary: r body' rule: expect_byte.induct)
  case (1 c x rest body)
  then show ?case by (auto simp: eat_spec_def flow_def split: if_splits)
next
  case (4 c bs body)
  then show ?case by (simp split: sum.splits)
qed (auto simp: eat_spec_def)

lemma consume_trailing_crlf_post:
  assumes "consume_trailing_crlf body rem = (r, body')"
  shows "case line_end_spec (flow rem body) of
        Inl x \<Rightarrow> settle r = Inl x
      | Inr v \<Rightarrow> \<exists>rest. r = Some (Inr rest) \<and> flow rest body' = (v, snd (flow rem body))"
proof (cases "prefix CRLF rem")
  case True
  then obtain t where "rem = CRLF @ t" by (auto elim: prefixE)
  with assms show ?thesis by (simp add: consume_trailing_crlf_def line_end_spec_def eat_spec_def flow_def)
next
  case False
  obtain r1 b1 where c: "expect_byte CR rem body = (r1, b1)" by fastforce
  note post = expect_byte_post [OF c]
  show ?thesis
  proof (cases "eat_spec CR (flow rem body)")
    case (Inl x)
    with post have "settle r1 = Inl x" by simp
    with Inl False assms c show ?thesis
      by (cases r1) (auto simp: consume_trailing_crlf_def line_end_spec_def split: sum.splits)
  next
    case (Inr v)
    with post obtain rest where rest: "r1 = Some (Inr rest)" "flow rest b1 = (v, snd (flow rem body))" by auto
    with False assms c have "expect_byte LF rest b1 = (r, body')" by (simp add: consume_trailing_crlf_def)
    from expect_byte_post [OF this] Inr rest show ?thesis
      by (simp add: line_end_spec_def split: sum.splits)
  qed
qed

text \<open>Reading a chunk of a given size: its bytes, and what follows its line end.\<close>

definition data_spec :: "nat \<Rightarrow> bytes \<times> std_error option \<Rightarrow> ac_error + (bytes \<times> bytes)" where
  "data_spec n f =
     (if n = 0 then Inr ([], fst f)
      else if length (fst f) < n then Inl (end_result (snd f))
      else map_sum id (Pair (take n (fst f))) (line_end_spec (drop n (fst f), snd f)))"

lemma read_data_loop_post:
  "0 < n \<Longrightarrow> read_data_loop n buf body = (r, body') \<Longrightarrow>
     (if length (fst (flow [] body)) < n then settle r = Inl (end_result (snd (flow [] body)))
      else \<exists>ds rest. r = Some (Inr (buf @ ds, rest)) \<and> ds \<noteq> [] \<and> concat ds = take n (fst (flow [] body)) \<and>
        flow rest body' = (drop n (fst (flow [] body)), snd (flow [] body)))"
proof (induction n buf body arbitrary: r body' rule: read_data_loop.induct)
  case (3 n buf bs body)
  have fl: "flow bs body = (bs @ fst (flow [] body), snd (flow [] body))" by (simp add: flow_def)
  show ?case
  proof (cases "n \<le> length bs")
    case True
    with 3 show ?thesis
      by (auto simp: push_data_bytes_def fl intro!: exI [of _ "[take n bs]"] simp: flow_def)
  next
    case False
    then have rec: "read_data_loop (n - length bs) (buf @ [bs]) body = (r, body')"
      using 3(3) 3(2) by (simp add: push_data_bytes_def)
    have IH: "if length (fst (flow [] body)) < n - length bs then settle r = Inl (end_result (snd (flow [] body)))
        else \<exists>ds rest. r = Some (Inr ((buf @ [bs]) @ ds, rest)) \<and> ds \<noteq> [] \<and>
          concat ds = take (n - length bs) (fst (flow [] body)) \<and>
          flow rest body' = (drop (n - length bs) (fst (flow [] body)), snd (flow [] body))"
      by (rule 3(1) [OF _ _ _ _ rec]) (use False 3(2) in \<open>auto simp: push_data_bytes_def\<close>)
    show ?thesis
    proof (cases "length (fst (flow [] body)) < n - length bs")
      case True
      with IH fl show ?thesis by simp
    next
      case short: False
      with IH obtain ds rest where "r = Some (Inr (buf @ (bs # ds), rest))"
        "concat ds = take (n - length bs) (fst (flow [] body))"
        "flow rest body' = (drop (n - length bs) (fst (flow [] body)), snd (flow [] body))" by auto
      moreover from short False have "\<not> length (fst (flow bs body)) < n" by (simp add: fl)
      ultimately show ?thesis using False fl by (auto intro!: exI [of _ "bs # ds"] exI [of _ rest])
    qed
  qed
qed auto

lemma read_data_post:
  assumes "read_data body prev n = (r, body')"
  shows "case data_spec n (flow prev body) of
      Inl x \<Rightarrow> settle r = Inl x
    | Inr (d, v) \<Rightarrow> \<exists>ds rest. r = Some (Inr (ds, rest)) \<and> (ds = [] \<longleftrightarrow> n = 0) \<and> concat ds = d \<and>
        flow rest body' = (v, snd (flow prev body))"
proof (cases "n = 0")
  case True
  with assms show ?thesis by (auto simp: read_data_def data_spec_def flow_def)
next
  case False
  let ?f = "flow prev body"
  have fl: "?f = (prev @ fst (flow [] body), snd (flow [] body))" by (simp add: flow_def)
  obtain q b1 where q: "(case push_data_bytes n [] prev of
        (_, bytes_buffer, Some remaining_bytes) \<Rightarrow> (Some (Inr (bytes_buffer, remaining_bytes)), body)
      | (data_size', bytes_buffer, None) \<Rightarrow> read_data_loop data_size' bytes_buffer body) = (q, b1)" by fastforce
  have collected: "if length (fst ?f) < n then settle q = Inl (end_result (snd ?f))
      else \<exists>ds rest. q = Some (Inr (ds, rest)) \<and> ds \<noteq> [] \<and> concat ds = take n (fst ?f) \<and>
        flow rest b1 = (drop n (fst ?f), snd ?f)"
  proof (cases "n \<le> length prev")
    case True
    with q False show ?thesis by (auto simp: push_data_bytes_def fl simp: flow_def)
  next
    case more: False
    with q False have "read_data_loop (n - length prev) [prev] body = (q, b1)" by (simp add: push_data_bytes_def)
    from read_data_loop_post [OF _ this] more show ?thesis
      by (auto simp: fl less_diff_conv add.commute split: if_splits)
  qed
  show ?thesis
  proof (cases "length (fst ?f) < n")
    case True
    with collected have "settle q = Inl (end_result (snd ?f))" by simp
    with True False assms q show ?thesis
      by (cases q) (auto simp: read_data_def data_spec_def split: sum.splits)
  next
    case long: False
    with collected obtain ds rest where ds: "q = Some (Inr (ds, rest))" "ds \<noteq> []" "concat ds = take n (fst ?f)"
      "flow rest b1 = (drop n (fst ?f), snd ?f)" by auto
    obtain p b2 where p: "consume_trailing_crlf b1 rest = (p, b2)" by fastforce
    have run: "read_data body prev n =
        (case p of Some (Inr t) \<Rightarrow> (Some (Inr (ds, t)), b2) | Some (Inl e) \<Rightarrow> (Some (Inl e), b2) | None \<Rightarrow> (None, b2))"
      using False q ds(1) p by (auto simp: read_data_def split: option.splits sum.splits)
    note post = consume_trailing_crlf_post [OF p, unfolded ds(4)]
    show ?thesis
    proof (cases "line_end_spec (drop n (fst ?f), snd ?f)")
      case (Inl x)
      with post have "settle p = Inl x" by simp
      with Inl False long assms run show ?thesis
        by (cases p) (auto simp: data_spec_def split: sum.splits)
    next
      case (Inr v)
      with post obtain t where "p = Some (Inr t)" "flow t b2 = (v, snd ?f)" by auto
      with Inr False long assms run ds show ?thesis by (auto simp: data_spec_def)
    qed
  qed
qed

lemma read_streaming_loop_post:
  "read_streaming_loop n rem body = (ys, r, body') \<Longrightarrow>
     concat ys = take n (fst (flow rem body)) \<and>
     (if length (fst (flow rem body)) < n then settle r = Inl (end_result (snd (flow rem body)))
      else \<exists>rest. r = Some (Inr rest) \<and> flow rest body' = (drop n (fst (flow rem body)), snd (flow rem body)))"
proof (induction n rem body arbitrary: ys r body' rule: read_streaming_loop.induct)
  case (1 n rem body)
  note step = 1(4) [unfolded read_streaming_loop.simps [of n rem body]]
  consider (zero) "n = 0" | (fetch) "n \<noteq> 0" "rem = []" | (last) "n \<noteq> 0" "rem \<noteq> []" "n \<le> length rem"
    | (part) "n \<noteq> 0" "rem \<noteq> []" "\<not> n \<le> length rem" by blast
  then show ?case
  proof cases
    case zero
    with step show ?thesis by auto
  next
    case fetch
    show ?thesis
    proof (cases body)
      case Nil
      with fetch step show ?thesis by auto
    next
      case (Cons a body1)
      show ?thesis
      proof (cases a)
        case (Inl e)
        with fetch step Cons show ?thesis by auto
      next
        case (Inr bs)
        with fetch step Cons have "read_streaming_loop n bs body1 = (ys, r, body')" by simp
        from 1(1) [OF fetch Cons Inr this] Cons Inr fetch show ?thesis by simp
      qed
    qed
  next
    case last
    have "read_streaming_loop 0 (drop n rem) body = ([], Some (Inr (drop n rem)), body)"
      by (subst read_streaming_loop.simps) simp
    then have "ys = [take n rem] \<and> r = Some (Inr (drop n rem)) \<and> body' = body" using step last by simp
    with last show ?thesis by (auto simp: flow_def)
  next
    case part
    obtain ys1 r1 b1 where rec: "read_streaming_loop (n - length rem) [] body = (ys1, r1, b1)" by (metis prod_cases3)
    have out: "ys = rem # ys1 \<and> r = r1 \<and> body' = b1" using step part rec by simp
    from 1(3) [OF part rec] out part show ?thesis by (auto simp: flow_def less_diff_conv add.commute split: if_splits)
  qed
qed

lemma read_data_streaming_post:
  assumes "read_data_streaming body prev n = (ys, r, body')"
  shows "concat ys = take n (fst (flow prev body)) \<and>
    (case data_spec n (flow prev body) of
       Inl x \<Rightarrow> settle r = Inl x
     | Inr (d, v) \<Rightarrow> \<exists>rest. r = Some (Inr rest) \<and> flow rest body' = (v, snd (flow prev body)))"
proof (cases "n = 0")
  case True
  with assms show ?thesis by (auto simp: read_data_streaming_def data_spec_def flow_def)
next
  case False
  let ?f = "flow prev body"
  obtain ys1 q b1 where q: "read_streaming_loop n prev body = (ys1, q, b1)" by (metis prod_cases3)
  note post = read_streaming_loop_post [OF q]
  show ?thesis
  proof (cases "length (fst ?f) < n")
    case True
    with post have "settle q = Inl (end_result (snd ?f))" "concat ys1 = take n (fst ?f)" by simp_all
    with True False assms q show ?thesis
      by (cases q) (auto simp: read_data_streaming_def data_spec_def split: sum.splits)
  next
    case long: False
    with post obtain rest where rest: "q = Some (Inr rest)" "flow rest b1 = (drop n (fst ?f), snd ?f)" by auto
    obtain p b2 where p: "consume_trailing_crlf b1 rest = (p, b2)" by fastforce
    have "ys = ys1 \<and> r = p \<and> body' = b2" using assms False q rest(1) p by (simp add: read_data_streaming_def)
    with consume_trailing_crlf_post [OF p, unfolded rest(2)] post False long show ?thesis
      by (auto simp: data_spec_def split: sum.splits)
  qed
qed

subsection \<open>The decoder of the whole text\<close>

text \<open>
  Errors for an exceeded limit report how much had been read when the limit was noticed, which depends
  on the fragments; \<open>strip_size\<close> forgets that number and keeps the error.
\<close>

fun strip_size :: "ac_error \<Rightarrow> ac_error" where
  "strip_size (ChunkMetaTooLarge n l) = ChunkMetaTooLarge 0 l"
| "strip_size (TrailersTooLarge n l) = TrailersTooLarge 0 l"
| "strip_size (Underlying (BoxedError x)) = Underlying (BoxedError (strip_size x))"
| "strip_size x = x"

definition trailers_spec ::
  "crypto_api \<Rightarrow> http_api \<Rightarrow> signature_ctx \<Rightarrow> bool \<Rightarrow> bytes \<times> std_error option \<Rightarrow> ac_error + (bytes \<times> bytes) list option" where
  "trailers_spec C W ctx unsigned_mode f =
     (if length (fst f) > MAX_TRAILERS_SIZE then Inl (TrailersTooLarge 0 MAX_TRAILERS_SIZE)
      else (case snd f of
          Some x \<Rightarrow> Inl (strip_size (Underlying x))
        | None \<Rightarrow>
            (case read_and_verify_trailers memchr_ref C [] (fst f) ctx unsigned_mode of
               None \<Rightarrow> Inr None
             | Some (Inl x) \<Rightarrow> Inl (strip_size x)
             | Some (Inr (entries, _)) \<Rightarrow>
                 (case build_header_map W entries [] of None \<Rightarrow> Inl FormatError | Some hm \<Rightarrow> Inr (Some hm)))))"

definition chunk_spec ::
  "crypto_api \<Rightarrow> signature_ctx \<Rightarrow> chunk_meta \<Rightarrow> bytes \<times> std_error option \<Rightarrow> bytes \<times> (ac_error + (signature_ctx \<times> bytes))" where
  "chunk_spec C ctx meta f =
     (let n = chunk_size meta
      in case chunk_signature meta of
           Some sig \<Rightarrow>
             (case data_spec n f of
                Inl x \<Rightarrow> ([], Inl x)
              | Inr (d, v) \<Rightarrow>
                  (case check_signature C ctx sig (if n = 0 then [] else [d]) of
                     None \<Rightarrow> ([], Inl SignatureMismatch)
                   | Some s \<Rightarrow> (d, Inr (ctx\<lparr>ctx_prev_signature := s\<rparr>, v))))
         | None \<Rightarrow> (take n (fst f), map_sum id (\<lambda>(d, v). (ctx, v)) (data_spec n f)))"

fun decode ::
  "nat \<Rightarrow> nom_api \<Rightarrow> crypto_api \<Rightarrow> http_api \<Rightarrow> signature_ctx \<Rightarrow> bool \<Rightarrow> nat \<Rightarrow> bytes \<times> std_error option \<Rightarrow>
     (bytes \<times> (ac_error + (bytes \<times> bytes) list option)) option" where
  "decode 0 N C W ctx unsigned_mode mx f = None"
| "decode (Suc k) N C W ctx unsigned_mode mx f =
     (if meta_too_large (fst f) then Some ([], Inl (Underlying (BoxedError (ChunkMetaTooLarge 0 MAX_CHUNK_META_SIZE))))
      else if LF \<notin> set (fst f)
      then Some ([], case snd f of None \<Rightarrow> Inr None | Some x \<Rightarrow> Inl (strip_size (Underlying x)))
      else
        (let line = takeWhile (\<lambda>c. c \<noteq> LF) (fst f) @ [LF]; v = (drop (length line) (fst f), snd f)
         in case parse_chunk_meta N line of
              None \<Rightarrow> Some ([], Inl FormatError)
            | Some (_, meta) \<Rightarrow>
                (if \<not> unsigned_mode \<and> chunk_signature meta = None then Some ([], Inl FormatError)
                 else if chunk_signature meta \<noteq> None \<and> chunk_size meta > mx
                 then Some ([], Inl (ChunkDataTooLarge (chunk_size meta) mx))
                 else
                   (case chunk_spec C ctx meta v of
                      (d, Inl x) \<Rightarrow> Some (d, Inl (strip_size x))
                    | (d, Inr (ctx', v')) \<Rightarrow>
                        (if chunk_size meta = 0 then Some (d, trailers_spec C W ctx' unsigned_mode (v', snd f))
                         else (case decode k N C W ctx' unsigned_mode mx (v', snd f) of
                             None \<Rightarrow> None
                           | Some (d', r) \<Rightarrow> Some (d @ d', r)))))))"

text \<open>The contract of the digest and hexadecimal crates.\<close>

locale crypto_contract =
  fixes C :: crypto_api
  assumes digest_updates_eq: "digest_updates C cs = digest_once C (concat cs)"
    and mac_length: "length (mac C key data) = 32"
    and hex_lower_form: "length b = 32 \<Longrightarrow> is_sha256_checksum (hex_lower C b)"
    and hex_decode_lower: "length b = 32 \<Longrightarrow> hex_decode C (hex_lower C b) = Some b"
begin

text \<open>A signature depends on the bytes of a chunk and not on its fragments.\<close>

lemma check_signature_concat:
  assumes "ds = [] \<longleftrightarrow> concat ds = []"
  shows "check_signature C ctx sig ds = check_signature C ctx sig (if concat ds = [] then [] else [concat ds])"
proof (cases "concat ds = []")
  case False
  then have "ds \<noteq> []" by auto
  then have "create_chunk_string_to_sign C t r v p ds = create_chunk_string_to_sign C t r v p [concat ds]" for t r v p
    by (simp add: create_chunk_string_to_sign_def hex_sha256_chunk_def sha256_chunk_def digest_updates_eq)
  with False show ?thesis by (simp only: check_signature_def if_False)
qed (use assms in simp)

end

lemma read_to_end_post:
  "length prev \<le> MAX_TRAILERS_SIZE \<Longrightarrow>
     (case read_to_end prev body of
        Inl x \<Rightarrow> (length (fst (flow prev body)) > MAX_TRAILERS_SIZE \<and> (\<exists>n. x = TrailersTooLarge n MAX_TRAILERS_SIZE)) \<or>
          (length (fst (flow prev body)) \<le> MAX_TRAILERS_SIZE \<and> (\<exists>y. snd (flow prev body) = Some y \<and> x = Underlying y))
      | Inr buf \<Rightarrow> flow prev body = (buf, None) \<and> length buf \<le> MAX_TRAILERS_SIZE)"
proof (induction prev body rule: read_to_end.induct)
  case (3 buf bs body)
  show ?case
  proof (cases "length buf + length bs > MAX_TRAILERS_SIZE")
    case True
    then show ?thesis by (auto simp: flow_def)
  next
    case False
    with 3 show ?thesis by (simp split: sum.splits)
  qed
qed auto

lemma trailers_refine:
  "(case read_and_verify_trailers memchr_ref C body rem ctx unsigned_mode of
      None \<Rightarrow> Inr None
    | Some (Inl x) \<Rightarrow> Inl (strip_size x)
    | Some (Inr (entries, _)) \<Rightarrow>
        (case build_header_map W entries [] of None \<Rightarrow> Inl FormatError | Some hm \<Rightarrow> Inr (Some hm))) =
   trailers_spec C W ctx unsigned_mode (flow rem body)"
proof (cases "length rem > MAX_TRAILERS_SIZE")
  case True
  then show ?thesis by (auto simp: read_and_verify_trailers_def trailers_spec_def flow_def)
next
  case False
  show ?thesis
  proof (cases "read_to_end rem body")
    case (Inl x)
    with read_to_end_post [of rem body] False show ?thesis
      by (auto simp: read_and_verify_trailers_def trailers_spec_def)
  next
    case (Inr buf)
    with read_to_end_post [of rem body] False have fl: "flow rem body = (buf, None)" "length buf \<le> MAX_TRAILERS_SIZE" by simp_all
    have "read_and_verify_trailers memchr_ref C body rem ctx unsigned_mode =
        read_and_verify_trailers memchr_ref C [] buf ctx unsigned_mode"
      using Inr False fl(2) by (simp add: read_and_verify_trailers_def)
    with fl show ?thesis by (simp add: trailers_spec_def)
  qed
qed
text \<open>The worker implements the decoder of the whole text, on every fragmentation.\<close>

definition agrees ::
  "(bytes list \<times> (ac_error + (bytes \<times> bytes) list option)) option \<Rightarrow>
   (bytes \<times> (ac_error + (bytes \<times> bytes) list option)) option \<Rightarrow> bool" where
  "agrees x y \<longleftrightarrow> map_option (map_prod concat (map_sum strip_size id)) x = y"

lemma line_end_spec_Inr: "line_end_spec f = Inr v \<longleftrightarrow> fst f = CR # LF # v"
  by (auto simp: line_end_spec_def eat_spec_def split: list.splits prod.splits if_splits sum.splits)

lemma data_spec_Inr:
  "data_spec n f = Inr (d, v) \<longleftrightarrow>
     (n = 0 \<and> d = [] \<and> v = fst f) \<or>
     (0 < n \<and> length d = n \<and> fst f = d @ CR # LF # v)"
proof (cases "n = 0 \<or> length (fst f) < n")
  case True
  then show ?thesis by (auto simp: data_spec_def)
next
  case False
  have "map_sum id (Pair x) y = Inr (d, v) \<longleftrightarrow> d = x \<and> y = Inr v" for x and y :: "ac_error + bytes"
    by (cases y) auto
  with False have "data_spec n f = Inr (d, v) \<longleftrightarrow> d = take n (fst f) \<and> drop n (fst f) = CR # LF # v"
    by (simp add: data_spec_def line_end_spec_Inr)
  also have "\<dots> \<longleftrightarrow> length d = n \<and> fst f = d @ CR # LF # v"
    using False by (metis append_eq_conv_conj append_take_drop_id length_take min.absorb4 not_less_iff_gr_or_eq min.absorb2 not_less)
  finally show ?thesis using False by auto
qed

lemma chunk_spec_Inr:
  assumes "chunk_spec C ctx meta f = (d, Inr (ctx', v))"
  shows "\<exists>d'. data_spec (chunk_size meta) f = Inr (d', v)"
proof (cases "data_spec (chunk_size meta) f")
  case (Inl x)
  with assms show ?thesis by (cases "chunk_signature meta") (auto simp: chunk_spec_def Let_def)
next
  case (Inr p)
  with assms show ?thesis
    by (cases "chunk_signature meta"; cases p) (auto simp: chunk_spec_def Let_def split: option.splits)
qed

lemma read_chunk_post:
  assumes "crypto_contract C" and "read_chunk C ctx meta body prev = (ys, q, body')"
  shows "case q of
      Inl x \<Rightarrow> chunk_spec C ctx meta (flow prev body) = (concat ys, Inl x)
    | Inr (ctx', rest) \<Rightarrow> \<exists>v. chunk_spec C ctx meta (flow prev body) = (concat ys, Inr (ctx', v)) \<and>
        flow rest body' = (v, snd (flow prev body))"
proof (cases "chunk_signature meta")
  case (Some sig)
  let ?n = "chunk_size meta" and ?f = "flow prev body"
  obtain r b1 where rd: "read_data body prev ?n = (r, b1)" by fastforce
  note post = read_data_post [OF rd]
  show ?thesis
  proof (cases "data_spec ?n ?f")
    case (Inl x)
    with post have "settle r = Inl x" by simp
    with Inl Some assms(2) rd show ?thesis
      by (cases r) (auto simp: read_chunk_def chunk_spec_def split: sum.splits)
  next
    case (Inr dv)
    obtain d v where dv: "dv = (d, v)" by fastforce
    with Inr post obtain ds rest where ds: "r = Some (Inr (ds, rest))" "ds = [] \<longleftrightarrow> ?n = 0" "concat ds = d"
      "flow rest b1 = (v, snd ?f)" by auto
    have len: "length d = ?n" using Inr dv by (auto simp: data_spec_Inr)
    then have "ds = [] \<longleftrightarrow> concat ds = []" using ds(2,3) by auto
    from crypto_contract.check_signature_concat [OF assms(1) this, of ctx sig] len ds(2,3)
    have "check_signature C ctx sig ds = check_signature C ctx sig (if ?n = 0 then [] else [d])" by auto
    with Inr dv Some assms(2) rd ds show ?thesis
      by (auto simp: read_chunk_def chunk_spec_def split: option.splits)
  qed
next
  case None
  let ?n = "chunk_size meta" and ?f = "flow prev body"
  obtain ys1 r b1 where rd: "read_data_streaming body prev ?n = (ys1, r, b1)" by (metis prod_cases3)
  note post = read_data_streaming_post [OF rd]
  show ?thesis
  proof (cases "data_spec ?n ?f")
    case (Inl x)
    with post have "settle r = Inl x" "concat ys1 = take ?n (fst ?f)" by simp_all
    with Inl None assms(2) rd show ?thesis
      by (cases r) (auto simp: read_chunk_def chunk_spec_def split: sum.splits)
  next
    case (Inr dv)
    with post None assms(2) rd show ?thesis
      by (cases dv) (auto simp: read_chunk_def chunk_spec_def)
  qed
qed

lemma worker_decode:
  assumes "crypto_contract C"
  shows "agrees (worker fuel memchr_ref N C W ctx unsigned_mode mx body prev)
                (decode fuel N C W ctx unsigned_mode mx (flow prev body))"
proof (induction fuel arbitrary: ctx body prev)
  case (Suc fuel)
  obtain r buf body1 where rd: "read_meta_bytes memchr_ref body prev = (r, buf, body1)" by (metis prod_cases3)
  obtain w e where f: "flow prev body = (w, e)" by fastforce
  note meta = read_meta_bytes_post [OF rd, unfolded f]
  show ?case
  proof (cases "\<exists>rest. r = Some (Inr rest)")
    case False
    then consider "r = None" | x where "r = Some (Inl x)" by (metis option.exhaust sumE)
    then show ?thesis
      using meta rd f by cases (auto simp: agrees_def)
  next
    case True
    then obtain rest where rest: "r = Some (Inr rest)" by blast
    with meta have lf: "\<not> meta_too_large w" "LF \<in> set w" and buf: "buf = takeWhile (\<lambda>c. c \<noteq> LF) w @ [LF]"
      and fl: "flow rest body1 = (drop (length buf) w, e)" by simp_all
    show ?thesis
    proof (cases "parse_chunk_meta N buf")
      case None
      with rd rest lf buf f show ?thesis by (simp add: agrees_def Let_def)
    next
      case (Some p)
      obtain i meta where p: "p = (i, meta)" by fastforce
      show ?thesis
      proof (cases "(\<not> unsigned_mode \<and> chunk_signature meta = None) \<or> (chunk_signature meta \<noteq> None \<and> chunk_size meta > mx)")
        case True
        with Some p rd rest lf buf f show ?thesis by (auto simp: agrees_def Let_def)
      next
        case ok: False
        obtain ys q body2 where rc: "read_chunk C ctx meta rest_body rest = (ys, q, body2)" if "rest_body = body1" for rest_body
          by (metis prod_cases3)
        note rc = rc [OF refl]
        note chunk = read_chunk_post [OF assms rc, unfolded fl]
        show ?thesis
        proof (cases q)
          case (Inl x)
          with chunk ok Some p rd rest lf buf f rc show ?thesis by (auto simp: agrees_def Let_def)
        next
          case (Inr cr)
          obtain ctx' rem where cr: "cr = (ctx', rem)" by fastforce
          with chunk Inr obtain v where v: "chunk_spec C ctx meta (drop (length buf) w, e) = (concat ys, Inr (ctx', v))"
            "flow rem body2 = (v, e)" by auto
          show ?thesis
          proof (cases "chunk_size meta = 0")
            case True
            have "worker (Suc fuel) memchr_ref N C W ctx unsigned_mode mx body prev =
                Some (ys, case read_and_verify_trailers memchr_ref C body2 rem ctx' unsigned_mode of
                    None \<Rightarrow> Inr None
                  | Some (Inl x) \<Rightarrow> Inl x
                  | Some (Inr (entries, _)) \<Rightarrow>
                      (case build_header_map W entries [] of None \<Rightarrow> Inl FormatError | Some hm \<Rightarrow> Inr (Some hm)))"
              using ok Some p rd rest rc Inr cr True by (auto split: option.splits sum.splits)
            moreover have "decode (Suc fuel) N C W ctx unsigned_mode mx (w, e) =
                Some (concat ys, trailers_spec C W ctx' unsigned_mode (v, e))"
              using ok Some p lf buf v True by (auto simp: Let_def)
            ultimately show ?thesis
              using trailers_refine [where C = C and body = body2 and rem = rem and ctx = ctx' and unsigned_mode = unsigned_mode and W = W] v(2) f
              by (auto simp: agrees_def split: option.splits sum.splits)
          next
            case False
            have "worker (Suc fuel) memchr_ref N C W ctx unsigned_mode mx body prev =
                (case worker fuel memchr_ref N C W ctx' unsigned_mode mx body2 rem of
                   None \<Rightarrow> None | Some (ys', r) \<Rightarrow> Some (ys @ ys', r))"
              using ok Some p rd rest rc Inr cr False by auto
            moreover have "decode (Suc fuel) N C W ctx unsigned_mode mx (w, e) =
                (case decode fuel N C W ctx' unsigned_mode mx (v, e) of
                   None \<Rightarrow> None | Some (d', r) \<Rightarrow> Some (concat ys @ d', r))"
              using ok Some p lf buf v False by (auto simp: Let_def)
            ultimately show ?thesis
              using Suc.IH [of ctx' body2 rem] v(2) f by (auto simp: agrees_def split: option.splits)
          qed
        qed
      qed
    qed
  qed
qed (simp add: agrees_def)

lemma decode_total: "length (fst f) < fuel \<Longrightarrow> decode fuel N C W ctx unsigned_mode mx f \<noteq> None"
proof (induction fuel arbitrary: ctx f)
  case (Suc fuel)
  let ?line = "takeWhile (\<lambda>c. c \<noteq> LF) (fst f) @ [LF]"
  let ?v = "(drop (length ?line) (fst f), snd f)"
  have shorter: "length v' \<le> length (drop (length ?line) (fst f))" if "chunk_spec C ctx meta ?v = (d, Inr (ctx', v'))" for meta d ctx' v'
  proof -
    have "length b \<le> length (fst g)" if "data_spec n g = Inr (a, b)" for n g a b
      using that by (auto simp: data_spec_Inr)
    with chunk_spec_Inr [OF that] show ?thesis by fastforce
  qed
  have step: "decode fuel N C W ctx' unsigned_mode mx (v', snd f) \<noteq> None"
    if "LF \<in> set (fst f)" "chunk_spec C ctx meta ?v = (d, Inr (ctx', v'))" for meta d ctx' v'
  proof (rule Suc.IH)
    have "length (drop (length ?line) (fst f)) < length (fst f)" using that(1) by (cases "fst f") auto
    with shorter [OF that(2)] Suc.prems show "length (fst (v', snd f)) < fuel" by simp
  qed
  show ?case
  proof (cases "meta_too_large (fst f) \<or> LF \<notin> set (fst f)")
    case False
    show ?thesis
    proof (cases "parse_chunk_meta N ?line")
      case (Some p)
      obtain i meta where p: "p = (i, meta)" by fastforce
      obtain d q where cs: "chunk_spec C ctx meta ?v = (d, q)" by fastforce
      show ?thesis
      proof (cases q)
        case (Inr cv)
        with step [of meta d "fst cv" "snd cv"] cs False Some p show ?thesis
          by (cases cv; cases unsigned_mode) (auto simp: Let_def)
      qed (use False Some p cs in \<open>simp add: Let_def\<close>)
    qed (use False in \<open>simp add: Let_def\<close>)
  qed auto
qed simp

end
