(* ===== verification/Aws_Chunked_Properties.thy ===== *)
theory Aws_Chunked_Properties
  imports Aws_Chunked_Correct
begin

text \<open>
  What the chunked decoder promises: the result does not depend on the fragments, in signed mode
  nothing is handed out before its signature was verified, a correctly encoded upload is decoded to its
  data, and the declared length is enforced.
\<close>

subsection \<open>Fragments do not matter\<close>

text \<open>A crypto instance that meets the contract, for the witnesses.\<close>

definition nibble_hex :: "nat \<Rightarrow> byte" where
  "nibble_hex n = ''0123456789abcdef'' ! n"

definition plain_hex :: "bytes \<Rightarrow> bytes" where
  "plain_hex b = concat (map (\<lambda>c. [nibble_hex (of_char c div 16), nibble_hex (of_char c mod 16)]) b)"

fun plain_unhex :: "bytes \<Rightarrow> bytes option" where
  "plain_unhex [] = Some []"
| "plain_unhex (a # b # s) =
     (case (hex_value a, hex_value b, plain_unhex s) of
        (Some x, Some y, Some t) \<Rightarrow> Some (char_of (16 * x + y) # t)
      | _ \<Rightarrow> None)"
| "plain_unhex [a] = None"

definition pad32 :: "bytes \<Rightarrow> bytes" where
  "pad32 b = take 32 (b @ replicate 32 CHR ''0'')"

definition plain_crypto :: crypto_api where
  "plain_crypto =
     \<lparr>digest_once = pad32, digest_updates = (\<lambda>cs. pad32 (concat cs)), mac = (\<lambda>k d. pad32 (rev d @ k)),
      hex_lower = plain_hex, hex_decode = plain_unhex\<rparr>"

definition plain_http :: http_api where
  "plain_http = \<lparr>header_name_parse = Some, header_value_from_str = Some\<rparr>"

definition plain_ctx :: signature_ctx where
  "plain_ctx =
     \<lparr>ctx_amz_date = \<lparr>year = 2013, month = 5, day = 24, hour = 0, minute = 0, second = 0\<rparr>,
      ctx_region = ''us-east-1'', ctx_service = ''s3'', ctx_signing_key = pad32 ''key'', ctx_prev_signature = pad32 ''seed''\<rparr>"

lemma nibble_hex_facts: "n < 16 \<Longrightarrow> is_lowercase_hex (nibble_hex n) \<and> hex_value (nibble_hex n) = Some n"
proof -
  have "\<forall>n \<in> set [0..<16]. is_lowercase_hex (nibble_hex n) \<and> hex_value (nibble_hex n) = Some n" by code_simp
  then show "n < 16 \<Longrightarrow> is_lowercase_hex (nibble_hex n) \<and> hex_value (nibble_hex n) = Some n" by simp
qed

interpretation plain: crypto_contract plain_crypto
proof
  fix cs key data and b :: bytes
  show "digest_updates plain_crypto cs = digest_once plain_crypto (concat cs)" by (simp add: plain_crypto_def)
  show "length (mac plain_crypto key data) = 32" by (simp add: plain_crypto_def pad32_def)
  have len: "length (plain_hex b) = 2 * length b" for b by (induction b) (simp_all add: plain_hex_def)
  have low: "list_all is_lowercase_hex (plain_hex b)" for b
    using nibble_hex_facts nibble_lt by (induction b) (simp_all add: plain_hex_def)
  have round: "plain_unhex (plain_hex b) = Some b" for b
  proof (induction b)
    case (Cons c b)
    have "char_of (16 * (of_char c div 16) + (of_char c mod 16 :: nat)) = c"
      by (simp only: mult_div_mod_eq char_of_char)
    with Cons nibble_hex_facts nibble_lt show ?case by (simp add: plain_hex_def)
  qed (simp add: plain_hex_def)
  assume "length b = 32"
  then show "is_sha256_checksum (hex_lower plain_crypto b)" "hex_decode plain_crypto (hex_lower plain_crypto b) = Some b"
    using len low round by (simp_all add: plain_crypto_def is_sha256_checksum_def)
qed

text \<open>
  C26: the decoder always comes to an end, and two transports that deliver the same bytes and end the
  same way get the same decoded bytes and the same outcome, however they cut the bytes into fragments
  (an error for an exceeded limit may report a different count).
\<close>

theorem chunked_fragmentation:
  assumes "byte_search M" and "crypto_contract C" and "body_flow b1 = body_flow b2"
  shows "\<exists>ys1 r1 ys2 r2.
      worker (length (fst (body_flow b1)) + 2) M N C W ctx unsigned_mode mx b1 [] = Some (ys1, r1) \<and>
      worker (length (fst (body_flow b2)) + 2) M N C W ctx unsigned_mode mx b2 [] = Some (ys2, r2) \<and>
      concat ys1 = concat ys2 \<and> map_sum strip_size id r1 = map_sum strip_size id r2"
proof -
  let ?k = "length (fst (body_flow b1)) + 2"
  let ?run = "\<lambda>b. worker ?k memchr_ref N C W ctx unsigned_mode mx b []"
  have fl: "flow [] b1 = flow [] b2" using assms(3) by (simp add: flow_def)
  obtain d r where dec: "decode ?k N C W ctx unsigned_mode mx (flow [] b1) = Some (d, r)"
    using decode_total [of "flow [] b1" ?k] by (fastforce simp: flow_def)
  have "agrees (?run b1) (Some (d, r))" "agrees (?run b2) (Some (d, r))"
    using worker_decode [OF assms(2), of ?k N W ctx unsigned_mode mx] dec fl by metis+
  then obtain ys1 r1 ys2 r2 where "?run b1 = Some (ys1, r1)" "?run b2 = Some (ys2, r2)"
    "concat ys1 = d" "concat ys2 = d" "map_sum strip_size id r1 = r" "map_sum strip_size id r2 = r"
    by (auto simp: agrees_def)
  then show ?thesis using assms(3) by (simp add: byte_search.crate_unique [OF assms(1)])
qed

theorem chunked_fragmentation_witness:
  "byte_search memchr_ref \<and> crypto_contract plain_crypto \<and>
   body_flow [Inr ''2'', Inr (CRLF @ ''hi'' @ CRLF @ ''0'' @ CRLF)] = body_flow [Inr (''2'' @ CRLF @ ''hi'' @ CRLF @ ''0'' @ CRLF)] \<and>
   (\<exists>ys1 r1 ys2 r2.
      worker 12 memchr_ref nom_ref plain_crypto plain_http plain_ctx True 100
        [Inr ''2'', Inr (CRLF @ ''hi'' @ CRLF @ ''0'' @ CRLF)] [] = Some (ys1, r1) \<and>
      worker 12 memchr_ref nom_ref plain_crypto plain_http plain_ctx True 100
        [Inr (''2'' @ CRLF @ ''hi'' @ CRLF @ ''0'' @ CRLF)] [] = Some (ys2, r2) \<and> concat ys1 = concat ys2)"
proof -
  have eq: "body_flow [Inr ''2'', Inr (CRLF @ ''hi'' @ CRLF @ ''0'' @ CRLF)] =
      body_flow [Inr (''2'' @ CRLF @ ''hi'' @ CRLF @ ''0'' @ CRLF)]" by simp
  show ?thesis
    using chunked_fragmentation [OF ref_search.byte_search_axioms plain.crypto_contract_axioms eq,
        of nom_ref plain_http plain_ctx True 100] eq ref_search.byte_search_axioms plain.crypto_contract_axioms
    by (auto simp: numeral_eq_Suc)
qed

text \<open>The decoder always comes to an end.\<close>

lemma chunked_new_total:
  assumes "byte_search M" and "crypto_contract C"
  shows "AwsChunkedStream_new M N C W body seed d region service secret len um mx \<noteq> None"
proof -
  let ?k = "length (fst (body_flow body)) + 2"
  let ?ctx = "\<lparr>ctx_amz_date = d, ctx_region = region, ctx_service = service,
      ctx_signing_key = derive_signing_key C secret d region service, ctx_prev_signature = seed\<rparr>"
  obtain v r where dec: "decode ?k N C W ?ctx um mx (flow [] body) = Some (v, r)"
    using decode_total [of "flow [] body" ?k] by (fastforce simp: flow_def)
  have "agrees (worker ?k memchr_ref N C W ?ctx um mx body []) (Some (v, r))"
    using worker_decode [OF assms(2), of ?k N W ?ctx um mx] dec by metis
  then show ?thesis
    unfolding byte_search.crate_unique [OF assms(1)]
    by (auto simp: AwsChunkedStream_new_def agrees_def simp del: worker.simps)
qed

subsection \<open>Nothing unverified is handed out\<close>

text \<open>
  The signature a chunk must carry: the keyed digest of its string to sign, which contains the signature
  of its predecessor.
\<close>

definition chunk_mac :: "crypto_api \<Rightarrow> signature_ctx \<Rightarrow> bytes list \<Rightarrow> bytes" where
  "chunk_mac C ctx data =
     mac C (ctx_signing_key ctx)
       (create_chunk_string_to_sign C (ctx_amz_date ctx) (ctx_region ctx) (ctx_service ctx)
          (hex_lower C (ctx_prev_signature ctx)) data)"

text \<open>A chain of chunks: every signature text decodes to the mac of its data after its predecessor.\<close>

fun chained :: "crypto_api \<Rightarrow> signature_ctx \<Rightarrow> (bytes \<times> bytes list) list \<Rightarrow> bool" where
  "chained C ctx [] \<longleftrightarrow> True"
| "chained C ctx ((sig, data) # cs) \<longleftrightarrow>
     Sha256Sum_from_hex C sig = Some (chunk_mac C ctx data) \<and>
     chained C (ctx\<lparr>ctx_prev_signature := chunk_mac C ctx data\<rparr>) cs"

lemma check_signature_Some:
  "check_signature C ctx sig data = Some s \<longleftrightarrow>
     is_utf8 sig \<and> Sha256Sum_from_hex C sig = Some s \<and> s = chunk_mac C ctx data"
  by (auto simp: check_signature_def chunk_mac_def hex_bytes32_def calculate_signature_with_key_def hmac_sha256_def Let_def
      split: option.splits if_splits)

text \<open>
  In signed mode every byte the decoder hands out belongs to a chunk whose signature was verified,
  and the signatures form one chain from the seed signature of the request: whatever the body is,
  however it ends, the chunks handed out are the data of a chained list of chunks.
\<close>

theorem signed_mode_only_verified:
  assumes "worker fuel M N C W ctx False mx body prev = Some (ys, r)"
  shows "\<exists>cs. chained C ctx cs \<and> ys = concat (map snd cs)"
  using assms
proof (induction fuel arbitrary: ctx body prev ys r)
  case (Suc fuel)
  show ?case
  proof (cases "ys = []")
    case True
    then show ?thesis by (intro exI [of _ "[]"]) simp
  next
    case False
    with Suc.prems obtain rest buf body1 i meta where rd: "read_meta_bytes M body prev = (Some (Inr rest), buf, body1)"
      and meta: "parse_chunk_meta N buf = Some (i, meta)"
      by (auto split: prod.splits option.splits sum.splits)
    with False Suc.prems obtain sig where sig: "chunk_signature meta = Some sig" by (auto split: if_splits)
    obtain y q body2 where rc: "read_chunk C ctx meta body1 rest = (y, q, body2)" by (metis prod_cases3)
    have size: "\<not> mx < chunk_size meta" using Suc.prems rd meta sig False by (auto split: if_splits)
    show ?thesis
    proof (cases q)
      case (Inl x)
      then have "y = []" using rc sig by (auto simp: read_chunk_def split: prod.splits option.splits sum.splits)
      with Suc.prems rd meta sig rc Inl size False show ?thesis by simp
    next
      case (Inr cv)
      obtain ctx' rem where cv: "cv = (ctx', rem)" by fastforce
      with Inr rc sig obtain s where s: "check_signature C ctx sig y = Some s" "ctx' = ctx\<lparr>ctx_prev_signature := s\<rparr>"
        by (auto simp: read_chunk_def split: prod.splits option.splits sum.splits)
      have one: "chained C ctx ((sig, y) # cs) \<longleftrightarrow> chained C ctx' cs" for cs
        using s by (auto simp: check_signature_Some)
      show ?thesis
      proof (cases "chunk_size meta = 0")
        case True
        with Suc.prems rd meta sig rc Inr cv size have "ys = y"
          by (auto split: option.splits sum.splits)
        then show ?thesis using one [of "[]"] by (intro exI [of _ "[(sig, y)]"]) simp
      next
        case nz: False
        with Suc.prems rd meta sig rc Inr cv size obtain ys' where
          rec: "worker fuel M N C W ctx' False mx body2 rem = Some (ys', r)" and ys: "ys = y @ ys'"
          by (auto split: option.splits)
        from Suc.IH [OF rec] obtain cs where "chained C ctx' cs" "ys' = concat (map snd cs)" by blast
        with one ys show ?thesis by (intro exI [of _ "(sig, y) # cs"]) simp
      qed
    qed
  qed
qed simp

fun chain_end :: "crypto_api \<Rightarrow> signature_ctx \<Rightarrow> (bytes \<times> bytes list) list \<Rightarrow> signature_ctx" where
  "chain_end C ctx [] = ctx"
| "chain_end C ctx ((sig, data) # cs) = chain_end C (ctx\<lparr>ctx_prev_signature := chunk_mac C ctx data\<rparr>) cs"

definition trailer_mac :: "crypto_api \<Rightarrow> signature_ctx \<Rightarrow> bytes \<Rightarrow> bytes" where
  "trailer_mac C ctx canonical =
     mac C (ctx_signing_key ctx)
       (create_trailer_string_to_sign C (ctx_amz_date ctx) (ctx_region ctx) (ctx_service ctx)
          (hex_lower C (ctx_prev_signature ctx)) canonical)"

definition trailer_text :: "(bytes \<times> bytes) list \<Rightarrow> bytes" where
  "trailer_text entries = concat (map (\<lambda>(n, v). n @ '':'' @ v @ [LF]) entries)"

lemma push_canonical_trailers_text:
  "push_canonical_trailers entries acc = Inr canonical \<Longrightarrow> canonical = acc @ trailer_text entries"
  by (induction entries acc rule: push_canonical_trailers.induct) (auto simp: trailer_text_def Let_def split: if_splits)

lemma trailers_verified_signed:
  assumes "read_and_verify_trailers M C body rem ctx False = Some (Inr (entries, t))"
  shows "sorted (map fst entries) \<and>
    (\<exists>provided. Sha256Sum_from_hex C provided = Some (trailer_mac C ctx (trailer_text entries)))"
proof -
  from assms obtain buf canonical provided where p: "parse_trailing_headers M buf = Inr (canonical, provided, entries)"
    and v: "\<exists>s. provided = Some s \<and> Sha256Sum_from_hex C s = Some (trailer_mac C ctx canonical)"
    by (auto simp: read_and_verify_trailers_def trailer_mac_def hex_bytes32_def calculate_signature_with_key_def
        hmac_sha256_def Let_def split: if_splits sum.splits option.splits prod.splits)
  from p obtain es where "entries = sort_key fst es" "push_canonical_trailers entries [] = Inr canonical"
    by (auto simp: parse_trailing_headers_def Let_def split: sum.splits prod.splits)
  with v push_canonical_trailers_text [of entries "[]" canonical] show ?thesis by auto
qed

text \<open>
  C27: in signed mode trailing headers are handed out only with a verified trailer signature: the header
  map is built from entries, sorted by name, whose canonical text carries a signature that continues the
  chain of the chunks before it.
\<close>

theorem signed_trailers_verified:
  assumes "worker fuel M N C W ctx False mx body prev = Some (ys, Inr (Some hm))"
  shows "\<exists>cs entries provided. chained C ctx cs \<and> ys = concat (map snd cs) \<and> sorted (map fst entries) \<and>
    build_header_map W entries [] = Some hm \<and>
    Sha256Sum_from_hex C provided = Some (trailer_mac C (chain_end C ctx cs) (trailer_text entries))"
  using assms
proof (induction fuel arbitrary: ctx body prev ys)
  case (Suc fuel)
  from Suc.prems obtain rest buf body1 i meta where rd: "read_meta_bytes M body prev = (Some (Inr rest), buf, body1)"
    and meta: "parse_chunk_meta N buf = Some (i, meta)"
    by (auto split: prod.splits option.splits sum.splits)
  with Suc.prems obtain sig where sig: "chunk_signature meta = Some sig" by (auto split: if_splits)
  obtain y q body2 where rc: "read_chunk C ctx meta body1 rest = (y, q, body2)" by (metis prod_cases3)
  have size: "\<not> mx < chunk_size meta" using Suc.prems rd meta sig by (auto split: if_splits)
  obtain ctx' rem where q: "q = Inr (ctx', rem)" using Suc.prems rd meta sig rc size by (cases q) auto
  with rc sig obtain s where s: "check_signature C ctx sig y = Some s" "ctx' = ctx\<lparr>ctx_prev_signature := s\<rparr>"
    by (auto simp: read_chunk_def split: prod.splits option.splits sum.splits)
  have one: "chained C ctx ((sig, y) # cs) = chained C ctx' cs" "chain_end C ctx ((sig, y) # cs) = chain_end C ctx' cs" for cs
    using s by (auto simp: check_signature_Some)
  show ?case
  proof (cases "chunk_size meta = 0")
    case True
    with Suc.prems rd meta sig rc q size obtain entries t where ys: "ys = y"
      and tr: "read_and_verify_trailers M C body2 rem ctx' False = Some (Inr (entries, t))"
      and hm: "build_header_map W entries [] = Some hm"
      by (auto split: option.splits sum.splits)
    from trailers_verified_signed [OF tr] hm ys one [of "[]"] show ?thesis
      by (intro exI [of _ "[(sig, y)]"] exI [of _ entries]) simp
  next
    case False
    with Suc.prems rd meta sig rc q size obtain ys' where
      rec: "worker fuel M N C W ctx' False mx body2 rem = Some (ys', Inr (Some hm))" and ys: "ys = y @ ys'"
      by (auto split: option.splits)
    from Suc.IH [OF rec] obtain cs entries provided where "chained C ctx' cs" "ys' = concat (map snd cs)"
      "sorted (map fst entries)" "build_header_map W entries [] = Some hm"
      "Sha256Sum_from_hex C provided = Some (trailer_mac C (chain_end C ctx' cs) (trailer_text entries))" by blast
    with one [of cs] ys show ?thesis by (intro exI [of _ "(sig, y) # cs"] exI [of _ entries] exI [of _ provided]) simp
  qed
qed simp

subsection \<open>A correct upload is decoded\<close>

text \<open>The encoder of a signing client: size and signature of every chunk, the data, and an empty last chunk.\<close>

fun hex_of :: "nat \<Rightarrow> bytes" where
  "hex_of n = (if n < 16 then [nibble_hex n] else hex_of (n div 16) @ [nibble_hex (n mod 16)])"

declare hex_of.simps [simp del]

definition chunk_header :: "crypto_api \<Rightarrow> nat \<Rightarrow> bytes \<Rightarrow> bytes" where
  "chunk_header C n s = hex_of n @ '';chunk-signature='' @ hex_lower C s @ CRLF"

fun encode_chunks :: "crypto_api \<Rightarrow> signature_ctx \<Rightarrow> bytes list \<Rightarrow> bytes" where
  "encode_chunks C ctx [] = chunk_header C 0 (chunk_mac C ctx []) @ CRLF"
| "encode_chunks C ctx (d # ds) =
     chunk_header C (length d) (chunk_mac C ctx [d]) @ d @ CRLF @
     encode_chunks C (ctx\<lparr>ctx_prev_signature := chunk_mac C ctx [d]\<rparr>) ds"

lemma hex_of_facts:
  "list_all is_hex_digit (hex_of n) \<and> list_all is_lowercase_hex (hex_of n) \<and> hex_of n \<noteq> [] \<and> hex_number (hex_of n) = n"
proof (induction n rule: hex_of.induct)
  case (1 n)
  have num: "hex_number (s @ [c]) = 16 * hex_number s + (case hex_value c of Some v \<Rightarrow> v | None \<Rightarrow> 0)" for s c
    by (simp add: hex_number_def)
  show ?case
  proof (cases "n < 16")
    case True
    with nibble_hex_facts [of n] show ?thesis
      by (simp add: hex_of.simps [of n] is_hex_digit_def hex_number_def)
  next
    case False
    with 1 nibble_hex_facts [of "n mod 16"] show ?thesis
      by (simp add: hex_of.simps [of n] is_hex_digit_def num)
  qed
qed

lemma length_hex_of: "n < 16 ^ Suc k \<Longrightarrow> length (hex_of n) \<le> Suc k"
proof (induction k arbitrary: n)
  case 0
  then show ?case by (simp add: hex_of.simps [of n])
next
  case (Suc k)
  show ?case
  proof (cases "n < 16")
    case False
    have "n div 16 < 16 ^ Suc k" using Suc.prems by (simp add: less_mult_imp_div_less)
    with Suc.IH [of "n div 16"] False show ?thesis by (simp add: hex_of.simps [of n])
  qed (simp add: hex_of.simps [of n])
qed

lemma takeWhile_all: "list_all P a \<Longrightarrow> \<not> P c \<Longrightarrow> takeWhile P (a @ c # r) = a \<and> dropWhile P (a @ c # r) = c # r"
  by (induction a) auto

lemma parse_chunk_header:
  assumes "nom_contract N" and "n < 2 ^ 32" and "length sig = 64"
  shows "parse_chunk_meta N (hex_of n @ '';chunk-signature='' @ sig @ CRLF) =
    Some ([], \<lparr>chunk_size = n, chunk_signature = Some sig\<rparr>)"
proof -
  define t where "t = '';chunk-signature='' @ sig @ CRLF"
  obtain u where u: "t = CHR '';'' # u" by (simp add: t_def)
  have dig: "list_all is_hex_digit (hex_of n)" "hex_of n \<noteq> []" "hex_number (hex_of n) = n" using hex_of_facts by blast+
  have "list_all (\<lambda>c. \<not> (c = CHR '';'' \<or> c = CR)) (hex_of n)"
    using dig(1) by (auto simp: list_all_iff is_hex_digit_def hex_value_def byte_in_def)
  from takeWhile_all [OF this, of "CHR '';''" u]
  have till: "take_till1 N (\<lambda>c. c = CHR '';'' \<or> c = CR) (hex_of n @ t) = Some (t, hex_of n)"
    using dig(2) by (simp add: u nom_contract.take_till1_eq [OF assms(1)])
  have len: "length (hex_of n) \<le> 8" using length_hex_of [of n 7] assms(2) by simp
  have tw: "takeWhile is_hex_digit (hex_of n) = hex_of n"
    using dig(1) by (subst takeWhile_eq_all_conv) (simp add: list_all_iff)
  have hex: "hex_u32 N (hex_of n) = Some ([], n)"
    unfolding nom_contract.hex_u32_eq [OF assms(1)] Let_def tw using dig len by simp
  have ext: "parse_signature_extension N t = Some ([], sig)"
    using assms(3) by (simp add: t_def parse_signature_extension_def nom_contract.tag_eq [OF assms(1)]
        nom_contract.take_bytes_eq [OF assms(1)])
  show ?thesis unfolding parse_chunk_meta_def t_def [symmetric] till by (simp add: hex ext)
qed

lemma lower_hex_clean: "is_lowercase_hex c \<Longrightarrow> c \<noteq> LF \<and> byte_in 0 127 c"
  by (auto simp: is_lowercase_hex_def is_ascii_digit_def byte_in_def)

lemma check_own_signature:
  assumes "crypto_contract C"
  shows "check_signature C ctx (hex_lower C (chunk_mac C ctx data)) data = Some (chunk_mac C ctx data)"
proof -
  let ?m = "chunk_mac C ctx data"
  have m: "length ?m = 32" by (simp add: chunk_mac_def crypto_contract.mac_length [OF assms])
  note h = crypto_contract.hex_lower_form [OF assms m]
  then have "is_utf8 (hex_lower C ?m)"
    using lower_hex_clean by (intro is_utf8_ascii) (auto simp: is_sha256_checksum_def list_all_iff)
  with h m show ?thesis
    by (simp add: check_signature_Some Sha256Sum_from_hex_def crypto_contract.hex_decode_lower [OF assms m])
qed

text \<open>One round of the decoder on the header of a client.\<close>

lemma decode_header:
  assumes "crypto_contract C" and "nom_contract N" and "n < 2 ^ 32" and "length s = 32" and "n \<le> mx"
  shows "decode (Suc k) N C W ctx unsigned_mode mx (chunk_header C n s @ v, e) =
    (case chunk_spec C ctx \<lparr>chunk_size = n, chunk_signature = Some (hex_lower C s)\<rparr> (v, e) of
       (d, Inl x) \<Rightarrow> Some (d, Inl (strip_size x))
     | (d, Inr (ctx', v')) \<Rightarrow>
         (if n = 0 then Some (d, trailers_spec C W ctx' unsigned_mode (v', e))
          else (case decode k N C W ctx' unsigned_mode mx (v', e) of
              None \<Rightarrow> None | Some (d', r) \<Rightarrow> Some (d @ d', r))))"
proof -
  define pre where "pre = hex_of n @ '';chunk-signature='' @ hex_lower C s @ [CR]"
  have hex: "is_sha256_checksum (hex_lower C s)" by (rule crypto_contract.hex_lower_form [OF assms(1,4)])
  then have sig: "length (hex_lower C s) = 64" by (simp add: is_sha256_checksum_def)
  have w: "chunk_header C n s @ v = pre @ LF # v" by (simp add: chunk_header_def pre_def)
  have "list_all (\<lambda>c. c \<noteq> LF) pre"
    using hex_of_facts [of n] hex lower_hex_clean by (auto simp: pre_def is_sha256_checksum_def list_all_iff)
  from takeWhile_all [OF this, of LF v] have line: "takeWhile (\<lambda>c. c \<noteq> LF) (pre @ LF # v) = pre" by simp
  have "length (hex_of n) \<le> 8" using length_hex_of [of n 7] assms(3) by simp
  then have small: "length pre < MAX_CHUNK_META_SIZE" using sig by (simp add: pre_def MAX_CHUNK_META_SIZE_def)
  then have "LF \<in> set (take MAX_CHUNK_META_SIZE (pre @ LF # v))" by (simp add: take_Cons')
  then have lim: "\<not> meta_too_large (pre @ LF # v)" by (simp add: meta_too_large_def)
  have meta: "parse_chunk_meta N (pre @ [LF]) = Some ([], \<lparr>chunk_size = n, chunk_signature = Some (hex_lower C s)\<rparr>)"
    using parse_chunk_header [OF assms(2,3) sig] by (simp add: pre_def)
  show ?thesis
    using lim line meta assms(5) unfolding w by (simp add: Let_def split: prod.splits sum.splits)
qed

lemma decode_encoded:
  assumes C: "crypto_contract C" and N: "nom_contract N"
    and "\<forall>d \<in> set ds. d \<noteq> [] \<and> length d \<le> mx \<and> length d < 2 ^ 32"
  shows "decode (Suc (length ds) + k) N C W ctx unsigned_mode mx (encode_chunks C ctx ds, None) = Some (concat ds, Inr None)"
  using assms(3)
proof (induction ds arbitrary: ctx)
  case Nil
  have m: "length (chunk_mac C ctx x) = 32" for x by (simp add: chunk_mac_def crypto_contract.mac_length [OF C])
  have "decode (Suc k) N C W ctx unsigned_mode mx (chunk_header C 0 (chunk_mac C ctx []) @ CRLF, None) = Some ([], Inr None)"
    using decode_header [OF C N _ m [of "[]"], of 0 mx k W ctx unsigned_mode CRLF None]
    by (simp add: chunk_spec_def data_spec_def check_own_signature [OF C] trailers_spec_def read_and_verify_trailers_def
        MAX_TRAILERS_SIZE_def)
  then show ?case by simp
next
  case (Cons d ds)
  let ?m = "chunk_mac C ctx [d]"
  let ?rest = "encode_chunks C (ctx\<lparr>ctx_prev_signature := ?m\<rparr>) ds"
  have m: "length ?m = 32" by (simp add: chunk_mac_def crypto_contract.mac_length [OF C])
  have data: "data_spec (length d) (d @ CRLF @ ?rest, None) = Inr (d, ?rest)"
    using Cons.prems by (simp add: data_spec_Inr)
  have "decode (Suc (Suc (length ds) + k)) N C W ctx unsigned_mode mx
      (chunk_header C (length d) ?m @ d @ CRLF @ ?rest, None) = Some (d @ concat ds, Inr None)"
    using Cons decode_header [OF C N _ m, of "length d" mx "Suc (length ds) + k" W ctx unsigned_mode "d @ CRLF @ ?rest" None] data
    by (simp add: chunk_spec_def check_own_signature [OF C])
  then show ?case by simp
qed

lemma encode_chunks_length:
  assumes "crypto_contract C"
  shows "Suc (length ds) \<le> length (encode_chunks C ctx ds)"
proof (induction ds arbitrary: ctx)
  case (Cons d ds)
  from Cons [of "ctx\<lparr>ctx_prev_signature := chunk_mac C ctx [d]\<rparr>"] show ?case by simp
qed (simp add: chunk_header_def)

text \<open>
  C6: a correctly signed upload is decoded to its data: for every list of non-empty chunks within the
  size limit and every transport that delivers their encoding, in any fragments, the decoder ends without
  an error and hands out exactly the data of the chunks.
\<close>

theorem chunked_roundtrip:
  assumes "byte_search M" and C: "crypto_contract C" and N: "nom_contract N"
    and ds: "\<forall>d \<in> set ds. d \<noteq> [] \<and> length d \<le> mx \<and> length d < 2 ^ 32"
    and body: "body_flow body = (encode_chunks C ctx ds, None)"
  shows "\<exists>ys. worker (length (fst (body_flow body)) + 2) M N C W ctx unsigned_mode mx body [] = Some (ys, Inr None) \<and>
    concat ys = concat ds"
proof -
  let ?k = "length (fst (body_flow body)) + 2"
  obtain j where j: "?k = Suc (length ds) + j"
    using encode_chunks_length [OF C, of ds ctx] body by (metis fst_conv le_iff_add trans_le_add1)
  have fl: "flow [] body = (encode_chunks C ctx ds, None)" using body by (simp add: flow_def)
  have "decode ?k N C W ctx unsigned_mode mx (flow [] body) = Some (concat ds, Inr None)"
    unfolding fl j by (rule decode_encoded [OF C N ds])
  then have "agrees (worker ?k memchr_ref N C W ctx unsigned_mode mx body []) (Some (concat ds, Inr None))"
    using worker_decode [OF C, of ?k N W ctx unsigned_mode mx body "[]"] by metis
  then obtain ys r where "worker ?k memchr_ref N C W ctx unsigned_mode mx body [] = Some (ys, r)"
    "concat ys = concat ds" "map_sum strip_size id r = Inr None"
    by (auto simp: agrees_def)
  then show ?thesis unfolding byte_search.crate_unique [OF assms(1)] by (cases r) auto
qed

theorem chunked_roundtrip_witness:
  "\<exists>ys. worker (length (encode_chunks plain_crypto plain_ctx [''hi'', ''you'']) + 2) memchr_ref nom_ref plain_crypto
     plain_http plain_ctx False 100
     [Inr (take 9 (encode_chunks plain_crypto plain_ctx [''hi'', ''you''])),
      Inr (drop 9 (encode_chunks plain_crypto plain_ctx [''hi'', ''you'']))] [] = Some (ys, Inr None) \<and>
   concat ys = ''hiyou''"
  using chunked_roundtrip [OF ref_search.byte_search_axioms plain.crypto_contract_axioms nom_reference.nom_contract_axioms,
      of "[''hi'', ''you'']" 100 "[Inr (take 9 (encode_chunks plain_crypto plain_ctx [''hi'', ''you''])),
      Inr (drop 9 (encode_chunks plain_crypto plain_ctx [''hi'', ''you'']))]" plain_ctx plain_http False]
  by (simp del: encode_chunks.simps worker.simps)

theorem signed_mode_only_verified_witness:
  "\<exists>ys cs. worker (length (encode_chunks plain_crypto plain_ctx [''hi'']) + 2) memchr_ref nom_ref plain_crypto
     plain_http plain_ctx False 100 [Inr (encode_chunks plain_crypto plain_ctx [''hi''])] [] = Some (ys, Inr None) \<and>
   chained plain_crypto plain_ctx cs \<and> ys = concat (map snd cs) \<and> concat ys = ''hi''"
proof -
  let ?b = "[Inr (encode_chunks plain_crypto plain_ctx [''hi''])] :: body"
  let ?k = "length (encode_chunks plain_crypto plain_ctx [''hi'']) + 2"
  have fl: "flow [] ?b = (encode_chunks plain_crypto plain_ctx [''hi''], None)" by (simp add: flow_def del: encode_chunks.simps)
  have "Suc (length [''hi'']) \<le> ?k"
    using encode_chunks_length [OF plain.crypto_contract_axioms, of "[''hi'']" plain_ctx] by linarith
  then obtain j where j: "?k = Suc (length [''hi'']) + j" using le_iff_add by blast
  have "decode ?k nom_ref plain_crypto plain_http plain_ctx False 100 (flow [] ?b) = Some (concat [''hi''], Inr None)"
    unfolding fl j by (rule decode_encoded [OF plain.crypto_contract_axioms nom_reference.nom_contract_axioms]) simp
  then have "agrees (worker ?k memchr_ref nom_ref plain_crypto plain_http plain_ctx False 100 ?b []) (Some (''hi'', Inr None))"
    using worker_decode [OF plain.crypto_contract_axioms, of ?k nom_ref plain_http plain_ctx False 100 ?b "[]"] by simp
  then obtain ys r where ys: "worker ?k memchr_ref nom_ref plain_crypto plain_http plain_ctx False 100 ?b [] = Some (ys, r)"
    and c: "concat ys = ''hi''" and r: "map_sum strip_size id r = Inr None"
    by (auto simp: agrees_def simp del: worker.simps encode_chunks.simps)
  from r have "r = Inr None" by (cases r) auto
  with signed_mode_only_verified [OF ys] ys c show ?thesis by blast
qed

theorem signed_trailers_verified_witness:
  "\<exists>body ys hm cs entries provided.
     worker 1 memchr_ref nom_ref plain_crypto plain_http plain_ctx False 100 body [] = Some (ys, Inr (Some hm)) \<and>
     chained plain_crypto plain_ctx cs \<and> ys = concat (map snd cs) \<and>
     build_header_map plain_http entries [] = Some hm \<and>
     Sha256Sum_from_hex plain_crypto provided =
       Some (trailer_mac plain_crypto (chain_end plain_crypto plain_ctx cs) (trailer_text entries))"
proof -
  define ctx where "ctx = plain_ctx\<lparr>ctx_prev_signature := chunk_mac plain_crypto plain_ctx []\<rparr>"
  define h where "h = hex_lower plain_crypto (trailer_mac plain_crypto ctx (''a:1'' @ [LF]))"
  define v where "v = ''a:1'' @ CRLF @ ''x-amz-trailer-signature:'' @ h @ CRLF"
  have h: "h = ''3033303330333033303330333033303330333033303330333033303330333033''"
    unfolding h_def ctx_def by code_simp
  have lines: "trailer_lines memchr_ref (split_on LF v) [] None 0 = Inr ([(''a'', ''1'')], Some h)"
    unfolding v_def h by code_simp
  have sum: "Sha256Sum_from_hex plain_crypto h = Some (trailer_mac plain_crypto ctx (''a:1'' @ [LF]))" "is_utf8 h"
  proof -
    have "is_sha256_checksum h" "is_utf8 h" unfolding h by code_simp+
    moreover have m: "length (trailer_mac plain_crypto ctx (''a:1'' @ [LF])) = 32" by (simp add: trailer_mac_def plain.mac_length)
    ultimately show "Sha256Sum_from_hex plain_crypto h = Some (trailer_mac plain_crypto ctx (''a:1'' @ [LF]))" "is_utf8 h"
      using plain.hex_decode_lower [OF m] by (simp_all add: Sha256Sum_from_hex_def h_def)
  qed
  have len: "length h = 64" using sum(1) by (auto simp: Sha256Sum_from_hex_def is_sha256_checksum_def split: if_splits)
  have parse: "parse_trailing_headers memchr_ref v = Inr (''a:1'' @ [LF], Some h, [(''a'', ''1'')])"
    by (simp add: parse_trailing_headers_def lines MAX_TRAILERS_SIZE_def Let_def)
  have v: "v \<noteq> []" "v \<noteq> CRLF" "length v \<le> MAX_TRAILERS_SIZE" using len by (auto simp: v_def MAX_TRAILERS_SIZE_def)
  have "read_and_verify_trailers memchr_ref plain_crypto [] v ctx False = Some (Inr ([(''a'', ''1'')], []))"
    using sum v by (simp add: read_and_verify_trailers_def parse trailer_mac_def hex_bytes32_def
        calculate_signature_with_key_def hmac_sha256_def)
  then have tr: "trailers_spec plain_crypto plain_http ctx False (v, None) = Inr (Some [(''a'', ''1'')])"
    using v by (simp add: trailers_spec_def plain_http_def)
  let ?m = "chunk_mac plain_crypto plain_ctx []"
  let ?b = "[Inr (chunk_header plain_crypto 0 ?m @ v)] :: body"
  have m: "length ?m = 32" by (simp add: chunk_mac_def plain.mac_length)
  have "decode 1 nom_ref plain_crypto plain_http plain_ctx False 100 (flow [] ?b) = Some ([], Inr (Some [(''a'', ''1'')]))"
    using decode_header [OF plain.crypto_contract_axioms nom_reference.nom_contract_axioms _ m,
        of 0 100 0 plain_http plain_ctx False v None] tr
    by (simp add: chunk_spec_def data_spec_def check_own_signature [OF plain.crypto_contract_axioms] ctx_def
        del: decode.simps)
  then have "agrees (worker 1 memchr_ref nom_ref plain_crypto plain_http plain_ctx False 100 ?b [])
      (Some ([], Inr (Some [(''a'', ''1'')])))"
    using worker_decode [OF plain.crypto_contract_axioms, of 1 nom_ref plain_http plain_ctx False 100 ?b "[]"] by metis
  then obtain ys r where run: "worker 1 memchr_ref nom_ref plain_crypto plain_http plain_ctx False 100 ?b [] = Some (ys, r)"
    and r: "map_sum strip_size id r = Inr (Some [(''a'', ''1'')])"
    by (auto simp: agrees_def simp del: worker.simps One_nat_def)
  from r have "r = Inr (Some [(''a'', ''1'')])" by (cases r) auto
  with run have run: "worker 1 memchr_ref nom_ref plain_crypto plain_http plain_ctx False 100 ?b [] =
      Some (ys, Inr (Some [(''a'', ''1'')]))" by simp
  from signed_trailers_verified [OF run] run show ?thesis by blast
qed

subsection \<open>The declared length\<close>

text \<open>A consumer that reads until the stream ends or fails: the bytes it got, and the error if any.\<close>

fun consume_stream :: "nat \<Rightarrow> aws_chunked_stream \<Rightarrow> (bytes \<times> ac_error option) option" where
  "consume_stream 0 st = None"
| "consume_stream (Suc k) st =
     (case AwsChunkedStream_poll st of
        (None, st') \<Rightarrow> Some ([], None)
      | (Some (Inl e), st') \<Rightarrow> Some ([], Some e)
      | (Some (Inr bs), st') \<Rightarrow> map_option (map_prod ((@) bs) id) (consume_stream k st'))"

text \<open>
  C28: the declared decoded length is enforced: a consumer never receives more bytes than were declared,
  and it sees the end of the stream without an error exactly when the worker produced no error and its
  chunks add up to the declared length.
\<close>

theorem declared_length_enforced:
  assumes "length (inner st) < fuel"
  shows "\<exists>bs err. consume_stream fuel st = Some (bs, err) \<and> length bs \<le> remaining_length st \<and>
    (err = None \<longleftrightarrow> (\<exists>ys. inner st = map Inr ys \<and> length (concat ys) = remaining_length st \<and> bs = concat ys))"
  using assms
proof (induction fuel arbitrary: st)
  case (Suc fuel)
  show ?case
  proof (cases "inner st")
    case Nil
    then show ?thesis by (auto simp: AwsChunkedStream_poll_def)
  next
    case (Cons x rest)
    show ?thesis
    proof (cases x)
      case (Inl e)
      with Cons show ?thesis by (auto simp: AwsChunkedStream_poll_def)
    next
      case (Inr c)
      show ?thesis
      proof (cases "c \<noteq> [] \<and> length c > remaining_length st")
        case True
        with Cons Inr have "consume_stream (Suc fuel) st = Some ([], Some LengthMismatch)"
          by (simp add: AwsChunkedStream_poll_def)
        moreover have "\<not> (\<exists>ys. inner st = map Inr ys \<and> length (concat ys) = remaining_length st)"
          using True Cons Inr by (auto simp: Cons_eq_map_conv)
        ultimately show ?thesis by auto
      next
        case False
        let ?st = "st\<lparr>inner := rest, remaining_length := remaining_length st - length c\<rparr>"
        have le: "length c \<le> remaining_length st" using False by auto
        have run: "consume_stream (Suc fuel) st = map_option (map_prod ((@) c) id) (consume_stream fuel ?st)"
          using False Cons Inr by (auto simp: AwsChunkedStream_poll_def)
        have "length (inner ?st) < fuel" using Suc.prems Cons by simp
        from Suc.IH [OF this] obtain bs err where
          IH: "consume_stream fuel ?st = Some (bs, err)" "length bs \<le> remaining_length st - length c"
          "err = None \<longleftrightarrow> (\<exists>ys. rest = map Inr ys \<and> length (concat ys) = remaining_length st - length c \<and> bs = concat ys)"
          by auto
        have "(\<exists>ys. inner st = map Inr ys \<and> length (concat ys) = remaining_length st \<and> c @ bs = concat ys) \<longleftrightarrow>
            (\<exists>ys. rest = map Inr ys \<and> length (concat ys) = remaining_length st - length c \<and> bs = concat ys)"
          using le Cons Inr by (auto simp: Cons_eq_map_conv intro: exI [of _ "c # ys" for ys])
        with run IH le show ?thesis by simp
      qed
    qed
  qed
qed simp

theorem declared_length_enforced_witness:
  "\<exists>bs err. consume_stream 3 \<lparr>inner = [Inr ''ab'', Inr ''c''], remaining_length = 3, trailers = None\<rparr> = Some (bs, err) \<and>
     bs = ''abc'' \<and> err = None"
proof -
  let ?st = "\<lparr>inner = [Inr ''ab'', Inr ''c''], remaining_length = 3, trailers = None\<rparr>"
  have "inner ?st = map Inr [''ab'', ''c''] \<and> length (concat [''ab'', ''c'']) = remaining_length ?st" by simp
  with declared_length_enforced [of ?st 3] show ?thesis
    by (auto simp: AwsChunkedStream_poll_def numeral_eq_Suc)
qed

subsection \<open>Observed deviations\<close>

text \<open>The encoding of a client that stops before the empty last chunk.\<close>

fun encode_open :: "crypto_api \<Rightarrow> signature_ctx \<Rightarrow> bytes list \<Rightarrow> bytes" where
  "encode_open C ctx [] = []"
| "encode_open C ctx (d # ds) =
     chunk_header C (length d) (chunk_mac C ctx [d]) @ d @ CRLF @
     encode_open C (ctx\<lparr>ctx_prev_signature := chunk_mac C ctx [d]\<rparr>) ds"

lemma decode_open:
  assumes C: "crypto_contract C" and N: "nom_contract N"
    and "\<forall>d \<in> set ds. d \<noteq> [] \<and> length d \<le> mx \<and> length d < 2 ^ 32"
  shows "decode (Suc (length ds) + k) N C W ctx unsigned_mode mx (encode_open C ctx ds, None) = Some (concat ds, Inr None)"
  using assms(3)
proof (induction ds arbitrary: ctx)
  case (Cons d ds)
  let ?m = "chunk_mac C ctx [d]"
  let ?rest = "encode_open C (ctx\<lparr>ctx_prev_signature := ?m\<rparr>) ds"
  have m: "length ?m = 32" by (simp add: chunk_mac_def crypto_contract.mac_length [OF C])
  have data: "data_spec (length d) (d @ CRLF @ ?rest, None) = Inr (d, ?rest)"
    using Cons.prems by (simp add: data_spec_Inr)
  have "decode (Suc (Suc (length ds) + k)) N C W ctx unsigned_mode mx
      (chunk_header C (length d) ?m @ d @ CRLF @ ?rest, None) = Some (d @ concat ds, Inr None)"
    using Cons decode_header [OF C N _ m, of "length d" mx "Suc (length ds) + k" W ctx unsigned_mode "d @ CRLF @ ?rest" None] data
    by (simp add: chunk_spec_def check_own_signature [OF C])
  then show ?case by simp
qed (simp add: meta_too_large_def)

text \<open>
  A signed upload that is cut right after a data chunk, so that the empty last chunk and the trailers
  with their signatures are missing, is decoded without an error, to the data received so far; only the
  declared length can still tell it from a complete one.
\<close>

theorem truncated_upload_accepted:
  assumes "byte_search M" and C: "crypto_contract C" and N: "nom_contract N"
    and ds: "\<forall>d \<in> set ds. d \<noteq> [] \<and> length d \<le> mx \<and> length d < 2 ^ 32"
    and body: "body_flow body = (encode_open C ctx ds, None)"
  shows "\<exists>ys. worker (Suc (length ds)) M N C W ctx False mx body [] = Some (ys, Inr None) \<and> concat ys = concat ds"
proof -
  let ?k = "Suc (length ds)"
  have fl: "flow [] body = (encode_open C ctx ds, None)" using body by (simp add: flow_def)
  have "decode ?k N C W ctx False mx (flow [] body) = Some (concat ds, Inr None)"
    unfolding fl using decode_open [OF C N ds, of 0 W ctx False] by simp
  then have "agrees (worker ?k memchr_ref N C W ctx False mx body []) (Some (concat ds, Inr None))"
    using worker_decode [OF C, of ?k N W ctx False mx body "[]"] by metis
  then obtain ys r where "worker ?k memchr_ref N C W ctx False mx body [] = Some (ys, r)"
    "concat ys = concat ds" "map_sum strip_size id r = Inr None"
    by (auto simp: agrees_def simp del: worker.simps)
  then show ?thesis unfolding byte_search.crate_unique [OF assms(1)] by (cases r) auto
qed

theorem truncated_upload_accepted_witness:
  "\<exists>ys. worker (Suc (length [''hi''])) memchr_ref nom_ref plain_crypto plain_http plain_ctx False 100
     [Inr (encode_open plain_crypto plain_ctx [''hi''])] [] = Some (ys, Inr None) \<and> concat ys = concat [''hi'']"
  by (rule truncated_upload_accepted [OF ref_search.byte_search_axioms plain.crypto_contract_axioms
        nom_reference.nom_contract_axioms]) simp_all

text \<open>
  Metadata over the limit ends the upload with an error that the service reports as an internal
  error, although the error code for the limit is \<^verbatim>\<open>EntityTooLarge\<close>: the limit error arrives boxed inside
  \<^verbatim>\<open>Underlying\<close>.
\<close>

theorem oversized_meta_internal_error:
  assumes "byte_search M" and "meta_too_large (prev @ fst (body_flow body))"
  shows "\<exists>x. worker (Suc fuel) M N C W ctx unsigned_mode mx body prev = Some ([], Inl x) \<and>
    to_s3_error_code x = InternalError \<and> to_s3_error_code (ChunkMetaTooLarge n MAX_CHUNK_META_SIZE) = EntityTooLarge"
proof -
  obtain r buf body' where rd: "read_meta_bytes memchr_ref body prev = (r, buf, body')" by (metis prod_cases3)
  have "meta_post r buf body' (prev @ fst (body_flow body), snd (body_flow body))"
    using read_meta_bytes_post [OF rd] by (simp add: flow_def)
  with assms(2) obtain x where "r = Some (Inl x)"
    by (cases "(r, buf, body', prev @ fst (body_flow body), snd (body_flow body))" rule: meta_post.cases) auto
  with rd show ?thesis unfolding byte_search.crate_unique [OF assms(1)] by simp
qed

theorem oversized_meta_internal_error_witness:
  "\<exists>x. worker 1 memchr_ref nom_ref plain_crypto plain_http plain_ctx False 100 [Inr (replicate 1025 CHR ''f'')] [] = Some ([], Inl x) \<and>
     to_s3_error_code x = InternalError"
  using oversized_meta_internal_error [OF ref_search.byte_search_axioms, of "[]" "[Inr (replicate 1025 CHR ''f'')]" 0
      nom_ref plain_crypto plain_http plain_ctx False 100]
  by (simp add: meta_too_large_def MAX_CHUNK_META_SIZE_def del: worker.simps)

end
