(* ===== verification/Policy_Pattern.thy ===== *)
theory Policy_Pattern
  imports Prelude
begin

text \<open>
  The wildcard matcher of the policy crate (s3s-policy/src/pattern.rs): the backtracking loop of
  \<open>match_pattern\<close>, kept with the indices and the \<open>usize::MAX - 1\<close> sentinels of the source, and the
  set of patterns around it.  The loop may in principle run forever, so it is a partial function and
  its result is an option; the theorems show that it returns, and that it decides the language of the
  pattern.
\<close>

section \<open>The program\<close>

definition USIZE_MAX :: nat where
  "USIZE_MAX = 2 ^ 64 - 1"

definition ISIZE_MAX :: nat where
  "ISIZE_MAX = 2 ^ 63 - 1"

datatype pattern_error = InvalidPattern

text \<open>One turn of the loop of \<open>match_pattern\<close>; the four variables are its arguments.\<close>

partial_function (option) match_loop ::
    "bytes \<Rightarrow> bytes \<Rightarrow> nat \<Rightarrow> nat \<Rightarrow> nat \<Rightarrow> nat \<Rightarrow> bool option" where
  "match_loop pattern input p_idx s_idx p_back s_back =
    (if p_idx < length pattern \<and> pattern ! p_idx = CHR ''*''
     then match_loop pattern input (p_idx + 1) s_idx (p_idx + 1) s_idx
     else if p_idx < length pattern \<and> s_idx < length input
       \<and> (pattern ! p_idx = input ! s_idx \<or> pattern ! p_idx = CHR ''?'')
     then match_loop pattern input (p_idx + 1) (s_idx + 1) p_back s_back
     else if \<not> p_idx < length pattern \<and> s_idx = length input then Some True
     else if p_back = length pattern then Some True
     else if s_back + 1 < length input
     then match_loop pattern input p_back (s_back + 1) p_back (s_back + 1)
     else Some False)"

declare match_loop.simps [code]

definition match_pattern :: "bytes \<Rightarrow> bytes \<Rightarrow> bool option" where
  "match_pattern pattern input = match_loop pattern input 0 0 (USIZE_MAX - 1) (USIZE_MAX - 1)"

definition parse_pattern :: "bytes \<Rightarrow> pattern_error + bytes" where
  "parse_pattern pattern = (if pattern = [] then Inl InvalidPattern else Inr pattern)"

fun PatternSet_new :: "bytes list \<Rightarrow> pattern_error + bytes list" where
  "PatternSet_new [] = Inr []"
| "PatternSet_new (p # ps) = (case parse_pattern p of Inl e \<Rightarrow> Inl e
     | Inr q \<Rightarrow> (case PatternSet_new ps of Inl e \<Rightarrow> Inl e | Inr qs \<Rightarrow> Inr (q # qs)))"

fun is_match :: "bytes list \<Rightarrow> bytes \<Rightarrow> bool option" where
  "is_match [] input = Some False"
| "is_match (p # ps) input = (case match_pattern p input of
      None \<Rightarrow> None
    | Some b \<Rightarrow> if b then Some True else is_match ps input)"

section \<open>The language of a pattern\<close>

fun wild :: "bytes \<Rightarrow> bytes \<Rightarrow> bool" where
  "wild [] s = (s = [])"
| "wild (p # ps) s =
     (if p = CHR ''*'' then list_ex (\<lambda>k. wild ps (drop k s)) [0..<Suc (length s)]
      else case s of [] \<Rightarrow> False | c # cs \<Rightarrow> (p = c \<or> p = CHR ''?'') \<and> wild ps cs)"

text \<open>A star-free segment matches a block of the same length, byte by byte.\<close>

fun seg_match :: "bytes \<Rightarrow> bytes \<Rightarrow> bool" where
  "seg_match [] s = True"
| "seg_match (p # ps) s =
     (p \<noteq> CHR ''*'' \<and> (case s of [] \<Rightarrow> False | c # cs \<Rightarrow> (p = c \<or> p = CHR ''?'') \<and> seg_match ps cs))"

lemma wild_star: "wild (CHR ''*'' # ps) s \<longleftrightarrow> (\<exists>k \<le> length s. wild ps (drop k s))"
proof -
  have "set [0..<Suc (length s)] = {k. k \<le> length s}" by auto
  then show ?thesis by (simp only: wild.simps if_True list_ex_iff Bex_def mem_Collect_eq simp_thms)
qed

lemma wild_star_any: "wild (CHR ''*'' # ps) s \<longleftrightarrow> (\<exists>k. wild ps (drop k s))"
proof -
  have "wild ps (drop k s) \<Longrightarrow> wild ps (drop (min k (length s)) s)" for k
    by (cases "k \<le> length s") (auto simp: min_def)
  then show ?thesis by (metis wild_star min.cobounded2)
qed

lemma wild_segment:
  "CHR ''*'' \<notin> set seg \<Longrightarrow> wild (seg @ rest) s \<longleftrightarrow> seg_match seg s \<and> wild rest (drop (length seg) s)"
  by (induction seg arbitrary: s) (auto split: list.splits)

lemma seg_match_snoc:
  "seg_match (seg @ [p]) s \<longleftrightarrow>
    seg_match seg s \<and> length seg < length s \<and> p \<noteq> CHR ''*'' \<and> (p = s ! length seg \<or> p = CHR ''?'')"
  by (induction seg arbitrary: s) (auto split: list.splits)

lemma seg_match_no_star: "seg_match seg s \<Longrightarrow> CHR ''*'' \<notin> set seg"
  by (induction seg arbitrary: s) (auto split: list.splits)

section \<open>The loop decides it\<close>

text \<open>The segment of the pattern between two indices.\<close>

definition between :: "nat \<Rightarrow> nat \<Rightarrow> bytes \<Rightarrow> bytes" where
  "between i j xs = take (j - i) (drop i xs)"

lemma between_drop: "i \<le> j \<Longrightarrow> drop i xs = between i j xs @ drop j xs"
  by (simp add: between_def) (metis add_diff_inverse_nat append_take_drop_id drop_drop
    not_less add.commute)

lemma length_between: "i \<le> j \<Longrightarrow> j \<le> length xs \<Longrightarrow> length (between i j xs) = j - i"
  by (simp add: between_def)

lemma between_Suc: "i \<le> j \<Longrightarrow> j < length xs \<Longrightarrow> between i (Suc j) xs = between i j xs @ [xs ! j]"
  by (simp add: between_def Suc_diff_le take_Suc_conv_app_nth)

lemma between_refl [simp]: "between i i xs = []"
  by (simp add: between_def)

text \<open>Once a star has been read, the loop has matched the segment after the last star against the
  input from \<open>s_back\<close>, and what remains to decide is a match of the tail of the pattern somewhere
  from \<open>s_back\<close> on.\<close>

definition star_inv :: "bytes \<Rightarrow> bytes \<Rightarrow> nat \<Rightarrow> nat \<Rightarrow> nat \<Rightarrow> nat \<Rightarrow> bool" where
  "star_inv pat inp p s pb sb \<longleftrightarrow> pb \<le> p \<and> p \<le> length pat \<and> sb \<le> s \<and> s \<le> length inp
     \<and> s - sb = p - pb \<and> seg_match (between pb p pat) (drop sb inp)"

definition from_on :: "bytes \<Rightarrow> bytes \<Rightarrow> nat \<Rightarrow> nat \<Rightarrow> bool" where
  "from_on pat inp pb sb \<longleftrightarrow> (\<exists>k \<ge> sb. wild (drop pb pat) (drop k inp))"

lemma from_on_Suc: "from_on pat inp pb sb \<longleftrightarrow> wild (drop pb pat) (drop sb inp) \<or> from_on pat inp pb (Suc sb)"
  by (auto simp: from_on_def) (metis Suc_leI le_neq_implies_less Suc_leD)+

lemma star_inv_wild:
  assumes "star_inv pat inp p s pb sb"
  shows "wild (drop pb pat) (drop sb inp) \<longleftrightarrow> wild (drop p pat) (drop s inp)"
proof -
  have pb: "pb \<le> p" "p \<le> length pat" and sb: "sb \<le> s" "s - sb = p - pb"
    and seg: "seg_match (between pb p pat) (drop sb inp)"
    using assms by (auto simp: star_inv_def)
  have "drop (length (between pb p pat)) (drop sb inp) = drop s inp"
  proof -
    have "p - pb + sb = s" using pb sb by arith
    then show ?thesis using pb by (simp only: length_between drop_drop)
  qed
  then show ?thesis
    using wild_segment [OF seg_match_no_star [OF seg], of "drop p pat" "drop sb inp"] seg
      between_drop [OF pb(1), of pat] by simp
qed

lemma star_inv_next_star:
  assumes inv: "star_inv pat inp p s pb sb" and p: "p < length pat" "pat ! p = CHR ''*''"
  shows "from_on pat inp pb sb \<longleftrightarrow> from_on pat inp (Suc p) s"
proof -
  have pb: "pb \<le> p" "p \<le> length pat" and sb: "sb \<le> s" "s - sb = p - pb"
    and seg: "seg_match (between pb p pat) (drop sb inp)"
    using inv by (auto simp: star_inv_def)
  have split: "drop pb pat = between pb p pat @ CHR ''*'' # drop (Suc p) pat"
    using between_drop [OF pb(1), of pat] Cons_nth_drop_Suc [OF p(1)] p(2) by simp
  have here: "wild (drop pb pat) (drop k inp) \<longleftrightarrow> seg_match (between pb p pat) (drop k inp)
      \<and> (\<exists>j. wild (drop (Suc p) pat) (drop (j + ((p - pb) + k)) inp))" for k
    unfolding split wild_segment [OF seg_match_no_star [OF seg]]
    using pb by (simp only: wild_star_any drop_drop length_between add.assoc)
  show ?thesis
  proof
    assume "from_on pat inp pb sb"
    then obtain k j where k: "sb \<le> k" "wild (drop (Suc p) pat) (drop (j + ((p - pb) + k)) inp)"
      unfolding from_on_def here by auto
    moreover have "s \<le> j + ((p - pb) + k)" using sb k(1) by linarith
    ultimately show "from_on pat inp (Suc p) s" unfolding from_on_def by blast
  next
    assume "from_on pat inp (Suc p) s"
    then obtain k where k: "s \<le> k" "wild (drop (Suc p) pat) (drop k inp)"
      unfolding from_on_def by blast
    have sum: "k + (p - pb + sb) - s = k" using sb by arith
    from k have "wild (drop (Suc p) pat) (drop ((k - s) + ((p - pb) + sb)) inp)"
      using sb by (simp add: sum)
    then have "wild (drop pb pat) (drop sb inp)" unfolding here using seg by blast
    then show "from_on pat inp pb sb" unfolding from_on_def by blast
  qed
qed


lemma star_inv_match:
  assumes "star_inv pat inp p s pb sb" "p < length pat" "s < length inp"
    and "pat ! p \<noteq> CHR ''*''" "pat ! p = inp ! s \<or> pat ! p = CHR ''?''"
  shows "star_inv pat inp (Suc p) (Suc s) pb sb"
proof -
  have "between pb (Suc p) pat = between pb p pat @ [pat ! p]" "length (between pb p pat) = p - pb"
    using assms by (auto simp: star_inv_def between_Suc length_between)
  moreover have "sb + (p - pb) = s" using assms(1) by (auto simp: star_inv_def)
  ultimately show ?thesis
    using assms by (auto simp: star_inv_def seg_match_snoc Suc_diff_le)
qed

lemma star_inv_restart:
  assumes "star_inv pat inp p s pb sb" "sb < length inp"
  shows "star_inv pat inp pb (Suc sb) pb (Suc sb)"
  using assms by (auto simp: star_inv_def)

text \<open>Where neither a star nor a match applies, the tail of the pattern does not match here.\<close>

lemma wild_stuck:
  assumes "p < length pat" "pat ! p \<noteq> CHR ''*''"
    and "\<not> (s < length inp \<and> (pat ! p = inp ! s \<or> pat ! p = CHR ''?''))"
  shows "\<not> wild (drop p pat) (drop s inp)"
proof -
  have "drop p pat = pat ! p # drop (Suc p) pat" using assms(1) by (simp add: Cons_nth_drop_Suc)
  moreover have "drop s inp = (if s < length inp then inp ! s # drop (Suc s) inp else [])"
    by (simp add: Cons_nth_drop_Suc)
  ultimately show ?thesis using assms(2,3) by auto
qed

lemma wild_after_end:
  assumes "p \<ge> length pat" "s < length inp"
  shows "\<not> wild (drop p pat) (drop s inp)"
  using assms by simp

lemma from_on_end:
  assumes inv: "star_inv pat inp p s pb sb" and "pb \<noteq> length pat" "length inp \<le> sb'"
    and no: "\<not> (p < length pat \<and> pat ! p = CHR ''*'')"
  shows "\<not> from_on pat inp pb sb'"
proof -
  have pb: "pb < length pat" using inv assms(2) by (auto simp: star_inv_def)
  have "pat ! pb \<noteq> CHR ''*''"
  proof (cases "pb = p")
    case False
    then have "0 < p - pb" "p - pb \<le> length (drop pb pat)" using inv by (auto simp: star_inv_def)
    then have "pat ! pb \<in> set (between pb p pat)"
      using pb by (auto simp: between_def in_set_conv_nth intro!: exI [of _ 0])
    then show ?thesis using inv seg_match_no_star by (metis star_inv_def)
  qed (use no pb in simp)
  then have "\<not> wild (drop pb pat) (drop k inp)" if "length inp \<le> k" for k
    using wild_stuck [of pb pat k inp] pb that by simp
  then show ?thesis using assms(3) by (auto simp: from_on_def)
qed

lemma match_loop_star:
  "star_inv pat inp p s pb sb \<Longrightarrow>
    match_loop pat inp p s pb sb = Some (from_on pat inp pb sb)"
proof (induction "(length pat - pb, length inp - sb, length pat - p)" arbitrary: p s pb sb
    rule: wf_induct_rule [OF wf_lex_prod [OF wf_less wf_lex_prod [OF wf_less wf_less]]])
  case 1
  note IH = 1(1) and inv = 1(2)
  have b: "pb \<le> p" "p \<le> length pat" "sb \<le> s" "s \<le> length inp"
    using inv by (auto simp: star_inv_def)
  show ?case
  proof (cases "p < length pat \<and> pat ! p = CHR ''*''")
    case star: True
    then have "match_loop pat inp (Suc p) s (Suc p) s = Some (from_on pat inp (Suc p) s)"
      using b by (intro IH) (auto simp: star_inv_def)
    then show ?thesis using star star_inv_next_star [OF inv] by (subst match_loop.simps) simp
  next
    case nostar: False
    show ?thesis
    proof (cases "p < length pat \<and> s < length inp \<and> (pat ! p = inp ! s \<or> pat ! p = CHR ''?'')")
      case step: True
      then have "star_inv pat inp (Suc p) (Suc s) pb sb" using nostar inv star_inv_match by blast
      then have "match_loop pat inp (Suc p) (Suc s) pb sb = Some (from_on pat inp pb sb)"
        using step by (intro IH) auto
      then show ?thesis using step nostar by (subst match_loop.simps) auto
    next
      case stuck: False
      show ?thesis
      proof (cases "(\<not> p < length pat \<and> s = length inp) \<or> pb = length pat")
        case True
        then have "from_on pat inp pb sb"
        proof
          assume "pb = length pat"
          then show ?thesis using b by (auto simp: from_on_def intro!: exI [of _ "length inp"])
        next
          assume "\<not> p < length pat \<and> s = length inp"
          then have "wild (drop pb pat) (drop sb inp)" using star_inv_wild [OF inv] by simp
          then show ?thesis using from_on_Suc by blast
        qed
        then show ?thesis using True stuck nostar by (subst match_loop.simps) auto
      next
        case more: False
        have "\<not> wild (drop p pat) (drop s inp)"
          using stuck nostar more b wild_stuck [of p pat s inp] wild_after_end [of pat p s inp]
          by (cases "p < length pat") auto
        then have skip: "from_on pat inp pb sb = from_on pat inp pb (Suc sb)"
          using star_inv_wild [OF inv] from_on_Suc by blast
        show ?thesis
        proof (cases "sb + 1 < length inp")
          case True
          then have "match_loop pat inp pb (Suc sb) pb (Suc sb) = Some (from_on pat inp pb (Suc sb))"
            using star_inv_restart [OF inv] by (intro IH) auto
          then show ?thesis using True more stuck nostar skip by (subst match_loop.simps) auto
        next
          case False
          then have "\<not> from_on pat inp pb (Suc sb)"
            using from_on_end [OF inv _ _ nostar, of "Suc sb"] more by auto
          then show ?thesis using False more stuck nostar skip by (subst match_loop.simps) auto
        qed
      qed
    qed
  qed
qed


lemma match_loop_no_star:
  assumes "p \<le> length pat" "s \<le> length inp" "length pat \<le> ISIZE_MAX" "length inp \<le> ISIZE_MAX"
  shows "match_loop pat inp p s (USIZE_MAX - 1) (USIZE_MAX - 1) = Some (wild (drop p pat) (drop s inp))"
  using assms(1,2)
proof (induction "length pat - p" arbitrary: p s)
  case 0
  then have "p = length pat" by simp
  moreover have "USIZE_MAX - 1 \<noteq> length pat" "\<not> USIZE_MAX - 1 + 1 < length inp"
    using assms(3,4) by (auto simp: USIZE_MAX_def ISIZE_MAX_def)
  ultimately show ?case using 0 by (subst match_loop.simps) auto
next
  case (Suc n)
  have far: "USIZE_MAX - 1 \<noteq> length pat" "\<not> USIZE_MAX - 1 + 1 < length inp"
    using assms(3,4) by (auto simp: USIZE_MAX_def ISIZE_MAX_def)
  have p: "p < length pat" using Suc.hyps(2) by simp
  then have tail: "drop p pat = pat ! p # drop (Suc p) pat" by (simp add: Cons_nth_drop_Suc)
  consider (star) "pat ! p = CHR ''*''"
    | (step) "pat ! p \<noteq> CHR ''*''" "s < length inp" "pat ! p = inp ! s \<or> pat ! p = CHR ''?''"
    | (stuck) "pat ! p \<noteq> CHR ''*''"
        "\<not> (s < length inp \<and> (pat ! p = inp ! s \<or> pat ! p = CHR ''?''))" by blast
  then show ?case
  proof cases
    case star
    have "match_loop pat inp (Suc p) s (Suc p) s = Some (from_on pat inp (Suc p) s)"
      using p Suc.prems by (intro match_loop_star) (auto simp: star_inv_def)
    moreover have "from_on pat inp (Suc p) s \<longleftrightarrow> wild (drop p pat) (drop s inp)"
      using tail star by (auto simp only: wild_star_any from_on_def drop_drop)
        (metis le_add_diff_inverse2, metis le_add2)
    ultimately show ?thesis using p star by (subst match_loop.simps) simp
  next
    case step
    then have "drop s inp = inp ! s # drop (Suc s) inp" by (simp add: Cons_nth_drop_Suc)
    then have "wild (drop p pat) (drop s inp) = wild (drop (Suc p) pat) (drop (Suc s) inp)"
      using tail step by simp
    then show ?thesis using p step Suc.hyps(1) [of "Suc p" "Suc s"] Suc.hyps(2)
      by (subst match_loop.simps) simp
  next
    case stuck
    then show ?thesis using p far wild_stuck [OF p] by (subst match_loop.simps) auto
  qed
qed

section \<open>Properties\<close>

text \<open>C24: for every pattern and input that fit into memory, the backtracking loop of
  \<open>match_pattern\<close> returns, and it answers true exactly on the inputs of the pattern's byte-wise language: \<open>*\<close>
  stands for any sequence of bytes, \<open>?\<close> for any single byte, every other byte for itself.  Only the last star
  is ever retried, so this says that the earlier ones never need to be.  On ASCII text this is the documented meaning, where \<open>?\<close>
  is any single character; but \<open>?\<close> alone matches exactly the texts of one byte, so that it matches no character that takes
  two or more bytes in UTF-8, which the documentation of the patterns promises.\<close>

theorem match_pattern_decides:
  assumes "length pattern \<le> ISIZE_MAX" "length input \<le> ISIZE_MAX"
  shows "match_pattern pattern input = Some (wild pattern input) \<and> match_pattern ''?'' input = Some (length input = 1)"
proof -
  have "wild ''?'' input \<longleftrightarrow> length input = 1" by (cases input) auto
  then show ?thesis
    using match_loop_no_star [of 0 pattern 0 input] match_loop_no_star [of 0 "''?''" 0 input] assms
    by (simp add: match_pattern_def ISIZE_MAX_def del: wild.simps)
qed

theorem match_pattern_decides_witness:
  "match_pattern ''*abc???def'' ''abcdefabc123def'' = Some True
   \<and> match_pattern ''a*c?b'' ''acdcb'' = Some False"
proof -
  have "wild ''*abc???def'' ''abcdefabc123def''" "\<not> wild ''a*c?b'' ''acdcb''" by code_simp+
  then show ?thesis
    using match_pattern_decides [of "''*abc???def''" "''abcdefabc123def''"]
      match_pattern_decides [of "''a*c?b''" "''acdcb''"]
    by (simp add: ISIZE_MAX_def)
qed

lemma is_match_any:
  assumes "\<forall>p \<in> set ps. length p \<le> ISIZE_MAX" "length input \<le> ISIZE_MAX"
  shows "is_match ps input = Some (\<exists>p \<in> set ps. wild p input)"
  using assms(1)
proof (induction ps)
  case (Cons p ps)
  then have "match_pattern p input = Some (wild p input)"
    using match_loop_no_star [of 0 p 0 input] assms(2) by (simp add: match_pattern_def)
  then show ?case using Cons by simp
qed simp

lemma PatternSet_new_Inr: "PatternSet_new ps = Inr qs \<longleftrightarrow> qs = ps \<and> [] \<notin> set ps"
proof (induction ps arbitrary: qs)
  case (Cons p ps)
  show ?case
  proof (cases "PatternSet_new ps")
    case (Inr rs)
    then show ?thesis using Cons.IH [of rs] by (auto simp: parse_pattern_def)
  next
    case (Inl e)
    then have "[] \<in> set ps" using Cons.IH [of ps] by auto
    then show ?thesis using Inl by (simp add: parse_pattern_def)
  qed
qed auto

text \<open>A pattern set that was built matches an input exactly when one of the patterns it was built
  from does, and it is built exactly when no pattern is empty.\<close>

theorem pattern_set_matches_any:
  assumes "\<forall>p \<in> set ps. length p \<le> ISIZE_MAX" "length input \<le> ISIZE_MAX"
  shows "(case PatternSet_new ps of
      Inl e \<Rightarrow> e = InvalidPattern \<and> [] \<in> set ps
    | Inr qs \<Rightarrow> [] \<notin> set ps \<and> is_match qs input = Some (\<exists>p \<in> set ps. wild p input))"
proof (cases "PatternSet_new ps")
  case (Inl e)
  then have "[] \<in> set ps" using PatternSet_new_Inr [of ps ps] by auto
  then show ?thesis using Inl by (cases e) simp
next
  case (Inr qs)
  then have "qs = ps \<and> [] \<notin> set ps" using PatternSet_new_Inr by blast
  then show ?thesis using is_match_any [OF assms] Inr by simp
qed

theorem pattern_set_matches_any_witness:
  "PatternSet_new [''s3:Get*'', ''s3:List?''] = Inr [''s3:Get*'', ''s3:List?'']
   \<and> is_match [''s3:Get*'', ''s3:List?''] ''s3:GetObject'' = Some True"
proof -
  have new: "PatternSet_new [''s3:Get*'', ''s3:List?''] = Inr [''s3:Get*'', ''s3:List?'']"
    by code_simp
  moreover have "wild ''s3:Get*'' ''s3:GetObject''" by code_simp
  ultimately show ?thesis
    using pattern_set_matches_any [of "[''s3:Get*'', ''s3:List?'']" "''s3:GetObject''"]
    by (simp add: ISIZE_MAX_def del: PatternSet_new.simps is_match.simps wild.simps)
qed

text \<open>\<open>?\<close> consumes one byte, not one character: the two-byte UTF-8 encoding of an accented letter
  is not matched by a single \<open>?\<close>.\<close>

theorem question_mark_is_one_byte:
  "is_utf8 [CHR 0xC3, CHR 0xA9]
   \<and> match_pattern ''?'' [CHR 0xC3, CHR 0xA9] = Some False
   \<and> match_pattern ''??'' [CHR 0xC3, CHR 0xA9] = Some True"
proof -
  have "is_utf8 [CHR 0xC3, CHR 0xA9]" "\<not> wild ''?'' [CHR 0xC3, CHR 0xA9]"
    "wild ''??'' [CHR 0xC3, CHR 0xA9]" by code_simp+
  then show ?thesis
    using match_loop_no_star [of 0 "''?''" 0 "[CHR 0xC3, CHR 0xA9]"]
      match_loop_no_star [of 0 "''??''" 0 "[CHR 0xC3, CHR 0xA9]"]
    by (simp add: match_pattern_def ISIZE_MAX_def del: wild.simps)
qed

end
