(* ===== verification/S3_Path.thy ===== *)
theory S3_Path
  imports Prelude
begin

text \<open>
  Bucket names, object keys and the two request styles (s3s/src/path.rs, s3s/src/validation.rs): which
  bucket and key a request path names.  The bucket name validator is a trait, so the parsers take it as
  an argument; the standard one is \<open>check_bucket_name\<close>.
\<close>

section \<open>The program\<close>

datatype s3_path =
    Root
  | Bucket (path_bucket: bytes)
  | Object (path_bucket: bytes) (path_key: bytes)

datatype s3_path_error = InvalidPath | InvalidBucketName | KeyTooLong

fun is_root :: "s3_path \<Rightarrow> bool" where
  "is_root Root = True"
| "is_root _ = False"

fun as_bucket :: "s3_path \<Rightarrow> bytes option" where
  "as_bucket (Bucket b) = Some b"
| "as_bucket _ = None"

fun as_object :: "s3_path \<Rightarrow> (bytes \<times> bytes) option" where
  "as_object (Object b k) = Some (b, k)"
| "as_object _ = None"

fun get_bucket_name :: "s3_path \<Rightarrow> bytes option" where
  "get_bucket_name Root = None"
| "get_bucket_name (Bucket b) = Some b"
| "get_bucket_name (Object b _) = Some b"

fun get_object_key :: "s3_path \<Rightarrow> bytes option" where
  "get_object_key (Object _ k) = Some k"
| "get_object_key _ = None"

subsection \<open>Bucket names\<close>

text \<open>\<^verbatim>\<open>str::parse::<IpAddr>\<close> on a text without a colon, which is the case where it is asked here: the text
  form of an IPv6 address has a colon, so only the dotted decimal form of IPv4 is left. An octet has at
  most three digits, no redundant leading zero and fits a byte.\<close>

definition is_ipv4_octet :: "bytes \<Rightarrow> bool" where
  "is_ipv4_octet s \<longleftrightarrow> s \<noteq> [] \<and> length s \<le> 3 \<and> list_all is_ascii_digit s
     \<and> (hd s = CHR ''0'' \<longrightarrow> length s = 1) \<and> digits_value s \<le> 255"

definition is_ipv4_addr :: "bytes \<Rightarrow> bool" where
  "is_ipv4_addr s \<longleftrightarrow> length (split_on CHR ''.'' s) = 4 \<and> list_all is_ipv4_octet (split_on CHR ''.'' s)"

definition bucket_char :: "byte \<Rightarrow> bool" where
  "bucket_char b \<longleftrightarrow> is_ascii_lowercase b \<or> is_ascii_digit b \<or> b = CHR ''.'' \<or> b = CHR ''-''"

definition check_bucket_name :: "bytes \<Rightarrow> bool" where
  "check_bucket_name name =
     (if \<not> (3 \<le> length name \<and> length name < 64) then False
      else if \<not> list_all bucket_char name then False
      else if name = [] \<or> \<not> (is_ascii_lowercase (hd name) \<or> is_ascii_digit (hd name)) then False
      else if name = [] \<or> \<not> (is_ascii_lowercase (last name) \<or> is_ascii_digit (last name)) then False
      else if find_sub name ''..'' \<noteq> None then False
      else if is_ipv4_addr name then False
      else if strip_prefix ''xn--'' name \<noteq> None then False
      else True)"

definition check_key :: "bytes \<Rightarrow> bool" where
  "check_key key \<longleftrightarrow> length key \<le> 1024"

subsection \<open>Request paths\<close>

definition normalize_forward_slash :: "bytes \<Rightarrow> bytes" where
  "normalize_forward_slash path =
     (if strip_prefix ''/'' path = None then path
      else
        (let end_with_slash = (last path = CHR ''/'');
             parts = filter (\<lambda>s. s \<noteq> []) (split_on CHR ''/'' path)
         in if parts = [] then ''/''
            else if end_with_slash then intersperse_join ''/'' parts @ ''/''
            else intersperse_join ''/'' parts))"

definition parse_path_style_with_validation_and_normalization ::
  "bytes \<Rightarrow> (bytes \<Rightarrow> bool) \<Rightarrow> bool \<Rightarrow> s3_path_error + s3_path" where
  "parse_path_style_with_validation_and_normalization uri_path validate normalize_path =
     (case strip_prefix ''/'' uri_path of
        None \<Rightarrow> Inl InvalidPath
      | Some path \<Rightarrow>
          (if path = [] then Inr Root
           else
             (let (bucket, key) = (case split_once CHR ''/'' path of
                      None \<Rightarrow> (path, None)
                    | Some (x, y) \<Rightarrow> if y = [] then (x, None) else (x, Some y))
              in if \<not> validate bucket then Inl InvalidBucketName
                 else (case key of
                     None \<Rightarrow> Inr (Bucket bucket)
                   | Some k \<Rightarrow>
                       (let k' = (if normalize_path then normalize_forward_slash k else k)
                        in if \<not> check_key k' then Inl KeyTooLong else Inr (Object bucket k'))))))"

definition parse_path_style_with_validation :: "bytes \<Rightarrow> (bytes \<Rightarrow> bool) \<Rightarrow> s3_path_error + s3_path" where
  "parse_path_style_with_validation uri_path validate =
     parse_path_style_with_validation_and_normalization uri_path validate False"

definition parse_path_style :: "bytes \<Rightarrow> s3_path_error + s3_path" where
  "parse_path_style uri_path =
     parse_path_style_with_validation_and_normalization uri_path check_bucket_name False"

definition parse_virtual_hosted_style_with_validation_and_normalization ::
  "bytes option \<Rightarrow> bytes \<Rightarrow> (bytes \<Rightarrow> bool) \<Rightarrow> bool \<Rightarrow> s3_path_error + s3_path" where
  "parse_virtual_hosted_style_with_validation_and_normalization vh_bucket uri_path validate normalize_path =
     (case vh_bucket of
        None \<Rightarrow> parse_path_style_with_validation_and_normalization uri_path validate normalize_path
      | Some bucket \<Rightarrow>
          (case strip_prefix ''/'' uri_path of
             None \<Rightarrow> Inl InvalidPath
           | Some key \<Rightarrow>
               (if \<not> validate bucket then Inl InvalidBucketName
                else if key = [] then Inr (Bucket bucket)
                else (let k' = (if normalize_path then normalize_forward_slash key else key)
                      in if \<not> check_key k' then Inl KeyTooLong else Inr (Object bucket k')))))"

definition parse_virtual_hosted_style_with_validation ::
  "bytes option \<Rightarrow> bytes \<Rightarrow> (bytes \<Rightarrow> bool) \<Rightarrow> s3_path_error + s3_path" where
  "parse_virtual_hosted_style_with_validation vh_bucket uri_path validate =
     parse_virtual_hosted_style_with_validation_and_normalization vh_bucket uri_path validate False"

definition parse_virtual_hosted_style :: "bytes option \<Rightarrow> bytes \<Rightarrow> s3_path_error + s3_path" where
  "parse_virtual_hosted_style vh_bucket uri_path =
     parse_virtual_hosted_style_with_validation_and_normalization vh_bucket uri_path check_bucket_name False"

section \<open>Bucket name rules\<close>

lemma check_bucket_name_iff:
  "check_bucket_name name \<longleftrightarrow> 3 \<le> length name \<and> length name \<le> 63 \<and> list_all bucket_char name
     \<and> bucket_char (hd name) \<and> hd name \<notin> {CHR ''.'', CHR ''-''} \<and> last name \<notin> {CHR ''.'', CHR ''-''}
     \<and> find_sub name ''..'' = None \<and> \<not> is_ipv4_addr name \<and> strip_prefix ''xn--'' name = None"
proof -
  have not_punct: "\<not> is_ascii_lowercase CHR ''.''" "\<not> is_ascii_digit CHR ''.''"
    "\<not> is_ascii_lowercase CHR ''-''" "\<not> is_ascii_digit CHR ''-''" by code_simp+
  have "name \<noteq> [] \<Longrightarrow> list_all bucket_char name \<Longrightarrow> bucket_char (hd name) \<and> bucket_char (last name)"
    by (auto simp: list_all_iff)
  then show ?thesis
    using not_punct by (cases "name = []") (auto simp: check_bucket_name_def bucket_char_def)
qed

lemma bucket_name_no_slash: "check_bucket_name b \<Longrightarrow> CHR ''/'' \<notin> set b"
proof -
  have "\<not> bucket_char CHR ''/''" by code_simp
  then show "check_bucket_name b \<Longrightarrow> CHR ''/'' \<notin> set b"
    by (auto simp: check_bucket_name_iff list_all_iff)
qed


section \<open>What a parser of request paths promises\<close>

text \<open>The address a path stands for, and the paths that a validator allows.\<close>

fun uri_of :: "s3_path \<Rightarrow> bytes" where
  "uri_of Root = ''/''"
| "uri_of (Bucket b) = ''/'' @ b"
| "uri_of (Object b k) = ''/'' @ b @ ''/'' @ k"

fun path_ok :: "(bytes \<Rightarrow> bool) \<Rightarrow> s3_path \<Rightarrow> bool" where
  "path_ok validate Root = True"
| "path_ok validate (Bucket b) = validate b"
| "path_ok validate (Object b k) = (validate b \<and> k \<noteq> [] \<and> check_key k)"

lemma strip_slash [simp]: "strip_prefix ''/'' (CHR ''/'' # x) = Some x"
  by (simp add: strip_prefix_Some)

text \<open>The split of a path at its first slash.\<close>

lemma split_once_cases:
  obtains (none) "c \<notin> set s" "split_once c s = None"
  | (some) a b where "c \<notin> set a" "s = a @ c # b" "split_once c s = Some (a, b)"
  by (cases "split_once c s") (auto simp: split_once_None split_once_Some)

lemma style_agree:
  assumes "CHR ''/'' \<notin> set b"
  shows "parse_virtual_hosted_style_with_validation_and_normalization (Some b) (CHR ''/'' # key) v n =
    parse_path_style_with_validation_and_normalization (CHR ''/'' # b @ CHR ''/'' # key) v n"
proof -
  have "split_once CHR ''/'' (b @ CHR ''/'' # key) = Some (b, key)"
    using assms by (simp add: split_once_Some)
  then show ?thesis
    by (simp add: parse_virtual_hosted_style_with_validation_and_normalization_def
        parse_path_style_with_validation_and_normalization_def)
qed

text \<open>A validator is an implementation of a trait. The parsers rely on one law of it: a name it accepts
  has no slash.\<close>

locale name_validation =
  fixes validate :: "bytes \<Rightarrow> bool"
  assumes no_slash: "validate b \<Longrightarrow> CHR ''/'' \<notin> set b"
begin

lemma parse_object:
  assumes "validate b" "k \<noteq> []"
  shows "parse_path_style_with_validation_and_normalization (uri_of (Object b k)) validate n =
    (let k' = (if n then normalize_forward_slash k else k)
     in if check_key k' then Inr (Object b k') else Inl KeyTooLong)"
proof -
  have "split_once CHR ''/'' (b @ CHR ''/'' # k) = Some (b, k)"
    using no_slash [OF assms(1)] by (simp add: split_once_Some)
  then show ?thesis
    using assms by (simp add: parse_path_style_with_validation_and_normalization_def Let_def)
qed

lemma parse_bucket:
  assumes "validate b" "b \<noteq> []" "r = [] \<or> r = ''/''"
  shows "parse_path_style_with_validation_and_normalization (uri_of (Bucket b) @ r) validate n = Inr (Bucket b)"
proof -
  have "split_once CHR ''/'' b = None" "split_once CHR ''/'' (b @ ''/'') = Some (b, [])"
    using no_slash [OF assms(1)] by (simp_all add: split_once_None split_once_Some)
  then show ?thesis
    using assms by (auto simp: parse_path_style_with_validation_and_normalization_def)
qed

lemma parse_accepts:
  assumes "\<not> validate []"
  shows "parse_path_style_with_validation_and_normalization u validate False = Inr p \<longleftrightarrow>
    path_ok validate p \<and> (u = uri_of p \<or> (\<exists>b. p = Bucket b \<and> u = uri_of p @ ''/''))"
    (is "?parse = Inr p \<longleftrightarrow> ?ok")
proof
  assume ?ok
  then show "?parse = Inr p"
  proof (cases p)
    case Root
    with \<open>?ok\<close> show ?thesis
      by (simp add: parse_path_style_with_validation_and_normalization_def)
  next
    case (Bucket b)
    with \<open>?ok\<close> assms show ?thesis using parse_bucket [of b "[]"] parse_bucket [of b "''/''"] by auto
  next
    case (Object b k)
    with \<open>?ok\<close> show ?thesis using parse_object [of b k False] by auto
  qed
next
  assume parse: "?parse = Inr p"
  then obtain path where u: "u = CHR ''/'' # path"
    by (auto simp: parse_path_style_with_validation_and_normalization_def strip_prefix_Some split: option.splits)
  then have strip: "strip_prefix ''/'' u = Some path" by (simp add: strip_prefix_Some)
  show ?ok
  proof (cases rule: split_once_cases [of "CHR ''/''" path])
    case none
    then show ?thesis using parse u strip
      by (auto simp: parse_path_style_with_validation_and_normalization_def split: if_splits)
  next
    case (some a b)
    then show ?thesis using parse u strip
      by (auto simp: parse_path_style_with_validation_and_normalization_def Let_def split: if_splits)
  qed
qed

end

interpretation aws_names: name_validation check_bucket_name
  by unfold_locales (rule bucket_name_no_slash)

section \<open>Normalization\<close>

lemma split_on_no_sep: "s \<in> set (split_on c x) \<Longrightarrow> c \<notin> set s"
proof (induction x arbitrary: s)
  case (Cons y ys)
  then show ?case by (cases "split_on c ys") (auto split: if_splits)
qed simp

lemma intersperse_join_hd:
  assumes "xs \<noteq> []" "hd xs \<noteq> []"
  shows "intersperse_join sep xs \<noteq> [] \<and> hd (intersperse_join sep xs) = hd (hd xs)"
  using assms by (cases xs rule: remdups_adj.cases) auto

text \<open>The segments of a key: its non-empty parts between slashes.\<close>

definition segments :: "bytes \<Rightarrow> bytes list" where
  "segments k = filter (\<lambda>s. s \<noteq> []) (split_on CHR ''/'' k)"

lemma segments_join:
  assumes "\<forall>s \<in> set xs. s \<noteq> [] \<and> CHR ''/'' \<notin> set s"
  shows "segments (intersperse_join ''/'' xs) = xs" "segments (intersperse_join ''/'' xs @ ''/'') = xs"
proof -
  have f: "filter (\<lambda>s. s \<noteq> []) xs = xs" using assms by (simp add: filter_id_conv)
  show "segments (intersperse_join ''/'' xs) = xs"
    using assms f split_on_join [of xs "CHR ''/''"] by (cases "xs = []") (auto simp: segments_def)
  have "intersperse_join ''/'' (xs @ [[]]) = intersperse_join ''/'' xs @ ''/''" if "xs \<noteq> []"
    using that by (induction xs rule: induct_list012) auto
  moreover have "split_on CHR ''/'' (intersperse_join ''/'' (xs @ [[]])) = xs @ [[]]"
    using assms by (intro split_on_join) auto
  ultimately show "segments (intersperse_join ''/'' xs @ ''/'') = xs"
    using f by (cases "xs = []") (simp_all add: segments_def)
qed

lemma segments_ok: "s \<in> set (segments k) \<Longrightarrow> s \<noteq> [] \<and> CHR ''/'' \<notin> set s"
  by (auto simp: segments_def dest: split_on_no_sep)

lemma normalize_alt:
  "normalize_forward_slash k =
    (if k = [] \<or> hd k \<noteq> CHR ''/'' then k
     else if segments k = [] then ''/''
     else if last k = CHR ''/'' then intersperse_join ''/'' (segments k) @ ''/''
     else intersperse_join ''/'' (segments k))"
  by (cases k) (auto simp: normalize_forward_slash_def segments_def strip_prefix_None Let_def)

lemma normalize_no_leading_slash:
  "normalize_forward_slash k \<noteq> [] \<Longrightarrow> hd (normalize_forward_slash k) = CHR ''/'' \<Longrightarrow>
    normalize_forward_slash k = ''/''"
proof -
  have "segments k \<noteq> [] \<Longrightarrow> hd (segments k) \<noteq> [] \<and> CHR ''/'' \<notin> set (hd (segments k))"
    using segments_ok hd_in_set by blast
  then have "segments k \<noteq> [] \<Longrightarrow> intersperse_join ''/'' (segments k) \<noteq> [] \<and>
      hd (intersperse_join ''/'' (segments k)) \<noteq> CHR ''/''"
    using intersperse_join_hd [of "segments k" "''/''"] hd_in_set by metis
  then show "normalize_forward_slash k \<noteq> [] \<Longrightarrow> hd (normalize_forward_slash k) = CHR ''/'' \<Longrightarrow>
    normalize_forward_slash k = ''/''"
    by (auto simp: normalize_alt split: if_splits)
qed


lemma normalize_segments: "segments (normalize_forward_slash k) = segments k"
proof -
  have "\<forall>s \<in> set (segments k). s \<noteq> [] \<and> CHR ''/'' \<notin> set s" using segments_ok by blast
  moreover have "segments ''/'' = []" by code_simp
  ultimately show ?thesis by (simp add: normalize_alt segments_join)
qed

lemma normalize_idem: "normalize_forward_slash (normalize_forward_slash k) = normalize_forward_slash k"
proof (cases "normalize_forward_slash k \<noteq> [] \<and> hd (normalize_forward_slash k) = CHR ''/''")
  case True
  then have "normalize_forward_slash k = ''/''" using normalize_no_leading_slash by blast
  moreover have "normalize_forward_slash ''/'' = ''/''" by code_simp
  ultimately show ?thesis by simp
next
  case False
  then show ?thesis by (subst normalize_alt) auto
qed

section \<open>Properties\<close>

text \<open>Path-style parsing is the inverse of printing an address: a path is accepted, with the result
  \<open>p\<close>, exactly when it is the printed form of \<open>p\<close> (a bucket may carry one trailing slash), the bucket
  name follows the naming rules and the key is not empty and has at most 1024 bytes.  So a bucket and a
  key are never read off a path in two ways.\<close>

theorem path_style_roundtrip:
  "parse_path_style u = Inr p \<longleftrightarrow>
    path_ok check_bucket_name p \<and> (u = uri_of p \<or> (\<exists>b. p = Bucket b \<and> u = uri_of p @ ''/''))"
proof -
  have "\<not> check_bucket_name []" by code_simp
  then show ?thesis unfolding parse_path_style_def by (rule aws_names.parse_accepts)
qed

text \<open>The two request styles agree: a virtual-hosted request for a bucket and the path-style
  request whose path starts with that bucket have the same outcome, errors included, for every
  validator, with and without normalization of the key.\<close>

theorem request_styles_agree:
  assumes "CHR ''/'' \<notin> set bucket"
  shows "parse_virtual_hosted_style_with_validation_and_normalization (Some bucket) (CHR ''/'' # key) v n =
    parse_path_style_with_validation_and_normalization (CHR ''/'' # bucket @ CHR ''/'' # key) v n"
  using assms by (rule style_agree)

theorem request_styles_agree_witness:
  "parse_virtual_hosted_style_with_validation_and_normalization (Some ''docs'') ''//a//b/'' check_bucket_name True =
     Inr (Object ''docs'' ''a/b/'')
   \<and> parse_path_style_with_validation_and_normalization ''/docs//a//b/'' check_bucket_name True =
     Inr (Object ''docs'' ''a/b/'')"
proof -
  have "parse_path_style_with_validation_and_normalization ''/docs//a//b/'' check_bucket_name True =
      Inr (Object ''docs'' ''a/b/'')" by code_simp
  then show ?thesis
    using request_styles_agree [of "''docs''" "''/a//b/''" check_bucket_name True] by simp
qed

text \<open>Normalization of a key only removes slashes: it keeps the segments of the key in order, its
  result never starts with a slash unless it is a single one, and a second normalization changes
  nothing.\<close>

theorem normalize_forward_slash_correct:
  "segments (normalize_forward_slash k) = segments k
   \<and> normalize_forward_slash (normalize_forward_slash k) = normalize_forward_slash k
   \<and> (strip_prefix ''/'' (normalize_forward_slash k) = None \<or> normalize_forward_slash k = ''/'')"
proof -
  have "strip_prefix ''/'' s = None \<or> s \<noteq> [] \<and> hd s = CHR ''/''" for s
    by (cases s) (auto simp: strip_prefix_None)
  then show ?thesis using normalize_segments normalize_idem normalize_no_leading_slash by blast
qed

end
