(* ===== verification/S3_Host.thy ===== *)
theory S3_Host
  imports S3_Path
begin

text \<open>
  The parser of the Host header (s3s/src/host.rs): which configured base domain a host belongs to and
  which bucket it names.  The set of hosts that are always path-style is a regular expression set of the
  \<^verbatim>\<open>regex\<close> crate and stands as the parameter \<open>path_style\<close>.
\<close>

section \<open>The program\<close>

record virtual_host =
  vh_domain :: bytes
  vh_bucket :: "bytes option"
  vh_region :: "bytes option"

definition VirtualHost_new :: "bytes \<Rightarrow> virtual_host" where
  "VirtualHost_new domain = \<lparr>vh_domain = domain, vh_bucket = None, vh_region = None\<rparr>"

definition with_bucket :: "bytes \<Rightarrow> virtual_host \<Rightarrow> virtual_host" where
  "with_bucket bucket vh = vh\<lparr>vh_bucket := Some bucket\<rparr>"

definition with_region :: "bytes \<Rightarrow> virtual_host \<Rightarrow> virtual_host" where
  "with_region region vh = vh\<lparr>vh_region := Some region\<rparr>"

datatype domain_error = InvalidDomain | OverlappingSubdomains | ZeroDomains

datatype host_error = InvalidHostHeader

text \<open>\<^verbatim>\<open>str::parse::<u16>\<close>, \<^verbatim>\<open>str::rsplit_once(c)\<close> and \<^verbatim>\<open>str::strip_suffix\<close> of the standard library.\<close>

definition parse_u16 :: "bytes \<Rightarrow> nat option" where
  "parse_u16 s =
     (let ds = (case s of c # r \<Rightarrow> if c = CHR ''+'' then r else s | [] \<Rightarrow> s)
      in if ds = [] \<or> \<not> list_all is_ascii_digit ds \<or> digits_value ds \<ge> 2 ^ 16 then None
         else Some (digits_value ds))"

definition rsplit_once :: "byte \<Rightarrow> bytes \<Rightarrow> (bytes \<times> bytes) option" where
  "rsplit_once c s = map_option (\<lambda>(a, b). (rev b, rev a)) (split_once c (rev s))"

definition strip_suffix :: "bytes \<Rightarrow> bytes \<Rightarrow> bytes option" where
  "strip_suffix x s = (if suffix x s then Some (take (length s - length x) s) else None)"

definition strip_port_suffix :: "bytes \<Rightarrow> bytes" where
  "strip_port_suffix host =
     (if suffix '']'' host then host
      else (case rsplit_once CHR '':'' host of
          Some (h, port) \<Rightarrow>
            if port \<noteq> [] \<and> list_all is_ascii_digit port \<and> parse_u16 port \<noteq> None then h else host
        | None \<Rightarrow> host))"

definition domain_part_ok :: "bytes \<Rightarrow> bool" where
  "domain_part_ok part \<longleftrightarrow> part \<noteq> [] \<and> list_all (\<lambda>b. is_ascii_alphanumeric b \<or> b = CHR ''-'') part"

definition is_valid_domain :: "bytes \<Rightarrow> bool" where
  "is_valid_domain s =
     (if s = [] then False
      else (case split_once CHR '':'' s of
          Some (host, port) \<Rightarrow>
            if port = [] then False
            else if parse_u16 port = None then False
            else list_all domain_part_ok (split_on CHR ''.'' host)
        | None \<Rightarrow> list_all domain_part_ok (split_on CHR ''.'' s)))"

definition is_subdomain_of :: "bytes \<Rightarrow> bytes \<Rightarrow> bool" where
  "is_subdomain_of host base_domain =
     (case strip_suffix base_domain host of None \<Rightarrow> False | Some rest \<Rightarrow> suffix ''.'' rest)"

definition is_overlapping :: "bytes \<Rightarrow> bytes \<Rightarrow> bool" where
  "is_overlapping a b =
     (let a = strip_port_suffix a; b = strip_port_suffix b
      in a = b \<or> is_subdomain_of a b \<or> is_subdomain_of b a)"

definition parse_host_header :: "bytes \<Rightarrow> bytes \<Rightarrow> virtual_host option" where
  "parse_host_header base_domain host =
     (let host_part = strip_port_suffix host; base_part = strip_port_suffix base_domain
      in if host_part = base_part then Some (VirtualHost_new base_domain)
         else (case Option.bind (strip_suffix base_part host_part) (strip_suffix ''.'') of
             Some bucket \<Rightarrow> Some (with_bucket bucket (VirtualHost_new base_domain))
           | None \<Rightarrow> None))"

definition parse_cname_fallback :: "bytes \<Rightarrow> (bytes \<Rightarrow> bool) \<Rightarrow> virtual_host option" where
  "parse_cname_fallback host path_style =
     (if \<not> is_valid_domain host then None
      else if path_style host then Some (VirtualHost_new host)
      else
        (let bucket = map to_ascii_lowercase host
         in if check_bucket_name bucket then Some (with_bucket bucket (VirtualHost_new host))
            else Some (VirtualHost_new host)))"

record single_domain =
  base_domain :: bytes
  cname_fallback :: bool

definition SingleDomain_new :: "bytes \<Rightarrow> domain_error + single_domain" where
  "SingleDomain_new domain =
     (if \<not> is_valid_domain domain then Inl InvalidDomain
      else Inr \<lparr>base_domain = domain, cname_fallback = True\<rparr>)"

definition with_cname_fallback :: "bool \<Rightarrow> single_domain \<Rightarrow> single_domain" where
  "with_cname_fallback enabled sd = sd\<lparr>cname_fallback := enabled\<rparr>"

definition SingleDomain_parse_host_header :: "single_domain \<Rightarrow> bytes \<Rightarrow> host_error + virtual_host" where
  "SingleDomain_parse_host_header sd host =
     (case parse_host_header (base_domain sd) host of
        Some vh \<Rightarrow> Inr vh
      | None \<Rightarrow>
          (if is_valid_domain host
           then (if cname_fallback sd
                 then Inr (with_bucket (map to_ascii_lowercase host) (VirtualHost_new host))
                 else Inr (VirtualHost_new host))
           else Inl InvalidHostHeader))"

record multi_domain =
  base_domains :: "bytes list"
  path_style_hosts :: "bytes \<Rightarrow> bool"

fun push_domains :: "bytes list \<Rightarrow> bytes list \<Rightarrow> domain_error + bytes list" where
  "push_domains v [] = Inr v"
| "push_domains v (domain # rest) =
     (if \<not> is_valid_domain domain then Inl InvalidDomain
      else if list_ex (\<lambda>other. is_overlapping domain other) v then Inl OverlappingSubdomains
      else push_domains (v @ [domain]) rest)"

definition MultiDomain_new :: "bytes list \<Rightarrow> domain_error + multi_domain" where
  "MultiDomain_new domains =
     (case push_domains [] domains of
        Inl e \<Rightarrow> Inl e
      | Inr v \<Rightarrow> if v = [] then Inl ZeroDomains
                 else Inr \<lparr>base_domains = v, path_style_hosts = (\<lambda>_. False)\<rparr>)"

definition with_path_style_hosts :: "(bytes \<Rightarrow> bool) \<Rightarrow> multi_domain \<Rightarrow> multi_domain" where
  "with_path_style_hosts hosts md = md\<lparr>path_style_hosts := hosts\<rparr>"

fun first_match :: "bytes list \<Rightarrow> bytes \<Rightarrow> virtual_host option" where
  "first_match [] host = None"
| "first_match (b # bs) host =
     (case parse_host_header b host of Some vh \<Rightarrow> Some vh | None \<Rightarrow> first_match bs host)"

definition MultiDomain_parse_host_header :: "multi_domain \<Rightarrow> bytes \<Rightarrow> host_error + virtual_host" where
  "MultiDomain_parse_host_header md host =
     (case first_match (base_domains md) host of
        Some vh \<Rightarrow> Inr vh
      | None \<Rightarrow>
          (case parse_cname_fallback host (path_style_hosts md) of
             Some vh \<Rightarrow> Inr vh
           | None \<Rightarrow> Inl InvalidHostHeader))"

section \<open>Label boundaries\<close>

text \<open>A host belongs to a base when it is the base, or ends with a dot and the base.\<close>

definition under :: "bytes \<Rightarrow> bytes \<Rightarrow> bool" where
  "under base host \<longleftrightarrow> host = base \<or> (\<exists>b. host = b @ CHR ''.'' # base)"

lemma strip_suffix_Some: "strip_suffix x s = Some r \<longleftrightarrow> s = r @ x"
  by (auto simp: strip_suffix_def suffix_def)

lemma is_subdomain_of_iff: "is_subdomain_of host base \<longleftrightarrow> (\<exists>b. host = b @ CHR ''.'' # base)"
  by (auto simp: is_subdomain_of_def strip_suffix_Some suffix_def split: option.splits)
    (metis append.assoc append_Cons append_Nil option.distinct(1) strip_suffix_Some)

lemma is_overlapping_iff:
  "is_overlapping a b \<longleftrightarrow> under (strip_port_suffix a) (strip_port_suffix b)
     \<or> under (strip_port_suffix b) (strip_port_suffix a)"
  by (auto simp: is_overlapping_def under_def is_subdomain_of_iff Let_def)

lemma strip_dot_suffix_Some:
  "Option.bind (strip_suffix x s) (strip_suffix ''.'') = Some b \<longleftrightarrow> s = b @ CHR ''.'' # x"
  by (auto simp: bind_eq_Some_conv strip_suffix_Some)

lemma parse_host_header_Some:
  "parse_host_header base host = Some vh \<longleftrightarrow>
    (strip_port_suffix host = strip_port_suffix base \<and> vh = VirtualHost_new base)
    \<or> (\<exists>b. strip_port_suffix host = b @ CHR ''.'' # strip_port_suffix base
         \<and> vh = with_bucket b (VirtualHost_new base))"
proof (cases "strip_port_suffix host = strip_port_suffix base")
  case True
  have "s \<noteq> b @ CHR ''.'' # s" for s b :: bytes
    by (rule notI, drule arg_cong [where f = length]) simp
  with True show ?thesis by (auto simp: parse_host_header_def Let_def)
next
  case False
  have "parse_host_header base host = Some vh \<longleftrightarrow> (\<exists>b. Option.bind (strip_suffix
      (strip_port_suffix base) (strip_port_suffix host)) (strip_suffix ''.'') = Some b
      \<and> vh = with_bucket b (VirtualHost_new base))"
    using False by (auto simp: parse_host_header_def Let_def split: option.splits)
  then show ?thesis using False by (simp only: strip_dot_suffix_Some simp_thms)
qed

lemma under_iff: "under base host \<longleftrightarrow> (\<exists>x. host = x @ base \<and> (x = [] \<or> last x = CHR ''.''))"
proof
  assume "under base host"
  then consider "host = [] @ base" | b where "host = (b @ ''.'') @ base" by (auto simp: under_def)
  then show "\<exists>x. host = x @ base \<and> (x = [] \<or> last x = CHR ''.'')" by cases (blast, metis last_snoc)
next
  assume "\<exists>x. host = x @ base \<and> (x = [] \<or> last x = CHR ''.'')"
  then obtain x where "host = x @ base" "x = [] \<or> last x = CHR ''.''" by blast
  then show "under base host" by (cases x rule: rev_cases) (auto simp: under_def)
qed

lemma under_common:
  assumes "under a host" "under b host"
  shows "under a b \<or> under b a"
proof -
  obtain x where x: "host = x @ a" "x = [] \<or> last x = CHR ''.''" using assms(1) under_iff by blast
  obtain y where y: "host = y @ b" "y = [] \<or> last y = CHR ''.''" using assms(2) under_iff by blast
  have "x @ a = y @ b" using x y by simp
  then obtain z where "x = y @ z \<and> b = z @ a \<or> y = x @ z \<and> a = z @ b"
    by (auto simp: append_eq_append_conv2)
  moreover have "z = [] \<or> last z = CHR ''.''" if "x = y @ z \<or> y = x @ z"
    using that x(2) y(2) by (cases "z = []") auto
  ultimately show ?thesis by (auto simp: under_iff)
qed


section \<open>The invariant of the configured domains\<close>

definition separate :: "bytes list \<Rightarrow> bool" where
  "separate ds \<longleftrightarrow> (\<forall>i j. i < j \<longrightarrow> j < length ds \<longrightarrow> \<not> is_overlapping (ds ! j) (ds ! i))"

lemma is_overlapping_sym: "is_overlapping a b = is_overlapping b a"
  by (auto simp: is_overlapping_iff)

lemma separate_snoc: "separate (v @ [d]) \<longleftrightarrow> separate v \<and> (\<forall>x \<in> set v. \<not> is_overlapping d x)"
proof
  assume s: "separate (v @ [d])"
  have "\<not> is_overlapping (v ! j) (v ! i)" if "i < j" "j < length v" for i j
    using s [unfolded separate_def, rule_format, of i j] that by (simp add: nth_append)
  moreover have "\<not> is_overlapping d (v ! i)" if "i < length v" for i
    using s [unfolded separate_def, rule_format, of i "length v"] that by (simp add: nth_append)
  ultimately show "separate v \<and> (\<forall>x \<in> set v. \<not> is_overlapping d x)"
    by (auto simp: separate_def in_set_conv_nth)
next
  assume "separate v \<and> (\<forall>x \<in> set v. \<not> is_overlapping d x)"
  then show "separate (v @ [d])"
    by (auto simp: separate_def nth_append less_Suc_eq)
qed

lemma push_domains_Inr:
  "push_domains v ds = Inr w \<Longrightarrow> separate v \<Longrightarrow>
    w = v @ ds \<and> separate w \<and> (\<forall>d \<in> set ds. is_valid_domain d)"
proof (induction v ds arbitrary: w rule: push_domains.induct)
  case (2 v d rest)
  then have "separate (v @ [d])" by (auto simp: separate_snoc list_ex_iff split: if_splits)
  with 2 show ?case by (auto split: if_splits)
qed simp

lemma separate_unique:
  assumes "separate ds" "a \<in> set ds" "b \<in> set ds"
    and "under (strip_port_suffix a) h" "under (strip_port_suffix b) h"
  shows "a = b"
proof -
  have "is_overlapping a b" using under_common [OF assms(4,5)] is_overlapping_iff by blast
  moreover obtain i j where "i < length ds" "a = ds ! i" "j < length ds" "b = ds ! j"
    using assms(2,3) by (auto simp: in_set_conv_nth)
  ultimately show ?thesis
    using assms(1) is_overlapping_sym by (metis linorder_neqE_nat separate_def)
qed

lemma first_match_Some:
  "first_match ds h = Some vh \<Longrightarrow> \<exists>d \<in> set ds. parse_host_header d h = Some vh"
  by (induction ds) (auto split: option.splits)

lemma first_match_None: "first_match ds h = None \<longleftrightarrow> (\<forall>d \<in> set ds. parse_host_header d h = None)"
  by (induction ds) (auto split: option.splits)

lemma parse_host_header_under:
  "parse_host_header d h = Some vh \<Longrightarrow> under (strip_port_suffix d) (strip_port_suffix h) \<and> vh_domain vh = d"
  by (auto simp: parse_host_header_Some under_def VirtualHost_new_def with_bucket_def)

lemma separate_match:
  assumes "separate ds" "d \<in> set ds" "parse_host_header d h = Some vh"
  shows "first_match ds h = Some vh"
proof -
  obtain vh' where f: "first_match ds h = Some vh'"
    using assms(2,3) first_match_None [of ds h] by fastforce
  then obtain d' where d': "d' \<in> set ds" "parse_host_header d' h = Some vh'"
    using first_match_Some by blast
  then have "d' = d"
    using separate_unique [OF assms(1)] assms(2,3) parse_host_header_under by blast
  with d' f assms(3) show ?thesis by simp
qed


lemma MultiDomain_new_Inr:
  "MultiDomain_new ds = Inr md \<Longrightarrow>
    base_domains md = ds \<and> path_style_hosts md = (\<lambda>_. False) \<and> ds \<noteq> [] \<and> separate ds
    \<and> (\<forall>d \<in> set ds. is_valid_domain d)"
  using push_domains_Inr [of "[]" ds]
  by (auto simp: MultiDomain_new_def separate_def split: sum.splits if_splits)

lemma with_path_style_hosts_fields [simp]:
  "base_domains (with_path_style_hosts P md) = base_domains md"
  "path_style_hosts (with_path_style_hosts P md) = P"
  by (simp_all add: with_path_style_hosts_def)

section \<open>Ports\<close>

lemma rsplit_once_Some: "rsplit_once c s = Some (a, b) \<longleftrightarrow> s = a @ c # b \<and> c \<notin> set b"
proof -
  have "rsplit_once c s = Some (a, b) \<longleftrightarrow> split_once c (rev s) = Some (rev b, rev a)"
    by (auto simp: rsplit_once_def)
  also have "\<dots> \<longleftrightarrow> rev s = rev (a @ c # b) \<and> c \<notin> set b" by (simp add: split_once_Some)
  finally show ?thesis by (simp only: rev_is_rev_conv)
qed

lemma rsplit_once_None: "rsplit_once c s = None \<longleftrightarrow> c \<notin> set s"
  by (simp add: rsplit_once_def split_once_None)

lemma strip_port_label: "strip_port_suffix (b @ CHR ''.'' # d) = b @ CHR ''.'' # strip_port_suffix d"
proof -
  have bracket: "suffix '']'' (b @ CHR ''.'' # d) \<longleftrightarrow> suffix '']'' d"
    by (cases d rule: rev_cases) (auto simp: suffix_def)
  have dot: "\<not> is_ascii_digit CHR ''.''" by code_simp
  show ?thesis
  proof (cases "rsplit_once CHR '':'' d")
    case (Some hp)
    then obtain h p where "d = h @ CHR '':'' # p" "CHR '':'' \<notin> set p" "hp = (h, p)"
      by (metis rsplit_once_Some surj_pair)
    moreover from this have "rsplit_once CHR '':'' (b @ CHR ''.'' # d) = Some (b @ CHR ''.'' # h, p)"
      by (simp add: rsplit_once_Some)
    ultimately show ?thesis using bracket Some by (auto simp: strip_port_suffix_def)
  next
    case None
    then have none: "CHR '':'' \<notin> set d" by (simp add: rsplit_once_None)
    have "list_all is_ascii_digit p \<Longrightarrow> b @ CHR ''.'' # d = h @ CHR '':'' # p \<Longrightarrow> False" for h p
    proof -
      assume p: "list_all is_ascii_digit p" and eq: "b @ CHR ''.'' # d = h @ CHR '':'' # p"
      then consider z where "CHR ''.'' # d = z @ CHR '':'' # p" | z where "z @ CHR ''.'' # d = CHR '':'' # p"
        by (auto simp: append_eq_append_conv2)
      then show False
      proof cases
        case 1
        then have "CHR '':'' \<in> set (CHR ''.'' # d)" by simp
        with none show False by simp
      next
        case 2
        then have "CHR ''.'' \<in> set (CHR '':'' # p)" by (metis in_set_conv_decomp)
        with p dot show False by (auto simp: list_all_iff)
      qed
    qed
    then have "strip_port_suffix (b @ CHR ''.'' # d) = b @ CHR ''.'' # d"
      by (auto simp: strip_port_suffix_def rsplit_once_Some split: option.splits)
    then show ?thesis using None by (simp add: strip_port_suffix_def)
  qed
qed

section \<open>Properties\<close>

text \<open>The order in which base domains are configured does not matter: two host parsers built from
  the same set of domains give the same answer for every host, because the constructor refuses
  domains that compete for a host.\<close>

theorem multi_domain_order_irrelevant:
  assumes "MultiDomain_new ds = Inr md" "MultiDomain_new ds' = Inr md'" "set ds = set ds'"
  shows "MultiDomain_parse_host_header (with_path_style_hosts P md) host =
    MultiDomain_parse_host_header (with_path_style_hosts P md') host"
proof -
  note md = MultiDomain_new_Inr [OF assms(1)] MultiDomain_new_Inr [OF assms(2)]
  have "first_match ds host = first_match ds' host"
  proof (cases "first_match ds host")
    case None
    then have "first_match ds' host = None" using assms(3) by (simp add: first_match_None)
    with None show ?thesis by simp
  next
    case (Some vh)
    then obtain d where "d \<in> set ds" "parse_host_header d host = Some vh" using first_match_Some by blast
    then show ?thesis using Some separate_match [of ds' d host vh] md assms(3) by simp
  qed
  then show ?thesis
    using md by (simp add: MultiDomain_parse_host_header_def split: option.split)
qed

theorem multi_domain_order_irrelevant_witness:
  "\<exists>md md'. MultiDomain_new [''example.com'', ''s3-example.com''] = Inr md
     \<and> MultiDomain_new [''s3-example.com'', ''example.com''] = Inr md'
     \<and> MultiDomain_parse_host_header md ''b.s3-example.com'' =
         Inr (with_bucket ''b'' (VirtualHost_new ''s3-example.com''))
     \<and> MultiDomain_parse_host_header md' ''b.s3-example.com'' =
         Inr (with_bucket ''b'' (VirtualHost_new ''s3-example.com''))"
proof -
  let ?md = "\<lparr>base_domains = [''example.com'', ''s3-example.com''], path_style_hosts = (\<lambda>_. False)\<rparr>"
  let ?md' = "\<lparr>base_domains = [''s3-example.com'', ''example.com''], path_style_hosts = (\<lambda>_. False)\<rparr>"
  have push: "push_domains [] [''example.com'', ''s3-example.com''] = Inr [''example.com'', ''s3-example.com'']"
    "push_domains [] [''s3-example.com'', ''example.com''] = Inr [''s3-example.com'', ''example.com'']"
    by code_simp+
  then have new: "MultiDomain_new [''example.com'', ''s3-example.com''] = Inr ?md"
    "MultiDomain_new [''s3-example.com'', ''example.com''] = Inr ?md'"
    by (simp_all only: MultiDomain_new_def sum.case list.distinct if_False)
  have fm: "first_match [''example.com'', ''s3-example.com''] ''b.s3-example.com'' =
      Some (with_bucket ''b'' (VirtualHost_new ''s3-example.com''))" by code_simp
  have set_eq: "set [''example.com'', ''s3-example.com''] = set [''s3-example.com'', ''example.com'']"
    by auto
  have keep: "with_path_style_hosts (\<lambda>_. False) ?md = ?md" "with_path_style_hosts (\<lambda>_. False) ?md' = ?md'"
    by (simp_all add: with_path_style_hosts_def)
  have one: "MultiDomain_parse_host_header ?md ''b.s3-example.com'' =
      Inr (with_bucket ''b'' (VirtualHost_new ''s3-example.com''))"
    unfolding MultiDomain_parse_host_header_def multi_domain.simps fm by simp
  moreover have "MultiDomain_parse_host_header ?md' ''b.s3-example.com'' =
      MultiDomain_parse_host_header ?md ''b.s3-example.com''"
    using multi_domain_order_irrelevant [OF new set_eq, of "\<lambda>_. False" "''b.s3-example.com''"]
    unfolding keep by (rule sym)
  ultimately show ?thesis using new by metis
qed

text \<open>C30: host and path together: under every configured domain, with or without a port, a request to
  the host \<^verbatim>\<open>bucket.domain\<close> and a request to the host \<^verbatim>\<open>domain\<close> whose path starts with the bucket name the
  same bucket and key, or fail with the same error.\<close>

theorem host_and_path_agree:
  assumes "MultiDomain_new ds = Inr md" "d \<in> set ds" "CHR ''/'' \<notin> set bucket"
  shows "\<exists>vh vh0. MultiDomain_parse_host_header (with_path_style_hosts P md) (bucket @ ''.'' @ d) = Inr vh
    \<and> MultiDomain_parse_host_header (with_path_style_hosts P md) d = Inr vh0
    \<and> vh_domain vh = d \<and> vh_domain vh0 = d
    \<and> parse_virtual_hosted_style_with_validation_and_normalization (vh_bucket vh) (CHR ''/'' # key) v n =
      parse_virtual_hosted_style_with_validation_and_normalization (vh_bucket vh0)
        (CHR ''/'' # bucket @ CHR ''/'' # key) v n"
proof -
  note md = MultiDomain_new_Inr [OF assms(1)]
  have host: "parse_host_header d (bucket @ ''.'' @ d) = Some (with_bucket bucket (VirtualHost_new d))"
    by (simp add: parse_host_header_Some strip_port_label)
  have base: "parse_host_header d d = Some (VirtualHost_new d)"
    by (simp add: parse_host_header_Some)
  have "first_match (base_domains md) (bucket @ ''.'' @ d) = Some (with_bucket bucket (VirtualHost_new d))"
    "first_match (base_domains md) d = Some (VirtualHost_new d)"
    using separate_match [OF _ _ host] separate_match [OF _ _ base] md assms(2) by auto
  then have "MultiDomain_parse_host_header (with_path_style_hosts P md) (bucket @ ''.'' @ d) =
      Inr (with_bucket bucket (VirtualHost_new d))"
    "MultiDomain_parse_host_header (with_path_style_hosts P md) d = Inr (VirtualHost_new d)"
    by (simp_all add: MultiDomain_parse_host_header_def)
  moreover have "parse_virtual_hosted_style_with_validation_and_normalization (Some bucket) (CHR ''/'' # key) v n =
      parse_virtual_hosted_style_with_validation_and_normalization None (CHR ''/'' # bucket @ CHR ''/'' # key) v n"
    unfolding style_agree [OF assms(3)]
    by (simp add: parse_virtual_hosted_style_with_validation_and_normalization_def)
  ultimately show ?thesis by (simp add: VirtualHost_new_def with_bucket_def)
qed

theorem host_and_path_agree_witness:
  "\<exists>md vh vh0. MultiDomain_new [''example.com''] = Inr md
    \<and> MultiDomain_parse_host_header (with_path_style_hosts (\<lambda>_. False) md) ''docs.example.com'' = Inr vh
    \<and> MultiDomain_parse_host_header (with_path_style_hosts (\<lambda>_. False) md) ''example.com'' = Inr vh0
    \<and> parse_virtual_hosted_style_with_validation_and_normalization (vh_bucket vh) ''/a'' check_bucket_name False =
      parse_virtual_hosted_style_with_validation_and_normalization (vh_bucket vh0) ''/docs/a'' check_bucket_name False"
proof -
  have push: "push_domains [] [''example.com''] = Inr [''example.com'']" by code_simp
  then have new: "MultiDomain_new [''example.com''] =
      Inr \<lparr>base_domains = [''example.com''], path_style_hosts = (\<lambda>_. False)\<rparr>"
    by (simp only: MultiDomain_new_def sum.case list.distinct if_False)
  have "CHR ''/'' \<notin> set ''docs''" by code_simp
  then show ?thesis
    using host_and_path_agree [OF new, of "''example.com''" "''docs''" "\<lambda>_. False" "''a''" check_bucket_name False]
      new by auto
qed

end
