(* ===== verification/Http_Range.thy ===== *)
theory Http_Range
  imports Prelude
begin

text \<open>
  The Range header (s3s/src/dto/range.rs): parsing, printing and the selection of bytes it stands for.
  Positions are 64-bit words, as in the code.  Decimal numbers are read by the \<^verbatim>\<open>atoi\<close> crate, the parameter
  \<open>A\<close>: it returns the value of the leading digits, unless it overflows, and how many bytes it has read.
\<close>

section \<open>The program\<close>

type_synonym u64 = "64 word"

type_synonym atoi_api = "bytes \<Rightarrow> u64 option \<times> nat"

datatype range = IntRange u64 "u64 option" | SuffixRange u64

datatype range_error = ParseRangeError | RangeNotSatisfiable

definition I64_MAX :: u64 where
  "I64_MAX = 0x7FFFFFFFFFFFFFFF"

definition parse_u64_full :: "atoi_api \<Rightarrow> bytes \<Rightarrow> u64 option" where
  "parse_u64_full A s =
     (case A s of (Some x, pos) \<Rightarrow> if pos = length s then Some x else None | (None, _) \<Rightarrow> None)"

definition parse_u64_once :: "atoi_api \<Rightarrow> bytes \<Rightarrow> (u64 \<times> bytes) option" where
  "parse_u64_once A s =
     (case A s of
        (Some x, pos) \<Rightarrow> if pos > 0 then (if pos \<le> length s then Some (x, drop pos s) else None) else None
      | (None, _) \<Rightarrow> None)"

definition Range_parse :: "atoi_api \<Rightarrow> bytes \<Rightarrow> range_error + range" where
  "Range_parse A header =
     (case strip_prefix ''bytes='' header of
        None \<Rightarrow> Inl ParseRangeError
      | Some s \<Rightarrow>
          (case strip_prefix ''-'' s of
             Some s1 \<Rightarrow>
               (case parse_u64_full A s1 of None \<Rightarrow> Inl ParseRangeError | Some len \<Rightarrow> Inr (SuffixRange len))
           | None \<Rightarrow>
               (case parse_u64_once A s of
                  None \<Rightarrow> Inl ParseRangeError
                | Some (first_pos, s2) \<Rightarrow>
                    (if first_pos > I64_MAX then Inl ParseRangeError
                     else (case strip_prefix ''-'' s2 of
                         None \<Rightarrow> Inl ParseRangeError
                       | Some s3 \<Rightarrow>
                           (if s3 = [] then Inr (IntRange first_pos None)
                            else (case parse_u64_full A s3 of
                                None \<Rightarrow> Inl ParseRangeError
                              | Some last_pos \<Rightarrow>
                                  (if last_pos > I64_MAX then Inl ParseRangeError
                                   else if first_pos > last_pos then Inl ParseRangeError
                                   else Inr (IntRange first_pos (Some last_pos))))))))))"

fun to_header_string :: "range \<Rightarrow> bytes" where
  "to_header_string (IntRange first_pos (Some last_pos)) = ''bytes='' @ decimal (unat first_pos) @ ''-'' @ decimal (unat last_pos)"
| "to_header_string (IntRange first_pos None) = ''bytes='' @ decimal (unat first_pos) @ ''-''"
| "to_header_string (SuffixRange len) = ''bytes=-'' @ decimal (unat len)"

text \<open>The half-open range of positions that is read from an object of the given length.\<close>

definition Range_check :: "range \<Rightarrow> u64 \<Rightarrow> range_error + (u64 \<times> u64)" where
  "Range_check r full_length =
     (case r of
        IntRange first_pos last_pos \<Rightarrow>
          (if first_pos \<ge> full_length then Inl RangeNotSatisfiable
           else (case last_pos of
               Some last_pos \<Rightarrow>
                 (let last_pos = min last_pos (full_length - 1)
                  in if first_pos > last_pos then Inl RangeNotSatisfiable else Inr (first_pos, last_pos + 1))
             | None \<Rightarrow> Inr (first_pos, full_length)))
      | SuffixRange len \<Rightarrow>
          (if len = 0 then Inl RangeNotSatisfiable
           else (let len = min len full_length in Inr (full_length - len, full_length))))"

section \<open>The contract of the number reader\<close>

lemma u64_bound: "unat (w :: u64) < 2 ^ 64"
  using unsigned_less [of w, where ?'a = nat] by simp

locale atoi_contract =
  fixes A :: atoi_api
  assumes reads: "fst (A s) =
      (if digits_value (takeWhile is_ascii_digit s) < 2 ^ 64
       then Some (of_nat (digits_value (takeWhile is_ascii_digit s))) else None)"
    and position: "fst (A s) \<noteq> None \<Longrightarrow> snd (A s) = length (takeWhile is_ascii_digit s)"
begin

lemma A_fits:
  "takeWhile is_ascii_digit s = ds \<Longrightarrow> digits_value ds < 2 ^ 64 \<Longrightarrow>
    A s = (Some (of_nat (digits_value ds)), length ds)"
  using reads [of s] position [of s] by (cases "A s") auto

lemma A_overflows:
  "takeWhile is_ascii_digit s = ds \<Longrightarrow> \<not> digits_value ds < 2 ^ 64 \<Longrightarrow> fst (A s) = None"
  using reads [of s] by auto

lemma takeWhile_decimal:
  "(\<And>c r. t = c # r \<Longrightarrow> \<not> is_ascii_digit c) \<Longrightarrow> takeWhile is_ascii_digit (decimal n @ t) = decimal n"
  using decimal_digits [of n] by (cases t) (simp_all add: list_all_iff takeWhile_append2)

lemma A_decimal:
  assumes "\<And>c r. t = c # r \<Longrightarrow> \<not> is_ascii_digit c"
  shows "A (decimal (unat w) @ t) = (Some w, length (decimal (unat w)))"
  using A_fits [OF takeWhile_decimal [of t "unat w"]] assms u64_bound [of w] by simp

lemma parse_full_decimal: "parse_u64_full A (decimal (unat w)) = Some w"
  using A_decimal [of "[]" w] by (simp add: parse_u64_full_def)

lemma parse_once_decimal:
  "(\<And>c r. t = c # r \<Longrightarrow> \<not> is_ascii_digit c) \<Longrightarrow> parse_u64_once A (decimal (unat w) @ t) = Some (w, t)"
  using A_decimal [of t w] by (simp add: parse_u64_once_def)

lemma parse_full_empty: "parse_u64_full A [] = Some 0"
  using A_fits [of "[]" "[]"] by (simp add: parse_u64_full_def digits_value_def)

end

text \<open>The reader as the crate documents it.\<close>

definition atoi_ref :: atoi_api where
  "atoi_ref s =
     (let ds = takeWhile is_ascii_digit s
      in (if digits_value ds < 2 ^ 64 then Some (of_nat (digits_value ds)) else None, length ds))"

interpretation atoi_reference: atoi_contract atoi_ref
  by unfold_locales (simp_all add: atoi_ref_def Let_def)

section \<open>Properties\<close>

definition range_ok :: "range \<Rightarrow> bool" where
  "range_ok r = (case r of
      IntRange f None \<Rightarrow> f \<le> I64_MAX
    | IntRange f (Some l) \<Rightarrow> f \<le> l \<and> l \<le> I64_MAX
    | SuffixRange n \<Rightarrow> True)"


lemma not_digit_dash: "\<not> is_ascii_digit CHR ''-''"
  by code_simp

context atoi_contract
begin

lemma parse_print:
  assumes "range_ok r"
  shows "Range_parse A (to_header_string r) = Inr r"
proof -
  have dash: "strip_prefix ''-'' (CHR ''-'' # t) = Some t" for t by (simp add: strip_prefix_Some)
  have nodash: "strip_prefix ''-'' (decimal n @ t) = None" for n t
    using decimal_digits [of n] not_digit_dash by (cases "decimal n") (auto simp: strip_prefix_None)
  have once: "parse_u64_once A (decimal (unat w) @ CHR ''-'' # t) = Some (w, CHR ''-'' # t)" for w t
    using not_digit_dash by (intro parse_once_decimal) auto
  have bytes: "strip_prefix ''bytes='' (''bytes='' @ t) = Some t" for t by (simp only: strip_prefix_append)
  have print: "to_header_string (IntRange f (Some l)) = ''bytes='' @ (decimal (unat f) @ CHR ''-'' # decimal (unat l))"
    "to_header_string (IntRange f None) = ''bytes='' @ (decimal (unat f) @ CHR ''-'' # [])"
    "to_header_string (SuffixRange n) = ''bytes='' @ (CHR ''-'' # decimal (unat n))" for f l n
    by simp_all
  show ?thesis
  proof (cases r)
    case (IntRange f l)
    then show ?thesis using assms
      by (cases l) (simp_all only: print Range_parse_def bytes option.case prod.case nodash once dash
          parse_full_decimal list.distinct if_True if_False decimal_nonempty simp_thms,
        auto simp: range_ok_def)
  next
    case (SuffixRange n)
    then show ?thesis
      by (simp only: print Range_parse_def bytes option.case dash parse_full_decimal)
  qed
qed

lemma parse_ok: "Range_parse A s = Inr r \<Longrightarrow> range_ok r"
  by (auto simp: Range_parse_def range_ok_def split: option.splits if_splits prod.splits)

end

text \<open>A range header that was printed is read back as the same range, and the reader only returns
  ranges whose positions are ordered and fit a signed 64-bit integer.\<close>

theorem range_roundtrip:
  assumes "atoi_contract A"
  shows "(range_ok r \<longrightarrow> Range_parse A (to_header_string r) = Inr r)
    \<and> (Range_parse A s = Inr r \<longrightarrow> range_ok r)"
  using atoi_contract.parse_print [OF assms] atoi_contract.parse_ok [OF assms] by blast

theorem range_roundtrip_witness:
  "range_ok (IntRange 0 (Some 499))
   \<and> Range_parse atoi_ref (to_header_string (IntRange 0 (Some 499))) = Inr (IntRange 0 (Some 499))"
proof -
  have "range_ok (IntRange 0 (Some 499))" by (simp add: range_ok_def I64_MAX_def)
  then show ?thesis using range_roundtrip [OF atoi_reference.atoi_contract_axioms] by blast
qed

text \<open>The positions of an object of length \<open>n\<close> that a range selects, by RFC 9110.\<close>

fun selects :: "range \<Rightarrow> nat \<Rightarrow> nat \<Rightarrow> bool" where
  "selects (IntRange f None) n i \<longleftrightarrow> unat f \<le> i \<and> i < n"
| "selects (IntRange f (Some l)) n i \<longleftrightarrow> unat f \<le> i \<and> i \<le> unat l \<and> i < n"
| "selects (SuffixRange k) n i \<longleftrightarrow> i < n \<and> n \<le> i + unat k"

lemma unat_min: "unat (min (a :: 'a::len word) b) = min (unat a) (unat b)"
  by (simp add: min_def word_le_nat_alt)

text \<open>Which ranges RFC 9110 calls satisfiable: an interval that has a byte of the object, and a suffix of a length
  other than zero, which for a shorter object is all of it, even of an empty one.\<close>

fun satisfiable :: "range \<Rightarrow> nat \<Rightarrow> bool" where
  "satisfiable (IntRange f l) n \<longleftrightarrow> (\<exists>i. selects (IntRange f l) n i)"
| "satisfiable (SuffixRange k) n \<longleftrightarrow> k \<noteq> 0"

lemma satisfiable_interval:
  "satisfiable (IntRange f l) n \<longleftrightarrow> unat f < n \<and> (case l of Some k \<Rightarrow> unat f \<le> unat k | None \<Rightarrow> True)"
proof -
  have "selects (IntRange f l) n (unat f)" if "unat f < n \<and> (case l of Some k \<Rightarrow> unat f \<le> unat k | None \<Rightarrow> True)"
    using that by (cases l) auto
  moreover have "unat f < n \<and> (case l of Some k \<Rightarrow> unat f \<le> unat k | None \<Rightarrow> True)" if "selects (IntRange f l) n i" for i
    using that by (cases l) auto
  ultimately show ?thesis by (simp only: satisfiable.simps) blast
qed

declare satisfiable.simps(1) [simp del] satisfiable_interval [simp]

text \<open>C25: checking a range against a length never wraps around and selects exactly the bytes of the
  range. It succeeds exactly for the satisfiable ranges; then the returned half-open interval lies inside the object and contains a
  position if and only if the range selects it. It fails with RangeNotSatisfiable exactly for the others: an interval without
  a byte of the object, or a suffix of length zero. A suffix of an empty object is satisfiable and gives the empty interval.
  Every 64-bit value is allowed for the positions and the length.\<close>

theorem range_check_exact:
  "case Range_check r full_length of
     Inr (a, b) \<Rightarrow> satisfiable r (unat full_length) \<and> unat a \<le> unat b \<and> unat b \<le> unat full_length
       \<and> (\<forall>i. unat a \<le> i \<and> i < unat b \<longleftrightarrow> selects r (unat full_length) i)
   | Inl e \<Rightarrow> e = RangeNotSatisfiable \<and> \<not> satisfiable r (unat full_length)"
proof (cases r)
  case (IntRange f l)
  show ?thesis
  proof (cases "full_length \<le> f")
    case True
    then show ?thesis using IntRange by (cases l) (auto simp: Range_check_def word_le_nat_alt)
  next
    case False
    then have lt: "unat f < unat full_length" by (simp add: word_le_nat_alt)
    then have pred: "unat (full_length - 1) = unat full_length - 1"
      by (intro unat_minus_one) auto
    show ?thesis
    proof (cases l)
      case None
      with IntRange False lt show ?thesis by (auto simp: Range_check_def)
    next
      case (Some k)
      let ?m = "min k (full_length - 1)"
      have m: "unat ?m = min (unat k) (unat full_length - 1)" by (simp add: unat_min pred)
      then have "unat ?m < unat full_length" using lt by simp
      then have "unat ?m + 1 < 2 ^ 64 \<or> unat ?m + 1 = unat full_length" using u64_bound [of full_length] by auto
      moreover have "unat full_length < 2 ^ 64" using u64_bound [of full_length] by simp
      ultimately have "unat (?m + 1) = unat ?m + 1"
        using \<open>unat ?m < unat full_length\<close> by (subst unat_add_lem [THEN iffD1]) auto
      then show ?thesis
        using IntRange Some False lt m by (auto simp: Range_check_def Let_def word_less_nat_alt min_def split: if_splits)
    qed
  qed
next
  case (SuffixRange k)
  have "min k full_length \<le> full_length" by simp
  then have "unat (full_length - min k full_length) = unat full_length - min (unat k) (unat full_length)"
    by (simp add: unat_sub unat_min)
  then show ?thesis
    using SuffixRange by (auto simp: Range_check_def Let_def unat_eq_zero)
qed

text \<open>A suffix range without any digit is read as a suffix of length zero, although the grammar of
  the header asks for at least one digit; it is refused only later, as not satisfiable.\<close>

theorem empty_suffix_accepted:
  assumes "atoi_contract A"
  shows "Range_parse A ''bytes=-'' = Inr (SuffixRange 0) \<and> Range_check (SuffixRange 0) n = Inl RangeNotSatisfiable"
proof -
  show ?thesis using atoi_contract.parse_full_empty [OF assms] by (simp add: Range_parse_def strip_prefix_def Range_check_def)
qed

theorem empty_suffix_accepted_witness: "Range_parse atoi_ref ''bytes=-'' = Inr (SuffixRange 0)"
  using empty_suffix_accepted [OF atoi_reference.atoi_contract_axioms] by blast

end
