(* ===== verification/Upload_Stream.thy ===== *)
theory Upload_Stream
  imports Sigv4_Canonical S3_Error
begin

text \<open>
  The stream of an upload with a signed payload digest (s3s/src/stream/upload_stream.rs): it forwards the
  bytes of the body, counts them against the declared length and checks their SHA-256 before it lets the
  last of them out. The body is the list of the outcomes of its polls.
\<close>

section \<open>The program\<close>

datatype body_event = BodyPending | BodyItem "bytes + bytes"

datatype upload_state = UReading | UAwaitingEof | UFinished | UFailed

datatype upload_error = UUnderlying bytes | USha256Mismatch | ULengthMismatch | UIncomplete

text \<open>The incremental hasher is the list of the texts it has been fed with.\<close>

record upload_stream =
  up_inner :: "body_event list"
  up_hasher :: "bytes list option"
  up_expected :: bytes
  up_remaining :: nat
  up_state :: upload_state

definition UploadStream_new :: "body_event list \<Rightarrow> nat \<Rightarrow> bytes \<Rightarrow> upload_stream" where
  "UploadStream_new inner len expected =
     \<lparr>up_inner = inner, up_hasher = Some [], up_expected = expected, up_remaining = len, up_state = UReading\<rparr>"

definition finalize_hash :: "crypto_api \<Rightarrow> upload_stream \<Rightarrow> (upload_error + unit) \<times> upload_stream" where
  "finalize_hash C s =
     (case up_hasher s of
        None \<Rightarrow> (Inr (), s)
      | Some fed \<Rightarrow>
          (if sha256_chunk C fed = up_expected s then (Inr (), s\<lparr>up_hasher := None\<rparr>)
           else (Inl USha256Mismatch, s\<lparr>up_hasher := None\<rparr>)))"

definition finalize_if_complete :: "crypto_api \<Rightarrow> upload_stream \<Rightarrow> (upload_error + bool) \<times> upload_stream" where
  "finalize_if_complete C s =
     (if up_remaining s \<noteq> 0 then (Inr False, s)
      else (case finalize_hash C s of
          (Inr _, s1) \<Rightarrow> (Inr True, s1\<lparr>up_state := UAwaitingEof\<rparr>)
        | (Inl e, s1) \<Rightarrow> (Inl e, s1\<lparr>up_state := UFailed\<rparr>)))"

fun body_poll :: "body_event list \<Rightarrow> (bytes + bytes) option poll \<times> body_event list" where
  "body_poll [] = (Ready None, [])"
| "body_poll (BodyPending # evs) = (Pending, evs)"
| "body_poll (BodyItem i # evs) = (Ready (Some i), evs)"

lemma finalize_true: "(Inr True, y) = finalize_if_complete C s \<Longrightarrow> up_inner y = up_inner s \<and> up_state y = UAwaitingEof"
  by (auto simp: finalize_if_complete_def finalize_hash_def split: if_splits option.splits)

lemma finalize_false: "(Inr False, y) = finalize_if_complete C s \<Longrightarrow> y = s"
  by (auto simp: finalize_if_complete_def finalize_hash_def split: if_splits option.splits)

lemma body_poll_shorter: "(Ready (Some i), rest) = body_poll evs \<Longrightarrow> length rest < length evs"
  by (cases evs rule: body_poll.cases) auto

function UploadStream_poll_next :: "crypto_api \<Rightarrow> upload_stream \<Rightarrow> (upload_error + bytes) option poll \<times> upload_stream" where
  "UploadStream_poll_next C s =
     (case up_state s of
        UReading \<Rightarrow>
          (case finalize_if_complete C s of
             (Inr True, s1) \<Rightarrow> UploadStream_poll_next C s1
           | (Inl e, s1) \<Rightarrow> (Ready (Some (Inl e)), s1)
           | (Inr False, s1) \<Rightarrow>
               (case body_poll (up_inner s1) of
                  (Ready (Some (Inr bs)), rest) \<Rightarrow>
                    (let s2 = s1\<lparr>up_inner := rest\<rparr>
                     in if bs = [] then UploadStream_poll_next C s2
                        else if length bs > up_remaining s2
                        then (Ready (Some (Inl ULengthMismatch)), s2\<lparr>up_state := UFailed\<rparr>)
                        else
                          (let s3 = s2\<lparr>up_hasher := map_option (\<lambda>fed. fed @ [bs]) (up_hasher s2),
                                       up_remaining := up_remaining s2 - length bs\<rparr>
                           in case finalize_if_complete C s3 of
                                (Inr _, s4) \<Rightarrow> (Ready (Some (Inr bs)), s4)
                              | (Inl e, s4) \<Rightarrow> (Ready (Some (Inl e)), s4)))
                | (Ready (Some (Inl e)), rest) \<Rightarrow>
                    (Ready (Some (Inl (UUnderlying e))), s1\<lparr>up_inner := rest, up_state := UFailed\<rparr>)
                | (Ready None, rest) \<Rightarrow>
                    (Ready (Some (Inl UIncomplete)), s1\<lparr>up_inner := rest, up_state := UFailed\<rparr>)
                | (Pending, rest) \<Rightarrow> (Pending, s1\<lparr>up_inner := rest\<rparr>)))
      | UAwaitingEof \<Rightarrow>
          (case body_poll (up_inner s) of
             (Ready (Some (Inr bs)), rest) \<Rightarrow>
               (if bs = [] then UploadStream_poll_next C (s\<lparr>up_inner := rest\<rparr>)
                else (Ready (Some (Inl ULengthMismatch)), s\<lparr>up_inner := rest, up_state := UFailed\<rparr>))
           | (Ready (Some (Inl e)), rest) \<Rightarrow>
               (Ready (Some (Inl (UUnderlying e))), s\<lparr>up_inner := rest, up_state := UFailed\<rparr>)
           | (Ready None, rest) \<Rightarrow> (Ready None, s\<lparr>up_inner := rest, up_state := UFinished\<rparr>)
           | (Pending, rest) \<Rightarrow> (Pending, s\<lparr>up_inner := rest\<rparr>))
      | UFinished \<Rightarrow> (Ready None, s)
      | UFailed \<Rightarrow> (Ready None, s))"
  by pat_completeness auto
termination
  by (relation "measures [\<lambda>(_, s). length (up_inner s), \<lambda>(_, s). if up_state s = UReading then 1 else 0]")
    (auto dest!: finalize_true finalize_false body_poll_shorter)

declare UploadStream_poll_next.simps [simp del]

fun upload_to_s3_error_code :: "upload_error \<Rightarrow> s3_error_code" where
  "upload_to_s3_error_code (UUnderlying _) = InternalError"
| "upload_to_s3_error_code USha256Mismatch = BadDigest"
| "upload_to_s3_error_code ULengthMismatch = IncompleteBody"
| "upload_to_s3_error_code UIncomplete = IncompleteBody"

section \<open>Polling, case by case\<close>

abbreviation reading :: "body_event list \<Rightarrow> bytes list \<Rightarrow> nat \<Rightarrow> bytes \<Rightarrow> upload_stream" where
  "reading evs fed n expected \<equiv>
     \<lparr>up_inner = evs, up_hasher = Some fed, up_expected = expected, up_remaining = n, up_state = UReading\<rparr>"

abbreviation at_end :: "body_event list \<Rightarrow> bytes \<Rightarrow> upload_stream" where
  "at_end evs expected \<equiv>
     \<lparr>up_inner = evs, up_hasher = None, up_expected = expected, up_remaining = 0, up_state = UAwaitingEof\<rparr>"

lemmas finalize_defs = finalize_if_complete_def finalize_hash_def

lemma poll_at_end:
  "UploadStream_poll_next C (at_end [] x) = (Ready None, (at_end [] x)\<lparr>up_state := UFinished\<rparr>)"
  "UploadStream_poll_next C (at_end (BodyPending # evs) x) = (Pending, at_end evs x)"
  "UploadStream_poll_next C (at_end (BodyItem (Inr []) # evs) x) = UploadStream_poll_next C (at_end evs x)"
  "bs \<noteq> [] \<Longrightarrow> fst (UploadStream_poll_next C (at_end (BodyItem (Inr bs) # evs) x)) = Ready (Some (Inl ULengthMismatch))"
  "fst (UploadStream_poll_next C (at_end (BodyItem (Inl e) # evs) x)) = Ready (Some (Inl (UUnderlying e)))"
  by (subst UploadStream_poll_next.simps, simp)+

lemma poll_reading:
  "0 < n \<Longrightarrow> fst (UploadStream_poll_next C (reading [] fed n x)) = Ready (Some (Inl UIncomplete))"
  "0 < n \<Longrightarrow> UploadStream_poll_next C (reading (BodyPending # evs) fed n x) = (Pending, reading evs fed n x)"
  "0 < n \<Longrightarrow> UploadStream_poll_next C (reading (BodyItem (Inr []) # evs) fed n x) =
     UploadStream_poll_next C (reading evs fed n x)"
  "0 < n \<Longrightarrow> fst (UploadStream_poll_next C (reading (BodyItem (Inl e) # evs) fed n x)) = Ready (Some (Inl (UUnderlying e)))"
  "0 < n \<Longrightarrow> n < length bs \<Longrightarrow>
     fst (UploadStream_poll_next C (reading (BodyItem (Inr bs) # evs) fed n x)) = Ready (Some (Inl ULengthMismatch))"
  "bs \<noteq> [] \<Longrightarrow> length bs < n \<Longrightarrow> UploadStream_poll_next C (reading (BodyItem (Inr bs) # evs) fed n x) =
     (Ready (Some (Inr bs)), reading evs (fed @ [bs]) (n - length bs) x)"
  "0 < n \<Longrightarrow> length bs = n \<Longrightarrow> sha256_chunk C (fed @ [bs]) = x \<Longrightarrow>
     UploadStream_poll_next C (reading (BodyItem (Inr bs) # evs) fed n x) = (Ready (Some (Inr bs)), at_end evs x)"
  "0 < n \<Longrightarrow> length bs = n \<Longrightarrow> sha256_chunk C (fed @ [bs]) \<noteq> x \<Longrightarrow>
     fst (UploadStream_poll_next C (reading (BodyItem (Inr bs) # evs) fed n x)) = Ready (Some (Inl USha256Mismatch))"
  by (subst UploadStream_poll_next.simps, force simp: finalize_defs Let_def)+

lemma poll_empty_upload:
  "UploadStream_poll_next C (reading evs fed 0 x) =
    (if sha256_chunk C fed = x then UploadStream_poll_next C (at_end evs x)
     else (Ready (Some (Inl USha256Mismatch)), (at_end evs x)\<lparr>up_state := UFailed\<rparr>))"
  by (subst UploadStream_poll_next.simps) (simp add: finalize_defs)

section \<open>Draining the stream\<close>

text \<open>A consumer polls until the stream ends or fails.\<close>

fun upload_drain :: "nat \<Rightarrow> crypto_api \<Rightarrow> upload_stream \<Rightarrow> (bytes list \<times> upload_error option) option" where
  "upload_drain 0 C s = None"
| "upload_drain (Suc k) C s =
     (case UploadStream_poll_next C s of
        (Pending, s1) \<Rightarrow> upload_drain k C s1
      | (Ready None, s1) \<Rightarrow> Some ([], None)
      | (Ready (Some (Inl e)), s1) \<Rightarrow> Some ([], Some e)
      | (Ready (Some (Inr bs)), s1) \<Rightarrow> map_option (\<lambda>(ys, r). (bs # ys, r)) (upload_drain k C s1))"

text \<open>What the body delivers: its chunks, without the empty ones, up to its end or its first error.\<close>

fun body_data :: "body_event list \<Rightarrow> bytes list \<times> bytes option" where
  "body_data [] = ([], None)"
| "body_data (BodyPending # evs) = body_data evs"
| "body_data (BodyItem (Inl e) # evs) = ([], Some e)"
| "body_data (BodyItem (Inr bs) # evs) = ((if bs = [] then [] else [bs]) @ fst (body_data evs), snd (body_data evs))"

definition drained :: "crypto_api \<Rightarrow> bytes \<Rightarrow> bytes list \<Rightarrow> nat \<Rightarrow> body_event list \<Rightarrow> (bytes list \<times> upload_error option) option \<Rightarrow> bool" where
  "drained C x fed n evs out \<longleftrightarrow> (\<exists>ys r. out = Some (ys, r)
     \<and> prefix ys (fst (body_data evs)) \<and> [] \<notin> set ys
     \<and> (r = None \<longleftrightarrow> snd (body_data evs) = None \<and> length (concat (fst (body_data evs))) = n \<and> sha256_chunk C (fed @ fst (body_data evs)) = x)
     \<and> (r = None \<longrightarrow> ys = fst (body_data evs))
     \<and> length (concat ys) \<le> n
     \<and> (length (concat ys) = n \<longrightarrow> ys \<noteq> [] \<longrightarrow> sha256_chunk C (fed @ ys) = x))"

lemma drain_at_end:
  "length evs < k \<Longrightarrow> \<exists>r. upload_drain k C (at_end evs x) = Some ([], r) \<and> (r = None \<longleftrightarrow> body_data evs = ([], None))"
proof (induction evs arbitrary: k rule: body_data.induct)
  case 1
  then show ?case by (cases k) (simp_all add: poll_at_end)
next
  case (2 evs)
  then obtain k' where "k = Suc k'" "length evs < k'" by (cases k) auto
  with 2 show ?case by (simp add: poll_at_end)
next
  case (3 e evs)
  then obtain k' where "k = Suc k'" by (cases k) auto
  then show ?case using poll_at_end(5) [of C e evs x]
    by (cases "UploadStream_poll_next C (at_end (BodyItem (Inl e) # evs) x)") auto
next
  case (4 bs evs)
  then obtain k' where k: "k = Suc k'" by (cases k) auto
  show ?case
  proof (cases "bs = []")
    case True
    then have "upload_drain k C (at_end (BodyItem (Inr bs) # evs) x) = upload_drain k C (at_end evs x)"
      by (simp add: k poll_at_end)
    then show ?thesis using 4 True by auto
  next
    case False
    then show ?thesis using poll_at_end(4) [OF False, of C evs x] k
      by (cases "UploadStream_poll_next C (at_end (BodyItem (Inr bs) # evs) x)") auto
  qed
qed

lemma body_data_nonempty: "[] \<notin> set (fst (body_data evs))"
  by (induction evs rule: body_data.induct) auto

lemma body_data_none: "concat (fst (body_data evs)) = [] \<longleftrightarrow> fst (body_data evs) = []"
  using body_data_nonempty [of evs] by (cases "fst (body_data evs)") auto

lemma drain_empty_upload:
  assumes "length evs < k"
  shows "drained C x fed 0 evs (upload_drain k C (reading evs fed 0 x))"
proof -
  obtain k' where k: "k = Suc k'" using assms by (cases k) auto
  show ?thesis
  proof (cases "sha256_chunk C fed = x")
    case True
    then have "upload_drain k C (reading evs fed 0 x) = upload_drain k C (at_end evs x)"
      by (simp add: k poll_empty_upload)
    moreover obtain r where "upload_drain k C (at_end evs x) = Some ([], r)" "r = None \<longleftrightarrow> body_data evs = ([], None)"
      using drain_at_end [OF assms] by blast
    moreover have "length (concat (fst (body_data evs))) = 0 \<longleftrightarrow> fst (body_data evs) = []"
      using body_data_none [of evs] by (simp only: length_0_conv)
    ultimately show ?thesis using True unfolding drained_def
      by (cases "body_data evs") (auto simp del: length_concat concat_eq_Nil_conv)
  next
    case False
    moreover have "fst (body_data evs) = []" if "length (concat (fst (body_data evs))) = 0"
      using that body_data_none [of evs] by (simp only: length_0_conv)
    ultimately show ?thesis by (auto simp: k poll_empty_upload drained_def simp del: length_concat)
  qed
qed

lemma drained_Some_error:
  "0 < n \<Longrightarrow> fst (UploadStream_poll_next C s) = Ready (Some (Inl e)) \<Longrightarrow>
    \<not> (snd (body_data evs) = None \<and> length (concat (fst (body_data evs))) = n \<and> sha256_chunk C (fed @ fst (body_data evs)) = x) \<Longrightarrow>
    drained C x fed n evs (upload_drain (Suc k) C s)"
  by (cases "UploadStream_poll_next C s") (auto simp: drained_def)

lemma drain_reading:
  "0 < n \<Longrightarrow> length evs < k \<Longrightarrow> drained C x fed n evs (upload_drain k C (reading evs fed n x))"
proof (induction evs arbitrary: k fed n rule: body_data.induct)
  case 1
  then obtain k' where k: "k = Suc k'" by (cases k) auto
  show ?case unfolding k using 1 by (intro drained_Some_error [OF _ poll_reading(1)]) auto
next
  case (2 evs)
  then obtain k' where k: "k = Suc k'" "length evs < k'" by (cases k) auto
  with 2 have "drained C x fed n evs (upload_drain k' C (reading evs fed n x))" by blast
  then show ?case using "2.prems"(1) by (simp add: k poll_reading drained_def)
next
  case (3 e evs)
  then obtain k' where k: "k = Suc k'" by (cases k) auto
  show ?case unfolding k using 3 by (intro drained_Some_error [OF _ poll_reading(4)]) auto
next
  case (4 bs evs)
  then obtain k' where k: "k = Suc k'" "length evs < k'" by (cases k) auto
  consider "bs = []" | "n < length bs" | "bs \<noteq> []" "length bs < n" | "length bs = n" by linarith
  then show ?case
  proof cases
    case 1
    then have "upload_drain k C (reading (BodyItem (Inr bs) # evs) fed n x) = upload_drain k C (reading evs fed n x)"
      using "4.prems"(1) by (simp add: k poll_reading)
    moreover have "drained C x fed n evs (upload_drain k C (reading evs fed n x))" using "4.IH" [OF "4.prems"(1), of k fed] k by simp
    ultimately show ?thesis using 1 by (simp add: drained_def)
  next
    case 2
    then show ?thesis unfolding k(1) using "4.prems"(1) by (intro drained_Some_error [OF _ poll_reading(5)]) auto
  next
    case 3
    then have "drained C x (fed @ [bs]) (n - length bs) evs (upload_drain k' C (reading evs (fed @ [bs]) (n - length bs) x))"
      using "4.IH" [of "n - length bs" k' "fed @ [bs]"] k(2) by simp
    then obtain ys r where out: "upload_drain k' C (reading evs (fed @ [bs]) (n - length bs) x) = Some (ys, r)"
      and post: "prefix ys (fst (body_data evs))" "[] \<notin> set ys"
        "r = None \<longleftrightarrow> snd (body_data evs) = None \<and> length (concat (fst (body_data evs))) = n - length bs
           \<and> sha256_chunk C ((fed @ [bs]) @ fst (body_data evs)) = x"
        "r = None \<longrightarrow> ys = fst (body_data evs)" "length (concat ys) \<le> n - length bs"
        "length (concat ys) = n - length bs \<longrightarrow> ys \<noteq> [] \<longrightarrow> sha256_chunk C ((fed @ [bs]) @ ys) = x"
      unfolding drained_def by blast
    have "upload_drain k C (reading (BodyItem (Inr bs) # evs) fed n x) = Some (bs # ys, r)"
      using 3 out by (simp add: k(1) poll_reading)
    moreover have "ys \<noteq> []" if "length (concat (bs # ys)) = n" using that 3(2) by auto
    ultimately show ?thesis using 3 post by (auto simp: drained_def)
  next
    case same: 4
    show ?thesis
    proof (cases "sha256_chunk C (fed @ [bs]) = x")
      case True
      obtain r where "upload_drain k' C (at_end evs x) = Some ([], r)" "r = None \<longleftrightarrow> body_data evs = ([], None)"
        using drain_at_end [OF k(2)] by blast
      then show ?thesis
        using True same "4.prems"(1) body_data_nonempty [of evs]
        by (cases "body_data evs"; cases "fst (body_data evs)") (auto simp: k(1) poll_reading drained_def)
    next
      case False
      then show ?thesis unfolding k(1) using "4.prems"(1) same body_data_nonempty [of evs]
        by (intro drained_Some_error [OF _ poll_reading(8)]) (cases "fst (body_data evs)"; auto)+
    qed
  qed
qed

section \<open>Properties\<close>

lemma drained_new:
  "length evs < k \<Longrightarrow> drained C expected [] len evs (upload_drain k C (UploadStream_new evs len expected))"
  using drain_empty_upload [of evs k] drain_reading [of _ evs k] by (cases "len = 0") (simp_all add: UploadStream_new_def)

text \<open>An upload with a signed digest is handed over in full only when the digest is right: draining
  the stream always ends, hands out a prefix of the body and never more than the declared length, ends
  without an error exactly when the body ends without one, has the declared length and the declared
  SHA-256, and whenever the last declared byte has been handed out the bytes handed out have the
  declared SHA-256, even when the stream fails later.\<close>

theorem upload_stream_verified:
  assumes "length evs < k"
  shows "\<exists>ys r. upload_drain k C (UploadStream_new evs len expected) = Some (ys, r)
    \<and> prefix ys (fst (body_data evs)) \<and> length (concat ys) \<le> len
    \<and> (r = None \<longleftrightarrow> snd (body_data evs) = None \<and> length (concat (fst (body_data evs))) = len
         \<and> sha256_chunk C (fst (body_data evs)) = expected)
    \<and> (r = None \<longrightarrow> ys = fst (body_data evs))
    \<and> (ys \<noteq> [] \<and> length (concat ys) = len \<longrightarrow> sha256_chunk C ys = expected)"
  using drained_new [OF assms, of C expected len] by (auto simp: drained_def)

theorem upload_stream_verified_witness:
  "\<exists>ys. upload_drain 3 \<lparr>digest_once = id, digest_updates = concat, mac = (\<lambda>_ _. []), hex_lower = id, hex_decode = Some\<rparr>
     (UploadStream_new [BodyItem (Inr ''ab''), BodyPending] 2 ''ab'') = Some (ys, None) \<and> ys = [''ab'']"
  using upload_stream_verified [of "[BodyItem (Inr ''ab''), BodyPending]" 3
      "\<lparr>digest_once = id, digest_updates = concat, mac = (\<lambda>_ _. []), hex_lower = id, hex_decode = Some\<rparr>" 2 "''ab''"]
  by (auto simp: sha256_chunk_def)

end
