(* ===== verification/Http_Body.thy ===== *)
theory Http_Body
  imports Upload_Stream Aws_Chunked
begin

text \<open>
  Request and response bodies (s3s/src/http/body.rs) and the lengths that byte streams announce
  (s3s/src/stream/mod.rs). A body of the HTTP stack (\<^verbatim>\<open>Hyper\<close>, \<^verbatim>\<open>BoxBody\<close>, \<^verbatim>\<open>UnsyncBoxBody\<close>) is the list of
  the outcomes of its polls with the size hint it gives at each of them; a boxed byte stream is one of
  the streams of the program or the outcomes of a foreign one. \<^verbatim>\<open>http_body_util::Limited\<close> with \<^verbatim>\<open>collect\<close> is a
  parameter.
\<close>

section \<open>The program\<close>

subsection \<open>stream/mod.rs\<close>

record remaining_len =
  rl_lower :: nat
  rl_upper :: "nat option"

text \<open>\<open>None\<close> is the failed assertion.\<close>

definition RemainingLength_new :: "nat \<Rightarrow> nat option \<Rightarrow> remaining_len option" where
  "RemainingLength_new lo up =
     (case up of
        Some u \<Rightarrow> (if lo \<le> u then Some \<lparr>rl_lower = lo, rl_upper = up\<rparr> else None)
      | None \<Rightarrow> Some \<lparr>rl_lower = lo, rl_upper = up\<rparr>)"

definition RemainingLength_unknown :: remaining_len where
  "RemainingLength_unknown = \<lparr>rl_lower = 0, rl_upper = None\<rparr>"

definition RemainingLength_new_exact :: "nat \<Rightarrow> remaining_len" where
  "RemainingLength_new_exact n = \<lparr>rl_lower = n, rl_upper = Some n\<rparr>"

definition RemainingLength_exact :: "remaining_len \<Rightarrow> nat option" where
  "RemainingLength_exact l =
     (case rl_upper l of Some upper \<Rightarrow> (if upper = rl_lower l then Some upper else None) | None \<Rightarrow> None)"

text \<open>The size hint of \<^verbatim>\<open>http_body\<close> with its 64-bit bounds; \<^verbatim>\<open>usize\<close> has 64 bits.\<close>

definition into_size_hint :: "remaining_len \<Rightarrow> nat \<times> nat option" where
  "into_size_hint l = (rl_lower l, rl_upper l)"

definition from_size_hint :: "nat \<times> nat option \<Rightarrow> remaining_len" where
  "from_size_hint sz =
     (let lower = (if fst sz < 2 ^ 64 then fst sz else 2 ^ 64 - 1);
          upper = (case snd sz of Some x \<Rightarrow> (if x < 2 ^ 64 then Some x else None) | None \<Rightarrow> None)
      in \<lparr>rl_lower = lower, rl_upper = upper\<rparr>)"

record vec_byte_stream =
  queue :: "bytes list"
  remaining_bytes :: nat

definition VecByteStream_new :: "bytes list \<Rightarrow> vec_byte_stream" where
  "VecByteStream_new v =
     (let total = foldl (\<lambda>n l. min (n + l) (2 ^ 64 - 1)) 0 (map length v)
      in \<lparr>queue = v, remaining_bytes = total\<rparr>)"

definition VecByteStream_poll_next :: "vec_byte_stream \<Rightarrow> bytes option \<times> vec_byte_stream" where
  "VecByteStream_poll_next s =
     (case queue s of
        b # rest \<Rightarrow> (Some b, s\<lparr>queue := rest, remaining_bytes := remaining_bytes s - length b\<rparr>)
      | [] \<Rightarrow> (None, s))"

subsection \<open>body.rs: the body\<close>

datatype frame = DataFrame bytes | TrailersFrame

datatype frame_event = FramePending | FrameItem "bytes + frame"

record raw_body =
  raw_events :: "frame_event list"
  raw_hint :: "frame_event list \<Rightarrow> nat \<times> nat option"

text \<open>The boxed streams: those of the program, and a foreign one with the length it announces.\<close>

datatype dyn_stream =
    DynUpload upload_stream
  | DynChunked aws_chunked_stream
  | DynVec vec_byte_stream
  | DynForeign "body_event list" "body_event list \<Rightarrow> remaining_len"

datatype body_kind =
    KEmpty
  | KOnce bytes
  | KHyper raw_body
  | KBoxBody raw_body
  | KUnsyncBoxBody raw_body
  | KDynStream dyn_stream

record http_body =
  kind :: body_kind
  remaining_limit :: "nat option"

text \<open>The errors a body reports, boxed in \<^verbatim>\<open>StdError\<close>.\<close>

datatype body_error =
    ForeignError bytes
  | UploadFailure upload_error
  | ChunkedFailure ac_error
  | BodySizeLimitExceeded nat nat

definition Body_empty :: http_body where
  "Body_empty = \<lparr>kind = KEmpty, remaining_limit = None\<rparr>"

definition Body_once :: "bytes \<Rightarrow> http_body" where
  "Body_once bs = \<lparr>kind = KOnce bs, remaining_limit = None\<rparr>"

definition Body_hyper :: "raw_body \<Rightarrow> http_body" where
  "Body_hyper b = \<lparr>kind = KHyper b, remaining_limit = None\<rparr>"

definition Body_dyn_stream :: "dyn_stream \<Rightarrow> http_body" where
  "Body_dyn_stream s = \<lparr>kind = KDynStream s, remaining_limit = None\<rparr>"

definition Body_http_body :: "raw_body \<Rightarrow> http_body" where
  "Body_http_body b = \<lparr>kind = KBoxBody b, remaining_limit = None\<rparr>"

definition Body_http_body_unsync :: "raw_body \<Rightarrow> http_body" where
  "Body_http_body_unsync b = \<lparr>kind = KUnsyncBoxBody b, remaining_limit = None\<rparr>"

definition set_limit :: "nat option \<Rightarrow> http_body \<Rightarrow> http_body" where
  "set_limit limit b = b\<lparr>remaining_limit := limit\<rparr>"

subsection \<open>body.rs: polling\<close>

fun raw_poll :: "raw_body \<Rightarrow> (body_error + frame) option poll \<times> raw_body" where
  "raw_poll b =
     (case raw_events b of
        [] \<Rightarrow> (Ready None, b)
      | FramePending # evs \<Rightarrow> (Pending, b\<lparr>raw_events := evs\<rparr>)
      | FrameItem (Inr f) # evs \<Rightarrow> (Ready (Some (Inr f)), b\<lparr>raw_events := evs\<rparr>)
      | FrameItem (Inl e) # evs \<Rightarrow> (Ready (Some (Inl (ForeignError e))), b\<lparr>raw_events := evs\<rparr>))"

definition map_poll_err :: "('e \<Rightarrow> body_error) \<Rightarrow> ('e + bytes) option poll \<Rightarrow> (body_error + bytes) option poll" where
  "map_poll_err f p =
     (case p of Pending \<Rightarrow> Pending | Ready None \<Rightarrow> Ready None
      | Ready (Some (Inl e)) \<Rightarrow> Ready (Some (Inl (f e))) | Ready (Some (Inr bs)) \<Rightarrow> Ready (Some (Inr bs)))"

fun dyn_poll_next :: "crypto_api \<Rightarrow> dyn_stream \<Rightarrow> (body_error + bytes) option poll \<times> dyn_stream" where
  "dyn_poll_next C (DynUpload s) =
     (case UploadStream_poll_next C s of (p, s') \<Rightarrow> (map_poll_err UploadFailure p, DynUpload s'))"
| "dyn_poll_next C (DynChunked s) =
     (case AwsChunkedStream_poll s of (p, s') \<Rightarrow> (map_poll_err ChunkedFailure (Ready p), DynChunked s'))"
| "dyn_poll_next C (DynVec s) =
     (case VecByteStream_poll_next s of (p, s') \<Rightarrow> (Ready (map_option Inr p), DynVec s'))"
| "dyn_poll_next C (DynForeign evs len) =
     (case body_poll evs of (p, evs') \<Rightarrow> (map_poll_err ForeignError p, DynForeign evs' len))"

definition frame_of_data :: "(body_error + bytes) option poll \<Rightarrow> (body_error + frame) option poll" where
  "frame_of_data p =
     (case p of Pending \<Rightarrow> Pending | Ready None \<Rightarrow> Ready None
      | Ready (Some (Inl e)) \<Rightarrow> Ready (Some (Inl e)) | Ready (Some (Inr bs)) \<Rightarrow> Ready (Some (Inr (DataFrame bs))))"

fun poll_kind :: "crypto_api \<Rightarrow> body_kind \<Rightarrow> (body_error + frame) option poll \<times> body_kind" where
  "poll_kind C KEmpty = (Ready None, KEmpty)"
| "poll_kind C (KOnce bs) = (if bs = [] then Ready None else Ready (Some (Inr (DataFrame bs))), KEmpty)"
| "poll_kind C (KHyper b) = (case raw_poll b of (p, b') \<Rightarrow> (p, KHyper b'))"
| "poll_kind C (KBoxBody b) = (case raw_poll b of (p, b') \<Rightarrow> (p, KBoxBody b'))"
| "poll_kind C (KUnsyncBoxBody b) = (case raw_poll b of (p, b') \<Rightarrow> (p, KUnsyncBoxBody b'))"
| "poll_kind C (KDynStream s) = (case dyn_poll_next C s of (p, s') \<Rightarrow> (frame_of_data p, KDynStream s'))"

definition poll_frame :: "crypto_api \<Rightarrow> http_body \<Rightarrow> (body_error + frame) option poll \<times> http_body" where
  "poll_frame C b =
     (case poll_kind C (kind b) of
        (p, k) \<Rightarrow>
          (let b1 = b\<lparr>kind := k\<rparr>
           in case (remaining_limit b1, p) of
                (Some remaining, Ready (Some (Inr (DataFrame data)))) \<Rightarrow>
                  (if length data > remaining
                   then (Ready (Some (Inl (BodySizeLimitExceeded (length data) remaining))), b1)
                   else (p, b1\<lparr>remaining_limit := Some (remaining - length data)\<rparr>))
              | _ \<Rightarrow> (p, b1)))"

text \<open>What a body may still deliver, in polls.\<close>

fun dyn_left :: "dyn_stream \<Rightarrow> nat" where
  "dyn_left (DynUpload s) = length (up_inner s)"
| "dyn_left (DynChunked s) = length (inner s)"
| "dyn_left (DynVec s) = length (queue s)"
| "dyn_left (DynForeign evs _) = length evs"

fun polls_left :: "body_kind \<Rightarrow> nat" where
  "polls_left KEmpty = 0"
| "polls_left (KOnce _) = 1"
| "polls_left (KHyper b) = length (raw_events b)"
| "polls_left (KBoxBody b) = length (raw_events b)"
| "polls_left (KUnsyncBoxBody b) = length (raw_events b)"
| "polls_left (KDynStream s) = dyn_left s"

definition goes_on :: "('e + 'a) option poll \<Rightarrow> bool" where
  "goes_on p \<longleftrightarrow> (case p of Ready None \<Rightarrow> False | Ready (Some (Inl _)) \<Rightarrow> False | _ \<Rightarrow> True)"

lemma goes_on_simps [simp]:
  "goes_on Pending" "\<not> goes_on (Ready None)" "\<not> goes_on (Ready (Some (Inl e)))" "goes_on (Ready (Some (Inr x)))"
  by (simp_all add: goes_on_def)

lemma goes_on_map [simp]: "goes_on (map_poll_err f p) = goes_on p" "goes_on (frame_of_data q) = goes_on q"
  by (simp_all add: goes_on_def map_poll_err_def frame_of_data_def split: poll.split option.split sum.split)

lemma finalize_inner: "finalize_if_complete C s = (r, s1) \<Longrightarrow> up_inner s1 = up_inner s"
  by (auto simp: finalize_if_complete_def finalize_hash_def split: option.splits if_splits)

lemma body_poll_less: "body_poll evs = (q, rest) \<Longrightarrow> q \<noteq> Ready None \<Longrightarrow> length rest < length evs"
  by (cases evs rule: body_poll.cases) auto

lemma upload_poll_shorter:
  "UploadStream_poll_next C s = (p, s') \<Longrightarrow> goes_on p \<Longrightarrow> length (up_inner s') < length (up_inner s)"
proof (induction C s arbitrary: p s' rule: UploadStream_poll_next.induct)
  case (1 C s)
  show ?case
  proof (cases "up_state s")
    case UReading
    obtain r s1 where f: "finalize_if_complete C s = (r, s1)" by (cases "finalize_if_complete C s")
    then have s1: "up_inner s1 = up_inner s" by (rule finalize_inner)
    obtain q rest where b: "body_poll (up_inner s1) = (q, rest)" by (cases "body_poll (up_inner s1)")
    show ?thesis
    proof (cases r)
      case (Inl e)
      with "1.prems" UReading f show ?thesis by (subst (asm) UploadStream_poll_next.simps) auto
    next
      case (Inr complete)
      show ?thesis
      proof (cases complete)
        case True
        with "1.prems" UReading f Inr s1 show ?thesis
          using "1.IH"(1) [OF UReading f [symmetric]] by (subst (asm) UploadStream_poll_next.simps) simp
      next
        case False
        have less: "q \<noteq> Ready None \<Longrightarrow> length rest < length (up_inner s)" using body_poll_less [OF b] s1 by simp
        have empty: "q = Ready (Some (Inr [])) \<Longrightarrow> UploadStream_poll_next C (s1\<lparr>up_inner := rest\<rparr>) = (p, s')
            \<Longrightarrow> length (up_inner s') < length (up_inner s)"
          using "1.IH"(2) [OF UReading f [symmetric] Inr _ b [symmetric]] less False "1.prems"(2) by fastforce
        show ?thesis
          using "1.prems" UReading f b Inr False less empty
          by (subst (asm) UploadStream_poll_next.simps)
            (auto simp: Let_def dest: finalize_inner split: poll.splits option.splits sum.splits if_splits prod.splits)
      qed
    qed
  next
    case UAwaitingEof
    obtain q rest where b: "body_poll (up_inner s) = (q, rest)" by (cases "body_poll (up_inner s)")
    have empty: "q = Ready (Some (Inr [])) \<Longrightarrow> UploadStream_poll_next C (s\<lparr>up_inner := rest\<rparr>) = (p, s')
        \<Longrightarrow> length (up_inner s') < length (up_inner s)"
      using "1.IH"(3) [OF UAwaitingEof b [symmetric]] body_poll_less [OF b] "1.prems"(2) by fastforce
    show ?thesis
      using "1.prems" UAwaitingEof b body_poll_less [OF b] empty
      by (subst (asm) UploadStream_poll_next.simps) (auto split: poll.splits option.splits sum.splits if_splits)
  qed (use "1.prems" in \<open>auto simp: UploadStream_poll_next.simps [of C s]\<close>)
qed

lemma chunked_poll_shorter:
  "AwsChunkedStream_poll s = (r, s') \<Longrightarrow> goes_on (Ready r) \<Longrightarrow> length (inner s') < length (inner s)"
  by (auto simp: AwsChunkedStream_poll_def split: list.splits sum.splits if_splits)

lemma dyn_poll_shorter: "dyn_poll_next C d = (p, d') \<Longrightarrow> goes_on p \<Longrightarrow> dyn_left d' < dyn_left d"
proof (cases d)
  case (DynUpload s)
  moreover assume "dyn_poll_next C d = (p, d')" "goes_on p"
  ultimately show ?thesis by (auto dest: upload_poll_shorter split: prod.splits)
next
  case (DynChunked s)
  moreover assume "dyn_poll_next C d = (p, d')" "goes_on p"
  ultimately show ?thesis
    by (auto split: prod.splits dest: chunked_poll_shorter)
next
  case (DynVec s)
  moreover assume "dyn_poll_next C d = (p, d')" "goes_on p"
  ultimately show ?thesis by (auto simp: VecByteStream_poll_next_def split: list.splits)
next
  case (DynForeign evs len)
  moreover assume "dyn_poll_next C d = (p, d')" "goes_on p"
  ultimately show ?thesis by (auto split: prod.splits dest: body_poll_less)
qed

lemma raw_poll_shorter: "raw_poll b = (p, b') \<Longrightarrow> goes_on p \<Longrightarrow> length (raw_events b') < length (raw_events b)"
  by (auto split: list.splits frame_event.splits sum.splits)

lemma poll_kind_shorter: "poll_kind C k = (p, k') \<Longrightarrow> goes_on p \<Longrightarrow> polls_left k' < polls_left k"
  by (cases k) (auto simp del: raw_poll.simps split: prod.splits if_splits dest: raw_poll_shorter dyn_poll_shorter)

lemma poll_frame_shorter: "poll_frame C b = (p, b') \<Longrightarrow> goes_on p \<Longrightarrow> polls_left (kind b') < polls_left (kind b)"
  by (auto simp: poll_frame_def Let_def split: prod.splits option.splits poll.splits sum.splits frame.splits if_splits
      dest: poll_kind_shorter)

function Body_poll_next :: "crypto_api \<Rightarrow> http_body \<Rightarrow> (body_error + bytes) option poll \<times> http_body" where
  "Body_poll_next C b =
     (case poll_frame C b of
        (Pending, b1) \<Rightarrow> (Pending, b1)
      | (Ready None, b1) \<Rightarrow> (Ready None, b1)
      | (Ready (Some (Inl e)), b1) \<Rightarrow> (Ready (Some (Inl e)), b1)
      | (Ready (Some (Inr (DataFrame data))), b1) \<Rightarrow> (Ready (Some (Inr data)), b1)
      | (Ready (Some (Inr TrailersFrame)), b1) \<Rightarrow> Body_poll_next C b1)"
  by pat_completeness auto
termination
  by (relation "measure (\<lambda>(C, b). polls_left (kind b))") (auto dest!: poll_frame_shorter [OF sym])

declare Body_poll_next.simps [simp del]

lemma Body_poll_next_shorter:
  "Body_poll_next C b = (p, b') \<Longrightarrow> goes_on p \<Longrightarrow> polls_left (kind b') < polls_left (kind b)"
proof (induction C b arbitrary: p b' rule: Body_poll_next.induct)
  case (1 C b)
  obtain q b1 where q: "poll_frame C b = (q, b1)" by (cases "poll_frame C b")
  have trailers: "q = Ready (Some (Inr TrailersFrame)) \<Longrightarrow> Body_poll_next C b1 = (p, b')
      \<Longrightarrow> polls_left (kind b') < polls_left (kind b)"
    using "1.IH" [OF q [symmetric] _ refl refl refl] poll_frame_shorter [OF q] "1.prems"(2) by fastforce
  show ?case
    using "1.prems" q poll_frame_shorter [OF q] trailers
    by (subst (asm) Body_poll_next.simps) (auto split: poll.splits option.splits sum.splits frame.splits)
qed

subsection \<open>body.rs: lengths\<close>

fun dyn_remaining_length :: "dyn_stream \<Rightarrow> remaining_len" where
  "dyn_remaining_length (DynUpload s) = RemainingLength_new_exact (up_remaining s)"
| "dyn_remaining_length (DynChunked s) = RemainingLength_new_exact (exact_remaining_length s)"
| "dyn_remaining_length (DynVec s) = RemainingLength_new_exact (remaining_bytes s)"
| "dyn_remaining_length (DynForeign evs len) = len evs"

definition raw_size_hint :: "raw_body \<Rightarrow> nat \<times> nat option" where
  "raw_size_hint b = raw_hint b (raw_events b)"

fun kind_size_hint :: "body_kind \<Rightarrow> nat \<times> nat option" where
  "kind_size_hint KEmpty = (0, Some 0)"
| "kind_size_hint (KOnce bs) = (length bs, Some (length bs))"
| "kind_size_hint (KHyper b) = raw_size_hint b"
| "kind_size_hint (KBoxBody b) = raw_size_hint b"
| "kind_size_hint (KUnsyncBoxBody b) = raw_size_hint b"
| "kind_size_hint (KDynStream s) = into_size_hint (dyn_remaining_length s)"

definition Body_size_hint :: "http_body \<Rightarrow> nat \<times> nat option" where
  "Body_size_hint b = kind_size_hint (kind b)"

fun kind_remaining_length :: "body_kind \<Rightarrow> remaining_len" where
  "kind_remaining_length KEmpty = RemainingLength_new_exact 0"
| "kind_remaining_length (KOnce bs) = RemainingLength_new_exact (length bs)"
| "kind_remaining_length (KHyper b) = from_size_hint (raw_size_hint b)"
| "kind_remaining_length (KBoxBody b) = from_size_hint (raw_size_hint b)"
| "kind_remaining_length (KUnsyncBoxBody b) = from_size_hint (raw_size_hint b)"
| "kind_remaining_length (KDynStream s) = dyn_remaining_length s"

definition Body_remaining_length :: "http_body \<Rightarrow> remaining_len" where
  "Body_remaining_length b = kind_remaining_length (kind b)"

text \<open>\<open>ends\<close> is what a body of the HTTP stack answers to \<^verbatim>\<open>is_end_stream\<close>.\<close>

fun kind_is_end_stream :: "(raw_body \<Rightarrow> bool) \<Rightarrow> body_kind \<Rightarrow> bool" where
  "kind_is_end_stream ends KEmpty = True"
| "kind_is_end_stream ends (KOnce bs) = (bs = [])"
| "kind_is_end_stream ends (KHyper b) = ends b"
| "kind_is_end_stream ends (KBoxBody b) = ends b"
| "kind_is_end_stream ends (KUnsyncBoxBody b) = ends b"
| "kind_is_end_stream ends (KDynStream s) = (RemainingLength_exact (dyn_remaining_length s) = Some 0)"

definition is_end_stream :: "(raw_body \<Rightarrow> bool) \<Rightarrow> http_body \<Rightarrow> bool" where
  "is_end_stream ends b = kind_is_end_stream ends (kind b)"

subsection \<open>body.rs: reading a body into memory\<close>

definition Body_bytes :: "http_body \<Rightarrow> bytes option" where
  "Body_bytes b = (case kind b of KEmpty \<Rightarrow> Some [] | KOnce bs \<Rightarrow> Some bs | _ \<Rightarrow> None)"

definition Body_take_bytes :: "http_body \<Rightarrow> bytes option \<times> http_body" where
  "Body_take_bytes b =
     (case kind b of KEmpty \<Rightarrow> Some [] | KOnce bs \<Rightarrow> Some bs | _ \<Rightarrow> None, b\<lparr>kind := KEmpty\<rparr>)"

text \<open>The texts of the boxed errors.\<close>

fun ac_error_text :: "ac_error \<Rightarrow> bytes" and std_error_text :: "std_error \<Rightarrow> bytes" where
  "ac_error_text (Underlying e) = ''AwsChunkedStreamError: Underlying: '' @ std_error_text e"
| "ac_error_text SignatureMismatch = ''AwsChunkedStreamError: SignatureMismatch''"
| "ac_error_text FormatError = ''AwsChunkedStreamError: FormatError''"
| "ac_error_text Incomplete = ''AwsChunkedStreamError: Incomplete''"
| "ac_error_text LengthMismatch = ''AwsChunkedStreamError: LengthMismatch''"
| "ac_error_text (ChunkMetaTooLarge n l) =
     ''AwsChunkedStreamError: ChunkMetaTooLarge: size '' @ decimal n @ '' exceeds limit '' @ decimal l"
| "ac_error_text (ChunkDataTooLarge n l) =
     ''AwsChunkedStreamError: ChunkDataTooLarge: size '' @ decimal n @ '' exceeds limit '' @ decimal l"
| "ac_error_text (TrailersTooLarge n l) =
     ''AwsChunkedStreamError: TrailersTooLarge: size '' @ decimal n @ '' exceeds limit '' @ decimal l"
| "ac_error_text (TooManyTrailerHeaders n l) =
     ''AwsChunkedStreamError: TooManyTrailerHeaders: count '' @ decimal n @ '' exceeds limit '' @ decimal l"
| "std_error_text (TransportError e) = e"
| "std_error_text (BoxedError e) = ac_error_text e"

fun upload_error_text :: "upload_error \<Rightarrow> bytes" where
  "upload_error_text (UUnderlying e) = ''UploadStreamError: Underlying: '' @ e"
| "upload_error_text USha256Mismatch = ''UploadStreamError: Sha256Mismatch''"
| "upload_error_text ULengthMismatch = ''UploadStreamError: LengthMismatch''"
| "upload_error_text UIncomplete = ''UploadStreamError: Incomplete''"

fun body_error_text :: "body_error \<Rightarrow> bytes" where
  "body_error_text (ForeignError e) = e"
| "body_error_text (UploadFailure e) = upload_error_text e"
| "body_error_text (ChunkedFailure e) = ac_error_text e"
| "body_error_text (BodySizeLimitExceeded n l) = ''body size '' @ decimal n @ '' exceeds limit '' @ decimal l"

text \<open>
  A body seen as the stream that another component reads: the outcomes of its polls up to its end or its
  first error. Every reader of the program stops there.
\<close>

function outcomes :: "crypto_api \<Rightarrow> http_body \<Rightarrow> body_event list" where
  "outcomes C b =
     (case Body_poll_next C b of
        (Pending, b1) \<Rightarrow> BodyPending # outcomes C b1
      | (Ready None, b1) \<Rightarrow> []
      | (Ready (Some (Inl e)), b1) \<Rightarrow> [BodyItem (Inl (body_error_text e))]
      | (Ready (Some (Inr bs)), b1) \<Rightarrow> BodyItem (Inr bs) # outcomes C b1)"
  by pat_completeness auto
termination
  by (relation "measure (\<lambda>(C, b). polls_left (kind b))") (auto dest!: Body_poll_next_shorter [OF sym])

declare outcomes.simps [simp del]

text \<open>
  Collecting under \<^verbatim>\<open>Limited\<close> fails with its own \<^verbatim>\<open>LengthLimitError\<close> or with the error of the body, \<open>None\<close> and \<open>Some\<close> in
  the result of the parameter. The error of the body keeps its type (\<open>first_failure\<close>).
\<close>

function first_failure :: "crypto_api \<Rightarrow> http_body \<Rightarrow> body_error option" where
  "first_failure C b =
     (case Body_poll_next C b of
        (Pending, b1) \<Rightarrow> first_failure C b1
      | (Ready None, b1) \<Rightarrow> None
      | (Ready (Some (Inl e)), b1) \<Rightarrow> Some e
      | (Ready (Some (Inr bs)), b1) \<Rightarrow> first_failure C b1)"
  by pat_completeness auto
termination
  by (relation "measure (\<lambda>(C, b). polls_left (kind b))") (auto dest!: Body_poll_next_shorter [OF sym])

declare first_failure.simps [simp del]

type_synonym collect_api = "nat \<Rightarrow> body_event list \<Rightarrow> bytes option + bytes"

datatype store_error = LengthLimitError | BodyFailure body_error

definition store_all_limited :: "collect_api \<Rightarrow> crypto_api \<Rightarrow> nat \<Rightarrow> http_body \<Rightarrow> (store_error + bytes) \<times> http_body" where
  "store_all_limited L C limit b =
     (case Body_bytes b of
        Some bs \<Rightarrow>
          (if length bs > limit then (Inl (BodyFailure (BodySizeLimitExceeded (length bs) limit)), b) else (Inr bs, b))
      | None \<Rightarrow>
          (case L limit (outcomes C b) of
             Inl None \<Rightarrow> (Inl LengthLimitError, Body_empty)
           | Inl (Some text) \<Rightarrow>
               (Inl (BodyFailure (case first_failure C b of Some e \<Rightarrow> e | None \<Rightarrow> ForeignError text)), Body_empty)
           | Inr bs \<Rightarrow> (Inr bs, Body_once bs)))"

text \<open>The chunks that the \<^verbatim>\<open>aws-chunked\<close> decoder awaits from a body.\<close>

fun awaited :: "body_event list \<Rightarrow> body" where
  "awaited [] = []"
| "awaited (BodyPending # evs) = awaited evs"
| "awaited (BodyItem (Inl e) # evs) = Inl (TransportError e) # awaited evs"
| "awaited (BodyItem (Inr bs) # evs) = Inr bs # awaited evs"

section \<open>Facts\<close>

text \<open>
  The documented behaviour of \<^verbatim>\<open>Limited\<close> and \<^verbatim>\<open>collect\<close>: all data, unless it is over the limit or the body fails;
  the \<^verbatim>\<open>LengthLimitError\<close> once the data is over the limit.
\<close>

locale limited_collect =
  fixes L :: collect_api
  assumes collect_Inr: "L n evs = Inr d \<longleftrightarrow>
    snd (body_data evs) = None \<and> d = concat (fst (body_data evs)) \<and> length d \<le> n"
    and collect_over: "n < length (concat (fst (body_data evs))) \<Longrightarrow> L n evs = Inl None"
begin

lemma store_Inr:
  "fst (store_all_limited L C n b) = Inr d \<longleftrightarrow>
     (case Body_bytes b of Some bs \<Rightarrow> d = bs
      | None \<Rightarrow> snd (body_data (outcomes C b)) = None \<and> d = concat (fst (body_data (outcomes C b)))) \<and> length d \<le> n"
  using collect_Inr [of n "outcomes C b" d]
  by (auto simp: store_all_limited_def split: option.splits sum.splits if_splits)

end

definition collect_ref :: collect_api where
  "collect_ref n evs =
     (case body_data evs of (ds, r) \<Rightarrow>
        (if n < length (concat ds) then Inl None
         else case r of Some e \<Rightarrow> Inl (Some e) | None \<Rightarrow> Inr (concat ds)))"

interpretation collect_reference: limited_collect collect_ref
  by unfold_locales (auto simp: collect_ref_def split: prod.splits option.splits if_splits)

text \<open>Limiting a stream of outcomes: the first chunk that goes over the allowance becomes the error.\<close>

fun limit_events :: "nat \<Rightarrow> body_event list \<Rightarrow> body_event list" where
  "limit_events n [] = []"
| "limit_events n (BodyPending # evs) = BodyPending # limit_events n evs"
| "limit_events n (BodyItem (Inl e) # evs) = [BodyItem (Inl e)]"
| "limit_events n (BodyItem (Inr bs) # evs) =
     (if length bs > n then [BodyItem (Inl (body_error_text (BodySizeLimitExceeded (length bs) n)))]
      else BodyItem (Inr bs) # limit_events (n - length bs) evs)"

lemma limit_events_bound: "length (concat (fst (body_data (limit_events n evs)))) \<le> n"
proof (induction n evs rule: limit_events.induct)
  case (4 n bs evs)
  then show ?case by (cases "bs = []") auto
qed auto

lemma limit_events_id:
  "length (concat (fst (body_data evs))) \<le> n \<Longrightarrow> body_data (limit_events n evs) = body_data evs"
proof (induction n evs rule: limit_events.induct)
  case (4 n bs evs)
  then show ?case by (cases "bs = []") auto
qed auto

lemma limit_events_over:
  "n < length (concat (fst (body_data evs))) \<Longrightarrow> snd (body_data (limit_events n evs)) \<noteq> None"
proof (induction n evs rule: limit_events.induct)
  case (4 n bs evs)
  then show ?case by (cases "bs = []") auto
qed auto

definition limited :: "nat \<Rightarrow> (body_error + bytes) option poll \<times> http_body \<Rightarrow> (body_error + bytes) option poll \<times> http_body" where
  "limited n r =
     (case r of
        (Ready (Some (Inr data)), b) \<Rightarrow>
          (if length data > n then (Ready (Some (Inl (BodySizeLimitExceeded (length data) n))), set_limit (Some n) b)
           else (Ready (Some (Inr data)), set_limit (Some (n - length data)) b))
      | (p, b) \<Rightarrow> (p, set_limit (Some n) b))"

lemma poll_next_unlimited: "remaining_limit b = None \<Longrightarrow> Body_poll_next C b = (p, b') \<Longrightarrow> remaining_limit b' = None"
proof (induction C b arbitrary: p b' rule: Body_poll_next.induct)
  case (1 C b)
  obtain q k where q: "poll_kind C (kind b) = (q, k)" by (cases "poll_kind C (kind b)")
  then have pf: "poll_frame C b = (q, b\<lparr>kind := k\<rparr>)" using "1.prems"(1) by (simp add: poll_frame_def)
  show ?case
    using "1.prems" "1.IH" [OF pf [symmetric] _ refl refl refl] pf
    by (subst (asm) Body_poll_next.simps) (auto split: poll.splits option.splits sum.splits frame.splits)
qed

lemma poll_next_limited:
  "remaining_limit b = None \<Longrightarrow> Body_poll_next C (set_limit (Some n) b) = limited n (Body_poll_next C b)"
proof (induction C b rule: Body_poll_next.induct)
  case (1 C b)
  obtain q k where q: "poll_kind C (kind b) = (q, k)" by (cases "poll_kind C (kind b)")
  then have pf: "poll_frame C b = (q, b\<lparr>kind := k\<rparr>)" using "1.prems" by (simp add: poll_frame_def)
  have IH: "q = Ready (Some (Inr TrailersFrame)) \<Longrightarrow>
      Body_poll_next C (set_limit (Some n) (b\<lparr>kind := k\<rparr>)) = limited n (Body_poll_next C (b\<lparr>kind := k\<rparr>))"
    using "1.IH" [OF pf [symmetric] _ refl refl refl] "1.prems" by simp
  have lim: "poll_frame C (set_limit (Some n) b) =
      (case q of
         Ready (Some (Inr (DataFrame data))) \<Rightarrow>
           (if length data > n then (Ready (Some (Inl (BodySizeLimitExceeded (length data) n))), set_limit (Some n) (b\<lparr>kind := k\<rparr>))
            else (q, set_limit (Some (n - length data)) (b\<lparr>kind := k\<rparr>)))
       | _ \<Rightarrow> (q, set_limit (Some n) (b\<lparr>kind := k\<rparr>)))"
    using q by (simp add: poll_frame_def set_limit_def split: poll.split option.split sum.split frame.split)
  show ?case
    using IH
    by (subst (1 2) Body_poll_next.simps)
      (simp add: pf lim limited_def [of n "(_, _)"] split: poll.split option.split sum.split frame.split)
qed

lemma outcomes_limited:
  "remaining_limit b = None \<Longrightarrow> outcomes C (set_limit (Some n) b) = limit_events n (outcomes C b)"
proof (induction C b arbitrary: n rule: outcomes.induct)
  case (1 C b)
  obtain p b1 where p: "Body_poll_next C b = (p, b1)" by (cases "Body_poll_next C b")
  have b1: "remaining_limit b1 = None" by (rule poll_next_unlimited [OF "1.prems" p])
  note q = poll_next_limited [OF "1.prems", of C n, unfolded p]
  show ?case
    using p q b1 "1.IH" [OF p [symmetric]]
    by (subst (1 2) outcomes.simps) (auto simp: limited_def split: poll.split option.split sum.split)
qed

section \<open>Property\<close>

text \<open>C19: a size limit on a body is exact, whatever the kind of the body and however its chunks arrive: with
  the limit the body never hands out more bytes, it behaves as without the limit when all its data is within
  the limit, and otherwise it fails, so that a body that is too large is never mistaken for a complete one.\<close>

theorem body_limit_exact:
  assumes "remaining_limit b = None"
  shows "length (concat (fst (body_data (outcomes C (set_limit (Some n) b))))) \<le> n
    \<and> (length (concat (fst (body_data (outcomes C b)))) \<le> n \<longrightarrow>
         body_data (outcomes C (set_limit (Some n) b)) = body_data (outcomes C b))
    \<and> (n < length (concat (fst (body_data (outcomes C b)))) \<longrightarrow>
         snd (body_data (outcomes C (set_limit (Some n) b))) \<noteq> None)"
  by (simp add: outcomes_limited [OF assms] limit_events_bound limit_events_id limit_events_over)

theorem body_limit_exact_witness:
  "snd (body_data (outcomes \<lparr>digest_once = id, digest_updates = concat, mac = (\<lambda>_ _. []), hex_lower = id, hex_decode = Some\<rparr>
     (set_limit (Some 3) (Body_hyper \<lparr>raw_events = [FrameItem (Inr (DataFrame ''ab'')), FrameItem (Inr TrailersFrame),
        FramePending, FrameItem (Inr (DataFrame ''cd''))], raw_hint = (\<lambda>_. (0, None))\<rparr>)))) \<noteq> None"
proof -
  let ?C = "\<lparr>digest_once = id, digest_updates = concat, mac = (\<lambda>_ _. []), hex_lower = id, hex_decode = Some\<rparr>"
  let ?b = "Body_hyper \<lparr>raw_events = [FrameItem (Inr (DataFrame ''ab'')), FrameItem (Inr TrailersFrame),
        FramePending, FrameItem (Inr (DataFrame ''cd''))], raw_hint = (\<lambda>_. (0, None))\<rparr>"
  have "fst (body_data (outcomes ?C ?b)) = [''ab'', ''cd'']"
    by (simp add: outcomes.simps Body_poll_next.simps Body_hyper_def poll_frame_def)
  with body_limit_exact [of ?b ?C 3] show ?thesis by (simp add: Body_hyper_def)
qed

end
