(* ===== verification/Multipart_Progress.thy ===== *)
theory Multipart_Progress
  imports Multipart_Correct
begin

text \<open>
  Progress of the multipart parser: every poll that is not ready uses up an answer of the body, and no
  operation that succeeds gives input back. Awaiting an operation therefore always ends. The work that is
  left is the number of answers the body can still give and of bytes that are still to be read.
\<close>

definition work :: "stream_buffer \<Rightarrow> nat" where
  "work b = events_left b + length (upcoming b)"

definition progress :: "('s \<Rightarrow> nat) \<Rightarrow> 's \<Rightarrow> ('e + 'a) poll \<times> 's \<Rightarrow> bool" where
  "progress w s r \<longleftrightarrow>
     (case r of
        (Pending, s') \<Rightarrow> w s' < w s
      | (Ready (Inr _), s') \<Rightarrow> w s' \<le> w s
      | (Ready (Inl _), _) \<Rightarrow> True)"

named_theorems progress_intros

lemma progress_simps [simp]:
  "progress w s (Pending, s') \<longleftrightarrow> w s' < w s"
  "progress w s (Ready (Inr a), s') \<longleftrightarrow> w s' \<le> w s"
  "progress w s (Ready (Inl e), s')"
  by (simp_all add: progress_def)

lemma progress_trans: "progress w s1 r \<Longrightarrow> w s1 \<le> w s \<Longrightarrow> progress w s r"
  by (auto simp: progress_def split: prod.splits poll.splits sum.splits)

lemma progress_try [progress_intros]:
  assumes "progress w s x" and "\<And>a s1. x = (Ready (Inr a), s1) \<Longrightarrow> w s1 \<le> w s \<Longrightarrow> progress w s1 (k a s1)"
  shows "progress w s (try_ready x k)"
  using assms by (auto simp: try_ready_def intro: progress_trans split: prod.splits poll.splits sum.splits)

lemma progress_on_buffer:
  assumes "\<And>b. progress work b (f b)"
  shows "progress (\<lambda>m. case mp_buffer m of None \<Rightarrow> 0 | Some b \<Rightarrow> work b) m (on_buffer f m)"
proof (cases "mp_buffer m")
  case (Some b)
  with assms [of b] show ?thesis
    by (cases "f b") (auto simp: on_buffer_def progress_def split: poll.splits sum.splits)
qed (simp add: on_buffer_def)

subsection \<open>The buffer\<close>

lemma work_update [simp]:
  "work (b\<lparr>buf := x\<rparr>) = events_left b + (length x + length (concat (fst (sview b))))"
  "work (b\<lparr>read_until_cursor := n\<rparr>) = work b"
  "work (b\<lparr>read_until_active := a\<rparr>) = work b"
  "work (b\<lparr>eof := a\<rparr>) = work b"
  by (simp_all add: work_def)

lemma work_buf: "work b = events_left b + (length (buf b) + length (concat (fst (sview b))))"
  by (simp add: work_def upcoming_def)

lemma poll_stream_work:
  assumes "poll_stream b = (r, b')"
  shows "r = Pending \<Longrightarrow> work b' < work b"
    and "r = Ready (Some (Inr c)) \<Longrightarrow> work (b'\<lparr>buf := buf b' @ c\<rparr>) < work b"
    and "r = Ready None \<Longrightarrow> work b' \<le> work b"
  using poll_stream_view(1,2) [OF assms] poll_stream_pending_events [of b b'] poll_stream_events [of b c b']
    poll_stream_events_le [OF assms] assms
  by (auto simp: work_buf)

lemma ensure_buf_len_progress [progress_intros]: "progress work b (ensure_buf_len len b)"
proof (induction len b rule: ensure_buf_len.induct)
  case (1 len b)
  obtain r b1 where p: "poll_stream b = (r, b1)" by fastforce
  have rec: "length (buf b) < len \<Longrightarrow> r = Ready (Some (Inr c)) \<Longrightarrow>
      progress work b (ensure_buf_len len (b1\<lparr>buf := buf b1 @ c\<rparr>))" for c
    using "1.IH" [OF _ p [symmetric]] poll_stream_work(2) [OF p] by (blast intro: progress_trans less_imp_le)
  show ?case
    using rec poll_stream_work [OF p]
    by (subst ensure_buf_len.simps) (simp add: p split: poll.split option.split sum.split)
qed

lemma wait_two_bytes_progress [progress_intros]: "progress work b (wait_two_bytes b)"
proof (induction b rule: wait_two_bytes.induct)
  case (1 b)
  obtain r b1 where p: "poll_stream (b\<lparr>read_until_active := False\<rparr>) = (r, b1)" by fastforce
  have rec: "length (buf b) < 2 \<and> \<not> eof b \<Longrightarrow> r = Ready (Some (Inr c)) \<Longrightarrow>
      progress work b (wait_two_bytes (b1\<lparr>buf := buf b1 @ c\<rparr>))" for c
    using "1.IH" [OF _ p [symmetric]] poll_stream_work(2) [OF p]
    by (metis less_imp_le progress_trans work_update(3))
  show ?case
    using rec poll_stream_work [OF p]
    by (subst wait_two_bytes.simps) (simp add: p split: poll.split option.split sum.split)
qed

lemma poll_read_until_loop_progress: "progress work b (poll_read_until_loop M needle mx b)"
proof (induction M needle mx b rule: poll_read_until_loop.induct)
  case (1 M needle mx b)
  obtain r b1 where p: "poll_stream b = (r, b1)" by fastforce
  have rec: "progress work b (poll_read_until_loop M needle mx
        (b1\<lparr>buf := buf b1 @ c, read_until_cursor := length (buf b1) - (length needle - 1)\<rparr>))"
    if "memmem_find M (drop (read_until_cursor b) (buf b)) needle = None" "\<not> length (buf b) > mx" "\<not> eof b"
      "r = Ready (Some (Inr c))" for c
    using "1.IH" [OF that(1-3) p [symmetric] that(4) refl refl refl] poll_stream_work(2) [OF p that(4)]
    by (auto intro: progress_trans)
  show ?case
    using rec poll_stream_work [OF p]
    by (subst poll_read_until_loop.simps) (simp add: p Let_def split: poll.split option.split sum.split)
qed

lemma poll_read_header_block_progress [progress_intros]: "progress work b (poll_read_header_block M mx b)"
proof -
  have until: "progress work b1 (poll_read_until M (CRLF @ CRLF) mx b1)" for b1
    using poll_read_until_loop_progress [of "if \<not> read_until_active b1 then b1\<lparr>read_until_cursor := 0, read_until_active := True\<rparr> else b1" M "CRLF @ CRLF" mx]
    by (auto simp: poll_read_until_def intro: progress_trans split: if_splits)
  show ?thesis
    using wait_two_bytes_progress [of b]
    by (auto simp: poll_read_header_block_def intro: progress_trans [OF until [simplified]]
        split: prod.split poll.split sum.split)
qed

lemma poll_read_to_progress [progress_intros]: "progress work b (poll_read_to M needle b)"
proof (induction M needle b rule: poll_read_to.induct)
  case (1 M needle b)
  obtain r b1 where p: "poll_stream b = (r, b1)" by fastforce
  note w = poll_stream_work [OF p]
  have less: "work b2 \<le> work b" if "r = Ready (Some (Inr c))" "b2 = b1\<lparr>buf := x\<rparr>" "length x \<le> length (buf b1) + length c" for c x b2
    using w(2) [OF that(1)] that by simp
  have rec1: "progress work b (poll_read_to M needle (b1\<lparr>buf := buf b1 @ drop (length c - min (length needle - 1) (length c)) c\<rparr>))"
    if "memmem_find M (buf b) needle = None" "\<not> eof b" "r = Ready (Some (Inr c))" "buf b1 = []" "memmem_find M c needle = None" for c
    using "1.IH"(1) [OF that(1,2) p [symmetric] that(3) refl refl that(4,5) refl refl]
    by (rule progress_trans) (rule less [OF that(3) refl], simp)
  have rec2: "progress work b (poll_read_to M needle (b1\<lparr>buf := drop (length (buf b1 @ c) - min (length needle - 1) (length (buf b1 @ c))) (buf b1 @ c)\<rparr>))"
    if "memmem_find M (buf b) needle = None" "\<not> eof b" "r = Ready (Some (Inr c))" "buf b1 \<noteq> []" "memmem_find M (buf b1 @ c) needle = None" for c
  proof -
    let ?x = "drop (length (buf b1 @ c) - min (length needle - 1) (length (buf b1 @ c))) (buf b1 @ c)"
    have "progress work (b1\<lparr>buf := ?x\<rparr>) (poll_read_to M needle (b1\<lparr>buf := ?x\<rparr>))"
      using "1.IH"(2) [OF that(1,2) p [symmetric] that(3) refl refl that(4) refl _ refl refl] that(5) by simp
    then show ?thesis by (rule progress_trans) (rule less [OF that(3) refl], simp)
  qed
  show ?case
  proof (cases "memmem_find M (buf b) needle")
    case None
    with rec1 rec2 w show ?thesis
      by (subst poll_read_to.simps) (auto simp: p Let_def split: poll.split option.split sum.split)
  next
    case (Some idx)
    then show ?thesis by (subst poll_read_to.simps) (simp add: work_buf [of b])
  qed
qed

lemma consume_crlf_progress [progress_intros]: "progress work b (consume_crlf b)"
  unfolding consume_crlf_def by (rule progress_intros)+ (auto simp: work_buf)

lemma consume_padding_progress [progress_intros]: "progress work b (consume_padding_and_crlf b)"
proof (induction b rule: consume_padding_and_crlf.induct)
  case (1 b)
  show ?case
  proof (subst consume_padding_and_crlf.simps, rule progress_try [OF ensure_buf_len_progress])
    fix a b1
    assume e: "ensure_buf_len 1 b = (Ready (Inr a), b1)" "work b1 \<le> work b"
    have rec: "hd (buf b1) \<noteq> CR \<Longrightarrow> is_ows (hd (buf b1)) \<Longrightarrow>
        progress work b1 (consume_padding_and_crlf (b1\<lparr>buf := drop (length (takeWhile is_ows (buf b1))) (buf b1)\<rparr>))"
      using "1.IH" [OF e(1)] by (rule progress_trans) (auto simp: work_buf)
    show "progress work b1 (if hd (buf b1) = CR then consume_crlf b1
        else if \<not> is_ows (hd (buf b1)) then (Ready (Inl InvalidFormat), b1)
        else consume_padding_and_crlf (b1\<lparr>buf := drop (length (takeWhile is_ows (buf b1))) (buf b1)\<rparr>))"
      using rec consume_crlf_progress [of b1] by simp
  qed
qed

lemma after_boundary_progress [progress_intros]: "progress work b (after_boundary b)"
  unfolding after_boundary_def
  by (rule progress_try [OF ensure_buf_len_progress])
    (auto simp: work_buf intro!: progress_try [OF ensure_buf_len_progress] progress_try [OF consume_padding_progress]
      progress_try [OF consume_crlf_progress])

fun scan_sum :: "scan_outcome poll \<Rightarrow> (mp_error + bytes) poll" where
  "scan_sum Pending = Pending"
| "scan_sum (Ready (ScanFound d)) = Ready (Inr d)"
| "scan_sum (Ready (ScanData d)) = Ready (Inr d)"
| "scan_sum (Ready (ScanErr e)) = Ready (Inl e)"
| "scan_sum (Ready ScanEof) = Ready (Inl IncompleteStream)"

lemma scan_data_work:
  "scan_data M d b = (r, b') \<Longrightarrow> progress work b (scan_sum r, b') \<and> (\<forall>x. r = Ready (ScanData x) \<longrightarrow> work b' < work b)"
proof (induction M d b arbitrary: r b' rule: scan_data.induct)
  case (1 M d b)
  obtain q b1 where p: "poll_stream b = (q, b1)" by fastforce
  note w = poll_stream_work [OF p]
  have rec: "progress work b (scan_sum r, b') \<and> (\<forall>x. r = Ready (ScanData x) \<longrightarrow> work b' < work b)"
    if "(if buf b \<noteq> [] then search_data M (buf b) d else KeepAll) = KeepAll" "q = Ready (Some (Inr c))"
      "buf b1 \<noteq> [] \<or> buf b1 = [] \<and> search_data M c d = KeepAll"
      "scan_data M d (b1\<lparr>buf := buf b1 @ c\<rparr>) = (r, b')" for c
  proof -
    have "progress work (b1\<lparr>buf := buf b1 @ c\<rparr>) (scan_sum r, b') \<and>
        (\<forall>x. r = Ready (ScanData x) \<longrightarrow> work b' < work (b1\<lparr>buf := buf b1 @ c\<rparr>))"
      using that(3)
    proof
      assume "buf b1 \<noteq> []"
      from "1.IH"(1) [OF that(1) p [symmetric] that(2) refl refl this that(4)] show ?thesis .
    next
      assume "buf b1 = [] \<and> search_data M c d = KeepAll"
      then show ?thesis using "1.IH"(2) [OF that(1) p [symmetric] that(2) refl refl _ _ that(4)] by blast
    qed
    with w(2) [OF that(2)] show ?thesis by (auto intro: progress_trans)
  qed
  show ?case
  proof (cases "if buf b \<noteq> [] then search_data M (buf b) d else KeepAll")
    case (Found i)
    with "1.prems" show ?thesis by (subst (asm) scan_data.simps) (auto simp: work_buf [of b])
  next
    case (Emit e)
    then have "0 < e \<and> e \<le> length (buf b)" using search_data_Emit_bounds by (auto split: if_splits)
    with Emit "1.prems" show ?thesis by (subst (asm) scan_data.simps) (auto simp: work_buf [of b])
  next
    case KeepAll
    with "1.prems" w rec show ?thesis
      by (subst (asm) scan_data.simps)
        (auto simp: p dest: search_data_Emit_bounds split: poll.splits option.splits sum.splits if_splits data_search.splits)
  qed
qed

subsection \<open>The parser\<close>

definition mp_work :: "multipart \<Rightarrow> nat" where
  "mp_work m = (case mp_buffer m of None \<Rightarrow> 0 | Some b \<Rightarrow> work b)"

lemma mp_work_update [simp]:
  "mp_work (m\<lparr>mp_state := st\<rparr>) = mp_work m"
  "mp_work (m\<lparr>headers := h\<rparr>) = mp_work m"
  "mp_work (m\<lparr>part_handed_out := f\<rparr>) = mp_work m"
  "mp_work (m\<lparr>delimiter_finder := d\<rparr>) = mp_work m"
  "mp_work (m\<lparr>mp_buffer := ob\<rparr>) = (case ob of None \<Rightarrow> 0 | Some b \<Rightarrow> work b)"
  by (simp_all add: mp_work_def)

lemma on_buffer_progress:
  "(\<And>b. progress work b (f b)) \<Longrightarrow> progress mp_work m (on_buffer f m)"
  using progress_on_buffer [of f m] by (simp add: mp_work_def [abs_def])

lemma step_progress [progress_intros]:
  "progress mp_work m (poll_advance_first_boundary M m)"
  "progress mp_work m (poll_advance_after_boundary m)"
  "progress mp_work m (poll_advance_closing m)"
  unfolding poll_advance_first_boundary_def poll_advance_after_boundary_def poll_advance_closing_def
  by (rule progress_try [OF on_buffer_progress], rule progress_intros, simp)+

lemma finish_headers_work: "mp_work (finish_headers m) \<le> mp_work m"
  by (cases "mp_buffer m")
    (auto simp: finish_headers_def Let_def mp_work_def [of m] work_buf split: option.split)

lemma poll_ensure_headers_progress [progress_intros]: "progress mp_work m (poll_ensure_headers M H m)"
  unfolding poll_ensure_headers_def
  by (auto intro!: progress_try [OF on_buffer_progress [OF poll_read_header_block_progress]] split: option.split sum.split)

lemma poll_next_part_data_chunk_work:
  "progress mp_work m (poll_next_part_data_chunk M m) \<and>
   (\<forall>c m'. poll_next_part_data_chunk M m = (Ready (Inr (Some c)), m') \<longrightarrow>
      mp_state m' \<noteq> ReadingPartData \<or> mp_work m' < mp_work m)"
proof (cases "mp_buffer m")
  case (Some b)
  show ?thesis
  proof (cases "delimiter_finder m")
    case None
    with Some show ?thesis by (simp add: poll_next_part_data_chunk_def)
  next
    case (Some delim)
    obtain r b1 where s: "scan_data M delim b = (r, b1)" by fastforce
    from scan_data_work [OF this] Some \<open>mp_buffer m = Some b\<close> s show ?thesis
      by (auto simp: poll_next_part_data_chunk_def mp_work_def [of m] split: poll.split scan_outcome.split if_splits)
  qed
qed (simp add: poll_next_part_data_chunk_def split: option.split)

lemma poll_skip_part_data_progress [progress_intros]: "progress mp_work m (poll_skip_part_data M m)"
proof (induction M m rule: poll_skip_part_data.induct)
  case (1 M m)
  obtain r m1 where p: "poll_next_part_data_chunk M m = (r, m1)" by fastforce
  note w = poll_next_part_data_chunk_work [of m M, unfolded p]
  have rec: "progress mp_work m (poll_skip_part_data M m1)" if "r = Ready (Inr (Some c))" for c
    using "1.IH" [OF p [symmetric] that refl refl] w that by (auto intro: progress_trans)
  show ?case
    using rec w by (subst poll_skip_part_data.simps) (auto simp: p split: poll.split option.split sum.split)
qed

lemma poll_epilogue_progress [progress_intros]: "progress mp_work m (poll_epilogue m)"
  unfolding poll_epilogue_def
proof (rule progress_try [OF on_buffer_progress])
  fix b
  obtain r b1 where p: "poll_stream b = (r, b1)" by fastforce
  show "progress work b (if buf b \<noteq> [] then (Ready (Inl StreamPartNotLast), b)
      else (case poll_stream b of
          (Pending, b1) \<Rightarrow> (Pending, b1)
        | (Ready None, b1) \<Rightarrow> (Ready (Inr ()), b1)
        | (Ready (Some (Inr _)), b1) \<Rightarrow> (Ready (Inl StreamPartNotLast), b1)
        | (Ready (Some (Inl err)), b1) \<Rightarrow> (Ready (Inl err), b1)))"
    using poll_stream_work [OF p] by (simp add: p split: poll.split option.split sum.split)
qed simp

lemma poll_next_part_progress: "progress mp_work m (poll_next_part M H m)"
proof (induction M H m rule: poll_next_part.induct)
  case (1 M H m)
  show ?case
    using "1.IH" finish_headers_work
    by (subst poll_next_part.simps)
      (auto intro!: progress_try [OF step_progress(1)] progress_try [OF step_progress(2)] progress_try [OF step_progress(3)]
         progress_try [OF poll_epilogue_progress] progress_try [OF poll_skip_part_data_progress]
         progress_try [OF poll_ensure_headers_progress] intro: progress_trans split: mp_state.split)
qed

lemma Part_poll_next_header_progress: "progress mp_work m (Part_poll_next_header M H m)"
proof -
  have nh: "next_header_inner m1 = (r, m2) \<Longrightarrow> mp_work m2 \<le> mp_work m1" for m1 r m2
    using finish_headers_work [of m1]
    by (auto simp: next_header_inner_def Let_def split: option.splits if_splits prod.splits)
  have "progress mp_work m1 (case next_header_inner m1 of (r, m2) \<Rightarrow> (Ready r, m2))" for m1
    using nh [of m1] by (cases "next_header_inner m1", cases "fst (next_header_inner m1)") auto
  then show ?thesis
    unfolding Part_poll_next_header_def by (rule progress_try [OF poll_ensure_headers_progress])
qed

lemma Part_poll_next_data_progress: "progress mp_work m (Part_poll_next_data M H m)"
  unfolding Part_poll_next_data_def
  by (rule progress_try [OF poll_ensure_headers_progress])
    (rule progress_trans [OF conjunct1 [OF poll_next_part_data_chunk_work] finish_headers_work])

subsection \<open>Awaiting\<close>

lemma drive_total:
  assumes "\<And>s. progress w s (f s)"
  shows "w s < k \<Longrightarrow> \<exists>r s'. drive f k s = (Some r, s') \<and> (\<forall>a. r = Inr a \<longrightarrow> w s' \<le> w s)"
proof (induction k arbitrary: s)
  case (Suc k)
  obtain p s1 where f: "f s = (p, s1)" by fastforce
  show ?case
  proof (cases p)
    case Pending
    with f assms [of s] Suc.IH [of s1] Suc.prems show ?thesis by (auto dest: less_imp_le)
  next
    case (Ready r)
    with f assms [of s] show ?thesis by (cases r) auto
  qed
qed simp

lemma drive_last:
  assumes "\<And>s. progress w s (f s)" and "\<And>s s'. f s = (Pending, s') \<Longrightarrow> P s \<Longrightarrow> P s'"
  shows "drive f k s = (Some r, s') \<Longrightarrow> P s \<Longrightarrow> \<exists>t. f t = (Ready r, s') \<and> w t \<le> w s \<and> P t"
proof (induction k arbitrary: s)
  case (Suc k)
  obtain p s1 where f: "f s = (p, s1)" by fastforce
  show ?case
  proof (cases p)
    case Pending
    with f assms(1) [of s] assms(2) [of s s1] Suc.IH [of s1] Suc.prems show ?thesis by force
  next
    case (Ready r)
    with f Suc.prems show ?thesis by auto
  qed
qed simp

text \<open>A property that every poll keeps, unless it fails, holds when the awaited operation succeeds.\<close>

definition keeps :: "('s \<Rightarrow> bool) \<Rightarrow> 's \<Rightarrow> ('e + 'a) poll \<times> 's \<Rightarrow> bool" where
  "keeps P s r \<longleftrightarrow> (P s \<longrightarrow> (case r of (Ready (Inl _), _) \<Rightarrow> True | (_, s') \<Rightarrow> P s'))"

lemma keeps_simps [simp]:
  "keeps P s (Pending, s') \<longleftrightarrow> (P s \<longrightarrow> P s')"
  "keeps P s (Ready (Inr a), s') \<longleftrightarrow> (P s \<longrightarrow> P s')"
  "keeps P s (Ready (Inl e), s')"
  by (simp_all add: keeps_def)

lemma keeps_trans: "keeps P s1 r \<Longrightarrow> (P s \<Longrightarrow> P s1) \<Longrightarrow> keeps P s r"
  by (auto simp: keeps_def)

lemma keeps_try:
  assumes "keeps P s x" and "\<And>a s1. x = (Ready (Inr a), s1) \<Longrightarrow> keeps P s1 (k a s1)"
  shows "keeps P s (try_ready x k)"
  using assms by (auto simp: try_ready_def keeps_def split: prod.splits poll.splits sum.splits)

lemma drive_keeps:
  assumes "\<And>s. keeps P s (f s)"
  shows "drive f k s = (Some (Inr a), s') \<Longrightarrow> P s \<Longrightarrow> P s'"
proof (induction k arbitrary: s)
  case (Suc k)
  obtain p s1 where f: "f s = (p, s1)" by fastforce
  with assms [of s] Suc show ?case by (cases p) auto
qed simp

text \<open>The header block of the current part has room for three headers only.\<close>

definition hdr_ok :: "multipart \<Rightarrow> bool" where
  "hdr_ok m \<longleftrightarrow> (case headers m of None \<Rightarrow> True | Some block \<Rightarrow> length (spans block) \<le> MAX_HEADERS)"

lemma hdr_ok_update [simp]:
  "hdr_ok (m\<lparr>mp_state := st\<rparr>) = hdr_ok m" "hdr_ok (m\<lparr>part_handed_out := f\<rparr>) = hdr_ok m"
  "hdr_ok (m\<lparr>mp_buffer := ob\<rparr>) = hdr_ok m" "hdr_ok (m\<lparr>headers := None\<rparr>)"
  by (simp_all add: hdr_ok_def)

lemma length_push_parsed: "length v \<le> MAX_HEADERS \<Longrightarrow> length (push_parsed parsed v) \<le> MAX_HEADERS"
  by (induction parsed v rule: push_parsed.induct) (auto simp: try_push_def)

lemma length_fallback_loop: "length v \<le> MAX_HEADERS \<Longrightarrow> fallback_loop M off rest v = Inr v' \<Longrightarrow> length v' \<le> MAX_HEADERS"
proof (induction M off rest v arbitrary: v' rule: fallback_loop.induct)
  case (1 M off rest v)
  obtain line no nr where t: "(case memmem_find M rest CRLF of
        Some line_end \<Rightarrow> (take line_end rest, off + line_end + 2, drop (line_end + 2) rest) | None \<Rightarrow> (rest, 0, [])) = (line, no, nr)"
    using prod_cases3 by blast
  show ?case
  proof (cases "rest = [] \<or> \<not> length v < MAX_HEADERS")
    case True
    with "1.prems" show ?thesis by (simp add: fallback_loop.simps [of M off rest v])
  next
    case False
    with "1.prems"(2) obtain colon where c: "memchr M (CHR '':'') line = Some colon" "take colon line \<noteq> []"
      and rec: "fallback_loop M no nr (try_push v \<lparr>span_name = (off, off + colon),
          span_value = (off + colon + 1 + length (takeWhile is_ows (drop (colon + 1) line)),
            off + colon + 1 + length (takeWhile is_ows (drop (colon + 1) line)) + length (trim_ows (drop (colon + 1) line)))\<rparr>) = Inr v'"
      unfolding fallback_loop.simps [of M off rest v] t Let_def by (auto split: if_splits option.splits)
    show ?thesis
      by (rule "1.IH" [OF False refl t [symmetric] refl c refl refl refl length_try_push [OF "1.prems"(1)] rec])
  qed
qed

lemma parse_header_block_spans: "parse_header_block M H bl = Inr block \<Longrightarrow> length (spans block) \<le> MAX_HEADERS"
  by (auto simp: parse_header_block_def parse_header_block_fallback_def Let_def length_push_parsed
      dest: length_fallback_loop [of "[]", simplified] split: httparse_outcome.splits if_splits sum.splits)

lemma on_buffer_hdr: "keeps hdr_ok m (on_buffer f m)"
proof -
  obtain r m1 where f: "on_buffer f m = (r, m1)" by fastforce
  from on_buffer_frame [OF this] f show ?thesis
    by (cases r) (auto simp: hdr_ok_def keeps_def split: sum.split)
qed

lemma finish_headers_hdr: "hdr_ok m \<Longrightarrow> hdr_ok (finish_headers m)"
  by (auto simp: finish_headers_def Let_def hdr_ok_def split: option.split)

lemma poll_ensure_headers_hdr: "keeps hdr_ok m (poll_ensure_headers M H m)"
  unfolding poll_ensure_headers_def
  by (auto intro!: keeps_try [OF on_buffer_hdr] simp: hdr_ok_def dest: parse_header_block_spans split: option.split sum.split)

lemma poll_next_part_data_chunk_hdr: "keeps hdr_ok m (poll_next_part_data_chunk M m)"
  by (auto simp: poll_next_part_data_chunk_def split: option.split prod.split poll.split scan_outcome.split)

lemma poll_skip_part_data_hdr: "keeps hdr_ok m (poll_skip_part_data M m)"
proof (induction M m rule: poll_skip_part_data.induct)
  case (1 M m)
  obtain r m1 where p: "poll_next_part_data_chunk M m = (r, m1)" by fastforce
  note w = poll_next_part_data_chunk_hdr [of m M, unfolded p]
  have rec: "keeps hdr_ok m (poll_skip_part_data M m1)" if "r = Ready (Inr (Some c))" for c
    using "1.IH" [OF p [symmetric] that refl refl] w that by (auto intro: keeps_trans)
  show ?case
    using rec w by (subst poll_skip_part_data.simps) (auto simp: p split: poll.split option.split sum.split)
qed

lemma step_hdr:
  "keeps hdr_ok m (poll_advance_first_boundary M m)" "keeps hdr_ok m (poll_advance_after_boundary m)"
  "keeps hdr_ok m (poll_advance_closing m)" "keeps hdr_ok m (poll_epilogue m)"
  unfolding poll_advance_first_boundary_def poll_advance_after_boundary_def poll_advance_closing_def poll_epilogue_def
  by (rule keeps_try [OF on_buffer_hdr], simp)+

lemma poll_next_part_hdr: "keeps hdr_ok m (poll_next_part M H m)"
proof (induction M H m rule: poll_next_part.induct)
  case (1 M H m)
  show ?case
    using "1.IH"
    by (subst poll_next_part.simps)
      (auto intro!: keeps_try [OF step_hdr(1)] keeps_try [OF step_hdr(2)] keeps_try [OF step_hdr(3)] keeps_try [OF step_hdr(4)]
         keeps_try [OF poll_skip_part_data_hdr] keeps_try [OF poll_ensure_headers_hdr]
         intro: keeps_trans finish_headers_hdr split: mp_state.split)
qed

end
