(* ===== verification/Ordered_Qs.thy ===== *)
theory Ordered_Qs
  imports Prelude "HOL-Library.Char_ord" "HOL-Library.List_Lexorder"
begin

text \<open>
  The query string container (s3s/src/http/ordered_qs.rs): parameters sorted by name, looked up by the
  binary search of the standard library.  The url decoder is the parameter \<open>U\<close> (\<^verbatim>\<open>serde_urlencoded\<close>).
\<close>

section \<open>Binary search of the standard library\<close>

datatype ordering = Less | Equal | Greater

text \<open>\<^verbatim>\<open>slice::binary_search_by\<close>: \<open>Inr\<close> is the index of a match, \<open>Inl\<close> the index where one could be inserted.\<close>

function bisect :: "('a \<Rightarrow> ordering) \<Rightarrow> 'a list \<Rightarrow> nat \<Rightarrow> nat \<Rightarrow> nat" where
  "bisect f xs base len =
     (if len > 1
      then (let half = len div 2; mid = base + half
            in bisect f xs (if f (xs ! mid) = Greater then base else mid) (len - half))
      else base)"
  by pat_completeness auto
termination by (relation "measure (\<lambda>(_, _, _, len). len)") auto

declare bisect.simps [simp del]

definition binary_search_by :: "('a \<Rightarrow> ordering) \<Rightarrow> 'a list \<Rightarrow> nat + nat" where
  "binary_search_by f xs =
     (if xs = [] then Inl 0
      else (let base = bisect f xs 0 (length xs)
            in case f (xs ! base) of Equal \<Rightarrow> Inr base | Less \<Rightarrow> Inl (base + 1) | Greater \<Rightarrow> Inl base))"

definition partition_point :: "('a \<Rightarrow> bool) \<Rightarrow> 'a list \<Rightarrow> nat" where
  "partition_point P xs =
     (case binary_search_by (\<lambda>x. if P x then Less else Greater) xs of Inl i \<Rightarrow> i | Inr i \<Rightarrow> i)"

definition ord_cmp :: "'a::linorder \<Rightarrow> 'a \<Rightarrow> ordering" where
  "ord_cmp a b = (if a < b then Less else if a = b then Equal else Greater)"

section \<open>The program\<close>

type_synonym urlencoded_api = "bytes \<Rightarrow> (bytes \<times> bytes) list option"

record ordered_qs =
  qs :: "(bytes \<times> bytes) list"

datatype parse_ordered_qs_error = ParseOrderedQsError

datatype qs_lookup = Absent | Single bytes | Duplicate

definition utils_stable_sort_by_first :: "(bytes \<times> bytes) list \<Rightarrow> (bytes \<times> bytes) list" where
  "utils_stable_sort_by_first v = sort_key fst v"

definition OrderedQs_parse :: "urlencoded_api \<Rightarrow> bytes \<Rightarrow> parse_ordered_qs_error + ordered_qs" where
  "OrderedQs_parse U query =
     (case U query of
        None \<Rightarrow> Inl ParseOrderedQsError
      | Some v \<Rightarrow> Inr \<lparr>qs = utils_stable_sort_by_first v\<rparr>)"

definition has :: "ordered_qs \<Rightarrow> bytes \<Rightarrow> bool" where
  "has q name = (case binary_search_by (\<lambda>x. ord_cmp (fst x) name) (qs q) of Inr _ \<Rightarrow> True | Inl _ \<Rightarrow> False)"

definition get_all :: "ordered_qs \<Rightarrow> bytes \<Rightarrow> bytes list" where
  "get_all q name =
     (let lower_bound = partition_point (\<lambda>x. fst x < name) (qs q);
          upper_bound = partition_point (\<lambda>x. fst x \<le> name) (qs q)
      in map snd (if lower_bound \<le> upper_bound \<and> upper_bound \<le> length (qs q)
                  then drop lower_bound (take upper_bound (qs q)) else []))"

definition get_unique_qs :: "ordered_qs \<Rightarrow> bytes \<Rightarrow> bytes option" where
  "get_unique_qs q name =
     (let lower_bound = partition_point (\<lambda>x. fst x < name) (qs q)
      in case (if lower_bound \<le> length (qs q) then drop lower_bound (qs q) else []) of
           [] \<Rightarrow> None
         | pair # rest \<Rightarrow>
             (case rest of
                following # _ \<Rightarrow>
                  (if fst following = name then None
                   else if fst pair = name then Some (snd pair) else None)
              | [] \<Rightarrow> if fst pair = name then Some (snd pair) else None))"

definition lookup :: "ordered_qs \<Rightarrow> bytes \<Rightarrow> qs_lookup" where
  "lookup q name =
     (case filter (\<lambda>(k, _). k = name) (qs q) of
        [] \<Rightarrow> Absent
      | (_, v) # rest \<Rightarrow> if rest \<noteq> [] then Duplicate else Single v)"

section \<open>The search is exact on a partitioned slice\<close>

text \<open>A slice as the search expects it: first the smaller elements, then the equal, then the greater.\<close>

definition ordered_by :: "('a \<Rightarrow> ordering) \<Rightarrow> 'a list \<Rightarrow> bool" where
  "ordered_by f xs \<longleftrightarrow> (\<forall>i j. i \<le> j \<longrightarrow> j < length xs \<longrightarrow>
     (f (xs ! i) = Greater \<longrightarrow> f (xs ! j) = Greater) \<and> (f (xs ! j) = Less \<longrightarrow> f (xs ! i) = Less))"

definition bisect_inv :: "('a \<Rightarrow> ordering) \<Rightarrow> 'a list \<Rightarrow> nat \<Rightarrow> nat \<Rightarrow> bool" where
  "bisect_inv f xs base len \<longleftrightarrow> 1 \<le> len \<and> base + len \<le> length xs
     \<and> (base = 0 \<or> f (xs ! base) \<noteq> Greater) \<and> (\<forall>i. base + len \<le> i \<longrightarrow> i < length xs \<longrightarrow> f (xs ! i) = Greater)"

lemma bisect_inv_step:
  assumes "ordered_by f xs" "bisect_inv f xs base len" "1 < len"
  shows "bisect_inv f xs (if f (xs ! (base + len div 2)) = Greater then base else base + len div 2) (len - len div 2)"
proof (cases "f (xs ! (base + len div 2)) = Greater")
  case True
  have "f (xs ! i) = Greater" if "base + (len - len div 2) \<le> i" "i < length xs" for i
  proof -
    have "base + len div 2 \<le> i" using that(1) by linarith
    then show ?thesis using assms(1) True that(2) unfolding ordered_by_def by blast
  qed
  with True assms show ?thesis by (auto simp: bisect_inv_def)
next
  case False
  with assms show ?thesis by (auto simp: bisect_inv_def)
qed

lemma bisect_final:
  assumes "ordered_by f xs"
  shows "bisect_inv f xs base len \<Longrightarrow> bisect_inv f xs (bisect f xs base len) 1"
proof (induction len arbitrary: base rule: less_induct)
  case (less len)
  show ?case
  proof (cases "1 < len")
    case True
    then show ?thesis
      using less.IH [of "len - len div 2"] bisect_inv_step [OF assms less.prems True]
      by (subst bisect.simps) (simp add: Let_def)
  next
    case False
    moreover have "1 \<le> len" using less.prems by (simp add: bisect_inv_def)
    ultimately have "len = 1" by simp
    then show ?thesis using less.prems by (subst bisect.simps) simp
  qed
qed

lemma binary_search_by_cases:
  assumes o: "ordered_by f xs"
  shows "case binary_search_by f xs of
      Inr i \<Rightarrow> i < length xs \<and> f (xs ! i) = Equal
    | Inl i \<Rightarrow> i \<le> length xs \<and> (\<forall>j < i. f (xs ! j) = Less) \<and> (\<forall>j. i \<le> j \<longrightarrow> j < length xs \<longrightarrow> f (xs ! j) = Greater)"
proof (cases "xs = []")
  case False
  let ?b = "bisect f xs 0 (length xs)"
  have "bisect_inv f xs 0 (length xs)" using False by (simp add: bisect_inv_def Suc_le_eq)
  then have b: "bisect_inv f xs ?b 1" using bisect_final [OF o] by blast
  then have lt: "?b < length xs" and up: "\<And>i. ?b < i \<Longrightarrow> i < length xs \<Longrightarrow> f (xs ! i) = Greater"
    by (auto simp: bisect_inv_def)
  show ?thesis
  proof (cases "f (xs ! ?b)")
    case Less
    have "f (xs ! j) = ordering.Less" if "j \<le> ?b" for j
      using o Less that lt unfolding ordered_by_def by blast
    with Less lt up False show ?thesis by (auto simp: binary_search_by_def Let_def)
  next
    case Equal
    with lt False show ?thesis by (auto simp: binary_search_by_def Let_def)
  next
    case Greater
    then have "?b = 0" using b by (auto simp: bisect_inv_def)
    with Greater up False show ?thesis
      by (auto simp: binary_search_by_def Let_def) (metis gr0I)
  qed
qed (simp add: binary_search_by_def)


lemma partition_point_eq:
  assumes "\<And>i j. i \<le> j \<Longrightarrow> j < length xs \<Longrightarrow> P (xs ! j) \<Longrightarrow> P (xs ! i)"
  shows "partition_point P xs = length (takeWhile P xs)"
proof -
  let ?f = "\<lambda>x. if P x then Less else Greater"
  have o: "ordered_by ?f xs" using assms by (auto simp: ordered_by_def)
  obtain i where i: "binary_search_by ?f xs = Inl i"
    using binary_search_by_cases [OF o] by (cases "binary_search_by ?f xs") (auto split: if_splits)
  then have "i \<le> length xs" "\<forall>j < i. P (xs ! j)" "i < length xs \<Longrightarrow> \<not> P (xs ! i)"
    using binary_search_by_cases [OF o] by (auto split: if_splits)
  then have "takeWhile P xs = take i xs"
    by (intro takeWhile_eq_take_P_nth) auto
  then show ?thesis using i \<open>i \<le> length xs\<close> by (simp add: partition_point_def)
qed

section \<open>Lookups on sorted parameters\<close>

lemma sorted_Cons_key:
  assumes "sorted (map fst (x # xs))"
  shows "name < fst x \<Longrightarrow> filter (\<lambda>x. name < fst x) xs = xs"
    and "name < fst x \<Longrightarrow> filter (\<lambda>x. fst x = name) xs = []"
    and "fst x = name \<Longrightarrow> takeWhile (\<lambda>x. fst x < name) xs = []"
proof -
  show "name < fst x \<Longrightarrow> filter (\<lambda>x. name < fst x) xs = xs" "name < fst x \<Longrightarrow> filter (\<lambda>x. fst x = name) xs = []"
    using assms by (fastforce simp: filter_id_conv filter_empty_conv)+
  show "fst x = name \<Longrightarrow> takeWhile (\<lambda>x. fst x < name) xs = []"
    using assms by (cases xs) auto
qed

lemma sorted_split:
  "sorted (map fst xs) \<Longrightarrow> drop (length (takeWhile (\<lambda>x. fst x < name) xs)) xs =
      filter (\<lambda>x. fst x = name) xs @ filter (\<lambda>x. name < fst x) xs"
proof (induction xs)
  case (Cons x xs)
  then show ?case using sorted_Cons_key [OF Cons.prems, of name]
    by (cases "fst x" name rule: linorder_cases) auto
qed simp

lemma sorted_split_length:
  "sorted (map fst xs) \<Longrightarrow> length (takeWhile (\<lambda>x. fst x < name) xs) + length (filter (\<lambda>x. fst x = name) xs) =
      length (takeWhile (\<lambda>x. fst x \<le> name) xs)"
proof (induction xs)
  case (Cons x xs)
  then show ?case using sorted_Cons_key [OF Cons.prems, of name]
    by (cases "fst x" name rule: linorder_cases) auto
qed simp

lemma sorted_nth_fst: "sorted (map fst xs) \<Longrightarrow> i \<le> j \<Longrightarrow> j < length xs \<Longrightarrow> fst (xs ! i) \<le> fst (xs ! j)"
  using sorted_nth_mono [of "map fst xs" i j] by simp

lemma partition_point_lt:
  assumes "sorted (map fst xs)"
  shows "partition_point (\<lambda>x. fst x < name) xs = length (takeWhile (\<lambda>x. fst x < name) xs)"
    and "partition_point (\<lambda>x. fst x \<le> name) xs = length (takeWhile (\<lambda>x. fst x \<le> name) xs)"
  by (intro partition_point_eq; use sorted_nth_fst [OF assms] in \<open>fastforce intro: order.trans le_less_trans\<close>)+

lemma get_all_sorted:
  assumes "sorted (map fst (qs q))"
  shows "get_all q name = map snd (filter (\<lambda>x. fst x = name) (qs q))"
proof -
  let ?l = "length (takeWhile (\<lambda>x. fst x < name) (qs q))" and ?u = "length (takeWhile (\<lambda>x. fst x \<le> name) (qs q))"
  note s = sorted_split [OF assms, of name] sorted_split_length [OF assms, of name]
  have "drop ?l (take ?u (qs q)) = take (?u - ?l) (drop ?l (qs q))" by (simp add: drop_take)
  also have "\<dots> = filter (\<lambda>x. fst x = name) (qs q)"
    unfolding s(1) using s(2) by simp
  finally show ?thesis
    using s(2) by (simp add: get_all_def Let_def partition_point_lt [OF assms] length_takeWhile_le)
qed

lemma get_unique_sorted:
  assumes "sorted (map fst (qs q))"
  shows "get_unique_qs q name = (case filter (\<lambda>x. fst x = name) (qs q) of [x] \<Rightarrow> Some (snd x) | _ \<Rightarrow> None)"
proof -
  let ?l = "length (takeWhile (\<lambda>x. fst x < name) (qs q))"
  have above: "fst x \<noteq> name" if "x \<in> set (filter (\<lambda>x. name < fst x) (qs q))" for x
    using that by auto
  have equal: "fst x = name" if "x \<in> set (filter (\<lambda>x. fst x = name) (qs q))" for x using that by simp
  have "get_unique_qs q name =
      (case filter (\<lambda>x. fst x = name) (qs q) @ filter (\<lambda>x. name < fst x) (qs q) of
         [] \<Rightarrow> None
       | pair # rest \<Rightarrow> (case rest of
            following # _ \<Rightarrow> (if fst following = name then None else if fst pair = name then Some (snd pair) else None)
          | [] \<Rightarrow> if fst pair = name then Some (snd pair) else None))"
    using sorted_split [OF assms, of name]
    by (simp only: get_unique_qs_def Let_def partition_point_lt [OF assms] length_takeWhile_le if_True)
  also have "\<dots> = (case filter (\<lambda>x. fst x = name) (qs q) of [x] \<Rightarrow> Some (snd x) | _ \<Rightarrow> None)"
  proof (cases "filter (\<lambda>x. fst x = name) (qs q)" rule: remdups_adj.cases)
    case 1
    have "(case gs of [] \<Rightarrow> None | pair # rest \<Rightarrow> (case rest of
            following # _ \<Rightarrow> (if fst following = name then None else if fst pair = name then Some (snd pair) else None)
          | [] \<Rightarrow> if fst pair = name then Some (snd pair) else None)) = None"
      if "\<And>x. x \<in> set gs \<Longrightarrow> fst x \<noteq> name" for gs :: "(bytes \<times> bytes) list"
      using that by (cases gs rule: remdups_adj.cases) auto
    from this [of "filter (\<lambda>x. name < fst x) (qs q)", OF above] show ?thesis
      unfolding 1 append_Nil list.case .
  next
    case (2 x)
    have "fst x = name" by (rule equal, unfold 2) simp
    moreover have "fst y \<noteq> name" if "filter (\<lambda>x. name < fst x) (qs q) = y # ys" for y ys
      by (rule above, unfold that) simp
    ultimately show ?thesis unfolding 2
      by (cases "filter (\<lambda>x. name < fst x) (qs q)") simp_all
  next
    case (3 x y zs)
    have "fst y = name" by (rule equal, unfold 3) simp
    then show ?thesis unfolding 3 by simp
  qed
  finally show ?thesis .
qed

lemma has_sorted:
  assumes "sorted (map fst (qs q))"
  shows "has q name \<longleftrightarrow> name \<in> fst ` set (qs q)"
proof -
  let ?f = "\<lambda>x :: bytes \<times> bytes. ord_cmp (fst x) name"
  have o: "ordered_by ?f (qs q)"
    using sorted_nth_fst [OF assms] by (fastforce simp: ordered_by_def ord_cmp_def split: if_splits)
  show ?thesis
  proof (cases "binary_search_by ?f (qs q)")
    case (Inr i)
    then show ?thesis using binary_search_by_cases [OF o]
      by (auto simp: has_def ord_cmp_def split: if_splits intro!: image_eqI [of _ _ "qs q ! i"])
  next
    case (Inl i)
    then have "?f (qs q ! j) \<noteq> Equal" if "j < length (qs q)" for j
      using binary_search_by_cases [OF o] that by (cases "j < i") auto
    then show ?thesis using Inl by (auto simp: has_def in_set_conv_nth ord_cmp_def split: if_splits) fastforce
  qed
qed

section \<open>Properties\<close>

text \<open>The values of a name in the order of the query.\<close>

definition values_of :: "(bytes \<times> bytes) list \<Rightarrow> bytes \<Rightarrow> bytes list" where
  "values_of v name = map snd (filter (\<lambda>x. fst x = name) v)"

text \<open>C29: looking up a parameter of a parsed query by binary search on the sorted container gives what a
  scan of the query as it was sent would give: all values of the name in the order of the query, whether
  there is one, the only value when it is unique, and the same answer from the single-pass lookup.\<close>

theorem ordered_qs_exact:
  assumes "U query = Some v"
  shows "\<exists>q. OrderedQs_parse U query = Inr q
    \<and> sorted (map fst (qs q))
    \<and> get_all q name = values_of v name
    \<and> (has q name \<longleftrightarrow> values_of v name \<noteq> [])
    \<and> get_unique_qs q name = (case values_of v name of [x] \<Rightarrow> Some x | _ \<Rightarrow> None)
    \<and> lookup q name = (case values_of v name of [] \<Rightarrow> Absent | [x] \<Rightarrow> Single x | _ \<Rightarrow> Duplicate)"
proof -
  let ?q = "\<lparr>qs = utils_stable_sort_by_first v\<rparr>"
  have sorted: "sorted (map fst (qs ?q))" by (simp add: utils_stable_sort_by_first_def)
  have stable: "filter (\<lambda>x. fst x = name) (qs ?q) = filter (\<lambda>x. fst x = name) v"
    by (simp add: utils_stable_sort_by_first_def sort_key_stable)
  have "filter (\<lambda>(k, _). k = name) (qs ?q) = filter (\<lambda>x. fst x = name) v"
    using stable by (simp add: case_prod_beta')
  then have "lookup ?q name = (case values_of v name of [] \<Rightarrow> Absent | [x] \<Rightarrow> Single x | _ \<Rightarrow> Duplicate)"
    unfolding lookup_def values_of_def by (auto split: list.splits)
  moreover have "has ?q name \<longleftrightarrow> values_of v name \<noteq> []"
    unfolding has_sorted [OF sorted]
    by (auto simp: utils_stable_sort_by_first_def values_of_def filter_empty_conv)
  moreover have "get_unique_qs ?q name = (case values_of v name of [x] \<Rightarrow> Some x | _ \<Rightarrow> None)"
    unfolding get_unique_sorted [OF sorted] stable values_of_def by (auto split: list.splits)
  moreover have "get_all ?q name = values_of v name"
    unfolding get_all_sorted [OF sorted] stable values_of_def ..
  ultimately show ?thesis using assms sorted by (simp add: OrderedQs_parse_def)
qed

theorem ordered_qs_exact_witness:
  "\<exists>q. OrderedQs_parse (\<lambda>_. Some [(''b'', ''1''), (''a'', ''2''), (''b'', ''3'')]) ''b=1&a=2&b=3'' = Inr q
    \<and> get_all q ''b'' = [''1'', ''3''] \<and> get_unique_qs q ''b'' = None \<and> lookup q ''b'' = Duplicate"
  using ordered_qs_exact [of "\<lambda>_. Some [(''b'', ''1''), (''a'', ''2''), (''b'', ''3'')]" "''b=1&a=2&b=3''"
      "[(''b'', ''1''), (''a'', ''2''), (''b'', ''3'')]" "''b''"]
  by (auto simp: values_of_def)

end
