(* ===== verification/Form_Fields.thy ===== *)
theory Form_Fields
  imports Ordered_Qs
begin

text \<open>
  The fields of a POST form (s3s/src/http/multipart.rs, the type \<^verbatim>\<open>Multipart\<close>): names in lower case,
  sorted, looked up by binary search, and the \<open>${filename}\<close> variable of the key.
\<close>

section \<open>The program\<close>

record form_file =
  file_name :: bytes
  file_content_type :: "bytes option"

record post_form =
  form_fields :: "(bytes \<times> bytes) list"
  form_file :: form_file

definition find_field_index :: "(bytes \<times> bytes) list \<Rightarrow> bytes \<Rightarrow> nat option" where
  "find_field_index flds name =
     (let upper_bound = partition_point (\<lambda>x. fst x \<le> name) flds
      in if upper_bound = 0 then None
         else (let idx = upper_bound - 1
               in if idx < length flds \<and> fst (flds ! idx) = name then Some idx else None))"

definition find_field_value :: "post_form \<Rightarrow> bytes \<Rightarrow> bytes option" where
  "find_field_value m name =
     (case find_field_index (form_fields m) name of
        None \<Rightarrow> None
      | Some idx \<Rightarrow> if idx < length (form_fields m) then Some (snd (form_fields m ! idx)) else None)"

text \<open>\<^verbatim>\<open>str::replace\<close> with a pattern that is not empty: every occurrence from the left, without overlaps.\<close>

function str_replace :: "bytes \<Rightarrow> bytes \<Rightarrow> bytes \<Rightarrow> bytes" where
  "str_replace pat new s =
     (if pat = [] then s
      else (case s of
          [] \<Rightarrow> []
        | c # cs \<Rightarrow> if prefix pat s then new @ str_replace pat new (drop (length pat) s)
                   else c # str_replace pat new cs))"
  by pat_completeness auto
termination by (relation "measure (\<lambda>(_, _, s). length s)") auto

declare str_replace.simps [simp del]

definition FILENAME_VARIABLE :: bytes where
  "FILENAME_VARIABLE = ''${filename}''"

definition substitute_key_filename :: "post_form \<Rightarrow> post_form" where
  "substitute_key_filename m =
     (case find_field_index (form_fields m) ''key'' of
        None \<Rightarrow> m
      | Some idx \<Rightarrow>
          (let key = snd (form_fields m ! idx)
           in if find_sub key FILENAME_VARIABLE \<noteq> None
              then m\<lparr>form_fields := (form_fields m)[idx :=
                     (fst (form_fields m ! idx),
                      str_replace FILENAME_VARIABLE (file_name (form_file m)) key)]\<rparr>
              else m))"

text \<open>What the form parser does with the collected fields once it has reached the file.\<close>

definition normalize_fields :: "(bytes \<times> bytes) list \<Rightarrow> (bytes \<times> bytes) list" where
  "normalize_fields flds = sort_key fst (map (\<lambda>(n, v). (map to_ascii_lowercase n, v)) flds)"

section \<open>The last value of a name\<close>

definition fields_ok :: "post_form \<Rightarrow> bool" where
  "fields_ok m \<longleftrightarrow> sorted (map fst (form_fields m))"

definition last_value :: "(bytes \<times> bytes) list \<Rightarrow> bytes \<Rightarrow> bytes option" where
  "last_value flds name =
     (if values_of flds name = [] then None else Some (last (values_of flds name)))"

lemma last_value_append:
  "last_value (xs @ ys) name = (case last_value ys name of None \<Rightarrow> last_value xs name | Some v \<Rightarrow> Some v)"
proof -
  have "values_of (xs @ ys) name = values_of xs name @ values_of ys name" by (simp add: values_of_def)
  then show ?thesis
    by (simp add: last_value_def)
qed

lemma last_value_Nil [simp]: "last_value [] name = None"
  by (simp add: last_value_def values_of_def)

lemma last_value_Cons:
  "last_value (x # ys) name =
    (case last_value ys name of None \<Rightarrow> if fst x = name then Some (snd x) else None | Some v \<Rightarrow> Some v)"
  using last_value_append [of "[x]" ys name] by (auto simp: last_value_def values_of_def)

lemma last_value_None: "last_value flds name = None \<longleftrightarrow> name \<notin> fst ` set flds"
  by (force simp: last_value_def values_of_def filter_empty_conv)

lemma last_value_drop:
  assumes "\<And>j. i \<le> j \<Longrightarrow> j < length flds \<Longrightarrow> fst (flds ! j) \<noteq> name"
  shows "last_value (drop i flds) name = None"
proof -
  have "fst x \<noteq> name" if x: "x \<in> set (drop i flds)" for x
  proof -
    obtain k where "k < length (drop i flds)" "drop i flds ! k = x" using x by (metis in_set_conv_nth)
    then have "i + k < length flds" "flds ! (i + k) = x" by auto
    then show ?thesis using assms [of "i + k"] by auto
  qed
  then show ?thesis by (auto simp: last_value_None)
qed

lemma find_field_index_sorted:
  assumes s: "sorted (map fst flds)"
  shows "case find_field_index flds name of
      None \<Rightarrow> name \<notin> fst ` set flds
    | Some i \<Rightarrow> i < length flds \<and> fst (flds ! i) = name \<and> last_value flds name = Some (snd (flds ! i))
        \<and> (\<forall>j. i < j \<longrightarrow> j < length flds \<longrightarrow> fst (flds ! j) \<noteq> name)"
proof -
  let ?u = "length (takeWhile (\<lambda>x. fst x \<le> name) flds)"
  have u: "partition_point (\<lambda>x. fst x \<le> name) flds = ?u" using partition_point_lt(2) [OF s] .
  have below: "fst (flds ! j) \<le> name" if "j < ?u" for j
    using that set_takeWhileD [of "flds ! j" "\<lambda>x. fst x \<le> name" flds]
    by (metis nth_mem takeWhile_nth)
  have above: "\<not> fst (flds ! j) \<le> name" if "?u \<le> j" "j < length flds" for j
    using that nth_length_takeWhile [of "\<lambda>x. fst x \<le> name" flds] sorted_nth_fst [OF s, of ?u j]
    by (meson dual_order.trans le_less_trans)
  show ?thesis
  proof (cases "0 < ?u \<and> fst (flds ! (?u - 1)) = name")
    case True
    have len: "?u \<le> length flds" by (rule length_takeWhile_le)
    then have idx: "?u - 1 < length flds" using True by linarith
    then have f: "find_field_index flds name = Some (?u - 1)"
      using True by (simp add: find_field_index_def u Let_def)
    have "flds = take (?u - 1) flds @ [flds ! (?u - 1)] @ drop ?u flds"
      using id_take_nth_drop [OF idx] True by simp
    then have "last_value flds name = last_value (take (?u - 1) flds @ [flds ! (?u - 1)] @ drop ?u flds) name"
      by simp
    moreover have "last_value (drop ?u flds) name = None"
      using above by (intro last_value_drop) auto
    ultimately have "last_value flds name = Some (snd (flds ! (?u - 1)))"
      using True by (simp add: last_value_append last_value_Cons)
    moreover have "fst (flds ! j) \<noteq> name" if "?u - 1 < j" "j < length flds" for j
    proof -
      have "?u \<le> j" using that(1) by linarith
      then show ?thesis using above [OF _ that(2)] by auto
    qed
    ultimately show ?thesis using f True idx by auto
  next
    case False
    then have f: "find_field_index flds name = None"
      by (auto simp: find_field_index_def u Let_def)
    have "fst (flds ! j) \<noteq> name" if "j < length flds" for j
    proof (cases "j < ?u")
      case True
      then have "j \<le> ?u - 1" "?u - 1 < length flds" using that length_takeWhile_le [of "\<lambda>x. fst x \<le> name" flds] by linarith+
      then have "fst (flds ! j) \<le> fst (flds ! (?u - 1))" by (rule sorted_nth_fst [OF s])
      with False True below [of "?u - 1"] show ?thesis by fastforce
    next
      case False
      then show ?thesis using above [of j] that by auto
    qed
    then have "name \<notin> fst ` set flds" by (metis imageE in_set_conv_nth)
    with f show ?thesis by simp
  qed
qed

lemma find_field_value_last:
  assumes "fields_ok m"
  shows "find_field_value m name = last_value (form_fields m) name"
  using find_field_index_sorted [of "form_fields m" name] assms last_value_None [of "form_fields m" name]
  by (auto simp: find_field_value_def fields_ok_def split: option.splits)


lemma last_value_sort: "last_value (sort_key fst flds) name = last_value flds name"
  by (simp add: last_value_def values_of_def sort_key_stable)

lemma substitute_keeps:
  "fields_ok m \<Longrightarrow> fields_ok (substitute_key_filename m)"
  "map fst (form_fields (substitute_key_filename m)) = map fst (form_fields m)"
proof -
  show same: "map fst (form_fields (substitute_key_filename m)) = map fst (form_fields m)"
    by (auto simp: substitute_key_filename_def Let_def map_update list_update_id split: option.split)
      (metis list_update_id nth_map list_update_beyond not_less length_map)
  then show "fields_ok m \<Longrightarrow> fields_ok (substitute_key_filename m)" by (simp add: fields_ok_def)
qed

lemma str_replace_absent: "pat \<noteq> [] \<Longrightarrow> find_sub s pat = None \<Longrightarrow> str_replace pat new s = s"
proof (induction s)
  case Nil
  then show ?case by (subst str_replace.simps) simp
next
  case (Cons c cs)
  then have "\<not> prefix pat (c # cs)" "find_sub cs pat = None" by (auto split: if_splits)
  with Cons show ?case by (subst str_replace.simps) simp
qed

lemma substitute_key_value:
  assumes "fields_ok m"
  shows "find_field_value (substitute_key_filename m) name =
    (if name = ''key'' then map_option (str_replace FILENAME_VARIABLE (file_name (form_file m))) (find_field_value m name)
     else find_field_value m name)"
proof (cases "find_field_index (form_fields m) ''key''")
  case None
  then show ?thesis by (simp add: substitute_key_filename_def find_field_value_def)
next
  case (Some i)
  let ?fs = "form_fields m"
  let ?v = "snd (?fs ! i)" and ?rep = "str_replace FILENAME_VARIABLE (file_name (form_file m))"
  have i: "i < length ?fs" "fst (?fs ! i) = ''key''" "last_value ?fs ''key'' = Some ?v"
    and later: "\<And>j. i < j \<Longrightarrow> j < length ?fs \<Longrightarrow> fst (?fs ! j) \<noteq> ''key''"
    using find_field_index_sorted [of ?fs "''key''"] assms Some by (auto simp: fields_ok_def)
  have fs: "form_fields (substitute_key_filename m) = ?fs[i := (''key'', ?rep ?v)]"
  proof (cases "find_sub ?v FILENAME_VARIABLE = None")
    case True
    then have "?rep ?v = ?v" by (simp add: str_replace_absent FILENAME_VARIABLE_def)
    then have "(''key'', ?rep ?v) = ?fs ! i" using i(2) by (metis prod.collapse)
    then show ?thesis using True Some by (simp add: substitute_key_filename_def Let_def)
  next
    case False
    then show ?thesis using Some i(2) by (simp add: substitute_key_filename_def Let_def)
  qed
  have split: "?fs = take i ?fs @ ?fs ! i # drop (Suc i) ?fs"
    "?fs[i := (''key'', ?rep ?v)] = take i ?fs @ (''key'', ?rep ?v) # drop (Suc i) ?fs"
    using id_take_nth_drop [OF i(1)] upd_conv_take_nth_drop [OF i(1)] by simp_all
  have none: "last_value (drop (Suc i) ?fs) ''key'' = None"
    using later by (intro last_value_drop) auto
  have "last_value (?fs[i := (''key'', ?rep ?v)]) name =
      (if name = ''key'' then Some (?rep ?v) else last_value ?fs name)"
  proof (cases "name = ''key''")
    case True
    then show ?thesis unfolding split(2)
      using none by (simp add: last_value_append last_value_Cons)
  next
    case False
    have "last_value (x # ys) name = last_value ys name" if "fst x = ''key''" for x ys
      using False that by (simp add: last_value_def values_of_def)
    then have "last_value (take i ?fs @ (''key'', w) # drop (Suc i) ?fs) name =
        last_value (take i ?fs @ ?fs ! i # drop (Suc i) ?fs) name" for w
      using i(2) by (simp add: last_value_append)
    then show ?thesis using False split by metis
  qed
  then show ?thesis
    using find_field_value_last [OF assms] find_field_value_last [OF substitute_keeps(1) [OF assms]] fs i(3)
    by simp
qed

end
