(* ===== verification/Form_Parser.thy ===== *)
theory Form_Parser
  imports Multipart_Progress Multipart_Properties Form_Fields "HOL-Library.Multiset"
begin

text \<open>
  Reading a POST form from the request body (s3s/src/http/multipart.rs): the fields are collected with the
  parser of the multipart crate under the configured limits, and the file is left as a stream that checks
  its length and the closing delimiter. An awaited call is polled until it is ready; the number of polls
  is bounded by the answers the body can still give, and \<open>None\<close> would be a call that is never ready
  (see \<open>transform_multipart_total\<close>).
\<close>

section \<open>The program\<close>

datatype multipart_error =
    FormUnderlying bytes
  | FormInvalidFormat
  | FieldTooLarge nat nat
  | TotalSizeTooLarge nat nat
  | TooManyParts nat nat
  | FileTooLarge nat nat

record multipart_limits =
  max_field_size :: nat
  max_fields_size :: nat
  max_parts :: nat

definition MultipartLimits_default :: multipart_limits where
  "MultipartLimits_default =
     \<lparr>max_field_size = 1024 * 1024, max_fields_size = 20 * 1024 * 1024, max_parts = 1000\<rparr>"

definition usize_saturating_add :: "nat \<Rightarrow> nat \<Rightarrow> nat" where
  "usize_saturating_add a b = min (a + b) (2 ^ 64 - 1)"

fun map_parser_error :: "mp_error \<Rightarrow> multipart_error" where
  "map_parser_error (StreamReadFailed err) = FormUnderlying err"
| "map_parser_error (HeaderSizeExceeded limit) = FieldTooLarge (usize_saturating_add limit 1) limit"
| "map_parser_error _ = FormInvalidFormat"

definition bytes_to_string :: "bytes \<Rightarrow> multipart_error + bytes" where
  "bytes_to_string bs = (if is_utf8 bs then Inr bs else Inl FormInvalidFormat)"

text \<open>\<^verbatim>\<open>.map(bytes_to_string).transpose()?\<close>\<close>

definition opt_to_string :: "bytes option \<Rightarrow> multipart_error + bytes option" where
  "opt_to_string ob = (case ob of None \<Rightarrow> Inr None | Some bs \<Rightarrow> map_sum id Some (bytes_to_string bs))"

subsection \<open>The file stream\<close>

datatype file_stream_error =
    FsIncomplete
  | FsUnderlying bytes
  | FsInvalidTrailer
  | FsLengthMismatch nat

record file_stream =
  fs_inner :: final_part_data_stream
  fs_content_len :: "nat option"
  fs_remaining :: nat
  fs_ended :: bool

definition FileStream_from_owned :: "final_part_data_stream \<Rightarrow> nat option \<Rightarrow> file_stream" where
  "FileStream_from_owned inn content_len =
     \<lparr>fs_inner = inn, fs_content_len = content_len,
      fs_remaining = (case content_len of Some n \<Rightarrow> n | None \<Rightarrow> 0), fs_ended = False\<rparr>"

fun map_file_stream_error :: "mp_error \<Rightarrow> file_stream_error" where
  "map_file_stream_error (StreamReadFailed err) = FsUnderlying err"
| "map_file_stream_error IncompleteStreamPart = FsIncomplete"
| "map_file_stream_error _ = FsInvalidTrailer"

fun file_stream_error_text :: "file_stream_error \<Rightarrow> bytes" where
  "file_stream_error_text FsIncomplete = ''FileStreamError: Incomplete''"
| "file_stream_error_text (FsUnderlying e) = ''FileStreamError: Underlying: '' @ e"
| "file_stream_error_text FsInvalidTrailer = ''FileStreamError: InvalidTrailer''"
| "file_stream_error_text (FsLengthMismatch n) = ''FileStreamError: LengthMismatch: '' @ decimal n @ '' bytes remaining''"

definition FileStream_poll_next ::
  "memchr_api \<Rightarrow> file_stream \<Rightarrow> (file_stream_error + bytes) option poll \<times> file_stream" where
  "FileStream_poll_next M s =
     (if fs_ended s then (Ready None, s)
      else
        (case FinalPartDataStream_poll_next M (fs_inner s) of
           (p, inn) \<Rightarrow>
             (let s1 = s\<lparr>fs_inner := inn\<rparr>
              in case p of
                   Ready (Some (Inr bs)) \<Rightarrow>
                     (if fs_content_len s1 \<noteq> None then
                        (if length bs > fs_remaining s1
                         then (Ready (Some (Inl (FsLengthMismatch (fs_remaining s1)))), s1\<lparr>fs_ended := True\<rparr>)
                         else (Ready (Some (Inr bs)), s1\<lparr>fs_remaining := fs_remaining s1 - length bs\<rparr>))
                      else (Ready (Some (Inr bs)), s1))
                 | Ready None \<Rightarrow>
                     (if fs_content_len s1 \<noteq> None \<and> fs_remaining s1 > 0
                      then (Ready (Some (Inl (FsLengthMismatch (fs_remaining s1)))), s1\<lparr>fs_ended := True\<rparr>)
                      else (Ready None, s1))
                 | Ready (Some (Inl err)) \<Rightarrow>
                     (Ready (Some (Inl (map_file_stream_error err))), s1\<lparr>fs_ended := True\<rparr>)
                 | Pending \<Rightarrow> (Pending, s1))))"

definition FileStream_remaining_length :: "file_stream \<Rightarrow> nat option" where
  "FileStream_remaining_length s =
     (if fs_remaining s < 2 ^ 64 \<and> fs_content_len s \<noteq> None then Some (fs_remaining s) else None)"

text \<open>Awaiting the items of the file stream one by one.\<close>

fun aggregate_loop ::
  "memchr_api \<Rightarrow> nat \<Rightarrow> nat \<Rightarrow> file_stream \<Rightarrow> bytes list \<Rightarrow> nat \<Rightarrow> (multipart_error + bytes list) option" where
  "aggregate_loop M 0 mx s vec tot = None"
| "aggregate_loop M (Suc k) mx s vec tot =
     (case FileStream_poll_next M s of
        (Pending, s1) \<Rightarrow> aggregate_loop M k mx s1 vec tot
      | (Ready None, s1) \<Rightarrow> Some (Inr vec)
      | (Ready (Some (Inl e)), s1) \<Rightarrow> Some (Inl (FormUnderlying (file_stream_error_text e)))
      | (Ready (Some (Inr bs)), s1) \<Rightarrow>
          (let tot1 = usize_saturating_add tot (length bs)
           in if tot1 > mx then Some (Inl (FileTooLarge tot1 mx))
              else aggregate_loop M k mx s1 (vec @ [bs]) tot1))"

text \<open>The answers that the stream below the file can still give.\<close>

definition file_polls :: "file_stream \<Rightarrow> nat" where
  "file_polls s = work (fds_buffer (fs_inner s)) + 3"

definition aggregate_file_stream_limited :: "memchr_api \<Rightarrow> file_stream \<Rightarrow> nat \<Rightarrow> (multipart_error + bytes list) option" where
  "aggregate_file_stream_limited M s mx = aggregate_loop M (file_polls s) mx s [] 0"

subsection \<open>The form\<close>

definition await ::
  "(multipart \<Rightarrow> (mp_error + 'a) poll \<times> multipart) \<Rightarrow> multipart \<Rightarrow> (multipart_error + 'a) option \<times> multipart" where
  "await f m =
     (case drive f (Suc (mp_work m)) m of (r, m1) \<Rightarrow> (map_option (map_sum map_parser_error id) r, m1))"

definition and_await ::
  "('e + 'a) option \<times> 's \<Rightarrow> ('a \<Rightarrow> 's \<Rightarrow> ('e + 'b) option \<times> 's) \<Rightarrow> ('e + 'b) option \<times> 's" where
  "and_await r k =
     (case r of
        (None, s) \<Rightarrow> (None, s)
      | (Some (Inl e), s) \<Rightarrow> (Some (Inl e), s)
      | (Some (Inr a), s) \<Rightarrow> k a s)"

record part_meta =
  meta_name :: "bytes option"
  meta_file_name :: "bytes option"
  meta_content_type :: "bytes option"

definition header_meta :: "memchr_api \<Rightarrow> bytes \<times> bytes \<Rightarrow> part_meta \<Rightarrow> multipart_error + part_meta" where
  "header_meta M header meta =
     (if eq_ignore_ascii_case (fst header) ''content-disposition'' then
        (let cd = parse_content_disposition M (snd header)
         in case opt_to_string (Option.bind cd cd_name) of
              Inl e \<Rightarrow> Inl e
            | Inr name \<Rightarrow>
                (case opt_to_string (Option.bind cd cd_file_name) of
                   Inl e \<Rightarrow> Inl e
                 | Inr fname \<Rightarrow> Inr (meta\<lparr>meta_name := name, meta_file_name := fname\<rparr>)))
      else if eq_ignore_ascii_case (fst header) ''content-type'' then
        (case bytes_to_string (snd header) of Inl e \<Rightarrow> Inl e | Inr v \<Rightarrow> Inr (meta\<lparr>meta_content_type := Some v\<rparr>))
      else Inr meta)"

fun header_loop ::
  "nat \<Rightarrow> memchr_api \<Rightarrow> httparse_api \<Rightarrow> multipart \<Rightarrow> part_meta \<Rightarrow> (multipart_error + part_meta) option \<times> multipart" where
  "header_loop 0 M H m meta = (None, m)"
| "header_loop (Suc k) M H m meta =
     and_await (await (Part_poll_next_header M H) m) (\<lambda>header m1.
       case header of
         None \<Rightarrow> (Some (Inr meta), m1)
       | Some h \<Rightarrow>
           (case header_meta M h meta of
              Inl e \<Rightarrow> (Some (Inl e), m1)
            | Inr meta1 \<Rightarrow> header_loop k M H m1 meta1))"

fun data_loop ::
  "nat \<Rightarrow> memchr_api \<Rightarrow> httparse_api \<Rightarrow> multipart_limits \<Rightarrow> multipart \<Rightarrow> bytes \<Rightarrow> nat \<Rightarrow>
     (multipart_error + bytes \<times> nat) option \<times> multipart" where
  "data_loop 0 M H lim m val tot = (None, m)"
| "data_loop (Suc k) M H lim m val tot =
     and_await (await (Part_poll_next_data M H) m) (\<lambda>chunk m1.
       case chunk of
         None \<Rightarrow> (Some (Inr (val, tot)), m1)
       | Some c \<Rightarrow>
           (let val1 = val @ c;
                tot1 = usize_saturating_add tot (length c)
            in if length val1 > max_field_size lim
               then (Some (Inl (FieldTooLarge (length val1) (max_field_size lim))), m1)
               else if tot1 > max_fields_size lim
               then (Some (Inl (TotalSizeTooLarge tot1 (max_fields_size lim))), m1)
               else data_loop k M H lim m1 val1 tot1))"

definition checked_sub :: "nat \<Rightarrow> nat \<Rightarrow> nat option" where
  "checked_sub a b = (if b \<le> a then Some (a - b) else None)"

definition finish_form ::
  "bytes \<Rightarrow> nat option \<Rightarrow> (bytes \<times> bytes) list \<Rightarrow> bytes \<Rightarrow> part_meta \<Rightarrow> part_data_stream \<Rightarrow> post_form \<times> file_stream" where
  "finish_form bd total_len flds name meta owned0 =
     (let owned = into_final owned0;
          content_len = Option.bind total_len (\<lambda>tot.
            Option.bind (checked_sub tot (fds_multipart_consumed owned)) (\<lambda>rest.
              checked_sub rest (length bd + 8)))
      in (\<lparr>form_fields = normalize_fields flds,
           form_file = \<lparr>file_name = (case meta_file_name meta of Some f \<Rightarrow> f | None \<Rightarrow> name),
                        file_content_type = meta_content_type meta\<rparr>\<rparr>,
          FileStream_from_owned owned content_len))"

text \<open>
  One round of the loop of \<^verbatim>\<open>transform_multipart\<close> per part. The part counter refuses the form after
  \<^verbatim>\<open>max_parts\<close> parts, so \<open>max_parts + 1\<close> rounds are enough. A part has at most \<^verbatim>\<open>MAX_HEADERS\<close> headers, and
  every chunk of its data takes bytes from the input.
\<close>

fun parts_loop ::
  "nat \<Rightarrow> memchr_api \<Rightarrow> httparse_api \<Rightarrow> bytes \<Rightarrow> multipart_limits \<Rightarrow> nat option \<Rightarrow> multipart \<Rightarrow>
     (bytes \<times> bytes) list \<Rightarrow> nat \<Rightarrow> nat \<Rightarrow> (multipart_error + post_form \<times> file_stream) option \<times> multipart" where
  "parts_loop 0 M H bd lim total_len m flds tot cnt = (None, m)"
| "parts_loop (Suc k) M H bd lim total_len m flds tot cnt =
     and_await (await (poll_next_part M H) m) (\<lambda>part m1.
       if part = None then (Some (Inl FormInvalidFormat), m1)
       else
         (let cnt1 = usize_saturating_add cnt 1
          in if cnt1 > max_parts lim then (Some (Inl (TooManyParts cnt1 (max_parts lim))), m1)
             else
               and_await (header_loop (MAX_HEADERS + 1) M H m1
                   \<lparr>meta_name = None, meta_file_name = None, meta_content_type = None\<rparr>) (\<lambda>meta m2.
                 case meta_name meta of
                   None \<Rightarrow> (Some (Inl FormInvalidFormat), m2)
                 | Some name \<Rightarrow>
                     (if eq_ignore_ascii_case name ''file'' then
                        (case take_data_stream m2 of
                           (Inl e, m3) \<Rightarrow> (Some (Inl (map_parser_error e)), m3)
                         | (Inr owned, m3) \<Rightarrow> (Some (Inr (finish_form bd total_len flds name meta owned)), m3))
                      else
                        and_await (data_loop (mp_work m2 + 2) M H lim m2 [] tot) (\<lambda>vt m3.
                          case bytes_to_string (fst vt) of
                            Inl e \<Rightarrow> (Some (Inl e), m3)
                          | Inr v \<Rightarrow>
                              parts_loop k M H bd lim total_len m3 (flds @ [(name, v)]) (snd vt) cnt1)))))"

definition transform_multipart ::
  "memchr_api \<Rightarrow> httparse_api \<Rightarrow> stream_event list \<Rightarrow> bytes \<Rightarrow> multipart_limits \<Rightarrow> nat option \<Rightarrow>
     (multipart_error + post_form \<times> file_stream) option" where
  "transform_multipart M H body_stream bd lim total_len =
     (case Boundary_new bd of
        Inl _ \<Rightarrow> Some (Inl FormInvalidFormat)
      | Inr parser_boundary \<Rightarrow>
          fst (parts_loop (max_parts lim + 1) M H bd lim total_len
            (Multipart_new body_stream parser_boundary (max_field_size lim)) [] 0 0))"

section \<open>The form parser always answers\<close>

lemma await_total:
  assumes "\<And>m. progress mp_work m (f m)"
  shows "\<exists>r m1. await f m = (Some r, m1) \<and> (\<forall>a. r = Inr a \<longrightarrow> mp_work m1 \<le> mp_work m)"
proof -
  obtain r m1 where "drive f (Suc (mp_work m)) m = (Some r, m1)" "\<forall>a. r = Inr a \<longrightarrow> mp_work m1 \<le> mp_work m"
    using drive_total [of mp_work f m "Suc (mp_work m)"] assms by blast
  then show ?thesis by (cases r) (auto simp: await_def)
qed

lemma await_last:
  assumes "\<And>m. progress mp_work m (f m)" and "\<forall>x x'. f x = (Pending, x') \<longrightarrow> P x \<longrightarrow> P x'"
    and "await f m = (Some (Inr a), m1)" and "P m"
  shows "\<exists>t. f t = (Ready (Inr a), m1) \<and> mp_work t \<le> mp_work m \<and> P t"
proof -
  obtain r where d: "drive f (Suc (mp_work m)) m = (Some r, m1)" "map_sum map_parser_error id r = Inr a"
    using assms(3) by (auto simp: await_def split: prod.splits)
  from d(2) have "r = Inr a" by (cases r) auto
  with drive_last [of mp_work f P "Suc (mp_work m)" m r m1] assms d(1) show ?thesis by blast
qed

lemma await_hdr:
  assumes "\<And>m. keeps hdr_ok m (f m)" and "await f m = (Some (Inr a), m1)" and "hdr_ok m"
  shows "hdr_ok m1"
proof -
  obtain r where d: "drive f (Suc (mp_work m)) m = (Some r, m1)" "map_sum map_parser_error id r = Inr a"
    using assms(2) by (auto simp: await_def split: prod.splits)
  from d(2) have "r = Inr a" by (cases r) auto
  with drive_keeps [of hdr_ok f, OF assms(1)] d(1) assms(3) show ?thesis by blast
qed

definition headers_left :: "multipart \<Rightarrow> nat" where
  "headers_left m = (case headers m of None \<Rightarrow> MAX_HEADERS | Some block \<Rightarrow> length (spans block) - next_span block)"

lemma ensure_headers_left:
  "poll_ensure_headers M H m = (p, m') \<Longrightarrow> \<not> (\<exists>e. p = Ready (Inl e)) \<Longrightarrow> headers_left m' \<le> headers_left m"
proof -
  let ?read = "on_buffer (poll_read_header_block M (max_buffer_size m)) m"
  have "keeps (\<lambda>x. headers_left x \<le> n) m (poll_ensure_headers M H m)" for n
  proof (cases "headers m \<noteq> None \<or> mp_state m \<noteq> ReadingPartHeaders")
    case True
    then show ?thesis by (auto simp: poll_ensure_headers_def)
  next
    case False
    have step: "keeps (\<lambda>x. headers_left x \<le> n) m ?read"
    proof -
      obtain r m1 where f: "?read = (r, m1)" by fastforce
      with on_buffer_frame [OF this] show ?thesis
        by (cases r) (auto simp: headers_left_def keeps_def split: sum.split)
    qed
    show ?thesis
      unfolding poll_ensure_headers_def using False
    proof (simp, intro keeps_try [OF step])
      fix a s1
      assume ob: "?read = (Ready (Inr a), s1)"
      have "headers s1 = None" using False on_buffer_frame [OF ob] by simp
      then show "keeps (\<lambda>x. headers_left x \<le> n) s1 (case mp_buffer s1 of None \<Rightarrow> (Ready (Inl StreamAlreadyTaken), s1)
         | Some b \<Rightarrow> (case parse_header_block M H (take a (buf b)) of
              Inl err \<Rightarrow> (Ready (Inl err), s1) | Inr block \<Rightarrow> (Ready (Inr ()), s1\<lparr>headers := Some block\<rparr>)))"
        by (auto simp: headers_left_def dest!: parse_header_block_spans split: option.split sum.split)
    qed
  qed
  then show "poll_ensure_headers M H m = (p, m') \<Longrightarrow> \<not> (\<exists>e. p = Ready (Inl e)) \<Longrightarrow> headers_left m' \<le> headers_left m"
    by (cases p) (force simp: keeps_def split: sum.splits)+
qed

lemma next_header_left:
  "Part_poll_next_header M H m = (Pending, m') \<Longrightarrow> headers_left m' \<le> headers_left m"
  "Part_poll_next_header M H m = (Ready (Inr (Some h)), m') \<Longrightarrow> headers_left m' < headers_left m"
proof -
  obtain p m1 where e: "poll_ensure_headers M H m = (p, m1)" by fastforce
  have inner: "next_header_inner m1 = (Inr (Some h), m') \<Longrightarrow> headers_left m' < headers_left m1"
    by (auto simp: next_header_inner_def headers_left_def Let_def split: option.splits if_splits)
  show "Part_poll_next_header M H m = (Pending, m') \<Longrightarrow> headers_left m' \<le> headers_left m"
    using ensure_headers_left [OF e] e
    by (auto simp: Part_poll_next_header_def try_ready_def split: poll.splits sum.splits prod.splits)
  show "Part_poll_next_header M H m = (Ready (Inr (Some h)), m') \<Longrightarrow> headers_left m' < headers_left m"
    using ensure_headers_left [OF e] e inner
    by (auto simp: Part_poll_next_header_def try_ready_def split: poll.splits sum.splits prod.splits)
qed

lemma header_loop_total:
  "headers_left m < k \<Longrightarrow> \<exists>r m1. header_loop k M H m meta = (Some r, m1) \<and> (\<forall>a. r = Inr a \<longrightarrow> mp_work m1 \<le> mp_work m)"
proof (induction k arbitrary: m meta)
  case (Suc k)
  obtain r m1 where a: "await (Part_poll_next_header M H) m = (Some r, m1)" "\<forall>a. r = Inr a \<longrightarrow> mp_work m1 \<le> mp_work m"
    using await_total [of "Part_poll_next_header M H" m] Part_poll_next_header_progress by blast
  have less: "r = Inr (Some h) \<Longrightarrow> headers_left m1 < k" for h
  proof -
    assume r: "r = Inr (Some h)"
    have "\<forall>x x'. Part_poll_next_header M H x = (Pending, x') \<longrightarrow> headers_left x \<le> headers_left m \<longrightarrow> headers_left x' \<le> headers_left m"
      using next_header_left(1) [of M H] by (meson order.trans)
    from await_last [of "Part_poll_next_header M H" "\<lambda>x. headers_left x \<le> headers_left m", OF Part_poll_next_header_progress this a(1) [unfolded r] order.refl]
    obtain t where "Part_poll_next_header M H t = (Ready (Inr (Some h)), m1)" "headers_left t \<le> headers_left m" by blast
    with next_header_left(2) [of M H t h m1] Suc.prems show ?thesis by simp
  qed
  show ?case
  proof (cases r)
    case (Inr oh)
    show ?thesis
    proof (cases oh)
      case (Some h)
      show ?thesis
      proof (cases "header_meta M h meta")
        case (Inr meta1)
        with less [of h] \<open>r = Inr oh\<close> Some Suc.IH [of m1 meta1] obtain r2 m2
          where "header_loop k M H m1 meta1 = (Some r2, m2)" "\<forall>a. r2 = Inr a \<longrightarrow> mp_work m2 \<le> mp_work m1" by blast
        with a Inr \<open>r = Inr oh\<close> Some show ?thesis by (auto simp: and_await_def)
      qed (use a Inr Some in \<open>simp add: and_await_def\<close>)
    qed (use a Inr in \<open>simp add: and_await_def\<close>)
  qed (use a in \<open>simp add: and_await_def\<close>)
qed simp

lemma next_data_left:
  "Part_poll_next_data M H m = (Ready (Inr (Some c)), m') \<Longrightarrow> mp_state m' = ReadingBoundary \<or> mp_work m' < mp_work m"
proof -
  assume "Part_poll_next_data M H m = (Ready (Inr (Some c)), m')"
  then obtain m1 where e: "poll_ensure_headers M H m = (Ready (Inr ()), m1)"
    and d: "poll_next_part_data_chunk M (finish_headers m1) = (Ready (Inr (Some c)), m')"
    by (auto simp: Part_poll_next_data_def try_ready_Ready)
  have "mp_state m' = ReadingPartData \<or> mp_state m' = ReadingBoundary"
    using d by (auto simp: poll_next_part_data_chunk_def split: if_splits option.splits prod.splits poll.splits scan_outcome.splits)
  with d poll_next_part_data_chunk_work [of "finish_headers m1" M] have "mp_state m' = ReadingBoundary \<or> mp_work m' < mp_work (finish_headers m1)"
    by auto
  with finish_headers_work [of m1] poll_ensure_headers_progress [of m M H] e show ?thesis by auto
qed

lemma next_data_at_boundary: "mp_state m = ReadingBoundary \<Longrightarrow> \<exists>m'. Part_poll_next_data M H m = (Ready (Inr None), m')"
  by (auto simp: Part_poll_next_data_def poll_ensure_headers_def poll_next_part_data_chunk_def finish_headers_def Let_def
      split: option.split)

lemma data_loop_total:
  "mp_work m + 1 < k \<or> mp_state m = ReadingBoundary \<and> 0 < k \<Longrightarrow>
     \<exists>r m1. data_loop k M H lim m val tot = (Some r, m1) \<and> (\<forall>a. r = Inr a \<longrightarrow> mp_work m1 \<le> mp_work m)"
proof (induction k arbitrary: m val tot)
  case (Suc k)
  obtain r m1 where a: "await (Part_poll_next_data M H) m = (Some r, m1)" "\<forall>a. r = Inr a \<longrightarrow> mp_work m1 \<le> mp_work m"
    using await_total [of "Part_poll_next_data M H" m] Part_poll_next_data_progress by blast
  have more: "mp_work m1 + 1 < k \<or> mp_state m1 = ReadingBoundary \<and> 0 < k" if r: "r = Inr (Some c)" for c
  proof -
    have "mp_state m \<noteq> ReadingBoundary"
      using next_data_at_boundary [of m M H] a(1) r by (auto simp: await_def)
    moreover from await_last [of "Part_poll_next_data M H" "\<lambda>_. True", OF Part_poll_next_data_progress _ a(1) [unfolded r]]
    obtain t where t: "Part_poll_next_data M H t = (Ready (Inr (Some c)), m1)" "mp_work t \<le> mp_work m" by blast
    ultimately show ?thesis using next_data_left [OF t(1)] Suc.prems by auto
  qed
  show ?case
  proof (cases r)
    case (Inr oc)
    show ?thesis
    proof (cases oc)
      case (Some c)
      with more [of c] Inr Suc.IH [of m1 "val @ c" "usize_saturating_add tot (length c)"]
      obtain r2 m2 where "data_loop k M H lim m1 (val @ c) (usize_saturating_add tot (length c)) = (Some r2, m2)"
        "\<forall>a. r2 = Inr a \<longrightarrow> mp_work m2 \<le> mp_work m1" by blast
      with a Inr Some show ?thesis by (auto simp: and_await_def Let_def)
    qed (use a Inr in \<open>simp add: and_await_def\<close>)
  qed (use a in \<open>simp add: and_await_def\<close>)
qed simp

lemma part_hdr: "keeps hdr_ok m (Part_poll_next_header M H m)" "keeps hdr_ok m (Part_poll_next_data M H m)"
proof -
  have "next_header_inner m1 = (r, m2) \<Longrightarrow> hdr_ok m1 \<Longrightarrow> hdr_ok m2" for m1 r m2
    using finish_headers_hdr [of m1]
    by (auto simp: next_header_inner_def Let_def hdr_ok_def split: option.splits if_splits prod.splits)
  then have "keeps hdr_ok m1 (case next_header_inner m1 of (r, m2) \<Rightarrow> (Ready r, m2))" for m1
    by (cases "next_header_inner m1", cases "fst (next_header_inner m1)") auto
  then show "keeps hdr_ok m (Part_poll_next_header M H m)"
    unfolding Part_poll_next_header_def by (rule keeps_try [OF poll_ensure_headers_hdr])
  show "keeps hdr_ok m (Part_poll_next_data M H m)"
    unfolding Part_poll_next_data_def
    by (rule keeps_try [OF poll_ensure_headers_hdr])
      (rule keeps_trans [OF poll_next_part_data_chunk_hdr finish_headers_hdr])
qed

lemma and_await_Inr:
  "and_await x k = (Some (Inr b), s') \<longleftrightarrow> (\<exists>a s. x = (Some (Inr a), s) \<and> k a s = (Some (Inr b), s'))"
  by (auto simp: and_await_def split: prod.splits option.splits sum.splits)

lemma header_loop_hdr: "header_loop k M H m meta = (Some (Inr a), m1) \<Longrightarrow> hdr_ok m \<Longrightarrow> hdr_ok m1"
proof (induction k arbitrary: m meta)
  case (Suc k)
  then obtain oh s where w: "await (Part_poll_next_header M H) m = (Some (Inr oh), s)"
    and rest: "(case oh of None \<Rightarrow> (Some (Inr meta), s)
       | Some h \<Rightarrow> (case header_meta M h meta of Inl e \<Rightarrow> (Some (Inl e), s) | Inr meta1 \<Rightarrow> header_loop k M H s meta1)) = (Some (Inr a), m1)"
    by (auto simp: and_await_Inr)
  have s: "hdr_ok s" by (rule await_hdr [OF part_hdr(1) w Suc.prems(2)])
  show ?case
  proof (cases oh)
    case (Some h)
    with rest s Suc.IH show ?thesis by (cases "header_meta M h meta") auto
  qed (use rest s in simp)
qed simp

lemma data_loop_hdr: "data_loop k M H lim m val tot = (Some (Inr a), m1) \<Longrightarrow> hdr_ok m \<Longrightarrow> hdr_ok m1"
proof (induction k arbitrary: m val tot)
  case (Suc k)
  then show ?case
    by (auto simp: and_await_Inr Let_def dest!: await_hdr [OF part_hdr(2)] split: option.splits if_splits)
qed simp

lemma headers_left_hdr: "hdr_ok m \<Longrightarrow> headers_left m \<le> MAX_HEADERS"
  by (auto simp: hdr_ok_def headers_left_def split: option.splits)

lemma parts_loop_total:
  "hdr_ok m \<Longrightarrow> max_parts lim < 2 ^ 64 - 1 \<Longrightarrow> cnt \<le> max_parts lim \<Longrightarrow> max_parts lim < k + cnt \<Longrightarrow>
     \<exists>r m1. parts_loop k M H bd lim len m flds tot cnt = (Some r, m1)"
proof (induction k arbitrary: m flds tot cnt)
  case (Suc k)
  let ?none = "\<lparr>meta_name = None, meta_file_name = None, meta_content_type = None\<rparr>"
  obtain r m1 where a: "await (poll_next_part M H) m = (Some r, m1)"
    using await_total [of "poll_next_part M H" m] poll_next_part_progress by blast
  have cnt1: "usize_saturating_add cnt 1 = cnt + 1" using Suc.prems by (simp add: usize_saturating_add_def)
  show ?case
  proof (cases "r = Inr (Some ()) \<and> cnt + 1 \<le> max_parts lim")
    case False
    with a cnt1 show ?thesis by (cases r) (auto simp: and_await_def Let_def)
  next
    case True
    have m1: "hdr_ok m1" by (rule await_hdr [OF poll_next_part_hdr a [unfolded conjunct1 [OF True]] Suc.prems(1)])
    then obtain r2 m2 where h: "header_loop (MAX_HEADERS + 1) M H m1 ?none = (Some r2, m2)"
      using header_loop_total [of m1 "MAX_HEADERS + 1"] headers_left_hdr by force
    show ?thesis
    proof (cases "\<exists>meta name. r2 = Inr meta \<and> meta_name meta = Some name \<and> \<not> eq_ignore_ascii_case name ''file''")
      case False
      with True a cnt1 h show ?thesis
        by (cases r2) (auto simp: and_await_def Let_def split: option.split prod.split sum.split)
    next
      case named: True
      then obtain meta name where meta: "r2 = Inr meta" "meta_name meta = Some name" "\<not> eq_ignore_ascii_case name ''file''" by blast
      obtain r3 m3 where d: "data_loop (mp_work m2 + 2) M H lim m2 [] tot = (Some r3, m3)"
        using data_loop_total [of m2 "mp_work m2 + 2"] by fastforce
      have rec: "\<exists>r m'. parts_loop k M H bd lim len m3 (flds @ [(name, v)]) (snd vt) (cnt + 1) = (Some r, m')" if r3: "r3 = Inr vt" for vt v
        by (rule Suc.IH) (use True Suc.prems data_loop_hdr [OF d [unfolded r3]] header_loop_hdr [OF h [unfolded meta(1)] m1] in simp_all)
      show ?thesis
      proof (cases r3)
        case (Inr vt)
        with rec [OF Inr] True a cnt1 h meta d show ?thesis
          by (auto simp: and_await_def Let_def split: sum.split)
      qed (use True a cnt1 h meta d in \<open>simp add: and_await_def Let_def\<close>)
    qed
  qed
qed simp

lemma transform_multipart_total:
  "max_parts lim < 2 ^ 64 - 1 \<Longrightarrow> \<exists>r. transform_multipart M H body bd lim len = Some r"
proof (cases "Boundary_new bd")
  case (Inr pb)
  assume "max_parts lim < 2 ^ 64 - 1"
  then show ?thesis
    using Inr parts_loop_total [of "Multipart_new body pb (max_field_size lim)" lim 0 "max_parts lim + 1" M H bd len "[]" 0]
    by (auto simp: transform_multipart_def hdr_ok_def Multipart_new_def)
qed (simp add: transform_multipart_def)

section \<open>The limits of a form\<close>

lemma data_loop_bounds:
  assumes "max_fields_size lim < 2 ^ 64 - 1"
  shows "data_loop k M H lim m val tot = (Some (Inr (v, t)), m1) \<Longrightarrow> length val \<le> max_field_size lim \<Longrightarrow>
     tot \<le> max_fields_size lim \<Longrightarrow>
     length v \<le> max_field_size lim \<and> t \<le> max_fields_size lim \<and> t + length val = tot + length v"
proof (induction k arbitrary: m val tot)
  case (Suc k)
  then obtain oc s where "await (Part_poll_next_data M H) m = (Some (Inr oc), s)"
    and rest: "(case oc of None \<Rightarrow> (Some (Inr (val, tot)), s)
       | Some c \<Rightarrow> (let val1 = val @ c; tot1 = usize_saturating_add tot (length c)
            in if length val1 > max_field_size lim then (Some (Inl (FieldTooLarge (length val1) (max_field_size lim))), s)
               else if tot1 > max_fields_size lim then (Some (Inl (TotalSizeTooLarge tot1 (max_fields_size lim))), s)
               else data_loop k M H lim s val1 tot1)) = (Some (Inr (v, t)), m1)"
    by (auto simp: and_await_Inr)
  show ?case
  proof (cases oc)
    case (Some c)
    with rest have ok: "length (val @ c) \<le> max_field_size lim" "usize_saturating_add tot (length c) \<le> max_fields_size lim"
      and rec: "data_loop k M H lim s (val @ c) (usize_saturating_add tot (length c)) = (Some (Inr (v, t)), m1)"
      by (auto simp: Let_def split: if_splits)
    have "usize_saturating_add tot (length c) = tot + length c"
      using ok(2) assms by (auto simp: usize_saturating_add_def min_def split: if_splits)
    with Suc.IH [OF rec ok] show ?thesis by simp
  qed (use rest Suc.prems in simp)
qed simp

definition within_limits :: "multipart_limits \<Rightarrow> (bytes \<times> bytes) list \<Rightarrow> bool" where
  "within_limits lim flds \<longleftrightarrow>
     length flds \<le> max_parts lim \<and> sum_list (map (\<lambda>f. length (snd f)) flds) \<le> max_fields_size lim
     \<and> list_all (\<lambda>(n, v). length v \<le> max_field_size lim \<and> \<not> eq_ignore_ascii_case n ''file'') flds"

lemma parts_loop_bounds:
  assumes "max_fields_size lim < 2 ^ 64 - 1" and "max_parts lim < 2 ^ 64 - 1"
  shows "parts_loop k M H bd lim len m flds tot cnt = (Some (Inr (form, fs)), m1) \<Longrightarrow>
     within_limits lim flds \<Longrightarrow> length flds = cnt \<Longrightarrow> tot = sum_list (map (\<lambda>f. length (snd f)) flds) \<Longrightarrow>
     \<exists>flds'. form_fields form = normalize_fields flds' \<and> within_limits lim flds' \<and> length flds' < max_parts lim"
proof (induction k arbitrary: m flds tot cnt)
  case (Suc k)
  note prems = Suc.prems
  obtain part m2 where w: "await (poll_next_part M H) m = (Some (Inr part), m2)" and part: "part \<noteq> None"
    and cnt1: "usize_saturating_add cnt 1 \<le> max_parts lim"
    using prems(1) by (auto simp: and_await_Inr Let_def split: if_splits)
  then have cnt: "usize_saturating_add cnt 1 = cnt + 1" "cnt < max_parts lim"
    using assms(2) by (auto simp: usize_saturating_add_def min_def split: if_splits)
  obtain meta m3 name where h: "header_loop (MAX_HEADERS + 1) M H m2
      \<lparr>meta_name = None, meta_file_name = None, meta_content_type = None\<rparr> = (Some (Inr meta), m3)"
    and name: "meta_name meta = Some name"
    using prems(1) w part cnt1 by (auto simp: and_await_Inr Let_def split: if_splits option.splits)
  show ?case
  proof (cases "eq_ignore_ascii_case name ''file''")
    case True
    then have "form_fields form = normalize_fields flds"
      using prems(1) w part cnt1 h name
      by (auto simp: and_await_Inr Let_def finish_form_def split: prod.splits sum.splits)
    with prems cnt show ?thesis by blast
  next
    case False
    then obtain v t m4 where d: "data_loop (mp_work m3 + 2) M H lim m3 [] tot = (Some (Inr (v, t)), m4)"
      and rec: "parts_loop k M H bd lim len m4 (flds @ [(name, v)]) t (cnt + 1) = (Some (Inr (form, fs)), m1)"
      using prems(1) w part cnt1 h name cnt
      by (auto simp: and_await_Inr Let_def bytes_to_string_def split: sum.splits if_splits)
    have b: "length v \<le> max_field_size lim \<and> t \<le> max_fields_size lim \<and> t = tot + length v"
      using data_loop_bounds [OF assms(1) d] prems(2-4) by (simp add: within_limits_def)
    show ?thesis
      by (rule Suc.IH [OF rec]) (use b prems(2-4) False cnt in \<open>auto simp: within_limits_def\<close>)
  qed
qed simp

section \<open>The length of the file\<close>

lemma file_collect:
  "collect (FinalPartDataStream_poll_next M) k (fs_inner s) = (data, Some r, p') \<Longrightarrow> \<not> fs_ended s \<Longrightarrow>
     (\<exists>data' r' s'. collect (FileStream_poll_next M) k s = (data', Some r', s') \<and> prefix data' data
        \<and> (fs_content_len s \<noteq> None \<longrightarrow> length data' \<le> fs_remaining s)
        \<and> (r' = None \<longleftrightarrow> r = None \<and> (fs_content_len s \<noteq> None \<longrightarrow> length data = fs_remaining s))
        \<and> (r' = None \<longrightarrow> data' = data))"
proof (induction k arbitrary: s data)
  case (Suc k)
  obtain q inn where q: "FinalPartDataStream_poll_next M (fs_inner s) = (q, inn)" by fastforce
  let ?s1 = "s\<lparr>fs_inner := inn\<rparr>"
  show ?case
  proof (cases q)
    case Pending
    with q Suc.prems Suc.IH [of ?s1 data] show ?thesis by (simp add: FileStream_poll_next_def [of M s] Let_def)
  next
    case (Ready it)
    show ?thesis
    proof (cases it)
      case None
      with q Ready Suc.prems show ?thesis by (auto simp: FileStream_poll_next_def [of M s] Let_def)
    next
      case (Some x)
      show ?thesis
      proof (cases x)
        case (Inl e)
        with q Ready Some Suc.prems show ?thesis by (auto simp: FileStream_poll_next_def [of M s] Let_def)
      next
        case (Inr bs)
        obtain rest where rest: "collect (FinalPartDataStream_poll_next M) k inn = (rest, Some r, p')" "data = bs @ rest"
          using q Ready Some Inr Suc.prems by (auto split: prod.splits)
        define s2 where "s2 = (if fs_content_len s = None then ?s1 else ?s1\<lparr>fs_remaining := fs_remaining s - length bs\<rparr>)"
        have s2: "fs_inner s2 = inn" "fs_content_len s2 = fs_content_len s" "fs_ended s2 = fs_ended s"
          "fs_content_len s \<noteq> None \<Longrightarrow> fs_remaining s2 = fs_remaining s - length bs"
          by (auto simp: s2_def)
        show ?thesis
        proof (cases "fs_content_len s \<noteq> None \<and> length bs > fs_remaining s")
          case True
          with q Ready Some Inr Suc.prems rest show ?thesis by (auto simp: FileStream_poll_next_def [of M s] Let_def)
        next
          case False
          then have "FileStream_poll_next M s = (Ready (Some (Inr bs)), s2)"
            using q Ready Some Inr Suc.prems by (auto simp: FileStream_poll_next_def [of M s] Let_def s2_def)
          with Suc.IH [of s2 rest] rest Suc.prems(2) s2 False show ?thesis by fastforce
        qed
      qed
    qed
  qed
qed simp

lemma fst_conv_ex: "fst x = a \<longleftrightarrow> (\<exists>b. x = (a, b))"
  by (cases x) auto

section \<open>Properties\<close>

text \<open>C21: the form parser answers on every body, however it arrives, and the forms it accepts are within the
  configured limits: fewer fields than parts, every value and the sum of all values within their limits,
  no field named \<open>file\<close>, and the names in lower case and sorted, which is what the lookups rely on.\<close>

theorem form_limits_enforced:
  assumes "max_parts lim < 2 ^ 64 - 1" and "max_fields_size lim < 2 ^ 64 - 1"
  shows "\<exists>r. transform_multipart M H body bd lim len = Some r \<and>
    (\<forall>form fs. r = Inr (form, fs) \<longrightarrow>
       fields_ok form \<and> length (form_fields form) < max_parts lim
       \<and> (\<forall>(n, v) \<in> set (form_fields form). length v \<le> max_field_size lim \<and> map to_ascii_lowercase n = n \<and> n \<noteq> ''file'')
       \<and> sum_list (map (\<lambda>f. length (snd f)) (form_fields form)) \<le> max_fields_size lim)"
proof -
  obtain r where r: "transform_multipart M H body bd lim len = Some r" using transform_multipart_total [OF assms(1)] by blast
  have "fields_ok form \<and> length (form_fields form) < max_parts lim
       \<and> (\<forall>(n, v) \<in> set (form_fields form). length v \<le> max_field_size lim \<and> map to_ascii_lowercase n = n \<and> n \<noteq> ''file'')
       \<and> sum_list (map (\<lambda>f. length (snd f)) (form_fields form)) \<le> max_fields_size lim"
    if ok: "r = Inr (form, fs)" for form fs
  proof -
    obtain pb m1 where pl: "parts_loop (max_parts lim + 1) M H bd lim len
        (Multipart_new body pb (max_field_size lim)) [] 0 0 = (Some (Inr (form, fs)), m1)"
      using r ok by (cases "Boundary_new bd") (auto simp: transform_multipart_def fst_conv_ex simp del: parts_loop.simps)
    obtain flds where f: "form_fields form = normalize_fields flds" "within_limits lim flds" "length flds < max_parts lim"
      using parts_loop_bounds [OF assms(2,1) pl] by (auto simp: within_limits_def)
    let ?low = "map (\<lambda>(n, v). (map to_ascii_lowercase n, v)) flds"
    have sum: "sum_list (map (\<lambda>f. length (snd f)) (sort_key fst xs)) = sum_list (map (\<lambda>f. length (snd f)) xs)" for xs :: "(bytes \<times> bytes) list"
    proof -
      have "sum_list (map (\<lambda>f. length (snd f)) (sort_key fst xs)) = sum_mset (image_mset (\<lambda>f. length (snd f)) (mset (sort_key fst xs)))"
        by (simp flip: sum_mset_sum_list)
      also have "\<dots> = sum_list (map (\<lambda>f. length (snd f)) xs)" by (simp flip: sum_mset_sum_list)
      finally show ?thesis .
    qed
    have "map (\<lambda>f. length (snd f)) ?low = map (\<lambda>f. length (snd f)) flds" by auto
    with sum [of ?low] f have total_size: "sum_list (map (\<lambda>f. length (snd f)) (form_fields form)) \<le> max_fields_size lim"
      by (simp only: normalize_fields_def within_limits_def)
    have low_file: "map to_ascii_lowercase ''file'' = ''file''" by (simp add: to_ascii_lowercase_def is_ascii_uppercase_def)
    have each: "\<forall>(n, v) \<in> set (form_fields form). length v \<le> max_field_size lim \<and> map to_ascii_lowercase n = n \<and> n \<noteq> ''file''"
      using f(2) unfolding f(1) normalize_fields_def within_limits_def eq_ignore_ascii_case_def low_file list_all_iff
      by (auto split: prod.splits simp del: list.map)
    show ?thesis
      using total_size each f(1,3) by (simp add: fields_ok_def normalize_fields_def)
  qed
  with r show ?thesis by blast
qed

text \<open>C20: the file of a form is handed out exactly. Reading the file stream to its end always ends; it ends
  without an error after \<open>data\<close> exactly when the rest of the request is \<open>data\<close>, the first delimiter, the
  closing dashes, padding and CR LF, and \<open>data\<close> has the length that follows from the Content-Length of the
  request where that is known; and it never hands out more than that length.\<close>

theorem file_stream_exact:
  assumes "byte_search M" and "buf_ok b" and "events_left b + length (upcoming b) + 1 < fuel"
  shows "\<exists>out r s'. collect (FileStream_poll_next M) fuel
      (FileStream_from_owned (FinalPartDataStream_new b (make_delimiter bd) n False False) content_len) = (out, Some r, s')
    \<and> (\<forall>l. content_len = Some l \<longrightarrow> length out \<le> l)
    \<and> (r = None \<and> out = data \<longleftrightarrow>
        fin b = EndOk \<and> find_sub (upcoming b) (make_delimiter bd) = Some (length data)
        \<and> (\<exists>pad. list_all is_ows pad \<and> upcoming b = data @ make_delimiter bd @ ''--'' @ pad @ CRLF)
        \<and> (\<forall>l. content_len = Some l \<longrightarrow> length data = l))"
proof -
  let ?inn = "FinalPartDataStream_new b (make_delimiter bd) n False False"
  let ?s = "FileStream_from_owned ?inn content_len"
  obtain d r p' where c: "collect (FinalPartDataStream_poll_next M) fuel ?inn = (d, Some r, p')"
    using final_collect_ends [OF assms] by blast
  have "\<not> fs_ended ?s" "fs_inner ?s = ?inn" "fs_content_len ?s = content_len"
    "\<And>l. content_len = Some l \<Longrightarrow> fs_remaining ?s = l" by (simp_all add: FileStream_from_owned_def)
  with file_collect [of M fuel ?s d r p'] c obtain out r' s' where f:
      "collect (FileStream_poll_next M) fuel ?s = (out, Some r', s')" "prefix out d"
      "\<forall>l. content_len = Some l \<longrightarrow> length out \<le> l"
      "r' = None \<longleftrightarrow> r = None \<and> (\<forall>l. content_len = Some l \<longrightarrow> length d = l)" "r' = None \<longrightarrow> out = d"
    by (cases content_len) auto
  have "r' = None \<and> out = data \<longleftrightarrow> r = None \<and> d = data \<and> (\<forall>l. content_len = Some l \<longrightarrow> length data = l)"
    using f(4,5) by blast
  then show ?thesis using f(1,3) final_accepts [OF assms, of bd n data] c by (intro exI conjI) auto
qed

theorem file_stream_exact_witness:
  "\<exists>out r s'. collect (FileStream_poll_next memchr_ref) 60 (FileStream_from_owned (FinalPartDataStream_new
      (StreamBuffer_new [EvItem (Inr (''data'' @ CRLF)), EvPending, EvItem (Inr (''--b-- '' @ CRLF))])
      (make_delimiter ''b'') 0 False False) (Some 4)) = (out, Some r, s') \<and> r = None \<and> out = ''data''"
proof -
  define b where "b = StreamBuffer_new [EvItem (Inr (''data'' @ CRLF)), EvPending, EvItem (Inr (''--b-- '' @ CRLF))]"
  have up: "upcoming b = ''data'' @ make_delimiter ''b'' @ ''--'' @ '' '' @ CRLF" and ev: "events_left b = 3" and ok: "buf_ok b" and fn: "fin b = EndOk"
    by (simp_all add: b_def upcoming_def sview_def StreamBuffer_new_def events_left_def buf_ok_def fin_def make_delimiter_def)
  have f: "find_sub (upcoming b) (make_delimiter ''b'') = Some (length ''data'')"
    unfolding up by code_simp
  have fuel: "events_left b + length (upcoming b) + 1 < 60" by (simp add: ev up)
  have "list_all is_ows '' ''" by (simp add: is_ows_def)
  then have pad: "\<exists>pad. list_all is_ows pad \<and> upcoming b = ''data'' @ make_delimiter ''b'' @ ''--'' @ pad @ CRLF"
    using up by blast
  have len: "\<forall>l. Some 4 = Some l \<longrightarrow> length ''data'' = l" by simp
  show ?thesis
    using file_stream_exact [OF ref_search.byte_search_axioms ok fuel, of "''b''" 0 "Some 4" "''data''"] fn f pad len
    unfolding b_def [symmetric] by blast
qed

theorem form_limits_enforced_witness:
  "\<exists>r. transform_multipart memchr_ref (\<lambda>_. HttparseError) [EvItem (Inr (''--b'' @ CRLF)), EvPending, EvItem (Inr (''x'' @ CRLF @ CRLF))]
     ''b'' \<lparr>max_field_size = 8, max_fields_size = 9, max_parts = 3\<rparr> None = Some r"
  using form_limits_enforced [of "\<lparr>max_field_size = 8, max_fields_size = 9, max_parts = 3\<rparr>" memchr_ref "\<lambda>_. HttparseError"
      "[EvItem (Inr (''--b'' @ CRLF)), EvPending, EvItem (Inr (''x'' @ CRLF @ CRLF))]" "''b''" None]
  by auto

end
