(* ===== verification/Post_Policy.thy ===== *)
theory Post_Policy
  imports Form_Fields S3_Error "HOL-Library.AList"
begin

text \<open>
  POST policies (s3s/src/post_policy.rs): reading a policy document and checking a form against it.
  The external code is a record of parameters: the base64 decoder, the JSON reader up to the events the
  code's own visitor receives, and the reader of date-times (an instant is an integer).
\<close>

section \<open>The program\<close>

subsection \<open>Documents\<close>

datatype json =
    JNull
  | JBool bool
  | JNumber "nat option"
  | JString bytes
  | JArray "json list"
  | JObject "(bytes \<times> json) list"

text \<open>\<^verbatim>\<open>Value::as_str\<close> and \<^verbatim>\<open>Value::as_u64\<close>; a number carries its value when it is an unsigned 64-bit integer.\<close>

fun as_str :: "json \<Rightarrow> bytes option" where
  "as_str (JString s) = Some s"
| "as_str _ = None"

fun as_u64 :: "json \<Rightarrow> nat option" where
  "as_u64 (JNumber n) = n"
| "as_u64 _ = None"

text \<open>What the visitor of a condition is called with: the elements of an array, or the entries of an
  object with string values, in the order of the document.\<close>

datatype visited = VisitSeq "json list" | VisitMap "(bytes \<times> bytes) list"

datatype raw_condition = RawArray "json list" | RawObject "(bytes \<times> bytes) list"

datatype post_policy_condition =
    CondEq bytes bytes
  | CondStartsWith bytes bytes
  | ContentLengthRange nat nat

record post_policy =
  expiration :: int
  conditions :: "post_policy_condition list"

datatype post_policy_error =
    PolicyBase64
  | PolicyUtf8
  | PolicyJson
  | PolicyInvalidCondition
  | PolicyInvalidExpiration bytes

record policy_api =
  base64_decode :: "bytes \<Rightarrow> bytes option"
  read_json :: "bytes \<Rightarrow> (bytes \<times> visited list) option"
  parse_datetime :: "bytes \<Rightarrow> int option"

text \<open>Inserting into the map of the visitor: a repeated key replaces the earlier value.\<close>

fun insert_all :: "(bytes \<times> bytes) list \<Rightarrow> (bytes \<times> bytes) list \<Rightarrow> (bytes \<times> bytes) list" where
  "insert_all m [] = m"
| "insert_all m ((k, v) # rest) = insert_all (AList.update k v m) rest"

fun visit :: "visited \<Rightarrow> raw_condition" where
  "visit (VisitSeq items) = RawArray items"
| "visit (VisitMap entries) = RawObject (insert_all [] entries)"

definition normalize_field_name :: "bytes \<Rightarrow> bytes" where
  "normalize_field_name field =
     map to_ascii_lowercase (case strip_prefix ''$'' field of Some f \<Rightarrow> f | None \<Rightarrow> field)"

definition parse_array_condition :: "json list \<Rightarrow> post_policy_error + post_policy_condition" where
  "parse_array_condition items =
     (case items of
        [] \<Rightarrow> Inl PolicyInvalidCondition
      | op_item # _ \<Rightarrow>
          (case as_str op_item of
             None \<Rightarrow> Inl PolicyInvalidCondition
           | Some operator \<Rightarrow>
               (let op_name = map to_ascii_lowercase operator
                in if op_name = ''eq'' then
                     (case items of
                        [_, field, val] \<Rightarrow>
                          (case (as_str field, as_str val) of
                             (Some f, Some v) \<Rightarrow> Inr (CondEq (normalize_field_name f) v)
                           | _ \<Rightarrow> Inl PolicyInvalidCondition)
                      | _ \<Rightarrow> Inl PolicyInvalidCondition)
                   else if op_name = ''starts-with'' then
                     (case items of
                        [_, field, pre] \<Rightarrow>
                          (case (as_str field, as_str pre) of
                             (Some f, Some p) \<Rightarrow> Inr (CondStartsWith (normalize_field_name f) p)
                           | _ \<Rightarrow> Inl PolicyInvalidCondition)
                      | _ \<Rightarrow> Inl PolicyInvalidCondition)
                   else if op_name = ''content-length-range'' then
                     (case items of
                        [_, mn, mx] \<Rightarrow>
                          (case (as_u64 mn, as_u64 mx) of
                             (Some lo, Some hi) \<Rightarrow>
                               if lo > hi then Inl PolicyInvalidCondition else Inr (ContentLengthRange lo hi)
                           | _ \<Rightarrow> Inl PolicyInvalidCondition)
                      | _ \<Rightarrow> Inl PolicyInvalidCondition)
                   else Inl PolicyInvalidCondition)))"

definition parse_object_condition :: "(bytes \<times> bytes) list \<Rightarrow> post_policy_error + post_policy_condition" where
  "parse_object_condition m =
     (case m of
        [(field, val)] \<Rightarrow> Inr (CondEq (normalize_field_name field) val)
      | _ \<Rightarrow> Inl PolicyInvalidCondition)"

fun into_condition :: "raw_condition \<Rightarrow> post_policy_error + post_policy_condition" where
  "into_condition (RawArray items) = parse_array_condition items"
| "into_condition (RawObject m) = parse_object_condition m"

fun collect_conditions :: "raw_condition list \<Rightarrow> post_policy_error + post_policy_condition list" where
  "collect_conditions [] = Inr []"
| "collect_conditions (r # rs) =
     (case into_condition r of
        Inl e \<Rightarrow> Inl e
      | Inr c \<Rightarrow> (case collect_conditions rs of Inl e \<Rightarrow> Inl e | Inr cs \<Rightarrow> Inr (c # cs)))"

definition PostPolicy_from_json :: "policy_api \<Rightarrow> bytes \<Rightarrow> post_policy_error + post_policy" where
  "PostPolicy_from_json P text =
     (case read_json P text of
        None \<Rightarrow> Inl PolicyJson
      | Some (raw_expiration, raw_conditions) \<Rightarrow>
          (case parse_datetime P raw_expiration of
             None \<Rightarrow> Inl (PolicyInvalidExpiration raw_expiration)
           | Some t \<Rightarrow>
               (case collect_conditions (map visit raw_conditions) of
                  Inl e \<Rightarrow> Inl e
                | Inr cs \<Rightarrow> Inr \<lparr>expiration = t, conditions = cs\<rparr>)))"

definition PostPolicy_from_base64 :: "policy_api \<Rightarrow> bytes \<Rightarrow> post_policy_error + post_policy" where
  "PostPolicy_from_base64 P encoded =
     (case base64_decode P encoded of
        None \<Rightarrow> Inl PolicyBase64
      | Some decoded \<Rightarrow>
          if \<not> is_utf8 decoded then Inl PolicyUtf8 else PostPolicy_from_json P decoded)"

subsection \<open>Checking a form\<close>

definition get_field_value :: "bytes \<Rightarrow> post_form \<Rightarrow> bytes option \<Rightarrow> s3_error_code + bytes option" where
  "get_field_value field m url_bucket =
     (if field = ''bucket'' then
        (let form_bucket = find_field_value m field
         in case url_bucket of
              Some ub \<Rightarrow>
                (case form_bucket of
                   Some fb \<Rightarrow> if fb \<noteq> ub then Inl InvalidPolicyDocument else Inr (Some ub)
                 | None \<Rightarrow> Inr (Some ub))
            | None \<Rightarrow> Inr form_bucket)
      else Inr (find_field_value m field))"

definition validate_condition ::
  "post_policy_condition \<Rightarrow> post_form \<Rightarrow> nat \<Rightarrow> bytes option \<Rightarrow> s3_error_code + unit" where
  "validate_condition c m file_size url_bucket =
     (case c of
        CondEq field val \<Rightarrow>
          (case get_field_value field m url_bucket of
             Inl e \<Rightarrow> Inl e
           | Inr actual \<Rightarrow> if actual \<noteq> Some val then Inl InvalidPolicyDocument else Inr ())
      | CondStartsWith field pre \<Rightarrow>
          (case get_field_value field m url_bucket of
             Inl e \<Rightarrow> Inl e
           | Inr actual \<Rightarrow>
               (let actual_str = (case actual of Some s \<Rightarrow> s | None \<Rightarrow> [])
                in if \<not> prefix pre actual_str then Inl InvalidPolicyDocument else Inr ()))
      | ContentLengthRange lo hi \<Rightarrow>
          if file_size > hi then Inl EntityTooLarge
          else if file_size < lo then Inl EntityTooSmall
          else Inr ())"

definition is_field_exempt_from_policy :: "bytes \<Rightarrow> bool" where
  "is_field_exempt_from_policy name \<longleftrightarrow>
     name \<in> set [''x-amz-signature'', ''signature'', ''awsaccesskeyid'', ''file'', ''submit'', ''policy'']
     \<or> prefix ''x-amz-server-side-encryption'' name \<or> prefix ''x-ignore-'' name"

fun condition_field :: "post_policy_condition \<Rightarrow> bytes option" where
  "condition_field (CondEq field _) = Some field"
| "condition_field (CondStartsWith field _) = Some field"
| "condition_field (ContentLengthRange _ _) = None"

definition has_condition_for_field :: "post_policy \<Rightarrow> bytes \<Rightarrow> bool" where
  "has_condition_for_field p name = list_ex (\<lambda>c. condition_field c = Some name) (conditions p)"

fun validate_all ::
  "post_policy_condition list \<Rightarrow> post_form \<Rightarrow> nat \<Rightarrow> bytes option \<Rightarrow> s3_error_code + unit" where
  "validate_all [] m file_size url_bucket = Inr ()"
| "validate_all (c # cs) m file_size url_bucket =
     (case validate_condition c m file_size url_bucket of
        Inl e \<Rightarrow> Inl e
      | Inr _ \<Rightarrow> validate_all cs m file_size url_bucket)"

fun covered_all :: "post_policy \<Rightarrow> (bytes \<times> bytes) list \<Rightarrow> s3_error_code + unit" where
  "covered_all p [] = Inr ()"
| "covered_all p ((name, _) # rest) =
     (if is_field_exempt_from_policy name then covered_all p rest
      else if \<not> has_condition_for_field p name then Inl AccessDenied
      else covered_all p rest)"

definition validate_conditions_only ::
  "post_policy \<Rightarrow> post_form \<Rightarrow> nat \<Rightarrow> bytes option \<Rightarrow> s3_error_code + unit" where
  "validate_conditions_only p m file_size url_bucket =
     (case validate_all (conditions p) m file_size url_bucket of
        Inl e \<Rightarrow> Inl e
      | Inr _ \<Rightarrow> covered_all p (form_fields m))"

fun first_range :: "post_policy_condition list \<Rightarrow> (nat \<times> nat) option" where
  "first_range [] = None"
| "first_range (ContentLengthRange lo hi # _) = Some (lo, hi)"
| "first_range (_ # cs) = first_range cs"

definition content_length_range :: "post_policy \<Rightarrow> (nat \<times> nat) option" where
  "content_length_range p = first_range (conditions p)"

fun find_eq :: "post_policy_condition list \<Rightarrow> bytes \<Rightarrow> bytes option" where
  "find_eq [] field = None"
| "find_eq (CondEq f v # cs) field = (if f = field then Some v else find_eq cs field)"
| "find_eq (_ # cs) field = find_eq cs field"

definition eq_condition_value :: "post_policy \<Rightarrow> bytes \<Rightarrow> bytes option" where
  "eq_condition_value p field = find_eq (conditions p) field"

subsection \<open>The request\<close>

definition parse_post_policy :: "policy_api \<Rightarrow> int \<Rightarrow> post_form \<Rightarrow> s3_error_code + post_policy option" where
  "parse_post_policy P now m =
     (case find_field_value m ''policy'' of
        None \<Rightarrow> Inr None
      | Some policy_b64 \<Rightarrow>
          (case PostPolicy_from_base64 P policy_b64 of
             Inl _ \<Rightarrow> Inl InvalidPolicyDocument
           | Inr p \<Rightarrow> if now \<ge> expiration p then Inl AccessDenied else Inr (Some p)))"

definition post_object_max_file_size :: "post_policy option \<Rightarrow> nat \<Rightarrow> nat" where
  "post_object_max_file_size p config_max =
     (case Option.bind p content_length_range of
        Some (_, hi) \<Rightarrow> min hi config_max
      | None \<Rightarrow> config_max)"

section \<open>What a policy demands\<close>

text \<open>The value a condition is about: the bucket of the URL when there is one, the last form field of the
  name otherwise.\<close>

definition effective :: "post_form \<Rightarrow> bytes option \<Rightarrow> bytes \<Rightarrow> bytes option" where
  "effective m url_bucket field =
     (if field = ''bucket'' \<and> url_bucket \<noteq> None then url_bucket else last_value (form_fields m) field)"

fun satisfied :: "post_form \<Rightarrow> nat \<Rightarrow> bytes option \<Rightarrow> post_policy_condition \<Rightarrow> bool" where
  "satisfied m n ub (CondEq field val) \<longleftrightarrow> effective m ub field = Some val"
| "satisfied m n ub (CondStartsWith field pre) \<longleftrightarrow>
     (case effective m ub field of Some v \<Rightarrow> prefix pre v | None \<Rightarrow> pre = [])"
| "satisfied m n ub (ContentLengthRange lo hi) \<longleftrightarrow> lo \<le> n \<and> n \<le> hi"

text \<open>A form that names a bucket of its own names the one of the URL.\<close>

definition bucket_agrees :: "post_form \<Rightarrow> bytes option \<Rightarrow> bool" where
  "bucket_agrees m ub \<longleftrightarrow> (case (ub, last_value (form_fields m) ''bucket'') of (Some u, Some f) \<Rightarrow> f = u | _ \<Rightarrow> True)"

lemma get_field_value_Inr:
  assumes "fields_ok m"
  shows "get_field_value field m ub =
    (if field = ''bucket'' \<and> \<not> bucket_agrees m ub then Inl InvalidPolicyDocument else Inr (effective m ub field))"
  by (auto simp: get_field_value_def find_field_value_last [OF assms] bucket_agrees_def effective_def Let_def
      split: option.splits)

lemma validate_condition_Inr:
  assumes "fields_ok m"
  shows "validate_condition c m n ub = Inr () \<longleftrightarrow>
    satisfied m n ub c \<and> (condition_field c = Some ''bucket'' \<longrightarrow> bucket_agrees m ub)"
  by (cases c) (auto simp: validate_condition_def get_field_value_Inr [OF assms] split: option.splits if_splits)

lemma validate_all_Inr:
  assumes "fields_ok m"
  shows "validate_all cs m n ub = Inr () \<longleftrightarrow>
    (\<forall>c \<in> set cs. satisfied m n ub c \<and> (condition_field c = Some ''bucket'' \<longrightarrow> bucket_agrees m ub))"
proof (induction cs)
  case (Cons c cs)
  then show ?case
    using validate_condition_Inr [OF assms, of c n ub]
    by (cases "validate_condition c m n ub") (auto simp del: satisfied.simps)
qed simp

lemma covered_all_Inr:
  "covered_all p flds = Inr () \<longleftrightarrow>
    (\<forall>name \<in> fst ` set flds. is_field_exempt_from_policy name \<or> has_condition_for_field p name)"
  by (induction p flds rule: covered_all.induct) auto

section \<open>Properties\<close>

lemma validated_iff:
  assumes "fields_ok m"
  shows "validate_conditions_only p m file_size url_bucket = Inr () \<longleftrightarrow>
    (\<forall>c \<in> set (conditions p). satisfied m file_size url_bucket c
        \<and> (condition_field c = Some ''bucket'' \<longrightarrow> bucket_agrees m url_bucket))
    \<and> (\<forall>name \<in> fst ` set (form_fields m).
        is_field_exempt_from_policy name \<or> (\<exists>c \<in> set (conditions p). condition_field c = Some name))"
  using validate_all_Inr [OF assms, of "conditions p" file_size url_bucket]
  by (auto simp: validate_conditions_only_def covered_all_Inr has_condition_for_field_def list_ex_iff split: sum.splits)

text \<open>C18: a form passes its policy exactly when every condition holds for it and every field of it that
  is not exempt is named by a condition; a condition on the bucket is decided by the bucket of the URL,
  and a form that names another bucket is refused.\<close>

theorem policy_validation_exact:
  assumes "fields_ok m"
  shows "validate_conditions_only p m file_size url_bucket = Inr () \<longleftrightarrow>
    (\<forall>c \<in> set (conditions p). satisfied m file_size url_bucket c
        \<and> (condition_field c = Some ''bucket'' \<longrightarrow> bucket_agrees m url_bucket))
    \<and> (\<forall>name \<in> fst ` set (form_fields m).
        is_field_exempt_from_policy name \<or> (\<exists>c \<in> set (conditions p). condition_field c = Some name))"
  by (rule validated_iff [OF assms])

theorem policy_validation_exact_witness:
  "validate_conditions_only
     \<lparr>expiration = 0, conditions = [CondEq ''bucket'' ''b'', CondStartsWith ''key'' ''user/'', ContentLengthRange 1 9]\<rparr>
     \<lparr>form_fields = [(''key'', ''user/x''), (''policy'', ''e30='')],
      form_file = \<lparr>file_name = ''f'', file_content_type = None\<rparr>\<rparr> 4 (Some ''b'') = Inr ()"
proof -
  let ?m = "\<lparr>form_fields = [(''key'', ''user/x''), (''policy'', ''e30='')],
      form_file = \<lparr>file_name = ''f'', file_content_type = None\<rparr>\<rparr>"
  have ok: "fields_ok ?m" by code_simp
  have "last_value (form_fields ?m) ''key'' = Some ''user/x''" "last_value (form_fields ?m) ''bucket'' = None"
    by code_simp+
  moreover have "is_field_exempt_from_policy ''policy''" by code_simp
  ultimately show ?thesis
    unfolding policy_validation_exact [OF ok] by (simp add: effective_def bucket_agrees_def)
qed

text \<open>The array form of a condition, and the conditions a document can state.\<close>

fun document_of :: "post_policy_condition \<Rightarrow> visited" where
  "document_of (CondEq f v) = VisitSeq [JString ''eq'', JString (CHR ''$'' # f), JString v]"
| "document_of (CondStartsWith f v) = VisitSeq [JString ''starts-with'', JString (CHR ''$'' # f), JString v]"
| "document_of (ContentLengthRange lo hi) =
     VisitSeq [JString ''content-length-range'', JNumber (Some lo), JNumber (Some hi)]"

fun condition_ok :: "post_policy_condition \<Rightarrow> bool" where
  "condition_ok (CondEq f v) \<longleftrightarrow> map to_ascii_lowercase f = f"
| "condition_ok (CondStartsWith f v) \<longleftrightarrow> map to_ascii_lowercase f = f"
| "condition_ok (ContentLengthRange lo hi) \<longleftrightarrow> lo \<le> hi"

lemma lowercase_operators:
  "map to_ascii_lowercase ''eq'' = ''eq''" "map to_ascii_lowercase ''starts-with'' = ''starts-with''"
  "map to_ascii_lowercase ''content-length-range'' = ''content-length-range''"
  by code_simp+

lemma into_condition_document:
  assumes "condition_ok c"
  shows "into_condition (visit (document_of c)) = Inr c"
proof -
  have dollar: "normalize_field_name (CHR ''$'' # f) = map to_ascii_lowercase f" for f
    by (simp add: normalize_field_name_def strip_prefix_def)
  show ?thesis
  proof (cases c)
    case (CondEq f v)
    then show ?thesis using assms dollar
      by (simp only: document_of.simps visit.simps into_condition.simps parse_array_condition_def
          as_str.simps option.case list.case prod.case Let_def lowercase_operators) simp
  next
    case (CondStartsWith f v)
    then show ?thesis using assms dollar
      by (simp only: document_of.simps visit.simps into_condition.simps parse_array_condition_def
          as_str.simps option.case list.case prod.case Let_def lowercase_operators) simp
  next
    case (ContentLengthRange lo hi)
    then show ?thesis using assms
      by (simp only: document_of.simps visit.simps into_condition.simps parse_array_condition_def
          as_str.simps as_u64.simps option.case list.case prod.case Let_def lowercase_operators) simp
  qed
qed

lemma into_condition_ok: "into_condition r = Inr c \<Longrightarrow> condition_ok c"
  by (cases r) (auto simp: parse_array_condition_def parse_object_condition_def normalize_field_name_def Let_def
      split: list.splits option.splits if_splits)

lemma collect_conditions_Inr: "collect_conditions rs = Inr cs \<longleftrightarrow> list_all2 (\<lambda>r c. into_condition r = Inr c) rs cs"
proof (induction rs arbitrary: cs)
  case (Cons r rs)
  show ?case
  proof (cases "into_condition r")
    case (Inr c)
    show ?thesis
    proof (cases "collect_conditions rs")
      case (Inr ds)
      then have "list_all2 (\<lambda>r c. into_condition r = Inr c) rs es \<longleftrightarrow> es = ds" for es
        using Cons.IH [of es] by auto
      then show ?thesis using \<open>into_condition r = Inr c\<close> Inr by (auto simp: list_all2_Cons1)
    next
      case (Inl e)
      then have "\<not> list_all2 (\<lambda>r c. into_condition r = Inr c) rs es" for es using Cons.IH [of es] by auto
      then show ?thesis using \<open>into_condition r = Inr c\<close> Inl by (auto simp: list_all2_Cons1)
    qed
  qed (auto simp: list_all2_Cons1)
qed auto

text \<open>A policy document is read back: whatever the base64, JSON and date readers are, when they
  give the array form of conditions with lower-case field names and ordered ranges, the policy holds
  exactly these conditions; and every policy that is read has field names in lower case, which is the
  case of the form fields they are compared with, and ranges whose bounds are ordered.\<close>

theorem policy_document_roundtrip:
  assumes "base64_decode P encoded = Some text" "is_utf8 text" "parse_datetime P e = Some t"
    and "read_json P text = Some (e, raw)"
  shows "(list_all condition_ok cs \<and> raw = map document_of cs \<longrightarrow>
      PostPolicy_from_base64 P encoded = Inr \<lparr>expiration = t, conditions = cs\<rparr>)
    \<and> (\<forall>p. PostPolicy_from_base64 P encoded = Inr p \<longrightarrow> expiration p = t \<and> list_all condition_ok (conditions p))"
proof (intro conjI allI impI)
  assume "list_all condition_ok cs \<and> raw = map document_of cs"
  then have "collect_conditions (map visit raw) = Inr cs"
    by (auto simp: collect_conditions_Inr list_all2_map1 list_all_iff intro!: list_all2_refl list.rel_refl_strong into_condition_document)
  then show "PostPolicy_from_base64 P encoded = Inr \<lparr>expiration = t, conditions = cs\<rparr>"
    using assms by (simp add: PostPolicy_from_base64_def PostPolicy_from_json_def)
next
  fix p assume "PostPolicy_from_base64 P encoded = Inr p"
  then obtain ds where ds: "collect_conditions (map visit raw) = Inr ds" "p = \<lparr>expiration = t, conditions = ds\<rparr>"
    using assms by (auto simp: PostPolicy_from_base64_def PostPolicy_from_json_def split: sum.splits)
  then show "expiration p = t" "list_all condition_ok (conditions p)"
    by (auto simp: collect_conditions_Inr list_all_length list_all2_conv_all_nth intro: into_condition_ok)
qed

theorem policy_document_roundtrip_witness:
  "PostPolicy_from_base64
     \<lparr>base64_decode = (\<lambda>_. Some ''{}''), read_json = (\<lambda>_. Some (''2030'', map document_of [CondEq ''acl'' ''private''])),
      parse_datetime = (\<lambda>_. Some 7)\<rparr> ''e30='' = Inr \<lparr>expiration = 7, conditions = [CondEq ''acl'' ''private'']\<rparr>"
proof -
  have "is_utf8 ''{}''" "list_all condition_ok [CondEq ''acl'' ''private'']" by code_simp+
  then show ?thesis
    using policy_document_roundtrip [of "\<lparr>base64_decode = (\<lambda>_. Some ''{}''),
        read_json = (\<lambda>_. Some (''2030'', map document_of [CondEq ''acl'' ''private''])), parse_datetime = (\<lambda>_. Some 7)\<rparr>"
        "''e30=''" "''{}''" "''2030''" 7 "map document_of [CondEq ''acl'' ''private'']" "[CondEq ''acl'' ''private'']"]
    by simp
qed

end
