(* ===== verification/Sigv2.thy ===== *)
theory Sigv2
  imports Sigv4_Canonical Ordered_Qs
begin

text \<open>
  The \<^verbatim>\<open>s3s-sigv2\<close> crate: the string to sign and the signature of Signature Version 2, and the parsers of
  its Authorization header, presigned query and form fields. HMAC-SHA1, base64 and the range of the
  timestamps of \<^verbatim>\<open>jiff\<close> are the parameter \<open>K\<close>.
\<close>

section \<open>The program\<close>

record sigv2_api =
  hmac_sha1 :: "bytes \<Rightarrow> bytes \<Rightarrow> bytes"
  base64_encode :: "bytes \<Rightarrow> bytes"
  timestamp_from_second :: "nat \<Rightarrow> int option"

datatype v2_mode = HeaderAuth | PresignedUrl

definition INCLUDED_QUERY :: "bytes list" where
  "INCLUDED_QUERY =
     [''accelerate'', ''acl'', ''analytics'', ''cors'', ''defaultObjectAcl'', ''delete'', ''inventory'',
      ''lifecycle'', ''location'', ''logging'', ''metrics'', ''notification'', ''object-lock'',
      ''partNumber'', ''policy'', ''replication'', ''requestPayment'', ''response-cache-control'',
      ''response-content-disposition'', ''response-content-encoding'', ''response-content-language'',
      ''response-content-type'', ''response-expires'', ''restore'', ''select'', ''select-type'',
      ''storageClass'', ''tagging'', ''torrent'', ''uploadId'', ''uploads'', ''versionId'',
      ''versioning'', ''versions'', ''website'']"

definition v2_get_unique_header_str :: "(bytes \<times> bytes) list \<Rightarrow> bytes \<Rightarrow> bytes option" where
  "v2_get_unique_header_str headers name =
     (case filter (\<lambda>(n, _). eq_ignore_ascii_case n name) headers of
        [] \<Rightarrow> None
      | (_, v) # rest \<Rightarrow> if rest \<noteq> [] then None else Some v)"

definition v2_get_unique_qs :: "(bytes \<times> bytes) list \<Rightarrow> bytes \<Rightarrow> bytes option" where
  "v2_get_unique_qs pairs name =
     (let lower_bound = partition_point (\<lambda>x. fst x < name) pairs
      in case drop lower_bound pairs of
           [] \<Rightarrow> None
         | pair # rest \<Rightarrow>
             (case rest of
                following # _ \<Rightarrow>
                  (if fst following = name then None
                   else if fst pair = name then Some (snd pair) else None)
              | [] \<Rightarrow> if fst pair = name then Some (snd pair) else None))"

text \<open>The values of the adjacent headers of the same name.\<close>

fun v2_push_same_named :: "bytes \<Rightarrow> bytes \<Rightarrow> (bytes \<times> bytes) list \<Rightarrow> bytes \<times> (bytes \<times> bytes) list" where
  "v2_push_same_named ans name [] = (ans, [])"
| "v2_push_same_named ans name ((n, v) # hs) =
     (if n = name then v2_push_same_named (ans @ '','' @ trim v) name hs else (ans, (n, v) # hs))"

lemma v2_push_same_named_shorter: "length (snd (v2_push_same_named ans name hs)) \<le> length hs"
  by (induction ans name hs rule: v2_push_same_named.induct) auto

function push_canonicalized_amz_headers :: "bytes \<Rightarrow> (bytes \<times> bytes) list \<Rightarrow> bytes" where
  "push_canonicalized_amz_headers ans [] = ans"
| "push_canonicalized_amz_headers ans ((name, v) # hs) =
     (let r = v2_push_same_named (ans @ name @ '':'' @ trim v) name hs
      in push_canonicalized_amz_headers (fst r @ [LF]) (snd r))"
  by pat_completeness auto
termination
  by (relation "measure (\<lambda>(_, hs). length hs)") (simp_all add: v2_push_same_named_shorter le_imp_less_Suc)

fun push_included_query :: "(bytes \<times> bytes) list \<Rightarrow> bytes \<Rightarrow> bool \<Rightarrow> bytes list \<Rightarrow> bytes" where
  "push_included_query pairs ans is_first [] = ans"
| "push_included_query pairs ans is_first (q # rest) =
     (case v2_get_unique_qs pairs q of
        None \<Rightarrow> push_included_query pairs ans is_first rest
      | Some v \<Rightarrow>
          push_included_query pairs
            (ans @ (if is_first then ''?'' else ''&'') @ q @ (if v \<noteq> [] then ''='' @ v else [])) False rest)"

definition v2_create_string_to_sign ::
  "v2_mode \<Rightarrow> bytes \<Rightarrow> bytes \<Rightarrow> (bytes \<times> bytes) list option \<Rightarrow> (bytes \<times> bytes) list \<Rightarrow> bytes option \<Rightarrow> bytes" where
  "v2_create_string_to_sign mode method uri_path pairs headers virtual_host_bucket =
     (let ans = method @ [LF];
          ans = ans @ (case v2_get_unique_header_str headers ''content-md5'' of Some v \<Rightarrow> v | None \<Rightarrow> []) @ [LF];
          ans = ans @ (case v2_get_unique_header_str headers ''content-type'' of Some v \<Rightarrow> v | None \<Rightarrow> []) @ [LF];
          ans = (case mode of
              HeaderAuth \<Rightarrow>
                (let date = (case v2_get_unique_header_str headers ''date'' of Some v \<Rightarrow> v | None \<Rightarrow> []);
                     date = (if v2_get_unique_header_str headers ''x-amz-date'' \<noteq> None then [] else date)
                 in ans @ date @ [LF])
            | PresignedUrl \<Rightarrow>
                (let expires = (case Option.bind pairs (\<lambda>ps. v2_get_unique_qs ps ''Expires'') of
                                  Some v \<Rightarrow> v | None \<Rightarrow> [])
                 in ans @ expires @ [LF]));
          amz_headers = sort_key fst (filter (\<lambda>(name, _). prefix ''x-amz-'' name) headers);
          ans = push_canonicalized_amz_headers ans amz_headers;
          ans = (case virtual_host_bucket of Some bucket \<Rightarrow> ans @ ''/'' @ bucket | None \<Rightarrow> ans);
          ans = ans @ uri_path
      in case pairs of
           Some ps \<Rightarrow> push_included_query ps ans True INCLUDED_QUERY
         | None \<Rightarrow> ans)"

definition v2_calculate_signature :: "sigv2_api \<Rightarrow> bytes \<Rightarrow> bytes \<Rightarrow> bytes" where
  "v2_calculate_signature K secret_key string_to_sign = base64_encode K (hmac_sha1 K secret_key string_to_sign)"

record authorization_v2 =
  v2_access_key :: bytes
  v2_signature :: bytes

definition AuthorizationV2_parse :: "bytes \<Rightarrow> authorization_v2 option" where
  "AuthorizationV2_parse input =
     (case strip_prefix ''AWS '' input of
        None \<Rightarrow> None
      | Some rest \<Rightarrow>
          (case split_once CHR '':'' rest of
             None \<Rightarrow> None
           | Some (key, sig) \<Rightarrow> Some \<lparr>v2_access_key = key, v2_signature = sig\<rparr>))"

record presigned_url_v2 =
  pre2_access_key :: bytes
  pre2_expires_time :: int
  pre2_signature :: bytes

definition v2_get_unique :: "(bytes \<times> bytes) list \<Rightarrow> bytes \<Rightarrow> bytes option" where
  "v2_get_unique pairs name =
     (case map snd (filter (\<lambda>(key, _). key = name) pairs) of [v] \<Rightarrow> Some v | _ \<Rightarrow> None)"

text \<open>\<^verbatim>\<open>str::parse::<i64>\<close> of a value that is then kept only when it is not negative.\<close>

definition parse_i64_nonneg :: "bytes \<Rightarrow> nat option" where
  "parse_i64_nonneg s =
     (case s of
        [] \<Rightarrow> None
      | c # r \<Rightarrow>
          (let neg = (c = CHR ''-''); ds = (if c = CHR ''+'' \<or> c = CHR ''-'' then r else s)
           in if ds = [] \<or> \<not> list_all is_ascii_digit ds \<or> digits_value ds \<ge> 2 ^ 63 then None
              else if neg \<and> digits_value ds \<noteq> 0 then None
              else Some (digits_value ds)))"

definition parse_unix_timestamp :: "sigv2_api \<Rightarrow> bytes \<Rightarrow> int option" where
  "parse_unix_timestamp K s = Option.bind (parse_i64_nonneg s) (timestamp_from_second K)"

definition PresignedUrlV2_parse :: "sigv2_api \<Rightarrow> (bytes \<times> bytes) list \<Rightarrow> presigned_url_v2 option" where
  "PresignedUrlV2_parse K pairs =
     (case v2_get_unique pairs ''AWSAccessKeyId'' of
        None \<Rightarrow> None
      | Some key \<Rightarrow>
          (case v2_get_unique pairs ''Expires'' of
             None \<Rightarrow> None
           | Some expires_str \<Rightarrow>
               (case v2_get_unique pairs ''Signature'' of
                  None \<Rightarrow> None
                | Some sig \<Rightarrow>
                    (case parse_unix_timestamp K expires_str of
                       None \<Rightarrow> None
                     | Some t \<Rightarrow>
                         Some \<lparr>pre2_access_key = key, pre2_expires_time = t, pre2_signature = sig\<rparr>))))"

record post_signature_v2 =
  post2_policy :: bytes
  post2_access_key_id :: bytes
  post2_signature :: bytes

datatype post_signature_v2_error = V2MissingField bytes | V2DuplicateField bytes

definition post2_get :: "(bytes \<times> bytes) list \<Rightarrow> bytes \<Rightarrow> post_signature_v2_error + bytes" where
  "post2_get flds name =
     (case map snd (filter (\<lambda>(k, _). k = name) flds) of
        [] \<Rightarrow> Inl (V2MissingField name)
      | [v] \<Rightarrow> Inr v
      | _ # _ # _ \<Rightarrow> Inl (V2DuplicateField name))"

definition PostSignatureV2_extract :: "(bytes \<times> bytes) list \<Rightarrow> post_signature_v2_error + post_signature_v2" where
  "PostSignatureV2_extract flds =
     (case post2_get flds ''policy'' of
        Inl e \<Rightarrow> Inl e
      | Inr policy \<Rightarrow>
          (case post2_get flds ''awsaccesskeyid'' of
             Inl e \<Rightarrow> Inl e
           | Inr key \<Rightarrow>
               (case post2_get flds ''signature'' of
                  Inl e \<Rightarrow> Inl e
                | Inr sig \<Rightarrow>
                    Inr \<lparr>post2_policy = policy, post2_access_key_id = key, post2_signature = sig\<rparr>)))"

section \<open>What a query contributes\<close>

text \<open>The lookup of the crate is the one of the query container, so on a sorted query it returns the value
  of a name that occurs once.\<close>

lemma v2_get_unique_qs_container: "v2_get_unique_qs pairs name = get_unique_qs \<lparr>qs = pairs\<rparr> name"
  by (cases "partition_point (\<lambda>x. fst x < name) pairs \<le> length pairs")
    (simp_all add: v2_get_unique_qs_def get_unique_qs_def Let_def)

lemma v2_get_unique_qs_sorted:
  "v2_get_unique_qs (utils_stable_sort_by_first v) name =
    (case values_of v name of [x] \<Rightarrow> Some x | _ \<Rightarrow> None)"
proof -
  have sorted: "sorted (map fst (utils_stable_sort_by_first v))" by (simp add: utils_stable_sort_by_first_def)
  have "filter (\<lambda>x. fst x = name) (utils_stable_sort_by_first v) = filter (\<lambda>x. fst x = name) v"
    by (simp add: utils_stable_sort_by_first_def sort_key_stable)
  then show ?thesis
    using get_unique_sorted [of "\<lparr>qs = utils_stable_sort_by_first v\<rparr>" name] sorted
    by (auto simp: v2_get_unique_qs_container values_of_def split: list.splits)
qed

lemma push_included_query_cong:
  "(\<And>q. q \<in> set l \<Longrightarrow> v2_get_unique_qs p1 q = v2_get_unique_qs p2 q) \<Longrightarrow>
    push_included_query p1 ans b l = push_included_query p2 ans b l"
proof (induction l arbitrary: ans b)
  case (Cons q l)
  then show ?case by (simp split: option.split)
qed simp

text \<open>The string to sign depends on the query only through the names that occur exactly once.\<close>

lemma string_to_sign_query:
  assumes "\<And>q. q \<in> set (''Expires'' # INCLUDED_QUERY) \<Longrightarrow> v2_get_unique_qs p1 q = v2_get_unique_qs p2 q"
  shows "v2_create_string_to_sign mode method uri (Some p1) hs vh = v2_create_string_to_sign mode method uri (Some p2) hs vh"
proof -
  have expires: "v2_get_unique_qs p1 ''Expires'' = v2_get_unique_qs p2 ''Expires''"
    by (rule assms) (simp only: list.set_intros)
  have query: "push_included_query p1 ans True INCLUDED_QUERY = push_included_query p2 ans True INCLUDED_QUERY" for ans
    by (rule push_included_query_cong, rule assms) (simp only: list.set_intros)
  show ?thesis
    unfolding v2_create_string_to_sign_def Option.bind.simps option.case expires query ..
qed

section \<open>Properties\<close>

text \<open>C31: a name that is repeated in the query is left out of the string to sign: adding any parameter
  twice to a query that has none of its name leaves every Version 2 signature valid, although the
  container then has the name and routes the request by it. A presigned link to an object is turned into
  one to its access control list by appending the same parameter twice.\<close>

theorem v2_repeated_parameter_unsigned:
  assumes "values_of v name = []"
  shows "v2_create_string_to_sign mode method uri
      (Some (utils_stable_sort_by_first (v @ [(name, x), (name, y)]))) hs vh =
    v2_create_string_to_sign mode method uri (Some (utils_stable_sort_by_first v)) hs vh
    \<and> has \<lparr>qs = utils_stable_sort_by_first (v @ [(name, x), (name, y)])\<rparr> name
    \<and> \<not> has \<lparr>qs = utils_stable_sort_by_first v\<rparr> name"
proof -
  let ?w = "v @ [(name, x), (name, y)]"
  have vals: "values_of ?w q = (if q = name then [x, y] else values_of v q)" for q
    using assms by (simp add: values_of_def)
  have same: "v2_get_unique_qs (utils_stable_sort_by_first ?w) q = v2_get_unique_qs (utils_stable_sort_by_first v) q" for q
    using vals assms by (simp add: v2_get_unique_qs_sorted)
  have "has \<lparr>qs = utils_stable_sort_by_first u\<rparr> name \<longleftrightarrow> values_of u name \<noteq> []" for u
    using has_sorted [of "\<lparr>qs = utils_stable_sort_by_first u\<rparr>" name]
    by (auto simp: utils_stable_sort_by_first_def values_of_def filter_empty_conv)
  then show ?thesis using string_to_sign_query [OF same] assms vals by simp
qed


theorem v2_repeated_parameter_unsigned_witness:
  "v2_create_string_to_sign HeaderAuth ''GET'' ''/b/k''
      (Some (utils_stable_sort_by_first ([] @ [(''acl'', []), (''acl'', [])]))) [] None =
    v2_create_string_to_sign HeaderAuth ''GET'' ''/b/k'' (Some (utils_stable_sort_by_first [])) [] None"
proof -
  have "values_of [] ''acl'' = []" by (simp add: values_of_def)
  from v2_repeated_parameter_unsigned [OF this] show ?thesis by blast
qed

text \<open>The Authorization header of Version 2 is read as it was written: the parser accepts exactly
  \<^verbatim>\<open>AWS key:signature\<close> and splits it at the first colon.\<close>

theorem authorization_v2_exact:
  "AuthorizationV2_parse s = Some a \<longleftrightarrow>
    s = ''AWS '' @ v2_access_key a @ '':'' @ v2_signature a \<and> CHR '':'' \<notin> set (v2_access_key a)"
proof
  assume "AuthorizationV2_parse s = Some a"
  then show "s = ''AWS '' @ v2_access_key a @ '':'' @ v2_signature a \<and> CHR '':'' \<notin> set (v2_access_key a)"
    by (auto simp: AuthorizationV2_parse_def strip_prefix_Some split_once_Some split: option.splits)
next
  assume s: "s = ''AWS '' @ v2_access_key a @ '':'' @ v2_signature a \<and> CHR '':'' \<notin> set (v2_access_key a)"
  then have "strip_prefix ''AWS '' s = Some (v2_access_key a @ CHR '':'' # v2_signature a)"
    by (simp add: strip_prefix_Some)
  moreover have "split_once CHR '':'' (v2_access_key a @ CHR '':'' # v2_signature a) = Some (v2_access_key a, v2_signature a)"
    using s by (simp add: split_once_Some)
  ultimately show "AuthorizationV2_parse s = Some a" by (simp add: AuthorizationV2_parse_def)
qed

end
