(* ===== verification/S3_Config.thy ===== *)
theory S3_Config
  imports S3_Error Prelude
begin

text \<open>
  The configuration of the service (s3s/src/config.rs) with its default, region names (s3s/src/region.rs) and
  the in-memory key store (s3s/src/auth/simple_auth.rs).
\<close>

record s3_config =
  xml_max_body_size :: nat
  post_object_max_file_size_limit :: nat
  put_object_max_size :: "nat option"
  custom_route_max_body_size :: "nat option"
  aws_chunked_stream_max_chunk_size :: nat
  form_max_field_size :: nat
  form_max_fields_size :: nat
  form_max_parts :: nat
  presigned_url_max_skew_time_secs :: nat
  expected_region :: "bytes option"
  sig_v4_allowed_services :: "bytes list"
  enable_sig_v2 :: bool
  presigned_url_max_expires_secs :: nat
  normalize_forward_slash_path :: bool
  normalize_content_length :: bool
  operation_id_routing :: bool
  allow_presigned_url :: bool
  allow_post_signature :: bool
  unsigned_amz_header_allowlist :: "bytes list"

definition DEFAULT_PRESIGNED_URL_MAX_EXPIRES_SECS :: nat where
  "DEFAULT_PRESIGNED_URL_MAX_EXPIRES_SECS = 7 * 24 * 60 * 60"

definition DEFAULT_PUT_OBJECT_MAX_SIZE :: nat where
  "DEFAULT_PUT_OBJECT_MAX_SIZE = 5 * 1024 * 1024 * 1024"

definition DEFAULT_AWS_CHUNKED_STREAM_MAX_CHUNK_SIZE :: nat where
  "DEFAULT_AWS_CHUNKED_STREAM_MAX_CHUNK_SIZE = 256 * 1024 * 1024"

definition default_sig_v4_allowed_services :: "bytes list" where
  "default_sig_v4_allowed_services = [''s3'', ''sts'']"

definition is_default_sig_v4_allowed_services :: "bytes list \<Rightarrow> bool" where
  "is_default_sig_v4_allowed_services services \<longleftrightarrow> services = [''s3'', ''sts'']"

definition S3Config_default :: s3_config where
  "S3Config_default =
     \<lparr>xml_max_body_size = 20 * 1024 * 1024,
      post_object_max_file_size_limit = 5 * 1024 * 1024 * 1024,
      put_object_max_size = Some DEFAULT_PUT_OBJECT_MAX_SIZE,
      custom_route_max_body_size = Some (1024 * 1024),
      aws_chunked_stream_max_chunk_size = DEFAULT_AWS_CHUNKED_STREAM_MAX_CHUNK_SIZE,
      form_max_field_size = 1024 * 1024,
      form_max_fields_size = 20 * 1024 * 1024,
      form_max_parts = 1000,
      presigned_url_max_skew_time_secs = 900,
      expected_region = None,
      sig_v4_allowed_services = default_sig_v4_allowed_services,
      enable_sig_v2 = False,
      presigned_url_max_expires_secs = DEFAULT_PRESIGNED_URL_MAX_EXPIRES_SECS,
      normalize_forward_slash_path = False,
      normalize_content_length = True,
      operation_id_routing = True,
      allow_presigned_url = True,
      allow_post_signature = True,
      unsigned_amz_header_allowlist = []\<rparr>"

text \<open>Region names.\<close>

definition Region_is_valid :: "bytes \<Rightarrow> bool" where
  "Region_is_valid s \<longleftrightarrow>
     s \<noteq> [] \<and> list_all (\<lambda>b. is_ascii_lowercase b \<or> is_ascii_digit b \<or> b = CHR ''-'') s"

definition Region_new :: "bytes \<Rightarrow> bytes + bytes" where
  "Region_new s = (if Region_is_valid s then Inr s else Inl s)"

text \<open>The key store; a secret key is its text.\<close>

record simple_auth =
  auth_map :: "bytes \<rightharpoonup> bytes"

definition SimpleAuth_new :: simple_auth where
  "SimpleAuth_new = \<lparr>auth_map = (\<lambda>_. None)\<rparr>"

definition SimpleAuth_from_single :: "bytes \<Rightarrow> bytes \<Rightarrow> simple_auth" where
  "SimpleAuth_from_single access_key secret_key = \<lparr>auth_map = [access_key \<mapsto> secret_key]\<rparr>"

definition SimpleAuth_register :: "bytes \<Rightarrow> bytes \<Rightarrow> simple_auth \<Rightarrow> bytes option \<times> simple_auth" where
  "SimpleAuth_register access_key secret_key a =
     (auth_map a access_key, a\<lparr>auth_map := (auth_map a)(access_key \<mapsto> secret_key)\<rparr>)"

definition SimpleAuth_lookup :: "simple_auth \<Rightarrow> bytes \<Rightarrow> bytes option" where
  "SimpleAuth_lookup a access_key = auth_map a access_key"

definition SimpleAuth_get_secret_key :: "simple_auth \<Rightarrow> bytes \<Rightarrow> s3_error_code + bytes" where
  "SimpleAuth_get_secret_key a access_key =
     (case SimpleAuth_lookup a access_key of None \<Rightarrow> Inl NotSignedUp | Some s \<Rightarrow> Inr s)"

end
