(* ===== verification/Signature_Check.thy ===== *)
theory Signature_Check
  imports Http_Body Form_Parser Post_Policy Sigv2 S3_Config
begin

text \<open>
  The check of the signature of a request (s3s/src/ops/signature.rs) with the signature type
  (s3s/src/auth/signature.rs) and the header access it uses (s3s/src/http/mod.rs): SigV4 in the Authorization
  header, in a presigned URL and in a POST form, and SigV2 in the same three places. The context of a
  request is a record; the fields that a check changes are returned with its result. The external crates,
  the clock and the key store are arguments.
\<close>

section \<open>The program\<close>

subsection \<open>What the checks are given\<close>

text \<open>
  \<open>civil_timestamp\<close> is \<^verbatim>\<open>jiff\<close>'s conversion of a UTC date and time, in nanoseconds; \<open>elapsed\<close> the duration
  between two timestamps; \<open>http_date_secs\<close> the parser of \<^verbatim>\<open>Date\<close> headers with the conversion to seconds.
\<close>

record sig_env =
  env_crypto :: crypto_api
  env_nom :: nom_api
  env_memchr :: memchr_api
  env_httparse :: httparse_api
  env_http :: http_api
  env_base64 :: base64_api
  env_base64_check :: "bytes \<Rightarrow> bool"
  env_policy :: policy_api
  env_sigv2 :: sigv2_api
  env_collect :: collect_api
  date_ok :: "nat \<Rightarrow> nat \<Rightarrow> nat \<Rightarrow> bool"
  civil_timestamp :: "amz_date \<Rightarrow> int option"
  elapsed :: "int \<Rightarrow> int \<Rightarrow> int option"
  http_date_secs :: "bytes \<Rightarrow> int option"
  timestamp_of_secs :: "int \<Rightarrow> int option"
  now :: int

datatype http_version = HTTP_09 | HTTP_10 | HTTP_11 | HTTP_2 | HTTP_3

record mime =
  mime_type :: bytes
  mime_subtype :: bytes
  mime_boundary :: "bytes option"

type_synonym header_map = "(bytes \<times> bytes) list"

record sig_context =
  sc_auth :: "(bytes \<Rightarrow> bytes s3_result) option"
  sc_config :: s3_config
  req_version :: http_version
  req_method :: bytes
  uri_authority :: "bytes option"
  uri_path :: bytes
  req_body :: http_body
  sc_qs :: "ordered_qs option"
  hs :: header_map
  decoded_uri_path :: bytes
  raw_uri_path :: bytes
  vh_bucket :: "bytes option"
  content_length :: "nat option"
  sc_mime :: "mime option"
  decoded_content_length :: "nat option"
  transformed_body :: "http_body option"
  sc_multipart :: "(post_form \<times> file_stream) option"
  trailing_headers :: "(bytes \<times> bytes) list option option"

record credentials_ext =
  cr_access_key :: bytes
  cr_secret_key :: bytes
  cr_region :: "bytes option"
  cr_service :: "bytes option"

subsection \<open>auth/signature.rs\<close>

definition Signature_from_hex :: "bytes \<Rightarrow> bytes option" where
  "Signature_from_hex val = (if is_sha256_checksum val then Some val else None)"

definition Signature_from_base64 :: "sig_env \<Rightarrow> bytes \<Rightarrow> bytes option" where
  "Signature_from_base64 E val =
     (if length val \<noteq> 28 then None
      else if \<not> env_base64_check E val then None
      else (case decoded_length (env_base64 E) val of
              None \<Rightarrow> None
            | Some n \<Rightarrow> if n = 20 then Some val else None))"

definition Signature_compare :: "bytes \<Rightarrow> bytes \<Rightarrow> bool" where
  "Signature_compare left right \<longleftrightarrow> left = right"

subsection \<open>http/mod.rs and utils/mod.rs\<close>

definition header_value_to_str :: "bytes \<Rightarrow> bytes option" where
  "header_value_to_str val = (if is_utf8 val then Some val else None)"

text \<open>The names in a header map are in lower case; a lookup ignores the case.\<close>

definition header_get_all :: "header_map \<Rightarrow> bytes \<Rightarrow> bytes list" where
  "header_get_all m name = map snd (filter (\<lambda>(n, _). n = map to_ascii_lowercase name) m)"

definition get_unique_header_str :: "header_map \<Rightarrow> bytes \<Rightarrow> bytes option" where
  "get_unique_header_str m name =
     (case header_get_all m name of
        [] \<Rightarrow> None
      | [val] \<Rightarrow> header_value_to_str val
      | _ # _ # _ \<Rightarrow> None)"

definition is_base64_encoded :: "sig_env \<Rightarrow> bytes \<Rightarrow> bool" where
  "is_base64_encoded E bs = env_base64_check E bs"

subsection \<open>Reading the headers\<close>

definition MAX_STS_BODY_SIZE :: nat where
  "MAX_STS_BODY_SIZE = 8192"

definition extract_amz_content_sha256 :: "sig_env \<Rightarrow> header_map \<Rightarrow> amz_content_sha256 option s3_result" where
  "extract_amz_content_sha256 E m =
     (case get_unique_header_str m ''x-amz-content-sha256'' of
        None \<Rightarrow> Inr None
      | Some val \<Rightarrow>
          (case AmzContentSha256_parse (env_crypto E) (env_base64 E) val of
             Some x \<Rightarrow> Inr (Some x)
           | None \<Rightarrow> Inl SignatureDoesNotMatch))"

definition extract_authorization_v4 :: "sig_env \<Rightarrow> header_map \<Rightarrow> authorization_v4 option s3_result" where
  "extract_authorization_v4 E m =
     (case get_unique_header_str m ''authorization'' of
        None \<Rightarrow> Inr None
      | Some val \<Rightarrow>
          (case AuthorizationV4_parse (env_nom E) (date_ok E) val of
             Inr x \<Rightarrow> Inr (Some x)
           | Inl InvalidSignature \<Rightarrow> Inl SignatureDoesNotMatch
           | Inl Malformed \<Rightarrow> Inl InvalidRequest))"

definition may_be_unsigned :: "s3_config \<Rightarrow> bytes \<Rightarrow> bool" where
  "may_be_unsigned config name \<longleftrightarrow>
     \<not> prefix ''x-amz-'' name \<or> name = ''x-amz-content-sha256'' \<or> name \<in> set (unsigned_amz_header_allowlist config)"

definition reject_unsigned_amz_headers :: "s3_config \<Rightarrow> header_map \<Rightarrow> bytes list \<Rightarrow> unit s3_result" where
  "reject_unsigned_amz_headers config m signed_names =
     (if list_all (\<lambda>(name, _). may_be_unsigned config name \<or>
            list_ex (\<lambda>signed. eq_ignore_ascii_case signed name) signed_names) m
      then Inr () else Inl AccessDenied)"

definition extract_amz_date :: "header_map \<Rightarrow> amz_date option s3_result" where
  "extract_amz_date m =
     (case get_unique_header_str m ''x-amz-date'' of
        None \<Rightarrow> Inr None
      | Some val \<Rightarrow> (case AmzDate_parse val of Some x \<Rightarrow> Inr (Some x) | None \<Rightarrow> Inl InvalidRequest))"

fun collect_signed_headers ::
  "header_map \<Rightarrow> (bytes \<Rightarrow> bytes option) \<Rightarrow> bytes list \<Rightarrow> (bytes \<times> bytes) list s3_result" where
  "collect_signed_headers m on_missing [] = Inr []"
| "collect_signed_headers m on_missing (name # names) =
     (let vals = header_get_all m name
      in and_then (refuse_if (list_ex (\<lambda>v. header_value_to_str v = None) vals) SignatureDoesNotMatch) (\<lambda>_.
         and_then (if vals = [] then map_sum id (\<lambda>v. [(name, v)]) (ok_or (on_missing name) SignatureDoesNotMatch)
                   else Inr (map (Pair name) vals)) (\<lambda>pairs.
         and_then (collect_signed_headers m on_missing names) (\<lambda>rest. Inr (pairs @ rest)))))"

fun sig_v2_headers :: "header_map \<Rightarrow> (bytes \<times> bytes) list s3_result" where
  "sig_v2_headers [] = Inr []"
| "sig_v2_headers ((name, val) # m) =
     (case header_value_to_str val of
        None \<Rightarrow> (if prefix ''x-amz-'' name then Inl SignatureDoesNotMatch else sig_v2_headers m)
      | Some v \<Rightarrow> and_then (sig_v2_headers m) (\<lambda>rest. Inr ((name, v) # rest)))"

subsection \<open>Time, region and service\<close>

definition require_auth :: "sig_context \<Rightarrow> (bytes \<Rightarrow> bytes s3_result) s3_result" where
  "require_auth x = ok_or (sc_auth x) NotImplemented"

definition has_unencoded_reserved_path_char :: "bytes \<Rightarrow> bool" where
  "has_unencoded_reserved_path_char path \<longleftrightarrow>
     list_ex (\<lambda>b. \<not> (is_ascii_uppercase b \<or> is_ascii_lowercase b \<or> is_ascii_digit b \<or>
        b = CHR ''-'' \<or> b = CHR ''_'' \<or> b = CHR ''.'' \<or> b = CHR ''~'' \<or> b = CHR ''/'' \<or> b = CHR ''%'')) path"

definition AmzDate_to_time :: "sig_env \<Rightarrow> amz_date \<Rightarrow> int option" where
  "AmzDate_to_time E d =
     (if year d < 2 ^ 15 \<and> month d < 2 ^ 7 \<and> day d < 2 ^ 7 \<and> hour d < 2 ^ 7 \<and> minute d < 2 ^ 7 \<and> second d < 2 ^ 7
      then civil_timestamp E d else None)"

definition max_skew_time :: "s3_config \<Rightarrow> int" where
  "max_skew_time config = int (presigned_url_max_skew_time_secs config) * 1000000000"

definition validate_clock_skew :: "sig_env \<Rightarrow> int \<Rightarrow> s3_config \<Rightarrow> unit s3_result" where
  "validate_clock_skew E request_time config =
     and_then (ok_or (elapsed E (now E) request_time) InvalidRequest) (\<lambda>duration.
       refuse_if (\<bar>duration\<bar> > max_skew_time config) RequestTimeTooSkewed)"

definition validate_sig_v4_clock_skew :: "sig_env \<Rightarrow> amz_date \<Rightarrow> s3_config \<Rightarrow> unit s3_result" where
  "validate_sig_v4_clock_skew E d config =
     and_then (ok_or (AmzDate_to_time E d) InvalidRequest) (\<lambda>request_time.
       validate_clock_skew E request_time config)"

definition validate_sig_v4_region :: "bytes \<Rightarrow> s3_config \<Rightarrow> unit s3_result" where
  "validate_sig_v4_region region config =
     (case expected_region config of
        Some expected \<Rightarrow> refuse_if (region \<noteq> expected) AuthorizationHeaderMalformed
      | None \<Rightarrow> Inr ())"

definition validate_sig_v4_service :: "bytes \<Rightarrow> s3_config \<Rightarrow> unit s3_result" where
  "validate_sig_v4_service service config =
     refuse_if (\<not> list_ex (\<lambda>allowed. allowed = service) (sig_v4_allowed_services config)) NotImplemented"

subsection \<open>The comparison with the raw path as the second attempt\<close>

record sig_verifier =
  sv_expected_signature :: bytes
  sv_raw_uri_path :: bytes
  sv_secret_key :: bytes
  sv_amz_date :: amz_date
  sv_region :: bytes
  sv_service :: bytes

definition signature_for :: "crypto_api \<Rightarrow> sig_verifier \<Rightarrow> bytes \<Rightarrow> bytes" where
  "signature_for C v canonical_request =
     calculate_signature C
       (create_string_to_sign C canonical_request (sv_amz_date v) (sv_region v) (sv_service v))
       (sv_secret_key v) (sv_amz_date v) (sv_region v) (sv_service v)"

definition verify_with_raw_path_fallback :: "crypto_api \<Rightarrow> sig_verifier \<Rightarrow> bytes \<Rightarrow> bytes \<Rightarrow> bytes s3_result" where
  "verify_with_raw_path_fallback C v canonical_request raw_canonical_request =
     (let sig = signature_for C v canonical_request
      in if Signature_compare sig (sv_expected_signature v) then Inr sig
         else if \<not> has_unencoded_reserved_path_char (sv_raw_uri_path v) then Inl SignatureDoesNotMatch
         else (let raw_signature = signature_for C v raw_canonical_request
               in if \<not> Signature_compare raw_signature (sv_expected_signature v) then Inl SignatureDoesNotMatch
                  else Inr raw_signature))"

subsection \<open>The context\<close>

definition query_pairs :: "sig_context \<Rightarrow> (bytes \<times> bytes) list" where
  "query_pairs x = (case sc_qs x of None \<Rightarrow> [] | Some q \<Rightarrow> qs q)"

definition signed_host_fallback :: "sig_context \<Rightarrow> bytes \<Rightarrow> bytes option" where
  "signed_host_fallback x name =
     (if name = ''host'' \<and> (req_version x = HTTP_2 \<or> req_version x = HTTP_3) then uri_authority x else None)"

definition ensure_v2_enabled :: "sig_context \<Rightarrow> unit s3_result" where
  "ensure_v2_enabled x = refuse_if (\<not> enable_sig_v2 (sc_config x)) AccessDenied"

definition ensure_presigned_url_enabled :: "sig_context \<Rightarrow> unit s3_result" where
  "ensure_presigned_url_enabled x = refuse_if (\<not> allow_presigned_url (sc_config x)) AccessDenied"

definition ensure_post_signature_enabled :: "sig_context \<Rightarrow> unit s3_result" where
  "ensure_post_signature_enabled x = refuse_if (\<not> allow_post_signature (sc_config x)) AccessDenied"

text \<open>
  The length of a body that is checked against a digest, and the body wrapped in the checking stream. The
  conversion of the content length from 64 bits to \<^verbatim>\<open>usize\<close> does not fail on a 64-bit platform.
\<close>

definition upload_length :: "sig_context \<Rightarrow> nat s3_result" where
  "upload_length x =
     (case content_length x of
        Some n \<Rightarrow> Inr n
      | None \<Rightarrow> ok_or (RemainingLength_exact (Body_remaining_length (req_body x))) MissingContentLength)"

definition wrap_upload :: "sig_env \<Rightarrow> sig_context \<Rightarrow> nat \<Rightarrow> bytes \<Rightarrow> sig_context" where
  "wrap_upload E x len expected =
     x\<lparr>req_body := Body_dyn_stream (DynUpload (UploadStream_new (outcomes (env_crypto E) (req_body x)) len expected))\<rparr>"

subsection \<open>SigV4 in the Authorization header\<close>

record v4_claims =
  cl_authorization :: authorization_v4
  cl_amz_date :: amz_date
  cl_content_sha256 :: "amz_content_sha256 option"
  cl_secret_key :: bytes
  cl_expected_signature :: bytes

definition v4_header_claims :: "sig_env \<Rightarrow> sig_context \<Rightarrow> v4_claims s3_result" where
  "v4_header_claims E x =
     and_then (extract_authorization_v4 E (hs x)) (\<lambda>oa.
     and_then (ok_or oa MissingSecurityHeader) (\<lambda>authorization.
     and_then (refuse_if (algorithm authorization \<noteq> ''AWS4-HMAC-SHA256'') NotImplemented) (\<lambda>_.
     and_then (validate_sig_v4_service (aws_service (credential authorization)) (sc_config x)) (\<lambda>_.
     and_then (require_auth x) (\<lambda>auth.
     and_then (extract_amz_date (hs x)) (\<lambda>od.
     and_then (ok_or od InvalidRequest) (\<lambda>amz.
     and_then (refuse_if (cred_date (credential authorization) \<noteq> fmt_date amz) SignatureDoesNotMatch) (\<lambda>_.
     and_then (validate_sig_v4_region (aws_region (credential authorization)) (sc_config x)) (\<lambda>_.
     and_then (validate_sig_v4_clock_skew E amz (sc_config x)) (\<lambda>_.
     and_then (extract_amz_content_sha256 E (hs x)) (\<lambda>content.
     and_then (refuse_if (aws_service (credential authorization) = ''s3'' \<and> content = None) InvalidRequest) (\<lambda>_.
     and_then (auth (access_key_id (credential authorization))) (\<lambda>secret_key.
     and_then (ok_or (Signature_from_hex (signature authorization)) SignatureDoesNotMatch) (\<lambda>expected.
       Inr \<lparr>cl_authorization = authorization, cl_amz_date = amz, cl_content_sha256 = content,
            cl_secret_key = secret_key, cl_expected_signature = expected\<rparr>))))))))))))))"

definition v4_payload ::
  "sig_env \<Rightarrow> sig_context \<Rightarrow> amz_content_sha256 option \<Rightarrow> bytes \<Rightarrow> payload s3_result \<times> sig_context" where
  "v4_payload E x content service =
     (case content of
        Some StreamingAws4HmacSha256Payload \<Rightarrow> (Inr MultipleChunks, x)
      | Some StreamingAws4HmacSha256PayloadTrailer \<Rightarrow> (Inr MultipleChunksWithTrailer, x)
      | Some UnsignedPayload \<Rightarrow> (Inr Unsigned, x)
      | Some StreamingUnsignedPayloadTrailer \<Rightarrow> (Inr UnsignedMultipleChunksWithTrailer, x)
      | Some (SingleChunkSum checksum) \<Rightarrow> (Inr (SingleChunk (hex_bytes32 (env_crypto E) checksum (\<lambda>s. s))), x)
      | Some StreamingAws4EcdsaP256Sha256Payload \<Rightarrow> (Inl NotImplemented, x)
      | Some StreamingAws4EcdsaP256Sha256PayloadTrailer \<Rightarrow> (Inl NotImplemented, x)
      | None \<Rightarrow>
          (if service = ''sts'' then
             (case store_all_limited (env_collect E) (env_crypto E) MAX_STS_BODY_SIZE (req_body x) of
                (Inl e, b) \<Rightarrow> (Inl InvalidRequest, x\<lparr>req_body := b\<rparr>)
              | (Inr body_bytes, b) \<Rightarrow>
                  (Inr (SingleChunk (hex_sha256 (env_crypto E) body_bytes (\<lambda>s. s))), x\<lparr>req_body := b\<rparr>))
           else (Inl InvalidRequest, x)))"

definition v4_verifier :: "sig_context \<Rightarrow> v4_claims \<Rightarrow> sig_verifier" where
  "v4_verifier x cl =
     \<lparr>sv_expected_signature = cl_expected_signature cl, sv_raw_uri_path = raw_uri_path x,
      sv_secret_key = cl_secret_key cl, sv_amz_date = cl_amz_date cl,
      sv_region = aws_region (credential (cl_authorization cl)),
      sv_service = aws_service (credential (cl_authorization cl))\<rparr>"

definition v4_verify_header :: "sig_env \<Rightarrow> sig_context \<Rightarrow> v4_claims \<Rightarrow> payload \<Rightarrow> bytes s3_result" where
  "v4_verify_header E x cl pl =
     and_then (collect_signed_headers (hs x) (signed_host_fallback x) (signed_headers (cl_authorization cl))) (\<lambda>headers.
     and_then (reject_unsigned_amz_headers (sc_config x) (hs x) (signed_headers (cl_authorization cl))) (\<lambda>_.
       verify_with_raw_path_fallback (env_crypto E) (v4_verifier x cl)
         (create_canonical_request (req_method x) (decoded_uri_path x) (query_pairs x) headers pl)
         (create_canonical_request_with_raw_uri_path (req_method x) (raw_uri_path x) (query_pairs x) headers pl)))"

text \<open>
  The body that the operation will read. \<open>None\<close> stands for a decoder that does not end; it always does
  (\<open>chunked_new_total\<close>). The handle to the trailing headers is what it holds once the stream was read.
\<close>

definition v4_install_chunked ::
  "sig_env \<Rightarrow> sig_context \<Rightarrow> v4_claims \<Rightarrow> amz_content_sha256 \<Rightarrow> bytes \<Rightarrow> (unit s3_result \<times> sig_context) option" where
  "v4_install_chunked E x cl content sig =
     (if has_trailer content \<and> get_unique_header_str (hs x) ''x-amz-trailer'' = None then Some (Inl InvalidRequest, x)
      else (case decoded_content_length x of
          None \<Rightarrow> Some (Inl MissingContentLength, x)
        | Some len \<Rightarrow>
            (case Sha256Sum_from_hex (env_crypto E) sig of
               None \<Rightarrow> Some (Inl InternalError, x)
             | Some seed \<Rightarrow>
                 (case AwsChunkedStream_new (env_memchr E) (env_nom E) (env_crypto E) (env_http E)
                         (awaited (outcomes (env_crypto E) (req_body x))) seed (cl_amz_date cl)
                         (aws_region (credential (cl_authorization cl))) (aws_service (credential (cl_authorization cl)))
                         (cl_secret_key cl) len (content = StreamingUnsignedPayloadTrailer)
                         (aws_chunked_stream_max_chunk_size (sc_config x)) of
                    None \<Rightarrow> None
                  | Some st \<Rightarrow>
                      Some (Inr (), x\<lparr>req_body := Body_empty,
                                      transformed_body := Some (Body_dyn_stream (DynChunked st)),
                                      trailing_headers := Some (trailers st)\<rparr>)))))"

definition v4_install_body ::
  "sig_env \<Rightarrow> sig_context \<Rightarrow> v4_claims \<Rightarrow> bytes \<Rightarrow> (unit s3_result \<times> sig_context) option" where
  "v4_install_body E x cl sig =
     (case cl_content_sha256 cl of
        None \<Rightarrow> Some (Inr (), x)
      | Some content \<Rightarrow>
          (if is_streaming content then v4_install_chunked E x cl content sig
           else (case content of
               SingleChunkSum expected \<Rightarrow>
                 (case upload_length x of
                    Inl e \<Rightarrow> Some (Inl e, x)
                  | Inr len \<Rightarrow> Some (Inr (), wrap_upload E x len expected))
             | UnsignedPayload \<Rightarrow>
                 (if content_length x = None \<and> RemainingLength_exact (Body_remaining_length (req_body x)) = None
                  then Some (Inl MissingContentLength, x) else Some (Inr (), x))
             | _ \<Rightarrow> Some (Inr (), x))))"

definition v4_credentials :: "v4_claims \<Rightarrow> credentials_ext" where
  "v4_credentials cl =
     \<lparr>cr_access_key = access_key_id (credential (cl_authorization cl)), cr_secret_key = cl_secret_key cl,
      cr_region = Some (aws_region (credential (cl_authorization cl))),
      cr_service = Some (aws_service (credential (cl_authorization cl)))\<rparr>"

definition v4_check_header_auth :: "sig_env \<Rightarrow> sig_context \<Rightarrow> (credentials_ext s3_result \<times> sig_context) option" where
  "v4_check_header_auth E x =
     (case v4_header_claims E x of
        Inl e \<Rightarrow> Some (Inl e, x)
      | Inr cl \<Rightarrow>
          (case v4_payload E x (cl_content_sha256 cl) (aws_service (credential (cl_authorization cl))) of
             (Inl e, x1) \<Rightarrow> Some (Inl e, x1)
           | (Inr pl, x1) \<Rightarrow>
               (case v4_verify_header E x1 cl pl of
                  Inl e \<Rightarrow> Some (Inl e, x1)
                | Inr sig \<Rightarrow>
                    (case v4_install_body E x1 cl sig of
                       None \<Rightarrow> None
                     | Some (Inl e, x2) \<Rightarrow> Some (Inl e, x2)
                     | Some (Inr _, x2) \<Rightarrow> Some (Inr (v4_credentials cl), x2)))))"

subsection \<open>SigV4 in a presigned URL\<close>

definition presigned_not_expired :: "sig_env \<Rightarrow> presigned_url_v4 \<Rightarrow> s3_config \<Rightarrow> unit s3_result" where
  "presigned_not_expired E p config =
     and_then (ok_or (AmzDate_to_time E (pre_amz_date p)) InvalidRequest) (\<lambda>date.
     and_then (ok_or (elapsed E (now E) date) InvalidRequest) (\<lambda>duration.
     and_then (refuse_if (duration < 0 \<and> \<bar>duration\<bar> > max_skew_time config) RequestTimeTooSkewed) (\<lambda>_.
       refuse_if (duration > int (pre_expires p) * 1000000000) AccessDenied)))"

definition v4_presigned_claims :: "sig_env \<Rightarrow> sig_context \<Rightarrow> (presigned_url_v4 \<times> amz_content_sha256 option \<times> bytes) s3_result" where
  "v4_presigned_claims E x =
     and_then (ok_or (PresignedUrlV4_parse (env_nom E) (date_ok E) (query_pairs x)
                 (presigned_url_max_expires_secs (sc_config x))) AuthorizationQueryParametersError) (\<lambda>p.
     and_then (refuse_if (pre_algorithm p \<noteq> ''AWS4-HMAC-SHA256'') NotImplemented) (\<lambda>_.
     and_then (refuse_if (cred_date (pre_credential p) \<noteq> fmt_date (pre_amz_date p)) SignatureDoesNotMatch) (\<lambda>_.
     and_then (extract_amz_content_sha256 E (hs x)) (\<lambda>content.
     and_then (refuse_if (case content of Some v \<Rightarrow> is_streaming v | None \<Rightarrow> False) NotImplemented) (\<lambda>_.
     and_then (validate_sig_v4_region (aws_region (pre_credential p)) (sc_config x)) (\<lambda>_.
     and_then (presigned_not_expired E p (sc_config x)) (\<lambda>_.
     and_then (require_auth x) (\<lambda>auth.
     and_then (auth (access_key_id (pre_credential p))) (\<lambda>secret_key.
     and_then (validate_sig_v4_service (aws_service (pre_credential p)) (sc_config x)) (\<lambda>_.
       Inr (p, content, secret_key)))))))))))"

definition presigned_verifier :: "sig_context \<Rightarrow> presigned_url_v4 \<Rightarrow> bytes \<Rightarrow> bytes \<Rightarrow> sig_verifier" where
  "presigned_verifier x p secret_key expected =
     \<lparr>sv_expected_signature = expected, sv_raw_uri_path = raw_uri_path x, sv_secret_key = secret_key,
      sv_amz_date = pre_amz_date p, sv_region = aws_region (pre_credential p), sv_service = aws_service (pre_credential p)\<rparr>"

definition v4_verify_presigned :: "sig_env \<Rightarrow> sig_context \<Rightarrow> presigned_url_v4 \<Rightarrow> bytes \<Rightarrow> bytes s3_result" where
  "v4_verify_presigned E x p secret_key =
     and_then (ok_or (Signature_from_hex (pre_signature p)) SignatureDoesNotMatch) (\<lambda>expected.
     and_then (collect_signed_headers (hs x) (signed_host_fallback x) (pre_signed_headers p)) (\<lambda>headers.
     and_then (reject_unsigned_amz_headers (sc_config x) (hs x) (pre_signed_headers p)) (\<lambda>_.
       verify_with_raw_path_fallback (env_crypto E) (presigned_verifier x p secret_key expected)
         (create_presigned_canonical_request (req_method x) (decoded_uri_path x) (query_pairs x) headers)
         (create_presigned_canonical_request_with_raw_uri_path (req_method x) (raw_uri_path x) (query_pairs x) headers))))"

definition v4_check_presigned_url :: "sig_env \<Rightarrow> sig_context \<Rightarrow> credentials_ext s3_result \<times> sig_context" where
  "v4_check_presigned_url E x =
     (case and_then (v4_presigned_claims E x) (\<lambda>(p, content, secret_key).
             and_then (v4_verify_presigned E x p secret_key) (\<lambda>_. Inr (p, content, secret_key))) of
        Inl e \<Rightarrow> (Inl e, x)
      | Inr (p, content, secret_key) \<Rightarrow>
          (let creds = \<lparr>cr_access_key = access_key_id (pre_credential p), cr_secret_key = secret_key,
                 cr_region = Some (aws_region (pre_credential p)), cr_service = Some (aws_service (pre_credential p))\<rparr>
           in case content of
                Some (SingleChunkSum expected) \<Rightarrow>
                  (case upload_length x of
                     Inl e \<Rightarrow> (Inl e, x)
                   | Inr len \<Rightarrow> (Inr creds, wrap_upload E x len expected))
              | _ \<Rightarrow> (Inr creds, x)))"

subsection \<open>SigV4 in a POST form\<close>

definition v4_post_credentials :: "sig_env \<Rightarrow> sig_context \<Rightarrow> post_form \<Rightarrow> credentials_ext s3_result" where
  "v4_post_credentials E x form =
     and_then (require_auth x) (\<lambda>auth.
     and_then (map_sum (\<lambda>_. InvalidRequest) id (PostSignatureV4_extract (form_fields form))) (\<lambda>info.
     and_then (refuse_if (\<not> is_base64_encoded E (post_signature_v4.post_policy info)) InvalidRequest) (\<lambda>_.
     and_then (refuse_if (post_x_amz_algorithm info \<noteq> ''AWS4-HMAC-SHA256'') NotImplemented) (\<lambda>_.
     and_then (ok_or (CredentialV4_parse (env_nom E) (date_ok E) (post_x_amz_credential info)) InvalidRequest) (\<lambda>cred.
     and_then (ok_or (AmzDate_parse (post_x_amz_date info)) InvalidRequest) (\<lambda>amz.
     and_then (map_sum (\<lambda>_. InvalidPolicyDocument) id (PostPolicy_from_base64 (env_policy E) (post_signature_v4.post_policy info))) (\<lambda>policy.
     and_then (refuse_if (eq_condition_value policy ''x-amz-date'' \<noteq> Some (post_x_amz_date info)) InvalidPolicyDocument) (\<lambda>_.
     and_then (refuse_if (eq_condition_value policy ''x-amz-credential'' \<noteq> Some (post_x_amz_credential info)) InvalidPolicyDocument) (\<lambda>_.
     and_then (refuse_if (eq_condition_value policy ''x-amz-algorithm'' \<noteq> Some (post_x_amz_algorithm info)) InvalidPolicyDocument) (\<lambda>_.
     and_then (refuse_if (cred_date cred \<noteq> fmt_date amz) SignatureDoesNotMatch) (\<lambda>_.
     and_then (validate_sig_v4_region (aws_region cred) (sc_config x)) (\<lambda>_.
     and_then (validate_sig_v4_clock_skew E amz (sc_config x)) (\<lambda>_.
     and_then (auth (access_key_id cred)) (\<lambda>secret_key.
     and_then (validate_sig_v4_service (aws_service cred) (sc_config x)) (\<lambda>_.
     and_then (ok_or (Signature_from_hex (post_x_amz_signature info)) SignatureDoesNotMatch) (\<lambda>expected.
     and_then (refuse_if (\<not> Signature_compare
         (calculate_signature (env_crypto E) (post_signature_v4.post_policy info) secret_key amz (aws_region cred) (aws_service cred))
         expected) SignatureDoesNotMatch) (\<lambda>_.
       Inr \<lparr>cr_access_key = access_key_id cred, cr_secret_key = secret_key,
            cr_region = Some (aws_region cred), cr_service = Some (aws_service cred)\<rparr>)))))))))))))))))"

definition v4_check_post_signature ::
  "sig_env \<Rightarrow> sig_context \<Rightarrow> post_form \<times> file_stream \<Rightarrow> credentials_ext s3_result \<times> sig_context" where
  "v4_check_post_signature E x m =
     (case v4_post_credentials E x (fst m) of
        Inl e \<Rightarrow> (Inl e, x)
      | Inr creds \<Rightarrow> (Inr creds, x\<lparr>sc_multipart := Some m\<rparr>))"

subsection \<open>SigV2\<close>

definition v2_credentials :: "bytes \<Rightarrow> bytes \<Rightarrow> credentials_ext" where
  "v2_credentials access_key secret_key =
     \<lparr>cr_access_key = access_key, cr_secret_key = secret_key, cr_region = None, cr_service = Some ''s3''\<rparr>"

definition v2_compare :: "sig_env \<Rightarrow> bytes \<Rightarrow> bytes \<Rightarrow> bytes \<Rightarrow> unit s3_result" where
  "v2_compare E secret_key string_to_sign given =
     and_then (ok_or (Signature_from_base64 E given) SignatureDoesNotMatch) (\<lambda>expected.
       refuse_if (\<not> Signature_compare (v2_calculate_signature (env_sigv2 E) secret_key string_to_sign) expected)
         SignatureDoesNotMatch)"

definition v2_request_time :: "sig_env \<Rightarrow> sig_context \<Rightarrow> bytes \<Rightarrow> int s3_result" where
  "v2_request_time E x date =
     (case get_unique_header_str (hs x) ''x-amz-date'' of
        Some d \<Rightarrow> and_then (ok_or (AmzDate_parse d) InvalidRequest) (\<lambda>amz. ok_or (AmzDate_to_time E amz) InvalidRequest)
      | None \<Rightarrow> and_then (ok_or (http_date_secs E date) InvalidRequest) (\<lambda>secs. ok_or (timestamp_of_secs E secs) InvalidRequest))"

definition v2_check_header_auth :: "sig_env \<Rightarrow> sig_context \<Rightarrow> authorization_v2 \<Rightarrow> credentials_ext s3_result" where
  "v2_check_header_auth E x auth_v2 =
     and_then (ensure_v2_enabled x) (\<lambda>_.
     and_then (ok_or (case get_unique_header_str (hs x) ''date'' of
                  Some d \<Rightarrow> Some d | None \<Rightarrow> get_unique_header_str (hs x) ''x-amz-date'') InvalidRequest) (\<lambda>date.
     and_then (v2_request_time E x date) (\<lambda>request_time.
     and_then (validate_clock_skew E request_time (sc_config x)) (\<lambda>_.
     and_then (require_auth x) (\<lambda>auth.
     and_then (auth (v2_access_key auth_v2)) (\<lambda>secret_key.
     and_then (sig_v2_headers (hs x)) (\<lambda>headers.
     and_then (v2_compare E secret_key
         (v2_create_string_to_sign HeaderAuth (req_method x) (uri_path x) (map_option qs (sc_qs x)) headers (vh_bucket x))
         (v2_signature auth_v2)) (\<lambda>_.
       Inr (v2_credentials (v2_access_key auth_v2) secret_key)))))))))"

definition v2_post_credentials :: "sig_env \<Rightarrow> sig_context \<Rightarrow> post_form \<Rightarrow> credentials_ext s3_result" where
  "v2_post_credentials E x form =
     and_then (ensure_v2_enabled x) (\<lambda>_.
     and_then (require_auth x) (\<lambda>auth.
     and_then (map_sum (\<lambda>_. InvalidRequest) id (PostSignatureV2_extract (form_fields form))) (\<lambda>info.
     and_then (refuse_if (\<not> is_base64_encoded E (post2_policy info)) InvalidRequest) (\<lambda>_.
     and_then (auth (post2_access_key_id info)) (\<lambda>secret_key.
     and_then (v2_compare E secret_key (post2_policy info) (post2_signature info)) (\<lambda>_.
       Inr (v2_credentials (post2_access_key_id info) secret_key)))))))"

definition v2_check_post_signature ::
  "sig_env \<Rightarrow> sig_context \<Rightarrow> post_form \<times> file_stream \<Rightarrow> credentials_ext s3_result \<times> sig_context" where
  "v2_check_post_signature E x m =
     (case v2_post_credentials E x (fst m) of
        Inl e \<Rightarrow> (Inl e, x)
      | Inr creds \<Rightarrow> (Inr creds, x\<lparr>sc_multipart := Some m\<rparr>))"

definition v2_check_presigned_url :: "sig_env \<Rightarrow> sig_context \<Rightarrow> credentials_ext s3_result" where
  "v2_check_presigned_url E x =
     and_then (ensure_v2_enabled x) (\<lambda>_.
     and_then (ok_or (PresignedUrlV2_parse (env_sigv2 E) (query_pairs x)) InvalidRequest) (\<lambda>p.
     and_then (refuse_if (now E > pre2_expires_time p) AccessDenied) (\<lambda>_.
     and_then (require_auth x) (\<lambda>auth.
     and_then (auth (pre2_access_key p)) (\<lambda>secret_key.
     and_then (sig_v2_headers (hs x)) (\<lambda>headers.
     and_then (v2_compare E secret_key
         (v2_create_string_to_sign PresignedUrl (req_method x) (uri_path x) (map_option qs (sc_qs x)) headers (vh_bucket x))
         (pre2_signature p)) (\<lambda>_.
       Inr (v2_credentials (pre2_access_key p) secret_key))))))))"

definition v2_check :: "sig_env \<Rightarrow> sig_context \<Rightarrow> credentials_ext s3_result option" where
  "v2_check E x =
     (if (case sc_qs x of Some q \<Rightarrow> has q ''Signature'' | None \<Rightarrow> False)
      then Some (and_then (ensure_presigned_url_enabled x) (\<lambda>_. v2_check_presigned_url E x))
      else (case get_unique_header_str (hs x) ''authorization'' of
          Some a \<Rightarrow>
            (case AuthorizationV2_parse a of
               Some auth_v2 \<Rightarrow> Some (v2_check_header_auth E x auth_v2)
             | None \<Rightarrow> None)
        | None \<Rightarrow> None))"

subsection \<open>The dispatch\<close>

text \<open>The inner \<open>None\<close> is a request without a SigV4 signature; the outer one a decoder that does not end.\<close>

definition v4_check :: "sig_env \<Rightarrow> sig_context \<Rightarrow> (credentials_ext s3_result \<times> sig_context) option option" where
  "v4_check E x =
     (if (case sc_qs x of Some q \<Rightarrow> has q ''X-Amz-Signature'' | None \<Rightarrow> False)
      then Some (Some (case ensure_presigned_url_enabled x of
          Inl e \<Rightarrow> (Inl e, x)
        | Inr _ \<Rightarrow> v4_check_presigned_url E x))
      else if get_unique_header_str (hs x) ''authorization'' \<noteq> None
      then (case v4_check_header_auth E x of None \<Rightarrow> None | Some r \<Rightarrow> Some (Some r))
      else Some None)"

text \<open>The events of a body as the multipart parser sees them.\<close>

fun form_events :: "body_event list \<Rightarrow> stream_event list" where
  "form_events [] = []"
| "form_events (BodyPending # evs) = EvPending # form_events evs"
| "form_events (BodyItem (Inl e) # evs) = EvItem (Inl (stream_read_failed e)) # form_events evs"
| "form_events (BodyItem (Inr bs) # evs) = EvItem (Inr bs) # form_events evs"

definition signed_in :: "credentials_ext s3_result \<times> sig_context \<Rightarrow> credentials_ext option s3_result \<times> sig_context" where
  "signed_in r = (map_sum id Some (fst r), snd r)"

definition check_post_signature :: "sig_env \<Rightarrow> sig_context \<Rightarrow> (credentials_ext option s3_result \<times> sig_context) option" where
  "check_post_signature E x =
     (case sc_mime x of
        None \<Rightarrow> Some (Inl InvalidRequest, x)
      | Some mime \<Rightarrow>
          (case mime_boundary mime of
             None \<Rightarrow> Some (Inl InvalidRequest, x)
           | Some bd \<Rightarrow>
               (let x1 = x\<lparr>req_body := Body_empty\<rparr>;
                    limits = \<lparr>max_field_size = form_max_field_size (sc_config x),
                              max_fields_size = form_max_fields_size (sc_config x),
                              max_parts = form_max_parts (sc_config x)\<rparr>
                in case transform_multipart (env_memchr E) (env_httparse E)
                          (form_events (outcomes (env_crypto E) (req_body x))) bd limits (content_length x) of
                     None \<Rightarrow> None
                   | Some (Inl e) \<Rightarrow> Some (Inl MalformedPOSTRequest, x1)
                   | Some (Inr m) \<Rightarrow>
                       Some (if find_field_value (fst m) ''x-amz-signature'' \<noteq> None then
                               (case ensure_post_signature_enabled x1 of
                                  Inl e \<Rightarrow> (Inl e, x1)
                                | Inr _ \<Rightarrow> signed_in (v4_check_post_signature E x1 m))
                             else if find_field_value (fst m) ''signature'' \<noteq> None then
                               (case ensure_post_signature_enabled x1 of
                                  Inl e \<Rightarrow> (Inl e, x1)
                                | Inr _ \<Rightarrow> signed_in (v2_check_post_signature E x1 m))
                             else (Inr None, x1\<lparr>sc_multipart := Some m\<rparr>)))))"

definition is_form_post :: "sig_context \<Rightarrow> bool" where
  "is_form_post x \<longleftrightarrow> req_method x = ''POST'' \<and>
     (case sc_mime x of
        Some mime \<Rightarrow> mime_type mime = ''multipart'' \<and> mime_subtype mime = ''form-data''
      | None \<Rightarrow> False)"

definition check :: "sig_env \<Rightarrow> sig_context \<Rightarrow> (credentials_ext option s3_result \<times> sig_context) option" where
  "check E x =
     (if is_form_post x then check_post_signature E x
      else (case v2_check E x of
          Some r \<Rightarrow> Some (signed_in (r, x))
        | None \<Rightarrow>
            (case v4_check E x of
               None \<Rightarrow> None
             | Some (Some r) \<Rightarrow> Some (signed_in r)
             | Some None \<Rightarrow> Some (Inr None, x))))"

end
