(* ===== verification/Signature_Accepts.thy ===== *)
theory Signature_Accepts
  imports Signature_Check
begin

text \<open>
  The steps of the signature checks, inverted: what each of them has established when it lets a request pass.
\<close>

section \<open>The steps, inverted\<close>

lemma extract_authorization_Inr [s3_results]:
  "extract_authorization_v4 E m = Inr (Some a) \<longleftrightarrow>
     (\<exists>v. get_unique_header_str m ''authorization'' = Some v \<and> AuthorizationV4_parse (env_nom E) (date_ok E) v = Inr a)"
  by (auto simp: extract_authorization_v4_def split: option.splits sum.splits parse_authorization_error.splits)

lemma extract_date_Inr [s3_results]:
  "extract_amz_date m = Inr (Some d) \<longleftrightarrow>
     (\<exists>v. get_unique_header_str m ''x-amz-date'' = Some v \<and> AmzDate_parse v = Some d)"
  by (auto simp: extract_amz_date_def split: option.splits)

lemma clock_skew_Inr [s3_results]:
  "validate_clock_skew E t config = Inr u \<longleftrightarrow>
     (\<exists>d. elapsed E (now E) t = Some d \<and> \<bar>d\<bar> \<le> max_skew_time config)"
  by (auto simp: validate_clock_skew_def s3_results)

lemma v4_clock_skew_Inr [s3_results]:
  "validate_sig_v4_clock_skew E amz config = Inr u \<longleftrightarrow>
     (\<exists>t d. AmzDate_to_time E amz = Some t \<and> elapsed E (now E) t = Some d \<and> \<bar>d\<bar> \<le> max_skew_time config)"
  by (auto simp: validate_sig_v4_clock_skew_def s3_results)

lemma region_Inr [s3_results]:
  "validate_sig_v4_region r config = Inr u \<longleftrightarrow> (\<forall>e. expected_region config = Some e \<longrightarrow> r = e)"
  by (auto simp: validate_sig_v4_region_def s3_results split: option.splits)

lemma service_Inr [s3_results]:
  "validate_sig_v4_service s config = Inr u \<longleftrightarrow> s \<in> set (sig_v4_allowed_services config)"
  by (auto simp: validate_sig_v4_service_def s3_results list_ex_iff)

lemma from_hex_Some [s3_results]: "Signature_from_hex s = Some e \<longleftrightarrow> is_sha256_checksum s \<and> e = s"
  by (auto simp: Signature_from_hex_def)

lemma require_auth_Inr [s3_results]: "require_auth x = Inr f \<longleftrightarrow> sc_auth x = Some f"
  by (simp add: require_auth_def s3_results)

lemma verify_Inr:
  "verify_with_raw_path_fallback C v c r = Inr s \<longleftrightarrow>
     s = sv_expected_signature v \<and>
     (s = signature_for C v c \<or> s \<noteq> signature_for C v c \<and> has_unencoded_reserved_path_char (sv_raw_uri_path v) \<and> s = signature_for C v r)"
  by (auto simp: verify_with_raw_path_fallback_def Signature_compare_def Let_def)

text \<open>Every value of every header that has to be signed is among the signed pairs.\<close>

lemma collect_signed_headers_all:
  "collect_signed_headers m f names = Inr pairs \<Longrightarrow> name \<in> set names \<Longrightarrow> v \<in> set (header_get_all m name) \<Longrightarrow>
     (name, v) \<in> set pairs"
  by (induction names arbitrary: pairs) (auto simp: Let_def s3_results split: if_splits)

lemma reject_unsigned_Inr [s3_results]:
  "reject_unsigned_amz_headers config m names = Inr u \<longleftrightarrow>
     (\<forall>(n, v) \<in> set m. may_be_unsigned config n \<or> (\<exists>s \<in> set names. eq_ignore_ascii_case s n))"
  by (auto simp: reject_unsigned_amz_headers_def list_all_iff list_ex_iff)

definition lower_case_names :: "header_map \<Rightarrow> bool" where
  "lower_case_names m \<longleftrightarrow> (\<forall>(n, v) \<in> set m. map to_ascii_lowercase n = n)"

lemma signed_headers_cover:
  assumes "lower_case_names m" and "collect_signed_headers m f names = Inr pairs"
    and "reject_unsigned_amz_headers config m names = Inr ()" and "(n, v) \<in> set m" and "\<not> may_be_unsigned config n"
  shows "\<exists>s. eq_ignore_ascii_case s n \<and> (s, v) \<in> set pairs"
proof -
  obtain s where s: "s \<in> set names" "eq_ignore_ascii_case s n"
    using assms(3-5) by (auto simp: s3_results)
  have "map to_ascii_lowercase s = n"
    using s(2) assms(1,4) by (auto simp: eq_ignore_ascii_case_def lower_case_names_def)
  then have "v \<in> set (header_get_all m s)" using assms(4) by (force simp: header_get_all_def)
  with collect_signed_headers_all [OF assms(2) s(1)] s(2) show ?thesis by blast
qed

text \<open>The payload text that a content header stands for, and the body it leaves.\<close>

lemma v4_payload_context:
  "v4_payload E x content service = (r, x1) \<Longrightarrow> \<exists>b. x1 = x\<lparr>req_body := b\<rparr> \<and> (content \<noteq> None \<longrightarrow> x1 = x)"
  by (auto simp: v4_payload_def split: option.splits amz_content_sha256.splits if_splits prod.splits sum.splits)
    (metis sig_context.surjective sig_context.update_convs(7))+

lemma v4_check_header_Inr:
  assumes "v4_check_header_auth E x = Some (Inr creds, x')"
  obtains cl pl x1 sig where "v4_header_claims E x = Inr cl"
    and "v4_payload E x (cl_content_sha256 cl) (aws_service (credential (cl_authorization cl))) = (Inr pl, x1)"
    and "v4_verify_header E x1 cl pl = Inr sig" and "v4_install_body E x1 cl sig = Some (Inr (), x')"
    and "creds = v4_credentials cl"
proof -
  obtain cl where cl: "v4_header_claims E x = Inr cl"
    using assms by (auto simp: v4_check_header_auth_def split: sum.splits)
  obtain pl x1 where pl: "v4_payload E x (cl_content_sha256 cl) (aws_service (credential (cl_authorization cl))) = (Inr pl, x1)"
    using assms cl by (cases "v4_payload E x (cl_content_sha256 cl) (aws_service (credential (cl_authorization cl)))")
      (auto simp: v4_check_header_auth_def split: sum.splits)
  obtain sig where sig: "v4_verify_header E x1 cl pl = Inr sig"
    using assms cl pl by (auto simp: v4_check_header_auth_def split: sum.splits)
  have "v4_install_body E x1 cl sig = Some (Inr (), x')" "creds = v4_credentials cl"
    using assms cl pl sig by (auto simp: v4_check_header_auth_def split: option.splits prod.splits sum.splits)
  with cl pl sig that show ?thesis by blast
qed

text \<open>
  The canonical request that the signature of a request is compared with: with the decoded path, or, when
  the path as sent has characters that need no encoding by the sender's rules, with that path.
\<close>

definition canonical_requests :: "sig_context \<Rightarrow> (bytes \<times> bytes) list \<Rightarrow> payload \<Rightarrow> bytes set" where
  "canonical_requests x hdrs pl =
     {create_canonical_request (req_method x) (decoded_uri_path x) (query_pairs x) hdrs pl} \<union>
     (if has_unencoded_reserved_path_char (raw_uri_path x)
      then {create_canonical_request_with_raw_uri_path (req_method x) (raw_uri_path x) (query_pairs x) hdrs pl} else {})"

definition presigned_requests :: "sig_context \<Rightarrow> (bytes \<times> bytes) list \<Rightarrow> bytes set" where
  "presigned_requests x hdrs =
     {create_presigned_canonical_request (req_method x) (decoded_uri_path x) (query_pairs x) hdrs} \<union>
     (if has_unencoded_reserved_path_char (raw_uri_path x)
      then {create_presigned_canonical_request_with_raw_uri_path (req_method x) (raw_uri_path x) (query_pairs x) hdrs} else {})"

definition fresh :: "sig_env \<Rightarrow> s3_config \<Rightarrow> amz_date \<Rightarrow> bool" where
  "fresh E config amz \<longleftrightarrow>
     (\<exists>t d. AmzDate_to_time E amz = Some t \<and> elapsed E (now E) t = Some d \<and> \<bar>d\<bar> \<le> max_skew_time config)"

lemma header_claims_Inr:
  "v4_header_claims E x = Inr cl \<longleftrightarrow>
     (\<exists>a d f. get_unique_header_str (hs x) ''authorization'' = Some a
        \<and> AuthorizationV4_parse (env_nom E) (date_ok E) a = Inr (cl_authorization cl)
        \<and> algorithm (cl_authorization cl) = ''AWS4-HMAC-SHA256''
        \<and> aws_service (credential (cl_authorization cl)) \<in> set (sig_v4_allowed_services (sc_config x))
        \<and> sc_auth x = Some f
        \<and> get_unique_header_str (hs x) ''x-amz-date'' = Some d \<and> AmzDate_parse d = Some (cl_amz_date cl)
        \<and> cred_date (credential (cl_authorization cl)) = fmt_date (cl_amz_date cl)
        \<and> (\<forall>e. expected_region (sc_config x) = Some e \<longrightarrow> aws_region (credential (cl_authorization cl)) = e)
        \<and> fresh E (sc_config x) (cl_amz_date cl)
        \<and> extract_amz_content_sha256 E (hs x) = Inr (cl_content_sha256 cl)
        \<and> (aws_service (credential (cl_authorization cl)) = ''s3'' \<longrightarrow> cl_content_sha256 cl \<noteq> None)
        \<and> f (access_key_id (credential (cl_authorization cl))) = Inr (cl_secret_key cl)
        \<and> is_sha256_checksum (signature (cl_authorization cl)) \<and> cl_expected_signature cl = signature (cl_authorization cl))"
  by (cases cl) (auto simp: v4_header_claims_def s3_results fresh_def)

lemma verify_accepts:
  assumes "verify_with_raw_path_fallback C v c r = Inr s"
  shows "\<exists>c' \<in> {c} \<union> (if has_unencoded_reserved_path_char (sv_raw_uri_path v) then {r} else {}).
           s = signature_for C v c' \<and> s = sv_expected_signature v"
  using assms by (auto simp: verify_Inr)

lemma verify_header_Inr:
  assumes "v4_verify_header E x cl pl = Inr s"
  obtains hdrs canonical where
    "collect_signed_headers (hs x) (signed_host_fallback x) (signed_headers (cl_authorization cl)) = Inr hdrs"
    and "reject_unsigned_amz_headers (sc_config x) (hs x) (signed_headers (cl_authorization cl)) = Inr ()"
    and "canonical \<in> canonical_requests x hdrs pl"
    and "s = cl_expected_signature cl" and "s = signature_for (env_crypto E) (v4_verifier x cl) canonical"
proof -
  have raw: "sv_raw_uri_path (v4_verifier x cl) = raw_uri_path x"
    and sig: "sv_expected_signature (v4_verifier x cl) = cl_expected_signature cl" by (simp_all add: v4_verifier_def)
  obtain hdrs where h: "collect_signed_headers (hs x) (signed_host_fallback x) (signed_headers (cl_authorization cl)) = Inr hdrs"
    "reject_unsigned_amz_headers (sc_config x) (hs x) (signed_headers (cl_authorization cl)) = Inr ()"
    and v: "verify_with_raw_path_fallback (env_crypto E) (v4_verifier x cl)
         (create_canonical_request (req_method x) (decoded_uri_path x) (query_pairs x) hdrs pl)
         (create_canonical_request_with_raw_uri_path (req_method x) (raw_uri_path x) (query_pairs x) hdrs pl) = Inr s"
    using assms by (auto simp: v4_verify_header_def and_then_Inr)
  show thesis using verify_accepts [OF v] that [OF h] unfolding raw sig canonical_requests_def by blast
qed

lemma verify_presigned_Inr:
  assumes "v4_verify_presigned E x p secret = Inr s"
  obtains hdrs canonical where
    "collect_signed_headers (hs x) (signed_host_fallback x) (pre_signed_headers p) = Inr hdrs"
    and "reject_unsigned_amz_headers (sc_config x) (hs x) (pre_signed_headers p) = Inr ()"
    and "canonical \<in> presigned_requests x hdrs" and "s = pre_signature p" and "is_sha256_checksum (pre_signature p)"
    and "s = signature_for (env_crypto E) (presigned_verifier x p secret (pre_signature p)) canonical"
proof -
  have raw: "sv_raw_uri_path (presigned_verifier x p secret (pre_signature p)) = raw_uri_path x"
    and sig: "sv_expected_signature (presigned_verifier x p secret (pre_signature p)) = pre_signature p"
    by (simp_all add: presigned_verifier_def)
  obtain hdrs where h: "collect_signed_headers (hs x) (signed_host_fallback x) (pre_signed_headers p) = Inr hdrs"
    "reject_unsigned_amz_headers (sc_config x) (hs x) (pre_signed_headers p) = Inr ()"
    and c: "is_sha256_checksum (pre_signature p)"
    and v: "verify_with_raw_path_fallback (env_crypto E) (presigned_verifier x p secret (pre_signature p))
         (create_presigned_canonical_request (req_method x) (decoded_uri_path x) (query_pairs x) hdrs)
         (create_presigned_canonical_request_with_raw_uri_path (req_method x) (raw_uri_path x) (query_pairs x) hdrs) = Inr s"
    using assms by (auto simp: v4_verify_presigned_def and_then_Inr ok_or_Inr from_hex_Some)
  show thesis using verify_accepts [OF v] that [OF h] c unfolding raw sig presigned_requests_def by blast
qed

end
