(* ===== verification/Signature_Example.thy ===== *)
theory Signature_Example
  imports Signature_Accepts Aws_Chunked_Properties
begin

text \<open>
  A concrete service and a concrete signed upload that it accepts: the parameters instantiated by functions
  that meet their contracts. The witnesses of the signature checks use it.
\<close>

section \<open>A concrete service\<close>

text \<open>Instances of the parameters, a key store with one key and a signed upload, for the witnesses.\<close>

definition plain_env :: sig_env where
  "plain_env =
     \<lparr>env_crypto = plain_crypto, env_nom = nom_ref, env_memchr = memchr_ref, env_httparse = strict_httparse,
      env_http = plain_http, env_base64 = \<lparr>decoded_length = (\<lambda>_. None), base64_decode = Some\<rparr>,
      env_base64_check = (\<lambda>_. True),
      env_policy = \<lparr>policy_api.base64_decode = Some, read_json = (\<lambda>_. None), parse_datetime = (\<lambda>_. None)\<rparr>,
      env_sigv2 = \<lparr>hmac_sha1 = (\<lambda>_ _. []), base64_encode = id, timestamp_from_second = (\<lambda>n. Some (int n))\<rparr>,
      env_collect = collect_ref, date_ok = (\<lambda>_ _ _. True), civil_timestamp = (\<lambda>d. Some (int (minute d) * 60000000000)),
      elapsed = (\<lambda>a b. Some (a - b)), http_date_secs = (\<lambda>_. None), timestamp_of_secs = Some, now = 30000000000\<rparr>"

definition plain_date :: amz_date where
  "plain_date = \<lparr>year = 2013, month = 5, day = 24, hour = 0, minute = 0, second = 0\<rparr>"

definition plain_credential :: credential_v4 where
  "plain_credential = \<lparr>access_key_id = ''AK'', cred_date = ''20130524'', aws_region = ''us-east-1'', aws_service = ''s3''\<rparr>"

definition plain_authorization :: authorization_v4 where
  "plain_authorization =
     \<lparr>algorithm = ''AWS4-HMAC-SHA256'', credential = plain_credential, signed_headers = [''host'', ''x-amz-date''],
      signature = ''3333313330333233613335363437313634366432613764363136643238376130''\<rparr>"

definition plain_authorization_text :: bytes where
  "plain_authorization_text = ''AWS4-HMAC-SHA256 Credential=AK/20130524/us-east-1/s3/aws4_request, SignedHeaders=host;x-amz-date, Signature=3333313330333233613335363437313634366432613764363136643238376130''"

text \<open>The request is given by its content header, its body and the decoded length.\<close>

definition headers_with :: "bytes \<Rightarrow> header_map" where
  "headers_with c =
     [(''host'', ''h''), (''x-amz-date'', ''20130524T000000Z''), (''x-amz-content-sha256'', c),
      (''authorization'', plain_authorization_text)]"

definition request_with :: "bytes \<Rightarrow> http_body \<Rightarrow> nat option \<Rightarrow> sig_context" where
  "request_with c b len =
     \<lparr>sc_auth = Some (SimpleAuth_get_secret_key (SimpleAuth_from_single ''AK'' ''secret'')), sc_config = S3Config_default,
      req_version = HTTP_11, req_method = ''PUT'', uri_authority = None, uri_path = ''/b/k'', req_body = b,
      sc_qs = None, hs = headers_with c, decoded_uri_path = ''/b/k'', raw_uri_path = ''/b/k'', vh_bucket = None,
      content_length = None, sc_mime = None, decoded_content_length = len, transformed_body = None,
      sc_multipart = None, trailing_headers = None\<rparr>"

definition claims_with :: "amz_content_sha256 \<Rightarrow> v4_claims" where
  "claims_with content =
     \<lparr>cl_authorization = plain_authorization, cl_amz_date = plain_date, cl_content_sha256 = Some content,
      cl_secret_key = ''secret'', cl_expected_signature = signature plain_authorization\<rparr>"

definition data_checksum :: bytes where
  "data_checksum = ''6461746130303030303030303030303030303030303030303030303030303030''"

definition plain_request :: sig_context where
  "plain_request = request_with data_checksum (Body_once ''data'') None"

definition plain_claims :: v4_claims where
  "plain_claims = claims_with (SingleChunkSum (pad32 ''data''))"

lemma plain_authorization_parsed:
  "AuthorizationV4_parse nom_ref (\<lambda>_ _ _. True) plain_authorization_text = Inr plain_authorization"
proof -
  have "verify_date (\<lambda>_ _ _. True) ''20130524''" by code_simp
  then have ok: "credential_ok (\<lambda>_ _ _. True) plain_credential" by (simp add: credential_ok_def plain_credential_def)
  have ws: "list_all (\<lambda>c. \<not> is_ascii_whitespace_char c) ''AWS4-HMAC-SHA256''"
    "list_all (\<lambda>c. \<not> is_ascii_whitespace_char c) (signature plain_authorization)" "is_sha256_checksum (signature plain_authorization)"
    by code_simp+
  show ?thesis
    using nom_contract.authorization_print [OF nom_reference.nom_contract_axioms ok _ ws(1) _ ws(2), of "''host''" "[''x-amz-date'']"] ws(3)
    by (simp add: print_credential_def plain_authorization_def plain_authorization_text_def plain_credential_def)
qed

lemma header_values:
  "get_unique_header_str (headers_with c) ''authorization'' = Some plain_authorization_text"
  "get_unique_header_str (headers_with c) ''x-amz-date'' = Some ''20130524T000000Z''"
  "is_utf8 c \<Longrightarrow> get_unique_header_str (headers_with c) ''x-amz-content-sha256'' = Some c"
  "header_get_all (headers_with c) ''host'' = [''h'']" "header_get_all (headers_with c) ''x-amz-date'' = [''20130524T000000Z'']"
proof -
  have low: "map to_ascii_lowercase ''authorization'' = ''authorization''" "map to_ascii_lowercase ''x-amz-date'' = ''x-amz-date''"
    "map to_ascii_lowercase ''x-amz-content-sha256'' = ''x-amz-content-sha256''" "map to_ascii_lowercase ''host'' = ''host''"
    by code_simp+
  have utf8: "is_utf8 plain_authorization_text" "is_utf8 ''20130524T000000Z''" by code_simp+
  show "header_get_all (headers_with c) ''host'' = [''h'']" "header_get_all (headers_with c) ''x-amz-date'' = [''20130524T000000Z'']"
    unfolding header_get_all_def low by (simp_all add: headers_with_def)
  show "get_unique_header_str (headers_with c) ''authorization'' = Some plain_authorization_text"
    "get_unique_header_str (headers_with c) ''x-amz-date'' = Some ''20130524T000000Z''"
    unfolding get_unique_header_str_def header_get_all_def low using utf8 by (simp_all add: headers_with_def header_value_to_str_def)
  show "is_utf8 c \<Longrightarrow> get_unique_header_str (headers_with c) ''x-amz-content-sha256'' = Some c"
    unfolding get_unique_header_str_def header_get_all_def low by (simp add: headers_with_def header_value_to_str_def)
qed

lemma date_values: "AmzDate_parse ''20130524T000000Z'' = Some plain_date" "fmt_date plain_date = ''20130524''"
  by code_simp+

lemma plain_crypto_env [simp]: "env_crypto plain_env = plain_crypto" "env_base64 plain_env = \<lparr>decoded_length = (\<lambda>_. None), base64_decode = Some\<rparr>"
  "env_nom plain_env = nom_ref" "env_memchr plain_env = memchr_ref" "date_ok plain_env = (\<lambda>_ _ _. True)"
  by (simp_all add: plain_env_def)

lemma request_fields [simp]:
  "hs (request_with c b len) = headers_with c" "sc_config (request_with c b len) = S3Config_default"
  "req_body (request_with c b len) = b" "decoded_content_length (request_with c b len) = len"
  "content_length (request_with c b len) = None" "raw_uri_path (request_with c b len) = ''/b/k''"
  "req_method (request_with c b len) = ''PUT''"
  by (simp_all add: request_with_def)

lemma data_length [simp]: "RemainingLength_exact (Body_remaining_length (Body_once ''data'')) = Some 4"
  by code_simp

lemma claims_fields [simp]:
  "cl_content_sha256 (claims_with content) = Some content" "credential (cl_authorization (claims_with content)) = plain_credential"
  "aws_service plain_credential = ''s3''"
  by (simp_all add: claims_with_def plain_authorization_def plain_credential_def)

lemma plain_content: "extract_amz_content_sha256 plain_env (headers_with data_checksum) = Inr (Some (SingleChunkSum (pad32 ''data'')))"
proof -
  have "parse_checksum plain_crypto \<lparr>decoded_length = (\<lambda>_. None), base64_decode = Some\<rparr> data_checksum = Some (pad32 ''data'')"
    "is_utf8 data_checksum"
    by code_simp+
  then show ?thesis
    by (simp add: extract_amz_content_sha256_def header_values AmzContentSha256_parse_def)
qed

lemma claims_made:
  assumes "extract_amz_content_sha256 plain_env (headers_with c) = Inr (Some content)"
  shows "v4_header_claims plain_env (request_with c b len) = Inr (claims_with content)"
proof -
  have time: "fresh plain_env S3Config_default plain_date"
    by (simp add: fresh_def plain_env_def plain_date_def AmzDate_to_time_def max_skew_time_def S3Config_default_def)
  have parts: "algorithm plain_authorization = ''AWS4-HMAC-SHA256''" "credential plain_authorization = plain_credential"
    "is_sha256_checksum (signature plain_authorization)"
    "cred_date plain_credential = ''20130524''" "access_key_id plain_credential = ''AK''" "aws_service plain_credential = ''s3''"
    by code_simp+
  show ?thesis
    unfolding header_claims_Inr using time parts assms
    by (simp add: claims_with_def header_values date_values plain_authorization_parsed)
      (simp add: request_with_def S3Config_default_def default_sig_v4_allowed_services_def
        SimpleAuth_get_secret_key_def SimpleAuth_lookup_def SimpleAuth_from_single_def)
qed

definition plain_signed :: "(bytes \<times> bytes) list" where
  "plain_signed = [(''host'', ''h''), (''x-amz-date'', ''20130524T000000Z'')]"

definition canonical_with :: "payload \<Rightarrow> bytes" where
  "canonical_with pl = create_canonical_request ''PUT'' ''/b/k'' [] plain_signed pl"

lemma wide_space_heads: "list_all (\<lambda>w. w \<noteq> [] \<and> \<not> byte_in 33 126 (hd w)) wide_spaces"
  by code_simp

lemma visible_space_len: "byte_in 33 126 c \<Longrightarrow> space_len (c # s) = 0"
proof -
  assume c: "byte_in 33 126 c"
  have "\<not> prefix w (c # s)" if "w \<in> set wide_spaces" for w
  proof -
    have "w \<noteq> []" "\<not> byte_in 33 126 (hd w)" using that wide_space_heads by (simp_all add: list_all_iff)
    with c show ?thesis by (cases w) auto
  qed
  then have "find (\<lambda>w. prefix w (c # s)) wide_spaces = None" by (simp add: find_None_iff)
  moreover have "\<not> byte_in 9 13 c" "c \<noteq> SP" using c by (auto simp: byte_in_def)
  ultimately show ?thesis by (simp add: space_len_def)
qed

lemma visible_normalize: "list_all (byte_in 33 126) v \<Longrightarrow> normalize_header_value ans v = ans @ v"
proof -
  assume v: "list_all (byte_in 33 126) v"
  have "trim_end s = s" "\<not> any_space s" if "list_all (byte_in 33 126) s" for s
    using that by (induction s) (simp_all add: visible_space_len)
  moreover have "space_len v = 0" using v visible_space_len by (cases v) (auto simp: space_len_def)
  then have "trim_start v = v" by (simp add: trim_start.simps)
  ultimately show ?thesis using v by (simp add: normalize_header_value_def trim_def)
qed

text \<open>The signatures of this service depend on the first 32 bytes of the canonical request.\<close>

lemma plain_signature_of:
  assumes head: "take 32 c = h" and len: "length h = 32"
  shows "calculate_signature plain_crypto (create_string_to_sign plain_crypto c d r s) k d r s =
    plain_hex (take 32 (rev (plain_hex h)))"
proof -
  have "32 \<le> length c" using arg_cong [OF head, of length] len by simp
  then have digest: "sha256 plain_crypto c = h" using head by (simp add: sha256_def plain_crypto_def pad32_def)
  have mac: "hmac_sha256 plain_crypto key (t @ u) = take 32 (rev u)" if "32 \<le> length u" for key t u
    using that by (simp add: hmac_sha256_def plain_crypto_def pad32_def)
  have "length (plain_hex b) = 2 * length b" for b by (induction b) (simp_all add: plain_hex_def)
  then show ?thesis
    unfolding calculate_signature_def calculate_signature_with_key_def create_string_to_sign_def Let_def hex_sha256_def
      hex_bytes32_def digest
    using mac [of "plain_hex h"] len by (simp add: plain_crypto_def)
qed

lemma plain_signature:
  "calculate_signature plain_crypto (create_string_to_sign plain_crypto (canonical_with pl) plain_date ''us-east-1'' ''s3'')
     ''secret'' plain_date ''us-east-1'' ''s3'' = signature plain_authorization"
proof -
  have path: "concat (map (uri_encode_byte False) ''/b/k'') = ''/b/k''"
    and query: "push_query [] (stable_sort_by_first (encode_query [])) = []" by code_simp+
  let ?head = "''PUT'' @ LF # ''/b/k'' @ LF # LF # ''host:h'' @ LF # ''x-amz-date:2013''"
  have "take 32 (canonical_with pl) = ?head"
    unfolding canonical_with_def create_canonical_request_def canonical_request_lines
    by (simp add: plain_signed_def visible_normalize byte_in_def is_skipped_header_def path query del: concat.simps list.map)
  moreover have "plain_hex (take 32 (rev (plain_hex ?head))) = signature plain_authorization"
    by (simp add: plain_hex_def nibble_hex_def plain_authorization_def)
  ultimately show ?thesis by (simp add: plain_signature_of)
qed

lemma headers_signed:
  "collect_signed_headers (headers_with c) f [''host'', ''x-amz-date''] = Inr plain_signed"
  "reject_unsigned_amz_headers S3Config_default (headers_with c) [''host'', ''x-amz-date''] = Inr ()"
proof -
  have vals: "header_value_to_str ''h'' \<noteq> None" "header_value_to_str ''20130524T000000Z'' \<noteq> None"
    by code_simp+
  show "collect_signed_headers (headers_with c) f [''host'', ''x-amz-date''] = Inr plain_signed"
    using vals by (auto simp: header_values plain_signed_def refuse_if_def)
  show "reject_unsigned_amz_headers S3Config_default (headers_with c) [''host'', ''x-amz-date''] = Inr ()"
    by (simp add: reject_unsigned_amz_headers_def headers_with_def may_be_unsigned_def S3Config_default_def
        eq_ignore_ascii_case_def)
qed

lemma signature_accepted:
  "v4_verify_header plain_env (request_with c b len) (claims_with content) pl = Inr (signature plain_authorization)"
  using headers_signed plain_signature
  by (simp add: v4_verify_header_def verify_with_raw_path_fallback_def signature_for_def v4_verifier_def Let_def
      Signature_compare_def claims_with_def plain_authorization_def plain_credential_def canonical_with_def)
    (simp add: query_pairs_def request_with_def)

lemma plain_accepted:
  "v4_check_header_auth plain_env plain_request =
     Some (Inr (v4_credentials plain_claims), wrap_upload plain_env plain_request 4 (pad32 ''data''))"
proof -
  let ?x = "request_with data_checksum (Body_once ''data'') None"
  have "v4_payload plain_env ?x (Some (SingleChunkSum (pad32 ''data''))) ''s3'' =
      (Inr (SingleChunk (plain_hex (pad32 ''data''))), ?x)"
    by (simp add: v4_payload_def plain_crypto_def hex_bytes32_def)
  moreover have "v4_install_body plain_env ?x (claims_with (SingleChunkSum (pad32 ''data''))) (signature plain_authorization) =
      Some (Inr (), wrap_upload plain_env ?x 4 (pad32 ''data''))"
    by (simp add: v4_install_body_def claims_with_def upload_length_def)
  ultimately show ?thesis
    unfolding v4_check_header_auth_def plain_request_def plain_claims_def
    by (simp add: claims_made [OF plain_content] signature_accepted)
qed

text \<open>An upload in signed chunks.\<close>

definition streaming_request :: "bytes \<Rightarrow> nat \<Rightarrow> sig_context" where
  "streaming_request body n = request_with ''STREAMING-AWS4-HMAC-SHA256-PAYLOAD'' (Body_once body) (Some n)"

lemma streaming_content:
  "extract_amz_content_sha256 plain_env (headers_with ''STREAMING-AWS4-HMAC-SHA256-PAYLOAD'') =
     Inr (Some StreamingAws4HmacSha256Payload)"
proof -
  have "is_utf8 ''STREAMING-AWS4-HMAC-SHA256-PAYLOAD''" by code_simp
  then show ?thesis
    by (simp add: extract_amz_content_sha256_def header_values AmzContentSha256_parse_def parse_checksum_def is_sha256_checksum_def)
qed

lemma streaming_accepted:
  "\<exists>x'. v4_check_header_auth plain_env (streaming_request body n) = Some (Inr (v4_credentials (claims_with StreamingAws4HmacSha256Payload)), x')"
proof -
  let ?x = "streaming_request body n" and ?cl = "claims_with StreamingAws4HmacSha256Payload"
  have seed: "Sha256Sum_from_hex plain_crypto (signature plain_authorization) \<noteq> None" by code_simp
  have "v4_payload plain_env ?x (Some StreamingAws4HmacSha256Payload) ''s3'' = (Inr MultipleChunks, ?x)"
    by (simp add: v4_payload_def)
  moreover have "\<exists>x'. v4_install_body plain_env ?x ?cl (signature plain_authorization) = Some (Inr (), x')"
    using seed
    by (auto simp: v4_install_body_def v4_install_chunked_def streaming_request_def
        chunked_new_total [OF ref_search.byte_search_axioms plain.crypto_contract_axioms] split: option.splits)
  ultimately show ?thesis
    unfolding v4_check_header_auth_def
    by (auto simp: streaming_request_def claims_made [OF streaming_content] signature_accepted)
qed

end
