(* ===== verification/Signature_Sound.thy ===== *)
theory Signature_Sound
  imports Signature_Example
begin

text \<open>
  What the signature checks guarantee: which requests are accepted and as whom, what of an accepted request
  is covered by its signature, and which requests are treated as anonymous.
\<close>

section \<open>Accepted requests with a header signature\<close>

text \<open>
  The canonical request \<open>canonical\<close> is one that a request stands for, under the claims its headers make and
  with the payload line and the signed headers those give.
\<close>

definition signed_as ::
  "sig_env \<Rightarrow> sig_context \<Rightarrow> v4_claims \<Rightarrow> payload \<Rightarrow> (bytes \<times> bytes) list \<Rightarrow> bytes \<Rightarrow> bool" where
  "signed_as E x cl pl hdrs canonical \<longleftrightarrow>
     v4_header_claims E x = Inr cl
     \<and> fst (v4_payload E x (cl_content_sha256 cl) (aws_service (credential (cl_authorization cl)))) = Inr pl
     \<and> collect_signed_headers (hs x) (signed_host_fallback x) (signed_headers (cl_authorization cl)) = Inr hdrs
     \<and> canonical \<in> canonical_requests x hdrs pl
     \<and> signature (cl_authorization cl) = signature_for (env_crypto E) (v4_verifier x cl) canonical"

lemma body_irrelevant [simp]:
  "canonical_requests (x\<lparr>req_body := b\<rparr>) hdrs pl = canonical_requests x hdrs pl"
  "signed_host_fallback (x\<lparr>req_body := b\<rparr>) = signed_host_fallback x"
  "v4_verifier (x\<lparr>req_body := b\<rparr>) cl = v4_verifier x cl"
  by (auto simp: canonical_requests_def signed_host_fallback_def v4_verifier_def query_pairs_def fun_eq_iff)

lemma header_auth_signed_as:
  assumes "v4_check_header_auth E x = Some (Inr creds, x')"
  obtains cl pl hdrs canonical where "signed_as E x cl pl hdrs canonical" and "creds = v4_credentials cl"
    and "reject_unsigned_amz_headers (sc_config x) (hs x) (signed_headers (cl_authorization cl)) = Inr ()"
proof -
  obtain cl pl x1 sig where cl: "v4_header_claims E x = Inr cl"
    and pl: "v4_payload E x (cl_content_sha256 cl) (aws_service (credential (cl_authorization cl))) = (Inr pl, x1)"
    and sig: "v4_verify_header E x1 cl pl = Inr sig" and creds: "creds = v4_credentials cl"
    using v4_check_header_Inr [OF assms] by metis
  obtain b where x1: "x1 = x\<lparr>req_body := b\<rparr>" using v4_payload_context [OF pl] by blast
  have "cl_expected_signature cl = signature (cl_authorization cl)" using cl [unfolded header_claims_Inr] by blast
  with verify_header_Inr [OF sig] obtain hdrs canonical where
    "collect_signed_headers (hs x) (signed_host_fallback x) (signed_headers (cl_authorization cl)) = Inr hdrs"
    "reject_unsigned_amz_headers (sc_config x) (hs x) (signed_headers (cl_authorization cl)) = Inr ()"
    "canonical \<in> canonical_requests x hdrs pl"
    "signature (cl_authorization cl) = signature_for (env_crypto E) (v4_verifier x cl) canonical"
    by (simp add: x1) metis
  with cl pl creds that show thesis by (simp add: signed_as_def)
qed

text \<open>
  C2: a request that is accepted by its Authorization header is one that the owner of a key has signed. The
  header parses, its algorithm is the supported one, the date of its scope is the date of the request, the
  request is within the clock skew, region and service are the configured ones, the secret key is the one the
  key store has for the named access key, the signature is the one that this key gives for the
  canonical form of this very request, and every value of every x-amz header of the request (but for the
  exempted ones) is in the signed part of that form.
\<close>

theorem header_auth_sound:
  assumes "v4_check_header_auth E x = Some (Inr creds, x')" and "lower_case_names (hs x)"
  shows "\<exists>text d f cl pl hdrs canonical.
      get_unique_header_str (hs x) ''authorization'' = Some text
    \<and> AuthorizationV4_parse (env_nom E) (date_ok E) text = Inr (cl_authorization cl)
    \<and> algorithm (cl_authorization cl) = ''AWS4-HMAC-SHA256''
    \<and> get_unique_header_str (hs x) ''x-amz-date'' = Some d \<and> AmzDate_parse d = Some (cl_amz_date cl)
    \<and> cred_date (credential (cl_authorization cl)) = fmt_date (cl_amz_date cl)
    \<and> fresh E (sc_config x) (cl_amz_date cl)
    \<and> (\<forall>e. expected_region (sc_config x) = Some e \<longrightarrow> aws_region (credential (cl_authorization cl)) = e)
    \<and> aws_service (credential (cl_authorization cl)) \<in> set (sig_v4_allowed_services (sc_config x))
    \<and> sc_auth x = Some f \<and> f (access_key_id (credential (cl_authorization cl))) = Inr (cl_secret_key cl)
    \<and> creds = v4_credentials cl
    \<and> signed_as E x cl pl hdrs canonical
    \<and> (\<forall>(n, v) \<in> set (hs x). \<not> may_be_unsigned (sc_config x) n \<longrightarrow>
         (\<exists>s. eq_ignore_ascii_case s n \<and> (s, v) \<in> set hdrs))"
proof -
  obtain cl pl hdrs canonical where s: "signed_as E x cl pl hdrs canonical" and creds: "creds = v4_credentials cl"
    and rej: "reject_unsigned_amz_headers (sc_config x) (hs x) (signed_headers (cl_authorization cl)) = Inr ()"
    by (rule header_auth_signed_as [OF assms(1)])
  have col: "collect_signed_headers (hs x) (signed_host_fallback x) (signed_headers (cl_authorization cl)) = Inr hdrs"
    and cl: "v4_header_claims E x = Inr cl" using s by (simp_all add: signed_as_def)
  have cover: "\<forall>(n, v) \<in> set (hs x). \<not> may_be_unsigned (sc_config x) n \<longrightarrow>
         (\<exists>s. eq_ignore_ascii_case s n \<and> (s, v) \<in> set hdrs)"
    using signed_headers_cover [OF assms(2) col rej] by blast
  from cl [unfolded header_claims_Inr] s creds cover show ?thesis by blast
qed

lemma plain_lower_case: "lower_case_names (headers_with c)"
proof -
  have "list_all (\<lambda>n. map to_ascii_lowercase n = n) [''host'', ''x-amz-date'', ''x-amz-content-sha256'', ''authorization'']" by code_simp
  then show ?thesis by (simp add: lower_case_names_def headers_with_def del: list.map)
qed

lemma plain_request_headers: "hs plain_request = headers_with data_checksum" "sc_config plain_request = S3Config_default"
  by (simp_all add: plain_request_def)

theorem header_auth_sound_witness:
  "\<exists>cl pl hdrs canonical. signed_as plain_env plain_request cl pl hdrs canonical \<and>
     (\<exists>s. eq_ignore_ascii_case s ''x-amz-date'' \<and> (s, ''20130524T000000Z'') \<in> set hdrs)"
proof -
  have "\<not> may_be_unsigned S3Config_default ''x-amz-date''" by (simp add: may_be_unsigned_def S3Config_default_def)
  moreover have "(''x-amz-date'', ''20130524T000000Z'') \<in> set (headers_with data_checksum)" by (simp add: headers_with_def)
  ultimately show ?thesis
    using header_auth_sound [OF plain_accepted, unfolded plain_request_headers, OF plain_lower_case] by blast
qed

section \<open>A signature belongs to one request\<close>

text \<open>Two texts around the last separator.\<close>

lemma append_sep_inject_last:
  fixes c :: byte
  assumes "c \<notin> set a" "c \<notin> set b" "x @ c # a = y @ c # b"
  shows "x = y \<and> a = b"
proof -
  have "rev a @ c # rev x = rev b @ c # rev y" using arg_cong [OF assms(3), of rev] by simp
  from append_sep_inject [OF _ _ this] assms(1,2) show ?thesis by simp
qed

lemma fmt_iso8601_no_lf: "LF \<notin> set (fmt_iso8601 t)"
proof -
  have "LF \<notin> set (zero_padded w n)" for w n
    using decimal_digits [of n] by (auto simp: zero_padded_def list_all_iff is_ascii_digit_def byte_in_def)
  then show ?thesis by (simp add: fmt_iso8601_def)
qed

definition mac_collision :: "crypto_api \<Rightarrow> bytes \<Rightarrow> bytes \<Rightarrow> bytes \<Rightarrow> bool" where
  "mac_collision C key s t \<longleftrightarrow> s \<noteq> t \<and> hmac_sha256 C key s = hmac_sha256 C key t"

definition digest_collision :: "crypto_api \<Rightarrow> bytes \<Rightarrow> bytes \<Rightarrow> bool" where
  "digest_collision C c d \<longleftrightarrow> c \<noteq> d \<and> sha256 C c = sha256 C d"

definition key_for :: "crypto_api \<Rightarrow> sig_verifier \<Rightarrow> bytes" where
  "key_for C v = derive_signing_key C (sv_secret_key v) (sv_amz_date v) (sv_region v) (sv_service v)"

definition string_for :: "crypto_api \<Rightarrow> sig_verifier \<Rightarrow> bytes \<Rightarrow> bytes" where
  "string_for C v c = create_string_to_sign C c (sv_amz_date v) (sv_region v) (sv_service v)"

text \<open>The digest crate as the signatures need it: a digest has 32 bytes.\<close>

locale digest_contract = crypto_contract +
  assumes digest_length: "length (digest_once C d) = 32"
begin

lemma hex_inject: "length a = 32 \<Longrightarrow> length b = 32 \<Longrightarrow> hex_lower C a = hex_lower C b \<Longrightarrow> a = b"
  using hex_decode_lower by (metis option.inject)

lemma hex_no_lf: "length b = 32 \<Longrightarrow> LF \<notin> set (hex_lower C b)"
  using hex_lower_form [of b]
  by (auto simp: is_sha256_checksum_def list_all_iff is_lowercase_hex_def is_ascii_digit_def byte_in_def)

lemma string_for_inject:
  assumes "string_for C v c = string_for C w d"
  shows "fmt_iso8601 (sv_amz_date v) = fmt_iso8601 (sv_amz_date w) \<and> sha256 C c = sha256 C d"
proof -
  let ?scope = "\<lambda>v. fmt_date (sv_amz_date v) @ ''/'' @ sv_region v @ ''/'' @ sv_service v @ ''/aws4_request''"
  have eq: "fmt_iso8601 (sv_amz_date v) @ LF # ?scope v @ LF # hex_lower C (sha256 C c) =
      fmt_iso8601 (sv_amz_date w) @ LF # ?scope w @ LF # hex_lower C (sha256 C d)"
    using assms by (simp add: string_for_def create_string_to_sign_def push_scope_def hex_sha256_def hex_bytes32_def Let_def)
  note top = append_sep_inject [OF fmt_iso8601_no_lf fmt_iso8601_no_lf eq]
  have len: "length (sha256 C c) = 32" "length (sha256 C d) = 32" by (simp_all add: sha256_def digest_length)
  from append_sep_inject_last [OF hex_no_lf [OF len(1)] hex_no_lf [OF len(2)] top [THEN conjunct2]]
  have "hex_lower C (sha256 C c) = hex_lower C (sha256 C d)" by blast
  with top len show ?thesis by (blast intro: hex_inject)
qed

lemma same_signature:
  assumes "signature_for C v c = signature_for C w d" and "key_for C v = key_for C w"
  shows "mac_collision C (key_for C v) (string_for C v c) (string_for C w d) \<or> digest_collision C c d
    \<or> c = d \<and> fmt_iso8601 (sv_amz_date v) = fmt_iso8601 (sv_amz_date w)"
proof -
  let ?m = "\<lambda>v c. hmac_sha256 C (key_for C v) (string_for C v c)"
  have "hex_lower C (?m v c) = hex_lower C (?m w d)"
    using assms(1) by (simp add: signature_for_def calculate_signature_def calculate_signature_with_key_def
        hex_bytes32_def key_for_def string_for_def Let_def)
  then have "?m v c = ?m w d" using hex_inject by (simp add: hmac_sha256_def mac_length)
  with assms(2) string_for_inject [of v c w d] show ?thesis
    by (auto simp: mac_collision_def digest_collision_def)
qed

end

interpretation plain_digest: digest_contract plain_crypto
  by unfold_locales (simp add: plain_crypto_def pad32_def)

definition path_line :: "bool \<Rightarrow> bytes \<Rightarrow> bytes" where
  "path_line raw u = (if raw then u else concat (map (uri_encode_byte False) u))"

lemma canonical_request_fields:
  assumes "LF \<notin> set m1" "LF \<notin> set m2" "r1 \<Longrightarrow> LF \<notin> set u1" "r2 \<Longrightarrow> LF \<notin> set u2"
    and "LF \<notin> set (payload_text p1)" "LF \<notin> set (payload_text p2)"
    and eq: "create_canonical_request_with_uri_mode m1 u1 q1 h1 p1 r1 = create_canonical_request_with_uri_mode m2 u2 q2 h2 p2 r2"
  shows "m1 = m2 \<and> path_line r1 u1 = path_line r2 u2 \<and> mset q1 = mset q2 \<and> payload_text p1 = payload_text p2"
proof -
  let ?q = "\<lambda>q. push_query [] (stable_sort_by_first (encode_query q))"
  let ?h = "\<lambda>h. push_canonical_headers [] h @ LF # push_signed_headers [] True h"
  have path: "LF \<notin> set (path_line r u)" if "r \<Longrightarrow> LF \<notin> set u" for r u
    using that uri_encode_safe [of False u] uri_safe_chars [of False] by (auto simp: path_line_def list_all_iff)
  have query: "LF \<notin> set (?q q)" for q using push_query_no_lf encode_query_ok by blast
  have lines: "m1 @ LF # path_line r1 u1 @ LF # ?q q1 @ LF # ?h h1 @ LF # payload_text p1 =
      m2 @ LF # path_line r2 u2 @ LF # ?q q2 @ LF # ?h h2 @ LF # payload_text p2"
    using eq by (simp add: canonical_request_lines path_line_def)
  note l1 = append_sep_inject [OF assms(1,2) lines]
  note l2 = append_sep_inject [OF path [OF assms(3)] path [OF assms(4)] l1 [THEN conjunct2]]
  note l3 = append_sep_inject [OF query query l2 [THEN conjunct2]]
  note l4 = append_sep_inject_last [OF assms(5,6) l3 [THEN conjunct2]]
  have "stable_sort_by_first (encode_query q1) = stable_sort_by_first (encode_query q2)"
    by (rule push_query_inject [OF encode_query_ok encode_query_ok l3 [THEN conjunct1]])
  then have "mset q1 = mset q2" by (rule encoded_query_mset)
  with l1 l2 l4 show ?thesis by blast
qed

lemma content_checksum_length:
  "extract_amz_content_sha256 E m = Inr (Some (SingleChunkSum c)) \<Longrightarrow> length c = 32"
  by (auto simp: extract_amz_content_sha256_def AmzContentSha256_parse_def parse_checksum_def split: option.splits if_splits)

text \<open>The payload lines have no line feed.\<close>

lemma payload_no_lf:
  assumes "digest_contract (env_crypto E)" and "signed_as E x cl pl hdrs canonical"
  shows "LF \<notin> set (payload_text pl)"
proof -
  let ?C = "env_crypto E"
  have pay: "fst (v4_payload E x (cl_content_sha256 cl) (aws_service (credential (cl_authorization cl)))) = Inr pl"
    and cl: "v4_header_claims E x = Inr cl"
    using assms(2) by (simp_all add: signed_as_def)
  have content: "extract_amz_content_sha256 E (hs x) = Inr (cl_content_sha256 cl)"
    using cl [unfolded header_claims_Inr] by blast
  have hex: "LF \<notin> set (hex_lower ?C b)" if "length b = 32" for b
    by (rule digest_contract.hex_no_lf [OF assms(1) that])
  have dig: "length (sha256 ?C b) = 32" for b
    using digest_contract.digest_length [OF assms(1)] by (simp add: sha256_def)
  show ?thesis
  proof (cases "cl_content_sha256 cl")
    case None
    then show ?thesis using pay hex [OF dig]
      by (auto simp: v4_payload_def hex_sha256_def hex_bytes32_def split: if_splits prod.splits sum.splits)
  next
    case (Some c)
    then show ?thesis using pay content hex [OF content_checksum_length]
      by (cases c) (auto simp: v4_payload_def hex_bytes32_def)
  qed
qed

definition request_line_of :: "sig_context \<Rightarrow> bool \<Rightarrow> bytes" where
  "request_line_of x raw = path_line raw (if raw then raw_uri_path x else decoded_uri_path x)"

lemma canonical_requests_mode:
  "c \<in> canonical_requests x hdrs pl \<longleftrightarrow>
     (\<exists>raw. (raw \<longrightarrow> has_unencoded_reserved_path_char (raw_uri_path x)) \<and>
        c = create_canonical_request_with_uri_mode (req_method x)
              (if raw then raw_uri_path x else decoded_uri_path x) (query_pairs x) hdrs pl raw)"
  by (auto simp: canonical_requests_def create_canonical_request_def create_canonical_request_with_raw_uri_path_def
      ex_bool_eq)

text \<open>
  C7: a signature cannot be moved to another request. When two requests with the same Authorization header are
  accepted under the same secret key, at whatever times, they have the same method, the same path, the same
  query parameters, the same date and the same payload line, unless their two canonical requests are a
  collision of the digest or their two strings to sign a collision of the MAC under the signing key.
\<close>

theorem header_signature_binds:
  assumes "digest_contract (env_crypto E)"
    and x: "v4_check_header_auth E x = Some (Inr creds, x')"
    and y: "v4_check_header_auth (E\<lparr>now := t\<rparr>) y = Some (Inr creds, y')"
    and "get_unique_header_str (hs x) ''authorization'' = get_unique_header_str (hs y) ''authorization''"
    and "LF \<notin> set (req_method x)" "LF \<notin> set (req_method y)" "LF \<notin> set (raw_uri_path x)" "LF \<notin> set (raw_uri_path y)"
  shows "\<exists>cl pl hx c cl' pl' hy d rx ry.
      signed_as E x cl pl hx c \<and> signed_as (E\<lparr>now := t\<rparr>) y cl' pl' hy d
    \<and> (mac_collision (env_crypto E) (key_for (env_crypto E) (v4_verifier x cl))
         (string_for (env_crypto E) (v4_verifier x cl) c) (string_for (env_crypto E) (v4_verifier y cl') d)
       \<or> digest_collision (env_crypto E) c d
       \<or> req_method x = req_method y \<and> request_line_of x rx = request_line_of y ry
         \<and> mset (query_pairs x) = mset (query_pairs y)
         \<and> get_unique_header_str (hs x) ''x-amz-date'' = get_unique_header_str (hs y) ''x-amz-date''
         \<and> payload_text pl = payload_text pl')"
proof -
  let ?C = "env_crypto E"
  obtain cl pl hx c where sx: "signed_as E x cl pl hx c" and cx: "creds = v4_credentials cl"
    by (rule header_auth_signed_as [OF x])
  obtain cl' pl' hy d where sy: "signed_as (E\<lparr>now := t\<rparr>) y cl' pl' hy d" and cy: "creds = v4_credentials cl'"
    by (rule header_auth_signed_as [OF y])
  note lx = sx [unfolded signed_as_def] and ly = sy [unfolded signed_as_def, simplified]
  note clx = lx [THEN conjunct1, unfolded header_claims_Inr] and cly = ly [THEN conjunct1, unfolded header_claims_Inr, simplified]
  obtain a b where a: "get_unique_header_str (hs x) ''authorization'' = Some a"
      "AuthorizationV4_parse (env_nom E) (date_ok E) a = Inr (cl_authorization cl)"
    and b: "get_unique_header_str (hs y) ''authorization'' = Some b"
      "AuthorizationV4_parse (env_nom E) (date_ok E) b = Inr (cl_authorization cl')"
    and scopes: "cred_date (credential (cl_authorization cl)) = fmt_date (cl_amz_date cl)"
      "cred_date (credential (cl_authorization cl')) = fmt_date (cl_amz_date cl')"
    using clx cly by blast
  have auth: "cl_authorization cl = cl_authorization cl'" using a b assms(4) by simp
  have dates: "fmt_date (cl_amz_date cl) = fmt_date (cl_amz_date cl')" using scopes auth by simp
  have secrets: "cl_secret_key cl = cl_secret_key cl'" using cx cy by (simp add: v4_credentials_def)
  have keys: "key_for ?C (v4_verifier x cl) = key_for ?C (v4_verifier y cl')"
    using auth dates secrets by (simp add: key_for_def v4_verifier_def derive_signing_key_def)
  have "signature_for ?C (v4_verifier x cl) c = signature_for ?C (v4_verifier y cl') d"
    using lx ly auth by simp
  from digest_contract.same_signature [OF assms(1) this keys]
  consider "mac_collision ?C (key_for ?C (v4_verifier x cl)) (string_for ?C (v4_verifier x cl) c) (string_for ?C (v4_verifier y cl') d)"
    | "digest_collision ?C c d"
    | "c = d" "fmt_iso8601 (cl_amz_date cl) = fmt_iso8601 (cl_amz_date cl')"
    by (auto simp: v4_verifier_def)
  then show ?thesis
  proof cases
    case 3
    obtain rx ry where mode: "create_canonical_request_with_uri_mode (req_method x)
          (if rx then raw_uri_path x else decoded_uri_path x) (query_pairs x) hx pl rx =
        create_canonical_request_with_uri_mode (req_method y)
          (if ry then raw_uri_path y else decoded_uri_path y) (query_pairs y) hy pl' ry"
      using lx ly 3(1) unfolding canonical_requests_mode by auto
    have "LF \<notin> set (payload_text pl)" by (rule payload_no_lf [OF assms(1) sx])
    moreover have "LF \<notin> set (payload_text pl')" by (rule payload_no_lf [OF _ sy]) (simp add: assms(1))
    ultimately have "req_method x = req_method y \<and> request_line_of x rx = request_line_of y ry
        \<and> mset (query_pairs x) = mset (query_pairs y) \<and> payload_text pl = payload_text pl'"
      using canonical_request_fields [OF assms(5,6) _ _ _ _ mode] assms(7,8) by (simp add: request_line_of_def)
    moreover have "get_unique_header_str (hs x) ''x-amz-date'' = get_unique_header_str (hs y) ''x-amz-date''"
    proof -
      obtain u v where "get_unique_header_str (hs x) ''x-amz-date'' = Some u" "AmzDate_parse u = Some (cl_amz_date cl)"
        "get_unique_header_str (hs y) ''x-amz-date'' = Some v" "AmzDate_parse v = Some (cl_amz_date cl')"
        using clx cly by blast
      with 3(2) show ?thesis by (simp add: AmzDate_parse_Some)
    qed
    ultimately show ?thesis using sx sy by blast
  qed (use sx sy in blast)+
qed

theorem header_signature_binds_witness:
  "\<exists>cl pl hx c cl' pl' hy d. signed_as plain_env plain_request cl pl hx c \<and> signed_as plain_env plain_request cl' pl' hy d \<and>
     (mac_collision plain_crypto (key_for plain_crypto (v4_verifier plain_request cl))
        (string_for plain_crypto (v4_verifier plain_request cl) c) (string_for plain_crypto (v4_verifier plain_request cl') d)
      \<or> digest_collision plain_crypto c d \<or> payload_text pl = payload_text pl')"
proof -
  have same: "plain_env\<lparr>now := 30000000000\<rparr> = plain_env" by (simp add: plain_env_def)
  have lf: "LF \<notin> set (req_method plain_request)" "LF \<notin> set (raw_uri_path plain_request)"
    by (simp_all add: plain_request_def)
  have contract: "digest_contract (env_crypto plain_env)"
    by (simp add: plain_digest.digest_contract_axioms)
  have again: "v4_check_header_auth (plain_env\<lparr>now := 30000000000\<rparr>) plain_request =
      Some (Inr (v4_credentials plain_claims), wrap_upload plain_env plain_request 4 (pad32 ''data''))"
    unfolding same by (rule plain_accepted)
  show ?thesis
    using header_signature_binds [OF contract plain_accepted again refl lf(1,1,2,2)] unfolding same plain_crypto_env by blast
qed

section \<open>The body of an accepted request\<close>

text \<open>What a reader of a body gets that is wrapped in the digest check is what draining the check gives.\<close>

lemma outcomes_dyn_upload:
  "UploadStream_poll_next C s = (p, s1) \<Longrightarrow>
   outcomes C (Body_dyn_stream (DynUpload s)) =
     (case p of
        Pending \<Rightarrow> BodyPending # outcomes C (Body_dyn_stream (DynUpload s1))
      | Ready None \<Rightarrow> []
      | Ready (Some (Inl e)) \<Rightarrow> [BodyItem (Inl (body_error_text (UploadFailure e)))]
      | Ready (Some (Inr bs)) \<Rightarrow> BodyItem (Inr bs) # outcomes C (Body_dyn_stream (DynUpload s1)))"
  by (subst outcomes.simps, subst Body_poll_next.simps)
    (auto simp: Body_dyn_stream_def poll_frame_def map_poll_err_def frame_of_data_def split: poll.split option.split sum.split)

lemma outcomes_upload_drain:
  "upload_drain k C s = Some (ys, r) \<Longrightarrow>
   body_data (outcomes C (Body_dyn_stream (DynUpload s))) =
     (filter (\<lambda>y. y \<noteq> []) ys, map_option (\<lambda>e. body_error_text (UploadFailure e)) r)"
proof (induction k arbitrary: s ys r)
  case (Suc k)
  obtain p s1 where p: "UploadStream_poll_next C s = (p, s1)" by (cases "UploadStream_poll_next C s")
  show ?case
    using Suc p outcomes_dyn_upload [OF p]
    by (cases p rule: poll.exhaust) (auto split: option.splits sum.splits)
qed simp

lemma install_body_single:
  assumes "v4_check_header_auth E x = Some (Inr creds, x')"
    and "extract_amz_content_sha256 E (hs x) = Inr (Some (SingleChunkSum expected))"
  obtains cl hdrs canonical len where "signed_as E x cl (SingleChunk (hex_lower (env_crypto E) expected)) hdrs canonical"
    and "upload_length x = Inr len" and "x' = wrap_upload E x len expected"
proof -
  obtain cl pl x1 sig where cl: "v4_header_claims E x = Inr cl"
    and pl: "v4_payload E x (cl_content_sha256 cl) (aws_service (credential (cl_authorization cl))) = (Inr pl, x1)"
    and inst: "v4_install_body E x1 cl sig = Some (Inr (), x')"
    using v4_check_header_Inr [OF assms(1)] by metis
  have content: "cl_content_sha256 cl = Some (SingleChunkSum expected)"
    using cl [unfolded header_claims_Inr] assms(2) by auto
  then have x1: "x1 = x" using pl by (simp add: v4_payload_def)
  obtain len where "upload_length x = Inr len" "x' = wrap_upload E x len expected"
    using inst content by (auto simp: x1 v4_install_body_def split: sum.splits)
  moreover obtain cl' pl' hdrs canonical where s: "signed_as E x cl' pl' hdrs canonical"
    by (rule header_auth_signed_as [OF assms(1)])
  then have "cl' = cl" "pl' = SingleChunk (hex_lower (env_crypto E) expected)"
    using cl content by (auto simp: signed_as_def v4_payload_def hex_bytes32_def)
  ultimately show thesis using s that by blast
qed

lemma wrapped_body:
  fixes x :: sig_context
  defines "before \<equiv> \<lambda>E. body_data (outcomes (env_crypto E) (req_body x))"
  shows "\<exists>ys r. body_data (outcomes (env_crypto E) (req_body (wrap_upload E x len expected))) = (ys, r)
    \<and> prefix ys (fst (before E)) \<and> length (concat ys) \<le> len
    \<and> (r = None \<longleftrightarrow> snd (before E) = None \<and> length (concat (fst (before E))) = len
         \<and> sha256_chunk (env_crypto E) (fst (before E)) = expected)
    \<and> (r = None \<longrightarrow> ys = fst (before E))"
proof -
  let ?evs = "outcomes (env_crypto E) (req_body x)"
  obtain ys r where d: "upload_drain (Suc (length ?evs)) (env_crypto E) (UploadStream_new ?evs len expected) = Some (ys, r)"
    "prefix ys (fst (before E))" "[] \<notin> set ys" "length (concat ys) \<le> len"
    "r = None \<longleftrightarrow> snd (before E) = None \<and> length (concat (fst (before E))) = len
         \<and> sha256_chunk (env_crypto E) (fst (before E)) = expected" "r = None \<longrightarrow> ys = fst (before E)"
    using drained_new [of ?evs "Suc (length ?evs)" "env_crypto E" expected len] unfolding drained_def before_def by auto
  have "filter (\<lambda>y. y \<noteq> []) ys = ys" using d(3) by (induction ys) auto
  with outcomes_upload_drain [OF d(1)] d show ?thesis by (auto simp: wrap_upload_def)
qed

text \<open>
  C3: the body of an accepted request with a content digest is bound to the signature. The digest is the payload
  line of the canonical request that was signed, and whoever reads the body that the operation gets
  receives a prefix of what the client sent, never more than the declared length, and reaches the end without
  an error exactly when the client's body ends without one, has the declared length and has
  the signed digest.
\<close>

theorem signed_payload_verified:
  assumes "v4_check_header_auth E x = Some (Inr creds, x')"
    and "extract_amz_content_sha256 E (hs x) = Inr (Some (SingleChunkSum expected))"
  shows "\<exists>cl hdrs canonical len ys r.
      signed_as E x cl (SingleChunk (hex_lower (env_crypto E) expected)) hdrs canonical
    \<and> upload_length x = Inr len
    \<and> body_data (outcomes (env_crypto E) (req_body x')) = (ys, r)
    \<and> prefix ys (fst (body_data (outcomes (env_crypto E) (req_body x)))) \<and> length (concat ys) \<le> len
    \<and> (r = None \<longleftrightarrow> snd (body_data (outcomes (env_crypto E) (req_body x))) = None
         \<and> length (concat (fst (body_data (outcomes (env_crypto E) (req_body x))))) = len
         \<and> sha256_chunk (env_crypto E) (fst (body_data (outcomes (env_crypto E) (req_body x)))) = expected)
    \<and> (r = None \<longrightarrow> ys = fst (body_data (outcomes (env_crypto E) (req_body x))))"
proof -
  obtain cl hdrs canonical len where
    "signed_as E x cl (SingleChunk (hex_lower (env_crypto E) expected)) hdrs canonical"
    "upload_length x = Inr len" and x': "x' = wrap_upload E x len expected"
    by (rule install_body_single [OF assms])
  with wrapped_body [of E x len expected] show ?thesis by blast
qed

theorem signed_payload_verified_witness:
  "\<exists>ys. body_data (outcomes plain_crypto (req_body (wrap_upload plain_env plain_request 4 (pad32 ''data'')))) = (ys, None)
     \<and> ys = [''data'']"
proof -
  have body: "body_data (outcomes plain_crypto (req_body plain_request)) = ([''data''], None)"
    by (simp add: outcomes.simps Body_poll_next.simps poll_frame_def Body_once_def plain_request_def)
  have sum: "sha256_chunk plain_crypto [''data''] = pad32 ''data''" by (simp add: sha256_chunk_def plain_crypto_def)
  have len: "upload_length plain_request = Inr 4" by (simp add: upload_length_def plain_request_def)
  from signed_payload_verified [OF plain_accepted, unfolded plain_request_headers, OF plain_content]
  show ?thesis by (auto simp: body sum len)
qed

text \<open>The same for a body in signed chunks.\<close>

lemma outcomes_dyn_chunked:
  "AwsChunkedStream_poll s = (p, s1) \<Longrightarrow>
   outcomes C (Body_dyn_stream (DynChunked s)) =
     (case p of
        None \<Rightarrow> []
      | Some (Inl e) \<Rightarrow> [BodyItem (Inl (body_error_text (ChunkedFailure e)))]
      | Some (Inr bs) \<Rightarrow> BodyItem (Inr bs) # outcomes C (Body_dyn_stream (DynChunked s1)))"
  by (subst outcomes.simps, subst Body_poll_next.simps)
    (auto simp: Body_dyn_stream_def poll_frame_def map_poll_err_def frame_of_data_def split: option.split sum.split)

lemma chunked_data:
  assumes "inner st = map Inr ys @ es" and "es = [] \<or> (\<exists>e. es = [Inl e])"
  shows "prefix (concat (fst (body_data (outcomes C (Body_dyn_stream (DynChunked st)))))) (concat ys)
    \<and> (snd (body_data (outcomes C (Body_dyn_stream (DynChunked st)))) = None \<longrightarrow>
         concat (fst (body_data (outcomes C (Body_dyn_stream (DynChunked st))))) = concat ys
         \<and> length (concat ys) = remaining_length st)"
  using assms(1)
proof (induction ys arbitrary: st)
  case Nil
  obtain p s1 where p: "AwsChunkedStream_poll st = (p, s1)" by (cases "AwsChunkedStream_poll st")
  show ?case
    using outcomes_dyn_chunked [OF p, of C] p Nil assms(2)
    by (auto simp: AwsChunkedStream_poll_def split: if_splits)
next
  case (Cons y ys)
  show ?case
  proof (cases "y \<noteq> [] \<and> remaining_length st < length y")
    case True
    have "AwsChunkedStream_poll st = (Some (Inl LengthMismatch), st\<lparr>inner := map Inr ys @ es\<rparr>)"
      using Cons.prems True by (simp add: AwsChunkedStream_poll_def)
    from outcomes_dyn_chunked [OF this, of C] show ?thesis by simp
  next
    case False
    let ?s = "st\<lparr>inner := map Inr ys @ es, remaining_length := remaining_length st - length y\<rparr>"
    have "AwsChunkedStream_poll st = (Some (Inr y), ?s)"
      using Cons.prems False by (auto simp: AwsChunkedStream_poll_def)
    from outcomes_dyn_chunked [OF this, of C] Cons.IH [of ?s] False show ?thesis
      by (auto simp: linorder_not_less)
  qed
qed

lemma install_body_chunked:
  assumes "v4_check_header_auth E x = Some (Inr creds, x')"
    and "extract_amz_content_sha256 E (hs x) = Inr (Some content)" and "is_streaming content"
  obtains cl pl hdrs canonical len seed st where "signed_as E x cl pl hdrs canonical"
    and "decoded_content_length x = Some len"
    and "Sha256Sum_from_hex (env_crypto E) (signature (cl_authorization cl)) = Some seed"
    and "AwsChunkedStream_new (env_memchr E) (env_nom E) (env_crypto E) (env_http E)
           (awaited (outcomes (env_crypto E) (req_body x))) seed (cl_amz_date cl)
           (aws_region (credential (cl_authorization cl))) (aws_service (credential (cl_authorization cl)))
           (cl_secret_key cl) len (content = StreamingUnsignedPayloadTrailer)
           (aws_chunked_stream_max_chunk_size (sc_config x)) = Some st"
    and "x' = x\<lparr>req_body := Body_empty, transformed_body := Some (Body_dyn_stream (DynChunked st)),
                trailing_headers := Some (trailers st)\<rparr>"
proof -
  obtain cl pl x1 sig where cl: "v4_header_claims E x = Inr cl"
    and pl: "v4_payload E x (cl_content_sha256 cl) (aws_service (credential (cl_authorization cl))) = (Inr pl, x1)"
    and sig: "v4_verify_header E x1 cl pl = Inr sig"
    and inst: "v4_install_body E x1 cl sig = Some (Inr (), x')"
    using v4_check_header_Inr [OF assms(1)] by metis
  have content: "cl_content_sha256 cl = Some content" and exp: "cl_expected_signature cl = signature (cl_authorization cl)"
    using cl [unfolded header_claims_Inr] assms(2) by auto
  have x1: "x1 = x" using v4_payload_context [OF pl] content by auto
  have s: "sig = signature (cl_authorization cl)" using verify_header_Inr [OF sig] exp by metis
  obtain cl' pl' hdrs canonical where sg: "signed_as E x cl' pl' hdrs canonical"
    by (rule header_auth_signed_as [OF assms(1)])
  then have "cl' = cl" using cl by (simp add: signed_as_def)
  with sg inst content assms(3) show thesis
    using that by (auto simp: x1 s v4_install_body_def v4_install_chunked_def split: if_splits option.splits)
qed

definition seeded :: "crypto_api \<Rightarrow> v4_claims \<Rightarrow> bytes \<Rightarrow> signature_ctx" where
  "seeded C cl seed =
     (let region = aws_region (credential (cl_authorization cl)); service = aws_service (credential (cl_authorization cl))
      in \<lparr>ctx_amz_date = cl_amz_date cl, ctx_region = region, ctx_service = service,
          ctx_signing_key = derive_signing_key C (cl_secret_key cl) (cl_amz_date cl) region service, ctx_prev_signature = seed\<rparr>)"

text \<open>
  C10: the body of an accepted request that is sent in signed chunks is bound to the signature of the request. The
  operation reads only the decoded body, the raw one is gone; what it reads is a prefix of the data of a
  chain of chunks in which every signature was verified and the first one continues the signature of
  the Authorization header, and it reaches the end without an error only when it has read the data of all those
  chunks and this has the declared length.
\<close>

theorem signed_chunks_verified:
  assumes "v4_check_header_auth E x = Some (Inr creds, x')"
    and "extract_amz_content_sha256 E (hs x) = Inr (Some content)"
    and "content = StreamingAws4HmacSha256Payload \<or> content = StreamingAws4HmacSha256PayloadTrailer"
  shows "\<exists>cl pl hdrs canonical len seed b cs.
      signed_as E x cl pl hdrs canonical \<and> decoded_content_length x = Some len
    \<and> Sha256Sum_from_hex (env_crypto E) (signature (cl_authorization cl)) = Some seed
    \<and> req_body x' = Body_empty \<and> transformed_body x' = Some b
    \<and> chained (env_crypto E) (seeded (env_crypto E) cl seed) cs
    \<and> prefix (concat (fst (body_data (outcomes (env_crypto E) b)))) (concat (concat (map snd cs)))
    \<and> (snd (body_data (outcomes (env_crypto E) b)) = None \<longrightarrow>
         concat (fst (body_data (outcomes (env_crypto E) b))) = concat (concat (map snd cs))
         \<and> length (concat (concat (map snd cs))) = len)"
proof -
  let ?C = "env_crypto E"
  have streaming: "is_streaming content" and mode: "content \<noteq> StreamingUnsignedPayloadTrailer" using assms(3) by auto
  obtain cl pl hdrs canonical len seed st where s: "signed_as E x cl pl hdrs canonical"
    "decoded_content_length x = Some len" "Sha256Sum_from_hex ?C (signature (cl_authorization cl)) = Some seed"
    and new: "AwsChunkedStream_new (env_memchr E) (env_nom E) ?C (env_http E)
           (awaited (outcomes ?C (req_body x))) seed (cl_amz_date cl)
           (aws_region (credential (cl_authorization cl))) (aws_service (credential (cl_authorization cl)))
           (cl_secret_key cl) len (content = StreamingUnsignedPayloadTrailer)
           (aws_chunked_stream_max_chunk_size (sc_config x)) = Some st"
    and x': "x' = x\<lparr>req_body := Body_empty, transformed_body := Some (Body_dyn_stream (DynChunked st)),
                trailing_headers := Some (trailers st)\<rparr>"
    by (rule install_body_chunked [OF assms(1,2) streaming])
  obtain k body ys r where w: "worker k (env_memchr E) (env_nom E) ?C (env_http E) (seeded ?C cl seed) False
        (aws_chunked_stream_max_chunk_size (sc_config x)) body [] = Some (ys, r)"
    and st: "inner st = map Inr ys @ (case r of Inl e \<Rightarrow> [Inl e] | Inr _ \<Rightarrow> [])" "remaining_length st = len"
    using new mode by (auto simp: AwsChunkedStream_new_def seeded_def Let_def simp del: worker.simps split: option.splits)
  obtain cs where cs: "chained ?C (seeded ?C cl seed) cs" "ys = concat (map snd cs)"
    using signed_mode_only_verified [OF w] by blast
  have "(case r of Inl e \<Rightarrow> [Inl e] | Inr _ \<Rightarrow> []) = [] \<or> (\<exists>e. (case r of Inl e \<Rightarrow> [Inl e] | Inr _ \<Rightarrow> []) = [Inl e])"
    by (cases r) auto
  note data = chunked_data [OF st(1) this, of ?C, unfolded cs(2) st(2)]
  have "req_body x' = Body_empty" "transformed_body x' = Some (Body_dyn_stream (DynChunked st))" by (simp_all add: x')
  with s cs(1) data [THEN conjunct1] data [THEN conjunct2] show ?thesis by - (intro exI conjI; assumption)
qed

theorem signed_chunks_verified_witness:
  "\<exists>creds x' cl seed b cs. v4_check_header_auth plain_env (streaming_request ''2'' 2) = Some (Inr creds, x')
     \<and> transformed_body x' = Some b \<and> chained plain_crypto (seeded plain_crypto cl seed) cs
     \<and> prefix (concat (fst (body_data (outcomes plain_crypto b)))) (concat (concat (map snd cs)))"
proof -
  have content: "extract_amz_content_sha256 plain_env (hs (streaming_request ''2'' 2)) = Inr (Some StreamingAws4HmacSha256Payload)"
    using streaming_content by (simp add: streaming_request_def)
  obtain creds x' where acc: "v4_check_header_auth plain_env (streaming_request ''2'' 2) = Some (Inr creds, x')"
    using streaming_accepted by blast
  obtain cl seed b cs where "transformed_body x' = Some b" "chained plain_crypto (seeded plain_crypto cl seed) cs"
    "prefix (concat (fst (body_data (outcomes plain_crypto b)))) (concat (concat (map snd cs)))"
    using signed_chunks_verified [OF acc content disjI1 [OF refl], unfolded plain_crypto_env] by (elim exE conjE)
  with acc show ?thesis by (intro exI conjI)
qed

end
