(* ===== verification/Signature_Dispatch.thy ===== *)
theory Signature_Dispatch
  imports Signature_Example
begin

text \<open>
  The dispatch of the signature check: that it always answers, which requests it lets through as anonymous,
  what the switches of the configuration rule out, and what presigned URLs and POST forms establish.
\<close>

section \<open>The steps, inverted\<close>

lemma header_auth_total:
  assumes "byte_search (env_memchr E)" and "crypto_contract (env_crypto E)"
  shows "v4_check_header_auth E x \<noteq> None"
proof -
  have inst: "v4_install_body E x1 cl sig \<noteq> None" for x1 cl sig
    by (auto simp: v4_install_body_def v4_install_chunked_def chunked_new_total [OF assms]
        split: option.splits sum.splits amz_content_sha256.splits)
  show ?thesis
    by (auto simp: v4_check_header_auth_def inst split: sum.splits prod.splits option.splits)
qed

text \<open>The form of a request, as the check reads it.\<close>

definition form_limits :: "sig_context \<Rightarrow> multipart_limits" where
  "form_limits x = \<lparr>max_field_size = form_max_field_size (sc_config x), max_fields_size = form_max_fields_size (sc_config x),
     max_parts = form_max_parts (sc_config x)\<rparr>"

definition form_of :: "sig_env \<Rightarrow> sig_context \<Rightarrow> bytes \<Rightarrow> (multipart_error + post_form \<times> file_stream) option" where
  "form_of E x bd = transform_multipart (env_memchr E) (env_httparse E)
     (form_events (outcomes (env_crypto E) (req_body x))) bd (form_limits x) (content_length x)"

lemma form_of_total: "form_max_parts (sc_config x) < 2 ^ 64 - 1 \<Longrightarrow> form_of E x bd \<noteq> None"
  using transform_multipart_total [of "form_limits x"] by (fastforce simp: form_of_def form_limits_def)

lemma check_post_cases:
  assumes "sc_mime x = Some mime" and "mime_boundary mime = Some bd"
  shows "check_post_signature E x =
    (case form_of E x bd of
       None \<Rightarrow> None
     | Some (Inl e) \<Rightarrow> Some (Inl MalformedPOSTRequest, x\<lparr>req_body := Body_empty\<rparr>)
     | Some (Inr m) \<Rightarrow>
         Some (if find_field_value (fst m) ''x-amz-signature'' = None \<and> find_field_value (fst m) ''signature'' = None
               then (Inr None, x\<lparr>req_body := Body_empty, sc_multipart := Some m\<rparr>)
               else if \<not> allow_post_signature (sc_config x) then (Inl AccessDenied, x\<lparr>req_body := Body_empty\<rparr>)
               else if find_field_value (fst m) ''x-amz-signature'' \<noteq> None
               then signed_in (v4_check_post_signature E (x\<lparr>req_body := Body_empty\<rparr>) m)
               else signed_in (v2_check_post_signature E (x\<lparr>req_body := Body_empty\<rparr>) m)))"
  using assms
  by (auto simp: check_post_signature_def form_of_def form_limits_def Let_def ensure_post_signature_enabled_def refuse_if_def
      split: option.splits sum.splits)

text \<open>The check of a signature always answers: neither the decoder of chunks nor the parser of forms runs forever.\<close>

lemma check_total:
  assumes "byte_search (env_memchr E)" and "crypto_contract (env_crypto E)" and "form_max_parts (sc_config x) < 2 ^ 64 - 1"
  shows "\<exists>r x'. check E x = Some (r, x')"
proof -
  have "check_post_signature E x \<noteq> None"
    using form_of_total [OF assms(3)] check_post_cases [of x]
    by (cases "sc_mime x"; cases "mime_boundary (the (sc_mime x))")
      (auto simp: check_post_signature_def split: option.splits sum.splits)
  then show ?thesis
    using header_auth_total [OF assms(1,2), of x]
    by (auto simp: check_def v4_check_def signed_in_def split: option.splits)
qed

section \<open>Who is let through\<close>

definition in_query :: "sig_context \<Rightarrow> bytes \<Rightarrow> bool" where
  "in_query x name \<longleftrightarrow> (case sc_qs x of Some q \<Rightarrow> has q name | None \<Rightarrow> False)"

lemma signed_in_None [simp]: "signed_in r \<noteq> (Inr None, y)"
  by (cases r; cases "fst r") (auto simp: signed_in_def)

lemma signed_in_Some [simp]: "signed_in r = (Inr (Some c), y) \<longleftrightarrow> r = (Inr c, y)"
  by (cases r; cases "fst r") (auto simp: signed_in_def)

lemma check_not_form:
  assumes "\<not> is_form_post x"
  shows "check E x =
    (if in_query x ''Signature'' then Some (signed_in (and_then (ensure_presigned_url_enabled x) (\<lambda>_. v2_check_presigned_url E x), x))
     else (case get_unique_header_str (hs x) ''authorization'' of
        Some a \<Rightarrow>
          (case AuthorizationV2_parse a of
             Some auth_v2 \<Rightarrow> Some (signed_in (v2_check_header_auth E x auth_v2, x))
           | None \<Rightarrow>
               if in_query x ''X-Amz-Signature''
               then Some (signed_in (case ensure_presigned_url_enabled x of Inl e \<Rightarrow> (Inl e, x) | Inr _ \<Rightarrow> v4_check_presigned_url E x))
               else map_option signed_in (v4_check_header_auth E x))
      | None \<Rightarrow>
          if in_query x ''X-Amz-Signature''
          then Some (signed_in (case ensure_presigned_url_enabled x of Inl e \<Rightarrow> (Inl e, x) | Inr _ \<Rightarrow> v4_check_presigned_url E x))
          else Some (Inr None, x)))"
  using assms by (auto simp: check_def v2_check_def v4_check_def in_query_def split: option.splits)


text \<open>The secret key of accepted credentials is the one that the key store has for their access key.\<close>

definition from_key_store :: "sig_context \<Rightarrow> credentials_ext \<Rightarrow> bool" where
  "from_key_store x creds \<longleftrightarrow> (\<exists>f. sc_auth x = Some f \<and> f (cr_access_key creds) = Inr (cr_secret_key creds))"

lemma header_key_store:
  assumes "v4_check_header_auth E x = Some (Inr creds, x')"
  shows "from_key_store x creds \<and> cr_region creds \<noteq> None"
proof -
  obtain cl where "v4_header_claims E x = Inr cl" "creds = v4_credentials cl" using v4_check_header_Inr [OF assms] by metis
  then show ?thesis unfolding header_claims_Inr by (auto simp: from_key_store_def v4_credentials_def)
qed

lemma presigned_key_store:
  "v4_check_presigned_url E x = (Inr creds, x') \<Longrightarrow> from_key_store x creds \<and> cr_region creds \<noteq> None"
  by (auto simp: v4_check_presigned_url_def v4_presigned_claims_def s3_results from_key_store_def Let_def
      split: sum.splits option.splits amz_content_sha256.splits)

lemma post_key_store:
  "v4_check_post_signature E x m = (Inr creds, x') \<Longrightarrow> from_key_store x creds \<and> cr_region creds \<noteq> None"
  by (auto simp: v4_check_post_signature_def v4_post_credentials_def s3_results from_key_store_def split: sum.splits)

lemma v2_key_store:
  "v2_check_header_auth E x a = Inr creds \<Longrightarrow> from_key_store x creds \<and> enable_sig_v2 (sc_config x)"
  "v2_check_presigned_url E x = Inr creds \<Longrightarrow> from_key_store x creds \<and> enable_sig_v2 (sc_config x)"
  "v2_check_post_signature E x m = (Inr creds, x') \<Longrightarrow> from_key_store x creds \<and> enable_sig_v2 (sc_config x)"
  by (auto simp: v2_check_header_auth_def v2_check_presigned_url_def v2_check_post_signature_def v2_post_credentials_def
      ensure_v2_enabled_def v2_credentials_def s3_results from_key_store_def split: sum.splits)

lemma key_store_body [simp]: "from_key_store (x\<lparr>req_body := b\<rparr>) creds = from_key_store x creds"
  by (simp add: from_key_store_def)

lemma checked_as_configured:
  assumes "check E x = Some (Inr (Some creds), x')"
  shows "from_key_store x creds
    \<and> (\<not> enable_sig_v2 (sc_config x) \<longrightarrow> cr_region creds \<noteq> None)
    \<and> (\<not> allow_presigned_url (sc_config x) \<and> \<not> is_form_post x \<longrightarrow>
         \<not> in_query x ''Signature'' \<and> get_unique_header_str (hs x) ''authorization'' \<noteq> None)
    \<and> (is_form_post x \<longrightarrow> allow_post_signature (sc_config x))"
proof (cases "is_form_post x")
  case True
  then obtain mime where m: "sc_mime x = Some mime" by (auto simp: is_form_post_def split: option.splits)
  with assms True obtain bd where bd: "mime_boundary mime = Some bd"
    by (cases "mime_boundary mime") (auto simp: check_def check_post_signature_def)
  show ?thesis
    using assms True check_post_cases [OF m bd, of E] post_key_store v2_key_store(3)
    by (fastforce simp: check_def split: option.splits sum.splits if_splits)
next
  case False
  have ens: "ensure_presigned_url_enabled x = Inr u \<longleftrightarrow> allow_presigned_url (sc_config x)" for u
    by (simp add: ensure_presigned_url_enabled_def s3_results)
  show ?thesis
    using assms False ens
    by (auto simp: check_not_form s3_results split: option.splits if_splits sum.splits
        dest!: header_key_store presigned_key_store v2_key_store(1,2))
qed

text \<open>
  C13: the switches of the configuration hold on every path. A request that is let through with credentials has a secret
  key that the key store returned for its access key (so without a key store there is none), has a SigV4
  signature unless SigV2 is enabled, does not rest on a presigned URL unless these are allowed, and is not a form
  unless signed forms are allowed.
\<close>

theorem authenticated_as_configured:
  assumes "check E x = Some (Inr (Some creds), x')"
  shows "from_key_store x creds
    \<and> (\<not> enable_sig_v2 (sc_config x) \<longrightarrow> cr_region creds \<noteq> None)
    \<and> (\<not> allow_presigned_url (sc_config x) \<and> \<not> is_form_post x \<longrightarrow>
         \<not> in_query x ''Signature'' \<and> get_unique_header_str (hs x) ''authorization'' \<noteq> None)
    \<and> (is_form_post x \<longrightarrow> allow_post_signature (sc_config x))"
  by (rule checked_as_configured [OF assms])

lemma plain_checked:
  "check plain_env plain_request = Some (Inr (Some (v4_credentials plain_claims)), wrap_upload plain_env plain_request 4 (pad32 ''data''))"
proof -
  have "AuthorizationV2_parse plain_authorization_text = None" by code_simp
  moreover have "\<not> is_form_post plain_request" "\<not> in_query plain_request n" for n
    by (simp_all add: plain_request_def request_with_def is_form_post_def in_query_def)
  moreover have "get_unique_header_str (hs plain_request) ''authorization'' = Some plain_authorization_text"
    by (simp add: plain_request_def header_values)
  ultimately show ?thesis by (simp add: check_not_form plain_accepted signed_in_def)
qed

theorem authenticated_as_configured_witness:
  "\<not> enable_sig_v2 (sc_config plain_request) \<and> from_key_store plain_request (v4_credentials plain_claims)
     \<and> cr_region (v4_credentials plain_claims) \<noteq> None"
proof -
  have "\<not> enable_sig_v2 (sc_config plain_request)" by (simp add: plain_request_def S3Config_default_def)
  with authenticated_as_configured [OF plain_checked] show ?thesis by blast
qed

section \<open>Presigned URLs\<close>

text \<open>A presigned URL is used in time: not before its date, but for the skew, and not after it expires.\<close>

definition in_time :: "sig_env \<Rightarrow> s3_config \<Rightarrow> presigned_url_v4 \<Rightarrow> bool" where
  "in_time E config p \<longleftrightarrow>
     (\<exists>date d. AmzDate_to_time E (pre_amz_date p) = Some date \<and> elapsed E (now E) date = Some d
        \<and> - max_skew_time config \<le> d \<and> d \<le> int (pre_expires p) * 1000000000)"

lemma not_expired_Inr [s3_results]:
  "presigned_not_expired E p config = Inr u \<longleftrightarrow> in_time E config p"
proof -
  have "0 \<le> max_skew_time config" by (simp add: max_skew_time_def)
  then have "(\<not> (d < 0 \<and> \<bar>d\<bar> > max_skew_time config) \<and> \<not> d > int (pre_expires p) * 1000000000) \<longleftrightarrow>
      - max_skew_time config \<le> d \<and> d \<le> int (pre_expires p) * 1000000000" for d
    by auto
  then show ?thesis by (auto simp: presigned_not_expired_def in_time_def s3_results)
qed

text \<open>
  C12: a presigned URL that is accepted was made by the owner of a key and is used in time. Its parameters parse,
  its lifetime is within the configured maximum and the request comes at most the clock skew before its date
  and at most its lifetime after it; region and service are the configured ones, the secret key is the
  one of the key store, the signature is the one that key gives for the canonical form of this very
  request, every value of every x-amz header (but for the exempted ones) is in the signed part of that form, and a
  payload in chunks is refused.
\<close>

theorem presigned_url_sound:
  assumes "v4_check_presigned_url E x = (Inr creds, x')" and "lower_case_names (hs x)"
  shows "\<exists>p f hdrs canonical content.
      PresignedUrlV4_parse (env_nom E) (date_ok E) (query_pairs x) (presigned_url_max_expires_secs (sc_config x)) = Some p
    \<and> pre_algorithm p = ''AWS4-HMAC-SHA256'' \<and> cred_date (pre_credential p) = fmt_date (pre_amz_date p)
    \<and> in_time E (sc_config x) p
    \<and> (\<forall>e. expected_region (sc_config x) = Some e \<longrightarrow> aws_region (pre_credential p) = e)
    \<and> aws_service (pre_credential p) \<in> set (sig_v4_allowed_services (sc_config x))
    \<and> sc_auth x = Some f \<and> cr_access_key creds = access_key_id (pre_credential p)
    \<and> f (cr_access_key creds) = Inr (cr_secret_key creds)
    \<and> canonical \<in> presigned_requests x hdrs
    \<and> pre_signature p =
        signature_for (env_crypto E) (presigned_verifier x p (cr_secret_key creds) (pre_signature p)) canonical
    \<and> (\<forall>(n, v) \<in> set (hs x). \<not> may_be_unsigned (sc_config x) n \<longrightarrow> (\<exists>s. eq_ignore_ascii_case s n \<and> (s, v) \<in> set hdrs))
    \<and> extract_amz_content_sha256 E (hs x) = Inr content \<and> (\<forall>c. content = Some c \<longrightarrow> \<not> is_streaming c)"
proof -
  obtain p content secret s where cl: "v4_presigned_claims E x = Inr (p, content, secret)"
    and v: "v4_verify_presigned E x p secret = Inr s"
    and creds: "cr_access_key creds = access_key_id (pre_credential p)" "cr_secret_key creds = secret"
    using assms(1)
    by (auto simp: v4_check_presigned_url_def and_then_Inr Let_def split: sum.splits option.splits amz_content_sha256.splits)
  obtain hdrs canonical where c: "collect_signed_headers (hs x) (signed_host_fallback x) (pre_signed_headers p) = Inr hdrs"
    "reject_unsigned_amz_headers (sc_config x) (hs x) (pre_signed_headers p) = Inr ()"
    "canonical \<in> presigned_requests x hdrs"
    "pre_signature p = signature_for (env_crypto E) (presigned_verifier x p secret (pre_signature p)) canonical"
    using verify_presigned_Inr [OF v] by metis
  have cover: "\<forall>(n, v) \<in> set (hs x). \<not> may_be_unsigned (sc_config x) n \<longrightarrow> (\<exists>s. eq_ignore_ascii_case s n \<and> (s, v) \<in> set hdrs)"
    using signed_headers_cover [OF assms(2) c(1,2)] by blast
  obtain f where
    "PresignedUrlV4_parse (env_nom E) (date_ok E) (query_pairs x) (presigned_url_max_expires_secs (sc_config x)) = Some p"
    "pre_algorithm p = ''AWS4-HMAC-SHA256''" "cred_date (pre_credential p) = fmt_date (pre_amz_date p)" "in_time E (sc_config x) p"
    "\<forall>e. expected_region (sc_config x) = Some e \<longrightarrow> aws_region (pre_credential p) = e"
    "aws_service (pre_credential p) \<in> set (sig_v4_allowed_services (sc_config x))" "sc_auth x = Some f"
    "f (access_key_id (pre_credential p)) = Inr secret" "extract_amz_content_sha256 E (hs x) = Inr content"
    "\<forall>c. content = Some c \<longrightarrow> \<not> is_streaming c"
    using cl by (auto simp: v4_presigned_claims_def s3_results split: option.splits)
  with c(3,4) cover creds show ?thesis
    by (intro exI [of _ p] exI [of _ f] exI [of _ hdrs] exI [of _ canonical] exI [of _ content]) simp
qed

lemma presigned_as_unsigned:
  "create_presigned_canonical_request_with_uri_mode m u q h raw =
     create_canonical_request_with_uri_mode m u (filter (\<lambda>(n, v). \<not> is_skipped_query_string n) q) h Unsigned raw"
  by (simp add: create_presigned_canonical_request_with_uri_mode_def create_canonical_request_with_uri_mode_def)

text \<open>A presigned URL that the example service accepts.\<close>

definition presigned_query :: "(bytes \<times> bytes) list" where
  "presigned_query =
     [(''X-Amz-Algorithm'', ''AWS4-HMAC-SHA256''), (''X-Amz-Credential'', ''AK/20130524/us-east-1/s3/aws4_request''),
      (''X-Amz-Date'', ''20130524T000000Z''), (''X-Amz-Expires'', ''60''),
      (''X-Amz-Signature'', ''6434383464323433333537353134643364363836343739363237663637366336''),
      (''X-Amz-SignedHeaders'', ''host'')]"

definition presigned_request :: sig_context where
  "presigned_request = plain_request\<lparr>sc_qs := Some \<lparr>qs = presigned_query\<rparr>, hs := [(''host'', ''h'')]\<rparr>"

definition plain_presigned :: presigned_url_v4 where
  "plain_presigned = \<lparr>pre_algorithm = ''AWS4-HMAC-SHA256'', pre_credential = plain_credential, pre_amz_date = plain_date,
     pre_expires = 60, pre_signed_headers = [''host''],
     pre_signature = ''6434383464323433333537353134643364363836343739363237663637366336''\<rparr>"

lemma presigned_parsed:
  "PresignedUrlV4_parse nom_ref (\<lambda>_ _ _. True) presigned_query mx = (if 60 \<le> mx then Some plain_presigned else None)"
proof -
  have "CredentialV4_parse nom_ref (\<lambda>_ _ _. True) ''AK/20130524/us-east-1/s3/aws4_request'' = Some plain_credential"
    by (simp add: CredentialV4_parse_def parse_credential_def until_slash0_def until_slash1_def nom_ref_def
        verify_date_def digit4_def digit2_def digit_def byte_in_def plain_credential_def)
  moreover have "is_sha256_checksum (pre_signature plain_presigned)" "list_all (byte_in 0 127) ''host''" by code_simp+
  moreover have "parse_expires ''60'' mx = (if 60 \<le> mx then Some 60 else None)"
    by (simp add: parse_expires_def parse_u32_def byte_in_def)
  ultimately show ?thesis
    by (simp add: PresignedUrlV4_parse_def date_values plain_presigned_def presigned_query_def get_unique_def)
qed

lemma presigned_fields:
  "hs presigned_request = [(''host'', ''h'')]" "query_pairs presigned_request = presigned_query"
  "sc_config presigned_request = S3Config_default" "content_length presigned_request = None"
  "decoded_uri_path presigned_request = ''/b/k''" "raw_uri_path presigned_request = ''/b/k''" "req_method presigned_request = ''PUT''"
  "sc_auth presigned_request = Some (SimpleAuth_get_secret_key (SimpleAuth_from_single ''AK'' ''secret''))"
  by (simp_all add: presigned_request_def plain_request_def request_with_def query_pairs_def)

lemma presigned_signature:
  "calculate_signature plain_crypto (create_string_to_sign plain_crypto
       (create_presigned_canonical_request ''PUT'' ''/b/k'' presigned_query [(''host'', ''h'')]) plain_date ''us-east-1'' ''s3'')
     ''secret'' plain_date ''us-east-1'' ''s3'' = pre_signature plain_presigned"
proof -
  have path: "concat (map (uri_encode_byte False) ''/b/k'') = ''/b/k''" by code_simp
  let ?q = "filter (\<lambda>(n, v). \<not> is_skipped_query_string n) presigned_query"
  let ?head = "''PUT'' @ LF # ''/b/k'' @ LF # ''X-Amz-Algorithm=AWS4-HM''"
  obtain rest where "push_query [] (stable_sort_by_first (encode_query ?q)) = ''X-Amz-Algorithm=AWS4-HM'' @ rest"
  proof -
    have "prefix ''X-Amz-Algorithm=AWS4-HM'' (push_query [] (stable_sort_by_first (encode_query ?q)))" by code_simp
    then show thesis using that by (auto simp: prefix_def)
  qed
  then have "take 32 (create_presigned_canonical_request ''PUT'' ''/b/k'' presigned_query [(''host'', ''h'')]) = ?head"
    unfolding create_presigned_canonical_request_def presigned_as_unsigned canonical_request_lines
    by (simp add: path del: concat.simps list.map)
  moreover have "plain_hex (take 32 (rev (plain_hex ?head))) = pre_signature plain_presigned"
    by (simp add: plain_hex_def nibble_hex_def plain_presigned_def)
  ultimately show ?thesis by (simp add: plain_signature_of)
qed

lemma presigned_accepted:
  "\<exists>creds. v4_check_presigned_url plain_env presigned_request = (Inr creds, presigned_request)"
proof -
  have content: "extract_amz_content_sha256 plain_env [(''host'', ''h'')] = Inr None"
    by (simp add: extract_amz_content_sha256_def get_unique_header_str_def header_get_all_def to_ascii_lowercase_def is_ascii_uppercase_def)
  have time: "in_time plain_env S3Config_default plain_presigned"
    by (simp add: in_time_def plain_env_def plain_presigned_def plain_date_def AmzDate_to_time_def max_skew_time_def S3Config_default_def)
  have parsed: "PresignedUrlV4_parse nom_ref (\<lambda>_ _ _. True) presigned_query (presigned_url_max_expires_secs S3Config_default) = Some plain_presigned"
    by (simp add: presigned_parsed S3Config_default_def DEFAULT_PRESIGNED_URL_MAX_EXPIRES_SECS_def)
  have claims: "v4_presigned_claims plain_env presigned_request = Inr (plain_presigned, None, ''secret'')"
    using parsed time content
    by (simp add: v4_presigned_claims_def s3_results presigned_fields)
      (simp add: plain_presigned_def plain_credential_def date_values S3Config_default_def default_sig_v4_allowed_services_def
        SimpleAuth_get_secret_key_def SimpleAuth_lookup_def SimpleAuth_from_single_def)
  have hdrs: "collect_signed_headers [(''host'', ''h'')] f [''host''] = Inr [(''host'', ''h'')]"
    "reject_unsigned_amz_headers S3Config_default [(''host'', ''h'')] [''host''] = Inr ()" for f
  proof -
    have "header_get_all [(''host'', ''h'')] ''host'' = [''h'']" "header_value_to_str ''h'' = Some ''h''" by code_simp+
    then show "collect_signed_headers [(''host'', ''h'')] f [''host''] = Inr [(''host'', ''h'')]" by simp
    show "reject_unsigned_amz_headers S3Config_default [(''host'', ''h'')] [''host''] = Inr ()"
      by (simp add: reject_unsigned_amz_headers_def may_be_unsigned_def)
  qed
  have "is_sha256_checksum (pre_signature plain_presigned)" by code_simp
  then have "v4_verify_presigned plain_env presigned_request plain_presigned ''secret'' = Inr (pre_signature plain_presigned)"
    using presigned_signature hdrs
    by (simp add: v4_verify_presigned_def presigned_fields Signature_from_hex_def verify_with_raw_path_fallback_def
        signature_for_def presigned_verifier_def Let_def Signature_compare_def)
      (simp add: plain_presigned_def plain_credential_def)
  then show ?thesis using claims by (simp add: v4_check_presigned_url_def)
qed

theorem presigned_url_sound_witness:
  "\<exists>p. PresignedUrlV4_parse nom_ref (\<lambda>_ _ _. True) presigned_query (presigned_url_max_expires_secs S3Config_default) = Some p
     \<and> in_time plain_env S3Config_default p"
proof -
  obtain creds where acc: "v4_check_presigned_url plain_env presigned_request = (Inr creds, presigned_request)"
    using presigned_accepted by blast
  have "lower_case_names (hs presigned_request)"
    by (simp add: presigned_fields lower_case_names_def to_ascii_lowercase_def is_ascii_uppercase_def byte_in_def)
  from presigned_url_sound [OF acc this] show ?thesis unfolding presigned_fields plain_crypto_env by blast
qed

end
