(* ===== verification/Router.thy ===== *)
theory Router
  imports S3_Error S3_Path Ordered_Qs "HOL-Library.Word"
begin

text \<open>
  The routing of a request to its operation: the generated router with its bit masks
  (s3s/src/ops/generated/router.rs) and the lookup of a declared operation name (generated/oir.rs), with the
  routing table as their specification. An operation is its name.
\<close>

unbundle bit_operations_syntax

section \<open>The program\<close>

type_synonym operation = bytes

subsection \<open>Bit masks\<close>

text \<open>\<^verbatim>\<open>trailing_zeros\<close> of an unsigned integer, and \<^verbatim>\<open>from(b).wrapping_neg()\<close> of a Boolean.\<close>

definition trailing_zeros :: "'a::len word \<Rightarrow> nat" where
  "trailing_zeros x = length (takeWhile (\<lambda>i. \<not> bit x i) [0..<LENGTH('a)])"

definition bool_mask :: "bool \<Rightarrow> 'a::len word" where
  "bool_mask b = - of_bool b"

text \<open>The loop over the keys of the query, and a key that must have one given value.\<close>

definition key_mask :: "(bytes \<times> 'a::len word) list \<Rightarrow> bytes \<Rightarrow> 'a word" where
  "key_mask table k = (case map_of table k of Some m \<Rightarrow> m | None \<Rightarrow> 0)"

definition key_bits :: "(bytes \<times> 'a::len word) list \<Rightarrow> ordered_qs option \<Rightarrow> 'a word" where
  "key_bits table q =
     (case q of None \<Rightarrow> 0 | Some q \<Rightarrow> fold (\<lambda>(k, _) v_key. v_key OR key_mask table k) (qs q) 0)"

definition pattern_bits :: "bytes \<Rightarrow> bytes \<Rightarrow> 'a::len word \<Rightarrow> ordered_qs option \<Rightarrow> 'a word" where
  "pattern_bits name val m q =
     (case q of None \<Rightarrow> 0 | Some q \<Rightarrow> if get_unique_qs q name = Some val then m else 0)"

definition contains_key :: "(bytes \<times> bytes) list \<Rightarrow> bytes \<Rightarrow> bool" where
  "contains_key m name = list_ex (\<lambda>(n, _). n = name) m"

subsection \<open>The resolvers\<close>

definition unknown_operation :: "operation s3_result" where
  "unknown_operation = Inl NotImplemented"

definition resolve_head_bucket :: "operation s3_result" where
  "resolve_head_bucket = Inr ''HeadBucket''"

definition resolve_head_object :: "operation s3_result" where
  "resolve_head_object = Inr ''HeadObject''"

definition resolve_get_root :: "ordered_qs option \<Rightarrow> operation s3_result" where
  "resolve_get_root q =
     (if (case q of Some q \<Rightarrow> get_unique_qs q ''x-id'' = Some ''ListDirectoryBuckets'' | None \<Rightarrow> False)
      then Inr ''ListDirectoryBuckets'' else Inr ''ListBuckets'')"

definition GET_BUCKET_OPS :: "operation list" where
  "GET_BUCKET_OPS =
    [''GetBucketAnalyticsConfiguration'', ''GetBucketIntelligentTieringConfiguration'',
     ''GetBucketInventoryConfiguration'', ''GetBucketMetricsConfiguration'', ''CreateSession'', ''GetBucketAbac'',
     ''GetBucketAccelerateConfiguration'', ''GetBucketAcl'', ''GetBucketCors'', ''GetBucketEncryption'',
     ''GetBucketLifecycleConfiguration'', ''GetBucketLocation'', ''GetBucketLogging'',
     ''GetBucketMetadataConfiguration'', ''GetBucketMetadataTableConfiguration'',
     ''GetBucketNotificationConfiguration'', ''GetBucketOwnershipControls'', ''GetBucketPolicy'',
     ''GetBucketPolicyStatus'', ''GetBucketReplication'', ''GetBucketRequestPayment'', ''GetBucketTagging'',
     ''GetBucketVersioning'', ''GetBucketWebsite'', ''GetObjectLockConfiguration'', ''GetPublicAccessBlock'',
     ''ListBucketAnalyticsConfigurations'', ''ListBucketIntelligentTieringConfigurations'',
     ''ListBucketInventoryConfigurations'', ''ListBucketMetricsConfigurations'', ''ListMultipartUploads'',
     ''ListObjectVersions'', ''ListObjectsV2'']"

definition GET_BUCKET_KEYS :: "(bytes \<times> 64 word) list" where
  "GET_BUCKET_KEYS =
    [(''abac'', push_bit 5 1), (''accelerate'', push_bit 6 1), (''acl'', push_bit 7 1),
     (''analytics'', 1 OR push_bit 26 1), (''cors'', push_bit 8 1), (''encryption'', push_bit 9 1),
     (''id'', push_bit 33 1), (''intelligent-tiering'', push_bit 1 1 OR push_bit 27 1),
     (''inventory'', push_bit 2 1 OR push_bit 28 1), (''lifecycle'', push_bit 10 1), (''location'', push_bit 11 1),
     (''logging'', push_bit 12 1), (''metadataConfiguration'', push_bit 13 1), (''metadataTable'', push_bit 14 1),
     (''metrics'', push_bit 3 1 OR push_bit 29 1), (''notification'', push_bit 15 1),
     (''object-lock'', push_bit 24 1), (''ownershipControls'', push_bit 16 1), (''policy'', push_bit 17 1),
     (''policyStatus'', push_bit 18 1), (''publicAccessBlock'', push_bit 25 1), (''replication'', push_bit 19 1),
     (''requestPayment'', push_bit 20 1), (''session'', push_bit 4 1), (''tagging'', push_bit 21 1),
     (''uploads'', push_bit 30 1), (''versioning'', push_bit 22 1), (''versions'', push_bit 31 1),
     (''website'', push_bit 23 1)]"

text \<open>\<open>minio\<close> is the feature of that name.\<close>

definition resolve_get_bucket :: "bool \<Rightarrow> ordered_qs option \<Rightarrow> operation s3_result" where
  "resolve_get_bucket minio q =
     (if minio \<and> (case q of Some q \<Rightarrow> has q ''events'' | None \<Rightarrow> False) then Inr ''ListenBucketNotification''
      else
        (let a_key_id = push_bit 33 1; keep_xor = 0x3C00000F; keep_base = 0x1FFFFFFF0;
             v_key = key_bits GET_BUCKET_KEYS q;
             v_pat = pattern_bits ''list-type'' ''2'' (push_bit 32 1) q;
             v0 = v_key OR v_pat;
             sel = bool_mask (v0 AND a_key_id \<noteq> 0);
             v1 = (keep_xor AND sel) XOR keep_base;
             act = v0 AND v1
         in if act \<noteq> 0 then Inr (GET_BUCKET_OPS ! trailing_zeros act) else Inr ''ListObjects''))"

definition GET_OBJECT_OPS :: "operation list" where
  "GET_OBJECT_OPS =
    [''GetObjectAnnotation'', ''GetObjectAttributes'', ''GetObjectAcl'', ''GetObjectLegalHold'',
     ''GetObjectRetention'', ''GetObjectTagging'', ''GetObjectTorrent'', ''ListObjectAnnotations'', ''ListParts'']"

definition GET_OBJECT_KEYS :: "(bytes \<times> 16 word) list" where
  "GET_OBJECT_KEYS =
    [(''acl'', push_bit 2 1), (''annotation'', 1 OR push_bit 7 1), (''annotationName'', push_bit 9 1),
     (''attributes'', push_bit 1 1), (''legal-hold'', push_bit 3 1), (''retention'', push_bit 4 1),
     (''tagging'', push_bit 5 1), (''torrent'', push_bit 6 1), (''uploadId'', push_bit 8 1)]"

definition resolve_get_object :: "ordered_qs option \<Rightarrow> operation s3_result" where
  "resolve_get_object q =
     (let a_key_annotationname = push_bit 9 1; keep_xor = 0x81; keep_base = 0x1FE;
          v0 = key_bits GET_OBJECT_KEYS q;
          sel = bool_mask (v0 AND a_key_annotationname \<noteq> 0);
          v1 = (keep_xor AND sel) XOR keep_base;
          act = v0 AND v1
      in if act \<noteq> 0 then Inr (GET_OBJECT_OPS ! trailing_zeros act) else Inr ''GetObject'')"

definition POST_BUCKET_OPS :: "operation list" where
  "POST_BUCKET_OPS =
    [''CreateBucketMetadataConfiguration'', ''CreateBucketMetadataTableConfiguration'', ''DeleteObjects'',
     ''WriteGetObjectResponse'']"

definition POST_BUCKET_KEYS :: "(bytes \<times> 8 word) list" where
  "POST_BUCKET_KEYS =
    [(''delete'', push_bit 2 1), (''metadataConfiguration'', 1), (''metadataTable'', push_bit 1 1)]"

definition resolve_post_bucket :: "(bytes \<times> bytes) list \<Rightarrow> ordered_qs option \<Rightarrow> operation s3_result" where
  "resolve_post_bucket hdrs q =
     (let a_route = push_bit 4 1; a_token = push_bit 5 1; keep_xor = 0x8; keep_base = 0x7;
          v_hdr = (if contains_key hdrs ''x-amz-request-route'' then push_bit 3 1 OR a_route else 0);
          v_hdr = (if contains_key hdrs ''x-amz-request-token'' then v_hdr OR push_bit 3 1 OR a_token else v_hdr);
          v_key = key_bits POST_BUCKET_KEYS q;
          v0 = v_key OR v_hdr;
          sel = bool_mask (v0 AND (a_route OR a_token) = a_route OR a_token);
          v1 = (keep_xor AND sel) XOR keep_base;
          act = v0 AND v1
      in if act \<noteq> 0 then Inr (POST_BUCKET_OPS ! trailing_zeros act) else unknown_operation)"

definition POST_OBJECT_OPS :: "operation list" where
  "POST_OBJECT_OPS =
    [''SelectObjectContent'', ''CreateMultipartUpload'', ''RestoreObject'', ''CompleteMultipartUpload'']"

definition POST_OBJECT_KEYS :: "(bytes \<times> 8 word) list" where
  "POST_OBJECT_KEYS =
    [(''restore'', push_bit 2 1), (''select'', 1 OR push_bit 4 1), (''uploadId'', push_bit 3 1),
     (''uploads'', push_bit 1 1)]"

definition resolve_post_object_route :: "ordered_qs option \<Rightarrow> operation s3_result" where
  "resolve_post_object_route q =
     (let a_key_select = push_bit 4 1; a_pat_select_type_2 = push_bit 5 1; keep_xor = 0x1; keep_base = 0xE;
          v_key = key_bits POST_OBJECT_KEYS q;
          v_pat = pattern_bits ''select-type'' ''2'' (1 OR a_pat_select_type_2) q;
          v0 = v_key OR v_pat;
          sel = bool_mask (v0 AND (a_key_select OR a_pat_select_type_2) = a_key_select OR a_pat_select_type_2);
          v1 = (keep_xor AND sel) XOR keep_base;
          act = v0 AND v1
      in if act \<noteq> 0 then Inr (POST_OBJECT_OPS ! trailing_zeros act) else unknown_operation)"

definition PUT_BUCKET_OPS :: "operation list" where
  "PUT_BUCKET_OPS =
    [''PutBucketAnalyticsConfiguration'', ''PutBucketIntelligentTieringConfiguration'',
     ''PutBucketInventoryConfiguration'', ''PutBucketMetricsConfiguration'', ''PutBucketAbac'',
     ''PutBucketAccelerateConfiguration'', ''PutBucketAcl'', ''PutBucketCors'', ''PutBucketEncryption'',
     ''PutBucketLifecycleConfiguration'', ''PutBucketLogging'', ''PutBucketNotificationConfiguration'',
     ''PutBucketOwnershipControls'', ''PutBucketPolicy'', ''PutBucketReplication'', ''PutBucketRequestPayment'',
     ''PutBucketTagging'', ''PutBucketVersioning'', ''PutBucketWebsite'', ''PutObjectLockConfiguration'',
     ''PutPublicAccessBlock'', ''UpdateBucketMetadataAnnotationTableConfiguration'',
     ''UpdateBucketMetadataInventoryTableConfiguration'', ''UpdateBucketMetadataJournalTableConfiguration'']"

definition PUT_BUCKET_KEYS :: "(bytes \<times> 32 word) list" where
  "PUT_BUCKET_KEYS =
    [(''abac'', push_bit 4 1), (''accelerate'', push_bit 5 1), (''acl'', push_bit 6 1), (''analytics'', 1),
     (''cors'', push_bit 7 1), (''encryption'', push_bit 8 1), (''intelligent-tiering'', push_bit 1 1),
     (''inventory'', push_bit 2 1), (''lifecycle'', push_bit 9 1), (''logging'', push_bit 10 1),
     (''metadataAnnotationTable'', push_bit 21 1), (''metadataInventoryTable'', push_bit 22 1),
     (''metadataJournalTable'', push_bit 23 1), (''metrics'', push_bit 3 1), (''notification'', push_bit 11 1),
     (''object-lock'', push_bit 19 1), (''ownershipControls'', push_bit 12 1), (''policy'', push_bit 13 1),
     (''publicAccessBlock'', push_bit 20 1), (''replication'', push_bit 14 1), (''requestPayment'', push_bit 15 1),
     (''tagging'', push_bit 16 1), (''versioning'', push_bit 17 1), (''website'', push_bit 18 1)]"

definition resolve_put_bucket :: "ordered_qs option \<Rightarrow> operation s3_result" where
  "resolve_put_bucket q =
     (let v0 = key_bits PUT_BUCKET_KEYS q;
          act = v0 AND drop_bit (32 - 24) (- 1)
      in if act \<noteq> 0 then Inr (PUT_BUCKET_OPS ! trailing_zeros act) else Inr ''CreateBucket'')"

definition PUT_OBJECT_OPS :: "operation list" where
  "PUT_OBJECT_OPS =
    [''PutObjectAnnotation'', ''RenameObject'', ''PutObjectAcl'', ''PutObjectLegalHold'', ''PutObjectRetention'',
     ''PutObjectTagging'', ''UpdateObjectEncryption'', ''UploadPartCopy'', ''UploadPart'', ''CopyObject'']"

definition PUT_OBJECT_KEYS :: "(bytes \<times> 16 word) list" where
  "PUT_OBJECT_KEYS =
    [(''acl'', push_bit 2 1), (''annotation'', 1), (''encryption'', push_bit 6 1), (''legal-hold'', push_bit 3 1),
     (''partNumber'', push_bit 7 1 OR push_bit 8 1 OR push_bit 10 1), (''renameObject'', push_bit 1 1),
     (''retention'', push_bit 4 1), (''tagging'', push_bit 5 1),
     (''uploadId'', push_bit 7 1 OR push_bit 8 1 OR push_bit 11 1)]"

definition resolve_put_object :: "(bytes \<times> bytes) list \<Rightarrow> ordered_qs option \<Rightarrow> operation s3_result" where
  "resolve_put_object hdrs q =
     (let a_key_partnumber = push_bit 10 1; a_key_uploadid = push_bit 11 1; a_hdr_copy_source = push_bit 12 1;
          keep_xor = 0x180; keep_base = 0x27F; keep_xor_1 = 0x80; keep_base_1 = 0x37F;
          v_hdr = (if contains_key hdrs ''x-amz-copy-source'' then push_bit 7 1 OR push_bit 9 1 OR a_hdr_copy_source else 0);
          v_key = key_bits PUT_OBJECT_KEYS q;
          v0 = v_key OR v_hdr;
          sel = bool_mask (v0 AND (a_key_partnumber OR a_key_uploadid) = a_key_partnumber OR a_key_uploadid);
          sel_1 = bool_mask (v0 AND a_hdr_copy_source \<noteq> 0);
          v1 = (keep_xor AND sel) XOR keep_base;
          v2 = (keep_xor_1 AND sel_1) XOR keep_base_1;
          act = v0 AND v1 AND v2
      in if act \<noteq> 0 then Inr (PUT_OBJECT_OPS ! trailing_zeros act) else Inr ''PutObject'')"

definition DELETE_BUCKET_OPS :: "operation list" where
  "DELETE_BUCKET_OPS =
    [''DeleteBucketAnalyticsConfiguration'', ''DeleteBucketIntelligentTieringConfiguration'',
     ''DeleteBucketInventoryConfiguration'', ''DeleteBucketMetricsConfiguration'', ''DeleteBucketCors'',
     ''DeleteBucketEncryption'', ''DeleteBucketLifecycle'', ''DeleteBucketMetadataConfiguration'',
     ''DeleteBucketMetadataTableConfiguration'', ''DeleteBucketOwnershipControls'', ''DeleteBucketPolicy'',
     ''DeleteBucketReplication'', ''DeleteBucketTagging'', ''DeleteBucketWebsite'', ''DeletePublicAccessBlock'']"

definition DELETE_BUCKET_KEYS :: "(bytes \<times> 16 word) list" where
  "DELETE_BUCKET_KEYS =
    [(''analytics'', 1), (''cors'', push_bit 4 1), (''encryption'', push_bit 5 1),
     (''intelligent-tiering'', push_bit 1 1), (''inventory'', push_bit 2 1), (''lifecycle'', push_bit 6 1),
     (''metadataConfiguration'', push_bit 7 1), (''metadataTable'', push_bit 8 1), (''metrics'', push_bit 3 1),
     (''ownershipControls'', push_bit 9 1), (''policy'', push_bit 10 1), (''publicAccessBlock'', push_bit 14 1),
     (''replication'', push_bit 11 1), (''tagging'', push_bit 12 1), (''website'', push_bit 13 1)]"

definition resolve_delete_bucket :: "ordered_qs option \<Rightarrow> operation s3_result" where
  "resolve_delete_bucket q =
     (let v0 = key_bits DELETE_BUCKET_KEYS q;
          act = v0 AND drop_bit (16 - 15) (- 1)
      in if act \<noteq> 0 then Inr (DELETE_BUCKET_OPS ! trailing_zeros act) else Inr ''DeleteBucket'')"

definition DELETE_OBJECT_OPS :: "operation list" where
  "DELETE_OBJECT_OPS =
    [''DeleteObjectAnnotation'', ''DeleteObjectTagging'', ''AbortMultipartUpload'']"

definition DELETE_OBJECT_KEYS :: "(bytes \<times> 8 word) list" where
  "DELETE_OBJECT_KEYS =
    [(''annotation'', 1), (''tagging'', push_bit 1 1), (''uploadId'', push_bit 2 1)]"

definition resolve_delete_object :: "ordered_qs option \<Rightarrow> operation s3_result" where
  "resolve_delete_object q =
     (let v0 = key_bits DELETE_OBJECT_KEYS q;
          act = v0 AND drop_bit (8 - 3) (- 1)
      in if act \<noteq> 0 then Inr (DELETE_OBJECT_OPS ! trailing_zeros act) else Inr ''DeleteObject'')"

definition resolve_route ::
  "bool \<Rightarrow> bytes \<Rightarrow> (bytes \<times> bytes) list \<Rightarrow> s3_path \<Rightarrow> ordered_qs option \<Rightarrow> operation s3_result" where
  "resolve_route minio meth hdrs path q =
     (if meth = ''HEAD'' then
        (case path of Root \<Rightarrow> unknown_operation | Bucket _ \<Rightarrow> resolve_head_bucket | Object _ _ \<Rightarrow> resolve_head_object)
      else if meth = ''GET'' then
        (case path of Root \<Rightarrow> resolve_get_root q | Bucket _ \<Rightarrow> resolve_get_bucket minio q | Object _ _ \<Rightarrow> resolve_get_object q)
      else if meth = ''POST'' then
        (case path of Root \<Rightarrow> unknown_operation | Bucket _ \<Rightarrow> resolve_post_bucket hdrs q | Object _ _ \<Rightarrow> resolve_post_object_route q)
      else if meth = ''PUT'' then
        (case path of Root \<Rightarrow> unknown_operation | Bucket _ \<Rightarrow> resolve_put_bucket q | Object _ _ \<Rightarrow> resolve_put_object hdrs q)
      else if meth = ''DELETE'' then
        (case path of Root \<Rightarrow> unknown_operation | Bucket _ \<Rightarrow> resolve_delete_bucket q | Object _ _ \<Rightarrow> resolve_delete_object q)
      else unknown_operation)"

subsection \<open>The lookup of a declared operation name\<close>

text \<open>The names that a method and a kind of path admit (ops/generated/oir.rs).\<close>

definition OIR_DELETE_BUCKET :: "operation list" where
  "OIR_DELETE_BUCKET =
    [''DeleteBucket'', ''DeleteBucketAnalyticsConfiguration'', ''DeleteBucketCors'', ''DeleteBucketEncryption'',
     ''DeleteBucketIntelligentTieringConfiguration'', ''DeleteBucketInventoryConfiguration'',
     ''DeleteBucketLifecycle'', ''DeleteBucketMetadataConfiguration'',
     ''DeleteBucketMetadataTableConfiguration'', ''DeleteBucketMetricsConfiguration'',
     ''DeleteBucketOwnershipControls'', ''DeleteBucketPolicy'', ''DeleteBucketReplication'',
     ''DeleteBucketTagging'', ''DeleteBucketWebsite'', ''DeletePublicAccessBlock'']"

definition OIR_DELETE_OBJECT :: "operation list" where
  "OIR_DELETE_OBJECT =
    [''AbortMultipartUpload'', ''DeleteObject'', ''DeleteObjectAnnotation'', ''DeleteObjectTagging'']"

definition OIR_GET_ROOT :: "operation list" where
  "OIR_GET_ROOT =
    [''ListBuckets'', ''ListDirectoryBuckets'']"

definition OIR_GET_BUCKET :: "operation list" where
  "OIR_GET_BUCKET =
    [''CreateSession'', ''GetBucketAbac'', ''GetBucketAccelerateConfiguration'', ''GetBucketAcl'',
     ''GetBucketAnalyticsConfiguration'', ''GetBucketCors'', ''GetBucketEncryption'',
     ''GetBucketIntelligentTieringConfiguration'', ''GetBucketInventoryConfiguration'',
     ''GetBucketLifecycleConfiguration'', ''GetBucketLocation'', ''GetBucketLogging'',
     ''GetBucketMetadataConfiguration'', ''GetBucketMetadataTableConfiguration'',
     ''GetBucketMetricsConfiguration'', ''GetBucketNotificationConfiguration'', ''GetBucketOwnershipControls'',
     ''GetBucketPolicy'', ''GetBucketPolicyStatus'', ''GetBucketReplication'', ''GetBucketRequestPayment'',
     ''GetBucketTagging'', ''GetBucketVersioning'', ''GetBucketWebsite'', ''GetObjectLockConfiguration'',
     ''GetPublicAccessBlock'', ''ListBucketAnalyticsConfigurations'',
     ''ListBucketIntelligentTieringConfigurations'', ''ListBucketInventoryConfigurations'',
     ''ListBucketMetricsConfigurations'', ''ListMultipartUploads'', ''ListObjectVersions'', ''ListObjects'',
     ''ListObjectsV2'']"

definition OIR_GET_OBJECT :: "operation list" where
  "OIR_GET_OBJECT =
    [''GetObject'', ''GetObjectAcl'', ''GetObjectAnnotation'', ''GetObjectAttributes'', ''GetObjectLegalHold'',
     ''GetObjectRetention'', ''GetObjectTagging'', ''GetObjectTorrent'', ''ListObjectAnnotations'', ''ListParts'']"

definition OIR_POST_BUCKET :: "operation list" where
  "OIR_POST_BUCKET =
    [''CreateBucketMetadataConfiguration'', ''CreateBucketMetadataTableConfiguration'', ''DeleteObjects'',
     ''WriteGetObjectResponse'']"

definition OIR_POST_OBJECT :: "operation list" where
  "OIR_POST_OBJECT =
    [''CompleteMultipartUpload'', ''CreateMultipartUpload'', ''RestoreObject'', ''SelectObjectContent'']"

definition OIR_PUT_BUCKET :: "operation list" where
  "OIR_PUT_BUCKET =
    [''CreateBucket'', ''PutBucketAbac'', ''PutBucketAccelerateConfiguration'', ''PutBucketAcl'',
     ''PutBucketAnalyticsConfiguration'', ''PutBucketCors'', ''PutBucketEncryption'',
     ''PutBucketIntelligentTieringConfiguration'', ''PutBucketInventoryConfiguration'',
     ''PutBucketLifecycleConfiguration'', ''PutBucketLogging'', ''PutBucketMetricsConfiguration'',
     ''PutBucketNotificationConfiguration'', ''PutBucketOwnershipControls'', ''PutBucketPolicy'',
     ''PutBucketReplication'', ''PutBucketRequestPayment'', ''PutBucketTagging'', ''PutBucketVersioning'',
     ''PutBucketWebsite'', ''PutObjectLockConfiguration'', ''PutPublicAccessBlock'',
     ''UpdateBucketMetadataAnnotationTableConfiguration'', ''UpdateBucketMetadataInventoryTableConfiguration'',
     ''UpdateBucketMetadataJournalTableConfiguration'']"

definition OIR_PUT_OBJECT :: "operation list" where
  "OIR_PUT_OBJECT =
    [''CopyObject'', ''PutObject'', ''PutObjectAcl'', ''PutObjectAnnotation'', ''PutObjectLegalHold'',
     ''PutObjectRetention'', ''PutObjectTagging'', ''RenameObject'', ''UpdateObjectEncryption'', ''UploadPart'',
     ''UploadPartCopy'']"

definition resolve_operation_by_id :: "bool \<Rightarrow> bytes \<Rightarrow> s3_path \<Rightarrow> bytes \<Rightarrow> operation option" where
  "resolve_operation_by_id minio meth path name =
     (let among = (\<lambda>names. if name \<in> set names then Some name else None)
      in if meth = ''DELETE'' then
           (case path of Root \<Rightarrow> None | Bucket _ \<Rightarrow> among OIR_DELETE_BUCKET | Object _ _ \<Rightarrow> among OIR_DELETE_OBJECT)
         else if meth = ''GET'' then
           (case path of
              Root \<Rightarrow> among OIR_GET_ROOT
            | Bucket _ \<Rightarrow> among (OIR_GET_BUCKET @ (if minio then [''ListenBucketNotification''] else []))
            | Object _ _ \<Rightarrow> among OIR_GET_OBJECT)
         else if meth = ''HEAD'' then
           (case path of Root \<Rightarrow> None | Bucket _ \<Rightarrow> among [''HeadBucket''] | Object _ _ \<Rightarrow> among [''HeadObject''])
         else if meth = ''POST'' then
           (case path of Root \<Rightarrow> None | Bucket _ \<Rightarrow> among OIR_POST_BUCKET | Object _ _ \<Rightarrow> among OIR_POST_OBJECT)
         else if meth = ''PUT'' then
           (case path of Root \<Rightarrow> None | Bucket _ \<Rightarrow> among OIR_PUT_BUCKET | Object _ _ \<Rightarrow> among OIR_PUT_OBJECT)
         else None)"

subsection \<open>How an operation takes its body\<close>

text \<open>
  The methods of the trait \<^verbatim>\<open>Operation\<close> that say how the body is read; each operation answers them in its own file
  under ops/generated/, and the tables collect the operations that answer \<^verbatim>\<open>true\<close>.
\<close>

definition needs_full_body :: "operation \<Rightarrow> bool" where
  "needs_full_body op \<longleftrightarrow> op \<in> set
    [''CompleteMultipartUpload'', ''CreateBucket'', ''CreateBucketMetadataConfiguration'',
     ''CreateBucketMetadataTableConfiguration'', ''DeleteObjects'', ''PutBucketAbac'',
     ''PutBucketAccelerateConfiguration'', ''PutBucketAcl'', ''PutBucketAnalyticsConfiguration'',
     ''PutBucketCors'', ''PutBucketEncryption'', ''PutBucketIntelligentTieringConfiguration'',
     ''PutBucketInventoryConfiguration'', ''PutBucketLifecycleConfiguration'', ''PutBucketLogging'',
     ''PutBucketMetricsConfiguration'', ''PutBucketNotificationConfiguration'', ''PutBucketOwnershipControls'',
     ''PutBucketPolicy'', ''PutBucketReplication'', ''PutBucketRequestPayment'', ''PutBucketTagging'',
     ''PutBucketVersioning'', ''PutBucketWebsite'', ''PutObjectAcl'', ''PutObjectLegalHold'',
     ''PutObjectLockConfiguration'', ''PutObjectRetention'', ''PutObjectTagging'', ''PutPublicAccessBlock'',
     ''RestoreObject'', ''SelectObjectContent'', ''UpdateBucketMetadataAnnotationTableConfiguration'',
     ''UpdateBucketMetadataInventoryTableConfiguration'', ''UpdateBucketMetadataJournalTableConfiguration'',
     ''UpdateObjectEncryption'']"

definition has_streaming_body :: "operation \<Rightarrow> bool" where
  "has_streaming_body op \<longleftrightarrow> op \<in> set
    [''PutObject'', ''PutObjectAnnotation'', ''UploadPart'', ''WriteGetObjectResponse'']"

definition has_request_payload :: "operation \<Rightarrow> bool" where
  "has_request_payload op \<longleftrightarrow> needs_full_body op \<or> op \<in> set
    [''PostObject'', ''PutObject'', ''PutObjectAnnotation'', ''UploadPart'', ''WriteGetObjectResponse'']"

end
