(* ===== verification/Router_Correct.thy ===== *)
theory Router_Correct
  imports Router
begin

text \<open>
  The router follows the routing table: the operation is the one of the first rule of the table for the
  method and the path whose conditions hold, or the default one.
\<close>

section \<open>Masks\<close>

lemma bit_bool_mask [simp]: "bit (bool_mask b :: 'a::len word) i \<longleftrightarrow> b \<and> i < LENGTH('a)"
  by (cases b) (simp_all add: bool_mask_def bit_simps)

lemma bit_fold_or:
  "bit (fold (\<lambda>(k, _) v. v OR f k) xs a :: 'a::len word) i \<longleftrightarrow> bit a i \<or> (\<exists>(k, _) \<in> set xs. bit (f k) i)"
  by (induction xs arbitrary: a) (auto simp: bit_simps)

definition has_key :: "ordered_qs option \<Rightarrow> bytes \<Rightarrow> bool" where
  "has_key q k \<longleftrightarrow> (case q of None \<Rightarrow> False | Some q \<Rightarrow> k \<in> fst ` set (qs q))"

lemma bit_key_bits:
  assumes "distinct (map fst table)"
  shows "bit (key_bits table q) i \<longleftrightarrow> list_ex (has_key q) (map fst (filter (\<lambda>(k, m). bit m i) table))"
proof -
  have "bit (key_mask table k) i \<longleftrightarrow> (\<exists>m. (k, m) \<in> set table \<and> bit m i)" for k
  proof (cases "map_of table k")
    case None
    then have "(k, m) \<notin> set table" for m using weak_map_of_SomeI [of k m table] by auto
    with None show ?thesis by (simp add: key_mask_def)
  next
    case (Some a)
    then have "m = a" if "(k, m) \<in> set table" for m using map_of_is_SomeI [OF assms that] by simp
    then have "(\<exists>m. (k, m) \<in> set table \<and> bit m i) \<longleftrightarrow> bit a i" using map_of_SomeD [OF Some] by blast
    with Some show ?thesis by (simp add: key_mask_def)
  qed
  then show ?thesis
    by (cases q) (auto simp: key_bits_def has_key_def bit_fold_or list_ex_iff image_iff Bex_def)
qed

text \<open>The first set bit selects the first operation whose condition holds.\<close>

definition first_rule :: "(bool \<times> operation) list \<Rightarrow> operation option" where
  "first_rule rules = map_option snd (find fst rules)"

lemma takeWhile_find:
  "j \<le> length ops \<Longrightarrow> (\<And>i. j \<le> i \<Longrightarrow> P i \<Longrightarrow> i < length ops) \<Longrightarrow> (\<exists>i \<ge> j. P i) \<Longrightarrow>
   find fst (zip (map P [j..<length ops]) (drop j ops)) = Some (True, ops ! (LEAST i. j \<le> i \<and> P i))"
proof (induction "length ops - j" arbitrary: j)
  case 0
  then show ?case by force
next
  case (Suc d)
  then have j: "j < length ops" by simp
  have split: "zip (map P [j..<length ops]) (drop j ops) = (P j, ops ! j) # zip (map P [Suc j..<length ops]) (drop (Suc j) ops)"
    using j by (simp add: upt_conv_Cons Cons_nth_drop_Suc [symmetric])
  show ?case
  proof (cases "P j")
    case True
    then have "(LEAST i. j \<le> i \<and> P i) = j" by (auto intro: Least_equality)
    with True split show ?thesis by simp
  next
    case False
    have "\<exists>i \<ge> Suc j. P i" using Suc.prems(3) False by (metis le_antisym not_less_eq_eq)
    moreover have "(LEAST i. j \<le> i \<and> P i) = (LEAST i. Suc j \<le> i \<and> P i)"
      using False by (metis Suc_leD le_antisym not_less_eq_eq)
    ultimately show ?thesis using Suc.hyps(1) [of "Suc j"] Suc.hyps(2) Suc.prems j False split by simp
  qed
qed

lemma trailing_zeros_least:
  fixes x :: "'a::len word"
  assumes "bit x n"
  shows "trailing_zeros x = (LEAST i. bit x i)"
proof -
  define n' where "n' = (LEAST i. bit x i)"
  have n: "bit x n'" unfolding n'_def using LeastI [of "bit x"] assms by blast
  have less: "\<not> bit x i" if "i < n'" for i using that not_less_Least [of i "bit x"] unfolding n'_def by blast
  have lt: "n' < LENGTH('a)" by (rule bit_imp_le_length [OF n])
  have "[0..<LENGTH('a)] = [0..<n'] @ n' # [Suc n'..<LENGTH('a)]"
    using upt_add_eq_append [of 0 n' "LENGTH('a) - n'"] lt by (simp add: upt_conv_Cons)
  moreover have "takeWhile (\<lambda>i. \<not> bit x i) ([0..<n'] @ n' # zs) = [0..<n']" for zs
    using n less by (subst takeWhile_append2) auto
  ultimately show ?thesis by (simp only: trailing_zeros_def n'_def [symmetric] length_upt diff_zero)
qed

lemma select_first:
  fixes act :: "'a::len word"
  assumes "\<And>i. bit act i \<Longrightarrow> i < length ops"
  shows "(if act \<noteq> 0 then Some (ops ! trailing_zeros act) else None) =
    first_rule (zip (map (bit act) [0..<length ops]) ops)"
proof (cases "act = 0")
  case True
  then have "find fst (zip (map (bit act) [0..<length ops]) ops) = None" by (auto simp: find_None_iff set_zip)
  with True show ?thesis by (simp add: first_rule_def)
next
  case False
  then obtain n where "bit act n" by (metis bit_eqI bit_0_eq bot_apply bot_bool_def)
  then have "\<exists>i. bit act i" by blast
  with takeWhile_find [of 0 ops "bit act"] assms
  have "find fst (zip (map (bit act) [0..<length ops]) ops) = Some (True, ops ! (LEAST i. bit act i))" by simp
  then show ?thesis using False trailing_zeros_least [OF \<open>bit act n\<close>] by (simp add: first_rule_def)
qed

lemma bit_below: "take_bit n (c :: 'a::len word) = c \<Longrightarrow> bit c i \<Longrightarrow> i < n"
  by (metis bit_take_bit_iff)

lemma bit_of_test: "(w AND push_bit n 1 \<noteq> (0 :: 'a::len word)) \<longleftrightarrow> bit w n"
  by (simp add: bit_iff_and_push_bit_not_eq_0)

lemma bits_and: "map (bit (a AND b)) is = map2 (\<and>) (map (bit a) is) (map (bit b) is)"
  by (induction "is") (simp_all add: bit_simps)

lemma bits_or: "map (bit (a OR b)) is = map2 (\<or>) (map (bit a) is) (map (bit b) is)"
  by (induction "is") (simp_all add: bit_simps)

lemma bits_xor: "map (bit (a XOR b)) is = map2 (\<noteq>) (map (bit a) is) (map (bit b) is)"
  by (induction "is") (auto simp: bit_simps)

lemma bits_mask: "n \<le> LENGTH('a) \<Longrightarrow> map (bit (bool_mask b :: 'a::len word)) [0..<n] = replicate n b"
  by (rule nth_equalityI) simp_all

lemmas bits_simps = bits_and bits_or bits_xor bits_mask

lemma key_bits_list:
  assumes "distinct (map fst table)" and "map (\<lambda>i. map fst (filter (\<lambda>(k, m). bit m i) table)) [0..<n] = names"
  shows "map (bit (key_bits table q)) [0..<n] = map (list_ex (has_key q)) names"
  by (simp add: bit_key_bits [OF assms(1)] assms(2) [symmetric] comp_def)

lemma map_upt_butlast: "m = Suc n \<Longrightarrow> map f [0..<n] = butlast (map f [0..<m])"
  by simp

lemma bit_of_list: "map (bit w) [0..<n] = bs \<Longrightarrow> i < n \<Longrightarrow> bit w i = bs ! i"
  by auto

lemma routed:
  fixes act :: "'a::len word"
  assumes "map snd rules = ops" "length rules = n" and "map (bit act) [0..<n] = map fst rules" and "\<And>i. bit act i \<Longrightarrow> i < n"
  shows "(if act \<noteq> 0 then Inr (ops ! trailing_zeros act) else d) =
    (case first_rule rules of Some op \<Rightarrow> Inr op | None \<Rightarrow> d)"
proof -
  have len: "length ops = n" using arg_cong [OF assms(1), of length] assms(2) by simp
  have "zip (map fst rules) ops = rules" unfolding assms(1) [symmetric] by (simp add: zip_map_fst_snd)
  then show ?thesis
    using select_first [of act ops] assms(4) len assms(3) by (auto split: if_splits option.splits)
qed

lemma keep_below:
  assumes "take_bit n kx = kx" "take_bit n kb = kb" "bit (v AND ((kx AND m) XOR kb) :: 'a::len word) i"
  shows "i < n"
  using assms(3) bit_below [OF assms(1), of i] bit_below [OF assms(2), of i] by (auto simp: bit_simps)

definition only_value :: "ordered_qs option \<Rightarrow> bytes \<Rightarrow> bytes \<Rightarrow> bool" where
  "only_value q name val \<longleftrightarrow> (case q of None \<Rightarrow> False | Some q \<Rightarrow> get_unique_qs q name = Some val)"

lemma pattern_bits_list:
  "map (bit (pattern_bits name val m q)) is = map (\<lambda>b. b \<and> only_value q name val) (map (bit m) is)"
  by (auto simp: pattern_bits_def only_value_def split: option.splits)

lemma bit_pattern_single: "bit (pattern_bits name val (push_bit n 1 :: 'a::len word) q) i \<Longrightarrow> i = n"
  by (auto simp: pattern_bits_def bit_simps split: option.splits if_splits)

section \<open>The routing table\<close>

definition get_object_rules :: "(bytes \<Rightarrow> bool) \<Rightarrow> (bool \<times> operation) list" where
  "get_object_rules k =
     [(k ''annotation'' \<and> k ''annotationName'', ''GetObjectAnnotation''), (k ''attributes'', ''GetObjectAttributes''),
      (k ''acl'', ''GetObjectAcl''), (k ''legal-hold'', ''GetObjectLegalHold''), (k ''retention'', ''GetObjectRetention''),
      (k ''tagging'', ''GetObjectTagging''), (k ''torrent'', ''GetObjectTorrent''),
      (k ''annotation'' \<and> \<not> k ''annotationName'', ''ListObjectAnnotations''), (k ''uploadId'', ''ListParts'')]"

lemma get_object_bits:
  "distinct (map fst GET_OBJECT_KEYS)"
  "map (\<lambda>i. map fst (filter (\<lambda>(k, m). bit m i) GET_OBJECT_KEYS)) [0..<10] =
    [[''annotation''], [''attributes''], [''acl''], [''legal-hold''], [''retention''], [''tagging''], [''torrent''],
     [''annotation''], [''uploadId''], [''annotationName'']]"
  "map (bit (0x81 :: 16 word)) [0..<9] = [True, False, False, False, False, False, False, True, False]"
  "map (bit (0x1FE :: 16 word)) [0..<9] = [False, True, True, True, True, True, True, True, True]"
  by code_simp+

lemma resolve_get_object_rules:
  "resolve_get_object q = (case first_rule (get_object_rules (has_key q)) of Some op \<Rightarrow> Inr op | None \<Rightarrow> Inr ''GetObject'')"
proof -
  let ?v = "key_bits GET_OBJECT_KEYS q"
  note keys = key_bits_list [OF get_object_bits(1,2), of q]
  have "map (bit ?v) [0..<9] = butlast (map (bit ?v) [0..<10])" by (rule map_upt_butlast) simp
  note v = this [unfolded keys, simplified]
  have sel: "?v AND push_bit 9 1 \<noteq> 0 \<longleftrightarrow> has_key q ''annotationName''"
    unfolding bit_of_test using bit_of_list [OF keys, of 9] by simp
  let ?act = "?v AND ((0x81 AND bool_mask (has_key q ''annotationName'')) XOR 0x1FE)"
  have "map (bit ?act) [0..<9] = map fst (get_object_rules (has_key q))"
    unfolding bits_and bits_xor v get_object_bits(3,4) by (simp add: bits_mask get_object_rules_def numeral_eq_Suc)
  moreover have "i < 9" if "bit ?act i" for i
    by (rule keep_below [OF _ _ that]) code_simp+
  moreover have "map snd (get_object_rules k) = GET_OBJECT_OPS" "length (get_object_rules k) = 9" for k
    by (simp_all add: GET_OBJECT_OPS_def get_object_rules_def)
  ultimately show ?thesis
    unfolding resolve_get_object_def Let_def sel by (intro routed)
qed

definition get_bucket_rules :: "(bytes \<Rightarrow> bool) \<Rightarrow> (bytes \<Rightarrow> bytes \<Rightarrow> bool) \<Rightarrow> (bool \<times> operation) list" where
  "get_bucket_rules k v =
    [(k ''analytics'' \<and> k ''id'', ''GetBucketAnalyticsConfiguration''),
     (k ''intelligent-tiering'' \<and> k ''id'', ''GetBucketIntelligentTieringConfiguration''),
     (k ''inventory'' \<and> k ''id'', ''GetBucketInventoryConfiguration''),
     (k ''metrics'' \<and> k ''id'', ''GetBucketMetricsConfiguration''), (k ''session'', ''CreateSession''),
     (k ''abac'', ''GetBucketAbac''), (k ''accelerate'', ''GetBucketAccelerateConfiguration''),
     (k ''acl'', ''GetBucketAcl''), (k ''cors'', ''GetBucketCors''), (k ''encryption'', ''GetBucketEncryption''),
     (k ''lifecycle'', ''GetBucketLifecycleConfiguration''), (k ''location'', ''GetBucketLocation''),
     (k ''logging'', ''GetBucketLogging''), (k ''metadataConfiguration'', ''GetBucketMetadataConfiguration''),
     (k ''metadataTable'', ''GetBucketMetadataTableConfiguration''),
     (k ''notification'', ''GetBucketNotificationConfiguration''),
     (k ''ownershipControls'', ''GetBucketOwnershipControls''), (k ''policy'', ''GetBucketPolicy''),
     (k ''policyStatus'', ''GetBucketPolicyStatus''), (k ''replication'', ''GetBucketReplication''),
     (k ''requestPayment'', ''GetBucketRequestPayment''), (k ''tagging'', ''GetBucketTagging''),
     (k ''versioning'', ''GetBucketVersioning''), (k ''website'', ''GetBucketWebsite''),
     (k ''object-lock'', ''GetObjectLockConfiguration''), (k ''publicAccessBlock'', ''GetPublicAccessBlock''),
     (k ''analytics'' \<and> \<not> k ''id'', ''ListBucketAnalyticsConfigurations''),
     (k ''intelligent-tiering'' \<and> \<not> k ''id'', ''ListBucketIntelligentTieringConfigurations''),
     (k ''inventory'' \<and> \<not> k ''id'', ''ListBucketInventoryConfigurations''),
     (k ''metrics'' \<and> \<not> k ''id'', ''ListBucketMetricsConfigurations''),
     (k ''uploads'', ''ListMultipartUploads''), (k ''versions'', ''ListObjectVersions''),
     (v ''list-type'' ''2'', ''ListObjectsV2'')]"

lemma get_bucket_bits:
  "distinct (map fst GET_BUCKET_KEYS)"
  "map (\<lambda>i. map fst (filter (\<lambda>(k, m). bit m i) GET_BUCKET_KEYS)) [0..<34] =
    [[''analytics''], [''intelligent-tiering''], [''inventory''], [''metrics''], [''session''], [''abac''],
     [''accelerate''], [''acl''], [''cors''], [''encryption''], [''lifecycle''], [''location''], [''logging''],
     [''metadataConfiguration''], [''metadataTable''], [''notification''], [''ownershipControls''], [''policy''],
     [''policyStatus''], [''replication''], [''requestPayment''], [''tagging''], [''versioning''], [''website''],
     [''object-lock''], [''publicAccessBlock''], [''analytics''], [''intelligent-tiering''], [''inventory''],
     [''metrics''], [''uploads''], [''versions''], [], [''id'']]"
  "map (bit (push_bit 32 1 :: 64 word)) [0..<33] = replicate 32 False @ [True]"
  "map (bit (0x3C00000F :: 64 word)) [0..<33] = replicate 4 True @ replicate 22 False @ replicate 4 True @ replicate 3 False"
  "map (bit (0x1FFFFFFF0 :: 64 word)) [0..<33] = replicate 4 False @ replicate 29 True"
  "take_bit 33 (0x3C00000F :: 64 word) = 0x3C00000F" "take_bit 33 (0x1FFFFFFF0 :: 64 word) = 0x1FFFFFFF0"
  by code_simp+

lemma get_bucket_masked:
  fixes q :: "ordered_qs option"
  defines "v0 \<equiv> key_bits GET_BUCKET_KEYS q OR pattern_bits ''list-type'' ''2'' (push_bit 32 1) q"
  shows "map (bit (v0 AND ((0x3C00000F AND bool_mask (v0 AND push_bit 33 1 \<noteq> 0)) XOR 0x1FFFFFFF0))) [0..<33] =
    map fst (get_bucket_rules (has_key q) (only_value q))"
proof -
  let ?k = "key_bits GET_BUCKET_KEYS q"
  note keys = key_bits_list [OF get_bucket_bits(1,2), of q]
  have "map (bit ?k) [0..<33] = butlast (map (bit ?k) [0..<34])" by (rule map_upt_butlast) simp
  note k33 = this [unfolded keys, simplified]
  have sel: "v0 AND push_bit 33 1 \<noteq> 0 \<longleftrightarrow> has_key q ''id''"
    unfolding bit_of_test v0_def bit_or_iff using bit_of_list [OF keys, of 33] bit_pattern_single [of "''list-type''" "''2''" 32 q 33] by auto
  show ?thesis
    unfolding bits_and bits_xor sel get_bucket_bits(4,5)
    unfolding v0_def bits_or k33 pattern_bits_list get_bucket_bits(3)
    by (simp add: bits_mask get_bucket_rules_def numeral_eq_Suc)
qed

lemma resolve_get_bucket_rules:
  "resolve_get_bucket minio q =
     (if minio \<and> (case q of Some q \<Rightarrow> has q ''events'' | None \<Rightarrow> False) then Inr ''ListenBucketNotification''
      else case first_rule (get_bucket_rules (has_key q) (only_value q)) of Some op \<Rightarrow> Inr op | None \<Rightarrow> Inr ''ListObjects'')"
proof -
  have "map snd (get_bucket_rules k v) = GET_BUCKET_OPS" "length (get_bucket_rules k v) = 33" for k v
    by (simp_all add: GET_BUCKET_OPS_def get_bucket_rules_def)
  note r = routed [OF this get_bucket_masked keep_below [OF get_bucket_bits(6,7)]]
  show ?thesis unfolding resolve_get_bucket_def Let_def by (intro if_cong refl) (rule r)
qed

definition put_bucket_rules :: "(bytes \<Rightarrow> bool) \<Rightarrow> (bool \<times> operation) list" where
  "put_bucket_rules k =
    [(k ''analytics'', ''PutBucketAnalyticsConfiguration''),
     (k ''intelligent-tiering'', ''PutBucketIntelligentTieringConfiguration''),
     (k ''inventory'', ''PutBucketInventoryConfiguration''), (k ''metrics'', ''PutBucketMetricsConfiguration''),
     (k ''abac'', ''PutBucketAbac''), (k ''accelerate'', ''PutBucketAccelerateConfiguration''),
     (k ''acl'', ''PutBucketAcl''), (k ''cors'', ''PutBucketCors''), (k ''encryption'', ''PutBucketEncryption''),
     (k ''lifecycle'', ''PutBucketLifecycleConfiguration''), (k ''logging'', ''PutBucketLogging''),
     (k ''notification'', ''PutBucketNotificationConfiguration''),
     (k ''ownershipControls'', ''PutBucketOwnershipControls''), (k ''policy'', ''PutBucketPolicy''),
     (k ''replication'', ''PutBucketReplication''), (k ''requestPayment'', ''PutBucketRequestPayment''),
     (k ''tagging'', ''PutBucketTagging''), (k ''versioning'', ''PutBucketVersioning''),
     (k ''website'', ''PutBucketWebsite''), (k ''object-lock'', ''PutObjectLockConfiguration''),
     (k ''publicAccessBlock'', ''PutPublicAccessBlock''),
     (k ''metadataAnnotationTable'', ''UpdateBucketMetadataAnnotationTableConfiguration''),
     (k ''metadataInventoryTable'', ''UpdateBucketMetadataInventoryTableConfiguration''),
     (k ''metadataJournalTable'', ''UpdateBucketMetadataJournalTableConfiguration'')]"

lemma put_bucket_bits:
  "distinct (map fst PUT_BUCKET_KEYS)"
  "map (\<lambda>i. map fst (filter (\<lambda>(k, m). bit m i) PUT_BUCKET_KEYS)) [0..<24] =
    [[''analytics''], [''intelligent-tiering''], [''inventory''], [''metrics''], [''abac''], [''accelerate''],
     [''acl''], [''cors''], [''encryption''], [''lifecycle''], [''logging''], [''notification''],
     [''ownershipControls''], [''policy''], [''replication''], [''requestPayment''], [''tagging''], [''versioning''],
     [''website''], [''object-lock''], [''publicAccessBlock''], [''metadataAnnotationTable''],
     [''metadataInventoryTable''], [''metadataJournalTable'']]"
  "map (bit (drop_bit (32 - 24) (- 1) :: 32 word)) [0..<24] = replicate 24 True"
  "take_bit 24 (drop_bit (32 - 24) (- 1) :: 32 word) = drop_bit (32 - 24) (- 1)"
  by code_simp+

lemma resolve_put_bucket_rules:
  "resolve_put_bucket q = (case first_rule (put_bucket_rules (has_key q)) of Some op \<Rightarrow> Inr op | None \<Rightarrow> Inr ''CreateBucket'')"
proof -
  let ?act = "key_bits PUT_BUCKET_KEYS q AND drop_bit (32 - 24) (- 1)"
  have "map (bit ?act) [0..<24] = map fst (put_bucket_rules (has_key q))"
    unfolding bits_and key_bits_list [OF put_bucket_bits(1,2)] put_bucket_bits(3) by (simp add: put_bucket_rules_def numeral_eq_Suc)
  moreover have "i < 24" if "bit ?act i" for i using that bit_below [OF put_bucket_bits(4), of i] by (simp add: bit_and_iff)
  moreover have "map snd (put_bucket_rules k) = PUT_BUCKET_OPS" "length (put_bucket_rules k) = 24" for k
    by (simp_all add: PUT_BUCKET_OPS_def put_bucket_rules_def)
  ultimately show ?thesis unfolding resolve_put_bucket_def Let_def by (intro routed)
qed

definition delete_bucket_rules :: "(bytes \<Rightarrow> bool) \<Rightarrow> (bool \<times> operation) list" where
  "delete_bucket_rules k =
    [(k ''analytics'', ''DeleteBucketAnalyticsConfiguration''),
     (k ''intelligent-tiering'', ''DeleteBucketIntelligentTieringConfiguration''),
     (k ''inventory'', ''DeleteBucketInventoryConfiguration''),
     (k ''metrics'', ''DeleteBucketMetricsConfiguration''), (k ''cors'', ''DeleteBucketCors''),
     (k ''encryption'', ''DeleteBucketEncryption''), (k ''lifecycle'', ''DeleteBucketLifecycle''),
     (k ''metadataConfiguration'', ''DeleteBucketMetadataConfiguration''),
     (k ''metadataTable'', ''DeleteBucketMetadataTableConfiguration''),
     (k ''ownershipControls'', ''DeleteBucketOwnershipControls''), (k ''policy'', ''DeleteBucketPolicy''),
     (k ''replication'', ''DeleteBucketReplication''), (k ''tagging'', ''DeleteBucketTagging''),
     (k ''website'', ''DeleteBucketWebsite''), (k ''publicAccessBlock'', ''DeletePublicAccessBlock'')]"

lemma delete_bucket_bits:
  "distinct (map fst DELETE_BUCKET_KEYS)"
  "map (\<lambda>i. map fst (filter (\<lambda>(k, m). bit m i) DELETE_BUCKET_KEYS)) [0..<15] =
    [[''analytics''], [''intelligent-tiering''], [''inventory''], [''metrics''], [''cors''], [''encryption''],
     [''lifecycle''], [''metadataConfiguration''], [''metadataTable''], [''ownershipControls''], [''policy''],
     [''replication''], [''tagging''], [''website''], [''publicAccessBlock'']]"
  "map (bit (drop_bit (16 - 15) (- 1) :: 16 word)) [0..<15] = replicate 15 True"
  "take_bit 15 (drop_bit (16 - 15) (- 1) :: 16 word) = drop_bit (16 - 15) (- 1)"
  by code_simp+

lemma resolve_delete_bucket_rules:
  "resolve_delete_bucket q = (case first_rule (delete_bucket_rules (has_key q)) of Some op \<Rightarrow> Inr op | None \<Rightarrow> Inr ''DeleteBucket'')"
proof -
  let ?act = "key_bits DELETE_BUCKET_KEYS q AND drop_bit (16 - 15) (- 1)"
  have "map (bit ?act) [0..<15] = map fst (delete_bucket_rules (has_key q))"
    unfolding bits_and key_bits_list [OF delete_bucket_bits(1,2)] delete_bucket_bits(3) by (simp add: delete_bucket_rules_def numeral_eq_Suc)
  moreover have "i < 15" if "bit ?act i" for i using that bit_below [OF delete_bucket_bits(4), of i] by (simp add: bit_and_iff)
  moreover have "map snd (delete_bucket_rules k) = DELETE_BUCKET_OPS" "length (delete_bucket_rules k) = 15" for k
    by (simp_all add: DELETE_BUCKET_OPS_def delete_bucket_rules_def)
  ultimately show ?thesis unfolding resolve_delete_bucket_def Let_def by (intro routed)
qed

definition delete_object_rules :: "(bytes \<Rightarrow> bool) \<Rightarrow> (bool \<times> operation) list" where
  "delete_object_rules k =
    [(k ''annotation'', ''DeleteObjectAnnotation''), (k ''tagging'', ''DeleteObjectTagging''),
     (k ''uploadId'', ''AbortMultipartUpload'')]"

lemma delete_object_bits:
  "distinct (map fst DELETE_OBJECT_KEYS)"
  "map (\<lambda>i. map fst (filter (\<lambda>(k, m). bit m i) DELETE_OBJECT_KEYS)) [0..<3] =
    [[''annotation''], [''tagging''], [''uploadId'']]"
  "map (bit (drop_bit (8 - 3) (- 1) :: 8 word)) [0..<3] = replicate 3 True"
  "take_bit 3 (drop_bit (8 - 3) (- 1) :: 8 word) = drop_bit (8 - 3) (- 1)"
  by code_simp+

lemma resolve_delete_object_rules:
  "resolve_delete_object q = (case first_rule (delete_object_rules (has_key q)) of Some op \<Rightarrow> Inr op | None \<Rightarrow> Inr ''DeleteObject'')"
proof -
  let ?act = "key_bits DELETE_OBJECT_KEYS q AND drop_bit (8 - 3) (- 1)"
  have "map (bit ?act) [0..<3] = map fst (delete_object_rules (has_key q))"
    unfolding bits_and key_bits_list [OF delete_object_bits(1,2)] delete_object_bits(3) by (simp add: delete_object_rules_def numeral_eq_Suc)
  moreover have "i < 3" if "bit ?act i" for i using that bit_below [OF delete_object_bits(4), of i] by (simp add: bit_and_iff)
  moreover have "map snd (delete_object_rules k) = DELETE_OBJECT_OPS" "length (delete_object_rules k) = 3" for k
    by (simp_all add: DELETE_OBJECT_OPS_def delete_object_rules_def)
  ultimately show ?thesis unfolding resolve_delete_object_def Let_def by (intro routed)
qed

lemma bits_if: "map (bit (if c then a else b)) is = (if c then map (bit a) is else map (bit b) is)"
  by simp

lemma both_bits:
  fixes w :: "'a::len word"
  assumes "m < LENGTH('a)" "n < LENGTH('a)"
  shows "w AND (push_bit m 1 OR push_bit n 1) = push_bit m 1 OR push_bit n 1 \<longleftrightarrow> bit w m \<and> bit w n"
  using assms unfolding bit_eq_iff [where 'a = "'a word"] by (auto simp: bit_simps)

definition post_bucket_rules :: "(bytes \<Rightarrow> bool) \<Rightarrow> (bytes \<Rightarrow> bool) \<Rightarrow> (bool \<times> operation) list" where
  "post_bucket_rules h k =
     [(k ''metadataConfiguration'', ''CreateBucketMetadataConfiguration''),
      (k ''metadataTable'', ''CreateBucketMetadataTableConfiguration''), (k ''delete'', ''DeleteObjects''),
      (h ''x-amz-request-route'' \<and> h ''x-amz-request-token'', ''WriteGetObjectResponse'')]"

lemma post_bucket_bits:
  "distinct (map fst POST_BUCKET_KEYS)"
  "map (\<lambda>i. map fst (filter (\<lambda>(k, m). bit m i) POST_BUCKET_KEYS)) [0..<6] =
     [[''metadataConfiguration''], [''metadataTable''], [''delete''], [], [], []]"
  "map (bit (0x8 :: 8 word)) [0..<4] = [False, False, False, True]" "map (bit (0x7 :: 8 word)) [0..<4] = [True, True, True, False]"
  "take_bit 4 (0x8 :: 8 word) = 0x8" "take_bit 4 (0x7 :: 8 word) = 0x7"
  "map (bit (push_bit 3 1 :: 8 word)) [0..<6] = [False, False, False, True, False, False]"
  "map (bit (push_bit 4 1 :: 8 word)) [0..<6] = [False, False, False, False, True, False]"
  "map (bit (push_bit 5 1 :: 8 word)) [0..<6] = [False, False, False, False, False, True]"
  "map (bit (0 :: 8 word)) [0..<6] = replicate 6 False"
  by code_simp+

definition post_bucket_v0 :: "bool \<Rightarrow> bool \<Rightarrow> ordered_qs option \<Rightarrow> 8 word" where
  "post_bucket_v0 r t q =
     key_bits POST_BUCKET_KEYS q OR
     (if t then (if r then push_bit 3 1 OR push_bit 4 1 else 0) OR push_bit 3 1 OR push_bit 5 1
      else (if r then push_bit 3 1 OR push_bit 4 1 else 0))"

lemma post_bucket_v0_bits:
  "map (bit (post_bucket_v0 r t q)) [0..<6] =
     [has_key q ''metadataConfiguration'', has_key q ''metadataTable'', has_key q ''delete'', r \<or> t, r, t]"
  unfolding post_bucket_v0_def bits_or bits_if key_bits_list [OF post_bucket_bits(1,2)] post_bucket_bits(7-10)
  by (cases r; cases t) (simp_all add: numeral_eq_Suc)

lemma resolve_post_bucket_rules:
  "resolve_post_bucket hdrs q =
     (case first_rule (post_bucket_rules (contains_key hdrs) (has_key q)) of Some op \<Rightarrow> Inr op | None \<Rightarrow> unknown_operation)"
proof -
  let ?r = "contains_key hdrs ''x-amz-request-route''" and ?t = "contains_key hdrs ''x-amz-request-token''"
  let ?v = "post_bucket_v0 ?r ?t q"
  let ?act = "?v AND ((0x8 AND bool_mask (?r \<and> ?t)) XOR 0x7)"
  have sel: "?v AND (push_bit 4 1 OR push_bit 5 1) = push_bit 4 1 OR push_bit 5 1 \<longleftrightarrow> ?r \<and> ?t"
    using both_bits [of 4 5 ?v] bit_of_list [OF post_bucket_v0_bits, of 4 ?r ?t q] bit_of_list [OF post_bucket_v0_bits, of 5 ?r ?t q]
    by simp
  have "map (bit ?v) [0..<4] = take 4 (map (bit ?v) [0..<6])" by (simp add: take_map take_upt)
  note v4 = this [unfolded post_bucket_v0_bits, simplified]
  have "map (bit ?act) [0..<4] = map fst (post_bucket_rules (contains_key hdrs) (has_key q))"
    unfolding bits_and bits_xor v4 post_bucket_bits(3,4) by (auto simp: bits_mask post_bucket_rules_def numeral_eq_Suc)
  moreover have "map snd (post_bucket_rules h k) = POST_BUCKET_OPS" "length (post_bucket_rules h k) = 4" for h k
    by (simp_all add: POST_BUCKET_OPS_def post_bucket_rules_def)
  moreover have "i < 4" if "bit ?act i" for i by (rule keep_below [OF post_bucket_bits(5,6) that])
  ultimately have "(if ?act \<noteq> 0 then Inr (POST_BUCKET_OPS ! trailing_zeros ?act) else unknown_operation) =
     (case first_rule (post_bucket_rules (contains_key hdrs) (has_key q)) of Some op \<Rightarrow> Inr op | None \<Rightarrow> unknown_operation)"
    by (intro routed)
  then show ?thesis unfolding resolve_post_bucket_def Let_def post_bucket_v0_def [symmetric] sel .
qed

definition post_object_rules :: "(bytes \<Rightarrow> bool) \<Rightarrow> (bytes \<Rightarrow> bytes \<Rightarrow> bool) \<Rightarrow> (bool \<times> operation) list" where
  "post_object_rules k v =
     [(k ''select'' \<and> v ''select-type'' ''2'', ''SelectObjectContent''), (k ''uploads'', ''CreateMultipartUpload''),
      (k ''restore'', ''RestoreObject''), (k ''uploadId'', ''CompleteMultipartUpload'')]"

lemma post_object_bits:
  "distinct (map fst POST_OBJECT_KEYS)"
  "map (\<lambda>i. map fst (filter (\<lambda>(k, m). bit m i) POST_OBJECT_KEYS)) [0..<6] =
     [[''select''], [''uploads''], [''restore''], [''uploadId''], [''select''], []]"
  "map (bit (0x1 :: 8 word)) [0..<4] = [True, False, False, False]" "map (bit (0xE :: 8 word)) [0..<4] = [False, True, True, True]"
  "take_bit 4 (0x1 :: 8 word) = 0x1" "take_bit 4 (0xE :: 8 word) = 0xE"
  "map (bit (1 OR push_bit 5 1 :: 8 word)) [0..<6] = [True, False, False, False, False, True]"
  by code_simp+

definition post_object_v0 :: "ordered_qs option \<Rightarrow> 8 word" where
  "post_object_v0 q = key_bits POST_OBJECT_KEYS q OR pattern_bits ''select-type'' ''2'' (1 OR push_bit 5 1) q"

lemma post_object_v0_bits:
  "map (bit (post_object_v0 q)) [0..<6] =
     [has_key q ''select'' \<or> only_value q ''select-type'' ''2'', has_key q ''uploads'', has_key q ''restore'', has_key q ''uploadId'',
      has_key q ''select'', only_value q ''select-type'' ''2'']"
  unfolding post_object_v0_def bits_or [of "key_bits POST_OBJECT_KEYS q"] key_bits_list [OF post_object_bits(1,2)]
    pattern_bits_list post_object_bits(7)
  by simp

lemma resolve_post_object_rules:
  "resolve_post_object_route q =
     (case first_rule (post_object_rules (has_key q) (only_value q)) of Some op \<Rightarrow> Inr op | None \<Rightarrow> unknown_operation)"
proof -
  let ?c = "has_key q ''select'' \<and> only_value q ''select-type'' ''2''"
  let ?v = "post_object_v0 q"
  let ?act = "?v AND ((0x1 AND bool_mask ?c) XOR 0xE)"
  have sel: "?v AND (push_bit 4 1 OR push_bit 5 1) = push_bit 4 1 OR push_bit 5 1 \<longleftrightarrow> ?c"
    using both_bits [of 4 5 ?v] bit_of_list [OF post_object_v0_bits, of 4 q] bit_of_list [OF post_object_v0_bits, of 5 q] by simp
  have "map (bit ?v) [0..<4] = take 4 (map (bit ?v) [0..<6])" by (simp add: take_map take_upt)
  note v4 = this [unfolded post_object_v0_bits, simplified]
  have "map (bit ?act) [0..<4] = map fst (post_object_rules (has_key q) (only_value q))"
    unfolding bits_and bits_xor v4 post_object_bits(3,4) by (auto simp: bits_mask post_object_rules_def numeral_eq_Suc)
  moreover have "map snd (post_object_rules k v) = POST_OBJECT_OPS" "length (post_object_rules k v) = 4" for k v
    by (simp_all add: POST_OBJECT_OPS_def post_object_rules_def)
  moreover have "i < 4" if "bit ?act i" for i by (rule keep_below [OF post_object_bits(5,6) that])
  ultimately have "(if ?act \<noteq> 0 then Inr (POST_OBJECT_OPS ! trailing_zeros ?act) else unknown_operation) =
     (case first_rule (post_object_rules (has_key q) (only_value q)) of Some op \<Rightarrow> Inr op | None \<Rightarrow> unknown_operation)"
    by (intro routed)
  then show ?thesis unfolding resolve_post_object_route_def Let_def post_object_v0_def [symmetric] sel .
qed

definition put_object_rules :: "(bytes \<Rightarrow> bool) \<Rightarrow> (bytes \<Rightarrow> bool) \<Rightarrow> (bool \<times> operation) list" where
  "put_object_rules h k =
     [(k ''annotation'', ''PutObjectAnnotation''), (k ''renameObject'', ''RenameObject''), (k ''acl'', ''PutObjectAcl''),
      (k ''legal-hold'', ''PutObjectLegalHold''), (k ''retention'', ''PutObjectRetention''), (k ''tagging'', ''PutObjectTagging''),
      (k ''encryption'', ''UpdateObjectEncryption''),
      (k ''partNumber'' \<and> k ''uploadId'' \<and> h ''x-amz-copy-source'', ''UploadPartCopy''),
      (k ''partNumber'' \<and> k ''uploadId'', ''UploadPart''), (h ''x-amz-copy-source'', ''CopyObject'')]"

lemma put_object_bits:
  "distinct (map fst PUT_OBJECT_KEYS)"
  "map (\<lambda>i. map fst (filter (\<lambda>(k, m). bit m i) PUT_OBJECT_KEYS)) [0..<13] =
     [[''annotation''], [''renameObject''], [''acl''], [''legal-hold''], [''retention''], [''tagging''], [''encryption''],
      [''partNumber'', ''uploadId''], [''partNumber'', ''uploadId''], [], [''partNumber''], [''uploadId''], []]"
  "map (bit (0x180 :: 16 word)) [0..<10] = replicate 7 False @ [True, True, False]"
  "map (bit (0x27F :: 16 word)) [0..<10] = replicate 7 True @ [False, False, True]"
  "map (bit (0x80 :: 16 word)) [0..<10] = replicate 7 False @ [True, False, False]"
  "map (bit (0x37F :: 16 word)) [0..<10] = replicate 7 True @ [False, True, True]"
  "take_bit 10 (0x80 :: 16 word) = 0x80" "take_bit 10 (0x37F :: 16 word) = 0x37F"
  "map (bit (push_bit 7 1 :: 16 word)) [0..<13] = replicate 7 False @ True # replicate 5 False"
  "map (bit (push_bit 9 1 :: 16 word)) [0..<13] = replicate 9 False @ True # replicate 3 False"
  "map (bit (push_bit 12 1 :: 16 word)) [0..<13] = replicate 12 False @ [True]"
  "map (bit (0 :: 16 word)) [0..<13] = replicate 13 False"
  by code_simp+

definition put_object_v0 :: "bool \<Rightarrow> ordered_qs option \<Rightarrow> 16 word" where
  "put_object_v0 c q =
     key_bits PUT_OBJECT_KEYS q OR (if c then push_bit 7 1 OR push_bit 9 1 OR push_bit 12 1 else 0)"

lemma put_object_v0_bits:
  "map (bit (put_object_v0 c q)) [0..<13] =
     [has_key q ''annotation'', has_key q ''renameObject'', has_key q ''acl'', has_key q ''legal-hold'', has_key q ''retention'',
      has_key q ''tagging'', has_key q ''encryption'', (has_key q ''partNumber'' \<or> has_key q ''uploadId'') \<or> c,
      has_key q ''partNumber'' \<or> has_key q ''uploadId'', c, has_key q ''partNumber'', has_key q ''uploadId'', c]"
  unfolding put_object_v0_def bits_or bits_if key_bits_list [OF put_object_bits(1,2)] put_object_bits(9-12)
  by (cases c) (simp_all add: numeral_eq_Suc)

lemma resolve_put_object_rules:
  "resolve_put_object hdrs q =
     (case first_rule (put_object_rules (contains_key hdrs) (has_key q)) of Some op \<Rightarrow> Inr op | None \<Rightarrow> Inr ''PutObject'')"
proof -
  let ?c = "contains_key hdrs ''x-amz-copy-source''" and ?u = "has_key q ''partNumber'' \<and> has_key q ''uploadId''"
  let ?v = "put_object_v0 ?c q"
  let ?act = "?v AND ((0x180 AND bool_mask ?u) XOR 0x27F) AND ((0x80 AND bool_mask ?c) XOR 0x37F)"
  have sel: "?v AND (push_bit 10 1 OR push_bit 11 1) = push_bit 10 1 OR push_bit 11 1 \<longleftrightarrow> ?u"
    using both_bits [of 10 11 ?v] bit_of_list [OF put_object_v0_bits, of 10 ?c q] bit_of_list [OF put_object_v0_bits, of 11 ?c q]
    by simp
  have sel_1: "?v AND push_bit 12 1 \<noteq> 0 \<longleftrightarrow> ?c"
    unfolding bit_of_test using bit_of_list [OF put_object_v0_bits, of 12 ?c q] by simp
  have "map (bit ?v) [0..<10] = take 10 (map (bit ?v) [0..<13])" by (simp add: take_map take_upt)
  note v10 = this [unfolded put_object_v0_bits, simplified]
  have "map (bit ?act) [0..<10] = map fst (put_object_rules (contains_key hdrs) (has_key q))"
    unfolding bits_and bits_xor v10 put_object_bits(3-6) by (auto simp: bits_mask put_object_rules_def numeral_eq_Suc)
  moreover have "map snd (put_object_rules h k) = PUT_OBJECT_OPS" "length (put_object_rules h k) = 10" for h k
    by (simp_all add: PUT_OBJECT_OPS_def put_object_rules_def)
  moreover have "i < 10" if "bit ?act i" for i
    using that keep_below [OF put_object_bits(7,8), of ?v "bool_mask ?c" i] by (simp add: bit_and_iff)
  ultimately have "(if ?act \<noteq> 0 then Inr (PUT_OBJECT_OPS ! trailing_zeros ?act) else Inr ''PutObject'') =
     (case first_rule (put_object_rules (contains_key hdrs) (has_key q)) of Some op \<Rightarrow> Inr op | None \<Rightarrow> Inr ''PutObject'')"
    by (intro routed)
  then show ?thesis unfolding resolve_put_object_def Let_def put_object_v0_def [symmetric] sel sel_1 .
qed

text \<open>The tables of all methods and paths; the second component is the default.\<close>

definition routing_table ::
  "bool \<Rightarrow> bytes \<Rightarrow> s3_path \<Rightarrow> (bytes \<Rightarrow> bool) \<Rightarrow> (bytes \<Rightarrow> bool) \<Rightarrow> (bytes \<Rightarrow> bytes \<Rightarrow> bool) \<Rightarrow>
     (bool \<times> operation) list \<times> operation option" where
  "routing_table minio meth path h k v =
     (if meth = ''HEAD'' then
        (case path of Root \<Rightarrow> ([], None) | Bucket _ \<Rightarrow> ([], Some ''HeadBucket'') | Object _ _ \<Rightarrow> ([], Some ''HeadObject''))
      else if meth = ''GET'' then
        (case path of
           Root \<Rightarrow> ([(v ''x-id'' ''ListDirectoryBuckets'', ''ListDirectoryBuckets'')], Some ''ListBuckets'')
         | Bucket _ \<Rightarrow> ((minio \<and> k ''events'', ''ListenBucketNotification'') # get_bucket_rules k v, Some ''ListObjects'')
         | Object _ _ \<Rightarrow> (get_object_rules k, Some ''GetObject''))
      else if meth = ''POST'' then
        (case path of Root \<Rightarrow> ([], None) | Bucket _ \<Rightarrow> (post_bucket_rules h k, None) | Object _ _ \<Rightarrow> (post_object_rules k v, None))
      else if meth = ''PUT'' then
        (case path of
           Root \<Rightarrow> ([], None)
         | Bucket _ \<Rightarrow> (put_bucket_rules k, Some ''CreateBucket'')
         | Object _ _ \<Rightarrow> (put_object_rules h k, Some ''PutObject''))
      else if meth = ''DELETE'' then
        (case path of
           Root \<Rightarrow> ([], None)
         | Bucket _ \<Rightarrow> (delete_bucket_rules k, Some ''DeleteBucket'')
         | Object _ _ \<Rightarrow> (delete_object_rules k, Some ''DeleteObject''))
      else ([], None))"

definition follow_table :: "(bool \<times> operation) list \<times> operation option \<Rightarrow> operation s3_result" where
  "follow_table t =
     (case first_rule (fst t) of
        Some op \<Rightarrow> Inr op
      | None \<Rightarrow> (case snd t of Some op \<Rightarrow> Inr op | None \<Rightarrow> Inl NotImplemented))"

lemma first_rule_simps [simp]:
  "first_rule [] = None" "first_rule ((c, op) # rules) = (if c then Some op else first_rule rules)"
  by (simp_all add: first_rule_def)

lemma resolve_route_table:
  assumes "\<forall>q'. q = Some q' \<longrightarrow> sorted (map fst (qs q'))"
  shows "resolve_route minio meth hdrs path q =
    follow_table (routing_table minio meth path (contains_key hdrs) (has_key q) (only_value q))"
proof -
  have "(case q of None \<Rightarrow> False | Some q \<Rightarrow> has q ''events'') = has_key q ''events''"
    using assms by (auto simp: has_key_def has_sorted split: option.splits)
  moreover have "(case q of Some q \<Rightarrow> get_unique_qs q ''x-id'' = Some ''ListDirectoryBuckets'' | None \<Rightarrow> False) =
      only_value q ''x-id'' ''ListDirectoryBuckets''"
    by (simp add: only_value_def split: option.splits)
  ultimately show ?thesis
    unfolding resolve_route_def routing_table_def resolve_get_object_rules resolve_get_bucket_rules resolve_post_bucket_rules
      resolve_post_object_rules resolve_put_bucket_rules resolve_put_object_rules resolve_delete_bucket_rules
      resolve_delete_object_rules
    by (auto simp: follow_table_def unknown_operation_def resolve_head_bucket_def resolve_head_object_def resolve_get_root_def
        split: s3_path.split option.split)
qed

text \<open>
  C4: the router with its bit masks follows the routing table: for every method, path, header map and (sorted) query
  it selects the operation of the first rule whose conditions hold, the default operation when
  there is none, and answers that the operation is unknown when there is no default either.
\<close>

theorem router_follows_table:
  assumes "\<forall>q'. q = Some q' \<longrightarrow> sorted (map fst (qs q'))"
  shows "resolve_route minio meth hdrs path q =
    follow_table (routing_table minio meth path (contains_key hdrs) (has_key q) (only_value q))"
  by (rule resolve_route_table [OF assms])

theorem router_follows_table_witness:
  "resolve_route False ''PUT'' [(''x-amz-copy-source'', ''b/k'')] (Object ''b'' ''k'')
     (Some \<lparr>qs = [(''partNumber'', ''1''), (''uploadId'', ''u'')]\<rparr>) = Inr ''UploadPartCopy''"
proof -
  have "sorted (map fst [(''partNumber'', ''1''), (''uploadId'', ''u'')])" by code_simp
  then have "\<forall>q'. Some \<lparr>qs = [(''partNumber'', ''1''), (''uploadId'', ''u'')]\<rparr> = Some q' \<longrightarrow> sorted (map fst (qs q'))" by auto
  from router_follows_table [OF this] show ?thesis
    by (simp add: follow_table_def routing_table_def put_object_rules_def has_key_def contains_key_def)
qed

end
