(* ===== verification/Router_Names.thy ===== *)
theory Router_Names
  imports Router_Correct
begin

text \<open>
  The names that a client may declare for a request are those of the operations that the router can select for a
  request of the same method and kind of path.
\<close>

section \<open>Declared names and routed operations\<close>

text \<open>
  A request for every operation that the router can select: headers and query with which it does so.
\<close>

type_synonym requests = "(operation \<times> (bytes \<times> bytes) list \<times> (bytes \<times> bytes) list) list"

definition get_bucket_requests :: requests where
  "get_bucket_requests =
    [(''GetBucketAnalyticsConfiguration'', [], [(''analytics'', ''''), (''id'', '''')]),
     (''GetBucketIntelligentTieringConfiguration'', [], [(''id'', ''''), (''intelligent-tiering'', '''')]),
     (''GetBucketInventoryConfiguration'', [], [(''id'', ''''), (''inventory'', '''')]),
     (''GetBucketMetricsConfiguration'', [], [(''id'', ''''), (''metrics'', '''')]),
     (''CreateSession'', [], [(''session'', '''')]), (''GetBucketAbac'', [], [(''abac'', '''')]),
     (''GetBucketAccelerateConfiguration'', [], [(''accelerate'', '''')]), (''GetBucketAcl'', [], [(''acl'', '''')]),
     (''GetBucketCors'', [], [(''cors'', '''')]), (''GetBucketEncryption'', [], [(''encryption'', '''')]),
     (''GetBucketLifecycleConfiguration'', [], [(''lifecycle'', '''')]),
     (''GetBucketLocation'', [], [(''location'', '''')]), (''GetBucketLogging'', [], [(''logging'', '''')]),
     (''GetBucketMetadataConfiguration'', [], [(''metadataConfiguration'', '''')]),
     (''GetBucketMetadataTableConfiguration'', [], [(''metadataTable'', '''')]),
     (''GetBucketNotificationConfiguration'', [], [(''notification'', '''')]),
     (''GetBucketOwnershipControls'', [], [(''ownershipControls'', '''')]),
     (''GetBucketPolicy'', [], [(''policy'', '''')]), (''GetBucketPolicyStatus'', [], [(''policyStatus'', '''')]),
     (''GetBucketReplication'', [], [(''replication'', '''')]),
     (''GetBucketRequestPayment'', [], [(''requestPayment'', '''')]),
     (''GetBucketTagging'', [], [(''tagging'', '''')]), (''GetBucketVersioning'', [], [(''versioning'', '''')]),
     (''GetBucketWebsite'', [], [(''website'', '''')]),
     (''GetObjectLockConfiguration'', [], [(''object-lock'', '''')]),
     (''GetPublicAccessBlock'', [], [(''publicAccessBlock'', '''')]),
     (''ListBucketAnalyticsConfigurations'', [], [(''analytics'', '''')]),
     (''ListBucketIntelligentTieringConfigurations'', [], [(''intelligent-tiering'', '''')]),
     (''ListBucketInventoryConfigurations'', [], [(''inventory'', '''')]),
     (''ListBucketMetricsConfigurations'', [], [(''metrics'', '''')]),
     (''ListMultipartUploads'', [], [(''uploads'', '''')]), (''ListObjectVersions'', [], [(''versions'', '''')]),
     (''ListObjectsV2'', [], [(''list-type'', ''2'')]), (''ListObjects'', [], [])]"

definition get_object_requests :: requests where
  "get_object_requests =
    [(''GetObjectAnnotation'', [], [(''annotation'', ''''), (''annotationName'', '''')]),
     (''GetObjectAttributes'', [], [(''attributes'', '''')]), (''GetObjectAcl'', [], [(''acl'', '''')]),
     (''GetObjectLegalHold'', [], [(''legal-hold'', '''')]), (''GetObjectRetention'', [], [(''retention'', '''')]),
     (''GetObjectTagging'', [], [(''tagging'', '''')]), (''GetObjectTorrent'', [], [(''torrent'', '''')]),
     (''ListObjectAnnotations'', [], [(''annotation'', '''')]), (''ListParts'', [], [(''uploadId'', '''')]),
     (''GetObject'', [], [])]"

definition post_bucket_requests :: requests where
  "post_bucket_requests =
    [(''CreateBucketMetadataConfiguration'', [], [(''metadataConfiguration'', '''')]),
     (''CreateBucketMetadataTableConfiguration'', [], [(''metadataTable'', '''')]),
     (''DeleteObjects'', [], [(''delete'', '''')]),
     (''WriteGetObjectResponse'', [(''x-amz-request-route'', ''''), (''x-amz-request-token'', '''')], [])]"

definition post_object_requests :: requests where
  "post_object_requests =
    [(''SelectObjectContent'', [], [(''select'', ''''), (''select-type'', ''2'')]),
     (''CreateMultipartUpload'', [], [(''uploads'', '''')]), (''RestoreObject'', [], [(''restore'', '''')]),
     (''CompleteMultipartUpload'', [], [(''uploadId'', '''')])]"

definition put_bucket_requests :: requests where
  "put_bucket_requests =
    [(''PutBucketAnalyticsConfiguration'', [], [(''analytics'', '''')]),
     (''PutBucketIntelligentTieringConfiguration'', [], [(''intelligent-tiering'', '''')]),
     (''PutBucketInventoryConfiguration'', [], [(''inventory'', '''')]),
     (''PutBucketMetricsConfiguration'', [], [(''metrics'', '''')]), (''PutBucketAbac'', [], [(''abac'', '''')]),
     (''PutBucketAccelerateConfiguration'', [], [(''accelerate'', '''')]), (''PutBucketAcl'', [], [(''acl'', '''')]),
     (''PutBucketCors'', [], [(''cors'', '''')]), (''PutBucketEncryption'', [], [(''encryption'', '''')]),
     (''PutBucketLifecycleConfiguration'', [], [(''lifecycle'', '''')]),
     (''PutBucketLogging'', [], [(''logging'', '''')]),
     (''PutBucketNotificationConfiguration'', [], [(''notification'', '''')]),
     (''PutBucketOwnershipControls'', [], [(''ownershipControls'', '''')]),
     (''PutBucketPolicy'', [], [(''policy'', '''')]), (''PutBucketReplication'', [], [(''replication'', '''')]),
     (''PutBucketRequestPayment'', [], [(''requestPayment'', '''')]),
     (''PutBucketTagging'', [], [(''tagging'', '''')]), (''PutBucketVersioning'', [], [(''versioning'', '''')]),
     (''PutBucketWebsite'', [], [(''website'', '''')]),
     (''PutObjectLockConfiguration'', [], [(''object-lock'', '''')]),
     (''PutPublicAccessBlock'', [], [(''publicAccessBlock'', '''')]),
     (''UpdateBucketMetadataAnnotationTableConfiguration'', [], [(''metadataAnnotationTable'', '''')]),
     (''UpdateBucketMetadataInventoryTableConfiguration'', [], [(''metadataInventoryTable'', '''')]),
     (''UpdateBucketMetadataJournalTableConfiguration'', [], [(''metadataJournalTable'', '''')]),
     (''CreateBucket'', [], [])]"

definition put_object_requests :: requests where
  "put_object_requests =
    [(''PutObjectAnnotation'', [], [(''annotation'', '''')]), (''RenameObject'', [], [(''renameObject'', '''')]),
     (''PutObjectAcl'', [], [(''acl'', '''')]), (''PutObjectLegalHold'', [], [(''legal-hold'', '''')]),
     (''PutObjectRetention'', [], [(''retention'', '''')]), (''PutObjectTagging'', [], [(''tagging'', '''')]),
     (''UpdateObjectEncryption'', [], [(''encryption'', '''')]),
     (''UploadPartCopy'', [(''x-amz-copy-source'', '''')], [(''partNumber'', ''''), (''uploadId'', '''')]),
     (''UploadPart'', [], [(''partNumber'', ''''), (''uploadId'', '''')]),
     (''CopyObject'', [(''x-amz-copy-source'', '''')], []), (''PutObject'', [], [])]"

definition delete_bucket_requests :: requests where
  "delete_bucket_requests =
    [(''DeleteBucketAnalyticsConfiguration'', [], [(''analytics'', '''')]),
     (''DeleteBucketIntelligentTieringConfiguration'', [], [(''intelligent-tiering'', '''')]),
     (''DeleteBucketInventoryConfiguration'', [], [(''inventory'', '''')]),
     (''DeleteBucketMetricsConfiguration'', [], [(''metrics'', '''')]),
     (''DeleteBucketCors'', [], [(''cors'', '''')]), (''DeleteBucketEncryption'', [], [(''encryption'', '''')]),
     (''DeleteBucketLifecycle'', [], [(''lifecycle'', '''')]),
     (''DeleteBucketMetadataConfiguration'', [], [(''metadataConfiguration'', '''')]),
     (''DeleteBucketMetadataTableConfiguration'', [], [(''metadataTable'', '''')]),
     (''DeleteBucketOwnershipControls'', [], [(''ownershipControls'', '''')]),
     (''DeleteBucketPolicy'', [], [(''policy'', '''')]), (''DeleteBucketReplication'', [], [(''replication'', '''')]),
     (''DeleteBucketTagging'', [], [(''tagging'', '''')]), (''DeleteBucketWebsite'', [], [(''website'', '''')]),
     (''DeletePublicAccessBlock'', [], [(''publicAccessBlock'', '''')]), (''DeleteBucket'', [], [])]"

definition delete_object_requests :: requests where
  "delete_object_requests =
    [(''DeleteObjectAnnotation'', [], [(''annotation'', '''')]), (''DeleteObjectTagging'', [], [(''tagging'', '''')]),
     (''AbortMultipartUpload'', [], [(''uploadId'', '''')]), (''DeleteObject'', [], [])]"

lemma reached:
  assumes "list_all (\<lambda>(op, h, ks). res h (Some \<lparr>qs = ks\<rparr>) = Inr op) reqs" and "set names \<subseteq> set (map fst reqs)"
    and "\<And>h q op. res h q = Inr op \<Longrightarrow> op \<in> set names"
  shows "op \<in> set names \<longleftrightarrow> (\<exists>h q. res h q = Inr op)"
proof
  assume "op \<in> set names"
  with assms(2) obtain h ks where "(op, h, ks) \<in> set reqs" by auto
  with assms(1) have "res h (Some \<lparr>qs = ks\<rparr>) = Inr op" by (auto simp: list_all_iff)
  then show "\<exists>h q. res h q = Inr op" by blast
next
  assume "\<exists>h q. res h q = Inr op"
  with assms(3) show "op \<in> set names" by blast
qed

lemma first_rule_in: "first_rule rules = Some op \<Longrightarrow> op \<in> set (map snd rules)"
  by (auto simp: first_rule_def find_Some_iff image_iff Bex_def) (metis nth_mem)

lemma ruled:
  assumes "res = (case first_rule rules of Some op \<Rightarrow> Inr op | None \<Rightarrow> d)" and "map snd rules = ops" "set ops \<subseteq> set names"
    and "\<And>op. d = Inr op \<Longrightarrow> op \<in> set names"
  shows "res = Inr op \<Longrightarrow> op \<in> set names"
  using assms first_rule_in [of rules op] by (auto split: option.splits)

lemmas resolve_rules = resolve_get_bucket_rules resolve_get_object_rules resolve_post_bucket_rules resolve_post_object_rules
  resolve_put_bucket_rules resolve_put_object_rules resolve_delete_bucket_rules resolve_delete_object_rules

lemma get_bucket_tables:
  "list_all (\<lambda>(op, h, ks). resolve_get_bucket minio (Some \<lparr>qs = ks\<rparr>) = Inr op) get_bucket_requests"
  "list_all (\<lambda>n. n \<in> set (map fst get_bucket_requests)) OIR_GET_BUCKET"
  "list_all (\<lambda>n. n \<in> set OIR_GET_BUCKET) GET_BUCKET_OPS"
  unfolding resolve_rules by (cases minio; simp only: ; code_simp) code_simp+

lemma get_object_tables:
  "list_all (\<lambda>(op, h, ks). resolve_get_object (Some \<lparr>qs = ks\<rparr>) = Inr op) get_object_requests"
  "list_all (\<lambda>n. n \<in> set (map fst get_object_requests)) OIR_GET_OBJECT"
  "list_all (\<lambda>n. n \<in> set OIR_GET_OBJECT) GET_OBJECT_OPS"
  unfolding resolve_rules by code_simp+

lemma post_bucket_tables:
  "list_all (\<lambda>(op, h, ks). resolve_post_bucket h (Some \<lparr>qs = ks\<rparr>) = Inr op) post_bucket_requests"
  "list_all (\<lambda>n. n \<in> set (map fst post_bucket_requests)) OIR_POST_BUCKET"
  "list_all (\<lambda>n. n \<in> set OIR_POST_BUCKET) POST_BUCKET_OPS"
  unfolding resolve_rules by code_simp+

lemma post_object_tables:
  "list_all (\<lambda>(op, h, ks). resolve_post_object_route (Some \<lparr>qs = ks\<rparr>) = Inr op) post_object_requests"
  "list_all (\<lambda>n. n \<in> set (map fst post_object_requests)) OIR_POST_OBJECT"
  "list_all (\<lambda>n. n \<in> set OIR_POST_OBJECT) POST_OBJECT_OPS"
  unfolding resolve_rules by code_simp+

lemma put_bucket_tables:
  "list_all (\<lambda>(op, h, ks). resolve_put_bucket (Some \<lparr>qs = ks\<rparr>) = Inr op) put_bucket_requests"
  "list_all (\<lambda>n. n \<in> set (map fst put_bucket_requests)) OIR_PUT_BUCKET"
  "list_all (\<lambda>n. n \<in> set OIR_PUT_BUCKET) PUT_BUCKET_OPS"
  unfolding resolve_rules by code_simp+

lemma put_object_tables:
  "list_all (\<lambda>(op, h, ks). resolve_put_object h (Some \<lparr>qs = ks\<rparr>) = Inr op) put_object_requests"
  "list_all (\<lambda>n. n \<in> set (map fst put_object_requests)) OIR_PUT_OBJECT"
  "list_all (\<lambda>n. n \<in> set OIR_PUT_OBJECT) PUT_OBJECT_OPS"
  unfolding resolve_rules by code_simp+

lemma delete_bucket_tables:
  "list_all (\<lambda>(op, h, ks). resolve_delete_bucket (Some \<lparr>qs = ks\<rparr>) = Inr op) delete_bucket_requests"
  "list_all (\<lambda>n. n \<in> set (map fst delete_bucket_requests)) OIR_DELETE_BUCKET"
  "list_all (\<lambda>n. n \<in> set OIR_DELETE_BUCKET) DELETE_BUCKET_OPS"
  unfolding resolve_rules by code_simp+

lemma delete_object_tables:
  "list_all (\<lambda>(op, h, ks). resolve_delete_object (Some \<lparr>qs = ks\<rparr>) = Inr op) delete_object_requests"
  "list_all (\<lambda>n. n \<in> set (map fst delete_object_requests)) OIR_DELETE_OBJECT"
  "list_all (\<lambda>n. n \<in> set OIR_DELETE_OBJECT) DELETE_OBJECT_OPS"
  unfolding resolve_rules by code_simp+

lemma list_all_subset: "list_all (\<lambda>n. n \<in> A) ns \<Longrightarrow> set ns \<subseteq> A"
  by (auto simp: list_all_iff)

text \<open>The operations a resolver can select are those of the table of its method and path.\<close>

lemma get_bucket_ops: "map snd (get_bucket_rules k v) = GET_BUCKET_OPS"
  by (simp add: get_bucket_rules_def GET_BUCKET_OPS_def)

lemma get_object_ops: "map snd (get_object_rules k) = GET_OBJECT_OPS"
  by (simp add: get_object_rules_def GET_OBJECT_OPS_def)

lemma get_object_reached: "op \<in> set OIR_GET_OBJECT \<longleftrightarrow> (\<exists>(h :: (bytes \<times> bytes) list) q. resolve_get_object q = Inr op)"
proof (rule reached [where res = "\<lambda>h. resolve_get_object", OF get_object_tables(1) list_all_subset [OF get_object_tables(2)]])
  show "op \<in> set OIR_GET_OBJECT" if "resolve_get_object q = Inr op" for h q op
    by (rule ruled [OF resolve_get_object_rules get_object_ops list_all_subset [OF get_object_tables(3)] _ that])
      (simp_all add: unknown_operation_def OIR_GET_OBJECT_def)
qed

lemma post_bucket_ops: "map snd (post_bucket_rules h k) = POST_BUCKET_OPS"
  by (simp add: post_bucket_rules_def POST_BUCKET_OPS_def)

lemma post_bucket_reached: "op \<in> set OIR_POST_BUCKET \<longleftrightarrow> (\<exists>(h :: (bytes \<times> bytes) list) q. resolve_post_bucket h q = Inr op)"
proof (rule reached [OF post_bucket_tables(1) list_all_subset [OF post_bucket_tables(2)]])
  show "op \<in> set OIR_POST_BUCKET" if "resolve_post_bucket h q = Inr op" for h q op
    by (rule ruled [OF resolve_post_bucket_rules post_bucket_ops list_all_subset [OF post_bucket_tables(3)] _ that])
      (simp_all add: unknown_operation_def OIR_POST_BUCKET_def)
qed

lemma post_object_ops: "map snd (post_object_rules k v) = POST_OBJECT_OPS"
  by (simp add: post_object_rules_def POST_OBJECT_OPS_def)

lemma post_object_reached: "op \<in> set OIR_POST_OBJECT \<longleftrightarrow> (\<exists>(h :: (bytes \<times> bytes) list) q. resolve_post_object_route q = Inr op)"
proof (rule reached [where res = "\<lambda>h. resolve_post_object_route", OF post_object_tables(1) list_all_subset [OF post_object_tables(2)]])
  show "op \<in> set OIR_POST_OBJECT" if "resolve_post_object_route q = Inr op" for h q op
    by (rule ruled [OF resolve_post_object_rules post_object_ops list_all_subset [OF post_object_tables(3)] _ that])
      (simp_all add: unknown_operation_def OIR_POST_OBJECT_def)
qed

lemma put_bucket_ops: "map snd (put_bucket_rules k) = PUT_BUCKET_OPS"
  by (simp add: put_bucket_rules_def PUT_BUCKET_OPS_def)

lemma put_bucket_reached: "op \<in> set OIR_PUT_BUCKET \<longleftrightarrow> (\<exists>(h :: (bytes \<times> bytes) list) q. resolve_put_bucket q = Inr op)"
proof (rule reached [where res = "\<lambda>h. resolve_put_bucket", OF put_bucket_tables(1) list_all_subset [OF put_bucket_tables(2)]])
  show "op \<in> set OIR_PUT_BUCKET" if "resolve_put_bucket q = Inr op" for h q op
    by (rule ruled [OF resolve_put_bucket_rules put_bucket_ops list_all_subset [OF put_bucket_tables(3)] _ that])
      (simp_all add: unknown_operation_def OIR_PUT_BUCKET_def)
qed

lemma put_object_ops: "map snd (put_object_rules h k) = PUT_OBJECT_OPS"
  by (simp add: put_object_rules_def PUT_OBJECT_OPS_def)

lemma put_object_reached: "op \<in> set OIR_PUT_OBJECT \<longleftrightarrow> (\<exists>(h :: (bytes \<times> bytes) list) q. resolve_put_object h q = Inr op)"
proof (rule reached [OF put_object_tables(1) list_all_subset [OF put_object_tables(2)]])
  show "op \<in> set OIR_PUT_OBJECT" if "resolve_put_object h q = Inr op" for h q op
    by (rule ruled [OF resolve_put_object_rules put_object_ops list_all_subset [OF put_object_tables(3)] _ that])
      (simp_all add: unknown_operation_def OIR_PUT_OBJECT_def)
qed

lemma delete_bucket_ops: "map snd (delete_bucket_rules k) = DELETE_BUCKET_OPS"
  by (simp add: delete_bucket_rules_def DELETE_BUCKET_OPS_def)

lemma delete_bucket_reached: "op \<in> set OIR_DELETE_BUCKET \<longleftrightarrow> (\<exists>(h :: (bytes \<times> bytes) list) q. resolve_delete_bucket q = Inr op)"
proof (rule reached [where res = "\<lambda>h. resolve_delete_bucket", OF delete_bucket_tables(1) list_all_subset [OF delete_bucket_tables(2)]])
  show "op \<in> set OIR_DELETE_BUCKET" if "resolve_delete_bucket q = Inr op" for h q op
    by (rule ruled [OF resolve_delete_bucket_rules delete_bucket_ops list_all_subset [OF delete_bucket_tables(3)] _ that])
      (simp_all add: unknown_operation_def OIR_DELETE_BUCKET_def)
qed

lemma delete_object_ops: "map snd (delete_object_rules k) = DELETE_OBJECT_OPS"
  by (simp add: delete_object_rules_def DELETE_OBJECT_OPS_def)

lemma delete_object_reached: "op \<in> set OIR_DELETE_OBJECT \<longleftrightarrow> (\<exists>(h :: (bytes \<times> bytes) list) q. resolve_delete_object q = Inr op)"
proof (rule reached [where res = "\<lambda>h. resolve_delete_object", OF delete_object_tables(1) list_all_subset [OF delete_object_tables(2)]])
  show "op \<in> set OIR_DELETE_OBJECT" if "resolve_delete_object q = Inr op" for h q op
    by (rule ruled [OF resolve_delete_object_rules delete_object_ops list_all_subset [OF delete_object_tables(3)] _ that])
      (simp_all add: unknown_operation_def OIR_DELETE_OBJECT_def)
qed

lemma get_bucket_reached:
  "op \<in> set (OIR_GET_BUCKET @ (if minio then [''ListenBucketNotification''] else [])) \<longleftrightarrow>
   (\<exists>(h :: (bytes \<times> bytes) list) q. resolve_get_bucket minio q = Inr op)"
proof -
  let ?names = "OIR_GET_BUCKET @ (if minio then [''ListenBucketNotification''] else [])"
  let ?reqs = "get_bucket_requests @ (if minio then [(''ListenBucketNotification'', [], [(''events'', '''')])] else [])"
  have reqs: "list_all (\<lambda>(op, h, ks). resolve_get_bucket minio (Some \<lparr>qs = ks\<rparr>) = Inr op) ?reqs"
    using get_bucket_tables(1) [of minio] has_sorted [of "\<lparr>qs = [(''events'', '''')]\<rparr>" "''events''"]
    by (simp add: resolve_get_bucket_rules)
  moreover have "set ?names \<subseteq> set (map fst ?reqs)" using list_all_subset [OF get_bucket_tables(2)] by auto
  moreover have "op \<in> set ?names" if "resolve_get_bucket minio q = Inr op" for q op
  proof (cases "minio \<and> (case q of Some q \<Rightarrow> has q ''events'' | None \<Rightarrow> False)")
    case True
    with that show ?thesis by (simp add: resolve_get_bucket_rules)
  next
    case False
    with that have *: "(case first_rule (get_bucket_rules (has_key q) (only_value q)) of
        Some op \<Rightarrow> Inr op | None \<Rightarrow> Inr ''ListObjects'') = (Inr op :: operation s3_result)"
      by (simp add: resolve_get_bucket_rules)
    have "op \<in> set OIR_GET_BUCKET"
      by (rule ruled [OF refl get_bucket_ops list_all_subset [OF get_bucket_tables(3)] _ *]) (simp add: OIR_GET_BUCKET_def)
    then show ?thesis by simp
  qed
  ultimately show ?thesis by (rule reached [where res = "\<lambda>h. resolve_get_bucket minio"])
qed

lemma get_root_reached: "op \<in> set OIR_GET_ROOT \<longleftrightarrow> (\<exists>(h :: (bytes \<times> bytes) list) q. resolve_get_root q = Inr op)"
proof (rule reached [where res = "\<lambda>h. resolve_get_root"])
  show "list_all (\<lambda>(op, h, ks). resolve_get_root (Some \<lparr>qs = ks\<rparr>) = Inr op)
    [(''ListDirectoryBuckets'', [], [(''x-id'', ''ListDirectoryBuckets'')]), (''ListBuckets'', [], [])]"
    by code_simp
qed (auto simp: OIR_GET_ROOT_def resolve_get_root_def split: if_splits)

lemmas operations_reached = get_root_reached get_bucket_reached get_object_reached
  post_bucket_reached post_object_reached put_bucket_reached put_object_reached delete_bucket_reached delete_object_reached

lemma declared_names:
  "resolve_operation_by_id minio meth path name = Some op \<longleftrightarrow>
     op = name \<and> (\<exists>hdrs q. resolve_route minio meth hdrs path q = Inr op)"
proof -
  consider "meth = ''DELETE''" | "meth = ''GET''" | "meth = ''HEAD''" | "meth = ''POST''" | "meth = ''PUT''"
    | "meth \<notin> {''DELETE'', ''GET'', ''HEAD'', ''POST'', ''PUT''}" by auto
  then show ?thesis
    by cases
      (cases path; simp add: resolve_operation_by_id_def resolve_route_def Let_def operations_reached unknown_operation_def
          resolve_head_bucket_def resolve_head_object_def del: if_split set_append; auto)+
qed

text \<open>
  C22: the names that a request may declare are exactly the operations of its kind: a declared name is accepted if and
  only if the router can select that operation for some headers and query with the same method and path.
\<close>

theorem declared_names_exact:
  "resolve_operation_by_id minio meth path name = Some op \<longleftrightarrow>
     op = name \<and> (\<exists>hdrs q. resolve_route minio meth hdrs path q = Inr op)"
  by (rule declared_names)

end
