(* ===== verification/Ip_Addr.thy ===== *)
theory Ip_Addr
  imports S3_Host
begin

text \<open>
  Host names that are addresses (s3s/src/ops/mod.rs): the parser of IP and socket addresses of the standard
  library that \<^verbatim>\<open>host.parse::<SocketAddr>()\<close> and \<^verbatim>\<open>host.parse::<IpAddr>()\<close> run, and the guess whether a
  host looks like a virtual-hosted-style one. A reader takes the rest of the input and returns the value and
  what follows; \<open>None\<close> leaves the input where it was.
\<close>

section \<open>The program\<close>

definition to_digit :: "nat \<Rightarrow> byte \<Rightarrow> nat option" where
  "to_digit radix c =
     (let n = of_char c :: nat;
          d = (if is_ascii_digit c then n - 48 else if is_ascii_lowercase c then n - 87
               else if is_ascii_uppercase c then n - 55 else radix)
      in if d < radix then Some d else None)"

definition number_value :: "nat \<Rightarrow> bytes \<Rightarrow> nat" where
  "number_value radix ds = foldl (\<lambda>n c. radix * n + (case to_digit radix c of Some d \<Rightarrow> d | None \<Rightarrow> 0)) 0 ds"

text \<open>\<open>bound\<close> is the number of values of the integer type; without a digit limit the arithmetic is checked.\<close>

definition read_number :: "nat \<Rightarrow> nat option \<Rightarrow> bool \<Rightarrow> nat \<Rightarrow> bytes \<Rightarrow> (nat \<times> bytes) option" where
  "read_number radix max_digits allow_zero_prefix bound s =
     (let ds = takeWhile (\<lambda>c. to_digit radix c \<noteq> None) s;
          rest = dropWhile (\<lambda>c. to_digit radix c \<noteq> None) s
      in if (case max_digits of Some m \<Rightarrow> length ds > m | None \<Rightarrow> False) then None
         else if ds = [] then None
         else if \<not> allow_zero_prefix \<and> hd ds = CHR ''0'' \<and> length ds > 1 then None
         else if number_value radix ds < bound then Some (number_value radix ds, rest) else None)"

definition read_given_char :: "byte \<Rightarrow> bytes \<Rightarrow> bytes option" where
  "read_given_char c s = (case s of x # r \<Rightarrow> if x = c then Some r else None | [] \<Rightarrow> None)"

definition read_separator :: "byte \<Rightarrow> nat \<Rightarrow> (bytes \<Rightarrow> ('a \<times> bytes) option) \<Rightarrow> bytes \<Rightarrow> ('a \<times> bytes) option" where
  "read_separator sep index inner s = (if index > 0 then Option.bind (read_given_char sep s) inner else inner s)"

fun read_octets :: "nat \<Rightarrow> nat \<Rightarrow> bytes \<Rightarrow> (nat list \<times> bytes) option" where
  "read_octets i 0 s = Some ([], s)"
| "read_octets i (Suc k) s =
     (case read_separator CHR ''.'' i (read_number 10 (Some 3) False 256) s of
        None \<Rightarrow> None
      | Some (n, r) \<Rightarrow> map_option (\<lambda>(ns, r'). (n # ns, r')) (read_octets (Suc i) k r))"

definition read_ipv4_addr :: "bytes \<Rightarrow> (nat list \<times> bytes) option" where
  "read_ipv4_addr s = read_octets 0 4 s"

text \<open>
  The groups of an IPv6 address: at most \<open>k\<close> more of them after the \<open>i\<close> that were read, with an IPv4 address in place
  of the last two. The result is the groups, whether they end in an IPv4 address, and the rest.
\<close>

fun read_groups :: "nat \<Rightarrow> nat \<Rightarrow> bytes \<Rightarrow> nat list \<times> bool \<times> bytes" where
  "read_groups i 0 s = ([], False, s)"
| "read_groups i (Suc k) s =
     (case (if k > 0 then read_separator CHR '':'' i read_ipv4_addr s else None) of
        Some (ns, r) \<Rightarrow> ([256 * ns ! 0 + ns ! 1, 256 * ns ! 2 + ns ! 3], True, r)
      | None \<Rightarrow>
          (case read_separator CHR '':'' i (read_number 16 (Some 4) True (2 ^ 16)) s of
             Some (g, r) \<Rightarrow> (case read_groups (Suc i) k r of (gs, v4, r') \<Rightarrow> (g # gs, v4, r'))
           | None \<Rightarrow> ([], False, s)))"

definition read_ipv6_addr :: "bytes \<Rightarrow> (nat list \<times> bytes) option" where
  "read_ipv6_addr s =
     (case read_groups 0 8 s of
        (head, head_ipv4, r) \<Rightarrow>
          (if length head = 8 then Some (head, r)
           else if head_ipv4 then None
           else
             (case Option.bind (read_given_char CHR '':'' r) (read_given_char CHR '':'') of
                None \<Rightarrow> None
              | Some r1 \<Rightarrow>
                  (case read_groups 0 (8 - (length head + 1)) r1 of
                     (tail, _, r2) \<Rightarrow> Some (head @ replicate (8 - length head - length tail) 0 @ tail, r2)))))"

definition read_port :: "bytes \<Rightarrow> (nat \<times> bytes) option" where
  "read_port s = Option.bind (read_given_char CHR '':'' s) (read_number 10 None True (2 ^ 16))"

definition read_scope_id :: "bytes \<Rightarrow> (nat \<times> bytes) option" where
  "read_scope_id s = Option.bind (read_given_char CHR ''%'' s) (read_number 10 None True (2 ^ 32))"

definition read_socket_addr_v4 :: "bytes \<Rightarrow> ((nat list \<times> nat) \<times> bytes) option" where
  "read_socket_addr_v4 s =
     Option.bind (read_ipv4_addr s) (\<lambda>(ip, r). map_option (\<lambda>(port, r'). ((ip, port), r')) (read_port r))"

definition read_socket_addr_v6 :: "bytes \<Rightarrow> ((nat list \<times> nat) \<times> bytes) option" where
  "read_socket_addr_v6 s =
     Option.bind (read_given_char CHR ''['' s) (\<lambda>r0.
     Option.bind (read_ipv6_addr r0) (\<lambda>(ip, r1).
     (let r2 = (case read_scope_id r1 of Some (_, r) \<Rightarrow> r | None \<Rightarrow> r1)
      in Option.bind (read_given_char CHR '']'' r2) (\<lambda>r3.
         map_option (\<lambda>(port, r'). ((ip, port), r')) (read_port r3)))))"

text \<open>A parse succeeds when a reader uses up the text.\<close>

definition parse_with :: "(bytes \<Rightarrow> ('a \<times> bytes) option) \<Rightarrow> bytes \<Rightarrow> 'a option" where
  "parse_with inner s = (case inner s of Some (x, []) \<Rightarrow> Some x | _ \<Rightarrow> None)"

definition or_else :: "(bytes \<Rightarrow> ('a \<times> bytes) option) \<Rightarrow> (bytes \<Rightarrow> ('a \<times> bytes) option) \<Rightarrow> bytes \<Rightarrow> ('a \<times> bytes) option" where
  "or_else f g s = (case f s of Some r \<Rightarrow> Some r | None \<Rightarrow> g s)"

definition parse_ip_addr :: "bytes \<Rightarrow> nat list option" where
  "parse_ip_addr s = parse_with (or_else read_ipv4_addr read_ipv6_addr) s"

definition parse_socket_addr :: "bytes \<Rightarrow> (nat list \<times> nat) option" where
  "parse_socket_addr s = parse_with (or_else read_socket_addr_v4 read_socket_addr_v6) s"

definition is_socket_addr_or_ip_addr :: "bytes \<Rightarrow> bool" where
  "is_socket_addr_or_ip_addr host \<longleftrightarrow> parse_socket_addr host \<noteq> None \<or> parse_ip_addr host \<noteq> None"

definition looks_like_virtual_hosted_style :: "bytes \<Rightarrow> bool" where
  "looks_like_virtual_hosted_style host =
     (let host_part = (case rsplit_once CHR '':'' host of
              Some (h, port) \<Rightarrow> if list_all is_ascii_digit port then h else host
            | None \<Rightarrow> host);
          host_no_bracket = (case Option.bind (strip_prefix ''['' host_part) (strip_suffix '']'') of
              Some s \<Rightarrow> s | None \<Rightarrow> host_part)
      in if parse_ip_addr host_no_bracket \<noteq> None then False
         else length (filter (\<lambda>s. s \<noteq> []) (split_on CHR ''.'' host_no_bracket)) \<ge> 3)"

end
