(* ===== verification/Prepare.thy ===== *)
theory Prepare
  imports Signature_Check Router Ip_Addr
begin

text \<open>
  The path of a request from the HTTP stack to its operation (s3s/src/ops/mod.rs): host and path, query, lengths,
  early routing, the check of the signature, POST object forms, the check of the access, and the limits of the
  body. The request is a record that the steps change. Every result has an outer \<open>None\<close> for a computation that does
  not return; it does not occur (\<open>prepare_total\<close>).
\<close>

section \<open>The program\<close>

subsection \<open>The request\<close>

record uri =
  u_authority :: "bytes option"
  u_path :: bytes
  u_query :: "bytes option"

record s3_credentials =
  access_key :: bytes
  secret_key :: bytes

text \<open>The stream of the file of a POST form: the parser's stream, or the aggregated file.\<close>

datatype post_stream = PostFile file_stream | PostVec vec_byte_stream

record s3_extensions =
  ex_s3_path :: "s3_path option"
  ex_qs :: "ordered_qs option"
  ex_multipart :: "(post_form \<times> file_stream option) option"
  ex_post_object_stream :: "post_stream option"
  ex_credentials :: "s3_credentials option"
  ex_region :: "bytes option"
  ex_service :: "bytes option"
  ex_trailing_headers :: "(bytes \<times> bytes) list option option"
  ex_post_policy :: "post_policy option"

definition S3Extensions_default :: s3_extensions where
  "S3Extensions_default =
     \<lparr>ex_s3_path = None, ex_qs = None, ex_multipart = None, ex_post_object_stream = None, ex_credentials = None,
      ex_region = None, ex_service = None, ex_trailing_headers = None, ex_post_policy = None\<rparr>"

text \<open>\<open>'x\<close> is the type of the extensions that the HTTP stack, routes and access checks attach to a request.\<close>

record 'x request =
  rq_version :: http_version
  rq_method :: bytes
  rq_uri :: uri
  rq_headers :: header_map
  rq_extensions :: 'x
  rq_body :: http_body
  rq_s3ext :: s3_extensions

text \<open>
  The external crates: the signature environment, \<^verbatim>\<open>urlencoding::decode\<close>, \<^verbatim>\<open>serde_urlencoded\<close>, \<^verbatim>\<open>mime\<close>, \<^verbatim>\<open>HeaderValue\<close> with
  its \<^verbatim>\<open>to_str\<close>, \<^verbatim>\<open>atoi\<close>, and whether the feature \<^verbatim>\<open>minio\<close> is on.
\<close>

record prep_env =
  pe_sig :: sig_env
  pe_url_decode :: "bytes \<Rightarrow> bytes option"
  pe_urlencoded :: urlencoded_api
  pe_mime :: "bytes \<Rightarrow> mime option"
  pe_header_value :: "bytes \<Rightarrow> bytes option"
  pe_to_str :: "bytes \<Rightarrow> bytes option"
  pe_atoi :: "bytes \<Rightarrow> nat option"
  pe_minio :: bool

record access_context =
  acx_credentials :: "s3_credentials option"
  acx_s3_path :: s3_path
  acx_s3_op :: operation
  acx_method :: bytes
  acx_uri :: uri
  acx_headers :: header_map

text \<open>The parts of the service. A route and an access check may change the extensions of the request.\<close>

record 'x call_context =
  cc_config :: s3_config
  cc_host :: "(bytes \<Rightarrow> virtual_host s3_result) option"
  cc_auth :: "(bytes \<Rightarrow> bytes s3_result) option"
  cc_access :: "(access_context \<Rightarrow> 'x \<Rightarrow> unit s3_result \<times> 'x) option"
  cc_route :: "(bytes \<Rightarrow> uri \<Rightarrow> header_map \<Rightarrow> 'x \<Rightarrow> bool \<times> 'x) option"
  cc_validation :: "(bytes \<Rightarrow> bool) option"

text \<open>\<^verbatim>\<open>HeaderMap::insert\<close> replaces all values of a name; \<^verbatim>\<open>get_mut\<close> gives access to the first one.\<close>

definition header_insert :: "bytes \<Rightarrow> bytes \<Rightarrow> header_map \<Rightarrow> header_map" where
  "header_insert name v m =
     (if contains_key m name
      then takeWhile (\<lambda>(n, _). n \<noteq> name) m @ (name, v) # filter (\<lambda>(n, _). n \<noteq> name) (dropWhile (\<lambda>(n, _). n \<noteq> name) m)
      else m @ [(name, v)])"

fun header_set_first :: "bytes \<Rightarrow> bytes \<Rightarrow> header_map \<Rightarrow> header_map" where
  "header_set_first name v [] = []"
| "header_set_first name v ((n, w) # m) = (if n = name then (n, v) # m else (n, w) # header_set_first name v m)"

subsection \<open>Host and path\<close>

definition extract_http2_authority :: "'x request \<Rightarrow> bytes option" where
  "extract_http2_authority req = (if rq_version req \<in> {HTTP_2, HTTP_3} then u_authority (rq_uri req) else None)"

definition inject_host_header :: "prep_env \<Rightarrow> 'x request \<Rightarrow> 'x request" where
  "inject_host_header P req =
     (if contains_key (rq_headers req) ''host'' then req
      else (case Option.bind (extract_http2_authority req) (pe_header_value P) of
          Some val \<Rightarrow> req\<lparr>rq_headers := header_insert ''host'' val (rq_headers req)\<rparr>
        | None \<Rightarrow> req))"

definition extract_host :: "prep_env \<Rightarrow> 'x request \<Rightarrow> bytes option s3_result" where
  "extract_host P req =
     (case header_get_all (rq_headers req) ''host'' of
        [] \<Rightarrow> Inr (extract_http2_authority req)
      | [val] \<Rightarrow> (case pe_to_str P val of Some host \<Rightarrow> Inr (Some host) | None \<Rightarrow> Inl InvalidRequest)
      | _ \<Rightarrow> Inl InvalidRequest)"

definition parse_request_host ::
  "'x call_context \<Rightarrow> bytes option \<Rightarrow> (virtual_host option \<times> bytes option) s3_result" where
  "parse_request_host ccx host_header =
     (case (host_header, cc_host ccx) of
        (Some host, Some s3_host) \<Rightarrow>
          (if is_socket_addr_or_ip_addr host then Inr (None, None)
           else and_then (s3_host host) (\<lambda>vh. Inr (Some vh, vh_region vh)))
      | _ \<Rightarrow> Inr (None, None))"

fun convert_parse_s3_path_error :: "s3_path_error \<Rightarrow> s3_error_code" where
  "convert_parse_s3_path_error InvalidPath = InvalidURI"
| "convert_parse_s3_path_error s3_path_error.InvalidBucketName = s3_error_code.InvalidBucketName"
| "convert_parse_s3_path_error KeyTooLong = KeyTooLongError"

definition classify_request_path ::
  "bytes \<Rightarrow> 'x call_context \<Rightarrow> bytes option \<Rightarrow> bool \<Rightarrow> s3_config \<Rightarrow> s3_path option s3_result" where
  "classify_request_path decoded_path ccx bucket custom_route_hit config =
     (if custom_route_hit then Inr None
      else
        (let validation = (case cc_validation ccx of Some v \<Rightarrow> v | None \<Rightarrow> check_bucket_name)
         in map_sum convert_parse_s3_path_error Some
              (parse_virtual_hosted_style_with_validation_and_normalization bucket decoded_path validation
                 (normalize_forward_slash_path config))))"

definition extract_qs :: "prep_env \<Rightarrow> uri \<Rightarrow> ordered_qs option s3_result" where
  "extract_qs P u =
     (case u_query u of
        None \<Rightarrow> Inr None
      | Some query \<Rightarrow> (case OrderedQs_parse (pe_urlencoded P) query of Inr ans \<Rightarrow> Inr (Some ans) | Inl _ \<Rightarrow> Inl InvalidURI))"

definition extract_mime :: "prep_env \<Rightarrow> header_map \<Rightarrow> mime option" where
  "extract_mime P hdrs =
     (case get_unique_header_str hdrs ''content-type'' of
        None \<Rightarrow> None
      | Some content_type \<Rightarrow> if content_type = [] then None else pe_mime P content_type)"

subsection \<open>Lengths\<close>

definition extract_content_length :: "prep_env \<Rightarrow> 'x request \<Rightarrow> nat option s3_result" where
  "extract_content_length P req =
     (case header_get_all (rq_headers req) ''content-length'' of
        [] \<Rightarrow> Inr None
      | [val] \<Rightarrow>
          (case pe_to_str P val of
             None \<Rightarrow> Inl InvalidArgument
           | Some raw \<Rightarrow>
               (if raw = [] \<or> list_ex (\<lambda>b. \<not> is_ascii_digit b) raw then Inl InvalidArgument
                else if digits_value raw < 2 ^ 64 then Inr (Some (digits_value raw)) else Inl InvalidArgument))
      | _ \<Rightarrow> Inl InvalidRequest)"

definition signature_content_length :: "'x request \<Rightarrow> nat option \<Rightarrow> bool \<Rightarrow> nat option" where
  "signature_content_length req len request_has_payload =
     (if len = None \<and> \<not> request_has_payload \<and>
         get_unique_header_str (rq_headers req) ''x-amz-content-sha256'' \<in>
           {Some EMPTY_STRING_SHA256_HASH, Some ''UNSIGNED-PAYLOAD''}
      then Some 0 else len)"

definition is_multipart_post :: "prep_env \<Rightarrow> 'x request \<Rightarrow> bool" where
  "is_multipart_post P req \<longleftrightarrow> rq_method req = ''POST'' \<and>
     (case extract_mime P (rq_headers req) of
        Some m \<Rightarrow> mime_type m = ''multipart'' \<and> mime_subtype m = ''form-data''
      | None \<Rightarrow> False)"

definition extract_decoded_content_length :: "prep_env \<Rightarrow> header_map \<Rightarrow> nat option s3_result" where
  "extract_decoded_content_length P hdrs =
     (case get_unique_header_str hdrs ''x-amz-decoded-content-length'' of
        None \<Rightarrow> Inr None
      | Some val \<Rightarrow> (case pe_atoi P val of Some n \<Rightarrow> Inr (Some n) | None \<Rightarrow> Inl InvalidRequest))"

text \<open>The body is read into memory before an operation that parses it.\<close>

definition extract_full_body :: "sig_env \<Rightarrow> nat option \<Rightarrow> http_body \<Rightarrow> nat \<Rightarrow> bytes s3_result \<times> http_body" where
  "extract_full_body E len body max_body_size =
     (case Body_bytes body of
        Some bs \<Rightarrow> (Inr bs, body)
      | None \<Rightarrow>
          (case store_all_limited (env_collect E) (env_crypto E) max_body_size body of
             (Inl (BodyFailure (BodySizeLimitExceeded _ _)), b) \<Rightarrow> (Inl MaxMessageLengthExceeded, b)
           | (Inl _, b) \<Rightarrow> (Inl InternalError, b)
           | (Inr bs, b) \<Rightarrow>
               (if bs \<noteq> [] then
                  (case len of
                     None \<Rightarrow> (Inl MissingContentLength, b)
                   | Some n \<Rightarrow> if length bs \<noteq> n then (Inl IncompleteBody, b) else (Inr bs, b))
                else (Inr bs, b))))"

definition prepare_streaming_body :: "prep_env \<Rightarrow> s3_config \<Rightarrow> 'x request \<Rightarrow> unit s3_result \<times> 'x request" where
  "prepare_streaming_body P config req =
     (case extract_content_length P req of
        Inl e \<Rightarrow> (Inl e, req)
      | Inr len \<Rightarrow>
          (let known_length = (case len of
                 Some n \<Rightarrow> Some n | None \<Rightarrow> RemainingLength_exact (Body_remaining_length (rq_body req)))
           in if (case (known_length, put_object_max_size config) of (Some n, Some limit) \<Rightarrow> n > limit | _ \<Rightarrow> False)
              then (Inl EntityTooLarge, req)
              else
                (let req1 = req\<lparr>rq_body := set_limit (put_object_max_size config) (rq_body req)\<rparr>
                 in (Inr (),
                     if normalize_content_length config \<and> len = None then
                       (case known_length of
                          Some known \<Rightarrow> req1\<lparr>rq_headers := header_insert ''content-length'' (decimal known) (rq_headers req1)\<rparr>
                        | None \<Rightarrow> req1)
                     else req1))))"

definition reject_custom_route_body_too_large :: "nat option \<Rightarrow> nat option \<Rightarrow> unit s3_result" where
  "reject_custom_route_body_too_large len max_body_size =
     (case max_body_size of
        None \<Rightarrow> Inr ()
      | Some limit \<Rightarrow> (case len of None \<Rightarrow> Inr () | Some n \<Rightarrow> refuse_if (n > limit) EntityTooLarge))"

definition fmt_content_length :: "nat \<Rightarrow> bytes" where
  "fmt_content_length len = (if len > 0 then decimal len else ''0'')"

subsection \<open>POST object forms\<close>

definition prepare_post_object_stream ::
  "memchr_api \<Rightarrow> file_stream \<Rightarrow> nat \<Rightarrow> (post_stream \<times> nat) s3_result option" where
  "prepare_post_object_stream M s max_file_size =
     (case fs_content_len s of
        Some content_len \<Rightarrow>
          Some (if content_len > max_file_size then Inl EntityTooLarge else Inr (PostFile s, content_len))
      | None \<Rightarrow>
          (case aggregate_file_stream_limited M s max_file_size of
             None \<Rightarrow> None
           | Some (Inl (FileTooLarge _ _)) \<Rightarrow> Some (Inl EntityTooLarge)
           | Some (Inl _) \<Rightarrow> Some (Inl InvalidRequest)
           | Some (Inr vec_bytes) \<Rightarrow>
               (let file_size = foldl usize_saturating_add 0 (map length vec_bytes)
                in Some (Inr (PostVec (VecByteStream_new vec_bytes), file_size)))))"

text \<open>The outer \<open>None\<close> covers the missing file stream, on which the code panics.\<close>

definition resolve_post_object ::
  "prep_env \<Rightarrow> bytes \<Rightarrow> post_form \<times> file_stream option \<Rightarrow> s3_config \<Rightarrow>
     ((post_stream \<times> post_policy option) s3_result \<times> (post_form \<times> file_stream option)) option" where
  "resolve_post_object P bucket m config =
     (let form = substitute_key_filename (fst m)
      in case parse_post_policy (env_policy (pe_sig P)) (now (pe_sig P)) form of
           Inl e \<Rightarrow> Some (Inl e, (form, snd m))
         | Inr pol \<Rightarrow>
             (let max_file_size = post_object_max_file_size pol (post_object_max_file_size_limit config)
              in case snd m of
                   None \<Rightarrow> None
                 | Some s \<Rightarrow>
                     (case prepare_post_object_stream (env_memchr (pe_sig P)) s max_file_size of
                        None \<Rightarrow> None
                      | Some (Inl e) \<Rightarrow> Some (Inl e, (form, None))
                      | Some (Inr (post_strm, file_size)) \<Rightarrow>
                          (case pol of
                             None \<Rightarrow> Some (Inr (post_strm, None), (form, None))
                           | Some p \<Rightarrow>
                               (case validate_conditions_only p form file_size (Some bucket) of
                                  Inl e \<Rightarrow> Some (Inl e, (form, None))
                                | Inr _ \<Rightarrow> Some (Inr (post_strm, Some p), (form, None)))))))"

subsection \<open>The check of the signature\<close>

text \<open>\<^verbatim>\<open>.filter(|s| !s.is_empty()).map(Region::new).transpose()\<close>, with the error of an invalid name.\<close>

definition region_of :: "bytes option \<Rightarrow> bytes option s3_result" where
  "region_of r =
     (case r of
        Some s \<Rightarrow> if s = [] then Inr None else map_sum (\<lambda>_. InvalidRequest) Some (Region_new s)
      | None \<Rightarrow> Inr None)"

definition apply_credentials ::
  "credentials_ext option \<Rightarrow> bytes option \<Rightarrow> s3_extensions \<Rightarrow> unit s3_result \<times> s3_extensions" where
  "apply_credentials creds host_region x =
     (let (r, x1) =
        (case creds of
           Some cred \<Rightarrow>
             (let x0 = x\<lparr>ex_credentials := Some \<lparr>access_key = cr_access_key cred, secret_key = cr_secret_key cred\<rparr>\<rparr>
              in case region_of (cr_region cred) of
                   Inl e \<Rightarrow> (Inl e, x0)
                 | Inr cred_region \<Rightarrow> (Inr (), x0\<lparr>ex_region := cred_region, ex_service := cr_service cred\<rparr>))
         | None \<Rightarrow> (Inr (), x\<lparr>ex_credentials := None, ex_region := None, ex_service := None\<rparr>))
      in case r of
           Inl e \<Rightarrow> (Inl e, x1)
         | Inr _ \<Rightarrow>
             (if ex_region x1 = None then
                (case region_of host_region of Inl e \<Rightarrow> (Inl e, x1) | Inr reg \<Rightarrow> (Inr (), x1\<lparr>ex_region := reg\<rparr>))
              else (Inr (), x1)))"

text \<open>The context of the signature check, and what is written back to the request after it.\<close>

definition signature_context ::
  "prep_env \<Rightarrow> 'x call_context \<Rightarrow> 'x request \<Rightarrow> bytes \<Rightarrow> bytes option \<Rightarrow> nat option \<Rightarrow> nat option \<Rightarrow> sig_context" where
  "signature_context P ccx req decoded_path bucket len decoded_len =
     \<lparr>sc_auth = cc_auth ccx, sc_config = cc_config ccx, req_version = rq_version req, req_method = rq_method req,
      uri_authority = u_authority (rq_uri req), uri_path = u_path (rq_uri req), req_body = rq_body req,
      sc_qs = ex_qs (rq_s3ext req), hs = rq_headers req, decoded_uri_path = decoded_path,
      raw_uri_path = u_path (rq_uri req), vh_bucket = bucket, content_length = len,
      sc_mime = extract_mime P (rq_headers req), decoded_content_length = decoded_len, transformed_body = None,
      sc_multipart = None, trailing_headers = None\<rparr>"

definition harvest ::
  "'x request \<Rightarrow> sig_context \<Rightarrow> credentials_ext option \<Rightarrow> bytes option \<Rightarrow> nat option \<Rightarrow> nat option \<Rightarrow>
     nat option s3_result \<times> 'x request" where
  "harvest req scx creds host_region len decoded_len =
     (let x0 = (rq_s3ext req)\<lparr>ex_multipart := map_option (\<lambda>(form, s). (form, Some s)) (sc_multipart scx),
                               ex_trailing_headers := trailing_headers scx\<rparr>
      in case apply_credentials creds host_region x0 of
           (Inl e, x1) \<Rightarrow> (Inl e, req\<lparr>rq_body := req_body scx, rq_s3ext := x1\<rparr>)
         | (Inr _, x1) \<Rightarrow>
             (let body_changed = (transformed_body scx \<noteq> None \<or> sc_multipart scx \<noteq> None)
              in (Inr (if body_changed then map_option (\<lambda>_. 0) len else len),
                  req\<lparr>rq_s3ext := x1,
                      rq_headers := (if body_changed
                        then header_set_first ''content-length''
                               (fmt_content_length (case decoded_len of Some n \<Rightarrow> n | None \<Rightarrow> 0)) (rq_headers req)
                        else rq_headers req),
                      rq_body := (case transformed_body scx of Some b \<Rightarrow> b | None \<Rightarrow> req_body scx)\<rparr>)))"

definition verify_signature ::
  "prep_env \<Rightarrow> 'x request \<Rightarrow> 'x call_context \<Rightarrow> bytes option \<Rightarrow> bytes option \<Rightarrow> nat option \<Rightarrow>
     (nat option s3_result \<times> 'x request) option" where
  "verify_signature P req ccx bucket host_region len =
     (case pe_url_decode P (u_path (rq_uri req)) of
        None \<Rightarrow> Some (Inl InvalidURI, req)
      | Some decoded_path \<Rightarrow>
          (case extract_decoded_content_length P (rq_headers req) of
             Inl e \<Rightarrow> Some (Inl e, req)
           | Inr decoded_len \<Rightarrow>
               (case check (pe_sig P) (signature_context P ccx req decoded_path bucket len decoded_len) of
                  None \<Rightarrow> None
                | Some (Inl e, scx) \<Rightarrow> Some (Inl e, req\<lparr>rq_body := req_body scx\<rparr>)
                | Some (Inr creds, scx) \<Rightarrow> Some (harvest req scx creds host_region len decoded_len))))"

subsection \<open>The operation\<close>

text \<open>
  A failed routing reports the hint on virtual-hosted-style addressing in its message only, so that both branches of
  \<open>resolve_operation\<close> have the same code.
\<close>

definition resolve_operation ::
  "prep_env \<Rightarrow> 'x request \<Rightarrow> s3_path \<Rightarrow> bytes option \<Rightarrow> 'x call_context \<Rightarrow> operation s3_result" where
  "resolve_operation P req path host_header ccx =
     (case resolve_route (pe_minio P) (rq_method req) (rq_headers req) path (ex_qs (rq_s3ext req)) of
        Inr op \<Rightarrow> Inr op
      | Inl err \<Rightarrow>
          (if err = NotImplemented \<and> cc_host ccx = None \<and>
              (case host_header of Some host \<Rightarrow> looks_like_virtual_hosted_style host | None \<Rightarrow> False)
           then Inl NotImplemented
           else Inl err))"

text \<open>The declared operation; \<open>path\<close> is the classified path of the request.\<close>

definition resolve_oir :: "prep_env \<Rightarrow> 'x request \<Rightarrow> s3_path \<Rightarrow> s3_config \<Rightarrow> operation option s3_result" where
  "resolve_oir P req path config =
     (if \<not> operation_id_routing config then Inr None
      else
        (case map_option (\<lambda>q. lookup q ''x-id'') (ex_qs (rq_s3ext req)) of
           Some Duplicate \<Rightarrow> Inl InvalidRequest
         | Some (Single sig) \<Rightarrow>
             (case resolve_operation_by_id (pe_minio P) (rq_method req) path sig of
                Some op \<Rightarrow> Inr (Some op)
              | None \<Rightarrow> Inl InvalidRequest)
         | _ \<Rightarrow> Inr None))"

definition default_check :: "access_context \<Rightarrow> unit s3_result" where
  "default_check cx = (case acx_credentials cx of Some _ \<Rightarrow> Inr () | None \<Rightarrow> Inl AccessDenied)"

definition authorize ::
  "'x call_context \<Rightarrow> operation \<Rightarrow> s3_credentials option \<Rightarrow> s3_path \<Rightarrow> bytes \<Rightarrow> uri \<Rightarrow> header_map \<Rightarrow> 'x \<Rightarrow>
     unit s3_result \<times> 'x" where
  "authorize ccx op_name creds path meth u hdrs extensions =
     (if cc_auth ccx = None then (Inr (), extensions)
      else
        (let acx = \<lparr>acx_credentials = creds, acx_s3_path = path, acx_s3_op = op_name, acx_method = meth,
                    acx_uri = u, acx_headers = hdrs\<rparr>
         in case cc_access ccx of
              Some access \<Rightarrow> access acx extensions
            | None \<Rightarrow> (default_check acx, extensions)))"

subsection \<open>Preparing a request\<close>

datatype prepared = S3 operation | CustomRoute

text \<open>What is known of a request before its signature is checked.\<close>

record front =
  fr_host :: "bytes option"
  fr_vh_bucket :: "bytes option"
  fr_vh_region :: "bytes option"
  fr_custom_route_hit :: bool
  fr_content_length :: "nat option"

definition prepare_front :: "prep_env \<Rightarrow> 'x call_context \<Rightarrow> 'x request \<Rightarrow> front s3_result \<times> 'x request" where
  "prepare_front P ccx req0 =
     (let req = inject_host_header P req0
      in case extract_host P req of
           Inl e \<Rightarrow> (Inl e, req)
         | Inr host_header \<Rightarrow>
             (case pe_url_decode P (u_path (rq_uri req)) of
                None \<Rightarrow> (Inl InvalidURI, req)
              | Some decoded_path \<Rightarrow>
                  (case parse_request_host ccx host_header of
                     Inl e \<Rightarrow> (Inl e, req)
                   | Inr (vh, host_region) \<Rightarrow>
                       (let (hit, req1) = (case cc_route ccx of
                              Some is_match \<Rightarrow>
                                (case is_match (rq_method req) (rq_uri req) (rq_headers req) (rq_extensions req) of
                                   (b, ext) \<Rightarrow> (b, req\<lparr>rq_extensions := ext\<rparr>))
                            | None \<Rightarrow> (False, req));
                            bucket = Option.bind vh virtual_host.vh_bucket
                        in case classify_request_path decoded_path ccx bucket hit (cc_config ccx) of
                             Inl e \<Rightarrow> (Inl e, req1)
                           | Inr path \<Rightarrow>
                               (let req2 = req1\<lparr>rq_s3ext := (rq_s3ext req1)\<lparr>ex_s3_path := path\<rparr>\<rparr>
                                in case extract_qs P (rq_uri req2) of
                                     Inl e \<Rightarrow> (Inl e, req2)
                                   | Inr q \<Rightarrow>
                                       (let req3 = req2\<lparr>rq_s3ext := (rq_s3ext req2)\<lparr>ex_qs := q\<rparr>\<rparr>
                                        in case extract_content_length P req3 of
                                             Inl e \<Rightarrow> (Inl e, req3)
                                           | Inr len \<Rightarrow>
                                               (Inr \<lparr>fr_host = host_header, fr_vh_bucket = bucket, fr_vh_region = host_region,
                                                     fr_custom_route_hit = hit, fr_content_length = len\<rparr>, req3)))))))"

text \<open>The early routing: the operation, when it is known, and the deferred error of an invalid declaration.\<close>

definition resolve_early ::
  "prep_env \<Rightarrow> s3_config \<Rightarrow> 'x request \<Rightarrow> bool \<Rightarrow> operation option \<times> s3_error_code option" where
  "resolve_early P config req custom_route_hit =
     (if custom_route_hit \<or> is_multipart_post P req then (None, None)
      else
        (case ex_s3_path (rq_s3ext req) of
           None \<Rightarrow> (None, None)
         | Some path \<Rightarrow>
             (case resolve_oir P req path config of
                Inr (Some op) \<Rightarrow> (Some op, None)
              | Inr None \<Rightarrow>
                  (case resolve_route (pe_minio P) (rq_method req) (rq_headers req) path (ex_qs (rq_s3ext req)) of
                     Inr op \<Rightarrow> (Some op, None)
                   | Inl _ \<Rightarrow> (None, None))
              | Inl err \<Rightarrow> (None, Some err))))"

definition has_payload :: "'x request \<Rightarrow> bool \<Rightarrow> operation option \<Rightarrow> bool" where
  "has_payload req custom_route_hit resolved_op =
     (if custom_route_hit
      then get_unique_header_str (rq_headers req) ''x-amz-content-sha256'' \<noteq> Some EMPTY_STRING_SHA256_HASH
      else (case resolved_op of None \<Rightarrow> True | Some op \<Rightarrow> has_request_payload op))"

text \<open>The operation after the check of the signature; a POST form leaves its stream and policy in the request.\<close>

definition resolve_late ::
  "prep_env \<Rightarrow> 'x call_context \<Rightarrow> 'x request \<Rightarrow> s3_path \<Rightarrow> bytes option \<Rightarrow> (operation s3_result \<times> 'x request) option" where
  "resolve_late P ccx req path host_header =
     (case ex_multipart (rq_s3ext req) of
        Some m \<Rightarrow>
          (if rq_method req = ''POST'' then
             (case path of
                Root \<Rightarrow> Some (unknown_operation, req)
              | Bucket bucket \<Rightarrow>
                  (case resolve_post_object P bucket m (cc_config ccx) of
                     None \<Rightarrow> None
                   | Some (Inl e, m1) \<Rightarrow> Some (Inl e, req\<lparr>rq_s3ext := (rq_s3ext req)\<lparr>ex_multipart := Some m1\<rparr>\<rparr>)
                   | Some (Inr (strm, pol), m1) \<Rightarrow>
                       Some (Inr ''PostObject'',
                             req\<lparr>rq_s3ext := (rq_s3ext req)\<lparr>ex_multipart := Some m1, ex_post_object_stream := Some strm,
                                                            ex_post_policy := pol\<rparr>\<rparr>))
              | Object _ _ \<Rightarrow> Some (Inl MethodNotAllowed, req))
           else Some (resolve_operation P req path host_header ccx, req))
      | None \<Rightarrow> Some (resolve_operation P req path host_header ccx, req))"

definition prepare_body ::
  "prep_env \<Rightarrow> s3_config \<Rightarrow> operation \<Rightarrow> nat option \<Rightarrow> 'x request \<Rightarrow> unit s3_result \<times> 'x request" where
  "prepare_body P config op len req =
     (if needs_full_body op then
        (case extract_full_body (pe_sig P) len (rq_body req) (xml_max_body_size config) of
           (Inl e, b) \<Rightarrow> (Inl e, req\<lparr>rq_body := b\<rparr>)
         | (Inr _, b) \<Rightarrow> (Inr (), req\<lparr>rq_body := b\<rparr>))
      else if has_streaming_body op then prepare_streaming_body P config req
      else (Inr (), req))"

definition prepare_operation ::
  "prep_env \<Rightarrow> 'x call_context \<Rightarrow> 'x request \<Rightarrow> s3_path \<Rightarrow> operation \<Rightarrow> nat option \<Rightarrow> prepared s3_result \<times> 'x request" where
  "prepare_operation P ccx req path op len =
     (case authorize ccx op (ex_credentials (rq_s3ext req)) path (rq_method req) (rq_uri req) (rq_headers req)
             (rq_extensions req) of
        (Inl e, ext) \<Rightarrow> (Inl e, req\<lparr>rq_extensions := ext\<rparr>)
      | (Inr _, ext) \<Rightarrow>
          (case prepare_body P (cc_config ccx) op len (req\<lparr>rq_extensions := ext\<rparr>) of
             (Inl e, req1) \<Rightarrow> (Inl e, req1)
           | (Inr _, req1) \<Rightarrow> (Inr (S3 op), req1)))"

text \<open>The missing path, on which the code panics, counts as no return.\<close>

definition prepare :: "prep_env \<Rightarrow> 'x call_context \<Rightarrow> 'x request \<Rightarrow> (prepared s3_result \<times> 'x request) option" where
  "prepare P ccx req0 =
     (case prepare_front P ccx req0 of
        (Inl e, req) \<Rightarrow> Some (Inl e, req)
      | (Inr fr, req) \<Rightarrow>
          (let (resolved_op, oir_error) = resolve_early P (cc_config ccx) req (fr_custom_route_hit fr);
               len = signature_content_length req (fr_content_length fr)
                       (has_payload req (fr_custom_route_hit fr) resolved_op)
           in case verify_signature P req ccx (fr_vh_bucket fr) (fr_vh_region fr) len of
                None \<Rightarrow> None
              | Some (Inl e, req1) \<Rightarrow> Some (Inl e, req1)
              | Some (Inr len1, req1) \<Rightarrow>
                  (if fr_custom_route_hit fr then Some (Inr CustomRoute, req1)
                   else (case oir_error of
                       Some err \<Rightarrow> Some (Inl err, req1)
                     | None \<Rightarrow>
                         (case ex_s3_path (rq_s3ext req1) of
                            None \<Rightarrow> None
                          | Some path \<Rightarrow>
                              (case resolved_op of
                                 Some op \<Rightarrow> Some (prepare_operation P ccx req1 path op len1)
                               | None \<Rightarrow>
                                   (case resolve_late P ccx req1 path (fr_host fr) of
                                      None \<Rightarrow> None
                                    | Some (Inl e, req2) \<Rightarrow> Some (Inl e, req2)
                                    | Some (Inr op, req2) \<Rightarrow> Some (prepare_operation P ccx req2 path op len1))))))))"

end
