(* ===== verification/Prepare_Steps.thy ===== *)
theory Prepare_Steps
  imports Prepare Router_Names Signature_Dispatch
begin

text \<open>
  The steps that prepare a request, inverted: what a successful step says of its input and what it leaves unchanged.
\<close>

section \<open>The steps, inverted\<close>

lemma region_of_simps [simp]: "region_of None = Inr None"
  by (simp add: region_of_def)

definition plain_of :: "credentials_ext \<Rightarrow> s3_credentials" where
  "plain_of c = \<lparr>access_key = cr_access_key c, secret_key = cr_secret_key c\<rparr>"

lemma apply_credentials_Inr:
  assumes "apply_credentials creds host_region x = (Inr (), x1)"
  shows "ex_credentials x1 = map_option plain_of creds \<and> ex_s3_path x1 = ex_s3_path x \<and> ex_qs x1 = ex_qs x
    \<and> ex_multipart x1 = ex_multipart x \<and> ex_service x1 = Option.bind creds cr_service"
  using assms
  by (cases creds) (auto simp: apply_credentials_def plain_of_def Let_def split: sum.splits if_splits)

lemma harvest_Inr:
  assumes "harvest req scx creds host_region len decoded_len = (Inr len1, req1)"
  shows "ex_credentials (rq_s3ext req1) = map_option plain_of creds \<and> ex_s3_path (rq_s3ext req1) = ex_s3_path (rq_s3ext req)
    \<and> ex_qs (rq_s3ext req1) = ex_qs (rq_s3ext req)
    \<and> ex_multipart (rq_s3ext req1) = map_option (\<lambda>(form, s). (form, Some s)) (sc_multipart scx)
    \<and> ex_service (rq_s3ext req1) = Option.bind creds cr_service
    \<and> rq_method req1 = rq_method req \<and> rq_uri req1 = rq_uri req \<and> rq_extensions req1 = rq_extensions req
    \<and> rq_body req1 = (case transformed_body scx of Some b \<Rightarrow> b | None \<Rightarrow> req_body scx)
    \<and> len1 = (if transformed_body scx \<noteq> None \<or> sc_multipart scx \<noteq> None then map_option (\<lambda>_. 0) len else len)"
proof -
  let ?x0 = "(rq_s3ext req)\<lparr>ex_multipart := map_option (\<lambda>(form, s). (form, Some s)) (sc_multipart scx),
    ex_trailing_headers := trailing_headers scx\<rparr>"
  obtain r x1 where a: "apply_credentials creds host_region ?x0 = (r, x1)" by fastforce
  with assms obtain u where "r = Inr u" by (cases r) (simp_all add: harvest_def Let_def)
  with a have "apply_credentials creds host_region ?x0 = (Inr (), x1)" by simp
  from apply_credentials_Inr [OF this] assms this show ?thesis by (auto simp: harvest_def Let_def)
qed

lemma verify_signature_Inr:
  assumes "verify_signature P req ccx bucket host_region len = Some (Inr len1, req1)"
  obtains decoded_path decoded_len creds scx where
    "pe_url_decode P (u_path (rq_uri req)) = Some decoded_path"
    "extract_decoded_content_length P (rq_headers req) = Inr decoded_len"
    "check (pe_sig P) (signature_context P ccx req decoded_path bucket len decoded_len) = Some (Inr creds, scx)"
    "harvest req scx creds host_region len decoded_len = (Inr len1, req1)"
  using assms by (auto simp: verify_signature_def split: option.splits sum.splits prod.splits)

lemma prepare_body_same:
  assumes "prepare_body P config op len req = (Inr (), req1)"
  shows "rq_s3ext req1 = rq_s3ext req \<and> rq_method req1 = rq_method req \<and> rq_uri req1 = rq_uri req
    \<and> rq_extensions req1 = rq_extensions req"
proof -
  obtain r b where f: "extract_full_body (pe_sig P) len (rq_body req) (xml_max_body_size config) = (r, b)" by fastforce
  show ?thesis
    using assms f
    by (cases r; cases "extract_content_length P req")
      (auto simp: prepare_body_def prepare_streaming_body_def Let_def split: if_splits option.splits)
qed

lemma prepare_operation_Inr:
  assumes "prepare_operation P ccx req path op len = (Inr d, req1)"
  obtains ext where "d = S3 op"
    "authorize ccx op (ex_credentials (rq_s3ext req)) path (rq_method req) (rq_uri req) (rq_headers req) (rq_extensions req) = (Inr (), ext)"
    "prepare_body P (cc_config ccx) op len (req\<lparr>rq_extensions := ext\<rparr>) = (Inr (), req1)"
  using assms by (auto simp: prepare_operation_def split: prod.splits sum.splits)

lemma prepare_Inr:
  assumes "prepare P ccx req0 = Some (Inr d, req)"
  obtains fr req1 ro oir len len1 req2 where
    "prepare_front P ccx req0 = (Inr fr, req1)"
    "resolve_early P (cc_config ccx) req1 (fr_custom_route_hit fr) = (ro, oir)"
    "len = signature_content_length req1 (fr_content_length fr) (has_payload req1 (fr_custom_route_hit fr) ro)"
    "verify_signature P req1 ccx (fr_vh_bucket fr) (fr_vh_region fr) len = Some (Inr len1, req2)"
    "if fr_custom_route_hit fr then d = CustomRoute \<and> req = req2
     else oir = None \<and> (\<exists>path op req3. ex_s3_path (rq_s3ext req2) = Some path
       \<and> (case ro of Some op' \<Rightarrow> op = op' \<and> req3 = req2
          | None \<Rightarrow> resolve_late P ccx req2 path (fr_host fr) = Some (Inr op, req3))
       \<and> prepare_operation P ccx req3 path op len1 = (Inr d, req))"
proof -
  obtain rf req1 where f: "prepare_front P ccx req0 = (rf, req1)" by fastforce
  with assms obtain fr where fr: "rf = Inr fr" by (cases rf) (simp_all add: prepare_def)
  obtain ro oir where e: "resolve_early P (cc_config ccx) req1 (fr_custom_route_hit fr) = (ro, oir)" by fastforce
  let ?len = "signature_content_length req1 (fr_content_length fr) (has_payload req1 (fr_custom_route_hit fr) ro)"
  let ?v = "verify_signature P req1 ccx (fr_vh_bucket fr) (fr_vh_region fr) ?len"
  obtain rv req2 where v: "?v = Some (rv, req2)"
    using assms f fr e by (cases ?v) (auto simp: prepare_def)
  with assms f fr e obtain len1 where len1: "rv = Inr len1" by (cases rv) (simp_all add: prepare_def)
  show thesis
  proof (rule that)
    show "if fr_custom_route_hit fr then d = CustomRoute \<and> req = req2
     else oir = None \<and> (\<exists>path op req3. ex_s3_path (rq_s3ext req2) = Some path
       \<and> (case ro of Some op' \<Rightarrow> op = op' \<and> req3 = req2
          | None \<Rightarrow> resolve_late P ccx req2 path (fr_host fr) = Some (Inr op, req3))
       \<and> prepare_operation P ccx req3 path op len1 = (Inr d, req))"
      using assms f fr e v len1
      by (auto simp: prepare_def split: if_splits option.splits prod.splits sum.splits)
  qed (use f fr e v len1 in simp_all)
qed

lemma insert_keys [simp]: "contains_key (header_insert name v m) n \<longleftrightarrow> n = name \<or> contains_key m n"
proof -
  have "set (takeWhile Q m) \<union> set (dropWhile Q m) = set m" for Q by (metis set_append takeWhile_dropWhile_id)
  then show ?thesis
    by (auto simp: header_insert_def contains_key_def list_ex_iff dest: set_takeWhileD set_dropWhileD)
qed

lemma set_first_keys [simp]: "contains_key (header_set_first name v m) n \<longleftrightarrow> contains_key m n"
  by (induction name v m rule: header_set_first.induct) (auto simp: contains_key_def)

lemma prepare_front_Inr:
  assumes "prepare_front P ccx req0 = (Inr fr, req1)"
  shows "rq_method req1 = rq_method req0 \<and> rq_uri req1 = rq_uri req0 \<and> rq_version req1 = rq_version req0
    \<and> rq_headers req1 = rq_headers (inject_host_header P req0) \<and> rq_body req1 = rq_body req0
    \<and> extract_qs P (rq_uri req0) = Inr (ex_qs (rq_s3ext req1))
    \<and> (\<exists>decoded_path. pe_url_decode P (u_path (rq_uri req0)) = Some decoded_path
       \<and> classify_request_path decoded_path ccx (fr_vh_bucket fr) (fr_custom_route_hit fr) (cc_config ccx) =
           Inr (ex_s3_path (rq_s3ext req1)))
    \<and> extract_content_length P (inject_host_header P req0) = Inr (fr_content_length fr)
    \<and> (fr_custom_route_hit fr \<longrightarrow> cc_route ccx \<noteq> None)"
proof -
  have same: "rq_method (inject_host_header P req0) = rq_method req0" "rq_uri (inject_host_header P req0) = rq_uri req0"
    "rq_version (inject_host_header P req0) = rq_version req0" "rq_body (inject_host_header P req0) = rq_body req0"
    by (simp_all add: inject_host_header_def split: option.splits)
  show ?thesis
    using assms same
    by (cases "cc_route ccx")
      (auto simp: prepare_front_def Let_def extract_content_length_def split: sum.splits option.splits prod.splits)
qed

lemma map_sum_Inr: "map_sum f g r = Inr b \<longleftrightarrow> (\<exists>a. r = Inr a \<and> b = g a)"
  by (cases r) auto

lemma classified:
  "classify_request_path d ccx b hit config = Inr p \<Longrightarrow> p = None \<longleftrightarrow> hit"
  by (auto simp: classify_request_path_def Let_def map_sum_Inr split: if_splits)

lemma signature_context_fields [simp]:
  "sc_multipart (signature_context P ccx req d b len dl) = None" "transformed_body (signature_context P ccx req d b len dl) = None"
  "sc_auth (signature_context P ccx req d b len dl) = cc_auth ccx" "sc_config (signature_context P ccx req d b len dl) = cc_config ccx"
  "req_body (signature_context P ccx req d b len dl) = rq_body req" "content_length (signature_context P ccx req d b len dl) = len"
  "hs (signature_context P ccx req d b len dl) = rq_headers req" "sc_mime (signature_context P ccx req d b len dl) = extract_mime P (rq_headers req)"
  by (simp_all add: signature_context_def)

lemma form_post_iff: "is_form_post (signature_context P ccx req d b len dl) \<longleftrightarrow> is_multipart_post P req"
  by (simp add: is_form_post_def is_multipart_post_def signature_context_def)

lemma install_multipart: "v4_install_body E x cl sig = Some (r, x') \<Longrightarrow> sc_multipart x' = sc_multipart x"
  by (auto simp: v4_install_body_def v4_install_chunked_def wrap_upload_def
      split: option.splits if_splits sum.splits amz_content_sha256.splits)

lemma payload_multipart: "v4_payload E x content service = (r, x') \<Longrightarrow> sc_multipart x' = sc_multipart x"
  by (auto simp: v4_payload_def split: option.splits if_splits sum.splits amz_content_sha256.splits prod.splits)

lemma header_auth_multipart: "v4_check_header_auth E x = Some (r, x') \<Longrightarrow> sc_multipart x' = sc_multipart x"
  by (auto simp: v4_check_header_auth_def dest!: install_multipart payload_multipart split: option.splits sum.splits prod.splits)

lemma presigned_multipart: "v4_check_presigned_url E x = (r, x') \<Longrightarrow> sc_multipart x' = sc_multipart x"
  by (auto simp: v4_check_presigned_url_def wrap_upload_def Let_def split: option.splits sum.splits amz_content_sha256.splits prod.splits)

lemma checked_multipart:
  assumes "check E x = Some (Inr creds, x')" and "sc_multipart x = None"
  shows "sc_multipart x' \<noteq> None \<longleftrightarrow> is_form_post x"
proof (cases "is_form_post x")
  case True
  then obtain mime where m: "sc_mime x = Some mime" by (auto simp: is_form_post_def split: option.splits)
  with assms True obtain bd where bd: "mime_boundary mime = Some bd"
    by (cases "mime_boundary mime") (auto simp: check_def check_post_signature_def)
  have signed: "signed_in (v4_check_post_signature E y m) = (Inr creds, x') \<Longrightarrow> sc_multipart x' \<noteq> None"
    "signed_in (v2_check_post_signature E y m) = (Inr creds, x') \<Longrightarrow> sc_multipart x' \<noteq> None" for y m
    by (auto simp: signed_in_def v4_check_post_signature_def v2_check_post_signature_def split: sum.splits)
  show ?thesis
    using assms True check_post_cases [OF m bd, of E]
    by (auto simp: check_def split: option.splits sum.splits if_splits dest: signed)
next
  case False
  have "sc_multipart x' = sc_multipart x"
    using assms(1) False
    by (auto simp: check_not_form signed_in_def presigned_multipart [OF prod.collapse [symmetric]]
        split: option.splits if_splits sum.splits dest: header_auth_multipart)
  with assms(2) False show ?thesis by simp
qed

lemma resolve_early_Some:
  assumes "resolve_early P config req hit = (Some op, oir)"
  shows "\<not> hit \<and> \<not> is_multipart_post P req \<and> oir = None \<and>
    (\<exists>path. ex_s3_path (rq_s3ext req) = Some path \<and>
      (resolve_oir P req path config = Inr (Some op) \<or>
       resolve_oir P req path config = Inr None \<and>
         resolve_route (pe_minio P) (rq_method req) (rq_headers req) path (ex_qs (rq_s3ext req)) = Inr op))"
  using assms by (auto simp: resolve_early_def split: if_splits option.splits sum.splits)

lemma resolve_early_None:
  assumes "resolve_early P config req hit = (None, None)" and "\<not> hit" and "\<not> is_multipart_post P req"
    and "ex_s3_path (rq_s3ext req) = Some path"
  shows "resolve_route (pe_minio P) (rq_method req) (rq_headers req) path (ex_qs (rq_s3ext req)) \<noteq> Inr op"
  using assms by (auto simp: resolve_early_def split: if_splits option.splits sum.splits)

text \<open>The router looks at few headers.\<close>

lemma route_headers:
  assumes "\<And>n. n \<noteq> ''content-length'' \<Longrightarrow> contains_key m n \<longleftrightarrow> contains_key m' n"
  shows "resolve_route minio meth m path q = resolve_route minio meth m' path q"
  using assms by (cases path) (simp_all add: resolve_route_def resolve_post_bucket_def resolve_put_object_def)

lemma harvest_keys:
  "harvest req scx creds r len dl = (Inr len1, req1) \<Longrightarrow> contains_key (rq_headers req1) n = contains_key (rq_headers req) n"
  by (auto simp: harvest_def Let_def split: prod.splits sum.splits if_splits)

lemma resolve_operation_Inr:
  "resolve_operation P req path host ccx = Inr op \<longleftrightarrow>
     resolve_route (pe_minio P) (rq_method req) (rq_headers req) path (ex_qs (rq_s3ext req)) = Inr op"
  by (auto simp: resolve_operation_def split: sum.splits)

text \<open>A query is sorted once it is parsed.\<close>

lemma extract_qs_sorted: "extract_qs P u = Inr (Some q) \<Longrightarrow> sorted (map fst (qs q))"
  by (auto simp: extract_qs_def OrderedQs_parse_def utils_stable_sort_by_first_def split: option.splits)

lemma resolve_late_Inr:
  assumes "resolve_late P ccx req path host = Some (Inr op, req1)"
  shows "(\<exists>m bucket strm pol m1. ex_multipart (rq_s3ext req) = Some m \<and> rq_method req = ''POST'' \<and> path = Bucket bucket
      \<and> resolve_post_object P bucket m (cc_config ccx) = Some (Inr (strm, pol), m1) \<and> op = ''PostObject''
      \<and> req1 = req\<lparr>rq_s3ext := (rq_s3ext req)\<lparr>ex_multipart := Some m1, ex_post_object_stream := Some strm, ex_post_policy := pol\<rparr>\<rparr>)
    \<or> ((ex_multipart (rq_s3ext req) = None \<or> rq_method req \<noteq> ''POST'') \<and> req1 = req
      \<and> resolve_operation P req path host ccx = Inr op)"
  using assms
  by (auto simp: resolve_late_def unknown_operation_def split: option.splits if_splits s3_path.splits prod.splits sum.splits)

text \<open>
  All steps of a request that is prepared for an operation. The request keeps its method, its path and its query; the
  credentials and the form are those of the check.
\<close>

lemma prepare_S3:
  assumes "prepare P ccx req0 = Some (Inr (S3 op), req)"
  obtains fr req1 ro len dp dl creds scx len1 req2 req3 ext path where
    "prepare_front P ccx req0 = (Inr fr, req1)" "\<not> fr_custom_route_hit fr"
    "resolve_early P (cc_config ccx) req1 False = (ro, None)"
    "len = signature_content_length req1 (fr_content_length fr) (has_payload req1 False ro)"
    "check (pe_sig P) (signature_context P ccx req1 dp (fr_vh_bucket fr) len dl) = Some (Inr creds, scx)"
    "harvest req1 scx creds (fr_vh_region fr) len dl = (Inr len1, req2)"
    "ex_s3_path (rq_s3ext req1) = Some path"
    "case ro of Some op' \<Rightarrow> op = op' \<and> req3 = req2 | None \<Rightarrow> resolve_late P ccx req2 path (fr_host fr) = Some (Inr op, req3)"
    "authorize ccx op (ex_credentials (rq_s3ext req3)) path (rq_method req3) (rq_uri req3) (rq_headers req3) (rq_extensions req3) = (Inr (), ext)"
    "prepare_body P (cc_config ccx) op len1 (req3\<lparr>rq_extensions := ext\<rparr>) = (Inr (), req)"
proof -
  obtain fr req1 ro oir len len1 req2 where *: "prepare_front P ccx req0 = (Inr fr, req1)"
    "resolve_early P (cc_config ccx) req1 (fr_custom_route_hit fr) = (ro, oir)"
    "len = signature_content_length req1 (fr_content_length fr) (has_payload req1 (fr_custom_route_hit fr) ro)"
    "verify_signature P req1 ccx (fr_vh_bucket fr) (fr_vh_region fr) len = Some (Inr len1, req2)"
    "if fr_custom_route_hit fr then S3 op = CustomRoute \<and> req = req2
     else oir = None \<and> (\<exists>path op' req3. ex_s3_path (rq_s3ext req2) = Some path
       \<and> (case ro of Some op'' \<Rightarrow> op' = op'' \<and> req3 = req2
          | None \<Rightarrow> resolve_late P ccx req2 path (fr_host fr) = Some (Inr op', req3))
       \<and> prepare_operation P ccx req3 path op' len1 = (Inr (S3 op), req))"
    by (rule prepare_Inr [OF assms])
  obtain dp dl creds scx where v: "check (pe_sig P) (signature_context P ccx req1 dp (fr_vh_bucket fr) len dl) = Some (Inr creds, scx)"
    "harvest req1 scx creds (fr_vh_region fr) len dl = (Inr len1, req2)"
    by (rule verify_signature_Inr [OF *(4)])
  have hit: "\<not> fr_custom_route_hit fr" using *(5) by auto
  then obtain path op' req3 where late: "ex_s3_path (rq_s3ext req2) = Some path" "oir = None"
    "case ro of Some op'' \<Rightarrow> op' = op'' \<and> req3 = req2 | None \<Rightarrow> resolve_late P ccx req2 path (fr_host fr) = Some (Inr op', req3)"
    "prepare_operation P ccx req3 path op' len1 = (Inr (S3 op), req)"
    using *(5) by auto
  from late(4) obtain ext where "S3 op = S3 op'"
    "authorize ccx op' (ex_credentials (rq_s3ext req3)) path (rq_method req3) (rq_uri req3) (rq_headers req3) (rq_extensions req3) = (Inr (), ext)"
    "prepare_body P (cc_config ccx) op' len1 (req3\<lparr>rq_extensions := ext\<rparr>) = (Inr (), req)"
    by (rule prepare_operation_Inr)
  with that [OF *(1) hit] * hit v late harvest_Inr [OF v(2)] show thesis by auto
qed

end
