(* ===== verification/Prepare_Example.thy ===== *)
theory Prepare_Example
  imports Prepare_Steps
begin

text \<open>A concrete service and the signed upload of the signature examples as a request to it.\<close>

definition plain_prep :: prep_env where
  "plain_prep =
     \<lparr>pe_sig = plain_env, pe_url_decode = Some, pe_urlencoded = (\<lambda>_. Some []), pe_mime = (\<lambda>_. None),
      pe_header_value = Some, pe_to_str = Some, pe_atoi = (\<lambda>_. None), pe_minio = False\<rparr>"

definition plain_service :: "unit call_context" where
  "plain_service =
     \<lparr>cc_config = S3Config_default, cc_host = None,
      cc_auth = Some (SimpleAuth_get_secret_key (SimpleAuth_from_single ''AK'' ''secret'')), cc_access = None,
      cc_route = None, cc_validation = Some (\<lambda>_. True)\<rparr>"

definition plain_put :: "unit request" where
  "plain_put =
     \<lparr>rq_version = HTTP_11, rq_method = ''PUT'', rq_uri = \<lparr>u_authority = None, u_path = ''/b/k'', u_query = None\<rparr>,
      rq_headers = headers_with data_checksum, rq_extensions = (), rq_body = Body_once ''data'',
      rq_s3ext = S3Extensions_default\<rparr>"

definition plain_put_classified :: "unit request" where
  "plain_put_classified = plain_put\<lparr>rq_s3ext := S3Extensions_default\<lparr>ex_s3_path := Some (Object ''b'' ''k'')\<rparr>\<rparr>"

lemma plain_front:
  "prepare_front plain_prep plain_service plain_put =
     (Inr \<lparr>fr_host = Some ''h'', fr_vh_bucket = None, fr_vh_region = None, fr_custom_route_hit = False,
           fr_content_length = None\<rparr>, plain_put_classified)"
proof -
  have "header_get_all (headers_with data_checksum) ''content-length'' = []" by code_simp
  moreover have "contains_key (headers_with data_checksum) ''host''" by (simp add: contains_key_def headers_with_def)
  moreover have "parse_virtual_hosted_style_with_validation_and_normalization None ''/b/k'' (\<lambda>_. True) False = Inr (Object ''b'' ''k'')"
    by code_simp
  ultimately show ?thesis
    by (simp add: prepare_front_def inject_host_header_def extract_host_def header_values plain_put_def plain_prep_def
        plain_service_def parse_request_host_def classify_request_path_def extract_qs_def extract_content_length_def
        plain_put_classified_def S3Extensions_default_def S3Config_default_def)
qed

lemma plain_mime: "extract_mime plain_prep (headers_with data_checksum) = None"
proof -
  have "get_unique_header_str (headers_with data_checksum) ''content-type'' = None" by code_simp
  then show ?thesis by (simp add: extract_mime_def)
qed

lemma plain_early: "resolve_early plain_prep S3Config_default plain_put_classified False = (Some ''PutObject'', None)"
proof -
  have "resolve_put_object (headers_with data_checksum) None = Inr ''PutObject''"
    by (simp add: resolve_put_object_rules put_object_rules_def has_key_def contains_key_def headers_with_def)
  then show ?thesis
    by (simp add: resolve_early_def is_multipart_post_def plain_put_classified_def plain_put_def S3Extensions_default_def
        resolve_oir_def resolve_route_def)
qed

lemma plain_context:
  "signature_context plain_prep plain_service plain_put_classified ''/b/k'' None None None = plain_request"
  by (simp add: signature_context_def plain_mime plain_put_classified_def plain_put_def plain_service_def plain_request_def
      request_with_def S3Extensions_default_def)

lemma plain_verified:
  "\<exists>req1. verify_signature plain_prep plain_put_classified plain_service None None None = Some (Inr None, req1)
     \<and> ex_s3_path (rq_s3ext req1) = Some (Object ''b'' ''k'')
     \<and> ex_credentials (rq_s3ext req1) = Some \<lparr>access_key = ''AK'', secret_key = ''secret''\<rparr>
     \<and> rq_headers req1 = headers_with data_checksum
     \<and> rq_body req1 = Body_dyn_stream (DynUpload (UploadStream_new (outcomes plain_crypto (Body_once ''data'')) 4 (pad32 ''data'')))"
proof -
  have decoded: "extract_decoded_content_length plain_prep (rq_headers plain_put_classified) = Inr None"
  proof -
    have "get_unique_header_str (headers_with data_checksum) ''x-amz-decoded-content-length'' = None" by code_simp
    then show ?thesis by (simp add: extract_decoded_content_length_def plain_put_classified_def plain_put_def)
  qed
  have region: "Region_new ''us-east-1'' = Inr ''us-east-1''" by code_simp
  have fields: "sc_multipart (wrap_upload plain_env plain_request 4 (pad32 ''data'')) = None"
    "transformed_body (wrap_upload plain_env plain_request 4 (pad32 ''data'')) = None"
    "req_body (wrap_upload plain_env plain_request 4 (pad32 ''data'')) =
       Body_dyn_stream (DynUpload (UploadStream_new (outcomes plain_crypto (Body_once ''data'')) 4 (pad32 ''data'')))"
    by (simp_all add: wrap_upload_def plain_request_def request_with_def)
  let ?creds = "v4_credentials plain_claims" and ?x = "wrap_upload plain_env plain_request 4 (pad32 ''data'')"
  have c: "check plain_env (signature_context plain_prep plain_service plain_put_classified ''/b/k'' None None None) =
      Some (Inr (Some ?creds), ?x)"
    unfolding plain_context by (rule plain_checked)
  have env: "pe_url_decode plain_prep = Some" "pe_sig plain_prep = plain_env" "u_path (rq_uri plain_put_classified) = ''/b/k''"
    by (simp_all add: plain_prep_def plain_put_classified_def plain_put_def)
  have v: "verify_signature plain_prep plain_put_classified plain_service None None None =
      Some (harvest plain_put_classified ?x (Some ?creds) None None None)"
    unfolding verify_signature_def env option.case decoded sum.case c prod.case ..
  have creds: "cr_access_key ?creds = ''AK''" "cr_secret_key ?creds = ''secret''" "cr_region ?creds = Some ''us-east-1''"
    by (simp_all add: v4_credentials_def plain_claims_def claims_with_def plain_authorization_def plain_credential_def)
  have "fst (harvest plain_put_classified ?x (Some ?creds) None None None) = Inr None"
    by (simp add: harvest_def Let_def fields apply_credentials_def creds region_of_def region)
  then obtain req1 where h: "harvest plain_put_classified ?x (Some ?creds) None None None = (Inr None, req1)"
    by (metis prod.collapse)
  have "rq_headers req1 = headers_with data_checksum"
    using h by (auto simp: harvest_def Let_def fields plain_put_classified_def plain_put_def split: prod.splits sum.splits)
  with v h harvest_Inr [OF h] fields creds show ?thesis
    by (auto simp: plain_of_def plain_put_classified_def S3Extensions_default_def)
qed

lemma plain_prepared:
  "\<exists>req. prepare plain_prep plain_service plain_put = Some (Inr (S3 ''PutObject''), req)
     \<and> ex_credentials (rq_s3ext req) = Some \<lparr>access_key = ''AK'', secret_key = ''secret''\<rparr>
     \<and> ex_s3_path (rq_s3ext req) = Some (Object ''b'' ''k'')"
proof -
  obtain req1 where v: "verify_signature plain_prep plain_put_classified plain_service None None None = Some (Inr None, req1)"
    "ex_s3_path (rq_s3ext req1) = Some (Object ''b'' ''k'')"
    "ex_credentials (rq_s3ext req1) = Some \<lparr>access_key = ''AK'', secret_key = ''secret''\<rparr>"
    "rq_headers req1 = headers_with data_checksum"
    "rq_body req1 = Body_dyn_stream (DynUpload (UploadStream_new (outcomes plain_crypto (Body_once ''data'')) 4 (pad32 ''data'')))"
    using plain_verified by metis
  have conf: "cc_config plain_service = S3Config_default" by (simp add: plain_service_def)
  have flags: "\<not> needs_full_body ''PutObject''" "has_streaming_body ''PutObject''" "has_request_payload ''PutObject''" by code_simp+
  have len: "signature_content_length plain_put_classified None True = None" by (simp add: signature_content_length_def)
  have "header_get_all (headers_with data_checksum) ''content-length'' = []" by code_simp
  moreover have "RemainingLength_exact (Body_remaining_length (rq_body req1)) = Some 4"
    unfolding v(5)
    by (simp add: Body_remaining_length_def Body_dyn_stream_def RemainingLength_exact_def RemainingLength_new_exact_def UploadStream_new_def)
  ultimately have body: "fst (prepare_body plain_prep S3Config_default ''PutObject'' None req1) = Inr ()"
    using flags v(4) by (simp add: prepare_body_def prepare_streaming_body_def extract_content_length_def Let_def S3Config_default_def
        DEFAULT_PUT_OBJECT_MAX_SIZE_def)
  have auth: "authorize plain_service ''PutObject'' (ex_credentials (rq_s3ext req1)) (Object ''b'' ''k'') m u h e = (Inr (), e)" for m u h e
    by (simp add: authorize_def plain_service_def default_check_def v(3))
  obtain req where b: "prepare_body plain_prep S3Config_default ''PutObject'' None req1 = (Inr (), req)"
    using body by (metis prod.collapse)
  have unit: "req1\<lparr>rq_extensions := e\<rparr> = req1" for e by simp
  have "prepare_operation plain_prep plain_service req1 (Object ''b'' ''k'') ''PutObject'' None = (Inr (S3 ''PutObject''), req)"
    using b by (simp add: prepare_operation_def auth conf unit)
  then have "prepare plain_prep plain_service plain_put = Some (Inr (S3 ''PutObject''), req)"
    unfolding prepare_def plain_front using plain_early v(1,2) flags len by (simp add: conf has_payload_def)
  with prepare_body_same [OF b] v(2,3) show ?thesis by simp
qed

end
