(* ===== verification/Prepare_Correct.thy ===== *)
theory Prepare_Correct
  imports Prepare_Example
begin

text \<open>
  What a prepared request guarantees: who made it, which operation it is, that access was granted, and how much of
  its body will be read.
\<close>

section \<open>Which operation\<close>

text \<open>The operation that a request asks for: the declared one, when declarations count, or the one of the routing table.\<close>

definition declared :: "s3_config \<Rightarrow> ordered_qs option \<Rightarrow> qs_lookup" where
  "declared config q =
     (case q of Some q \<Rightarrow> if operation_id_routing config then lookup q ''x-id'' else Absent | None \<Rightarrow> Absent)"

definition asked_for ::
  "bool \<Rightarrow> s3_config \<Rightarrow> bytes \<Rightarrow> s3_path \<Rightarrow> (bytes \<Rightarrow> bool) \<Rightarrow> ordered_qs option \<Rightarrow> operation s3_result" where
  "asked_for minio config meth path h q =
     (case declared config q of
        Duplicate \<Rightarrow> Inl InvalidRequest
      | Single name \<Rightarrow> ok_or (resolve_operation_by_id minio meth path name) InvalidRequest
      | Absent \<Rightarrow> follow_table (routing_table minio meth path h (has_key q) (only_value q)))"

lemma resolve_oir_declared:
  "resolve_oir P req path config =
     (case declared config (ex_qs (rq_s3ext req)) of
        Duplicate \<Rightarrow> Inl InvalidRequest
      | Single name \<Rightarrow> map_sum id Some (ok_or (resolve_operation_by_id (pe_minio P) (rq_method req) path name) InvalidRequest)
      | Absent \<Rightarrow> Inr None)"
  by (auto simp: resolve_oir_def declared_def ok_or_def split: option.splits qs_lookup.splits)

lemma prepared_for:
  assumes "prepare P ccx req0 = Some (Inr (S3 op), req)"
  shows "\<exists>path decoded_path bucket. ex_s3_path (rq_s3ext req) = Some path \<and> rq_method req = rq_method req0
    \<and> extract_qs P (rq_uri req0) = Inr (ex_qs (rq_s3ext req))
    \<and> pe_url_decode P (u_path (rq_uri req0)) = Some decoded_path
    \<and> classify_request_path decoded_path ccx bucket False (cc_config ccx) = Inr (Some path)
    \<and> (if is_multipart_post P (inject_host_header P req0) then (\<exists>b. path = Bucket b) \<and> op = ''PostObject''
       else asked_for (pe_minio P) (cc_config ccx) (rq_method req0) path
              (contains_key (rq_headers (inject_host_header P req0))) (ex_qs (rq_s3ext req)) = Inr op)
    \<and> (ex_multipart (rq_s3ext req) \<noteq> None \<longleftrightarrow> is_multipart_post P (inject_host_header P req0))"
proof -
  obtain fr req1 ro len dp dl creds scx len1 req2 req3 ext path where s:
    "prepare_front P ccx req0 = (Inr fr, req1)" "\<not> fr_custom_route_hit fr"
    "resolve_early P (cc_config ccx) req1 False = (ro, None)"
    "check (pe_sig P) (signature_context P ccx req1 dp (fr_vh_bucket fr) len dl) = Some (Inr creds, scx)"
    "harvest req1 scx creds (fr_vh_region fr) len dl = (Inr len1, req2)"
    "ex_s3_path (rq_s3ext req1) = Some path"
    "case ro of Some op' \<Rightarrow> op = op' \<and> req3 = req2 | None \<Rightarrow> resolve_late P ccx req2 path (fr_host fr) = Some (Inr op, req3)"
    "prepare_body P (cc_config ccx) op len1 (req3\<lparr>rq_extensions := ext\<rparr>) = (Inr (), req)"
    by (rule prepare_S3 [OF assms])
  note front = prepare_front_Inr [OF s(1)] and harv = harvest_Inr [OF s(5)]
  have mp: "is_multipart_post P (inject_host_header P req0) \<longleftrightarrow> is_multipart_post P req1"
    using front by (simp add: is_multipart_post_def inject_host_header_def split: option.splits)
  have form: "ex_multipart (rq_s3ext req2) \<noteq> None \<longleftrightarrow> is_multipart_post P req1"
    using checked_multipart [OF s(4)] harv by (simp add: form_post_iff)
  have same: "rq_s3ext req = rq_s3ext req3" "rq_method req = rq_method req3" using prepare_body_same [OF s(8)] by simp_all
  have kept: "ex_s3_path (rq_s3ext req3) = Some path \<and> ex_qs (rq_s3ext req3) = ex_qs (rq_s3ext req1) \<and> rq_method req3 = rq_method req0"
    using s(7) resolve_late_Inr [of P ccx req2 path "fr_host fr" op req3] harv s(6) front by (auto split: option.splits)
  have sorted: "\<forall>q'. ex_qs (rq_s3ext req1) = Some q' \<longrightarrow> sorted (map fst (qs q'))"
    using front extract_qs_sorted [of P "rq_uri req0"] by metis
  have "if is_multipart_post P req1 then (\<exists>b. path = Bucket b) \<and> op = ''PostObject''
       else asked_for (pe_minio P) (cc_config ccx) (rq_method req0) path (contains_key (rq_headers req1)) (ex_qs (rq_s3ext req1)) = Inr op"
  proof (cases ro)
    case None
    with s(7) have late: "resolve_late P ccx req2 path (fr_host fr) = Some (Inr op, req3)" by simp
    have "resolve_operation P req2 path (fr_host fr) ccx \<noteq> Inr op" if "\<not> is_multipart_post P req1"
      using resolve_early_None [OF s(3) [unfolded None] _ that s(6)] harv harvest_keys [OF s(5)]
        route_headers [of "rq_headers req1" "rq_headers req2"]
      by (simp add: resolve_operation_Inr)
    moreover have "rq_method req2 = ''POST''" if "is_multipart_post P req1" using that harv by (simp add: is_multipart_post_def)
    ultimately show ?thesis using resolve_late_Inr [OF late] form by auto
  next
    case (Some op')
    then have op: "op' = op" using s(7) by simp
    show ?thesis
      using resolve_early_Some [OF s(3) [unfolded Some op]] s(6) front resolve_route_table [OF sorted]
      by (auto simp: resolve_oir_declared asked_for_def map_sum_Inr split: qs_lookup.splits)
  qed
  moreover have "ex_multipart (rq_s3ext req3) \<noteq> None \<longleftrightarrow> is_multipart_post P req1"
    using s(7) resolve_late_Inr [of P ccx req2 path "fr_host fr" op req3] form by (auto split: option.splits)
  ultimately show ?thesis using front s(2) kept same mp by (auto simp: s(6))
qed

text \<open>
  C14: a request is prepared for the operation it asks for. A form that is posted to a bucket is PostObject and
  nothing else is; any other request is prepared for the operation that its only \<^verbatim>\<open>x-id\<close> parameter declares, which
  then is one of its method and kind of path, or without a declaration for the one of the routing table. The path is the
  one that the URL (with the bucket of a virtual host) denotes under the naming rules.
\<close>

theorem prepared_operation:
  assumes "prepare P ccx req0 = Some (Inr (S3 op), req)"
  shows "\<exists>path decoded_path bucket. ex_s3_path (rq_s3ext req) = Some path \<and> rq_method req = rq_method req0
    \<and> extract_qs P (rq_uri req0) = Inr (ex_qs (rq_s3ext req))
    \<and> pe_url_decode P (u_path (rq_uri req0)) = Some decoded_path
    \<and> classify_request_path decoded_path ccx bucket False (cc_config ccx) = Inr (Some path)
    \<and> (if is_multipart_post P (inject_host_header P req0) then (\<exists>b. path = Bucket b) \<and> op = ''PostObject''
       else asked_for (pe_minio P) (cc_config ccx) (rq_method req0) path
              (contains_key (rq_headers (inject_host_header P req0))) (ex_qs (rq_s3ext req)) = Inr op)"
  using prepared_for [OF assms] by blast

theorem prepared_operation_witness:
  "\<exists>req. prepare plain_prep plain_service plain_put = Some (Inr (S3 ''PutObject''), req)
     \<and> asked_for False S3Config_default ''PUT'' (Object ''b'' ''k'') (contains_key (headers_with data_checksum)) None = Inr ''PutObject''"
proof -
  obtain req where p: "prepare plain_prep plain_service plain_put = Some (Inr (S3 ''PutObject''), req)"
    "ex_s3_path (rq_s3ext req) = Some (Object ''b'' ''k'')" using plain_prepared by blast
  have "inject_host_header plain_prep plain_put = plain_put"
    by (simp add: inject_host_header_def plain_put_def contains_key_def headers_with_def)
  then have env: "inject_host_header plain_prep plain_put = plain_put" "pe_minio plain_prep = False" "cc_config plain_service = S3Config_default"
    "rq_method plain_put = ''PUT''" "rq_headers plain_put = headers_with data_checksum" "\<not> is_multipart_post plain_prep plain_put"
    "extract_qs plain_prep (rq_uri plain_put) = Inr None"
    by (simp_all add: plain_put_def plain_prep_def plain_service_def is_multipart_post_def extract_qs_def)
  from prepared_operation [OF p(1), unfolded env(1)] env p show ?thesis by auto
qed

section \<open>Who made the request\<close>

text \<open>The signature check that a prepared request has passed.\<close>

lemma prepared_checked:
  assumes "prepare P ccx req0 = Some (Inr d, req)"
  shows "\<exists>x creds scx. check (pe_sig P) x = Some (Inr creds, scx) \<and> sc_auth x = cc_auth ccx \<and> sc_config x = cc_config ccx
    \<and> req_method x = rq_method req0 \<and> uri_path x = u_path (rq_uri req0)
    \<and> extract_qs P (rq_uri req0) = Inr (sc_qs x) \<and> hs x = rq_headers (inject_host_header P req0) \<and> req_body x = rq_body req0
    \<and> ex_credentials (rq_s3ext req) = map_option plain_of creds"
proof -
  obtain fr req1 ro oir len len1 req2 where *: "prepare_front P ccx req0 = (Inr fr, req1)"
    "resolve_early P (cc_config ccx) req1 (fr_custom_route_hit fr) = (ro, oir)"
    "len = signature_content_length req1 (fr_content_length fr) (has_payload req1 (fr_custom_route_hit fr) ro)"
    "verify_signature P req1 ccx (fr_vh_bucket fr) (fr_vh_region fr) len = Some (Inr len1, req2)"
    "if fr_custom_route_hit fr then d = CustomRoute \<and> req = req2
     else oir = None \<and> (\<exists>path op req3. ex_s3_path (rq_s3ext req2) = Some path
       \<and> (case ro of Some op' \<Rightarrow> op = op' \<and> req3 = req2
          | None \<Rightarrow> resolve_late P ccx req2 path (fr_host fr) = Some (Inr op, req3))
       \<and> prepare_operation P ccx req3 path op len1 = (Inr d, req))"
    by (rule prepare_Inr [OF assms])
  obtain dp dl creds scx where v: "check (pe_sig P) (signature_context P ccx req1 dp (fr_vh_bucket fr) len dl) = Some (Inr creds, scx)"
    "harvest req1 scx creds (fr_vh_region fr) len dl = (Inr len1, req2)"
    by (rule verify_signature_Inr [OF *(4)])
  have "ex_credentials (rq_s3ext req) = ex_credentials (rq_s3ext req2)"
  proof (cases "fr_custom_route_hit fr")
    case True
    with *(5) show ?thesis by simp
  next
    case False
    with *(5) obtain path op req3 where late: "case ro of Some op' \<Rightarrow> op = op' \<and> req3 = req2
          | None \<Rightarrow> resolve_late P ccx req2 path (fr_host fr) = Some (Inr op, req3)"
      and po: "prepare_operation P ccx req3 path op len1 = (Inr d, req)" by auto
    from po obtain ext where "prepare_body P (cc_config ccx) op len1 (req3\<lparr>rq_extensions := ext\<rparr>) = (Inr (), req)"
      by (rule prepare_operation_Inr)
    from prepare_body_same [OF this] late resolve_late_Inr [of P ccx req2 path "fr_host fr" op req3] show ?thesis
      by (auto split: option.splits)
  qed
  with prepare_front_Inr [OF *(1)] harvest_Inr [OF v(2)] v(1) show ?thesis
    by (intro exI [of _ "signature_context P ccx req1 dp (fr_vh_bucket fr) len dl"] exI [of _ creds] exI [of _ scx])
      (simp add: signature_context_def)
qed

text \<open>
  C1: nothing gets past an unchecked signature. Whether a request is prepared for an operation or for a custom route, the
  signature check accepted this very request (its method, path, query, headers and body), the credentials that it
  carries from then on are the checked ones, and their secret key is the one that the key store returned for the access
  key. Before an operation, the access check granted the access to just these credentials, this operation, path,
  method and URL; where no access check is configured, the request is not anonymous.
\<close>

theorem prepared_request_authorized:
  assumes "prepare P ccx req0 = Some (Inr d, req)" and "cc_auth ccx = Some auth"
  shows "(\<exists>x creds scx. check (pe_sig P) x = Some (Inr creds, scx) \<and> sc_auth x = Some auth \<and> sc_config x = cc_config ccx
      \<and> req_method x = rq_method req0 \<and> uri_path x = u_path (rq_uri req0)
      \<and> extract_qs P (rq_uri req0) = Inr (sc_qs x) \<and> hs x = rq_headers (inject_host_header P req0) \<and> req_body x = rq_body req0
      \<and> ex_credentials (rq_s3ext req) = map_option plain_of creds)
    \<and> (\<forall>c. ex_credentials (rq_s3ext req) = Some c \<longrightarrow> auth (access_key c) = Inr (secret_key c))
    \<and> (\<forall>op. d = S3 op \<longrightarrow>
        (case cc_access ccx of
           None \<Rightarrow> ex_credentials (rq_s3ext req) \<noteq> None
         | Some access \<Rightarrow> \<exists>path hdrs ext. ex_s3_path (rq_s3ext req) = Some path \<and>
             access \<lparr>acx_credentials = ex_credentials (rq_s3ext req), acx_s3_path = path, acx_s3_op = op,
               acx_method = rq_method req0, acx_uri = rq_uri req0, acx_headers = hdrs\<rparr> ext = (Inr (), rq_extensions req)))"
proof (intro conjI)
  note checked = prepared_checked [OF assms(1), unfolded assms(2)]
  show "\<exists>x creds scx. check (pe_sig P) x = Some (Inr creds, scx) \<and> sc_auth x = Some auth \<and> sc_config x = cc_config ccx
      \<and> req_method x = rq_method req0 \<and> uri_path x = u_path (rq_uri req0)
      \<and> extract_qs P (rq_uri req0) = Inr (sc_qs x) \<and> hs x = rq_headers (inject_host_header P req0) \<and> req_body x = rq_body req0
      \<and> ex_credentials (rq_s3ext req) = map_option plain_of creds"
    by (rule checked)
  from checked obtain x creds scx where c: "check (pe_sig P) x = Some (Inr creds, scx)" "sc_auth x = Some auth"
    "ex_credentials (rq_s3ext req) = map_option plain_of creds" by blast
  show "\<forall>c. ex_credentials (rq_s3ext req) = Some c \<longrightarrow> auth (access_key c) = Inr (secret_key c)"
    using c conjunct1 [OF checked_as_configured, of "pe_sig P" x _ scx] by (cases creds) (auto simp: from_key_store_def plain_of_def)
  show "\<forall>op. d = S3 op \<longrightarrow> (case cc_access ccx of
           None \<Rightarrow> ex_credentials (rq_s3ext req) \<noteq> None
         | Some access \<Rightarrow> \<exists>path hdrs ext. ex_s3_path (rq_s3ext req) = Some path \<and>
             access \<lparr>acx_credentials = ex_credentials (rq_s3ext req), acx_s3_path = path, acx_s3_op = op,
               acx_method = rq_method req0, acx_uri = rq_uri req0, acx_headers = hdrs\<rparr> ext = (Inr (), rq_extensions req))"
  proof (intro allI impI)
    fix op assume "d = S3 op"
    with assms(1) have "prepare P ccx req0 = Some (Inr (S3 op), req)" by simp
    then obtain fr req1 ro len dp dl creds scx len1 req2 req3 ext path where s:
      "prepare_front P ccx req0 = (Inr fr, req1)"
      "harvest req1 scx creds (fr_vh_region fr) len dl = (Inr len1, req2)" "ex_s3_path (rq_s3ext req1) = Some path"
      "case ro of Some op' \<Rightarrow> op = op' \<and> req3 = req2 | None \<Rightarrow> resolve_late P ccx req2 path (fr_host fr) = Some (Inr op, req3)"
      "authorize ccx op (ex_credentials (rq_s3ext req3)) path (rq_method req3) (rq_uri req3) (rq_headers req3) (rq_extensions req3) = (Inr (), ext)"
      "prepare_body P (cc_config ccx) op len1 (req3\<lparr>rq_extensions := ext\<rparr>) = (Inr (), req)"
      by (rule prepare_S3)
    have kept: "ex_s3_path (rq_s3ext req3) = Some path \<and> rq_method req3 = rq_method req0 \<and> rq_uri req3 = rq_uri req0"
      using s(4) resolve_late_Inr [of P ccx req2 path "fr_host fr" op req3] harvest_Inr [OF s(2)] s(3) prepare_front_Inr [OF s(1)]
      by (auto split: option.splits)
    have same: "rq_s3ext req = rq_s3ext req3" "rq_extensions req = ext" using prepare_body_same [OF s(6)] by simp_all
    show "case cc_access ccx of
           None \<Rightarrow> ex_credentials (rq_s3ext req) \<noteq> None
         | Some access \<Rightarrow> \<exists>path hdrs ext. ex_s3_path (rq_s3ext req) = Some path \<and>
             access \<lparr>acx_credentials = ex_credentials (rq_s3ext req), acx_s3_path = path, acx_s3_op = op,
               acx_method = rq_method req0, acx_uri = rq_uri req0, acx_headers = hdrs\<rparr> ext = (Inr (), rq_extensions req)"
      using s(5) kept same assms(2)
      by (cases "cc_access ccx") (auto simp: authorize_def default_check_def split: option.splits)
  qed
qed

theorem prepared_request_authorized_witness:
  "\<exists>req x creds scx. prepare plain_prep plain_service plain_put = Some (Inr (S3 ''PutObject''), req)
     \<and> check plain_env x = Some (Inr (Some creds), scx) \<and> hs x = headers_with data_checksum \<and> req_body x = Body_once ''data''
     \<and> ex_credentials (rq_s3ext req) = Some (plain_of creds)
     \<and> SimpleAuth_get_secret_key (SimpleAuth_from_single ''AK'' ''secret'') (cr_access_key creds) = Inr (cr_secret_key creds)"
proof -
  obtain req where p: "prepare plain_prep plain_service plain_put = Some (Inr (S3 ''PutObject''), req)" using plain_prepared by blast
  have auth: "cc_auth plain_service = Some (SimpleAuth_get_secret_key (SimpleAuth_from_single ''AK'' ''secret''))"
    and acc: "cc_access plain_service = None" and env: "pe_sig plain_prep = plain_env"
    by (simp_all add: plain_service_def plain_prep_def)
  have "inject_host_header plain_prep plain_put = plain_put"
    by (simp add: inject_host_header_def plain_put_def contains_key_def headers_with_def)
  then have put: "rq_headers (inject_host_header plain_prep plain_put) = headers_with data_checksum" "rq_body plain_put = Body_once ''data''"
    by (simp_all add: plain_put_def)
  note t = prepared_request_authorized [OF p auth, unfolded put env acc]
  from t obtain x creds scx where x: "check plain_env x = Some (Inr creds, scx)" "hs x = headers_with data_checksum"
    "req_body x = Body_once ''data''" "ex_credentials (rq_s3ext req) = map_option plain_of creds" by blast
  from t have "ex_credentials (rq_s3ext req) \<noteq> None" by simp
  with x(4) obtain c where c: "creds = Some c" by (cases creds) auto
  from t x(4) c have "SimpleAuth_get_secret_key (SimpleAuth_from_single ''AK'' ''secret'') (access_key (plain_of c)) = Inr (secret_key (plain_of c))"
    by simp
  with p x c show ?thesis by (intro exI [of _ req] exI [of _ x] exI [of _ c] exI [of _ scx]) (simp add: plain_of_def)
qed

section \<open>Version 2 signatures and declared operations\<close>

definition with_x_id :: "(bytes \<times> bytes) list \<Rightarrow> bytes \<Rightarrow> ordered_qs" where
  "with_x_id v name = \<lparr>qs = utils_stable_sort_by_first (v @ [(''x-id'', name)])\<rparr>"

lemma with_x_id_other:
  assumes "n \<noteq> ''x-id''"
  shows "filter (\<lambda>x. fst x = n) (qs (with_x_id v name)) = filter (\<lambda>x. fst x = n) (utils_stable_sort_by_first v)"
  using assms by (simp add: with_x_id_def utils_stable_sort_by_first_def sort_key_stable)

lemma with_x_id_found: "values_of v ''x-id'' = [] \<Longrightarrow> lookup (with_x_id v name) ''x-id'' = Single name"
  by (simp add: lookup_def with_x_id_def utils_stable_sort_by_first_def sort_key_stable values_of_def case_prod_unfold)

lemma x_id_unsigned: "''x-id'' \<notin> set (''Expires'' # INCLUDED_QUERY)"
  by code_simp

lemma v2_check_x_id:
  assumes "sc_qs x = Some \<lparr>qs = utils_stable_sort_by_first v\<rparr>"
  shows "v2_check E (x\<lparr>sc_qs := Some (with_x_id v name)\<rparr>) = v2_check E x"
proof -
  let ?p = "utils_stable_sort_by_first v" and ?p' = "qs (with_x_id v name)"
  have filt: "filter (\<lambda>(k, _). k = n) ?p' = filter (\<lambda>(k, _). k = n) ?p" if "n \<noteq> ''x-id''" for n
    using with_x_id_other [OF that, of v name] by (simp add: case_prod_unfold)
  have has: "has (with_x_id v name) n = has \<lparr>qs = ?p\<rparr> n" if "n \<noteq> ''x-id''" for n
    using that has_sorted [of "with_x_id v name" n] has_sorted [of "\<lparr>qs = ?p\<rparr>" n]
    by (auto simp: with_x_id_def utils_stable_sort_by_first_def)
  have included: "v2_get_unique_qs ?p' n = v2_get_unique_qs ?p n" if "n \<in> set (''Expires'' # INCLUDED_QUERY)" for n
    using that x_id_unsigned v2_get_unique_qs_sorted [of v n] v2_get_unique_qs_sorted [of "v @ [(''x-id'', name)]" n]
    by (auto simp: with_x_id_def values_of_def)
  have sts: "v2_create_string_to_sign mode m u (Some ?p') hs b = v2_create_string_to_sign mode m u (Some ?p) hs b" for mode m u hs b
    by (rule string_to_sign_query) (rule included)
  have unique: "v2_get_unique ?p' n = v2_get_unique ?p n" if "n \<noteq> ''x-id''" for n
    using filt [OF that] by (simp add: v2_get_unique_def)
  have parse: "PresignedUrlV2_parse K ?p' = PresignedUrlV2_parse K ?p" for K
    unfolding PresignedUrlV2_parse_def by (subst (1 2 3) unique) simp_all
  have pairs: "query_pairs x = ?p" "query_pairs (x\<lparr>sc_qs := Some (with_x_id v name)\<rparr>) = ?p'"
    using assms by (simp_all add: query_pairs_def)
  let ?y = "x\<lparr>sc_qs := Some (with_x_id v name)\<rparr>"
  have "v2_check_presigned_url E ?y = v2_check_presigned_url E x"
    unfolding v2_check_presigned_url_def pairs parse using assms
    by (simp add: ensure_v2_enabled_def require_auth_def sts)
  moreover have "v2_check_header_auth E ?y a = v2_check_header_auth E x a" for a
    unfolding v2_check_header_auth_def using assms
    by (simp add: ensure_v2_enabled_def require_auth_def v2_request_time_def sts cong: option.case_cong)
  ultimately show ?thesis
    using assms has [of "''Signature''"] by (simp add: v2_check_def ensure_presigned_url_enabled_def cong: option.case_cong)
qed

text \<open>
  C23: a Version 2 signature leaves the operation open. Adding a declaration \<^verbatim>\<open>x-id\<close> to the query of a request leaves the
  answer of the Version 2 check as it was, since the parameter is not part of the string to sign, and the request then is one
  for the declared operation: whoever holds a request with a Version 2 signature, a presigned link among them, can
  turn it into any operation of its method and kind of path.
\<close>

theorem v2_signature_leaves_operation_open:
  assumes "sc_qs x = Some \<lparr>qs = utils_stable_sort_by_first v\<rparr>" and "values_of v ''x-id'' = []"
    and "operation_id_routing config" and "resolve_operation_by_id minio meth path name = Some op"
  shows "v2_check E (x\<lparr>sc_qs := Some (with_x_id v name)\<rparr>) = v2_check E x
    \<and> asked_for minio config meth path h (Some (with_x_id v name)) = Inr op"
  using assms v2_check_x_id [OF assms(1)] with_x_id_found [OF assms(2), of name]
  by (simp add: asked_for_def declared_def)

theorem v2_signature_leaves_operation_open_witness:
  "v2_check plain_env (plain_request\<lparr>sc_qs := Some (with_x_id [] ''GetObjectAcl'')\<rparr>) =
     v2_check plain_env (plain_request\<lparr>sc_qs := Some \<lparr>qs = utils_stable_sort_by_first []\<rparr>\<rparr>)
   \<and> asked_for False S3Config_default ''GET'' (Object ''b'' ''k'') (\<lambda>_. False) (Some (with_x_id [] ''GetObjectAcl'')) = Inr ''GetObjectAcl''"
proof -
  have op: "resolve_operation_by_id False ''GET'' (Object ''b'' ''k'') ''GetObjectAcl'' = Some ''GetObjectAcl''" by code_simp
  let ?x = "plain_request\<lparr>sc_qs := Some \<lparr>qs = utils_stable_sort_by_first []\<rparr>\<rparr>"
  have "sc_qs ?x = Some \<lparr>qs = utils_stable_sort_by_first []\<rparr>" "values_of [] ''x-id'' = []" "operation_id_routing S3Config_default"
    by (simp_all add: values_of_def S3Config_default_def)
  from v2_signature_leaves_operation_open [OF this op, of plain_env] show ?thesis by simp
qed

end
