(* ===== verification/Prepare_Body.thy ===== *)
theory Prepare_Body
  imports Prepare_Correct
begin

text \<open>
  The body of a prepared request: what reading it into memory answers, how much of it there can be, and what happens to
  a body that was sent in signed chunks.
\<close>

section \<open>Failures of a body without a limit\<close>

fun is_limit_error :: "body_error \<Rightarrow> bool" where
  "is_limit_error (BodySizeLimitExceeded _ _) = True"
| "is_limit_error _ = False"

lemma dyn_poll_error: "dyn_poll_next C s = (Ready (Some (Inl e)), s') \<Longrightarrow> \<not> is_limit_error e"
  by (cases s) (auto simp: map_poll_err_def split: prod.splits poll.splits option.splits sum.splits)

lemma poll_kind_error: "poll_kind C k = (Ready (Some (Inl e)), k') \<Longrightarrow> \<not> is_limit_error e"
  by (cases k)
    (auto simp: frame_of_data_def dest: dyn_poll_error split: prod.splits if_splits list.splits frame_event.splits sum.splits
      poll.splits option.splits)

lemma poll_next_error:
  "remaining_limit b = None \<Longrightarrow> Body_poll_next C b = (Ready (Some (Inl e)), b') \<Longrightarrow> \<not> is_limit_error e"
proof (induction C b rule: Body_poll_next.induct)
  case (1 C b)
  obtain q k where q: "poll_kind C (kind b) = (q, k)" by (cases "poll_kind C (kind b)")
  then have pf: "poll_frame C b = (q, b\<lparr>kind := k\<rparr>)" using "1.prems"(1) by (simp add: poll_frame_def)
  show ?case
    using "1.prems" "1.IH" [OF pf [symmetric] _ refl refl refl] pf poll_kind_error [of C "kind b" e k] q
    by (subst (asm) Body_poll_next.simps) (auto split: poll.splits option.splits sum.splits frame.splits)
qed

lemma first_failure_unlimited: "remaining_limit b = None \<Longrightarrow> first_failure C b = Some e \<Longrightarrow> \<not> is_limit_error e"
proof (induction C b rule: first_failure.induct)
  case (1 C b)
  obtain p b1 where p: "Body_poll_next C b = (p, b1)" by (cases "Body_poll_next C b")
  have b1: "remaining_limit b1 = None" by (rule poll_next_unlimited [OF "1.prems"(1) p])
  show ?case
    using "1.prems" "1.IH" [OF p [symmetric]] b1 p poll_next_error [OF "1.prems"(1)]
    by (subst (asm) first_failure.simps) (auto split: poll.splits option.splits sum.splits)
qed

section \<open>Reading the body of a document\<close>

context limited_collect
begin

lemma store_Inl:
  assumes "Body_bytes b = None" and "remaining_limit b = None" and "fst (store_all_limited L C n b) = Inl e"
  shows "e = LengthLimitError \<or> (\<exists>f. e = BodyFailure f \<and> \<not> is_limit_error f)"
  using assms(1,3) first_failure_unlimited [OF assms(2)]
  by (auto simp: store_all_limited_def split: sum.splits option.splits)

lemma full_body_cases:
  assumes "env_collect E = L" and "Body_bytes b = None" and "remaining_limit b = None"
  shows "fst (extract_full_body E len b mx) =
    (case body_data (outcomes (env_crypto E) b) of (ds, failure) \<Rightarrow>
       if mx < length (concat ds) \<or> failure \<noteq> None then Inl InternalError
       else if concat ds = [] then Inr []
       else (case len of
           None \<Rightarrow> Inl MissingContentLength
         | Some n \<Rightarrow> if length (concat ds) = n then Inr (concat ds) else Inl IncompleteBody))"
proof -
  let ?s = "store_all_limited L (env_crypto E) mx b"
  obtain ds failure where d: "body_data (outcomes (env_crypto E) b) = (ds, failure)" by fastforce
  obtain r b' where s: "?s = (r, b')" by fastforce
  note ok = store_Inr [of "env_crypto E" mx b, unfolded assms(2) d s, simplified]
  show ?thesis
  proof (cases r)
    case (Inl e)
    then have "mx < length (concat ds) \<or> failure \<noteq> None" using ok [of "concat ds"] by (auto simp: not_le)
    moreover have "fst (extract_full_body E len b mx) = Inl InternalError"
      using store_Inl [OF assms(2,3), of "env_crypto E" mx e] s Inl assms(1,2)
      by (auto simp: extract_full_body_def split: body_error.splits)
    ultimately show ?thesis by (simp add: d)
  next
    case (Inr bs)
    then have "bs = concat ds" "failure = None" "length bs \<le> mx" using ok [of bs] by auto
    with Inr s assms(1,2) d show ?thesis by (auto simp: extract_full_body_def split: option.splits)
  qed
qed

end


definition split_body :: http_body where
  "split_body = Body_hyper \<lparr>raw_events = [FrameItem (Inr (DataFrame ''ab'')), FramePending, FrameItem (Inr (DataFrame ''cd''))],
     raw_hint = (\<lambda>_. (0, None))\<rparr>"

lemma split_body_data: "body_data (outcomes C split_body) = ([''ab'', ''cd''], None)"
  by (simp add: split_body_def outcomes.simps Body_poll_next.simps Body_hyper_def poll_frame_def)

lemma split_body_kind: "Body_bytes split_body = None" "remaining_limit split_body = None"
  by (simp_all add: split_body_def Body_hyper_def Body_bytes_def)


section \<open>How much of a body there is\<close>

definition final_body :: "sig_context \<Rightarrow> http_body" where
  "final_body x = (case transformed_body x of Some b \<Rightarrow> b | None \<Rightarrow> req_body x)"

lemma dyn_not_buffered [simp]: "Body_bytes (Body_dyn_stream s) = None" "Body_bytes Body_empty = Some []"
  by (simp_all add: Body_bytes_def Body_dyn_stream_def Body_empty_def)

lemma install_buffered:
  assumes "v4_install_body E x cl sig = Some (Inr u, x')" and "transformed_body x = None"
  shows "Body_bytes (final_body x') = None \<or> final_body x' = req_body x"
  using assms
  by (auto simp: v4_install_body_def v4_install_chunked_def wrap_upload_def final_body_def
      split: option.splits if_splits sum.splits amz_content_sha256.splits)

lemma presigned_buffered:
  assumes "v4_check_presigned_url E x = (Inr c, x')" and "transformed_body x = None"
  shows "Body_bytes (final_body x') = None \<or> final_body x' = req_body x"
  using assms
  by (auto simp: v4_check_presigned_url_def wrap_upload_def final_body_def Let_def
      split: option.splits sum.splits amz_content_sha256.splits prod.splits)

context limited_collect
begin

lemma payload_buffered:
  assumes "v4_payload E x content service = (Inr pl, x')" and "transformed_body x = None" and "env_collect E = L"
    and "Body_bytes (req_body x') = Some bs"
  shows "transformed_body x' = None \<and> (Body_bytes (req_body x) = Some bs \<or> service = ''sts'' \<and> length bs \<le> MAX_STS_BODY_SIZE)"
proof -
  obtain r b where s: "store_all_limited L (env_crypto E) MAX_STS_BODY_SIZE (req_body x) = (r, b)" by fastforce
  have "length bs \<le> MAX_STS_BODY_SIZE" if "r = Inr d" "Body_bytes b = Some bs" for d
    using store_Inr [of "env_crypto E" MAX_STS_BODY_SIZE "req_body x" d] s that
    by (auto simp: store_all_limited_def Body_bytes_def Body_once_def split: option.splits sum.splits if_splits body_kind.splits)
  with s assms show ?thesis
    by (auto simp: v4_payload_def split: option.splits if_splits sum.splits amz_content_sha256.splits prod.splits)
qed

lemma header_auth_buffered:
  assumes "v4_check_header_auth E x = Some (Inr c, x')" and "transformed_body x = None" and "env_collect E = L"
    and "Body_bytes (final_body x') = Some bs"
  shows "Body_bytes (req_body x) = Some bs \<or> cr_service c = Some ''sts'' \<and> length bs \<le> MAX_STS_BODY_SIZE"
proof -
  obtain cl pl x1 sig where h: "v4_payload E x (cl_content_sha256 cl) (aws_service (credential (cl_authorization cl))) = (Inr pl, x1)"
    "v4_install_body E x1 cl sig = Some (Inr (), x')" "cr_service c = Some (aws_service (credential (cl_authorization cl)))"
    using assms(1) by (auto simp: v4_check_header_auth_def v4_credentials_def split: sum.splits prod.splits option.splits)
  have "transformed_body x1 = None"
    using h(1) assms(2) by (auto simp: v4_payload_def split: option.splits if_splits sum.splits amz_content_sha256.splits prod.splits)
  from install_buffered [OF h(2) this] payload_buffered [OF h(1) assms(2,3), of bs] assms(4) h(3) show ?thesis by auto
qed

lemma checked_buffered:
  assumes "check E x = Some (Inr creds, x')" and "transformed_body x = None" and "env_collect E = L"
    and "Body_bytes (final_body x') = Some bs"
  shows "Body_bytes (req_body x) = Some bs \<or> Option.bind creds cr_service = Some ''sts'' \<and> length bs \<le> MAX_STS_BODY_SIZE \<or> bs = []"
proof (cases "is_form_post x")
  case True
  then have "check_post_signature E x = Some (Inr creds, x')" using assms(1) by (simp add: check_def)
  then have "req_body x' = Body_empty \<and> transformed_body x' = None"
    using assms(2)
    by (auto simp: check_post_signature_def v4_check_post_signature_def v2_check_post_signature_def signed_in_def Let_def
        split: option.splits sum.splits if_splits)
  with assms(4) show ?thesis by (simp add: final_body_def)
next
  case False
  have pre: "Body_bytes (req_body x) = Some bs"
    if p: "signed_in (v4_check_presigned_url E x) = (Inr creds, x')"
  proof -
    obtain c where "v4_check_presigned_url E x = (Inr c, x')" using p by (cases creds) auto
    from presigned_buffered [OF this assms(2)] assms(4) show ?thesis by auto
  qed
  have hdr: "Body_bytes (req_body x) = Some bs \<or> Option.bind creds cr_service = Some ''sts'' \<and> length bs \<le> MAX_STS_BODY_SIZE"
    if h: "map_option signed_in (v4_check_header_auth E x) = Some (Inr creds, x')"
  proof -
    obtain c where c: "v4_check_header_auth E x = Some (Inr c, x')" "creds = Some c" using h by (cases creds) (auto simp: signed_in_def map_sum_Inr)
    from header_auth_buffered [OF c(1) assms(2-4)] show ?thesis by (simp add: c(2))
  qed
  have same: "Body_bytes (req_body x) = Some bs" if "x' = x" using assms(2,4) that by (simp add: final_body_def)
  have v2: "x' = x" if "signed_in (r, x) = (Inr creds, x')" for r using that by (simp add: signed_in_def)
  show ?thesis
    using assms(1) pre hdr same v2
    by (auto simp: check_not_form [OF False] split: option.splits if_splits sum.splits)
qed

end

lemma full_body_Inr:
  assumes "limited_collect (env_collect E)" and "extract_full_body E len body mx = (Inr bs, b)"
  shows "Body_bytes b = Some bs \<and> (Body_bytes body = Some bs \<or> length bs \<le> mx)"
proof (cases "Body_bytes body")
  case (Some d)
  with assms(2) show ?thesis by (simp add: extract_full_body_def)
next
  case None
  obtain r b1 where s: "store_all_limited (env_collect E) (env_crypto E) mx body = (r, b1)" by fastforce
  with None assms(2) have r: "r = Inr bs" "b1 = b"
    by (auto simp: extract_full_body_def split: sum.splits store_error.splits body_error.splits if_splits option.splits)
  moreover have "b1 = Body_once bs" using s None r(1) by (auto simp: store_all_limited_def split: sum.splits option.splits)
  ultimately show ?thesis
    using limited_collect.store_Inr [OF assms(1), of "env_crypto E" mx body bs] s
    by (auto simp: Body_bytes_def Body_once_def)
qed

lemma streaming_limited:
  assumes "prepare_streaming_body P config req = (Inr (), req1)" and "put_object_max_size config = Some n"
  shows "length (concat (fst (body_data (outcomes C (rq_body req1))))) \<le> n"
proof -
  have "rq_body req1 = set_limit (Some n) (set_limit None (rq_body req))"
    using assms by (auto simp: prepare_streaming_body_def set_limit_def Let_def split: sum.splits if_splits option.splits)
  moreover have "remaining_limit (set_limit None (rq_body req)) = None" by (simp add: set_limit_def)
  ultimately show ?thesis by (simp only: outcomes_limited limit_events_bound)
qed

lemma prepared_full_body:
  assumes "prepare P ccx req0 = Some (Inr (S3 op), req)" and "limited_collect (env_collect (pe_sig P))" and full: "needs_full_body op"
  shows "\<exists>bs. Body_bytes (rq_body req) = Some bs
      \<and> (length bs \<le> xml_max_body_size (cc_config ccx) \<or> Body_bytes (rq_body req0) = Some bs
        \<or> ex_service (rq_s3ext req) = Some ''sts'' \<and> length bs \<le> MAX_STS_BODY_SIZE)"
proof -
  obtain fr req1 ro len dp dl creds scx len1 req2 req3 ext path where s:
    "prepare_front P ccx req0 = (Inr fr, req1)"
    "check (pe_sig P) (signature_context P ccx req1 dp (fr_vh_bucket fr) len dl) = Some (Inr creds, scx)"
    "harvest req1 scx creds (fr_vh_region fr) len dl = (Inr len1, req2)"
    "case ro of Some op' \<Rightarrow> op = op' \<and> req3 = req2 | None \<Rightarrow> resolve_late P ccx req2 path (fr_host fr) = Some (Inr op, req3)"
    "prepare_body P (cc_config ccx) op len1 (req3\<lparr>rq_extensions := ext\<rparr>) = (Inr (), req)"
    by (rule prepare_S3 [OF assms(1)])
  have body: "rq_body req3 = final_body scx"
    using s(4) resolve_late_Inr [of P ccx req2 path "fr_host fr" op req3] harvest_Inr [OF s(3)]
    by (auto simp: final_body_def split: option.splits)
  obtain bs b where f: "extract_full_body (pe_sig P) len1 (final_body scx) (xml_max_body_size (cc_config ccx)) = (Inr bs, b)"
    "req = req3\<lparr>rq_extensions := ext, rq_body := b\<rparr>"
    using s(5) full body by (auto simp: prepare_body_def split: prod.splits sum.splits)
  note fb = full_body_Inr [OF assms(2) f(1)]
  have "ex_service (rq_s3ext req) = Option.bind creds cr_service"
    using s(4) resolve_late_Inr [of P ccx req2 path "fr_host fr" op req3] harvest_Inr [OF s(3)] f(2) by (auto split: option.splits)
  moreover have "Body_bytes (rq_body req0) = Some bs \<or> Option.bind creds cr_service = Some ''sts'' \<and> length bs \<le> MAX_STS_BODY_SIZE \<or> bs = []"
    if "Body_bytes (final_body scx) = Some bs"
    using limited_collect.checked_buffered [OF assms(2) s(2) _ refl that] prepare_front_Inr [OF s(1)] by simp
  ultimately show ?thesis using fb f(2) by auto
qed

text \<open>
  C16: how much an operation can be made to read. When a request is prepared for an operation that takes a whole document,
  the document is in memory, and what was read from the connection is within the configured limit for documents, with one exception: the
  body of a request whose credentials are for the token service was read while the signature was checked, within the fixed limit of
  that service, and is not held against the configured one. A body that was in memory before the request came in is taken as it is.
  When the request is prepared for an operation that takes a stream, the stream hands out at most the configured size of an object, whatever
  lengths the request announced.
\<close>

theorem prepared_body_bounded:
  assumes "prepare P ccx req0 = Some (Inr (S3 op), req)" and "limited_collect (env_collect (pe_sig P))"
  shows "(needs_full_body op \<longrightarrow> (\<exists>bs. Body_bytes (rq_body req) = Some bs
      \<and> (length bs \<le> xml_max_body_size (cc_config ccx) \<or> Body_bytes (rq_body req0) = Some bs
        \<or> ex_service (rq_s3ext req) = Some ''sts'' \<and> length bs \<le> MAX_STS_BODY_SIZE)))
    \<and> (has_streaming_body op \<longrightarrow> (\<forall>n C. put_object_max_size (cc_config ccx) = Some n \<longrightarrow>
         length (concat (fst (body_data (outcomes C (rq_body req))))) \<le> n))"
proof -
  obtain fr req1 ro len dp dl creds scx len1 req2 req3 ext path where s:
    "prepare_front P ccx req0 = (Inr fr, req1)"
    "check (pe_sig P) (signature_context P ccx req1 dp (fr_vh_bucket fr) len dl) = Some (Inr creds, scx)"
    "harvest req1 scx creds (fr_vh_region fr) len dl = (Inr len1, req2)"
    "case ro of Some op' \<Rightarrow> op = op' \<and> req3 = req2 | None \<Rightarrow> resolve_late P ccx req2 path (fr_host fr) = Some (Inr op, req3)"
    "prepare_body P (cc_config ccx) op len1 (req3\<lparr>rq_extensions := ext\<rparr>) = (Inr (), req)"
    by (rule prepare_S3 [OF assms(1)])
  have exclusive: "\<not> (needs_full_body op \<and> has_streaming_body op)"
  proof -
    have "list_all (\<lambda>op. \<not> needs_full_body op) [''PutObject'', ''PutObjectAnnotation'', ''UploadPart'', ''WriteGetObjectResponse'']"
      by code_simp
    then show ?thesis by (auto simp: has_streaming_body_def)
  qed
  have "length (concat (fst (body_data (outcomes C (rq_body req))))) \<le> n"
    if "has_streaming_body op" "put_object_max_size (cc_config ccx) = Some n" for n C
    using streaming_limited [OF _ that(2)] s(5) that(1) exclusive by (simp add: prepare_body_def)
  then show ?thesis using prepared_full_body [OF assms] by blast
qed

theorem prepared_body_bounded_witness:
  "\<exists>req. prepare plain_prep plain_service plain_put = Some (Inr (S3 ''PutObject''), req)
     \<and> length (concat (fst (body_data (outcomes plain_crypto (rq_body req))))) \<le> DEFAULT_PUT_OBJECT_MAX_SIZE"
proof -
  obtain req where p: "prepare plain_prep plain_service plain_put = Some (Inr (S3 ''PutObject''), req)" using plain_prepared by blast
  have "limited_collect (env_collect (pe_sig plain_prep))"
    by (simp add: plain_prep_def plain_env_def collect_reference.limited_collect_axioms)
  moreover have "has_streaming_body ''PutObject''" by code_simp
  moreover have "put_object_max_size (cc_config plain_service) = Some DEFAULT_PUT_OBJECT_MAX_SIZE"
    by (simp add: plain_service_def S3Config_default_def)
  ultimately show ?thesis using prepared_body_bounded [OF p] p by blast
qed

text \<open>
  A document in signed chunks is never delivered: its decoded body is compared with the length 0 that replaced the
  announced one, so that anything but an empty document is refused as incomplete.
\<close>

lemma chunked_document_refused:
  assumes "limited_collect (env_collect (pe_sig P))" and "needs_full_body op"
    and "harvest req scx creds r len dl = (Inr len1, req1)" and "transformed_body scx = Some (Body_dyn_stream s)"
    and "prepare_body P config op len1 (req1\<lparr>rq_extensions := ext\<rparr>) = (Inr (), req2)"
  shows "Body_bytes (rq_body req2) = Some []"
proof -
  have body: "rq_body req1 = Body_dyn_stream s" "len1 = map_option (\<lambda>_. 0) len"
    using harvest_Inr [OF assms(3)] assms(4) by simp_all
  then obtain bs b where f: "extract_full_body (pe_sig P) len1 (Body_dyn_stream s) (xml_max_body_size config) = (Inr bs, b)" "rq_body req2 = b"
    using assms(2,5) by (auto simp: prepare_body_def split: prod.splits sum.splits)
  have "remaining_limit (Body_dyn_stream s) = None" by (simp add: Body_dyn_stream_def)
  from limited_collect.full_body_cases [OF assms(1) refl dyn_not_buffered(1) this, of len1 "xml_max_body_size config"] f(1)
  have "bs = [] \<or> len1 = Some (length bs)" by (auto split: prod.splits if_splits option.splits)
  then have "bs = []" using body(2) by (cases len) auto
  with full_body_Inr [OF assms(1) f(1)] f(2) show ?thesis by simp
qed

end
