(* ===== verification/File_Progress.thy ===== *)
theory File_Progress
  imports Form_Parser
begin

text \<open>
  Reading the file of a form always ends: every answer of the file stream that is not its last one makes the work that is
  left smaller, so that aggregating the file does not run forever.
\<close>

section \<open>The trailer\<close>

lemma fill_buf_progress: "progress work b (fill_buf len b)"
proof (induction len b rule: fill_buf.induct)
  case (1 len b)
  obtain r b1 where p: "poll_stream b = (r, b1)" by fastforce
  have rec: "length (buf b) < len \<Longrightarrow> r = Ready (Some (Inr c)) \<Longrightarrow> progress work b (fill_buf len (b1\<lparr>buf := buf b1 @ c\<rparr>))" for c
    using "1.IH" [OF _ p [symmetric]] poll_stream_work(2) [OF p] by (blast intro: progress_trans less_imp_le)
  show ?case
    using rec poll_stream_work [OF p] by (subst fill_buf.simps) (simp add: p split: poll.split option.split sum.split)
qed

lemma skip_final_padding_progress: "progress work b (skip_final_padding b)"
proof (induction b rule: skip_final_padding.induct)
  case (1 b)
  show ?case
  proof (subst skip_final_padding.simps, rule progress_try [OF fill_buf_progress])
    fix a b1
    assume f: "fill_buf 1 b = (Ready (Inr a), b1)" "work b1 \<le> work b"
    have "is_ows (hd (buf b1)) \<Longrightarrow> progress work b1 (skip_final_padding (b1\<lparr>buf := drop 1 (buf b1)\<rparr>))"
      using "1.IH" [OF f(1)] by (rule progress_trans) (auto simp: work_buf)
    then show "progress work b1 (if is_ows (hd (buf b1)) then skip_final_padding (b1\<lparr>buf := drop 1 (buf b1)\<rparr>)
        else if hd (buf b1) = CR then (Ready (Inr ()), b1) else (Ready (Inl InvalidFormat), b1))"
      by simp
  qed
qed

lemma trailer_progress:
  "progress work b (trailer_after_boundary b)" "progress work b (trailer_final_crlf b)" "progress work b (trailer_eof b)"
proof -
  show "progress work b (trailer_after_boundary b)"
    unfolding trailer_after_boundary_def by (rule progress_try [OF fill_buf_progress]) (auto simp: work_buf)
  show "progress work b (trailer_final_crlf b)"
    unfolding trailer_final_crlf_def
    by (rule progress_try [OF skip_final_padding_progress], rule progress_try [OF fill_buf_progress]) (auto simp: work_buf)
  obtain r b1 where p: "poll_stream b = (r, b1)" by fastforce
  show "progress work b (trailer_eof b)"
    using poll_stream_work [OF p] by (simp add: trailer_eof_def p split: poll.split option.split sum.split)
qed

definition fds_work :: "final_part_data_stream \<Rightarrow> nat" where
  "fds_work p = work (fds_buffer p)"

lemma fds_work_update [simp]:
  "fds_work (p\<lparr>fds_buffer := b\<rparr>) = work b" "fds_work (p\<lparr>fds_state := st\<rparr>) = fds_work p" "fds_work (p\<lparr>fds_terminated := t\<rparr>) = fds_work p"
  by (simp_all add: fds_work_def)

lemma on_final_progress:
  assumes "\<And>b. progress work b (f b)"
  shows "progress fds_work p (on_final f p)"
  using assms [of "fds_buffer p"]
  by (cases "f (fds_buffer p)") (auto simp: on_final_def progress_def fds_work_def split: poll.splits sum.splits)

lemma poll_trailer_progress: "progress fds_work p (poll_trailer p)"
proof (induction p rule: poll_trailer.induct)
  case (1 p)
  note tries = progress_try [OF on_final_progress [OF trailer_progress(1)]] progress_try [OF on_final_progress [OF trailer_progress(2)]]
    progress_try [OF on_final_progress [OF trailer_progress(3)]]
  show ?case
  proof (cases "fds_state p")
    case AfterBoundary
    have "progress fds_work p (try_ready (on_final trailer_after_boundary p) (\<lambda>_ p1. poll_trailer (p1\<lparr>fds_state := FinalCRLF\<rparr>)))"
      by (rule tries(1)) (use "1.IH"(1) [OF AfterBoundary] in \<open>auto intro: progress_trans\<close>)
    with AfterBoundary show ?thesis by (subst poll_trailer.simps) simp
  next
    case FinalCRLF
    have "progress fds_work p (try_ready (on_final trailer_final_crlf p) (\<lambda>_ p1. poll_trailer (p1\<lparr>fds_state := Eof\<rparr>)))"
      by (rule tries(2)) (use "1.IH"(2) [OF FinalCRLF] in \<open>auto intro: progress_trans\<close>)
    with FinalCRLF show ?thesis by (subst poll_trailer.simps) simp
  next
    case Eof
    have "progress fds_work p (try_ready (on_final trailer_eof p) (\<lambda>_ p1. (Ready (Inr ()), p1\<lparr>fds_state := FinalDone\<rparr>)))"
      by (rule tries(3)) simp
    with Eof show ?thesis by (subst poll_trailer.simps) simp
  qed (subst poll_trailer.simps, simp)+
qed

section \<open>The file\<close>

definition fds_left :: "final_part_data_stream \<Rightarrow> nat" where
  "fds_left p = fds_work p + (if fds_state p = Data then 1 else 0)"

lemma poll_data_left:
  assumes "FinalPartDataStream_poll_data M p = (r, p1)" and "fds_state p = Data"
  shows "(r = Pending \<or> (\<exists>item. r = Ready (Inr (Some item))) \<longrightarrow> fds_left p1 < fds_left p)
    \<and> (r = Ready (Inr None) \<longrightarrow> fds_left p1 < fds_left p \<and> fds_state p1 = AfterBoundary)"
proof -
  obtain q b1 where s: "scan_data M (fds_delimiter p) (fds_buffer p) = (q, b1)" by fastforce
  show ?thesis
    using assms scan_data_work [OF s] s
    by (auto simp: FinalPartDataStream_poll_data_def fds_left_def fds_work_def split: poll.splits scan_outcome.splits if_splits)
qed

lemma on_final_state: "on_final f p = (r, p1) \<Longrightarrow> fds_state p1 = fds_state p"
  by (auto simp: on_final_def split: prod.splits)

lemma poll_trailer_state: "poll_trailer p = (r, p1) \<Longrightarrow> fds_state p \<noteq> Data \<Longrightarrow> fds_state p1 \<noteq> Data"
proof (induction p arbitrary: r p1 rule: poll_trailer.induct)
  case (1 p)
  have kept: "on_final f p = (q, p2) \<Longrightarrow> fds_state p2 \<noteq> Data" for f q p2 using on_final_state [of f p q p2] "1.prems"(2) by simp
  show ?case
  proof (cases "fds_state p")
    case AfterBoundary
    then show ?thesis
      using "1.prems" "1.IH"(1) [OF AfterBoundary] kept
      by (subst (asm) poll_trailer.simps) (auto simp: try_ready_def split: prod.splits poll.splits sum.splits)
  next
    case FinalCRLF
    then show ?thesis
      using "1.prems" "1.IH"(2) [OF FinalCRLF] kept
      by (subst (asm) poll_trailer.simps) (auto simp: try_ready_def split: prod.splits poll.splits sum.splits)
  next
    case Eof
    then show ?thesis
      using "1.prems" kept
      by (subst (asm) poll_trailer.simps) (auto simp: try_ready_def split: prod.splits poll.splits sum.splits)
  qed (use "1.prems" in \<open>subst (asm) poll_trailer.simps, auto\<close>)+
qed

lemma trailer_left:
  assumes "poll_trailer p = (r, p1)" and "fds_state p \<noteq> Data"
  shows "r = Pending \<Longrightarrow> fds_left p1 < fds_left p" and "r = Ready (Inr u) \<Longrightarrow> fds_left p1 \<le> fds_left p"
  using poll_trailer_progress [of p] assms poll_trailer_state [OF assms] by (auto simp: fds_left_def)

lemma final_poll_left:
  assumes "FinalPartDataStream_poll_next M p = (q, p')" and "q = Pending \<or> q = Ready (Some (Inr bs))"
  shows "fds_left p' < fds_left p"
proof -
  have "final_poll_loop k M p = (q, p') \<Longrightarrow> fds_left p' < fds_left p" for k
  proof (induction k arbitrary: p)
    case (Suc k)
    show ?case
    proof (cases "fds_terminated p \<or> fds_state p = FinalDone")
      case True
      with Suc.prems assms(2) show ?thesis by (auto split: if_splits)
    next
      case alive: False
      show ?thesis
      proof (cases "fds_state p = Data")
        case True
        obtain r p1 where d: "FinalPartDataStream_poll_data M p = (r, p1)" by fastforce
        from Suc.prems alive True poll_data_left [OF d True] assms(2) Suc.IH [of p1] show ?thesis
          by (auto simp: d split: poll.splits sum.splits option.splits)
      next
        case False
        obtain r p1 where d: "poll_trailer p = (r, p1)" by fastforce
        from Suc.prems alive False trailer_left [OF d False] assms(2) Suc.IH [of p1] show ?thesis
          by (cases "fds_state p") (auto simp: d split: poll.splits sum.splits)
      qed
    qed
  qed (use assms(2) in auto)
  with assms(1) show ?thesis by (simp add: FinalPartDataStream_poll_next_def)
qed

lemma file_poll_left:
  assumes "FileStream_poll_next M s = (q, s')" and "q = Pending \<or> q = Ready (Some (Inr bs))"
  shows "fds_left (fs_inner s') < fds_left (fs_inner s)"
proof -
  obtain q1 inn where i: "FinalPartDataStream_poll_next M (fs_inner s) = (q1, inn)" by fastforce
  have "(q1 = Pending \<or> q1 = Ready (Some (Inr bs))) \<and> fs_inner s' = inn"
    using assms i by (auto simp: FileStream_poll_next_def Let_def split: poll.splits option.splits sum.splits if_splits)
  with final_poll_left [OF i] show ?thesis by auto
qed

lemma aggregate_loop_total: "fds_left (fs_inner s) < k \<Longrightarrow> aggregate_loop M k mx s vec tot \<noteq> None"
proof (induction k arbitrary: s vec tot)
  case (Suc k)
  obtain q s1 where p: "FileStream_poll_next M s = (q, s1)" by fastforce
  note left = file_poll_left [OF p]
  show ?case
    using Suc.prems Suc.IH left p by (auto simp: Let_def split: poll.splits option.splits sum.splits)
qed simp

lemma aggregate_total: "aggregate_file_stream_limited M s mx \<noteq> None"
  unfolding aggregate_file_stream_limited_def
  by (rule aggregate_loop_total) (simp add: file_polls_def fds_left_def fds_work_def)

end
