(* ===== verification/Prepare_Post.thy ===== *)
theory Prepare_Post
  imports Prepare_Body File_Progress
begin

text \<open>
  Uploads by a posted form: that preparing a request always ends, and that a form is stored only within its policy
  and the size limits.
\<close>

section \<open>Forms\<close>

lemma parts_loop_fields:
  "parts_loop k M H bd lim len m flds tot cnt = (Some (Inr (form, fs)), m1) \<Longrightarrow> \<exists>flds'. form_fields form = normalize_fields flds'"
proof (induction k arbitrary: m flds tot cnt)
  case (Suc k)
  note prems = Suc.prems
  obtain part m2 where w: "await (poll_next_part M H) m = (Some (Inr part), m2)" "part \<noteq> None"
    "usize_saturating_add cnt 1 \<le> max_parts lim"
    using prems by (auto simp: and_await_Inr Let_def split: if_splits)
  obtain meta m3 name where h: "header_loop (MAX_HEADERS + 1) M H m2
      \<lparr>meta_name = None, meta_file_name = None, meta_content_type = None\<rparr> = (Some (Inr meta), m3)" "meta_name meta = Some name"
    using prems w by (auto simp: and_await_Inr Let_def split: if_splits option.splits)
  show ?case
  proof (cases "eq_ignore_ascii_case name ''file''")
    case True
    then have "form_fields form = normalize_fields flds"
      using prems w h by (auto simp: and_await_Inr Let_def finish_form_def split: prod.splits sum.splits)
    then show ?thesis by blast
  next
    case False
    then obtain v t m4 where "parts_loop k M H bd lim len m4 (flds @ [(name, v)]) t (usize_saturating_add cnt 1) = (Some (Inr (form, fs)), m1)"
      using prems w h by (auto simp: and_await_Inr Let_def bytes_to_string_def split: if_splits simp del: data_loop.simps header_loop.simps)
    then show ?thesis by (rule Suc.IH)
  qed
qed simp

lemma form_of_ok: "form_of E x bd = Some (Inr (form, fs)) \<Longrightarrow> fields_ok form"
  using parts_loop_fields
  by (fastforce simp: form_of_def transform_multipart_def fields_ok_def normalize_fields_def fst_conv_ex
      simp del: parts_loop.simps split: sum.splits)

lemma checked_form:
  assumes "check E x = Some (Inr creds, x')" and "is_form_post x"
  obtains bd form fs where "form_of E x bd = Some (Inr (form, fs))" "sc_multipart x' = Some (form, fs)"
proof -
  obtain mime where m: "sc_mime x = Some mime" using assms(2) by (auto simp: is_form_post_def split: option.splits)
  with assms obtain bd where bd: "mime_boundary mime = Some bd"
    by (cases "mime_boundary mime") (auto simp: check_def check_post_signature_def)
  have signed: "signed_in (v4_check_post_signature E y m) = (Inr creds, x') \<Longrightarrow> sc_multipart x' = Some m"
    "signed_in (v2_check_post_signature E y m) = (Inr creds, x') \<Longrightarrow> sc_multipart x' = Some m" for y m
    by (auto simp: signed_in_def v4_check_post_signature_def v2_check_post_signature_def split: sum.splits)
  have "\<exists>m. form_of E x bd = Some (Inr m) \<and> sc_multipart x' = Some m"
    using assms check_post_cases [OF m bd, of E]
    by (auto simp: check_def split: option.splits sum.splits if_splits dest: signed)
  with that show thesis by auto
qed

section \<open>Preparing a request ends\<close>

lemma post_stream_total: "prepare_post_object_stream M s mx \<noteq> None"
  using aggregate_total [of M s mx] by (auto simp: prepare_post_object_stream_def Let_def split: option.splits sum.splits multipart_error.splits)

lemma resolve_late_total:
  assumes "\<And>form s. ex_multipart (rq_s3ext req) = Some (form, s) \<Longrightarrow> s \<noteq> None"
  shows "resolve_late P ccx req path host \<noteq> None"
proof -
  have "resolve_post_object P bucket m config \<noteq> None" if "snd m \<noteq> None" for bucket m config
    using that by (auto simp: resolve_post_object_def Let_def post_stream_total split: sum.splits option.splits)
  note total = this
  show ?thesis
    using assms by (auto simp: resolve_late_def total split: option.splits s3_path.splits sum.splits)
qed

text \<open>
  C15: every request is answered. Whatever the request is, however its body arrives and whatever the routes, hosts and
  access checks of the service answer, preparing it ends with an operation, a custom route or an error: no parser,
  decoder or aggregation on the way runs forever, and the two places where the code would panic are not reached.
\<close>

theorem prepare_answers:
  assumes "byte_search (env_memchr (pe_sig P))" and "crypto_contract (env_crypto (pe_sig P))"
    and "form_max_parts (cc_config ccx) < 2 ^ 64 - 1"
  shows "\<exists>r req. prepare P ccx req0 = Some (r, req)"
proof -
  obtain rf req1 where f: "prepare_front P ccx req0 = (rf, req1)" by fastforce
  show ?thesis
  proof (cases rf)
    case (Inl e)
    with f show ?thesis by (simp add: prepare_def)
  next
    case (Inr fr)
    note front = prepare_front_Inr [OF f [unfolded Inr]]
    obtain ro oir where e: "resolve_early P (cc_config ccx) req1 (fr_custom_route_hit fr) = (ro, oir)" by fastforce
    let ?len = "signature_content_length req1 (fr_content_length fr) (has_payload req1 (fr_custom_route_hit fr) ro)"
    let ?v = "verify_signature P req1 ccx (fr_vh_bucket fr) (fr_vh_region fr) ?len"
    have checks: "check (pe_sig P) (signature_context P ccx req1 dp b len dl) \<noteq> None" for dp b len dl
      using check_total [OF assms(1,2), of "signature_context P ccx req1 dp b len dl"] assms(3) by fastforce
    have "?v \<noteq> None" by (auto simp: verify_signature_def checks split: option.splits sum.splits)
    then obtain rv req2 where v: "?v = Some (rv, req2)" by auto
    show ?thesis
    proof (cases rv)
      case (Inl e')
      with f Inr e v show ?thesis by (simp add: prepare_def)
    next
      case (Inr len1)
      obtain dp dl creds scx where "harvest req1 scx creds (fr_vh_region fr) ?len dl = (Inr len1, req2)"
        using verify_signature_Inr [of P req1 ccx] v Inr by metis
      note h = harvest_Inr [OF this]
      have late: "resolve_late P ccx req2 path host \<noteq> None" for path host
        by (rule resolve_late_total) (use h in auto)
      show ?thesis
      proof (cases "fr_custom_route_hit fr")
        case True
        with f \<open>rf = Inr fr\<close> e v Inr show ?thesis by (simp add: prepare_def)
      next
        case False
        then obtain path where path: "ex_s3_path (rq_s3ext req2) = Some path" using front classified h by fastforce
        from f \<open>rf = Inr fr\<close> e v Inr False path show ?thesis
          by (auto simp: prepare_def late split: option.splits prod.splits sum.splits)
      qed
    qed
  qed
qed

theorem prepare_answers_witness: "\<exists>r req. prepare plain_prep plain_service plain_put = Some (r, req)"
proof (rule prepare_answers)
  show "byte_search (env_memchr (pe_sig plain_prep))" "crypto_contract (env_crypto (pe_sig plain_prep))"
    by (simp_all add: plain_prep_def ref_search.byte_search_axioms plain.crypto_contract_axioms)
  show "form_max_parts (cc_config plain_service) < 2 ^ 64 - 1" by (simp add: plain_service_def S3Config_default_def)
qed

section \<open>Uploads by a form\<close>

text \<open>The size of the stream of a form: the length derived from the Content-Length, or the size of the aggregated file.\<close>

fun post_stream_size :: "post_stream \<Rightarrow> nat option" where
  "post_stream_size (PostFile s) = fs_content_len s"
| "post_stream_size (PostVec v) = Some (foldl usize_saturating_add 0 (map length (queue v)))"

lemma aggregate_size:
  "aggregate_loop M k mx s vec tot = Some (Inr out) \<Longrightarrow> tot = foldl usize_saturating_add 0 (map length vec) \<Longrightarrow> tot \<le> mx \<Longrightarrow>
     foldl usize_saturating_add 0 (map length out) \<le> mx"
proof (induction k arbitrary: s vec tot)
  case (Suc k)
  obtain q s1 where p: "FileStream_poll_next M s = (q, s1)" by fastforce
  have "aggregate_loop M k mx s1 (vec @ [bs]) (usize_saturating_add tot (length bs)) = Some (Inr out) \<Longrightarrow>
      \<not> mx < usize_saturating_add tot (length bs) \<Longrightarrow> foldl usize_saturating_add 0 (map length out) \<le> mx" for bs
    using Suc.IH [of s1 "vec @ [bs]"] Suc.prems(2) by simp
  then show ?case
    using Suc.prems Suc.IH [of s1 vec tot] p
    by (auto simp: Let_def split: poll.splits option.splits sum.splits if_splits)
qed simp

lemma post_stream_Inr:
  assumes "prepare_post_object_stream M s mx = Some (Inr (strm, n))"
  shows "post_stream_size strm = Some n \<and> n \<le> mx"
  using assms aggregate_size [of M "file_polls s" mx s "[]" 0]
  by (auto simp: prepare_post_object_stream_def aggregate_file_stream_limited_def VecByteStream_new_def Let_def
      split: option.splits sum.splits multipart_error.splits if_splits)

definition within_policy :: "post_policy \<Rightarrow> post_form \<Rightarrow> nat \<Rightarrow> bytes \<Rightarrow> bool" where
  "within_policy p form n bucket \<longleftrightarrow>
     (\<forall>c \<in> set (conditions p). satisfied form n (Some bucket) c \<and> (condition_field c = Some ''bucket'' \<longrightarrow> bucket_agrees form (Some bucket)))
     \<and> (\<forall>name \<in> fst ` set (form_fields form).
          is_field_exempt_from_policy name \<or> (\<exists>c \<in> set (conditions p). condition_field c = Some name))"

lemma resolve_post_object_Inr:
  assumes "resolve_post_object P bucket (form0, Some s) config = Some (Inr (strm, pol), m1)" and "fields_ok form0"
  shows "\<exists>n. m1 = (substitute_key_filename form0, None) \<and> post_stream_size strm = Some n
    \<and> n \<le> post_object_max_file_size_limit config
    \<and> parse_post_policy (env_policy (pe_sig P)) (now (pe_sig P)) (substitute_key_filename form0) = Inr pol
    \<and> (\<forall>p. pol = Some p \<longrightarrow> within_policy p (substitute_key_filename form0) n bucket)"
proof -
  let ?form = "substitute_key_filename form0"
  have ok: "fields_ok ?form" using assms(2) by (rule substitute_keeps)
  obtain n where n: "parse_post_policy (env_policy (pe_sig P)) (now (pe_sig P)) ?form = Inr pol"
    "prepare_post_object_stream (env_memchr (pe_sig P)) s (post_object_max_file_size pol (post_object_max_file_size_limit config)) = Some (Inr (strm, n))"
    "\<forall>p. pol = Some p \<longrightarrow> validate_conditions_only p ?form n (Some bucket) = Inr ()" "m1 = (?form, None)"
    using assms(1) by (auto simp: resolve_post_object_def Let_def split: sum.splits option.splits)
  have "post_object_max_file_size pol (post_object_max_file_size_limit config) \<le> post_object_max_file_size_limit config"
    by (auto simp: post_object_max_file_size_def split: option.splits)
  with n post_stream_Inr [OF n(2)] show ?thesis by (auto simp: within_policy_def validated_iff [OF ok])
qed

text \<open>
  C8: a posted form is stored only as its policy allows. When a form request is prepared, it is a PostObject to the bucket of
  its URL, the file comes with its exact size and is within the configured limit, and if the form carries a policy
  document then the document parses, it has not expired, every condition of it holds for the form (after the
  file name was put into the key), the file size and the bucket of the URL, and every field that is
  not exempt is named by a condition.
\<close>

theorem posted_form_within_policy:
  assumes "prepare P ccx req0 = Some (Inr (S3 op), req)" and "is_multipart_post P (inject_host_header P req0)"
  shows "\<exists>bucket form strm n. op = ''PostObject'' \<and> ex_s3_path (rq_s3ext req) = Some (Bucket bucket)
    \<and> ex_multipart (rq_s3ext req) = Some (form, None) \<and> ex_post_object_stream (rq_s3ext req) = Some strm
    \<and> post_stream_size strm = Some n \<and> n \<le> post_object_max_file_size_limit (cc_config ccx)
    \<and> (case find_field_value form ''policy'' of
         None \<Rightarrow> ex_post_policy (rq_s3ext req) = None
       | Some doc \<Rightarrow> \<exists>p. PostPolicy_from_base64 (env_policy (pe_sig P)) doc = Inr p \<and> ex_post_policy (rq_s3ext req) = Some p
           \<and> now (pe_sig P) < expiration p \<and> within_policy p form n bucket)"
proof -
  obtain fr req1 ro len dp dl creds scx len1 req2 req3 ext path where s:
    "prepare_front P ccx req0 = (Inr fr, req1)"
    "resolve_early P (cc_config ccx) req1 False = (ro, None)"
    "check (pe_sig P) (signature_context P ccx req1 dp (fr_vh_bucket fr) len dl) = Some (Inr creds, scx)"
    "harvest req1 scx creds (fr_vh_region fr) len dl = (Inr len1, req2)"
    "ex_s3_path (rq_s3ext req1) = Some path"
    "case ro of Some op' \<Rightarrow> op = op' \<and> req3 = req2 | None \<Rightarrow> resolve_late P ccx req2 path (fr_host fr) = Some (Inr op, req3)"
    "prepare_body P (cc_config ccx) op len1 (req3\<lparr>rq_extensions := ext\<rparr>) = (Inr (), req)"
    by (rule prepare_S3 [OF assms(1)])
  note front = prepare_front_Inr [OF s(1)] and harv = harvest_Inr [OF s(4)]
  have "rq_method (inject_host_header P req0) = rq_method req0" by (simp add: inject_host_header_def split: option.splits)
  with assms(2) front have mp: "is_multipart_post P req1" by (simp add: is_multipart_post_def)
  then obtain bd form0 fs where form: "form_of (pe_sig P) (signature_context P ccx req1 dp (fr_vh_bucket fr) len dl) bd = Some (Inr (form0, fs))"
    "sc_multipart scx = Some (form0, fs)"
    using checked_form [OF s(3)] by (auto simp: form_post_iff)
  have "ro = None" using resolve_early_Some [of P "cc_config ccx" req1 False] s(2) mp by (cases ro) auto
  with s(6) have late: "resolve_late P ccx req2 path (fr_host fr) = Some (Inr op, req3)" by simp
  have m: "ex_multipart (rq_s3ext req2) = Some (form0, Some fs)" "rq_method req2 = ''POST''"
    using harv form(2) mp by (simp_all add: is_multipart_post_def)
  with resolve_late_Inr [OF late] obtain bucket strm pol m1 where r: "path = Bucket bucket" "op = ''PostObject''"
    "resolve_post_object P bucket (form0, Some fs) (cc_config ccx) = Some (Inr (strm, pol), m1)"
    "req3 = req2\<lparr>rq_s3ext := (rq_s3ext req2)\<lparr>ex_multipart := Some m1, ex_post_object_stream := Some strm, ex_post_policy := pol\<rparr>\<rparr>"
    by auto
  obtain n where n: "m1 = (substitute_key_filename form0, None)" "post_stream_size strm = Some n"
    "n \<le> post_object_max_file_size_limit (cc_config ccx)"
    "parse_post_policy (env_policy (pe_sig P)) (now (pe_sig P)) (substitute_key_filename form0) = Inr pol"
    "\<forall>p. pol = Some p \<longrightarrow> within_policy p (substitute_key_filename form0) n bucket"
    using resolve_post_object_Inr [OF r(3) form_of_ok [OF form(1)]] by blast
  have "rq_s3ext req = rq_s3ext req3" using prepare_body_same [OF s(7)] by simp
  with r n harv s(5) show ?thesis
    by (intro exI [of _ bucket] exI [of _ "substitute_key_filename form0"] exI [of _ strm] exI [of _ n])
      (auto simp: parse_post_policy_def split: option.splits sum.splits if_splits)
qed

section \<open>A posted form\<close>

text \<open>Saturating additions that evaluate without unfolding the bound.\<close>

fun fits :: "nat \<Rightarrow> nat \<Rightarrow> bool" where
  "fits 0 n = (n = 0)"
| "fits (Suc k) n = fits k (n div 2)"
lemma fits_iff: "fits k n \<longleftrightarrow> n < 2 ^ k"
  by (induction k n rule: fits.induct) (auto simp: div_less_iff_less_mult)
lemma usize_saturating_add_code [code]: "usize_saturating_add a b = (if fits 64 (a + b) then a + b else 2 ^ 64 - 1)"
  by (simp add: usize_saturating_add_def fits_iff min_def)
lemma u64_saturating_add_code [code]: "u64_saturating_add a b = (if fits 64 (a + b) then a + b else 2 ^ 64 - 1)"
  by (simp add: u64_saturating_add_def fits_iff min_def)

definition form_text :: bytes where
  "form_text = ''--b'' @ CRLF @ ''Content-Disposition: form-data; name=\"key\"'' @ CRLF @ CRLF @ ''u/${filename}'' @ CRLF
     @ ''--b'' @ CRLF @ ''Content-Disposition: form-data; name=\"policy\"'' @ CRLF @ CRLF @ ''p'' @ CRLF
     @ ''--b'' @ CRLF @ ''Content-Disposition: form-data; name=\"file\"; filename=\"f\"'' @ CRLF @ CRLF @ ''data'' @ CRLF @ ''--b--'' @ CRLF"

definition form_env :: sig_env where
  "form_env = plain_env\<lparr>env_policy :=
     \<lparr>policy_api.base64_decode = Some,
      read_json = (\<lambda>_. Some (''d'', [VisitSeq [JString ''starts-with'', JString ''$key'', JString ''u/''],
        VisitSeq [JString ''content-length-range'', JNumber (Some 1), JNumber (Some 9)]])),
      parse_datetime = (\<lambda>_. Some 40000000000)\<rparr>\<rparr>"

definition form_prep :: prep_env where
  "form_prep = plain_prep\<lparr>pe_sig := form_env,
     pe_mime := (\<lambda>_. Some \<lparr>mime_type = ''multipart'', mime_subtype = ''form-data'', mime_boundary = Some ''b''\<rparr>)\<rparr>"

definition form_config :: s3_config where
  "form_config =
     \<lparr>xml_max_body_size = 100, post_object_max_file_size_limit = 100, put_object_max_size = Some 100,
      custom_route_max_body_size = Some 100, aws_chunked_stream_max_chunk_size = 100, form_max_field_size = 200,
      form_max_fields_size = 200, form_max_parts = 5, presigned_url_max_skew_time_secs = 900, expected_region = None,
      sig_v4_allowed_services = [''s3''], enable_sig_v2 = False, presigned_url_max_expires_secs = 900,
      normalize_forward_slash_path = False, normalize_content_length = True, operation_id_routing = True,
      allow_presigned_url = True, allow_post_signature = True, unsigned_amz_header_allowlist = []\<rparr>"

definition form_service :: "unit call_context" where
  "form_service = plain_service\<lparr>cc_config := form_config, cc_auth := None\<rparr>"

definition form_post :: "unit request" where
  "form_post =
     \<lparr>rq_version = HTTP_11, rq_method = ''POST'', rq_uri = \<lparr>u_authority = None, u_path = ''/b'', u_query = None\<rparr>,
      rq_headers = [(''host'', ''h''), (''content-type'', ''t'')], rq_extensions = (), rq_body = Body_once form_text,
      rq_s3ext = S3Extensions_default\<rparr>"

definition form_limits_used :: multipart_limits where
  "form_limits_used = \<lparr>max_field_size = 200, max_fields_size = 200, max_parts = 5\<rparr>"

definition form_read :: post_form where
  "form_read = \<lparr>form_fields = [(''key'', ''u/${filename}''), (''policy'', ''p'')], form_file = \<lparr>file_name = ''f'', file_content_type = None\<rparr>\<rparr>"

definition form_stored :: post_form where
  "form_stored = \<lparr>form_fields = [(''key'', ''u/f''), (''policy'', ''p'')], form_file = \<lparr>file_name = ''f'', file_content_type = None\<rparr>\<rparr>"

definition form_policy :: post_policy where
  "form_policy = \<lparr>expiration = 40000000000, conditions = [CondStartsWith ''key'' ''u/'', ContentLengthRange 1 9]\<rparr>"

lemma form_parsed:
  "case transform_multipart memchr_ref strict_httparse [EvItem (Inr form_text)] ''b'' form_limits_used None of
     Some (Inr (form, fs)) \<Rightarrow> form = form_read \<and> fs_content_len fs = None
       \<and> aggregate_file_stream_limited memchr_ref fs 9 = Some (Inr [''data''])
   | _ \<Rightarrow> False"
  by code_simp

lemma form_substituted: "substitute_key_filename form_read = form_stored"
  by code_simp

lemma form_policy_parsed: "PostPolicy_from_base64 (env_policy form_env) ''p'' = Inr form_policy"
  unfolding form_env_def by (simp, code_simp)

lemma form_policy_valid: "validate_conditions_only form_policy form_stored 4 (Some ''b'') = Inr ()"
  by code_simp


lemma form_events_once: "form_events (outcomes C (Body_once bs)) = (if bs = [] then [] else [EvItem (Inr bs)])"
  by (simp add: Body_once_def outcomes.simps Body_poll_next.simps poll_frame_def)

lemma form_checked:
  "\<exists>fs. check form_env (signature_context form_prep form_service
        (form_post\<lparr>rq_s3ext := S3Extensions_default\<lparr>ex_s3_path := Some (Bucket ''b'')\<rparr>\<rparr>) ''/b'' None None None) =
      Some (Inr None, (signature_context form_prep form_service
        (form_post\<lparr>rq_s3ext := S3Extensions_default\<lparr>ex_s3_path := Some (Bucket ''b'')\<rparr>\<rparr>) ''/b'' None None None)
          \<lparr>req_body := Body_empty, sc_multipart := Some (form_read, fs)\<rparr>)
    \<and> fs_content_len fs = None \<and> aggregate_file_stream_limited memchr_ref fs 9 = Some (Inr [''data''])"
proof -
  let ?req = "form_post\<lparr>rq_s3ext := S3Extensions_default\<lparr>ex_s3_path := Some (Bucket ''b'')\<rparr>\<rparr>"
  let ?x = "signature_context form_prep form_service ?req ''/b'' None None None"
  have "get_unique_header_str (rq_headers form_post) ''content-type'' = Some ''t''" unfolding form_post_def by (simp, code_simp)
  then have mime: "sc_mime ?x = Some \<lparr>mime_type = ''multipart'', mime_subtype = ''form-data'', mime_boundary = Some ''b''\<rparr>"
    by (simp add: extract_mime_def form_prep_def)
  have "form_text \<noteq> []" by (simp add: form_text_def)
  then have events: "form_of form_env ?x ''b'' = transform_multipart memchr_ref strict_httparse [EvItem (Inr form_text)] ''b'' form_limits_used None"
    by (simp add: form_of_def form_limits_def form_limits_used_def form_events_once form_post_def form_service_def form_config_def
        form_env_def plain_env_def)
  obtain fs where fs: "form_of form_env ?x ''b'' = Some (Inr (form_read, fs))" "fs_content_len fs = None"
    "aggregate_file_stream_limited memchr_ref fs 9 = Some (Inr [''data''])"
    using form_parsed unfolding events [symmetric] by (auto split: option.splits sum.splits)
  have "find_field_value form_read ''x-amz-signature'' = None" "find_field_value form_read ''signature'' = None" by code_simp+
  then have "check_post_signature form_env ?x = Some (Inr None, ?x\<lparr>req_body := Body_empty, sc_multipart := Some (form_read, fs)\<rparr>)"
    using check_post_cases [OF mime, of "''b''" form_env] fs(1) by simp
  moreover have "is_form_post ?x" using mime by (simp add: is_form_post_def) (simp add: signature_context_def form_post_def)
  ultimately show ?thesis using fs(2,3) by (auto simp: check_def)
qed

abbreviation form_classified :: "unit request" where
  "form_classified \<equiv> form_post\<lparr>rq_s3ext := S3Extensions_default\<lparr>ex_s3_path := Some (Bucket ''b'')\<rparr>\<rparr>"

lemma form_front:
  "prepare_front form_prep form_service form_post =
     (Inr \<lparr>fr_host = Some ''h'', fr_vh_bucket = None, fr_vh_region = None, fr_custom_route_hit = False,
           fr_content_length = None\<rparr>, form_classified)"
proof -
  have "header_get_all (rq_headers form_post) ''content-length'' = []" unfolding form_post_def by (simp, code_simp)
  moreover have "contains_key (rq_headers form_post) ''host''" by (simp add: contains_key_def form_post_def)
  moreover have "get_unique_header_str (rq_headers form_post) ''host'' = Some ''h''" unfolding form_post_def by (simp, code_simp)
  moreover have "header_get_all (rq_headers form_post) ''host'' = [''h'']" unfolding form_post_def by (simp, code_simp)
  moreover have "parse_virtual_hosted_style_with_validation_and_normalization None ''/b'' (\<lambda>_. True) False = Inr (Bucket ''b'')"
    by code_simp
  moreover have "rq_uri form_post = \<lparr>u_authority = None, u_path = ''/b'', u_query = None\<rparr>" "rq_version form_post = HTTP_11"
    "rq_s3ext form_post = S3Extensions_default"
    by (simp_all add: form_post_def)
  ultimately show ?thesis
    by (simp add: prepare_front_def inject_host_header_def extract_host_def form_prep_def plain_prep_def form_service_def
        plain_service_def parse_request_host_def classify_request_path_def extract_qs_def extract_content_length_def
        S3Extensions_default_def form_config_def)
qed

lemma form_prepared: "\<exists>req. prepare form_prep form_service form_post = Some (Inr (S3 ''PostObject''), req)"
proof -
  have mime: "get_unique_header_str (rq_headers form_post) ''content-type'' = Some ''t''" unfolding form_post_def by (simp, code_simp)
  have post: "rq_method form_post = ''POST''" "rq_uri form_post = \<lparr>u_authority = None, u_path = ''/b'', u_query = None\<rparr>"
    by (simp_all add: form_post_def)
  have mp: "is_multipart_post form_prep form_classified"
    using mime by (simp add: is_multipart_post_def extract_mime_def form_prep_def post)
  then have early: "resolve_early form_prep config form_classified False = (None, None)" for config by (simp add: resolve_early_def)
  have len: "signature_content_length form_classified None True = None" by (simp add: signature_content_length_def)
  have decoded: "extract_decoded_content_length form_prep (rq_headers form_classified) = Inr None"
  proof -
    have "get_unique_header_str (rq_headers form_post) ''x-amz-decoded-content-length'' = None" unfolding form_post_def by (simp, code_simp)
    then show ?thesis by (simp add: extract_decoded_content_length_def)
  qed
  obtain fs where fs: "check form_env (signature_context form_prep form_service form_classified ''/b'' None None None) =
      Some (Inr None, (signature_context form_prep form_service form_classified ''/b'' None None None)
          \<lparr>req_body := Body_empty, sc_multipart := Some (form_read, fs)\<rparr>)"
    "fs_content_len fs = None" "aggregate_file_stream_limited memchr_ref fs 9 = Some (Inr [''data''])"
    using form_checked by blast
  let ?x = "(signature_context form_prep form_service form_classified ''/b'' None None None)
          \<lparr>req_body := Body_empty, sc_multipart := Some (form_read, fs)\<rparr>"
  have env: "pe_url_decode form_prep = Some" "pe_sig form_prep = form_env" "u_path (rq_uri form_classified) = ''/b''"
    by (simp_all add: form_prep_def plain_prep_def post)
  have v: "verify_signature form_prep form_classified form_service None None None = Some (harvest form_classified ?x None None None None)"
    unfolding verify_signature_def env option.case decoded sum.case fs(1) prod.case ..
  obtain req1 where h: "harvest form_classified ?x None None None None = (Inr None, req1)"
    by (simp add: harvest_def Let_def apply_credentials_def region_of_def)
  note facts = harvest_Inr [OF h]
  have m: "ex_multipart (rq_s3ext req1) = Some (form_read, Some fs)" "rq_method req1 = ''POST''"
    "ex_s3_path (rq_s3ext req1) = Some (Bucket ''b'')"
    using facts by (simp_all add: post)
  have size: "post_object_max_file_size (Some form_policy) 100 = 9" by code_simp
  have parsed: "parse_post_policy (env_policy form_env) (now form_env) form_stored = Inr (Some form_policy)"
  proof -
    have "find_field_value form_stored ''policy'' = Some ''p''" by code_simp
    moreover have "now form_env < 40000000000" by (simp add: form_env_def plain_env_def)
    ultimately show ?thesis by (simp add: parse_post_policy_def form_policy_parsed) (simp add: form_policy_def)
  qed
  have mem: "env_memchr form_env = memchr_ref" by (simp add: form_env_def plain_env_def)
  have valid: "validate_conditions_only form_policy form_stored (Suc (Suc (Suc (Suc 0)))) (Some ''b'') = Inr ()"
    using form_policy_valid by (simp add: numeral_eq_Suc)
  have r: "resolve_post_object form_prep ''b'' (form_read, Some fs) form_config =
      Some (Inr (PostVec (VecByteStream_new [''data'']), Some form_policy), (form_stored, None))"
    using fs(2,3) size valid
    by (simp add: resolve_post_object_def form_substituted env parsed mem prepare_post_object_stream_def form_config_def usize_saturating_add_def)
  let ?req2 = "req1\<lparr>rq_s3ext := (rq_s3ext req1)\<lparr>ex_multipart := Some (form_stored, None),
      ex_post_object_stream := Some (PostVec (VecByteStream_new [''data''])), ex_post_policy := Some form_policy\<rparr>\<rparr>"
  have conf: "cc_config form_service = form_config" "cc_auth form_service = None" by (simp_all add: form_service_def)
  have late: "resolve_late form_prep form_service req1 (Bucket ''b'') (Some ''h'') = Some (Inr ''PostObject'', ?req2)"
    using m r by (simp add: resolve_late_def conf)
  have flags: "\<not> needs_full_body ''PostObject''" "\<not> has_streaming_body ''PostObject''" by code_simp+
  have "prepare_operation form_prep form_service ?req2 (Bucket ''b'') ''PostObject'' None = (Inr (S3 ''PostObject''), ?req2)"
    using flags by (simp add: prepare_operation_def authorize_def conf prepare_body_def)
  then show ?thesis
    unfolding prepare_def form_front using early v h len m late by (simp add: has_payload_def conf)
qed

theorem posted_form_within_policy_witness:
  "\<exists>req op bucket form strm n. prepare form_prep form_service form_post = Some (Inr (S3 op), req) \<and> op = ''PostObject''
    \<and> ex_s3_path (rq_s3ext req) = Some (Bucket bucket)
    \<and> ex_multipart (rq_s3ext req) = Some (form, None) \<and> ex_post_object_stream (rq_s3ext req) = Some strm
    \<and> post_stream_size strm = Some n \<and> n \<le> 100"
proof -
  obtain req where p: "prepare form_prep form_service form_post = Some (Inr (S3 ''PostObject''), req)" using form_prepared by blast
  have "get_unique_header_str (rq_headers form_post) ''content-type'' = Some ''t''" "contains_key (rq_headers form_post) ''host''"
    unfolding form_post_def by (simp, code_simp)+
  then have "is_multipart_post form_prep (inject_host_header form_prep form_post)"
    by (simp add: is_multipart_post_def extract_mime_def form_prep_def inject_host_header_def) (simp add: form_post_def)
  from posted_form_within_policy [OF p this] p show ?thesis
    by (auto simp: form_service_def form_config_def)
qed

end
