(* ===== verification/Error_Codes.thy ===== *)
theory Error_Codes
  imports S3_Error "HOL-Library.Multiset"
begin

text \<open>
  The error codes of the protocol (s3s/src/error/generated.rs, s3s/src/error/mod.rs): the names of all static codes, the perfect
  hash maps from names to codes, the HTTP statuses and the default messages. A unit variant of \<^verbatim>\<open>S3ErrorCode\<close> stands
  under its name, so that \<open>Static\<close> of a name that is not in the list is not a value of the enum (\<open>code_ok\<close>). The lookup of a
  \<^verbatim>\<open>phf::Map\<close> is that of its entries, which are given in the order of the source and in parts.
\<close>

datatype error_code = Static bytes | Custom bytes

section \<open>The tables\<close>

definition STATIC_CODE_LIST :: "bytes list" where
  "STATIC_CODE_LIST =
    [''AccessControlListNotSupported'', ''AccessDenied'', ''AccessPointAlreadyOwnedByYou'', ''AccountProblem'',
     ''AllAccessDisabled'', ''AmbiguousFieldName'', ''AmbiguousGrantByEmailAddress'',
     ''AuthorizationHeaderMalformed'', ''AuthorizationQueryParametersError'', ''BadDigest'',
     ''BucketAlreadyExists'', ''BucketAlreadyOwnedByYou'', ''BucketHasAccessPointsAttached'',
     ''BucketNotEmpty'', ''Busy'', ''CSVEscapingRecordDelimiter'', ''CSVParsingError'', ''CSVUnescapedQuote'',
     ''CastFailed'', ''ClientTokenConflict'', ''ColumnTooLong'', ''ConditionalRequestConflict'',
     ''ConnectionClosedByRequester'', ''CredentialsNotSupported'', ''CrossLocationLoggingProhibited'',
     ''DeviceNotActiveError'', ''EmptyRequestBody'', ''EndpointNotFound'', ''EntityTooLarge'',
     ''EntityTooSmall'', ''EvaluatorBindingDoesNotExist'', ''EvaluatorInvalidArguments'',
     ''EvaluatorInvalidTimestampFormatPattern'', ''EvaluatorInvalidTimestampFormatPatternSymbol'',
     ''EvaluatorInvalidTimestampFormatPatternSymbolForParsing'',
     ''EvaluatorInvalidTimestampFormatPatternToken'', ''EvaluatorLikePatternInvalidEscapeSequence'',
     ''EvaluatorNegativeLimit'', ''EvaluatorTimestampFormatPatternDuplicateFields'',
     ''EvaluatorTimestampFormatPatternHourClockAmPmMismatch'',
     ''EvaluatorUnterminatedTimestampFormatPatternToken'', ''ExpiredToken'', ''ExpressionTooLong'',
     ''ExternalEvalException'', ''IllegalLocationConstraintException'', ''IllegalSqlFunctionArgument'',
     ''IllegalVersioningConfigurationException'', ''IncompleteBody'', ''IncorrectEndpoint'',
     ''IncorrectNumberOfFilesInPostRequest'', ''IncorrectSqlFunctionArgumentType'', ''InlineDataTooLarge'',
     ''IntegerOverflow'', ''InternalError'', ''InvalidAccessKeyId'', ''InvalidAccessPoint'',
     ''InvalidAccessPointAliasError'', ''InvalidAddressingHeader'', ''InvalidArgument'',
     ''InvalidBucketAclWithObjectOwnership'', ''InvalidBucketName'', ''InvalidBucketOwnerAWSAccountID'',
     ''InvalidBucketState'', ''InvalidCast'', ''InvalidColumnIndex'', ''InvalidCompressionFormat'',
     ''InvalidDataSource'', ''InvalidDataType'', ''InvalidDigest'', ''InvalidEncryptionAlgorithmError'',
     ''InvalidExpressionType'', ''InvalidFileHeaderInfo'', ''InvalidHostHeader'', ''InvalidHttpMethod'',
     ''InvalidJsonType'', ''InvalidKeyPath'', ''InvalidLocationConstraint'', ''InvalidObjectState'',
     ''InvalidPart'', ''InvalidPartOrder'', ''InvalidPayer'', ''InvalidPolicyDocument'', ''InvalidQuoteFields'',
     ''InvalidRange'', ''InvalidRegion'', ''InvalidRequest'', ''InvalidRequestParameter'',
     ''InvalidSOAPRequest'', ''InvalidScanRange'', ''InvalidSecurity'', ''InvalidSessionException'',
     ''InvalidSignature'', ''InvalidStorageClass'', ''InvalidTableAlias'', ''InvalidTag'',
     ''InvalidTargetBucketForLogging'', ''InvalidTextEncoding'', ''InvalidToken'', ''InvalidURI'',
     ''JSONParsingError'', ''KeyTooLongError'', ''LexerInvalidChar'', ''LexerInvalidIONLiteral'',
     ''LexerInvalidLiteral'', ''LexerInvalidOperator'', ''LikeInvalidInputs'', ''MalformedACLError'',
     ''MalformedPOSTRequest'', ''MalformedPolicy'', ''MalformedXML'', ''MaxMessageLengthExceeded'',
     ''MaxOperatorsExceeded'', ''MaxPostPreDataLengthExceededError'', ''MetadataTooLarge'',
     ''MethodNotAllowed'', ''MissingAttachment'', ''MissingAuthenticationToken'', ''MissingContentLength'',
     ''MissingRequestBodyError'', ''MissingRequiredParameter'', ''MissingSecurityElement'',
     ''MissingSecurityHeader'', ''MultipleDataSourcesUnsupported'', ''NoLoggingStatusForKey'',
     ''NoSuchAccessPoint'', ''NoSuchAsyncRequest'', ''NoSuchBucket'', ''NoSuchBucketPolicy'',
     ''NoSuchCORSConfiguration'', ''NoSuchKey'', ''NoSuchLifecycleConfiguration'',
     ''NoSuchMultiRegionAccessPoint'', ''NoSuchObjectLockConfiguration'', ''NoSuchResource'', ''NoSuchTagSet'',
     ''NoSuchUpload'', ''NoSuchVersion'', ''NoSuchWebsiteConfiguration'', ''NoTransformationDefined'',
     ''NotDeviceOwnerError'', ''NotImplemented'', ''NotModified'', ''NotSignedUp'', ''NumberFormatError'',
     ''ObjectLockConfigurationNotFoundError'', ''ObjectSerializationConflict'', ''OperationAborted'',
     ''OverMaxColumn'', ''OverMaxParquetBlockSize'', ''OverMaxRecordSize'', ''OwnershipControlsNotFoundError'',
     ''ParquetParsingError'', ''ParquetUnsupportedCompressionCodec'', ''ParseAsteriskIsNotAloneInSelectList'',
     ''ParseCannotMixSqbAndWildcardInSelectList'', ''ParseCastArity'', ''ParseEmptySelect'',
     ''ParseExpected2TokenTypes'', ''ParseExpectedArgumentDelimiter'', ''ParseExpectedDatePart'',
     ''ParseExpectedExpression'', ''ParseExpectedIdentForAlias'', ''ParseExpectedIdentForAt'',
     ''ParseExpectedIdentForGroupName'', ''ParseExpectedKeyword'', ''ParseExpectedLeftParenAfterCast'',
     ''ParseExpectedLeftParenBuiltinFunctionCall'', ''ParseExpectedLeftParenValueConstructor'',
     ''ParseExpectedMember'', ''ParseExpectedNumber'', ''ParseExpectedRightParenBuiltinFunctionCall'',
     ''ParseExpectedTokenType'', ''ParseExpectedTypeName'', ''ParseExpectedWhenClause'',
     ''ParseInvalidContextForWildcardInSelectList'', ''ParseInvalidPathComponent'', ''ParseInvalidTypeParam'',
     ''ParseMalformedJoin'', ''ParseMissingIdentAfterAt'', ''ParseNonUnaryAgregateFunctionCall'',
     ''ParseSelectMissingFrom'', ''ParseUnExpectedKeyword'', ''ParseUnexpectedOperator'',
     ''ParseUnexpectedTerm'', ''ParseUnexpectedToken'', ''ParseUnknownOperator'', ''ParseUnsupportedAlias'',
     ''ParseUnsupportedCallWithStar'', ''ParseUnsupportedCase'', ''ParseUnsupportedCaseClause'',
     ''ParseUnsupportedLiteralsGroupBy'', ''ParseUnsupportedSelect'', ''ParseUnsupportedSyntax'',
     ''ParseUnsupportedToken'', ''PermanentRedirect'', ''PermanentRedirectControlError'',
     ''PreconditionFailed'', ''Redirect'', ''ReplicationConfigurationNotFoundError'',
     ''RequestHeaderSectionTooLarge'', ''RequestIsNotMultiPartContent'', ''RequestTimeTooSkewed'',
     ''RequestTimeout'', ''RequestTorrentOfBucketError'', ''ResponseInterrupted'', ''RestoreAlreadyInProgress'',
     ''ServerSideEncryptionConfigurationNotFoundError'', ''ServiceUnavailable'', ''SignatureDoesNotMatch'',
     ''SlowDown'', ''TagPolicyException'', ''TemporaryRedirect'', ''TokenCodeInvalidError'',
     ''TokenRefreshRequired'', ''TooManyAccessPoints'', ''TooManyBuckets'',
     ''TooManyMultiRegionAccessPointregionsError'', ''TooManyMultiRegionAccessPoints'', ''TooManyTags'',
     ''TruncatedInput'', ''UnauthorizedAccess'', ''UnauthorizedAccessError'', ''UnexpectedContent'',
     ''UnexpectedIPError'', ''UnrecognizedFormatException'', ''UnresolvableGrantByEmailAddress'',
     ''UnsupportedArgument'', ''UnsupportedFunction'', ''UnsupportedParquetType'', ''UnsupportedRangeHeader'',
     ''UnsupportedScanRangeInput'', ''UnsupportedSignature'', ''UnsupportedSqlOperation'',
     ''UnsupportedSqlStructure'', ''UnsupportedStorageClass'', ''UnsupportedSyntax'',
     ''UnsupportedTypeForQuerying'', ''UserKeyMustBeSpecified'', ''ValueParseFailure'']"

text \<open>The variants in the order of their tags.\<close>

definition ENUM_TAGS :: "bytes list" where
  "ENUM_TAGS =
    [''AccessControlListNotSupported'', ''AccessDenied'', ''AccessPointAlreadyOwnedByYou'', ''AccountProblem'',
     ''AllAccessDisabled'', ''AmbiguousFieldName'', ''AmbiguousGrantByEmailAddress'',
     ''AuthorizationHeaderMalformed'', ''AuthorizationQueryParametersError'', ''BadDigest'',
     ''BucketAlreadyExists'', ''BucketAlreadyOwnedByYou'', ''BucketHasAccessPointsAttached'',
     ''BucketNotEmpty'', ''Busy'', ''CSVEscapingRecordDelimiter'', ''CSVParsingError'', ''CSVUnescapedQuote'',
     ''CastFailed'', ''ClientTokenConflict'', ''ColumnTooLong'', ''ConditionalRequestConflict'',
     ''ConnectionClosedByRequester'', ''CredentialsNotSupported'', ''CrossLocationLoggingProhibited'',
     ''DeviceNotActiveError'', ''EmptyRequestBody'', ''EndpointNotFound'', ''EntityTooLarge'',
     ''EntityTooSmall'', ''EvaluatorBindingDoesNotExist'', ''EvaluatorInvalidArguments'',
     ''EvaluatorInvalidTimestampFormatPattern'', ''EvaluatorInvalidTimestampFormatPatternSymbol'',
     ''EvaluatorInvalidTimestampFormatPatternSymbolForParsing'',
     ''EvaluatorInvalidTimestampFormatPatternToken'', ''EvaluatorLikePatternInvalidEscapeSequence'',
     ''EvaluatorNegativeLimit'', ''EvaluatorTimestampFormatPatternDuplicateFields'',
     ''EvaluatorTimestampFormatPatternHourClockAmPmMismatch'',
     ''EvaluatorUnterminatedTimestampFormatPatternToken'', ''ExpiredToken'', ''ExpressionTooLong'',
     ''ExternalEvalException'', ''IllegalLocationConstraintException'', ''IllegalSqlFunctionArgument'',
     ''IllegalVersioningConfigurationException'', ''IncompleteBody'', ''IncorrectEndpoint'',
     ''IncorrectNumberOfFilesInPostRequest'', ''IncorrectSqlFunctionArgumentType'', ''InlineDataTooLarge'',
     ''IntegerOverflow'', ''InternalError'', ''InvalidAccessKeyId'', ''InvalidAccessPoint'',
     ''InvalidAccessPointAliasError'', ''InvalidAddressingHeader'', ''InvalidArgument'',
     ''InvalidBucketAclWithObjectOwnership'', ''InvalidBucketName'', ''InvalidBucketOwnerAWSAccountID'',
     ''InvalidBucketState'', ''InvalidCast'', ''InvalidColumnIndex'', ''InvalidCompressionFormat'',
     ''InvalidDataSource'', ''InvalidDataType'', ''InvalidDigest'', ''InvalidEncryptionAlgorithmError'',
     ''InvalidExpressionType'', ''InvalidFileHeaderInfo'', ''InvalidHostHeader'', ''InvalidHttpMethod'',
     ''InvalidJsonType'', ''InvalidKeyPath'', ''InvalidLocationConstraint'', ''InvalidObjectState'',
     ''InvalidPart'', ''InvalidPartOrder'', ''InvalidPayer'', ''InvalidPolicyDocument'', ''InvalidQuoteFields'',
     ''InvalidRange'', ''InvalidRegion'', ''InvalidRequest'', ''InvalidRequestParameter'',
     ''InvalidSOAPRequest'', ''InvalidScanRange'', ''InvalidSecurity'', ''InvalidSessionException'',
     ''InvalidSignature'', ''InvalidStorageClass'', ''InvalidTableAlias'', ''InvalidTag'',
     ''InvalidTargetBucketForLogging'', ''InvalidTextEncoding'', ''InvalidToken'', ''InvalidURI'',
     ''JSONParsingError'', ''KeyTooLongError'', ''LexerInvalidChar'', ''LexerInvalidIONLiteral'',
     ''LexerInvalidLiteral'', ''LexerInvalidOperator'', ''LikeInvalidInputs'', ''MalformedACLError'',
     ''MalformedPOSTRequest'', ''MalformedPolicy'', ''MalformedXML'', ''MaxMessageLengthExceeded'',
     ''MaxOperatorsExceeded'', ''MaxPostPreDataLengthExceededError'', ''MetadataTooLarge'',
     ''MethodNotAllowed'', ''MissingAttachment'', ''MissingAuthenticationToken'', ''MissingContentLength'',
     ''MissingRequestBodyError'', ''MissingRequiredParameter'', ''MissingSecurityElement'',
     ''MissingSecurityHeader'', ''MultipleDataSourcesUnsupported'', ''NoLoggingStatusForKey'',
     ''NoSuchAccessPoint'', ''NoSuchAsyncRequest'', ''NoSuchBucket'', ''NoSuchBucketPolicy'',
     ''NoSuchCORSConfiguration'', ''NoSuchKey'', ''NoSuchLifecycleConfiguration'',
     ''NoSuchMultiRegionAccessPoint'', ''NoSuchObjectLockConfiguration'', ''NoSuchResource'', ''NoSuchTagSet'',
     ''NoSuchUpload'', ''NoSuchVersion'', ''NoSuchWebsiteConfiguration'', ''NoTransformationDefined'',
     ''NotDeviceOwnerError'', ''NotImplemented'', ''NotModified'', ''NotSignedUp'', ''NumberFormatError'',
     ''ObjectLockConfigurationNotFoundError'', ''ObjectSerializationConflict'', ''OperationAborted'',
     ''OverMaxColumn'', ''OverMaxParquetBlockSize'', ''OverMaxRecordSize'', ''OwnershipControlsNotFoundError'',
     ''ParquetParsingError'', ''ParquetUnsupportedCompressionCodec'', ''ParseAsteriskIsNotAloneInSelectList'',
     ''ParseCannotMixSqbAndWildcardInSelectList'', ''ParseCastArity'', ''ParseEmptySelect'',
     ''ParseExpected2TokenTypes'', ''ParseExpectedArgumentDelimiter'', ''ParseExpectedDatePart'',
     ''ParseExpectedExpression'', ''ParseExpectedIdentForAlias'', ''ParseExpectedIdentForAt'',
     ''ParseExpectedIdentForGroupName'', ''ParseExpectedKeyword'', ''ParseExpectedLeftParenAfterCast'',
     ''ParseExpectedLeftParenBuiltinFunctionCall'', ''ParseExpectedLeftParenValueConstructor'',
     ''ParseExpectedMember'', ''ParseExpectedNumber'', ''ParseExpectedRightParenBuiltinFunctionCall'',
     ''ParseExpectedTokenType'', ''ParseExpectedTypeName'', ''ParseExpectedWhenClause'',
     ''ParseInvalidContextForWildcardInSelectList'', ''ParseInvalidPathComponent'', ''ParseInvalidTypeParam'',
     ''ParseMalformedJoin'', ''ParseMissingIdentAfterAt'', ''ParseNonUnaryAgregateFunctionCall'',
     ''ParseSelectMissingFrom'', ''ParseUnExpectedKeyword'', ''ParseUnexpectedOperator'',
     ''ParseUnexpectedTerm'', ''ParseUnexpectedToken'', ''ParseUnknownOperator'', ''ParseUnsupportedAlias'',
     ''ParseUnsupportedCallWithStar'', ''ParseUnsupportedCase'', ''ParseUnsupportedCaseClause'',
     ''ParseUnsupportedLiteralsGroupBy'', ''ParseUnsupportedSelect'', ''ParseUnsupportedSyntax'',
     ''ParseUnsupportedToken'', ''PermanentRedirect'', ''PermanentRedirectControlError'',
     ''PreconditionFailed'', ''Redirect'', ''ReplicationConfigurationNotFoundError'',
     ''RequestHeaderSectionTooLarge'', ''RequestIsNotMultiPartContent'', ''RequestTimeTooSkewed'',
     ''RequestTimeout'', ''RequestTorrentOfBucketError'', ''ResponseInterrupted'', ''RestoreAlreadyInProgress'',
     ''ServerSideEncryptionConfigurationNotFoundError'', ''ServiceUnavailable'', ''SignatureDoesNotMatch'',
     ''SlowDown'', ''TagPolicyException'', ''TemporaryRedirect'', ''TokenCodeInvalidError'',
     ''TokenRefreshRequired'', ''TooManyAccessPoints'', ''TooManyBuckets'',
     ''TooManyMultiRegionAccessPointregionsError'', ''TooManyMultiRegionAccessPoints'', ''TooManyTags'',
     ''TruncatedInput'', ''UnauthorizedAccess'', ''UnauthorizedAccessError'', ''UnexpectedContent'',
     ''UnexpectedIPError'', ''UnrecognizedFormatException'', ''UnresolvableGrantByEmailAddress'',
     ''UnsupportedArgument'', ''UnsupportedFunction'', ''UnsupportedParquetType'', ''UnsupportedRangeHeader'',
     ''UnsupportedScanRangeInput'', ''UnsupportedSignature'', ''UnsupportedSqlOperation'',
     ''UnsupportedSqlStructure'', ''UnsupportedStorageClass'', ''UnsupportedSyntax'',
     ''UnsupportedTypeForQuerying'', ''UserKeyMustBeSpecified'', ''ValueParseFailure'']"

definition S3_ERROR_CODE_MAP_1 :: "(bytes \<times> bytes) list" where
  "S3_ERROR_CODE_MAP_1 =
    [(''ParseUnExpectedKeyword'', ''ParseUnExpectedKeyword''),
     (''MaxMessageLengthExceeded'', ''MaxMessageLengthExceeded''), (''CSVParsingError'', ''CSVParsingError''),
     (''EmptyRequestBody'', ''EmptyRequestBody''),
     (''AccessControlListNotSupported'', ''AccessControlListNotSupported''),
     (''MalformedPolicy'', ''MalformedPolicy''),
     (''ParseAsteriskIsNotAloneInSelectList'', ''ParseAsteriskIsNotAloneInSelectList''),
     (''InvalidAddressingHeader'', ''InvalidAddressingHeader''),
     (''RequestHeaderSectionTooLarge'', ''RequestHeaderSectionTooLarge''),
     (''MalformedPOSTRequest'', ''MalformedPOSTRequest''), (''OperationAborted'', ''OperationAborted''),
     (''AuthorizationHeaderMalformed'', ''AuthorizationHeaderMalformed''),
     (''InvalidEncryptionAlgorithmError'', ''InvalidEncryptionAlgorithmError''),
     (''IllegalLocationConstraintException'', ''IllegalLocationConstraintException''),
     (''InvalidStorageClass'', ''InvalidStorageClass''), (''InvalidObjectState'', ''InvalidObjectState''),
     (''UnsupportedFunction'', ''UnsupportedFunction''),
     (''UnsupportedRangeHeader'', ''UnsupportedRangeHeader''),
     (''ParseExpectedTypeName'', ''ParseExpectedTypeName''),
     (''PermanentRedirectControlError'', ''PermanentRedirectControlError''),
     (''CSVEscapingRecordDelimiter'', ''CSVEscapingRecordDelimiter''),
     (''AmbiguousFieldName'', ''AmbiguousFieldName''), (''InvalidBucketName'', ''InvalidBucketName''),
     (''EvaluatorInvalidTimestampFormatPattern'', ''EvaluatorInvalidTimestampFormatPattern''),
     (''EntityTooSmall'', ''EntityTooSmall''), (''InvalidURI'', ''InvalidURI''),
     (''MissingSecurityHeader'', ''MissingSecurityHeader''), (''InvalidTableAlias'', ''InvalidTableAlias''),
     (''UnsupportedScanRangeInput'', ''UnsupportedScanRangeInput''),
     (''PermanentRedirect'', ''PermanentRedirect''), (''AllAccessDisabled'', ''AllAccessDisabled''),
     (''UnsupportedSqlOperation'', ''UnsupportedSqlOperation''), (''NotImplemented'', ''NotImplemented''),
     (''InvalidPayer'', ''InvalidPayer''), (''InvalidDataType'', ''InvalidDataType''),
     (''InvalidPolicyDocument'', ''InvalidPolicyDocument''), (''IncorrectEndpoint'', ''IncorrectEndpoint''),
     (''ParseExpectedArgumentDelimiter'', ''ParseExpectedArgumentDelimiter''),
     (''LexerInvalidChar'', ''LexerInvalidChar''),
     (''EvaluatorInvalidTimestampFormatPatternSymbolForParsing'', ''EvaluatorInvalidTimestampFormatPatternSymbolForParsing''),
     (''ConnectionClosedByRequester'', ''ConnectionClosedByRequester''),
     (''InvalidDataSource'', ''InvalidDataSource''),
     (''EvaluatorInvalidTimestampFormatPatternSymbol'', ''EvaluatorInvalidTimestampFormatPatternSymbol''),
     (''InvalidJsonType'', ''InvalidJsonType''),
     (''NoSuchLifecycleConfiguration'', ''NoSuchLifecycleConfiguration''),
     (''IncompleteBody'', ''IncompleteBody''), (''ParseUnexpectedToken'', ''ParseUnexpectedToken''),
     (''UnsupportedTypeForQuerying'', ''UnsupportedTypeForQuerying''),
     (''InvalidQuoteFields'', ''InvalidQuoteFields''), (''UserKeyMustBeSpecified'', ''UserKeyMustBeSpecified''),
     (''ClientTokenConflict'', ''ClientTokenConflict''), (''EndpointNotFound'', ''EndpointNotFound''),
     (''OwnershipControlsNotFoundError'', ''OwnershipControlsNotFoundError''),
     (''ExpiredToken'', ''ExpiredToken''), (''ParseUnsupportedSyntax'', ''ParseUnsupportedSyntax''),
     (''InvalidArgument'', ''InvalidArgument''), (''MaxOperatorsExceeded'', ''MaxOperatorsExceeded''),
     (''CastFailed'', ''CastFailed''), (''ExternalEvalException'', ''ExternalEvalException''),
     (''NoSuchBucketPolicy'', ''NoSuchBucketPolicy''), (''InvalidHostHeader'', ''InvalidHostHeader''),
     (''LexerInvalidLiteral'', ''LexerInvalidLiteral''), (''InvalidSignature'', ''InvalidSignature''),
     (''ParseUnsupportedSelect'', ''ParseUnsupportedSelect''),
     (''ParseExpectedDatePart'', ''ParseExpectedDatePart''), (''InvalidBucketState'', ''InvalidBucketState''),
     (''TruncatedInput'', ''TruncatedInput''), (''MissingContentLength'', ''MissingContentLength''),
     (''ParseInvalidPathComponent'', ''ParseInvalidPathComponent''),
     (''ParseExpectedIdentForGroupName'', ''ParseExpectedIdentForGroupName''),
     (''DeviceNotActiveError'', ''DeviceNotActiveError''), (''Redirect'', ''Redirect''),
     (''LexerInvalidOperator'', ''LexerInvalidOperator''),
     (''InvalidTargetBucketForLogging'', ''InvalidTargetBucketForLogging''),
     (''MethodNotAllowed'', ''MethodNotAllowed''), (''MissingAttachment'', ''MissingAttachment''),
     (''InvalidRequest'', ''InvalidRequest''), (''InvalidSecurity'', ''InvalidSecurity''),
     (''ExpressionTooLong'', ''ExpressionTooLong''),
     (''ParseNonUnaryAgregateFunctionCall'', ''ParseNonUnaryAgregateFunctionCall''),
     (''ParseInvalidTypeParam'', ''ParseInvalidTypeParam''), (''MalformedXML'', ''MalformedXML''),
     (''ParseExpectedKeyword'', ''ParseExpectedKeyword''),
     (''RequestTorrentOfBucketError'', ''RequestTorrentOfBucketError''),
     (''UnexpectedIPError'', ''UnexpectedIPError''), (''InvalidCast'', ''InvalidCast''),
     (''ParseExpectedRightParenBuiltinFunctionCall'', ''ParseExpectedRightParenBuiltinFunctionCall''),
     (''ParseExpectedTokenType'', ''ParseExpectedTokenType''), (''AccountProblem'', ''AccountProblem''),
     (''AccessDenied'', ''AccessDenied''), (''InvalidAccessPointAliasError'', ''InvalidAccessPointAliasError''),
     (''InvalidColumnIndex'', ''InvalidColumnIndex''), (''InvalidDigest'', ''InvalidDigest''),
     (''NotSignedUp'', ''NotSignedUp''), (''ParseExpectedIdentForAlias'', ''ParseExpectedIdentForAlias''),
     (''ObjectSerializationConflict'', ''ObjectSerializationConflict''),
     (''ParseUnexpectedOperator'', ''ParseUnexpectedOperator''),
     (''TokenCodeInvalidError'', ''TokenCodeInvalidError''),
     (''ParseExpectedExpression'', ''ParseExpectedExpression''),
     (''ParseExpectedMember'', ''ParseExpectedMember''), (''PreconditionFailed'', ''PreconditionFailed''),
     (''BadDigest'', ''BadDigest''), (''InvalidPart'', ''InvalidPart''),
     (''InvalidLocationConstraint'', ''InvalidLocationConstraint''),
     (''ParquetUnsupportedCompressionCodec'', ''ParquetUnsupportedCompressionCodec''),
     (''ParseCastArity'', ''ParseCastArity''), (''NoTransformationDefined'', ''NoTransformationDefined''),
     (''InvalidCompressionFormat'', ''InvalidCompressionFormat''),
     (''NoSuchAccessPoint'', ''NoSuchAccessPoint''), (''InlineDataTooLarge'', ''InlineDataTooLarge''),
     (''TooManyMultiRegionAccessPoints'', ''TooManyMultiRegionAccessPoints''),
     (''ParseUnsupportedCallWithStar'', ''ParseUnsupportedCallWithStar''),
     (''ParseUnexpectedTerm'', ''ParseUnexpectedTerm''), (''Busy'', ''Busy''),
     (''InvalidTextEncoding'', ''InvalidTextEncoding''),
     (''IncorrectSqlFunctionArgumentType'', ''IncorrectSqlFunctionArgumentType''),
     (''UnresolvableGrantByEmailAddress'', ''UnresolvableGrantByEmailAddress''),
     (''NoSuchVersion'', ''NoSuchVersion''), (''InvalidRange'', ''InvalidRange''),
     (''InvalidPartOrder'', ''InvalidPartOrder''), (''BucketNotEmpty'', ''BucketNotEmpty''),
     (''TemporaryRedirect'', ''TemporaryRedirect''), (''MissingSecurityElement'', ''MissingSecurityElement''),
     (''TooManyAccessPoints'', ''TooManyAccessPoints''),
     (''UnauthorizedAccessError'', ''UnauthorizedAccessError''),
     (''NoSuchWebsiteConfiguration'', ''NoSuchWebsiteConfiguration''),
     (''ParseExpectedWhenClause'', ''ParseExpectedWhenClause''),
     (''RestoreAlreadyInProgress'', ''RestoreAlreadyInProgress''),
     (''MissingAuthenticationToken'', ''MissingAuthenticationToken''),
     (''ParseExpected2TokenTypes'', ''ParseExpected2TokenTypes''),
     (''AccessPointAlreadyOwnedByYou'', ''AccessPointAlreadyOwnedByYou''),
     (''UnsupportedSignature'', ''UnsupportedSignature''),
     (''ParseUnsupportedCaseClause'', ''ParseUnsupportedCaseClause''),
     (''TooManyMultiRegionAccessPointregionsError'', ''TooManyMultiRegionAccessPointregionsError''),
     (''NumberFormatError'', ''NumberFormatError'')]"

definition S3_ERROR_CODE_MAP_2 :: "(bytes \<times> bytes) list" where
  "S3_ERROR_CODE_MAP_2 =
    [(''ParseExpectedLeftParenValueConstructor'', ''ParseExpectedLeftParenValueConstructor''),
     (''MissingRequiredParameter'', ''MissingRequiredParameter''),
     (''NoSuchObjectLockConfiguration'', ''NoSuchObjectLockConfiguration''),
     (''NoSuchCORSConfiguration'', ''NoSuchCORSConfiguration''),
     (''ReplicationConfigurationNotFoundError'', ''ReplicationConfigurationNotFoundError''),
     (''ParseEmptySelect'', ''ParseEmptySelect''),
     (''AuthorizationQueryParametersError'', ''AuthorizationQueryParametersError''),
     (''SignatureDoesNotMatch'', ''SignatureDoesNotMatch''), (''TooManyTags'', ''TooManyTags''),
     (''ColumnTooLong'', ''ColumnTooLong''), (''JSONParsingError'', ''JSONParsingError''),
     (''BucketAlreadyOwnedByYou'', ''BucketAlreadyOwnedByYou''),
     (''BucketAlreadyExists'', ''BucketAlreadyExists''),
     (''AmbiguousGrantByEmailAddress'', ''AmbiguousGrantByEmailAddress''),
     (''ServerSideEncryptionConfigurationNotFoundError'', ''ServerSideEncryptionConfigurationNotFoundError''),
     (''InvalidFileHeaderInfo'', ''InvalidFileHeaderInfo''), (''TooManyBuckets'', ''TooManyBuckets''),
     (''ObjectLockConfigurationNotFoundError'', ''ObjectLockConfigurationNotFoundError''),
     (''ResponseInterrupted'', ''ResponseInterrupted''),
     (''NoSuchMultiRegionAccessPoint'', ''NoSuchMultiRegionAccessPoint''),
     (''BucketHasAccessPointsAttached'', ''BucketHasAccessPointsAttached''),
     (''EvaluatorTimestampFormatPatternDuplicateFields'', ''EvaluatorTimestampFormatPatternDuplicateFields''),
     (''InvalidBucketOwnerAWSAccountID'', ''InvalidBucketOwnerAWSAccountID''),
     (''IllegalVersioningConfigurationException'', ''IllegalVersioningConfigurationException''),
     (''EvaluatorBindingDoesNotExist'', ''EvaluatorBindingDoesNotExist''),
     (''MalformedACLError'', ''MalformedACLError''),
     (''ParseCannotMixSqbAndWildcardInSelectList'', ''ParseCannotMixSqbAndWildcardInSelectList''),
     (''UnsupportedParquetType'', ''UnsupportedParquetType''),
     (''ParseUnsupportedToken'', ''ParseUnsupportedToken''), (''InvalidTag'', ''InvalidTag''),
     (''UnsupportedSqlStructure'', ''UnsupportedSqlStructure''),
     (''NotDeviceOwnerError'', ''NotDeviceOwnerError''),
     (''CredentialsNotSupported'', ''CredentialsNotSupported''),
     (''EvaluatorInvalidArguments'', ''EvaluatorInvalidArguments''), (''NoSuchBucket'', ''NoSuchBucket''),
     (''TagPolicyException'', ''TagPolicyException''),
     (''EvaluatorTimestampFormatPatternHourClockAmPmMismatch'', ''EvaluatorTimestampFormatPatternHourClockAmPmMismatch''),
     (''InvalidScanRange'', ''InvalidScanRange''), (''ParseMissingIdentAfterAt'', ''ParseMissingIdentAfterAt''),
     (''MetadataTooLarge'', ''MetadataTooLarge''),
     (''EvaluatorInvalidTimestampFormatPatternToken'', ''EvaluatorInvalidTimestampFormatPatternToken''),
     (''ParseMalformedJoin'', ''ParseMalformedJoin''), (''ParseExpectedNumber'', ''ParseExpectedNumber''),
     (''SlowDown'', ''SlowDown''), (''InvalidExpressionType'', ''InvalidExpressionType''),
     (''ParseExpectedLeftParenBuiltinFunctionCall'', ''ParseExpectedLeftParenBuiltinFunctionCall''),
     (''ValueParseFailure'', ''ValueParseFailure''), (''ParseUnsupportedCase'', ''ParseUnsupportedCase''),
     (''ParseExpectedIdentForAt'', ''ParseExpectedIdentForAt''),
     (''InvalidAccessKeyId'', ''InvalidAccessKeyId''),
     (''EvaluatorUnterminatedTimestampFormatPatternToken'', ''EvaluatorUnterminatedTimestampFormatPatternToken''),
     (''NoSuchAsyncRequest'', ''NoSuchAsyncRequest''), (''NotModified'', ''NotModified''),
     (''ServiceUnavailable'', ''ServiceUnavailable''),
     (''IllegalSqlFunctionArgument'', ''IllegalSqlFunctionArgument''),
     (''UnsupportedArgument'', ''UnsupportedArgument''), (''UnauthorizedAccess'', ''UnauthorizedAccess''),
     (''CSVUnescapedQuote'', ''CSVUnescapedQuote''), (''TokenRefreshRequired'', ''TokenRefreshRequired''),
     (''CrossLocationLoggingProhibited'', ''CrossLocationLoggingProhibited''),
     (''ParseInvalidContextForWildcardInSelectList'', ''ParseInvalidContextForWildcardInSelectList''),
     (''InvalidAccessPoint'', ''InvalidAccessPoint''),
     (''UnsupportedStorageClass'', ''UnsupportedStorageClass''), (''NoSuchUpload'', ''NoSuchUpload''),
     (''RequestIsNotMultiPartContent'', ''RequestIsNotMultiPartContent''),
     (''InvalidSessionException'', ''InvalidSessionException''),
     (''EvaluatorLikePatternInvalidEscapeSequence'', ''EvaluatorLikePatternInvalidEscapeSequence''),
     (''UnexpectedContent'', ''UnexpectedContent''), (''NoLoggingStatusForKey'', ''NoLoggingStatusForKey''),
     (''ParseUnknownOperator'', ''ParseUnknownOperator''),
     (''EvaluatorNegativeLimit'', ''EvaluatorNegativeLimit''), (''OverMaxColumn'', ''OverMaxColumn''),
     (''ConditionalRequestConflict'', ''ConditionalRequestConflict''),
     (''InvalidBucketAclWithObjectOwnership'', ''InvalidBucketAclWithObjectOwnership''),
     (''InvalidRegion'', ''InvalidRegion''), (''InvalidSOAPRequest'', ''InvalidSOAPRequest''),
     (''InvalidKeyPath'', ''InvalidKeyPath''), (''InternalError'', ''InternalError''),
     (''OverMaxParquetBlockSize'', ''OverMaxParquetBlockSize''),
     (''UnrecognizedFormatException'', ''UnrecognizedFormatException''),
     (''LexerInvalidIONLiteral'', ''LexerInvalidIONLiteral''), (''InvalidHttpMethod'', ''InvalidHttpMethod''),
     (''ParquetParsingError'', ''ParquetParsingError''),
     (''IncorrectNumberOfFilesInPostRequest'', ''IncorrectNumberOfFilesInPostRequest''),
     (''ParseExpectedLeftParenAfterCast'', ''ParseExpectedLeftParenAfterCast''),
     (''KeyTooLongError'', ''KeyTooLongError''), (''OverMaxRecordSize'', ''OverMaxRecordSize''),
     (''RequestTimeout'', ''RequestTimeout''), (''LikeInvalidInputs'', ''LikeInvalidInputs''),
     (''InvalidToken'', ''InvalidToken''),
     (''ParseUnsupportedLiteralsGroupBy'', ''ParseUnsupportedLiteralsGroupBy''),
     (''IntegerOverflow'', ''IntegerOverflow''), (''UnsupportedSyntax'', ''UnsupportedSyntax''),
     (''MaxPostPreDataLengthExceededError'', ''MaxPostPreDataLengthExceededError''),
     (''RequestTimeTooSkewed'', ''RequestTimeTooSkewed''),
     (''InvalidRequestParameter'', ''InvalidRequestParameter''), (''NoSuchTagSet'', ''NoSuchTagSet''),
     (''MissingRequestBodyError'', ''MissingRequestBodyError''), (''EntityTooLarge'', ''EntityTooLarge''),
     (''MultipleDataSourcesUnsupported'', ''MultipleDataSourcesUnsupported''),
     (''NoSuchResource'', ''NoSuchResource''), (''NoSuchKey'', ''NoSuchKey''),
     (''ParseUnsupportedAlias'', ''ParseUnsupportedAlias''),
     (''ParseSelectMissingFrom'', ''ParseSelectMissingFrom'')]"

definition S3_ERROR_CODE_MAP :: "(bytes \<times> bytes) list" where
  "S3_ERROR_CODE_MAP = S3_ERROR_CODE_MAP_1 @ S3_ERROR_CODE_MAP_2"

definition S3_ERROR_CODE_LOWERCASE_MAP_1 :: "(bytes \<times> bytes) list" where
  "S3_ERROR_CODE_LOWERCASE_MAP_1 =
    [(''bucketalreadyownedbyyou'', ''BucketAlreadyOwnedByYou''),
     (''signaturedoesnotmatch'', ''SignatureDoesNotMatch''), (''parseunexpectedterm'', ''ParseUnexpectedTerm''),
     (''conditionalrequestconflict'', ''ConditionalRequestConflict''),
     (''evaluatornegativelimit'', ''EvaluatorNegativeLimit''),
     (''parsecannotmixsqbandwildcardinselectlist'', ''ParseCannotMixSqbAndWildcardInSelectList''),
     (''invalidtargetbucketforlogging'', ''InvalidTargetBucketForLogging''),
     (''nosuchtagset'', ''NoSuchTagSet''), (''userkeymustbespecified'', ''UserKeyMustBeSpecified''),
     (''accesscontrollistnotsupported'', ''AccessControlListNotSupported''),
     (''lexerinvalidionliteral'', ''LexerInvalidIONLiteral''), (''missingattachment'', ''MissingAttachment''),
     (''incorrectsqlfunctionargumenttype'', ''IncorrectSqlFunctionArgumentType''),
     (''multipledatasourcesunsupported'', ''MultipleDataSourcesUnsupported''),
     (''restorealreadyinprogress'', ''RestoreAlreadyInProgress''), (''invalidscanrange'', ''InvalidScanRange''),
     (''invaliddatatype'', ''InvalidDataType''), (''expiredtoken'', ''ExpiredToken''),
     (''parseunsupportedalias'', ''ParseUnsupportedAlias''),
     (''parseunexpectedkeyword'', ''ParseUnExpectedKeyword''),
     (''permanentredirectcontrolerror'', ''PermanentRedirectControlError''),
     (''ownershipcontrolsnotfounderror'', ''OwnershipControlsNotFoundError''),
     (''nosuchresource'', ''NoSuchResource''), (''internalerror'', ''InternalError''),
     (''parquetunsupportedcompressioncodec'', ''ParquetUnsupportedCompressionCodec''),
     (''valueparsefailure'', ''ValueParseFailure''),
     (''nosuchwebsiteconfiguration'', ''NoSuchWebsiteConfiguration''),
     (''invalidhttpmethod'', ''InvalidHttpMethod''), (''unsupportedargument'', ''UnsupportedArgument''),
     (''parsecastarity'', ''ParseCastArity''), (''castfailed'', ''CastFailed''),
     (''toomanybuckets'', ''TooManyBuckets''), (''invaliduri'', ''InvalidURI''),
     (''parseexpectedtypename'', ''ParseExpectedTypeName''), (''overmaxcolumn'', ''OverMaxColumn''),
     (''lexerinvalidchar'', ''LexerInvalidChar''), (''parseunsupportedsyntax'', ''ParseUnsupportedSyntax''),
     (''invalidpart'', ''InvalidPart''), (''invalidaddressingheader'', ''InvalidAddressingHeader''),
     (''unresolvablegrantbyemailaddress'', ''UnresolvableGrantByEmailAddress''),
     (''parseunsupportedcallwithstar'', ''ParseUnsupportedCallWithStar''),
     (''incorrectendpoint'', ''IncorrectEndpoint''), (''invalidsessionexception'', ''InvalidSessionException''),
     (''nosuchobjectlockconfiguration'', ''NoSuchObjectLockConfiguration''),
     (''columntoolong'', ''ColumnTooLong''),
     (''buckethasaccesspointsattached'', ''BucketHasAccessPointsAttached''),
     (''unexpectedcontent'', ''UnexpectedContent''), (''invalidtag'', ''InvalidTag''),
     (''numberformaterror'', ''NumberFormatError''), (''parseexpectedmember'', ''ParseExpectedMember''),
     (''parseunsupportedliteralsgroupby'', ''ParseUnsupportedLiteralsGroupBy''),
     (''invalidhostheader'', ''InvalidHostHeader''), (''parseunsupportedtoken'', ''ParseUnsupportedToken''),
     (''parseunsupportedselect'', ''ParseUnsupportedSelect''),
     (''invalidbucketaclwithobjectownership'', ''InvalidBucketAclWithObjectOwnership''),
     (''malformedpolicy'', ''MalformedPolicy''), (''nosuchaccesspoint'', ''NoSuchAccessPoint''),
     (''likeinvalidinputs'', ''LikeInvalidInputs''), (''invalidtoken'', ''InvalidToken''),
     (''evaluatorlikepatterninvalidescapesequence'', ''EvaluatorLikePatternInvalidEscapeSequence''),
     (''toomanymultiregionaccesspointregionserror'', ''TooManyMultiRegionAccessPointregionsError''),
     (''baddigest'', ''BadDigest''), (''unauthorizedaccesserror'', ''UnauthorizedAccessError''),
     (''unsupportedsignature'', ''UnsupportedSignature''), (''lexerinvalidoperator'', ''LexerInvalidOperator''),
     (''invalidjsontype'', ''InvalidJsonType''), (''missingrequestbodyerror'', ''MissingRequestBodyError''),
     (''temporaryredirect'', ''TemporaryRedirect''), (''unsupportedsqloperation'', ''UnsupportedSqlOperation''),
     (''unauthorizedaccess'', ''UnauthorizedAccess''), (''entitytoolarge'', ''EntityTooLarge''),
     (''metadatatoolarge'', ''MetadataTooLarge''), (''inlinedatatoolarge'', ''InlineDataTooLarge''),
     (''unsupportedfunction'', ''UnsupportedFunction''),
     (''parseexpectedtokentype'', ''ParseExpectedTokenType''), (''invalidcolumnindex'', ''InvalidColumnIndex''),
     (''invalidrequest'', ''InvalidRequest''),
     (''ambiguousgrantbyemailaddress'', ''AmbiguousGrantByEmailAddress''),
     (''parseemptyselect'', ''ParseEmptySelect''), (''parseunknownoperator'', ''ParseUnknownOperator''),
     (''invaliddatasource'', ''InvalidDataSource''), (''nosuchbucketpolicy'', ''NoSuchBucketPolicy''),
     (''parquetparsingerror'', ''ParquetParsingError''), (''clienttokenconflict'', ''ClientTokenConflict''),
     (''invalidrequestparameter'', ''InvalidRequestParameter''), (''requesttimeout'', ''RequestTimeout''),
     (''unsupportedparquettype'', ''UnsupportedParquetType''), (''invalidregion'', ''InvalidRegion''),
     (''authorizationheadermalformed'', ''AuthorizationHeaderMalformed''),
     (''invalidkeypath'', ''InvalidKeyPath''), (''notsignedup'', ''NotSignedUp''),
     (''evaluatorinvalidarguments'', ''EvaluatorInvalidArguments''),
     (''unsupportedsyntax'', ''UnsupportedSyntax''), (''invalidobjectstate'', ''InvalidObjectState''),
     (''notdeviceownererror'', ''NotDeviceOwnerError''),
     (''parsemissingidentafterat'', ''ParseMissingIdentAfterAt''),
     (''evaluatortimestampformatpatternhourclockampmmismatch'', ''EvaluatorTimestampFormatPatternHourClockAmPmMismatch''),
     (''invalidbucketstate'', ''InvalidBucketState''),
     (''accesspointalreadyownedbyyou'', ''AccessPointAlreadyOwnedByYou''),
     (''keytoolongerror'', ''KeyTooLongError''),
     (''unsupportedtypeforquerying'', ''UnsupportedTypeForQuerying''),
     (''invalidexpressiontype'', ''InvalidExpressionType''), (''parsemalformedjoin'', ''ParseMalformedJoin''),
     (''invalidaccesskeyid'', ''InvalidAccessKeyId''), (''overmaxrecordsize'', ''OverMaxRecordSize''),
     (''preconditionfailed'', ''PreconditionFailed''),
     (''unrecognizedformatexception'', ''UnrecognizedFormatException''),
     (''parseunsupportedcaseclause'', ''ParseUnsupportedCaseClause''),
     (''tokencodeinvaliderror'', ''TokenCodeInvalidError''),
     (''parseexpectedidentforat'', ''ParseExpectedIdentForAt''), (''invalidsecurity'', ''InvalidSecurity''),
     (''nosuchkey'', ''NoSuchKey''), (''invalidbucketname'', ''InvalidBucketName''),
     (''maxmessagelengthexceeded'', ''MaxMessageLengthExceeded''),
     (''csvescapingrecorddelimiter'', ''CSVEscapingRecordDelimiter''),
     (''parseexpectedleftparenaftercast'', ''ParseExpectedLeftParenAfterCast''),
     (''toomanyaccesspoints'', ''TooManyAccessPoints''), (''methodnotallowed'', ''MethodNotAllowed''),
     (''lexerinvalidliteral'', ''LexerInvalidLiteral''), (''endpointnotfound'', ''EndpointNotFound''),
     (''devicenotactiveerror'', ''DeviceNotActiveError''),
     (''connectionclosedbyrequester'', ''ConnectionClosedByRequester''),
     (''evaluatorbindingdoesnotexist'', ''EvaluatorBindingDoesNotExist''),
     (''evaluatortimestampformatpatternduplicatefields'', ''EvaluatorTimestampFormatPatternDuplicateFields''),
     (''parseexpectedwhenclause'', ''ParseExpectedWhenClause''), (''bucketnotempty'', ''BucketNotEmpty''),
     (''emptyrequestbody'', ''EmptyRequestBody''), (''unsupportedstorageclass'', ''UnsupportedStorageClass''),
     (''busy'', ''Busy''), (''unsupportedscanrangeinput'', ''UnsupportedScanRangeInput''),
     (''parseexpectedargumentdelimiter'', ''ParseExpectedArgumentDelimiter''),
     (''evaluatorinvalidtimestampformatpatternsymbol'', ''EvaluatorInvalidTimestampFormatPatternSymbol'')]"

definition S3_ERROR_CODE_LOWERCASE_MAP_2 :: "(bytes \<times> bytes) list" where
  "S3_ERROR_CODE_LOWERCASE_MAP_2 =
    [(''invaliddigest'', ''InvalidDigest''), (''expressiontoolong'', ''ExpressionTooLong''),
     (''overmaxparquetblocksize'', ''OverMaxParquetBlockSize''), (''slowdown'', ''SlowDown''),
     (''parseinvalidcontextforwildcardinselectlist'', ''ParseInvalidContextForWildcardInSelectList''),
     (''evaluatorinvalidtimestampformatpatterntoken'', ''EvaluatorInvalidTimestampFormatPatternToken''),
     (''integeroverflow'', ''IntegerOverflow''), (''csvparsingerror'', ''CSVParsingError''),
     (''nosuchversion'', ''NoSuchVersion''), (''invalidaccesspoint'', ''InvalidAccessPoint''),
     (''evaluatorunterminatedtimestampformatpatterntoken'', ''EvaluatorUnterminatedTimestampFormatPatternToken''),
     (''invalidencryptionalgorithmerror'', ''InvalidEncryptionAlgorithmError''),
     (''serversideencryptionconfigurationnotfounderror'', ''ServerSideEncryptionConfigurationNotFoundError''),
     (''parseexpectedidentforalias'', ''ParseExpectedIdentForAlias''),
     (''illegallocationconstraintexception'', ''IllegalLocationConstraintException''),
     (''invalidstorageclass'', ''InvalidStorageClass''), (''invalidsoaprequest'', ''InvalidSOAPRequest''),
     (''invalidpayer'', ''InvalidPayer''), (''invalidaccesspointaliaserror'', ''InvalidAccessPointAliasError''),
     (''csvunescapedquote'', ''CSVUnescapedQuote''), (''unsupportedsqlstructure'', ''UnsupportedSqlStructure''),
     (''truncatedinput'', ''TruncatedInput''), (''permanentredirect'', ''PermanentRedirect''),
     (''parseunsupportedcase'', ''ParseUnsupportedCase''),
     (''notransformationdefined'', ''NoTransformationDefined''),
     (''invalidcompressionformat'', ''InvalidCompressionFormat''),
     (''malformedpostrequest'', ''MalformedPOSTRequest''),
     (''parseexpectedleftparenbuiltinfunctioncall'', ''ParseExpectedLeftParenBuiltinFunctionCall''),
     (''credentialsnotsupported'', ''CredentialsNotSupported''),
     (''authorizationqueryparameterserror'', ''AuthorizationQueryParametersError''),
     (''parseexpectedleftparenvalueconstructor'', ''ParseExpectedLeftParenValueConstructor''),
     (''jsonparsingerror'', ''JSONParsingError''), (''accountproblem'', ''AccountProblem''),
     (''parseexpectedrightparenbuiltinfunctioncall'', ''ParseExpectedRightParenBuiltinFunctionCall''),
     (''missingcontentlength'', ''MissingContentLength''),
     (''objectlockconfigurationnotfounderror'', ''ObjectLockConfigurationNotFoundError''),
     (''operationaborted'', ''OperationAborted''), (''nosuchupload'', ''NoSuchUpload''),
     (''nosuchlifecycleconfiguration'', ''NoSuchLifecycleConfiguration''),
     (''toomanymultiregionaccesspoints'', ''TooManyMultiRegionAccessPoints''),
     (''parseexpectedkeyword'', ''ParseExpectedKeyword''),
     (''objectserializationconflict'', ''ObjectSerializationConflict''),
     (''missingauthenticationtoken'', ''MissingAuthenticationToken''),
     (''parseexpectedidentforgroupname'', ''ParseExpectedIdentForGroupName''),
     (''tagpolicyexception'', ''TagPolicyException''), (''requesttimetooskewed'', ''RequestTimeTooSkewed''),
     (''invalidsignature'', ''InvalidSignature''), (''toomanytags'', ''TooManyTags''),
     (''missingrequiredparameter'', ''MissingRequiredParameter''),
     (''nosuchmultiregionaccesspoint'', ''NoSuchMultiRegionAccessPoint''),
     (''maxoperatorsexceeded'', ''MaxOperatorsExceeded''), (''entitytoosmall'', ''EntityTooSmall''),
     (''unexpectediperror'', ''UnexpectedIPError''),
     (''replicationconfigurationnotfounderror'', ''ReplicationConfigurationNotFoundError''),
     (''notmodified'', ''NotModified''), (''parseexpecteddatepart'', ''ParseExpectedDatePart''),
     (''parseinvalidtypeparam'', ''ParseInvalidTypeParam''), (''invalidcast'', ''InvalidCast''),
     (''invalidtablealias'', ''InvalidTableAlias''),
     (''requestisnotmultipartcontent'', ''RequestIsNotMultiPartContent''),
     (''unsupportedrangeheader'', ''UnsupportedRangeHeader''),
     (''parseunexpectedtoken'', ''ParseUnexpectedToken''), (''incompletebody'', ''IncompleteBody''),
     (''parseinvalidpathcomponent'', ''ParseInvalidPathComponent''),
     (''nosuchasyncrequest'', ''NoSuchAsyncRequest''),
     (''requestheadersectiontoolarge'', ''RequestHeaderSectionTooLarge''),
     (''invalidpolicydocument'', ''InvalidPolicyDocument''), (''invalidquotefields'', ''InvalidQuoteFields''),
     (''invalidfileheaderinfo'', ''InvalidFileHeaderInfo''),
     (''maxpostpredatalengthexceedederror'', ''MaxPostPreDataLengthExceededError''),
     (''nosuchcorsconfiguration'', ''NoSuchCORSConfiguration''),
     (''parseexpectedexpression'', ''ParseExpectedExpression''),
     (''invalidlocationconstraint'', ''InvalidLocationConstraint''),
     (''responseinterrupted'', ''ResponseInterrupted''), (''bucketalreadyexists'', ''BucketAlreadyExists''),
     (''serviceunavailable'', ''ServiceUnavailable''),
     (''illegalsqlfunctionargument'', ''IllegalSqlFunctionArgument''),
     (''missingsecurityheader'', ''MissingSecurityHeader''), (''allaccessdisabled'', ''AllAccessDisabled''),
     (''tokenrefreshrequired'', ''TokenRefreshRequired''), (''accessdenied'', ''AccessDenied''),
     (''parseasteriskisnotaloneinselectlist'', ''ParseAsteriskIsNotAloneInSelectList''),
     (''malformedaclerror'', ''MalformedACLError''),
     (''parseexpected2tokentypes'', ''ParseExpected2TokenTypes''),
     (''parseunexpectedoperator'', ''ParseUnexpectedOperator''), (''malformedxml'', ''MalformedXML''),
     (''ambiguousfieldname'', ''AmbiguousFieldName''),
     (''crosslocationloggingprohibited'', ''CrossLocationLoggingProhibited''), (''redirect'', ''Redirect''),
     (''nologgingstatusforkey'', ''NoLoggingStatusForKey''),
     (''incorrectnumberoffilesinpostrequest'', ''IncorrectNumberOfFilesInPostRequest''),
     (''evaluatorinvalidtimestampformatpatternsymbolforparsing'', ''EvaluatorInvalidTimestampFormatPatternSymbolForParsing''),
     (''parsenonunaryagregatefunctioncall'', ''ParseNonUnaryAgregateFunctionCall''),
     (''nosuchbucket'', ''NoSuchBucket''), (''missingsecurityelement'', ''MissingSecurityElement''),
     (''invalidargument'', ''InvalidArgument''),
     (''invalidbucketownerawsaccountid'', ''InvalidBucketOwnerAWSAccountID''),
     (''invalidtextencoding'', ''InvalidTextEncoding''),
     (''requesttorrentofbucketerror'', ''RequestTorrentOfBucketError''),
     (''parseexpectednumber'', ''ParseExpectedNumber''),
     (''illegalversioningconfigurationexception'', ''IllegalVersioningConfigurationException''),
     (''invalidpartorder'', ''InvalidPartOrder''), (''parseselectmissingfrom'', ''ParseSelectMissingFrom''),
     (''externalevalexception'', ''ExternalEvalException''), (''invalidrange'', ''InvalidRange''),
     (''evaluatorinvalidtimestampformatpattern'', ''EvaluatorInvalidTimestampFormatPattern''),
     (''notimplemented'', ''NotImplemented'')]"

definition S3_ERROR_CODE_LOWERCASE_MAP :: "(bytes \<times> bytes) list" where
  "S3_ERROR_CODE_LOWERCASE_MAP = S3_ERROR_CODE_LOWERCASE_MAP_1 @ S3_ERROR_CODE_LOWERCASE_MAP_2"

definition S3_ERROR_CODE_DEFAULT_MESSAGE_1 :: "(bytes \<times> bytes) list" where
  "S3_ERROR_CODE_DEFAULT_MESSAGE_1 =
    [(''ParseUnExpectedKeyword'', ''The SQL expression contains an unexpected keyword.''),
     (''MaxMessageLengthExceeded'', ''Your request was too big.''),
     (''CSVParsingError'', ''An error occurred while parsing the CSV file. Check the file and try again.''),
     (''EmptyRequestBody'', ''The request body cannot be empty.''),
     (''AccessControlListNotSupported'', ''The bucket does not allow ACLs.''),
     (''MalformedPolicy'', ''Your policy contains a principal that is not valid.''),
     (''ParseAsteriskIsNotAloneInSelectList'', ''Other expressions are not allowed in the SELECT list when * is used without dot notation in the SQL expression.''),
     (''InvalidAddressingHeader'', ''You must specify the Anonymous role.''),
     (''RequestHeaderSectionTooLarge'', ''The request header and query parameters used to make the request exceed the maximum allowed size.''),
     (''MalformedPOSTRequest'', ''The body of your POST request is not well-formed multipart/form-data.''),
     (''OperationAborted'', ''A conflicting conditional action is currently in progress against this resource. Try again.''),
     (''AuthorizationHeaderMalformed'', ''The authorization header you provided is invalid.''),
     (''InvalidEncryptionAlgorithmError'', ''The encryption request you specified is not valid. The valid value is AES256.''),
     (''IllegalLocationConstraintException'', ''The specified location constraint is not valid.''),
     (''InvalidStorageClass'', ''The storage class you specified is not valid.''),
     (''InvalidObjectState'', ''The action is not valid for the current state of the object.''),
     (''UnsupportedFunction'', ''We encountered an unsupported SQL function.''),
     (''UnsupportedRangeHeader'', ''A range header is not supported for this operation.''),
     (''ParseExpectedTypeName'', ''The expected type name in the SQL expression was not found.''),
     (''PermanentRedirectControlError'', ''The API operation you are attempting to access must be addressed using the specified endpoint. Send all future requests to this endpoint.''),
     (''CSVEscapingRecordDelimiter'', ''A quoted record delimiter was found in the file. To allow quoted record delimiters, set AllowQuotedRecordDelimiter to '' @ [CHR 0x27] @ ''TRUE'' @ [CHR 0x27] @ ''.''),
     (''AmbiguousFieldName'', ''The field name matches to multiple fields in the file. Check the SQL expression and the file, and try again.''),
     (''InvalidBucketName'', ''The specified bucket is not valid.''),
     (''EvaluatorInvalidTimestampFormatPattern'', ''The timestamp format string in the SQL expression is not valid.''),
     (''EntityTooSmall'', ''Your proposed upload is smaller than the minimum allowed object size.''),
     (''InvalidURI'', ''Couldn'' @ [CHR 0x27] @ ''t parse the specified URI.''),
     (''MissingSecurityHeader'', ''Your request is missing a required header.''),
     (''InvalidTableAlias'', ''The SQL expression contains a table alias that is not valid.''),
     (''UnsupportedScanRangeInput'', ''Scan range queries are not supported on this type of object.''),
     (''PermanentRedirect'', ''The bucket you are attempting to access must be addressed using the specified endpoint. Send all future requests to this endpoint.''),
     (''AllAccessDisabled'', ''All access to this Amazon S3 resource has been disabled. Contact AWS Support for further assistance.''),
     (''UnsupportedSqlOperation'', ''We encountered an unsupported SQL operation.''),
     (''NotImplemented'', ''A header you provided implies functionality that is not implemented.''),
     (''InvalidPayer'', ''All access to this object has been disabled. Please contact AWS Support for further assistance.''),
     (''InvalidDataType'', ''The SQL expression contains a data type that is not valid.''),
     (''InvalidPolicyDocument'', ''The content of the form does not meet the conditions specified in the policy document.''),
     (''IncorrectEndpoint'', ''The specified bucket exists in another Region. Direct requests to the correct endpoint.''),
     (''ParseExpectedArgumentDelimiter'', ''The expected argument delimiter in the SQL expression was not found.''),
     (''LexerInvalidChar'', ''The SQL expression contains a character that is not valid.''),
     (''EvaluatorInvalidTimestampFormatPatternSymbolForParsing'', ''The timestamp format pattern contains a valid format symbol that cannot be applied to timestamp parsing in the SQL expression.''),
     (''ConnectionClosedByRequester'', ''Returned to the original caller when an error is encountered while reading the WriteGetObjectResponse body.''),
     (''InvalidDataSource'', ''The data source type is not valid. Only CSV, JSON, and Parquet are supported.''),
     (''EvaluatorInvalidTimestampFormatPatternSymbol'', ''The timestamp format pattern contains a symbol in the SQL expression that is not valid.''),
     (''InvalidJsonType'', ''The JsonType value is not valid. Only DOCUMENT and LINES are supported.''),
     (''NoSuchLifecycleConfiguration'', ''The lifecycle configuration does not exist.''),
     (''IncompleteBody'', ''You did not provide the number of bytes specified by the Content-Length HTTP header''),
     (''ParseUnexpectedToken'', ''The SQL expression contains an unexpected token.''),
     (''UnsupportedTypeForQuerying'', ''Your query contains an unsupported type for comparison (e.g. verifying that a Parquet INT96 column type is greater than 0).''),
     (''InvalidQuoteFields'', ''The QuoteFields value is not valid. Only ALWAYS and ASNEEDED are supported.''),
     (''UserKeyMustBeSpecified'', ''The bucket POST must contain the specified field name. If it is specified, check the order of the fields.''),
     (''ClientTokenConflict'', ''Your Multi-Region Access Point idempotency token was already used for a different request.''),
     (''EndpointNotFound'', ''Direct requests to the correct endpoint.''),
     (''OwnershipControlsNotFoundError'', ''The bucket ownership controls were not found.''),
     (''ExpiredToken'', ''The provided token has expired.''),
     (''ParseUnsupportedSyntax'', ''The SQL expression contains unsupported syntax.''),
     (''InvalidArgument'', ''Invalid argument.''),
     (''MaxOperatorsExceeded'', ''Failed to parse SQL expression, try reducing complexity. For example, reduce number of operators used.''),
     (''CastFailed'', ''An attempt to convert from one data type to another using CAST failed in the SQL expression.''),
     (''ExternalEvalException'', ''The query cannot be evaluated. Check the file and try again.''),
     (''NoSuchBucketPolicy'', ''The specified bucket does not have a bucket policy.'')]"

definition S3_ERROR_CODE_DEFAULT_MESSAGE_2 :: "(bytes \<times> bytes) list" where
  "S3_ERROR_CODE_DEFAULT_MESSAGE_2 =
    [(''InvalidHostHeader'', ''The host headers provided in the request used the incorrect style addressing.''),
     (''LexerInvalidLiteral'', ''The SQL expression contains an operator that is not valid.''),
     (''InvalidSignature'', ''The request signature that the server calculated does not match the signature that you provided. Check your AWS secret access key and signing method. For more information, see Signing and authenticating REST requests.''),
     (''ParseUnsupportedSelect'', ''The SQL expression contains an unsupported use of SELECT.''),
     (''ParseExpectedDatePart'', ''The expected date part in the SQL expression was not found.''),
     (''InvalidBucketState'', ''The request is not valid with the current state of the bucket.''),
     (''TruncatedInput'', ''Object decompression failed. Check that the object is properly compressed using the format specified in the request.''),
     (''MissingContentLength'', ''You must provide the Content-Length HTTP header.''),
     (''ParseInvalidPathComponent'', ''The SQL expression contains a path component that is not valid.''),
     (''ParseExpectedIdentForGroupName'', ''GROUP is not supported in the SQL expression.''),
     (''DeviceNotActiveError'', ''The device is not currently active.''),
     (''Redirect'', ''Temporary redirect. You are being redirected to the bucket while the Domain Name System (DNS) server is being updated.''),
     (''LexerInvalidOperator'', ''The SQL expression contains a literal that is not valid.''),
     (''InvalidTargetBucketForLogging'', ''The target bucket for logging does not exist, is not owned by you, or does not have the appropriate grants for the log-delivery group.''),
     (''MethodNotAllowed'', ''The specified method is not allowed against this resource.''),
     (''MissingAttachment'', ''A SOAP attachment was expected, but none were found.''),
     (''InvalidRequest'', ''Invalid request.''),
     (''InvalidSecurity'', ''The provided security credentials are not valid.''),
     (''ExpressionTooLong'', ''The SQL expression is too long. The maximum byte-length for an SQL expression is 256 KB.''),
     (''ParseNonUnaryAgregateFunctionCall'', ''Only one argument is supported for aggregate functions in the SQL expression.''),
     (''ParseInvalidTypeParam'', ''The SQL expression contains a parameter value that is not valid.''),
     (''MalformedXML'', ''This happens when the user sends malformed XML (XML that doesn'' @ [CHR 0x27] @ ''t conform to the published XSD) for the configuration. The error message is, '' @ [CHR 0x22] @ ''The XML you provided was not well-formed or did not validate against our published schema.'' @ [CHR 0x22]),
     (''ParseExpectedKeyword'', ''The expected keyword in the SQL expression was not found.''),
     (''RequestTorrentOfBucketError'', ''Requesting the torrent file of a bucket is not permitted.''),
     (''UnexpectedIPError'', ''Applicable in China Regions only. This request was rejected because the IP was unexpected.''),
     (''InvalidCast'', ''An attempt to convert from one data type to another using CAST failed in the SQL expression.''),
     (''ParseExpectedRightParenBuiltinFunctionCall'', ''The expected right parenthesis character in the SQL expression was not found.''),
     (''ParseExpectedTokenType'', ''The expected token in the SQL expression was not found.''),
     (''AccountProblem'', ''There is a problem with your AWS account that prevents the action from completing successfully. Contact AWS Support for further assistance.''),
     (''AccessDenied'', ''Access Denied''),
     (''InvalidAccessPointAliasError'', ''The specified access point alias name is not valid.''),
     (''InvalidColumnIndex'', ''The column index in the SQL expression is not valid.''),
     (''InvalidDigest'', ''The Content-MD5 you specified is not valid.''),
     (''NotSignedUp'', ''Your account is not signed up for the Amazon S3 service. You must sign up before you can use Amazon S3. You can sign up at the following URL: Amazon S3''),
     (''ParseExpectedIdentForAlias'', ''The expected identifier for the alias in the SQL expression was not found.''),
     (''ObjectSerializationConflict'', ''InputSerialization specifies more than one format (CSV, JSON, or Parquet), or OutputSerialization specifies more than one format (CSV or JSON). For InputSerialization and OutputSerialization, you can specify only one format for each.''),
     (''ParseUnexpectedOperator'', ''The SQL expression contains an unexpected operator.''),
     (''TokenCodeInvalidError'', ''The serial number and/or token code you provided is not valid.''),
     (''ParseExpectedExpression'', ''The expected SQL expression was not found.''),
     (''ParseExpectedMember'', ''The SQL expression contains an unsupported use of MEMBER.''),
     (''PreconditionFailed'', ''At least one of the preconditions you specified did not hold.''),
     (''BadDigest'', ''The Content-MD5 you specified did not match what we received.''),
     (''InvalidPart'', ''One or more of the specified parts could not be found. The part might not have been uploaded, or the specified entity tag might not have matched the part'' @ [CHR 0x27] @ ''s entity tag.''),
     (''InvalidLocationConstraint'', ''The specified location constraint is not valid. For more information about Regions, see How to Select a Region for Your Buckets.''),
     (''ParquetUnsupportedCompressionCodec'', ''The specified Parquet compression codec is not supported.''),
     (''ParseCastArity'', ''The SQL expression CAST has incorrect arity.''),
     (''NoTransformationDefined'', ''No transformation found for this Object Lambda Access Point.''),
     (''InvalidCompressionFormat'', ''The file is not in a supported compression format. Only GZIP and BZIP2 are supported.''),
     (''NoSuchAccessPoint'', ''The specified access point does not exist.''),
     (''InlineDataTooLarge'', ''Inline data exceeds the maximum allowed size.''),
     (''TooManyMultiRegionAccessPoints'', ''You have attempted to create more Multi-Region Access Points than are allowed for an account. For more information, see Amazon Simple Storage Service endpoints and quotas in the AWS General Reference.''),
     (''ParseUnsupportedCallWithStar'', ''Only COUNT with (*) as a parameter is supported in the SQL expression.''),
     (''ParseUnexpectedTerm'', ''The SQL expression contains an unexpected term.''),
     (''Busy'', ''The service is unavailable. Try again later.''),
     (''InvalidTextEncoding'', ''The encoding type is not valid. Only UTF-8 encoding is supported.''),
     (''IncorrectSqlFunctionArgumentType'', ''An incorrect argument type was specified in a function call in the SQL expression.''),
     (''UnresolvableGrantByEmailAddress'', ''The email address you provided does not match any account on record.''),
     (''NoSuchVersion'', ''Indicates that the version ID specified in the request does not match an existing version.''),
     (''InvalidRange'', ''The requested range cannot be satisfied.''),
     (''InvalidPartOrder'', ''The list of parts was not in ascending order. Parts list must be specified in order by part number.''),
     (''BucketNotEmpty'', ''The bucket you tried to delete is not empty.''),
     (''TemporaryRedirect'', ''You are being redirected to the bucket while DNS updates.''),
     (''MissingSecurityElement'', ''The SOAP 1.1 request is missing a security element.''),
     (''TooManyAccessPoints'', ''You have attempted to create more access points than are allowed for an account. For more information, see Amazon Simple Storage Service endpoints and quotas in the AWS General Reference.'')]"

definition S3_ERROR_CODE_DEFAULT_MESSAGE_3 :: "(bytes \<times> bytes) list" where
  "S3_ERROR_CODE_DEFAULT_MESSAGE_3 =
    [(''UnauthorizedAccessError'', ''Applicable in China Regions only. Returned when a request is made to a bucket that doesn'' @ [CHR 0x27] @ ''t have an ICP license. For more information, see ICP Recordal.''),
     (''NoSuchWebsiteConfiguration'', ''The specified bucket does not have a website configuration.''),
     (''ParseExpectedWhenClause'', ''The expected WHEN clause in the SQL expression was not found. CASE is not supported.''),
     (''RestoreAlreadyInProgress'', ''Object restore is already in progress.''),
     (''MissingAuthenticationToken'', ''The request was not signed.''),
     (''ParseExpected2TokenTypes'', ''The expected token in the SQL expression was not found.''),
     (''AccessPointAlreadyOwnedByYou'', ''An access point with an identical name already exists in your account.''),
     (''UnsupportedSignature'', ''The provided request is signed with an unsupported STS Token version or the signature version is not supported.''),
     (''ParseUnsupportedCaseClause'', ''The SQL expression contains an unsupported use of CASE.''),
     (''TooManyMultiRegionAccessPointregionsError'', ''You have attempted to create a Multi-Region Access Point with more Regions than are allowed for an account. For more information, see Amazon Simple Storage Service endpoints and quotas in the AWS General Reference.''),
     (''NumberFormatError'', ''An error occurred while parsing a number. This error can be caused by underflow or overflow of integers.''),
     (''ParseExpectedLeftParenValueConstructor'', ''The expected left parenthesis in the SQL expression was not found.''),
     (''MissingRequiredParameter'', ''The SelectRequest entity is missing a required parameter. Check the service documentation and try again.''),
     (''NoSuchObjectLockConfiguration'', ''The specified object does not have an ObjectLock configuration.''),
     (''NoSuchCORSConfiguration'', ''The specified bucket does not have a CORS configuration.''),
     (''ReplicationConfigurationNotFoundError'', ''There is no replication configuration for this bucket.''),
     (''ParseEmptySelect'', ''The SQL expression contains an empty SELECT clause.''),
     (''AuthorizationQueryParametersError'', ''The authorization query parameters that you provided are not valid.''),
     (''SignatureDoesNotMatch'', ''The request signature we calculated does not match the signature you provided. Check your AWS secret access key and signing method. For more information, see REST Authentication and SOAP Authentication for details.''),
     (''TooManyTags'', ''The number of tags exceeds the limit of 50 tags.''),
     (''ColumnTooLong'', ''The length of a column in the result is greater than maxCharsPerColumn of 1 MB.''),
     (''JSONParsingError'', ''An error occurred while parsing the JSON file. Check the file and try again.''),
     (''BucketAlreadyOwnedByYou'', ''The bucket you tried to create already exists, and you own it. Amazon S3 returns this error in all AWS Regions except in the North Virginia Region. For legacy compatibility, if you re-create an existing bucket that you already own in the North Virginia Region, Amazon S3 returns 200 OK and resets the bucket access control lists (ACLs).''),
     (''BucketAlreadyExists'', ''The requested bucket name is not available. The bucket namespace is shared by all users of the system. Please select a different name and try again.''),
     (''AmbiguousGrantByEmailAddress'', ''The email address you provided is associated with more than one account.''),
     (''ServerSideEncryptionConfigurationNotFoundError'', ''The server-side encryption configuration was not found.''),
     (''InvalidFileHeaderInfo'', ''The FileHeaderInfo value is not valid. Only NONE, USE, and IGNORE are supported.''),
     (''TooManyBuckets'', ''You have attempted to create more buckets than are allowed for an account. For more information, see Amazon Simple Storage Service endpoints and quotas in the AWS General Reference.''),
     (''ObjectLockConfigurationNotFoundError'', ''The Object Lock configuration does not exist for this bucket.''),
     (''ResponseInterrupted'', ''Returned to the original caller when an error is encountered while reading the WriteGetObjectResponse body.''),
     (''NoSuchMultiRegionAccessPoint'', ''The specified Multi-Region Access Point does not exist.''),
     (''BucketHasAccessPointsAttached'', ''The bucket you tried to delete has access points attached. Delete your access points before deleting your bucket.''),
     (''EvaluatorTimestampFormatPatternDuplicateFields'', ''The timestamp format pattern contains multiple format specifiers representing the timestamp field in the SQL expression.''),
     (''InvalidBucketOwnerAWSAccountID'', ''The value of the expected bucket owner parameter must be an AWS account ID.''),
     (''IllegalVersioningConfigurationException'', ''Indicates that the versioning configuration specified in the request is invalid.''),
     (''EvaluatorBindingDoesNotExist'', ''A column name or a path provided does not exist in the SQL expression.''),
     (''MalformedACLError'', ''The XML you provided was not well-formed or did not validate against our published schema.''),
     (''ParseCannotMixSqbAndWildcardInSelectList'', ''Cannot mix [] and * in the same expression in a SELECT list in the SQL expression.''),
     (''UnsupportedParquetType'', ''The specified Parquet type is not supported.''),
     (''ParseUnsupportedToken'', ''The SQL expression contains an unsupported token.''),
     (''InvalidTag'', ''Your request contains tag input that is not valid. For example, your request might contain duplicate keys, keys or values that are too long, or system tags.''),
     (''UnsupportedSqlStructure'', ''We encountered an unsupported SQL structure. Check the SQL Reference.''),
     (''NotDeviceOwnerError'', ''The device that generated the token is not owned by the authenticated user.''),
     (''CredentialsNotSupported'', ''This request does not support credentials.''),
     (''EvaluatorInvalidArguments'', ''There is an incorrect number of arguments in the function call in the SQL expression.''),
     (''NoSuchBucket'', ''The specified bucket does not exist.'')]"

definition S3_ERROR_CODE_DEFAULT_MESSAGE_4 :: "(bytes \<times> bytes) list" where
  "S3_ERROR_CODE_DEFAULT_MESSAGE_4 =
    [(''TagPolicyException'', ''The tag policy does not allow the specified value for the following tag key.''),
     (''EvaluatorTimestampFormatPatternHourClockAmPmMismatch'', ''The timestamp format pattern contains a 12-hour hour of day format symbol but doesn'' @ [CHR 0x27] @ ''t also contain an AM/PM field, or it contains a 24-hour hour of day format specifier and contains an AM/PM field in the SQL expression.''),
     (''InvalidScanRange'', ''The provided scan range is not valid.''),
     (''ParseMissingIdentAfterAt'', ''The expected identifier after the @ symbol in the SQL expression was not found.''),
     (''MetadataTooLarge'', ''Your metadata headers exceed the maximum allowed metadata size.''),
     (''EvaluatorInvalidTimestampFormatPatternToken'', ''The timestamp format pattern contains a token in the SQL expression that is not valid.''),
     (''ParseMalformedJoin'', ''JOIN is not supported in the SQL expression.''),
     (''ParseExpectedNumber'', ''The expected number in the SQL expression was not found.''),
     (''SlowDown'', ''Reduce your request rate.''),
     (''InvalidExpressionType'', ''The ExpressionType value is not valid. Only SQL expressions are supported.''),
     (''ParseExpectedLeftParenBuiltinFunctionCall'', ''The expected left parenthesis in the SQL expression was not found.''),
     (''ValueParseFailure'', ''A timestamp parse failure occurred in the SQL expression.''),
     (''ParseUnsupportedCase'', ''The SQL expression contains an unsupported use of CASE.''),
     (''ParseExpectedIdentForAt'', ''The expected identifier for AT name in the SQL expression was not found.''),
     (''InvalidAccessKeyId'', ''The AWS access key ID you provided does not exist in our records.''),
     (''EvaluatorUnterminatedTimestampFormatPatternToken'', ''The timestamp format pattern contains an unterminated token in the SQL expression.''),
     (''NoSuchAsyncRequest'', ''The specified request was not found.''),
     (''NotModified'', ''The resource was not changed.''),
     (''ServiceUnavailable'', ''Service is unable to handle request.''),
     (''IllegalSqlFunctionArgument'', ''An illegal argument was used in the SQL function.''),
     (''UnsupportedArgument'', ''The request contained an unsupported argument.''),
     (''UnauthorizedAccess'', ''You are not authorized to perform this operation.''),
     (''CSVUnescapedQuote'', ''An unescaped quote was found while parsing the CSV file. To allow quoted record delimiters, set AllowQuotedRecordDelimiter to '' @ [CHR 0x27] @ ''TRUE'' @ [CHR 0x27] @ ''.''),
     (''TokenRefreshRequired'', ''The provided token must be refreshed.''),
     (''CrossLocationLoggingProhibited'', ''Cross-location logging not allowed. Buckets in one geographic location cannot log information to a bucket in another location.''),
     (''ParseInvalidContextForWildcardInSelectList'', ''The use of * in the SELECT list in the SQL expression is not valid.''),
     (''InvalidAccessPoint'', ''The specified access point name or account is not valid.''),
     (''UnsupportedStorageClass'', ''We encountered a storage class that is not supported. Only STANDARD, STANDARD_IA, and ONEZONE_IA storage classes are supported.''),
     (''NoSuchUpload'', ''The specified multipart upload does not exist. The upload ID might be invalid, or the multipart upload might have been aborted or completed.''),
     (''RequestIsNotMultiPartContent'', ''Bucket POST must be of the enclosure-type multipart/form-data.''),
     (''InvalidSessionException'', ''Returned if the session doesn'' @ [CHR 0x27] @ ''t exist anymore because it timed out or expired.''),
     (''EvaluatorLikePatternInvalidEscapeSequence'', ''An argument given to the LIKE expression was not valid.''),
     (''UnexpectedContent'', ''This request does not support content.''),
     (''NoLoggingStatusForKey'', ''There is no such thing as a logging status subresource for a key.''),
     (''ParseUnknownOperator'', ''The SQL expression contains an operator that is not valid.''),
     (''EvaluatorNegativeLimit'', ''LIMIT must not be negative.''),
     (''OverMaxColumn'', ''The number of columns in the result is greater than the maximum allowable number of columns.''),
     (''ConditionalRequestConflict'', ''A conflicting operation occurred. If using PutObject you can retry the request. If using multipart upload you should initiate another CreateMultipartUpload request and re-upload each part.''),
     (''InvalidBucketAclWithObjectOwnership'', ''Bucket cannot have ACLs set with ObjectOwnership'' @ [CHR 0x27] @ ''s BucketOwnerEnforced setting.''),
     (''InvalidRegion'', ''You'' @ [CHR 0x27] @ ''ve attempted to create a Multi-Region Access Point in a Region that you haven'' @ [CHR 0x27] @ ''t opted in to.''),
     (''InvalidSOAPRequest'', ''The SOAP request body is invalid.''),
     (''InvalidKeyPath'', ''The key path in the SQL expression is not valid.''),
     (''InternalError'', ''We encountered an internal error. Please try again.''),
     (''OverMaxParquetBlockSize'', ''The Parquet file is above the max row group size.''),
     (''UnrecognizedFormatException'', ''We encountered a record type that is not valid.''),
     (''LexerInvalidIONLiteral'', ''The SQL expression contains an operator that is not valid.''),
     (''InvalidHttpMethod'', ''The request is made using an unexpected HTTP method.''),
     (''ParquetParsingError'', ''An error occurred while parsing the Parquet file. Check the file and try again.''),
     (''IncorrectNumberOfFilesInPostRequest'', ''POST requires exactly one file upload per request.''),
     (''ParseExpectedLeftParenAfterCast'', ''The expected left parenthesis after CAST in the SQL expression was not found.''),
     (''KeyTooLongError'', ''Your key is too long.''),
     (''OverMaxRecordSize'', ''The length of a record in the input or result is greater than the maxCharsPerRecord limit of 1 MB.''),
     (''RequestTimeout'', ''Your socket connection to the server was not read from or written to within the timeout period.''),
     (''LikeInvalidInputs'', ''The argument given to the LIKE clause in the SQL expression is not valid.''),
     (''InvalidToken'', ''The provided token is malformed or otherwise invalid.''),
     (''ParseUnsupportedLiteralsGroupBy'', ''The SQL expression contains an unsupported use of GROUP BY.''),
     (''IntegerOverflow'', ''An integer overflow or underflow occurred in the SQL expression.''),
     (''UnsupportedSyntax'', ''We encountered syntax that is not valid.''),
     (''MaxPostPreDataLengthExceededError'', ''Your POST request fields preceding the upload file were too large.''),
     (''RequestTimeTooSkewed'', ''The difference between the request time and the server'' @ [CHR 0x27] @ ''s time is too large.'')]"

definition S3_ERROR_CODE_DEFAULT_MESSAGE_5 :: "(bytes \<times> bytes) list" where
  "S3_ERROR_CODE_DEFAULT_MESSAGE_5 =
    [(''InvalidRequestParameter'', ''The value of a parameter in the SelectRequest element is not valid. Check the service API documentation and try again.''),
     (''NoSuchTagSet'', ''The specified tag does not exist.''),
     (''MissingRequestBodyError'', ''This happens when the user sends an empty XML document as a request. The error message is, '' @ [CHR 0x22] @ ''Request body is empty.'' @ [CHR 0x22]),
     (''EntityTooLarge'', ''Your proposed upload exceeds the maximum allowed object size.''),
     (''MultipleDataSourcesUnsupported'', ''Multiple data sources are not supported.''),
     (''NoSuchResource'', ''The specified resource doesn'' @ [CHR 0x27] @ ''t exist.''),
     (''NoSuchKey'', ''The specified key does not exist.''),
     (''ParseUnsupportedAlias'', ''The SQL expression contains an unsupported use of ALIAS.''),
     (''ParseSelectMissingFrom'', ''The SQL expression contains a missing FROM after the SELECT list.'')]"

definition S3_ERROR_CODE_DEFAULT_MESSAGE :: "(bytes \<times> bytes) list" where
  "S3_ERROR_CODE_DEFAULT_MESSAGE = S3_ERROR_CODE_DEFAULT_MESSAGE_1 @ S3_ERROR_CODE_DEFAULT_MESSAGE_2 @ S3_ERROR_CODE_DEFAULT_MESSAGE_3 @ S3_ERROR_CODE_DEFAULT_MESSAGE_4 @ S3_ERROR_CODE_DEFAULT_MESSAGE_5"

definition STATUS_CODES :: "(bytes \<times> nat option) list" where
  "STATUS_CODES =
    [(''AccessControlListNotSupported'', Some 400), (''AccessDenied'', Some 403),
     (''AccessPointAlreadyOwnedByYou'', Some 409), (''AccountProblem'', Some 403),
     (''AllAccessDisabled'', Some 403), (''AmbiguousFieldName'', Some 400),
     (''AmbiguousGrantByEmailAddress'', Some 400), (''AuthorizationHeaderMalformed'', Some 400),
     (''AuthorizationQueryParametersError'', Some 400), (''BadDigest'', Some 400),
     (''BucketAlreadyExists'', Some 409), (''BucketAlreadyOwnedByYou'', Some 409),
     (''BucketHasAccessPointsAttached'', Some 400), (''BucketNotEmpty'', Some 409), (''Busy'', Some 503),
     (''CSVEscapingRecordDelimiter'', Some 400), (''CSVParsingError'', Some 400),
     (''CSVUnescapedQuote'', Some 400), (''CastFailed'', Some 400), (''ClientTokenConflict'', Some 409),
     (''ColumnTooLong'', Some 400), (''ConditionalRequestConflict'', Some 409),
     (''ConnectionClosedByRequester'', Some 400), (''CredentialsNotSupported'', Some 400),
     (''CrossLocationLoggingProhibited'', Some 403), (''DeviceNotActiveError'', Some 400),
     (''EmptyRequestBody'', Some 400), (''EndpointNotFound'', Some 400), (''EntityTooLarge'', Some 400),
     (''EntityTooSmall'', Some 400), (''EvaluatorBindingDoesNotExist'', Some 400),
     (''EvaluatorInvalidArguments'', Some 400), (''EvaluatorInvalidTimestampFormatPattern'', Some 400),
     (''EvaluatorInvalidTimestampFormatPatternSymbol'', Some 400),
     (''EvaluatorInvalidTimestampFormatPatternSymbolForParsing'', Some 400),
     (''EvaluatorInvalidTimestampFormatPatternToken'', Some 400),
     (''EvaluatorLikePatternInvalidEscapeSequence'', Some 400), (''EvaluatorNegativeLimit'', Some 400),
     (''EvaluatorTimestampFormatPatternDuplicateFields'', Some 400),
     (''EvaluatorTimestampFormatPatternHourClockAmPmMismatch'', Some 400),
     (''EvaluatorUnterminatedTimestampFormatPatternToken'', Some 400), (''ExpiredToken'', Some 400),
     (''ExpressionTooLong'', Some 400), (''ExternalEvalException'', Some 400),
     (''IllegalLocationConstraintException'', Some 400), (''IllegalSqlFunctionArgument'', Some 400),
     (''IllegalVersioningConfigurationException'', Some 400), (''IncompleteBody'', Some 400),
     (''IncorrectEndpoint'', Some 400), (''IncorrectNumberOfFilesInPostRequest'', Some 400),
     (''IncorrectSqlFunctionArgumentType'', Some 400), (''InlineDataTooLarge'', Some 400),
     (''IntegerOverflow'', Some 400), (''InternalError'', Some 500), (''InvalidAccessKeyId'', Some 403),
     (''InvalidAccessPoint'', Some 400), (''InvalidAccessPointAliasError'', Some 400),
     (''InvalidAddressingHeader'', None), (''InvalidArgument'', Some 400),
     (''InvalidBucketAclWithObjectOwnership'', Some 400), (''InvalidBucketName'', Some 400),
     (''InvalidBucketOwnerAWSAccountID'', Some 400), (''InvalidBucketState'', Some 409),
     (''InvalidCast'', Some 400), (''InvalidColumnIndex'', Some 400), (''InvalidCompressionFormat'', Some 400),
     (''InvalidDataSource'', Some 400), (''InvalidDataType'', Some 400), (''InvalidDigest'', Some 400),
     (''InvalidEncryptionAlgorithmError'', Some 400), (''InvalidExpressionType'', Some 400),
     (''InvalidFileHeaderInfo'', Some 400), (''InvalidHostHeader'', Some 400),
     (''InvalidHttpMethod'', Some 400), (''InvalidJsonType'', Some 400), (''InvalidKeyPath'', Some 400),
     (''InvalidLocationConstraint'', Some 400), (''InvalidObjectState'', Some 403), (''InvalidPart'', Some 400),
     (''InvalidPartOrder'', Some 400), (''InvalidPayer'', Some 403), (''InvalidPolicyDocument'', Some 400),
     (''InvalidQuoteFields'', Some 400), (''InvalidRange'', Some 416), (''InvalidRegion'', Some 403),
     (''InvalidRequest'', Some 400), (''InvalidRequestParameter'', Some 400),
     (''InvalidSOAPRequest'', Some 400), (''InvalidScanRange'', Some 400), (''InvalidSecurity'', Some 403),
     (''InvalidSessionException'', Some 400), (''InvalidSignature'', Some 400),
     (''InvalidStorageClass'', Some 400), (''InvalidTableAlias'', Some 400), (''InvalidTag'', Some 400),
     (''InvalidTargetBucketForLogging'', Some 400), (''InvalidTextEncoding'', Some 400),
     (''InvalidToken'', Some 400), (''InvalidURI'', Some 400), (''JSONParsingError'', Some 400),
     (''KeyTooLongError'', Some 400), (''LexerInvalidChar'', Some 400), (''LexerInvalidIONLiteral'', Some 400),
     (''LexerInvalidLiteral'', Some 400), (''LexerInvalidOperator'', Some 400),
     (''LikeInvalidInputs'', Some 400), (''MalformedACLError'', Some 400), (''MalformedPOSTRequest'', Some 400),
     (''MalformedPolicy'', Some 400), (''MalformedXML'', Some 400), (''MaxMessageLengthExceeded'', Some 400),
     (''MaxOperatorsExceeded'', Some 400), (''MaxPostPreDataLengthExceededError'', Some 400),
     (''MetadataTooLarge'', Some 400), (''MethodNotAllowed'', Some 405), (''MissingAttachment'', None),
     (''MissingAuthenticationToken'', Some 403), (''MissingContentLength'', Some 411),
     (''MissingRequestBodyError'', Some 400), (''MissingRequiredParameter'', Some 400),
     (''MissingSecurityElement'', Some 400), (''MissingSecurityHeader'', Some 400),
     (''MultipleDataSourcesUnsupported'', Some 400), (''NoLoggingStatusForKey'', Some 400),
     (''NoSuchAccessPoint'', Some 404), (''NoSuchAsyncRequest'', Some 404), (''NoSuchBucket'', Some 404),
     (''NoSuchBucketPolicy'', Some 404), (''NoSuchCORSConfiguration'', Some 404), (''NoSuchKey'', Some 404),
     (''NoSuchLifecycleConfiguration'', Some 404), (''NoSuchMultiRegionAccessPoint'', Some 404),
     (''NoSuchObjectLockConfiguration'', Some 404), (''NoSuchResource'', Some 404),
     (''NoSuchTagSet'', Some 404), (''NoSuchUpload'', Some 404), (''NoSuchVersion'', Some 404),
     (''NoSuchWebsiteConfiguration'', Some 404), (''NoTransformationDefined'', Some 404),
     (''NotDeviceOwnerError'', Some 400), (''NotImplemented'', Some 501), (''NotModified'', Some 304),
     (''NotSignedUp'', Some 403), (''NumberFormatError'', Some 400),
     (''ObjectLockConfigurationNotFoundError'', Some 404), (''ObjectSerializationConflict'', Some 400),
     (''OperationAborted'', Some 409), (''OverMaxColumn'', Some 400), (''OverMaxParquetBlockSize'', Some 400),
     (''OverMaxRecordSize'', Some 400), (''OwnershipControlsNotFoundError'', Some 404),
     (''ParquetParsingError'', Some 400), (''ParquetUnsupportedCompressionCodec'', Some 400),
     (''ParseAsteriskIsNotAloneInSelectList'', Some 400),
     (''ParseCannotMixSqbAndWildcardInSelectList'', Some 400), (''ParseCastArity'', Some 400),
     (''ParseEmptySelect'', Some 400), (''ParseExpected2TokenTypes'', Some 400),
     (''ParseExpectedArgumentDelimiter'', Some 400), (''ParseExpectedDatePart'', Some 400),
     (''ParseExpectedExpression'', Some 400), (''ParseExpectedIdentForAlias'', Some 400),
     (''ParseExpectedIdentForAt'', Some 400), (''ParseExpectedIdentForGroupName'', Some 400),
     (''ParseExpectedKeyword'', Some 400), (''ParseExpectedLeftParenAfterCast'', Some 400),
     (''ParseExpectedLeftParenBuiltinFunctionCall'', Some 400),
     (''ParseExpectedLeftParenValueConstructor'', Some 400), (''ParseExpectedMember'', Some 400),
     (''ParseExpectedNumber'', Some 400), (''ParseExpectedRightParenBuiltinFunctionCall'', Some 400),
     (''ParseExpectedTokenType'', Some 400), (''ParseExpectedTypeName'', Some 400),
     (''ParseExpectedWhenClause'', Some 400), (''ParseInvalidContextForWildcardInSelectList'', Some 400),
     (''ParseInvalidPathComponent'', Some 400), (''ParseInvalidTypeParam'', Some 400),
     (''ParseMalformedJoin'', Some 400), (''ParseMissingIdentAfterAt'', Some 400),
     (''ParseNonUnaryAgregateFunctionCall'', Some 400), (''ParseSelectMissingFrom'', Some 400),
     (''ParseUnExpectedKeyword'', Some 400), (''ParseUnexpectedOperator'', Some 400),
     (''ParseUnexpectedTerm'', Some 400), (''ParseUnexpectedToken'', Some 400),
     (''ParseUnknownOperator'', Some 400), (''ParseUnsupportedAlias'', Some 400),
     (''ParseUnsupportedCallWithStar'', Some 400), (''ParseUnsupportedCase'', Some 400),
     (''ParseUnsupportedCaseClause'', Some 400), (''ParseUnsupportedLiteralsGroupBy'', Some 400),
     (''ParseUnsupportedSelect'', Some 400), (''ParseUnsupportedSyntax'', Some 400),
     (''ParseUnsupportedToken'', Some 400), (''PermanentRedirect'', Some 301),
     (''PermanentRedirectControlError'', Some 301), (''PreconditionFailed'', Some 412),
     (''Redirect'', Some 307), (''ReplicationConfigurationNotFoundError'', Some 404),
     (''RequestHeaderSectionTooLarge'', Some 400), (''RequestIsNotMultiPartContent'', Some 400),
     (''RequestTimeTooSkewed'', Some 403), (''RequestTimeout'', Some 400),
     (''RequestTorrentOfBucketError'', Some 400), (''ResponseInterrupted'', Some 400),
     (''RestoreAlreadyInProgress'', Some 409), (''ServerSideEncryptionConfigurationNotFoundError'', Some 400),
     (''ServiceUnavailable'', Some 503), (''SignatureDoesNotMatch'', Some 403), (''SlowDown'', Some 503),
     (''TagPolicyException'', Some 400), (''TemporaryRedirect'', Some 307),
     (''TokenCodeInvalidError'', Some 400), (''TokenRefreshRequired'', Some 400),
     (''TooManyAccessPoints'', Some 400), (''TooManyBuckets'', Some 400),
     (''TooManyMultiRegionAccessPointregionsError'', Some 400), (''TooManyMultiRegionAccessPoints'', Some 400),
     (''TooManyTags'', Some 400), (''TruncatedInput'', Some 400), (''UnauthorizedAccess'', Some 401),
     (''UnauthorizedAccessError'', Some 403), (''UnexpectedContent'', Some 400),
     (''UnexpectedIPError'', Some 403), (''UnrecognizedFormatException'', Some 400),
     (''UnresolvableGrantByEmailAddress'', Some 400), (''UnsupportedArgument'', Some 400),
     (''UnsupportedFunction'', Some 400), (''UnsupportedParquetType'', Some 400),
     (''UnsupportedRangeHeader'', Some 400), (''UnsupportedScanRangeInput'', Some 400),
     (''UnsupportedSignature'', Some 400), (''UnsupportedSqlOperation'', Some 400),
     (''UnsupportedSqlStructure'', Some 400), (''UnsupportedStorageClass'', Some 400),
     (''UnsupportedSyntax'', Some 400), (''UnsupportedTypeForQuerying'', Some 400),
     (''UserKeyMustBeSpecified'', Some 400), (''ValueParseFailure'', Some 400)]"

section \<open>Operations\<close>

fun position :: "bytes \<Rightarrow> bytes list \<Rightarrow> nat" where
  "position n [] = 0"
| "position n (x # xs) = (if x = n then 0 else Suc (position n xs))"

fun as_enum_tag :: "error_code \<Rightarrow> nat" where
  "as_enum_tag (Static n) = position n ENUM_TAGS"
| "as_enum_tag (Custom _) = 2 ^ 64 - 1"

definition as_static_str :: "error_code \<Rightarrow> bytes option" where
  "as_static_str c = (let i = as_enum_tag c in if i < length STATIC_CODE_LIST then Some (STATIC_CODE_LIST ! i) else None)"

text \<open>\<open>None\<close> is the branch that the code calls unreachable.\<close>

definition as_str :: "error_code \<Rightarrow> bytes option" where
  "as_str c =
     (case as_static_str c of
        Some s \<Rightarrow> Some s
      | None \<Rightarrow> (case c of Custom s \<Rightarrow> Some s | Static _ \<Rightarrow> None))"

definition from_bytes :: "bytes \<Rightarrow> error_code option" where
  "from_bytes s =
     (if \<not> is_utf8 s then None
      else (case map_of S3_ERROR_CODE_MAP s of
          Some code \<Rightarrow> Some (Static code)
        | None \<Rightarrow>
            (case map_of S3_ERROR_CODE_LOWERCASE_MAP (map to_ascii_lowercase s) of
               Some code \<Rightarrow> Some (Static code)
             | None \<Rightarrow> Some (Custom s))))"

definition from_str :: "bytes \<Rightarrow> error_code" where
  "from_str s = (case from_bytes s of Some c \<Rightarrow> c | None \<Rightarrow> Custom s)"

fun status_code :: "error_code \<Rightarrow> nat option" where
  "status_code (Static n) = (case map_of STATUS_CODES n of Some st \<Rightarrow> st | None \<Rightarrow> None)"
| "status_code (Custom _) = None"

definition default_message :: "error_code \<Rightarrow> bytes option" where
  "default_message c =
     (case as_static_str c of None \<Rightarrow> None | Some s \<Rightarrow> map_of S3_ERROR_CODE_DEFAULT_MESSAGE s)"

section \<open>The tables agree\<close>

text \<open>
  An order on names that the kernel evaluates quickly, by the bits of the characters, and a merge sort with it: a table is
  a permutation of another one when both have the same sorted form.
\<close>

fun char_bits :: "char \<Rightarrow> bool list" where
  "char_bits (Char b0 b1 b2 b3 b4 b5 b6 b7) = [b7, b6, b5, b4, b3, b2, b1, b0]"

fun bits_less :: "bool list \<Rightarrow> bool list \<Rightarrow> bool" where
  "bits_less xs [] = False"
| "bits_less [] (y # ys) = True"
| "bits_less (x # xs) (y # ys) = (if x = y then bits_less xs ys else \<not> x)"

fun name_less :: "bytes \<Rightarrow> bytes \<Rightarrow> bool" where
  "name_less xs [] = False"
| "name_less [] (y # ys) = True"
| "name_less (x # xs) (y # ys) = (if x = y then name_less xs ys else bits_less (char_bits x) (char_bits y))"

fun strictly_rising :: "bytes list \<Rightarrow> bool" where
  "strictly_rising (x # y # zs) = (name_less x y \<and> strictly_rising (y # zs))"
| "strictly_rising _ = True"

fun name_merge :: "bytes list \<Rightarrow> bytes list \<Rightarrow> bytes list" where
  "name_merge [] ys = ys"
| "name_merge xs [] = xs"
| "name_merge (x # xs) (y # ys) = (if name_less y x then y # name_merge (x # xs) ys else x # name_merge xs (y # ys))"

fun merge_pairs :: "bytes list list \<Rightarrow> bytes list list" where
  "merge_pairs (a # b # cs) = name_merge a b # merge_pairs cs"
| "merge_pairs cs = cs"

fun merge_rounds :: "nat \<Rightarrow> bytes list list \<Rightarrow> bytes list" where
  "merge_rounds 0 cs = concat cs"
| "merge_rounds (Suc k) cs = merge_rounds k (merge_pairs cs)"

definition name_sort :: "bytes list \<Rightarrow> bytes list" where
  "name_sort xs = merge_rounds 8 (map (\<lambda>x. [x]) xs)"

lemma bits_less_trans: "bits_less a b \<Longrightarrow> bits_less b c \<Longrightarrow> bits_less a c"
  by (induction a b arbitrary: c rule: bits_less.induct) (case_tac c; auto split: if_splits)+

lemma bits_less_irrefl: "\<not> bits_less a a"
  by (induction a) auto

lemma char_bits_inj: "char_bits a = char_bits b \<Longrightarrow> a = b"
  by (cases a; cases b) auto

lemma name_less_irrefl: "\<not> name_less a a"
  by (induction a) auto

lemma name_less_trans: "name_less a b \<Longrightarrow> name_less b c \<Longrightarrow> name_less a c"
proof (induction a b arbitrary: c rule: name_less.induct)
  case (2 y ys)
  then show ?case by (cases c) auto
next
  case (3 x xs y ys)
  then obtain z zs where c: "c = z # zs" by (cases c) auto
  show ?case
    using 3 bits_less_trans [of "char_bits x" "char_bits y" "char_bits z"] bits_less_irrefl [of "char_bits x"]
    by (auto simp: c split: if_splits)
qed simp

lemma rising_head: "name_less x y \<Longrightarrow> strictly_rising (y # zs) \<Longrightarrow> z \<in> set (y # zs) \<Longrightarrow> name_less x z"
  by (induction zs arbitrary: x y) (auto intro: name_less_trans)

lemma rising_distinct: "strictly_rising xs \<Longrightarrow> distinct xs"
proof (induction xs rule: strictly_rising.induct)
  case (1 x y zs)
  have "x \<notin> set (y # zs)" using 1 rising_head [of x y zs x] name_less_irrefl [of x] by auto
  with 1 show ?case by simp
qed auto

lemma mset_name_merge: "mset (name_merge xs ys) = mset xs + mset ys"
  by (induction xs ys rule: name_merge.induct) auto

lemma mset_merge_pairs: "mset (concat (merge_pairs cs)) = mset (concat cs)"
  by (induction cs rule: merge_pairs.induct) (auto simp: mset_name_merge)

lemma mset_name_sort: "mset (name_sort xs) = mset xs"
proof -
  have "mset (merge_rounds k cs) = mset (concat cs)" for k cs
    by (induction k arbitrary: cs) (auto simp: mset_merge_pairs)
  then show ?thesis by (simp add: name_sort_def)
qed

lemma to_ascii_lowercase_Char [code]:
  "to_ascii_lowercase (Char b0 b1 b2 b3 b4 b5 b6 b7) =
     (if \<not> b7 \<and> b6 \<and> \<not> b5 \<and> (b0 \<or> b1 \<or> b2 \<or> b3 \<or> b4) \<and> \<not> (b4 \<and> b3 \<and> (b2 \<or> b1 \<and> b0))
      then Char b0 b1 b2 b3 b4 True b6 b7 else Char b0 b1 b2 b3 b4 b5 b6 b7)"
  by (cases b0; cases b1; cases b2; cases b3; cases b4; cases b5; cases b6; cases b7)
    (simp_all add: to_ascii_lowercase_def is_ascii_uppercase_def char_of_eq_iff)

lemma tags_are_positions: "ENUM_TAGS = STATIC_CODE_LIST"
  by (simp only: ENUM_TAGS_def STATIC_CODE_LIST_def)

lemma codes_rising: "strictly_rising STATIC_CODE_LIST"
  by code_simp

lemma map_keys: "list_all (\<lambda>(k, v). k = v) S3_ERROR_CODE_MAP"
  by code_simp

lemma map_sorted: "name_sort (map fst S3_ERROR_CODE_MAP) = STATIC_CODE_LIST"
  by code_simp

lemma lowercase_keys: "list_all (\<lambda>(k, v). k = map to_ascii_lowercase v) S3_ERROR_CODE_LOWERCASE_MAP"
  by code_simp

lemma lowercase_values: "name_sort (map snd S3_ERROR_CODE_LOWERCASE_MAP) = STATIC_CODE_LIST"
  by code_simp

lemma lowercase_rising: "strictly_rising (name_sort (map fst S3_ERROR_CODE_LOWERCASE_MAP))"
  by code_simp

lemma statuses_complete: "map fst STATUS_CODES = STATIC_CODE_LIST"
  by (simp only: STATUS_CODES_def STATIC_CODE_LIST_def list.map fst_conv)

lemma messages_complete: "name_sort (map fst S3_ERROR_CODE_DEFAULT_MESSAGE) = STATIC_CODE_LIST"
  by code_simp

section \<open>The codes and their names\<close>

lemma distinct_codes: "distinct STATIC_CODE_LIST"
  using codes_rising by (rule rising_distinct)

lemma position_nth: "n \<in> set xs \<Longrightarrow> position n xs < length xs \<and> xs ! position n xs = n"
  by (induction xs) auto

lemma position_absent: "n \<notin> set xs \<Longrightarrow> position n xs = length xs"
  by (induction xs) auto

lemma few_codes: "length STATIC_CODE_LIST < 2 ^ 64 - 1"
proof -
  have "length STATIC_CODE_LIST = 239" by (simp add: STATIC_CODE_LIST_def)
  then show ?thesis by simp
qed

lemma as_static_str_simps [simp]:
  "as_static_str (Static n) = (if n \<in> set STATIC_CODE_LIST then Some n else None)"
  "as_static_str (Custom s) = None"
  using few_codes position_nth [of n STATIC_CODE_LIST] position_absent [of n STATIC_CODE_LIST]
  by (auto simp: as_static_str_def tags_are_positions)

lemma set_name_sort: "name_sort xs = ys \<Longrightarrow> set xs = set ys"
  using mset_name_sort [of xs] by (metis set_mset_mset)

lemma distinct_name_sort: "distinct (name_sort xs) \<Longrightarrow> distinct xs"
  using mset_name_sort [of xs] by (metis mset_eq_imp_distinct_iff)

lemma map_of_codes: "map_of S3_ERROR_CODE_MAP s = (if s \<in> set STATIC_CODE_LIST then Some s else None)"
proof (cases "s \<in> set STATIC_CODE_LIST")
  case True
  then obtain v where "(s, v) \<in> set S3_ERROR_CODE_MAP" using set_name_sort [OF map_sorted] by force
  moreover from this have "v = s" using map_keys by (auto simp: list_all_iff)
  moreover have "distinct (map fst S3_ERROR_CODE_MAP)"
    by (rule distinct_name_sort) (simp add: map_sorted distinct_codes)
  ultimately show ?thesis using True by simp
next
  case False
  then have "s \<notin> set (map fst S3_ERROR_CODE_MAP)" by (simp only: set_name_sort [OF map_sorted] not_False_eq_True)
  with False show ?thesis by (simp add: map_of_eq_None_iff)
qed

lemma map_of_lowercase:
  "map_of S3_ERROR_CODE_LOWERCASE_MAP s = Some n \<longleftrightarrow> n \<in> set STATIC_CODE_LIST \<and> map to_ascii_lowercase n = s"
proof -
  have d: "distinct (map fst S3_ERROR_CODE_LOWERCASE_MAP)"
    by (rule distinct_name_sort) (rule rising_distinct [OF lowercase_rising])
  have k: "k = map to_ascii_lowercase v" if "(k, v) \<in> set S3_ERROR_CODE_LOWERCASE_MAP" for k v
    using lowercase_keys that by (auto simp: list_all_iff)
  have v: "n \<in> set STATIC_CODE_LIST \<longleftrightarrow> (\<exists>k. (k, n) \<in> set S3_ERROR_CODE_LOWERCASE_MAP)" for n
    unfolding set_name_sort [OF lowercase_values, symmetric] by force
  show ?thesis using d k v by (metis map_of_eq_Some_iff)
qed

definition code_ok :: "error_code \<Rightarrow> bool" where
  "code_ok c =
     (case c of
        Static n \<Rightarrow> n \<in> set STATIC_CODE_LIST
      | Custom s \<Rightarrow> is_utf8 s \<and> list_all (\<lambda>n. \<not> eq_ignore_ascii_case n s) STATIC_CODE_LIST)"

lemma lowercase_unique:
  "n \<in> set STATIC_CODE_LIST \<Longrightarrow> m \<in> set STATIC_CODE_LIST \<Longrightarrow> map to_ascii_lowercase n = map to_ascii_lowercase m \<Longrightarrow> n = m"
  using map_of_lowercase [of "map to_ascii_lowercase m" n] map_of_lowercase [of "map to_ascii_lowercase m" m] by simp

lemma lowercase_None:
  "map_of S3_ERROR_CODE_LOWERCASE_MAP (map to_ascii_lowercase s) = None \<longleftrightarrow>
     list_all (\<lambda>n. \<not> eq_ignore_ascii_case n s) STATIC_CODE_LIST"
  using map_of_lowercase [of "map to_ascii_lowercase s"]
  by (cases "map_of S3_ERROR_CODE_LOWERCASE_MAP (map to_ascii_lowercase s)") (auto simp: eq_ignore_ascii_case_def list_all_iff)

lemma from_bytes_cases:
  "from_bytes s =
     (if \<not> is_utf8 s then None
      else (case find (\<lambda>n. eq_ignore_ascii_case n s) STATIC_CODE_LIST of Some n \<Rightarrow> Some (Static n) | None \<Rightarrow> Some (Custom s)))"
proof (cases "find (\<lambda>n. eq_ignore_ascii_case n s) STATIC_CODE_LIST")
  case None
  then have none: "list_all (\<lambda>n. \<not> eq_ignore_ascii_case n s) STATIC_CODE_LIST" by (auto simp: find_None_iff list_all_iff)
  then have "s \<notin> set STATIC_CODE_LIST" by (auto simp: list_all_iff eq_ignore_ascii_case_def)
  moreover have "map_of S3_ERROR_CODE_LOWERCASE_MAP (map to_ascii_lowercase s) = None" using none by (simp only: lowercase_None)
  ultimately show ?thesis using None by (simp add: from_bytes_def map_of_codes)
next
  case (Some n)
  then have n: "n \<in> set STATIC_CODE_LIST" "map to_ascii_lowercase n = map to_ascii_lowercase s"
    by (auto simp: find_Some_iff eq_ignore_ascii_case_def)
  then have "map_of S3_ERROR_CODE_LOWERCASE_MAP (map to_ascii_lowercase s) = Some n" by (simp add: map_of_lowercase)
  with Some n show ?thesis using lowercase_unique [of n s] by (auto simp: from_bytes_def map_of_codes)
qed

lemma from_bytes_Static:
  "from_bytes s = Some (Static n) \<longleftrightarrow> is_utf8 s \<and> n \<in> set STATIC_CODE_LIST \<and> eq_ignore_ascii_case n s"
proof (cases "find (\<lambda>n. eq_ignore_ascii_case n s) STATIC_CODE_LIST")
  case None
  then have "n \<notin> set STATIC_CODE_LIST \<or> \<not> eq_ignore_ascii_case n s" by (auto simp: find_None_iff)
  with None show ?thesis by (auto simp: from_bytes_cases)
next
  case (Some m)
  then have "m \<in> set STATIC_CODE_LIST" "map to_ascii_lowercase m = map to_ascii_lowercase s"
    by (auto simp: find_Some_iff eq_ignore_ascii_case_def)
  then show ?thesis using Some lowercase_unique [of n m] by (auto simp: from_bytes_cases eq_ignore_ascii_case_def)
qed

lemma from_bytes_Custom: "from_bytes s = Some (Custom t) \<longleftrightarrow> s = t \<and> code_ok (Custom t)"
proof -
  have "find (\<lambda>n. eq_ignore_ascii_case n s) STATIC_CODE_LIST = None \<longleftrightarrow> list_all (\<lambda>n. \<not> eq_ignore_ascii_case n s) STATIC_CODE_LIST"
    by (auto simp: find_None_iff list_all_iff)
  then show ?thesis by (auto simp: from_bytes_cases code_ok_def split: option.splits)
qed

lemma ascii_byte: "\<not> digit7 b \<Longrightarrow> byte_in 0 127 b"
  by (cases b) (auto simp: byte_in_def split: if_splits)

lemma codes_are_ascii: "list_all (list_all (\<lambda>b. \<not> digit7 b)) STATIC_CODE_LIST"
  by code_simp

lemma codes_are_utf8: "list_all is_utf8 STATIC_CODE_LIST"
  using codes_are_ascii by (auto simp: list_all_iff intro!: is_utf8_ascii ascii_byte)



end
