(* ===== verification/Etag.thy ===== *)
theory Etag
  imports Prelude
begin

text \<open>
  Entity tags (s3s/src/dto/etag.rs) and the conditions of \<^verbatim>\<open>If-Match\<close> and \<^verbatim>\<open>If-None-Match\<close> (s3s/src/dto/etag_condition.rs): parsing,
  printing and the two comparisons. The constructor of a header value of the \<^verbatim>\<open>http\<close> crate is the parameter \<open>H\<close>.
\<close>

datatype etag = Strong bytes | Weak bytes

datatype parse_etag_error = EtagInvalidFormat | EtagInvalidChar

datatype etag_comparison = StrongMatch | WeakMatch | NoMatch

fun etag_value :: "etag \<Rightarrow> bytes" where
  "etag_value (Strong s) = s"
| "etag_value (Weak s) = s"

fun as_strong :: "etag \<Rightarrow> bytes option" where
  "as_strong (Strong s) = Some s"
| "as_strong (Weak _) = None"

fun as_weak :: "etag \<Rightarrow> bytes option" where
  "as_weak (Weak s) = Some s"
| "as_weak (Strong _) = None"

fun strong_cmp :: "etag \<Rightarrow> etag \<Rightarrow> bool" where
  "strong_cmp (Strong a) (Strong b) = (a = b)"
| "strong_cmp _ _ = False"

definition weak_cmp :: "etag \<Rightarrow> etag \<Rightarrow> bool" where
  "weak_cmp x y = (etag_value x = etag_value y)"

definition etag_compare :: "etag \<Rightarrow> etag \<Rightarrow> etag_comparison" where
  "etag_compare x y =
     (if etag_value x \<noteq> etag_value y then NoMatch
      else (case (x, y) of (Strong _, Strong _) \<Rightarrow> StrongMatch | _ \<Rightarrow> WeakMatch))"

definition check_header_value :: "bytes \<Rightarrow> bool" where
  "check_header_value s = list_all (\<lambda>b. byte_in 32 255 b \<and> b \<noteq> CHR 0x7F \<or> b = HTAB) s"

definition is_valid_unquoted_etag :: "bytes \<Rightarrow> bool" where
  "is_valid_unquoted_etag s \<longleftrightarrow> s \<noteq> [] \<and> list_all (\<lambda>b. is_ascii_alphanumeric b \<or> b = CHR ''-'') s"

text \<open>The text of ASCII bytes (\<^verbatim>\<open>from_ascii_simd\<close>), and the slice pattern \<^verbatim>\<open>[b'"', val @ .., b'"']\<close>.\<close>

definition from_ascii :: "bytes \<Rightarrow> bytes option" where
  "from_ascii s = (if list_all (byte_in 0 127) s then Some s else None)"

definition in_quotes :: "bytes \<Rightarrow> bytes option" where
  "in_quotes s =
     (case s of
        a # b # r \<Rightarrow> if a = DQUOTE \<and> last (b # r) = DQUOTE then Some (butlast (b # r)) else None
      | _ \<Rightarrow> None)"

definition checked_etag :: "(bytes \<Rightarrow> etag) \<Rightarrow> bytes \<Rightarrow> parse_etag_error + etag" where
  "checked_etag mk val =
     (if \<not> check_header_value val then Inl EtagInvalidChar
      else (case from_ascii val of None \<Rightarrow> Inl EtagInvalidChar | Some v \<Rightarrow> Inr (mk v)))"

definition etag_parse_http_header :: "bytes \<Rightarrow> parse_etag_error + etag" where
  "etag_parse_http_header src =
     (case in_quotes src of
        Some val \<Rightarrow> checked_etag Strong val
      | None \<Rightarrow>
          (case (if take 2 src = ''W/'' then in_quotes (drop 2 src) else None) of
             Some val \<Rightarrow> checked_etag Weak val
           | None \<Rightarrow>
               (if is_valid_unquoted_etag src then
                  (case from_ascii src of None \<Rightarrow> Inl EtagInvalidChar | Some v \<Rightarrow> Inr (Strong v))
                else Inl EtagInvalidFormat)))"

fun etag_to_http_header :: "(bytes \<Rightarrow> bytes option) \<Rightarrow> etag \<Rightarrow> bytes option" where
  "etag_to_http_header H (Strong s) = H ([DQUOTE] @ s @ [DQUOTE])"
| "etag_to_http_header H (Weak s) = H (''W/'' @ [DQUOTE] @ s @ [DQUOTE])"

section \<open>Conditions\<close>

datatype etag_condition = CondETag etag | CondAny

datatype parse_etag_condition_error = CondInvalidFormat | CondInvalidChar | CondETagError parse_etag_error

definition condition_parse_http_header :: "bytes \<Rightarrow> parse_etag_condition_error + etag_condition" where
  "condition_parse_http_header src =
     (if src = ''*'' then Inr CondAny
      else (case etag_parse_http_header src of Inl e \<Rightarrow> Inl (CondETagError e) | Inr t \<Rightarrow> Inr (CondETag t)))"

fun condition_to_http_header :: "(bytes \<Rightarrow> bytes option) \<Rightarrow> etag_condition \<Rightarrow> bytes option" where
  "condition_to_http_header H (CondETag t) = etag_to_http_header H t"
| "condition_to_http_header H CondAny = H ''*''"

section \<open>Properties\<close>

lemma in_quotes_iff: "in_quotes s = Some v \<longleftrightarrow> s = [DQUOTE] @ v @ [DQUOTE]"
proof
  assume a: "in_quotes s = Some v"
  then obtain b r where s: "s = DQUOTE # b # r" "last (b # r) = DQUOTE" "v = butlast (b # r)"
    by (auto simp: in_quotes_def split: list.splits if_splits)
  then have "b # r = v @ [DQUOTE]" by (metis append_butlast_last_id list.distinct(1))
  with s(1) show "s = [DQUOTE] @ v @ [DQUOTE]" by simp
next
  assume "s = [DQUOTE] @ v @ [DQUOTE]"
  then show "in_quotes s = Some v" by (cases v) (simp_all add: in_quotes_def)
qed

lemma in_quotes_quoted [simp]: "in_quotes (DQUOTE # v @ [DQUOTE]) = Some v"
  by (simp add: in_quotes_iff)

definition etag_ok :: "bytes \<Rightarrow> bool" where
  "etag_ok v \<longleftrightarrow> check_header_value v \<and> list_all (byte_in 0 127) v"

lemma checked_etag_cases: "checked_etag mk v = (if etag_ok v then Inr (mk v) else Inl EtagInvalidChar)"
  by (simp add: checked_etag_def etag_ok_def from_ascii_def)

lemma bare_byte: "is_ascii_alphanumeric b \<or> b = CHR ''-'' \<Longrightarrow> 45 \<le> (of_char b :: nat) \<and> (of_char b :: nat) \<le> 122"
  by (auto simp: ascii_defs)

lemma bare_byte_ok: "is_ascii_alphanumeric b \<or> b = CHR ''-'' \<Longrightarrow> byte_in 32 255 b \<and> b \<noteq> CHR 0x7F \<and> byte_in 0 127 b"
  using bare_byte [of b] by (auto simp: byte_in_def)

lemma unquoted_ok: "is_valid_unquoted_etag s \<Longrightarrow> etag_ok s"
  using bare_byte_ok by (auto simp: is_valid_unquoted_etag_def etag_ok_def check_header_value_def list_all_iff)

lemma unquoted_ascii: "is_valid_unquoted_etag s \<Longrightarrow> from_ascii s = Some s"
  using unquoted_ok by (auto simp: etag_ok_def from_ascii_def)

lemma weak_not_strong: "in_quotes (''W/'' @ s) = None"
  by (auto simp: in_quotes_def split: list.splits)

lemma parse_strong: "etag_parse_http_header ([DQUOTE] @ v @ [DQUOTE]) = (if etag_ok v then Inr (Strong v) else Inl EtagInvalidChar)"
  by (simp add: etag_parse_http_header_def checked_etag_cases)

lemma parse_weak: "etag_parse_http_header (''W/'' @ [DQUOTE] @ v @ [DQUOTE]) = (if etag_ok v then Inr (Weak v) else Inl EtagInvalidChar)"
  using weak_not_strong [of "DQUOTE # v @ [DQUOTE]"] by (simp add: etag_parse_http_header_def checked_etag_cases)

lemma etag_parse_Inr:
  "etag_parse_http_header s = Inr t \<longleftrightarrow>
     (\<exists>v. etag_ok v \<and> (s = [DQUOTE] @ v @ [DQUOTE] \<and> t = Strong v \<or> s = ''W/'' @ [DQUOTE] @ v @ [DQUOTE] \<and> t = Weak v))
     \<or> is_valid_unquoted_etag s \<and> t = Strong s"
proof (cases "in_quotes s")
  case (Some v)
  then have s: "s = [DQUOTE] @ v @ [DQUOTE]" by (simp add: in_quotes_iff)
  have "\<not> is_valid_unquoted_etag s" by (simp add: s is_valid_unquoted_etag_def ascii_defs)
  then show ?thesis using s by (auto simp: parse_strong [simplified])
next
  case None
  show ?thesis
  proof (cases "\<exists>v. s = ''W/'' @ [DQUOTE] @ v @ [DQUOTE]")
    case True
    then obtain v where s: "s = ''W/'' @ [DQUOTE] @ v @ [DQUOTE]" by blast
    have "\<not> is_valid_unquoted_etag s" by (simp add: s is_valid_unquoted_etag_def ascii_defs)
    then show ?thesis using s by (auto simp: parse_weak [simplified])
  next
    case False
    have "(if take 2 s = ''W/'' then in_quotes (drop 2 s) else None) = None"
    proof (cases "take 2 s = ''W/'' \<and> in_quotes (drop 2 s) \<noteq> None")
      case True
      then obtain v where "drop 2 s = [DQUOTE] @ v @ [DQUOTE]" by (auto simp: in_quotes_iff)
      with True have "s = ''W/'' @ [DQUOTE] @ v @ [DQUOTE]" by (metis append_take_drop_id)
      with False show ?thesis by blast
    qed auto
    then have "etag_parse_http_header s = (if is_valid_unquoted_etag s then Inr (Strong s) else Inl EtagInvalidFormat)"
      using None by (simp add: etag_parse_http_header_def unquoted_ascii)
    then show ?thesis using None False by (auto simp: in_quotes_iff split: if_splits)
  qed
qed

lemma printed_ok: "check_header_value ([DQUOTE] @ v @ [DQUOTE]) = check_header_value v"
  "check_header_value (''W/'' @ [DQUOTE] @ v @ [DQUOTE]) = check_header_value v"
  by (auto simp: check_header_value_def byte_in_def)

definition is_ascii_tag :: "etag \<Rightarrow> bool" where
  "is_ascii_tag t = list_all (byte_in 0 127) (etag_value t)"

lemma printed_parsed:
  assumes "\<And>bs. H bs = (if check_header_value bs then Some bs else None)" and "etag_to_http_header H t = Some out"
  shows "etag_parse_http_header out = (if is_ascii_tag t then Inr t else Inl EtagInvalidChar) \<and> out \<noteq> ''*''"
proof (cases t)
  case (Strong v)
  with assms have "check_header_value v" "out = [DQUOTE] @ v @ [DQUOTE]" using printed_ok(1) [of v] by (auto split: if_splits)
  with Strong parse_strong [of v] show ?thesis by (auto simp: is_ascii_tag_def etag_ok_def)
next
  case (Weak v)
  with assms have "check_header_value v" "out = ''W/'' @ [DQUOTE] @ v @ [DQUOTE]" using printed_ok(2) [of v] by (auto split: if_splits)
  with Weak parse_weak [of v] show ?thesis by (auto simp: is_ascii_tag_def etag_ok_def)
qed



end
