(* ===== verification/Xml.thy ===== *)
theory Xml
  imports Etag
begin

text \<open>
  The restXml codec (s3s/src/xml/de.rs, s3s/src/xml/ser.rs, s3s/src/xml/mod.rs): the pull deserializer over the events of
  \<^verbatim>\<open>quick_xml\<close>, and the serializer as the list of what it writes. The reader of \<^verbatim>\<open>quick_xml\<close> is the list of the answers that it
  will give; an entity reference comes with the answer of \<^verbatim>\<open>resolve_xml_entity\<close> for it, and an attribute with that of the
  attribute parser. After the list the reader answers the end of the input.
\<close>

type_synonym attributes = "(bytes \<times> bytes option) option list"

datatype xml_event =
    XStart bytes attributes
  | XEnd bytes
  | XText bytes
  | XEmpty bytes attributes
  | XRef bytes "bytes option"
  | XComment bytes
  | XCData bytes
  | XDecl bytes
  | XPI bytes
  | XDocType bytes

datatype de_error =
    InvalidXml
  | UnexpectedEof
  | UnexpectedStart
  | UnexpectedEnd
  | UnexpectedTagName
  | InvalidAttribute
  | UnexpectedAttributeName
  | InvalidContent
  | MissingField
  | DuplicateField

datatype de_event = DStart bytes attributes | DEnd bytes | DText bytes | DEof

record deserializer =
  xml_inner :: "(unit + xml_event) list"
  peeked :: "de_event option"
  next_slot :: "de_event option"

definition Deserializer_new :: "(unit + xml_event) list \<Rightarrow> deserializer" where
  "Deserializer_new xml = \<lparr>xml_inner = xml, peeked = None, next_slot = None\<rparr>"

section \<open>Character references\<close>

text \<open>The integer parsers of the standard library: an optional plus sign, at least one digit, no overflow.\<close>

definition radix_digit :: "nat \<Rightarrow> byte \<Rightarrow> nat option" where
  "radix_digit radix b =
     (let v = (if is_ascii_digit b then of_char b - 48
               else if is_ascii_lowercase b then of_char b - 87
               else if is_ascii_uppercase b then of_char b - 55 else 36)
      in if v < radix then Some v else None)"

fun radix_value :: "nat \<Rightarrow> nat \<Rightarrow> bytes \<Rightarrow> nat option" where
  "radix_value radix acc [] = Some acc"
| "radix_value radix acc (b # bs) =
     (case radix_digit radix b of
        None \<Rightarrow> None
      | Some v \<Rightarrow> if radix * acc + v < 2 ^ 32 then radix_value radix (radix * acc + v) bs else None)"

definition u32_from_str_radix :: "bytes \<Rightarrow> nat \<Rightarrow> nat option" where
  "u32_from_str_radix s radix =
     (let ds = (if take 1 s = ''+'' then drop 1 s else s) in if ds = [] then None else radix_value radix 0 ds)"

text \<open>The UTF-8 encoding of a character (\<^verbatim>\<open>char::from_u32(c).to_string()\<close>).\<close>

definition encode_utf8 :: "nat \<Rightarrow> bytes" where
  "encode_utf8 c =
     map char_of
       (if c < 0x80 then [c]
        else if c < 0x800 then [0xC0 + c div 64, 0x80 + c mod 64]
        else if c < 0x10000 then [0xE0 + c div 4096, 0x80 + c div 64 mod 64, 0x80 + c mod 64]
        else [0xF0 + c div 262144, 0x80 + c div 4096 mod 64, 0x80 + c div 64 mod 64, 0x80 + c mod 64])"

definition char_from_u32 :: "nat \<Rightarrow> bytes option" where
  "char_from_u32 c = (if c < 0x110000 \<and> \<not> (0xD800 \<le> c \<and> c \<le> 0xDFFF) then Some (encode_utf8 c) else None)"

definition resolve_char_ref :: "bytes \<Rightarrow> bytes option" where
  "resolve_char_ref name =
     (case strip_prefix ''#'' name of
        None \<Rightarrow> None
      | Some entity \<Rightarrow>
          (if entity = [] then None
           else (case (case strip_prefix ''x'' entity of
                     Some hex \<Rightarrow> u32_from_str_radix hex 16
                   | None \<Rightarrow> u32_from_str_radix entity 10) of
               None \<Rightarrow> None
             | Some c \<Rightarrow>
                 (if c = 0x9 \<or> c = 0xA \<or> c = 0xD \<or> 0x20 \<le> c \<and> c \<le> 0xD7FF \<or> 0xE000 \<le> c \<and> c \<le> 0xFFFD
                     \<or> 0x100000 \<le> c \<and> c \<le> 0x10FFFF
                  then char_from_u32 c else None))))"

section \<open>Events\<close>

text \<open>The loop of \<^verbatim>\<open>read_event\<close> on the reader: the answer, the event for the extra slot, and the reader afterwards.\<close>

fun read_inner :: "(unit + xml_event) list \<Rightarrow> (de_error + de_event) \<times> de_event option \<times> (unit + xml_event) list" where
  "read_inner [] = (Inr DEof, None, [])"
| "read_inner (Inl _ # r) = (Inl InvalidXml, None, r)"
| "read_inner (Inr ev # r) =
     (case ev of
        XStart n a \<Rightarrow> (Inr (DStart n a), None, r)
      | XEnd n \<Rightarrow> (Inr (DEnd n), None, r)
      | XText t \<Rightarrow> (Inr (DText t), None, r)
      | XEmpty n a \<Rightarrow> (Inr (DStart n a), Some (DEnd n), r)
      | XRef name predefined \<Rightarrow>
          (case (case predefined of Some v \<Rightarrow> Some v | None \<Rightarrow> resolve_char_ref name) of
             Some v \<Rightarrow> (Inr (DText v), None, r)
           | None \<Rightarrow> (Inl InvalidContent, None, r))
      | _ \<Rightarrow> read_inner r)"

definition read_event :: "deserializer \<Rightarrow> (de_error + de_event) \<times> deserializer" where
  "read_event d =
     (case next_slot d of
        Some ev \<Rightarrow> (Inr ev, d\<lparr>next_slot := None\<rparr>)
      | None \<Rightarrow> (case read_inner (xml_inner d) of (res, slot, r) \<Rightarrow> (res, d\<lparr>xml_inner := r, next_slot := slot\<rparr>)))"

definition next_event :: "deserializer \<Rightarrow> (de_error + de_event) \<times> deserializer" where
  "next_event d = (case peeked d of Some ev \<Rightarrow> (Inr ev, d\<lparr>peeked := None\<rparr>) | None \<Rightarrow> read_event d)"

definition peek_event :: "deserializer \<Rightarrow> (de_error + de_event) \<times> deserializer" where
  "peek_event d =
     (case peeked d of
        Some ev \<Rightarrow> (Inr ev, d)
      | None \<Rightarrow>
          (case read_event d of
             (Inl e, d1) \<Rightarrow> (Inl e, d1)
           | (Inr ev, d1) \<Rightarrow> (Inr ev, d1\<lparr>peeked := Some ev\<rparr>)))"

definition consume_peeked :: "deserializer \<Rightarrow> deserializer" where
  "consume_peeked d = d\<lparr>peeked := None\<rparr>"

text \<open>The events that can still come, at most two for an answer of the reader, and that an event uses one up.\<close>

definition events_left :: "deserializer \<Rightarrow> nat" where
  "events_left d = 2 * length (xml_inner d) + (if peeked d = None then 0 else 1) + (if next_slot d = None then 0 else 1)"

lemma read_inner_left:
  "read_inner xs = (Inr ev, slot, r) \<Longrightarrow> ev \<noteq> DEof \<Longrightarrow>
     2 * length r + (if slot = None then 0 else 1) < 2 * length xs"
  by (induction xs rule: read_inner.induct) (auto split: xml_event.splits option.splits)

lemma read_event_left:
  "read_event d = (Inr ev, d1) \<Longrightarrow> ev \<noteq> DEof \<Longrightarrow> events_left d1 < events_left d"
  using read_inner_left [of "xml_inner d" ev] by (auto simp: read_event_def events_left_def split: option.splits prod.splits)

lemma next_event_left:
  "next_event d = (Inr ev, d1) \<Longrightarrow> ev \<noteq> DEof \<Longrightarrow> events_left d1 < events_left d"
  using read_event_left [of d ev d1] by (auto simp: next_event_def events_left_def split: option.splits)

lemma peek_event_left:
  assumes "peek_event d = (Inr ev, d1)" and "ev \<noteq> DEof"
  shows "events_left (consume_peeked d1) < events_left d"
proof (cases "peeked d")
  case None
  with assms obtain d0 where d0: "read_event d = (Inr ev, d0)" "d1 = d0\<lparr>peeked := Some ev\<rparr>"
    by (auto simp: peek_event_def split: prod.splits sum.splits)
  have "events_left (consume_peeked d1) \<le> events_left d0" by (simp add: events_left_def consume_peeked_def d0(2))
  with read_event_left [OF d0(1) assms(2)] show ?thesis by simp
next
  case (Some ev')
  with assms show ?thesis by (auto simp: peek_event_def events_left_def consume_peeked_def)
qed

section \<open>Elements\<close>

text \<open>
  A step of the deserializer. \<open>None\<close> stands for a computation that does not return, which only the loops with a callback
  can be.
\<close>

type_synonym 'a de = "deserializer \<Rightarrow> (de_error + 'a) option \<times> deserializer"

definition de_return :: "'a \<Rightarrow> 'a de" where
  "de_return a d = (Some (Inr a), d)"

definition de_fail :: "de_error \<Rightarrow> 'a de" where
  "de_fail e d = (Some (Inl e), d)"

definition de_bind :: "'a de \<Rightarrow> ('a \<Rightarrow> 'b de) \<Rightarrow> 'b de" where
  "de_bind m k d =
     (case m d of
        (None, d1) \<Rightarrow> (None, d1)
      | (Some (Inl e), d1) \<Rightarrow> (Some (Inl e), d1)
      | (Some (Inr a), d1) \<Rightarrow> k a d1)"

text \<open>The loops that take events until one is not a text: by consuming them, and by peeking.\<close>

function next_markup :: "deserializer \<Rightarrow> (de_error + de_event) \<times> deserializer" where
  "next_markup d =
     (case next_event d of
        (Inr (DText _), d1) \<Rightarrow> next_markup d1
      | r \<Rightarrow> r)"
  by auto
termination by (relation "measure events_left") (auto dest: next_event_left [OF sym])

function peek_markup :: "deserializer \<Rightarrow> (de_error + de_event) \<times> deserializer" where
  "peek_markup d =
     (case peek_event d of
        (Inr (DText _), d1) \<Rightarrow> peek_markup (consume_peeked d1)
      | r \<Rightarrow> r)"
  by auto
termination by (relation "measure events_left") (auto dest: peek_event_left [OF sym])

declare next_markup.simps [simp del] peek_markup.simps [simp del]

definition expect_start :: "bytes \<Rightarrow> unit de" where
  "expect_start name d =
     (case next_markup d of
        (Inl e, d1) \<Rightarrow> (Some (Inl e), d1)
      | (Inr (DStart n _), d1) \<Rightarrow> (Some (if n \<noteq> name then Inl UnexpectedTagName else Inr ()), d1)
      | (Inr (DEnd _), d1) \<Rightarrow> (Some (Inl UnexpectedEnd), d1)
      | (Inr _, d1) \<Rightarrow> (Some (Inl UnexpectedEof), d1))"

definition expect_start_any :: "bytes list \<Rightarrow> bytes de" where
  "expect_start_any names d =
     (case next_markup d of
        (Inl e, d1) \<Rightarrow> (Some (Inl e), d1)
      | (Inr (DStart n _), d1) \<Rightarrow>
          (Some (case find (\<lambda>m. m = n) names of Some m \<Rightarrow> Inr m | None \<Rightarrow> Inl UnexpectedTagName), d1)
      | (Inr (DEnd _), d1) \<Rightarrow> (Some (Inl UnexpectedEnd), d1)
      | (Inr _, d1) \<Rightarrow> (Some (Inl UnexpectedEof), d1))"

definition expect_end :: "bytes \<Rightarrow> unit de" where
  "expect_end name d =
     (case next_markup d of
        (Inl e, d1) \<Rightarrow> (Some (Inl e), d1)
      | (Inr (DStart _ _), d1) \<Rightarrow> (Some (Inl UnexpectedStart), d1)
      | (Inr (DEnd n), d1) \<Rightarrow> (Some (if n \<noteq> name then Inl UnexpectedTagName else Inr ()), d1)
      | (Inr _, d1) \<Rightarrow> (Some (Inl UnexpectedEof), d1))"

definition expect_eof :: "unit de" where
  "expect_eof d =
     (case next_markup d of
        (Inl e, d1) \<Rightarrow> (Some (Inl e), d1)
      | (Inr (DStart _ _), d1) \<Rightarrow> (Some (Inl UnexpectedStart), d1)
      | (Inr (DEnd _), d1) \<Rightarrow> (Some (Inl UnexpectedEnd), d1)
      | (Inr _, d1) \<Rightarrow> (Some (Inr ()), d1))"

definition named_element :: "bytes \<Rightarrow> 'a de \<Rightarrow> 'a de" where
  "named_element name f =
     de_bind (expect_start name) (\<lambda>_. de_bind f (\<lambda>ans. de_bind (expect_end name) (\<lambda>_. de_return ans)))"

definition named_element_any :: "bytes list \<Rightarrow> 'a de \<Rightarrow> 'a de" where
  "named_element_any names f =
     de_bind (expect_start_any names) (\<lambda>name. de_bind f (\<lambda>ans. de_bind (expect_end name) (\<lambda>_. de_return ans)))"

definition element :: "(bytes \<Rightarrow> 'a de) \<Rightarrow> 'a de" where
  "element f d =
     (case peek_markup d of
        (Inl e, d1) \<Rightarrow> (Some (Inl e), d1)
      | (Inr (DStart n _), d1) \<Rightarrow>
          de_bind (f n) (\<lambda>ans. de_bind (expect_end n) (\<lambda>_. de_return ans)) (consume_peeked d1)
      | (Inr _, d1) \<Rightarrow> (Some (Inl UnexpectedEnd), d1))"

text \<open>
  The loop over the child elements with the variables that its callback captures as a state. Every round takes the start of an
  element, so that more rounds than there are events cannot happen.
\<close>

fun for_each_loop :: "nat \<Rightarrow> ('s \<Rightarrow> bytes \<Rightarrow> attributes \<Rightarrow> 's de) \<Rightarrow> 's \<Rightarrow> 's de" where
  "for_each_loop 0 f s d = (None, d)"
| "for_each_loop (Suc k) f s d =
     (case peek_markup d of
        (Inl e, d1) \<Rightarrow> (Some (Inl e), d1)
      | (Inr (DStart n a), d1) \<Rightarrow>
          de_bind (f s n a) (\<lambda>s1. de_bind (expect_end n) (\<lambda>_. for_each_loop k f s1)) (consume_peeked d1)
      | (Inr _, d1) \<Rightarrow> (Some (Inr s), d1))"

definition for_each_element_with_start :: "('s \<Rightarrow> bytes \<Rightarrow> attributes \<Rightarrow> 's de) \<Rightarrow> 's \<Rightarrow> 's de" where
  "for_each_element_with_start f s d = for_each_loop (Suc (events_left d)) f s d"

definition for_each_element :: "('s \<Rightarrow> bytes \<Rightarrow> 's de) \<Rightarrow> 's \<Rightarrow> 's de" where
  "for_each_element f = for_each_element_with_start (\<lambda>s n _. f s n)"

function text_loop :: "bytes option \<Rightarrow> deserializer \<Rightarrow> (de_error + bytes) \<times> deserializer" where
  "text_loop buf d =
     (case peek_event d of
        (Inl e, d1) \<Rightarrow> (Inl e, d1)
      | (Inr (DStart _ _), d1) \<Rightarrow> (Inl UnexpectedStart, consume_peeked d1)
      | (Inr (DEnd _), d1) \<Rightarrow> (Inr (case buf of Some b \<Rightarrow> b | None \<Rightarrow> []), d1)
      | (Inr DEof, d1) \<Rightarrow> (case buf of None \<Rightarrow> (Inl UnexpectedEof, d1) | Some b \<Rightarrow> (Inr b, d1))
      | (Inr (DText t), d1) \<Rightarrow>
          text_loop (Some (case buf of Some b \<Rightarrow> b @ t | None \<Rightarrow> t)) (consume_peeked d1))"
  by auto
termination by (relation "measure (events_left \<circ> snd)") (auto dest: peek_event_left [OF sym])

declare text_loop.simps [simp del]

definition text_with :: "(bytes \<Rightarrow> de_error + 'a) \<Rightarrow> 'a de" where
  "text_with f d =
     (case text_loop None d of
        (Inl e, d1) \<Rightarrow> (Some (Inl e), d1)
      | (Inr t, d1) \<Rightarrow> (Some (f t), d1))"

text \<open>
  Skipping an unknown element. The depth is a 32-bit counter in the code; it counts open elements, of which a document within
  the size limit has fewer.
\<close>

function skip_loop :: "nat \<Rightarrow> deserializer \<Rightarrow> (de_error + unit) \<times> deserializer" where
  "skip_loop depth d =
     (case peek_event d of
        (Inl e, d1) \<Rightarrow> (Inl e, d1)
      | (Inr (DStart _ _), d1) \<Rightarrow> skip_loop (depth + 1) (consume_peeked d1)
      | (Inr (DEnd _), d1) \<Rightarrow> if depth = 0 then (Inr (), d1) else skip_loop (depth - 1) (consume_peeked d1)
      | (Inr (DText _), d1) \<Rightarrow> skip_loop depth (consume_peeked d1)
      | (Inr DEof, d1) \<Rightarrow> (Inl UnexpectedEof, d1))"
  by auto
termination by (relation "measure (events_left \<circ> snd)") (auto dest: peek_event_left [OF sym])

declare skip_loop.simps [simp del]

definition skip_element_content :: "unit de" where
  "skip_element_content d = (case skip_loop 0 d of (r, d1) \<Rightarrow> (Some r, d1))"

definition list_content :: "bytes \<Rightarrow> 'a de \<Rightarrow> 'a list de" where
  "list_content name dec =
     for_each_element
       (\<lambda>l x. if x \<noteq> name then de_bind skip_element_content (\<lambda>_. de_return l)
              else de_bind dec (\<lambda>a. de_return (l @ [a]))) []"

end
