(* ===== verification/Timestamp.thy ===== *)
theory Timestamp
  imports Xml Sigv4_Correct
begin

text \<open>
  Times (s3s/src/dto/timestamp.rs). A \<^verbatim>\<open>Timestamp\<close> wraps the \<^verbatim>\<open>OffsetDateTime\<close> of the crate \<^verbatim>\<open>time\<close>: a local date and time of day
  with an offset from UTC, here by its components (a \<^verbatim>\<open>PrimitiveDateTime\<close> has offset 0). The parsers and the formatter of the crate are parameters; the format descriptions
  that the code hands to them are the constants \<open>RFC1123\<close> and \<open>RFC3339\<close>. The sum of two floating point numbers that
  the epoch format prints is a parameter too; no generated code uses that format.
\<close>

datatype ts_format = DateTime | HttpDate | EpochSeconds

record offset_date_time =
  od_year :: int
  od_month :: nat
  od_day :: nat
  od_hour :: nat
  od_minute :: nat
  od_second :: nat
  od_nanosecond :: nat
  od_offset :: int

datatype format_item =
    Literal bytes
  | WeekdayShort
  | Day
  | MonthShort
  | MonthNumber
  | Year
  | Hour
  | Minute
  | Second
  | Subsecond nat

definition RFC1123 :: "format_item list" where
  "RFC1123 =
     [WeekdayShort, Literal '', '', Day, Literal '' '', MonthShort, Literal '' '', Year, Literal '' '',
      Hour, Literal '':'', Minute, Literal '':'', Second, Literal '' GMT'']"

definition RFC3339 :: "format_item list" where
  "RFC3339 =
     [Year, Literal ''-'', MonthNumber, Literal ''-'', Day, Literal ''T'', Hour, Literal '':'', Minute, Literal '':'', Second,
      Literal ''.'', Subsecond 3, Literal ''Z'']"

record time_api =
  tm_parse_rfc3339 :: "bytes \<Rightarrow> offset_date_time option"
  tm_parse_primitive :: "format_item list \<Rightarrow> bytes \<Rightarrow> offset_date_time option"
  tm_format :: "format_item list \<Rightarrow> offset_date_time \<Rightarrow> bytes option"
  tm_from_secs :: "int \<Rightarrow> offset_date_time option"
  tm_from_nanos :: "int \<Rightarrow> offset_date_time option"
  tm_nanos :: "offset_date_time \<Rightarrow> int"
  tm_weekday :: "int \<Rightarrow> nat \<Rightarrow> nat \<Rightarrow> nat"
  tm_display_sum :: "int \<Rightarrow> int \<Rightarrow> bytes"

datatype parse_timestamp_error = TsTime | TsInt | TsOverflow | TsComponentRange

text \<open>\<^verbatim>\<open>str::parse\<close> of the standard library for signed integers.\<close>

definition int_from_str :: "nat \<Rightarrow> bytes \<Rightarrow> int option" where
  "int_from_str bits s =
     (let (neg, ds) = (case s of c # r \<Rightarrow> if c = CHR ''-'' then (True, r) else if c = CHR ''+'' then (False, r) else (False, s) | [] \<Rightarrow> (False, s));
          v = (if neg then - int (digits_value ds) else int (digits_value ds))
      in if ds \<noteq> [] \<and> list_all is_ascii_digit ds \<and> - (2 ^ (bits - 1)) \<le> v \<and> v < 2 ^ (bits - 1) then Some v else None)"

definition assume_utc :: "offset_date_time \<Rightarrow> offset_date_time" where
  "assume_utc d = d\<lparr>od_offset := 0\<rparr>"

definition frac_mul :: "nat \<Rightarrow> nat option" where
  "frac_mul len =
     map_of [(1, 100000000), (2, 10000000), (3, 1000000), (4, 100000), (5, 10000), (6, 1000), (7, 100), (8, 10), (9, 1)] len"

definition Timestamp_parse :: "time_api \<Rightarrow> ts_format \<Rightarrow> bytes \<Rightarrow> parse_timestamp_error + offset_date_time" where
  "Timestamp_parse T fmt s =
     (case fmt of
        DateTime \<Rightarrow> (case tm_parse_rfc3339 T s of None \<Rightarrow> Inl TsTime | Some d \<Rightarrow> Inr d)
      | HttpDate \<Rightarrow> (case tm_parse_primitive T RFC1123 s of None \<Rightarrow> Inl TsTime | Some d \<Rightarrow> Inr (assume_utc d))
      | EpochSeconds \<Rightarrow>
          (case split_once (CHR ''.'') s of
             Some (secs, frac) \<Rightarrow>
               (case int_from_str 64 secs of
                  None \<Rightarrow> Inl TsInt
                | Some secs \<Rightarrow>
                    (case u32_from_str_radix frac 10 of
                       None \<Rightarrow> Inl TsInt
                     | Some val \<Rightarrow>
                         (case frac_mul (length frac) of
                            None \<Rightarrow> Inl TsOverflow
                          | Some mul \<Rightarrow>
                              (case tm_from_nanos T (secs * 1000000000 + int (val * mul)) of
                                 None \<Rightarrow> Inl TsComponentRange
                               | Some d \<Rightarrow> Inr d))))
           | None \<Rightarrow>
               (case int_from_str 64 s of
                  None \<Rightarrow> Inl TsInt
                | Some secs \<Rightarrow> (case tm_from_secs T secs of None \<Rightarrow> Inl TsComponentRange | Some d \<Rightarrow> Inr d))))"

text \<open>Division and remainder of \<^verbatim>\<open>i128\<close> round towards zero.\<close>

definition Timestamp_format :: "time_api \<Rightarrow> ts_format \<Rightarrow> offset_date_time \<Rightarrow> bytes option" where
  "Timestamp_format T fmt t =
     (case fmt of
        DateTime \<Rightarrow> tm_format T RFC3339 t
      | HttpDate \<Rightarrow> tm_format T RFC1123 t
      | EpochSeconds \<Rightarrow>
          (let val = tm_nanos T t
           in Some (tm_display_sum T (sgn val * (\<bar>val\<bar> div 1000000000)) (sgn val * (\<bar>val\<bar> mod 1000000000)))))"

text \<open>The buffer of \<^verbatim>\<open>fmt_timestamp\<close> (s3s/src/utils/format.rs) has 32 bytes; \<open>None\<close> is the failed \<^verbatim>\<open>unwrap\<close>.\<close>

definition fmt_timestamp :: "time_api \<Rightarrow> ts_format \<Rightarrow> offset_date_time \<Rightarrow> bytes option" where
  "fmt_timestamp T fmt t =
     (case Timestamp_format T fmt t of Some bs \<Rightarrow> if length bs \<le> 32 then Some bs else None | None \<Rightarrow> None)"

section \<open>Padded numbers\<close>

lemma length_decimal: "n < 10 ^ w \<Longrightarrow> 0 < w \<Longrightarrow> length (decimal n) \<le> w"
proof (induction w arbitrary: n)
  case (Suc w)
  show ?case
  proof (cases "n < 10")
    case True
    then show ?thesis by (simp add: decimal.simps [of n])
  next
    case False
    then have "0 < w" "n div 10 < 10 ^ w" using Suc.prems by (cases w; auto)+
    then show ?thesis using Suc.IH False by (simp add: decimal.simps [of n])
  qed
qed simp

lemma length_zero_padded: "n < 10 ^ w \<Longrightarrow> 0 < w \<Longrightarrow> length (zero_padded w n) = w"
  using length_decimal [of n w] by (simp add: zero_padded_def)

lemma digits_value_zero_padded [simp]: "digits_value (zero_padded w n) = n"
proof -
  have zeros: "digits_value (replicate k CHR ''0'' @ ds) = digits_value ds" for k ds
    by (induction ds rule: rev_induct) (simp_all add: append_assoc [symmetric] del: append_assoc, induction k, simp_all add: digits_value_def)
  then show ?thesis by (simp add: zero_padded_def)
qed

section \<open>What the crate documents\<close>

definition MONTHS :: "bytes list" where
  "MONTHS = [''Jan'', ''Feb'', ''Mar'', ''Apr'', ''May'', ''Jun'', ''Jul'', ''Aug'', ''Sep'', ''Oct'', ''Nov'', ''Dec'']"

definition WEEKDAYS :: "bytes list" where
  "WEEKDAYS = [''Mon'', ''Tue'', ''Wed'', ''Thu'', ''Fri'', ''Sat'', ''Sun'']"

definition days_in_month :: "int \<Rightarrow> nat \<Rightarrow> nat" where
  "days_in_month y m =
     (if m = 2 then (if y mod 4 = 0 \<and> (y mod 100 \<noteq> 0 \<or> y mod 400 = 0) then 29 else 28)
      else if m \<in> {4, 6, 9, 11} then 30 else 31)"

text \<open>The date-times with a year of four digits.\<close>

definition date_time_ok :: "offset_date_time \<Rightarrow> bool" where
  "date_time_ok d \<longleftrightarrow> 0 \<le> od_year d \<and> od_year d < 10000 \<and> 1 \<le> od_month d \<and> od_month d \<le> 12 \<and>
     1 \<le> od_day d \<and> od_day d \<le> days_in_month (od_year d) (od_month d) \<and>
     od_hour d < 24 \<and> od_minute d < 60 \<and> od_second d < 60 \<and> od_nanosecond d < 1000000000"

text \<open>The text of a component: numbers are padded with zeros, the digits of the fraction are cut off.\<close>

fun item_text :: "(int \<Rightarrow> nat \<Rightarrow> nat \<Rightarrow> nat) \<Rightarrow> offset_date_time \<Rightarrow> format_item \<Rightarrow> bytes" where
  "item_text wd d (Literal s) = s"
| "item_text wd d WeekdayShort = WEEKDAYS ! wd (od_year d) (od_month d) (od_day d)"
| "item_text wd d Day = zero_padded 2 (od_day d)"
| "item_text wd d MonthShort = MONTHS ! (od_month d - 1)"
| "item_text wd d MonthNumber = zero_padded 2 (od_month d)"
| "item_text wd d Year = zero_padded 4 (nat (od_year d))"
| "item_text wd d Hour = zero_padded 2 (od_hour d)"
| "item_text wd d Minute = zero_padded 2 (od_minute d)"
| "item_text wd d Second = zero_padded 2 (od_second d)"
| "item_text wd d (Subsecond n) = zero_padded n (od_nanosecond d div 10 ^ (9 - n))"

text \<open>
  The formatter writes the components of the local date and time one after the other. The RFC 3339 parser reads a UTC time
  with three digits of fraction, and the parser of a description reads a text of that description; both give the components
  that are written there.
\<close>

locale time_crate =
  fixes T :: time_api
  assumes weekday: "tm_weekday T y m dd < 7"
    and formats: "date_time_ok d \<Longrightarrow> tm_format T items d = Some (concat (map (item_text (tm_weekday T) d) items))"
    and parses_rfc3339: "date_time_ok d \<Longrightarrow> od_nanosecond d = ms * 1000000 \<Longrightarrow> od_offset d = 0 \<Longrightarrow>
      tm_parse_rfc3339 T (zero_padded 4 (nat (od_year d)) @ ''-'' @ zero_padded 2 (od_month d) @ ''-'' @ zero_padded 2 (od_day d)
        @ ''T'' @ zero_padded 2 (od_hour d) @ '':'' @ zero_padded 2 (od_minute d) @ '':'' @ zero_padded 2 (od_second d)
        @ ''.'' @ zero_padded 3 ms @ ''Z'') = Some d"
    and parses_http_date: "date_time_ok d \<Longrightarrow> od_nanosecond d = 0 \<Longrightarrow> od_offset d = 0 \<Longrightarrow>
      tm_parse_primitive T RFC1123 (WEEKDAYS ! tm_weekday T (od_year d) (od_month d) (od_day d) @ '', '' @ zero_padded 2 (od_day d)
        @ '' '' @ MONTHS ! (od_month d - 1) @ '' '' @ zero_padded 4 (nat (od_year d)) @ '' '' @ zero_padded 2 (od_hour d) @ '':''
        @ zero_padded 2 (od_minute d) @ '':'' @ zero_padded 2 (od_second d) @ '' GMT'') = Some d"
begin

lemma format_rfc3339:
  "date_time_ok d \<Longrightarrow> tm_format T RFC3339 d =
     Some (zero_padded 4 (nat (od_year d)) @ ''-'' @ zero_padded 2 (od_month d) @ ''-'' @ zero_padded 2 (od_day d)
        @ ''T'' @ zero_padded 2 (od_hour d) @ '':'' @ zero_padded 2 (od_minute d) @ '':'' @ zero_padded 2 (od_second d)
        @ ''.'' @ zero_padded 3 (od_nanosecond d div 1000000) @ ''Z'')"
  by (simp add: formats RFC3339_def)

lemma format_rfc1123:
  "date_time_ok d \<Longrightarrow> tm_format T RFC1123 d =
     Some (WEEKDAYS ! tm_weekday T (od_year d) (od_month d) (od_day d) @ '', '' @ zero_padded 2 (od_day d)
        @ '' '' @ MONTHS ! (od_month d - 1) @ '' '' @ zero_padded 4 (nat (od_year d)) @ '' '' @ zero_padded 2 (od_hour d) @ '':''
        @ zero_padded 2 (od_minute d) @ '':'' @ zero_padded 2 (od_second d) @ '' GMT'')"
  by (simp add: formats RFC1123_def)

end

section \<open>A reference for the crate\<close>

text \<open>The parsers decode the numbers at their positions and compare the text with what the formatter writes.\<close>

definition ref_weekday :: "int \<Rightarrow> nat \<Rightarrow> nat \<Rightarrow> nat" where
  "ref_weekday y m d =
     (let y1 = (if m < 3 then y - 1 else y); t = [0, 3, 2, 5, 0, 3, 5, 1, 4, 6, 2, 4] ! (m - 1)
      in nat ((y1 + y1 div 4 - y1 div 100 + y1 div 400 + t + int d + 6) mod 7))"

definition ref_format :: "format_item list \<Rightarrow> offset_date_time \<Rightarrow> bytes option" where
  "ref_format items d = (if date_time_ok d then Some (concat (map (item_text ref_weekday d) items)) else None)"

definition number_at :: "bytes \<Rightarrow> nat \<Rightarrow> nat \<Rightarrow> nat" where
  "number_at s i k = digits_value (take k (drop i s))"

definition ref_parse_rfc3339 :: "bytes \<Rightarrow> offset_date_time option" where
  "ref_parse_rfc3339 s =
     (let d = \<lparr>od_year = int (number_at s 0 4), od_month = number_at s 5 2, od_day = number_at s 8 2, od_hour = number_at s 11 2,
               od_minute = number_at s 14 2, od_second = number_at s 17 2, od_nanosecond = number_at s 20 3 * 1000000, od_offset = 0\<rparr>
      in if ref_format RFC3339 d = Some s then Some d else None)"

fun month_of :: "bytes list \<Rightarrow> bytes \<Rightarrow> nat" where
  "month_of [] s = 1"
| "month_of (m # ms) s = (if m = s then 1 else Suc (month_of ms s))"

definition ref_parse_primitive :: "format_item list \<Rightarrow> bytes \<Rightarrow> offset_date_time option" where
  "ref_parse_primitive items s =
     (let d = \<lparr>od_year = int (number_at s 12 4), od_month = month_of MONTHS (take 3 (drop 8 s)), od_day = number_at s 5 2,
               od_hour = number_at s 17 2, od_minute = number_at s 20 2, od_second = number_at s 23 2, od_nanosecond = 0, od_offset = 0\<rparr>
      in if ref_format items d = Some s then Some d else None)"

definition ref_time :: time_api where
  "ref_time =
     \<lparr>tm_parse_rfc3339 = ref_parse_rfc3339, tm_parse_primitive = ref_parse_primitive, tm_format = ref_format,
      tm_from_secs = (\<lambda>_. None), tm_from_nanos = (\<lambda>_. None), tm_nanos = (\<lambda>_. 0), tm_weekday = ref_weekday,
      tm_display_sum = (\<lambda>a b. [])\<rparr>"

lemma date_widths:
  assumes "date_time_ok d"
  shows "length (zero_padded 4 (nat (od_year d))) = 4" "length (zero_padded 2 (od_month d)) = 2" "length (zero_padded 2 (od_day d)) = 2"
    "length (zero_padded 2 (od_hour d)) = 2" "length (zero_padded 2 (od_minute d)) = 2" "length (zero_padded 2 (od_second d)) = 2"
    "length (zero_padded 3 (od_nanosecond d div 1000000)) = 3"
proof -
  have "od_day d \<le> 31" using assms by (auto simp: date_time_ok_def days_in_month_def split: if_splits)
  then show "length (zero_padded 4 (nat (od_year d))) = 4" "length (zero_padded 2 (od_month d)) = 2" "length (zero_padded 2 (od_day d)) = 2"
    "length (zero_padded 2 (od_hour d)) = 2" "length (zero_padded 2 (od_minute d)) = 2" "length (zero_padded 2 (od_second d)) = 2"
    "length (zero_padded 3 (od_nanosecond d div 1000000)) = 3"
    using assms by (auto simp: date_time_ok_def intro!: length_zero_padded)
qed

lemma month_names: "1 \<le> m \<Longrightarrow> m \<le> 12 \<Longrightarrow> month_of MONTHS (MONTHS ! (m - 1)) = m \<and> length (MONTHS ! (m - 1)) = 3"
proof -
  have "list_all (\<lambda>i. month_of MONTHS (MONTHS ! i) = Suc i \<and> length (MONTHS ! i) = 3) [0..<12]" by code_simp
  then show "1 \<le> m \<Longrightarrow> m \<le> 12 \<Longrightarrow> ?thesis" by (auto simp: list_all_iff)
qed

lemma weekday_names: "w < 7 \<Longrightarrow> length (WEEKDAYS ! w) = 3"
proof -
  have "list_all (\<lambda>i. length (WEEKDAYS ! i) = 3) [0..<7]" by code_simp
  then show "w < 7 \<Longrightarrow> ?thesis" by (auto simp: list_all_iff)
qed

lemma ref_weekday_less: "ref_weekday y m d < 7"
  by (simp add: ref_weekday_def Let_def nat_less_iff)

lemma ref_format_texts:
  assumes "date_time_ok d"
  shows "ref_format RFC3339 d =
     Some (zero_padded 4 (nat (od_year d)) @ ''-'' @ zero_padded 2 (od_month d) @ ''-'' @ zero_padded 2 (od_day d)
        @ ''T'' @ zero_padded 2 (od_hour d) @ '':'' @ zero_padded 2 (od_minute d) @ '':'' @ zero_padded 2 (od_second d)
        @ ''.'' @ zero_padded 3 (od_nanosecond d div 1000000) @ ''Z'')"
    and "ref_format RFC1123 d =
     Some (WEEKDAYS ! ref_weekday (od_year d) (od_month d) (od_day d) @ '', '' @ zero_padded 2 (od_day d)
        @ '' '' @ MONTHS ! (od_month d - 1) @ '' '' @ zero_padded 4 (nat (od_year d)) @ '' '' @ zero_padded 2 (od_hour d) @ '':''
        @ zero_padded 2 (od_minute d) @ '':'' @ zero_padded 2 (od_second d) @ '' GMT'')"
  using assms by (simp_all add: ref_format_def RFC3339_def RFC1123_def)

interpretation time_reference: time_crate ref_time
proof
  fix y :: int and m dd :: nat
  show "tm_weekday ref_time y m dd < 7" by (simp add: ref_time_def ref_weekday_less)
next
  fix d items
  assume "date_time_ok d"
  then show "tm_format ref_time items d = Some (concat (map (item_text (tm_weekday ref_time) d) items))"
    by (simp add: ref_time_def ref_format_def)
next
  fix d ms
  assume ok: "date_time_ok d" and ms: "od_nanosecond d = ms * 1000000" and off: "od_offset d = 0"
  let ?s = "zero_padded 4 (nat (od_year d)) @ ''-'' @ zero_padded 2 (od_month d) @ ''-'' @ zero_padded 2 (od_day d)
        @ ''T'' @ zero_padded 2 (od_hour d) @ '':'' @ zero_padded 2 (od_minute d) @ '':'' @ zero_padded 2 (od_second d)
        @ ''.'' @ zero_padded 3 ms @ ''Z''"
  have w: "length (zero_padded 3 ms) = 3" using date_widths(7) [OF ok] ms by simp
  have "number_at ?s 0 4 = nat (od_year d)" "number_at ?s 5 2 = od_month d" "number_at ?s 8 2 = od_day d" "number_at ?s 11 2 = od_hour d"
    "number_at ?s 14 2 = od_minute d" "number_at ?s 17 2 = od_second d" "number_at ?s 20 3 = ms"
    by (simp_all add: number_at_def date_widths [OF ok] w)
  moreover have "0 \<le> od_year d" using ok by (simp add: date_time_ok_def)
  moreover have "ref_format RFC3339 d = Some ?s" using ref_format_texts(1) [OF ok] ms by simp
  moreover have "\<lparr>od_year = od_year d, od_month = od_month d, od_day = od_day d, od_hour = od_hour d, od_minute = od_minute d,
      od_second = od_second d, od_nanosecond = ms * 1000000, od_offset = 0\<rparr> = d"
    using ms off by (cases d) simp
  ultimately show "tm_parse_rfc3339 ref_time ?s = Some d"
    by (simp add: ref_time_def ref_parse_rfc3339_def Let_def)
next
  fix d
  assume ok: "date_time_ok d" and nano: "od_nanosecond d = 0" and off: "od_offset d = 0"
  let ?s = "WEEKDAYS ! ref_weekday (od_year d) (od_month d) (od_day d) @ '', '' @ zero_padded 2 (od_day d)
        @ '' '' @ MONTHS ! (od_month d - 1) @ '' '' @ zero_padded 4 (nat (od_year d)) @ '' '' @ zero_padded 2 (od_hour d) @ '':''
        @ zero_padded 2 (od_minute d) @ '':'' @ zero_padded 2 (od_second d) @ '' GMT''"
  have m: "month_of MONTHS (MONTHS ! (od_month d - 1)) = od_month d" "length (MONTHS ! (od_month d - 1)) = 3"
    using month_names [of "od_month d"] ok by (auto simp: date_time_ok_def)
  note w = weekday_names [OF ref_weekday_less, of "od_year d" "od_month d" "od_day d"]
  have "number_at ?s 12 4 = nat (od_year d)" "month_of MONTHS (take 3 (drop 8 ?s)) = od_month d" "number_at ?s 5 2 = od_day d"
    "number_at ?s 17 2 = od_hour d" "number_at ?s 20 2 = od_minute d" "number_at ?s 23 2 = od_second d"
    by (simp_all add: number_at_def date_widths [OF ok] w m [simplified])
  moreover have "0 \<le> od_year d" using ok by (simp add: date_time_ok_def)
  moreover have "ref_format RFC1123 d = Some ?s" by (rule ref_format_texts(2) [OF ok])
  moreover have "\<lparr>od_year = od_year d, od_month = od_month d, od_day = od_day d, od_hour = od_hour d, od_minute = od_minute d,
      od_second = od_second d, od_nanosecond = 0, od_offset = 0\<rparr> = d"
    using nano off by (cases d) simp
  ultimately have "ref_parse_primitive RFC1123 ?s = Some d" by (simp add: ref_parse_primitive_def Let_def)
  then show "tm_parse_primitive ref_time RFC1123 (WEEKDAYS ! tm_weekday ref_time (od_year d) (od_month d) (od_day d) @ '', '' @ zero_padded 2 (od_day d)
        @ '' '' @ MONTHS ! (od_month d - 1) @ '' '' @ zero_padded 4 (nat (od_year d)) @ '' '' @ zero_padded 2 (od_hour d) @ '':''
        @ zero_padded 2 (od_minute d) @ '':'' @ zero_padded 2 (od_second d) @ '' GMT'') = Some d"
    by (simp add: ref_time_def)
qed

section \<open>Properties\<close>

definition utc_millis :: "offset_date_time \<Rightarrow> offset_date_time" where
  "utc_millis d = d\<lparr>od_nanosecond := od_nanosecond d div 1000000 * 1000000, od_offset := 0\<rparr>"

definition utc_secs :: "offset_date_time \<Rightarrow> offset_date_time" where
  "utc_secs d = d\<lparr>od_nanosecond := 0, od_offset := 0\<rparr>"

context time_crate
begin

lemma date_time_kept:
  assumes "date_time_ok t"
  shows "\<exists>s. fmt_timestamp T DateTime t = Some s \<and> Timestamp_parse T DateTime s = Inr (utc_millis t)"
proof -
  let ?u = "utc_millis t"
  have "date_time_ok ?u" using assms by (auto simp: date_time_ok_def utc_millis_def)
  from parses_rfc3339 [OF this, of "od_nanosecond t div 1000000"] show ?thesis
    using date_widths [OF assms]
    by (simp add: fmt_timestamp_def Timestamp_format_def Timestamp_parse_def format_rfc3339 [OF assms] utc_millis_def)
qed

lemma http_date_kept:
  assumes "date_time_ok t"
  shows "\<exists>s. fmt_timestamp T HttpDate t = Some s \<and> Timestamp_parse T HttpDate s = Inr (utc_secs t)"
proof -
  let ?u = "utc_secs t"
  have "date_time_ok ?u" using assms by (auto simp: date_time_ok_def utc_secs_def)
  from parses_http_date [OF this] show ?thesis
    using date_widths [OF assms] weekday_names [OF weekday] month_names [of "od_month t"] assms
    by (simp add: fmt_timestamp_def Timestamp_format_def Timestamp_parse_def format_rfc1123 [OF assms] utc_secs_def assume_utc_def date_time_ok_def)
qed

end

text \<open>
  C37: what a written time is read back as, exactly. A time with a year of four digits is always written (the buffer of 32 bytes is
  never too small), and reading the text gives the same local date and time cut to milliseconds, or to seconds in the
  format of HTTP dates. The offset is not kept: both formats write the local time and mark it as UTC, so that a time
  that was received with an offset other than zero comes back as a different instant.
\<close>

theorem timestamp_roundtrip:
  assumes "time_crate T" and "date_time_ok t"
  shows "(\<exists>s. fmt_timestamp T DateTime t = Some s
        \<and> Timestamp_parse T DateTime s = Inr (t\<lparr>od_nanosecond := od_nanosecond t div 1000000 * 1000000, od_offset := 0\<rparr>))
    \<and> (\<exists>s. fmt_timestamp T HttpDate t = Some s \<and> Timestamp_parse T HttpDate s = Inr (t\<lparr>od_nanosecond := 0, od_offset := 0\<rparr>))"
  using time_crate.date_time_kept [OF assms] time_crate.http_date_kept [OF assms] by (simp add: utc_millis_def utc_secs_def)

definition beijing_noon :: offset_date_time where
  "beijing_noon = \<lparr>od_year = 2024, od_month = 2, od_day = 29, od_hour = 12, od_minute = 0, od_second = 0, od_nanosecond = 0, od_offset = 28800\<rparr>"

theorem timestamp_roundtrip_witness:
  "\<exists>s. fmt_timestamp ref_time DateTime beijing_noon = Some s
     \<and> Timestamp_parse ref_time DateTime s = Inr (beijing_noon\<lparr>od_offset := 0\<rparr>)"
proof -
  have "date_time_ok beijing_noon" by (simp add: date_time_ok_def days_in_month_def beijing_noon_def)
  with timestamp_roundtrip [OF time_reference.time_crate_axioms, of beijing_noon] show ?thesis by (simp add: beijing_noon_def)
qed

end
