(* ===== verification/Xml_Shape.thy ===== *)
theory Xml_Shape
  imports Timestamp
begin

text \<open>
  The generated codecs (s3s/src/xml/generated.rs). Every generated implementation is an instance of a few templates: a struct with its fields
  in order (one without fields reads nothing), a union of named variants, or a text. A \<open>shape\<close> says which instance it is; \<open>ser_shape\<close> and \<open>de_shape\<close> are the templates. The
  shapes of the types are in the theories \<open>Xml_Types\<close>. The crate \<^verbatim>\<open>time\<close> and the number parser \<^verbatim>\<open>atoi\<close> are parameters.
\<close>

record xml_env =
  xml_time :: time_api
  int_parse :: "nat \<Rightarrow> bytes \<Rightarrow> int option"

text \<open>
  A field holds one value, a list of elements with the name of the field (\<open>Flattened\<close>), or an element with a list of members; a
  \<open>Typed\<close> field has the type of its value in the attribute \<^verbatim>\<open>xsi:type\<close>.
\<close>

datatype 's kind = Content 's | Flattened 's | Listed bytes 's | Typed 's

datatype 's xml_field = Field (field_name: bytes) (field_required: bool) (field_kind: "'s kind")

datatype unknown = SkipUnknown | RejectUnknown

datatype shape =
    TString
  | TEnum "bytes list"
  | TEmpty
  | TBool
  | TInt nat
  | TETag
  | TTimestamp ts_format
  | TStruct unknown "shape xml_field list"
  | TUnion "(bytes \<times> shape) list"

datatype xval =
    VString bytes
  | VBool bool
  | VInt int
  | VETag etag
  | VTime offset_date_time
  | VAbsent
  | VList "xval list"
  | VTyped bytes xval
  | VRecord "xval list"
  | VVariant bytes xval

abbreviation required :: "bytes \<Rightarrow> 's kind \<Rightarrow> 's xml_field" where "required n \<equiv> Field n True"
abbreviation optional :: "bytes \<Rightarrow> 's kind \<Rightarrow> 's xml_field" where "optional n \<equiv> Field n False"

section \<open>Writing\<close>

datatype written = WStart bytes "(bytes \<times> bytes) list" | WEnd bytes | WText bytes | WRaw bytes | WDecl

definition ser_element :: "bytes \<Rightarrow> (bytes \<times> bytes) list \<Rightarrow> written list \<Rightarrow> written list" where
  "ser_element name attrs content = [WStart name attrs] @ content @ [WEnd name]"

definition fmt_boolean :: "bool \<Rightarrow> bytes" where
  "fmt_boolean val = (if val then ''true'' else ''false'')"

definition fmt_long :: "int \<Rightarrow> bytes" where
  "fmt_long val = (if val < 0 then CHR ''-'' # decimal (nat (- val)) else decimal (nat val))"

definition ser_etag :: "etag \<Rightarrow> written list" where
  "ser_etag t = [WRaw ([DQUOTE] @ etag_value t @ [DQUOTE])]"

definition XSI :: bytes where
  "XSI = ''http://www.w3.org/2001/XMLSchema-instance''"

text \<open>A field with the writer of its values. An absent value is not written.\<close>

fun ser_field :: "(xval \<Rightarrow> written list) xml_field \<Rightarrow> xval \<Rightarrow> written list" where
  "ser_field (Field n r (Content w)) v = (if v = VAbsent then [] else ser_element n [] (w v))"
| "ser_field (Field n r (Flattened w)) (VList vs) = concat (map (\<lambda>v. ser_element n [] (w v)) vs)"
| "ser_field (Field n r (Flattened w)) _ = []"
| "ser_field (Field n r (Listed m w)) (VList vs) = ser_element n [] (concat (map (\<lambda>v. ser_element m [] (w v)) vs))"
| "ser_field (Field n r (Listed m w)) _ = []"
| "ser_field (Field n r (Typed w)) (VTyped ty v) = ser_element n [(''xmlns:xsi'', XSI), (''xsi:type'', ty)] (w v)"
| "ser_field (Field n r (Typed w)) _ = []"

definition ser_struct :: "(xval \<Rightarrow> written list) xml_field list \<Rightarrow> xval \<Rightarrow> written list" where
  "ser_struct fs v = (case v of VRecord vs \<Rightarrow> concat (map2 ser_field fs vs) | _ \<Rightarrow> [])"

definition ser_union :: "(bytes \<times> (xval \<Rightarrow> written list)) list \<Rightarrow> xval \<Rightarrow> written list" where
  "ser_union ws v =
     (case v of
        VVariant n x \<Rightarrow> (case map_of ws n of Some w \<Rightarrow> ser_element n [] (w x) | None \<Rightarrow> [])
      | _ \<Rightarrow> [])"

text \<open>The text of a time. The writer panics where there is none, which does not happen for a time with a year of four digits.\<close>

fun ser_time :: "bytes option \<Rightarrow> written list" where
  "ser_time (Some bs) = [WText bs]"
| "ser_time None = []"

primrec ser_shape :: "xml_env \<Rightarrow> shape \<Rightarrow> xval \<Rightarrow> written list" where
  "ser_shape E TString = (\<lambda>v. case v of VString s \<Rightarrow> [WText s] | _ \<Rightarrow> [])"
| "ser_shape E (TEnum names) = (\<lambda>v. case v of VString s \<Rightarrow> [WText s] | _ \<Rightarrow> [])"
| "ser_shape E TEmpty = (\<lambda>v. [])"
| "ser_shape E TBool = (\<lambda>v. case v of VBool b \<Rightarrow> [WText (fmt_boolean b)] | _ \<Rightarrow> [])"
| "ser_shape E (TInt bits) = (\<lambda>v. case v of VInt i \<Rightarrow> [WText (fmt_long i)] | _ \<Rightarrow> [])"
| "ser_shape E TETag = (\<lambda>v. case v of VETag t \<Rightarrow> ser_etag t | _ \<Rightarrow> [])"
| "ser_shape E (TTimestamp f) = (\<lambda>v. case v of VTime t \<Rightarrow> ser_time (fmt_timestamp (xml_time E) f t) | _ \<Rightarrow> [])"
| "ser_shape E (TStruct u fs) = ser_struct (map (map_xml_field (ser_shape E)) fs)"
| "ser_shape E (TUnion vs) = ser_union (map (map_prod id (ser_shape E)) vs)"

section \<open>Reading\<close>

definition de_string :: "xval de" where
  "de_string = text_with (\<lambda>s. Inr (VString s))"

text \<open>A string enum: the constant of a known name, or the text itself.\<close>

definition enum_of_text :: "bytes list \<Rightarrow> bytes \<Rightarrow> de_error + xval" where
  "enum_of_text names s = (case find (\<lambda>name. name = s) names of Some name \<Rightarrow> Inr (VString name) | None \<Rightarrow> Inr (VString s))"

definition de_bool :: "xval de" where
  "de_bool =
     text_with (\<lambda>s. if s = ''true'' \<or> s = ''TRUE'' then Inr (VBool True)
                    else if s = ''false'' \<or> s = ''FALSE'' then Inr (VBool False) else Inl InvalidContent)"

definition de_int :: "xml_env \<Rightarrow> nat \<Rightarrow> xval de" where
  "de_int E bits = text_with (\<lambda>s. case int_parse E bits s of Some i \<Rightarrow> Inr (VInt i) | None \<Rightarrow> Inl InvalidContent)"

definition de_timestamp :: "xml_env \<Rightarrow> ts_format \<Rightarrow> xval de" where
  "de_timestamp E f = text_with (\<lambda>s. case Timestamp_parse (xml_time E) f s of Inr t \<Rightarrow> Inr (VTime t) | Inl _ \<Rightarrow> Inl InvalidContent)"

definition is_roundtrippable_etag_value :: "bytes \<Rightarrow> bool" where
  "is_roundtrippable_etag_value val =
     list_all (\<lambda>b. byte_in 0 127 b \<and> (byte_in 32 255 b \<and> b \<noteq> CHR 0x7F \<or> b = HTAB)) val"

definition etag_of_text :: "bytes \<Rightarrow> de_error + xval" where
  "etag_of_text val =
     (case etag_parse_http_header val of
        Inr t \<Rightarrow> Inr (VETag t)
      | Inl e \<Rightarrow>
          (if e = EtagInvalidFormat \<and> is_roundtrippable_etag_value val then Inr (VETag (Strong val)) else Inl InvalidContent))"

definition de_etag :: "xval de" where
  "de_etag = text_with etag_of_text"

text \<open>The loop over the attributes of a typed field: the last \<^verbatim>\<open>xsi:type\<close> counts.\<close>

fun xsi_type :: "bytes option \<Rightarrow> attributes \<Rightarrow> de_error + bytes option" where
  "xsi_type ty [] = Inr ty"
| "xsi_type ty (None # r) = Inl InvalidAttribute"
| "xsi_type ty (Some (key, val) # r) =
     (if key = ''xsi:type'' then (case val of None \<Rightarrow> Inl InvalidXml | Some v \<Rightarrow> xsi_type (Some v) r)
      else xsi_type ty r)"

text \<open>Reading a child element into its field; a field that occurred is \<open>Some\<close>.\<close>

fun de_field :: "xval de xml_field \<Rightarrow> xval option \<Rightarrow> attributes \<Rightarrow> xval option de" where
  "de_field (Field n r (Content dec)) slot a =
     (if slot \<noteq> None then de_fail DuplicateField else de_bind dec (\<lambda>v. de_return (Some v)))"
| "de_field (Field n r (Flattened dec)) slot a =
     de_bind dec (\<lambda>v. de_return (Some (VList ((case slot of Some (VList vs) \<Rightarrow> vs | _ \<Rightarrow> []) @ [v]))))"
| "de_field (Field n r (Listed m dec)) slot a =
     (if slot \<noteq> None then de_fail DuplicateField else de_bind (list_content m dec) (\<lambda>vs. de_return (Some (VList vs))))"
| "de_field (Field n r (Typed dec)) slot a =
     (if slot \<noteq> None then de_fail DuplicateField
      else (case xsi_type None a of
          Inl e \<Rightarrow> de_fail e
        | Inr ty \<Rightarrow>
            de_bind dec (\<lambda>v. case ty of None \<Rightarrow> de_fail MissingField | Some t \<Rightarrow> de_return (Some (VTyped t v)))))"

fun field_index :: "bytes \<Rightarrow> 's xml_field list \<Rightarrow> nat option" where
  "field_index n [] = None"
| "field_index n (f # fs) = (if field_name f = n then Some 0 else map_option Suc (field_index n fs))"

definition de_child :: "unknown \<Rightarrow> xval de xml_field list \<Rightarrow> xval option list \<Rightarrow> bytes \<Rightarrow> attributes \<Rightarrow> xval option list de" where
  "de_child u fs slots n a =
     (case field_index n fs of
        Some i \<Rightarrow> de_bind (de_field (fs ! i) (slots ! i) a) (\<lambda>v. de_return (slots[i := v]))
      | None \<Rightarrow>
          (case u of
             SkipUnknown \<Rightarrow> de_bind skip_element_content (\<lambda>_. de_return slots)
           | RejectUnknown \<Rightarrow> de_fail UnexpectedTagName))"

text \<open>The fields are put together: a required one that did not occur is an error.\<close>

definition finish_struct :: "'s xml_field list \<Rightarrow> xval option list \<Rightarrow> de_error + xval" where
  "finish_struct fs slots =
     (if list_ex (\<lambda>(f, s). field_required f \<and> s = None) (zip fs slots) then Inl MissingField
      else Inr (VRecord (map (\<lambda>s. case s of None \<Rightarrow> VAbsent | Some v \<Rightarrow> v) slots)))"

definition de_struct :: "unknown \<Rightarrow> xval de xml_field list \<Rightarrow> xval de" where
  "de_struct u fs =
     de_bind (for_each_element_with_start (de_child u fs) (replicate (length fs) None))
       (\<lambda>slots d. (Some (finish_struct fs slots), d))"

definition de_union :: "(bytes \<times> xval de) list \<Rightarrow> xval de" where
  "de_union vs =
     element (\<lambda>n. case map_of vs n of
        Some dec \<Rightarrow> de_bind dec (\<lambda>v. de_return (VVariant n v))
      | None \<Rightarrow> de_fail UnexpectedTagName)"

primrec de_shape :: "xml_env \<Rightarrow> shape \<Rightarrow> xval de" where
  "de_shape E TString = de_string"
| "de_shape E (TEnum names) = text_with (enum_of_text names)"
| "de_shape E TEmpty = de_return (VRecord [])"
| "de_shape E TBool = de_bool"
| "de_shape E (TInt bits) = de_int E bits"
| "de_shape E TETag = de_etag"
| "de_shape E (TTimestamp f) = de_timestamp E f"
| "de_shape E (TStruct u fs) = de_struct u (map (map_xml_field (de_shape E)) fs)"
| "de_shape E (TUnion vs) = de_union (map (map_prod id (de_shape E)) vs)"

end
