(* ===== verification/Xml_Tree.thy ===== *)
theory Xml_Tree
  imports Xml_Shape
begin

text \<open>
  The deserializer against document trees. What it will still see is a list of events (\<open>pending\<close>), and reading the content of an element is a
  function of the trees of its children: the locale \<open>element_content\<close> states this for a step of the deserializer, and its
  interpretations show it for every step that the generated codecs are made of. Reading by shape (\<open>read_shape\<close>) is the specification on
  trees.
\<close>

section \<open>What is still to come\<close>

definition slot_events :: "de_event option \<Rightarrow> (de_error + de_event) list" where
  "slot_events s = (case s of None \<Rightarrow> [] | Some ev \<Rightarrow> [Inr ev])"

fun xml_event_events :: "xml_event \<Rightarrow> (de_error + de_event) list" where
  "xml_event_events (XStart n a) = [Inr (DStart n a)]"
| "xml_event_events (XEnd n) = [Inr (DEnd n)]"
| "xml_event_events (XText t) = [Inr (DText t)]"
| "xml_event_events (XEmpty n a) = [Inr (DStart n a), Inr (DEnd n)]"
| "xml_event_events (XRef n p) =
     [case (case p of Some v \<Rightarrow> Some v | None \<Rightarrow> resolve_char_ref n) of Some v \<Rightarrow> Inr (DText v) | None \<Rightarrow> Inl InvalidContent]"
| "xml_event_events _ = []"

definition translate :: "(unit + xml_event) list \<Rightarrow> (de_error + de_event) list" where
  "translate xs = concat (map (\<lambda>x. case x of Inl _ \<Rightarrow> [Inl InvalidXml] | Inr ev \<Rightarrow> xml_event_events ev) xs)"

definition pending :: "deserializer \<Rightarrow> (de_error + de_event) list" where
  "pending d = slot_events (peeked d) @ slot_events (next_slot d) @ translate (xml_inner d)"

lemma read_inner_translate:
  "translate xs = r # rs \<Longrightarrow> \<exists>slot ys. read_inner xs = (r, slot, ys) \<and> slot_events slot @ translate ys = rs"
proof (induction xs rule: read_inner.induct)
  case (3 ev xs)
  then show ?case by (cases ev) (auto simp: translate_def slot_events_def split: option.splits)
qed (auto simp: translate_def slot_events_def)

lemma read_event_pending:
  assumes "pending d = r # rs" and "peeked d = None"
  shows "\<exists>d1. read_event d = (r, d1) \<and> pending d1 = rs \<and> peeked d1 = None"
proof (cases "next_slot d")
  case None
  then show ?thesis
    using assms read_inner_translate [of "xml_inner d" r rs] by (auto simp: read_event_def pending_def slot_events_def)
next
  case (Some ev)
  then show ?thesis using assms by (auto simp: read_event_def pending_def slot_events_def)
qed

lemma next_event_pending: "pending d = r # rs \<Longrightarrow> \<exists>d1. next_event d = (r, d1) \<and> pending d1 = rs"
  using read_event_pending [of d r rs]
  by (cases "peeked d") (auto simp: next_event_def pending_def slot_events_def)

lemma peek_event_pending:
  assumes "pending d = Inr ev # rs"
  shows "\<exists>d1. peek_event d = (Inr ev, d1) \<and> pending d1 = Inr ev # rs \<and> pending (consume_peeked d1) = rs"
proof (cases "peeked d")
  case None
  then obtain d1 where "read_event d = (Inr ev, d1)" "pending d1 = rs" "peeked d1 = None"
    using read_event_pending [OF assms] by blast
  then show ?thesis using None by (auto simp: peek_event_def pending_def slot_events_def consume_peeked_def)
next
  case (Some ev')
  then show ?thesis using assms by (auto simp: peek_event_def pending_def slot_events_def consume_peeked_def)
qed

lemma length_translate: "length (translate xs) \<le> 2 * length xs"
proof (induction xs)
  case (Cons x xs)
  have "length (case x of Inl _ \<Rightarrow> [Inl InvalidXml] | Inr ev \<Rightarrow> xml_event_events ev) \<le> 2"
  proof (cases x)
    case (Inr ev)
    then show ?thesis by (cases ev) auto
  qed simp
  with Cons show ?case by (simp add: translate_def)
qed (simp add: translate_def)

lemma length_pending: "length (pending d) \<le> events_left d"
  using length_translate [of "xml_inner d"] by (auto simp: pending_def events_left_def slot_events_def split: option.splits)

section \<open>Trees\<close>

datatype xtree = Elem bytes attributes "xtree list" | Chars bytes

fun tree_events :: "xtree \<Rightarrow> de_event list" where
  "tree_events (Elem n a ts) = DStart n a # concat (map tree_events ts) @ [DEnd n]"
| "tree_events (Chars t) = [DText t]"

abbreviation trees_events :: "xtree list \<Rightarrow> de_event list" where
  "trees_events ts \<equiv> concat (map tree_events ts)"

fun is_elem :: "xtree \<Rightarrow> bool" where
  "is_elem (Elem _ _ _) = True"
| "is_elem (Chars _) = False"

lemma next_markup_pending:
  "pending d = map Inr (trees_events ts) @ r # rs \<Longrightarrow> \<not> list_ex is_elem ts \<Longrightarrow> (\<And>t. r \<noteq> Inr (DText t)) \<Longrightarrow>
     \<exists>d1. next_markup d = (r, d1) \<and> pending d1 = rs"
proof (induction ts arbitrary: d)
  case Nil
  then obtain d1 where "next_event d = (r, d1)" "pending d1 = rs" using next_event_pending [of d r rs] by auto
  with Nil.prems(3) show ?case by (subst next_markup.simps) (auto split: sum.splits de_event.splits)
next
  case (Cons t ts)
  then obtain c where t: "t = Chars c" by (cases t) auto
  then obtain d1 where d1: "next_event d = (Inr (DText c), d1)" "pending d1 = map Inr (trees_events ts) @ r # rs"
    using next_event_pending [of d "Inr (DText c)"] Cons.prems(1) by auto
  with Cons.IH [of d1] Cons.prems show ?case by (subst next_markup.simps) auto
qed

lemma peek_markup_pending:
  "pending d = map Inr (trees_events ts) @ Inr ev # rs \<Longrightarrow> \<not> list_ex is_elem ts \<Longrightarrow> (\<And>t. ev \<noteq> DText t) \<Longrightarrow>
     \<exists>d1. peek_markup d = (Inr ev, d1) \<and> pending d1 = Inr ev # rs \<and> pending (consume_peeked d1) = rs"
proof (induction ts arbitrary: d)
  case Nil
  then obtain d1 where "peek_event d = (Inr ev, d1)" "pending d1 = Inr ev # rs" "pending (consume_peeked d1) = rs"
    using peek_event_pending [of d ev rs] by auto
  with Nil.prems(3) show ?case by (subst peek_markup.simps) (auto split: de_event.splits)
next
  case (Cons t ts)
  then obtain c where t: "t = Chars c" by (cases t) auto
  then obtain d1 where d1: "peek_event d = (Inr (DText c), d1)"
    "pending (consume_peeked d1) = map Inr (trees_events ts) @ Inr ev # rs"
    using peek_event_pending [of d "DText c"] Cons.prems(1) by auto
  with Cons.IH [of "consume_peeked d1"] Cons.prems show ?case by (subst peek_markup.simps) auto
qed

lemma expect_end_pending:
  assumes "pending d = map Inr (trees_events ts) @ Inr (DEnd n) # rest"
  shows "\<exists>d1. expect_end n d = (Some (if list_ex is_elem ts then Inl UnexpectedStart else Inr ()), d1)
    \<and> (\<not> list_ex is_elem ts \<longrightarrow> pending d1 = rest)"
proof (cases "list_ex is_elem ts")
  case False
  then obtain d1 where "next_markup d = (Inr (DEnd n), d1)" "pending d1 = rest"
    using next_markup_pending [OF assms] by auto
  with False show ?thesis by (auto simp: expect_end_def)
next
  case True
  let ?p = "\<lambda>t. \<not> is_elem t"
  obtain m a kids zs where z: "dropWhile ?p ts = Elem m a kids # zs"
  proof (cases "dropWhile ?p ts")
    case Nil
    with True show ?thesis by (auto simp: dropWhile_eq_Nil_conv list_ex_iff)
  next
    case (Cons t zs)
    then have "is_elem t" by (metis hd_dropWhile list.distinct(1) list.sel(1))
    with Cons that show ?thesis by (cases t) auto
  qed
  then have ts: "ts = takeWhile ?p ts @ Elem m a kids # zs" by (metis takeWhile_dropWhile_id)
  have no: "\<not> list_ex is_elem (takeWhile ?p ts)" by (auto simp: list_ex_iff dest: set_takeWhileD)
  have "pending d = map Inr (trees_events (takeWhile ?p ts)) @ Inr (DStart m a) # map Inr (trees_events kids @ [DEnd m] @ trees_events zs) @ Inr (DEnd n) # rest"
    using assms by (subst (asm) ts) simp
  from next_markup_pending [OF this no] obtain d1 where "next_markup d = (Inr (DStart m a), d1)" by auto
  with True show ?thesis by (simp add: expect_end_def)
qed

section \<open>Content of an element\<close>

text \<open>
  A reader of content answers as \<open>spec\<close> says for the children, and leaves the children that it did not take, with
  the end of the element after them.
\<close>

locale element_content =
  fixes m :: "'a de" and spec :: "xtree list \<Rightarrow> de_error + 'a \<times> xtree list"
  assumes reads: "pending d = map Inr (trees_events ts) @ Inr (DEnd n) # rest \<Longrightarrow>
    \<exists>d1. m d = (Some (map_sum id fst (spec ts)), d1)
      \<and> (\<forall>a left. spec ts = Inr (a, left) \<longrightarrow> pending d1 = map Inr (trees_events left) @ Inr (DEnd n) # rest)"

text \<open>The end of an element is expected after its content: what is left of it must be text.\<close>

definition closed :: "de_error + 'a \<times> xtree list \<Rightarrow> de_error + 'a" where
  "closed r =
     (case r of Inl e \<Rightarrow> Inl e | Inr (a, left) \<Rightarrow> if list_ex is_elem left then Inl UnexpectedStart else Inr a)"

context element_content
begin

lemma then_end:
  assumes "pending d = map Inr (trees_events ts) @ Inr (DEnd n) # rest"
  shows "\<exists>d1. de_bind m (\<lambda>a. de_bind (expect_end n) (\<lambda>_. k a)) d =
      (case closed (spec ts) of Inl e \<Rightarrow> (Some (Inl e), d1) | Inr a \<Rightarrow> k a d1) \<and> (\<forall>a. closed (spec ts) = Inr a \<longrightarrow> pending d1 = rest)"
proof (cases "spec ts")
  case (Inl e)
  then show ?thesis using reads [OF assms] by (auto simp: de_bind_def closed_def)
next
  case (Inr al)
  obtain a left where al: "al = (a, left)" by fastforce
  obtain d1 where d1: "m d = (Some (Inr a), d1)" "pending d1 = map Inr (trees_events left) @ Inr (DEnd n) # rest"
    using reads [OF assms] Inr al by auto
  from expect_end_pending [OF d1(2)] obtain d2 where "expect_end n d1 = (Some (if list_ex is_elem left then Inl UnexpectedStart else Inr ()), d2)"
    "\<not> list_ex is_elem left \<longrightarrow> pending d2 = rest" by blast
  with d1 Inr al show ?thesis by (auto simp: de_bind_def closed_def)
qed

end

lemma element_content_return:
  "element_content m spec \<Longrightarrow>
   element_content (de_bind m (\<lambda>a. de_return (f a))) (\<lambda>ts. map_sum id (map_prod f id) (spec ts))"
proof
  fix d ts n rest
  assume e: "element_content m spec" and p: "pending d = map Inr (trees_events ts) @ Inr (DEnd n) # rest"
  from element_content.reads [OF e p] show "\<exists>d1. de_bind m (\<lambda>a. de_return (f a)) d =
      (Some (map_sum id fst (map_sum id (map_prod f id) (spec ts))), d1)
      \<and> (\<forall>a left. map_sum id (map_prod f id) (spec ts) = Inr (a, left) \<longrightarrow> pending d1 = map Inr (trees_events left) @ Inr (DEnd n) # rest)"
    by (cases "spec ts") (auto simp: de_bind_def de_return_def)
qed

lemma element_content_fail: "element_content (de_fail e) (\<lambda>_. Inl e)"
  by unfold_locales (simp add: de_fail_def)

subsection \<open>Text\<close>

definition tree_text :: "xtree list \<Rightarrow> de_error + bytes" where
  "tree_text ts =
     (if list_ex is_elem ts then Inl UnexpectedStart
      else Inr (concat (map (\<lambda>t. case t of Chars c \<Rightarrow> c | Elem _ _ _ \<Rightarrow> []) ts)))"

lemma text_loop_pending:
  "pending d = map Inr (trees_events ts) @ Inr (DEnd n) # rest \<Longrightarrow>
     \<exists>d1. text_loop buf d =
       (map_sum id (\<lambda>t. (case buf of Some b \<Rightarrow> b | None \<Rightarrow> []) @ t) (tree_text ts), d1)
       \<and> (\<forall>t. tree_text ts = Inr t \<longrightarrow> pending d1 = Inr (DEnd n) # rest)"
proof (induction ts arbitrary: buf d)
  case Nil
  then obtain d1 where "peek_event d = (Inr (DEnd n), d1)" "pending d1 = Inr (DEnd n) # rest"
    using peek_event_pending [of d "DEnd n"] by auto
  then show ?case by (subst text_loop.simps) (simp add: tree_text_def)
next
  case (Cons t ts)
  show ?case
  proof (cases t)
    case (Elem m a kids)
    then obtain d1 where "peek_event d = (Inr (DStart m a), d1)"
      using Cons.prems peek_event_pending [of d "DStart m a"] by auto
    with Elem show ?thesis by (subst text_loop.simps) (simp add: tree_text_def)
  next
    case (Chars c)
    then obtain d1 where d1: "peek_event d = (Inr (DText c), d1)"
      "pending (consume_peeked d1) = map Inr (trees_events ts) @ Inr (DEnd n) # rest"
      using Cons.prems peek_event_pending [of d "DText c"] by auto
    from Cons.IH [OF d1(2), of "Some (case buf of Some b \<Rightarrow> b @ c | None \<Rightarrow> c)"] d1(1) Chars show ?thesis
      by (subst text_loop.simps) (auto simp: tree_text_def split: option.splits)
  qed
qed

definition read_text :: "(bytes \<Rightarrow> de_error + 'a) \<Rightarrow> xtree list \<Rightarrow> de_error + 'a \<times> xtree list" where
  "read_text f ts = (case tree_text ts of Inl e \<Rightarrow> Inl e | Inr t \<Rightarrow> map_sum id (\<lambda>a. (a, [])) (f t))"

interpretation text_content: element_content "text_with f" "read_text f"
proof
  fix d ts n rest
  assume "pending d = map Inr (trees_events ts) @ Inr (DEnd n) # rest"
  from text_loop_pending [OF this, of None] obtain d1 where t: "text_loop None d = (tree_text ts, d1)"
    "\<forall>t. tree_text ts = Inr t \<longrightarrow> pending d1 = Inr (DEnd n) # rest"
    by (cases "tree_text ts") auto
  then show "\<exists>d1. text_with f d = (Some (map_sum id fst (read_text f ts)), d1)
      \<and> (\<forall>a left. read_text f ts = Inr (a, left) \<longrightarrow> pending d1 = map Inr (trees_events left) @ Inr (DEnd n) # rest)"
    by (cases "tree_text ts"; cases "f (projr (tree_text ts))") (auto simp: text_with_def read_text_def)
qed

subsection \<open>Skipped content\<close>

lemma skip_loop_tree:
  "pending d = map Inr (tree_events t) @ rs \<Longrightarrow> \<exists>d1. skip_loop k d = skip_loop k d1 \<and> pending d1 = rs"
proof (induction t arbitrary: d k rs)
  case (Elem n a ts)
  obtain d1 where d1: "peek_event d = (Inr (DStart n a), d1)"
    "pending (consume_peeked d1) = map Inr (trees_events ts) @ Inr (DEnd n) # rs"
    using Elem.prems peek_event_pending [of d "DStart n a"] by auto
  have "\<exists>d2. skip_loop k d = skip_loop k d2 \<and> pending d2 = rs'"
    if "set us \<subseteq> set ts" "pending d = map Inr (trees_events us) @ rs'" for us d k rs'
    using that
  proof (induction us arbitrary: d)
    case (Cons u us)
    from Elem.IH [of u d "map Inr (trees_events us) @ rs'" k] Cons.prems
    obtain d2 where "skip_loop k d = skip_loop k d2" "pending d2 = map Inr (trees_events us) @ rs'" by auto
    with Cons.IH [of d2] Cons.prems show ?case by auto
  qed auto
  from this [OF order_refl d1(2), of "k + 1"] obtain d2 where d2: "skip_loop (k + 1) (consume_peeked d1) = skip_loop (k + 1) d2"
    "pending d2 = Inr (DEnd n) # rs" by blast
  from peek_event_pending [OF d2(2)] obtain d3 where "peek_event d2 = (Inr (DEnd n), d3)" "pending (consume_peeked d3) = rs" by blast
  then have "skip_loop (k + 1) d2 = skip_loop k (consume_peeked d3) \<and> pending (consume_peeked d3) = rs"
    by (subst skip_loop.simps) simp
  moreover have "skip_loop k d = skip_loop (k + 1) (consume_peeked d1)" using d1(1) by (subst skip_loop.simps) simp
  ultimately show ?case using d2(1) by auto
next
  case (Chars c)
  then obtain d1 where "peek_event d = (Inr (DText c), d1)" "pending (consume_peeked d1) = rs"
    using peek_event_pending [of d "DText c"] by auto
  then show ?case by (intro exI [of _ "consume_peeked d1"]) (subst skip_loop.simps, simp)
qed

interpretation skipped_content: element_content skip_element_content "\<lambda>_. Inr ((), [])"
proof
  fix d ts n rest
  assume p: "pending d = map Inr (trees_events ts) @ Inr (DEnd n) # rest"
  have "\<exists>d1. skip_loop 0 d = skip_loop 0 d1 \<and> pending d1 = Inr (DEnd n) # rest"
    using p
  proof (induction ts arbitrary: d)
    case (Cons t ts)
    from Cons.prems skip_loop_tree [of d t "map Inr (trees_events ts) @ Inr (DEnd n) # rest" 0]
    obtain d1 where "skip_loop 0 d = skip_loop 0 d1" "pending d1 = map Inr (trees_events ts) @ Inr (DEnd n) # rest" by auto
    with Cons.IH [of d1] show ?case by auto
  qed auto
  then obtain d1 where d1: "skip_loop 0 d = skip_loop 0 d1" "pending d1 = Inr (DEnd n) # rest" by blast
  from peek_event_pending [OF d1(2)] obtain d2 where "peek_event d1 = (Inr (DEnd n), d2)" "pending d2 = Inr (DEnd n) # rest" by blast
  then have "skip_loop 0 d1 = (Inr (), d2) \<and> pending d2 = Inr (DEnd n) # rest" by (subst skip_loop.simps) simp
  with d1(1) show "\<exists>d1. skip_element_content d = (Some (map_sum id fst (Inr ((), []))), d1)
      \<and> (\<forall>a left. Inr ((), []) = Inr (a, left) \<longrightarrow> pending d1 = map Inr (trees_events left) @ Inr (DEnd n) # rest)"
    by (simp add: skip_element_content_def)
qed

end
