(* ===== verification/Xml_Correct.thy ===== *)
theory Xml_Correct
  imports Xml_Tree
begin

text \<open>
  The generated readers on document trees: for every shape the deserializer, run on the events of a document, answers as the reader of
  the tree does, errors included; and the tree of a written value is read as the value.
\<close>

section \<open>Loops over children\<close>

fun read_children :: "('s \<Rightarrow> bytes \<Rightarrow> attributes \<Rightarrow> xtree list \<Rightarrow> de_error + 's \<times> xtree list) \<Rightarrow> 's \<Rightarrow> xtree list \<Rightarrow> de_error + 's" where
  "read_children g s [] = Inr s"
| "read_children g s (Chars _ # ts) = read_children g s ts"
| "read_children g s (Elem n a kids # ts) =
     (case closed (g s n a kids) of Inl e \<Rightarrow> Inl e | Inr s1 \<Rightarrow> read_children g s1 ts)"

lemma for_each_loop_text:
  "peek_event d = (Inr (DText c), d1) \<Longrightarrow> for_each_loop (Suc k) f s d = for_each_loop (Suc k) f s (consume_peeked d1)"
  by (simp add: peek_markup.simps [of d])

lemma for_each_loop_pending:
  assumes "\<And>s n a. element_content (f s n a) (g s n a)"
  shows "pending d = map Inr (trees_events ts) @ Inr (DEnd n) # rest \<Longrightarrow> length ts < k \<Longrightarrow>
    \<exists>d1. for_each_loop k f s d = (Some (read_children g s ts), d1)
      \<and> (\<forall>s1. read_children g s ts = Inr s1 \<longrightarrow> pending d1 = Inr (DEnd n) # rest)"
proof (induction ts arbitrary: k s d)
  case Nil
  then obtain j where k: "k = Suc j" by (cases k) auto
  from Nil.prems(1) peek_markup_pending [of d "[]" "DEnd n" rest]
  obtain d1 where "peek_markup d = (Inr (DEnd n), d1)" "pending d1 = Inr (DEnd n) # rest" by auto
  with k show ?case by simp
next
  case (Cons t ts)
  then obtain j where k: "k = Suc j" by (cases k) auto
  show ?case
  proof (cases t)
    case (Chars c)
    then obtain d1 where d1: "peek_event d = (Inr (DText c), d1)"
      "pending (consume_peeked d1) = map Inr (trees_events ts) @ Inr (DEnd n) # rest"
      using Cons.prems(1) peek_event_pending [of d "DText c"] by auto
    with Cons.IH [OF d1(2), of k s] Cons.prems(2) for_each_loop_text [OF d1(1), of j f s] show ?thesis by (simp add: Chars k)
  next
    case (Elem m a kids)
    then obtain d1 where d1: "peek_markup d = (Inr (DStart m a), d1)"
      "pending (consume_peeked d1) = map Inr (trees_events kids) @ Inr (DEnd m) # map Inr (trees_events ts) @ Inr (DEnd n) # rest"
      using Cons.prems(1) peek_markup_pending [of d "[]" "DStart m a"] by auto
    from element_content.then_end [OF assms [of s m a] d1(2), of "for_each_loop j f"] obtain d2 where
      d2: "de_bind (f s m a) (\<lambda>s1. de_bind (expect_end m) (\<lambda>_. for_each_loop j f s1)) (consume_peeked d1) =
        (case closed (g s m a kids) of Inl e \<Rightarrow> (Some (Inl e), d2) | Inr s1 \<Rightarrow> for_each_loop j f s1 d2)"
      "\<forall>s1. closed (g s m a kids) = Inr s1 \<longrightarrow> pending d2 = map Inr (trees_events ts) @ Inr (DEnd n) # rest" by blast
    show ?thesis
    proof (cases "closed (g s m a kids)")
      case (Inl e)
      with d1(1) d2 show ?thesis by (simp add: Elem k)
    next
      case (Inr s1)
      with Cons.IH [of d2 j s1] Cons.prems(2) d1(1) d2 show ?thesis by (simp add: Elem k)
    qed
  qed
qed

lemma length_trees_events: "length ts \<le> length (trees_events ts)"
proof (induction ts)
  case (Cons t ts)
  then show ?case by (cases t) simp_all
qed simp

lemma for_each_content:
  assumes "\<And>s n a. element_content (f s n a) (g s n a)"
  shows "element_content (for_each_element_with_start f s) (\<lambda>ts. map_sum id (\<lambda>s1. (s1, [])) (read_children g s ts))"
proof
  fix d ts n rest
  assume p: "pending d = map Inr (trees_events ts) @ Inr (DEnd n) # rest"
  have "length ts < Suc (events_left d)"
    using p length_pending [of d] length_trees_events [of ts] by simp
  from for_each_loop_pending [where f = f and g = g and s = s, OF assms p this] show "\<exists>d1. for_each_element_with_start f s d =
      (Some (map_sum id fst (map_sum id (\<lambda>s1. (s1, [])) (read_children g s ts))), d1)
      \<and> (\<forall>a left. map_sum id (\<lambda>s1. (s1, [])) (read_children g s ts) = Inr (a, left) \<longrightarrow>
          pending d1 = map Inr (trees_events left) @ Inr (DEnd n) # rest)"
    by (cases "read_children g s ts") (auto simp: for_each_element_with_start_def simp del: for_each_loop.simps)
qed

type_synonym reader = "xtree list \<Rightarrow> de_error + xval \<times> xtree list"

definition read_member :: "bytes \<Rightarrow> (xtree list \<Rightarrow> de_error + 'a \<times> xtree list) \<Rightarrow> 'a list \<Rightarrow> bytes \<Rightarrow> attributes \<Rightarrow> xtree list \<Rightarrow> de_error + 'a list \<times> xtree list" where
  "read_member name r l n a kids = (if n \<noteq> name then Inr (l, []) else map_sum id (map_prod (\<lambda>v. l @ [v]) id) (r kids))"

definition read_list :: "bytes \<Rightarrow> (xtree list \<Rightarrow> de_error + 'a \<times> xtree list) \<Rightarrow> xtree list \<Rightarrow> de_error + 'a list \<times> xtree list" where
  "read_list name r ts = map_sum id (\<lambda>l. (l, [])) (read_children (read_member name r) [] ts)"

lemma skip_return: "element_content (de_bind skip_element_content (\<lambda>_. de_return x)) (\<lambda>_. Inr (x, []))"
  using element_content_return [OF skipped_content.element_content_axioms, of "\<lambda>_. x"] by (simp add: map_prod_def)

lemma list_content_reads: "element_content dec r \<Longrightarrow> element_content (list_content name dec) (read_list name r)"
  unfolding list_content_def for_each_element_def read_list_def
proof (rule for_each_content)
  fix l n a
  assume "element_content dec r"
  from element_content_return [OF this, of "\<lambda>v. l @ [v]"] skip_return [of l]
  show "element_content (if n \<noteq> name then de_bind skip_element_content (\<lambda>_. de_return l) else de_bind dec (\<lambda>a. de_return (l @ [a])))
      (read_member name r l n a)"
    by (cases "n = name") (simp_all add: read_member_def [abs_def])
qed

section \<open>Reading by shape\<close>

fun read_field :: "reader xml_field \<Rightarrow> xval option \<Rightarrow> attributes \<Rightarrow> xtree list \<Rightarrow> de_error + xval option \<times> xtree list" where
  "read_field (Field n r (Content g)) slot a ts =
     (if slot \<noteq> None then Inl DuplicateField else map_sum id (map_prod Some id) (g ts))"
| "read_field (Field n r (Flattened g)) slot a ts =
     map_sum id (map_prod (\<lambda>v. Some (VList ((case slot of Some (VList vs) \<Rightarrow> vs | _ \<Rightarrow> []) @ [v]))) id) (g ts)"
| "read_field (Field n r (Listed m g)) slot a ts =
     (if slot \<noteq> None then Inl DuplicateField else map_sum id (map_prod (\<lambda>vs. Some (VList vs)) id) (read_list m g ts))"
| "read_field (Field n r (Typed g)) slot a ts =
     (if slot \<noteq> None then Inl DuplicateField
      else (case xsi_type None a of
          Inl e \<Rightarrow> Inl e
        | Inr None \<Rightarrow> (case g ts of Inl e \<Rightarrow> Inl e | Inr _ \<Rightarrow> Inl MissingField)
        | Inr (Some t) \<Rightarrow> map_sum id (map_prod (\<lambda>v. Some (VTyped t v)) id) (g ts)))"

definition read_child :: "unknown \<Rightarrow> reader xml_field list \<Rightarrow> xval option list \<Rightarrow> bytes \<Rightarrow> attributes \<Rightarrow> xtree list \<Rightarrow> de_error + xval option list \<times> xtree list" where
  "read_child u gs slots n a ts =
     (case field_index n gs of
        Some i \<Rightarrow> map_sum id (map_prod (\<lambda>v. slots[i := v]) id) (read_field (gs ! i) (slots ! i) a ts)
      | None \<Rightarrow> (case u of SkipUnknown \<Rightarrow> Inr (slots, []) | RejectUnknown \<Rightarrow> Inl UnexpectedTagName))"

definition read_struct :: "unknown \<Rightarrow> reader xml_field list \<Rightarrow> reader" where
  "read_struct u gs ts =
     (case read_children (read_child u gs) (replicate (length gs) None) ts of
        Inl e \<Rightarrow> Inl e
      | Inr slots \<Rightarrow> map_sum id (\<lambda>v. (v, [])) (finish_struct gs slots))"

fun read_union :: "(bytes \<times> reader) list \<Rightarrow> reader" where
  "read_union vs [] = Inl UnexpectedEnd"
| "read_union vs (Chars _ # ts) = read_union vs ts"
| "read_union vs (Elem n _ kids # ts) =
     (case map_of vs n of
        None \<Rightarrow> Inl UnexpectedTagName
      | Some g \<Rightarrow> (case closed (g kids) of Inl e \<Rightarrow> Inl e | Inr v \<Rightarrow> Inr (VVariant n v, ts)))"

primrec read_shape :: "xml_env \<Rightarrow> shape \<Rightarrow> reader" where
  "read_shape E TString = read_text (\<lambda>s. Inr (VString s))"
| "read_shape E (TEnum names) = read_text (enum_of_text names)"
| "read_shape E TEmpty = (\<lambda>ts. Inr (VRecord [], ts))"
| "read_shape E TBool =
     read_text (\<lambda>s. if s = ''true'' \<or> s = ''TRUE'' then Inr (VBool True)
                    else if s = ''false'' \<or> s = ''FALSE'' then Inr (VBool False) else Inl InvalidContent)"
| "read_shape E (TInt bits) = read_text (\<lambda>s. case int_parse E bits s of Some i \<Rightarrow> Inr (VInt i) | None \<Rightarrow> Inl InvalidContent)"
| "read_shape E TETag = read_text etag_of_text"
| "read_shape E (TTimestamp f) = read_text (\<lambda>s. case Timestamp_parse (xml_time E) f s of Inr t \<Rightarrow> Inr (VTime t) | Inl _ \<Rightarrow> Inl InvalidContent)"
| "read_shape E (TStruct u fs) = read_struct u (map (map_xml_field (read_shape E)) fs)"
| "read_shape E (TUnion vs) = read_union (map (map_prod id (read_shape E)) vs)"

section \<open>The deserializer reads by shape\<close>

lemma missing_type:
  assumes "element_content dec g"
  shows "element_content (de_bind dec (\<lambda>v. de_fail MissingField)) (\<lambda>ts. case g ts of Inl e \<Rightarrow> Inl e | Inr _ \<Rightarrow> Inl MissingField)"
proof
  fix d ts n rest
  assume p: "pending d = map Inr (trees_events ts) @ Inr (DEnd n) # rest"
  from element_content.reads [OF assms p] show "\<exists>d1. de_bind dec (\<lambda>v. de_fail MissingField) d =
      (Some (map_sum id fst (case g ts of Inl e \<Rightarrow> Inl e | Inr _ \<Rightarrow> Inl MissingField)), d1)
      \<and> (\<forall>a left. (case g ts of Inl e \<Rightarrow> Inl e | Inr _ \<Rightarrow> Inl MissingField) = Inr (a, left) \<longrightarrow>
          pending d1 = map Inr (trees_events left) @ Inr (DEnd n) # rest)"
    by (cases "g ts") (auto simp: de_bind_def de_fail_def)
qed

lemma element_content_eq: "element_content m spec \<Longrightarrow> (\<And>ts. spec' ts = spec ts) \<Longrightarrow> element_content m spec'"
  by (metis ext)

lemma field_reads:
  assumes "\<And>s. s \<in> set_xml_field f \<Longrightarrow> element_content (D s) (R s)"
  shows "element_content (de_field (map_xml_field D f) slot a) (read_field (map_xml_field R f) slot a)"
proof (cases f)
  case (Field n r k)
  show ?thesis
  proof (cases "slot \<noteq> None \<and> (\<forall>s. k \<noteq> Flattened s)")
    case True
    then have "de_field (map_xml_field D f) slot a = de_fail DuplicateField" by (cases k) (auto simp: Field)
    moreover have "read_field (map_xml_field R f) slot a ts = Inl DuplicateField" for ts using True by (cases k) (auto simp: Field)
    ultimately show ?thesis by (metis element_content_eq element_content_fail)
  next
    case False
    show ?thesis
    proof (cases k)
      case (Content s)
      with assms Field have "element_content (D s) (R s)" by simp
      from element_content_return [OF this, of Some] False show ?thesis
        by (auto simp: Field Content intro: element_content_eq)
    next
      case (Flattened s)
      with assms Field have "element_content (D s) (R s)" by simp
      from element_content_return [OF this] have "element_content (de_field (map_xml_field D f) slot a)
          (\<lambda>ts. map_sum id (map_prod (\<lambda>v. Some (VList ((case slot of Some (VList vs) \<Rightarrow> vs | _ \<Rightarrow> []) @ [v]))) id) (R s ts))"
        by (simp add: Field Flattened)
      then show ?thesis by (rule element_content_eq) (simp add: Field Flattened)
    next
      case (Listed m s)
      with assms Field have "element_content (D s) (R s)" by simp
      from element_content_return [OF list_content_reads [OF this, of m], of "\<lambda>vs. Some (VList vs)"] False show ?thesis
        by (auto simp: Field Listed intro: element_content_eq)
    next
      case (Typed s)
      with assms Field have e: "element_content (D s) (R s)" by simp
      show ?thesis
      proof (cases "xsi_type None a")
        case (Inl err)
        with False Typed show ?thesis by (auto simp: Field intro: element_content_eq [OF element_content_fail])
      next
        case (Inr ty)
        with False Typed element_content_return [OF e, of "\<lambda>v. Some (VTyped (the ty) v)"] missing_type [OF e] show ?thesis
          by (cases ty) (auto simp: Field intro: element_content_eq)
      qed
    qed
  qed
qed

lemma field_index_map [simp]: "field_index n (map (map_xml_field h) fs) = field_index n fs"
proof (induction fs)
  case (Cons f fs)
  then show ?case by (cases f) simp
qed simp

lemma field_index_Some: "field_index n fs = Some i \<Longrightarrow> i < length fs \<and> field_name (fs ! i) = n"
  by (induction fs arbitrary: i) (auto split: if_splits)

lemma child_reads:
  assumes "\<And>f s. f \<in> set fs \<Longrightarrow> s \<in> set_xml_field f \<Longrightarrow> element_content (D s) (R s)"
  shows "element_content (de_child u (map (map_xml_field D) fs) slots n a) (read_child u (map (map_xml_field R) fs) slots n a)"
proof (cases "field_index n fs")
  case None
  then show ?thesis
    using skip_return [of slots] by (cases u) (simp_all add: de_child_def read_child_def [abs_def] element_content_fail)
next
  case (Some i)
  then have i: "i < length fs" by (simp add: field_index_Some)
  with assms have "element_content (de_field (map_xml_field D (fs ! i)) (slots ! i) a) (read_field (map_xml_field R (fs ! i)) (slots ! i) a)"
    using i assms [of "fs ! i"] by (intro field_reads) simp
  from element_content_return [OF this, of "\<lambda>v. slots[i := v]"] i Some show ?thesis
    by (auto simp: de_child_def read_child_def intro: element_content_eq)
qed

lemma field_required_map [simp]: "field_required (map_xml_field h f) = field_required f"
  by (cases f) simp

lemma finish_struct_map [simp]: "finish_struct (map (map_xml_field h) fs) slots = finish_struct fs slots"
  by (auto simp: finish_struct_def zip_map1 list_ex_iff split: prod.splits)

lemma struct_reads:
  assumes "\<And>f s. f \<in> set fs \<Longrightarrow> s \<in> set_xml_field f \<Longrightarrow> element_content (D s) (R s)"
  shows "element_content (de_struct u (map (map_xml_field D) fs)) (read_struct u (map (map_xml_field R) fs))"
proof
  fix d ts n rest
  assume p: "pending d = map Inr (trees_events ts) @ Inr (DEnd n) # rest"
  let ?r = "read_children (read_child u (map (map_xml_field R) fs)) (replicate (length fs) None) ts"
  have "element_content (for_each_element_with_start (de_child u (map (map_xml_field D) fs)) (replicate (length fs) None))
      (\<lambda>ts. map_sum id (\<lambda>s1. (s1, [])) (read_children (read_child u (map (map_xml_field R) fs)) (replicate (length fs) None) ts))"
    by (rule for_each_content) (rule child_reads [OF assms])
  from element_content.reads [OF this p] show "\<exists>d1. de_struct u (map (map_xml_field D) fs) d =
      (Some (map_sum id fst (read_struct u (map (map_xml_field R) fs) ts)), d1)
      \<and> (\<forall>a left. read_struct u (map (map_xml_field R) fs) ts = Inr (a, left) \<longrightarrow>
          pending d1 = map Inr (trees_events left) @ Inr (DEnd n) # rest)"
    by (cases ?r; cases "finish_struct fs (projr ?r)") (auto simp: de_struct_def read_struct_def de_bind_def)
qed

fun first_element :: "(bytes \<Rightarrow> xtree list \<Rightarrow> de_error + 'a \<times> xtree list) \<Rightarrow> xtree list \<Rightarrow> de_error + 'a \<times> xtree list" where
  "first_element g [] = Inl UnexpectedEnd"
| "first_element g (Chars _ # ts) = first_element g ts"
| "first_element g (Elem n _ kids # ts) = map_sum id (\<lambda>v. (v, ts)) (closed (g n kids))"

lemma element_text: "peek_event d = (Inr (DText c), d1) \<Longrightarrow> element f d = element f (consume_peeked d1)"
  by (simp add: element_def peek_markup.simps [of d])

lemma element_reads:
  assumes "\<And>n. element_content (f n) (g n)"
  shows "element_content (element f) (first_element g)"
proof
  fix d ts n rest
  assume "pending d = map Inr (trees_events ts) @ Inr (DEnd n) # rest"
  then show "\<exists>d1. element f d = (Some (map_sum id fst (first_element g ts)), d1)
      \<and> (\<forall>a left. first_element g ts = Inr (a, left) \<longrightarrow> pending d1 = map Inr (trees_events left) @ Inr (DEnd n) # rest)"
  proof (induction ts arbitrary: d)
    case Nil
    from Nil.prems peek_markup_pending [of d "[]" "DEnd n" rest] obtain d1 where "peek_markup d = (Inr (DEnd n), d1)" by auto
    then show ?case by (simp add: element_def)
  next
    case (Cons t ts)
    show ?case
    proof (cases t)
      case (Chars c)
      then obtain d1 where d1: "peek_event d = (Inr (DText c), d1)"
        "pending (consume_peeked d1) = map Inr (trees_events ts) @ Inr (DEnd n) # rest"
        using Cons.prems peek_event_pending [of d "DText c"] by auto
      with Cons.IH [OF d1(2)] element_text [OF d1(1), of f] show ?thesis by (simp add: Chars)
    next
      case (Elem m a kids)
      then obtain d1 where d1: "peek_markup d = (Inr (DStart m a), d1)"
        "pending (consume_peeked d1) = map Inr (trees_events kids) @ Inr (DEnd m) # map Inr (trees_events ts) @ Inr (DEnd n) # rest"
        using Cons.prems peek_markup_pending [of d "[]" "DStart m a"] by auto
      from element_content.then_end [OF assms [of m] d1(2), of de_return] obtain d2 where
        "de_bind (f m) (\<lambda>v. de_bind (expect_end m) (\<lambda>_. de_return v)) (consume_peeked d1) =
          (case closed (g m kids) of Inl e \<Rightarrow> (Some (Inl e), d2) | Inr v \<Rightarrow> de_return v d2)"
        "\<forall>v. closed (g m kids) = Inr v \<longrightarrow> pending d2 = map Inr (trees_events ts) @ Inr (DEnd n) # rest" by blast
      with d1(1) show ?thesis by (cases "closed (g m kids)") (auto simp: element_def Elem de_return_def)
    qed
  qed
qed

lemma map_of_map_prod: "map_of (map (map_prod id h) vs) m = map_option h (map_of vs m)"
  by (induction vs) auto

lemma closed_map: "closed (map_sum id (map_prod h id) r) = map_sum id h (closed r)"
  by (auto simp: closed_def split: sum.splits)

lemma union_reads:
  assumes "\<And>n s. (n, s) \<in> set vs \<Longrightarrow> element_content (D s) (R s)"
  shows "element_content (de_union (map (map_prod id D) vs)) (read_union (map (map_prod id R) vs))"
proof -
  let ?g = "\<lambda>n kids. case map_of vs n of Some s \<Rightarrow> map_sum id (map_prod (VVariant n) id) (R s kids) | None \<Rightarrow> Inl UnexpectedTagName"
  have "element_content (de_union (map (map_prod id D) vs)) (first_element ?g)"
    unfolding de_union_def
  proof (rule element_reads)
    fix n
    show "element_content (case map_of (map (map_prod id D) vs) n of None \<Rightarrow> de_fail UnexpectedTagName
        | Some dec \<Rightarrow> de_bind dec (\<lambda>v. de_return (VVariant n v))) (?g n)"
    proof (cases "map_of vs n")
      case None
      then show ?thesis by (simp add: map_of_map_prod element_content_fail)
    next
      case (Some s)
      then have "element_content (D s) (R s)" using assms map_of_SomeD by metis
      from element_content_return [OF this] Some show ?thesis by (simp add: map_of_map_prod)
    qed
  qed
  moreover have "read_union (map (map_prod id R) vs) ts = first_element ?g ts" for ts
    by (induction "map (map_prod id R) vs" ts rule: read_union.induct)
      (auto simp: map_of_map_prod closed_map closed_def split: option.splits sum.splits)
  ultimately show ?thesis by (rule element_content_eq)
qed

lemma return_reads: "element_content (de_return x) (\<lambda>ts. Inr (x, ts))"
  by unfold_locales (simp add: de_return_def)

lemma shape_reads: "element_content (de_shape E s) (read_shape E s)"
proof (induction s)
  case (TStruct u fs)
  then show ?case using struct_reads [of fs "de_shape E" "read_shape E" u] by simp
next
  case (TUnion vs)
  have "element_content (de_shape E s) (read_shape E s)" if "(n, s) \<in> set vs" for n s
    using TUnion that by fastforce
  then show ?case using union_reads [of vs "de_shape E" "read_shape E"] by simp
qed (simp_all add: de_string_def de_bool_def de_int_def de_etag_def de_timestamp_def return_reads text_content.element_content_axioms)

text \<open>A document: the root element has one of the accepted names.\<close>

fun read_document :: "xml_env \<Rightarrow> bytes list \<Rightarrow> shape \<Rightarrow> xtree \<Rightarrow> de_error + xval" where
  "read_document E names s (Elem n _ kids) = (if n \<in> set names then closed (read_shape E s kids) else Inl UnexpectedTagName)"
| "read_document E names s (Chars _) = Inl UnexpectedEof"

lemma named_element_reads:
  assumes "pending d = map Inr (trees_events pre @ tree_events (Elem n a kids)) @ rest" and "\<not> list_ex is_elem pre"
  shows "\<exists>d1. named_element_any names (de_shape E s) d = (Some (read_document E names s (Elem n a kids)), d1)"
    and "\<exists>d1. named_element name (de_shape E s) d = (Some (read_document E [name] s (Elem n a kids)), d1)"
proof -
  have p: "pending d = map Inr (trees_events pre) @ Inr (DStart n a) # map Inr (trees_events kids) @ Inr (DEnd n) # rest"
    using assms(1) by simp
  obtain d1 where d1: "next_markup d = (Inr (DStart n a), d1)"
    "pending d1 = map Inr (trees_events kids) @ Inr (DEnd n) # rest"
    using next_markup_pending [OF p assms(2)] by auto
  from element_content.then_end [OF shape_reads d1(2), of E s de_return] obtain d2 where
    e: "de_bind (de_shape E s) (\<lambda>v. de_bind (expect_end n) (\<lambda>_. de_return v)) d1 =
      (case closed (read_shape E s kids) of Inl e \<Rightarrow> (Some (Inl e), d2) | Inr v \<Rightarrow> de_return v d2)" by blast
  have "find (\<lambda>m. m = n) names = (if n \<in> set names then Some n else None)" by (induction names) auto
  with d1(1) e show "\<exists>d1. named_element_any names (de_shape E s) d = (Some (read_document E names s (Elem n a kids)), d1)"
    by (cases "closed (read_shape E s kids)")
      (auto simp: named_element_any_def expect_start_any_def de_bind_def [of "expect_start_any names"] de_return_def)
  show "\<exists>d1. named_element name (de_shape E s) d = (Some (read_document E [name] s (Elem n a kids)), d1)"
    using d1(1) e by (cases "closed (read_shape E s kids)"; cases "n = name")
      (auto simp: named_element_def expect_start_def de_bind_def [of "expect_start name"] de_return_def)
qed

end
