(* ===== verification/Xml_Roundtrip.thy ===== *)
theory Xml_Roundtrip
  imports Xml_Correct
begin

text \<open>
  What the serializer writes is read back: \<open>shape_trees\<close> is the document of a value, \<open>has_shape\<close> says which values a shape has,
  and a delivered document may have its texts cut into pieces (as entity references do) and white space between its elements.
\<close>

section \<open>Values of a shape\<close>

fun field_ok :: "(xval \<Rightarrow> bool) xml_field \<Rightarrow> xval \<Rightarrow> bool" where
  "field_ok (Field n r (Content p)) v = (if v = VAbsent then \<not> r else p v)"
| "field_ok (Field n r (Flattened p)) v =
     (case v of VAbsent \<Rightarrow> \<not> r | VList vs \<Rightarrow> vs \<noteq> [] \<and> list_all p vs | _ \<Rightarrow> False)"
| "field_ok (Field n r (Listed m p)) v =
     (case v of VAbsent \<Rightarrow> \<not> r | VList vs \<Rightarrow> list_all p vs | _ \<Rightarrow> False)"
| "field_ok (Field n r (Typed p)) v = (case v of VAbsent \<Rightarrow> \<not> r | VTyped _ x \<Rightarrow> p x | _ \<Rightarrow> False)"

definition struct_ok :: "(xval \<Rightarrow> bool) xml_field list \<Rightarrow> xval \<Rightarrow> bool" where
  "struct_ok ps v = (case v of VRecord vs \<Rightarrow> list_all2 field_ok ps vs | _ \<Rightarrow> False)"

text \<open>The text of an entity tag is written as it is, so that it must not contain markup.\<close>

definition etag_plain :: "etag \<Rightarrow> bool" where
  "etag_plain t = (case t of Strong v \<Rightarrow> etag_ok v \<and> CHR ''<'' \<notin> set v \<and> CHR ''&'' \<notin> set v | Weak _ \<Rightarrow> False)"

text \<open>A time is written without its offset and with three digits of fraction, or with none.\<close>

fun time_kept :: "ts_format \<Rightarrow> offset_date_time \<Rightarrow> bool" where
  "time_kept DateTime t \<longleftrightarrow> date_time_ok t \<and> od_offset t = 0 \<and> od_nanosecond t mod 1000000 = 0"
| "time_kept HttpDate t \<longleftrightarrow> date_time_ok t \<and> od_offset t = 0 \<and> od_nanosecond t = 0"
| "time_kept EpochSeconds t \<longleftrightarrow> False"

primrec has_shape :: "xml_env \<Rightarrow> shape \<Rightarrow> xval \<Rightarrow> bool" where
  "has_shape E TString = (\<lambda>v. case v of VString _ \<Rightarrow> True | _ \<Rightarrow> False)"
| "has_shape E (TEnum names) = (\<lambda>v. case v of VString _ \<Rightarrow> True | _ \<Rightarrow> False)"
| "has_shape E TEmpty = (\<lambda>v. v = VRecord [])"
| "has_shape E TBool = (\<lambda>v. case v of VBool _ \<Rightarrow> True | _ \<Rightarrow> False)"
| "has_shape E (TInt bits) = (\<lambda>v. case v of VInt i \<Rightarrow> - (2 ^ (bits - 1)) \<le> i \<and> i < 2 ^ (bits - 1) | _ \<Rightarrow> False)"
| "has_shape E TETag = (\<lambda>v. case v of VETag t \<Rightarrow> etag_plain t | _ \<Rightarrow> False)"
| "has_shape E (TTimestamp f) = (\<lambda>v. case v of VTime t \<Rightarrow> time_kept f t | _ \<Rightarrow> False)"
| "has_shape E (TStruct u fs) = struct_ok (map (map_xml_field (has_shape E)) fs)"
| "has_shape E (TUnion vs) =
     (\<lambda>v. case v of VVariant n x \<Rightarrow> (case map_of (map (map_prod id (has_shape E)) vs) n of Some p \<Rightarrow> p x | None \<Rightarrow> False) | _ \<Rightarrow> False)"

text \<open>The fields of a struct have different names.\<close>

fun field_holds :: "bool xml_field \<Rightarrow> bool" where
  "field_holds (Field n r k) = (case k of Content b \<Rightarrow> b | Flattened b \<Rightarrow> b | Listed m b \<Rightarrow> b | Typed b \<Rightarrow> b)"

lemma field_holds_map: "field_holds (map_xml_field p f) \<Longrightarrow> s \<in> set_xml_field f \<Longrightarrow> p s"
  by (cases f; cases "field_kind f") auto

primrec shape_ok :: "shape \<Rightarrow> bool" where
  "shape_ok TString = True"
| "shape_ok (TEnum names) = True"
| "shape_ok TEmpty = True"
| "shape_ok TBool = True"
| "shape_ok (TInt bits) = True"
| "shape_ok TETag = True"
| "shape_ok (TTimestamp f) = True"
| "shape_ok (TStruct u fs) = (distinct (map field_name fs) \<and> list_all field_holds (map (map_xml_field shape_ok) fs))"
| "shape_ok (TUnion vs) = list_all (\<lambda>(_, x). x) (map (map_prod id shape_ok) vs)"

section \<open>The document of a value\<close>

fun tree_field :: "(xval \<Rightarrow> xtree list) xml_field \<Rightarrow> xval \<Rightarrow> xtree list" where
  "tree_field (Field n r (Content w)) v = (if v = VAbsent then [] else [Elem n [] (w v)])"
| "tree_field (Field n r (Flattened w)) (VList vs) = map (\<lambda>v. Elem n [] (w v)) vs"
| "tree_field (Field n r (Flattened w)) _ = []"
| "tree_field (Field n r (Listed m w)) (VList vs) = [Elem n [] (map (\<lambda>v. Elem m [] (w v)) vs)]"
| "tree_field (Field n r (Listed m w)) _ = []"
| "tree_field (Field n r (Typed w)) (VTyped ty v) =
     [Elem n [Some (''xmlns:xsi'', Some XSI), Some (''xsi:type'', Some ty)] (w v)]"
| "tree_field (Field n r (Typed w)) _ = []"

definition tree_struct :: "(xval \<Rightarrow> xtree list) xml_field list \<Rightarrow> xval \<Rightarrow> xtree list" where
  "tree_struct fs v = (case v of VRecord vs \<Rightarrow> concat (map2 tree_field fs vs) | _ \<Rightarrow> [])"

definition tree_union :: "(bytes \<times> (xval \<Rightarrow> xtree list)) list \<Rightarrow> xval \<Rightarrow> xtree list" where
  "tree_union ws v =
     (case v of VVariant n x \<Rightarrow> (case map_of ws n of Some w \<Rightarrow> [Elem n [] (w x)] | None \<Rightarrow> []) | _ \<Rightarrow> [])"

fun time_tree :: "bytes option \<Rightarrow> xtree list" where
  "time_tree (Some bs) = [Chars bs]"
| "time_tree None = []"

primrec shape_trees :: "xml_env \<Rightarrow> shape \<Rightarrow> xval \<Rightarrow> xtree list" where
  "shape_trees E TString = (\<lambda>v. case v of VString s \<Rightarrow> [Chars s] | _ \<Rightarrow> [])"
| "shape_trees E (TEnum names) = (\<lambda>v. case v of VString s \<Rightarrow> [Chars s] | _ \<Rightarrow> [])"
| "shape_trees E TEmpty = (\<lambda>v. [])"
| "shape_trees E TBool = (\<lambda>v. case v of VBool b \<Rightarrow> [Chars (fmt_boolean b)] | _ \<Rightarrow> [])"
| "shape_trees E (TInt bits) = (\<lambda>v. case v of VInt i \<Rightarrow> [Chars (fmt_long i)] | _ \<Rightarrow> [])"
| "shape_trees E TETag = (\<lambda>v. case v of VETag t \<Rightarrow> [Chars ([DQUOTE] @ etag_value t @ [DQUOTE])] | _ \<Rightarrow> [])"
| "shape_trees E (TTimestamp f) = (\<lambda>v. case v of VTime t \<Rightarrow> time_tree (fmt_timestamp (xml_time E) f t) | _ \<Rightarrow> [])"
| "shape_trees E (TStruct u fs) = tree_struct (map (map_xml_field (shape_trees E)) fs)"
| "shape_trees E (TUnion vs) = tree_union (map (map_prod id (shape_trees E)) vs)"

text \<open>The events of what was written: its text is that of the document, and raw text stands for itself.\<close>

fun written_event :: "written \<Rightarrow> de_event list" where
  "written_event (WStart n a) = [DStart n (map (\<lambda>(k, v). Some (k, Some v)) a)]"
| "written_event (WEnd n) = [DEnd n]"
| "written_event (WText t) = [DText t]"
| "written_event (WRaw t) = [DText t]"
| "written_event WDecl = []"

definition written_events :: "written list \<Rightarrow> de_event list" where
  "written_events ws = concat (map written_event ws)"

lemma written_events_simps [simp]:
  "written_events [] = []" "written_events (w # ws) = written_event w @ written_events ws"
  "written_events (xs @ ys) = written_events xs @ written_events ys"
  "written_events (ser_element n a c) = DStart n (map (\<lambda>(k, v). Some (k, Some v)) a) # written_events c @ [DEnd n]"
  by (simp_all add: written_events_def ser_element_def)

lemma written_list:
  assumes "\<And>v. written_events (w v) = trees_events (t v)"
  shows "written_events (concat (map (\<lambda>v. ser_element n [] (w v)) vs)) = trees_events (map (\<lambda>v. Elem n [] (t v)) vs)"
  by (induction vs) (simp_all add: assms)

lemma written_field:
  assumes "\<And>s v. s \<in> set_xml_field f \<Longrightarrow> written_events (W s v) = trees_events (T s v)"
  shows "written_events (ser_field (map_xml_field W f) v) = trees_events (tree_field (map_xml_field T f) v)"
proof (cases f)
  case (Field n r k)
  show ?thesis
  proof (cases k)
    case (Content s)
    with assms Field show ?thesis by simp
  next
    case (Flattened s)
    with assms Field written_list [of "W s" "T s" n] show ?thesis by (cases v) simp_all
  next
    case (Listed m s)
    with assms Field written_list [of "W s" "T s" m] show ?thesis by (cases v) simp_all
  next
    case (Typed s)
    with assms Field show ?thesis by (cases v) simp_all
  qed
qed

lemma written_struct:
  assumes "\<And>f s v. f \<in> set fs \<Longrightarrow> s \<in> set_xml_field f \<Longrightarrow> written_events (W s v) = trees_events (T s v)"
  shows "written_events (concat (map2 ser_field (map (map_xml_field W) fs) vs)) =
    trees_events (concat (map2 tree_field (map (map_xml_field T) fs) vs))"
  using assms
proof (induction fs arbitrary: vs)
  case (Cons f fs)
  have "written_events (ser_field (map_xml_field W f) v) = trees_events (tree_field (map_xml_field T f) v)" for v
    by (rule written_field) (rule Cons.prems, simp_all)
  moreover have "written_events (concat (map2 ser_field (map (map_xml_field W) fs) vs)) =
      trees_events (concat (map2 tree_field (map (map_xml_field T) fs) vs))" for vs
    by (rule Cons.IH) (rule Cons.prems, simp_all)
  ultimately show ?case by (cases vs) simp_all
qed simp

lemma time_written [simp]: "written_events (ser_time o1) = trees_events (time_tree o1)"
  by (cases o1) simp_all

lemma shape_written: "written_events (ser_shape E s v) = trees_events (shape_trees E s v)"
proof (induction s arbitrary: v)
  case (TStruct u fs)
  then show ?case using written_struct [of fs "ser_shape E" "shape_trees E"]
    by (cases v) (simp_all add: ser_struct_def tree_struct_def)
next
  case (TUnion vs)
  have "written_events (ser_shape E s x) = trees_events (shape_trees E s x)" if "map_of vs n = Some s" for n s x
    using TUnion map_of_SomeD [OF that] by fastforce
  then show ?case by (cases v) (simp_all add: ser_union_def tree_union_def map_of_map_prod split: option.splits)
qed (simp_all add: ser_etag_def split: xval.splits)

section \<open>Delivered documents\<close>

inductive delivered :: "xtree list \<Rightarrow> xtree list \<Rightarrow> bool" and children :: "xtree list \<Rightarrow> xtree list \<Rightarrow> bool" where
  same_text: "tree_text ts = Inr t \<Longrightarrow> tree_text us = Inr t \<Longrightarrow> delivered ts us"
| same_children: "children ts us \<Longrightarrow> delivered ts us"
| no_child: "children [] []"
| white_space: "children ts us \<Longrightarrow> children (Chars c # ts) us"
| child: "delivered ks ls \<Longrightarrow> children ts us \<Longrightarrow> children (Elem n a ks # ts) (Elem n a ls # us)"

lemma only_text_children: "\<not> list_ex is_elem ts \<Longrightarrow> children ts []"
proof (induction ts)
  case (Cons t ts)
  then show ?case by (cases t) (auto intro: white_space)
qed (rule no_child)

lemma children_text: "children ts us \<Longrightarrow> us = [] \<Longrightarrow> \<not> list_ex is_elem ts"
  by (induction rule: delivered_children.inducts(2) [where ?P1.0 = "\<lambda>_ _. True"]) auto

lemma children_elems: "children ts us \<Longrightarrow> list_all is_elem us"
  by (induction rule: delivered_children.inducts(2) [where ?P1.0 = "\<lambda>_ _. True"]) auto

lemma delivered_chars:
  assumes "delivered ts [Chars t]"
  shows "tree_text ts = Inr t"
  using assms
proof (cases rule: delivered.cases)
  case (same_text t')
  then show ?thesis by (simp add: tree_text_def)
next
  case same_children
  then show ?thesis using children_elems by fastforce
qed

lemma delivered_elems:
  assumes "delivered ts us" and "list_all is_elem us"
  shows "children ts us"
  using assms
proof (cases rule: delivered.cases)
  case (same_text t)
  then have "us = []" using assms(2) by (cases us) (auto simp: tree_text_def split: if_splits)
  with same_text show ?thesis using only_text_children by (auto simp: tree_text_def split: if_splits)
qed

lemma delivered_nil: "delivered ts [] \<Longrightarrow> \<not> list_ex is_elem ts"
  using delivered_elems [of ts "[]"] children_text by auto

lemma first_child:
  "children ts us \<Longrightarrow> us = Elem n a ls # us1 \<Longrightarrow>
     \<exists>pre ks ts1. ts = pre @ Elem n a ks # ts1 \<and> \<not> list_ex is_elem pre \<and> delivered ks ls \<and> children ts1 us1"
proof (induction rule: delivered_children.inducts(2) [where ?P1.0 = "\<lambda>_ _. True"])
  case (white_space ts us c)
  then obtain pre ks ts1 where "ts = pre @ Elem n a ks # ts1" "\<not> list_ex is_elem pre" "delivered ks ls" "children ts1 us1" by blast
  then show ?case by (intro exI [of _ "Chars c # pre"] exI [of _ ks] exI [of _ ts1]) simp
next
  case (child ks ls' ts us' n' a')
  then show ?case by (intro exI [of _ "[]"] exI [of _ ks] exI [of _ ts]) simp
qed auto

lemma read_children_text: "\<not> list_ex is_elem pre \<Longrightarrow> read_children g s (pre @ ts) = read_children g s ts"
proof (induction pre)
  case (Cons t pre)
  then show ?case by (cases t) auto
qed simp

lemma child_step:
  assumes "children ts (Elem n a ls # us)"
  obtains ks ts1 where "delivered ks ls" "children ts1 us"
    "\<And>s. read_children g s ts = (case closed (g s n a ks) of Inl e \<Rightarrow> Inl e | Inr s1 \<Rightarrow> read_children g s1 ts1)"
  using first_child [OF assms refl] read_children_text by (metis read_children.simps(3))

section \<open>Reading back\<close>

text \<open>A reader reads back a value that was written as trees.\<close>

definition reads_back :: "reader \<Rightarrow> (xval \<Rightarrow> xtree list) \<Rightarrow> xval \<Rightarrow> bool" where
  "reads_back R T v \<longleftrightarrow> (\<forall>ts. delivered ts (T v) \<longrightarrow> closed (R ts) = Inr v)"

lemma closed_Inr: "closed r = Inr a \<longleftrightarrow> (\<exists>left. r = Inr (a, left) \<and> \<not> list_ex is_elem left)"
  by (auto simp: closed_def split: sum.splits if_splits)

lemma text_reads_back:
  "f t = Inr v \<Longrightarrow> delivered ts [Chars t] \<Longrightarrow> closed (read_text f ts) = Inr v"
  using delivered_chars [of ts t] by (simp add: read_text_def closed_def)

lemma read_members:
  assumes "\<And>v. v \<in> set vs \<Longrightarrow> reads_back R T v"
  shows "children ts (map (\<lambda>v. Elem m [] (T v)) vs @ us) \<Longrightarrow>
    \<exists>ts1. children ts1 us \<and> read_children (read_member m R) l ts = read_children (read_member m R) (l @ vs) ts1"
  using assms
proof (induction vs arbitrary: l ts)
  case (Cons v vs)
  from Cons.prems(1) have c: "children ts (Elem m [] (T v) # map (\<lambda>v. Elem m [] (T v)) vs @ us)" by simp
  obtain ks ts1 where k: "delivered ks (T v)" "children ts1 (map (\<lambda>v. Elem m [] (T v)) vs @ us)"
    "\<And>l. read_children (read_member m R) l ts =
      (case closed (read_member m R l m [] ks) of Inl e \<Rightarrow> Inl e | Inr s1 \<Rightarrow> read_children (read_member m R) s1 ts1)"
    using child_step [OF c] by metis
  have "closed (R ks) = Inr v" using Cons.prems(2) k(1) by (simp add: reads_back_def)
  then have "closed (read_member m R l m [] ks) = Inr (l @ [v])" by (simp add: read_member_def closed_map)
  with Cons.IH [OF k(2), of "l @ [v]"] Cons.prems(2) k(3) show ?case by simp
qed auto

lemma read_list_back:
  assumes "\<And>v. v \<in> set vs \<Longrightarrow> reads_back R T v" and "delivered ts (map (\<lambda>v. Elem m [] (T v)) vs)"
  shows "closed (read_list m R ts) = Inr vs"
proof -
  have "children ts (map (\<lambda>v. Elem m [] (T v)) vs)" using assms(2) by (rule delivered_elems) (simp add: list_all_iff)
  then obtain ts1 where "children ts1 []" "read_children (read_member m R) [] ts = read_children (read_member m R) vs ts1"
    using read_members [of vs R T ts m "[]" "[]"] assms(1) by auto
  moreover from this have "read_children (read_member m R) vs ts1 = Inr vs"
    using read_children_text [of ts1 "read_member m R" vs "[]"] children_text by simp
  ultimately show ?thesis by (simp add: read_list_def closed_def)
qed

text \<open>A field: its elements put the value into the slot of the field and leave the other slots.\<close>

definition slot_of :: "xval \<Rightarrow> xval option" where
  "slot_of v = (if v = VAbsent then None else Some v)"

lemma flattened_members:
  assumes "\<And>v. v \<in> set vs \<Longrightarrow> reads_back R T v" and "field_index n gs = Some i" and "gs ! i = Field n r (Flattened R)"
    and "i < length slots"
  shows "children ts (map (\<lambda>v. Elem n [] (T v)) vs @ us) \<Longrightarrow> slots ! i = (if l = [] then None else Some (VList l)) \<Longrightarrow>
    \<exists>ts1. children ts1 us \<and> read_children (read_child u gs) slots ts =
      read_children (read_child u gs) (slots[i := (if l @ vs = [] then None else Some (VList (l @ vs)))]) ts1"
  using assms(1,4)
proof (induction vs arbitrary: l ts slots)
  case Nil
  have "slots[i := slots ! i] = slots" by simp
  with Nil show ?case by (intro exI [of _ ts]) (auto split: if_splits)
next
  case (Cons v vs)
  from Cons.prems(1) have c: "children ts (Elem n [] (T v) # map (\<lambda>v. Elem n [] (T v)) vs @ us)" by simp
  obtain ks ts1 where k: "delivered ks (T v)" "children ts1 (map (\<lambda>v. Elem n [] (T v)) vs @ us)"
    "\<And>s. read_children (read_child u gs) s ts =
      (case closed (read_child u gs s n [] ks) of Inl e \<Rightarrow> Inl e | Inr s1 \<Rightarrow> read_children (read_child u gs) s1 ts1)"
    using child_step [OF c] by metis
  have "closed (R ks) = Inr v" using Cons.prems(3) k(1) by (simp add: reads_back_def)
  then have "closed (read_child u gs slots n [] ks) = Inr (slots[i := Some (VList (l @ [v]))])"
    using assms(2,3) Cons.prems(2) by (cases l) (simp_all add: read_child_def closed_map)
  with Cons.IH [OF k(2), of "slots[i := Some (VList (l @ [v]))]" "l @ [v]"] Cons.prems(3,4) k(3) show ?case by simp
qed

lemma field_reads_back:
  assumes "\<And>s v. s \<in> set_xml_field f \<Longrightarrow> P s v \<Longrightarrow> reads_back (R s) (T s) v"
    and "field_ok (map_xml_field P f) v" and "field_index (field_name f) gs = Some i" and "gs ! i = map_xml_field R f"
    and "i < length slots" and "slots ! i = None" and "children ts (tree_field (map_xml_field T f) v @ us)"
  shows "\<exists>ts1. children ts1 us \<and> read_children (read_child u gs) slots ts = read_children (read_child u gs) (slots[i := slot_of v]) ts1"
proof -
  have single: ?thesis
    if w: "tree_field (map_xml_field T f) v = [Elem (field_name f) a ls]" "v \<noteq> VAbsent"
      and r: "\<And>ks. delivered ks ls \<Longrightarrow> closed (read_field (map_xml_field R f) None a ks) = Inr (Some v)" for a ls
  proof -
    from assms(7) w have c: "children ts (Elem (field_name f) a ls # us)" by simp
    obtain ks ts1 where k: "delivered ks ls" "children ts1 us"
      "\<And>s. read_children (read_child u gs) s ts =
        (case closed (read_child u gs s (field_name f) a ks) of Inl e \<Rightarrow> Inl e | Inr s1 \<Rightarrow> read_children (read_child u gs) s1 ts1)"
      using child_step [OF c] by metis
    from r [OF k(1)] have "closed (read_child u gs slots (field_name f) a ks) = Inr (slots[i := Some v])"
      using assms(3,4,6) by (simp add: read_child_def closed_map)
    with k w(2) show ?thesis by (auto simp: slot_of_def)
  qed
  have absent: ?thesis if "tree_field (map_xml_field T f) v = []" "v = VAbsent"
    using assms(6,7) that by (metis append_Nil list_update_id slot_of_def)
  obtain n r k where f: "f = Field n r k" by (cases f) auto
  show ?thesis
  proof (cases k)
    case (Content s)
    show ?thesis
    proof (cases "v = VAbsent")
      case False
      then have "reads_back (R s) (T s) v" using assms(1,2) by (simp add: f Content)
      then show ?thesis using False by (intro single [of "[]" "T s v"]) (simp_all add: f Content reads_back_def closed_map)
    qed (use absent in \<open>simp add: f Content\<close>)
  next
    case (Flattened s)
    show ?thesis
    proof (cases "v = VAbsent")
      case False
      then obtain vs where v: "v = VList vs" "vs \<noteq> []" "list_all (P s) vs"
        using assms(2) by (auto simp: f Flattened split: xval.splits)
      then have "\<And>x. x \<in> set vs \<Longrightarrow> reads_back (R s) (T s) x" using assms(1) by (simp add: f Flattened list_all_iff)
      from flattened_members [OF this, of vs n gs i r slots ts us "[]"] assms(3-7) v show ?thesis
        by (simp add: f Flattened slot_of_def)
    qed (use absent in \<open>simp add: f Flattened\<close>)
  next
    case (Listed m s)
    show ?thesis
    proof (cases "v = VAbsent")
      case False
      then obtain vs where v: "v = VList vs" "list_all (P s) vs"
        using assms(2) by (auto simp: f Listed split: xval.splits)
      then have "\<And>x. x \<in> set vs \<Longrightarrow> reads_back (R s) (T s) x" using assms(1) by (simp add: f Listed list_all_iff)
      from read_list_back [OF this, of vs] show ?thesis
        by (intro single [of "[]" "map (\<lambda>v. Elem m [] (T s v)) vs"]) (simp_all add: f Listed v closed_map)
    qed (use absent in \<open>simp add: f Listed\<close>)
  next
    case (Typed s)
    show ?thesis
    proof (cases "v = VAbsent")
      case False
      then obtain ty x where v: "v = VTyped ty x" "P s x"
        using assms(2) by (auto simp: f Typed split: xval.splits)
      then have "reads_back (R s) (T s) x" using assms(1) by (simp add: f Typed)
      then show ?thesis
        by (intro single [of "[Some (''xmlns:xsi'', Some XSI), Some (''xsi:type'', Some ty)]" "T s x"])
          (simp_all add: f Typed v reads_back_def closed_map)
    qed (use absent in \<open>simp add: f Typed\<close>)
  qed
qed

lemma fields_read_back:
  assumes "\<And>f s v. f \<in> set fs \<Longrightarrow> s \<in> set_xml_field f \<Longrightarrow> P s v \<Longrightarrow> reads_back (R s) (T s) v"
    and "gs = map (map_xml_field R) (done_fs @ fs)" and "distinct (map field_name (done_fs @ fs))"
    and "list_all2 field_ok (map (map_xml_field P) fs) vs" and "length slots0 = length done_fs"
    and "children ts (concat (map2 tree_field (map (map_xml_field T) fs) vs))"
  shows "read_children (read_child u gs) (slots0 @ replicate (length fs) None) ts = Inr (slots0 @ map slot_of vs)"
  using assms
proof (induction fs arbitrary: done_fs vs slots0 ts)
  case Nil
  then have "vs = []" by simp
  with Nil show ?case using read_children_text [of ts "read_child u gs" slots0 "[]"] children_text by simp
next
  case (Cons f fs)
  then obtain v vs1 where vs: "vs = v # vs1" "field_ok (map_xml_field P f) v" "list_all2 field_ok (map (map_xml_field P) fs) vs1"
    by (auto simp: list_all2_Cons1)
  let ?i = "length done_fs" and ?slots = "slots0 @ replicate (length (f # fs)) None"
  have "field_index (field_name f) (done_fs @ f # fs) = Some ?i"
    using Cons.prems(3) by (induction done_fs) auto
  then have i: "field_index (field_name f) gs = Some ?i" using Cons.prems(2) by (simp only: field_index_map)
  have "\<exists>ts1. children ts1 (concat (map2 tree_field (map (map_xml_field T) fs) vs1)) \<and>
      read_children (read_child u gs) ?slots ts = read_children (read_child u gs) (?slots[?i := slot_of v]) ts1"
  proof (rule field_reads_back [of f P R T])
    show "\<And>s v. s \<in> set_xml_field f \<Longrightarrow> P s v \<Longrightarrow> reads_back (R s) (T s) v" using Cons.prems(1) [of f] by auto
    show "gs ! ?i = map_xml_field R f" using Cons.prems(2) by (simp add: nth_append)
    show "?i < length ?slots" "?slots ! ?i = None" using Cons.prems(5) by (simp_all add: nth_append)
    show "children ts (tree_field (map_xml_field T f) v @ concat (map2 tree_field (map (map_xml_field T) fs) vs1))"
      using Cons.prems(6) vs(1) by simp
  qed (use vs i in simp_all)
  then obtain ts1 where t: "children ts1 (concat (map2 tree_field (map (map_xml_field T) fs) vs1))"
    "read_children (read_child u gs) ?slots ts = read_children (read_child u gs) (?slots[?i := slot_of v]) ts1" by blast
  have slots: "?slots[?i := slot_of v] = (slots0 @ [slot_of v]) @ replicate (length fs) None"
    using Cons.prems(5) by (simp add: list_update_append)
  have "read_children (read_child u gs) ((slots0 @ [slot_of v]) @ replicate (length fs) None) ts1 = Inr ((slots0 @ [slot_of v]) @ map slot_of vs1)"
    by (rule Cons.IH [of "done_fs @ [f]"]) (use Cons.prems vs(3) t(1) in auto)
  with t(2) slots vs(1) show ?case by simp
qed

lemma finish_fields:
  assumes "list_all2 field_ok (map (map_xml_field P) fs) vs"
  shows "finish_struct fs (map slot_of vs) = Inr (VRecord vs)"
proof -
  have present: "\<not> field_required f" if "field_ok (map_xml_field P f) VAbsent" for f :: "'a xml_field"
    using that by (cases f; cases "field_kind f") auto
  have "\<not> field_required f" if "(f, None) \<in> set (zip fs (map slot_of vs))" for f
    using assms that present by (auto simp: list_all2_conv_all_nth in_set_zip slot_of_def split: if_splits)
  moreover have "map (\<lambda>s. case s of None \<Rightarrow> VAbsent | Some v \<Rightarrow> v) (map slot_of vs) = vs"
    by (induction vs) (auto simp: slot_of_def)
  ultimately show ?thesis by (auto simp: finish_struct_def list_ex_iff)
qed

lemma field_trees_elems: "list_all is_elem (tree_field f v)"
  by (cases "(f, v)" rule: tree_field.cases) (auto simp: list_all_iff)

lemma struct_trees_elems: "list_all is_elem (concat (map2 tree_field fs vs))"
proof -
  have "list_all is_elem (tree_field f v)" for f v by (rule field_trees_elems)
  then show ?thesis by (auto simp: list_all_iff)
qed

lemma struct_reads_back:
  assumes "\<And>f s v. f \<in> set fs \<Longrightarrow> s \<in> set_xml_field f \<Longrightarrow> P s v \<Longrightarrow> reads_back (R s) (T s) v"
    and "distinct (map field_name fs)" and "struct_ok (map (map_xml_field P) fs) v"
  shows "reads_back (read_struct u (map (map_xml_field R) fs)) (tree_struct (map (map_xml_field T) fs)) v"
proof -
  obtain vs where v: "v = VRecord vs" "list_all2 field_ok (map (map_xml_field P) fs) vs"
    using assms(3) by (auto simp: struct_ok_def split: xval.splits)
  have "closed (read_struct u (map (map_xml_field R) fs) ts) = Inr v"
    if "delivered ts (concat (map2 tree_field (map (map_xml_field T) fs) vs))" for ts
  proof -
    from that have "children ts (concat (map2 tree_field (map (map_xml_field T) fs) vs))"
      by (rule delivered_elems) (rule struct_trees_elems)
    then have "read_children (read_child u (map (map_xml_field R) fs)) ([] @ replicate (length fs) None) ts = Inr ([] @ map slot_of vs)"
      using assms(1,2) v(2) by (intro fields_read_back [where done_fs = "[]"]) auto
    then show ?thesis using finish_fields [OF v(2)] by (simp add: read_struct_def v(1) closed_def)
  qed
  then show ?thesis by (simp add: reads_back_def tree_struct_def v(1))
qed

lemma union_reads_back:
  assumes "\<And>n s v. (n, s) \<in> set vs \<Longrightarrow> P s v \<Longrightarrow> reads_back (R s) (T s) v"
    and "map_of vs n = Some s" and "P s x"
  shows "reads_back (read_union (map (map_prod id R) vs)) (tree_union (map (map_prod id T) vs)) (VVariant n x)"
proof -
  have "closed (read_union (map (map_prod id R) vs) ts) = Inr (VVariant n x)" if "delivered ts [Elem n [] (T s x)]" for ts
  proof -
    from that have "children ts [Elem n [] (T s x)]" by (rule delivered_elems) simp
    then obtain pre ks ts1 where t: "ts = pre @ Elem n [] ks # ts1" "\<not> list_ex is_elem pre" "delivered ks (T s x)" "children ts1 []"
      using first_child by blast
    have skip: "read_union gs (pre @ us) = read_union gs us" for gs us
      using t(2)
    proof (induction pre)
      case (Cons p pre)
      then show ?case by (cases p) auto
    qed simp
    have "closed (R s ks) = Inr x" using assms(1) [OF map_of_SomeD [OF assms(2)] assms(3)] t(3) by (simp add: reads_back_def)
    then show ?thesis using assms(2) children_text [OF t(4)] by (simp add: t(1) skip map_of_map_prod closed_def)
  qed
  then show ?thesis using assms(2) by (simp add: reads_back_def tree_union_def map_of_map_prod)
qed

text \<open>The number parser reads what \<^verbatim>\<open>itoa\<close> prints, and the crate for times does what it documents.\<close>

locale text_formats =
  fixes E :: xml_env
  assumes reads_number: "- (2 ^ (bits - 1)) \<le> i \<Longrightarrow> i < 2 ^ (bits - 1) \<Longrightarrow> int_parse E bits (fmt_long i) = Some i"
    and times: "time_crate (xml_time E)"
begin

lemma reads_time:
  assumes "time_kept f t"
  shows "\<exists>s. fmt_timestamp (xml_time E) f t = Some s \<and> Timestamp_parse (xml_time E) f s = Inr t"
proof (cases f)
  case DateTime
  then have "utc_millis t = t" using assms by (cases t) (auto simp: utc_millis_def)
  with DateTime assms time_crate.date_time_kept [OF times, of t] show ?thesis by simp
next
  case HttpDate
  then have "utc_secs t = t" using assms by (cases t) (auto simp: utc_secs_def)
  with HttpDate assms time_crate.http_date_kept [OF times, of t] show ?thesis by simp
qed (use assms in simp)

lemma shape_reads_back: "shape_ok s \<Longrightarrow> has_shape E s v \<Longrightarrow> reads_back (read_shape E s) (shape_trees E s) v"
proof (induction s arbitrary: v)
  case TString
  then show ?case by (auto simp: reads_back_def split: xval.splits intro: text_reads_back)
next
  case (TEnum names)
  then obtain w where v: "v = VString w" by (auto split: xval.splits)
  have "enum_of_text names w = Inr (VString w)"
    by (auto simp: enum_of_text_def find_Some_iff split: option.splits)
  then show ?case unfolding reads_back_def v by (simp add: text_reads_back)
next
  case TEmpty
  then show ?case using delivered_nil by (auto simp: reads_back_def closed_def)
next
  case TBool
  then obtain b where v: "v = VBool b" by (auto split: xval.splits)
  show ?case unfolding reads_back_def v
    by (cases b) (auto simp: fmt_boolean_def read_text_def closed_def dest!: delivered_chars)
next
  case (TInt bits)
  then show ?case by (auto simp: reads_back_def reads_number split: xval.splits intro!: text_reads_back)
next
  case TETag
  then obtain t where v: "v = VETag t" "etag_plain t" by (auto split: xval.splits)
  then obtain w where w: "t = Strong w" "etag_ok w" by (auto simp: etag_plain_def split: etag.splits)
  then have "etag_of_text ([DQUOTE] @ w @ [DQUOTE]) = Inr v" using parse_strong [of w] by (simp add: etag_of_text_def v(1))
  then show ?case using v w by (auto simp: reads_back_def intro!: text_reads_back)
next
  case (TTimestamp f)
  then obtain t where v: "v = VTime t" "time_kept f t" by (auto split: xval.splits)
  from reads_time [OF v(2)] show ?case unfolding v(1) by (auto simp: reads_back_def intro!: text_reads_back)
next
  case (TStruct u fs)
  have "reads_back (read_shape E s) (shape_trees E s) x" if "f \<in> set fs" "s \<in> set_xml_field f" "has_shape E s x" for f s x
  proof (rule TStruct.IH [OF that(1,2)])
    show "shape_ok s" using TStruct.prems(1) that(1,2) field_holds_map [of shape_ok f s] by (auto simp: list_all_iff)
  qed (rule that(3))
  then show ?case using TStruct.prems struct_reads_back [of fs "has_shape E" "read_shape E" "shape_trees E" v u] by simp
next
  case (TUnion vs)
  have "reads_back (read_shape E s) (shape_trees E s) x" if m: "(n, s) \<in> set vs" and h: "has_shape E s x" for n s x
  proof (rule TUnion.IH [of "(n, s)"])
    show "shape_ok s" using TUnion.prems(1) m by (force simp: list_all_iff)
  qed (use m h in auto)
  moreover obtain n s x where "v = VVariant n x" "map_of vs n = Some s" "has_shape E s x"
    using TUnion.prems(2) by (auto simp: map_of_map_prod split: xval.splits option.splits)
  ultimately show ?case using union_reads_back [of vs "has_shape E" "read_shape E" "shape_trees E" n s x] by simp
qed

end

end
