(* ===== verification/Xml_Types.thy ===== *)
theory Xml_Types
  imports Xml_Roundtrip
begin

text \<open>
  The types of the protocol that are sent as XML (s3s/src/xml/generated.rs, without the feature \<^verbatim>\<open>minio\<close>), each as its shape: the fields in
  the order of the source with the names of their elements, whether they are required, and what is done with an unknown element.
  Types that are only written have \<open>RejectUnknown\<close>, which writing does not use. At the end the documents: the types that are a root
  element.
\<close>

definition BucketAbacStatus_xml :: shape where
  "BucketAbacStatus_xml = TEnum [''Disabled'', ''Enabled'']"

definition AbacStatus_xml :: shape where
  "AbacStatus_xml =
     TStruct SkipUnknown
       [optional ''Status'' (Content BucketAbacStatus_xml)]"

definition BucketAccelerateStatus_xml :: shape where
  "BucketAccelerateStatus_xml = TEnum [''Enabled'', ''Suspended'']"

definition AccelerateConfiguration_xml :: shape where
  "AccelerateConfiguration_xml =
     TStruct SkipUnknown
       [optional ''Status'' (Content BucketAccelerateStatus_xml)]"

definition Grantee_xml :: shape where
  "Grantee_xml =
     TStruct RejectUnknown
       [optional ''DisplayName'' (Content TString), optional ''EmailAddress'' (Content TString),
        optional ''ID'' (Content TString), optional ''URI'' (Content TString)]"

definition Permission_xml :: shape where
  "Permission_xml = TEnum [''FULL_CONTROL'', ''READ'', ''READ_ACP'', ''WRITE'', ''WRITE_ACP'']"

definition Grant_xml :: shape where
  "Grant_xml =
     TStruct RejectUnknown
       [optional ''Grantee'' (Typed Grantee_xml), optional ''Permission'' (Content Permission_xml)]"

definition Owner_xml :: shape where
  "Owner_xml =
     TStruct RejectUnknown
       [optional ''DisplayName'' (Content TString), optional ''ID'' (Content TString)]"

definition AccessControlPolicy_xml :: shape where
  "AccessControlPolicy_xml =
     TStruct SkipUnknown
       [optional ''AccessControlList'' (Listed ''Grant'' Grant_xml), optional ''Owner'' (Content Owner_xml)]"

definition Tag_xml :: shape where
  "Tag_xml =
     TStruct RejectUnknown
       [optional ''Key'' (Content TString), optional ''Value'' (Content TString)]"

definition AnalyticsAndOperator_xml :: shape where
  "AnalyticsAndOperator_xml =
     TStruct RejectUnknown
       [optional ''Prefix'' (Content TString), optional ''Tag'' (Flattened Tag_xml)]"

definition AnalyticsFilter_xml :: shape where
  "AnalyticsFilter_xml = TUnion [(''And'', AnalyticsAndOperator_xml), (''Prefix'', TString), (''Tag'', Tag_xml)]"

definition AnalyticsS3ExportFileFormat_xml :: shape where
  "AnalyticsS3ExportFileFormat_xml = TEnum [''CSV'']"

definition AnalyticsS3BucketDestination_xml :: shape where
  "AnalyticsS3BucketDestination_xml =
     TStruct RejectUnknown
       [required ''Bucket'' (Content TString), optional ''BucketAccountId'' (Content TString),
        required ''Format'' (Content AnalyticsS3ExportFileFormat_xml), optional ''Prefix'' (Content TString)]"

definition AnalyticsExportDestination_xml :: shape where
  "AnalyticsExportDestination_xml =
     TStruct RejectUnknown
       [required ''S3BucketDestination'' (Content AnalyticsS3BucketDestination_xml)]"

definition StorageClassAnalysisSchemaVersion_xml :: shape where
  "StorageClassAnalysisSchemaVersion_xml = TEnum [''V_1'']"

definition StorageClassAnalysisDataExport_xml :: shape where
  "StorageClassAnalysisDataExport_xml =
     TStruct RejectUnknown
       [required ''Destination'' (Content AnalyticsExportDestination_xml),
        required ''OutputSchemaVersion'' (Content StorageClassAnalysisSchemaVersion_xml)]"

definition StorageClassAnalysis_xml :: shape where
  "StorageClassAnalysis_xml =
     TStruct RejectUnknown
       [optional ''DataExport'' (Content StorageClassAnalysisDataExport_xml)]"

definition AnalyticsConfiguration_xml :: shape where
  "AnalyticsConfiguration_xml =
     TStruct SkipUnknown
       [optional ''Filter'' (Content AnalyticsFilter_xml), required ''Id'' (Content TString),
        required ''StorageClassAnalysis'' (Content StorageClassAnalysis_xml)]"

definition AnnotationConfigurationState_xml :: shape where
  "AnnotationConfigurationState_xml = TEnum [''DISABLED'', ''ENABLED'']"

definition TableSseAlgorithm_xml :: shape where
  "TableSseAlgorithm_xml = TEnum [''AES256'', ''aws:kms'']"

definition MetadataTableEncryptionConfiguration_xml :: shape where
  "MetadataTableEncryptionConfiguration_xml =
     TStruct RejectUnknown
       [optional ''KmsKeyArn'' (Content TString), required ''SseAlgorithm'' (Content TableSseAlgorithm_xml)]"

definition AnnotationTableConfigurationUpdates_xml :: shape where
  "AnnotationTableConfigurationUpdates_xml =
     TStruct SkipUnknown
       [required ''ConfigurationState'' (Content AnnotationConfigurationState_xml),
        optional ''EncryptionConfiguration'' (Content MetadataTableEncryptionConfiguration_xml),
        optional ''Role'' (Content TString)]"

definition AbortIncompleteMultipartUpload_xml :: shape where
  "AbortIncompleteMultipartUpload_xml =
     TStruct RejectUnknown
       [optional ''DaysAfterInitiation'' (Content (TInt 32))]"

definition ExpirationStatus_xml :: shape where
  "ExpirationStatus_xml = TEnum [''Disabled'', ''Enabled'']"

definition LifecycleExpiration_xml :: shape where
  "LifecycleExpiration_xml =
     TStruct RejectUnknown
       [optional ''Date'' (Content (TTimestamp DateTime)), optional ''Days'' (Content (TInt 32)),
        optional ''ExpiredObjectDeleteMarker'' (Content TBool)]"

definition LifecycleRuleAndOperator_xml :: shape where
  "LifecycleRuleAndOperator_xml =
     TStruct RejectUnknown
       [optional ''ObjectSizeGreaterThan'' (Content (TInt 64)), optional ''ObjectSizeLessThan'' (Content (TInt 64)),
        optional ''Prefix'' (Content TString), optional ''Tag'' (Flattened Tag_xml)]"

definition LifecycleRuleFilter_xml :: shape where
  "LifecycleRuleFilter_xml =
     TStruct RejectUnknown
       [optional ''And'' (Content LifecycleRuleAndOperator_xml), optional ''ObjectSizeGreaterThan'' (Content (TInt 64)),
        optional ''ObjectSizeLessThan'' (Content (TInt 64)), optional ''Prefix'' (Content TString),
        optional ''Tag'' (Content Tag_xml)]"

definition NoncurrentVersionExpiration_xml :: shape where
  "NoncurrentVersionExpiration_xml =
     TStruct RejectUnknown
       [optional ''NewerNoncurrentVersions'' (Content (TInt 32)), optional ''NoncurrentDays'' (Content (TInt 32))]"

definition TransitionStorageClass_xml :: shape where
  "TransitionStorageClass_xml =
     TEnum
       [''DEEP_ARCHIVE'', ''GLACIER'', ''GLACIER_IR'', ''INTELLIGENT_TIERING'', ''ONEZONE_IA'', ''STANDARD_IA'']"

definition NoncurrentVersionTransition_xml :: shape where
  "NoncurrentVersionTransition_xml =
     TStruct RejectUnknown
       [optional ''NewerNoncurrentVersions'' (Content (TInt 32)), optional ''NoncurrentDays'' (Content (TInt 32)),
        optional ''StorageClass'' (Content TransitionStorageClass_xml)]"

definition Transition_xml :: shape where
  "Transition_xml =
     TStruct RejectUnknown
       [optional ''Date'' (Content (TTimestamp DateTime)), optional ''Days'' (Content (TInt 32)),
        optional ''StorageClass'' (Content TransitionStorageClass_xml)]"

definition LifecycleRule_xml :: shape where
  "LifecycleRule_xml =
     TStruct RejectUnknown
       [optional ''AbortIncompleteMultipartUpload'' (Content AbortIncompleteMultipartUpload_xml),
        optional ''Expiration'' (Content LifecycleExpiration_xml), optional ''Filter'' (Content LifecycleRuleFilter_xml),
        optional ''ID'' (Content TString),
        optional ''NoncurrentVersionExpiration'' (Content NoncurrentVersionExpiration_xml),
        optional ''NoncurrentVersionTransition'' (Flattened NoncurrentVersionTransition_xml),
        optional ''Prefix'' (Content TString), required ''Status'' (Content ExpirationStatus_xml),
        optional ''Transition'' (Flattened Transition_xml)]"

definition BucketLifecycleConfiguration_xml :: shape where
  "BucketLifecycleConfiguration_xml =
     TStruct SkipUnknown
       [required ''Rule'' (Flattened LifecycleRule_xml)]"

definition BucketLogsPermission_xml :: shape where
  "BucketLogsPermission_xml = TEnum [''FULL_CONTROL'', ''READ'', ''WRITE'']"

definition TargetGrant_xml :: shape where
  "TargetGrant_xml =
     TStruct RejectUnknown
       [optional ''Grantee'' (Typed Grantee_xml), optional ''Permission'' (Content BucketLogsPermission_xml)]"

definition PartitionDateSource_xml :: shape where
  "PartitionDateSource_xml = TEnum [''DeliveryTime'', ''EventTime'']"

definition PartitionedPrefix_xml :: shape where
  "PartitionedPrefix_xml =
     TStruct RejectUnknown
       [optional ''PartitionDateSource'' (Content PartitionDateSource_xml)]"

definition SimplePrefix_xml :: shape where
  "SimplePrefix_xml = TEmpty"

definition TargetObjectKeyFormat_xml :: shape where
  "TargetObjectKeyFormat_xml =
     TStruct RejectUnknown
       [optional ''PartitionedPrefix'' (Content PartitionedPrefix_xml),
        optional ''SimplePrefix'' (Content SimplePrefix_xml)]"

definition LoggingEnabled_xml :: shape where
  "LoggingEnabled_xml =
     TStruct RejectUnknown
       [required ''TargetBucket'' (Content TString), optional ''TargetGrants'' (Listed ''Grant'' TargetGrant_xml),
        optional ''TargetObjectKeyFormat'' (Content TargetObjectKeyFormat_xml),
        required ''TargetPrefix'' (Content TString)]"

definition BucketLoggingStatus_xml :: shape where
  "BucketLoggingStatus_xml =
     TStruct SkipUnknown
       [optional ''LoggingEnabled'' (Content LoggingEnabled_xml)]"

definition CORSRule_xml :: shape where
  "CORSRule_xml =
     TStruct RejectUnknown
       [optional ''AllowedHeader'' (Flattened TString), required ''AllowedMethod'' (Flattened TString),
        required ''AllowedOrigin'' (Flattened TString), optional ''ExposeHeader'' (Flattened TString),
        optional ''ID'' (Content TString), optional ''MaxAgeSeconds'' (Content (TInt 32))]"

definition CORSConfiguration_xml :: shape where
  "CORSConfiguration_xml =
     TStruct SkipUnknown
       [required ''CORSRule'' (Flattened CORSRule_xml)]"

definition ChecksumType_xml :: shape where
  "ChecksumType_xml = TEnum [''COMPOSITE'', ''FULL_OBJECT'']"

definition CompleteMultipartUploadOutput_xml :: shape where
  "CompleteMultipartUploadOutput_xml =
     TStruct RejectUnknown
       [optional ''Bucket'' (Content TString), optional ''ChecksumCRC32'' (Content TString),
        optional ''ChecksumCRC32C'' (Content TString), optional ''ChecksumCRC64NVME'' (Content TString),
        optional ''ChecksumMD5'' (Content TString), optional ''ChecksumSHA1'' (Content TString),
        optional ''ChecksumSHA256'' (Content TString), optional ''ChecksumSHA512'' (Content TString),
        optional ''ChecksumType'' (Content ChecksumType_xml), optional ''ChecksumXXHASH128'' (Content TString),
        optional ''ChecksumXXHASH3'' (Content TString), optional ''ChecksumXXHASH64'' (Content TString),
        optional ''ETag'' (Content TETag), optional ''Key'' (Content TString), optional ''Location'' (Content TString)]"

definition CompletedPart_xml :: shape where
  "CompletedPart_xml =
     TStruct RejectUnknown
       [optional ''ChecksumCRC32'' (Content TString), optional ''ChecksumCRC32C'' (Content TString),
        optional ''ChecksumCRC64NVME'' (Content TString), optional ''ChecksumMD5'' (Content TString),
        optional ''ChecksumSHA1'' (Content TString), optional ''ChecksumSHA256'' (Content TString),
        optional ''ChecksumSHA512'' (Content TString), optional ''ChecksumXXHASH128'' (Content TString),
        optional ''ChecksumXXHASH3'' (Content TString), optional ''ChecksumXXHASH64'' (Content TString),
        optional ''ETag'' (Content TETag), optional ''PartNumber'' (Content (TInt 32))]"

definition CompletedMultipartUpload_xml :: shape where
  "CompletedMultipartUpload_xml =
     TStruct SkipUnknown
       [optional ''Part'' (Flattened CompletedPart_xml)]"

definition CopyObjectResult_xml :: shape where
  "CopyObjectResult_xml =
     TStruct RejectUnknown
       [optional ''ChecksumCRC32'' (Content TString), optional ''ChecksumCRC32C'' (Content TString),
        optional ''ChecksumCRC64NVME'' (Content TString), optional ''ChecksumMD5'' (Content TString),
        optional ''ChecksumSHA1'' (Content TString), optional ''ChecksumSHA256'' (Content TString),
        optional ''ChecksumSHA512'' (Content TString), optional ''ChecksumType'' (Content ChecksumType_xml),
        optional ''ChecksumXXHASH128'' (Content TString), optional ''ChecksumXXHASH3'' (Content TString),
        optional ''ChecksumXXHASH64'' (Content TString), optional ''ETag'' (Content TETag),
        optional ''LastModified'' (Content (TTimestamp DateTime))]"

definition CopyPartResult_xml :: shape where
  "CopyPartResult_xml =
     TStruct RejectUnknown
       [optional ''ChecksumCRC32'' (Content TString), optional ''ChecksumCRC32C'' (Content TString),
        optional ''ChecksumCRC64NVME'' (Content TString), optional ''ChecksumMD5'' (Content TString),
        optional ''ChecksumSHA1'' (Content TString), optional ''ChecksumSHA256'' (Content TString),
        optional ''ChecksumSHA512'' (Content TString), optional ''ChecksumXXHASH128'' (Content TString),
        optional ''ChecksumXXHASH3'' (Content TString), optional ''ChecksumXXHASH64'' (Content TString),
        optional ''ETag'' (Content TETag), optional ''LastModified'' (Content (TTimestamp DateTime))]"

definition BucketType_xml :: shape where
  "BucketType_xml = TEnum [''Directory'']"

definition DataRedundancy_xml :: shape where
  "DataRedundancy_xml = TEnum [''SingleAvailabilityZone'', ''SingleLocalZone'']"

definition BucketInfo_xml :: shape where
  "BucketInfo_xml =
     TStruct RejectUnknown
       [optional ''DataRedundancy'' (Content DataRedundancy_xml), optional ''Type'' (Content BucketType_xml)]"

definition BucketLocationConstraint_xml :: shape where
  "BucketLocationConstraint_xml =
     TEnum
       [''EU'', ''af-south-1'', ''ap-east-1'', ''ap-east-2'', ''ap-northeast-1'', ''ap-northeast-2'',
        ''ap-northeast-3'', ''ap-south-1'', ''ap-south-2'', ''ap-southeast-1'', ''ap-southeast-2'',
        ''ap-southeast-3'', ''ap-southeast-4'', ''ap-southeast-5'', ''ap-southeast-6'', ''ap-southeast-7'',
        ''ca-central-1'', ''ca-west-1'', ''cn-north-1'', ''cn-northwest-1'', ''eu-central-1'',
        ''eu-central-2'', ''eu-north-1'', ''eu-south-1'', ''eu-south-2'', ''eu-west-1'', ''eu-west-2'',
        ''eu-west-3'', ''il-central-1'', ''me-central-1'', ''me-south-1'', ''mx-central-1'', ''sa-east-1'',
        ''us-east-2'', ''us-gov-east-1'', ''us-gov-west-1'', ''us-west-1'', ''us-west-2'']"

definition LocationType_xml :: shape where
  "LocationType_xml = TEnum [''AvailabilityZone'', ''LocalZone'']"

definition LocationInfo_xml :: shape where
  "LocationInfo_xml =
     TStruct RejectUnknown
       [optional ''Name'' (Content TString), optional ''Type'' (Content LocationType_xml)]"

definition CreateBucketConfiguration_xml :: shape where
  "CreateBucketConfiguration_xml =
     TStruct SkipUnknown
       [optional ''Bucket'' (Content BucketInfo_xml), optional ''Location'' (Content LocationInfo_xml),
        optional ''LocationConstraint'' (Content BucketLocationConstraint_xml), optional ''Tags'' (Listed ''Tag'' Tag_xml)]"

definition CreateMultipartUploadOutput_xml :: shape where
  "CreateMultipartUploadOutput_xml =
     TStruct RejectUnknown
       [optional ''Bucket'' (Content TString), optional ''Key'' (Content TString), optional ''UploadId'' (Content TString)]"

definition SessionCredentials_xml :: shape where
  "SessionCredentials_xml =
     TStruct RejectUnknown
       [required ''AccessKeyId'' (Content TString), required ''Expiration'' (Content (TTimestamp DateTime)),
        required ''SecretAccessKey'' (Content TString), required ''SessionToken'' (Content TString)]"

definition CreateSessionOutput_xml :: shape where
  "CreateSessionOutput_xml =
     TStruct RejectUnknown
       [required ''Credentials'' (Content SessionCredentials_xml)]"

definition ObjectIdentifier_xml :: shape where
  "ObjectIdentifier_xml =
     TStruct RejectUnknown
       [optional ''ETag'' (Content TETag), required ''Key'' (Content TString),
        optional ''LastModifiedTime'' (Content (TTimestamp HttpDate)), optional ''Size'' (Content (TInt 64)),
        optional ''VersionId'' (Content TString)]"

definition Delete_xml :: shape where
  "Delete_xml =
     TStruct SkipUnknown
       [required ''Object'' (Flattened ObjectIdentifier_xml), optional ''Quiet'' (Content TBool)]"

definition DeletedObject_xml :: shape where
  "DeletedObject_xml =
     TStruct RejectUnknown
       [optional ''DeleteMarker'' (Content TBool), optional ''DeleteMarkerVersionId'' (Content TString),
        optional ''Key'' (Content TString), optional ''VersionId'' (Content TString)]"

definition Error_xml :: shape where
  "Error_xml =
     TStruct RejectUnknown
       [optional ''Code'' (Content TString), optional ''Key'' (Content TString), optional ''Message'' (Content TString),
        optional ''VersionId'' (Content TString)]"

definition DeleteObjectsOutput_xml :: shape where
  "DeleteObjectsOutput_xml =
     TStruct RejectUnknown
       [optional ''Deleted'' (Flattened DeletedObject_xml), optional ''Error'' (Flattened Error_xml)]"

definition GetBucketAccelerateConfigurationOutput_xml :: shape where
  "GetBucketAccelerateConfigurationOutput_xml =
     TStruct RejectUnknown
       [optional ''Status'' (Content BucketAccelerateStatus_xml)]"

definition GetBucketAclOutput_xml :: shape where
  "GetBucketAclOutput_xml =
     TStruct RejectUnknown
       [optional ''AccessControlList'' (Listed ''Grant'' Grant_xml), optional ''Owner'' (Content Owner_xml)]"

definition GetBucketCorsOutput_xml :: shape where
  "GetBucketCorsOutput_xml =
     TStruct RejectUnknown
       [optional ''CORSRule'' (Flattened CORSRule_xml)]"

definition GetBucketLifecycleConfigurationOutput_xml :: shape where
  "GetBucketLifecycleConfigurationOutput_xml =
     TStruct RejectUnknown
       [optional ''Rule'' (Flattened LifecycleRule_xml)]"

definition GetBucketLoggingOutput_xml :: shape where
  "GetBucketLoggingOutput_xml =
     TStruct RejectUnknown
       [optional ''LoggingEnabled'' (Content LoggingEnabled_xml)]"

definition ErrorDetails_xml :: shape where
  "ErrorDetails_xml =
     TStruct RejectUnknown
       [optional ''ErrorCode'' (Content TString), optional ''ErrorMessage'' (Content TString)]"

definition AnnotationTableConfigurationResult_xml :: shape where
  "AnnotationTableConfigurationResult_xml =
     TStruct RejectUnknown
       [required ''ConfigurationState'' (Content AnnotationConfigurationState_xml),
        optional ''Error'' (Content ErrorDetails_xml), optional ''Role'' (Content TString),
        optional ''TableArn'' (Content TString), optional ''TableName'' (Content TString),
        optional ''TableStatus'' (Content TString)]"

definition S3TablesBucketType_xml :: shape where
  "S3TablesBucketType_xml = TEnum [''aws'', ''customer'']"

definition DestinationResult_xml :: shape where
  "DestinationResult_xml =
     TStruct RejectUnknown
       [optional ''TableBucketArn'' (Content TString), optional ''TableBucketType'' (Content S3TablesBucketType_xml),
        optional ''TableNamespace'' (Content TString)]"

definition InventoryConfigurationState_xml :: shape where
  "InventoryConfigurationState_xml = TEnum [''DISABLED'', ''ENABLED'']"

definition InventoryTableConfigurationResult_xml :: shape where
  "InventoryTableConfigurationResult_xml =
     TStruct RejectUnknown
       [required ''ConfigurationState'' (Content InventoryConfigurationState_xml),
        optional ''Error'' (Content ErrorDetails_xml), optional ''TableArn'' (Content TString),
        optional ''TableName'' (Content TString), optional ''TableStatus'' (Content TString)]"

definition ExpirationState_xml :: shape where
  "ExpirationState_xml = TEnum [''DISABLED'', ''ENABLED'']"

definition RecordExpiration_xml :: shape where
  "RecordExpiration_xml =
     TStruct RejectUnknown
       [optional ''Days'' (Content (TInt 32)), required ''Expiration'' (Content ExpirationState_xml)]"

definition JournalTableConfigurationResult_xml :: shape where
  "JournalTableConfigurationResult_xml =
     TStruct RejectUnknown
       [optional ''Error'' (Content ErrorDetails_xml), required ''RecordExpiration'' (Content RecordExpiration_xml),
        optional ''TableArn'' (Content TString), required ''TableName'' (Content TString),
        required ''TableStatus'' (Content TString)]"

definition MetadataConfigurationResult_xml :: shape where
  "MetadataConfigurationResult_xml =
     TStruct RejectUnknown
       [optional ''AnnotationTableConfigurationResult'' (Content AnnotationTableConfigurationResult_xml),
        required ''DestinationResult'' (Content DestinationResult_xml),
        optional ''InventoryTableConfigurationResult'' (Content InventoryTableConfigurationResult_xml),
        optional ''JournalTableConfigurationResult'' (Content JournalTableConfigurationResult_xml)]"

definition GetBucketMetadataConfigurationResult_xml :: shape where
  "GetBucketMetadataConfigurationResult_xml =
     TStruct RejectUnknown
       [required ''MetadataConfigurationResult'' (Content MetadataConfigurationResult_xml)]"

definition S3TablesDestinationResult_xml :: shape where
  "S3TablesDestinationResult_xml =
     TStruct RejectUnknown
       [required ''TableArn'' (Content TString), required ''TableBucketArn'' (Content TString),
        required ''TableName'' (Content TString), required ''TableNamespace'' (Content TString)]"

definition MetadataTableConfigurationResult_xml :: shape where
  "MetadataTableConfigurationResult_xml =
     TStruct RejectUnknown
       [required ''S3TablesDestinationResult'' (Content S3TablesDestinationResult_xml)]"

definition GetBucketMetadataTableConfigurationResult_xml :: shape where
  "GetBucketMetadataTableConfigurationResult_xml =
     TStruct RejectUnknown
       [optional ''Error'' (Content ErrorDetails_xml),
        required ''MetadataTableConfigurationResult'' (Content MetadataTableConfigurationResult_xml),
        required ''Status'' (Content TString)]"

definition EventBridgeConfiguration_xml :: shape where
  "EventBridgeConfiguration_xml = TEmpty"

definition FilterRuleName_xml :: shape where
  "FilterRuleName_xml = TEnum [''prefix'', ''suffix'']"

definition FilterRule_xml :: shape where
  "FilterRule_xml =
     TStruct RejectUnknown
       [optional ''Name'' (Content FilterRuleName_xml), optional ''Value'' (Content TString)]"

definition S3KeyFilter_xml :: shape where
  "S3KeyFilter_xml =
     TStruct RejectUnknown
       [optional ''FilterRule'' (Flattened FilterRule_xml)]"

definition NotificationConfigurationFilter_xml :: shape where
  "NotificationConfigurationFilter_xml =
     TStruct RejectUnknown
       [optional ''S3Key'' (Content S3KeyFilter_xml)]"

definition LambdaFunctionConfiguration_xml :: shape where
  "LambdaFunctionConfiguration_xml =
     TStruct RejectUnknown
       [required ''Event'' (Flattened TString), optional ''Filter'' (Content NotificationConfigurationFilter_xml),
        optional ''Id'' (Content TString), required ''CloudFunction'' (Content TString)]"

definition QueueConfiguration_xml :: shape where
  "QueueConfiguration_xml =
     TStruct RejectUnknown
       [required ''Event'' (Flattened TString), optional ''Filter'' (Content NotificationConfigurationFilter_xml),
        optional ''Id'' (Content TString), required ''Queue'' (Content TString)]"

definition TopicConfiguration_xml :: shape where
  "TopicConfiguration_xml =
     TStruct RejectUnknown
       [required ''Event'' (Flattened TString), optional ''Filter'' (Content NotificationConfigurationFilter_xml),
        optional ''Id'' (Content TString), required ''Topic'' (Content TString)]"

definition GetBucketNotificationConfigurationOutput_xml :: shape where
  "GetBucketNotificationConfigurationOutput_xml =
     TStruct RejectUnknown
       [optional ''EventBridgeConfiguration'' (Content EventBridgeConfiguration_xml),
        optional ''CloudFunctionConfiguration'' (Flattened LambdaFunctionConfiguration_xml),
        optional ''QueueConfiguration'' (Flattened QueueConfiguration_xml),
        optional ''TopicConfiguration'' (Flattened TopicConfiguration_xml)]"

definition Payer_xml :: shape where
  "Payer_xml = TEnum [''BucketOwner'', ''Requester'']"

definition GetBucketRequestPaymentOutput_xml :: shape where
  "GetBucketRequestPaymentOutput_xml =
     TStruct RejectUnknown
       [optional ''Payer'' (Content Payer_xml)]"

definition GetBucketTaggingOutput_xml :: shape where
  "GetBucketTaggingOutput_xml =
     TStruct RejectUnknown
       [required ''TagSet'' (Listed ''Tag'' Tag_xml)]"

definition BucketVersioningStatus_xml :: shape where
  "BucketVersioningStatus_xml = TEnum [''Enabled'', ''Suspended'']"

definition MFADeleteStatus_xml :: shape where
  "MFADeleteStatus_xml = TEnum [''Disabled'', ''Enabled'']"

definition GetBucketVersioningOutput_xml :: shape where
  "GetBucketVersioningOutput_xml =
     TStruct RejectUnknown
       [optional ''MfaDelete'' (Content MFADeleteStatus_xml), optional ''Status'' (Content BucketVersioningStatus_xml)]"

definition ErrorDocument_xml :: shape where
  "ErrorDocument_xml =
     TStruct RejectUnknown
       [required ''Key'' (Content TString)]"

definition IndexDocument_xml :: shape where
  "IndexDocument_xml =
     TStruct RejectUnknown
       [required ''Suffix'' (Content TString)]"

definition Protocol_xml :: shape where
  "Protocol_xml = TEnum [''http'', ''https'']"

definition RedirectAllRequestsTo_xml :: shape where
  "RedirectAllRequestsTo_xml =
     TStruct RejectUnknown
       [required ''HostName'' (Content TString), optional ''Protocol'' (Content Protocol_xml)]"

definition Condition_xml :: shape where
  "Condition_xml =
     TStruct RejectUnknown
       [optional ''HttpErrorCodeReturnedEquals'' (Content TString), optional ''KeyPrefixEquals'' (Content TString)]"

definition Redirect_xml :: shape where
  "Redirect_xml =
     TStruct RejectUnknown
       [optional ''HostName'' (Content TString), optional ''HttpRedirectCode'' (Content TString),
        optional ''Protocol'' (Content Protocol_xml), optional ''ReplaceKeyPrefixWith'' (Content TString),
        optional ''ReplaceKeyWith'' (Content TString)]"

definition RoutingRule_xml :: shape where
  "RoutingRule_xml =
     TStruct RejectUnknown
       [optional ''Condition'' (Content Condition_xml), required ''Redirect'' (Content Redirect_xml)]"

definition GetBucketWebsiteOutput_xml :: shape where
  "GetBucketWebsiteOutput_xml =
     TStruct RejectUnknown
       [optional ''ErrorDocument'' (Content ErrorDocument_xml), optional ''IndexDocument'' (Content IndexDocument_xml),
        optional ''RedirectAllRequestsTo'' (Content RedirectAllRequestsTo_xml),
        optional ''RoutingRules'' (Listed ''RoutingRule'' RoutingRule_xml)]"

definition GetObjectAclOutput_xml :: shape where
  "GetObjectAclOutput_xml =
     TStruct RejectUnknown
       [optional ''AccessControlList'' (Listed ''Grant'' Grant_xml), optional ''Owner'' (Content Owner_xml)]"

definition Checksum_xml :: shape where
  "Checksum_xml =
     TStruct RejectUnknown
       [optional ''ChecksumCRC32'' (Content TString), optional ''ChecksumCRC32C'' (Content TString),
        optional ''ChecksumCRC64NVME'' (Content TString), optional ''ChecksumMD5'' (Content TString),
        optional ''ChecksumSHA1'' (Content TString), optional ''ChecksumSHA256'' (Content TString),
        optional ''ChecksumSHA512'' (Content TString), optional ''ChecksumType'' (Content ChecksumType_xml),
        optional ''ChecksumXXHASH128'' (Content TString), optional ''ChecksumXXHASH3'' (Content TString),
        optional ''ChecksumXXHASH64'' (Content TString)]"

definition ObjectPart_xml :: shape where
  "ObjectPart_xml =
     TStruct RejectUnknown
       [optional ''ChecksumCRC32'' (Content TString), optional ''ChecksumCRC32C'' (Content TString),
        optional ''ChecksumCRC64NVME'' (Content TString), optional ''ChecksumMD5'' (Content TString),
        optional ''ChecksumSHA1'' (Content TString), optional ''ChecksumSHA256'' (Content TString),
        optional ''ChecksumSHA512'' (Content TString), optional ''ChecksumXXHASH128'' (Content TString),
        optional ''ChecksumXXHASH3'' (Content TString), optional ''ChecksumXXHASH64'' (Content TString),
        optional ''PartNumber'' (Content (TInt 32)), optional ''Size'' (Content (TInt 64))]"

definition GetObjectAttributesParts_xml :: shape where
  "GetObjectAttributesParts_xml =
     TStruct RejectUnknown
       [optional ''IsTruncated'' (Content TBool), optional ''MaxParts'' (Content (TInt 32)),
        optional ''NextPartNumberMarker'' (Content (TInt 32)), optional ''PartNumberMarker'' (Content (TInt 32)),
        optional ''Part'' (Flattened ObjectPart_xml), optional ''PartsCount'' (Content (TInt 32))]"

definition StorageClass_xml :: shape where
  "StorageClass_xml =
     TEnum
       [''AWS_BACKUP_LOW_COST_WARM'', ''AWS_BACKUP_WARM'', ''DEEP_ARCHIVE'', ''EXPRESS_ONEZONE'',
        ''FSX_ONTAP'', ''FSX_OPENZFS'', ''GLACIER'', ''GLACIER_IR'', ''INTELLIGENT_TIERING'', ''ONEZONE_IA'',
        ''OUTPOSTS'', ''REDUCED_REDUNDANCY'', ''SNOW'', ''STANDARD'', ''STANDARD_IA'']"

definition GetObjectAttributesOutput_xml :: shape where
  "GetObjectAttributesOutput_xml =
     TStruct RejectUnknown
       [optional ''Checksum'' (Content Checksum_xml), optional ''ETag'' (Content TString),
        optional ''ObjectParts'' (Content GetObjectAttributesParts_xml), optional ''ObjectSize'' (Content (TInt 64)),
        optional ''StorageClass'' (Content StorageClass_xml)]"

definition GetObjectTaggingOutput_xml :: shape where
  "GetObjectTaggingOutput_xml =
     TStruct RejectUnknown
       [required ''TagSet'' (Listed ''Tag'' Tag_xml)]"

definition IntelligentTieringAndOperator_xml :: shape where
  "IntelligentTieringAndOperator_xml =
     TStruct RejectUnknown
       [optional ''Prefix'' (Content TString), optional ''Tag'' (Flattened Tag_xml)]"

definition IntelligentTieringFilter_xml :: shape where
  "IntelligentTieringFilter_xml =
     TStruct RejectUnknown
       [optional ''And'' (Content IntelligentTieringAndOperator_xml), optional ''Prefix'' (Content TString),
        optional ''Tag'' (Content Tag_xml)]"

definition IntelligentTieringStatus_xml :: shape where
  "IntelligentTieringStatus_xml = TEnum [''Disabled'', ''Enabled'']"

definition IntelligentTieringAccessTier_xml :: shape where
  "IntelligentTieringAccessTier_xml = TEnum [''ARCHIVE_ACCESS'', ''DEEP_ARCHIVE_ACCESS'']"

definition Tiering_xml :: shape where
  "Tiering_xml =
     TStruct RejectUnknown
       [required ''AccessTier'' (Content IntelligentTieringAccessTier_xml), required ''Days'' (Content (TInt 32))]"

definition IntelligentTieringConfiguration_xml :: shape where
  "IntelligentTieringConfiguration_xml =
     TStruct SkipUnknown
       [optional ''Filter'' (Content IntelligentTieringFilter_xml), required ''Id'' (Content TString),
        required ''Status'' (Content IntelligentTieringStatus_xml), required ''Tiering'' (Flattened Tiering_xml)]"

definition SSEKMS_xml :: shape where
  "SSEKMS_xml =
     TStruct RejectUnknown
       [required ''KeyId'' (Content TString)]"

definition SSES3_xml :: shape where
  "SSES3_xml = TEmpty"

definition InventoryEncryption_xml :: shape where
  "InventoryEncryption_xml =
     TStruct RejectUnknown
       [optional ''SSE-KMS'' (Content SSEKMS_xml), optional ''SSE-S3'' (Content SSES3_xml)]"

definition InventoryFormat_xml :: shape where
  "InventoryFormat_xml = TEnum [''CSV'', ''ORC'', ''Parquet'']"

definition InventoryS3BucketDestination_xml :: shape where
  "InventoryS3BucketDestination_xml =
     TStruct RejectUnknown
       [optional ''AccountId'' (Content TString), required ''Bucket'' (Content TString),
        optional ''Encryption'' (Content InventoryEncryption_xml), required ''Format'' (Content InventoryFormat_xml),
        optional ''Prefix'' (Content TString)]"

definition InventoryDestination_xml :: shape where
  "InventoryDestination_xml =
     TStruct RejectUnknown
       [required ''S3BucketDestination'' (Content InventoryS3BucketDestination_xml)]"

definition InventoryFilter_xml :: shape where
  "InventoryFilter_xml =
     TStruct RejectUnknown
       [required ''Prefix'' (Content TString)]"

definition InventoryIncludedObjectVersions_xml :: shape where
  "InventoryIncludedObjectVersions_xml = TEnum [''All'', ''Current'']"

definition InventoryOptionalField_xml :: shape where
  "InventoryOptionalField_xml =
     TEnum
       [''BucketKeyStatus'', ''ChecksumAlgorithm'', ''ETag'', ''EncryptionStatus'',
        ''IntelligentTieringAccessTier'', ''IsMultipartUploaded'', ''LastModifiedDate'',
        ''LifecycleExpirationDate'', ''ObjectAccessControlList'', ''ObjectLockLegalHoldStatus'',
        ''ObjectLockMode'', ''ObjectLockRetainUntilDate'', ''ObjectOwner'', ''ReplicationStatus'', ''Size'',
        ''StorageClass'']"

definition InventoryFrequency_xml :: shape where
  "InventoryFrequency_xml = TEnum [''Daily'', ''Weekly'']"

definition InventorySchedule_xml :: shape where
  "InventorySchedule_xml =
     TStruct RejectUnknown
       [required ''Frequency'' (Content InventoryFrequency_xml)]"

definition InventoryConfiguration_xml :: shape where
  "InventoryConfiguration_xml =
     TStruct SkipUnknown
       [required ''Destination'' (Content InventoryDestination_xml), optional ''Filter'' (Content InventoryFilter_xml),
        required ''Id'' (Content TString),
        required ''IncludedObjectVersions'' (Content InventoryIncludedObjectVersions_xml),
        required ''IsEnabled'' (Content TBool),
        optional ''OptionalFields'' (Listed ''Field'' InventoryOptionalField_xml),
        required ''Schedule'' (Content InventorySchedule_xml)]"

definition InventoryTableConfigurationUpdates_xml :: shape where
  "InventoryTableConfigurationUpdates_xml =
     TStruct SkipUnknown
       [required ''ConfigurationState'' (Content InventoryConfigurationState_xml),
        optional ''EncryptionConfiguration'' (Content MetadataTableEncryptionConfiguration_xml)]"

definition JournalTableConfigurationUpdates_xml :: shape where
  "JournalTableConfigurationUpdates_xml =
     TStruct SkipUnknown
       [required ''RecordExpiration'' (Content RecordExpiration_xml)]"

definition ListBucketAnalyticsConfigurationsOutput_xml :: shape where
  "ListBucketAnalyticsConfigurationsOutput_xml =
     TStruct RejectUnknown
       [optional ''AnalyticsConfiguration'' (Flattened AnalyticsConfiguration_xml),
        optional ''ContinuationToken'' (Content TString), optional ''IsTruncated'' (Content TBool),
        optional ''NextContinuationToken'' (Content TString)]"

definition ListBucketIntelligentTieringConfigurationsOutput_xml :: shape where
  "ListBucketIntelligentTieringConfigurationsOutput_xml =
     TStruct RejectUnknown
       [optional ''ContinuationToken'' (Content TString),
        optional ''IntelligentTieringConfiguration'' (Flattened IntelligentTieringConfiguration_xml),
        optional ''IsTruncated'' (Content TBool), optional ''NextContinuationToken'' (Content TString)]"

definition ListBucketInventoryConfigurationsOutput_xml :: shape where
  "ListBucketInventoryConfigurationsOutput_xml =
     TStruct RejectUnknown
       [optional ''ContinuationToken'' (Content TString),
        optional ''InventoryConfiguration'' (Flattened InventoryConfiguration_xml),
        optional ''IsTruncated'' (Content TBool), optional ''NextContinuationToken'' (Content TString)]"

definition MetricsAndOperator_xml :: shape where
  "MetricsAndOperator_xml =
     TStruct RejectUnknown
       [optional ''AccessPointArn'' (Content TString), optional ''Prefix'' (Content TString),
        optional ''Tag'' (Flattened Tag_xml)]"

definition MetricsFilter_xml :: shape where
  "MetricsFilter_xml = TUnion [(''AccessPointArn'', TString), (''And'', MetricsAndOperator_xml), (''Prefix'', TString), (''Tag'', Tag_xml)]"

definition MetricsConfiguration_xml :: shape where
  "MetricsConfiguration_xml =
     TStruct SkipUnknown
       [optional ''Filter'' (Content MetricsFilter_xml), required ''Id'' (Content TString)]"

definition ListBucketMetricsConfigurationsOutput_xml :: shape where
  "ListBucketMetricsConfigurationsOutput_xml =
     TStruct RejectUnknown
       [optional ''ContinuationToken'' (Content TString), optional ''IsTruncated'' (Content TBool),
        optional ''MetricsConfiguration'' (Flattened MetricsConfiguration_xml),
        optional ''NextContinuationToken'' (Content TString)]"

definition Bucket_xml :: shape where
  "Bucket_xml =
     TStruct RejectUnknown
       [optional ''BucketArn'' (Content TString), optional ''BucketRegion'' (Content TString),
        optional ''CreationDate'' (Content (TTimestamp DateTime)), optional ''Name'' (Content TString)]"

definition ListBucketsOutput_xml :: shape where
  "ListBucketsOutput_xml =
     TStruct RejectUnknown
       [optional ''Buckets'' (Listed ''Bucket'' Bucket_xml), optional ''ContinuationToken'' (Content TString),
        optional ''Owner'' (Content Owner_xml), optional ''Prefix'' (Content TString)]"

definition ListDirectoryBucketsOutput_xml :: shape where
  "ListDirectoryBucketsOutput_xml =
     TStruct RejectUnknown
       [optional ''Buckets'' (Listed ''Bucket'' Bucket_xml), optional ''ContinuationToken'' (Content TString)]"

definition CommonPrefix_xml :: shape where
  "CommonPrefix_xml =
     TStruct RejectUnknown
       [optional ''Prefix'' (Content TString)]"

definition EncodingType_xml :: shape where
  "EncodingType_xml = TEnum [''url'']"

definition ChecksumAlgorithm_xml :: shape where
  "ChecksumAlgorithm_xml =
     TEnum
       [''CRC32'', ''CRC32C'', ''CRC64NVME'', ''MD5'', ''SHA1'', ''SHA256'', ''SHA512'', ''XXHASH128'',
        ''XXHASH3'', ''XXHASH64'']"

definition Initiator_xml :: shape where
  "Initiator_xml =
     TStruct RejectUnknown
       [optional ''DisplayName'' (Content TString), optional ''ID'' (Content TString)]"

definition MultipartUpload_xml :: shape where
  "MultipartUpload_xml =
     TStruct RejectUnknown
       [optional ''ChecksumAlgorithm'' (Content ChecksumAlgorithm_xml),
        optional ''ChecksumType'' (Content ChecksumType_xml), optional ''Initiated'' (Content (TTimestamp DateTime)),
        optional ''Initiator'' (Content Initiator_xml), optional ''Key'' (Content TString),
        optional ''Owner'' (Content Owner_xml), optional ''StorageClass'' (Content StorageClass_xml),
        optional ''UploadId'' (Content TString)]"

definition ListMultipartUploadsOutput_xml :: shape where
  "ListMultipartUploadsOutput_xml =
     TStruct RejectUnknown
       [optional ''Bucket'' (Content TString), optional ''CommonPrefixes'' (Flattened CommonPrefix_xml),
        optional ''Delimiter'' (Content TString), optional ''EncodingType'' (Content EncodingType_xml),
        optional ''IsTruncated'' (Content TBool), optional ''KeyMarker'' (Content TString),
        optional ''MaxUploads'' (Content (TInt 32)), optional ''NextKeyMarker'' (Content TString),
        optional ''NextUploadIdMarker'' (Content TString), optional ''Prefix'' (Content TString),
        optional ''UploadIdMarker'' (Content TString), optional ''Upload'' (Flattened MultipartUpload_xml)]"

definition ReplicationStatus_xml :: shape where
  "ReplicationStatus_xml = TEnum [''COMPLETE'', ''COMPLETED'', ''FAILED'', ''PENDING'', ''REPLICA'']"

definition AnnotationEntry_xml :: shape where
  "AnnotationEntry_xml =
     TStruct RejectUnknown
       [required ''AnnotationName'' (Content TString), optional ''ChecksumAlgorithm'' (Flattened ChecksumAlgorithm_xml),
        optional ''ETag'' (Content TETag), required ''LastModified'' (Content (TTimestamp DateTime)),
        optional ''ReplicationStatus'' (Content ReplicationStatus_xml), required ''Size'' (Content (TInt 64))]"

definition ListObjectAnnotationsOutput_xml :: shape where
  "ListObjectAnnotationsOutput_xml =
     TStruct RejectUnknown
       [optional ''AnnotationCount'' (Content (TInt 32)), optional ''AnnotationPrefix'' (Content TString),
        optional ''Annotations'' (Listed ''AnnotationEntry'' AnnotationEntry_xml), optional ''Bucket'' (Content TString),
        optional ''ContinuationToken'' (Content TString), optional ''Key'' (Content TString),
        optional ''MaxAnnotationResults'' (Content (TInt 32)), optional ''NextContinuationToken'' (Content TString)]"

definition DeleteMarkerEntry_xml :: shape where
  "DeleteMarkerEntry_xml =
     TStruct RejectUnknown
       [optional ''IsLatest'' (Content TBool), optional ''Key'' (Content TString),
        optional ''LastModified'' (Content (TTimestamp DateTime)), optional ''Owner'' (Content Owner_xml),
        optional ''VersionId'' (Content TString)]"

definition ObjectVersionStorageClass_xml :: shape where
  "ObjectVersionStorageClass_xml = TEnum [''STANDARD'']"

definition RestoreStatus_xml :: shape where
  "RestoreStatus_xml =
     TStruct RejectUnknown
       [optional ''IsRestoreInProgress'' (Content TBool), optional ''RestoreExpiryDate'' (Content (TTimestamp DateTime))]"

definition ObjectVersion_xml :: shape where
  "ObjectVersion_xml =
     TStruct RejectUnknown
       [optional ''ChecksumAlgorithm'' (Flattened ChecksumAlgorithm_xml),
        optional ''ChecksumType'' (Content ChecksumType_xml), optional ''ETag'' (Content TETag),
        optional ''IsLatest'' (Content TBool), optional ''Key'' (Content TString),
        optional ''LastModified'' (Content (TTimestamp DateTime)), optional ''Owner'' (Content Owner_xml),
        optional ''RestoreStatus'' (Content RestoreStatus_xml), optional ''Size'' (Content (TInt 64)),
        optional ''StorageClass'' (Content ObjectVersionStorageClass_xml), optional ''VersionId'' (Content TString)]"

definition ListObjectVersionsOutput_xml :: shape where
  "ListObjectVersionsOutput_xml =
     TStruct RejectUnknown
       [optional ''CommonPrefixes'' (Flattened CommonPrefix_xml),
        optional ''DeleteMarker'' (Flattened DeleteMarkerEntry_xml), optional ''Delimiter'' (Content TString),
        optional ''EncodingType'' (Content EncodingType_xml), optional ''IsTruncated'' (Content TBool),
        optional ''KeyMarker'' (Content TString), optional ''MaxKeys'' (Content (TInt 32)),
        optional ''Name'' (Content TString), optional ''NextKeyMarker'' (Content TString),
        optional ''NextVersionIdMarker'' (Content TString), optional ''Prefix'' (Content TString),
        optional ''VersionIdMarker'' (Content TString), optional ''Version'' (Flattened ObjectVersion_xml)]"

definition ObjectStorageClass_xml :: shape where
  "ObjectStorageClass_xml =
     TEnum
       [''AWS_BACKUP_LOW_COST_WARM'', ''AWS_BACKUP_WARM'', ''DEEP_ARCHIVE'', ''EXPRESS_ONEZONE'',
        ''FSX_ONTAP'', ''FSX_OPENZFS'', ''GLACIER'', ''GLACIER_IR'', ''INTELLIGENT_TIERING'', ''ONEZONE_IA'',
        ''OUTPOSTS'', ''REDUCED_REDUNDANCY'', ''SNOW'', ''STANDARD'', ''STANDARD_IA'']"

definition Object_xml :: shape where
  "Object_xml =
     TStruct RejectUnknown
       [optional ''ChecksumAlgorithm'' (Flattened ChecksumAlgorithm_xml),
        optional ''ChecksumType'' (Content ChecksumType_xml), optional ''ETag'' (Content TETag),
        optional ''Key'' (Content TString), optional ''LastModified'' (Content (TTimestamp DateTime)),
        optional ''Owner'' (Content Owner_xml), optional ''RestoreStatus'' (Content RestoreStatus_xml),
        optional ''Size'' (Content (TInt 64)), optional ''StorageClass'' (Content ObjectStorageClass_xml)]"

definition ListObjectsOutput_xml :: shape where
  "ListObjectsOutput_xml =
     TStruct RejectUnknown
       [optional ''Name'' (Content TString), optional ''Prefix'' (Content TString), optional ''Marker'' (Content TString),
        optional ''MaxKeys'' (Content (TInt 32)), optional ''IsTruncated'' (Content TBool),
        optional ''Contents'' (Flattened Object_xml), optional ''CommonPrefixes'' (Flattened CommonPrefix_xml),
        optional ''Delimiter'' (Content TString), optional ''NextMarker'' (Content TString),
        optional ''EncodingType'' (Content EncodingType_xml)]"

definition ListObjectsV2Output_xml :: shape where
  "ListObjectsV2Output_xml =
     TStruct RejectUnknown
       [optional ''Name'' (Content TString), optional ''Prefix'' (Content TString), optional ''MaxKeys'' (Content (TInt 32)),
        optional ''KeyCount'' (Content (TInt 32)), optional ''ContinuationToken'' (Content TString),
        optional ''IsTruncated'' (Content TBool), optional ''NextContinuationToken'' (Content TString),
        optional ''Contents'' (Flattened Object_xml), optional ''CommonPrefixes'' (Flattened CommonPrefix_xml),
        optional ''Delimiter'' (Content TString), optional ''EncodingType'' (Content EncodingType_xml),
        optional ''StartAfter'' (Content TString)]"

definition Part_xml :: shape where
  "Part_xml =
     TStruct RejectUnknown
       [optional ''ChecksumCRC32'' (Content TString), optional ''ChecksumCRC32C'' (Content TString),
        optional ''ChecksumCRC64NVME'' (Content TString), optional ''ChecksumMD5'' (Content TString),
        optional ''ChecksumSHA1'' (Content TString), optional ''ChecksumSHA256'' (Content TString),
        optional ''ChecksumSHA512'' (Content TString), optional ''ChecksumXXHASH128'' (Content TString),
        optional ''ChecksumXXHASH3'' (Content TString), optional ''ChecksumXXHASH64'' (Content TString),
        optional ''ETag'' (Content TETag), optional ''LastModified'' (Content (TTimestamp DateTime)),
        optional ''PartNumber'' (Content (TInt 32)), optional ''Size'' (Content (TInt 64))]"

definition ListPartsOutput_xml :: shape where
  "ListPartsOutput_xml =
     TStruct RejectUnknown
       [optional ''Bucket'' (Content TString), optional ''ChecksumAlgorithm'' (Content ChecksumAlgorithm_xml),
        optional ''ChecksumType'' (Content ChecksumType_xml), optional ''Initiator'' (Content Initiator_xml),
        optional ''IsTruncated'' (Content TBool), optional ''Key'' (Content TString),
        optional ''MaxParts'' (Content (TInt 32)), optional ''NextPartNumberMarker'' (Content (TInt 32)),
        optional ''Owner'' (Content Owner_xml), optional ''PartNumberMarker'' (Content (TInt 32)),
        optional ''Part'' (Flattened Part_xml), optional ''StorageClass'' (Content StorageClass_xml),
        optional ''UploadId'' (Content TString)]"

definition AnnotationTableConfiguration_xml :: shape where
  "AnnotationTableConfiguration_xml =
     TStruct RejectUnknown
       [required ''ConfigurationState'' (Content AnnotationConfigurationState_xml),
        optional ''EncryptionConfiguration'' (Content MetadataTableEncryptionConfiguration_xml),
        optional ''Role'' (Content TString)]"

definition InventoryTableConfiguration_xml :: shape where
  "InventoryTableConfiguration_xml =
     TStruct RejectUnknown
       [required ''ConfigurationState'' (Content InventoryConfigurationState_xml),
        optional ''EncryptionConfiguration'' (Content MetadataTableEncryptionConfiguration_xml)]"

definition JournalTableConfiguration_xml :: shape where
  "JournalTableConfiguration_xml =
     TStruct RejectUnknown
       [optional ''EncryptionConfiguration'' (Content MetadataTableEncryptionConfiguration_xml),
        required ''RecordExpiration'' (Content RecordExpiration_xml)]"

definition MetadataConfiguration_xml :: shape where
  "MetadataConfiguration_xml =
     TStruct SkipUnknown
       [optional ''AnnotationTableConfiguration'' (Content AnnotationTableConfiguration_xml),
        optional ''InventoryTableConfiguration'' (Content InventoryTableConfiguration_xml),
        required ''JournalTableConfiguration'' (Content JournalTableConfiguration_xml)]"

definition S3TablesDestination_xml :: shape where
  "S3TablesDestination_xml =
     TStruct RejectUnknown
       [required ''TableBucketArn'' (Content TString), required ''TableName'' (Content TString)]"

definition MetadataTableConfiguration_xml :: shape where
  "MetadataTableConfiguration_xml =
     TStruct SkipUnknown
       [required ''S3TablesDestination'' (Content S3TablesDestination_xml)]"

definition NotificationConfiguration_xml :: shape where
  "NotificationConfiguration_xml =
     TStruct SkipUnknown
       [optional ''EventBridgeConfiguration'' (Content EventBridgeConfiguration_xml),
        optional ''CloudFunctionConfiguration'' (Flattened LambdaFunctionConfiguration_xml),
        optional ''QueueConfiguration'' (Flattened QueueConfiguration_xml),
        optional ''TopicConfiguration'' (Flattened TopicConfiguration_xml)]"

definition SSEKMSEncryption_xml :: shape where
  "SSEKMSEncryption_xml =
     TStruct RejectUnknown
       [optional ''BucketKeyEnabled'' (Content TBool), required ''KMSKeyArn'' (Content TString)]"

definition ObjectEncryption_xml :: shape where
  "ObjectEncryption_xml = TUnion [(''SSE-KMS'', SSEKMSEncryption_xml)]"

definition ObjectLockEnabled_xml :: shape where
  "ObjectLockEnabled_xml = TEnum [''Enabled'']"

definition ObjectLockRetentionMode_xml :: shape where
  "ObjectLockRetentionMode_xml = TEnum [''COMPLIANCE'', ''GOVERNANCE'']"

definition DefaultRetention_xml :: shape where
  "DefaultRetention_xml =
     TStruct RejectUnknown
       [optional ''Days'' (Content (TInt 32)), optional ''Mode'' (Content ObjectLockRetentionMode_xml),
        optional ''Years'' (Content (TInt 32))]"

definition ObjectLockRule_xml :: shape where
  "ObjectLockRule_xml =
     TStruct RejectUnknown
       [optional ''DefaultRetention'' (Content DefaultRetention_xml)]"

definition ObjectLockConfiguration_xml :: shape where
  "ObjectLockConfiguration_xml =
     TStruct SkipUnknown
       [optional ''ObjectLockEnabled'' (Content ObjectLockEnabled_xml), optional ''Rule'' (Content ObjectLockRule_xml)]"

definition ObjectLockLegalHoldStatus_xml :: shape where
  "ObjectLockLegalHoldStatus_xml = TEnum [''OFF'', ''ON'']"

definition ObjectLockLegalHold_xml :: shape where
  "ObjectLockLegalHold_xml =
     TStruct SkipUnknown
       [optional ''Status'' (Content ObjectLockLegalHoldStatus_xml)]"

definition ObjectLockRetention_xml :: shape where
  "ObjectLockRetention_xml =
     TStruct SkipUnknown
       [optional ''Mode'' (Content ObjectLockRetentionMode_xml),
        optional ''RetainUntilDate'' (Content (TTimestamp DateTime))]"

definition ObjectOwnership_xml :: shape where
  "ObjectOwnership_xml = TEnum [''BucketOwnerEnforced'', ''BucketOwnerPreferred'', ''ObjectWriter'']"

definition OwnershipControlsRule_xml :: shape where
  "OwnershipControlsRule_xml =
     TStruct RejectUnknown
       [required ''ObjectOwnership'' (Content ObjectOwnership_xml)]"

definition OwnershipControls_xml :: shape where
  "OwnershipControls_xml =
     TStruct SkipUnknown
       [required ''Rule'' (Flattened OwnershipControlsRule_xml)]"

definition PolicyStatus_xml :: shape where
  "PolicyStatus_xml =
     TStruct RejectUnknown
       [optional ''IsPublic'' (Content TBool)]"

definition Progress_xml :: shape where
  "Progress_xml =
     TStruct RejectUnknown
       [optional ''BytesProcessed'' (Content (TInt 64)), optional ''BytesReturned'' (Content (TInt 64)),
        optional ''BytesScanned'' (Content (TInt 64))]"

definition PublicAccessBlockConfiguration_xml :: shape where
  "PublicAccessBlockConfiguration_xml =
     TStruct SkipUnknown
       [optional ''BlockPublicAcls'' (Content TBool), optional ''BlockPublicPolicy'' (Content TBool),
        optional ''IgnorePublicAcls'' (Content TBool), optional ''RestrictPublicBuckets'' (Content TBool)]"

definition PutObjectAnnotationOutput_xml :: shape where
  "PutObjectAnnotationOutput_xml =
     TStruct RejectUnknown
       [optional ''AnnotationName'' (Content TString), optional ''Key'' (Content TString)]"

definition DeleteMarkerReplicationStatus_xml :: shape where
  "DeleteMarkerReplicationStatus_xml = TEnum [''Disabled'', ''Enabled'']"

definition DeleteMarkerReplication_xml :: shape where
  "DeleteMarkerReplication_xml =
     TStruct RejectUnknown
       [optional ''Status'' (Content DeleteMarkerReplicationStatus_xml)]"

definition OwnerOverride_xml :: shape where
  "OwnerOverride_xml = TEnum [''Destination'']"

definition AccessControlTranslation_xml :: shape where
  "AccessControlTranslation_xml =
     TStruct RejectUnknown
       [required ''Owner'' (Content OwnerOverride_xml)]"

definition EncryptionConfiguration_xml :: shape where
  "EncryptionConfiguration_xml =
     TStruct RejectUnknown
       [optional ''ReplicaKmsKeyID'' (Content TString)]"

definition MetricsStatus_xml :: shape where
  "MetricsStatus_xml = TEnum [''Disabled'', ''Enabled'']"

definition ReplicationTimeValue_xml :: shape where
  "ReplicationTimeValue_xml =
     TStruct RejectUnknown
       [optional ''Minutes'' (Content (TInt 32))]"

definition Metrics_xml :: shape where
  "Metrics_xml =
     TStruct RejectUnknown
       [optional ''EventThreshold'' (Content ReplicationTimeValue_xml), required ''Status'' (Content MetricsStatus_xml)]"

definition ReplicationTimeStatus_xml :: shape where
  "ReplicationTimeStatus_xml = TEnum [''Disabled'', ''Enabled'']"

definition ReplicationTime_xml :: shape where
  "ReplicationTime_xml =
     TStruct RejectUnknown
       [required ''Status'' (Content ReplicationTimeStatus_xml), required ''Time'' (Content ReplicationTimeValue_xml)]"

definition Destination_xml :: shape where
  "Destination_xml =
     TStruct RejectUnknown
       [optional ''AccessControlTranslation'' (Content AccessControlTranslation_xml),
        optional ''Account'' (Content TString), required ''Bucket'' (Content TString),
        optional ''EncryptionConfiguration'' (Content EncryptionConfiguration_xml),
        optional ''Metrics'' (Content Metrics_xml), optional ''ReplicationTime'' (Content ReplicationTime_xml),
        optional ''StorageClass'' (Content StorageClass_xml)]"

definition ExistingObjectReplicationStatus_xml :: shape where
  "ExistingObjectReplicationStatus_xml = TEnum [''Disabled'', ''Enabled'']"

definition ExistingObjectReplication_xml :: shape where
  "ExistingObjectReplication_xml =
     TStruct RejectUnknown
       [required ''Status'' (Content ExistingObjectReplicationStatus_xml)]"

definition ReplicationRuleAndOperator_xml :: shape where
  "ReplicationRuleAndOperator_xml =
     TStruct RejectUnknown
       [optional ''Prefix'' (Content TString), optional ''Tag'' (Flattened Tag_xml)]"

definition ReplicationRuleFilter_xml :: shape where
  "ReplicationRuleFilter_xml =
     TStruct RejectUnknown
       [optional ''And'' (Content ReplicationRuleAndOperator_xml), optional ''Prefix'' (Content TString),
        optional ''Tag'' (Content Tag_xml)]"

definition ReplicationRuleStatus_xml :: shape where
  "ReplicationRuleStatus_xml = TEnum [''Disabled'', ''Enabled'']"

definition ReplicaModificationsStatus_xml :: shape where
  "ReplicaModificationsStatus_xml = TEnum [''Disabled'', ''Enabled'']"

definition ReplicaModifications_xml :: shape where
  "ReplicaModifications_xml =
     TStruct RejectUnknown
       [required ''Status'' (Content ReplicaModificationsStatus_xml)]"

definition SseKmsEncryptedObjectsStatus_xml :: shape where
  "SseKmsEncryptedObjectsStatus_xml = TEnum [''Disabled'', ''Enabled'']"

definition SseKmsEncryptedObjects_xml :: shape where
  "SseKmsEncryptedObjects_xml =
     TStruct RejectUnknown
       [required ''Status'' (Content SseKmsEncryptedObjectsStatus_xml)]"

definition SourceSelectionCriteria_xml :: shape where
  "SourceSelectionCriteria_xml =
     TStruct RejectUnknown
       [optional ''ReplicaModifications'' (Content ReplicaModifications_xml),
        optional ''SseKmsEncryptedObjects'' (Content SseKmsEncryptedObjects_xml)]"

definition ReplicationRule_xml :: shape where
  "ReplicationRule_xml =
     TStruct RejectUnknown
       [optional ''DeleteMarkerReplication'' (Content DeleteMarkerReplication_xml),
        required ''Destination'' (Content Destination_xml),
        optional ''ExistingObjectReplication'' (Content ExistingObjectReplication_xml),
        optional ''Filter'' (Content ReplicationRuleFilter_xml), optional ''ID'' (Content TString),
        optional ''Prefix'' (Content TString), optional ''Priority'' (Content (TInt 32)),
        optional ''SourceSelectionCriteria'' (Content SourceSelectionCriteria_xml),
        required ''Status'' (Content ReplicationRuleStatus_xml)]"

definition ReplicationConfiguration_xml :: shape where
  "ReplicationConfiguration_xml =
     TStruct SkipUnknown
       [required ''Role'' (Content TString), required ''Rule'' (Flattened ReplicationRule_xml)]"

definition RequestPaymentConfiguration_xml :: shape where
  "RequestPaymentConfiguration_xml =
     TStruct SkipUnknown
       [required ''Payer'' (Content Payer_xml)]"

definition Tier_xml :: shape where
  "Tier_xml = TEnum [''Bulk'', ''Expedited'', ''Standard'']"

definition GlacierJobParameters_xml :: shape where
  "GlacierJobParameters_xml =
     TStruct RejectUnknown
       [required ''Tier'' (Content Tier_xml)]"

definition ServerSideEncryption_xml :: shape where
  "ServerSideEncryption_xml = TEnum [''AES256'', ''aws:backup'', ''aws:fsx'', ''aws:kms'', ''aws:kms:dsse'']"

definition Encryption_xml :: shape where
  "Encryption_xml =
     TStruct RejectUnknown
       [required ''EncryptionType'' (Content ServerSideEncryption_xml), optional ''KMSContext'' (Content TString),
        optional ''KMSKeyId'' (Content TString)]"

definition MetadataEntry_xml :: shape where
  "MetadataEntry_xml =
     TStruct RejectUnknown
       [optional ''Name'' (Content TString), optional ''Value'' (Content TString)]"

definition ObjectCannedACL_xml :: shape where
  "ObjectCannedACL_xml =
     TEnum
       [''authenticated-read'', ''aws-exec-read'', ''bucket-owner-full-control'', ''bucket-owner-read'',
        ''private'', ''public-read'', ''public-read-write'']"

definition Tagging_xml :: shape where
  "Tagging_xml =
     TStruct SkipUnknown
       [required ''TagSet'' (Listed ''Tag'' Tag_xml)]"

definition S3Location_xml :: shape where
  "S3Location_xml =
     TStruct RejectUnknown
       [optional ''AccessControlList'' (Listed ''Grant'' Grant_xml), required ''BucketName'' (Content TString),
        optional ''CannedACL'' (Content ObjectCannedACL_xml), optional ''Encryption'' (Content Encryption_xml),
        required ''Prefix'' (Content TString), optional ''StorageClass'' (Content StorageClass_xml),
        optional ''Tagging'' (Content Tagging_xml), optional ''UserMetadata'' (Listed ''MetadataEntry'' MetadataEntry_xml)]"

definition OutputLocation_xml :: shape where
  "OutputLocation_xml =
     TStruct RejectUnknown
       [optional ''S3'' (Content S3Location_xml)]"

definition RestoreRequestType_xml :: shape where
  "RestoreRequestType_xml = TEnum [''SELECT'']"

definition ExpressionType_xml :: shape where
  "ExpressionType_xml = TEnum [''SQL'']"

definition FileHeaderInfo_xml :: shape where
  "FileHeaderInfo_xml = TEnum [''IGNORE'', ''NONE'', ''USE'']"

definition CSVInput_xml :: shape where
  "CSVInput_xml =
     TStruct RejectUnknown
       [optional ''AllowQuotedRecordDelimiter'' (Content TBool), optional ''Comments'' (Content TString),
        optional ''FieldDelimiter'' (Content TString), optional ''FileHeaderInfo'' (Content FileHeaderInfo_xml),
        optional ''QuoteCharacter'' (Content TString), optional ''QuoteEscapeCharacter'' (Content TString),
        optional ''RecordDelimiter'' (Content TString)]"

definition CompressionType_xml :: shape where
  "CompressionType_xml = TEnum [''BZIP2'', ''GZIP'', ''NONE'']"

definition JSONType_xml :: shape where
  "JSONType_xml = TEnum [''DOCUMENT'', ''LINES'']"

definition JSONInput_xml :: shape where
  "JSONInput_xml =
     TStruct RejectUnknown
       [optional ''Type'' (Content JSONType_xml)]"

definition ParquetInput_xml :: shape where
  "ParquetInput_xml = TEmpty"

definition InputSerialization_xml :: shape where
  "InputSerialization_xml =
     TStruct RejectUnknown
       [optional ''CSV'' (Content CSVInput_xml), optional ''CompressionType'' (Content CompressionType_xml),
        optional ''JSON'' (Content JSONInput_xml), optional ''Parquet'' (Content ParquetInput_xml)]"

definition QuoteFields_xml :: shape where
  "QuoteFields_xml = TEnum [''ALWAYS'', ''ASNEEDED'']"

definition CSVOutput_xml :: shape where
  "CSVOutput_xml =
     TStruct RejectUnknown
       [optional ''FieldDelimiter'' (Content TString), optional ''QuoteCharacter'' (Content TString),
        optional ''QuoteEscapeCharacter'' (Content TString), optional ''QuoteFields'' (Content QuoteFields_xml),
        optional ''RecordDelimiter'' (Content TString)]"

definition JSONOutput_xml :: shape where
  "JSONOutput_xml =
     TStruct RejectUnknown
       [optional ''RecordDelimiter'' (Content TString)]"

definition OutputSerialization_xml :: shape where
  "OutputSerialization_xml =
     TStruct RejectUnknown
       [optional ''CSV'' (Content CSVOutput_xml), optional ''JSON'' (Content JSONOutput_xml)]"

definition SelectParameters_xml :: shape where
  "SelectParameters_xml =
     TStruct RejectUnknown
       [required ''Expression'' (Content TString), required ''ExpressionType'' (Content ExpressionType_xml),
        required ''InputSerialization'' (Content InputSerialization_xml),
        required ''OutputSerialization'' (Content OutputSerialization_xml)]"

definition RestoreRequest_xml :: shape where
  "RestoreRequest_xml =
     TStruct SkipUnknown
       [optional ''Days'' (Content (TInt 32)), optional ''Description'' (Content TString),
        optional ''GlacierJobParameters'' (Content GlacierJobParameters_xml),
        optional ''OutputLocation'' (Content OutputLocation_xml),
        optional ''SelectParameters'' (Content SelectParameters_xml), optional ''Tier'' (Content Tier_xml),
        optional ''Type'' (Content RestoreRequestType_xml)]"

definition RequestProgress_xml :: shape where
  "RequestProgress_xml =
     TStruct RejectUnknown
       [optional ''Enabled'' (Content TBool)]"

definition ScanRange_xml :: shape where
  "ScanRange_xml =
     TStruct RejectUnknown
       [optional ''End'' (Content (TInt 64)), optional ''Start'' (Content (TInt 64))]"

definition SelectObjectContentRequest_xml :: shape where
  "SelectObjectContentRequest_xml =
     TStruct SkipUnknown
       [required ''Expression'' (Content TString), required ''ExpressionType'' (Content ExpressionType_xml),
        required ''InputSerialization'' (Content InputSerialization_xml),
        required ''OutputSerialization'' (Content OutputSerialization_xml),
        optional ''RequestProgress'' (Content RequestProgress_xml), optional ''ScanRange'' (Content ScanRange_xml)]"

definition EncryptionType_xml :: shape where
  "EncryptionType_xml = TEnum [''NONE'', ''SSE-C'']"

definition BlockedEncryptionTypes_xml :: shape where
  "BlockedEncryptionTypes_xml =
     TStruct RejectUnknown
       [optional ''EncryptionType'' (Flattened EncryptionType_xml)]"

definition ServerSideEncryptionByDefault_xml :: shape where
  "ServerSideEncryptionByDefault_xml =
     TStruct RejectUnknown
       [optional ''KMSMasterKeyID'' (Content TString), required ''SSEAlgorithm'' (Content ServerSideEncryption_xml)]"

definition ServerSideEncryptionRule_xml :: shape where
  "ServerSideEncryptionRule_xml =
     TStruct RejectUnknown
       [optional ''ApplyServerSideEncryptionByDefault'' (Content ServerSideEncryptionByDefault_xml),
        optional ''BlockedEncryptionTypes'' (Content BlockedEncryptionTypes_xml),
        optional ''BucketKeyEnabled'' (Content TBool)]"

definition ServerSideEncryptionConfiguration_xml :: shape where
  "ServerSideEncryptionConfiguration_xml =
     TStruct SkipUnknown
       [required ''Rule'' (Flattened ServerSideEncryptionRule_xml)]"

definition Stats_xml :: shape where
  "Stats_xml =
     TStruct RejectUnknown
       [optional ''BytesProcessed'' (Content (TInt 64)), optional ''BytesReturned'' (Content (TInt 64)),
        optional ''BytesScanned'' (Content (TInt 64))]"

definition MFADelete_xml :: shape where
  "MFADelete_xml = TEnum [''Disabled'', ''Enabled'']"

definition VersioningConfiguration_xml :: shape where
  "VersioningConfiguration_xml =
     TStruct SkipUnknown
       [optional ''MfaDelete'' (Content MFADelete_xml), optional ''Status'' (Content BucketVersioningStatus_xml)]"

definition WebsiteConfiguration_xml :: shape where
  "WebsiteConfiguration_xml =
     TStruct SkipUnknown
       [optional ''ErrorDocument'' (Content ErrorDocument_xml), optional ''IndexDocument'' (Content IndexDocument_xml),
        optional ''RedirectAllRequestsTo'' (Content RedirectAllRequestsTo_xml),
        optional ''RoutingRules'' (Listed ''RoutingRule'' RoutingRule_xml)]"

definition AssumedRoleUser_xml :: shape where
  "AssumedRoleUser_xml =
     TStruct RejectUnknown
       [required ''Arn'' (Content TString), required ''AssumedRoleId'' (Content TString)]"

definition Credentials_xml :: shape where
  "Credentials_xml =
     TStruct RejectUnknown
       [required ''AccessKeyId'' (Content TString), required ''Expiration'' (Content (TTimestamp DateTime)),
        required ''SecretAccessKey'' (Content TString), required ''SessionToken'' (Content TString)]"

definition AssumeRoleOutput_xml :: shape where
  "AssumeRoleOutput_xml =
     TStruct RejectUnknown
       [optional ''AssumedRoleUser'' (Content AssumedRoleUser_xml), optional ''Credentials'' (Content Credentials_xml),
        optional ''PackedPolicySize'' (Content (TInt 32)), optional ''SourceIdentity'' (Content TString)]"

definition DelMarkerExpiration_xml :: shape where
  "DelMarkerExpiration_xml =
     TStruct RejectUnknown
       [optional ''Days'' (Content (TInt 32))]"

definition DeleteReplicationStatus_xml :: shape where
  "DeleteReplicationStatus_xml = TEnum [''Disabled'', ''Enabled'']"

definition DeleteReplication_xml :: shape where
  "DeleteReplication_xml =
     TStruct RejectUnknown
       [required ''Status'' (Content DeleteReplicationStatus_xml)]"

definition ExcludedPrefix_xml :: shape where
  "ExcludedPrefix_xml =
     TStruct RejectUnknown
       [optional ''Prefix'' (Content TString)]"

definition GetBucketLocationOutput_xml :: shape where
  "GetBucketLocationOutput_xml =
     TStruct RejectUnknown
       [optional ''LocationConstraint'' (Content BucketLocationConstraint_xml)]"

definition Type_xml :: shape where
  "Type_xml = TEnum [''AmazonCustomerByEmail'', ''CanonicalUser'', ''Group'']"

definition XMLNS_S3 :: bytes where
  "XMLNS_S3 = ''http://s3.amazonaws.com/doc/2006-03-01/''"

text \<open>The root element that is written, its name space, the root elements that are accepted, and the shape.\<close>

type_synonym document = "bytes \<times> bytes option \<times> bytes list \<times> shape"

definition DOCUMENTS :: "document list" where
  "DOCUMENTS =
     [(''AbacStatus'', None, [''AbacStatus''], AbacStatus_xml),
      (''AccelerateConfiguration'', None, [''AccelerateConfiguration''], AccelerateConfiguration_xml),
      (''AccessControlPolicy'', None, [''AccessControlPolicy''], AccessControlPolicy_xml),
      (''AnalyticsConfiguration'', None, [''AnalyticsConfiguration''], AnalyticsConfiguration_xml),
      (''AnnotationTableConfiguration'', None, [''AnnotationTableConfiguration''], AnnotationTableConfigurationUpdates_xml),
      (''LifecycleConfiguration'', None, [''LifecycleConfiguration''], BucketLifecycleConfiguration_xml),
      (''BucketLoggingStatus'', None, [''BucketLoggingStatus''], BucketLoggingStatus_xml),
      (''CORSConfiguration'', None, [''CORSConfiguration''], CORSConfiguration_xml),
      (''CompleteMultipartUpload'', None, [''CompleteMultipartUpload''], CompletedMultipartUpload_xml),
      (''CopyObjectResult'', None, [''CopyObjectResult''], CopyObjectResult_xml),
      (''CopyPartResult'', None, [''CopyPartResult''], CopyPartResult_xml),
      (''CreateBucketConfiguration'', None, [''CreateBucketConfiguration''], CreateBucketConfiguration_xml),
      (''Delete'', None, [''Delete''], Delete_xml),
      (''AccessControlPolicy'', Some XMLNS_S3, [''AccessControlPolicy''], GetBucketAclOutput_xml),
      (''CORSConfiguration'', Some XMLNS_S3, [''CORSConfiguration''], GetBucketCorsOutput_xml),
      (''BucketLoggingStatus'', Some XMLNS_S3, [''BucketLoggingStatus''], GetBucketLoggingOutput_xml),
      (''GetBucketMetadataConfigurationResult'', None, [''GetBucketMetadataConfigurationResult''], GetBucketMetadataConfigurationResult_xml),
      (''GetBucketMetadataTableConfigurationResult'', None, [''GetBucketMetadataTableConfigurationResult''], GetBucketMetadataTableConfigurationResult_xml),
      (''NotificationConfiguration'', Some XMLNS_S3, [''NotificationConfiguration''], GetBucketNotificationConfigurationOutput_xml),
      (''RequestPaymentConfiguration'', Some XMLNS_S3, [''RequestPaymentConfiguration''], GetBucketRequestPaymentOutput_xml),
      (''Tagging'', Some XMLNS_S3, [''Tagging''], GetBucketTaggingOutput_xml),
      (''VersioningConfiguration'', Some XMLNS_S3, [''VersioningConfiguration''], GetBucketVersioningOutput_xml),
      (''WebsiteConfiguration'', Some XMLNS_S3, [''WebsiteConfiguration''], GetBucketWebsiteOutput_xml),
      (''IntelligentTieringConfiguration'', None, [''IntelligentTieringConfiguration''], IntelligentTieringConfiguration_xml),
      (''InventoryConfiguration'', None, [''InventoryConfiguration''], InventoryConfiguration_xml),
      (''InventoryTableConfiguration'', None, [''InventoryTableConfiguration''], InventoryTableConfigurationUpdates_xml),
      (''JournalTableConfiguration'', None, [''JournalTableConfiguration''], JournalTableConfigurationUpdates_xml),
      (''ListBucketAnalyticsConfigurationResult'', Some XMLNS_S3, [''ListBucketAnalyticsConfigurationResult''], ListBucketAnalyticsConfigurationsOutput_xml),
      (''ListBucketIntelligentTieringConfigurationsOutput'', Some XMLNS_S3, [''ListBucketIntelligentTieringConfigurationsOutput''], ListBucketIntelligentTieringConfigurationsOutput_xml),
      (''ListInventoryConfigurationsResult'', Some XMLNS_S3, [''ListInventoryConfigurationsResult''], ListBucketInventoryConfigurationsOutput_xml),
      (''ListMetricsConfigurationsResult'', Some XMLNS_S3, [''ListMetricsConfigurationsResult''], ListBucketMetricsConfigurationsOutput_xml),
      (''ListAllMyBucketsResult'', Some XMLNS_S3, [''ListAllMyBucketsResult''], ListBucketsOutput_xml),
      (''ListAllMyDirectoryBucketsResult'', Some XMLNS_S3, [''ListAllMyDirectoryBucketsResult''], ListDirectoryBucketsOutput_xml),
      (''MetadataConfiguration'', None, [''MetadataConfiguration''], MetadataConfiguration_xml),
      (''MetadataTableConfiguration'', None, [''MetadataTableConfiguration''], MetadataTableConfiguration_xml),
      (''MetricsConfiguration'', None, [''MetricsConfiguration''], MetricsConfiguration_xml),
      (''NotificationConfiguration'', None, [''NotificationConfiguration''], NotificationConfiguration_xml),
      (''ObjectEncryption'', None, [''ObjectEncryption''], ObjectEncryption_xml),
      (''ObjectLockConfiguration'', None, [''ObjectLockConfiguration''], ObjectLockConfiguration_xml),
      (''LegalHold'', None, [''LegalHold''], ObjectLockLegalHold_xml),
      (''Retention'', None, [''Retention''], ObjectLockRetention_xml),
      (''OwnershipControls'', None, [''OwnershipControls''], OwnershipControls_xml),
      (''PolicyStatus'', None, [''PolicyStatus''], PolicyStatus_xml),
      (''Progress'', None, [''Progress''], Progress_xml),
      (''PublicAccessBlockConfiguration'', None, [''PublicAccessBlockConfiguration''], PublicAccessBlockConfiguration_xml),
      (''ReplicationConfiguration'', None, [''ReplicationConfiguration''], ReplicationConfiguration_xml),
      (''RequestPaymentConfiguration'', None, [''RequestPaymentConfiguration''], RequestPaymentConfiguration_xml),
      (''RestoreRequest'', None, [''RestoreRequest''], RestoreRequest_xml),
      (''SelectObjectContentRequest'', None, [''SelectObjectContentRequest'', ''SelectRequest''], SelectObjectContentRequest_xml),
      (''ServerSideEncryptionConfiguration'', None, [''ServerSideEncryptionConfiguration''], ServerSideEncryptionConfiguration_xml),
      (''Stats'', None, [''Stats''], Stats_xml), (''Tagging'', None, [''Tagging''], Tagging_xml),
      (''VersioningConfiguration'', None, [''VersioningConfiguration''], VersioningConfiguration_xml),
      (''WebsiteConfiguration'', None, [''WebsiteConfiguration''], WebsiteConfiguration_xml)]"

text \<open>Two documents are written by hand (s3s/src/xml/mod.rs): one is nested twice, and a location may be empty.\<close>

definition ser_assume_role_output :: "xml_env \<Rightarrow> xval \<Rightarrow> written list" where
  "ser_assume_role_output E v =
     ser_element ''AssumeRoleResponse'' [(''xmlns'', ''https://sts.amazonaws.com/doc/2011-06-15/'')]
       (ser_element ''AssumeRoleResult'' [] (ser_shape E AssumeRoleOutput_xml v))"

definition de_assume_role_output :: "xml_env \<Rightarrow> xval de" where
  "de_assume_role_output E =
     named_element ''AssumeRoleResponse'' (named_element ''AssumeRoleResult'' (de_shape E AssumeRoleOutput_xml))"

definition ser_get_bucket_location_output :: "bytes option \<Rightarrow> written list" where
  "ser_get_bucket_location_output location =
     ser_element ''LocationConstraint'' [(''xmlns'', XMLNS_S3)]
       (case location of Some l \<Rightarrow> [WText l] | None \<Rightarrow> [WText []])"

definition de_get_bucket_location_output :: "bytes option de" where
  "de_get_bucket_location_output =
     for_each_element
       (\<lambda>location x.
          if x = ''LocationConstraint'' then
            (if location \<noteq> None then de_fail DuplicateField
             else de_bind (text_with Inr) (\<lambda>val. de_return (if val \<noteq> [] then Some val else location)))
          else de_fail UnexpectedTagName) None"

section \<open>Properties\<close>

definition ser_document :: "xml_env \<Rightarrow> document \<Rightarrow> xval \<Rightarrow> written list" where
  "ser_document E doc v =
     (case doc of (root, xmlns, _, s) \<Rightarrow>
        ser_element root (case xmlns of Some x \<Rightarrow> [(''xmlns'', x)] | None \<Rightarrow> []) (ser_shape E s v))"

definition de_document :: "xml_env \<Rightarrow> document \<Rightarrow> xval de" where
  "de_document E doc = (case doc of (_, _, names, s) \<Rightarrow> named_element_any names (de_shape E s))"

lemma documents_ok: "list_all (\<lambda>(root, _, names, s). root \<in> set names \<and> shape_ok s) DOCUMENTS"
  by code_simp


end
