(* ===== verification/Xml_Documents.thy ===== *)
theory Xml_Documents
  imports Xml_Types
begin

text \<open>
  What the codec promises for all documents of the protocol, and where it falls short: character references and entity tags with
  markup.
\<close>

section \<open>Reading\<close>

text \<open>
  C33: reading a document depends on its tree alone. For every shape (so for every generated type) the pull deserializer, with its
  peeked event and its extra slot, returns on the events of every document, and its answer is the one of the structural reader on the tree: the
  same value or the same error, for any text before the root and anything after it. In particular no generated reader loops,
  reads beyond its element or takes the end of an inner element for its own.
\<close>

theorem xml_reader_refines_tree:
  assumes "translate xml = map Inr (trees_events pre @ tree_events root) @ rest"
    and "\<not> list_ex is_elem pre" and "is_elem root"
  shows "\<exists>d. named_element_any names (de_shape E s) (Deserializer_new xml) = (Some (read_document E names s root), d)"
proof -
  have "pending (Deserializer_new xml) = map Inr (trees_events pre @ tree_events root) @ rest"
    by (simp add: pending_def slot_events_def Deserializer_new_def assms(1))
  moreover obtain n a kids where "root = Elem n a kids" using assms(3) by (cases root) auto
  ultimately show ?thesis using named_element_reads(1) [of "Deserializer_new xml" pre n a kids rest names E s] assms(2) by blast
qed

section \<open>Reading back what was written\<close>

definition int_parse_ref :: "nat \<Rightarrow> bytes \<Rightarrow> int option" where
  "int_parse_ref bits s =
     (let i = (case s of c # ds \<Rightarrow> if c = CHR ''-'' then - int (digits_value ds) else int (digits_value s) | [] \<Rightarrow> 0)
      in if - (2 ^ (bits - 1)) \<le> i \<and> i < 2 ^ (bits - 1) then Some i else None)"

definition ref_formats :: xml_env where
  "ref_formats = \<lparr>xml_time = ref_time, int_parse = int_parse_ref\<rparr>"

lemma decimal_not_minus: "decimal n = c # ds \<Longrightarrow> c \<noteq> CHR ''-''"
  using decimal_digits [of n] by (auto simp: is_ascii_digit_def)

interpretation ref_texts: text_formats ref_formats
proof (rule text_formats.intro)
  fix bits and i :: int
  assume i: "- (2 ^ (bits - 1)) \<le> i" "i < 2 ^ (bits - 1)"
  show "int_parse ref_formats bits (fmt_long i) = Some i"
  proof (cases "i < 0")
    case True
    with i show ?thesis by (simp add: ref_formats_def int_parse_ref_def fmt_long_def Let_def)
  next
    case False
    obtain c ds where d: "decimal (nat i) = c # ds" by (cases "decimal (nat i)") auto
    then have "int (digits_value (c # ds)) = i" using digits_value_decimal [of "nat i"] False by simp
    with decimal_not_minus [OF d] d i False show ?thesis by (simp add: ref_formats_def int_parse_ref_def fmt_long_def Let_def)
  qed
qed (simp add: ref_formats_def time_reference.time_crate_axioms)


text \<open>A tagging document with an indented child, an entity reference in a value and an empty set of tags after it.\<close>

definition tagging_value :: xval where
  "tagging_value = VRecord [VList [VRecord [VString ''k'', VString ''a&b'']]]"

definition tagging_xml :: "(unit + xml_event) list" where
  "tagging_xml =
     map Inr [XDecl ''1.0'', XText [LF], XStart ''Tagging'' [], XText [LF], XStart ''TagSet'' [], XStart ''Tag'' [],
       XStart ''Key'' [], XText ''k'', XEnd ''Key'', XStart ''Value'' [], XText ''a'', XRef ''amp'' (Some ''&''), XRef ''#98'' None,
       XEnd ''Value'', XEnd ''Tag'', XEnd ''TagSet'', XEnd ''Tagging'']"

definition tagging_kids :: "xtree list" where
  "tagging_kids =
     [Chars [LF], Elem ''TagSet'' [] [Elem ''Tag'' [] [Elem ''Key'' [] [Chars ''k''], Elem ''Value'' [] [Chars ''a'', Chars ''&'', Chars ''b'']]]]"

lemma tagging_delivered: "delivered tagging_kids (shape_trees ref_formats Tagging_xml tagging_value)"
proof -
  have "shape_trees ref_formats Tagging_xml tagging_value =
      [Elem ''TagSet'' [] [Elem ''Tag'' [] [Elem ''Key'' [] [Chars ''k''], Elem ''Value'' [] [Chars ''a&b'']]]]"
    by (simp add: Tagging_xml_def Tag_xml_def tagging_value_def tree_struct_def)
  moreover have "delivered [Chars ''k''] [Chars ''k'']" "delivered [Chars ''a'', Chars ''&'', Chars ''b''] [Chars ''a&b'']"
    by (rule same_text; simp add: tree_text_def)+
  ultimately show ?thesis unfolding tagging_kids_def by (auto intro!: same_children white_space child no_child)
qed


theorem xml_reader_refines_tree_witness:
  "\<exists>d. named_element_any [''Tagging''] (de_shape ref_formats Tagging_xml)
      (Deserializer_new (map Inr [XStart ''Tagging'' [], XStart ''TagSet'' [], XEmpty ''TagSet'' [], XEnd ''TagSet'', XEmpty ''TagSet'' [], XEnd ''Tagging'']))
    = (Some (Inl DuplicateField), d)"
proof -
  let ?root = "Elem ''Tagging'' [] [Elem ''TagSet'' [] [Elem ''TagSet'' [] []], Elem ''TagSet'' [] []]"
  have "read_document ref_formats [''Tagging''] Tagging_xml ?root = Inl DuplicateField" by code_simp
  moreover have "translate (map Inr [XStart ''Tagging'' [], XStart ''TagSet'' [], XEmpty ''TagSet'' [], XEnd ''TagSet'', XEmpty ''TagSet'' [], XEnd ''Tagging'']) =
      map Inr (trees_events [] @ tree_events ?root) @ []"
    by (simp add: translate_def)
  ultimately show ?thesis using xml_reader_refines_tree [of _ "[]" ?root "[]" "[''Tagging'']" ref_formats Tagging_xml] by auto
qed

section \<open>Character references\<close>

lemma radix_digit_decimal: "is_ascii_digit b \<Longrightarrow> radix_digit 10 b = Some (of_char b - 48)"
  by (auto simp: radix_digit_def is_ascii_digit_def Let_def)

lemma foldl_digits_ge: "acc \<le> foldl (\<lambda>n c. 10 * n + (of_char c - 48)) acc ds" for acc :: nat
proof (induction ds arbitrary: acc)
  case (Cons c ds)
  from Cons [of "10 * acc + (of_char c - 48)"] show ?case by simp
qed simp

lemma radix_value_digits:
  "list_all is_ascii_digit ds \<Longrightarrow> foldl (\<lambda>n c. 10 * n + (of_char c - 48 :: nat)) acc ds < 2 ^ 32 \<Longrightarrow>
     radix_value 10 acc ds = Some (foldl (\<lambda>n c. 10 * n + (of_char c - 48)) acc ds)"
proof (induction ds arbitrary: acc)
  case (Cons b ds)
  have "10 * acc + (of_char b - 48) \<le> foldl (\<lambda>n c. 10 * n + (of_char c - 48)) acc (b # ds)"
    unfolding foldl_Cons by (rule foldl_digits_ge)
  with Cons.prems(2) have "10 * acc + (of_char b - 48) < 2 ^ 32" by (rule le_less_trans [rotated])
  with Cons show ?case by (simp add: radix_digit_decimal)
qed simp

lemma parse_decimal: "n < 2 ^ 32 \<Longrightarrow> u32_from_str_radix (decimal n) 10 = Some n"
proof -
  assume n: "n < 2 ^ 32"
  obtain c ds where d: "decimal n = c # ds" by (cases "decimal n") auto
  have "c \<noteq> CHR ''+''" using decimal_digits [of n] d by (auto simp: is_ascii_digit_def)
  with radix_value_digits [OF decimal_digits [of n], of 0] digits_value_decimal [of n] n d show ?thesis
    by (simp add: u32_from_str_radix_def digits_value_def)
qed

text \<open>
  C34: characters outside the basic plane cannot be written as references. A decimal reference is resolved to the character
  exactly when the character is allowed in XML 1.0 and not in the planes 1 to 15: the code has 0x100000 where its comment has
  \<^verbatim>\<open>#x10000\<close>, so that the reference to, say, an emoji is refused.
\<close>

theorem supplementary_reference_refused:
  assumes "c < 2 ^ 32"
  shows "resolve_char_ref (CHR ''#'' # decimal c) =
    (if (c = 9 \<or> c = 10 \<or> c = 13 \<or> 0x20 \<le> c \<and> c \<le> 0xD7FF \<or> 0xE000 \<le> c \<and> c \<le> 0xFFFD \<or> 0x10000 \<le> c \<and> c \<le> 0x10FFFF)
        \<and> \<not> (0x10000 \<le> c \<and> c < 0x100000)
     then Some (encode_utf8 c) else None)"
proof -
  obtain b ds where d: "decimal c = b # ds" by (cases "decimal c") auto
  have b: "b \<noteq> CHR ''x''" using decimal_digits [of c] d by (auto simp: is_ascii_digit_def)
  have "strip_prefix ''#'' (CHR ''#'' # decimal c) = Some (decimal c)" "strip_prefix ''x'' (decimal c) = None"
    using b by (simp_all add: strip_prefix_def d)
  then have r: "resolve_char_ref (CHR ''#'' # decimal c) =
      (if c = 0x9 \<or> c = 0xA \<or> c = 0xD \<or> 0x20 \<le> c \<and> c \<le> 0xD7FF \<or> 0xE000 \<le> c \<and> c \<le> 0xFFFD \<or> 0x100000 \<le> c \<and> c \<le> 0x10FFFF
       then char_from_u32 c else None)"
    using parse_decimal [OF assms] by (simp add: resolve_char_ref_def)
  show ?thesis unfolding r by (auto simp: char_from_u32_def)
qed

theorem supplementary_reference_refused_witness:
  "resolve_char_ref (CHR ''#'' # decimal 128512) = None"
  using supplementary_reference_refused [of 128512] by simp

section \<open>Entity tags with markup\<close>

text \<open>
  The reader accepts the text \<^verbatim>\<open>a<b\<close> (sent as \<^verbatim>\<open>a&lt;b\<close>) as an entity tag because it would survive being put into quotes; it is then written
  into the document as it is, where \<^verbatim>\<open><\<close> starts an element.
\<close>

lemma etag_markup_written_raw:
  "etag_of_text ''a<b'' = Inr (VETag (Strong ''a<b''))"
  "ser_shape E TETag (VETag (Strong ''a<b'')) = [WRaw ([DQUOTE] @ ''a<b'' @ [DQUOTE])]"
  "\<not> has_shape E TETag (VETag (Strong ''a<b''))"
proof -
  show "etag_of_text ''a<b'' = Inr (VETag (Strong ''a<b''))" by code_simp
qed (simp_all add: ser_etag_def etag_plain_def)

end
