(* ===== verification/Rfc2047.thy ===== *)
theory Rfc2047
  imports Prelude
begin

text \<open>
  Encoded words in header values (the crate s3s-rfc2047), used for the values of user metadata. Base64 is a parameter with a contract that
  a reference encoder satisfies. Strings are UTF-8, so that white space and characters are byte sequences.
\<close>

record b64_api =
  b64_encode :: "bytes \<Rightarrow> bytes"
  b64_decode :: "bytes \<Rightarrow> bytes option"

definition MAX_ENCODED_WORD_LEN :: nat where "MAX_ENCODED_WORD_LEN = 75"
definition PREFIX :: bytes where "PREFIX = ''=?UTF-8?B?''"
definition SUFFIX :: bytes where "SUFFIX = ''?=''"
definition MAX_INPUT_LEN :: nat where "MAX_INPUT_LEN = 1024 * 1024"

datatype encode_error = EncodeInputTooLarge | InvalidUtf8Boundary

datatype decode_error = DecodeInputTooLarge | InvalidFormat | Base64Error | InvalidHex | InvalidUtf8 | UnsupportedEncoding

section \<open>Encoding\<close>

definition is_ascii_header_safe :: "bytes \<Rightarrow> bool" where
  "is_ascii_header_safe s = list_all (\<lambda>b. byte_in 0 127 b \<and> byte_in 0x20 255 b \<and> b \<noteq> CHR 0x7F) s"

text \<open>\<^verbatim>\<open>str::is_char_boundary\<close> and \<^verbatim>\<open>str::get\<close> of a range: the byte at a boundary does not continue a character.\<close>

definition continuation :: "byte \<Rightarrow> bool" where
  "continuation b = byte_in 0x80 0xBF b"

definition is_char_boundary :: "bytes \<Rightarrow> nat \<Rightarrow> bool" where
  "is_char_boundary s i \<longleftrightarrow> i \<le> length s \<and> (i = 0 \<or> i = length s \<or> \<not> continuation (s ! i))"

definition str_get :: "bytes \<Rightarrow> nat \<Rightarrow> nat \<Rightarrow> bytes option" where
  "str_get s i e = (if i \<le> e \<and> is_char_boundary s i \<and> is_char_boundary s e then Some (take (e - i) (drop i s)) else None)"

fun boundary_below :: "bytes \<Rightarrow> nat \<Rightarrow> nat \<Rightarrow> nat" where
  "boundary_below s i e = (if i < e \<and> \<not> is_char_boundary s e then boundary_below s i (e - 1) else e)"

declare boundary_below.simps [simp del]

lemma boundary_below_le: "boundary_below s i e \<le> e"
proof (induction e)
  case (Suc e)
  then show ?case by (subst boundary_below.simps) (auto intro: le_SucI)
qed (simp add: boundary_below.simps)

definition encoded_word :: "b64_api \<Rightarrow> bytes \<Rightarrow> bytes" where
  "encoded_word B chunk = PREFIX @ b64_encode B chunk @ SUFFIX"

function encode_loop :: "b64_api \<Rightarrow> bytes \<Rightarrow> nat \<Rightarrow> nat \<Rightarrow> bytes \<Rightarrow> encode_error + bytes" where
  "encode_loop B s max_input_bytes i result =
     (if i < length s then
        (let e = boundary_below s i (min (i + max_input_bytes) (length s)) in
         if e \<le> i then Inl InvalidUtf8Boundary
         else (case str_get s i e of
             None \<Rightarrow> Inl InvalidUtf8Boundary
           | Some chunk \<Rightarrow>
               encode_loop B s max_input_bytes e
                 ((if result \<noteq> [] then result @ [SP] else result) @ encoded_word B chunk)))
      else Inr result)"
  by pat_completeness auto

termination
proof (relation "measure (\<lambda>(B, s, m, i, r). length s - i)", goal_cases)
  case (2 B s m i r e chunk)
  have "e \<le> length s" using 2(2) boundary_below_le [of s i "min (i + m) (length s)"] by simp
  with 2 show ?case by auto
qed simp

declare encode_loop.simps [simp del]

definition encode :: "b64_api \<Rightarrow> bytes \<Rightarrow> encode_error + bytes" where
  "encode B s =
     (if MAX_INPUT_LEN < length s then Inl EncodeInputTooLarge
      else if is_ascii_header_safe s then Inr s
      else
        (let overhead = length PREFIX + length SUFFIX;
             max_encoded_text_len = MAX_ENCODED_WORD_LEN - overhead;
             max_input_bytes = max_encoded_text_len div 4 * 3;
             estimated_encoded_len = (length s * 4 + 2) div 3
         in if estimated_encoded_len + overhead \<le> MAX_ENCODED_WORD_LEN then Inr (encoded_word B s)
            else encode_loop B s max_input_bytes 0 []))"

section \<open>Decoding\<close>

text \<open>The characters of the property \<^verbatim>\<open>White_Space\<close>, which \<^verbatim>\<open>str::trim\<close> and \<^verbatim>\<open>str::split_whitespace\<close> look for.\<close>

definition WHITE_SPACES :: "bytes list" where
  "WHITE_SPACES =
     [[CHR 0x09], [CHR 0x0A], [CHR 0x0B], [CHR 0x0C], [CHR 0x0D], [CHR 0x20], [CHR 0xC2, CHR 0x85], [CHR 0xC2, CHR 0xA0],
      [CHR 0xE1, CHR 0x9A, CHR 0x80],
      [CHR 0xE2, CHR 0x80, CHR 0x80], [CHR 0xE2, CHR 0x80, CHR 0x81], [CHR 0xE2, CHR 0x80, CHR 0x82], [CHR 0xE2, CHR 0x80, CHR 0x83],
      [CHR 0xE2, CHR 0x80, CHR 0x84], [CHR 0xE2, CHR 0x80, CHR 0x85], [CHR 0xE2, CHR 0x80, CHR 0x86], [CHR 0xE2, CHR 0x80, CHR 0x87],
      [CHR 0xE2, CHR 0x80, CHR 0x88], [CHR 0xE2, CHR 0x80, CHR 0x89], [CHR 0xE2, CHR 0x80, CHR 0x8A], [CHR 0xE2, CHR 0x80, CHR 0xA8],
      [CHR 0xE2, CHR 0x80, CHR 0xA9], [CHR 0xE2, CHR 0x80, CHR 0xAF], [CHR 0xE2, CHR 0x81, CHR 0x9F], [CHR 0xE3, CHR 0x80, CHR 0x80]]"

definition leading :: "bytes list \<Rightarrow> bytes \<Rightarrow> bytes option" where
  "leading ws s = find (\<lambda>w. prefix w s) ws"

lemma leading_Some: "leading ws s = Some w \<Longrightarrow> w \<in> set ws \<and> prefix w s"
  by (auto simp: leading_def find_Some_iff)

lemma white_spaces_nonempty: "[] \<notin> set WHITE_SPACES"
  by (simp add: WHITE_SPACES_def)

lemma leading_WHITE_SPACES: "leading WHITE_SPACES s = Some w \<Longrightarrow> 0 < length w"
  using leading_Some white_spaces_nonempty by fastforce

text \<open>The fuel is the length of the text, since each white space has a length.\<close>

fun skip_leading :: "nat \<Rightarrow> bytes list \<Rightarrow> bytes \<Rightarrow> bytes" where
  "skip_leading 0 ws s = s"
| "skip_leading (Suc n) ws s = (case leading ws s of Some w \<Rightarrow> skip_leading n ws (drop (length w) s) | None \<Rightarrow> s)"

definition trim_start :: "bytes \<Rightarrow> bytes" where
  "trim_start s = skip_leading (length s) WHITE_SPACES s"

definition trim_end :: "bytes \<Rightarrow> bytes" where
  "trim_end s = rev (skip_leading (length s) (map rev WHITE_SPACES) (rev s))"

definition str_trim :: "bytes \<Rightarrow> bytes" where
  "str_trim s = trim_end (trim_start s)"

function split_words :: "bytes \<Rightarrow> bytes \<Rightarrow> bytes list" where
  "split_words word [] = (if word = [] then [] else [word])"
| "split_words word (b # r) =
     (case leading WHITE_SPACES (b # r) of
        Some w \<Rightarrow> (if word = [] then [] else [word]) @ split_words [] (drop (length w) (b # r))
      | None \<Rightarrow> split_words (word @ [b]) r)"
  by pat_completeness auto

termination by (relation "measure (\<lambda>(word, s). length s)") (auto dest!: leading_WHITE_SPACES)

definition split_whitespace :: "bytes \<Rightarrow> bytes list" where
  "split_whitespace s = split_words [] s"

definition strip_suffix :: "bytes \<Rightarrow> bytes \<Rightarrow> bytes option" where
  "strip_suffix p s = (if suffix p s then Some (take (length s - length p) s) else None)"

definition looks_encoded :: "bytes \<Rightarrow> bool" where
  "looks_encoded s \<longleftrightarrow> prefix ''=?'' s \<and> suffix ''?='' s"

text \<open>The characters of a string, and the hexadecimal digits (\<^verbatim>\<open>char::to_digit(16)\<close>).\<close>

function utf8_chars :: "bytes \<Rightarrow> bytes list" where
  "utf8_chars [] = []"
| "utf8_chars (b # r) = (b # takeWhile continuation r) # utf8_chars (dropWhile continuation r)"
  by pat_completeness auto

termination by (relation "measure length") (auto intro: le_imp_less_Suc length_dropWhile_le)

definition hex_digit :: "bytes \<Rightarrow> nat option" where
  "hex_digit c =
     (case c of
        [b] \<Rightarrow>
          (if is_ascii_digit b then Some (of_char b - 48)
           else if byte_in 0x61 0x66 b then Some (of_char b - 87)
           else if byte_in 0x41 0x46 b then Some (of_char b - 55) else None)
      | _ \<Rightarrow> None)"

fun decode_quoted_printable :: "bytes list \<Rightarrow> decode_error + bytes" where
  "decode_quoted_printable [] = Inr []"
| "decode_quoted_printable (c # chars) =
     (if c = ''='' then
        (case chars of
           h1 # h2 # rest \<Rightarrow>
             (case (hex_digit h1, hex_digit h2) of
                (Some high, Some low) \<Rightarrow> map_sum id (\<lambda>r. char_of (16 * high + low) # r) (decode_quoted_printable rest)
              | _ \<Rightarrow> Inl InvalidHex)
         | _ \<Rightarrow> Inl InvalidFormat)
      else if c = ''_'' then map_sum id (\<lambda>r. SP # r) (decode_quoted_printable chars)
      else if list_all (byte_in 0 127) c then map_sum id (\<lambda>r. c @ r) (decode_quoted_printable chars)
      else Inl InvalidFormat)"

definition decode_single_word :: "b64_api \<Rightarrow> bytes \<Rightarrow> decode_error + bytes" where
  "decode_single_word B word =
     (let s = str_trim word in
      if \<not> looks_encoded s then Inl InvalidFormat
      else (case Option.bind (strip_prefix ''=?'' s) (strip_suffix ''?='') of
          None \<Rightarrow> Inl InvalidFormat
        | Some inner \<Rightarrow>
            (case split_once (CHR ''?'') inner of
               None \<Rightarrow> Inl InvalidFormat
             | Some (charset, r) \<Rightarrow>
                 (case split_once (CHR ''?'') r of
                    None \<Rightarrow> Inl InvalidFormat
                  | Some (encoding, encoded_text) \<Rightarrow>
                      (case (if eq_ignore_ascii_case encoding ''B''
                             then (case b64_decode B encoded_text of None \<Rightarrow> Inl Base64Error | Some d \<Rightarrow> Inr d)
                             else if eq_ignore_ascii_case encoding ''Q'' then decode_quoted_printable (utf8_chars encoded_text)
                             else Inl UnsupportedEncoding) of
                         Inl e \<Rightarrow> Inl e
                       | Inr decoded_bytes \<Rightarrow> if is_utf8 decoded_bytes then Inr decoded_bytes else Inl InvalidUtf8)))))"

fun decode_words :: "b64_api \<Rightarrow> bytes list \<Rightarrow> decode_error + bytes" where
  "decode_words B [] = Inr []"
| "decode_words B (part # parts) =
     (if \<not> looks_encoded part then decode_words B parts
      else (case decode_single_word B part of
          Inl e \<Rightarrow> Inl e
        | Inr d \<Rightarrow> map_sum id (\<lambda>r. d @ r) (decode_words B parts)))"

definition decode :: "b64_api \<Rightarrow> bytes \<Rightarrow> decode_error + bytes" where
  "decode B input =
     (if MAX_INPUT_LEN < length input then Inl DecodeInputTooLarge
      else
        (let s = str_trim input in
         if \<not> looks_encoded s then Inr s
         else if 1 < length (filter looks_encoded (split_whitespace s)) then
           (case decode_words B (split_whitespace s) of
              Inl e \<Rightarrow> Inl e
            | Inr result \<Rightarrow>
                if result = [] then Inl InvalidFormat
                else if is_utf8 result then Inr result else Inl InvalidUtf8)
         else decode_single_word B s))"

section \<open>UTF-8\<close>

text \<open>A string is a character and a string; what follows the character does not matter for it.\<close>

lemma utf8_char:
  assumes "is_utf8 (x # r)"
  obtains c t where "r = c @ t" "list_all continuation c" "length c \<le> 3" "is_utf8 t" "\<forall>u. is_utf8 (x # c @ u) = is_utf8 u"
proof -
  have cont: "byte_in lo hi b \<Longrightarrow> 0x80 \<le> lo \<Longrightarrow> hi \<le> 0xBF \<Longrightarrow> continuation b" for lo hi b
    by (simp add: continuation_def byte_in_def)
  show ?thesis
  proof (cases "byte_in 0 127 x")
    case True
    with assms show ?thesis using that [of "[]" r] by simp
  next
    case ascii: False
    with assms obtain b r2 where b: "r = b # r2" by (cases r) auto
    show ?thesis
    proof (cases "byte_in 0xC2 0xDF x")
      case True
      with assms ascii b show ?thesis using that [of "[b]" r2] by (auto intro: cont)
    next
      case two: False
      with assms ascii b obtain c r3 where c: "r2 = c # r3" by (cases r2) auto
      show ?thesis
      proof (cases "byte_in 0xE0 0xEF x")
        case True
        with assms ascii b c two have "continuation b" "continuation c" "is_utf8 r3" by (auto intro: cont split: if_splits)
        with assms ascii b c two True show ?thesis using that [of "[b, c]" r3] by simp
      next
        case three: False
        with assms ascii b c two obtain d r4 where "r3 = d # r4" by (cases r3) auto
        moreover from this assms ascii b c two three have "continuation b" "continuation c" "continuation d" "is_utf8 r4"
          by (auto intro: cont split: if_splits)
        ultimately show ?thesis using that [of "[b, c, d]" r4] assms ascii b c two three by simp
      qed
    qed
  qed
qed

lemma utf8_cut:
  assumes "is_utf8 (a @ b)" and "b = [] \<or> \<not> continuation (hd b)"
  shows "is_utf8 a \<and> is_utf8 b"
  using assms(1)
proof (induction a rule: length_induct)
  case (1 a)
  show ?case
  proof (cases a)
    case (Cons x r)
    from 1(2) Cons have "is_utf8 (x # r @ b)" by simp
    then obtain c t where c: "r @ b = c @ t" "list_all continuation c" "length c \<le> 3" "is_utf8 t" "\<forall>u. is_utf8 (x # c @ u) = is_utf8 u"
      by (rule utf8_char)
    from c(1) obtain us where "r = c @ us \<and> t = us @ b \<or> c = r @ us \<and> b = us @ t" by (auto simp: append_eq_append_conv2)
    then consider us where "r = c @ us" "t = us @ b" | us where "c = r @ us" "b = us @ t" "us \<noteq> []"
      by (cases "us = []") auto
    then show ?thesis
    proof cases
      case 1
      with c 1(1) Cons \<open>is_utf8 (x # r @ b)\<close> "1.IH" show ?thesis by auto
    next
      case 2
      then have "b \<noteq> []" "continuation (hd b)" using c(2) by (auto simp: list_all_iff)
      with assms(2) show ?thesis by auto
    qed
  qed (use 1 in auto)
qed

lemma utf8_not_continuation: "is_utf8 (y # u) \<Longrightarrow> \<not> continuation y"
proof
  assume u: "is_utf8 (y # u)" and y: "continuation y"
  from y have "\<not> byte_in 0 127 y" "\<not> byte_in 0xC2 0xDF y" "\<not> byte_in 0xE0 0xEF y" "\<not> byte_in 0xF0 0xF4 y"
    by (simp_all add: continuation_def byte_in_def)
  with u show False by (simp split: list.splits)
qed

lemma utf8_boundary:
  assumes "is_utf8 s" and "s \<noteq> []"
  obtains k where "0 < k" "k \<le> 4" "is_char_boundary s k"
proof -
  from assms(2) obtain x r where s: "s = x # r" by (cases s) auto
  from assms(1) s have "is_utf8 (x # r)" by simp
  then obtain c t where c: "r = c @ t" "list_all continuation c" "length c \<le> 3" "is_utf8 t" "\<forall>u. is_utf8 (x # c @ u) = is_utf8 u"
    by (rule utf8_char)
  have "is_char_boundary s (Suc (length c))"
  proof (cases t)
    case (Cons y u)
    with c(4) have "\<not> continuation y" using utf8_not_continuation by blast
    with Cons c(1) s show ?thesis by (simp add: is_char_boundary_def nth_append)
  qed (simp add: s c(1) is_char_boundary_def)
  then show ?thesis using c(3) by (intro that [of "Suc (length c)"]) auto
qed

lemma boundary_below_boundary: "is_char_boundary s (boundary_below s i e) \<or> boundary_below s i e \<le> i"
proof (induction e)
  case (Suc e)
  then show ?case by (subst (1 2) boundary_below.simps) auto
qed (simp add: boundary_below.simps)

lemma boundary_below_ge: "is_char_boundary s b \<Longrightarrow> b \<le> e \<Longrightarrow> b \<le> boundary_below s i e"
proof (induction e)
  case (Suc e)
  then show ?case by (subst boundary_below.simps) (auto simp: le_Suc_eq)
qed (simp add: boundary_below.simps)

section \<open>Words\<close>

definition word_byte :: "byte \<Rightarrow> bool" where
  "word_byte b = byte_in 0x21 0x7E b"

lemma white_space_ends: "w \<in> set WHITE_SPACES \<Longrightarrow> \<not> word_byte (hd w) \<and> \<not> word_byte (hd (rev w))"
proof -
  have "list_all (\<lambda>w. \<not> word_byte (hd w) \<and> \<not> word_byte (hd (rev w))) WHITE_SPACES"
    by (simp add: WHITE_SPACES_def word_byte_def byte_in_def)
  then show "w \<in> set WHITE_SPACES \<Longrightarrow> \<not> word_byte (hd w) \<and> \<not> word_byte (hd (rev w))" by (simp add: list_all_iff)
qed

lemma leading_word:
  assumes "word_byte b"
  shows "leading WHITE_SPACES (b # r) = None" "leading (map rev WHITE_SPACES) (b # r) = None"
proof -
  have *: "prefix w (b # r) \<Longrightarrow> w \<noteq> [] \<Longrightarrow> hd w = b" for w by (cases w) auto
  show "leading WHITE_SPACES (b # r) = None"
  proof (rule ccontr)
    assume "leading WHITE_SPACES (b # r) \<noteq> None"
    then obtain w where "leading WHITE_SPACES (b # r) = Some w" by blast
    from leading_Some [OF this] have "w \<in> set WHITE_SPACES" "prefix w (b # r)" by auto
    with * [of w] white_space_ends [of w] white_spaces_nonempty assms show False by auto
  qed
  show "leading (map rev WHITE_SPACES) (b # r) = None"
  proof (rule ccontr)
    assume "leading (map rev WHITE_SPACES) (b # r) \<noteq> None"
    then obtain w where "leading (map rev WHITE_SPACES) (b # r) = Some w" by blast
    from leading_Some [OF this] obtain v where v: "w = rev v" "v \<in> set WHITE_SPACES" "prefix w (b # r)" by auto
    with * [of w] white_space_ends [of v] white_spaces_nonempty assms show False by (cases "v = []") auto
  qed
qed

lemma str_trim_word:
  assumes "s \<noteq> []" "word_byte (hd s)" "word_byte (last s)"
  shows "str_trim s = s"
proof -
  obtain b r where s: "s = b # r" using assms(1) by (cases s) auto
  obtain c t where t: "rev s = c # t" "c = last s" using assms(1) by (metis hd_rev list.exhaust_sel rev_is_Nil_conv)
  have "trim_start s = s" using leading_word(1) [of b r] assms(2) s by (simp add: trim_start_def)
  moreover have "skip_leading (Suc n) (map rev WHITE_SPACES) (c # t) = c # t" for n
    using leading_word(2) [of c t] assms(3) t(2) by simp
  then have "trim_end s = s" using t(1) by (metis length_Cons length_rev rev_rev_ident trim_end_def)
  ultimately show ?thesis by (simp add: str_trim_def)
qed

lemma split_words_word: "list_all word_byte s \<Longrightarrow> word @ s \<noteq> [] \<Longrightarrow> split_words word s = [word @ s]"
proof (induction s arbitrary: word)
  case (Cons b s)
  then show ?case by (simp add: leading_word)
qed simp

lemma leading_SP: "leading WHITE_SPACES (SP # r) = Some [SP]"
  by (simp add: leading_def WHITE_SPACES_def)

lemma split_words_space:
  "list_all word_byte s \<Longrightarrow> word @ s \<noteq> [] \<Longrightarrow> split_words word (s @ SP # r) = (word @ s) # split_words [] r"
proof (induction s arbitrary: word)
  case Nil
  then show ?case by (simp add: leading_SP)
next
  case (Cons b s)
  then show ?case by (simp add: leading_word)
qed

lemma split_whitespace_join:
  "list_all (\<lambda>w. w \<noteq> [] \<and> list_all word_byte w) ws \<Longrightarrow> split_whitespace (intersperse_join [SP] ws) = ws"
  unfolding split_whitespace_def
proof (induction ws rule: induct_list012)
  case (2 w)
  then show ?case by (simp add: split_words_word)
next
  case (3 w v ws)
  then show ?case by (simp add: split_words_space)
qed simp

lemma join_snoc: "intersperse_join sep (xs @ [y]) = (if xs = [] then y else intersperse_join sep xs @ sep @ y)"
proof (induction xs rule: induct_list012)
  case (3 x y zs)
  then show ?case by (cases zs) auto
qed auto

lemma join_empty: "list_all (\<lambda>w. w \<noteq> []) ws \<Longrightarrow> intersperse_join [SP] ws = [] \<longleftrightarrow> ws = []"
  by (induction ws rule: induct_list012) auto

section \<open>Base64\<close>

definition b64_byte :: "byte \<Rightarrow> bool" where
  "b64_byte b \<longleftrightarrow> is_ascii_alphanumeric b \<or> b \<in> {CHR ''+'', CHR ''/'', CHR ''=''}"

locale base64_codec =
  fixes B :: b64_api
  assumes decode_encode: "b64_decode B (b64_encode B d) = Some d"
    and encode_length: "length (b64_encode B d) = 4 * ((length d + 2) div 3)"
    and encode_bytes: "list_all b64_byte (b64_encode B d)"
begin

lemma b64_no_mark: "CHR ''?'' \<notin> set (b64_encode B d)"
  using encode_bytes [of d] by (auto simp: list_all_iff b64_byte_def ascii_defs)

lemma encoded_word_bytes: "list_all word_byte (encoded_word B d)"
proof -
  have "b64_byte b \<Longrightarrow> word_byte b" for b by (auto simp: b64_byte_def word_byte_def byte_in_def ascii_defs)
  then have "list_all word_byte (b64_encode B d)" using encode_bytes [of d] by (auto simp: list_all_iff)
  moreover have "list_all word_byte PREFIX" "list_all word_byte SUFFIX"
    by (simp_all add: PREFIX_def SUFFIX_def word_byte_def byte_in_def)
  ultimately show ?thesis by (simp add: encoded_word_def)
qed

lemma encoded_word_looks: "looks_encoded (encoded_word B d)"
  by (simp add: looks_encoded_def encoded_word_def PREFIX_def SUFFIX_def suffix_def)

lemma encoded_word_trim: "str_trim (encoded_word B d) = encoded_word B d"
  using encoded_word_bytes [of d]
  by (intro str_trim_word) (auto simp: encoded_word_def PREFIX_def SUFFIX_def word_byte_def byte_in_def)

lemma encoded_word_decoded: "is_utf8 d \<Longrightarrow> decode_single_word B (encoded_word B d) = Inr d"
proof -
  assume d: "is_utf8 d"
  have "strip_prefix ''=?'' (encoded_word B d) = Some (''UTF-8?B?'' @ b64_encode B d @ ''?='')"
    by (simp add: encoded_word_def PREFIX_def SUFFIX_def strip_prefix_Some)
  moreover have "strip_suffix ''?='' (''UTF-8?B?'' @ b64_encode B d @ ''?='') = Some (''UTF-8?B?'' @ b64_encode B d)"
    by (simp add: strip_suffix_def suffix_def)
  moreover have "split_once (CHR ''?'') (''UTF-8?B?'' @ b64_encode B d) = Some (''UTF-8'', ''B?'' @ b64_encode B d)"
    by (simp add: split_once_Some)
  moreover have "split_once (CHR ''?'') (''B?'' @ b64_encode B d) = Some (''B'', b64_encode B d)"
    by (simp add: split_once_Some)
  ultimately show ?thesis using d
    by (simp add: decode_single_word_def encoded_word_trim encoded_word_looks decode_encode eq_ignore_ascii_case_def)
qed

lemma decode_words_encoded:
  "list_all is_utf8 cs \<Longrightarrow> decode_words B (map (encoded_word B) cs) = Inr (concat cs)"
  by (induction cs) (simp_all add: encoded_word_looks encoded_word_decoded)

text \<open>The loop cuts the text into chunks that are strings themselves.\<close>

lemma encode_loop_chunks:
  assumes "is_utf8 (drop i s)" "i \<le> length s" "4 \<le> m" "list_all (\<lambda>w. w \<noteq> []) ws"
  shows "\<exists>cs. encode_loop B s m i (intersperse_join [SP] ws) = Inr (intersperse_join [SP] (ws @ map (encoded_word B) cs))
    \<and> concat cs = drop i s \<and> list_all (\<lambda>c. is_utf8 c \<and> length c \<le> m) cs"
  using assms
proof (induction "length s - i" arbitrary: i ws rule: less_induct)
  case less
  show ?case
  proof (cases "i < length s")
    case False
    then show ?thesis using less.prems(2) by (intro exI [of _ "[]"]) (simp add: encode_loop.simps [of B s m "length s"])
  next
    case True
    define e where "e = boundary_below s i (min (i + m) (length s))"
    have drop_i: "drop i s \<noteq> []" using True by simp
    from utf8_boundary [OF less.prems(1) drop_i] obtain k where k: "0 < k" "k \<le> 4" "is_char_boundary (drop i s) k" .
    then have ik: "is_char_boundary s (i + k)" "i + k \<le> length s" using True by (auto simp: is_char_boundary_def)
    have "i + k \<le> e" unfolding e_def using ik k less.prems(3) by (intro boundary_below_ge) auto
    then have e: "i < e" "e \<le> i + m" "e \<le> length s" "is_char_boundary s e"
      using k boundary_below_le [of s i "min (i + m) (length s)"] boundary_below_boundary [of s i "min (i + m) (length s)"]
      unfolding e_def by auto
    define chunk where "chunk = take (e - i) (drop i s)"
    have split: "drop i s = chunk @ drop e s" using e(1) by (simp add: chunk_def) (metis append_take_drop_id drop_drop le_add_diff_inverse2 less_imp_le)
    have "drop e s = [] \<or> \<not> continuation (hd (drop e s))"
      using e by (cases "e = length s") (auto simp: is_char_boundary_def hd_drop_conv_nth)
    with less.prems(1) split have utf: "is_utf8 chunk" "is_utf8 (drop e s)" using utf8_cut [of chunk "drop e s"] by auto
    have "\<not> continuation (s ! i)"
      using less.prems(1) True by (intro utf8_not_continuation [of "s ! i" "drop (Suc i) s"]) (simp add: Cons_nth_drop_Suc)
    then have "is_char_boundary s i" using True by (simp add: is_char_boundary_def)
    then have get: "str_get s i e = Some chunk" using e by (simp add: str_get_def chunk_def)
    let ?ws = "ws @ [encoded_word B chunk]"
    have nonempty: "list_all (\<lambda>w. w \<noteq> []) ?ws" using less.prems(4) by (simp add: encoded_word_def PREFIX_def)
    have "length s - e < length s - i" using e True by simp
    then obtain cs where cs: "encode_loop B s m e (intersperse_join [SP] ?ws) = Inr (intersperse_join [SP] (?ws @ map (encoded_word B) cs))"
      "concat cs = drop e s" "list_all (\<lambda>c. is_utf8 c \<and> length c \<le> m) cs"
      using less.hyps [of e ?ws] e(3) utf(2) less.prems(3) nonempty by auto
    have "encode_loop B s m i (intersperse_join [SP] ws) = encode_loop B s m e (intersperse_join [SP] ?ws)"
      using True e get join_empty [OF less.prems(4)]
      by (subst encode_loop.simps) (simp add: e_def [symmetric] Let_def join_snoc)
    moreover have "length chunk \<le> m" using e by (simp add: chunk_def)
    moreover have "concat (chunk # cs) = drop i s" using split cs(2) by simp
    ultimately show ?thesis using utf(1) cs(1,3) by (intro exI [of _ "chunk # cs"]) simp
  qed
qed

lemma encode_words:
  assumes "is_utf8 s" "length s \<le> MAX_INPUT_LEN" "\<not> is_ascii_header_safe s"
  shows "\<exists>cs. encode B s = Inr (intersperse_join [SP] (map (encoded_word B) cs)) \<and> concat cs = s \<and> list_all is_utf8 cs
    \<and> (if length s \<le> 47 then cs = [s] else list_all (\<lambda>c. length c \<le> 45) cs)"
proof (cases "length s \<le> 47")
  case True
  then have "(length s * 4 + 2) div 3 \<le> 63" using div_le_mono [of "length s * 4 + 2" 190 3] by simp
  then have "encode B s = Inr (encoded_word B s)"
    using assms by (simp add: encode_def PREFIX_def SUFFIX_def MAX_ENCODED_WORD_LEN_def)
  then show ?thesis using assms True by (intro exI [of _ "[s]"]) simp
next
  case False
  then have "\<not> (length s * 4 + 2) div 3 + 12 \<le> 75" by linarith
  then have "encode B s = encode_loop B s 45 0 (intersperse_join [SP] [])"
    using assms by (simp add: encode_def PREFIX_def SUFFIX_def MAX_ENCODED_WORD_LEN_def Let_def)
  moreover obtain cs where "encode_loop B s 45 0 (intersperse_join [SP] []) = Inr (intersperse_join [SP] (map (encoded_word B) cs))"
    "concat cs = s" "list_all (\<lambda>c. is_utf8 c \<and> length c \<le> 45) cs"
    using encode_loop_chunks [of 0 s 45 "[]"] assms(1) by auto
  ultimately show ?thesis using False by (intro exI [of _ cs]) (auto simp: list_all_iff)
qed

lemma split_encoded: "split_whitespace (intersperse_join [SP] (map (encoded_word B) cs)) = map (encoded_word B) cs"
  using encoded_word_bytes by (intro split_whitespace_join) (auto simp: list_all_iff encoded_word_def PREFIX_def)

lemma encoded_word_length: "length (encoded_word B d) = 12 + 4 * ((length d + 2) div 3)"
  by (simp add: encoded_word_def encode_length PREFIX_def SUFFIX_def)

lemma joined_ends:
  assumes "cs \<noteq> []"
  shows "prefix PREFIX (intersperse_join [SP] (map (encoded_word B) cs))" "suffix SUFFIX (intersperse_join [SP] (map (encoded_word B) cs))"
proof -
  obtain c ds where "cs = c # ds" using assms by (cases cs) auto
  then show "prefix PREFIX (intersperse_join [SP] (map (encoded_word B) cs))" by (cases ds) (auto simp: encoded_word_def)
  obtain d es where "cs = es @ [d]" using assms by (metis rev_exhaust)
  then show "suffix SUFFIX (intersperse_join [SP] (map (encoded_word B) cs))"
    by (auto simp: join_snoc encoded_word_def suffix_def)
qed

lemma decode_encode_words:
  assumes "is_utf8 s" "s \<noteq> []" "concat cs = s" "list_all is_utf8 cs" "length out \<le> MAX_INPUT_LEN"
    and "out = intersperse_join [SP] (map (encoded_word B) cs)"
  shows "decode B out = Inr s"
proof -
  have cs: "cs \<noteq> []" using assms(2,3) by auto
  from joined_ends [OF cs] assms(6) obtain u v where uv: "out = PREFIX @ u" "out = v @ SUFFIX" by (metis prefix_def suffix_def)
  have "prefix ''=?'' out" using uv(1) by (simp add: PREFIX_def)
  moreover have "suffix ''?='' out" using uv(2) by (simp add: SUFFIX_def suffix_def)
  ultimately have looks: "looks_encoded out" by (simp add: looks_encoded_def)
  have "hd out = CHR ''=''" using uv(1) by (simp add: PREFIX_def)
  moreover have "last out = CHR ''=''" using uv(2) by (simp add: SUFFIX_def)
  moreover have "word_byte (CHR ''='')" by (simp add: word_byte_def byte_in_def)
  ultimately have trim: "str_trim out = out" using uv(1) by (intro str_trim_word) (auto simp: PREFIX_def)
  have split: "split_whitespace out = map (encoded_word B) cs" using assms(6) by (simp add: split_encoded)
  have words: "filter looks_encoded (map (encoded_word B) cs) = map (encoded_word B) cs"
    by (simp add: encoded_word_looks filter_id_conv)
  show ?thesis
  proof (cases "1 < length cs")
    case True
    with assms(1-5) show ?thesis by (simp add: decode_def trim looks words split decode_words_encoded)
  next
    case False
    with cs obtain c where c: "cs = [c]" by (cases cs) auto
    then have "out = encoded_word B c" using assms(6) by simp
    with c assms(1-5) trim looks words split show ?thesis by (simp add: decode_def encoded_word_decoded)
  qed
qed

end

text \<open>Base64 as RFC 4648 has it.\<close>

definition B64_CHARS :: bytes where
  "B64_CHARS = ''ABCDEFGHIJKLMNOPQRSTUVWXYZabcdefghijklmnopqrstuvwxyz0123456789+/''"

definition b64_char :: "nat \<Rightarrow> byte" where
  "b64_char n = B64_CHARS ! (n mod 64)"

fun b64_encode_ref :: "bytes \<Rightarrow> bytes" where
  "b64_encode_ref [] = []"
| "b64_encode_ref [a] = [b64_char (of_char a div 4), b64_char (of_char a mod 4 * 16), CHR ''='', CHR ''='']"
| "b64_encode_ref [a, b] =
     [b64_char (of_char a div 4), b64_char (of_char a mod 4 * 16 + of_char b div 16), b64_char (of_char b mod 16 * 4), CHR ''='']"
| "b64_encode_ref (a # b # c # r) =
     [b64_char (of_char a div 4), b64_char (of_char a mod 4 * 16 + of_char b div 16),
      b64_char (of_char b mod 16 * 4 + of_char c div 64), b64_char (of_char c mod 64)] @ b64_encode_ref r"

definition b64_val :: "byte \<Rightarrow> nat option" where
  "b64_val c = find_index (\<lambda>x. x = c) B64_CHARS"

fun b64_decode_ref :: "bytes \<Rightarrow> bytes option" where
  "b64_decode_ref [] = Some []"
| "b64_decode_ref (p # q # x # y # r) =
     (case (b64_val p, b64_val q) of
        (Some a, Some b) \<Rightarrow>
          (if x = CHR ''='' \<and> y = CHR ''='' then (if r = [] then Some [char_of (a * 4 + b div 16)] else None)
           else (case b64_val x of
               None \<Rightarrow> None
             | Some c \<Rightarrow>
                 (if y = CHR ''='' then
                    (if r = [] then Some [char_of (a * 4 + b div 16), char_of (b mod 16 * 16 + c div 4)] else None)
                  else (case b64_val y of
                      None \<Rightarrow> None
                    | Some d \<Rightarrow>
                        map_option (\<lambda>t. [char_of (a * 4 + b div 16), char_of (b mod 16 * 16 + c div 4), char_of (c mod 4 * 64 + d)] @ t)
                          (b64_decode_ref r)))))
      | _ \<Rightarrow> None)"
| "b64_decode_ref _ = None"

definition b64_ref :: b64_api where
  "b64_ref = \<lparr>b64_encode = b64_encode_ref, b64_decode = b64_decode_ref\<rparr>"

lemma b64_char_facts:
  assumes "n < 64"
  shows "b64_val (b64_char n) = Some n" "b64_byte (b64_char n)" "b64_char n \<noteq> CHR ''=''"
proof -
  have "list_all (\<lambda>n. b64_val (b64_char n) = Some n \<and> b64_byte (b64_char n) \<and> b64_char n \<noteq> CHR ''='') [0..<64]"
    by code_simp
  then have "b64_val (b64_char n) = Some n \<and> b64_byte (b64_char n) \<and> b64_char n \<noteq> CHR ''=''"
    using assms by (simp add: list_all_iff)
  then show "b64_val (b64_char n) = Some n" "b64_byte (b64_char n)" "b64_char n \<noteq> CHR ''=''" by auto
qed

lemma byte_bound: "of_char (a :: byte) < (256 :: nat)"
  by simp

lemma parts: "of_char (a :: byte) div 16 < (16 :: nat)" "of_char a div 64 < (4 :: nat)"
  using byte_bound [of a] by linarith+

lemma b64_ref_decode: "b64_decode_ref (b64_encode_ref d) = Some d"
proof (induction d rule: b64_encode_ref.induct)
  case (2 a)
  have "of_char a div 4 < (64 :: nat)" "of_char a mod 4 * 16 < (64 :: nat)" using byte_bound [of a] by linarith+
  moreover have "of_char a div 4 * 4 + of_char a mod 4 * 16 div 16 = (of_char a :: nat)" by simp
  ultimately show ?case by (simp add: b64_char_facts)
next
  case (3 a b)
  have *: "of_char a div 4 < (64 :: nat)" "of_char a mod 4 * 16 + of_char b div 16 < (64 :: nat)" "of_char b mod 16 * 4 < (64 :: nat)"
    using byte_bound [of a] byte_bound [of b] by linarith+
  have "of_char a div 4 * 4 + (of_char a mod 4 * 16 + of_char b div 16) div 16 = (of_char a :: nat)"
    "(of_char a mod 4 * 16 + of_char b div 16) mod 16 * 16 + of_char b mod 16 * 4 div 4 = (of_char b :: nat)"
    using parts [of b] by simp_all
  with * show ?case by (simp add: b64_char_facts)
next
  case (4 a b c r)
  have *: "of_char a div 4 < (64 :: nat)" "of_char a mod 4 * 16 + of_char b div 16 < (64 :: nat)"
    "of_char b mod 16 * 4 + of_char c div 64 < (64 :: nat)" "of_char c mod 64 < (64 :: nat)"
    using byte_bound [of a] byte_bound [of b] byte_bound [of c] by linarith+
  have "of_char a div 4 * 4 + (of_char a mod 4 * 16 + of_char b div 16) div 16 = (of_char a :: nat)"
    "(of_char a mod 4 * 16 + of_char b div 16) mod 16 * 16 + (of_char b mod 16 * 4 + of_char c div 64) div 4 = (of_char b :: nat)"
    "(of_char b mod 16 * 4 + of_char c div 64) mod 4 * 64 + of_char c mod 64 = (of_char c :: nat)"
    using parts [of b] parts [of c] by simp_all
  with * 4 show ?case by (simp add: b64_char_facts)
qed simp

interpretation ref_base64: base64_codec b64_ref
proof
  fix d
  show "b64_decode b64_ref (b64_encode b64_ref d) = Some d" by (simp add: b64_ref_def b64_ref_decode)
  show "length (b64_encode b64_ref d) = 4 * ((length d + 2) div 3)"
    unfolding b64_ref_def
  proof (induction d rule: b64_encode_ref.induct)
    case (4 a b c r)
    have "(length (a # b # c # r) + 2) div 3 = Suc ((length r + 2) div 3)" by simp
    with 4 show ?case by (simp only: b64_api.simps b64_encode_ref.simps length_append) simp
  qed simp_all
  have "b64_byte (b64_char n)" for n using b64_char_facts(2) [of "n mod 64"] by (simp add: b64_char_def)
  then show "list_all b64_byte (b64_encode b64_ref d)"
    unfolding b64_ref_def by (induction d rule: b64_encode_ref.induct) (auto simp: b64_byte_def)
qed

section \<open>Properties\<close>

text \<open>
  C38: metadata values survive. Every string within the size limit is encoded; when the encoding is within the limit of the
  decoder, a string that needed encoding is decoded to itself, however many encoded words it took and wherever its
  characters fall, and so is one that is sent as it is, unless it has white space at its ends or looks like an encoded word.
\<close>

theorem rfc2047_roundtrip:
  assumes "base64_codec B" and "is_utf8 s" and "length s \<le> MAX_INPUT_LEN"
  shows "\<exists>out. encode B s = Inr out
    \<and> (length out \<le> MAX_INPUT_LEN \<longrightarrow> \<not> is_ascii_header_safe s \<or> str_trim s = s \<and> \<not> looks_encoded s \<longrightarrow> decode B out = Inr s)"
proof (cases "is_ascii_header_safe s")
  case True
  then have "encode B s = Inr s" using assms(3) by (simp add: encode_def)
  then show ?thesis using True assms(3) by (simp add: decode_def)
next
  case False
  then have "s \<noteq> []" by (auto simp: is_ascii_header_safe_def)
  with False base64_codec.encode_words [OF assms(1,2,3)] base64_codec.decode_encode_words [OF assms(1,2)] show ?thesis by metis
qed

text \<open>
  C39: the limit on encoded words. An encoded word is at most 75 characters long, as RFC 2047 and the comment of the code demand,
  except for texts of 46 and 47 bytes: their length is estimated without the padding of base64, and they become
  one word of 76 characters.
\<close>

theorem rfc2047_word_limit:
  assumes "base64_codec B" and "is_utf8 s" and "\<not> is_ascii_header_safe s" and "encode B s = Inr out"
  shows "(\<forall>w\<in>set (split_whitespace out). length w \<le> (if length s = 46 \<or> length s = 47 then 76 else 75))
    \<and> ((length s = 46 \<or> length s = 47) \<longrightarrow> map length (split_whitespace out) = [76])"
proof -
  have "length s \<le> MAX_INPUT_LEN" using assms(4) by (auto simp: encode_def split: if_splits)
  from base64_codec.encode_words [OF assms(1,2) this assms(3)] obtain cs where cs:
    "encode B s = Inr (intersperse_join [SP] (map (encoded_word B) cs))"
    "if length s \<le> 47 then cs = [s] else list_all (\<lambda>c. length c \<le> 45) cs" by blast
  then have words: "split_whitespace out = map (encoded_word B) cs"
    using assms(4) base64_codec.split_encoded [OF assms(1)] by simp
  note len = base64_codec.encoded_word_length [OF assms(1)]
  show ?thesis
  proof (cases "length s \<le> 47")
    case True
    have "length s \<le> 45 \<Longrightarrow> 4 * ((length s + 2) div 3) \<le> 60" using div_le_mono [of "length s + 2" 47 3] by simp
    with True cs(2) words show ?thesis by (auto simp: len)
  next
    case False
    have "length c \<le> 45 \<Longrightarrow> 4 * ((length c + 2) div 3) \<le> 60" for c :: bytes
      using div_le_mono [of "length c + 2" 47 3] by simp
    with False cs(2) words show ?thesis by (fastforce simp: len list_all_iff)
  qed
qed

text \<open>A value in which a control character makes an encoding necessary.\<close>

lemma long_value: "is_utf8 (LF # replicate n (CHR ''a''))" "\<not> is_ascii_header_safe (LF # replicate n (CHR ''a''))"
proof -
  have "list_all (byte_in 0 127) (replicate n (CHR ''a''))" by (simp add: list_all_iff byte_in_def)
  then show "is_utf8 (LF # replicate n (CHR ''a''))" by (intro is_utf8_ascii) (simp add: byte_in_def)
qed (simp add: is_ascii_header_safe_def byte_in_def)

theorem rfc2047_word_limit_witness:
  "\<exists>out. encode b64_ref (LF # replicate 45 (CHR ''a'')) = Inr out \<and> map length (split_whitespace out) = [76]"
proof -
  have "length (LF # replicate 45 (CHR ''a'')) \<le> MAX_INPUT_LEN" by (simp add: MAX_INPUT_LEN_def)
  from ref_base64.encode_words [OF long_value(1) this long_value(2)] obtain out where
    out: "encode b64_ref (LF # replicate 45 (CHR ''a'')) = Inr out" by blast
  from rfc2047_word_limit [OF ref_base64.base64_codec_axioms long_value out] have "map length (split_whitespace out) = [76]" by simp
  with out show ?thesis by (intro exI [of _ out] conjI)
qed

theorem rfc2047_roundtrip_witness:
  "encode b64_ref (LF # replicate 2 (CHR ''a'')) = Inr ''=?UTF-8?B?CmFh?=''
   \<and> decode b64_ref ''=?UTF-8?B?CmFh?='' = Inr (LF # replicate 2 (CHR ''a''))"
proof -
  have "b64_encode_ref (LF # replicate 2 (CHR ''a'')) = ''CmFh''" by code_simp
  then have e: "encode b64_ref (LF # replicate 2 (CHR ''a'')) = Inr ''=?UTF-8?B?CmFh?=''"
    using long_value(2) [of 2]
    by (simp add: encode_def encoded_word_def b64_ref_def PREFIX_def SUFFIX_def MAX_INPUT_LEN_def MAX_ENCODED_WORD_LEN_def)
  have "length (LF # replicate 2 (CHR ''a'')) \<le> MAX_INPUT_LEN" by (simp add: MAX_INPUT_LEN_def)
  from rfc2047_roundtrip [OF ref_base64.base64_codec_axioms long_value(1) [of 2] this] e long_value(2) [of 2]
  show ?thesis by (simp add: MAX_INPUT_LEN_def)
qed

text \<open>The text of an encoded word is sent as it is, and is read back decoded.\<close>

lemma encoded_looking_value_changed:
  "encode B ''=?x?Q?a?='' = Inr ''=?x?Q?a?=''" "decode B ''=?x?Q?a?='' = Inr ''a''"
proof -
  show "encode B ''=?x?Q?a?='' = Inr ''=?x?Q?a?=''" by (simp add: encode_def MAX_INPUT_LEN_def is_ascii_header_safe_def byte_in_def)
  have wb: "list_all word_byte ''=?x?Q?a?=''" by (simp add: word_byte_def byte_in_def)
  then have "str_trim ''=?x?Q?a?='' = ''=?x?Q?a?=''" "split_whitespace ''=?x?Q?a?='' = [''=?x?Q?a?='']"
    using split_words_word [of "''=?x?Q?a?=''" "[]"] by (auto intro: str_trim_word simp: split_whitespace_def)
  moreover have "looks_encoded ''=?x?Q?a?=''" "suffix ''?='' ''x?Q?a?=''" by (simp_all add: looks_encoded_def suffix_def)
  ultimately show "decode B ''=?x?Q?a?='' = Inr ''a''"
    by (simp add: decode_def decode_single_word_def MAX_INPUT_LEN_def Let_def strip_prefix_def strip_suffix_def split_once_def
        eq_ignore_ascii_case_def to_ascii_lowercase_def ascii_defs byte_in_def)
qed

end
