(* ===== verification/Copy_Source.thy ===== *)
theory Copy_Source
  imports S3_Path
begin

text \<open>
  The header \<^verbatim>\<open>x-amz-copy-source\<close> (s3s/src/dto/copy_source.rs): a bucket and key, or the ARN of an object behind an access point or an outpost,
  with an optional version. The crate \<^verbatim>\<open>urlencoding\<close> is a parameter with a contract.
\<close>

record url_api =
  url_encode :: "bytes \<Rightarrow> bytes"
  url_decode :: "bytes \<Rightarrow> bytes option"

datatype copy_source =
    CopyBucket bytes bytes "bytes option"
  | CopyAccessPoint bytes bytes bytes bytes bytes "bytes option"
  | CopyOutpost bytes bytes bytes bytes bytes "bytes option"

datatype copy_source_error =
    PatternMismatch | CopyInvalidBucketName | CopyInvalidKey | InvalidEncoding | InvalidArn | InvalidAccessPointName | InvalidAccountId

text \<open>\<^verbatim>\<open>str::split_once\<close> at a text and \<^verbatim>\<open>str::splitn\<close> at a character.\<close>

definition split_once_str :: "bytes \<Rightarrow> bytes \<Rightarrow> (bytes \<times> bytes) option" where
  "split_once_str sep s = map_option (\<lambda>i. (take i s, drop (i + length sep) s)) (find_sub s sep)"

fun splitn :: "nat \<Rightarrow> byte \<Rightarrow> bytes \<Rightarrow> bytes list" where
  "splitn 0 c s = []"
| "splitn (Suc 0) c s = [s]"
| "splitn (Suc (Suc n)) c s = (case split_once c s of None \<Rightarrow> [s] | Some (a, b) \<Rightarrow> a # splitn (Suc n) c b)"

definition VERSION_ID :: bytes where "VERSION_ID = ''?versionId=''"

definition extract_version_id :: "url_api \<Rightarrow> bytes \<Rightarrow> copy_source_error + bytes \<times> bytes option" where
  "extract_version_id U header =
     (case find_sub header VERSION_ID of
        Some idx \<Rightarrow>
          (case strip_prefix VERSION_ID (drop idx header) of
             None \<Rightarrow> Inr (take idx header, None)
           | Some raw \<Rightarrow> (case url_decode U raw of None \<Rightarrow> Inl InvalidEncoding | Some v \<Rightarrow> Inr (take idx header, Some v)))
      | None \<Rightarrow> Inr (header, None))"

definition check_access_point_name :: "bytes \<Rightarrow> bool" where
  "check_access_point_name name =
     (if \<not> (3 \<le> length name \<and> length name \<le> 63) then False
      else if \<not> list_all (\<lambda>b. is_ascii_lowercase b \<or> is_ascii_digit b \<or> b = CHR ''-'') name then False
      else if \<not> (is_ascii_lowercase (hd name) \<or> is_ascii_digit (hd name)) then False
      else if \<not> (is_ascii_lowercase (last name) \<or> is_ascii_digit (last name)) then False
      else if find_sub name ''--'' \<noteq> None then False
      else True)"

definition check_account_id :: "bytes \<Rightarrow> bool" where
  "check_account_id ident \<longleftrightarrow> length ident = 12 \<and> list_all is_ascii_digit ident"

definition encode_path :: "url_api \<Rightarrow> bytes \<Rightarrow> bytes" where
  "encode_path U s = intersperse_join ''/'' (map (url_encode U) (split_on (CHR ''/'') s))"

definition parse_access_point_resource ::
  "bytes \<Rightarrow> bytes \<Rightarrow> bytes \<Rightarrow> bytes \<Rightarrow> bytes option \<Rightarrow> copy_source_error + copy_source" where
  "parse_access_point_resource resource partn reg account_id version_id =
     (case strip_prefix ''accesspoint/'' resource of
        None \<Rightarrow> Inl InvalidArn
      | Some rest \<Rightarrow>
          (case split_once_str ''/object/'' rest of
             None \<Rightarrow> Inl InvalidArn
           | Some (name, key) \<Rightarrow>
               (if \<not> check_access_point_name name then Inl InvalidAccessPointName
                else if key = [] \<or> \<not> check_key key then Inl CopyInvalidKey
                else Inr (CopyAccessPoint partn reg account_id name key version_id))))"

definition parse_outpost_resource ::
  "bytes \<Rightarrow> bytes \<Rightarrow> bytes \<Rightarrow> bytes \<Rightarrow> bytes option \<Rightarrow> copy_source_error + copy_source" where
  "parse_outpost_resource resource partn reg account_id version_id =
     (case strip_prefix ''outpost/'' resource of
        None \<Rightarrow> Inl InvalidArn
      | Some rest \<Rightarrow>
          (case split_once_str ''/object/'' rest of
             None \<Rightarrow> Inl InvalidArn
           | Some (outpost_id, key) \<Rightarrow>
               (if outpost_id = [] then Inl InvalidArn
                else if key = [] \<or> \<not> check_key key then Inl CopyInvalidKey
                else Inr (CopyOutpost partn reg account_id outpost_id key version_id))))"

definition parse_arn :: "bytes \<Rightarrow> bytes option \<Rightarrow> copy_source_error + copy_source" where
  "parse_arn arn version_id =
     (case splitn 6 (CHR '':'') arn of
        [a, partn, service, reg, account_id, resource] \<Rightarrow>
          (if a \<noteq> ''arn'' then Inl InvalidArn
           else if partn \<notin> {''aws'', ''aws-cn'', ''aws-us-gov''} then Inl InvalidArn
           else if reg = [] then Inl InvalidArn
           else if \<not> check_account_id account_id then Inl InvalidAccountId
           else if service = ''s3'' then parse_access_point_resource resource partn reg account_id version_id
           else if service = ''s3-outposts'' then parse_outpost_resource resource partn reg account_id version_id
           else Inl InvalidArn)
      | _ \<Rightarrow> Inl InvalidArn)"

definition CopySource_parse :: "url_api \<Rightarrow> bytes \<Rightarrow> copy_source_error + copy_source" where
  "CopySource_parse U header =
     (case extract_version_id U header of
        Inl e \<Rightarrow> Inl e
      | Inr (path_part, version_id) \<Rightarrow>
          (case url_decode U path_part of
             None \<Rightarrow> Inl InvalidEncoding
           | Some dec \<Rightarrow>
               (let decoded = (case strip_prefix ''/'' dec of Some d \<Rightarrow> d | None \<Rightarrow> dec) in
                if prefix ''arn:'' decoded then parse_arn decoded version_id
                else (case split_once (CHR ''/'') decoded of
                    None \<Rightarrow> Inl PatternMismatch
                  | Some (bucket, key) \<Rightarrow>
                      (if \<not> check_bucket_name bucket then Inl CopyInvalidBucketName
                       else if \<not> check_key key then Inl CopyInvalidKey
                       else Inr (CopyBucket bucket key version_id))))))"

definition version_suffix :: "url_api \<Rightarrow> bytes option \<Rightarrow> bytes" where
  "version_suffix U version_id = (case version_id of Some v \<Rightarrow> VERSION_ID @ url_encode U v | None \<Rightarrow> [])"

fun format_to_string :: "url_api \<Rightarrow> copy_source \<Rightarrow> bytes" where
  "format_to_string U (CopyBucket bucket key version_id) = bucket @ ''/'' @ encode_path U key @ version_suffix U version_id"
| "format_to_string U (CopyAccessPoint partn reg account_id access_point_name key version_id) =
     ''arn:'' @ partn @ '':s3:'' @ reg @ '':'' @ account_id @ '':accesspoint/'' @ access_point_name @ ''/object/''
     @ encode_path U key @ version_suffix U version_id"
| "format_to_string U (CopyOutpost partn reg account_id outpost_id key version_id) =
     ''arn:'' @ partn @ '':s3-outposts:'' @ reg @ '':'' @ account_id @ '':outpost/'' @ outpost_id @ ''/object/''
     @ encode_path U key @ version_suffix U version_id"

definition CopySource_try_from_header_value :: "url_api \<Rightarrow> (bytes \<Rightarrow> bytes option) \<Rightarrow> bytes \<Rightarrow> copy_source_error + copy_source" where
  "CopySource_try_from_header_value U to_str val =
     (case to_str val of None \<Rightarrow> Inl InvalidEncoding | Some header \<Rightarrow> CopySource_parse U header)"

section \<open>The contract of the crate\<close>

definition unreserved :: "byte \<Rightarrow> bool" where
  "unreserved b \<longleftrightarrow> is_ascii_alphanumeric b \<or> b \<in> {CHR ''-'', CHR ''_'', CHR ''.'', CHR ''~''}"

definition hex_upper :: "nat \<Rightarrow> byte" where
  "hex_upper n = char_of (if n < 10 then 48 + n else 55 + n)"

definition percent :: "byte \<Rightarrow> bytes" where
  "percent b = [CHR ''%'', hex_upper (of_char b div 16), hex_upper (of_char b mod 16)]"

text \<open>A byte as it may stand in an encoded text: itself, or its code.\<close>

definition stands_for :: "bytes \<Rightarrow> byte \<Rightarrow> bool" where
  "stands_for p b \<longleftrightarrow> p = percent b \<or> p = [b] \<and> b \<noteq> CHR ''%''"

locale url_codec =
  fixes U :: url_api
  assumes encode_bytes: "url_encode U s = concat (map (\<lambda>b. if unreserved b then [b] else percent b) s)"
    and decode_pieces: "list_all2 stands_for ps s \<Longrightarrow> is_utf8 s \<Longrightarrow> url_decode U (concat ps) = Some s"
begin

definition path_byte :: "byte \<Rightarrow> bytes" where
  "path_byte b = (if b = CHR ''/'' \<or> unreserved b then [b] else percent b)"

lemma encode_path_bytes: "encode_path U s = concat (map path_byte s)"
proof (induction s)
  case Nil
  then show ?case by (simp add: encode_path_def encode_bytes)
next
  case (Cons x s)
  obtain y ys where y: "split_on (CHR ''/'') s = y # ys" by (cases "split_on (CHR ''/'') s") auto
  have "encode_path U (x # s) = path_byte x @ encode_path U s"
    using y by (cases ys) (auto simp: encode_path_def encode_bytes path_byte_def)
  with Cons show ?case by simp
qed

lemma path_byte_stands: "list_all2 stands_for (map path_byte s) s"
  by (induction s) (auto simp: path_byte_def stands_for_def unreserved_def ascii_defs)

lemma decode_plain_path:
  assumes "list_all (\<lambda>b. b \<noteq> CHR ''%'') a" "is_utf8 (a @ s)"
  shows "url_decode U (a @ encode_path U s) = Some (a @ s)"
proof -
  have "list_all2 stands_for (map (\<lambda>b. [b]) a) a" using assms(1) by (induction a) (auto simp: stands_for_def)
  then have "list_all2 stands_for (map (\<lambda>b. [b]) a @ map path_byte s) (a @ s)"
    using path_byte_stands by (intro list_all2_appendI) auto
  moreover have "concat (map (\<lambda>b. [b]) a) = a" by (induction a) auto
  ultimately show ?thesis using decode_pieces assms(2) by (fastforce simp: encode_path_bytes)
qed

lemma url_decode_encoded: "is_utf8 s \<Longrightarrow> url_decode U (url_encode U s) = Some s"
proof -
  assume s: "is_utf8 s"
  have "list_all2 stands_for (map (\<lambda>b. if unreserved b then [b] else percent b) s) s"
    by (induction s) (auto simp: stands_for_def unreserved_def ascii_defs)
  then show ?thesis unfolding encode_bytes using decode_pieces s by blast
qed

lemma no_mark: "CHR ''?'' \<notin> set (encode_path U s)"
proof -
  have hex: "hex_upper n \<noteq> CHR ''?''" if "n < 16" for n
  proof
    assume "hex_upper n = CHR ''?''"
    then have "of_char (hex_upper n) = (63 :: nat)" by simp
    then show False using that by (simp add: hex_upper_def split: if_splits)
  qed
  have "CHR ''?'' \<notin> set (path_byte b)" for b
  proof -
    have "of_char b < (256 :: nat)" by simp
    then have "of_char b div 16 < (16 :: nat)" by linarith
    then show ?thesis using hex [of "of_char b div 16"] hex [of "of_char b mod 16"]
      by (auto simp: path_byte_def percent_def unreserved_def ascii_defs dest!: sym [of "CHR ''?''"])
  qed
  then show ?thesis by (auto simp: encode_path_bytes)
qed

lemma find_mark: "CHR ''?'' \<notin> set h \<Longrightarrow> find_sub (h @ VERSION_ID @ t) VERSION_ID = Some (length h)"
  by (induction h) (auto simp: VERSION_ID_def)

lemma find_no_mark: "CHR ''?'' \<notin> set h \<Longrightarrow> find_sub h VERSION_ID = None"
  by (induction h) (auto simp: VERSION_ID_def)

lemma extract_version:
  assumes "CHR ''?'' \<notin> set h" "case v of Some x \<Rightarrow> is_utf8 x | None \<Rightarrow> True"
  shows "extract_version_id U (h @ version_suffix U v) = Inr (h, v)"
  using assms by (cases v) (simp_all add: extract_version_id_def version_suffix_def find_mark find_no_mark url_decode_encoded)

lemma parse_formatted:
  assumes "list_all (\<lambda>b. b \<noteq> CHR ''%'' \<and> b \<noteq> CHR ''?'') a" "is_utf8 (a @ k)" "case v of Some x \<Rightarrow> is_utf8 x | None \<Rightarrow> True"
    and "a \<noteq> []" "hd a \<noteq> CHR ''/''"
  shows "CopySource_parse U (a @ encode_path U k @ version_suffix U v) =
    (if prefix ''arn:'' (a @ k) then parse_arn (a @ k) v
     else (case split_once (CHR ''/'') (a @ k) of
         None \<Rightarrow> Inl PatternMismatch
       | Some (bucket, key) \<Rightarrow>
           (if \<not> check_bucket_name bucket then Inl CopyInvalidBucketName
            else if \<not> check_key key then Inl CopyInvalidKey
            else Inr (CopyBucket bucket key v))))"
proof -
  have "CHR ''?'' \<notin> set (a @ encode_path U k)" using assms(1) no_mark by (auto simp: list_all_iff)
  from extract_version [OF this assms(3)] have "extract_version_id U (a @ encode_path U k @ version_suffix U v) = Inr (a @ encode_path U k, v)"
    by simp
  moreover have "url_decode U (a @ encode_path U k) = Some (a @ k)"
    using assms(1,2) by (intro decode_plain_path) (auto simp: list_all_iff)
  moreover have "strip_prefix ''/'' (a @ k) = None" using assms(4,5) by (cases a) (auto simp: strip_prefix_None)
  ultimately show ?thesis by (simp add: CopySource_parse_def)
qed

end

section \<open>Properties\<close>

definition version_ok :: "bytes option \<Rightarrow> bool" where
  "version_ok v = (case v of Some x \<Rightarrow> is_utf8 x | None \<Rightarrow> True)"

definition arn_ok :: "bytes \<Rightarrow> bytes \<Rightarrow> bytes \<Rightarrow> bytes \<Rightarrow> bytes option \<Rightarrow> bool" where
  "arn_ok partn reg account_id key v \<longleftrightarrow>
     partn \<in> {''aws'', ''aws-cn'', ''aws-us-gov''} \<and> reg \<noteq> [] \<and> list_all unreserved reg \<and> check_account_id account_id
     \<and> key \<noteq> [] \<and> check_key key \<and> is_utf8 key \<and> version_ok v"

fun copy_source_ok :: "copy_source \<Rightarrow> bool" where
  "copy_source_ok (CopyBucket bucket key v) \<longleftrightarrow> check_bucket_name bucket \<and> check_key key \<and> is_utf8 key \<and> version_ok v"
| "copy_source_ok (CopyAccessPoint partn reg account_id name key v) \<longleftrightarrow>
     arn_ok partn reg account_id key v \<and> check_access_point_name name"
| "copy_source_ok (CopyOutpost partn reg account_id outpost_id key v) \<longleftrightarrow>
     arn_ok partn reg account_id key v \<and> outpost_id \<noteq> [] \<and> list_all unreserved outpost_id"

lemma utf8_append_ascii: "list_all (byte_in 0 127) a \<Longrightarrow> is_utf8 (a @ b) = is_utf8 b"
  by (induction a) auto

lemma plain_bytes:
  "unreserved b \<Longrightarrow> byte_in 0 127 b \<and> b \<notin> {CHR ''%'', CHR ''?'', CHR '':'', CHR ''/''}"
  "bucket_char b \<Longrightarrow> unreserved b" "is_ascii_digit b \<Longrightarrow> unreserved b"
  by (auto simp: unreserved_def bucket_char_def byte_in_def ascii_defs)

lemma access_point_name_plain: "check_access_point_name name \<Longrightarrow> list_all unreserved name"
  by (auto simp: check_access_point_name_def list_all_iff unreserved_def ascii_defs split: if_splits)

lemma plain_text:
  assumes "list_all unreserved s"
  shows "list_all (byte_in 0 127) s" "list_all (\<lambda>b. b \<noteq> CHR ''%'' \<and> b \<noteq> CHR ''?'') s" "CHR '':'' \<notin> set s" "CHR ''/'' \<notin> set s"
  using assms plain_bytes(1) by (fastforce simp: list_all_iff)+

lemma split_object: "CHR ''/'' \<notin> set n \<Longrightarrow> split_once_str ''/object/'' (n @ ''/object/'' @ k) = Some (n, k)"
proof -
  assume n: "CHR ''/'' \<notin> set n"
  have "find_sub (n @ ''/object/'' @ k) ''/object/'' = Some (length n)" using n by (induction n) auto
  then show ?thesis by (simp add: split_once_str_def)
qed

lemma splitn_part: "c \<notin> set a \<Longrightarrow> splitn (Suc (Suc n)) c (a @ c # b) = a # splitn (Suc n) c b"
  by (simp add: split_once_Some [of c "a @ c # b" a b, THEN iffD2])

lemma parse_arn_parts:
  assumes "CHR '':'' \<notin> set p" "CHR '':'' \<notin> set sv" "CHR '':'' \<notin> set r" "CHR '':'' \<notin> set acc"
  shows "splitn 6 (CHR '':'') (''arn:'' @ p @ '':'' @ sv @ '':'' @ r @ '':'' @ acc @ '':'' @ res) = [''arn'', p, sv, r, acc, res]"
proof -
  have colon: "CHR '':'' \<notin> set ''arn''" by simp
  have six: "6 = Suc (Suc (Suc (Suc (Suc (Suc 0)))))" by simp
  have "splitn 6 (CHR '':'') (''arn'' @ CHR '':'' # p @ CHR '':'' # sv @ CHR '':'' # r @ CHR '':'' # acc @ CHR '':'' # res) = [''arn'', p, sv, r, acc, res]"
    using assms colon unfolding six by (simp only: splitn_part splitn.simps(2) not_False_eq_True)
  then show ?thesis by simp
qed

lemma parse_arn_formatted:
  assumes "arn_ok p r acc k v" "sv = ''s3'' \<or> sv = ''s3-outposts''"
  shows "parse_arn (''arn:'' @ p @ '':'' @ sv @ '':'' @ r @ '':'' @ acc @ '':'' @ res) v =
    (if sv = ''s3'' then parse_access_point_resource res p r acc v else parse_outpost_resource res p r acc v)"
proof -
  have "list_all unreserved acc" using assms(1) plain_bytes(3) by (auto simp: arn_ok_def check_account_id_def list_all_iff)
  then have "CHR '':'' \<notin> set p" "CHR '':'' \<notin> set sv" "CHR '':'' \<notin> set r" "CHR '':'' \<notin> set acc"
    using assms plain_text(3) by (auto simp: arn_ok_def)
  from parse_arn_parts [OF this, of res] show ?thesis using assms by (auto simp: parse_arn_def arn_ok_def)
qed

lemma arn_head:
  assumes "arn_ok p r acc k v" "sv = ''s3'' \<or> sv = ''s3-outposts''" "list_all unreserved n" "kd = '':accesspoint/'' \<or> kd = '':outpost/''"
  defines "a \<equiv> ''arn:'' @ p @ '':'' @ sv @ '':'' @ r @ '':'' @ acc @ kd @ n @ ''/object/''"
  shows "list_all (\<lambda>b. b \<noteq> CHR ''%'' \<and> b \<noteq> CHR ''?'') a" "is_utf8 (a @ k)"
proof -
  have acc: "list_all unreserved acc" using assms(1) plain_bytes(3) by (auto simp: arn_ok_def check_account_id_def list_all_iff)
  have r: "list_all unreserved r" using assms(1) by (simp add: arn_ok_def)
  have p: "list_all unreserved p" "list_all unreserved sv" using assms(1,2) by (auto simp: arn_ok_def unreserved_def ascii_defs)
  show "list_all (\<lambda>b. b \<noteq> CHR ''%'' \<and> b \<noteq> CHR ''?'') a"
    using plain_text(2) [OF acc] plain_text(2) [OF r] plain_text(2) [OF p(1)] plain_text(2) [OF p(2)] plain_text(2) [OF assms(3)] assms(4)
    by (auto simp: a_def)
  have "list_all (byte_in 0 127) a"
    using plain_text(1) [OF acc] plain_text(1) [OF r] plain_text(1) [OF p(1)] plain_text(1) [OF p(2)] plain_text(1) [OF assms(3)] assms(4)
    by (auto simp: a_def byte_in_def)
  then show "is_utf8 (a @ k)" using assms(1) by (simp add: utf8_append_ascii arn_ok_def)
qed

lemma bucket_not_arn: "check_bucket_name b \<Longrightarrow> \<not> prefix ''arn:'' (b @ CHR ''/'' # k)"
proof
  assume b: "check_bucket_name b" and p: "prefix ''arn:'' (b @ CHR ''/'' # k)"
  from b have "3 \<le> length b" "CHR '':'' \<notin> set b" using plain_bytes
    by (auto simp: check_bucket_name_iff list_all_iff)
  then obtain x y z t where "b = x # y # z # t" by (metis Suc_le_length_iff numeral_3_eq_3)
  with p \<open>CHR '':'' \<notin> set b\<close> show False by (cases t) auto
qed


text \<open>Percent decoding as the crate documents it: a sign that is not followed by two digits stays.\<close>

definition hex_value :: "byte \<Rightarrow> nat option" where
  "hex_value b =
     (if is_ascii_digit b then Some (of_char b - 48)
      else if byte_in 0x61 0x66 b then Some (of_char b - 87)
      else if byte_in 0x41 0x46 b then Some (of_char b - 55) else None)"

fun percent_decode :: "bytes \<Rightarrow> bytes" where
  "percent_decode [] = []"
| "percent_decode (c # r) =
     (if c = CHR ''%'' then
        (case r of
           a # b # t \<Rightarrow>
             (case (hex_value a, hex_value b) of
                (Some x, Some y) \<Rightarrow> char_of (16 * x + y) # percent_decode t
              | _ \<Rightarrow> c # percent_decode r)
         | _ \<Rightarrow> c # percent_decode r)
      else c # percent_decode r)"

definition url_ref :: url_api where
  "url_ref =
     \<lparr>url_encode = (\<lambda>s. concat (map (\<lambda>b. if unreserved b then [b] else percent b) s)),
      url_decode = (\<lambda>s. if is_utf8 (percent_decode s) then Some (percent_decode s) else None)\<rparr>"

lemma hex_value_upper: "n < 16 \<Longrightarrow> hex_value (hex_upper n) = Some n"
proof -
  assume n: "n < 16"
  then have "of_char (hex_upper n) = (if n < 10 then 48 + n else 55 + n)" by (simp add: hex_upper_def)
  with n show ?thesis by (simp add: hex_value_def is_ascii_digit_def byte_in_def)
qed

lemma percent_decode_percent: "percent_decode (percent b @ t) = b # percent_decode t"
proof -
  have "of_char b < (256 :: nat)" by simp
  then have "of_char b div 16 < (16 :: nat)" by linarith
  then show ?thesis by (simp add: percent_def hex_value_upper)
qed

interpretation ref_url: url_codec url_ref
proof
  fix ps s
  assume "list_all2 stands_for ps s" "is_utf8 s"
  moreover from this(1) have "percent_decode (concat ps) = s"
  proof (induction rule: list_all2_induct)
    case (Cons p ps b s)
    then show ?case by (auto simp: stands_for_def percent_decode_percent simp del: percent_decode.simps(2)) simp
  qed simp
  ultimately show "url_decode url_ref (concat ps) = Some s" by (simp add: url_ref_def)
qed (simp add: url_ref_def)


end
