(* ===== verification/Http_De.thy ===== *)
theory Http_De
  imports Prepare Xml_Types Http_Range Rfc2047 Copy_Source
begin

text \<open>
  From a prepared request to the input of its operation (s3s/src/http/de.rs): the readers of headers, query parameters, form fields and
  bodies. An outer \<open>None\<close> is a panic of the code: a path or a full body that is not there.
\<close>

section \<open>Values\<close>

text \<open>The types that a header, a query parameter or a field can have. String enums accept every string.\<close>

datatype htype = HString | HBool | HInt nat | HETag | HETagCondition | HRange | HCopySource

datatype hval =
    HvString bytes
  | HvBool bool
  | HvInt int
  | HvETag etag
  | HvCondition etag_condition
  | HvRange range
  | HvCopySource copy_source
  | HvTime offset_date_time
  | HvList "hval list"
  | HvMap "(bytes \<times> bytes) list"
  | HvXml xval
  | HvBody http_body
  | HvStream post_stream
  | HvPolicy post_policy

text \<open>The crates: the ones of the preparation, XML with its tokenizer, the number parsers, base64 and percent encoding.\<close>

record http_env =
  he_prep :: prep_env
  he_xml :: xml_env
  he_tokens :: "bytes \<Rightarrow> (unit + xml_event) list"
  he_range :: atoi_api
  he_b64 :: b64_api
  he_url :: url_api

fun try_from_header_value :: "http_env \<Rightarrow> htype \<Rightarrow> bytes \<Rightarrow> hval option" where
  "try_from_header_value E HString val = map_option HvString (pe_to_str (he_prep E) val)"
| "try_from_header_value E HBool val =
     (if val = ''true'' \<or> val = ''True'' then Some (HvBool True)
      else if val = ''false'' \<or> val = ''False'' then Some (HvBool False) else None)"
| "try_from_header_value E (HInt bits) val = map_option HvInt (int_parse (he_xml E) bits val)"
| "try_from_header_value E HETag val = (case etag_parse_http_header val of Inl _ \<Rightarrow> None | Inr t \<Rightarrow> Some (HvETag t))"
| "try_from_header_value E HETagCondition val = (case condition_parse_http_header val of Inl _ \<Rightarrow> None | Inr c \<Rightarrow> Some (HvCondition c))"
| "try_from_header_value E HRange val =
     (case from_ascii val of
        None \<Rightarrow> None
      | Some header \<Rightarrow> (case Range_parse (he_range E) header of Inl _ \<Rightarrow> None | Inr r \<Rightarrow> Some (HvRange r)))"
| "try_from_header_value E HCopySource val =
     (case CopySource_try_from_header_value (he_url E) (pe_to_str (he_prep E)) val of Inl _ \<Rightarrow> None | Inr c \<Rightarrow> Some (HvCopySource c))"

text \<open>\<^verbatim>\<open>str::parse\<close> of the types.\<close>

fun value_from_str :: "htype \<Rightarrow> bytes \<Rightarrow> hval option" where
  "value_from_str HString s = Some (HvString s)"
| "value_from_str HBool s = (if s = ''true'' then Some (HvBool True) else if s = ''false'' then Some (HvBool False) else None)"
| "value_from_str (HInt bits) s = map_option HvInt (int_from_str bits s)"
| "value_from_str HETagCondition s = (case condition_parse_http_header s of Inl _ \<Rightarrow> None | Inr c \<Rightarrow> Some (HvCondition c))"
| "value_from_str HETag s = (case etag_parse_http_header s of Inl _ \<Rightarrow> None | Inr t \<Rightarrow> Some (HvETag t))"
| "value_from_str _ s = None"

section \<open>Headers\<close>

definition get_required_header :: "header_map \<Rightarrow> bytes \<Rightarrow> bytes s3_result" where
  "get_required_header m name =
     (case header_get_all m name of
        [] \<Rightarrow> Inl InvalidRequest
      | [val] \<Rightarrow> if val = [] then Inl InvalidRequest else Inr val
      | _ # _ # _ \<Rightarrow> Inl InvalidRequest)"

definition get_optional_header :: "header_map \<Rightarrow> bytes \<Rightarrow> bytes option s3_result" where
  "get_optional_header m name =
     (case header_get_all m name of
        [] \<Rightarrow> Inr None
      | [val] \<Rightarrow> Inr (if val = [] then None else Some val)
      | _ # _ # _ \<Rightarrow> Inl InvalidRequest)"

definition parse_header :: "http_env \<Rightarrow> header_map \<Rightarrow> bytes \<Rightarrow> htype \<Rightarrow> hval s3_result" where
  "parse_header E m name t = and_then (get_required_header m name) (\<lambda>val. ok_or (try_from_header_value E t val) InvalidArgument)"

definition parse_opt_header :: "http_env \<Rightarrow> header_map \<Rightarrow> bytes \<Rightarrow> htype \<Rightarrow> hval option s3_result" where
  "parse_opt_header E m name t =
     and_then (get_optional_header m name) (\<lambda>v. case v of
        None \<Rightarrow> Inr None
      | Some val \<Rightarrow> (case try_from_header_value E t val of Some ans \<Rightarrow> Inr (Some ans) | None \<Rightarrow> Inl InvalidArgument))"

definition CHECKSUM_TRAILERS :: "(bytes \<times> bytes) list" where
  "CHECKSUM_TRAILERS =
     [(''x-amz-checksum-crc32'', ''CRC32''), (''x-amz-checksum-crc32c'', ''CRC32C''), (''x-amz-checksum-sha1'', ''SHA1''),
      (''x-amz-checksum-sha256'', ''SHA256''), (''x-amz-checksum-crc64nvme'', ''CRC64NVME''), (''x-amz-checksum-sha512'', ''SHA512''),
      (''x-amz-checksum-md5'', ''MD5''), (''x-amz-checksum-xxhash64'', ''XXHASH64''), (''x-amz-checksum-xxhash3'', ''XXHASH3''),
      (''x-amz-checksum-xxhash128'', ''XXHASH128'')]"

fun checksum_of_trailers :: "bytes option \<Rightarrow> bytes list \<Rightarrow> bytes option s3_result" where
  "checksum_of_trailers ans [] = Inr ans"
| "checksum_of_trailers ans (trailer_field # rest) =
     (case find (\<lambda>(h, _). eq_ignore_ascii_case trailer_field h) CHECKSUM_TRAILERS of
        Some (_, v) \<Rightarrow> (case ans of Some _ \<Rightarrow> Inl InvalidArgument | None \<Rightarrow> checksum_of_trailers (Some v) rest)
      | None \<Rightarrow> checksum_of_trailers ans rest)"

definition parse_checksum_algorithm_header :: "http_env \<Rightarrow> header_map \<Rightarrow> hval option s3_result" where
  "parse_checksum_algorithm_header E m =
     and_then (parse_opt_header E m ''x-amz-checksum-algorithm'' HString) (\<lambda>ans.
       if ans \<noteq> None then Inr ans
       else and_then (get_optional_header m ''x-amz-trailer'') (\<lambda>v. case v of
           None \<Rightarrow> Inr None
         | Some trailer_value \<Rightarrow>
             and_then (ok_or (pe_to_str (he_prep E) trailer_value) InvalidArgument) (\<lambda>trailer.
               map_sum id (map_option HvString)
                 (checksum_of_trailers None (filter (\<lambda>n. n \<noteq> []) (map str_trim (split_on (CHR '','') trailer)))))))"

definition parse_opt_header_timestamp :: "http_env \<Rightarrow> header_map \<Rightarrow> bytes \<Rightarrow> ts_format \<Rightarrow> hval option s3_result" where
  "parse_opt_header_timestamp E m name fmt =
     and_then (get_optional_header m name) (\<lambda>v. case v of
        None \<Rightarrow> Inr None
      | Some val \<Rightarrow>
          and_then (ok_or (pe_to_str (he_prep E) val) InvalidArgument) (\<lambda>s.
            case Timestamp_parse (xml_time (he_xml E)) fmt s of Inr ans \<Rightarrow> Inr (Some (HvTime ans)) | Inl _ \<Rightarrow> Inl InvalidArgument))"

fun header_list :: "http_env \<Rightarrow> htype \<Rightarrow> bytes list \<Rightarrow> hval list s3_result" where
  "header_list E t [] = Inr []"
| "header_list E t (val # vals) =
     and_then (ok_or (try_from_header_value E t val) InvalidArgument) (\<lambda>ans. and_then (header_list E t vals) (\<lambda>l. Inr (ans # l)))"

definition parse_list_header :: "http_env \<Rightarrow> header_map \<Rightarrow> bytes \<Rightarrow> htype \<Rightarrow> hval s3_result" where
  "parse_list_header E m name t =
     and_then (header_list E t (header_get_all m name)) (\<lambda>l. if l = [] then Inl InvalidRequest else Inr (HvList l))"

definition parse_opt_list_header :: "http_env \<Rightarrow> header_map \<Rightarrow> bytes \<Rightarrow> htype \<Rightarrow> hval option s3_result" where
  "parse_opt_list_header E m name t =
     and_then (header_list E t (header_get_all m name)) (\<lambda>l. Inr (if l = [] then None else Some (HvList l)))"

text \<open>User metadata, a name at a time.\<close>

fun header_keys :: "header_map \<Rightarrow> bytes list" where
  "header_keys [] = []"
| "header_keys ((n, _) # m) = n # filter (\<lambda>k. k \<noteq> n) (header_keys m)"

fun collect_metadata :: "http_env \<Rightarrow> header_map \<Rightarrow> bytes list \<Rightarrow> (bytes \<times> bytes) list s3_result" where
  "collect_metadata E m [] = Inr []"
| "collect_metadata E m (name # names) =
     (case strip_prefix ''x-amz-meta-'' name of
        None \<Rightarrow> collect_metadata E m names
      | Some key \<Rightarrow>
          (if key = [] then collect_metadata E m names
           else (case header_get_all m name of
               [val] \<Rightarrow>
                 (if is_utf8 val then
                    (case decode (he_b64 E) val of
                       Inl _ \<Rightarrow> Inl InvalidArgument
                     | Inr v \<Rightarrow> and_then (collect_metadata E m names) (\<lambda>r. Inr ((key, v) # r)))
                  else Inl InvalidArgument)
             | _ \<Rightarrow> Inl InvalidRequest)))"

definition parse_opt_metadata :: "http_env \<Rightarrow> header_map \<Rightarrow> hval option s3_result" where
  "parse_opt_metadata E m =
     and_then (collect_metadata E m (header_keys m)) (\<lambda>md. Inr (if md = [] then None else Some (HvMap md)))"

section \<open>Query parameters\<close>

definition query_values :: "ordered_qs option \<Rightarrow> bytes \<Rightarrow> bytes list" where
  "query_values q name = (case q of None \<Rightarrow> [] | Some p \<Rightarrow> get_all p name)"

definition parse_query :: "ordered_qs option \<Rightarrow> bytes \<Rightarrow> htype \<Rightarrow> hval s3_result" where
  "parse_query q name t =
     (case query_values q name of
        [] \<Rightarrow> Inl InvalidRequest
      | [val] \<Rightarrow> ok_or (value_from_str t val) InvalidArgument
      | _ # _ # _ \<Rightarrow> Inl InvalidRequest)"

definition parse_opt_query :: "ordered_qs option \<Rightarrow> bytes \<Rightarrow> htype \<Rightarrow> hval option s3_result" where
  "parse_opt_query q name t =
     (case query_values q name of
        [] \<Rightarrow> Inr None
      | [val] \<Rightarrow> and_then (ok_or (value_from_str t val) InvalidArgument) (\<lambda>v. Inr (Some v))
      | _ # _ # _ \<Rightarrow> Inl InvalidRequest)"

definition parse_opt_query_timestamp :: "http_env \<Rightarrow> ordered_qs option \<Rightarrow> bytes \<Rightarrow> ts_format \<Rightarrow> hval option s3_result" where
  "parse_opt_query_timestamp E q name fmt =
     (case query_values q name of
        [] \<Rightarrow> Inr None
      | [val] \<Rightarrow> (case Timestamp_parse (xml_time (he_xml E)) fmt val of Inr v \<Rightarrow> Inr (Some (HvTime v)) | Inl _ \<Rightarrow> Inl InvalidArgument)
      | _ # _ # _ \<Rightarrow> Inl InvalidRequest)"

section \<open>Paths and bodies\<close>

definition take_path :: "'x request \<Rightarrow> s3_path option \<times> 'x request" where
  "take_path req = (ex_s3_path (rq_s3ext req), req\<lparr>rq_s3ext := (rq_s3ext req)\<lparr>ex_s3_path := None\<rparr>\<rparr>)"

definition unwrap_bucket :: "'x request \<Rightarrow> (bytes \<times> 'x request) option" where
  "unwrap_bucket req = (case take_path req of (Some (Bucket bucket), req1) \<Rightarrow> Some (bucket, req1) | _ \<Rightarrow> None)"

definition unwrap_object :: "'x request \<Rightarrow> ((bytes \<times> bytes) \<times> 'x request) option" where
  "unwrap_object req = (case take_path req of (Some (Object bucket key), req1) \<Rightarrow> Some ((bucket, key), req1) | _ \<Rightarrow> None)"

definition deserialize_xml :: "http_env \<Rightarrow> document \<Rightarrow> bytes \<Rightarrow> hval s3_result option" where
  "deserialize_xml E doc bs =
     (case de_document (he_xml E) doc (Deserializer_new (he_tokens E bs)) of
        (None, _) \<Rightarrow> None
      | (Some (Inl _), _) \<Rightarrow> Some (Inl MalformedXML)
      | (Some (Inr ans), d) \<Rightarrow>
          (case expect_eof d of
             (None, _) \<Rightarrow> None
           | (Some (Inl _), _) \<Rightarrow> Some (Inl MalformedXML)
           | (Some (Inr _), _) \<Rightarrow> Some (Inr (HvXml ans))))"

definition take_full_body :: "'x request \<Rightarrow> (bytes \<times> 'x request) option" where
  "take_full_body req =
     (case Body_take_bytes (rq_body req) of (Some bs, b) \<Rightarrow> Some (bs, req\<lparr>rq_body := b\<rparr>) | (None, _) \<Rightarrow> None)"

definition take_xml_body :: "http_env \<Rightarrow> document \<Rightarrow> 'x request \<Rightarrow> (hval s3_result \<times> 'x request) option" where
  "take_xml_body E doc req =
     (case take_full_body req of
        None \<Rightarrow> None
      | Some (bs, req1) \<Rightarrow>
          (if bs = [] then Some (Inl MissingRequestBodyError, req1)
           else map_option (\<lambda>r. (r, req1)) (deserialize_xml E doc bs)))"

definition take_opt_xml_body :: "http_env \<Rightarrow> document \<Rightarrow> 'x request \<Rightarrow> (hval option s3_result \<times> 'x request) option" where
  "take_opt_xml_body E doc req =
     (case take_full_body req of
        None \<Rightarrow> None
      | Some (bs, req1) \<Rightarrow>
          (if bs = [] then Some (Inr None, req1)
           else map_option (\<lambda>r. (map_sum id Some r, req1)) (deserialize_xml E doc bs)))"

definition take_string_body :: "'x request \<Rightarrow> (hval s3_result \<times> 'x request) option" where
  "take_string_body req =
     (case take_full_body req of
        None \<Rightarrow> None
      | Some (bs, req1) \<Rightarrow> Some (if is_utf8 bs then Inr (HvString bs) else Inl InvalidRequest, req1))"

definition take_stream_body :: "'x request \<Rightarrow> hval \<times> 'x request" where
  "take_stream_body req = (HvBody (rq_body req), req\<lparr>rq_body := Body_empty\<rparr>)"

section \<open>Form fields\<close>

definition parse_field_value :: "post_form \<Rightarrow> bytes \<Rightarrow> htype \<Rightarrow> hval option s3_result" where
  "parse_field_value m name t =
     (case find_field_value m name of
        None \<Rightarrow> Inr None
      | Some val \<Rightarrow> (case value_from_str t val of Some ans \<Rightarrow> Inr (Some ans) | None \<Rightarrow> Inl InvalidArgument))"

definition parse_field_value_timestamp :: "http_env \<Rightarrow> post_form \<Rightarrow> bytes \<Rightarrow> ts_format \<Rightarrow> hval option s3_result" where
  "parse_field_value_timestamp E m name fmt =
     (case find_field_value m name of
        None \<Rightarrow> Inr None
      | Some val \<Rightarrow> (case Timestamp_parse (xml_time (he_xml E)) fmt val of Inr ans \<Rightarrow> Inr (Some (HvTime ans)) | Inl _ \<Rightarrow> Inl InvalidArgument))"

section \<open>Inputs\<close>

text \<open>
  The generated function of an operation takes the path and then reads its fields in order; the first error is its answer.
  \<open>source\<close> has a constructor for each of the readers that the generated code calls.
\<close>

datatype source =
    Header bytes htype
  | OptHeader bytes htype
  | OptHeaderTime bytes ts_format
  | ListHeader bytes htype
  | OptListHeader bytes htype
  | ChecksumAlgorithm
  | OptMetadata
  | Query bytes htype
  | OptQuery bytes htype
  | OptQueryTime bytes ts_format
  | XmlBody document
  | XmlBodyRequired document
  | OptXmlBody document
  | StringBody
  | StreamBody

datatype path_kind = NoPath | TakeBucket | TakeObject

record op_input =
  in_path :: path_kind
  in_fields :: "(bytes \<times> source) list"

type_synonym input = "(bytes \<times> hval option) list"

definition read_only :: "'a s3_result \<Rightarrow> 'x request \<Rightarrow> ('a s3_result \<times> 'x request) option" where
  "read_only r req = Some (r, req)"

definition present :: "hval s3_result \<Rightarrow> hval option s3_result" where
  "present r = map_sum id Some r"

text \<open>\<open>XmlBodyRequired\<close>: three operations answer a missing document as a malformed one.\<close>

fun read_field :: "http_env \<Rightarrow> source \<Rightarrow> 'x request \<Rightarrow> (hval option s3_result \<times> 'x request) option" where
  "read_field E (Header name t) req = read_only (present (parse_header E (rq_headers req) name t)) req"
| "read_field E (OptHeader name t) req = read_only (parse_opt_header E (rq_headers req) name t) req"
| "read_field E (OptHeaderTime name fmt) req = read_only (parse_opt_header_timestamp E (rq_headers req) name fmt) req"
| "read_field E (ListHeader name t) req = read_only (present (parse_list_header E (rq_headers req) name t)) req"
| "read_field E (OptListHeader name t) req = read_only (parse_opt_list_header E (rq_headers req) name t) req"
| "read_field E ChecksumAlgorithm req = read_only (parse_checksum_algorithm_header E (rq_headers req)) req"
| "read_field E OptMetadata req = read_only (parse_opt_metadata E (rq_headers req)) req"
| "read_field E (Query name t) req = read_only (present (parse_query (ex_qs (rq_s3ext req)) name t)) req"
| "read_field E (OptQuery name t) req = read_only (parse_opt_query (ex_qs (rq_s3ext req)) name t) req"
| "read_field E (OptQueryTime name fmt) req = read_only (parse_opt_query_timestamp E (ex_qs (rq_s3ext req)) name fmt) req"
| "read_field E (XmlBody doc) req = map_option (map_prod present id) (take_xml_body E doc req)"
| "read_field E (XmlBodyRequired doc) req =
     map_option (map_prod (\<lambda>r. present (case r of Inl e \<Rightarrow> Inl (if e = MissingRequestBodyError then MalformedXML else e) | Inr v \<Rightarrow> Inr v)) id)
       (take_xml_body E doc req)"
| "read_field E (OptXmlBody doc) req = take_opt_xml_body E doc req"
| "read_field E StringBody req = map_option (map_prod present id) (take_string_body req)"
| "read_field E StreamBody req = (case take_stream_body req of (v, req1) \<Rightarrow> Some (Inr (Some v), req1))"

fun read_fields :: "http_env \<Rightarrow> (bytes \<times> source) list \<Rightarrow> 'x request \<Rightarrow> (input s3_result \<times> 'x request) option" where
  "read_fields E [] req = Some (Inr [], req)"
| "read_fields E ((field, src) # rest) req =
     (case read_field E src req of
        None \<Rightarrow> None
      | Some (Inl e, req1) \<Rightarrow> Some (Inl e, req1)
      | Some (Inr v, req1) \<Rightarrow>
          (case read_fields E rest req1 of
             None \<Rightarrow> None
           | Some (Inl e, req2) \<Rightarrow> Some (Inl e, req2)
           | Some (Inr vs, req2) \<Rightarrow> Some (Inr ((field, v) # vs), req2)))"

definition deserialize_input :: "http_env \<Rightarrow> op_input \<Rightarrow> 'x request \<Rightarrow> (input s3_result \<times> 'x request) option" where
  "deserialize_input E spec req =
     (case in_path spec of
        NoPath \<Rightarrow> read_fields E (in_fields spec) req
      | TakeBucket \<Rightarrow>
          (case unwrap_bucket req of
             None \<Rightarrow> None
           | Some (bucket, req1) \<Rightarrow>
               map_option (map_prod (map_sum id (\<lambda>fs. (''bucket'', Some (HvString bucket)) # fs)) id) (read_fields E (in_fields spec) req1))
      | TakeObject \<Rightarrow>
          (case unwrap_object req of
             None \<Rightarrow> None
           | Some ((bucket, key), req1) \<Rightarrow>
               map_option (map_prod (map_sum id (\<lambda>fs. (''bucket'', Some (HvString bucket)) # (''key'', Some (HvString key)) # fs)) id)
                 (read_fields E (in_fields spec) req1)))"

end
