(* ===== verification/Op_Inputs.thy ===== *)
theory Op_Inputs
  imports Http_De
begin

text \<open>
  The inputs of the operations (s3s/src/ops/generated/*.rs): for each operation what its \<^verbatim>\<open>deserialize_http\<close> takes from the path
  and which reader it calls for each field of the input, in the order of the calls, and the two functions that read a POST form.
\<close>

section \<open>The tables\<close>

definition AbortMultipartUpload_input :: op_input where
  "AbortMultipartUpload_input =
     \<lparr>in_path = TakeObject,
      in_fields =
        [(''expected_bucket_owner'', OptHeader ''x-amz-expected-bucket-owner'' HString),
         (''if_match_initiated_time'', OptHeaderTime ''x-amz-if-match-initiated-time'' HttpDate),
         (''request_payer'', OptHeader ''x-amz-request-payer'' HString), (''upload_id'', Query ''uploadId'' HString)]\<rparr>"

definition CompleteMultipartUpload_input :: op_input where
  "CompleteMultipartUpload_input =
     \<lparr>in_path = TakeObject,
      in_fields =
        [(''checksum_crc32'', OptHeader ''x-amz-checksum-crc32'' HString),
         (''checksum_crc32c'', OptHeader ''x-amz-checksum-crc32c'' HString),
         (''checksum_crc64nvme'', OptHeader ''x-amz-checksum-crc64nvme'' HString),
         (''checksum_md5'', OptHeader ''x-amz-checksum-md5'' HString),
         (''checksum_sha1'', OptHeader ''x-amz-checksum-sha1'' HString),
         (''checksum_sha256'', OptHeader ''x-amz-checksum-sha256'' HString),
         (''checksum_sha512'', OptHeader ''x-amz-checksum-sha512'' HString),
         (''checksum_type'', OptHeader ''x-amz-checksum-type'' HString),
         (''checksum_xxhash128'', OptHeader ''x-amz-checksum-xxhash128'' HString),
         (''checksum_xxhash3'', OptHeader ''x-amz-checksum-xxhash3'' HString),
         (''checksum_xxhash64'', OptHeader ''x-amz-checksum-xxhash64'' HString),
         (''expected_bucket_owner'', OptHeader ''x-amz-expected-bucket-owner'' HString),
         (''if_match'', OptHeader ''if-match'' HETagCondition), (''if_none_match'', OptHeader ''if-none-match'' HETagCondition),
         (''mpu_object_size'', OptHeader ''x-amz-mp-object-size'' (HInt 64)),
         (''multipart_upload'', XmlBodyRequired (''CompleteMultipartUpload'', None, [''CompleteMultipartUpload''], CompletedMultipartUpload_xml)),
         (''request_payer'', OptHeader ''x-amz-request-payer'' HString),
         (''sse_customer_algorithm'', OptHeader ''x-amz-server-side-encryption-customer-algorithm'' HString),
         (''sse_customer_key'', OptHeader ''x-amz-server-side-encryption-customer-key'' HString),
         (''sse_customer_key_md5'', OptHeader ''x-amz-server-side-encryption-customer-key-md5'' HString),
         (''upload_id'', Query ''uploadId'' HString)]\<rparr>"

definition CopyObject_input :: op_input where
  "CopyObject_input =
     \<lparr>in_path = TakeObject,
      in_fields =
        [(''acl'', OptHeader ''x-amz-acl'' HString),
         (''annotation_directive'', OptHeader ''x-amz-object-annotation-directive'' HString),
         (''bucket_key_enabled'', OptHeader ''x-amz-server-side-encryption-bucket-key-enabled'' HBool),
         (''cache_control'', OptHeader ''cache-control'' HString), (''checksum_algorithm'', ChecksumAlgorithm),
         (''content_disposition'', OptHeader ''content-disposition'' HString),
         (''content_encoding'', OptHeader ''content-encoding'' HString),
         (''content_language'', OptHeader ''content-language'' HString), (''content_type'', OptHeader ''content-type'' HString),
         (''copy_source'', Header ''x-amz-copy-source'' HCopySource),
         (''copy_source_if_match'', OptHeader ''x-amz-copy-source-if-match'' HETagCondition),
         (''copy_source_if_modified_since'', OptHeaderTime ''x-amz-copy-source-if-modified-since'' HttpDate),
         (''copy_source_if_none_match'', OptHeader ''x-amz-copy-source-if-none-match'' HETagCondition),
         (''copy_source_if_unmodified_since'', OptHeaderTime ''x-amz-copy-source-if-unmodified-since'' HttpDate),
         (''copy_source_sse_customer_algorithm'', OptHeader ''x-amz-copy-source-server-side-encryption-customer-algorithm'' HString),
         (''copy_source_sse_customer_key'', OptHeader ''x-amz-copy-source-server-side-encryption-customer-key'' HString),
         (''copy_source_sse_customer_key_md5'', OptHeader ''x-amz-copy-source-server-side-encryption-customer-key-md5'' HString),
         (''expected_bucket_owner'', OptHeader ''x-amz-expected-bucket-owner'' HString),
         (''expected_source_bucket_owner'', OptHeader ''x-amz-source-expected-bucket-owner'' HString),
         (''expires'', OptHeader ''expires'' HString), (''grant_full_control'', OptHeader ''x-amz-grant-full-control'' HString),
         (''grant_read'', OptHeader ''x-amz-grant-read'' HString), (''grant_read_acp'', OptHeader ''x-amz-grant-read-acp'' HString),
         (''grant_write_acp'', OptHeader ''x-amz-grant-write-acp'' HString), (''if_match'', OptHeader ''if-match'' HETagCondition),
         (''if_none_match'', OptHeader ''if-none-match'' HETagCondition), (''metadata'', OptMetadata),
         (''metadata_directive'', OptHeader ''x-amz-metadata-directive'' HString),
         (''object_lock_legal_hold_status'', OptHeader ''x-amz-object-lock-legal-hold'' HString),
         (''object_lock_mode'', OptHeader ''x-amz-object-lock-mode'' HString),
         (''object_lock_retain_until_date'', OptHeaderTime ''x-amz-object-lock-retain-until-date'' DateTime),
         (''request_payer'', OptHeader ''x-amz-request-payer'' HString),
         (''sse_customer_algorithm'', OptHeader ''x-amz-server-side-encryption-customer-algorithm'' HString),
         (''sse_customer_key'', OptHeader ''x-amz-server-side-encryption-customer-key'' HString),
         (''sse_customer_key_md5'', OptHeader ''x-amz-server-side-encryption-customer-key-md5'' HString),
         (''ssekms_encryption_context'', OptHeader ''x-amz-server-side-encryption-context'' HString),
         (''ssekms_key_id'', OptHeader ''x-amz-server-side-encryption-aws-kms-key-id'' HString),
         (''server_side_encryption'', OptHeader ''x-amz-server-side-encryption'' HString),
         (''storage_class'', OptHeader ''x-amz-storage-class'' HString), (''tagging'', OptHeader ''x-amz-tagging'' HString),
         (''tagging_directive'', OptHeader ''x-amz-tagging-directive'' HString),
         (''website_redirect_location'', OptHeader ''x-amz-website-redirect-location'' HString)]\<rparr>"

definition CreateBucket_input :: op_input where
  "CreateBucket_input =
     \<lparr>in_path = TakeBucket,
      in_fields =
        [(''acl'', OptHeader ''x-amz-acl'' HString), (''bucket_namespace'', OptHeader ''x-amz-bucket-namespace'' HString),
         (''create_bucket_configuration'', OptXmlBody (''CreateBucketConfiguration'', None, [''CreateBucketConfiguration''], CreateBucketConfiguration_xml)),
         (''grant_full_control'', OptHeader ''x-amz-grant-full-control'' HString),
         (''grant_read'', OptHeader ''x-amz-grant-read'' HString), (''grant_read_acp'', OptHeader ''x-amz-grant-read-acp'' HString),
         (''grant_write'', OptHeader ''x-amz-grant-write'' HString),
         (''grant_write_acp'', OptHeader ''x-amz-grant-write-acp'' HString),
         (''object_lock_enabled_for_bucket'', OptHeader ''x-amz-bucket-object-lock-enabled'' HBool),
         (''object_ownership'', OptHeader ''x-amz-object-ownership'' HString)]\<rparr>"

definition CreateBucketMetadataConfiguration_input :: op_input where
  "CreateBucketMetadataConfiguration_input =
     \<lparr>in_path = TakeBucket,
      in_fields =
        [(''checksum_algorithm'', ChecksumAlgorithm), (''content_md5'', OptHeader ''content-md5'' HString),
         (''expected_bucket_owner'', OptHeader ''x-amz-expected-bucket-owner'' HString),
         (''metadata_configuration'', XmlBody (''MetadataConfiguration'', None, [''MetadataConfiguration''], MetadataConfiguration_xml))]\<rparr>"

definition CreateBucketMetadataTableConfiguration_input :: op_input where
  "CreateBucketMetadataTableConfiguration_input =
     \<lparr>in_path = TakeBucket,
      in_fields =
        [(''checksum_algorithm'', ChecksumAlgorithm), (''content_md5'', OptHeader ''content-md5'' HString),
         (''expected_bucket_owner'', OptHeader ''x-amz-expected-bucket-owner'' HString),
         (''metadata_table_configuration'', XmlBody (''MetadataTableConfiguration'', None, [''MetadataTableConfiguration''], MetadataTableConfiguration_xml))]\<rparr>"

definition CreateMultipartUpload_input :: op_input where
  "CreateMultipartUpload_input =
     \<lparr>in_path = TakeObject,
      in_fields =
        [(''acl'', OptHeader ''x-amz-acl'' HString),
         (''bucket_key_enabled'', OptHeader ''x-amz-server-side-encryption-bucket-key-enabled'' HBool),
         (''cache_control'', OptHeader ''cache-control'' HString), (''checksum_algorithm'', ChecksumAlgorithm),
         (''checksum_type'', OptHeader ''x-amz-checksum-type'' HString),
         (''content_disposition'', OptHeader ''content-disposition'' HString),
         (''content_encoding'', OptHeader ''content-encoding'' HString),
         (''content_language'', OptHeader ''content-language'' HString), (''content_type'', OptHeader ''content-type'' HString),
         (''expected_bucket_owner'', OptHeader ''x-amz-expected-bucket-owner'' HString),
         (''expires'', OptHeader ''expires'' HString), (''grant_full_control'', OptHeader ''x-amz-grant-full-control'' HString),
         (''grant_read'', OptHeader ''x-amz-grant-read'' HString), (''grant_read_acp'', OptHeader ''x-amz-grant-read-acp'' HString),
         (''grant_write_acp'', OptHeader ''x-amz-grant-write-acp'' HString), (''metadata'', OptMetadata),
         (''object_lock_legal_hold_status'', OptHeader ''x-amz-object-lock-legal-hold'' HString),
         (''object_lock_mode'', OptHeader ''x-amz-object-lock-mode'' HString),
         (''object_lock_retain_until_date'', OptHeaderTime ''x-amz-object-lock-retain-until-date'' DateTime),
         (''request_payer'', OptHeader ''x-amz-request-payer'' HString),
         (''sse_customer_algorithm'', OptHeader ''x-amz-server-side-encryption-customer-algorithm'' HString),
         (''sse_customer_key'', OptHeader ''x-amz-server-side-encryption-customer-key'' HString),
         (''sse_customer_key_md5'', OptHeader ''x-amz-server-side-encryption-customer-key-md5'' HString),
         (''ssekms_encryption_context'', OptHeader ''x-amz-server-side-encryption-context'' HString),
         (''ssekms_key_id'', OptHeader ''x-amz-server-side-encryption-aws-kms-key-id'' HString),
         (''server_side_encryption'', OptHeader ''x-amz-server-side-encryption'' HString),
         (''storage_class'', OptHeader ''x-amz-storage-class'' HString), (''tagging'', OptHeader ''x-amz-tagging'' HString),
         (''website_redirect_location'', OptHeader ''x-amz-website-redirect-location'' HString)]\<rparr>"

definition CreateSession_input :: op_input where
  "CreateSession_input =
     \<lparr>in_path = TakeBucket,
      in_fields =
        [(''bucket_key_enabled'', OptHeader ''x-amz-server-side-encryption-bucket-key-enabled'' HBool),
         (''ssekms_encryption_context'', OptHeader ''x-amz-server-side-encryption-context'' HString),
         (''ssekms_key_id'', OptHeader ''x-amz-server-side-encryption-aws-kms-key-id'' HString),
         (''server_side_encryption'', OptHeader ''x-amz-server-side-encryption'' HString),
         (''session_mode'', OptHeader ''x-amz-create-session-mode'' HString)]\<rparr>"

definition DeleteBucket_input :: op_input where
  "DeleteBucket_input =
     \<lparr>in_path = TakeBucket,
      in_fields =
        [(''expected_bucket_owner'', OptHeader ''x-amz-expected-bucket-owner'' HString)]\<rparr>"

definition DeleteBucketAnalyticsConfiguration_input :: op_input where
  "DeleteBucketAnalyticsConfiguration_input =
     \<lparr>in_path = TakeBucket,
      in_fields =
        [(''expected_bucket_owner'', OptHeader ''x-amz-expected-bucket-owner'' HString), (''id'', Query ''id'' HString)]\<rparr>"

definition DeleteBucketCors_input :: op_input where
  "DeleteBucketCors_input =
     \<lparr>in_path = TakeBucket,
      in_fields =
        [(''expected_bucket_owner'', OptHeader ''x-amz-expected-bucket-owner'' HString)]\<rparr>"

definition DeleteBucketEncryption_input :: op_input where
  "DeleteBucketEncryption_input =
     \<lparr>in_path = TakeBucket,
      in_fields =
        [(''expected_bucket_owner'', OptHeader ''x-amz-expected-bucket-owner'' HString)]\<rparr>"

definition DeleteBucketIntelligentTieringConfiguration_input :: op_input where
  "DeleteBucketIntelligentTieringConfiguration_input =
     \<lparr>in_path = TakeBucket,
      in_fields =
        [(''expected_bucket_owner'', OptHeader ''x-amz-expected-bucket-owner'' HString), (''id'', Query ''id'' HString)]\<rparr>"

definition DeleteBucketInventoryConfiguration_input :: op_input where
  "DeleteBucketInventoryConfiguration_input =
     \<lparr>in_path = TakeBucket,
      in_fields =
        [(''expected_bucket_owner'', OptHeader ''x-amz-expected-bucket-owner'' HString), (''id'', Query ''id'' HString)]\<rparr>"

definition DeleteBucketLifecycle_input :: op_input where
  "DeleteBucketLifecycle_input =
     \<lparr>in_path = TakeBucket,
      in_fields =
        [(''expected_bucket_owner'', OptHeader ''x-amz-expected-bucket-owner'' HString)]\<rparr>"

definition DeleteBucketMetadataConfiguration_input :: op_input where
  "DeleteBucketMetadataConfiguration_input =
     \<lparr>in_path = TakeBucket,
      in_fields =
        [(''expected_bucket_owner'', OptHeader ''x-amz-expected-bucket-owner'' HString)]\<rparr>"

definition DeleteBucketMetadataTableConfiguration_input :: op_input where
  "DeleteBucketMetadataTableConfiguration_input =
     \<lparr>in_path = TakeBucket,
      in_fields =
        [(''expected_bucket_owner'', OptHeader ''x-amz-expected-bucket-owner'' HString)]\<rparr>"

definition DeleteBucketMetricsConfiguration_input :: op_input where
  "DeleteBucketMetricsConfiguration_input =
     \<lparr>in_path = TakeBucket,
      in_fields =
        [(''expected_bucket_owner'', OptHeader ''x-amz-expected-bucket-owner'' HString), (''id'', Query ''id'' HString)]\<rparr>"

definition DeleteBucketOwnershipControls_input :: op_input where
  "DeleteBucketOwnershipControls_input =
     \<lparr>in_path = TakeBucket,
      in_fields =
        [(''expected_bucket_owner'', OptHeader ''x-amz-expected-bucket-owner'' HString)]\<rparr>"

definition DeleteBucketPolicy_input :: op_input where
  "DeleteBucketPolicy_input =
     \<lparr>in_path = TakeBucket,
      in_fields =
        [(''expected_bucket_owner'', OptHeader ''x-amz-expected-bucket-owner'' HString)]\<rparr>"

definition DeleteBucketReplication_input :: op_input where
  "DeleteBucketReplication_input =
     \<lparr>in_path = TakeBucket,
      in_fields =
        [(''expected_bucket_owner'', OptHeader ''x-amz-expected-bucket-owner'' HString)]\<rparr>"

definition DeleteBucketTagging_input :: op_input where
  "DeleteBucketTagging_input =
     \<lparr>in_path = TakeBucket,
      in_fields =
        [(''expected_bucket_owner'', OptHeader ''x-amz-expected-bucket-owner'' HString)]\<rparr>"

definition DeleteBucketWebsite_input :: op_input where
  "DeleteBucketWebsite_input =
     \<lparr>in_path = TakeBucket,
      in_fields =
        [(''expected_bucket_owner'', OptHeader ''x-amz-expected-bucket-owner'' HString)]\<rparr>"

definition DeleteObject_input :: op_input where
  "DeleteObject_input =
     \<lparr>in_path = TakeObject,
      in_fields =
        [(''bypass_governance_retention'', OptHeader ''x-amz-bypass-governance-retention'' HBool),
         (''expected_bucket_owner'', OptHeader ''x-amz-expected-bucket-owner'' HString),
         (''if_match'', OptHeader ''if-match'' HETagCondition),
         (''if_match_last_modified_time'', OptHeaderTime ''x-amz-if-match-last-modified-time'' HttpDate),
         (''if_match_size'', OptHeader ''x-amz-if-match-size'' (HInt 64)), (''mfa'', OptHeader ''x-amz-mfa'' HString),
         (''request_payer'', OptHeader ''x-amz-request-payer'' HString), (''version_id'', OptQuery ''versionId'' HString)]\<rparr>"

definition DeleteObjectAnnotation_input :: op_input where
  "DeleteObjectAnnotation_input =
     \<lparr>in_path = TakeObject,
      in_fields =
        [(''annotation_name'', Query ''annotationName'' HString),
         (''expected_bucket_owner'', OptHeader ''x-amz-expected-bucket-owner'' HString),
         (''object_if_match'', OptHeader ''x-amz-object-if-match'' HString),
         (''request_payer'', OptHeader ''x-amz-request-payer'' HString), (''version_id'', OptQuery ''versionId'' HString)]\<rparr>"

definition DeleteObjectTagging_input :: op_input where
  "DeleteObjectTagging_input =
     \<lparr>in_path = TakeObject,
      in_fields =
        [(''expected_bucket_owner'', OptHeader ''x-amz-expected-bucket-owner'' HString),
         (''version_id'', OptQuery ''versionId'' HString)]\<rparr>"

definition DeleteObjects_input :: op_input where
  "DeleteObjects_input =
     \<lparr>in_path = TakeBucket,
      in_fields =
        [(''bypass_governance_retention'', OptHeader ''x-amz-bypass-governance-retention'' HBool),
         (''checksum_algorithm'', ChecksumAlgorithm), (''delete'', XmlBody (''Delete'', None, [''Delete''], Delete_xml)),
         (''expected_bucket_owner'', OptHeader ''x-amz-expected-bucket-owner'' HString), (''mfa'', OptHeader ''x-amz-mfa'' HString),
         (''request_payer'', OptHeader ''x-amz-request-payer'' HString)]\<rparr>"

definition DeletePublicAccessBlock_input :: op_input where
  "DeletePublicAccessBlock_input =
     \<lparr>in_path = TakeBucket,
      in_fields =
        [(''expected_bucket_owner'', OptHeader ''x-amz-expected-bucket-owner'' HString)]\<rparr>"

definition GetBucketAbac_input :: op_input where
  "GetBucketAbac_input =
     \<lparr>in_path = TakeBucket,
      in_fields =
        [(''expected_bucket_owner'', OptHeader ''x-amz-expected-bucket-owner'' HString)]\<rparr>"

definition GetBucketAccelerateConfiguration_input :: op_input where
  "GetBucketAccelerateConfiguration_input =
     \<lparr>in_path = TakeBucket,
      in_fields =
        [(''expected_bucket_owner'', OptHeader ''x-amz-expected-bucket-owner'' HString),
         (''request_payer'', OptHeader ''x-amz-request-payer'' HString)]\<rparr>"

definition GetBucketAcl_input :: op_input where
  "GetBucketAcl_input =
     \<lparr>in_path = TakeBucket,
      in_fields =
        [(''expected_bucket_owner'', OptHeader ''x-amz-expected-bucket-owner'' HString)]\<rparr>"

definition GetBucketAnalyticsConfiguration_input :: op_input where
  "GetBucketAnalyticsConfiguration_input =
     \<lparr>in_path = TakeBucket,
      in_fields =
        [(''expected_bucket_owner'', OptHeader ''x-amz-expected-bucket-owner'' HString), (''id'', Query ''id'' HString)]\<rparr>"

definition GetBucketCors_input :: op_input where
  "GetBucketCors_input =
     \<lparr>in_path = TakeBucket,
      in_fields =
        [(''expected_bucket_owner'', OptHeader ''x-amz-expected-bucket-owner'' HString)]\<rparr>"

definition GetBucketEncryption_input :: op_input where
  "GetBucketEncryption_input =
     \<lparr>in_path = TakeBucket,
      in_fields =
        [(''expected_bucket_owner'', OptHeader ''x-amz-expected-bucket-owner'' HString)]\<rparr>"

definition GetBucketIntelligentTieringConfiguration_input :: op_input where
  "GetBucketIntelligentTieringConfiguration_input =
     \<lparr>in_path = TakeBucket,
      in_fields =
        [(''expected_bucket_owner'', OptHeader ''x-amz-expected-bucket-owner'' HString), (''id'', Query ''id'' HString)]\<rparr>"

definition GetBucketInventoryConfiguration_input :: op_input where
  "GetBucketInventoryConfiguration_input =
     \<lparr>in_path = TakeBucket,
      in_fields =
        [(''expected_bucket_owner'', OptHeader ''x-amz-expected-bucket-owner'' HString), (''id'', Query ''id'' HString)]\<rparr>"

definition GetBucketLifecycleConfiguration_input :: op_input where
  "GetBucketLifecycleConfiguration_input =
     \<lparr>in_path = TakeBucket,
      in_fields =
        [(''expected_bucket_owner'', OptHeader ''x-amz-expected-bucket-owner'' HString)]\<rparr>"

definition GetBucketLocation_input :: op_input where
  "GetBucketLocation_input =
     \<lparr>in_path = TakeBucket,
      in_fields =
        [(''expected_bucket_owner'', OptHeader ''x-amz-expected-bucket-owner'' HString)]\<rparr>"

definition GetBucketLogging_input :: op_input where
  "GetBucketLogging_input =
     \<lparr>in_path = TakeBucket,
      in_fields =
        [(''expected_bucket_owner'', OptHeader ''x-amz-expected-bucket-owner'' HString)]\<rparr>"

definition GetBucketMetadataConfiguration_input :: op_input where
  "GetBucketMetadataConfiguration_input =
     \<lparr>in_path = TakeBucket,
      in_fields =
        [(''expected_bucket_owner'', OptHeader ''x-amz-expected-bucket-owner'' HString)]\<rparr>"

definition GetBucketMetadataTableConfiguration_input :: op_input where
  "GetBucketMetadataTableConfiguration_input =
     \<lparr>in_path = TakeBucket,
      in_fields =
        [(''expected_bucket_owner'', OptHeader ''x-amz-expected-bucket-owner'' HString)]\<rparr>"

definition GetBucketMetricsConfiguration_input :: op_input where
  "GetBucketMetricsConfiguration_input =
     \<lparr>in_path = TakeBucket,
      in_fields =
        [(''expected_bucket_owner'', OptHeader ''x-amz-expected-bucket-owner'' HString), (''id'', Query ''id'' HString)]\<rparr>"

definition GetBucketNotificationConfiguration_input :: op_input where
  "GetBucketNotificationConfiguration_input =
     \<lparr>in_path = TakeBucket,
      in_fields =
        [(''expected_bucket_owner'', OptHeader ''x-amz-expected-bucket-owner'' HString)]\<rparr>"

definition GetBucketOwnershipControls_input :: op_input where
  "GetBucketOwnershipControls_input =
     \<lparr>in_path = TakeBucket,
      in_fields =
        [(''expected_bucket_owner'', OptHeader ''x-amz-expected-bucket-owner'' HString)]\<rparr>"

definition GetBucketPolicy_input :: op_input where
  "GetBucketPolicy_input =
     \<lparr>in_path = TakeBucket,
      in_fields =
        [(''expected_bucket_owner'', OptHeader ''x-amz-expected-bucket-owner'' HString)]\<rparr>"

definition GetBucketPolicyStatus_input :: op_input where
  "GetBucketPolicyStatus_input =
     \<lparr>in_path = TakeBucket,
      in_fields =
        [(''expected_bucket_owner'', OptHeader ''x-amz-expected-bucket-owner'' HString)]\<rparr>"

definition GetBucketReplication_input :: op_input where
  "GetBucketReplication_input =
     \<lparr>in_path = TakeBucket,
      in_fields =
        [(''expected_bucket_owner'', OptHeader ''x-amz-expected-bucket-owner'' HString)]\<rparr>"

definition GetBucketRequestPayment_input :: op_input where
  "GetBucketRequestPayment_input =
     \<lparr>in_path = TakeBucket,
      in_fields =
        [(''expected_bucket_owner'', OptHeader ''x-amz-expected-bucket-owner'' HString)]\<rparr>"

definition GetBucketTagging_input :: op_input where
  "GetBucketTagging_input =
     \<lparr>in_path = TakeBucket,
      in_fields =
        [(''expected_bucket_owner'', OptHeader ''x-amz-expected-bucket-owner'' HString)]\<rparr>"

definition GetBucketVersioning_input :: op_input where
  "GetBucketVersioning_input =
     \<lparr>in_path = TakeBucket,
      in_fields =
        [(''expected_bucket_owner'', OptHeader ''x-amz-expected-bucket-owner'' HString)]\<rparr>"

definition GetBucketWebsite_input :: op_input where
  "GetBucketWebsite_input =
     \<lparr>in_path = TakeBucket,
      in_fields =
        [(''expected_bucket_owner'', OptHeader ''x-amz-expected-bucket-owner'' HString)]\<rparr>"

definition GetObject_input :: op_input where
  "GetObject_input =
     \<lparr>in_path = TakeObject,
      in_fields =
        [(''checksum_mode'', OptHeader ''x-amz-checksum-mode'' HString),
         (''expected_bucket_owner'', OptHeader ''x-amz-expected-bucket-owner'' HString),
         (''if_match'', OptHeader ''if-match'' HETagCondition),
         (''if_modified_since'', OptHeaderTime ''if-modified-since'' HttpDate),
         (''if_none_match'', OptHeader ''if-none-match'' HETagCondition),
         (''if_unmodified_since'', OptHeaderTime ''if-unmodified-since'' HttpDate),
         (''part_number'', OptQuery ''partNumber'' (HInt 32)), (''range'', OptHeader ''range'' HRange),
         (''request_payer'', OptHeader ''x-amz-request-payer'' HString),
         (''response_cache_control'', OptQuery ''response-cache-control'' HString),
         (''response_content_disposition'', OptQuery ''response-content-disposition'' HString),
         (''response_content_encoding'', OptQuery ''response-content-encoding'' HString),
         (''response_content_language'', OptQuery ''response-content-language'' HString),
         (''response_content_type'', OptQuery ''response-content-type'' HString),
         (''response_expires'', OptQueryTime ''response-expires'' HttpDate),
         (''sse_customer_algorithm'', OptHeader ''x-amz-server-side-encryption-customer-algorithm'' HString),
         (''sse_customer_key'', OptHeader ''x-amz-server-side-encryption-customer-key'' HString),
         (''sse_customer_key_md5'', OptHeader ''x-amz-server-side-encryption-customer-key-md5'' HString),
         (''version_id'', OptQuery ''versionId'' HString)]\<rparr>"

definition GetObjectAcl_input :: op_input where
  "GetObjectAcl_input =
     \<lparr>in_path = TakeObject,
      in_fields =
        [(''expected_bucket_owner'', OptHeader ''x-amz-expected-bucket-owner'' HString),
         (''request_payer'', OptHeader ''x-amz-request-payer'' HString), (''version_id'', OptQuery ''versionId'' HString)]\<rparr>"

definition GetObjectAnnotation_input :: op_input where
  "GetObjectAnnotation_input =
     \<lparr>in_path = TakeObject,
      in_fields =
        [(''annotation_name'', Query ''annotationName'' HString), (''checksum_mode'', OptHeader ''x-amz-checksum-mode'' HString),
         (''expected_bucket_owner'', OptHeader ''x-amz-expected-bucket-owner'' HString),
         (''request_payer'', OptHeader ''x-amz-request-payer'' HString), (''version_id'', OptQuery ''versionId'' HString)]\<rparr>"

definition GetObjectAttributes_input :: op_input where
  "GetObjectAttributes_input =
     \<lparr>in_path = TakeObject,
      in_fields =
        [(''expected_bucket_owner'', OptHeader ''x-amz-expected-bucket-owner'' HString),
         (''max_parts'', OptHeader ''x-amz-max-parts'' (HInt 32)),
         (''object_attributes'', ListHeader ''x-amz-object-attributes'' HString),
         (''part_number_marker'', OptHeader ''x-amz-part-number-marker'' (HInt 32)),
         (''request_payer'', OptHeader ''x-amz-request-payer'' HString),
         (''sse_customer_algorithm'', OptHeader ''x-amz-server-side-encryption-customer-algorithm'' HString),
         (''sse_customer_key'', OptHeader ''x-amz-server-side-encryption-customer-key'' HString),
         (''sse_customer_key_md5'', OptHeader ''x-amz-server-side-encryption-customer-key-md5'' HString),
         (''version_id'', OptQuery ''versionId'' HString)]\<rparr>"

definition GetObjectLegalHold_input :: op_input where
  "GetObjectLegalHold_input =
     \<lparr>in_path = TakeObject,
      in_fields =
        [(''expected_bucket_owner'', OptHeader ''x-amz-expected-bucket-owner'' HString),
         (''request_payer'', OptHeader ''x-amz-request-payer'' HString), (''version_id'', OptQuery ''versionId'' HString)]\<rparr>"

definition GetObjectLockConfiguration_input :: op_input where
  "GetObjectLockConfiguration_input =
     \<lparr>in_path = TakeBucket,
      in_fields =
        [(''expected_bucket_owner'', OptHeader ''x-amz-expected-bucket-owner'' HString)]\<rparr>"

definition GetObjectRetention_input :: op_input where
  "GetObjectRetention_input =
     \<lparr>in_path = TakeObject,
      in_fields =
        [(''expected_bucket_owner'', OptHeader ''x-amz-expected-bucket-owner'' HString),
         (''request_payer'', OptHeader ''x-amz-request-payer'' HString), (''version_id'', OptQuery ''versionId'' HString)]\<rparr>"

definition GetObjectTagging_input :: op_input where
  "GetObjectTagging_input =
     \<lparr>in_path = TakeObject,
      in_fields =
        [(''expected_bucket_owner'', OptHeader ''x-amz-expected-bucket-owner'' HString),
         (''request_payer'', OptHeader ''x-amz-request-payer'' HString), (''version_id'', OptQuery ''versionId'' HString)]\<rparr>"

definition GetObjectTorrent_input :: op_input where
  "GetObjectTorrent_input =
     \<lparr>in_path = TakeObject,
      in_fields =
        [(''expected_bucket_owner'', OptHeader ''x-amz-expected-bucket-owner'' HString),
         (''request_payer'', OptHeader ''x-amz-request-payer'' HString)]\<rparr>"

definition GetPublicAccessBlock_input :: op_input where
  "GetPublicAccessBlock_input =
     \<lparr>in_path = TakeBucket,
      in_fields =
        [(''expected_bucket_owner'', OptHeader ''x-amz-expected-bucket-owner'' HString)]\<rparr>"

definition HeadBucket_input :: op_input where
  "HeadBucket_input =
     \<lparr>in_path = TakeBucket,
      in_fields =
        [(''expected_bucket_owner'', OptHeader ''x-amz-expected-bucket-owner'' HString)]\<rparr>"

definition HeadObject_input :: op_input where
  "HeadObject_input =
     \<lparr>in_path = TakeObject,
      in_fields =
        [(''checksum_mode'', OptHeader ''x-amz-checksum-mode'' HString),
         (''expected_bucket_owner'', OptHeader ''x-amz-expected-bucket-owner'' HString),
         (''if_match'', OptHeader ''if-match'' HETagCondition),
         (''if_modified_since'', OptHeaderTime ''if-modified-since'' HttpDate),
         (''if_none_match'', OptHeader ''if-none-match'' HETagCondition),
         (''if_unmodified_since'', OptHeaderTime ''if-unmodified-since'' HttpDate),
         (''part_number'', OptQuery ''partNumber'' (HInt 32)), (''range'', OptHeader ''range'' HRange),
         (''request_payer'', OptHeader ''x-amz-request-payer'' HString),
         (''response_cache_control'', OptQuery ''response-cache-control'' HString),
         (''response_content_disposition'', OptQuery ''response-content-disposition'' HString),
         (''response_content_encoding'', OptQuery ''response-content-encoding'' HString),
         (''response_content_language'', OptQuery ''response-content-language'' HString),
         (''response_content_type'', OptQuery ''response-content-type'' HString),
         (''response_expires'', OptQueryTime ''response-expires'' HttpDate),
         (''sse_customer_algorithm'', OptHeader ''x-amz-server-side-encryption-customer-algorithm'' HString),
         (''sse_customer_key'', OptHeader ''x-amz-server-side-encryption-customer-key'' HString),
         (''sse_customer_key_md5'', OptHeader ''x-amz-server-side-encryption-customer-key-md5'' HString),
         (''version_id'', OptQuery ''versionId'' HString)]\<rparr>"

definition ListBucketAnalyticsConfigurations_input :: op_input where
  "ListBucketAnalyticsConfigurations_input =
     \<lparr>in_path = TakeBucket,
      in_fields =
        [(''continuation_token'', OptQuery ''continuation-token'' HString),
         (''expected_bucket_owner'', OptHeader ''x-amz-expected-bucket-owner'' HString)]\<rparr>"

definition ListBucketIntelligentTieringConfigurations_input :: op_input where
  "ListBucketIntelligentTieringConfigurations_input =
     \<lparr>in_path = TakeBucket,
      in_fields =
        [(''continuation_token'', OptQuery ''continuation-token'' HString),
         (''expected_bucket_owner'', OptHeader ''x-amz-expected-bucket-owner'' HString)]\<rparr>"

definition ListBucketInventoryConfigurations_input :: op_input where
  "ListBucketInventoryConfigurations_input =
     \<lparr>in_path = TakeBucket,
      in_fields =
        [(''continuation_token'', OptQuery ''continuation-token'' HString),
         (''expected_bucket_owner'', OptHeader ''x-amz-expected-bucket-owner'' HString)]\<rparr>"

definition ListBucketMetricsConfigurations_input :: op_input where
  "ListBucketMetricsConfigurations_input =
     \<lparr>in_path = TakeBucket,
      in_fields =
        [(''continuation_token'', OptQuery ''continuation-token'' HString),
         (''expected_bucket_owner'', OptHeader ''x-amz-expected-bucket-owner'' HString)]\<rparr>"

definition ListBuckets_input :: op_input where
  "ListBuckets_input =
     \<lparr>in_path = NoPath,
      in_fields =
        [(''bucket_region'', OptQuery ''bucket-region'' HString), (''continuation_token'', OptQuery ''continuation-token'' HString),
         (''max_buckets'', OptQuery ''max-buckets'' (HInt 32)), (''prefix'', OptQuery ''prefix'' HString)]\<rparr>"

definition ListDirectoryBuckets_input :: op_input where
  "ListDirectoryBuckets_input =
     \<lparr>in_path = NoPath,
      in_fields =
        [(''continuation_token'', OptQuery ''continuation-token'' HString),
         (''max_directory_buckets'', OptQuery ''max-directory-buckets'' (HInt 32))]\<rparr>"

definition ListMultipartUploads_input :: op_input where
  "ListMultipartUploads_input =
     \<lparr>in_path = TakeBucket,
      in_fields =
        [(''delimiter'', OptQuery ''delimiter'' HString), (''encoding_type'', OptQuery ''encoding-type'' HString),
         (''expected_bucket_owner'', OptHeader ''x-amz-expected-bucket-owner'' HString),
         (''key_marker'', OptQuery ''key-marker'' HString), (''max_uploads'', OptQuery ''max-uploads'' (HInt 32)),
         (''prefix'', OptQuery ''prefix'' HString), (''request_payer'', OptHeader ''x-amz-request-payer'' HString),
         (''upload_id_marker'', OptQuery ''upload-id-marker'' HString)]\<rparr>"

definition ListObjectAnnotations_input :: op_input where
  "ListObjectAnnotations_input =
     \<lparr>in_path = TakeObject,
      in_fields =
        [(''annotation_prefix'', OptQuery ''annotation-prefix'' HString),
         (''continuation_token'', OptQuery ''continuation-token'' HString),
         (''expected_bucket_owner'', OptHeader ''x-amz-expected-bucket-owner'' HString),
         (''max_annotation_results'', OptQuery ''max-annotation-results'' (HInt 32)),
         (''request_payer'', OptHeader ''x-amz-request-payer'' HString), (''version_id'', OptQuery ''versionId'' HString)]\<rparr>"

definition ListObjectVersions_input :: op_input where
  "ListObjectVersions_input =
     \<lparr>in_path = TakeBucket,
      in_fields =
        [(''delimiter'', OptQuery ''delimiter'' HString), (''encoding_type'', OptQuery ''encoding-type'' HString),
         (''expected_bucket_owner'', OptHeader ''x-amz-expected-bucket-owner'' HString),
         (''key_marker'', OptQuery ''key-marker'' HString), (''max_keys'', OptQuery ''max-keys'' (HInt 32)),
         (''optional_object_attributes'', OptListHeader ''x-amz-optional-object-attributes'' HString),
         (''prefix'', OptQuery ''prefix'' HString), (''request_payer'', OptHeader ''x-amz-request-payer'' HString),
         (''version_id_marker'', OptQuery ''version-id-marker'' HString)]\<rparr>"

definition ListObjects_input :: op_input where
  "ListObjects_input =
     \<lparr>in_path = TakeBucket,
      in_fields =
        [(''delimiter'', OptQuery ''delimiter'' HString), (''encoding_type'', OptQuery ''encoding-type'' HString),
         (''expected_bucket_owner'', OptHeader ''x-amz-expected-bucket-owner'' HString), (''marker'', OptQuery ''marker'' HString),
         (''max_keys'', OptQuery ''max-keys'' (HInt 32)),
         (''optional_object_attributes'', OptListHeader ''x-amz-optional-object-attributes'' HString),
         (''prefix'', OptQuery ''prefix'' HString), (''request_payer'', OptHeader ''x-amz-request-payer'' HString)]\<rparr>"

definition ListObjectsV2_input :: op_input where
  "ListObjectsV2_input =
     \<lparr>in_path = TakeBucket,
      in_fields =
        [(''continuation_token'', OptQuery ''continuation-token'' HString), (''delimiter'', OptQuery ''delimiter'' HString),
         (''encoding_type'', OptQuery ''encoding-type'' HString),
         (''expected_bucket_owner'', OptHeader ''x-amz-expected-bucket-owner'' HString),
         (''fetch_owner'', OptQuery ''fetch-owner'' HBool), (''max_keys'', OptQuery ''max-keys'' (HInt 32)),
         (''optional_object_attributes'', OptListHeader ''x-amz-optional-object-attributes'' HString),
         (''prefix'', OptQuery ''prefix'' HString), (''request_payer'', OptHeader ''x-amz-request-payer'' HString),
         (''start_after'', OptQuery ''start-after'' HString)]\<rparr>"

definition ListParts_input :: op_input where
  "ListParts_input =
     \<lparr>in_path = TakeObject,
      in_fields =
        [(''expected_bucket_owner'', OptHeader ''x-amz-expected-bucket-owner'' HString),
         (''max_parts'', OptQuery ''max-parts'' (HInt 32)), (''part_number_marker'', OptQuery ''part-number-marker'' (HInt 32)),
         (''request_payer'', OptHeader ''x-amz-request-payer'' HString),
         (''sse_customer_algorithm'', OptHeader ''x-amz-server-side-encryption-customer-algorithm'' HString),
         (''sse_customer_key'', OptHeader ''x-amz-server-side-encryption-customer-key'' HString),
         (''sse_customer_key_md5'', OptHeader ''x-amz-server-side-encryption-customer-key-md5'' HString),
         (''upload_id'', Query ''uploadId'' HString)]\<rparr>"

definition PutBucketAbac_input :: op_input where
  "PutBucketAbac_input =
     \<lparr>in_path = TakeBucket,
      in_fields =
        [(''abac_status'', XmlBody (''AbacStatus'', None, [''AbacStatus''], AbacStatus_xml)),
         (''checksum_algorithm'', ChecksumAlgorithm), (''content_md5'', OptHeader ''content-md5'' HString),
         (''expected_bucket_owner'', OptHeader ''x-amz-expected-bucket-owner'' HString)]\<rparr>"

definition PutBucketAccelerateConfiguration_input :: op_input where
  "PutBucketAccelerateConfiguration_input =
     \<lparr>in_path = TakeBucket,
      in_fields =
        [(''accelerate_configuration'', XmlBody (''AccelerateConfiguration'', None, [''AccelerateConfiguration''], AccelerateConfiguration_xml)),
         (''checksum_algorithm'', ChecksumAlgorithm), (''expected_bucket_owner'', OptHeader ''x-amz-expected-bucket-owner'' HString)]\<rparr>"

definition PutBucketAcl_input :: op_input where
  "PutBucketAcl_input =
     \<lparr>in_path = TakeBucket,
      in_fields =
        [(''acl'', OptHeader ''x-amz-acl'' HString),
         (''access_control_policy'', OptXmlBody (''AccessControlPolicy'', None, [''AccessControlPolicy''], AccessControlPolicy_xml)),
         (''checksum_algorithm'', ChecksumAlgorithm), (''content_md5'', OptHeader ''content-md5'' HString),
         (''expected_bucket_owner'', OptHeader ''x-amz-expected-bucket-owner'' HString),
         (''grant_full_control'', OptHeader ''x-amz-grant-full-control'' HString),
         (''grant_read'', OptHeader ''x-amz-grant-read'' HString), (''grant_read_acp'', OptHeader ''x-amz-grant-read-acp'' HString),
         (''grant_write'', OptHeader ''x-amz-grant-write'' HString),
         (''grant_write_acp'', OptHeader ''x-amz-grant-write-acp'' HString)]\<rparr>"

definition PutBucketAnalyticsConfiguration_input :: op_input where
  "PutBucketAnalyticsConfiguration_input =
     \<lparr>in_path = TakeBucket,
      in_fields =
        [(''analytics_configuration'', XmlBody (''AnalyticsConfiguration'', None, [''AnalyticsConfiguration''], AnalyticsConfiguration_xml)),
         (''expected_bucket_owner'', OptHeader ''x-amz-expected-bucket-owner'' HString), (''id'', Query ''id'' HString)]\<rparr>"

definition PutBucketCors_input :: op_input where
  "PutBucketCors_input =
     \<lparr>in_path = TakeBucket,
      in_fields =
        [(''cors_configuration'', XmlBody (''CORSConfiguration'', None, [''CORSConfiguration''], CORSConfiguration_xml)),
         (''checksum_algorithm'', ChecksumAlgorithm), (''content_md5'', OptHeader ''content-md5'' HString),
         (''expected_bucket_owner'', OptHeader ''x-amz-expected-bucket-owner'' HString)]\<rparr>"

definition PutBucketEncryption_input :: op_input where
  "PutBucketEncryption_input =
     \<lparr>in_path = TakeBucket,
      in_fields =
        [(''checksum_algorithm'', ChecksumAlgorithm), (''content_md5'', OptHeader ''content-md5'' HString),
         (''expected_bucket_owner'', OptHeader ''x-amz-expected-bucket-owner'' HString),
         (''server_side_encryption_configuration'', XmlBody (''ServerSideEncryptionConfiguration'', None, [''ServerSideEncryptionConfiguration''], ServerSideEncryptionConfiguration_xml))]\<rparr>"

definition PutBucketIntelligentTieringConfiguration_input :: op_input where
  "PutBucketIntelligentTieringConfiguration_input =
     \<lparr>in_path = TakeBucket,
      in_fields =
        [(''expected_bucket_owner'', OptHeader ''x-amz-expected-bucket-owner'' HString), (''id'', Query ''id'' HString),
         (''intelligent_tiering_configuration'', XmlBody (''IntelligentTieringConfiguration'', None, [''IntelligentTieringConfiguration''], IntelligentTieringConfiguration_xml))]\<rparr>"

definition PutBucketInventoryConfiguration_input :: op_input where
  "PutBucketInventoryConfiguration_input =
     \<lparr>in_path = TakeBucket,
      in_fields =
        [(''expected_bucket_owner'', OptHeader ''x-amz-expected-bucket-owner'' HString), (''id'', Query ''id'' HString),
         (''inventory_configuration'', XmlBody (''InventoryConfiguration'', None, [''InventoryConfiguration''], InventoryConfiguration_xml))]\<rparr>"

definition PutBucketLifecycleConfiguration_input :: op_input where
  "PutBucketLifecycleConfiguration_input =
     \<lparr>in_path = TakeBucket,
      in_fields =
        [(''checksum_algorithm'', ChecksumAlgorithm),
         (''expected_bucket_owner'', OptHeader ''x-amz-expected-bucket-owner'' HString),
         (''lifecycle_configuration'', OptXmlBody (''LifecycleConfiguration'', None, [''LifecycleConfiguration''], BucketLifecycleConfiguration_xml)),
         (''transition_default_minimum_object_size'', OptHeader ''x-amz-transition-default-minimum-object-size'' HString)]\<rparr>"

definition PutBucketLogging_input :: op_input where
  "PutBucketLogging_input =
     \<lparr>in_path = TakeBucket,
      in_fields =
        [(''bucket_logging_status'', XmlBody (''BucketLoggingStatus'', None, [''BucketLoggingStatus''], BucketLoggingStatus_xml)),
         (''checksum_algorithm'', ChecksumAlgorithm), (''content_md5'', OptHeader ''content-md5'' HString),
         (''expected_bucket_owner'', OptHeader ''x-amz-expected-bucket-owner'' HString)]\<rparr>"

definition PutBucketMetricsConfiguration_input :: op_input where
  "PutBucketMetricsConfiguration_input =
     \<lparr>in_path = TakeBucket,
      in_fields =
        [(''expected_bucket_owner'', OptHeader ''x-amz-expected-bucket-owner'' HString), (''id'', Query ''id'' HString),
         (''metrics_configuration'', XmlBody (''MetricsConfiguration'', None, [''MetricsConfiguration''], MetricsConfiguration_xml))]\<rparr>"

definition PutBucketNotificationConfiguration_input :: op_input where
  "PutBucketNotificationConfiguration_input =
     \<lparr>in_path = TakeBucket,
      in_fields =
        [(''expected_bucket_owner'', OptHeader ''x-amz-expected-bucket-owner'' HString),
         (''notification_configuration'', XmlBody (''NotificationConfiguration'', None, [''NotificationConfiguration''], NotificationConfiguration_xml)),
         (''skip_destination_validation'', OptHeader ''x-amz-skip-destination-validation'' HBool)]\<rparr>"

definition PutBucketOwnershipControls_input :: op_input where
  "PutBucketOwnershipControls_input =
     \<lparr>in_path = TakeBucket,
      in_fields =
        [(''checksum_algorithm'', ChecksumAlgorithm), (''content_md5'', OptHeader ''content-md5'' HString),
         (''expected_bucket_owner'', OptHeader ''x-amz-expected-bucket-owner'' HString),
         (''ownership_controls'', XmlBody (''OwnershipControls'', None, [''OwnershipControls''], OwnershipControls_xml))]\<rparr>"

definition PutBucketPolicy_input :: op_input where
  "PutBucketPolicy_input =
     \<lparr>in_path = TakeBucket,
      in_fields =
        [(''checksum_algorithm'', ChecksumAlgorithm),
         (''confirm_remove_self_bucket_access'', OptHeader ''x-amz-confirm-remove-self-bucket-access'' HBool),
         (''content_md5'', OptHeader ''content-md5'' HString),
         (''expected_bucket_owner'', OptHeader ''x-amz-expected-bucket-owner'' HString), (''policy'', StringBody)]\<rparr>"

definition PutBucketReplication_input :: op_input where
  "PutBucketReplication_input =
     \<lparr>in_path = TakeBucket,
      in_fields =
        [(''checksum_algorithm'', ChecksumAlgorithm), (''content_md5'', OptHeader ''content-md5'' HString),
         (''expected_bucket_owner'', OptHeader ''x-amz-expected-bucket-owner'' HString),
         (''replication_configuration'', XmlBody (''ReplicationConfiguration'', None, [''ReplicationConfiguration''], ReplicationConfiguration_xml)),
         (''token'', OptHeader ''x-amz-bucket-object-lock-token'' HString)]\<rparr>"

definition PutBucketRequestPayment_input :: op_input where
  "PutBucketRequestPayment_input =
     \<lparr>in_path = TakeBucket,
      in_fields =
        [(''checksum_algorithm'', ChecksumAlgorithm), (''content_md5'', OptHeader ''content-md5'' HString),
         (''expected_bucket_owner'', OptHeader ''x-amz-expected-bucket-owner'' HString),
         (''request_payment_configuration'', XmlBody (''RequestPaymentConfiguration'', None, [''RequestPaymentConfiguration''], RequestPaymentConfiguration_xml))]\<rparr>"

definition PutBucketTagging_input :: op_input where
  "PutBucketTagging_input =
     \<lparr>in_path = TakeBucket,
      in_fields =
        [(''checksum_algorithm'', ChecksumAlgorithm), (''content_md5'', OptHeader ''content-md5'' HString),
         (''expected_bucket_owner'', OptHeader ''x-amz-expected-bucket-owner'' HString),
         (''tagging'', XmlBody (''Tagging'', None, [''Tagging''], Tagging_xml))]\<rparr>"

definition PutBucketVersioning_input :: op_input where
  "PutBucketVersioning_input =
     \<lparr>in_path = TakeBucket,
      in_fields =
        [(''checksum_algorithm'', ChecksumAlgorithm), (''content_md5'', OptHeader ''content-md5'' HString),
         (''expected_bucket_owner'', OptHeader ''x-amz-expected-bucket-owner'' HString), (''mfa'', OptHeader ''x-amz-mfa'' HString),
         (''versioning_configuration'', XmlBody (''VersioningConfiguration'', None, [''VersioningConfiguration''], VersioningConfiguration_xml))]\<rparr>"

definition PutBucketWebsite_input :: op_input where
  "PutBucketWebsite_input =
     \<lparr>in_path = TakeBucket,
      in_fields =
        [(''checksum_algorithm'', ChecksumAlgorithm), (''content_md5'', OptHeader ''content-md5'' HString),
         (''expected_bucket_owner'', OptHeader ''x-amz-expected-bucket-owner'' HString),
         (''website_configuration'', XmlBody (''WebsiteConfiguration'', None, [''WebsiteConfiguration''], WebsiteConfiguration_xml))]\<rparr>"

definition PutObject_input :: op_input where
  "PutObject_input =
     \<lparr>in_path = TakeObject,
      in_fields =
        [(''acl'', OptHeader ''x-amz-acl'' HString), (''body'', StreamBody),
         (''bucket_key_enabled'', OptHeader ''x-amz-server-side-encryption-bucket-key-enabled'' HBool),
         (''cache_control'', OptHeader ''cache-control'' HString), (''checksum_algorithm'', ChecksumAlgorithm),
         (''checksum_crc32'', OptHeader ''x-amz-checksum-crc32'' HString),
         (''checksum_crc32c'', OptHeader ''x-amz-checksum-crc32c'' HString),
         (''checksum_crc64nvme'', OptHeader ''x-amz-checksum-crc64nvme'' HString),
         (''checksum_md5'', OptHeader ''x-amz-checksum-md5'' HString),
         (''checksum_sha1'', OptHeader ''x-amz-checksum-sha1'' HString),
         (''checksum_sha256'', OptHeader ''x-amz-checksum-sha256'' HString),
         (''checksum_sha512'', OptHeader ''x-amz-checksum-sha512'' HString),
         (''checksum_xxhash128'', OptHeader ''x-amz-checksum-xxhash128'' HString),
         (''checksum_xxhash3'', OptHeader ''x-amz-checksum-xxhash3'' HString),
         (''checksum_xxhash64'', OptHeader ''x-amz-checksum-xxhash64'' HString),
         (''content_disposition'', OptHeader ''content-disposition'' HString),
         (''content_encoding'', OptHeader ''content-encoding'' HString),
         (''content_language'', OptHeader ''content-language'' HString),
         (''content_length'', OptHeader ''content-length'' (HInt 64)), (''content_md5'', OptHeader ''content-md5'' HString),
         (''content_type'', OptHeader ''content-type'' HString),
         (''expected_bucket_owner'', OptHeader ''x-amz-expected-bucket-owner'' HString),
         (''expires'', OptHeader ''expires'' HString), (''grant_full_control'', OptHeader ''x-amz-grant-full-control'' HString),
         (''grant_read'', OptHeader ''x-amz-grant-read'' HString), (''grant_read_acp'', OptHeader ''x-amz-grant-read-acp'' HString),
         (''grant_write_acp'', OptHeader ''x-amz-grant-write-acp'' HString), (''if_match'', OptHeader ''if-match'' HETagCondition),
         (''if_none_match'', OptHeader ''if-none-match'' HETagCondition), (''metadata'', OptMetadata),
         (''object_lock_legal_hold_status'', OptHeader ''x-amz-object-lock-legal-hold'' HString),
         (''object_lock_mode'', OptHeader ''x-amz-object-lock-mode'' HString),
         (''object_lock_retain_until_date'', OptHeaderTime ''x-amz-object-lock-retain-until-date'' DateTime),
         (''request_payer'', OptHeader ''x-amz-request-payer'' HString),
         (''sse_customer_algorithm'', OptHeader ''x-amz-server-side-encryption-customer-algorithm'' HString),
         (''sse_customer_key'', OptHeader ''x-amz-server-side-encryption-customer-key'' HString),
         (''sse_customer_key_md5'', OptHeader ''x-amz-server-side-encryption-customer-key-md5'' HString),
         (''ssekms_encryption_context'', OptHeader ''x-amz-server-side-encryption-context'' HString),
         (''ssekms_key_id'', OptHeader ''x-amz-server-side-encryption-aws-kms-key-id'' HString),
         (''server_side_encryption'', OptHeader ''x-amz-server-side-encryption'' HString),
         (''storage_class'', OptHeader ''x-amz-storage-class'' HString), (''tagging'', OptHeader ''x-amz-tagging'' HString),
         (''website_redirect_location'', OptHeader ''x-amz-website-redirect-location'' HString),
         (''write_offset_bytes'', OptHeader ''x-amz-write-offset-bytes'' (HInt 64))]\<rparr>"

definition PutObjectAcl_input :: op_input where
  "PutObjectAcl_input =
     \<lparr>in_path = TakeObject,
      in_fields =
        [(''acl'', OptHeader ''x-amz-acl'' HString),
         (''access_control_policy'', OptXmlBody (''AccessControlPolicy'', None, [''AccessControlPolicy''], AccessControlPolicy_xml)),
         (''checksum_algorithm'', ChecksumAlgorithm), (''content_md5'', OptHeader ''content-md5'' HString),
         (''expected_bucket_owner'', OptHeader ''x-amz-expected-bucket-owner'' HString),
         (''grant_full_control'', OptHeader ''x-amz-grant-full-control'' HString),
         (''grant_read'', OptHeader ''x-amz-grant-read'' HString), (''grant_read_acp'', OptHeader ''x-amz-grant-read-acp'' HString),
         (''grant_write'', OptHeader ''x-amz-grant-write'' HString),
         (''grant_write_acp'', OptHeader ''x-amz-grant-write-acp'' HString),
         (''request_payer'', OptHeader ''x-amz-request-payer'' HString), (''version_id'', OptQuery ''versionId'' HString)]\<rparr>"

definition PutObjectAnnotation_input :: op_input where
  "PutObjectAnnotation_input =
     \<lparr>in_path = TakeObject,
      in_fields =
        [(''annotation_name'', Query ''annotationName'' HString), (''annotation_payload'', StreamBody),
         (''checksum_algorithm'', ChecksumAlgorithm), (''checksum_crc32'', OptHeader ''x-amz-checksum-crc32'' HString),
         (''checksum_crc32c'', OptHeader ''x-amz-checksum-crc32c'' HString),
         (''checksum_crc64nvme'', OptHeader ''x-amz-checksum-crc64nvme'' HString),
         (''checksum_md5'', OptHeader ''x-amz-checksum-md5'' HString),
         (''checksum_sha1'', OptHeader ''x-amz-checksum-sha1'' HString),
         (''checksum_sha256'', OptHeader ''x-amz-checksum-sha256'' HString),
         (''checksum_sha512'', OptHeader ''x-amz-checksum-sha512'' HString),
         (''checksum_xxhash128'', OptHeader ''x-amz-checksum-xxhash128'' HString),
         (''checksum_xxhash3'', OptHeader ''x-amz-checksum-xxhash3'' HString),
         (''checksum_xxhash64'', OptHeader ''x-amz-checksum-xxhash64'' HString),
         (''content_md5'', OptHeader ''content-md5'' HString),
         (''expected_bucket_owner'', OptHeader ''x-amz-expected-bucket-owner'' HString),
         (''object_if_match'', OptHeader ''x-amz-object-if-match'' HString),
         (''request_payer'', OptHeader ''x-amz-request-payer'' HString), (''version_id'', OptQuery ''versionId'' HString)]\<rparr>"

definition PutObjectLegalHold_input :: op_input where
  "PutObjectLegalHold_input =
     \<lparr>in_path = TakeObject,
      in_fields =
        [(''checksum_algorithm'', ChecksumAlgorithm), (''content_md5'', OptHeader ''content-md5'' HString),
         (''expected_bucket_owner'', OptHeader ''x-amz-expected-bucket-owner'' HString),
         (''legal_hold'', XmlBodyRequired (''LegalHold'', None, [''LegalHold''], ObjectLockLegalHold_xml)),
         (''request_payer'', OptHeader ''x-amz-request-payer'' HString), (''version_id'', OptQuery ''versionId'' HString)]\<rparr>"

definition PutObjectLockConfiguration_input :: op_input where
  "PutObjectLockConfiguration_input =
     \<lparr>in_path = TakeBucket,
      in_fields =
        [(''checksum_algorithm'', ChecksumAlgorithm), (''content_md5'', OptHeader ''content-md5'' HString),
         (''expected_bucket_owner'', OptHeader ''x-amz-expected-bucket-owner'' HString),
         (''object_lock_configuration'', OptXmlBody (''ObjectLockConfiguration'', None, [''ObjectLockConfiguration''], ObjectLockConfiguration_xml)),
         (''request_payer'', OptHeader ''x-amz-request-payer'' HString),
         (''token'', OptHeader ''x-amz-bucket-object-lock-token'' HString)]\<rparr>"

definition PutObjectRetention_input :: op_input where
  "PutObjectRetention_input =
     \<lparr>in_path = TakeObject,
      in_fields =
        [(''bypass_governance_retention'', OptHeader ''x-amz-bypass-governance-retention'' HBool),
         (''checksum_algorithm'', ChecksumAlgorithm), (''content_md5'', OptHeader ''content-md5'' HString),
         (''expected_bucket_owner'', OptHeader ''x-amz-expected-bucket-owner'' HString),
         (''request_payer'', OptHeader ''x-amz-request-payer'' HString),
         (''retention'', XmlBodyRequired (''Retention'', None, [''Retention''], ObjectLockRetention_xml)),
         (''version_id'', OptQuery ''versionId'' HString)]\<rparr>"

definition PutObjectTagging_input :: op_input where
  "PutObjectTagging_input =
     \<lparr>in_path = TakeObject,
      in_fields =
        [(''checksum_algorithm'', ChecksumAlgorithm), (''content_md5'', OptHeader ''content-md5'' HString),
         (''expected_bucket_owner'', OptHeader ''x-amz-expected-bucket-owner'' HString),
         (''request_payer'', OptHeader ''x-amz-request-payer'' HString),
         (''tagging'', XmlBody (''Tagging'', None, [''Tagging''], Tagging_xml)), (''version_id'', OptQuery ''versionId'' HString)]\<rparr>"

definition PutPublicAccessBlock_input :: op_input where
  "PutPublicAccessBlock_input =
     \<lparr>in_path = TakeBucket,
      in_fields =
        [(''checksum_algorithm'', ChecksumAlgorithm), (''content_md5'', OptHeader ''content-md5'' HString),
         (''expected_bucket_owner'', OptHeader ''x-amz-expected-bucket-owner'' HString),
         (''public_access_block_configuration'', XmlBody (''PublicAccessBlockConfiguration'', None, [''PublicAccessBlockConfiguration''], PublicAccessBlockConfiguration_xml))]\<rparr>"

definition RenameObject_input :: op_input where
  "RenameObject_input =
     \<lparr>in_path = TakeObject,
      in_fields =
        [(''client_token'', OptHeader ''x-amz-client-token'' HString),
         (''destination_if_match'', OptHeader ''if-match'' HETagCondition),
         (''destination_if_modified_since'', OptHeaderTime ''if-modified-since'' HttpDate),
         (''destination_if_none_match'', OptHeader ''if-none-match'' HETagCondition),
         (''destination_if_unmodified_since'', OptHeaderTime ''if-unmodified-since'' HttpDate),
         (''rename_source'', Header ''x-amz-rename-source'' HString),
         (''source_if_match'', OptHeader ''x-amz-rename-source-if-match'' HString),
         (''source_if_modified_since'', OptHeaderTime ''x-amz-rename-source-if-modified-since'' HttpDate),
         (''source_if_none_match'', OptHeader ''x-amz-rename-source-if-none-match'' HString),
         (''source_if_unmodified_since'', OptHeaderTime ''x-amz-rename-source-if-unmodified-since'' HttpDate)]\<rparr>"

definition RestoreObject_input :: op_input where
  "RestoreObject_input =
     \<lparr>in_path = TakeObject,
      in_fields =
        [(''checksum_algorithm'', ChecksumAlgorithm),
         (''expected_bucket_owner'', OptHeader ''x-amz-expected-bucket-owner'' HString),
         (''request_payer'', OptHeader ''x-amz-request-payer'' HString),
         (''restore_request'', OptXmlBody (''RestoreRequest'', None, [''RestoreRequest''], RestoreRequest_xml)),
         (''version_id'', OptQuery ''versionId'' HString)]\<rparr>"

definition SelectObjectContent_input :: op_input where
  "SelectObjectContent_input =
     \<lparr>in_path = TakeObject,
      in_fields =
        [(''expected_bucket_owner'', OptHeader ''x-amz-expected-bucket-owner'' HString),
         (''sse_customer_algorithm'', OptHeader ''x-amz-server-side-encryption-customer-algorithm'' HString),
         (''sse_customer_key'', OptHeader ''x-amz-server-side-encryption-customer-key'' HString),
         (''sse_customer_key_md5'', OptHeader ''x-amz-server-side-encryption-customer-key-md5'' HString),
         (''request'', XmlBody (''SelectObjectContentRequest'', None, [''SelectObjectContentRequest'', ''SelectRequest''], SelectObjectContentRequest_xml))]\<rparr>"

definition UpdateBucketMetadataAnnotationTableConfiguration_input :: op_input where
  "UpdateBucketMetadataAnnotationTableConfiguration_input =
     \<lparr>in_path = TakeBucket,
      in_fields =
        [(''annotation_table_configuration'', XmlBody (''AnnotationTableConfiguration'', None, [''AnnotationTableConfiguration''], AnnotationTableConfigurationUpdates_xml)),
         (''checksum_algorithm'', ChecksumAlgorithm), (''content_md5'', OptHeader ''content-md5'' HString),
         (''expected_bucket_owner'', OptHeader ''x-amz-expected-bucket-owner'' HString)]\<rparr>"

definition UpdateBucketMetadataInventoryTableConfiguration_input :: op_input where
  "UpdateBucketMetadataInventoryTableConfiguration_input =
     \<lparr>in_path = TakeBucket,
      in_fields =
        [(''checksum_algorithm'', ChecksumAlgorithm), (''content_md5'', OptHeader ''content-md5'' HString),
         (''expected_bucket_owner'', OptHeader ''x-amz-expected-bucket-owner'' HString),
         (''inventory_table_configuration'', XmlBody (''InventoryTableConfiguration'', None, [''InventoryTableConfiguration''], InventoryTableConfigurationUpdates_xml))]\<rparr>"

definition UpdateBucketMetadataJournalTableConfiguration_input :: op_input where
  "UpdateBucketMetadataJournalTableConfiguration_input =
     \<lparr>in_path = TakeBucket,
      in_fields =
        [(''checksum_algorithm'', ChecksumAlgorithm), (''content_md5'', OptHeader ''content-md5'' HString),
         (''expected_bucket_owner'', OptHeader ''x-amz-expected-bucket-owner'' HString),
         (''journal_table_configuration'', XmlBody (''JournalTableConfiguration'', None, [''JournalTableConfiguration''], JournalTableConfigurationUpdates_xml))]\<rparr>"

definition UpdateObjectEncryption_input :: op_input where
  "UpdateObjectEncryption_input =
     \<lparr>in_path = TakeObject,
      in_fields =
        [(''checksum_algorithm'', ChecksumAlgorithm), (''content_md5'', OptHeader ''content-md5'' HString),
         (''expected_bucket_owner'', OptHeader ''x-amz-expected-bucket-owner'' HString),
         (''object_encryption'', XmlBody (''ObjectEncryption'', None, [''ObjectEncryption''], ObjectEncryption_xml)),
         (''request_payer'', OptHeader ''x-amz-request-payer'' HString), (''version_id'', OptQuery ''versionId'' HString)]\<rparr>"

definition UploadPart_input :: op_input where
  "UploadPart_input =
     \<lparr>in_path = TakeObject,
      in_fields =
        [(''body'', StreamBody), (''checksum_algorithm'', ChecksumAlgorithm),
         (''checksum_crc32'', OptHeader ''x-amz-checksum-crc32'' HString),
         (''checksum_crc32c'', OptHeader ''x-amz-checksum-crc32c'' HString),
         (''checksum_crc64nvme'', OptHeader ''x-amz-checksum-crc64nvme'' HString),
         (''checksum_md5'', OptHeader ''x-amz-checksum-md5'' HString),
         (''checksum_sha1'', OptHeader ''x-amz-checksum-sha1'' HString),
         (''checksum_sha256'', OptHeader ''x-amz-checksum-sha256'' HString),
         (''checksum_sha512'', OptHeader ''x-amz-checksum-sha512'' HString),
         (''checksum_xxhash128'', OptHeader ''x-amz-checksum-xxhash128'' HString),
         (''checksum_xxhash3'', OptHeader ''x-amz-checksum-xxhash3'' HString),
         (''checksum_xxhash64'', OptHeader ''x-amz-checksum-xxhash64'' HString),
         (''content_length'', OptHeader ''content-length'' (HInt 64)), (''content_md5'', OptHeader ''content-md5'' HString),
         (''expected_bucket_owner'', OptHeader ''x-amz-expected-bucket-owner'' HString),
         (''part_number'', Query ''partNumber'' (HInt 32)), (''request_payer'', OptHeader ''x-amz-request-payer'' HString),
         (''sse_customer_algorithm'', OptHeader ''x-amz-server-side-encryption-customer-algorithm'' HString),
         (''sse_customer_key'', OptHeader ''x-amz-server-side-encryption-customer-key'' HString),
         (''sse_customer_key_md5'', OptHeader ''x-amz-server-side-encryption-customer-key-md5'' HString),
         (''upload_id'', Query ''uploadId'' HString)]\<rparr>"

definition UploadPartCopy_input :: op_input where
  "UploadPartCopy_input =
     \<lparr>in_path = TakeObject,
      in_fields =
        [(''copy_source'', Header ''x-amz-copy-source'' HCopySource),
         (''copy_source_if_match'', OptHeader ''x-amz-copy-source-if-match'' HETagCondition),
         (''copy_source_if_modified_since'', OptHeaderTime ''x-amz-copy-source-if-modified-since'' HttpDate),
         (''copy_source_if_none_match'', OptHeader ''x-amz-copy-source-if-none-match'' HETagCondition),
         (''copy_source_if_unmodified_since'', OptHeaderTime ''x-amz-copy-source-if-unmodified-since'' HttpDate),
         (''copy_source_range'', OptHeader ''x-amz-copy-source-range'' HString),
         (''copy_source_sse_customer_algorithm'', OptHeader ''x-amz-copy-source-server-side-encryption-customer-algorithm'' HString),
         (''copy_source_sse_customer_key'', OptHeader ''x-amz-copy-source-server-side-encryption-customer-key'' HString),
         (''copy_source_sse_customer_key_md5'', OptHeader ''x-amz-copy-source-server-side-encryption-customer-key-md5'' HString),
         (''expected_bucket_owner'', OptHeader ''x-amz-expected-bucket-owner'' HString),
         (''expected_source_bucket_owner'', OptHeader ''x-amz-source-expected-bucket-owner'' HString),
         (''part_number'', Query ''partNumber'' (HInt 32)), (''request_payer'', OptHeader ''x-amz-request-payer'' HString),
         (''sse_customer_algorithm'', OptHeader ''x-amz-server-side-encryption-customer-algorithm'' HString),
         (''sse_customer_key'', OptHeader ''x-amz-server-side-encryption-customer-key'' HString),
         (''sse_customer_key_md5'', OptHeader ''x-amz-server-side-encryption-customer-key-md5'' HString),
         (''upload_id'', Query ''uploadId'' HString)]\<rparr>"

definition WriteGetObjectResponse_input :: op_input where
  "WriteGetObjectResponse_input =
     \<lparr>in_path = NoPath,
      in_fields =
        [(''accept_ranges'', OptHeader ''x-amz-fwd-header-accept-ranges'' HString), (''body'', StreamBody),
         (''bucket_key_enabled'', OptHeader ''x-amz-fwd-header-x-amz-server-side-encryption-bucket-key-enabled'' HBool),
         (''cache_control'', OptHeader ''x-amz-fwd-header-cache-control'' HString),
         (''checksum_crc32'', OptHeader ''x-amz-fwd-header-x-amz-checksum-crc32'' HString),
         (''checksum_crc32c'', OptHeader ''x-amz-fwd-header-x-amz-checksum-crc32c'' HString),
         (''checksum_crc64nvme'', OptHeader ''x-amz-fwd-header-x-amz-checksum-crc64nvme'' HString),
         (''checksum_md5'', OptHeader ''x-amz-fwd-header-x-amz-checksum-md5'' HString),
         (''checksum_sha1'', OptHeader ''x-amz-fwd-header-x-amz-checksum-sha1'' HString),
         (''checksum_sha256'', OptHeader ''x-amz-fwd-header-x-amz-checksum-sha256'' HString),
         (''checksum_sha512'', OptHeader ''x-amz-fwd-header-x-amz-checksum-sha512'' HString),
         (''checksum_xxhash128'', OptHeader ''x-amz-fwd-header-x-amz-checksum-xxhash128'' HString),
         (''checksum_xxhash3'', OptHeader ''x-amz-fwd-header-x-amz-checksum-xxhash3'' HString),
         (''checksum_xxhash64'', OptHeader ''x-amz-fwd-header-x-amz-checksum-xxhash64'' HString),
         (''content_disposition'', OptHeader ''x-amz-fwd-header-content-disposition'' HString),
         (''content_encoding'', OptHeader ''x-amz-fwd-header-content-encoding'' HString),
         (''content_language'', OptHeader ''x-amz-fwd-header-content-language'' HString),
         (''content_length'', OptHeader ''content-length'' (HInt 64)),
         (''content_range'', OptHeader ''x-amz-fwd-header-content-range'' HString),
         (''content_type'', OptHeader ''x-amz-fwd-header-content-type'' HString),
         (''delete_marker'', OptHeader ''x-amz-fwd-header-x-amz-delete-marker'' HBool),
         (''e_tag'', OptHeader ''x-amz-fwd-header-etag'' HETag), (''error_code'', OptHeader ''x-amz-fwd-error-code'' HString),
         (''error_message'', OptHeader ''x-amz-fwd-error-message'' HString),
         (''expiration'', OptHeader ''x-amz-fwd-header-x-amz-expiration'' HString),
         (''expires'', OptHeader ''x-amz-fwd-header-expires'' HString),
         (''last_modified'', OptHeaderTime ''x-amz-fwd-header-last-modified'' HttpDate), (''metadata'', OptMetadata),
         (''missing_meta'', OptHeader ''x-amz-fwd-header-x-amz-missing-meta'' (HInt 32)),
         (''object_lock_legal_hold_status'', OptHeader ''x-amz-fwd-header-x-amz-object-lock-legal-hold'' HString),
         (''object_lock_mode'', OptHeader ''x-amz-fwd-header-x-amz-object-lock-mode'' HString),
         (''object_lock_retain_until_date'', OptHeaderTime ''x-amz-fwd-header-x-amz-object-lock-retain-until-date'' DateTime),
         (''parts_count'', OptHeader ''x-amz-fwd-header-x-amz-mp-parts-count'' (HInt 32)),
         (''replication_status'', OptHeader ''x-amz-fwd-header-x-amz-replication-status'' HString),
         (''request_charged'', OptHeader ''x-amz-fwd-header-x-amz-request-charged'' HString),
         (''request_route'', Header ''x-amz-request-route'' HString), (''request_token'', Header ''x-amz-request-token'' HString),
         (''restore'', OptHeader ''x-amz-fwd-header-x-amz-restore'' HString),
         (''sse_customer_algorithm'', OptHeader ''x-amz-fwd-header-x-amz-server-side-encryption-customer-algorithm'' HString),
         (''sse_customer_key_md5'', OptHeader ''x-amz-fwd-header-x-amz-server-side-encryption-customer-key-md5'' HString),
         (''ssekms_key_id'', OptHeader ''x-amz-fwd-header-x-amz-server-side-encryption-aws-kms-key-id'' HString),
         (''server_side_encryption'', OptHeader ''x-amz-fwd-header-x-amz-server-side-encryption'' HString),
         (''status_code'', OptHeader ''x-amz-fwd-status'' (HInt 32)),
         (''storage_class'', OptHeader ''x-amz-fwd-header-x-amz-storage-class'' HString),
         (''tag_count'', OptHeader ''x-amz-fwd-header-x-amz-tagging-count'' (HInt 32)),
         (''version_id'', OptHeader ''x-amz-fwd-header-x-amz-version-id'' HString)]\<rparr>"

text \<open>The operations by name, PostObject apart.\<close>

definition OPERATION_INPUTS :: "(operation \<times> op_input) list" where
  "OPERATION_INPUTS =
     [(''AbortMultipartUpload'', AbortMultipartUpload_input), (''CompleteMultipartUpload'', CompleteMultipartUpload_input),
      (''CopyObject'', CopyObject_input), (''CreateBucket'', CreateBucket_input),
      (''CreateBucketMetadataConfiguration'', CreateBucketMetadataConfiguration_input),
      (''CreateBucketMetadataTableConfiguration'', CreateBucketMetadataTableConfiguration_input),
      (''CreateMultipartUpload'', CreateMultipartUpload_input), (''CreateSession'', CreateSession_input),
      (''DeleteBucket'', DeleteBucket_input), (''DeleteBucketAnalyticsConfiguration'', DeleteBucketAnalyticsConfiguration_input),
      (''DeleteBucketCors'', DeleteBucketCors_input), (''DeleteBucketEncryption'', DeleteBucketEncryption_input),
      (''DeleteBucketIntelligentTieringConfiguration'', DeleteBucketIntelligentTieringConfiguration_input),
      (''DeleteBucketInventoryConfiguration'', DeleteBucketInventoryConfiguration_input),
      (''DeleteBucketLifecycle'', DeleteBucketLifecycle_input),
      (''DeleteBucketMetadataConfiguration'', DeleteBucketMetadataConfiguration_input),
      (''DeleteBucketMetadataTableConfiguration'', DeleteBucketMetadataTableConfiguration_input),
      (''DeleteBucketMetricsConfiguration'', DeleteBucketMetricsConfiguration_input),
      (''DeleteBucketOwnershipControls'', DeleteBucketOwnershipControls_input),
      (''DeleteBucketPolicy'', DeleteBucketPolicy_input), (''DeleteBucketReplication'', DeleteBucketReplication_input),
      (''DeleteBucketTagging'', DeleteBucketTagging_input), (''DeleteBucketWebsite'', DeleteBucketWebsite_input),
      (''DeleteObject'', DeleteObject_input), (''DeleteObjectAnnotation'', DeleteObjectAnnotation_input),
      (''DeleteObjectTagging'', DeleteObjectTagging_input), (''DeleteObjects'', DeleteObjects_input),
      (''DeletePublicAccessBlock'', DeletePublicAccessBlock_input), (''GetBucketAbac'', GetBucketAbac_input),
      (''GetBucketAccelerateConfiguration'', GetBucketAccelerateConfiguration_input), (''GetBucketAcl'', GetBucketAcl_input),
      (''GetBucketAnalyticsConfiguration'', GetBucketAnalyticsConfiguration_input), (''GetBucketCors'', GetBucketCors_input),
      (''GetBucketEncryption'', GetBucketEncryption_input),
      (''GetBucketIntelligentTieringConfiguration'', GetBucketIntelligentTieringConfiguration_input),
      (''GetBucketInventoryConfiguration'', GetBucketInventoryConfiguration_input),
      (''GetBucketLifecycleConfiguration'', GetBucketLifecycleConfiguration_input),
      (''GetBucketLocation'', GetBucketLocation_input), (''GetBucketLogging'', GetBucketLogging_input),
      (''GetBucketMetadataConfiguration'', GetBucketMetadataConfiguration_input),
      (''GetBucketMetadataTableConfiguration'', GetBucketMetadataTableConfiguration_input),
      (''GetBucketMetricsConfiguration'', GetBucketMetricsConfiguration_input),
      (''GetBucketNotificationConfiguration'', GetBucketNotificationConfiguration_input),
      (''GetBucketOwnershipControls'', GetBucketOwnershipControls_input), (''GetBucketPolicy'', GetBucketPolicy_input),
      (''GetBucketPolicyStatus'', GetBucketPolicyStatus_input), (''GetBucketReplication'', GetBucketReplication_input),
      (''GetBucketRequestPayment'', GetBucketRequestPayment_input), (''GetBucketTagging'', GetBucketTagging_input),
      (''GetBucketVersioning'', GetBucketVersioning_input), (''GetBucketWebsite'', GetBucketWebsite_input),
      (''GetObject'', GetObject_input), (''GetObjectAcl'', GetObjectAcl_input),
      (''GetObjectAnnotation'', GetObjectAnnotation_input), (''GetObjectAttributes'', GetObjectAttributes_input),
      (''GetObjectLegalHold'', GetObjectLegalHold_input), (''GetObjectLockConfiguration'', GetObjectLockConfiguration_input),
      (''GetObjectRetention'', GetObjectRetention_input), (''GetObjectTagging'', GetObjectTagging_input),
      (''GetObjectTorrent'', GetObjectTorrent_input), (''GetPublicAccessBlock'', GetPublicAccessBlock_input),
      (''HeadBucket'', HeadBucket_input), (''HeadObject'', HeadObject_input),
      (''ListBucketAnalyticsConfigurations'', ListBucketAnalyticsConfigurations_input),
      (''ListBucketIntelligentTieringConfigurations'', ListBucketIntelligentTieringConfigurations_input),
      (''ListBucketInventoryConfigurations'', ListBucketInventoryConfigurations_input),
      (''ListBucketMetricsConfigurations'', ListBucketMetricsConfigurations_input), (''ListBuckets'', ListBuckets_input),
      (''ListDirectoryBuckets'', ListDirectoryBuckets_input), (''ListMultipartUploads'', ListMultipartUploads_input),
      (''ListObjectAnnotations'', ListObjectAnnotations_input), (''ListObjectVersions'', ListObjectVersions_input),
      (''ListObjects'', ListObjects_input), (''ListObjectsV2'', ListObjectsV2_input), (''ListParts'', ListParts_input),
      (''PutBucketAbac'', PutBucketAbac_input), (''PutBucketAccelerateConfiguration'', PutBucketAccelerateConfiguration_input),
      (''PutBucketAcl'', PutBucketAcl_input), (''PutBucketAnalyticsConfiguration'', PutBucketAnalyticsConfiguration_input),
      (''PutBucketCors'', PutBucketCors_input), (''PutBucketEncryption'', PutBucketEncryption_input),
      (''PutBucketIntelligentTieringConfiguration'', PutBucketIntelligentTieringConfiguration_input),
      (''PutBucketInventoryConfiguration'', PutBucketInventoryConfiguration_input),
      (''PutBucketLifecycleConfiguration'', PutBucketLifecycleConfiguration_input),
      (''PutBucketLogging'', PutBucketLogging_input), (''PutBucketMetricsConfiguration'', PutBucketMetricsConfiguration_input),
      (''PutBucketNotificationConfiguration'', PutBucketNotificationConfiguration_input),
      (''PutBucketOwnershipControls'', PutBucketOwnershipControls_input), (''PutBucketPolicy'', PutBucketPolicy_input),
      (''PutBucketReplication'', PutBucketReplication_input), (''PutBucketRequestPayment'', PutBucketRequestPayment_input),
      (''PutBucketTagging'', PutBucketTagging_input), (''PutBucketVersioning'', PutBucketVersioning_input),
      (''PutBucketWebsite'', PutBucketWebsite_input), (''PutObject'', PutObject_input), (''PutObjectAcl'', PutObjectAcl_input),
      (''PutObjectAnnotation'', PutObjectAnnotation_input), (''PutObjectLegalHold'', PutObjectLegalHold_input),
      (''PutObjectLockConfiguration'', PutObjectLockConfiguration_input), (''PutObjectRetention'', PutObjectRetention_input),
      (''PutObjectTagging'', PutObjectTagging_input), (''PutPublicAccessBlock'', PutPublicAccessBlock_input),
      (''RenameObject'', RenameObject_input), (''RestoreObject'', RestoreObject_input),
      (''SelectObjectContent'', SelectObjectContent_input),
      (''UpdateBucketMetadataAnnotationTableConfiguration'', UpdateBucketMetadataAnnotationTableConfiguration_input),
      (''UpdateBucketMetadataInventoryTableConfiguration'', UpdateBucketMetadataInventoryTableConfiguration_input),
      (''UpdateBucketMetadataJournalTableConfiguration'', UpdateBucketMetadataJournalTableConfiguration_input),
      (''UpdateObjectEncryption'', UpdateObjectEncryption_input), (''UploadPart'', UploadPart_input),
      (''UploadPartCopy'', UploadPartCopy_input), (''WriteGetObjectResponse'', WriteGetObjectResponse_input)]"

section \<open>POST forms\<close>

datatype form_source = FieldValue bytes htype | FieldTime bytes ts_format | FieldMetadata

definition PutObject_form :: "(bytes \<times> form_source) list" where
  "PutObject_form =
     [(''acl'', FieldValue ''x-amz-acl'' HString),
      (''bucket_key_enabled'', FieldValue ''x-amz-server-side-encryption-bucket-key-enabled'' HBool),
      (''cache_control'', FieldValue ''cache-control'' HString),
      (''checksum_algorithm'', FieldValue ''x-amz-sdk-checksum-algorithm'' HString),
      (''checksum_crc32'', FieldValue ''x-amz-checksum-crc32'' HString),
      (''checksum_crc32c'', FieldValue ''x-amz-checksum-crc32c'' HString),
      (''checksum_crc64nvme'', FieldValue ''x-amz-checksum-crc64nvme'' HString),
      (''checksum_md5'', FieldValue ''x-amz-checksum-md5'' HString),
      (''checksum_sha1'', FieldValue ''x-amz-checksum-sha1'' HString),
      (''checksum_sha256'', FieldValue ''x-amz-checksum-sha256'' HString),
      (''checksum_sha512'', FieldValue ''x-amz-checksum-sha512'' HString),
      (''checksum_xxhash128'', FieldValue ''x-amz-checksum-xxhash128'' HString),
      (''checksum_xxhash3'', FieldValue ''x-amz-checksum-xxhash3'' HString),
      (''checksum_xxhash64'', FieldValue ''x-amz-checksum-xxhash64'' HString),
      (''content_disposition'', FieldValue ''content-disposition'' HString),
      (''content_encoding'', FieldValue ''content-encoding'' HString),
      (''content_language'', FieldValue ''content-language'' HString), (''content_md5'', FieldValue ''content-md5'' HString),
      (''content_type'', FieldValue ''content-type'' HString),
      (''expected_bucket_owner'', FieldValue ''x-amz-expected-bucket-owner'' HString),
      (''expires'', FieldValue ''expires'' HString), (''grant_full_control'', FieldValue ''x-amz-grant-full-control'' HString),
      (''grant_read'', FieldValue ''x-amz-grant-read'' HString),
      (''grant_read_acp'', FieldValue ''x-amz-grant-read-acp'' HString),
      (''grant_write_acp'', FieldValue ''x-amz-grant-write-acp'' HString),
      (''if_match'', FieldValue ''if-match'' HETagCondition), (''if_none_match'', FieldValue ''if-none-match'' HETagCondition),
      (''metadata'', FieldMetadata), (''object_lock_legal_hold_status'', FieldValue ''x-amz-object-lock-legal-hold'' HString),
      (''object_lock_mode'', FieldValue ''x-amz-object-lock-mode'' HString),
      (''object_lock_retain_until_date'', FieldTime ''x-amz-object-lock-retain-until-date'' DateTime),
      (''request_payer'', FieldValue ''x-amz-request-payer'' HString),
      (''sse_customer_algorithm'', FieldValue ''x-amz-server-side-encryption-customer-algorithm'' HString),
      (''sse_customer_key'', FieldValue ''x-amz-server-side-encryption-customer-key'' HString),
      (''sse_customer_key_md5'', FieldValue ''x-amz-server-side-encryption-customer-key-md5'' HString),
      (''ssekms_encryption_context'', FieldValue ''x-amz-server-side-encryption-context'' HString),
      (''ssekms_key_id'', FieldValue ''x-amz-server-side-encryption-aws-kms-key-id'' HString),
      (''server_side_encryption'', FieldValue ''x-amz-server-side-encryption'' HString),
      (''storage_class'', FieldValue ''x-amz-storage-class'' HString), (''tagging'', FieldValue ''x-amz-tagging'' HString),
      (''website_redirect_location'', FieldValue ''x-amz-website-redirect-location'' HString),
      (''write_offset_bytes'', FieldValue ''x-amz-write-offset-bytes'' (HInt 64))]"

text \<open>\<^verbatim>\<open>Metadata\<close> is a \<^verbatim>\<open>HashMap\<close>, here an association list: inserting replaces the value of a key that is there.\<close>

fun metadata_insert :: "bytes \<Rightarrow> bytes \<Rightarrow> (bytes \<times> bytes) list \<Rightarrow> (bytes \<times> bytes) list" where
  "metadata_insert key v [] = [(key, v)]"
| "metadata_insert key v ((k, w) # m) = (if k = key then (k, v) # m else (k, w) # metadata_insert key v m)"

definition form_metadata :: "post_form \<Rightarrow> hval option" where
  "form_metadata m =
     (let md = fold (\<lambda>(name, v) md. case strip_prefix ''x-amz-meta-'' name of
                       Some key \<Rightarrow> if key = [] then md else metadata_insert key v md
                     | None \<Rightarrow> md) (form_fields m) []
      in if md = [] then None else Some (HvMap md))"

fun read_form_field :: "http_env \<Rightarrow> post_form \<Rightarrow> form_source \<Rightarrow> hval option s3_result" where
  "read_form_field E m (FieldValue name t) = parse_field_value m name t"
| "read_form_field E m (FieldTime name fmt) = parse_field_value_timestamp E m name fmt"
| "read_form_field E m FieldMetadata = Inr (form_metadata m)"

fun read_form_fields :: "http_env \<Rightarrow> post_form \<Rightarrow> (bytes \<times> form_source) list \<Rightarrow> input s3_result" where
  "read_form_fields E m [] = Inr []"
| "read_form_fields E m ((field, src) # rest) =
     and_then (read_form_field E m src) (\<lambda>v. and_then (read_form_fields E m rest) (\<lambda>vs. Inr ((field, v) # vs)))"

definition post_stream_exact :: "post_stream \<Rightarrow> nat option" where
  "post_stream_exact s =
     (case s of PostFile f \<Rightarrow> FileStream_remaining_length f | PostVec v \<Rightarrow> RemainingLength_exact (RemainingLength_new_exact (remaining_bytes v)))"

text \<open>The result keeps the request with what has been taken from it.\<close>

definition deserialize_http_multipart :: "http_env \<Rightarrow> post_form \<Rightarrow> 'x request \<Rightarrow> (input s3_result \<times> 'x request) option" where
  "deserialize_http_multipart E m req =
     (case unwrap_bucket req of
        None \<Rightarrow> None
      | Some (bucket, req1) \<Rightarrow>
          Some (case find_field_value m ''key'' of
             None \<Rightarrow> (Inl InvalidRequest, req1)
           | Some key \<Rightarrow>
               (let req2 = req1\<lparr>rq_s3ext := (rq_s3ext req1)\<lparr>ex_post_object_stream := None\<rparr>\<rparr>
                in case ex_post_object_stream (rq_s3ext req1) of
                     None \<Rightarrow> (Inl InternalError, req2)
                   | Some body_stream \<Rightarrow>
                       (case post_stream_exact body_stream of
                          Some n \<Rightarrow>
                            (if n \<ge> 2 ^ 63 then (Inl InvalidArgument, req2)
                             else (map_sum id (\<lambda>fs. [(''bucket'', Some (HvString bucket)), (''key'', Some (HvString key)),
                                 (''body'', Some (HvStream body_stream)),
                                 (''content_length'', if n \<noteq> 0 then Some (HvInt (int n)) else None)] @ fs)
                                 (read_form_fields E m PutObject_form), req2))
                        | None \<Rightarrow>
                            (map_sum id (\<lambda>fs. [(''bucket'', Some (HvString bucket)), (''key'', Some (HvString key)),
                                 (''body'', Some (HvStream body_stream)), (''content_length'', None)] @ fs)
                                 (read_form_fields E m PutObject_form), req2)))))"

definition take_multipart :: "'x request \<Rightarrow> (post_form \<times> file_stream option) option \<times> 'x request" where
  "take_multipart req = (ex_multipart (rq_s3ext req), req\<lparr>rq_s3ext := (rq_s3ext req)\<lparr>ex_multipart := None\<rparr>\<rparr>)"

definition PutObject_deserialize_http :: "http_env \<Rightarrow> 'x request \<Rightarrow> (input s3_result \<times> 'x request) option" where
  "PutObject_deserialize_http E req =
     (case take_multipart req of
        (Some m, req1) \<Rightarrow> deserialize_http_multipart E (fst m) req1
      | (None, req1) \<Rightarrow> deserialize_input E PutObject_input req1)"

text \<open>
  The input of PostObject has the fields of PutObject and three more. The
  conversion between the two inputs moves the fields by name.
\<close>

definition PostObject_deserialize_http :: "http_env \<Rightarrow> 'x request \<Rightarrow> (input s3_result \<times> 'x request) option" where
  "PostObject_deserialize_http E req =
     (case take_multipart req of
        (None, req1) \<Rightarrow> Some (Inl InvalidRequest, req1)
      | (Some mf, req1) \<Rightarrow>
          (let m = fst mf
           in case (case parse_field_value m ''success_action_redirect'' HString of
                      Inr None \<Rightarrow> parse_field_value m ''redirect'' HString
                    | r \<Rightarrow> r) of
                Inl e \<Rightarrow> Some (Inl e, req1)
              | Inr redirect \<Rightarrow>
                  (case parse_field_value m ''success_action_status'' (HInt 32) of
                     Inl e \<Rightarrow> Some (Inl e, req1)
                   | Inr status \<Rightarrow>
                       (let pol = ex_post_policy (rq_s3ext req1);
                            req2 = req1\<lparr>rq_s3ext := (rq_s3ext req1)\<lparr>ex_post_policy := None\<rparr>\<rparr>
                        in map_option (map_prod (map_sum id (\<lambda>fs. fs @
                               [(''success_action_redirect'', redirect), (''success_action_status'', status),
                                (''policy'', map_option HvPolicy pol)])) id)
                             (deserialize_http_multipart E m req2)))))"

section \<open>The input of an operation\<close>

definition deserialize_http :: "http_env \<Rightarrow> operation \<Rightarrow> 'x request \<Rightarrow> (input s3_result \<times> 'x request) option" where
  "deserialize_http E op req =
     (if op = ''PostObject'' then PostObject_deserialize_http E req
      else if op = ''PutObject'' then PutObject_deserialize_http E req
      else (case map_of OPERATION_INPUTS op of Some spec \<Rightarrow> deserialize_input E spec req | None \<Rightarrow> None))"

end
