(* ===== verification/Xml_Answers.thy ===== *)
theory Xml_Answers
  imports Xml_Types
begin

text \<open>
  Every reader of the codec answers on every input, well formed or not: on whatever the tokenizer delivers it ends with a value
  or an error. The measure is the number of events that are still to come; the end of the input, which can be peeked at, does
  not count.
\<close>

definition ahead :: "deserializer \<Rightarrow> nat" where
  "ahead d = 2 * length (xml_inner d) + (case peeked d of None \<Rightarrow> 0 | Some ev \<Rightarrow> if ev = DEof then 0 else 1)
     + (case next_slot d of None \<Rightarrow> 0 | Some _ \<Rightarrow> 1)"

lemma ahead_le: "ahead d \<le> events_left d"
  by (simp add: ahead_def events_left_def split: option.splits)

lemma read_inner_ahead:
  "read_inner xs = (Inr ev, slot, r) \<Longrightarrow>
     2 * length r + (case slot of None \<Rightarrow> 0 | Some _ \<Rightarrow> 1) + (if ev = DEof then 0 else 1) \<le> 2 * length xs"
  by (induction xs rule: read_inner.induct) (auto split: xml_event.splits option.splits)

lemma read_event_ahead:
  "read_event d = (Inr ev, d1) \<Longrightarrow> peeked d = None \<Longrightarrow>
     ahead d1 + (if ev = DEof then 0 else 1) \<le> ahead d \<and> peeked d1 = None"
  using read_inner_ahead [of "xml_inner d" ev]
  by (auto simp: read_event_def ahead_def split: option.splits prod.splits if_splits)

lemma next_event_ahead: "next_event d = (Inr ev, d1) \<Longrightarrow> ahead d1 + (if ev = DEof then 0 else 1) \<le> ahead d"
  using read_event_ahead [of d ev d1] by (auto simp: next_event_def ahead_def split: option.splits)

lemma peek_event_ahead:
  "peek_event d = (Inr ev, d1) \<Longrightarrow> ahead d1 \<le> ahead d \<and> ahead (consume_peeked d1) + (if ev = DEof then 0 else 1) \<le> ahead d"
proof (cases "peeked d")
  case None
  assume "peek_event d = (Inr ev, d1)"
  with None obtain d0 where d0: "read_event d = (Inr ev, d0)" "d1 = d0\<lparr>peeked := Some ev\<rparr>"
    by (auto simp: peek_event_def split: prod.splits sum.splits)
  from read_event_ahead [OF d0(1) None] show ?thesis
    by (auto simp: d0(2) ahead_def consume_peeked_def split: option.splits)
next
  case (Some ev')
  assume "peek_event d = (Inr ev, d1)"
  with Some show ?thesis by (auto simp: peek_event_def ahead_def consume_peeked_def split: option.splits)
qed

lemma next_markup_ahead: "next_markup d = (Inr ev, d1) \<Longrightarrow> ahead d1 \<le> ahead d"
proof (induction d rule: next_markup.induct)
  case (1 d)
  show ?case
  proof (cases "next_event d")
    case (Pair r d0)
    show ?thesis
    proof (cases "\<exists>t. r = Inr (DText t)")
      case True
      then obtain t where r: "r = Inr (DText t)" by blast
      have "next_markup d0 = (Inr ev, d1)" using 1(2) Pair r by (simp add: next_markup.simps [of d])
      from 1(1) [OF Pair [symmetric] r refl this] next_event_ahead [of d "DText t" d0] Pair r show ?thesis by simp
    next
      case False
      then have "next_markup d = (r, d0)"
        using Pair by (simp add: next_markup.simps [of d] split: sum.splits de_event.splits)
      with 1(2) Pair next_event_ahead [of d ev d1] show ?thesis by simp
    qed
  qed
qed

lemma peek_markup_ahead:
  "peek_markup d = (Inr ev, d1) \<Longrightarrow> ahead d1 \<le> ahead d \<and> ahead (consume_peeked d1) + (if ev = DEof then 0 else 1) \<le> ahead d"
proof (induction d rule: peek_markup.induct)
  case (1 d)
  show ?case
  proof (cases "peek_event d")
    case (Pair r d0)
    show ?thesis
    proof (cases "\<exists>t. r = Inr (DText t)")
      case True
      then obtain t where r: "r = Inr (DText t)" by blast
      have "peek_markup (consume_peeked d0) = (Inr ev, d1)" using 1(2) Pair r by (simp add: peek_markup.simps [of d])
      from 1(1) [OF Pair [symmetric] r refl this] peek_event_ahead [of d "DText t" d0] Pair r show ?thesis by auto
    next
      case False
      then have "peek_markup d = (r, d0)"
        using Pair by (simp add: peek_markup.simps [of d] split: sum.splits de_event.splits)
      with 1(2) Pair peek_event_ahead [of d ev d1] show ?thesis by simp
    qed
  qed
qed

section \<open>Readers that answer\<close>

definition answers :: "'a de \<Rightarrow> bool" where
  "answers m \<longleftrightarrow> (\<forall>d. \<exists>r d1. m d = (Some r, d1) \<and> (case r of Inr _ \<Rightarrow> ahead d1 \<le> ahead d | Inl _ \<Rightarrow> True))"

lemma answersE:
  assumes "answers m"
  obtains (fails) e d1 where "m d = (Some (Inl e), d1)" | (reads) a d1 where "m d = (Some (Inr a), d1)" "ahead d1 \<le> ahead d"
proof -
  from assms obtain r d1 where "m d = (Some r, d1)" "case r of Inr _ \<Rightarrow> ahead d1 \<le> ahead d | Inl _ \<Rightarrow> True"
    unfolding answers_def by blast
  then show ?thesis using that by (cases r) auto
qed

lemma answers_bind [intro]:
  assumes "answers m" and "\<And>a. answers (k a)"
  shows "answers (de_bind m k)"
  unfolding answers_def
proof
  fix d
  from assms(1) show "\<exists>r d1. de_bind m k d = (Some r, d1) \<and> (case r of Inr _ \<Rightarrow> ahead d1 \<le> ahead d | Inl _ \<Rightarrow> True)"
  proof (cases rule: answersE [of m d])
    case (fails e d1)
    then show ?thesis by (simp add: de_bind_def)
  next
    case (reads a d1)
    from assms(2) [of a] show ?thesis using reads
      by (cases rule: answersE [of "k a" d1]) (auto simp: de_bind_def)
  qed
qed

lemma answers_basic [intro]: "answers (de_return a)" "answers (de_fail e)"
  by (simp_all add: answers_def de_return_def de_fail_def)

lemma answers_markup:
  assumes "\<And>d. \<exists>r. m d = (case next_markup d of (Inl e, d1) \<Rightarrow> (Some (Inl e), d1) | (Inr ev, d1) \<Rightarrow> (Some (r ev), d1))"
  shows "answers m"
  unfolding answers_def
proof
  fix d
  obtain r where m: "m d = (case next_markup d of (Inl e, d1) \<Rightarrow> (Some (Inl e), d1) | (Inr ev, d1) \<Rightarrow> (Some (r ev), d1))"
    using assms [of d] by blast
  obtain x d1 where "next_markup d = (x, d1)" by fastforce
  with m show "\<exists>r d1. m d = (Some r, d1) \<and> (case r of Inr _ \<Rightarrow> ahead d1 \<le> ahead d | Inl _ \<Rightarrow> True)"
    by (cases x) (auto dest!: next_markup_ahead split: sum.splits)
qed

lemma answers_expect [intro]: "answers (expect_start n)" "answers (expect_start_any ns)" "answers (expect_end n)" "answers expect_eof"
proof -
  show "answers (expect_start n)"
    by (intro answers_markup exI [of _ "\<lambda>ev. case ev of DStart m _ \<Rightarrow> if m \<noteq> n then Inl UnexpectedTagName else Inr () | DEnd _ \<Rightarrow> Inl UnexpectedEnd | _ \<Rightarrow> Inl UnexpectedEof"])
      (simp add: expect_start_def split: prod.splits sum.splits de_event.splits)
  show "answers (expect_start_any ns)"
    by (intro answers_markup exI [of _ "\<lambda>ev. case ev of DStart n _ \<Rightarrow> (case find (\<lambda>m. m = n) ns of Some m \<Rightarrow> Inr m | None \<Rightarrow> Inl UnexpectedTagName) | DEnd _ \<Rightarrow> Inl UnexpectedEnd | _ \<Rightarrow> Inl UnexpectedEof"])
      (simp add: expect_start_any_def split: prod.splits sum.splits de_event.splits)
  show "answers (expect_end n)"
    by (intro answers_markup exI [of _ "\<lambda>ev. case ev of DStart _ _ \<Rightarrow> Inl UnexpectedStart | DEnd m \<Rightarrow> if m \<noteq> n then Inl UnexpectedTagName else Inr () | _ \<Rightarrow> Inl UnexpectedEof"])
      (simp add: expect_end_def split: prod.splits sum.splits de_event.splits)
  show "answers expect_eof"
    by (intro answers_markup exI [of _ "\<lambda>ev. case ev of DStart _ _ \<Rightarrow> Inl UnexpectedStart | DEnd _ \<Rightarrow> Inl UnexpectedEnd | _ \<Rightarrow> Inr ()"])
      (simp add: expect_eof_def split: prod.splits sum.splits de_event.splits)
qed

lemma answers_named [intro]:
  "answers f \<Longrightarrow> answers (named_element n f)" "answers f \<Longrightarrow> answers (named_element_any ns f)"
  unfolding named_element_def named_element_any_def by blast+

lemma answers_element [intro]:
  assumes "\<And>n. answers (f n)"
  shows "answers (element f)"
  unfolding answers_def
proof
  fix d
  obtain x d1 where x: "peek_markup d = (x, d1)" by fastforce
  show "\<exists>r d1. element f d = (Some r, d1) \<and> (case r of Inr _ \<Rightarrow> ahead d1 \<le> ahead d | Inl _ \<Rightarrow> True)"
  proof (cases "\<exists>n a. x = Inr (DStart n a)")
    case True
    then obtain n a where n: "x = Inr (DStart n a)" by blast
    have "answers (de_bind (f n) (\<lambda>ans. de_bind (expect_end n) (\<lambda>_. de_return ans)))" using assms by blast
    then show ?thesis using x n peek_markup_ahead [of d "DStart n a" d1]
      by (cases rule: answersE [of _ "consume_peeked d1"]) (auto simp: element_def)
  next
    case False
    with x show ?thesis by (auto simp: element_def split: sum.splits de_event.splits)
  qed
qed

lemma de_bind_assoc: "de_bind (de_bind m k) h = de_bind m (\<lambda>a. de_bind (k a) h)"
  by (rule ext) (simp add: de_bind_def split: prod.split option.split sum.split)

lemma de_return_bind: "de_bind (de_return a) k = k a"
  by (rule ext) (simp add: de_bind_def de_return_def)

lemma answers_loop:
  assumes "\<And>s n a. answers (f s n a)" and "ahead d < k"
  shows "\<exists>r d1. for_each_loop k f s d = (Some r, d1) \<and> (case r of Inr _ \<Rightarrow> ahead d1 \<le> ahead d | Inl _ \<Rightarrow> True)"
  using assms(2)
proof (induction k arbitrary: s d)
  case (Suc k)
  obtain x d1 where x: "peek_markup d = (x, d1)" by fastforce
  show ?case
  proof (cases "\<exists>n a. x = Inr (DStart n a)")
    case True
    then obtain n a where n: "x = Inr (DStart n a)" by blast
    then have less: "ahead (consume_peeked d1) < ahead d" using peek_markup_ahead [of d "DStart n a" d1] x by simp
    let ?round = "de_bind (f s n a) (\<lambda>s1. de_bind (expect_end n) (\<lambda>_. de_return s1))"
    have round: "de_bind (f s n a) (\<lambda>s1. de_bind (expect_end n) (\<lambda>_. for_each_loop k f s1)) = de_bind ?round (for_each_loop k f)"
      by (simp add: de_bind_assoc de_return_bind)
    have "answers ?round" using assms(1) by blast
    then show ?thesis
    proof (cases rule: answersE [of _ "consume_peeked d1"])
      case (fails e d2)
      with x n round show ?thesis by (simp add: de_bind_def [of ?round])
    next
      case (reads s1 d2)
      then have "for_each_loop (Suc k) f s d = for_each_loop k f s1 d2" using x n round by (simp add: de_bind_def [of ?round])
      moreover have "ahead d2 < k" using reads(2) less Suc.prems by simp
      from Suc.IH [OF this, of s1] obtain r d3 where "for_each_loop k f s1 d2 = (Some r, d3)"
        "case r of Inr _ \<Rightarrow> ahead d3 \<le> ahead d2 | Inl _ \<Rightarrow> True" by blast
      ultimately show ?thesis using reads(2) less by (auto split: sum.splits)
    qed
  next
    case False
    with x show ?thesis using peek_markup_ahead [of d _ d1] by (auto split: sum.splits de_event.splits)
  qed
qed simp

lemma answers_for_each [intro]:
  "(\<And>s n a. answers (f s n a)) \<Longrightarrow> answers (for_each_element_with_start f s)"
  "(\<And>s n. answers (g s n)) \<Longrightarrow> answers (for_each_element g t)"
proof -
  have *: "answers (for_each_element_with_start f s)" if f: "\<And>s n a. answers (f s n a)" for f and s :: 'c
    unfolding answers_def for_each_element_with_start_def
  proof
    fix d
    have "ahead d < Suc (events_left d)" using ahead_le [of d] by simp
    from answers_loop [OF f this, where s = s] show "\<exists>r d1. for_each_loop (Suc (events_left d)) f s d = (Some r, d1) \<and>
      (case r of Inr _ \<Rightarrow> ahead d1 \<le> ahead d | Inl _ \<Rightarrow> True)" .
  qed
  show "(\<And>s n a. answers (f s n a)) \<Longrightarrow> answers (for_each_element_with_start f s)" by (rule *)
  show "(\<And>s n. answers (g s n)) \<Longrightarrow> answers (for_each_element g t)" unfolding for_each_element_def by (rule *)
qed

lemma text_loop_ahead: "text_loop buf d = (Inr t, d1) \<Longrightarrow> ahead d1 \<le> ahead d"
proof (induction buf d rule: text_loop.induct)
  case (1 buf d)
  obtain r d0 where p: "peek_event d = (r, d0)" by fastforce
  show ?case
  proof (cases "\<exists>c. r = Inr (DText c)")
    case True
    then obtain c where r: "r = Inr (DText c)" by blast
    have "text_loop (Some (case buf of Some b \<Rightarrow> b @ c | None \<Rightarrow> c)) (consume_peeked d0) = (Inr t, d1)"
      using "1.prems" p r by (simp add: text_loop.simps [of buf d])
    from "1.IH" [OF p [symmetric] r refl this] peek_event_ahead [of d "DText c" d0] p r show ?thesis by simp
  next
    case False
    with "1.prems" p peek_event_ahead [of d _ d0] show ?thesis
      by (auto simp: text_loop.simps [of buf d] split: sum.splits de_event.splits option.splits)
  qed
qed

lemma answers_text [intro]: "answers (text_with f)"
  unfolding answers_def
proof
  fix d
  obtain r d1 where "text_loop None d = (r, d1)" by fastforce
  then show "\<exists>r d1. text_with f d = (Some r, d1) \<and> (case r of Inr _ \<Rightarrow> ahead d1 \<le> ahead d | Inl _ \<Rightarrow> True)"
    using text_loop_ahead [of None d] by (cases r) (auto simp: text_with_def split: sum.splits)
qed

lemma skip_loop_ahead: "skip_loop n d = (Inr u, d1) \<Longrightarrow> ahead d1 \<le> ahead d"
proof (induction n d rule: skip_loop.induct)
  case (1 n d)
  obtain r d0 where p: "peek_event d = (r, d0)" by fastforce
  have a: "ahead d0 \<le> ahead d" "ahead (consume_peeked d0) \<le> ahead d" if "r = Inr ev" for ev
    using peek_event_ahead [of d ev d0] p that by auto
  show ?case
  proof (cases r)
    case (Inl e)
    with "1.prems" p show ?thesis by (simp add: skip_loop.simps [of n d])
  next
    case (Inr ev)
    note ih = "1.IH" [OF p [symmetric] Inr]
    show ?thesis
    proof (cases ev)
      case (DStart m x)
      with "1.prems" p Inr ih(1) a show ?thesis by (fastforce simp: skip_loop.simps [of n d])
    next
      case (DEnd m)
      with "1.prems" p Inr ih(2) a show ?thesis by (fastforce simp: skip_loop.simps [of n d] split: if_splits)
    next
      case (DText c)
      with "1.prems" p Inr ih(3) a show ?thesis by (fastforce simp: skip_loop.simps [of n d])
    next
      case DEof
      with "1.prems" p Inr show ?thesis by (simp add: skip_loop.simps [of n d])
    qed
  qed
qed

lemma answers_skip [intro]: "answers skip_element_content"
  unfolding answers_def
proof
  fix d
  obtain r d1 where "skip_loop 0 d = (r, d1)" by fastforce
  then show "\<exists>r d1. skip_element_content d = (Some r, d1) \<and> (case r of Inr _ \<Rightarrow> ahead d1 \<le> ahead d | Inl _ \<Rightarrow> True)"
    using skip_loop_ahead [of 0 d] by (cases r) (auto simp: skip_element_content_def)
qed

lemma answers_list [intro]: "answers dec \<Longrightarrow> answers (list_content n dec)"
  unfolding list_content_def by (intro answers_for_each) (auto intro!: answers_bind)

section \<open>The generated readers\<close>

lemma answers_field:
  assumes "\<And>dec. dec \<in> set_xml_field f \<Longrightarrow> answers dec"
  shows "answers (de_field f slot a)"
proof (cases f)
  case (Field n r k)
  show ?thesis
  proof (cases k)
    case (Content dec)
    with Field assms [of dec] show ?thesis by auto
  next
    case (Flattened dec)
    with Field assms [of dec] show ?thesis by auto
  next
    case (Listed m dec)
    with Field assms [of dec] show ?thesis by auto
  next
    case (Typed dec)
    have "answers (case ty of None \<Rightarrow> de_fail MissingField | Some t \<Rightarrow> de_return (Some (VTyped t v)))" for ty v
      by (cases ty) auto
    with Typed Field assms [of dec] show ?thesis by (auto split: sum.split)
  qed
qed

lemma answers_struct:
  assumes "\<And>f dec. f \<in> set fs \<Longrightarrow> dec \<in> set_xml_field f \<Longrightarrow> answers dec"
  shows "answers (de_struct u fs)"
proof -
  have "answers (de_child u fs slots n a)" for slots n a
  proof (cases "field_index n fs")
    case (Some i)
    then have "fs ! i \<in> set fs" using field_index_Some by fastforce
    then have "answers (de_field (fs ! i) (slots ! i) a)" using assms by (intro answers_field) blast
    with Some show ?thesis by (auto simp: de_child_def)
  qed (auto simp: de_child_def split: unknown.split)
  moreover have "answers (\<lambda>d. (Some (finish_struct fs slots), d))" for slots
    by (auto simp: answers_def split: sum.splits)
  ultimately show ?thesis unfolding de_struct_def by (intro answers_bind answers_for_each) auto
qed

lemma answers_shape: "answers (de_shape E s)"
proof (induction s)
  case (TStruct u fs)
  have "answers (de_struct u (map (map_xml_field (de_shape E)) fs))"
    using TStruct by (intro answers_struct) (auto simp: xml_field.set_map)
  then show ?case by simp
next
  case (TUnion vs)
  have "answers (case map_of (map (map_prod id (de_shape E)) vs) n of
      Some dec \<Rightarrow> de_bind dec (\<lambda>v. de_return (VVariant n v)) | None \<Rightarrow> de_fail UnexpectedTagName)" for n
    using TUnion by (auto simp: map_of_map_prod split: option.split dest!: map_of_SomeD)
  then show ?case by (auto simp: de_union_def)
qed (auto simp: de_string_def de_bool_def de_int_def de_timestamp_def de_etag_def)

text \<open>
  Every document is answered. For every type of the protocol, reading a document ends with a value or an error whatever the
  tokenizer delivers: truncated, ill-nested, with unknown elements at any depth. After the value, the check that nothing
  follows ends too.
\<close>

theorem xml_document_answered:
  "\<exists>r d. named_element_any names (de_shape E s) (Deserializer_new tokens) = (Some r, d) \<and> (\<exists>r1 d1. expect_eof d = (Some r1, d1))"
proof -
  have "answers (named_element_any names (de_shape E s))" by (intro answers_named answers_shape)
  then obtain r d where "named_element_any names (de_shape E s) (Deserializer_new tokens) = (Some r, d)"
    unfolding answers_def by blast
  moreover obtain r1 d1 where "expect_eof d = (Some r1, d1)" using answers_expect(4) unfolding answers_def by blast
  ultimately show ?thesis by blast
qed

end
