(* ===== verification/Op_Inputs_Total.thy ===== *)
theory Op_Inputs_Total
  imports Op_Inputs Xml_Answers Prepare_Body Error_Codes
begin

text \<open>
  The generated code takes what the preparation has put into the request: the path in the shape that the operation needs, the
  document in memory. These are the places where it would panic, and a prepared request never reaches them.
\<close>

section \<open>Fields\<close>

fun reads_document :: "source \<Rightarrow> bool" where
  "reads_document (XmlBody _) = True"
| "reads_document (XmlBodyRequired _) = True"
| "reads_document (OptXmlBody _) = True"
| "reads_document StringBody = True"
| "reads_document _ = False"

fun takes_body :: "source \<Rightarrow> bool" where
  "takes_body StreamBody = True"
| "takes_body src = reads_document src"

lemma deserialize_xml_answers: "\<exists>r. deserialize_xml E doc bs = Some r"
proof -
  obtain root ns names s where doc: "doc = (root, ns, names, s)" by (cases doc)
  let ?m = "de_document (he_xml E) doc"
  have "answers ?m" unfolding doc de_document_def by (simp add: answers_named answers_shape)
  then obtain r d where "?m (Deserializer_new (he_tokens E bs)) = (Some r, d)" unfolding answers_def by blast
  moreover obtain r1 d1 where "expect_eof d = (Some r1, d1)" using answers_expect(4) unfolding answers_def by blast
  ultimately show ?thesis by (auto simp: deserialize_xml_def split: sum.split)
qed

lemma take_full_body_buffered:
  "Body_bytes (rq_body req) = Some bs \<Longrightarrow> take_full_body req = Some (bs, req\<lparr>rq_body := (rq_body req)\<lparr>kind := KEmpty\<rparr>\<rparr>)"
  by (auto simp: take_full_body_def Body_bytes_def Body_take_bytes_def split: body_kind.splits)

lemma read_field_answers:
  assumes "reads_document src \<Longrightarrow> Body_bytes (rq_body req) \<noteq> None"
  shows "\<exists>r req1. read_field E src req = Some (r, req1) \<and> (\<not> takes_body src \<longrightarrow> req1 = req)"
proof (cases "reads_document src")
  case True
  then obtain bs where "Body_bytes (rq_body req) = Some bs" using assms by blast
  note full = take_full_body_buffered [OF this]
  from True show ?thesis
    by (cases src) (auto simp: full take_xml_body_def take_opt_xml_body_def take_string_body_def
        intro: deserialize_xml_answers [THEN exE])
next
  case False
  then show ?thesis by (cases src) (auto simp: read_only_def take_stream_body_def)
qed

text \<open>The fields of an operation are read to the end when at most one of them takes the body.\<close>

definition one_body :: "(bytes \<times> source) list \<Rightarrow> bool" where
  "one_body fs \<longleftrightarrow> length (filter takes_body (map snd fs)) \<le> 1"

lemma read_fields_answer:
  assumes "one_body fs" and "list_ex reads_document (map snd fs) \<Longrightarrow> Body_bytes (rq_body req) \<noteq> None"
  shows "\<exists>r req1. read_fields E fs req = Some (r, req1) \<and> (\<forall>vs. r = Inr vs \<longrightarrow> map fst vs = map fst fs)"
  using assms
proof (induction fs arbitrary: req)
  case Nil
  then show ?case by simp
next
  case (Cons f fs)
  obtain field src where f: "f = (field, src)" by (cases f)
  obtain r req1 where r: "read_field E src req = Some (r, req1)" "\<not> takes_body src \<longrightarrow> req1 = req"
    using read_field_answers [of src req E] Cons.prems(2) f by auto
  have rest: "\<not> list_ex reads_document (map snd fs)" if "takes_body src"
  proof -
    have "filter takes_body (map snd fs) = []" using Cons.prems(1) that f by (simp add: one_body_def filter_map)
    moreover have "takes_body s" if "reads_document s" for s using that by (cases s) auto
    ultimately show ?thesis by (auto simp: filter_empty_conv list_ex_iff)
  qed
  have "one_body fs" using Cons.prems(1) f by (simp add: one_body_def split: if_splits)
  then obtain r2 req2 where r2: "read_fields E fs req1 = Some (r2, req2)" "\<forall>vs. r2 = Inr vs \<longrightarrow> map fst vs = map fst fs"
    using Cons.IH [of req1] r(2) rest Cons.prems(2) f by auto
  show ?case
    by (cases r; cases r2) (use r r2 f in auto)
qed

section \<open>The tables\<close>

fun path_fits :: "path_kind \<Rightarrow> s3_path \<Rightarrow> bool" where
  "path_fits NoPath path = (path = Root)"
| "path_fits TakeBucket path = (case path of Bucket _ \<Rightarrow> True | _ \<Rightarrow> False)"
| "path_fits TakeObject path = (case path of Object _ _ \<Rightarrow> True | _ \<Rightarrow> False)"

text \<open>For each operation the shape of path that it takes and whether it reads a document.\<close>

definition INPUT_KINDS :: "(operation \<times> path_kind \<times> bool) list" where
  "INPUT_KINDS = [
     (''AbortMultipartUpload'', TakeObject, False), (''CompleteMultipartUpload'', TakeObject, True),
     (''CopyObject'', TakeObject, False), (''CreateBucket'', TakeBucket, True),
     (''CreateBucketMetadataConfiguration'', TakeBucket, True), (''CreateBucketMetadataTableConfiguration'', TakeBucket, True),
     (''CreateMultipartUpload'', TakeObject, False), (''CreateSession'', TakeBucket, False),
     (''DeleteBucket'', TakeBucket, False), (''DeleteBucketAnalyticsConfiguration'', TakeBucket, False),
     (''DeleteBucketCors'', TakeBucket, False), (''DeleteBucketEncryption'', TakeBucket, False),
     (''DeleteBucketIntelligentTieringConfiguration'', TakeBucket, False),
     (''DeleteBucketInventoryConfiguration'', TakeBucket, False), (''DeleteBucketLifecycle'', TakeBucket, False),
     (''DeleteBucketMetadataConfiguration'', TakeBucket, False), (''DeleteBucketMetadataTableConfiguration'', TakeBucket, False),
     (''DeleteBucketMetricsConfiguration'', TakeBucket, False), (''DeleteBucketOwnershipControls'', TakeBucket, False),
     (''DeleteBucketPolicy'', TakeBucket, False), (''DeleteBucketReplication'', TakeBucket, False),
     (''DeleteBucketTagging'', TakeBucket, False), (''DeleteBucketWebsite'', TakeBucket, False),
     (''DeleteObject'', TakeObject, False), (''DeleteObjectAnnotation'', TakeObject, False),
     (''DeleteObjectTagging'', TakeObject, False), (''DeleteObjects'', TakeBucket, True),
     (''DeletePublicAccessBlock'', TakeBucket, False), (''GetBucketAbac'', TakeBucket, False),
     (''GetBucketAccelerateConfiguration'', TakeBucket, False), (''GetBucketAcl'', TakeBucket, False),
     (''GetBucketAnalyticsConfiguration'', TakeBucket, False), (''GetBucketCors'', TakeBucket, False),
     (''GetBucketEncryption'', TakeBucket, False), (''GetBucketIntelligentTieringConfiguration'', TakeBucket, False),
     (''GetBucketInventoryConfiguration'', TakeBucket, False), (''GetBucketLifecycleConfiguration'', TakeBucket, False),
     (''GetBucketLocation'', TakeBucket, False), (''GetBucketLogging'', TakeBucket, False),
     (''GetBucketMetadataConfiguration'', TakeBucket, False), (''GetBucketMetadataTableConfiguration'', TakeBucket, False),
     (''GetBucketMetricsConfiguration'', TakeBucket, False), (''GetBucketNotificationConfiguration'', TakeBucket, False),
     (''GetBucketOwnershipControls'', TakeBucket, False), (''GetBucketPolicy'', TakeBucket, False),
     (''GetBucketPolicyStatus'', TakeBucket, False), (''GetBucketReplication'', TakeBucket, False),
     (''GetBucketRequestPayment'', TakeBucket, False), (''GetBucketTagging'', TakeBucket, False),
     (''GetBucketVersioning'', TakeBucket, False), (''GetBucketWebsite'', TakeBucket, False), (''GetObject'', TakeObject, False),
     (''GetObjectAcl'', TakeObject, False), (''GetObjectAnnotation'', TakeObject, False),
     (''GetObjectAttributes'', TakeObject, False), (''GetObjectLegalHold'', TakeObject, False),
     (''GetObjectLockConfiguration'', TakeBucket, False), (''GetObjectRetention'', TakeObject, False),
     (''GetObjectTagging'', TakeObject, False), (''GetObjectTorrent'', TakeObject, False),
     (''GetPublicAccessBlock'', TakeBucket, False), (''HeadBucket'', TakeBucket, False), (''HeadObject'', TakeObject, False),
     (''ListBucketAnalyticsConfigurations'', TakeBucket, False),
     (''ListBucketIntelligentTieringConfigurations'', TakeBucket, False),
     (''ListBucketInventoryConfigurations'', TakeBucket, False), (''ListBucketMetricsConfigurations'', TakeBucket, False),
     (''ListBuckets'', NoPath, False), (''ListDirectoryBuckets'', NoPath, False), (''ListMultipartUploads'', TakeBucket, False),
     (''ListObjectAnnotations'', TakeObject, False), (''ListObjectVersions'', TakeBucket, False),
     (''ListObjects'', TakeBucket, False), (''ListObjectsV2'', TakeBucket, False), (''ListParts'', TakeObject, False),
     (''PutBucketAbac'', TakeBucket, True), (''PutBucketAccelerateConfiguration'', TakeBucket, True),
     (''PutBucketAcl'', TakeBucket, True), (''PutBucketAnalyticsConfiguration'', TakeBucket, True),
     (''PutBucketCors'', TakeBucket, True), (''PutBucketEncryption'', TakeBucket, True),
     (''PutBucketIntelligentTieringConfiguration'', TakeBucket, True), (''PutBucketInventoryConfiguration'', TakeBucket, True),
     (''PutBucketLifecycleConfiguration'', TakeBucket, True), (''PutBucketLogging'', TakeBucket, True),
     (''PutBucketMetricsConfiguration'', TakeBucket, True), (''PutBucketNotificationConfiguration'', TakeBucket, True),
     (''PutBucketOwnershipControls'', TakeBucket, True), (''PutBucketPolicy'', TakeBucket, True),
     (''PutBucketReplication'', TakeBucket, True), (''PutBucketRequestPayment'', TakeBucket, True),
     (''PutBucketTagging'', TakeBucket, True), (''PutBucketVersioning'', TakeBucket, True),
     (''PutBucketWebsite'', TakeBucket, True), (''PutObject'', TakeObject, False), (''PutObjectAcl'', TakeObject, True),
     (''PutObjectAnnotation'', TakeObject, False), (''PutObjectLegalHold'', TakeObject, True),
     (''PutObjectLockConfiguration'', TakeBucket, True), (''PutObjectRetention'', TakeObject, True),
     (''PutObjectTagging'', TakeObject, True), (''PutPublicAccessBlock'', TakeBucket, True),
     (''RenameObject'', TakeObject, False), (''RestoreObject'', TakeObject, True), (''SelectObjectContent'', TakeObject, True),
     (''UpdateBucketMetadataAnnotationTableConfiguration'', TakeBucket, True),
     (''UpdateBucketMetadataInventoryTableConfiguration'', TakeBucket, True),
     (''UpdateBucketMetadataJournalTableConfiguration'', TakeBucket, True), (''UpdateObjectEncryption'', TakeObject, True),
     (''UploadPart'', TakeObject, False), (''UploadPartCopy'', TakeObject, False), (''WriteGetObjectResponse'', NoPath, False)]"

lemmas input_defs =
  AbortMultipartUpload_input_def CompleteMultipartUpload_input_def CopyObject_input_def CreateBucket_input_def
  CreateBucketMetadataConfiguration_input_def CreateBucketMetadataTableConfiguration_input_def CreateMultipartUpload_input_def
  CreateSession_input_def DeleteBucket_input_def DeleteBucketAnalyticsConfiguration_input_def DeleteBucketCors_input_def
  DeleteBucketEncryption_input_def DeleteBucketIntelligentTieringConfiguration_input_def
  DeleteBucketInventoryConfiguration_input_def DeleteBucketLifecycle_input_def DeleteBucketMetadataConfiguration_input_def
  DeleteBucketMetadataTableConfiguration_input_def DeleteBucketMetricsConfiguration_input_def
  DeleteBucketOwnershipControls_input_def DeleteBucketPolicy_input_def DeleteBucketReplication_input_def
  DeleteBucketTagging_input_def DeleteBucketWebsite_input_def DeleteObject_input_def DeleteObjectAnnotation_input_def
  DeleteObjectTagging_input_def DeleteObjects_input_def DeletePublicAccessBlock_input_def GetBucketAbac_input_def
  GetBucketAccelerateConfiguration_input_def GetBucketAcl_input_def GetBucketAnalyticsConfiguration_input_def
  GetBucketCors_input_def GetBucketEncryption_input_def GetBucketIntelligentTieringConfiguration_input_def
  GetBucketInventoryConfiguration_input_def GetBucketLifecycleConfiguration_input_def GetBucketLocation_input_def
  GetBucketLogging_input_def GetBucketMetadataConfiguration_input_def GetBucketMetadataTableConfiguration_input_def
  GetBucketMetricsConfiguration_input_def GetBucketNotificationConfiguration_input_def GetBucketOwnershipControls_input_def
  GetBucketPolicy_input_def GetBucketPolicyStatus_input_def GetBucketReplication_input_def GetBucketRequestPayment_input_def
  GetBucketTagging_input_def GetBucketVersioning_input_def GetBucketWebsite_input_def GetObject_input_def GetObjectAcl_input_def
  GetObjectAnnotation_input_def GetObjectAttributes_input_def GetObjectLegalHold_input_def GetObjectLockConfiguration_input_def
  GetObjectRetention_input_def GetObjectTagging_input_def GetObjectTorrent_input_def GetPublicAccessBlock_input_def
  HeadBucket_input_def HeadObject_input_def ListBucketAnalyticsConfigurations_input_def
  ListBucketIntelligentTieringConfigurations_input_def ListBucketInventoryConfigurations_input_def
  ListBucketMetricsConfigurations_input_def ListBuckets_input_def ListDirectoryBuckets_input_def ListMultipartUploads_input_def
  ListObjectAnnotations_input_def ListObjectVersions_input_def ListObjects_input_def ListObjectsV2_input_def ListParts_input_def
  PutBucketAbac_input_def PutBucketAccelerateConfiguration_input_def PutBucketAcl_input_def
  PutBucketAnalyticsConfiguration_input_def PutBucketCors_input_def PutBucketEncryption_input_def
  PutBucketIntelligentTieringConfiguration_input_def PutBucketInventoryConfiguration_input_def
  PutBucketLifecycleConfiguration_input_def PutBucketLogging_input_def PutBucketMetricsConfiguration_input_def
  PutBucketNotificationConfiguration_input_def PutBucketOwnershipControls_input_def PutBucketPolicy_input_def
  PutBucketReplication_input_def PutBucketRequestPayment_input_def PutBucketTagging_input_def PutBucketVersioning_input_def
  PutBucketWebsite_input_def PutObject_input_def PutObjectAcl_input_def PutObjectAnnotation_input_def PutObjectLegalHold_input_def
  PutObjectLockConfiguration_input_def PutObjectRetention_input_def PutObjectTagging_input_def PutPublicAccessBlock_input_def
  RenameObject_input_def RestoreObject_input_def SelectObjectContent_input_def
  UpdateBucketMetadataAnnotationTableConfiguration_input_def UpdateBucketMetadataInventoryTableConfiguration_input_def
  UpdateBucketMetadataJournalTableConfiguration_input_def UpdateObjectEncryption_input_def UploadPart_input_def
  UploadPartCopy_input_def WriteGetObjectResponse_input_def


lemma inputs_one_body: "list_all (\<lambda>(op, spec). one_body (in_fields spec)) OPERATION_INPUTS"
  by (simp add: OPERATION_INPUTS_def one_body_def input_defs)

lemma inputs_kinds:
  "map (\<lambda>(op, spec). (op, in_path spec, list_ex reads_document (map snd (in_fields spec)))) OPERATION_INPUTS = INPUT_KINDS"
  by (simp add: OPERATION_INPUTS_def INPUT_KINDS_def input_defs)

lemma kinds_documents: "list_all (\<lambda>(op, _, doc). doc \<longleftrightarrow> needs_full_body op) INPUT_KINDS"
  by code_simp

lemma kinds_rising: "strictly_rising (map fst INPUT_KINDS)"
  by code_simp

text \<open>Whether a sorted list of names is among the operations that take a path, by one pass over the two lists.\<close>

fun all_take :: "s3_path \<Rightarrow> operation list \<Rightarrow> (operation \<times> path_kind \<times> bool) list \<Rightarrow> bool" where
  "all_take path [] table = True"
| "all_take path (op # ops) [] = False"
| "all_take path (op # ops) ((n, k, d) # table) = (if op = n then path_fits k path \<and> all_take path ops table else all_take path (op # ops) table)"

lemma all_take_member: "all_take path ops table \<Longrightarrow> op \<in> set ops \<Longrightarrow> \<exists>k d. (op, k, d) \<in> set table \<and> path_fits k path"
  by (induction path ops table rule: all_take.induct) (auto split: if_splits)

text \<open>WriteGetObjectResponse is posted to a bucket path and takes nothing from it.\<close>

definition addressed_ops :: "operation list \<Rightarrow> operation list" where
  "addressed_ops ops = name_sort (filter (\<lambda>op. op \<noteq> ''WriteGetObjectResponse'') ops)"

lemma kinds_root: "all_take Root (addressed_ops OIR_GET_ROOT) INPUT_KINDS"
  by code_simp

lemma kinds_bucket:
  "all_take (Bucket []) (addressed_ops (''HeadBucket'' # OIR_DELETE_BUCKET @ OIR_GET_BUCKET @ OIR_POST_BUCKET @ OIR_PUT_BUCKET)) INPUT_KINDS"
  by code_simp

lemma kinds_object:
  "all_take (Object [] []) (addressed_ops (''HeadObject'' # OIR_DELETE_OBJECT @ OIR_GET_OBJECT @ OIR_POST_OBJECT @ OIR_PUT_OBJECT)) INPUT_KINDS"
  by code_simp

lemma path_fits_shape: "path_fits k (Bucket b) = path_fits k (Bucket [])" "path_fits k (Object b c) = path_fits k (Object [] [])"
  by (cases k; simp)+

lemma addressed_member:
  assumes "all_take path (addressed_ops ops) INPUT_KINDS" and "op \<in> set ops" and "op \<noteq> ''WriteGetObjectResponse''"
  shows "\<exists>k d. (op, k, d) \<in> set INPUT_KINDS \<and> path_fits k path"
proof -
  have "op \<in> set (addressed_ops ops)" using assms(2,3) set_name_sort [OF refl, of "filter (\<lambda>op. op \<noteq> ''WriteGetObjectResponse'') ops"]
    by (auto simp: addressed_ops_def)
  from all_take_member [OF assms(1) this] show ?thesis .
qed

lemma routed_kind:
  assumes "resolve_operation_by_id False meth path op = Some op"
  shows "\<exists>k d. (op, k, d) \<in> set INPUT_KINDS \<and> (path_fits k path \<or> op = ''WriteGetObjectResponse'' \<and> k = NoPath)"
proof (cases "op = ''WriteGetObjectResponse''")
  case True
  have "(''WriteGetObjectResponse'', NoPath, False) \<in> set INPUT_KINDS" by (simp add: INPUT_KINDS_def)
  with True show ?thesis by blast
next
  case False
  show ?thesis
  proof (cases path)
    case Root
    with assms have "op \<in> set OIR_GET_ROOT" by (auto simp: resolve_operation_by_id_def Let_def split: if_splits)
    from addressed_member [OF kinds_root this False] Root show ?thesis by blast
  next
    case (Bucket b)
    with assms have "op \<in> set (''HeadBucket'' # OIR_DELETE_BUCKET @ OIR_GET_BUCKET @ OIR_POST_BUCKET @ OIR_PUT_BUCKET)"
      by (auto simp: resolve_operation_by_id_def Let_def split: if_splits)
    from addressed_member [OF kinds_bucket this False] Bucket show ?thesis by (auto simp: path_fits_shape(1) [of _ b])
  next
    case (Object b c)
    with assms have "op \<in> set (''HeadObject'' # OIR_DELETE_OBJECT @ OIR_GET_OBJECT @ OIR_POST_OBJECT @ OIR_PUT_OBJECT)"
      by (auto simp: resolve_operation_by_id_def Let_def split: if_splits)
    from addressed_member [OF kinds_object this False] Object show ?thesis by (auto simp: path_fits_shape(2) [of _ b c])
  qed
qed

lemma routed_input:
  assumes "resolve_operation_by_id False meth path op = Some op"
  shows "\<exists>spec. map_of OPERATION_INPUTS op = Some spec \<and> one_body (in_fields spec)
    \<and> (list_ex reads_document (map snd (in_fields spec)) \<longleftrightarrow> needs_full_body op)
    \<and> (path_fits (in_path spec) path \<or> op = ''WriteGetObjectResponse'' \<and> in_path spec = NoPath)"
proof -
  obtain k d where kd: "(op, k, d) \<in> set INPUT_KINDS" "path_fits k path \<or> op = ''WriteGetObjectResponse'' \<and> k = NoPath"
    using routed_kind [OF assms] by blast
  then obtain spec where spec: "(op, spec) \<in> set OPERATION_INPUTS" "in_path spec = k"
      "list_ex reads_document (map snd (in_fields spec)) = d"
    unfolding inputs_kinds [symmetric] by auto
  have "map fst OPERATION_INPUTS = map fst INPUT_KINDS"
    unfolding inputs_kinds [symmetric] by (simp add: comp_def case_prod_unfold)
  then have "distinct (map fst OPERATION_INPUTS)" using rising_distinct [OF kinds_rising] by simp
  then have "map_of OPERATION_INPUTS op = Some spec" using spec(1) by simp
  moreover have "one_body (in_fields spec)" using inputs_one_body spec(1) by (auto simp: list_all_iff)
  moreover have "d = needs_full_body op" using kinds_documents kd(1) by (auto simp: list_all_iff)
  ultimately show ?thesis using spec(2,3) kd(2) by blast
qed

section \<open>Prepared requests\<close>

lemma asked_for_routed:
  assumes "asked_for minio config meth path (contains_key hdrs) q = Inr op" and "\<forall>q'. q = Some q' \<longrightarrow> sorted (map fst (qs q'))"
  shows "resolve_operation_by_id minio meth path op = Some op"
proof (cases "declared config q")
  case Absent
  with assms have "resolve_route minio meth hdrs path q = Inr op" by (simp add: asked_for_def resolve_route_table)
  then show ?thesis using declared_names [of minio meth path op op] by blast
next
  case (Single name)
  with assms(1) have "resolve_operation_by_id minio meth path name = Some op"
    by (simp add: asked_for_def ok_or_def split: option.splits)
  moreover from this have "op = name" using declared_names by blast
  ultimately show ?thesis by simp
next
  case Duplicate
  with assms(1) show ?thesis by (simp add: asked_for_def)
qed

lemma deserialize_input_answers:
  assumes "one_body (in_fields spec)" and "list_ex reads_document (map snd (in_fields spec)) \<Longrightarrow> Body_bytes (rq_body req) \<noteq> None"
    and "ex_s3_path (rq_s3ext req) = Some path" and "path_fits (in_path spec) path \<or> in_path spec = NoPath"
  shows "\<exists>r req1. deserialize_input E spec req = Some (r, req1) \<and> (\<forall>inp. r = Inr inp \<longrightarrow>
    (case (in_path spec, path) of
       (TakeBucket, Bucket b) \<Rightarrow> map_of inp ''bucket'' = Some (Some (HvString b))
     | (TakeObject, Object b k) \<Rightarrow> map_of inp ''bucket'' = Some (Some (HvString b)) \<and> map_of inp ''key'' = Some (Some (HvString k))
     | _ \<Rightarrow> True))"
proof -
  let ?req = "snd (take_path req)"
  have same: "rq_body ?req = rq_body req" by (simp add: take_path_def)
  obtain r1 q1 where r1: "read_fields E (in_fields spec) req = Some (r1, q1)" using read_fields_answer [OF assms(1,2)] by blast
  obtain r2 q2 where r2: "read_fields E (in_fields spec) ?req = Some (r2, q2)"
    using read_fields_answer [OF assms(1), of ?req E] assms(2) same by auto
  show ?thesis
  proof (cases "in_path spec")
    case NoPath
    with r1 show ?thesis by (simp add: deserialize_input_def)
  next
    case TakeBucket
    with assms(4) obtain b where "path = Bucket b" by (auto split: s3_path.splits)
    with TakeBucket assms(3) r2 show ?thesis by (cases r2) (auto simp: deserialize_input_def unwrap_bucket_def take_path_def)
  next
    case TakeObject
    with assms(4) obtain b k where "path = Object b k" by (auto split: s3_path.splits)
    with TakeObject assms(3) r2 show ?thesis by (cases r2) (auto simp: deserialize_input_def unwrap_object_def take_path_def)
  qed
qed

lemma form_answers:
  assumes "ex_s3_path (rq_s3ext req) = Some (Bucket b)"
  shows "\<exists>r req1. deserialize_http_multipart E m req = Some (r, req1) \<and>
    (\<forall>inp. r = Inr inp \<longrightarrow> map_of inp ''bucket'' = Some (Some (HvString b)) \<and>
       map_of inp ''key'' = map_option (\<lambda>k. Some (HvString k)) (find_field_value m ''key''))"
proof -
  have "unwrap_bucket req = Some (b, snd (take_path req))" using assms by (simp add: unwrap_bucket_def take_path_def)
  then show ?thesis
    by (cases "read_form_fields E m PutObject_form")
      (auto simp: deserialize_http_multipart_def Let_def split: option.split)
qed

lemma post_object_answers:
  assumes "ex_s3_path (rq_s3ext req) = Some (Bucket b)"
  shows "\<exists>r req1. PostObject_deserialize_http E req = Some (r, req1) \<and>
    (\<forall>inp. r = Inr inp \<longrightarrow> map_of inp ''bucket'' = Some (Some (HvString b)))"
proof (cases "ex_multipart (rq_s3ext req)")
  case None
  then show ?thesis by (simp add: PostObject_deserialize_http_def take_multipart_def)
next
  case (Some mf)
  let ?req = "req\<lparr>rq_s3ext := (rq_s3ext req)\<lparr>ex_multipart := None, ex_post_policy := None\<rparr>\<rparr>"
  obtain r req1 where r: "deserialize_http_multipart E (fst mf) ?req = Some (r, req1)"
    "\<forall>inp. r = Inr inp \<longrightarrow> map_of inp ''bucket'' = Some (Some (HvString b))"
    using form_answers [of ?req b E "fst mf"] assms by auto
  have "map_of (inp @ fs) ''bucket'' = Some (Some (HvString b))" if "r = Inr inp" for inp fs
    using r(2) that by (simp add: map_add_Some_iff)
  with Some r(1) show ?thesis
    by (cases r) (auto simp: PostObject_deserialize_http_def take_multipart_def Let_def simp del: map_of_append split: sum.split)
qed

text \<open>
  C9: whatever the client sends, in a build without the feature minio, the generated code of an operation finds in a prepared
  request what it takes for granted: it answers with an input or an error and never panics, whatever the headers, the query parameters and the tokens of the document
  are. The input that it hands to the operation names the bucket and the key of the path that the request was
  authorized for; only WriteGetObjectResponse, which routes a response and not an object, has no such fields.
\<close>

theorem deserialize_never_panics:
  assumes "prepare P ccx req0 = Some (Inr (S3 op), req)" and "limited_collect (env_collect (pe_sig P))" and "\<not> pe_minio P"
  shows "\<exists>r req1. deserialize_http E op req = Some (r, req1) \<and> (\<forall>inp. r = Inr inp \<and> op \<noteq> ''WriteGetObjectResponse'' \<longrightarrow>
    (case ex_s3_path (rq_s3ext req) of
       Some (Bucket b) \<Rightarrow> map_of inp ''bucket'' = Some (Some (HvString b))
     | Some (Object b k) \<Rightarrow>
         map_of inp ''bucket'' = Some (Some (HvString b)) \<and> map_of inp ''key'' = Some (Some (HvString k))
     | _ \<Rightarrow> True))"
proof -
  obtain path where path: "ex_s3_path (rq_s3ext req) = Some path"
    and sorted: "extract_qs P (rq_uri req0) = Inr (ex_qs (rq_s3ext req))"
    and form: "ex_multipart (rq_s3ext req) \<noteq> None \<longleftrightarrow> is_multipart_post P (inject_host_header P req0)"
    and for_op: "if is_multipart_post P (inject_host_header P req0) then (\<exists>b. path = Bucket b) \<and> op = ''PostObject''
       else asked_for (pe_minio P) (cc_config ccx) (rq_method req0) path
              (contains_key (rq_headers (inject_host_header P req0))) (ex_qs (rq_s3ext req)) = Inr op"
    using prepared_for [OF assms(1)] by blast
  show ?thesis
  proof (cases "is_multipart_post P (inject_host_header P req0)")
    case True
    with for_op obtain b where "path = Bucket b" "op = ''PostObject''" by auto
    with post_object_answers [of req b E] path show ?thesis by (simp add: deserialize_http_def)
  next
    case False
    have "\<forall>q'. ex_qs (rq_s3ext req) = Some q' \<longrightarrow> sorted (map fst (qs q'))" using extract_qs_sorted [of P "rq_uri req0"] sorted by metis
    with False for_op have routed: "resolve_operation_by_id False (rq_method req0) path op = Some op"
      using asked_for_routed assms(3) by auto
    then obtain spec where spec: "map_of OPERATION_INPUTS op = Some spec" "one_body (in_fields spec)"
        "list_ex reads_document (map snd (in_fields spec)) \<longleftrightarrow> needs_full_body op"
        "path_fits (in_path spec) path \<or> op = ''WriteGetObjectResponse'' \<and> in_path spec = NoPath"
      using routed_input by blast
    let ?req = "req\<lparr>rq_s3ext := (rq_s3ext req)\<lparr>ex_multipart := None\<rparr>\<rparr>"
    have none: "ex_multipart (rq_s3ext req) = None" using form False by blast
    then have same: "?req = req" by (cases req; cases "rq_s3ext req") simp
    have "deserialize_http E op req = deserialize_input E spec req"
    proof -
      have post: "op \<noteq> ''PostObject''" using spec(1) by (auto simp: OPERATION_INPUTS_def)
      moreover have "map_of OPERATION_INPUTS ''PutObject'' = Some PutObject_input" by (simp add: OPERATION_INPUTS_def)
      then have "PutObject_deserialize_http E req = deserialize_input E spec req" if "op = ''PutObject''"
        using that spec(1) none by (auto simp: PutObject_deserialize_http_def take_multipart_def same)
      ultimately show ?thesis using spec(1) by (simp add: deserialize_http_def)
    qed
    moreover have "list_ex reads_document (map snd (in_fields spec)) \<Longrightarrow> Body_bytes (rq_body req) \<noteq> None"
      using spec(3) prepared_full_body [OF assms(1,2)] by auto
    ultimately show ?thesis using deserialize_input_answers [OF spec(2) _ path, of E] spec(4)
      by (cases path; cases "in_path spec") (auto simp: path)
  qed
qed

theorem deserialize_never_panics_witness:
  "\<forall>E. \<exists>req r req1. prepare plain_prep plain_service plain_put = Some (Inr (S3 ''PutObject''), req)
     \<and> deserialize_http E ''PutObject'' req = Some (r, req1) \<and> (\<forall>inp. r = Inr inp \<longrightarrow> map_of inp ''key'' = Some (Some (HvString ''k'')))"
proof -
  obtain req where p: "prepare plain_prep plain_service plain_put = Some (Inr (S3 ''PutObject''), req)"
    "ex_s3_path (rq_s3ext req) = Some (Object ''b'' ''k'')" using plain_prepared by blast
  have "limited_collect (env_collect (pe_sig plain_prep))"
    by (simp add: plain_prep_def plain_env_def collect_reference.limited_collect_axioms)
  moreover have "\<not> pe_minio plain_prep" by (simp add: plain_prep_def)
  ultimately show ?thesis using deserialize_never_panics [OF p(1)] p by fastforce
qed

end
