(* ===== verification/Spec2Isabelle.thy ===== *)
theory Spec2Isabelle
  imports Multipart_Properties Aws_Chunked_Properties Policy_Pattern S3_Host Http_Range Signature_Sound
    Signature_Dispatch Router_Names Prepare_Correct Prepare_Post Error_Codes Xml_Documents
    Op_Inputs_Total
begin

text \<open>
  A verification library for s3s, a framework for services that speak the S3 protocol: the part of the program between
  the HTTP stack and the operations of a storage backend.

  \<^bold>\<open>The program and its parts.\<close> A request enters \<^verbatim>\<open>crates/s3s/src/ops/mod.rs\<close>. It is given a host header if HTTP/2 carries
  the authority elsewhere, its host and path are parsed into a bucket and a key (\<^verbatim>\<open>host.rs\<close>, \<^verbatim>\<open>path.rs\<close>, \<^verbatim>\<open>validation.rs\<close>), its
  query is sorted (\<^verbatim>\<open>http/ordered_qs.rs\<close>), an operation is found for it (\<^verbatim>\<open>ops/generated/router.rs\<close>, \<^verbatim>\<open>oir.rs\<close>) and its
  signature is checked (\<^verbatim>\<open>ops/signature.rs\<close> with the crates \<^verbatim>\<open>s3s-sigv4\<close> and \<^verbatim>\<open>s3s-sigv2\<close>). The check may replace the body: by a stream
  that verifies the digest of the payload (\<^verbatim>\<open>stream/upload_stream.rs\<close>), by the decoder of signed chunks
  (\<^verbatim>\<open>stream/aws_chunked_stream.rs\<close>), or by the fields and the file of a posted form (\<^verbatim>\<open>http/multipart.rs\<close> on top of the crate
  \<^verbatim>\<open>s3s-multipart\<close>), which is then held against its policy document (\<^verbatim>\<open>post_policy.rs\<close>). Access is decided for the
  checked credentials, and the body is read into memory or limited (\<^verbatim>\<open>http/body.rs\<close>). The generated code of
  the operation then reads its input from the headers, the query, the path and the body (\<^verbatim>\<open>http/de.rs\<close>, \<^verbatim>\<open>xml/de.rs\<close>).

  \<^bold>\<open>Conventions.\<close> Bytes are characters, a byte string is a list of them. A struct is a record, an enum a datatype, an error a
  value of a sum (\<open>Inl\<close> is the error, \<open>'a s3_result\<close> that of the S3 error codes). An asynchronous source is the list of the
  answers that its polls will give, pending ones included, so that every way in which a transport can cut and delay
  the bytes is a value that the theorems quantify over. An awaited call is polled as often as its source can still answer:
  \<open>None\<close> stands for a call that does not return, and totality theorems show that it does not occur. Third-party
  crates are arguments: records of functions, with the documented behaviour that is relied on as a locale, each of them
  interpreted by a reference function, so that no hypothesis is empty. Positions and lengths that the code adds without a check or
  with saturation are kept at 64 bits.

  \<^bold>\<open>Theories.\<close>
  \<^item> \<open>Prelude\<close>: byte strings, polls, the search functions of \<^verbatim>\<open>memchr\<close> as the locale \<open>byte_search\<close>, generic lemmas.
  \<^item> \<open>Multipart_Delimiter\<close>, \<open>Multipart_Buffer\<close>, \<open>Multipart_Header\<close>, \<open>Multipart_Machine\<close>, \<open>Multipart_Streams\<close>: the crate \<^verbatim>\<open>s3s-multipart\<close>, one
    theory per source file or two. \<open>Multipart_Correct\<close> relates the readers to the whole input (locales \<open>stream_reader\<close>,
    \<open>buffer_fill\<close>, \<open>part_data_source\<close>), \<open>Multipart_Progress\<close> shows that awaiting them ends, and \<open>Multipart_Properties\<close> states what the
    crate promises: data streams yield exactly the bytes before the delimiter, however the transport cuts them.
  \<^item> \<open>Sigv4_Canonical\<close>, \<open>Sigv4_Correct\<close>, \<open>Sigv4_Parsers\<close>, \<open>Sigv2\<close>: canonical requests, strings to sign, signatures, and the parsers of the
    places that carry a signature; that a string to sign determines the request, and round trips of the parsers.
  \<^item> \<open>Aws_Chunked\<close>, \<open>Aws_Chunked_Correct\<close>, \<open>Aws_Chunked_Properties\<close>: the decoder of signed chunks; it is independent of the
    fragments, hands out only data whose signature continues the chain, and decodes a correct upload to its data.
  \<^item> \<open>Upload_Stream\<close>, \<open>Http_Body\<close>: the stream that checks a payload digest, request bodies with their limits.
  \<^item> \<open>Ordered_Qs\<close>, \<open>S3_Path\<close>, \<open>S3_Host\<close>, \<open>Http_Range\<close>, \<open>Policy_Pattern\<close>, \<open>S3_Config\<close>, \<open>S3_Error\<close>, \<open>Ip_Addr\<close>: the leaves of the request path, each
    with its round trips or the equivalence with a scan, a grammar or a set of positions.
  \<^item> \<open>Form_Fields\<close>, \<open>Form_Parser\<close>, \<open>File_Progress\<close>, \<open>Post_Policy\<close>: posted forms and their policies.
  \<^item> \<open>Signature_Check\<close>, with the inversions of \<open>Signature_Accepts\<close> and the examples of \<open>Signature_Example\<close>: the check in its six forms.
    \<open>Signature_Sound\<close> shows that an accepted header signature was made with the secret key over this very request and what it
    binds, \<open>Signature_Dispatch\<close> which requests are anonymous, presigned or refused.
  \<^item> \<open>Router\<close>, \<open>Router_Correct\<close>, \<open>Router_Names\<close>: the generated bit-mask router equals a readable routing table.
  \<^item> \<open>Prepare\<close>, \<open>Prepare_Steps\<close>, \<open>Prepare_Example\<close>, \<open>Prepare_Correct\<close>, \<open>Prepare_Body\<close>, \<open>Prepare_Post\<close>: the composition of all of these into
    the function that prepares a request, and the properties of the whole: no operation without a checked signature and a
    granted access, the right operation, bounded bodies, forms within their policy, and an answer for every request.
  \<^item> \<open>Error_Codes\<close>: the generated tables of \<^verbatim>\<open>error/generated.rs\<close>; that they agree with each other is computed by the kernel.
  \<^item> \<open>Etag\<close>: entity tags and the conditions on them.
  \<^item> \<open>Xml\<close>, \<open>Xml_Shape\<close>, \<open>Xml_Types\<close>: the XML deserializer (\<^verbatim>\<open>xml/de.rs\<close>) as a machine over the events of the tokenizer, the templates of the
    generated codecs, and each generated type (\<^verbatim>\<open>xml/generated.rs\<close>) as an instance of them. \<open>Xml_Tree\<close>, \<open>Xml_Correct\<close>, \<open>Xml_Roundtrip\<close> and
    \<open>Xml_Documents\<close> show that the machine computes a structural reader on the tree of the document (locale \<open>element_content\<close>, interpreted for texts,
    skipped elements and every shape) and that what is written is read back; \<open>Xml_Answers\<close> that every reader answers on any tokens.
  \<^item> \<open>Timestamp\<close>: the formats of times (\<^verbatim>\<open>dto/timestamp.rs\<close>), with the crate \<^verbatim>\<open>time\<close> as the locale \<open>time_crate\<close>; what a written time is read back as.
  \<^item> \<open>Rfc2047\<close>, \<open>Copy_Source\<close>: the encoded words of metadata (the crate \<^verbatim>\<open>s3s-rfc2047\<close>) and the header of copy sources (\<^verbatim>\<open>dto/copy_source.rs\<close>), with
    their round trips (locales \<open>base64_codec\<close>, \<open>url_codec\<close>).
  \<^item> \<open>Http_De\<close>, \<open>Op_Inputs\<close>, \<open>Op_Inputs_Total\<close>: the readers of \<^verbatim>\<open>http/de.rs\<close> and, for each operation, the table of those that its generated
    \<^verbatim>\<open>deserialize_http\<close> calls; a prepared request always has what they take for granted, so that they never panic.

  \<^bold>\<open>Fuel.\<close> Loops over a source take as fuel the number of answers and bytes that the source can still give (\<open>work\<close>, \<open>file_polls\<close> and
  their like); each successful step decreases it, which is what the progress lemmas show, so that running out of fuel is
  excluded rather than assumed away. The part loop of a form takes the configured number of parts, which must be below the
  largest 64-bit number for its saturating counter to stop it.

  \<^bold>\<open>Not modelled.\<close> The generated data types and trait methods (one per type and operation of the AWS model, without logic of their own); the
  writing of responses and the call of the backend; what the feature \<^verbatim>\<open>minio\<close> changes in the inputs; the tracing output and the texts of error messages; hot reloading
  of the configuration; the code generator; the bindings to the AWS SDK, to HTTP/3 and to WebAssembly; test harnesses and the sample
  proxy. Cryptography, base64, JSON, regular expressions, percent decoding, mime parsing and calendar arithmetic (the crate \<^verbatim>\<open>time\<close>, also for the
  expiration of policies) are parameters.
\<close>

end
